(* ===== verification/Prelude.thy ===== *)
theory Prelude
  imports Main "HOL-Library.Word"
begin

unbundle bit_operations_syntax

text \<open>
  Shared ground of the development: the C integer types, the rounding functions on natural
  numbers that the reference definitions use, powers of two and masks on machine words, and
  the named collections through which the component theories pass their facts to the
  simplifier.
\<close>

section \<open>C integer types\<close>

type_synonym u8 = "8 word"
type_synonym u16 = "16 word"
type_synonym u32 = "32 word"
type_synonym u64 = "64 word"

text \<open>
  \<open>align_simps\<close> collects the laws of the rounding functions; \<open>nowrap\<close> the lemmas that read a
  machine operation back as the operation on natural numbers when it does not wrap around.
\<close>

named_theorems align_simps
named_theorems nowrap

section \<open>Rounding on natural numbers\<close>

definition ceil_div :: "nat \<Rightarrow> nat \<Rightarrow> nat" where
  "ceil_div n a = (n + (a - 1)) div a"

definition align_up :: "nat \<Rightarrow> nat \<Rightarrow> nat" where
  "align_up n a = ceil_div n a * a"

lemma ceil_div_0 [simp]: "ceil_div 0 a = 0"
  by (cases a) (simp_all add: ceil_div_def)

lemma align_up_0 [simp]: "align_up 0 a = 0"
  by (simp add: align_up_def)

lemma dvd_align_up [simp]: "a dvd align_up n a"
  by (simp add: align_up_def)

lemma le_align_up: "0 < a \<Longrightarrow> n \<le> align_up n a"
proof -
  assume a: "0 < a"
  have "(n + (a - 1)) mod a < a"
    using a by simp
  then have "n + (a - 1) < (n + (a - 1)) div a * a + a"
    using div_mult_mod_eq [of "n + (a - 1)" a] by linarith
  then show ?thesis
    by (simp add: align_up_def ceil_div_def)
qed

lemma align_up_less: "0 < a \<Longrightarrow> align_up n a < n + a"
  using div_times_less_eq_dividend [of "n + (a - 1)" a]
  unfolding align_up_def ceil_div_def by linarith

lemma align_up_least:
  assumes "n \<le> m" and "a dvd m"
  shows "align_up n a \<le> m"
proof (cases "a = 0")
  case True
  then show ?thesis by (simp add: align_up_def)
next
  case False
  obtain k where k: "m = k * a"
    using assms(2) by (auto simp: dvd_def mult.commute)
  have "n + (a - 1) < (k + 1) * a"
    using assms(1) False k by simp
  then have "ceil_div n a < k + 1"
    using False by (simp add: ceil_div_def less_mult_imp_div_less)
  then show ?thesis
    by (simp add: align_up_def k)
qed

lemma align_up_id [simp]: "0 < a \<Longrightarrow> a dvd n \<Longrightarrow> align_up n a = n"
  by (simp add: align_up_least le_align_up order_antisym)

lemma ceil_div_mono: "n \<le> m \<Longrightarrow> ceil_div n a \<le> ceil_div m a"
  by (simp add: ceil_div_def div_le_mono)

lemma align_up_mono: "n \<le> m \<Longrightarrow> align_up n a \<le> align_up m a"
  by (simp add: align_up_def ceil_div_mono)

lemma align_up_le_bound: "n \<le> b \<Longrightarrow> a dvd b \<Longrightarrow> align_up n a \<le> b"
  by (rule align_up_least)

lemma align_up_double:
  assumes "n \<le> 2 * m" and "0 < a"
  shows "align_up n a \<le> 2 * align_up m a"
  using assms le_align_up [of a m] by (intro align_up_least) auto

lemma ceil_div_double:
  assumes "n \<le> 2 * m" and "0 < a"
  shows "ceil_div n a \<le> 2 * ceil_div m a"
  using align_up_double [OF assms] assms(2) by (simp add: align_up_def)

lemma le_ceil_div_mult: "0 < a \<Longrightarrow> n \<le> ceil_div n a * a"
  using le_align_up by (simp add: align_up_def)

lemma ceil_div_le: "0 < a \<Longrightarrow> ceil_div n a \<le> n"
proof -
  assume a: "0 < a"
  have "n + (a - 1) < (n + 1) * a"
    using a by (cases a) auto
  then have "ceil_div n a < n + 1"
    unfolding ceil_div_def by (rule less_mult_imp_div_less)
  then show ?thesis by simp
qed

lemma ceil_div_half: "(n + 1) div 2 = ceil_div n 2"
  by (simp add: ceil_div_def)

lemma ceil_div_le_bound: "n \<le> k * a \<Longrightarrow> 0 < a \<Longrightarrow> ceil_div n a \<le> k"
  using align_up_least [of n "k * a" a] by (simp add: align_up_def)

section \<open>Powers of two\<close>

lemma odd_part_decomp: "0 < n \<Longrightarrow> \<exists>k m. n = 2 ^ k * (2 * m + (1::nat))"
proof (induction n rule: less_induct)
  case (less n)
  show ?case
  proof (cases "even n")
    case True
    with less.prems have "n div 2 < n" and "0 < n div 2"
      by auto
    with less.IH obtain k m where "n div 2 = 2 ^ k * (2 * m + 1)"
      by blast
    with True have "n = 2 ^ Suc k * (2 * m + 1)"
      by auto
    then show ?thesis by blast
  next
    case False
    then have "n = 2 ^ 0 * (2 * (n div 2) + 1)"
      by simp
    then show ?thesis by blast
  qed
qed

lemma and_pred_0_imp_power2:
  fixes n :: nat
  assumes "0 < n" and "n AND (n - 1) = 0"
  shows "\<exists>k. n = 2 ^ k"
proof -
  obtain k m where n: "n = 2 ^ k * (2 * m + 1)"
    using odd_part_decomp [OF assms(1)] by blast
  have hi: "drop_bit (Suc k) n = m"
    by (simp add: n drop_bit_eq_div algebra_simps)
  have "n - 1 = (2 ^ k - 1) + 2 ^ Suc k * m"
    by (simp add: n algebra_simps)
  moreover have "(2 ^ k - 1) div 2 ^ Suc k = (0::nat)"
    by (rule div_less) (simp add: less_imp_diff_less)
  ultimately have "drop_bit (Suc k) (n - 1) = m"
    unfolding drop_bit_eq_div
    by (metis add.right_neutral add.commute div_mult_self2 power_not_zero zero_neq_numeral)
  with hi have "drop_bit (Suc k) (n AND (n - 1)) = m"
    by (simp only: drop_bit_and and.idem)
  with assms(2) n show ?thesis
    by auto
qed

lemma power2_and_pred: "2 ^ k AND (2 ^ k - 1) = (0::nat)"
  unfolding mask_eq_exp_minus_1 [symmetric] by (rule bit_eqI) (auto simp: bit_simps)

lemma and_not_mask_nat:
  fixes x :: "'a::len word"
  assumes "k < LENGTH('a)"
  shows "unat (x AND NOT (2 ^ k - 1)) = unat x div 2 ^ k * 2 ^ k"
proof -
  have "x AND NOT (2 ^ k - 1) = push_bit k (drop_bit k x)"
    by (rule bit_word_eqI) (auto simp: bit_simps mask_eq_exp_minus_1 [symmetric])
  moreover have "unat (push_bit k (drop_bit k x)) = take_bit LENGTH('a) (push_bit k (drop_bit k (unat x)))"
    by (simp add: unsigned_push_bit_eq unsigned_drop_bit_eq take_bit_nat_eq_self)
  moreover have "push_bit k (drop_bit k (unat x)) < 2 ^ LENGTH('a)"
    unfolding push_bit_eq_mult drop_bit_eq_div
    by (rule le_less_trans [OF div_times_less_eq_dividend]) simp
  ultimately show ?thesis
    by (simp add: push_bit_eq_mult drop_bit_eq_div take_bit_nat_eq_self)
qed

section \<open>Packed fields\<close>

lemma unat_push_bit_nowrap:
  fixes x :: "'a::len word"
  assumes "unat x * 2 ^ k < 2 ^ LENGTH('a)"
  shows "unat (push_bit k x) = unat x * 2 ^ k"
proof -
  have "unat (push_bit k x) = take_bit LENGTH('a) (push_bit k (unat x))"
    by (simp only: unsigned_push_bit_eq)
  then show ?thesis
    using assms by (simp add: push_bit_eq_mult [where 'a = nat] take_bit_nat_eq_self)
qed

lemma or_is_plus:
  fixes x y :: "'a::len word"
  assumes "unat y < 2 ^ k" and "unat x * 2 ^ k < 2 ^ LENGTH('a)"
  shows "unat (push_bit k x OR y) = unat x * 2 ^ k + unat y"
proof -
  have "unat (push_bit k x OR y) = push_bit k (unat x) OR unat y"
    using assms(2)
    by (simp only: unsigned_or_eq unat_push_bit_nowrap push_bit_eq_mult [where 'a = nat])
  also have "\<dots> = push_bit k (unat x) + unat y"
  proof (rule disjunctive_add_eq_or [symmetric], rule bit_eqI)
    fix i
    have "take_bit k (unat y) = unat y"
      using assms(1) by (simp add: take_bit_nat_eq_self)
    then show "bit (push_bit k (unat x) AND unat y) i = bit (0::nat) i"
      using bit_take_bit_iff [of k "unat y" i] by (auto simp: bit_simps)
  qed
  finally show ?thesis by (simp add: push_bit_eq_mult)
qed


lemma unat_ucast_up:
  fixes x :: "'a::len word"
  assumes "LENGTH('a) \<le> LENGTH('b::len)"
  shows "unat (ucast x :: 'b word) = unat x"
proof -
  have "(2::nat) ^ LENGTH('a) \<le> 2 ^ LENGTH('b)"
    using assms by (intro power_increasing) simp_all
  then have "unat x < 2 ^ LENGTH('b)"
    using unsigned_less [of x, where 'a = nat] by linarith
  then show ?thesis
    by (simp add: unsigned_ucast_eq take_bit_nat_eq_self)
qed

lemma unat_field:
  fixes v :: "'a::len word"
  shows "unat (drop_bit k v AND mask n) = unat v div 2 ^ k mod 2 ^ n"
proof -
  have "unat (drop_bit k v AND mask n) = take_bit n (drop_bit k (unat v))"
    by (simp only: unsigned_take_bit_eq unat_drop_bit_eq flip: take_bit_eq_mask)
  then show ?thesis by (simp add: take_bit_eq_mod drop_bit_eq_div)
qed

section \<open>Machine arithmetic without wrap-around\<close>

lemma unat_add_nowrap [nowrap]:
  fixes a b :: "'a::len word"
  shows "unat a + unat b < 2 ^ LENGTH('a) \<Longrightarrow> unat (a + b) = unat a + unat b"
  by (simp add: unat_word_ariths)

lemma unat_mult_nowrap [nowrap]:
  fixes a b :: "'a::len word"
  shows "unat a * unat b < 2 ^ LENGTH('a) \<Longrightarrow> unat (a * b) = unat a * unat b"
  by (simp add: unat_word_ariths)

lemma unat_pred [nowrap]:
  fixes a :: "'a::len word"
  shows "0 < a \<Longrightarrow> unat (a - 1) = unat a - 1"
  by (simp add: unat_minus_one)

lemma unat_u32_less: "unat (x :: u32) < 4294967296"
  using unsigned_less [of x, where ?'a = nat] by simp

lemma unat_u64_less: "unat (x :: u64) < 18446744073709551616"
  using unsigned_less [of x, where ?'a = nat] by simp

lemma take_bit_u64_id: "unat (v :: u64) < 2 ^ n \<Longrightarrow> take_bit n v = v"
  by (simp add: word_unat_eq_iff unsigned_take_bit_eq take_bit_nat_eq_self)

section \<open>Inductive invariants\<close>

text \<open>
  The contract between a step relation and a state predicate it preserves, and what the client
  gets from it: the predicate holds along every run that starts in it.
\<close>

locale inductive_invariant =
  fixes step :: "'s \<Rightarrow> 's \<Rightarrow> bool" and inv :: "'s \<Rightarrow> bool"
  assumes step_inv: "step s t \<Longrightarrow> inv s \<Longrightarrow> inv t"
begin

lemma run_inv: "step\<^sup>*\<^sup>* s t \<Longrightarrow> inv s \<Longrightarrow> inv t"
  by (induction rule: rtranclp_induct) (auto intro: step_inv)

end

text \<open>
  Refinement of a step relation: under the invariant every concrete step is an abstract step of the
  abstracted states, or is invisible.
\<close>

locale simulation = inductive_invariant step inv
  for step :: "'s \<Rightarrow> 's \<Rightarrow> bool" and inv :: "'s \<Rightarrow> bool" +
  fixes abs_step :: "'a \<Rightarrow> 'a \<Rightarrow> bool" and abstr :: "'s \<Rightarrow> 'a"
  assumes simulates: "step s t \<Longrightarrow> inv s \<Longrightarrow> abs_step (abstr s) (abstr t) \<or> abstr t = abstr s"
begin

lemma run_simulates: "step\<^sup>*\<^sup>* s t \<Longrightarrow> inv s \<Longrightarrow> abs_step\<^sup>*\<^sup>* (abstr s) (abstr t)"
proof (induction rule: rtranclp_induct)
  case (step t u)
  have "inv t" using run_inv [OF step.hyps(1) step.prems] .
  then show ?case
    using simulates [OF step.hyps(2)] step.IH [OF step.prems]
    by (auto intro: rtranclp.rtrancl_into_rtrancl)
qed simp

lemma run_abs_inv:
  assumes "inductive_invariant abs_step I" and "step\<^sup>*\<^sup>* s t" and "inv s" and "I (abstr s)"
  shows "I (abstr t)"
  using inductive_invariant.run_inv [OF assms(1) run_simulates [OF assms(2,3)] assms(4)] .

end

section \<open>Masks that share a word\<close>

fun disjoint_masks :: "'a::len word list \<Rightarrow> bool" where
  "disjoint_masks [] = True"
| "disjoint_masks (m # ms) = (list_all (\<lambda>n. and m n = 0) ms \<and> disjoint_masks ms)"

lemma disjoint_masks_nth:
  "disjoint_masks ms \<Longrightarrow> i < j \<Longrightarrow> j < length ms \<Longrightarrow> and (ms ! i) (ms ! j) = 0"
proof (induction ms arbitrary: i j)
  case (Cons m ms)
  obtain k where k: "j = Suc k" using Cons.prems by (cases j) auto
  show ?case
    using Cons k by (cases i) (auto simp: list_all_length)
qed simp

lemma disjoint_masks_apart:
  "disjoint_masks ms \<Longrightarrow> i < length ms \<Longrightarrow> j < length ms \<Longrightarrow> i \<noteq> j \<Longrightarrow> and (ms ! i) (ms ! j) = 0"
  using disjoint_masks_nth [of ms i j] disjoint_masks_nth [of ms j i]
  by (cases "i < j") (simp_all add: and.commute)

section \<open>Enumerations\<close>

text \<open>
  The constants of a C enumeration with their values: a run of names from a first value, and the
  value of a named constant.
\<close>

definition enum_run :: "nat \<Rightarrow> string list \<Rightarrow> (string \<times> nat) list" where
  "enum_run n xs = zip xs [n..<n + length xs]"

definition enum_val :: "(string \<times> nat) list \<Rightarrow> string \<Rightarrow> nat" where
  "enum_val tbl x = (case map_of tbl x of Some v \<Rightarrow> v | None \<Rightarrow> 0)"

end
