(* ===== verification/Color_Fmt.thy ===== *)
theory Color_Fmt
  imports Prelude
begin

unbundle bit_operations_syntax

text \<open>
  The video and display buffer geometry of \<^verbatim>\<open>include/display/media/mmm_color_fmt.h\<close>: strides,
  scanlines, UBWC metadata planes and total buffer sizes, in 32-bit unsigned arithmetic as the
  header computes them.  The header's \<open>int\<close> intermediates of the metadata functions hold
  values below \<open>2 ^ 31\<close> (they come out of a division by a tile size of at least 4 of a 32-bit
  value, see \<open>ROUNDUP_fits_int\<close>), so their arithmetic is that of \<^typ>\<open>u32\<close>.

  The second half states the geometry on natural numbers (\<open>y_stride_spec\<close>, \dots,
  \<open>buffer_size_spec\<close>) and proves that the 32-bit code computes it for frames up to
  16384 x 16384.
\<close>

section \<open>Constants, macros and the format enumeration\<close>

definition INTERLACE_WIDTH_MAX :: u32 where
  "INTERLACE_WIDTH_MAX = 1920"

definition INTERLACE_HEIGHT_MAX :: u32 where
  "INTERLACE_HEIGHT_MAX = 1920"

definition INTERLACE_MB_PER_FRAME_MAX :: u32 where
  "INTERLACE_MB_PER_FRAME_MAX = (1920 * 1088) div 256"

definition MMM_COLOR_FMT_ALIGN :: "u32 \<Rightarrow> u32 \<Rightarrow> u32" where
  "MMM_COLOR_FMT_ALIGN sz algn =
     (if algn AND (algn - 1) \<noteq> 0
      then ((sz + algn - 1) div algn) * algn
      else (sz + algn - 1) AND NOT (algn - 1))"

definition MMM_COLOR_FMT_ROUNDUP :: "u32 \<Rightarrow> u32 \<Rightarrow> u32" where
  "MMM_COLOR_FMT_ROUNDUP sz r = (sz + (r - 1)) div r"

datatype mmm_color_fmts =
    MMM_COLOR_FMT_NV12
  | MMM_COLOR_FMT_NV21
  | MMM_COLOR_FMT_NV12_UBWC
  | MMM_COLOR_FMT_NV12_BPP10_UBWC
  | MMM_COLOR_FMT_RGBA8888
  | MMM_COLOR_FMT_RGBA8888_UBWC
  | MMM_COLOR_FMT_RGBA1010102_UBWC
  | MMM_COLOR_FMT_RGB565_UBWC
  | MMM_COLOR_FMT_P010_UBWC
  | MMM_COLOR_FMT_P010
  | MMM_COLOR_FMT_P010_512
  | MMM_COLOR_FMT_NV12_512
  | MMM_COLOR_FMT_RGBA16161616F_UBWC

text \<open>The enumerators have no initialisers, so they count from 0 in the order of declaration.\<close>

primrec fmt_code :: "mmm_color_fmts \<Rightarrow> u32" where
  "fmt_code MMM_COLOR_FMT_NV12 = 0"
| "fmt_code MMM_COLOR_FMT_NV21 = 1"
| "fmt_code MMM_COLOR_FMT_NV12_UBWC = 2"
| "fmt_code MMM_COLOR_FMT_NV12_BPP10_UBWC = 3"
| "fmt_code MMM_COLOR_FMT_RGBA8888 = 4"
| "fmt_code MMM_COLOR_FMT_RGBA8888_UBWC = 5"
| "fmt_code MMM_COLOR_FMT_RGBA1010102_UBWC = 6"
| "fmt_code MMM_COLOR_FMT_RGB565_UBWC = 7"
| "fmt_code MMM_COLOR_FMT_P010_UBWC = 8"
| "fmt_code MMM_COLOR_FMT_P010 = 9"
| "fmt_code MMM_COLOR_FMT_P010_512 = 10"
| "fmt_code MMM_COLOR_FMT_NV12_512 = 11"
| "fmt_code MMM_COLOR_FMT_RGBA16161616F_UBWC = 12"

declare fmt_code.simps [simp del]

text \<open>\<open>is_fmt c fs\<close>: the \<^verbatim>\<open>switch\<close> on \<open>c\<close> takes the branch with the case labels \<open>fs\<close>.\<close>

definition is_fmt :: "u32 \<Rightarrow> mmm_color_fmts list \<Rightarrow> bool" where
  "is_fmt c fs \<longleftrightarrow> (\<exists>f\<in>set fs. c = fmt_code f)"

section \<open>Strides and scanlines\<close>

definition MMM_COLOR_FMT_Y_STRIDE :: "u32 \<Rightarrow> u32 \<Rightarrow> u32" where
  "MMM_COLOR_FMT_Y_STRIDE color_fmt width =
     (if width = 0 then 0
      else if is_fmt color_fmt [MMM_COLOR_FMT_NV12_512]
      then MMM_COLOR_FMT_ALIGN width 512
      else if is_fmt color_fmt [MMM_COLOR_FMT_NV12, MMM_COLOR_FMT_NV21, MMM_COLOR_FMT_NV12_UBWC]
      then MMM_COLOR_FMT_ALIGN width 128
      else if is_fmt color_fmt [MMM_COLOR_FMT_NV12_BPP10_UBWC]
      then (let stride = MMM_COLOR_FMT_ALIGN width 192
            in MMM_COLOR_FMT_ALIGN (stride * 4 div 3) 256)
      else if is_fmt color_fmt [MMM_COLOR_FMT_P010_UBWC, MMM_COLOR_FMT_P010]
      then MMM_COLOR_FMT_ALIGN (width * 2) 256
      else if is_fmt color_fmt [MMM_COLOR_FMT_P010_512]
      then MMM_COLOR_FMT_ALIGN (width * 2) 512
      else 0)"

definition MMM_COLOR_FMT_UV_STRIDE :: "u32 \<Rightarrow> u32 \<Rightarrow> u32" where
  "MMM_COLOR_FMT_UV_STRIDE color_fmt width =
     (if width = 0 then 0
      else if is_fmt color_fmt [MMM_COLOR_FMT_NV12_512]
      then MMM_COLOR_FMT_ALIGN width 512
      else if is_fmt color_fmt [MMM_COLOR_FMT_NV12, MMM_COLOR_FMT_NV21, MMM_COLOR_FMT_NV12_UBWC]
      then MMM_COLOR_FMT_ALIGN width 128
      else if is_fmt color_fmt [MMM_COLOR_FMT_NV12_BPP10_UBWC]
      then (let stride = MMM_COLOR_FMT_ALIGN width 192
            in MMM_COLOR_FMT_ALIGN (stride * 4 div 3) 256)
      else if is_fmt color_fmt [MMM_COLOR_FMT_P010_UBWC, MMM_COLOR_FMT_P010]
      then MMM_COLOR_FMT_ALIGN (width * 2) 256
      else if is_fmt color_fmt [MMM_COLOR_FMT_P010_512]
      then MMM_COLOR_FMT_ALIGN (width * 2) 512
      else 0)"

definition MMM_COLOR_FMT_Y_SCANLINES :: "u32 \<Rightarrow> u32 \<Rightarrow> u32" where
  "MMM_COLOR_FMT_Y_SCANLINES color_fmt height =
     (if height = 0 then 0
      else if is_fmt color_fmt [MMM_COLOR_FMT_NV12_512]
      then MMM_COLOR_FMT_ALIGN height 512
      else if is_fmt color_fmt [MMM_COLOR_FMT_NV12, MMM_COLOR_FMT_NV21, MMM_COLOR_FMT_NV12_UBWC,
             MMM_COLOR_FMT_P010_512, MMM_COLOR_FMT_P010]
      then MMM_COLOR_FMT_ALIGN height 32
      else if is_fmt color_fmt [MMM_COLOR_FMT_NV12_BPP10_UBWC, MMM_COLOR_FMT_P010_UBWC]
      then MMM_COLOR_FMT_ALIGN height 16
      else 0)"

definition MMM_COLOR_FMT_UV_SCANLINES :: "u32 \<Rightarrow> u32 \<Rightarrow> u32" where
  "MMM_COLOR_FMT_UV_SCANLINES color_fmt height =
     (if height = 0 then 0
      else if is_fmt color_fmt [MMM_COLOR_FMT_NV12_512]
      then MMM_COLOR_FMT_ALIGN (drop_bit 1 (height + 1)) 256
      else if is_fmt color_fmt [MMM_COLOR_FMT_NV12, MMM_COLOR_FMT_NV21,
             MMM_COLOR_FMT_NV12_BPP10_UBWC, MMM_COLOR_FMT_P010_UBWC, MMM_COLOR_FMT_P010_512,
             MMM_COLOR_FMT_P010]
      then MMM_COLOR_FMT_ALIGN (drop_bit 1 (height + 1)) 16
      else if is_fmt color_fmt [MMM_COLOR_FMT_NV12_UBWC]
      then MMM_COLOR_FMT_ALIGN (drop_bit 1 (height + 1)) 32
      else 0)"

definition MMM_COLOR_FMT_RGB_STRIDE :: "u32 \<Rightarrow> u32 \<Rightarrow> u32" where
  "MMM_COLOR_FMT_RGB_STRIDE color_fmt width =
     (if width = 0 then 0
      else if is_fmt color_fmt [MMM_COLOR_FMT_RGBA8888]
      then MMM_COLOR_FMT_ALIGN (width * 4) 256
      else if is_fmt color_fmt [MMM_COLOR_FMT_RGB565_UBWC]
      then MMM_COLOR_FMT_ALIGN (width * 2) 256
      else if is_fmt color_fmt [MMM_COLOR_FMT_RGBA8888_UBWC, MMM_COLOR_FMT_RGBA1010102_UBWC]
      then MMM_COLOR_FMT_ALIGN (width * 4) 256
      else if is_fmt color_fmt [MMM_COLOR_FMT_RGBA16161616F_UBWC]
      then MMM_COLOR_FMT_ALIGN (width * 8) 256
      else 0)"

definition MMM_COLOR_FMT_RGB_SCANLINES :: "u32 \<Rightarrow> u32 \<Rightarrow> u32" where
  "MMM_COLOR_FMT_RGB_SCANLINES color_fmt height =
     (if height = 0 then 0
      else if is_fmt color_fmt [MMM_COLOR_FMT_RGBA8888]
      then MMM_COLOR_FMT_ALIGN height 32
      else if is_fmt color_fmt [MMM_COLOR_FMT_RGBA8888_UBWC, MMM_COLOR_FMT_RGBA1010102_UBWC,
             MMM_COLOR_FMT_RGB565_UBWC, MMM_COLOR_FMT_RGBA16161616F_UBWC]
      then MMM_COLOR_FMT_ALIGN height 16
      else 0)"

section \<open>UBWC metadata planes\<close>

definition MMM_COLOR_FMT_Y_META_STRIDE :: "u32 \<Rightarrow> u32 \<Rightarrow> u32" where
  "MMM_COLOR_FMT_Y_META_STRIDE color_fmt width =
     (if width = 0 then 0
      else if is_fmt color_fmt [MMM_COLOR_FMT_NV12_UBWC, MMM_COLOR_FMT_P010_UBWC]
      then MMM_COLOR_FMT_ALIGN (MMM_COLOR_FMT_ROUNDUP width 32) 64
      else if is_fmt color_fmt [MMM_COLOR_FMT_NV12_BPP10_UBWC]
      then MMM_COLOR_FMT_ALIGN (MMM_COLOR_FMT_ROUNDUP width 48) 64
      else 0)"

definition MMM_COLOR_FMT_Y_META_SCANLINES :: "u32 \<Rightarrow> u32 \<Rightarrow> u32" where
  "MMM_COLOR_FMT_Y_META_SCANLINES color_fmt height =
     (if height = 0 then 0
      else if is_fmt color_fmt [MMM_COLOR_FMT_NV12_UBWC]
      then MMM_COLOR_FMT_ALIGN (MMM_COLOR_FMT_ROUNDUP height 8) 16
      else if is_fmt color_fmt [MMM_COLOR_FMT_NV12_BPP10_UBWC, MMM_COLOR_FMT_P010_UBWC]
      then MMM_COLOR_FMT_ALIGN (MMM_COLOR_FMT_ROUNDUP height 4) 16
      else 0)"

definition MMM_COLOR_FMT_UV_META_STRIDE :: "u32 \<Rightarrow> u32 \<Rightarrow> u32" where
  "MMM_COLOR_FMT_UV_META_STRIDE color_fmt width =
     (if width = 0 then 0
      else if is_fmt color_fmt [MMM_COLOR_FMT_NV12_UBWC, MMM_COLOR_FMT_P010_UBWC]
      then MMM_COLOR_FMT_ALIGN (MMM_COLOR_FMT_ROUNDUP (drop_bit 1 (width + 1)) 16) 64
      else if is_fmt color_fmt [MMM_COLOR_FMT_NV12_BPP10_UBWC]
      then MMM_COLOR_FMT_ALIGN (MMM_COLOR_FMT_ROUNDUP (drop_bit 1 (width + 1)) 24) 64
      else 0)"

definition MMM_COLOR_FMT_UV_META_SCANLINES :: "u32 \<Rightarrow> u32 \<Rightarrow> u32" where
  "MMM_COLOR_FMT_UV_META_SCANLINES color_fmt height =
     (if height = 0 then 0
      else if is_fmt color_fmt [MMM_COLOR_FMT_NV12_UBWC]
      then MMM_COLOR_FMT_ALIGN (MMM_COLOR_FMT_ROUNDUP (drop_bit 1 (height + 1)) 8) 16
      else if is_fmt color_fmt [MMM_COLOR_FMT_NV12_BPP10_UBWC, MMM_COLOR_FMT_P010_UBWC]
      then MMM_COLOR_FMT_ALIGN (MMM_COLOR_FMT_ROUNDUP (drop_bit 1 (height + 1)) 4) 16
      else 0)"

definition MMM_COLOR_FMT_RGB_META_STRIDE :: "u32 \<Rightarrow> u32 \<Rightarrow> u32" where
  "MMM_COLOR_FMT_RGB_META_STRIDE color_fmt width =
     (if width = 0 then 0
      else if is_fmt color_fmt [MMM_COLOR_FMT_RGBA8888_UBWC, MMM_COLOR_FMT_RGBA1010102_UBWC,
             MMM_COLOR_FMT_RGB565_UBWC]
      then MMM_COLOR_FMT_ALIGN (MMM_COLOR_FMT_ROUNDUP width 16) 64
      else if is_fmt color_fmt [MMM_COLOR_FMT_RGBA16161616F_UBWC]
      then MMM_COLOR_FMT_ALIGN (MMM_COLOR_FMT_ROUNDUP width 8) 64
      else 0)"

definition MMM_COLOR_FMT_RGB_META_SCANLINES :: "u32 \<Rightarrow> u32 \<Rightarrow> u32" where
  "MMM_COLOR_FMT_RGB_META_SCANLINES color_fmt height =
     (if height = 0 then 0
      else if is_fmt color_fmt [MMM_COLOR_FMT_RGBA8888_UBWC, MMM_COLOR_FMT_RGBA1010102_UBWC,
             MMM_COLOR_FMT_RGB565_UBWC, MMM_COLOR_FMT_RGBA16161616F_UBWC]
      then MMM_COLOR_FMT_ALIGN (MMM_COLOR_FMT_ROUNDUP height 4) 16
      else 0)"

section \<open>Buffer sizes\<close>

definition interlace_capable :: "u32 \<Rightarrow> u32 \<Rightarrow> bool" where
  "interlace_capable width height \<longleftrightarrow>
     width \<le> INTERLACE_WIDTH_MAX \<and> height \<le> INTERLACE_HEIGHT_MAX \<and>
     (height * width) div 256 \<le> INTERLACE_MB_PER_FRAME_MAX"

text \<open>
  The four planes of a compressed YUV frame, each aligned to 4096, for a given number of
  luma lines; the header spells this sum out in every UBWC branch.
\<close>

definition yuv_ubwc_planes :: "u32 \<Rightarrow> u32 \<Rightarrow> u32 \<Rightarrow> u32" where
  "yuv_ubwc_planes color_fmt width height =
     (let y_stride = MMM_COLOR_FMT_Y_STRIDE color_fmt width;
          uv_stride = MMM_COLOR_FMT_UV_STRIDE color_fmt width;
          y_meta_stride = MMM_COLOR_FMT_Y_META_STRIDE color_fmt width;
          uv_meta_stride = MMM_COLOR_FMT_UV_META_STRIDE color_fmt width;
          y_sclines = MMM_COLOR_FMT_Y_SCANLINES color_fmt height;
          y_ubwc_plane = MMM_COLOR_FMT_ALIGN (y_stride * y_sclines) 4096;
          uv_sclines = MMM_COLOR_FMT_UV_SCANLINES color_fmt height;
          uv_ubwc_plane = MMM_COLOR_FMT_ALIGN (uv_stride * uv_sclines) 4096;
          y_meta_scanlines = MMM_COLOR_FMT_Y_META_SCANLINES color_fmt height;
          y_meta_plane = MMM_COLOR_FMT_ALIGN (y_meta_stride * y_meta_scanlines) 4096;
          uv_meta_scanlines = MMM_COLOR_FMT_UV_META_SCANLINES color_fmt height;
          uv_meta_plane = MMM_COLOR_FMT_ALIGN (uv_meta_stride * uv_meta_scanlines) 4096
      in y_ubwc_plane + uv_ubwc_plane + y_meta_plane + uv_meta_plane)"

definition MMM_COLOR_FMT_BUFFER_SIZE :: "u32 \<Rightarrow> u32 \<Rightarrow> u32 \<Rightarrow> u32" where
  "MMM_COLOR_FMT_BUFFER_SIZE color_fmt width height =
     (let y_stride = MMM_COLOR_FMT_Y_STRIDE color_fmt width;
          uv_stride = MMM_COLOR_FMT_UV_STRIDE color_fmt width;
          y_sclines = MMM_COLOR_FMT_Y_SCANLINES color_fmt height;
          uv_sclines = MMM_COLOR_FMT_UV_SCANLINES color_fmt height;
          rgb_stride = MMM_COLOR_FMT_RGB_STRIDE color_fmt width;
          rgb_scanlines = MMM_COLOR_FMT_RGB_SCANLINES color_fmt height;
          size =
            (if width = 0 \<or> height = 0 then 0
             else if is_fmt color_fmt [MMM_COLOR_FMT_NV21, MMM_COLOR_FMT_NV12,
                    MMM_COLOR_FMT_P010_512, MMM_COLOR_FMT_P010, MMM_COLOR_FMT_NV12_512]
             then y_stride * y_sclines + uv_stride * uv_sclines
             else if is_fmt color_fmt [MMM_COLOR_FMT_NV12_UBWC]
             then (if interlace_capable width height
                   then yuv_ubwc_planes color_fmt width (drop_bit 1 (height + 1)) * 2
                   else yuv_ubwc_planes color_fmt width height)
             else if is_fmt color_fmt [MMM_COLOR_FMT_NV12_BPP10_UBWC]
             then yuv_ubwc_planes color_fmt width height
             else if is_fmt color_fmt [MMM_COLOR_FMT_P010_UBWC]
             then yuv_ubwc_planes color_fmt width height
             else if is_fmt color_fmt [MMM_COLOR_FMT_RGBA8888]
             then MMM_COLOR_FMT_ALIGN (rgb_stride * rgb_scanlines) 4096
             else if is_fmt color_fmt [MMM_COLOR_FMT_RGBA8888_UBWC,
                    MMM_COLOR_FMT_RGBA1010102_UBWC, MMM_COLOR_FMT_RGB565_UBWC,
                    MMM_COLOR_FMT_RGBA16161616F_UBWC]
             then (let rgb_ubwc_plane = MMM_COLOR_FMT_ALIGN (rgb_stride * rgb_scanlines) 4096;
                       rgb_meta_stride = MMM_COLOR_FMT_RGB_META_STRIDE color_fmt width;
                       rgb_meta_scanlines = MMM_COLOR_FMT_RGB_META_SCANLINES color_fmt height;
                       rgb_meta_plane =
                         MMM_COLOR_FMT_ALIGN (rgb_meta_stride * rgb_meta_scanlines) 4096
                   in rgb_ubwc_plane + rgb_meta_plane)
             else 0)
      in MMM_COLOR_FMT_ALIGN size 4096)"

definition MMM_COLOR_FMT_BUFFER_SIZE_USED :: "u32 \<Rightarrow> u32 \<Rightarrow> u32 \<Rightarrow> u32 \<Rightarrow> u32" where
  "MMM_COLOR_FMT_BUFFER_SIZE_USED color_fmt width height interlace =
     (if width = 0 \<or> height = 0 then 0
      else if interlace = 0 \<and> color_fmt = fmt_code MMM_COLOR_FMT_NV12_UBWC
      then MMM_COLOR_FMT_ALIGN (yuv_ubwc_planes color_fmt width height) 4096
      else MMM_COLOR_FMT_BUFFER_SIZE color_fmt width height)"

section \<open>The geometry on natural numbers\<close>

text \<open>
  The plane geometry that the functions are meant to compute, on unbounded numbers: strides and lines
  aligned upwards, tiles counted with their remainder, planes added up. Where the comments of the
  enumeration state another number (half heights rounded down, the luma lines of
  \<open>NV12_BPP10_UBWC\<close> aligned to 32, chroma metadata of the full width and height) these definitions
  follow the code; \<open>Color_Limits\<close> compares the sizes with the comments.
\<close>

fun y_stride_spec :: "mmm_color_fmts \<Rightarrow> nat \<Rightarrow> nat" where
  "y_stride_spec MMM_COLOR_FMT_NV12 w = align_up w 128"
| "y_stride_spec MMM_COLOR_FMT_NV21 w = align_up w 128"
| "y_stride_spec MMM_COLOR_FMT_NV12_UBWC w = align_up w 128"
| "y_stride_spec MMM_COLOR_FMT_NV12_BPP10_UBWC w = align_up (w * 4 div 3) 256"
| "y_stride_spec MMM_COLOR_FMT_P010_UBWC w = align_up (w * 2) 256"
| "y_stride_spec MMM_COLOR_FMT_P010 w = align_up (w * 2) 256"
| "y_stride_spec MMM_COLOR_FMT_P010_512 w = align_up (w * 2) 512"
| "y_stride_spec MMM_COLOR_FMT_NV12_512 w = align_up w 512"
| "y_stride_spec _ w = 0"

fun y_scanlines_spec :: "mmm_color_fmts \<Rightarrow> nat \<Rightarrow> nat" where
  "y_scanlines_spec MMM_COLOR_FMT_NV12 h = align_up h 32"
| "y_scanlines_spec MMM_COLOR_FMT_NV21 h = align_up h 32"
| "y_scanlines_spec MMM_COLOR_FMT_NV12_UBWC h = align_up h 32"
| "y_scanlines_spec MMM_COLOR_FMT_NV12_BPP10_UBWC h = align_up h 16"
| "y_scanlines_spec MMM_COLOR_FMT_P010_UBWC h = align_up h 16"
| "y_scanlines_spec MMM_COLOR_FMT_P010 h = align_up h 32"
| "y_scanlines_spec MMM_COLOR_FMT_P010_512 h = align_up h 32"
| "y_scanlines_spec MMM_COLOR_FMT_NV12_512 h = align_up h 512"
| "y_scanlines_spec _ h = 0"

fun uv_scanlines_spec :: "mmm_color_fmts \<Rightarrow> nat \<Rightarrow> nat" where
  "uv_scanlines_spec MMM_COLOR_FMT_NV12 h = align_up (ceil_div h 2) 16"
| "uv_scanlines_spec MMM_COLOR_FMT_NV21 h = align_up (ceil_div h 2) 16"
| "uv_scanlines_spec MMM_COLOR_FMT_NV12_UBWC h = align_up (ceil_div h 2) 32"
| "uv_scanlines_spec MMM_COLOR_FMT_NV12_BPP10_UBWC h = align_up (ceil_div h 2) 16"
| "uv_scanlines_spec MMM_COLOR_FMT_P010_UBWC h = align_up (ceil_div h 2) 16"
| "uv_scanlines_spec MMM_COLOR_FMT_P010 h = align_up (ceil_div h 2) 16"
| "uv_scanlines_spec MMM_COLOR_FMT_P010_512 h = align_up (ceil_div h 2) 16"
| "uv_scanlines_spec MMM_COLOR_FMT_NV12_512 h = align_up (ceil_div h 2) 256"
| "uv_scanlines_spec _ h = 0"

text \<open>Bytes per pixel of the packed formats; 0 for a format without an RGB plane.\<close>

fun rgb_bpp :: "mmm_color_fmts \<Rightarrow> nat" where
  "rgb_bpp MMM_COLOR_FMT_RGBA8888 = 4"
| "rgb_bpp MMM_COLOR_FMT_RGBA8888_UBWC = 4"
| "rgb_bpp MMM_COLOR_FMT_RGBA1010102_UBWC = 4"
| "rgb_bpp MMM_COLOR_FMT_RGB565_UBWC = 2"
| "rgb_bpp MMM_COLOR_FMT_RGBA16161616F_UBWC = 8"
| "rgb_bpp _ = 0"

definition rgb_stride_spec :: "mmm_color_fmts \<Rightarrow> nat \<Rightarrow> nat" where
  "rgb_stride_spec f w = align_up (w * rgb_bpp f) 256"

definition rgb_scanlines_spec :: "mmm_color_fmts \<Rightarrow> nat \<Rightarrow> nat" where
  "rgb_scanlines_spec f h =
     (if rgb_bpp f = 0 then 0
      else align_up h (if f = MMM_COLOR_FMT_RGBA8888 then 32 else 16))"

text \<open>Tile sizes (width, height) of the compressed planes, in samples of the plane.\<close>

fun y_tile :: "mmm_color_fmts \<Rightarrow> nat \<times> nat" where
  "y_tile MMM_COLOR_FMT_NV12_UBWC = (32, 8)"
| "y_tile MMM_COLOR_FMT_NV12_BPP10_UBWC = (48, 4)"
| "y_tile MMM_COLOR_FMT_P010_UBWC = (32, 4)"
| "y_tile _ = (0, 0)"

fun uv_tile :: "mmm_color_fmts \<Rightarrow> nat \<times> nat" where
  "uv_tile MMM_COLOR_FMT_NV12_UBWC = (16, 8)"
| "uv_tile MMM_COLOR_FMT_NV12_BPP10_UBWC = (24, 4)"
| "uv_tile MMM_COLOR_FMT_P010_UBWC = (16, 4)"
| "uv_tile _ = (0, 0)"

fun rgb_tile :: "mmm_color_fmts \<Rightarrow> nat \<times> nat" where
  "rgb_tile MMM_COLOR_FMT_RGBA8888_UBWC = (16, 4)"
| "rgb_tile MMM_COLOR_FMT_RGBA1010102_UBWC = (16, 4)"
| "rgb_tile MMM_COLOR_FMT_RGB565_UBWC = (16, 4)"
| "rgb_tile MMM_COLOR_FMT_RGBA16161616F_UBWC = (8, 4)"
| "rgb_tile _ = (0, 0)"

text \<open>Metadata of a plane of \<open>w\<close> x \<open>h\<close> samples: one byte per tile, 64 x 16 aligned.\<close>

definition meta_stride_spec :: "nat \<times> nat \<Rightarrow> nat \<Rightarrow> nat" where
  "meta_stride_spec tile w = align_up (ceil_div w (fst tile)) 64"

definition meta_scanlines_spec :: "nat \<times> nat \<Rightarrow> nat \<Rightarrow> nat" where
  "meta_scanlines_spec tile h = align_up (ceil_div h (snd tile)) 16"

definition meta_plane_spec :: "nat \<times> nat \<Rightarrow> nat \<Rightarrow> nat \<Rightarrow> nat" where
  "meta_plane_spec tile w h =
     align_up (meta_stride_spec tile w * meta_scanlines_spec tile h) 4096"

definition yuv_ubwc_spec :: "mmm_color_fmts \<Rightarrow> nat \<Rightarrow> nat \<Rightarrow> nat" where
  "yuv_ubwc_spec f w h =
     align_up (y_stride_spec f w * y_scanlines_spec f h) 4096 +
     align_up (y_stride_spec f w * uv_scanlines_spec f h) 4096 +
     meta_plane_spec (y_tile f) w h +
     meta_plane_spec (uv_tile f) (ceil_div w 2) (ceil_div h 2)"

definition interlace_spec :: "nat \<Rightarrow> nat \<Rightarrow> bool" where
  "interlace_spec w h \<longleftrightarrow> w \<le> 1920 \<and> h \<le> 1920 \<and> h * w div 256 \<le> 8160"

definition linear_yuv :: "mmm_color_fmts set" where
  "linear_yuv = {MMM_COLOR_FMT_NV12, MMM_COLOR_FMT_NV21, MMM_COLOR_FMT_P010,
     MMM_COLOR_FMT_P010_512, MMM_COLOR_FMT_NV12_512}"

definition ubwc_yuv :: "mmm_color_fmts set" where
  "ubwc_yuv = {MMM_COLOR_FMT_NV12_UBWC, MMM_COLOR_FMT_NV12_BPP10_UBWC, MMM_COLOR_FMT_P010_UBWC}"

definition buffer_size_spec :: "mmm_color_fmts \<Rightarrow> nat \<Rightarrow> nat \<Rightarrow> nat" where
  "buffer_size_spec f w h =
     (if f \<in> linear_yuv
      then align_up (y_stride_spec f w * y_scanlines_spec f h +
                     y_stride_spec f w * uv_scanlines_spec f h) 4096
      else if f = MMM_COLOR_FMT_NV12_UBWC \<and> interlace_spec w h
      then 2 * yuv_ubwc_spec f w (ceil_div h 2)
      else if f \<in> ubwc_yuv then yuv_ubwc_spec f w h
      else align_up (rgb_stride_spec f w * rgb_scanlines_spec f h) 4096 +
           (if f = MMM_COLOR_FMT_RGBA8888 then 0 else meta_plane_spec (rgb_tile f) w h))"

text \<open>Bytes of one sample of the linear two-plane formats.\<close>

definition sample_bytes :: "mmm_color_fmts \<Rightarrow> nat" where
  "sample_bytes f = (if f \<in> {MMM_COLOR_FMT_P010, MMM_COLOR_FMT_P010_512} then 2 else 1)"

section \<open>The macros on natural numbers\<close>

lemma fmt_code_inject [simp]: "fmt_code f = fmt_code g \<longleftrightarrow> f = g"
  by (cases f; cases g) (simp_all add: fmt_code.simps)

lemma is_fmt_code [simp]: "is_fmt (fmt_code f) fs \<longleftrightarrow> f \<in> set fs"
  by (auto simp: is_fmt_def)

lemma ALIGN_power2:
  assumes "unat a = 2 ^ k"
  shows "unat (MMM_COLOR_FMT_ALIGN sz a) = unat (sz + a - 1) div unat a * unat a"
proof -
  have k: "k < 32"
    using assms unat_u32_less [of a] power_less_imp_less_exp [of 2 k 32] by simp
  have a: "a = 2 ^ k"
    using arg_cong [OF assms, of "of_nat :: nat \<Rightarrow> u32"] by simp
  have "a AND (a - 1) = 0"
    unfolding a by (rule bit_word_eqI) (auto simp: bit_simps mask_eq_exp_minus_1 [symmetric])
  then show ?thesis
    using and_not_mask_nat [of k "sz + a - 1"] k assms
    by (simp add: MMM_COLOR_FMT_ALIGN_def a)
qed

lemma unat_add_pred:
  fixes sz a :: u32
  assumes "0 < a" and "unat sz + unat a \<le> 2 ^ 32"
  shows "unat (sz + a - 1) = unat sz + (unat a - 1)"
proof -
  have "0 < unat a"
    using assms(1) by (simp add: unat_gt_0 word_gt_0)
  then have "unat sz + unat (a - 1) < 2 ^ 32"
    using assms by (simp add: unat_pred)
  then show ?thesis
    using assms(1) unat_add_nowrap [of sz "a - 1"] by (simp add: unat_pred add_diff_eq)
qed

theorem ALIGN_eq_align_up:
  assumes "0 < a" and "unat sz + unat a \<le> 2 ^ 32"
  shows "unat (MMM_COLOR_FMT_ALIGN sz a) = align_up (unat sz) (unat a)"
proof (cases "a AND (a - 1) = 0")
  case True
  then have "unat a AND (unat a - 1) = 0"
    using assms(1) unsigned_and_eq [of a "a - 1", where ?'a = nat] by (simp add: unat_pred)
  then obtain k where k: "unat a = 2 ^ k"
    using and_pred_0_imp_power2 [of "unat a"] assms(1) by (auto simp: unat_gt_0 word_gt_0)
  show ?thesis
    using ALIGN_power2 [OF k, of sz] unat_add_pred [OF assms]
    by (simp add: align_up_def ceil_div_def)
next
  case False
  have "unat ((sz + a - 1) div a) = ceil_div (unat sz) (unat a)"
    using unat_add_pred [OF assms] by (simp add: unat_div ceil_div_def)
  moreover have "ceil_div (unat sz) (unat a) * unat a < 2 ^ 32"
    using align_up_less [of "unat a" "unat sz"] assms
    by (simp add: align_up_def unat_gt_0 word_gt_0)
  ultimately show ?thesis
    using False unat_mult_nowrap [of "(sz + a - 1) div a" a]
    by (simp add: MMM_COLOR_FMT_ALIGN_def align_up_def)
qed

lemma ALIGN_nowrap [nowrap]:
  "unat sz \<le> 2147483648 \<Longrightarrow> 0 < a \<Longrightarrow> unat a \<le> 2147483648 \<Longrightarrow>
   unat (MMM_COLOR_FMT_ALIGN sz a) = align_up (unat sz) (unat a)"
  by (rule ALIGN_eq_align_up) simp_all

lemma ROUNDUP_nowrap [nowrap]:
  "unat sz \<le> 2147483648 \<Longrightarrow> 0 < r \<Longrightarrow> unat r \<le> 2147483648 \<Longrightarrow>
   unat (MMM_COLOR_FMT_ROUNDUP sz r) = ceil_div (unat sz) (unat r)"
  using unat_add_pred [of r sz]
  by (simp add: MMM_COLOR_FMT_ROUNDUP_def unat_div ceil_div_def add_diff_eq)

lemma ROUNDUP_fits_int:
  assumes "4 \<le> r"
  shows "unat (MMM_COLOR_FMT_ROUNDUP sz r) < 2 ^ 30"
proof -
  have r: "4 \<le> unat r"
    using assms by (simp add: word_le_nat_alt)
  have "unat (sz + (r - 1)) div unat r \<le> unat (sz + (r - 1)) div 4"
    using r by (intro div_le_mono2) simp_all
  also have "\<dots> < 2 ^ 30"
    using unat_u32_less [of "sz + (r - 1)"] by simp
  finally show ?thesis
    by (simp add: MMM_COLOR_FMT_ROUNDUP_def unat_div)
qed

lemma half_nowrap [nowrap]:
  fixes h :: u32
  assumes "unat h \<le> 2147483648"
  shows "unat (drop_bit 1 (h + 1)) = ceil_div (unat h) 2"
proof -
  have "unat (h + 1) = unat h + 1"
    using assms unat_add_nowrap [of h 1] by simp
  then show ?thesis
    by (simp add: drop_bit_eq_div unat_div ceil_div_def)
qed


section \<open>The code computes the geometry\<close>

text \<open>
  For dimensions up to 16384 no intermediate result wraps around, so every plane parameter is
  its value on natural numbers.
\<close>

lemmas fmt_alignments = ALIGN_nowrap ROUNDUP_nowrap half_nowrap [unfolded One_nat_def]
  unat_mult_nowrap

lemma ceil_div_2_le: "n \<le> 16384 \<Longrightarrow> ceil_div n 2 \<le> 8192"
  by (rule ceil_div_le_bound) simp_all

lemma ceil_div_4_3: "ceil_div (w * 4 div 3) 256 = ceil_div w 192"
proof -
  define q r where "q = w div 192" and "r = w mod 192"
  have w: "w = 192 * q + r" and r: "r < 192"
    by (simp_all add: q_def r_def)
  have "w * 4 div 3 = 256 * q + 4 * r div 3"
    unfolding w by simp
  then have "ceil_div (w * 4 div 3) 256 = q + (4 * r div 3 + 255) div 256"
    by (simp add: ceil_div_def)
  also have "(4 * r div 3 + 255) div 256 = (r + 191) div 192"
    using r by (cases "r = 0") (simp_all add: div_nat_eqI)
  also have "q + (r + 191) div 192 = ceil_div w 192"
    unfolding w by (simp add: ceil_div_def)
  finally show ?thesis .
qed

lemma align_up_192_4_3: "align_up w 192 * 4 div 3 = align_up (w * 4 div 3) 256"
  by (simp add: align_up_def ceil_div_4_3)

lemma BPP10_stride:
  assumes "unat w \<le> 16384"
  shows "unat (MMM_COLOR_FMT_ALIGN (MMM_COLOR_FMT_ALIGN w 192 * 4 div 3) 256) =
    align_up (unat w * 4 div 3) 256"
proof -
  have b: "align_up (unat w) 192 \<le> 16512"
    using assms by (intro align_up_least) simp_all
  have a: "unat (MMM_COLOR_FMT_ALIGN w 192) = align_up (unat w) 192"
    using assms by (simp add: ALIGN_nowrap)
  have "unat (MMM_COLOR_FMT_ALIGN w 192 * 4) = align_up (unat w) 192 * 4"
    using b a by (subst unat_mult_nowrap) simp_all
  then have s: "unat (MMM_COLOR_FMT_ALIGN w 192 * 4 div 3) = align_up (unat w * 4 div 3) 256"
    by (simp add: unat_div align_up_192_4_3)
  moreover have "align_up (unat w * 4 div 3) 256 \<le> 22016"
    using assms by (intro align_up_least) simp_all
  ultimately show ?thesis
    by (subst ALIGN_nowrap) simp_all
qed

lemma Y_STRIDE_spec:
  "unat w \<le> 16384 \<Longrightarrow>
   unat (MMM_COLOR_FMT_Y_STRIDE (fmt_code f) w) = y_stride_spec f (unat w)"
  by (cases "w = 0"; cases f)
    (simp_all add: MMM_COLOR_FMT_Y_STRIDE_def fmt_alignments BPP10_stride)

lemma UV_STRIDE_eq: "MMM_COLOR_FMT_UV_STRIDE = MMM_COLOR_FMT_Y_STRIDE"
  by (intro ext) (simp add: MMM_COLOR_FMT_UV_STRIDE_def MMM_COLOR_FMT_Y_STRIDE_def)

lemma Y_SCANLINES_spec:
  "unat h \<le> 16384 \<Longrightarrow>
   unat (MMM_COLOR_FMT_Y_SCANLINES (fmt_code f) h) = y_scanlines_spec f (unat h)"
  by (cases "h = 0"; cases f) (simp_all add: MMM_COLOR_FMT_Y_SCANLINES_def fmt_alignments)

lemma UV_SCANLINES_spec:
  "unat h \<le> 16384 \<Longrightarrow>
   unat (MMM_COLOR_FMT_UV_SCANLINES (fmt_code f) h) = uv_scanlines_spec f (unat h)"
  using ceil_div_2_le [of "unat h"]
  by (cases "h = 0"; cases f) (simp_all add: MMM_COLOR_FMT_UV_SCANLINES_def fmt_alignments)

lemma RGB_STRIDE_spec:
  "unat w \<le> 16384 \<Longrightarrow>
   unat (MMM_COLOR_FMT_RGB_STRIDE (fmt_code f) w) = rgb_stride_spec f (unat w)"
  by (cases "w = 0"; cases f)
    (simp_all add: MMM_COLOR_FMT_RGB_STRIDE_def rgb_stride_spec_def fmt_alignments)

lemma RGB_SCANLINES_spec:
  "unat h \<le> 16384 \<Longrightarrow>
   unat (MMM_COLOR_FMT_RGB_SCANLINES (fmt_code f) h) = rgb_scanlines_spec f (unat h)"
  by (cases "h = 0"; cases f)
    (simp_all add: MMM_COLOR_FMT_RGB_SCANLINES_def rgb_scanlines_spec_def fmt_alignments)

lemma meta_align:
  assumes "unat n \<le> 16384" and "0 < t" and "unat t \<le> 48" and "0 < a" and "unat a \<le> 64"
  shows "unat (MMM_COLOR_FMT_ALIGN (MMM_COLOR_FMT_ROUNDUP n t) a) =
    align_up (ceil_div (unat n) (unat t)) (unat a)"
proof -
  have "unat (MMM_COLOR_FMT_ROUNDUP n t) = ceil_div (unat n) (unat t)"
    using assms by (simp add: ROUNDUP_nowrap)
  moreover have "ceil_div (unat n) (unat t) \<le> unat n"
    using assms(2) by (intro ceil_div_le) (simp add: unat_gt_0 word_gt_0)
  ultimately show ?thesis
    using assms by (simp add: ALIGN_nowrap)
qed

lemma half_le: "unat (h :: u32) \<le> 16384 \<Longrightarrow> unat (drop_bit (Suc 0) (h + 1)) \<le> 8192"
  using half_nowrap [of h] ceil_div_2_le [of "unat h"] by simp

lemmas meta_alignments = meta_align half_le half_nowrap [unfolded One_nat_def]
  meta_stride_spec_def meta_scanlines_spec_def

lemma ceil_div_by_0 [simp]: "ceil_div n 0 = 0"
  by (simp add: ceil_div_def)

lemma Y_META_STRIDE_spec:
  "unat w \<le> 16384 \<Longrightarrow>
   unat (MMM_COLOR_FMT_Y_META_STRIDE (fmt_code f) w) = meta_stride_spec (y_tile f) (unat w)"
  by (cases "w = 0"; cases f) (simp_all add: MMM_COLOR_FMT_Y_META_STRIDE_def meta_alignments)

lemma Y_META_SCANLINES_spec:
  "unat h \<le> 16384 \<Longrightarrow>
   unat (MMM_COLOR_FMT_Y_META_SCANLINES (fmt_code f) h) = meta_scanlines_spec (y_tile f) (unat h)"
  by (cases "h = 0"; cases f) (simp_all add: MMM_COLOR_FMT_Y_META_SCANLINES_def meta_alignments)

lemma UV_META_STRIDE_spec:
  "unat w \<le> 16384 \<Longrightarrow>
   unat (MMM_COLOR_FMT_UV_META_STRIDE (fmt_code f) w) =
     meta_stride_spec (uv_tile f) (ceil_div (unat w) 2)"
  using half_le [of w]
  by (cases "w = 0"; cases f) (simp_all add: MMM_COLOR_FMT_UV_META_STRIDE_def meta_alignments)

lemma UV_META_SCANLINES_spec:
  "unat h \<le> 16384 \<Longrightarrow>
   unat (MMM_COLOR_FMT_UV_META_SCANLINES (fmt_code f) h) =
     meta_scanlines_spec (uv_tile f) (ceil_div (unat h) 2)"
  using half_le [of h]
  by (cases "h = 0"; cases f) (simp_all add: MMM_COLOR_FMT_UV_META_SCANLINES_def meta_alignments)

lemma RGB_META_STRIDE_spec:
  "unat w \<le> 16384 \<Longrightarrow>
   unat (MMM_COLOR_FMT_RGB_META_STRIDE (fmt_code f) w) = meta_stride_spec (rgb_tile f) (unat w)"
  by (cases "w = 0"; cases f) (simp_all add: MMM_COLOR_FMT_RGB_META_STRIDE_def meta_alignments)

lemma RGB_META_SCANLINES_spec:
  "unat h \<le> 16384 \<Longrightarrow>
   unat (MMM_COLOR_FMT_RGB_META_SCANLINES (fmt_code f) h) =
     meta_scanlines_spec (rgb_tile f) (unat h)"
  by (cases "h = 0"; cases f) (simp_all add: MMM_COLOR_FMT_RGB_META_SCANLINES_def meta_alignments)

lemmas plane_specs = Y_STRIDE_spec UV_STRIDE_eq Y_SCANLINES_spec UV_SCANLINES_spec
  RGB_STRIDE_spec RGB_SCANLINES_spec Y_META_STRIDE_spec Y_META_SCANLINES_spec
  UV_META_STRIDE_spec UV_META_SCANLINES_spec RGB_META_STRIDE_spec RGB_META_SCANLINES_spec

section \<open>Buffer sizes without wrap-around\<close>

lemma y_stride_bound: "w \<le> 16384 \<Longrightarrow> y_stride_spec f w \<le> 32768"
  by (cases f) (simp_all add: align_up_least order_trans [OF align_up_least [of _ 22016]]
      order_trans [OF align_up_least [of _ 16384]])

lemma y_scanlines_bound: "h \<le> 16384 \<Longrightarrow> y_scanlines_spec f h \<le> 16384"
  by (cases f) (simp_all add: align_up_least)

lemma uv_scanlines_bound: "h \<le> 16384 \<Longrightarrow> uv_scanlines_spec f h \<le> 8192"
  using ceil_div_2_le [of h] by (cases f) (simp_all add: align_up_least)

lemma rgb_stride_bound: "w \<le> 16384 \<Longrightarrow> rgb_stride_spec f w \<le> 131072"
  by (cases f) (simp_all add: rgb_stride_spec_def align_up_least)

lemma rgb_scanlines_bound: "h \<le> 16384 \<Longrightarrow> rgb_scanlines_spec f h \<le> 16384"
  by (simp add: rgb_scanlines_spec_def align_up_least)

lemma ceil_div_le': "ceil_div n a \<le> n"
  by (cases "a = 0") (simp_all add: ceil_div_le)

lemma meta_stride_bound: "w \<le> 16384 \<Longrightarrow> meta_stride_spec t w \<le> 16384"
  unfolding meta_stride_spec_def
  by (rule align_up_least) (use ceil_div_le' [of w "fst t"] in simp_all)

lemma meta_scanlines_bound: "h \<le> 16384 \<Longrightarrow> meta_scanlines_spec t h \<le> 16384"
  unfolding meta_scanlines_spec_def
  by (rule align_up_least) (use ceil_div_le' [of h "snd t"] in simp_all)

lemma meta_plane_bound: "w \<le> 16384 \<Longrightarrow> h \<le> 16384 \<Longrightarrow> meta_plane_spec t w h \<le> 268435456"
  unfolding meta_plane_spec_def
  using mult_le_mono [OF meta_stride_bound meta_scanlines_bound, of w h t t]
  by (intro align_up_least) simp_all

lemma y_plane_bound:
  "w \<le> 16384 \<Longrightarrow> h \<le> 16384 \<Longrightarrow> y_stride_spec f w * y_scanlines_spec f h \<le> 536870912"
  using mult_le_mono [OF y_stride_bound y_scanlines_bound, of w h f f] by simp

lemma uv_plane_bound:
  "w \<le> 16384 \<Longrightarrow> h \<le> 16384 \<Longrightarrow> y_stride_spec f w * uv_scanlines_spec f h \<le> 268435456"
  using mult_le_mono [OF y_stride_bound uv_scanlines_bound, of w h f f] by simp

lemma rgb_plane_bound:
  "w \<le> 16384 \<Longrightarrow> h \<le> 16384 \<Longrightarrow> rgb_stride_spec f w * rgb_scanlines_spec f h \<le> 2147483648"
  using mult_le_mono [OF rgb_stride_bound rgb_scanlines_bound, of w h f f] by simp

text \<open>One aligned plane: the product of a stride and a number of lines, rounded up to 4096.\<close>

lemma plane_align:
  assumes "unat s * unat n \<le> 2147483648"
  shows "unat (MMM_COLOR_FMT_ALIGN (s * n) 4096) = align_up (unat s * unat n) 4096"
proof -
  have "unat (s * n) = unat s * unat n"
    using assms by (intro unat_mult_nowrap) simp
  then show ?thesis
    using assms by (simp add: ALIGN_nowrap)
qed

lemma meta_plane:
  assumes "unat s = meta_stride_spec t w" and "unat n = meta_scanlines_spec t h"
    and "w \<le> 16384" and "h \<le> 16384"
  shows "unat (MMM_COLOR_FMT_ALIGN (s * n) 4096) = meta_plane_spec t w h"
  using plane_align [of s n] mult_le_mono [OF meta_stride_bound meta_scanlines_bound, of w h t t] assms
  by (simp add: meta_plane_spec_def)

lemma ALIGN_page:
  "unat s \<le> 4294963200 \<Longrightarrow> unat (MMM_COLOR_FMT_ALIGN s 4096) = align_up (unat s) 4096"
  by (rule trans [OF ALIGN_eq_align_up]) simp_all

lemma yuv_ubwc_bound:
  assumes "w \<le> 16384" and "h \<le> 16384"
  shows "yuv_ubwc_spec f w h \<le> 1342177280"
proof -
  have "align_up (y_stride_spec f w * y_scanlines_spec f h) 4096 \<le> 536870912"
    by (rule align_up_least) (simp_all add: y_plane_bound assms)
  moreover have "align_up (y_stride_spec f w * uv_scanlines_spec f h) 4096 \<le> 268435456"
    by (rule align_up_least) (simp_all add: uv_plane_bound assms)
  moreover have "meta_plane_spec (y_tile f) w h \<le> 268435456"
    by (rule meta_plane_bound) (rule assms)+
  moreover have "meta_plane_spec (uv_tile f) (ceil_div w 2) (ceil_div h 2) \<le> 268435456"
    by (rule meta_plane_bound) (use ceil_div_2_le assms in force)+
  ultimately show ?thesis
    by (simp add: yuv_ubwc_spec_def)
qed

lemma yuv_ubwc_dvd [simp]: "4096 dvd yuv_ubwc_spec f w h"
  by (simp add: yuv_ubwc_spec_def meta_plane_spec_def)

lemma yuv_ubwc_planes_spec:
  assumes "unat w \<le> 16384" and "unat h \<le> 16384"
  shows "unat (yuv_ubwc_planes (fmt_code f) w h) = yuv_ubwc_spec f (unat w) (unat h)"
proof -
  let ?c = "fmt_code f"
  let ?y = "MMM_COLOR_FMT_ALIGN (MMM_COLOR_FMT_Y_STRIDE ?c w * MMM_COLOR_FMT_Y_SCANLINES ?c h) 4096"
  let ?uv = "MMM_COLOR_FMT_ALIGN (MMM_COLOR_FMT_UV_STRIDE ?c w * MMM_COLOR_FMT_UV_SCANLINES ?c h) 4096"
  let ?ym = "MMM_COLOR_FMT_ALIGN (MMM_COLOR_FMT_Y_META_STRIDE ?c w * MMM_COLOR_FMT_Y_META_SCANLINES ?c h) 4096"
  let ?uvm = "MMM_COLOR_FMT_ALIGN (MMM_COLOR_FMT_UV_META_STRIDE ?c w * MMM_COLOR_FMT_UV_META_SCANLINES ?c h) 4096"
  have y: "unat ?y = align_up (y_stride_spec f (unat w) * y_scanlines_spec f (unat h)) 4096"
    using assms y_plane_bound [of "unat w" "unat h" f] by (subst plane_align) (simp_all add: plane_specs)
  have uv: "unat ?uv = align_up (y_stride_spec f (unat w) * uv_scanlines_spec f (unat h)) 4096"
    using assms uv_plane_bound [of "unat w" "unat h" f] by (subst plane_align) (simp_all add: plane_specs)
  have ym: "unat ?ym = meta_plane_spec (y_tile f) (unat w) (unat h)"
    using assms by (intro meta_plane) (simp_all add: plane_specs)
  have uvm: "unat ?uvm = meta_plane_spec (uv_tile f) (ceil_div (unat w) 2) (ceil_div (unat h) 2)"
    using assms ceil_div_2_le [of "unat w"] ceil_div_2_le [of "unat h"]
    by (intro meta_plane) (simp_all add: plane_specs)
  have "unat ?y + unat ?uv + unat ?ym + unat ?uvm = yuv_ubwc_spec f (unat w) (unat h)"
    by (simp add: y uv ym uvm yuv_ubwc_spec_def)
  moreover have "\<dots> \<le> 1342177280"
    using assms by (rule yuv_ubwc_bound)
  ultimately have "unat (?y + ?uv + ?ym + ?uvm) = yuv_ubwc_spec f (unat w) (unat h)"
    by (simp add: unat_add_nowrap)
  then show ?thesis
    by (simp add: yuv_ubwc_planes_def Let_def)
qed

lemma interlace_capable_spec:
  assumes "unat w \<le> 16384" and "unat h \<le> 16384"
  shows "interlace_capable w h \<longleftrightarrow> interlace_spec (unat w) (unat h)"
proof -
  have "unat h * unat w \<le> 16384 * 16384"
    using assms by (intro mult_le_mono) simp_all
  then have "unat (h * w) = unat h * unat w"
    by (intro unat_mult_nowrap) simp
  then show ?thesis
    by (simp add: interlace_capable_def interlace_spec_def INTERLACE_WIDTH_MAX_def
        INTERLACE_HEIGHT_MAX_def INTERLACE_MB_PER_FRAME_MAX_def word_le_nat_alt unat_div)
qed

lemma linear_size_spec:
  assumes "unat w \<le> 16384" and "unat h \<le> 16384"
  shows "unat (MMM_COLOR_FMT_ALIGN
           (MMM_COLOR_FMT_Y_STRIDE (fmt_code f) w * MMM_COLOR_FMT_Y_SCANLINES (fmt_code f) h +
            MMM_COLOR_FMT_UV_STRIDE (fmt_code f) w * MMM_COLOR_FMT_UV_SCANLINES (fmt_code f) h) 4096) =
    align_up (y_stride_spec f (unat w) * y_scanlines_spec f (unat h) +
              y_stride_spec f (unat w) * uv_scanlines_spec f (unat h)) 4096"
    (is "unat (MMM_COLOR_FMT_ALIGN (?y + ?uv) 4096) = align_up (?ny + ?nuv) 4096")
proof -
  have y: "unat ?y = ?ny"
    using assms y_plane_bound [of "unat w" "unat h" f]
    by (subst unat_mult_nowrap) (simp_all add: plane_specs)
  have uv: "unat ?uv = ?nuv"
    using assms uv_plane_bound [of "unat w" "unat h" f]
    by (subst unat_mult_nowrap) (simp_all add: plane_specs)
  have "?ny + ?nuv \<le> 805306368"
    using y_plane_bound [OF assms, of f] uv_plane_bound [OF assms, of f] by linarith
  then show ?thesis
    by (simp add: unat_add_nowrap y uv ALIGN_page)
qed

lemma rgb_size_spec:
  assumes "unat w \<le> 16384" and "unat h \<le> 16384"
  shows "unat (MMM_COLOR_FMT_ALIGN
           (MMM_COLOR_FMT_RGB_STRIDE (fmt_code f) w * MMM_COLOR_FMT_RGB_SCANLINES (fmt_code f) h) 4096) =
    align_up (rgb_stride_spec f (unat w) * rgb_scanlines_spec f (unat h)) 4096"
  using assms rgb_plane_bound [of "unat w" "unat h" f]
  by (subst plane_align) (simp_all add: plane_specs)

lemma rgb_align_bound:
  "w \<le> 16384 \<Longrightarrow> h \<le> 16384 \<Longrightarrow>
   align_up (rgb_stride_spec f w * rgb_scanlines_spec f h) 4096 \<le> 2147483648"
  by (rule align_up_least) (simp_all add: rgb_plane_bound)

lemma rgb_linear_size_spec:
  assumes "unat w \<le> 16384" and "unat h \<le> 16384"
  shows "unat (MMM_COLOR_FMT_ALIGN (MMM_COLOR_FMT_ALIGN
           (MMM_COLOR_FMT_RGB_STRIDE (fmt_code f) w * MMM_COLOR_FMT_RGB_SCANLINES (fmt_code f) h)
           4096) 4096) =
    align_up (rgb_stride_spec f (unat w) * rgb_scanlines_spec f (unat h)) 4096"
  using rgb_align_bound [OF assms, of f]
  by (subst ALIGN_page) (simp_all add: rgb_size_spec assms)

lemma rgb_ubwc_size_spec:
  assumes "unat w \<le> 16384" and "unat h \<le> 16384"
  shows "unat (MMM_COLOR_FMT_ALIGN
           (MMM_COLOR_FMT_ALIGN (MMM_COLOR_FMT_RGB_STRIDE (fmt_code f) w *
              MMM_COLOR_FMT_RGB_SCANLINES (fmt_code f) h) 4096 +
            MMM_COLOR_FMT_ALIGN (MMM_COLOR_FMT_RGB_META_STRIDE (fmt_code f) w *
              MMM_COLOR_FMT_RGB_META_SCANLINES (fmt_code f) h) 4096) 4096) =
    align_up (rgb_stride_spec f (unat w) * rgb_scanlines_spec f (unat h)) 4096 +
    meta_plane_spec (rgb_tile f) (unat w) (unat h)"
    (is "unat (MMM_COLOR_FMT_ALIGN (?p + ?m) 4096) = ?np + ?nm")
proof -
  have p: "unat ?p = ?np" by (rule rgb_size_spec [OF assms])
  have m: "unat ?m = ?nm"
    using assms by (intro meta_plane) (simp_all add: plane_specs)
  have "?np \<le> 2147483648" and "?nm \<le> 268435456"
    using assms by (simp_all add: rgb_align_bound meta_plane_bound)
  moreover have "4096 dvd ?nm" by (simp add: meta_plane_spec_def)
  ultimately show ?thesis
    by (simp add: unat_add_nowrap p m ALIGN_page)
qed

lemma ubwc_size_spec:
  assumes "unat w \<le> 16384" and "unat h \<le> 16384"
  shows "unat (MMM_COLOR_FMT_ALIGN (yuv_ubwc_planes (fmt_code f) w h) 4096) =
    yuv_ubwc_spec f (unat w) (unat h)"
  using yuv_ubwc_bound [of "unat w" "unat h" f] assms
  by (subst ALIGN_page) (simp_all add: yuv_ubwc_planes_spec)

lemma ubwc_interlaced_size_spec:
  assumes "unat w \<le> 16384" and "unat h \<le> 16384"
  shows "unat (MMM_COLOR_FMT_ALIGN
           (yuv_ubwc_planes (fmt_code f) w (drop_bit (Suc 0) (h + 1)) * 2) 4096) =
    2 * yuv_ubwc_spec f (unat w) (ceil_div (unat h) 2)"
proof -
  let ?p = "yuv_ubwc_planes (fmt_code f) w (drop_bit (Suc 0) (h + 1))"
  have hh: "ceil_div (unat h) 2 \<le> 16384"
    using ceil_div_2_le [OF assms(2)] by simp
  have p: "unat ?p = yuv_ubwc_spec f (unat w) (ceil_div (unat h) 2)"
    using assms half_nowrap [of h] hh by (subst yuv_ubwc_planes_spec) simp_all
  have b: "yuv_ubwc_spec f (unat w) (ceil_div (unat h) 2) \<le> 1342177280"
    using assms(1) hh by (rule yuv_ubwc_bound)
  then have "unat (?p * 2) = yuv_ubwc_spec f (unat w) (ceil_div (unat h) 2) * 2"
    by (subst unat_mult_nowrap) (simp_all add: p)
  with b show ?thesis
    by (subst ALIGN_page) simp_all
qed

lemma ALIGN_0 [simp]: "MMM_COLOR_FMT_ALIGN 0 4096 = 0"
  by (simp add: MMM_COLOR_FMT_ALIGN_def)

lemma spec_empty:
  "y_stride_spec f 0 = 0" "y_scanlines_spec f 0 = 0" "uv_scanlines_spec f 0 = 0"
  "rgb_stride_spec f 0 = 0" "rgb_scanlines_spec f 0 = 0"
  "meta_plane_spec t 0 h = 0" "meta_plane_spec t w 0 = 0"
  by (cases f; simp add: rgb_stride_spec_def rgb_scanlines_spec_def meta_plane_spec_def
        meta_stride_spec_def meta_scanlines_spec_def)+

lemma buffer_size_spec_empty: "w = 0 \<or> h = 0 \<Longrightarrow> buffer_size_spec f w h = 0"
  by (auto simp: buffer_size_spec_def yuv_ubwc_spec_def spec_empty)

lemmas size_specs = linear_size_spec rgb_linear_size_spec rgb_ubwc_size_spec ubwc_size_spec
  ubwc_interlaced_size_spec

lemma BUFFER_SIZE_nowrap:
  assumes "unat width \<le> 16384" and "unat height \<le> 16384"
  shows "unat (MMM_COLOR_FMT_BUFFER_SIZE (fmt_code f) width height) =
    buffer_size_spec f (unat width) (unat height)"
proof (cases "width = 0 \<or> height = 0")
  case True
  then show ?thesis
    using buffer_size_spec_empty [of "unat width" "unat height" f]
    by (auto simp: MMM_COLOR_FMT_BUFFER_SIZE_def)
next
  case False
  then show ?thesis
    using assms
    by (cases f) (simp_all add: MMM_COLOR_FMT_BUFFER_SIZE_def Let_def size_specs
        interlace_capable_spec buffer_size_spec_def linear_yuv_def ubwc_yuv_def)
qed

lemma le_double_half: "h \<le> 2 * ceil_div h 2"
  using le_ceil_div_mult [of 2 h] by simp

lemma y_scanlines_double: "y_scanlines_spec f h \<le> 2 * y_scanlines_spec f (ceil_div h 2)"
  by (cases f) (simp_all add: align_up_double le_double_half)

lemma uv_scanlines_double: "uv_scanlines_spec f h \<le> 2 * uv_scanlines_spec f (ceil_div h 2)"
  by (cases f) (simp_all add: align_up_double le_double_half)

lemma meta_plane_double:
  assumes "h \<le> 2 * h'" and "0 < snd t"
  shows "meta_plane_spec t w h \<le> 2 * meta_plane_spec t w h'"
proof -
  have "meta_scanlines_spec t h \<le> 2 * meta_scanlines_spec t h'"
    unfolding meta_scanlines_spec_def
    by (intro align_up_double ceil_div_double) (use assms in simp_all)
  then have "meta_stride_spec t w * meta_scanlines_spec t h \<le>
      2 * (meta_stride_spec t w * meta_scanlines_spec t h')"
    using mult_le_mono2 [of _ _ "meta_stride_spec t w"] by fastforce
  then show ?thesis
    unfolding meta_plane_spec_def by (rule align_up_double) simp
qed

lemma stride_plane_double: "n \<le> 2 * m \<Longrightarrow> align_up (s * n) 4096 \<le> 2 * align_up (s * m) 4096"
  by (rule align_up_double) (use mult_le_mono2 [of n "2 * m" s] in simp_all)

lemma interlaced_covers_progressive:
  "yuv_ubwc_spec MMM_COLOR_FMT_NV12_UBWC w h \<le>
   2 * yuv_ubwc_spec MMM_COLOR_FMT_NV12_UBWC w (ceil_div h 2)"
  unfolding yuv_ubwc_spec_def add_mult_distrib2
  by (intro add_mono stride_plane_double y_scanlines_double uv_scanlines_double
      meta_plane_double le_double_half) simp_all

text \<open>Monotonicity of the plane parameters, for the monotonicity of the sizes.\<close>

lemma y_stride_mono: "w \<le> w' \<Longrightarrow> y_stride_spec f w \<le> y_stride_spec f w'"
  by (cases f) (simp_all add: align_up_mono div_le_mono)

lemma y_scanlines_mono: "h \<le> h' \<Longrightarrow> y_scanlines_spec f h \<le> y_scanlines_spec f h'"
  by (cases f) (simp_all add: align_up_mono)

lemma uv_scanlines_mono: "h \<le> h' \<Longrightarrow> uv_scanlines_spec f h \<le> uv_scanlines_spec f h'"
  by (cases f) (simp_all add: align_up_mono ceil_div_mono)

lemma rgb_stride_mono: "w \<le> w' \<Longrightarrow> rgb_stride_spec f w \<le> rgb_stride_spec f w'"
  by (simp add: rgb_stride_spec_def align_up_mono)

lemma rgb_scanlines_mono: "h \<le> h' \<Longrightarrow> rgb_scanlines_spec f h \<le> rgb_scanlines_spec f h'"
  by (simp add: rgb_scanlines_spec_def align_up_mono)

lemma meta_plane_mono:
  "w \<le> w' \<Longrightarrow> h \<le> h' \<Longrightarrow> meta_plane_spec t w h \<le> meta_plane_spec t w' h'"
  by (simp add: meta_plane_spec_def meta_stride_spec_def meta_scanlines_spec_def
      align_up_mono ceil_div_mono mult_le_mono)

lemma yuv_ubwc_mono: "w \<le> w' \<Longrightarrow> h \<le> h' \<Longrightarrow> yuv_ubwc_spec f w h \<le> yuv_ubwc_spec f w' h'"
  unfolding yuv_ubwc_spec_def
  by (intro add_mono align_up_mono mult_le_mono y_stride_mono y_scanlines_mono uv_scanlines_mono
      meta_plane_mono ceil_div_mono)

lemma buffer_size_mono:
  assumes "w \<le> w'" and "h \<le> h'" and "f \<noteq> MMM_COLOR_FMT_NV12_UBWC"
  shows "buffer_size_spec f w h \<le> buffer_size_spec f w' h'"
proof -
  have "align_up (rgb_stride_spec f w * rgb_scanlines_spec f h) 4096 \<le>
      align_up (rgb_stride_spec f w' * rgb_scanlines_spec f h') 4096"
    using assms by (intro align_up_mono mult_le_mono rgb_stride_mono rgb_scanlines_mono)
  moreover have "align_up (y_stride_spec f w * y_scanlines_spec f h +
      y_stride_spec f w * uv_scanlines_spec f h) 4096 \<le>
      align_up (y_stride_spec f w' * y_scanlines_spec f h' +
      y_stride_spec f w' * uv_scanlines_spec f h') 4096"
    using assms by (intro align_up_mono add_mono mult_le_mono y_stride_mono y_scanlines_mono
        uv_scanlines_mono)
  ultimately show ?thesis
    using assms by (auto simp: buffer_size_spec_def yuv_ubwc_mono intro: add_mono meta_plane_mono)
qed

lemma even_le_bump: "even s \<Longrightarrow> n \<le> s \<Longrightarrow> 2 * ceil_div n 2 \<le> (s::nat)"
  using align_up_least [of n s 2] by (simp add: align_up_def mult.commute)

lemma chroma_row_fits:
  assumes "f \<in> linear_yuv"
  shows "w * sample_bytes f \<le> y_stride_spec f w"
    and "ceil_div w 2 * (2 * sample_bytes f) \<le> y_stride_spec f w"
proof -
  have luma: "w * sample_bytes f \<le> y_stride_spec f w"
    using assms by (auto simp: linear_yuv_def sample_bytes_def le_align_up)
  have "4 dvd y_stride_spec f w"
    using assms by (auto simp: linear_yuv_def align_up_def)
  then have "sample_bytes f dvd y_stride_spec f w" and "even (y_stride_spec f w div sample_bytes f)"
    by (auto simp: sample_bytes_def elim!: dvdE)
  then obtain k where k: "y_stride_spec f w = sample_bytes f * k" and "even k"
    by (auto simp: sample_bytes_def elim!: dvdE split: if_splits)
  with luma have "2 * ceil_div w 2 \<le> k"
    by (intro even_le_bump) (auto simp: sample_bytes_def split: if_splits)
  then show "ceil_div w 2 * (2 * sample_bytes f) \<le> y_stride_spec f w"
    using k mult_le_mono2 [of "2 * ceil_div w 2" k "sample_bytes f"] by (simp add: ac_simps)
  show "w * sample_bytes f \<le> y_stride_spec f w" by (rule luma)
qed

text \<open>The last byte of element \<open>c\<close> of row \<open>r\<close> of a plane lies inside the plane.\<close>

lemma row_major_fits:
  assumes "r < rows" and "c < cols" and "cols * sz \<le> stride" and "rows \<le> lines"
  shows "r * stride + (c + 1) * sz \<le> stride * (lines :: nat)"
proof -
  have "(c + 1) * sz \<le> cols * sz"
    using assms(2) by (intro mult_le_mono1) simp
  also have "\<dots> \<le> stride" by (rule assms(3))
  finally have "r * stride + (c + 1) * sz \<le> (r + 1) * stride" by simp
  also have "\<dots> \<le> lines * stride"
    using assms(1,4) by (intro mult_le_mono1) simp
  finally show ?thesis by (simp add: mult.commute)
qed

lemma scanlines_ge:
  assumes "f \<in> linear_yuv"
  shows "h \<le> y_scanlines_spec f h" and "ceil_div h 2 \<le> uv_scanlines_spec f h"
  using assms by (auto simp: linear_yuv_def le_align_up)

section \<open>Properties\<close>

text \<open>
  C1. For every format of the enumeration and every frame up to 16384 x 16384, the 32-bit
  \<open>MMM_COLOR_FMT_BUFFER_SIZE\<close> refines the geometry on natural numbers: no addition, product or
  rounding of any plane, tile or alignment wraps around, so that the size is that of the planes.
\<close>

theorem BUFFER_SIZE_refines:
  assumes "unat width \<le> 16384" and "unat height \<le> 16384"
  shows "unat (MMM_COLOR_FMT_BUFFER_SIZE (fmt_code f) width height) =
    buffer_size_spec f (unat width) (unat height)"
  using assms by (rule BUFFER_SIZE_nowrap)

theorem BUFFER_SIZE_refines_witness:
  "unat (MMM_COLOR_FMT_BUFFER_SIZE (fmt_code MMM_COLOR_FMT_NV12) 2560 1600) = 6144000"
  using BUFFER_SIZE_refines [of 2560 1600 MMM_COLOR_FMT_NV12]
  by (simp add: buffer_size_spec_def linear_yuv_def align_up_def ceil_div_def)

text \<open>
  C13. \<open>MMM_COLOR_FMT_BUFFER_SIZE_USED\<close> never exceeds \<open>MMM_COLOR_FMT_BUFFER_SIZE\<close>: a buffer
  allocated for a frame of a format (for \<open>NV12_UBWC\<close>: two fields when the frame is small enough
  to be interlaced) also holds the progressive frame that is written into it.
\<close>

theorem BUFFER_SIZE_USED_le:
  assumes "unat width \<le> 16384" and "unat height \<le> 16384"
  shows "MMM_COLOR_FMT_BUFFER_SIZE_USED (fmt_code f) width height interlace
    \<le> MMM_COLOR_FMT_BUFFER_SIZE (fmt_code f) width height"
proof (cases "width \<noteq> 0 \<and> height \<noteq> 0 \<and> interlace = 0 \<and> f = MMM_COLOR_FMT_NV12_UBWC")
  case True
  then have "unat (MMM_COLOR_FMT_BUFFER_SIZE_USED (fmt_code f) width height interlace) =
      yuv_ubwc_spec f (unat width) (unat height)"
    using assms by (simp add: MMM_COLOR_FMT_BUFFER_SIZE_USED_def ubwc_size_spec)
  then show ?thesis
    using True interlaced_covers_progressive [of "unat width" "unat height"]
    by (auto simp: word_le_nat_alt BUFFER_SIZE_nowrap [OF assms] buffer_size_spec_def
        linear_yuv_def ubwc_yuv_def)
next
  case False
  then show ?thesis
    by (auto simp: MMM_COLOR_FMT_BUFFER_SIZE_USED_def)
qed

theorem BUFFER_SIZE_USED_le_witness:
  "MMM_COLOR_FMT_BUFFER_SIZE_USED (fmt_code MMM_COLOR_FMT_NV12_UBWC) 1280 720 0
    \<le> MMM_COLOR_FMT_BUFFER_SIZE (fmt_code MMM_COLOR_FMT_NV12_UBWC) 1280 720"
  by (rule BUFFER_SIZE_USED_le) simp_all

text \<open>
  C14. In the linear two-plane formats (NV12, NV21, P010 and their 512-aligned variants), every
  luma sample of the frame lies before the chroma plane, and every chroma pair, also the one of
  an odd last column or row, lies inside the buffer.
\<close>

theorem linear_samples_in_buffer:
  assumes "f \<in> linear_yuv" and "unat width \<le> 16384" and "unat height \<le> 16384"
    and "r < unat height" and "c < unat width"
    and "r' < ceil_div (unat height) 2" and "c' < ceil_div (unat width) 2"
  defines "stride \<equiv> unat (MMM_COLOR_FMT_Y_STRIDE (fmt_code f) width)"
    and "y_plane \<equiv> unat (MMM_COLOR_FMT_Y_STRIDE (fmt_code f) width) *
      unat (MMM_COLOR_FMT_Y_SCANLINES (fmt_code f) height)"
    and "uv_stride \<equiv> unat (MMM_COLOR_FMT_UV_STRIDE (fmt_code f) width)"
  shows "r * stride + (c + 1) * sample_bytes f \<le> y_plane \<and>
    y_plane + r' * uv_stride + (c' + 1) * (2 * sample_bytes f)
      \<le> unat (MMM_COLOR_FMT_BUFFER_SIZE (fmt_code f) width height)"
proof -
  let ?w = "unat width" and ?h = "unat height"
  have s: "stride = y_stride_spec f ?w" "uv_stride = y_stride_spec f ?w"
    and p: "y_plane = y_stride_spec f ?w * y_scanlines_spec f ?h"
    using assms(2,3) by (simp_all add: stride_def uv_stride_def y_plane_def plane_specs)
  have "r * y_stride_spec f ?w + (c + 1) * sample_bytes f \<le> y_plane"
    unfolding p by (rule row_major_fits [OF assms(4,5)])
      (rule chroma_row_fits [OF assms(1)] scanlines_ge [OF assms(1)])+
  moreover have "r' * y_stride_spec f ?w + (c' + 1) * (2 * sample_bytes f)
      \<le> y_stride_spec f ?w * uv_scanlines_spec f ?h"
    by (rule row_major_fits [OF assms(6,7)])
      (rule chroma_row_fits [OF assms(1)] scanlines_ge [OF assms(1)])+
  moreover have "y_plane + y_stride_spec f ?w * uv_scanlines_spec f ?h
      \<le> unat (MMM_COLOR_FMT_BUFFER_SIZE (fmt_code f) width height)"
    using assms(1) by (simp add: BUFFER_SIZE_nowrap [OF assms(2,3)] buffer_size_spec_def p le_align_up)
  ultimately show ?thesis
    unfolding s by linarith
qed

theorem linear_samples_in_buffer_witness:
  "1079 * unat (MMM_COLOR_FMT_Y_STRIDE (fmt_code MMM_COLOR_FMT_NV12) 1919) + 1919
    \<le> unat (MMM_COLOR_FMT_Y_STRIDE (fmt_code MMM_COLOR_FMT_NV12) 1919) *
      unat (MMM_COLOR_FMT_Y_SCANLINES (fmt_code MMM_COLOR_FMT_NV12) 1080)"
  using linear_samples_in_buffer [of MMM_COLOR_FMT_NV12 1919 1080 1079 1918 539 959]
  by (simp add: linear_yuv_def sample_bytes_def ceil_div_def)

text \<open>
  Whatever the arguments (unknown formats, zero or huge dimensions whose arithmetic wraps
  around), the size that \<open>MMM_COLOR_FMT_BUFFER_SIZE\<close> returns is a multiple of the 4096-byte page.
\<close>

lemma BUFFER_SIZE_page_multiple:
  "4096 dvd unat (MMM_COLOR_FMT_BUFFER_SIZE color_fmt width height)"
  unfolding MMM_COLOR_FMT_BUFFER_SIZE_def Let_def
  by (subst ALIGN_power2 [of 4096 12]) simp_all

text \<open>
  \<open>MMM_COLOR_FMT_ALIGN\<close> rounds up to the least multiple of any positive alignment, power of
  two or not (its two branches agree), whenever size plus alignment fits 32 bits.
\<close>

lemma ALIGN_least_multiple:
  assumes "0 < algn" and "unat sz + unat algn \<le> 2 ^ 32"
  shows "unat algn dvd unat (MMM_COLOR_FMT_ALIGN sz algn) \<and>
    unat sz \<le> unat (MMM_COLOR_FMT_ALIGN sz algn) \<and>
    (\<forall>m. unat algn dvd m \<and> unat sz \<le> m \<longrightarrow> unat (MMM_COLOR_FMT_ALIGN sz algn) \<le> m)"
  using assms(1)
  by (auto simp: ALIGN_eq_align_up [OF assms] align_up_least le_align_up unat_gt_0 word_gt_0)

lemma ALIGN_least_multiple_witness:
  "unat (MMM_COLOR_FMT_ALIGN 1000 192) = 1152 \<and> 192 dvd unat (MMM_COLOR_FMT_ALIGN 1000 192)"
  using ALIGN_least_multiple [of 192 1000] by (simp add: MMM_COLOR_FMT_ALIGN_def)

text \<open>
  For every format but \<open>NV12_UBWC\<close> (whose small frames carry a second field) a larger frame,
  up to 16384 x 16384, never needs a smaller buffer.
\<close>

lemma BUFFER_SIZE_mono:
  assumes "width \<le> width'" and "height \<le> height'"
    and "unat width' \<le> 16384" and "unat height' \<le> 16384"
    and "f \<noteq> MMM_COLOR_FMT_NV12_UBWC"
  shows "MMM_COLOR_FMT_BUFFER_SIZE (fmt_code f) width height
    \<le> MMM_COLOR_FMT_BUFFER_SIZE (fmt_code f) width' height'"
  using assms buffer_size_mono [of "unat width" "unat width'" "unat height" "unat height'" f]
  by (simp add: word_le_nat_alt BUFFER_SIZE_nowrap)

lemma BUFFER_SIZE_mono_witness:
  "MMM_COLOR_FMT_BUFFER_SIZE (fmt_code MMM_COLOR_FMT_P010) 1280 720
    \<le> MMM_COLOR_FMT_BUFFER_SIZE (fmt_code MMM_COLOR_FMT_P010) 1920 1080"
  by (rule BUFFER_SIZE_mono) simp_all

end
