(* ===== verification/Color_Limits.thy ===== *)
theory Color_Limits
  imports Color_Fmt
begin

text \<open>
  Two questions about the buffer sizes of \<^verbatim>\<open>mmm_color_fmt.h\<close> that \<open>Color_Fmt\<close> leaves open: what the 32-bit
  functions return for frames whose size does not fit 32 bits, and how the sizes relate to the sums
  of planes that the comments of the enumeration give.
\<close>

unbundle bit_operations_syntax

section \<open>Sizes modulo the word\<close>

text \<open>
  Aligning to a power of two commutes with the reduction of numbers to words, and so does every
  operation of the uncompressed formats but the half of the height.
\<close>

lemma div_mult_mod_dvd:
  fixes m b c :: nat
  shows "m mod (b * c) div b * b = (m div b * b) mod (b * c)"
proof (cases "b = 0")
  case False
  then have "m mod (b * c) div b = m div b mod c"
    unfolding mod_mult2_eq by simp
  then have "m mod (b * c) div b * b = b * (m div b mod c)"
    by (simp only: mult.commute)
  also have "\<dots> = (m div b * b) mod (b * c)"
    by (simp only: mult_mod_right mult.commute [of "m div b"])
  finally show ?thesis .
qed simp

lemma unat_of_nat_u32: "unat (of_nat n :: u32) = n mod 2 ^ 32"
  by (simp add: unat_of_nat)

lemma ALIGN_of_nat:
  assumes "k < 32"
  shows "MMM_COLOR_FMT_ALIGN (of_nat n) (2 ^ k) = of_nat (align_up n (2 ^ k))"
proof -
  have a: "unat (2 ^ k :: u32) = 2 ^ k"
  proof -
    have "unat (of_nat (2 ^ k) :: u32) = 2 ^ k mod 2 ^ 32"
      by (simp only: unat_of_nat_u32)
    then show ?thesis using power_strict_increasing [of k 32 "2 :: nat"] assms by simp
  qed
  have "(of_nat n + 2 ^ k - 1 :: u32) = of_nat (n + (2 ^ k - 1))"
    by (simp only: of_nat_add of_nat_diff [OF one_le_power, of 2] of_nat_power of_nat_numeral of_nat_1
        one_le_numeral add_diff_eq)
  then have "unat (of_nat n + 2 ^ k - 1 :: u32) = (n + (2 ^ k - 1)) mod 2 ^ 32"
    by (simp only: unat_of_nat_u32)
  moreover have "(2 :: nat) ^ 32 = 2 ^ k * 2 ^ (32 - k)"
    using assms by (simp flip: power_add)
  ultimately have "unat (MMM_COLOR_FMT_ALIGN (of_nat n) (2 ^ k)) = align_up n (2 ^ k) mod 2 ^ 32"
    using ALIGN_power2 [OF a, of "of_nat n"]
    by (simp only: a div_mult_mod_dvd align_up_def ceil_div_def)
  then show ?thesis
    by (simp only: word_unat_eq_iff unat_of_nat_u32)
qed

lemma ALIGN_words:
  "MMM_COLOR_FMT_ALIGN (of_nat n) 16 = of_nat (align_up n 16)"
  "MMM_COLOR_FMT_ALIGN (of_nat n) 32 = of_nat (align_up n 32)"
  "MMM_COLOR_FMT_ALIGN (of_nat n) 128 = of_nat (align_up n 128)"
  "MMM_COLOR_FMT_ALIGN (of_nat n) 256 = of_nat (align_up n 256)"
  "MMM_COLOR_FMT_ALIGN (of_nat n) 512 = of_nat (align_up n 512)"
  "MMM_COLOR_FMT_ALIGN (of_nat n) 4096 = of_nat (align_up n 4096)"
  using ALIGN_of_nat [of 4 n] ALIGN_of_nat [of 5 n] ALIGN_of_nat [of 7 n] ALIGN_of_nat [of 8 n]
    ALIGN_of_nat [of 9 n] ALIGN_of_nat [of 12 n]
  by simp_all

lemma half_of_nat:
  assumes "Suc n < 2 ^ 32"
  shows "drop_bit (Suc 0) (of_nat n + 1 :: u32) = of_nat (ceil_div n 2)"
proof -
  have "unat (of_nat (Suc n) :: u32) = Suc n"
    using assms by (simp only: unat_of_nat_u32 mod_less)
  then have "unat (of_nat n + 1 :: u32) = Suc n" by (simp add: add.commute)
  then have "unat (drop_bit (Suc 0) (of_nat n + 1 :: u32)) = Suc n div 2"
    by (simp add: drop_bit_eq_div unat_div)
  also have "\<dots> = ceil_div n 2 mod 2 ^ 32"
    using assms by (simp add: ceil_div_def)
  finally show ?thesis
    by (simp only: word_unat_eq_iff unat_of_nat_u32)
qed

text \<open>The planes of the uncompressed formats, as words.\<close>

lemma ALIGN_zero:
  "MMM_COLOR_FMT_ALIGN 0 16 = 0" "MMM_COLOR_FMT_ALIGN 0 32 = 0" "MMM_COLOR_FMT_ALIGN 0 128 = 0"
  "MMM_COLOR_FMT_ALIGN 0 256 = 0" "MMM_COLOR_FMT_ALIGN 0 512 = 0"
  using ALIGN_words [of 0] by simp_all

lemma Y_STRIDE_of_nat:
  "f \<in> linear_yuv \<Longrightarrow> MMM_COLOR_FMT_Y_STRIDE (fmt_code f) (of_nat m) = of_nat (y_stride_spec f m)"
  using ALIGN_words [of m] ALIGN_words [of "m * 2"]
  by (cases "(of_nat m :: u32) = 0")
    (auto simp: linear_yuv_def MMM_COLOR_FMT_Y_STRIDE_def ALIGN_zero)

lemma Y_SCANLINES_of_nat:
  "f \<in> linear_yuv \<Longrightarrow> MMM_COLOR_FMT_Y_SCANLINES (fmt_code f) (of_nat n) = of_nat (y_scanlines_spec f n)"
  using ALIGN_words [of n]
  by (cases "(of_nat n :: u32) = 0")
    (auto simp: linear_yuv_def MMM_COLOR_FMT_Y_SCANLINES_def ALIGN_zero)

lemma UV_SCANLINES_of_nat:
  assumes "f \<in> linear_yuv" and "Suc n < 2 ^ 32"
  shows "MMM_COLOR_FMT_UV_SCANLINES (fmt_code f) (of_nat n) = of_nat (uv_scanlines_spec f n)"
proof (cases "n = 0")
  case True
  then show ?thesis
    using assms(1) by (auto simp: linear_yuv_def MMM_COLOR_FMT_UV_SCANLINES_def)
next
  case False
  then have "(of_nat n :: u32) \<noteq> 0"
    using assms(2) unat_of_nat_u32 [of n] by (auto simp: unat_eq_zero)
  then show ?thesis
    using assms(1) half_of_nat [OF assms(2)] ALIGN_words [of "ceil_div n 2"]
    by (auto simp: linear_yuv_def MMM_COLOR_FMT_UV_SCANLINES_def)
qed

lemma RGBA_of_nat:
  "MMM_COLOR_FMT_RGB_STRIDE (fmt_code MMM_COLOR_FMT_RGBA8888) (of_nat m) =
     of_nat (rgb_stride_spec MMM_COLOR_FMT_RGBA8888 m)"
  "MMM_COLOR_FMT_RGB_SCANLINES (fmt_code MMM_COLOR_FMT_RGBA8888) (of_nat n) =
     of_nat (rgb_scanlines_spec MMM_COLOR_FMT_RGBA8888 n)"
  using ALIGN_words(4) [of "m * 4"] ALIGN_words(2) [of n]
  by (cases "(of_nat m :: u32) = 0", simp_all add: MMM_COLOR_FMT_RGB_STRIDE_def rgb_stride_spec_def
      ALIGN_zero)
    (cases "(of_nat n :: u32) = 0", simp_all add: MMM_COLOR_FMT_RGB_SCANLINES_def
      rgb_scanlines_spec_def ALIGN_zero)

lemma BUFFER_SIZE_of_nat:
  assumes "f \<in> linear_yuv \<or> f = MMM_COLOR_FMT_RGBA8888" and "Suc (unat height) < 2 ^ 32"
  shows "MMM_COLOR_FMT_BUFFER_SIZE (fmt_code f) width height =
    of_nat (buffer_size_spec f (unat width) (unat height))"
proof (cases "width = 0 \<or> height = 0")
  case True
  then show ?thesis
    using buffer_size_spec_empty [of "unat width" "unat height" f]
    by (auto simp: MMM_COLOR_FMT_BUFFER_SIZE_def)
next
  case False
  define m n where "m = unat width" and "n = unat height"
  have wh: "width = of_nat m" "height = of_nat n" and n: "Suc n < 2 ^ 32"
    using assms(2) by (simp_all add: m_def n_def)
  show ?thesis
  proof (cases "f = MMM_COLOR_FMT_RGBA8888")
    case True
    let ?p = "rgb_stride_spec f m * rgb_scanlines_spec f n"
    have "MMM_COLOR_FMT_BUFFER_SIZE (fmt_code f) width height =
        MMM_COLOR_FMT_ALIGN (MMM_COLOR_FMT_ALIGN (of_nat ?p) 4096) 4096"
      using False True
      by (simp add: MMM_COLOR_FMT_BUFFER_SIZE_def Let_def RGBA_of_nat wh)
    also have "\<dots> = of_nat (align_up ?p 4096)"
      by (simp only: ALIGN_words align_up_id dvd_align_up zero_less_numeral)
    finally show ?thesis
      using True by (simp add: buffer_size_spec_def linear_yuv_def ubwc_yuv_def m_def n_def)
  next
    case yuv: False
    then have f: "f \<in> linear_yuv" using assms(1) by simp
    let ?p = "y_stride_spec f m * y_scanlines_spec f n + y_stride_spec f m * uv_scanlines_spec f n"
    have "MMM_COLOR_FMT_BUFFER_SIZE (fmt_code f) width height =
        MMM_COLOR_FMT_ALIGN (of_nat ?p) 4096"
      using False f Y_STRIDE_of_nat [OF f, of m] Y_SCANLINES_of_nat [OF f, of n]
        UV_SCANLINES_of_nat [OF f n]
      by (auto simp: MMM_COLOR_FMT_BUFFER_SIZE_def Let_def UV_STRIDE_eq wh linear_yuv_def)
    then show ?thesis
      using f by (simp only: ALIGN_words buffer_size_spec_def if_True m_def n_def)
  qed
qed

section \<open>The comments\<close>

text \<open>
  The sums of planes as the comments of the enumeration state them (the tile sizes, which they only
  name, are those of the code). They differ from the code in the half of an odd height, which the
  comments round down; in the luma lines of the ten-bit format; and in the metadata of the chroma
  planes, which the comments compute from the full width and height.
\<close>

fun comment_y_scanlines :: "mmm_color_fmts \<Rightarrow> nat \<Rightarrow> nat" where
  "comment_y_scanlines MMM_COLOR_FMT_NV12_BPP10_UBWC h = align_up h 32"
| "comment_y_scanlines f h = y_scanlines_spec f h"

fun comment_uv_scanlines :: "mmm_color_fmts \<Rightarrow> nat \<Rightarrow> nat" where
  "comment_uv_scanlines MMM_COLOR_FMT_NV12 h = align_up (h div 2) 16"
| "comment_uv_scanlines MMM_COLOR_FMT_NV21 h = align_up (h div 2) 16"
| "comment_uv_scanlines MMM_COLOR_FMT_NV12_UBWC h = align_up (h div 2) 32"
| "comment_uv_scanlines MMM_COLOR_FMT_NV12_BPP10_UBWC h = align_up (h div 2) 16"
| "comment_uv_scanlines MMM_COLOR_FMT_P010_UBWC h = align_up (h div 2) 16"
| "comment_uv_scanlines MMM_COLOR_FMT_P010 h = align_up (h div 2) 16"
| "comment_uv_scanlines MMM_COLOR_FMT_P010_512 h = align_up (h div 2) 16"
| "comment_uv_scanlines MMM_COLOR_FMT_NV12_512 h = align_up (h div 2) 256"
| "comment_uv_scanlines _ h = 0"

definition comment_ubwc :: "mmm_color_fmts \<Rightarrow> nat \<Rightarrow> nat \<Rightarrow> nat \<Rightarrow> nat" where
  "comment_ubwc f w h uv_scanlines =
     align_up (y_stride_spec f w * comment_y_scanlines f h) 4096 +
     align_up (y_stride_spec f w * uv_scanlines) 4096 +
     meta_plane_spec (y_tile f) w h + meta_plane_spec (uv_tile f) w h"

text \<open>An interlaced frame is two fields of half the height, rounded up, with a rounded-up quarter.\<close>

definition comment_size :: "mmm_color_fmts \<Rightarrow> nat \<Rightarrow> nat \<Rightarrow> nat" where
  "comment_size f w h =
     (if f \<in> linear_yuv
      then align_up (y_stride_spec f w * comment_y_scanlines f h +
                     y_stride_spec f w * comment_uv_scanlines f h) 4096
      else if f = MMM_COLOR_FMT_NV12_UBWC \<and> interlace_spec w h
      then (let half = (h + 1) div 2
            in align_up (2 * comment_ubwc f w half (align_up ((half + 1) div 2) 32)) 4096)
      else if f \<in> ubwc_yuv
      then align_up (comment_ubwc f w h (comment_uv_scanlines f h)) 4096
      else if f = MMM_COLOR_FMT_RGBA8888
      then align_up (align_up (align_up (w * 4) 256 * align_up h 32) 4096) 4096
      else align_up (align_up (align_up (w * rgb_bpp f) 256 * align_up h 16) 4096 +
                     meta_plane_spec (rgb_tile f) w h) 4096)"

lemma comment_uv_even:
  "even h \<Longrightarrow> comment_uv_scanlines f h = uv_scanlines_spec f h"
  by (cases f) (auto simp: ceil_div_def elim!: evenE)

lemma comment_uv_le: "comment_uv_scanlines f h \<le> uv_scanlines_spec f h"
  by (cases f) (auto simp: ceil_div_def intro!: align_up_mono div_le_mono)

lemma comment_y_eq: "f \<in> linear_yuv \<Longrightarrow> comment_y_scanlines f h = y_scanlines_spec f h"
  by (auto simp: linear_yuv_def)

lemma y_le_comment: "y_scanlines_spec f h \<le> comment_y_scanlines f h"
proof (cases f)
  case MMM_COLOR_FMT_NV12_BPP10_UBWC
  have "align_up h 16 \<le> align_up h 32"
    by (rule align_up_least) (simp_all add: le_align_up dvd_trans [OF _ dvd_align_up])
  then show ?thesis by (simp add: MMM_COLOR_FMT_NV12_BPP10_UBWC)
qed simp_all

lemma ubwc_le_comment:
  assumes "uv_scanlines_spec f h \<le> u"
  shows "yuv_ubwc_spec f w h \<le> comment_ubwc f w h u"
  unfolding yuv_ubwc_spec_def comment_ubwc_def
  using assms y_le_comment [of f h]
  by (intro add_mono align_up_mono mult_le_mono meta_plane_mono order_refl ceil_div_le) simp_all

lemma linear_vs_comment:
  assumes "f \<in> linear_yuv"
  shows "even h \<Longrightarrow> buffer_size_spec f w h = comment_size f w h"
    and "comment_size f w h \<le> buffer_size_spec f w h"
  using assms comment_uv_le [of f h]
  by (simp_all add: buffer_size_spec_def comment_size_def comment_y_eq comment_uv_even align_up_mono)

lemma rgb_vs_comment:
  assumes "f \<notin> linear_yuv" and "f \<notin> ubwc_yuv"
  shows "buffer_size_spec f w h = comment_size f w h"
proof -
  have "4096 dvd meta_plane_spec t w h" for t by (simp add: meta_plane_spec_def)
  then show ?thesis
    using assms
    by (cases f) (simp_all add: buffer_size_spec_def comment_size_def rgb_stride_spec_def
        rgb_scanlines_spec_def linear_yuv_def ubwc_yuv_def)
qed

lemma Suc_half: "Suc n div 2 = ceil_div n 2"
  using ceil_div_half [of n] by simp

lemma ubwc_vs_comment:
  assumes "f \<in> ubwc_yuv" and "even h \<or> f = MMM_COLOR_FMT_NV12_UBWC \<and> interlace_spec w h"
  shows "buffer_size_spec f w h \<le> comment_size f w h"
proof (cases "f = MMM_COLOR_FMT_NV12_UBWC \<and> interlace_spec w h")
  case True
  let ?u = "align_up ((ceil_div h 2 + 1) div 2) 32"
  have "yuv_ubwc_spec f w (ceil_div h 2) \<le> comment_ubwc f w (ceil_div h 2) ?u"
    using True by (intro ubwc_le_comment) (simp add: Suc_half)
  then have "2 * yuv_ubwc_spec f w (ceil_div h 2) \<le>
      align_up (2 * comment_ubwc f w (ceil_div h 2) ?u) 4096"
    using le_align_up [of 4096 "2 * comment_ubwc f w (ceil_div h 2) ?u"] by simp
  then show ?thesis
    using True by (simp add: buffer_size_spec_def comment_size_def linear_yuv_def Suc_half Let_def)
next
  case False
  then have "yuv_ubwc_spec f w h \<le> comment_ubwc f w h (comment_uv_scanlines f h)"
    using assms(2) by (intro ubwc_le_comment) (auto simp: comment_uv_even)
  then have "yuv_ubwc_spec f w h \<le> align_up (comment_ubwc f w h (comment_uv_scanlines f h)) 4096"
    using le_align_up [of 4096 "comment_ubwc f w h (comment_uv_scanlines f h)"] by simp
  then show ?thesis
    using False assms(1)
    by (auto simp: buffer_size_spec_def comment_size_def linear_yuv_def ubwc_yuv_def)
qed

section \<open>Properties\<close>

text \<open>
  C12. What a frame of an uncompressed format gets when its planes do not fit 32 bits: for every width
  and every height but the largest word, \<open>MMM_COLOR_FMT_BUFFER_SIZE\<close> returns the sum of the planes
  modulo 2 to the 32. So the size is right exactly when the sum is below 4 GiB; above, it is
  too small, and nothing tells the caller.
\<close>

theorem BUFFER_SIZE_modulo:
  assumes "f \<in> linear_yuv \<or> f = MMM_COLOR_FMT_RGBA8888" and "height \<noteq> 0xFFFFFFFF"
  shows "unat (MMM_COLOR_FMT_BUFFER_SIZE (fmt_code f) width height) =
      buffer_size_spec f (unat width) (unat height) mod 2 ^ 32 \<and>
    (unat (MMM_COLOR_FMT_BUFFER_SIZE (fmt_code f) width height) =
        buffer_size_spec f (unat width) (unat height) \<longleftrightarrow>
      buffer_size_spec f (unat width) (unat height) < 2 ^ 32) \<and>
    unat (MMM_COLOR_FMT_BUFFER_SIZE (fmt_code f) width height) \<le>
      buffer_size_spec f (unat width) (unat height)"
proof -
  have "unat (0xFFFFFFFF :: u32) = 2 ^ 32 - 1" by simp
  then have "unat height \<noteq> 2 ^ 32 - 1"
    using assms(2) by (metis word_unat_eq_iff)
  then have "Suc (unat height) < 2 ^ 32"
    using unat_u32_less [of height] by simp
  then have "unat (MMM_COLOR_FMT_BUFFER_SIZE (fmt_code f) width height) =
      buffer_size_spec f (unat width) (unat height) mod 2 ^ 32"
    using assms(1) by (simp only: BUFFER_SIZE_of_nat unat_of_nat_u32)
  then show ?thesis by (auto simp: mod_eq_self_iff_div_eq_0 div_eq_0_iff)
qed

theorem BUFFER_SIZE_modulo_witness:
  "unat (MMM_COLOR_FMT_BUFFER_SIZE (fmt_code MMM_COLOR_FMT_RGBA8888) 32769 32768) = 8388608 \<and>
   buffer_size_spec MMM_COLOR_FMT_RGBA8888 32769 32768 = 2 ^ 32 + 8388608"
  using BUFFER_SIZE_modulo [of MMM_COLOR_FMT_RGBA8888 32768 32769]
  by (simp add: buffer_size_spec_def linear_yuv_def ubwc_yuv_def rgb_stride_spec_def
      rgb_scanlines_spec_def align_up_def ceil_div_def)



text \<open>The two differ: full high definition in the ten-bit compressed format, for which the comment asks for more.\<close>

lemma comment_differs:
  "unat (MMM_COLOR_FMT_BUFFER_SIZE (fmt_code MMM_COLOR_FMT_NV12_BPP10_UBWC) 1920 1080) <
     comment_size MMM_COLOR_FMT_NV12_BPP10_UBWC 1920 1080"
  by (simp add: BUFFER_SIZE_nowrap buffer_size_spec_def comment_size_def linear_yuv_def ubwc_yuv_def
      yuv_ubwc_spec_def comment_ubwc_def meta_plane_spec_def meta_stride_spec_def
      meta_scanlines_spec_def align_up_def ceil_div_def)

end
