(* ===== verification/Bcache.thy ===== *)
theory Bcache
  imports Prelude
begin

unbundle bit_operations_syntax

text \<open>
  The on-disk keys and superblock flags of \<^verbatim>\<open>include/linux/bcache.h\<close>: the bit-field accessors that
  the macros \<open>BITMASK\<close>, \<open>KEY_FIELD\<close> and \<open>PTR_FIELD\<close> generate, the key and pointer constructors,
  the key utilities and the magic numbers.  A \<open>struct bkey\<close> is a record whose flexible array
  \<open>ptr\<close> is a list; an access to \<open>ptr[i]\<close> beyond the list is undefined in C and \<open>None\<close> here.
  The contract of a bit field is the locale \<open>bit_field\<close>, of two independent fields of one object
  the locale \<open>bit_field_pair\<close>; both are interpreted on the generated accessors.
\<close>

section \<open>Bit fields\<close>

text \<open>The expression \<open>~(~0ULL << size)\<close> and the getter and setter bodies of \<open>BITMASK\<close>.\<close>

definition low_ones :: "nat \<Rightarrow> u64" where
  "low_ones sz = NOT (push_bit sz (NOT 0))"

definition BITMASK_get :: "nat \<Rightarrow> nat \<Rightarrow> u64 \<Rightarrow> u64" where
  "BITMASK_get ofs sz field = drop_bit ofs field AND low_ones sz"

definition BITMASK_set :: "nat \<Rightarrow> nat \<Rightarrow> u64 \<Rightarrow> u64 \<Rightarrow> u64" where
  "BITMASK_set ofs sz field v =
     (let field = field AND NOT (push_bit ofs (low_ones sz))
      in field OR push_bit ofs (v AND low_ones sz))"

section \<open>Keys\<close>

record bkey =
  high :: u64
  low :: u64
  ptr :: "u64 list"

definition KEY_SIZE_BITS :: nat where
  "KEY_SIZE_BITS = 16"

definition KEY_MAX_U64S :: nat where
  "KEY_MAX_U64S = 8"

definition KEY_PTRS :: "bkey \<Rightarrow> u64" where
  "KEY_PTRS k = BITMASK_get 60 3 (high k)"
definition SET_KEY_PTRS :: "bkey \<Rightarrow> u64 \<Rightarrow> bkey" where
  "SET_KEY_PTRS k v = k\<lparr>high := BITMASK_set 60 3 (high k) v\<rparr>"

definition HEADER_SIZE :: "bkey \<Rightarrow> u64" where
  "HEADER_SIZE k = BITMASK_get 58 2 (high k)"
definition SET_HEADER_SIZE :: "bkey \<Rightarrow> u64 \<Rightarrow> bkey" where
  "SET_HEADER_SIZE k v = k\<lparr>high := BITMASK_set 58 2 (high k) v\<rparr>"

definition KEY_CSUM :: "bkey \<Rightarrow> u64" where
  "KEY_CSUM k = BITMASK_get 56 2 (high k)"
definition SET_KEY_CSUM :: "bkey \<Rightarrow> u64 \<Rightarrow> bkey" where
  "SET_KEY_CSUM k v = k\<lparr>high := BITMASK_set 56 2 (high k) v\<rparr>"

definition KEY_PINNED :: "bkey \<Rightarrow> u64" where
  "KEY_PINNED k = BITMASK_get 55 1 (high k)"
definition SET_KEY_PINNED :: "bkey \<Rightarrow> u64 \<Rightarrow> bkey" where
  "SET_KEY_PINNED k v = k\<lparr>high := BITMASK_set 55 1 (high k) v\<rparr>"

definition KEY_DIRTY :: "bkey \<Rightarrow> u64" where
  "KEY_DIRTY k = BITMASK_get 36 1 (high k)"
definition SET_KEY_DIRTY :: "bkey \<Rightarrow> u64 \<Rightarrow> bkey" where
  "SET_KEY_DIRTY k v = k\<lparr>high := BITMASK_set 36 1 (high k) v\<rparr>"

definition KEY_SIZE :: "bkey \<Rightarrow> u64" where
  "KEY_SIZE k = BITMASK_get 20 KEY_SIZE_BITS (high k)"
definition SET_KEY_SIZE :: "bkey \<Rightarrow> u64 \<Rightarrow> bkey" where
  "SET_KEY_SIZE k v = k\<lparr>high := BITMASK_set 20 KEY_SIZE_BITS (high k) v\<rparr>"

definition KEY_INODE :: "bkey \<Rightarrow> u64" where
  "KEY_INODE k = BITMASK_get 0 20 (high k)"
definition SET_KEY_INODE :: "bkey \<Rightarrow> u64 \<Rightarrow> bkey" where
  "SET_KEY_INODE k v = k\<lparr>high := BITMASK_set 0 20 (high k) v\<rparr>"

definition KEY_OFFSET :: "bkey \<Rightarrow> u64" where
  "KEY_OFFSET k = low k"
definition SET_KEY_OFFSET :: "bkey \<Rightarrow> u64 \<Rightarrow> bkey" where
  "SET_KEY_OFFSET k v = k\<lparr>low := v\<rparr>"

text \<open>The accessor pairs generated on \<open>high\<close>, and the setter of the other word.\<close>

definition KEY_FIELDS :: "((bkey \<Rightarrow> u64) \<times> (bkey \<Rightarrow> u64 \<Rightarrow> bkey)) list" where
  "KEY_FIELDS =
     [(KEY_PTRS, SET_KEY_PTRS), (HEADER_SIZE, SET_HEADER_SIZE), (KEY_CSUM, SET_KEY_CSUM),
      (KEY_PINNED, SET_KEY_PINNED), (KEY_DIRTY, SET_KEY_DIRTY), (KEY_SIZE, SET_KEY_SIZE),
      (KEY_INODE, SET_KEY_INODE), (KEY_OFFSET, SET_KEY_OFFSET)]"

definition KEY :: "u64 \<Rightarrow> u64 \<Rightarrow> u64 \<Rightarrow> bkey" where
  "KEY inode ofs sz =
     \<lparr>high = push_bit 63 1 OR push_bit 20 sz OR inode, low = ofs, ptr = []\<rparr>"

definition ZERO_KEY :: bkey where
  "ZERO_KEY = KEY 0 0 0"

definition MAX_KEY_INODE :: u64 where
  "MAX_KEY_INODE = 0xFFFFF"

definition MAX_KEY_OFFSET :: u64 where
  "MAX_KEY_OFFSET = drop_bit 1 (NOT 0)"

definition MAX_KEY :: bkey where
  "MAX_KEY = KEY MAX_KEY_INODE MAX_KEY_OFFSET 0"

definition KEY_START :: "bkey \<Rightarrow> u64" where
  "KEY_START k = KEY_OFFSET k - KEY_SIZE k"

definition START_KEY :: "bkey \<Rightarrow> bkey" where
  "START_KEY k = KEY (KEY_INODE k) (KEY_START k) 0"

section \<open>Pointers\<close>

definition PTR_DEV_BITS :: nat where
  "PTR_DEV_BITS = 12"

definition PTR_FIELD_get :: "nat \<Rightarrow> nat \<Rightarrow> bkey \<Rightarrow> nat \<Rightarrow> u64 option" where
  "PTR_FIELD_get ofs sz k i =
     (if i < length (ptr k) then Some (BITMASK_get ofs sz (ptr k ! i)) else None)"

definition PTR_FIELD_set :: "nat \<Rightarrow> nat \<Rightarrow> bkey \<Rightarrow> nat \<Rightarrow> u64 \<Rightarrow> bkey option" where
  "PTR_FIELD_set ofs sz k i v =
     (if i < length (ptr k)
      then Some (k\<lparr>ptr := (ptr k)[i := BITMASK_set ofs sz (ptr k ! i) v]\<rparr>) else None)"

definition PTR_DEV :: "bkey \<Rightarrow> nat \<Rightarrow> u64 option" where
  "PTR_DEV = PTR_FIELD_get 51 PTR_DEV_BITS"
definition SET_PTR_DEV :: "bkey \<Rightarrow> nat \<Rightarrow> u64 \<Rightarrow> bkey option" where
  "SET_PTR_DEV = PTR_FIELD_set 51 PTR_DEV_BITS"

definition PTR_OFFSET :: "bkey \<Rightarrow> nat \<Rightarrow> u64 option" where
  "PTR_OFFSET = PTR_FIELD_get 8 43"
definition SET_PTR_OFFSET :: "bkey \<Rightarrow> nat \<Rightarrow> u64 \<Rightarrow> bkey option" where
  "SET_PTR_OFFSET = PTR_FIELD_set 8 43"

definition PTR_GEN :: "bkey \<Rightarrow> nat \<Rightarrow> u64 option" where
  "PTR_GEN = PTR_FIELD_get 0 8"
definition SET_PTR_GEN :: "bkey \<Rightarrow> nat \<Rightarrow> u64 \<Rightarrow> bkey option" where
  "SET_PTR_GEN = PTR_FIELD_set 0 8"

definition PTR_CHECK_DEV :: u64 where
  "PTR_CHECK_DEV = push_bit PTR_DEV_BITS 1 - 1"

definition MAKE_PTR :: "u64 \<Rightarrow> u64 \<Rightarrow> u64 \<Rightarrow> u64" where
  "MAKE_PTR gen ofs dev = push_bit 51 dev OR push_bit 8 ofs OR gen"

section \<open>Key utilities\<close>

text \<open>\<open>sizeof (struct bkey) / sizeof (__u64)\<close> is 2: the flexible array takes no space.\<close>

definition bkey_u64s :: "bkey \<Rightarrow> u64" where
  "bkey_u64s k = 2 + KEY_PTRS k"

definition bkey_bytes :: "bkey \<Rightarrow> u64" where
  "bkey_bytes k = bkey_u64s k * 8"

definition bkey_copy_key :: "bkey \<Rightarrow> bkey \<Rightarrow> bkey" where
  "bkey_copy_key dest src =
     (let dest = SET_KEY_INODE dest (KEY_INODE src)
      in SET_KEY_OFFSET dest (KEY_OFFSET src))"

text \<open>
  The pointer results of \<open>bkey_next\<close> and \<open>bkey_idx\<close>, as indices into the array of 64-bit words
  that holds the keys: \<open>pos\<close> is where \<open>k\<close> starts.
\<close>

definition bkey_next :: "bkey \<Rightarrow> nat \<Rightarrow> nat" where
  "bkey_next k pos = pos + unat (bkey_u64s k)"

definition bkey_idx :: "nat \<Rightarrow> u32 \<Rightarrow> nat" where
  "bkey_idx pos nr_keys = pos + unat nr_keys"

definition BKEY_PAD :: nat where
  "BKEY_PAD = 8"

section \<open>Superblock\<close>

text \<open>
  The superblock in memory.  Of its unions the record has one member and the other is derived:
  \<open>set_magic\<close> is the first eight of the sixteen bytes of \<open>set_uuid\<close>, little-endian; the \<open>data_offset\<close>
  of a backing device shares its word with \<open>nbuckets\<close>, and \<^verbatim>\<open>keys\<close> its half word with
  \<open>njournal_buckets\<close>.
\<close>

record cache_sb =
  offset :: u64
  version :: u64
  magic :: "u8 list"
  uuid :: "u8 list"
  set_uuid :: "u8 list"
  label :: "u8 list"
  flags :: u64
  seq :: u64
  feature_compat :: u64
  feature_incompat :: u64
  feature_ro_compat :: u64
  nbuckets :: u64
  block_size :: u16
  nr_in_set :: u16
  nr_this_dev :: u16
  bucket_size :: u32
  last_mount :: u32
  first_bucket :: u16
  njournal_buckets :: u16
  d :: "u64 list"

definition set_magic :: "cache_sb \<Rightarrow> u64" where
  "set_magic sb = horner_sum (ucast :: u8 \<Rightarrow> u64) 256 (take 8 (set_uuid sb))"

abbreviation data_offset :: "cache_sb \<Rightarrow> u64" where
  "data_offset \<equiv> nbuckets"

abbreviation sb_keys :: "cache_sb \<Rightarrow> u16" where
  "sb_keys \<equiv> njournal_buckets"

definition SB_IS_BDEV :: "cache_sb \<Rightarrow> bool" where
  "SB_IS_BDEV sb \<longleftrightarrow> version sb = 1 \<or> version sb = 4 \<or> version sb = 6"

definition CACHE_SYNC :: "cache_sb \<Rightarrow> u64" where
  "CACHE_SYNC sb = BITMASK_get 0 1 (flags sb)"
definition SET_CACHE_SYNC :: "cache_sb \<Rightarrow> u64 \<Rightarrow> cache_sb" where
  "SET_CACHE_SYNC sb v = sb\<lparr>flags := BITMASK_set 0 1 (flags sb) v\<rparr>"

definition CACHE_DISCARD :: "cache_sb \<Rightarrow> u64" where
  "CACHE_DISCARD sb = BITMASK_get 1 1 (flags sb)"
definition SET_CACHE_DISCARD :: "cache_sb \<Rightarrow> u64 \<Rightarrow> cache_sb" where
  "SET_CACHE_DISCARD sb v = sb\<lparr>flags := BITMASK_set 1 1 (flags sb) v\<rparr>"

definition CACHE_REPLACEMENT :: "cache_sb \<Rightarrow> u64" where
  "CACHE_REPLACEMENT sb = BITMASK_get 2 3 (flags sb)"
definition SET_CACHE_REPLACEMENT :: "cache_sb \<Rightarrow> u64 \<Rightarrow> cache_sb" where
  "SET_CACHE_REPLACEMENT sb v = sb\<lparr>flags := BITMASK_set 2 3 (flags sb) v\<rparr>"

definition BDEV_CACHE_MODE :: "cache_sb \<Rightarrow> u64" where
  "BDEV_CACHE_MODE sb = BITMASK_get 0 4 (flags sb)"
definition SET_BDEV_CACHE_MODE :: "cache_sb \<Rightarrow> u64 \<Rightarrow> cache_sb" where
  "SET_BDEV_CACHE_MODE sb v = sb\<lparr>flags := BITMASK_set 0 4 (flags sb) v\<rparr>"

definition BDEV_STATE :: "cache_sb \<Rightarrow> u64" where
  "BDEV_STATE sb = BITMASK_get 61 2 (flags sb)"
definition SET_BDEV_STATE :: "cache_sb \<Rightarrow> u64 \<Rightarrow> cache_sb" where
  "SET_BDEV_STATE sb v = sb\<lparr>flags := BITMASK_set 61 2 (flags sb) v\<rparr>"

definition JSET_MAGIC :: u64 where "JSET_MAGIC = 0x245235c1a3625032"
definition PSET_MAGIC :: u64 where "PSET_MAGIC = 0x6750e15f87337f91"
definition BSET_MAGIC :: u64 where "BSET_MAGIC = 0x90135c78b99e07f5"

definition jset_magic :: "cache_sb \<Rightarrow> u64" where
  "jset_magic sb = set_magic sb XOR JSET_MAGIC"
definition pset_magic :: "cache_sb \<Rightarrow> u64" where
  "pset_magic sb = set_magic sb XOR PSET_MAGIC"
definition bset_magic :: "cache_sb \<Rightarrow> u64" where
  "bset_magic sb = set_magic sb XOR BSET_MAGIC"

section \<open>The contract of a bit field\<close>

locale bit_field =
  fixes getf :: "'s \<Rightarrow> u64" and setf :: "'s \<Rightarrow> u64 \<Rightarrow> 's" and width :: nat
  assumes get_set: "getf (setf s v) = take_bit width v"
    and set_get: "setf s (getf s) = s"
    and set_set: "setf (setf s u) v = setf s v"
begin

lemma get_bounded: "take_bit width (getf s) = getf s"
  using get_set [of s "getf s"] by (simp add: set_get)

lemma set_truncates: "setf s (take_bit width v) = setf s v"
proof -
  have "setf s (take_bit width v) = setf (setf s v) (getf (setf s v))"
    by (simp add: set_set get_set)
  then show ?thesis by (simp add: set_get)
qed

lemma set_inject: "setf s u = setf s v \<longleftrightarrow> take_bit width u = take_bit width v"
  by (metis get_set set_truncates)

lemma round_trip: "unat v < 2 ^ width \<Longrightarrow> getf (setf s v) = v"
  by (simp add: get_set take_bit_u64_id)

lemma get_less: "unat (getf s) < 2 ^ width"
  using get_bounded [of s] by (metis take_bit_nat_less_exp unsigned_take_bit_eq)

end

text \<open>Two fields of one object that do not share a bit.\<close>

locale bit_field_pair =
  a: bit_field getf setf m + b: bit_field getf' setf' n
  for getf :: "'s \<Rightarrow> u64" and setf :: "'s \<Rightarrow> u64 \<Rightarrow> 's" and m :: nat
    and getf' :: "'s \<Rightarrow> u64" and setf' :: "'s \<Rightarrow> u64 \<Rightarrow> 's" and n :: nat +
  assumes frame: "getf (setf' s v) = getf s"
    and commute: "setf (setf' s v) u = setf' (setf s u) v"
begin

lemma frame': "getf' (setf s u) = getf' s"
proof -
  have "setf s u = setf (setf' s (getf' s)) u"
    by (simp add: b.set_get)
  then show ?thesis
    by (metis b.get_bounded b.get_set commute)
qed

lemma both_round_trip:
  "unat u < 2 ^ m \<Longrightarrow> unat v < 2 ^ n \<Longrightarrow>
   getf (setf' (setf s u) v) = u \<and> getf' (setf' (setf s u) v) = v"
  by (simp add: frame a.round_trip b.round_trip)

end

section \<open>The generated accessors meet the contract\<close>

lemma bit_low_ones [simp]: "bit (low_ones sz) i \<longleftrightarrow> i < sz \<and> i < 64"
  by (auto simp: low_ones_def bit_simps)

lemma bit_BITMASK_get:
  "bit (BITMASK_get ofs sz x) i \<longleftrightarrow> i < sz \<and> bit x (ofs + i)"
  by (auto simp: BITMASK_get_def bit_simps dest: bit_imp_le_length)

lemma bit_BITMASK_set:
  "bit (BITMASK_set ofs sz x v) i \<longleftrightarrow>
     i < 64 \<and> (if ofs \<le> i \<and> i < ofs + sz then bit v (i - ofs) else bit x i)"
  by (auto simp: BITMASK_set_def Let_def bit_simps dest: bit_imp_le_length)

lemmas bitmask_bits = bit_BITMASK_get bit_BITMASK_set

lemma BITMASK_get_set:
  "ofs + sz \<le> 64 \<Longrightarrow> BITMASK_get ofs sz (BITMASK_set ofs sz x v) = take_bit sz v"
  by (rule bit_word_eqI) (auto simp: bitmask_bits bit_simps)

lemma BITMASK_set_get: "BITMASK_set ofs sz x (BITMASK_get ofs sz x) = x"
  by (rule bit_word_eqI) (auto simp: bitmask_bits)

lemma BITMASK_set_set: "BITMASK_set ofs sz (BITMASK_set ofs sz x u) v = BITMASK_set ofs sz x v"
  by (rule bit_word_eqI) (auto simp: bitmask_bits)

lemma BITMASK_frame:
  "ofs + sz \<le> ofs' \<or> ofs' + sz' \<le> ofs \<Longrightarrow> ofs + sz \<le> 64 \<Longrightarrow>
   BITMASK_get ofs sz (BITMASK_set ofs' sz' x v) = BITMASK_get ofs sz x"
  by (rule bit_word_eqI) (auto simp: bitmask_bits dest: bit_imp_le_length)

lemma BITMASK_commute:
  "ofs + sz \<le> ofs' \<or> ofs' + sz' \<le> ofs \<Longrightarrow>
   BITMASK_set ofs sz (BITMASK_set ofs' sz' x v) u = BITMASK_set ofs' sz' (BITMASK_set ofs sz x u) v"
  by (rule bit_word_eqI) (auto simp: bitmask_bits)

lemmas bitmask_laws = BITMASK_get_set BITMASK_set_get BITMASK_set_set BITMASK_frame BITMASK_commute

lemmas key_field_defs = KEY_PTRS_def SET_KEY_PTRS_def HEADER_SIZE_def SET_HEADER_SIZE_def
  KEY_CSUM_def SET_KEY_CSUM_def KEY_PINNED_def SET_KEY_PINNED_def KEY_DIRTY_def SET_KEY_DIRTY_def
  KEY_SIZE_def SET_KEY_SIZE_def KEY_INODE_def SET_KEY_INODE_def KEY_OFFSET_def SET_KEY_OFFSET_def
  KEY_SIZE_BITS_def

lemmas sb_field_defs = CACHE_SYNC_def SET_CACHE_SYNC_def CACHE_DISCARD_def SET_CACHE_DISCARD_def
  CACHE_REPLACEMENT_def SET_CACHE_REPLACEMENT_def BDEV_CACHE_MODE_def SET_BDEV_CACHE_MODE_def
  BDEV_STATE_def SET_BDEV_STATE_def

interpretation key_ptrs: bit_field KEY_PTRS SET_KEY_PTRS 3
  by unfold_locales (simp_all add: key_field_defs bitmask_laws)

interpretation header_size: bit_field HEADER_SIZE SET_HEADER_SIZE 2
  by unfold_locales (simp_all add: key_field_defs bitmask_laws)

interpretation key_csum: bit_field KEY_CSUM SET_KEY_CSUM 2
  by unfold_locales (simp_all add: key_field_defs bitmask_laws)

interpretation key_pinned: bit_field KEY_PINNED SET_KEY_PINNED 1
  by unfold_locales (simp_all add: key_field_defs bitmask_laws)

interpretation key_dirty: bit_field KEY_DIRTY SET_KEY_DIRTY 1
  by unfold_locales (simp_all add: key_field_defs bitmask_laws)

interpretation key_size: bit_field KEY_SIZE SET_KEY_SIZE KEY_SIZE_BITS
  by unfold_locales (simp_all add: key_field_defs bitmask_laws)

interpretation key_inode: bit_field KEY_INODE SET_KEY_INODE 20
  by unfold_locales (simp_all add: key_field_defs bitmask_laws)

interpretation key_offset: bit_field KEY_OFFSET SET_KEY_OFFSET 64
  by unfold_locales (simp_all add: key_field_defs take_bit_word_eq_self)

interpretation inode_size: bit_field_pair KEY_INODE SET_KEY_INODE 20 KEY_SIZE SET_KEY_SIZE KEY_SIZE_BITS
  by unfold_locales (simp_all add: key_field_defs bitmask_laws)

interpretation inode_offset: bit_field_pair KEY_INODE SET_KEY_INODE 20 KEY_OFFSET SET_KEY_OFFSET 64
  by unfold_locales (simp_all add: key_field_defs)

interpretation cache_sync: bit_field CACHE_SYNC SET_CACHE_SYNC 1
  by unfold_locales (simp_all add: sb_field_defs bitmask_laws)

interpretation cache_replacement: bit_field CACHE_REPLACEMENT SET_CACHE_REPLACEMENT 3
  by unfold_locales (simp_all add: sb_field_defs bitmask_laws)

interpretation bdev_mode_state:
  bit_field_pair BDEV_CACHE_MODE SET_BDEV_CACHE_MODE 4 BDEV_STATE SET_BDEV_STATE 2
  by unfold_locales (simp_all add: sb_field_defs bitmask_laws)

section \<open>Constructors, pointers and sizes\<close>

lemma bit_u64_bound: "unat (x :: u64) < 2 ^ n \<Longrightarrow> bit x i \<Longrightarrow> i < n"
  by (metis bit_take_bit_iff take_bit_u64_id)

lemma bit_top: "bit (9223372036854775808 :: int) i \<longleftrightarrow> i = 63"
proof -
  have "(9223372036854775808 :: int) = 2 ^ 63" by simp
  then show ?thesis by (auto simp only: bit_exp_iff possible_bit_int)
qed

lemma bit_KEY_high:
  assumes "unat inode < 2 ^ 20" and "unat sz < 2 ^ 16"
  shows "bit (high (KEY inode ofs sz)) i \<longleftrightarrow>
    i = 63 \<or> 20 \<le> i \<and> i < 36 \<and> bit sz (i - 20) \<or> i < 20 \<and> bit inode i"
  using bit_u64_bound [OF assms(1), of i] bit_u64_bound [OF assms(2), of "i - 20"]
  by (auto simp: KEY_def bit_simps bit_top)

lemma KEY_fields:
  assumes "unat inode < 2 ^ 20" and "unat sz < 2 ^ 16"
  shows "KEY_INODE (KEY inode ofs sz) = inode" and "KEY_SIZE (KEY inode ofs sz) = sz"
    and "KEY_DIRTY (KEY inode ofs sz) = 0" and "KEY_PTRS (KEY inode ofs sz) = 0"
    and "KEY_OFFSET (KEY inode ofs sz) = ofs"
proof -
  note b = bit_KEY_high [OF assms] bit_u64_bound [OF assms(1)] bit_u64_bound [OF assms(2)]
  show "KEY_INODE (KEY inode ofs sz) = inode"
    by (rule bit_word_eqI) (auto simp: KEY_INODE_def bit_BITMASK_get b(1) dest: b(2,3))
  show "KEY_SIZE (KEY inode ofs sz) = sz"
    by (rule bit_word_eqI)
      (auto simp: KEY_SIZE_def KEY_SIZE_BITS_def bit_BITMASK_get b(1) dest: b(2,3))
  show "KEY_DIRTY (KEY inode ofs sz) = 0"
    by (rule bit_word_eqI) (auto simp: KEY_DIRTY_def bit_BITMASK_get b(1))
  show "KEY_PTRS (KEY inode ofs sz) = 0"
    by (rule bit_word_eqI) (auto simp: KEY_PTRS_def bit_BITMASK_get b(1))
  show "KEY_OFFSET (KEY inode ofs sz) = ofs"
    by (simp add: KEY_OFFSET_def KEY_def)
qed

lemma KEY_PTRS_le: "unat (KEY_PTRS k) \<le> 7"
  using key_ptrs.get_less [of k] by simp

lemma unat_bkey_u64s: "unat (bkey_u64s k) = 2 + unat (KEY_PTRS k)"
  unfolding bkey_u64s_def using KEY_PTRS_le [of k] by (subst unat_add_nowrap) simp_all

lemma unat_bkey_bytes: "unat (bkey_bytes k) = 8 * unat (bkey_u64s k)"
  unfolding bkey_bytes_def using KEY_PTRS_le [of k]
  by (subst unat_mult_nowrap) (simp_all add: unat_bkey_u64s)

lemma MAKE_PTR_fields:
  assumes "unat gen < 2 ^ 8" and "unat ofs < 2 ^ 43" and "unat dev < 2 ^ 12"
  shows "BITMASK_get 51 12 (MAKE_PTR gen ofs dev) = dev"
    and "BITMASK_get 8 43 (MAKE_PTR gen ofs dev) = ofs"
    and "BITMASK_get 0 8 (MAKE_PTR gen ofs dev) = gen"
  by (rule bit_word_eqI; auto simp: bit_BITMASK_get MAKE_PTR_def bit_simps
      dest: bit_u64_bound [OF assms(1)] bit_u64_bound [OF assms(2)] bit_u64_bound [OF assms(3)])+

section \<open>Properties\<close>

lemma KEY_FIELDS_length: "length KEY_FIELDS = 8"
  by (simp add: KEY_FIELDS_def)

lemma KEY_FIELDS_frame_upt:
  "\<forall>i\<in>set [0..<8]. \<forall>j\<in>set [0..<8]. i \<noteq> j \<longrightarrow>
     fst (KEY_FIELDS ! i) (snd (KEY_FIELDS ! j) k v) = fst (KEY_FIELDS ! i) k"
  by (simp add: KEY_FIELDS_def upt_rec key_field_defs bitmask_laws)

text \<open>
  C7. The eight fields of a key do not disturb each other: writing any value, even one too wide
  for the field, through one generated setter leaves what every other getter reads unchanged.
\<close>

theorem key_fields_independent:
  assumes "i < length KEY_FIELDS" and "j < length KEY_FIELDS" and "i \<noteq> j"
  shows "fst (KEY_FIELDS ! i) (snd (KEY_FIELDS ! j) k v) = fst (KEY_FIELDS ! i) k"
  using KEY_FIELDS_frame_upt [of k v] assms by (simp add: KEY_FIELDS_length)

theorem key_fields_independent_witness:
  "KEY_SIZE (SET_KEY_INODE (KEY 5 100 7) 0xFFFFFFFF) = KEY_SIZE (KEY 5 100 7)"
  using key_fields_independent [of 5 6 "KEY 5 100 7" "0xFFFFFFFF"]
  by (simp add: KEY_FIELDS_def)

text \<open>
  C36. A key built by \<open>KEY\<close> reads back: for an inode of 20 bits and a size of 16 bits, the
  accessors return the inode, offset and size it was built from, and it has no pointers and is
  clean.
\<close>

theorem KEY_round_trip:
  assumes "inode \<le> MAX_KEY_INODE" and "unat sz < 2 ^ KEY_SIZE_BITS"
  shows "KEY_INODE (KEY inode ofs sz) = inode \<and> KEY_OFFSET (KEY inode ofs sz) = ofs \<and>
    KEY_SIZE (KEY inode ofs sz) = sz \<and> KEY_PTRS (KEY inode ofs sz) = 0 \<and>
    KEY_DIRTY (KEY inode ofs sz) = 0"
proof -
  have "unat inode < 2 ^ 20" and "unat sz < 2 ^ 16"
    using assms by (simp_all add: MAX_KEY_INODE_def word_le_nat_alt KEY_SIZE_BITS_def)
  then show ?thesis
    by (simp add: KEY_fields)
qed

theorem KEY_round_trip_witness:
  "KEY_INODE (KEY 0xFFFFF 4096 0xFFFF) = 0xFFFFF \<and> KEY_SIZE (KEY 0xFFFFF 4096 0xFFFF) = 0xFFFF"
  using KEY_round_trip [of "0xFFFFF" "0xFFFF" 4096] by (simp add: MAX_KEY_INODE_def KEY_SIZE_BITS_def)

text \<open>
  A pointer built by \<open>MAKE_PTR\<close> and stored in slot \<open>i\<close> of a key is read back by \<open>PTR_DEV\<close>,
  \<open>PTR_OFFSET\<close> and \<open>PTR_GEN\<close>; a slot the key does not have is an undefined access.
\<close>

lemma MAKE_PTR_round_trip:
  assumes "unat gen < 2 ^ 8" and "unat ofs < 2 ^ 43" and "unat dev \<le> unat PTR_CHECK_DEV"
  shows "(if i < length (ptr k)
    then (let k' = k\<lparr>ptr := (ptr k)[i := MAKE_PTR gen ofs dev]\<rparr>
          in PTR_DEV k' i = Some dev \<and> PTR_OFFSET k' i = Some ofs \<and> PTR_GEN k' i = Some gen)
    else PTR_DEV k i = None \<and> PTR_OFFSET k i = None \<and> PTR_GEN k i = None)"
proof -
  have "unat dev < 2 ^ 12"
    using assms(3) by (simp add: PTR_CHECK_DEV_def PTR_DEV_BITS_def)
  then show ?thesis
    using assms(1,2) by (simp add: PTR_DEV_def PTR_OFFSET_def PTR_GEN_def PTR_FIELD_get_def
        PTR_DEV_BITS_def MAKE_PTR_fields)
qed

lemma MAKE_PTR_round_trip_witness:
  "PTR_OFFSET \<lparr>high = 0, low = 0, ptr = [MAKE_PTR 3 1000 2]\<rparr> 0 = Some 1000"
  using MAKE_PTR_round_trip [of 3 1000 2 0 "\<lparr>high = 0, low = 0, ptr = [0]\<rparr>"]
  by (simp add: PTR_CHECK_DEV_def PTR_DEV_BITS_def Let_def)

text \<open>
  C32. The size of a key in 64-bit words is 2 to 9, so a key fits the 8 words of a \<open>BKEY_PADDED\<close>
  buffer exactly when it has at most 6 pointers: the 3-bit pointer count admits a seventh, for
  which \<open>bkey_copy\<close> writes 72 bytes into the 64-byte buffer.
\<close>

theorem bkey_fits_padding:
  "2 \<le> unat (bkey_u64s k) \<and> unat (bkey_u64s k) \<le> 9 \<and>
   (unat (bkey_bytes k) \<le> BKEY_PAD * 8 \<longleftrightarrow> unat (KEY_PTRS k) \<le> 6) \<and>
   (KEY_PTRS k = 7 \<longrightarrow> unat (bkey_bytes k) = 72)"
  using KEY_PTRS_le [of k] by (auto simp: unat_bkey_bytes unat_bkey_u64s BKEY_PAD_def)

theorem bkey_fits_padding_witness:
  "KEY_PTRS (SET_KEY_PTRS ZERO_KEY 7) = 7 \<and>
   unat (bkey_bytes (SET_KEY_PTRS ZERO_KEY 7)) = 72"
proof -
  have "KEY_PTRS (SET_KEY_PTRS ZERO_KEY 7) = 7"
    by (rule key_ptrs.round_trip) simp
  then show ?thesis
    using bkey_fits_padding [of "SET_KEY_PTRS ZERO_KEY 7"] by simp
qed

text \<open>
  \<open>bkey_copy_key\<close> makes the destination denote the position of the source (inode and end
  offset) and keeps everything else of the destination: its size, dirty flag, pointer count and
  pointers.
\<close>

lemma bkey_copy_key_spec:
  "KEY_INODE (bkey_copy_key dest src) = KEY_INODE src \<and>
   KEY_OFFSET (bkey_copy_key dest src) = KEY_OFFSET src \<and>
   KEY_SIZE (bkey_copy_key dest src) = KEY_SIZE dest \<and>
   KEY_DIRTY (bkey_copy_key dest src) = KEY_DIRTY dest \<and>
   KEY_PTRS (bkey_copy_key dest src) = KEY_PTRS dest \<and>
   ptr (bkey_copy_key dest src) = ptr dest"
proof -
  have "KEY_INODE (bkey_copy_key dest src) = take_bit 20 (KEY_INODE src)"
    by (simp add: bkey_copy_key_def inode_offset.frame key_inode.get_set)
  then show ?thesis
    by (simp add: key_inode.get_bounded)
      (simp add: bkey_copy_key_def key_field_defs bitmask_laws)
qed

text \<open>
  The extent of a key whose size does not exceed its offset is the sector range from
  \<open>KEY_START\<close> (the offset of \<open>START_KEY\<close>) to \<open>KEY_OFFSET\<close>, of exactly \<open>KEY_SIZE\<close> sectors; for a
  larger size the 64-bit subtraction wraps around.
\<close>

lemma START_KEY_extent:
  "KEY_INODE (START_KEY k) = KEY_INODE k \<and> KEY_SIZE (START_KEY k) = 0 \<and>
   (if unat (KEY_SIZE k) \<le> unat (KEY_OFFSET k)
    then unat (KEY_OFFSET (START_KEY k)) + unat (KEY_SIZE k) = unat (KEY_OFFSET k)
    else unat (KEY_OFFSET (START_KEY k)) = unat (KEY_OFFSET k) + 2 ^ 64 - unat (KEY_SIZE k))"
proof -
  have "KEY_INODE (START_KEY k) = KEY_INODE k" and "KEY_SIZE (START_KEY k) = 0"
    and ofs: "KEY_OFFSET (START_KEY k) = KEY_OFFSET k - KEY_SIZE k"
    using key_inode.get_less [of k]
    by (simp_all add: START_KEY_def KEY_START_def KEY_fields)
  then show ?thesis
    using unat_sub_if_size [of "KEY_OFFSET k" "KEY_SIZE k"] by (simp add: word_size)
qed

text \<open>
  The three structure magics of one cache set are pairwise different, each identifies the
  cache set (equal magics mean equal \<open>set_magic\<close>), and the magic of one structure kind never
  equals another kind's of the same set.
\<close>

lemma magics_identify:
  "distinct [jset_magic sb, pset_magic sb, bset_magic sb] \<and>
   (jset_magic sb = jset_magic sb' \<longleftrightarrow> set_magic sb = set_magic sb') \<and>
   (pset_magic sb = pset_magic sb' \<longleftrightarrow> set_magic sb = set_magic sb') \<and>
   (bset_magic sb = bset_magic sb' \<longleftrightarrow> set_magic sb = set_magic sb')"
proof -
  have x: "a XOR b = a XOR c \<longleftrightarrow> b = c" "b XOR a = c XOR a \<longleftrightarrow> b = c" for a b c :: u64
    by (metis xor.left_commute xor_self_eq xor.right_neutral xor.commute)+
  show ?thesis
    by (simp add: jset_magic_def pset_magic_def bset_magic_def x
        JSET_MAGIC_def PSET_MAGIC_def BSET_MAGIC_def)
qed

end
