(* ===== verification/Sensor_Notifier.thy ===== *)
theory Sensor_Notifier
  imports Prelude
begin

unbundle bit_operations_syntax

text \<open>
  The sensor notifier daemon of \<^verbatim>\<open>sensors/\<close>: \<open>SensorNotifier\<close> finds the wake-up sensor and its
  event queue, \<open>activate\<close> and \<open>deactivate\<close> start and join a worker thread, and
  \<open>NonUiNotifier::notify\<close>, run by that thread, opens three touchscreen attributes, polls them and
  switches the sensor on or off.

  The sequential code (\<open>initializeSensorQueue\<close>, \<open>readBool\<close>, the scan of the attributes, the
  constructor, \<open>main\<close>) is a set of functions.  The interplay of the main thread and the worker is
  a step relation on the shared object: one rule per atomic action, with the results of system
  calls (\<open>open\<close>, \<open>poll\<close>, the attribute values) chosen by the environment.  \<open>mActive\<close> is a plain
  \<open>bool\<close> in the source; the model gives its accesses an interleaving semantics.  The sensor
  service and the event queue are outside the repository: the service is a record of the answers
  its calls deliver, the queue the trace of the calls it receives.
\<close>

section \<open>Sensor service and the notifier object\<close>

datatype Result = OK | NOT_EXIST | BAD_VALUE

record SensorInfo =
  typeAsString :: string
  sensorHandle :: int
  sensor_flags :: u32

definition WAKE_UP :: u32 where
  "WAKE_UP = 1"

text \<open>
  What \<open>getSensorList\<close> and \<open>createEventQueue\<close> pass to their callbacks; a queue is a number.  They are
  called in the constructor only: a failure of their transport ends the process there, before any of
  the runs below starts.
\<close>

record ISensorManager =
  getSensorList :: "SensorInfo list \<times> Result"
  createEventQueue :: "nat option \<times> Result"

datatype queue_call =
    EnableSensor int nat nat
  | DisableSensor int

text \<open>Where the worker is in \<open>NonUiNotifier::notify\<close>.\<close>

datatype wpc =
    Opening nat        \<comment> \<open>about to open path number i\<close>
  | AtWhile            \<comment> \<open>at the test of \<open>while (mActive)\<close>\<close>
  | Polling            \<comment> \<open>inside \<open>poll (..., -1)\<close>\<close>
  | Scanning           \<comment> \<open>reading the attributes\<close>
  | Applying bool      \<comment> \<open>about to enable or disable the sensor\<close>

text \<open>\<open>mThread\<close>: no thread, a thread at a program point, or a finished thread not joined yet.\<close>

datatype thread = NoThread | Worker wpc | Exited

text \<open>
  Why the process died: a joinable \<open>std::thread\<close> was destroyed or overwritten; a method was called on
  the null queue; \<open>std::thread\<close> could not start a thread; \<open>new pollfd []\<close> found no memory; or a call of
  the sensor service failed in transport, which its unchecked \<open>Return\<close> object turns into an abort.
\<close>

datatype failure = StdTerminate | NullQueue | ThreadError | AllocError | TransportError

text \<open>
  Where the main thread is: between calls, in \<open>deactivate\<close> at the join, in \<open>deactivate\<close> before the
  final \<open>disableSensor\<close> (the flag says whether the call comes from the destructor), after the
  destructor, or the process has died.
\<close>

datatype mpc = Idle | Joining bool | Disabling bool | Destroyed | Died failure

record SensorNotifier =
  mQueue :: "nat option"
  mSensorHandle :: int
  mActive :: bool
  mThread :: thread

record sys = SensorNotifier +
  main_pc :: mpc
  calls :: "queue_call list"
  open_fds :: nat
  starts :: nat
  open_failed :: bool
  ready :: nat

section \<open>Sequential operations\<close>

definition new_notifier :: SensorNotifier where
  "new_notifier = \<lparr>mQueue = None, mSensorHandle = -1, mActive = False, mThread = NoThread\<rparr>"

definition initializeSensorQueue ::
    "ISensorManager \<Rightarrow> string \<Rightarrow> bool \<Rightarrow> SensorNotifier \<Rightarrow> Result \<times> SensorNotifier" where
  "initializeSensorQueue manager ty wakeup n =
     (let (sensorList, res) = getSensorList manager
      in if res \<noteq> OK then (res, n)
         else case find (\<lambda>sensor. typeAsString sensor = ty \<and>
                    sensor_flags sensor AND WAKE_UP = (if wakeup then 1 else 0)) sensorList of
           None \<Rightarrow> (NOT_EXIST, n)
         | Some it \<Rightarrow>
             (let n = n\<lparr>mSensorHandle := sensorHandle it\<rparr>;
                  (q, res) = createEventQueue manager;
                  n = n\<lparr>mQueue := q\<rparr>
              in if res \<noteq> OK then (res, n) else (OK, n)))"

text \<open>The constructor of \<open>NonUiNotifier\<close> drops the result of \<open>initializeSensorQueue\<close>.\<close>

definition NonUiNotifier :: "ISensorManager \<Rightarrow> SensorNotifier" where
  "NonUiNotifier manager =
     snd (initializeSensorQueue manager ''xiaomi.sensor.nonui'' True new_notifier)"

text \<open>\<open>readBool\<close> over the results of \<open>lseek\<close> and \<open>read\<close> on the descriptor.\<close>

definition readBool :: "(int \<Rightarrow> int) \<Rightarrow> (int \<Rightarrow> int \<times> char) \<Rightarrow> int \<Rightarrow> bool" where
  "readBool os_lseek os_read fd =
     (if os_lseek fd \<noteq> 0 then False
      else let (rc, c) = os_read fd
           in if rc \<noteq> 1 then False else c \<noteq> CHR ''0'')"

definition paths :: "string list" where
  "paths = [''/sys/class/touch/touch_dev/fod_longpress_gesture_enabled'',
            ''/sys/class/touch/touch_dev/gesture_single_tap_enabled'',
            ''/sys/class/touch/touch_dev/gesture_double_tap_enabled'']"

text \<open>
  The \<open>for\<close> loop of \<open>notify\<close> over the descriptors: \<open>enabled = enabled || readBool (fd)\<close>.  The
  second component lists the descriptors that are read; the others are skipped by \<open>||\<close>.
\<close>

fun scan_enabled :: "(int \<Rightarrow> bool) \<Rightarrow> bool \<Rightarrow> int list \<Rightarrow> bool \<times> int list" where
  "scan_enabled rd enabled [] = (enabled, [])"
| "scan_enabled rd enabled (fd # fds) =
     (if enabled then scan_enabled rd enabled fds
      else let (e, used) = scan_enabled rd (rd fd) fds in (e, fd # used))"

record touch_mode_request =
  tm_mode :: int
  tm_value :: int

definition TOUCH_MODE_NONUI_MODE :: int where
  "TOUCH_MODE_NONUI_MODE = 20"

definition TOUCH_IOC_SET_CUR_VALUE :: nat where
  "TOUCH_IOC_SET_CUR_VALUE = 0"

text \<open>
  The callback of the event queue holds the descriptor of the touch device. Its constructor takes
  what \<open>open\<close> returns, a failed one is only logged. \<open>onEvent\<close>: the ioctl it issues, for the scalar of
  the event already converted to \<open>int\<close>.
\<close>

record NonUiSensorCallback =
  touch_fd :: int

definition kTouchDevice :: string where
  "kTouchDevice = ''/dev/xiaomi-touch''"

definition new_NonUiSensorCallback :: "(string \<Rightarrow> int) \<Rightarrow> NonUiSensorCallback" where
  "new_NonUiSensorCallback os_open = \<lparr>touch_fd = os_open kTouchDevice\<rparr>"

definition onEvent :: "NonUiSensorCallback \<Rightarrow> int \<Rightarrow> int \<times> nat \<times> touch_mode_request" where
  "onEvent cb scalar =
     (touch_fd cb, TOUCH_IOC_SET_CUR_VALUE, \<lparr>tm_mode = TOUCH_MODE_NONUI_MODE, tm_value = scalar\<rparr>)"

section \<open>The daemon as a transition system\<close>

definition start_sys :: "SensorNotifier \<Rightarrow> sys" where
  "start_sys n = \<lparr>mQueue = mQueue n, mSensorHandle = mSensorHandle n, mActive = mActive n,
     mThread = mThread n, main_pc = Idle, calls = [], open_fds = 0, starts = 0,
     open_failed = False, ready = 0\<rparr>"

text \<open>
  \<open>activate\<close>: returns when already active; the assignment to a joinable \<open>std::thread\<close> calls
  \<open>std::terminate\<close>. That the thread cannot be started is a rule of \<open>fault_step\<close> below.
\<close>

definition activate :: "sys \<Rightarrow> sys" where
  "activate s =
     (if mActive s then s
      else let s = s\<lparr>mActive := True\<rparr>
           in if mThread s \<noteq> NoThread then s\<lparr>main_pc := Died StdTerminate\<rparr>
              else s\<lparr>mThread := Worker (Opening 0), starts := starts s + 1\<rparr>)"

text \<open>
  \<open>main\<close>: without a sensor service the exit code 1, else the daemon after the constructor and
  \<open>activate\<close>; it then sleeps for ever.
\<close>

definition daemon_main :: "ISensorManager option \<Rightarrow> int + sys" where
  "daemon_main service =
     (case service of
        None \<Rightarrow> Inl 1
      | Some manager \<Rightarrow> Inr (activate (start_sys (NonUiNotifier manager))))"

text \<open>
  \<open>deactivate\<close> up to the join, and what follows a return of it: nothing, or, in the destructor,
  the release of \<open>mQueue\<close> by \<open>~SensorNotifier\<close> and the destructor of \<open>mThread\<close>, which calls
  \<open>std::terminate\<close> on a joinable thread.
\<close>

definition after_deactivate :: "bool \<Rightarrow> sys \<Rightarrow> sys" where
  "after_deactivate in_dtor s =
     (if \<not> in_dtor then s\<lparr>main_pc := Idle\<rparr>
      else let s = s\<lparr>mQueue := None\<rparr>
           in if mThread s \<noteq> NoThread then s\<lparr>main_pc := Died StdTerminate\<rparr>
              else s\<lparr>main_pc := Destroyed\<rparr>)"

definition deactivate_begin :: "bool \<Rightarrow> sys \<Rightarrow> sys" where
  "deactivate_begin in_dtor s =
     (if \<not> mActive s then after_deactivate in_dtor s
      else let s = s\<lparr>mActive := False\<rparr>
           in if mThread s \<noteq> NoThread then s\<lparr>main_pc := Joining in_dtor\<rparr>
              else s\<lparr>main_pc := Disabling in_dtor\<rparr>)"

text \<open>The destructor of \<open>NonUiNotifier\<close>.\<close>

definition destroy_NonUiNotifier :: "sys \<Rightarrow> sys" where
  "destroy_NonUiNotifier s = deactivate_begin True s"

definition deactivate_end :: "bool \<Rightarrow> sys \<Rightarrow> sys" where
  "deactivate_end in_dtor s =
     (case mQueue s of
        None \<Rightarrow> after_deactivate in_dtor s
      | Some _ \<Rightarrow> after_deactivate in_dtor
          (s\<lparr>calls := calls s @ [DisableSensor (mSensorHandle s)]\<rparr>))"

text \<open>
  The call on \<open>mQueue\<close> at the end of an iteration; a null queue is dereferenced. That the call fails in
  transport is a rule of \<open>fault_step\<close> below.
\<close>

definition apply_enabled :: "bool \<Rightarrow> sys \<Rightarrow> sys" where
  "apply_enabled enabled s =
     (case mQueue s of
        None \<Rightarrow> s\<lparr>main_pc := Died NullQueue\<rparr>
      | Some _ \<Rightarrow> s\<lparr>mThread := Worker AtWhile,
          calls := calls s @ [if enabled then EnableSensor (mSensorHandle s) 20000 0
                              else DisableSensor (mSensorHandle s)]\<rparr>)"

text \<open>
  The result of \<open>poll\<close> for a timeout and a number of ready descriptors: an error, or the number; no
  descriptor is ready only when a timeout that is not negative has passed. \<open>notify\<close> waits without
  a timeout.
\<close>

definition poll_result :: "int \<Rightarrow> nat \<Rightarrow> int \<Rightarrow> bool" where
  "poll_result timeout n rc \<longleftrightarrow> rc < 0 \<or> rc = int n \<and> n \<le> length paths \<and> (0 < n \<or> 0 \<le> timeout)"

definition poll_timeout :: int where
  "poll_timeout = -1"

inductive worker_step :: "sys \<Rightarrow> sys \<Rightarrow> bool" where
  open_ok: "mThread s = Worker (Opening i) \<Longrightarrow> i < length paths \<Longrightarrow>
     worker_step s (s\<lparr>mThread := Worker (Opening (i + 1)), open_fds := open_fds s + 1\<rparr>)"
| open_error: "mThread s = Worker (Opening i) \<Longrightarrow> i < length paths \<Longrightarrow>
     worker_step s (s\<lparr>mActive := False, mThread := Exited, open_failed := True\<rparr>)"
| opened: "mThread s = Worker (Opening i) \<Longrightarrow> i = length paths \<Longrightarrow>
     worker_step s (s\<lparr>mThread := Worker AtWhile\<rparr>)"
| while_true: "mThread s = Worker AtWhile \<Longrightarrow> mActive s \<Longrightarrow>
     worker_step s (s\<lparr>mThread := Worker Polling\<rparr>)"
| while_false: "mThread s = Worker AtWhile \<Longrightarrow> \<not> mActive s \<Longrightarrow>
     worker_step s (s\<lparr>mThread := Exited\<rparr>)"
| poll_error: "mThread s = Worker Polling \<Longrightarrow> poll_result poll_timeout n rc \<Longrightarrow> rc < 0 \<Longrightarrow>
     worker_step s (s\<lparr>mThread := Worker AtWhile\<rparr>)"
| poll_ok: "mThread s = Worker Polling \<Longrightarrow> poll_result poll_timeout n rc \<Longrightarrow> \<not> rc < 0 \<Longrightarrow>
     worker_step s (s\<lparr>mThread := Worker Scanning, ready := n\<rparr>)"
| scan: "mThread s = Worker Scanning \<Longrightarrow> length fds = length paths \<Longrightarrow>
     worker_step s (s\<lparr>mThread := Worker (Applying (fst (scan_enabled rd False fds)))\<rparr>)"
| apply_queue: "mThread s = Worker (Applying e) \<Longrightarrow> worker_step s (apply_enabled e s)"

inductive main_step :: "sys \<Rightarrow> sys \<Rightarrow> bool" where
  call_activate: "main_pc s = Idle \<Longrightarrow> main_step s (activate s)"
| call_deactivate: "main_pc s = Idle \<Longrightarrow> main_step s (deactivate_begin False s)"
| call_destructor: "main_pc s = Idle \<Longrightarrow> main_step s (destroy_NonUiNotifier s)"
| join: "main_pc s = Joining in_dtor \<Longrightarrow> mThread s = Exited \<Longrightarrow>
     main_step s (s\<lparr>mThread := NoThread, main_pc := Disabling in_dtor\<rparr>)"
| finish: "main_pc s = Disabling in_dtor \<Longrightarrow> main_step s (deactivate_end in_dtor s)"

text \<open>
  A dead process takes no step; the worker of a live one runs at any time. These are the steps of a
  process whose platform does not fail.
\<close>

definition step :: "sys \<Rightarrow> sys \<Rightarrow> bool" where
  "step s t \<longleftrightarrow> (\<nexists>e. main_pc s = Died e) \<and> (worker_step s t \<or> main_step s t)"

text \<open>
  The failures of the platform, each of which ends the process: \<open>activate\<close> cannot start the thread
  (\<open>mActive\<close> is already set and \<open>mThread\<close> unchanged when the constructor of \<open>std::thread\<close> throws), \<open>notify\<close>
  gets no memory for its descriptors, or a call on the queue fails in transport, in \<open>notify\<close> or in
  \<open>deactivate\<close>.
\<close>

inductive fault_step :: "sys \<Rightarrow> sys \<Rightarrow> bool" where
  thread_error: "main_pc s = Idle \<Longrightarrow> \<not> mActive s \<Longrightarrow>
     fault_step s (s\<lparr>mActive := True, main_pc := Died ThreadError\<rparr>)"
| alloc_error: "mThread s = Worker (Opening 0) \<Longrightarrow> fault_step s (s\<lparr>main_pc := Died AllocError\<rparr>)"
| transport_worker: "mThread s = Worker (Applying e) \<Longrightarrow> mQueue s \<noteq> None \<Longrightarrow>
     fault_step s (s\<lparr>main_pc := Died TransportError\<rparr>)"
| transport_main: "main_pc s = Disabling in_dtor \<Longrightarrow> mQueue s \<noteq> None \<Longrightarrow>
     fault_step s (s\<lparr>main_pc := Died TransportError\<rparr>)"

inductive_cases fault_stepE: "fault_step s t"

definition daemon_step :: "sys \<Rightarrow> sys \<Rightarrow> bool" where
  "daemon_step s t \<longleftrightarrow> step s t \<or> (\<nexists>e. main_pc s = Died e) \<and> fault_step s t"

definition reachable :: "SensorNotifier \<Rightarrow> sys \<Rightarrow> bool" where
  "reachable n s \<longleftrightarrow> step\<^sup>*\<^sup>* (start_sys n) s"

inductive_cases worker_stepE: "worker_step s t"
inductive_cases main_stepE: "main_step s t"

definition notifier_inv :: "nat option \<Rightarrow> int \<Rightarrow> sys \<Rightarrow> bool" where
  "notifier_inv q h s \<longleftrightarrow>
     mSensorHandle s = h \<and>
     (\<forall>i. mThread s = Worker (Opening i) \<longrightarrow> i \<le> length paths) \<and>
     (case main_pc s of
        Idle \<Rightarrow> mQueue s = q \<and> (mActive s \<longleftrightarrow> (\<exists>p. mThread s = Worker p)) \<and>
          (mThread s = Exited \<longrightarrow> open_failed s)
      | Joining _ \<Rightarrow> mQueue s = q \<and> \<not> mActive s \<and> mThread s \<noteq> NoThread
      | Disabling _ \<Rightarrow> mQueue s = q \<and> \<not> mActive s \<and> mThread s = NoThread
      | Destroyed \<Rightarrow> \<not> mActive s \<and> mThread s = NoThread
      | Died StdTerminate \<Rightarrow> open_failed s
      | Died NullQueue \<Rightarrow> q = None
      | Died _ \<Rightarrow> False)"

lemmas sys_ops = destroy_NonUiNotifier_def activate_def deactivate_begin_def deactivate_end_def after_deactivate_def
  apply_enabled_def Let_def

lemma worker_step_inv:
  "worker_step s t \<Longrightarrow> \<nexists>e. main_pc s = Died e \<Longrightarrow> notifier_inv q h s \<Longrightarrow> notifier_inv q h t"
  by (erule worker_stepE)
    (auto simp: notifier_inv_def sys_ops split: mpc.splits option.splits failure.splits)

lemma main_step_inv:
  "main_step s t \<Longrightarrow> notifier_inv q h s \<Longrightarrow> notifier_inv q h t"
  by (cases "mThread s"; erule main_stepE)
    (auto simp: notifier_inv_def sys_ops split: mpc.splits option.splits failure.splits)

interpretation notifier: inductive_invariant step "notifier_inv q h" for q h
  by unfold_locales (auto simp: step_def intro: worker_step_inv main_step_inv)

lemma start_inv:
  "\<not> mActive n \<Longrightarrow> mThread n = NoThread \<Longrightarrow>
   notifier_inv (mQueue n) (mSensorHandle n) (start_sys n)"
  by (simp add: notifier_inv_def start_sys_def)

lemma reachable_inv:
  "reachable n s \<Longrightarrow> \<not> mActive n \<Longrightarrow> mThread n = NoThread \<Longrightarrow>
   notifier_inv (mQueue n) (mSensorHandle n) s"
  unfolding reachable_def by (rule notifier.run_inv) (auto intro: start_inv)

text \<open>
  Descriptors: every start of the worker opens the paths one by one until an \<open>open\<close> fails, and nothing
  closes them. The first definition counts those that the present start has still to open.
\<close>

definition opened_missing :: "sys \<Rightarrow> nat" where
  "opened_missing s = (case mThread s of Worker (Opening i) \<Rightarrow> length paths - i | _ \<Rightarrow> 0)"

definition fd_inv :: "sys \<Rightarrow> bool" where
  "fd_inv s \<longleftrightarrow>
     opened_missing s \<le> length paths \<and>
     open_fds s + opened_missing s \<le> length paths * starts s \<and>
     (\<not> open_failed s \<longrightarrow> open_fds s + opened_missing s = length paths * starts s)"

lemma step_fd_inv: "step s t \<Longrightarrow> fd_inv s \<Longrightarrow> fd_inv t"
  unfolding step_def
  by (elim conjE disjE worker_stepE main_stepE)
    (auto simp: fd_inv_def opened_missing_def sys_ops paths_def split: thread.splits wpc.splits option.splits)

lemma step_keeps_fds: "step s t \<Longrightarrow> open_fds s \<le> open_fds t"
  unfolding step_def
  by (elim conjE disjE worker_stepE main_stepE) (auto simp: sys_ops split: option.splits)

interpretation fds: inductive_invariant step fd_inv
  by unfold_locales (rule step_fd_inv)

lemma reachable_fd_inv: "reachable n s \<Longrightarrow> mThread n = NoThread \<Longrightarrow> fd_inv s"
  unfolding reachable_def by (erule fds.run_inv) (simp add: fd_inv_def opened_missing_def start_sys_def)

text \<open>What the last successful \<open>poll\<close> has reported, while the worker acts on it.\<close>

definition poll_inv :: "sys \<Rightarrow> bool" where
  "poll_inv s \<longleftrightarrow>
     (mThread s = Worker Scanning \<or> (\<exists>e. mThread s = Worker (Applying e)) \<longrightarrow>
      0 < ready s \<and> ready s \<le> length paths)"

lemma step_poll_inv: "step s t \<Longrightarrow> poll_inv s \<Longrightarrow> poll_inv t"
  unfolding step_def
  by (elim conjE disjE worker_stepE main_stepE)
    (auto simp: poll_inv_def poll_result_def poll_timeout_def sys_ops split: option.splits)

interpretation polls: inductive_invariant step poll_inv
  by unfold_locales (rule step_poll_inv)

lemma reachable_poll_inv: "reachable n s \<Longrightarrow> mThread n = NoThread \<Longrightarrow> poll_inv s"
  unfolding reachable_def by (erule polls.run_inv) (simp add: poll_inv_def start_sys_def)

text \<open>
  How many worker steps are left before the worker has exited, once \<open>mActive\<close> is false.
\<close>

fun worker_rank :: "thread \<Rightarrow> nat" where
  "worker_rank (Worker (Opening i)) = 3 + (length paths - i)"
| "worker_rank (Worker Polling) = 4"
| "worker_rank (Worker Scanning) = 3"
| "worker_rank (Worker (Applying _)) = 2"
| "worker_rank (Worker AtWhile) = 1"
| "worker_rank _ = 0"

lemma worker_rank_decreases:
  assumes "worker_step s t" and "\<not> mActive s" and "mQueue s \<noteq> None"
  shows "worker_rank (mThread t) < worker_rank (mThread s) \<and> \<not> mActive t \<and> mQueue t \<noteq> None \<and>
    main_pc t = main_pc s \<and> mThread t \<noteq> NoThread"
  using assms by (elim worker_stepE) (auto simp: apply_enabled_def)

lemma worker_can_step:
  assumes "mThread s = Worker p" and "\<And>i. p = Opening i \<Longrightarrow> i \<le> length paths"
  shows "\<exists>t. worker_step s t"
proof (cases p)
  case (Opening i)
  then show ?thesis
    using assms worker_step.opened [of s i] worker_step.open_error [of s i]
    by (cases "i = length paths") fastforce+
next
  case AtWhile
  then show ?thesis
    using assms by (cases "mActive s") (auto intro: worker_step.while_true worker_step.while_false)
next
  case Scanning
  with assms(1) have "worker_step s (s\<lparr>mThread := Worker (Applying (fst (scan_enabled (\<lambda>_. False) False [0, 0, 0])))\<rparr>)"
    by (intro worker_step.scan) (simp_all add: paths_def)
  then show ?thesis by blast
next
  case Polling
  with assms(1) have "worker_step s (s\<lparr>mThread := Worker AtWhile\<rparr>)"
    by (intro worker_step.poll_error [of s 0 "-1"]) (simp_all add: poll_result_def)
  then show ?thesis by blast
qed (use assms in \<open>auto intro: worker_step.apply_queue\<close>)

text \<open>Runs of the worker alone.\<close>

lemma worker_run_bounded:
  assumes "(worker_step ^^ k) s t" and "\<not> mActive s" and "mQueue s \<noteq> None"
  shows "k + worker_rank (mThread t) \<le> worker_rank (mThread s) \<and> \<not> mActive t \<and>
    mQueue t \<noteq> None \<and> main_pc t = main_pc s"
  using assms
proof (induction k arbitrary: t)
  case 0
  then show ?case by simp
next
  case (Suc k)
  then obtain u where u: "(worker_step ^^ k) s u" and ut: "worker_step u t"
    by auto
  note IH = Suc.IH [OF u Suc.prems(2,3)]
  with worker_rank_decreases [OF ut] show ?case by auto
qed

lemma worker_run_inv:
  assumes "(worker_step ^^ k) s t" and "\<not> mActive s" and "mQueue s \<noteq> None"
    and "notifier_inv q h s" and "main_pc s = Joining in_dtor"
  shows "notifier_inv q h t"
  using assms(1)
proof (induction k arbitrary: t)
  case 0
  then show ?case using assms(4) by simp
next
  case (Suc k)
  then obtain u where u: "(worker_step ^^ k) s u" "worker_step u t" by auto
  have "main_pc u = Joining in_dtor"
    using worker_run_bounded [OF u(1) assms(2,3)] assms(5) by simp
  with u Suc.IH show ?case by (auto intro: worker_step_inv)
qed

lemma worker_rank_le: "worker_rank x \<le> 6"
  by (cases x rule: worker_rank.cases) (auto simp: paths_def)

lemma scan_enabled_True: "scan_enabled rd True fds = (True, [])"
  by (induction fds) auto

lemma scan_enabled_fst: "fst (scan_enabled rd False fds) \<longleftrightarrow> (\<exists>fd\<in>set fds. rd fd)"
proof (induction fds)
  case (Cons fd fds)
  then show ?case
    by (cases "rd fd") (auto simp: scan_enabled_True split: prod.splits)
qed simp

lemma scan_enabled_snd:
  "snd (scan_enabled rd False fds) =
     (let off = takeWhile (\<lambda>fd. \<not> rd fd) fds
      in if length off < length fds then off @ [fds ! length off] else off)"
proof (induction fds)
  case (Cons fd fds)
  then show ?case
    by (cases "rd fd") (auto simp: scan_enabled_True Let_def split: prod.splits)
qed simp

section \<open>Properties\<close>

lemma run_step: "reachable n s \<Longrightarrow> step s t \<Longrightarrow> reachable n t"
  unfolding reachable_def by (rule rtranclp.rtrancl_into_rtrancl)

lemma worker_run_step:
  "reachable n s \<Longrightarrow> worker_step s t \<Longrightarrow> \<nexists>e. main_pc s = Died e \<Longrightarrow> reachable n t"
  by (erule run_step) (simp add: step_def)

lemma main_run_step:
  "reachable n s \<Longrightarrow> main_step s t \<Longrightarrow> \<nexists>e. main_pc s = Died e \<Longrightarrow> reachable n t"
  by (erule run_step) (simp add: step_def)

text \<open>
  Runs for the witnesses: activation, a failing first \<open>open\<close>, and a \<open>deactivate\<close> up to its last
  request.
\<close>

definition example_notifier :: SensorNotifier where
  "example_notifier = \<lparr>mQueue = Some 0, mSensorHandle = 7, mActive = False, mThread = NoThread\<rparr>"

lemma reachable_activated:
  assumes "\<not> mActive n" and "mThread n = NoThread"
  shows "reachable n (activate (start_sys n))"
proof (rule main_run_step)
  show "reachable n (start_sys n)" by (simp add: reachable_def)
  show "main_step (start_sys n) (activate (start_sys n))"
    by (rule main_step.call_activate) (simp add: start_sys_def)
qed (simp add: start_sys_def)

lemma reachable_open_error:
  assumes "\<not> mActive n" and "mThread n = NoThread"
  shows "reachable n ((activate (start_sys n))\<lparr>mActive := False, mThread := Exited, open_failed := True\<rparr>)"
proof (rule worker_run_step [OF reachable_activated [OF assms]])
  show "worker_step (activate (start_sys n))
      ((activate (start_sys n))\<lparr>mActive := False, mThread := Exited, open_failed := True\<rparr>)"
    by (rule worker_step.open_error [where i = 0]) (use assms in \<open>simp_all add: activate_def start_sys_def paths_def\<close>)
qed (use assms in \<open>simp add: activate_def start_sys_def\<close>)

definition example_joined :: sys where
  "example_joined = \<lparr>mQueue = Some 0, mSensorHandle = 7, mActive = False, mThread = NoThread,
     main_pc = Disabling False, calls = [], open_fds = 0, starts = 1, open_failed = True, ready = 0\<rparr>"

lemma reachable_example_joined: "reachable example_notifier example_joined"
proof -
  let ?a = "activate (start_sys example_notifier)"
  let ?b = "deactivate_begin False ?a"
  let ?c = "?b\<lparr>mActive := False, mThread := Exited, open_failed := True\<rparr>"
  let ?d = "?c\<lparr>mThread := NoThread, main_pc := Disabling False\<rparr>"
  note ex = example_notifier_def start_sys_def activate_def deactivate_begin_def
  have a: "reachable example_notifier ?a"
    by (rule reachable_activated) (simp_all add: example_notifier_def)
  have b: "reachable example_notifier ?b"
    by (rule main_run_step [OF a main_step.call_deactivate]) (simp_all add: ex)
  have c: "reachable example_notifier ?c"
    by (rule worker_run_step [OF b worker_step.open_error [where i = 0]]) (simp_all add: ex paths_def)
  have "reachable example_notifier ?d"
    by (rule main_run_step [OF c main_step.join]) (simp_all add: ex)
  then show ?thesis
    by (simp add: ex example_joined_def)
qed

lemma reachable_daemon: "reachable n s \<Longrightarrow> daemon_step\<^sup>*\<^sup>* (start_sys n) s"
  unfolding reachable_def by (erule rtranclp_mono [THEN predicate2D, rotated]) (auto simp: daemon_step_def)

text \<open>
  A run with failures of the platform is a run without them, or ends with the first of them.
\<close>

lemma daemon_run_cases:
  assumes "daemon_step\<^sup>*\<^sup>* (start_sys n) s"
  shows "reachable n s \<or> (\<exists>u e. reachable n u \<and> (\<nexists>e. main_pc u = Died e) \<and> fault_step u s \<and> main_pc s = Died e)"
  using assms
proof (induction rule: rtranclp_induct)
  case base
  show ?case by (simp add: reachable_def)
next
  case (step t u)
  have "main_pc v = Died e \<Longrightarrow> \<not> daemon_step v w" for v w e
    by (simp add: daemon_step_def step_def)
  with step have t: "reachable n t" by blast
  from step.hyps(2) show ?case
  proof (cases "step t u")
    case True
    then show ?thesis using run_step [OF t] by blast
  next
    case False
    with step.hyps(2) have "\<nexists>e. main_pc t = Died e" "fault_step t u"
      by (auto simp: daemon_step_def)
    moreover from this(2) have "\<exists>e. main_pc u = Died e"
      by (auto elim: fault_stepE)
    ultimately show ?thesis using t by blast
  qed
qed

text \<open>
  C10. Why the daemon dies, with failures of the platform included: with \<open>std::terminate\<close> over a joinable
  thread only after some \<open>open\<close> of an attribute has failed; by the null queue only when the
  initialisation left none; for want of a thread only in an \<open>activate\<close> that finds no running worker;
  for want of memory only before the worker opens its first attribute; and by a failed call only with
  a queue, at the worker's request or after the join. So a daemon with a queue, on a platform that
  does not fail and lets it open its attributes, never dies, whatever the interleaving.
\<close>

theorem death_has_a_cause:
  assumes "daemon_step\<^sup>*\<^sup>* (start_sys n) s" and "\<not> mActive n" and "mThread n = NoThread"
    and "main_pc s = Died e"
  shows "case e of
      StdTerminate \<Rightarrow> open_failed s
    | NullQueue \<Rightarrow> mQueue n = None
    | ThreadError \<Rightarrow> mThread s = NoThread \<or> mThread s = Exited \<and> open_failed s
    | AllocError \<Rightarrow> mThread s = Worker (Opening 0)
    | TransportError \<Rightarrow> mQueue n \<noteq> None \<and> (mThread s = NoThread \<or> (\<exists>e. mThread s = Worker (Applying e)))"
proof -
  consider "reachable n s"
    | u where "reachable n u" "\<nexists>e. main_pc u = Died e" "fault_step u s"
    using daemon_run_cases [OF assms(1)] by blast
  then show ?thesis
  proof cases
    case 1
    then show ?thesis
      using reachable_inv [OF 1 assms(2,3)] assms(4) by (cases e) (simp_all add: notifier_inv_def)
  next
    case 2
    then show ?thesis
      using reachable_inv [OF 2(1) assms(2,3)] assms(4)
      by (elim fault_stepE; cases "mThread u")
        (auto simp: notifier_inv_def dest!: sym [of "Some _"] split: mpc.splits failure.splits)
  qed
qed

theorem death_has_a_cause_witness:
  "daemon_step\<^sup>*\<^sup>* (start_sys example_notifier)
     ((activate (start_sys example_notifier))\<lparr>main_pc := Died AllocError\<rparr>) \<and>
   mThread (activate (start_sys example_notifier)) = Worker (Opening 0)"
proof -
  let ?s = "activate (start_sys example_notifier)"
  have e: "\<not> mActive example_notifier" "mThread example_notifier = NoThread"
    by (simp_all add: example_notifier_def)
  have s: "mThread ?s = Worker (Opening 0)" "main_pc ?s = Idle"
    using e by (simp_all add: activate_def start_sys_def)
  have "daemon_step (start_sys example_notifier) ?s"
    unfolding daemon_step_def step_def
    using main_step.call_activate [of "start_sys example_notifier"] by (simp add: start_sys_def)
  moreover have "daemon_step ?s (?s\<lparr>main_pc := Died AllocError\<rparr>)"
    unfolding daemon_step_def using fault_step.alloc_error [OF s(1)] s(2) by simp
  ultimately have run: "daemon_step\<^sup>*\<^sup>* (start_sys example_notifier) (?s\<lparr>main_pc := Died AllocError\<rparr>)"
    by (meson converse_rtranclp_into_rtranclp r_into_rtranclp)
  from death_has_a_cause [OF this e, of AllocError] run show ?thesis by simp
qed

text \<open>
  C25. What a failed \<open>open\<close> leads to. While the main thread is between calls and the worker opens an
  attribute, the worker can exit in one step, and whenever it does, an \<open>open\<close> has failed: \<open>mActive\<close> is
  clear, every later \<open>deactivate\<close> returns early without joining the thread, and the only states the
  daemon can still reach are this one and the death by \<open>std::terminate\<close>, to which both a second
  \<open>activate\<close> and the destructor lead.
\<close>

theorem open_failure_terminates:
  assumes "main_pc s = Idle" and "mThread s = Worker (Opening i)" and "i < length paths"
  shows "(\<exists>t. step s t \<and> mThread t = Exited) \<and>
    (\<forall>t. step s t \<and> mThread t = Exited \<longrightarrow>
      open_failed t \<and> \<not> mActive t \<and> deactivate_begin False t = t \<and>
      main_pc (activate t) = Died StdTerminate \<and> main_pc (destroy_NonUiNotifier t) = Died StdTerminate \<and>
      (\<forall>u. step\<^sup>*\<^sup>* t u \<longrightarrow> u = t \<or> main_pc u = Died StdTerminate))"
proof -
  let ?t = "s\<lparr>mActive := False, mThread := Exited, open_failed := True\<rparr>"
  have fail: "step s ?t"
    using assms worker_step.open_error [of s i] by (simp add: step_def)
  have only: "t = ?t" if "step s t" "mThread t = Exited" for t
    using that assms unfolding step_def
    by (elim conjE disjE worker_stepE main_stepE) (auto simp: sys_ops split: if_splits option.splits)
  have t: "main_pc ?t = Idle" "deactivate_begin False ?t = ?t"
    "main_pc (activate ?t) = Died StdTerminate" "main_pc (destroy_NonUiNotifier ?t) = Died StdTerminate"
    using assms(1) by (simp_all add: sys_ops)
  have "u = ?t \<or> main_pc u = Died StdTerminate" if "step\<^sup>*\<^sup>* ?t u" for u
    using that
  proof (induction rule: rtranclp_induct)
    case (step u v)
    from step.IH show ?case
    proof
      assume "u = ?t"
      then show ?thesis
        using step.hyps(2) t unfolding step_def by (auto elim!: worker_stepE main_stepE)
    qed (use step.hyps(2) in \<open>simp add: step_def\<close>)
  qed simp
  then have "open_failed ?t \<and> \<not> mActive ?t \<and> deactivate_begin False ?t = ?t \<and>
      main_pc (activate ?t) = Died StdTerminate \<and> main_pc (destroy_NonUiNotifier ?t) = Died StdTerminate \<and>
      (\<forall>u. step\<^sup>*\<^sup>* ?t u \<longrightarrow> u = ?t \<or> main_pc u = Died StdTerminate)"
    using t by simp
  moreover have "\<forall>t. step s t \<and> mThread t = Exited \<longrightarrow> t = ?t" using only by blast
  moreover have "step s ?t \<and> mThread ?t = Exited" using fail by simp
  ultimately show ?thesis by metis
qed

theorem open_failure_terminates_witness:
  "\<exists>t. step (activate (start_sys new_notifier)) t \<and> open_failed t \<and>
     main_pc (destroy_NonUiNotifier t) = Died StdTerminate"
proof -
  have n: "\<not> mActive new_notifier" "mThread new_notifier = NoThread"
    by (simp_all add: new_notifier_def)
  have "main_pc (activate (start_sys new_notifier)) = Idle"
    "mThread (activate (start_sys new_notifier)) = Worker (Opening 0)" "0 < length paths"
    using n by (simp_all add: activate_def start_sys_def paths_def)
  then show ?thesis
    using open_failure_terminates [of "activate (start_sys new_notifier)" 0] by blast
qed

text \<open>A run of a notifier up to the first call on its queue.\<close>

definition run_to_apply :: "bool \<Rightarrow> SensorNotifier \<Rightarrow> sys" where
  "run_to_apply e n =
     (activate (start_sys n))\<lparr>mThread := Worker (Applying e), open_fds := 3, ready := 1\<rparr>"

lemma upd_commute:
  "s\<lparr>open_fds := k, mThread := w\<rparr> = s\<lparr>mThread := w, open_fds := k\<rparr>"
  "s\<lparr>ready := r, mThread := w\<rparr> = s\<lparr>mThread := w, ready := r\<rparr>" for s :: sys
  by (cases s, simp)+

lemma reachable_run_to_apply:
  assumes "\<not> mActive n" and "mThread n = NoThread"
  shows "reachable n (run_to_apply e n)"
proof -
  let ?s = "\<lambda>p k. (activate (start_sys n))\<lparr>mThread := Worker p, open_fds := k\<rparr>"
  have idle: "main_pc (?s p k) = Idle" "mActive (?s p k)" for p k
    using assms by (simp_all add: activate_def start_sys_def)
  have go: "reachable n (?s p k) \<Longrightarrow> worker_step (?s p k) (?s p' k') \<Longrightarrow> reachable n (?s p' k')"
    for p k p' k'
    by (erule worker_run_step) (simp_all add: idle)
  have op: "worker_step (?s (Opening i) i) (?s (Opening (i + 1)) (i + 1))" if "i < length paths" for i
    using worker_step.open_ok [of "?s (Opening i) i" i] that by simp
  have "?s (Opening 0) 0 = activate (start_sys n)"
    using assms by (simp add: activate_def start_sys_def)
  then have "reachable n (?s (Opening 0) 0)"
    using reachable_activated [OF assms] by simp
  from go [OF this op] have "reachable n (?s (Opening 1) 1)" by (simp add: paths_def)
  from go [OF this op] have "reachable n (?s (Opening 2) 2)"
    by (simp add: paths_def numeral_2_eq_2)
  from go [OF this op] have r: "reachable n (?s (Opening 3) 3)"
    by (simp add: paths_def numeral_2_eq_2 numeral_3_eq_3)
  have "worker_step (?s (Opening 3) 3) (?s AtWhile 3)"
    using worker_step.opened [of "?s (Opening 3) 3" 3] by (simp add: paths_def upd_commute)
  from go [OF r this] have r: "reachable n (?s AtWhile 3)" .
  have "worker_step (?s AtWhile 3) (?s Polling 3)"
    using worker_step.while_true [of "?s AtWhile 3"] idle by (simp add: upd_commute)
  from go [OF r this] have r: "reachable n (?s Polling 3)" .
  let ?t = "\<lambda>p. (?s p 3)\<lparr>ready := 1\<rparr>"
  have "worker_step (?s Polling 3) (?t Scanning)"
    using worker_step.poll_ok [of "?s Polling 3" 1 1]
    by (simp add: upd_commute poll_result_def paths_def)
  with r have r: "reachable n (?t Scanning)"
    by (rule worker_run_step) (simp add: idle)
  have "worker_step (?t Scanning) (?t (Applying e))"
    using worker_step.scan [of "?t Scanning" "[0, 0, 0]" "\<lambda>_. e"]
    by (cases e) (simp_all add: paths_def upd_commute)
  with r have "reachable n (?t (Applying e))"
    by (rule worker_run_step) (use idle in simp)
  then show ?thesis by (simp add: run_to_apply_def)
qed

text \<open>
  The constructor ignores a failed \<open>initializeSensorQueue\<close>: when the sensor list cannot be
  read or the sensor does not exist, the daemon still starts its worker with a null queue, and can
  reach the point where the worker calls a method on it.
\<close>

lemma failed_initialisation_kills:
  assumes "fst (initializeSensorQueue manager ''xiaomi.sensor.nonui'' True new_notifier) \<noteq> OK"
    and "snd (createEventQueue manager) \<noteq> OK \<Longrightarrow> fst (createEventQueue manager) = None"
  shows "mQueue (NonUiNotifier manager) = None \<and>
    (\<exists>s. reachable (NonUiNotifier manager) s \<and> main_pc s = Died NullQueue)"
proof -
  let ?n = "NonUiNotifier manager"
  have n: "mQueue ?n = None" "\<not> mActive ?n" "mThread ?n = NoThread"
    using assms
    by (auto simp: NonUiNotifier_def initializeSensorQueue_def new_notifier_def Let_def
        split: prod.splits option.splits if_splits)
  let ?s = "run_to_apply False ?n"
  have "worker_step ?s (apply_enabled False ?s)"
    by (rule worker_step.apply_queue) (simp add: run_to_apply_def)
  then have "reachable ?n (apply_enabled False ?s)"
    by (rule worker_run_step [OF reachable_run_to_apply [OF n(2,3)]])
      (use n in \<open>simp add: run_to_apply_def activate_def start_sys_def\<close>)
  moreover have "main_pc (apply_enabled False ?s) = Died NullQueue"
    using n by (simp add: apply_enabled_def run_to_apply_def activate_def start_sys_def)
  ultimately show ?thesis
    using n(1) by blast
qed

lemma failed_initialisation_kills_witness:
  "\<exists>s. reachable (NonUiNotifier \<lparr>getSensorList = ([], OK), createEventQueue = (Some 0, OK)\<rparr>) s \<and>
     main_pc s = Died NullQueue"
  using failed_initialisation_kills [of "\<lparr>getSensorList = ([], OK), createEventQueue = (Some 0, OK)\<rparr>"]
  by (simp add: initializeSensorQueue_def)



text \<open>
  C26. Once \<open>deactivate\<close> waits at the join, the worker takes at most six more steps (counting the
  return of \<open>poll\<close> as one), it can always take the next one until it has exited, and then the
  join succeeds: if \<open>poll\<close> returns, \<open>deactivate\<close> does.
\<close>

theorem deactivate_terminates:
  assumes "reachable n s" and "\<not> mActive n" and "mThread n = NoThread" and "mQueue n \<noteq> None"
    and "main_pc s = Joining in_dtor" and "(worker_step ^^ k) s t"
  shows "k \<le> 6 \<and> (mThread t \<noteq> Exited \<longrightarrow> (\<exists>u. worker_step t u)) \<and>
    (mThread t = Exited \<longrightarrow> main_step t (t\<lparr>mThread := NoThread, main_pc := Disabling in_dtor\<rparr>))"
proof -
  have inv: "notifier_inv (mQueue n) (mSensorHandle n) s"
    using assms(1-3) by (rule reachable_inv)
  then have s: "\<not> mActive s" "mQueue s \<noteq> None"
    using assms(4,5) by (simp_all add: notifier_inv_def)
  have t: "k + worker_rank (mThread t) \<le> worker_rank (mThread s)" "main_pc t = main_pc s"
    using worker_run_bounded [OF assms(6) s] by simp_all
  have it: "notifier_inv (mQueue n) (mSensorHandle n) t"
    by (rule worker_run_inv [OF assms(6) s inv assms(5)])
  have "\<exists>u. worker_step t u" if "mThread t \<noteq> Exited"
    using it that t(2) assms(5) worker_can_step [of t]
    by (cases "mThread t") (auto simp: notifier_inv_def)
  then show ?thesis
    using t assms(5) worker_rank_le [of "mThread s"] by (auto intro: main_step.join)
qed

theorem deactivate_terminates_witness:
  "\<exists>u. worker_step (deactivate_begin False (activate (start_sys example_notifier))) u"
proof -
  let ?b = "deactivate_begin False (activate (start_sys example_notifier))"
  note ex = example_notifier_def start_sys_def activate_def deactivate_begin_def
  have a: "reachable example_notifier (activate (start_sys example_notifier))"
    by (rule reachable_activated) (simp_all add: example_notifier_def)
  have "reachable example_notifier ?b"
    by (rule main_run_step [OF a main_step.call_deactivate]) (simp_all add: ex)
  then show ?thesis
    using deactivate_terminates [of example_notifier ?b False 0 ?b] by (simp add: ex)
qed

text \<open>
  C34. The daemon never closes a descriptor of an attribute: no step lowers the number of open
  descriptors. In a run without a failed \<open>open\<close> three are open for every time the notifier has been
  activated, but for those that the present start has still to open, also after the notifier has been
  deactivated and destroyed; with failed ones there are never more.
\<close>

theorem descriptors_leak:
  assumes "reachable n s" and "mThread n = NoThread"
  shows "(step s t \<longrightarrow> open_fds s \<le> open_fds t) \<and>
    open_fds s + opened_missing s \<le> 3 * starts s \<and>
    (\<not> open_failed s \<longrightarrow> open_fds s + opened_missing s = 3 * starts s)"
  using reachable_fd_inv [OF assms] step_keeps_fds [of s t] by (simp add: fd_inv_def paths_def)

theorem descriptors_leak_witness:
  "reachable example_notifier (run_to_apply False example_notifier) \<and>
   open_fds (run_to_apply False example_notifier) = 3 * starts (run_to_apply False example_notifier)"
proof -
  have r: "reachable example_notifier (run_to_apply False example_notifier)"
    by (rule reachable_run_to_apply) (simp_all add: example_notifier_def)
  then show ?thesis
    using descriptors_leak [OF r]
    by (simp add: example_notifier_def run_to_apply_def start_sys_def activate_def opened_missing_def)
qed

text \<open>
  C37. \<open>initializeSensorQueue\<close>, on every branch: the error of the sensor list is passed on and
  nothing changes; without a matching sensor the result is \<open>NOT_EXIST\<close> and nothing changes;
  otherwise the handle is that of the first sensor of the list with the type and the requested
  wake-up flag, the queue is the one delivered, and the result is that of \<open>createEventQueue\<close>.
\<close>

theorem initializeSensorQueue_spec:
  fixes manager ty wakeup n
  defines "matches \<equiv> \<lambda>sensor. typeAsString sensor = ty \<and> (bit (sensor_flags sensor) 0 \<longleftrightarrow> wakeup)"
    and "sensors \<equiv> fst (getSensorList manager)"
  shows "initializeSensorQueue manager ty wakeup n =
    (if snd (getSensorList manager) \<noteq> OK then (snd (getSensorList manager), n)
     else if filter matches sensors = [] then (NOT_EXIST, n)
     else (snd (createEventQueue manager),
           n\<lparr>mSensorHandle := sensorHandle (hd (filter matches sensors)),
             mQueue := fst (createEventQueue manager)\<rparr>))"
proof -
  have flag: "(sensor_flags x AND WAKE_UP = (if wakeup then 1 else 0)) \<longleftrightarrow>
      (bit (sensor_flags x) 0 \<longleftrightarrow> wakeup)" for x
    by (cases "bit (sensor_flags x) 0"; cases wakeup)
      (simp_all add: WAKE_UP_def and_one_eq bit_0 odd_iff_mod_2_eq_one even_iff_mod_2_eq_zero)
  have find: "find P xs = (if filter P xs = [] then None else Some (hd (filter P xs)))"
    for P and xs :: "SensorInfo list"
    by (induction xs) auto
  have pred: "(\<lambda>sensor. typeAsString sensor = ty \<and>
      sensor_flags sensor AND WAKE_UP = (if wakeup then 1 else 0)) = matches"
    by (simp add: fun_eq_iff matches_def flag)
  show ?thesis
    unfolding initializeSensorQueue_def pred find
    by (simp add: sensors_def Let_def split: prod.splits)
qed


end
