(* ===== verification/Sensor_Switch.thy ===== *)
theory Sensor_Switch
  imports Sensor_Notifier
begin

text \<open>
  What the daemon promises to the sensor service, as an abstract switch, and the proof that the two
  threads of \<open>Sensor_Notifier\<close> implement it; and the unit tests of \<^verbatim>\<open>tests/\<close>, run on the model.

  The switch has a phase and the list of requests the event queue received. It knows nothing of
  threads, program counters, \<open>mActive\<close> or descriptors: the abstraction reads its phase off them.
\<close>

section \<open>The switch\<close>

text \<open>
  \<open>Stopping\<close> tells whether the destructor is what stops the notifier; \<open>Broken\<close> is a notifier whose
  worker has given up while it opened its attributes.
\<close>

datatype phase = Stopped | Starting | Running | Stopping bool | Broken | Gone | Crashed

record switch =
  phase :: phase
  requests :: "queue_call list"

definition set_request :: "int \<Rightarrow> bool \<Rightarrow> queue_call" where
  "set_request h on = (if on then EnableSensor h 20000 0 else DisableSensor h)"

definition emit :: "queue_call \<Rightarrow> switch \<Rightarrow> switch" where
  "emit c a = a\<lparr>requests := requests a @ [c]\<rparr>"

inductive switch_step :: "int \<Rightarrow> switch \<Rightarrow> switch \<Rightarrow> bool" for h where
  start: "phase a = Stopped \<Longrightarrow> switch_step h a (a\<lparr>phase := Starting\<rparr>)"
| started: "phase a = Starting \<Longrightarrow> switch_step h a (a\<lparr>phase := Running\<rparr>)"
| fail: "phase a = Starting \<Longrightarrow> switch_step h a (a\<lparr>phase := Broken\<rparr>)"
| set_sensor: "phase a = Running \<or> (\<exists>d. phase a = Stopping d) \<Longrightarrow>
     switch_step h a (emit (set_request h on) a)"
| stop: "phase a = Starting \<or> phase a = Running \<Longrightarrow> switch_step h a (a\<lparr>phase := Stopping d\<rparr>)"
| stopped: "phase a = Stopping d \<Longrightarrow>
     switch_step h a (emit (DisableSensor h) (a\<lparr>phase := if d then Gone else Stopped\<rparr>))"
| destroy: "phase a = Stopped \<Longrightarrow> switch_step h a (a\<lparr>phase := Gone\<rparr>)"
| crash: "phase a = Broken \<Longrightarrow> switch_step h a (a\<lparr>phase := Crashed\<rparr>)"

inductive_cases switch_stepE: "switch_step h a b"

text \<open>The sensor is on when the last request enabled it.\<close>

definition sensor_on :: "queue_call list \<Rightarrow> bool" where
  "sensor_on cs \<longleftrightarrow> cs \<noteq> [] \<and> (\<exists>h p l. last cs = EnableSensor h p l)"

definition switch_inv :: "int \<Rightarrow> switch \<Rightarrow> bool" where
  "switch_inv h a \<longleftrightarrow>
     set (requests a) \<subseteq> {set_request h True, set_request h False} \<and>
     (sensor_on (requests a) \<longrightarrow> phase a = Running \<or> (\<exists>d. phase a = Stopping d))"

lemma sensor_on_simps [simp]:
  "\<not> sensor_on []"
  "sensor_on (cs @ [EnableSensor h p l])"
  "\<not> sensor_on (cs @ [DisableSensor h])"
  by (auto simp: sensor_on_def)

interpretation switch: inductive_invariant "switch_step h" "switch_inv h" for h
proof (unfold_locales, erule switch_stepE)
qed (auto simp: switch_inv_def emit_def set_request_def)

section \<open>The daemon implements the switch\<close>

fun main_phase :: "mpc \<Rightarrow> thread \<Rightarrow> phase" where
  "main_phase (Died _) _ = Crashed"
| "main_phase Destroyed _ = Gone"
| "main_phase (Joining d) _ = Stopping d"
| "main_phase (Disabling d) _ = Stopping d"
| "main_phase Idle NoThread = Stopped"
| "main_phase Idle (Worker (Opening _)) = Starting"
| "main_phase Idle (Worker _) = Running"
| "main_phase Idle Exited = Broken"

definition abs_switch :: "sys \<Rightarrow> switch" where
  "abs_switch s = \<lparr>phase = main_phase (main_pc s) (mThread s), requests = calls s\<rparr>"

lemmas abs_simps = abs_switch_def notifier_inv_def

lemma worker_simulates:
  assumes "worker_step s t" and "\<nexists>e. main_pc s = Died e" and "notifier_inv (Some q) h s"
  shows "switch_step h (abs_switch s) (abs_switch t) \<or> abs_switch t = abs_switch s"
  using assms
  by (elim worker_stepE; cases "main_pc s")
    (auto simp: abs_simps switch_step.simps emit_def set_request_def apply_enabled_def)

lemma main_simulates:
  assumes "main_step s t" and "notifier_inv (Some q) h s"
  shows "switch_step h (abs_switch s) (abs_switch t) \<or> abs_switch t = abs_switch s"
  using assms
  by (elim main_stepE; cases "mThread s" rule: worker_rank.cases)
    (auto simp: abs_simps switch_step.simps emit_def sys_ops)

interpretation daemon: simulation step "notifier_inv (Some q) h" "switch_step h" abs_switch for q h
  by unfold_locales (auto simp: step_def dest: worker_simulates main_simulates)

lemma reachable_switch:
  assumes "reachable n s" and "\<not> mActive n" and "mThread n = NoThread" and "mQueue n \<noteq> None"
  shows "(switch_step (mSensorHandle n))\<^sup>*\<^sup>* \<lparr>phase = Stopped, requests = []\<rparr> (abs_switch s)"
proof -
  obtain q where q: "mQueue n = Some q" using assms(4) by blast
  have "abs_switch (start_sys n) = \<lparr>phase = Stopped, requests = []\<rparr>"
    using assms(3) by (simp add: abs_switch_def start_sys_def)
  then show ?thesis
    using daemon.run_simulates [of "start_sys n" s q "mSensorHandle n"] assms(1) q
      start_inv [OF assms(2,3)]
    by (simp add: reachable_def)
qed

lemma reachable_switch_inv:
  assumes "reachable n s" and "\<not> mActive n" and "mThread n = NoThread" and "mQueue n \<noteq> None"
  shows "switch_inv (mSensorHandle n) (abs_switch s)"
  by (rule switch.run_inv [OF reachable_switch [OF assms]]) (simp add: switch_inv_def)

text \<open>The sensor of an inactive notifier is off.\<close>

lemma idle_off:
  assumes "reachable n s" and "\<not> mActive n" and "mThread n = NoThread" and "mQueue n \<noteq> None"
    and "main_pc s = Idle" and "\<not> mActive s"
  shows "\<not> sensor_on (calls s)"
  using reachable_switch_inv [OF assms(1-4)] reachable_inv [OF assms(1-3)] assms(5,6)
  by (cases "mThread s") (auto simp: switch_inv_def abs_switch_def notifier_inv_def)

section \<open>Properties\<close>

text \<open>
  C2. The two threads implement the switch: whatever the interleaving, the state of a daemon with a
  queue is one the switch can be in, and each further step of the main thread or of the worker is
  a step of the switch on the same sensor or changes neither its phase nor the requests.
\<close>

theorem daemon_refines_switch:
  assumes "reachable n s" and "\<not> mActive n" and "mThread n = NoThread" and "mQueue n \<noteq> None"
  shows "(switch_step (mSensorHandle n))\<^sup>*\<^sup>* \<lparr>phase = Stopped, requests = []\<rparr> (abs_switch s) \<and>
    (step s t \<longrightarrow> switch_step (mSensorHandle n) (abs_switch s) (abs_switch t) \<or>
       abs_switch t = abs_switch s)"
proof (intro conjI impI reachable_switch assms)
  assume "step s t"
  moreover obtain q where "mQueue n = Some q" using assms(4) by blast
  ultimately show "switch_step (mSensorHandle n) (abs_switch s) (abs_switch t) \<or>
      abs_switch t = abs_switch s"
    using daemon.simulates reachable_inv [OF assms(1-3)] by metis
qed

theorem daemon_refines_switch_witness:
  "(switch_step 7)\<^sup>*\<^sup>* \<lparr>phase = Stopped, requests = []\<rparr> \<lparr>phase = Stopping False, requests = []\<rparr>"
  using daemon_refines_switch [OF reachable_example_joined]
  by (simp add: example_notifier_def example_joined_def abs_switch_def)


definition example_enabled :: sys where
  "example_enabled = apply_enabled True (run_to_apply True example_notifier)"

lemma reachable_example_enabled: "reachable example_notifier example_enabled"
  unfolding example_enabled_def
proof (rule worker_run_step)
  show "reachable example_notifier (run_to_apply True example_notifier)"
    by (rule reachable_run_to_apply) (simp_all add: example_notifier_def)
qed (rule worker_step.apply_queue, simp_all add: run_to_apply_def activate_def start_sys_def
      example_notifier_def)


text \<open>
  C4. Every return of \<open>deactivate\<close> leaves the sensor off. The early return of an inactive notifier
  changes nothing: no thread is left, or the exited thread of a start that failed, which is then not
  joined. The return after the join makes \<open>disableSensor\<close> the last request, with the worker gone and
  the notifier inactive. The destructor then ends in the destroyed notifier, but for the thread that
  was not joined, which kills the process.
\<close>

theorem deactivate_return:
  assumes "reachable n s" and "\<not> mActive n" and "mThread n = NoThread" and "mQueue n \<noteq> None"
  shows "(main_pc s = Idle \<and> \<not> mActive s \<longrightarrow>
      deactivate_begin False s = s \<and> \<not> sensor_on (calls s) \<and>
      (mThread s = NoThread \<or> mThread s = Exited \<and> open_failed s) \<and>
      main_pc (destroy_NonUiNotifier s) =
        (if mThread s = NoThread then Destroyed else Died StdTerminate)) \<and>
    (main_pc s = Disabling in_dtor \<longrightarrow>
      step s t = (t = deactivate_end in_dtor s) \<and>
      calls (deactivate_end in_dtor s) = calls s @ [DisableSensor (mSensorHandle n)] \<and>
      mThread (deactivate_end in_dtor s) = NoThread \<and> \<not> mActive (deactivate_end in_dtor s) \<and>
      main_pc (deactivate_end in_dtor s) = (if in_dtor then Destroyed else Idle))"
proof (intro conjI impI)
  have inv: "notifier_inv (mQueue n) (mSensorHandle n) s"
    using assms(1-3) by (rule reachable_inv)
  {
    assume s: "main_pc s = Idle \<and> \<not> mActive s"
    then show thr: "mThread s = NoThread \<or> mThread s = Exited \<and> open_failed s"
      using inv by (cases "mThread s") (auto simp: notifier_inv_def)
    show "deactivate_begin False s = s"
      using s by (simp add: sys_ops)
    show "main_pc (destroy_NonUiNotifier s) =
        (if mThread s = NoThread then Destroyed else Died StdTerminate)"
      using s by (simp add: sys_ops)
    show "\<not> sensor_on (calls s)"
      using assms s by (auto dest: idle_off)
  next
    assume s: "main_pc s = Disabling in_dtor"
    then have thr: "mThread s = NoThread" "\<not> mActive s" "mQueue s \<noteq> None"
      "mSensorHandle s = mSensorHandle n"
      using inv assms(4) by (simp_all add: notifier_inv_def)
    show "step s t = (t = deactivate_end in_dtor s)"
      using s thr main_step.finish [OF s] unfolding step_def by (auto elim!: worker_stepE main_stepE)
    show "calls (deactivate_end in_dtor s) = calls s @ [DisableSensor (mSensorHandle n)]"
      "mThread (deactivate_end in_dtor s) = NoThread" "\<not> mActive (deactivate_end in_dtor s)"
      "main_pc (deactivate_end in_dtor s) = (if in_dtor then Destroyed else Idle)"
      using thr by (auto simp: sys_ops split: if_splits)
  }
qed

theorem deactivate_return_witness:
  "calls (deactivate_end False example_joined) = [DisableSensor 7] \<and>
   main_pc (deactivate_end False example_joined) = Idle"
  using deactivate_return [OF reachable_example_joined, of False]
  by (simp add: example_notifier_def example_joined_def)

text \<open>A worker that still opens its attributes has not enabled the sensor.\<close>

lemma opening_off:
  assumes "reachable n s" and "\<not> mActive n" and "mThread n = NoThread" and "mQueue n \<noteq> None"
  shows "mThread s = Worker (Opening i) \<Longrightarrow> \<not> sensor_on (calls s)"
  using assms(1) unfolding reachable_def
proof (induction arbitrary: i rule: rtranclp_induct)
  case base
  then show ?case using assms(3) by (simp add: start_sys_def)
next
  case (step t u)
  have "reachable n t" using step.hyps(1) by (simp add: reachable_def)
  then have idle: "\<not> sensor_on (calls t)" if "main_pc t = Idle" "\<not> mActive t"
    using assms(2-4) that by (rule idle_off)
  from step.hyps(2) show ?case
    using step.prems step.IH idle unfolding step_def
    by (elim conjE disjE worker_stepE main_stepE)
      (auto simp: sys_ops split: option.splits if_splits)
qed

text \<open>
  C11. When the platform fails as well, the process can die with the sensor on only because a call of
  the sensor service failed: the deaths for want of a thread or of memory, over a joinable thread or
  by a null queue leave it off.
\<close>

theorem death_with_sensor_on:
  assumes "daemon_step\<^sup>*\<^sup>* (start_sys n) s" and "\<not> mActive n" and "mThread n = NoThread"
    and "mQueue n \<noteq> None" and "main_pc s = Died e" and "sensor_on (calls s)"
  shows "e = TransportError"
proof -
  consider "reachable n s" | u where "reachable n u" "\<nexists>e. main_pc u = Died e" "fault_step u s"
    using daemon_run_cases [OF assms(1)] by blast
  then show ?thesis
  proof cases
    case 1
    then show ?thesis
      using reachable_switch_inv [OF 1 assms(2-4)] assms(5,6) by (simp add: switch_inv_def abs_switch_def)
  next
    case 2
    have "\<not> sensor_on (calls u)" if "main_pc u = Idle" "\<not> mActive u"
      using 2(1) assms(2-4) that by (rule idle_off)
    with 2(3) show ?thesis
      using opening_off [OF 2(1) assms(2-4)] assms(5,6) by (auto elim!: fault_stepE)
  qed
qed

text \<open>The enabled notifier of above, stopped up to the last call of \<open>deactivate\<close>.\<close>

definition example_stopping :: sys where
  "example_stopping =
     example_enabled\<lparr>mActive := False, mThread := NoThread, main_pc := Disabling False\<rparr>"

lemma reachable_example_stopping:
  "reachable example_notifier example_stopping" "calls example_stopping = [EnableSensor 7 20000 0]"
proof -
  note ex = example_notifier_def run_to_apply_def activate_def start_sys_def apply_enabled_def
  let ?b = "deactivate_begin False example_enabled"
  let ?c = "?b\<lparr>mThread := Exited\<rparr>"
  have e: "main_pc example_enabled = Idle" "mActive example_enabled"
    "mThread example_enabled = Worker AtWhile" "calls example_enabled = [EnableSensor 7 20000 0]"
    by (simp_all add: example_enabled_def ex)
  then show "calls example_stopping = [EnableSensor 7 20000 0]"
    by (simp add: example_stopping_def)
  have "reachable example_notifier ?b"
    by (rule main_run_step [OF reachable_example_enabled main_step.call_deactivate]) (simp_all add: e)
  then have "reachable example_notifier ?c"
    by (rule worker_run_step [OF _ worker_step.while_false]) (simp_all add: e deactivate_begin_def)
  then have "reachable example_notifier (?c\<lparr>mThread := NoThread, main_pc := Disabling False\<rparr>)"
    by (rule main_run_step [OF _ main_step.join]) (simp_all add: e deactivate_begin_def)
  then show "reachable example_notifier example_stopping"
    by (simp add: example_stopping_def deactivate_begin_def e)
qed

theorem death_with_sensor_on_witness:
  "\<exists>d e. daemon_step\<^sup>*\<^sup>* (start_sys example_notifier) d \<and> main_pc d = Died e \<and>
     sensor_on (calls d) \<and> e = TransportError"
proof -
  let ?d = "example_stopping\<lparr>main_pc := Died TransportError\<rparr>"
  have s: "main_pc example_stopping = Disabling False" "mQueue example_stopping \<noteq> None"
    by (simp_all add: example_stopping_def example_enabled_def apply_enabled_def run_to_apply_def
        activate_def start_sys_def example_notifier_def)
  have "daemon_step example_stopping ?d"
    unfolding daemon_step_def using fault_step.transport_main [OF s] s(1) by simp
  with reachable_daemon [OF reachable_example_stopping(1)]
  have run: "daemon_step\<^sup>*\<^sup>* (start_sys example_notifier) ?d"
    by (rule rtranclp.rtrancl_into_rtrancl)
  have on: "sensor_on (calls ?d)"
    by (simp add: reachable_example_stopping(2) sensor_on_def)
  obtain e where e: "main_pc ?d = Died e" by simp
  have "e = TransportError"
    by (rule death_with_sensor_on [OF run _ _ _ e on]) (simp_all add: example_notifier_def)
  then show ?thesis using run e on by blast
qed

section \<open>The unit tests\<close>

text \<open>
  \<^verbatim>\<open>tests/test_SensorNotifier.cpp\<close>: the mocked service answers with the sensors and results it is
  given, and always delivers a queue, also with an error.
\<close>

definition MockSensorManager :: "SensorInfo list \<Rightarrow> Result \<Rightarrow> Result \<Rightarrow> ISensorManager" where
  "MockSensorManager mockedSensors mockedGetSensorListResult mockedCreateQueueResult =
     \<lparr>getSensorList = (mockedSensors, mockedGetSensorListResult),
      createEventQueue = (Some 0, mockedCreateQueueResult)\<rparr>"

definition notifier_tests :: "(string \<times> bool) list" where
  "notifier_tests =
    (let info = \<lparr>typeAsString = ''test.sensor'', sensorHandle = 42, sensor_flags = WAKE_UP\<rparr>;
         other = \<lparr>typeAsString = ''other.sensor'', sensorHandle = 42, sensor_flags = 0\<rparr>;
         testInitialize = (\<lambda>manager. initializeSensorQueue manager ''test.sensor'' True new_notifier)
     in [(''testSuccess'',
          let (res, notifier) = testInitialize (MockSensorManager [info] OK OK)
          in res = OK \<and> mSensorHandle notifier = 42 \<and> mQueue notifier \<noteq> None),
         (''testSensorNotFound'', fst (testInitialize (MockSensorManager [other] OK OK)) = NOT_EXIST),
         (''testGetListFails'', fst (testInitialize (MockSensorManager [] BAD_VALUE OK)) = BAD_VALUE),
         (''testCreateQueueFails'',
          fst (testInitialize (MockSensorManager [info] OK BAD_VALUE)) = BAD_VALUE)])"

text \<open>
  \<^verbatim>\<open>tests/test_SensorNotifierUtils.cpp\<close>: a temporary file as what \<open>lseek\<close> to its start and a
  \<open>read\<close> of one byte there give; a negative descriptor makes both fail.
\<close>

definition createTempFile :: "string \<Rightarrow> (int \<Rightarrow> int) \<times> (int \<Rightarrow> int \<times> char)" where
  "createTempFile content =
     (\<lambda>fd. if fd < 0 then -1 else 0,
      \<lambda>fd. if fd < 0 then (-1, CHR 0x00)
           else case content of [] \<Rightarrow> (0, CHR 0x00) | c # _ \<Rightarrow> (1, c))"

definition utils_tests :: "(string \<times> bool) list" where
  "utils_tests =
    (let run = (\<lambda>content fd. readBool (fst (createTempFile content)) (snd (createTempFile content)) fd)
     in [(''ReadBoolTrue'', run ''1'' 3), (''ReadBoolFalse'', \<not> run ''0'' 3),
         (''ReadBoolInvalidFd'', \<not> run [] (-1)), (''ReadBoolEmptyFile'', \<not> run [] 3),
         (''ReadBoolOtherChar'', run ''2'' 3), (''ReadBoolMultipleChars'', run ''10'' 3)])"

lemma unit_tests_pass: "list_all snd (notifier_tests @ utils_tests)"
  by code_simp

text \<open>
  What the tests sample, for every content and every list of sensors: a file reads as true when it
  has a first byte other than the character 0, and with a mock the initialisation fails exactly as
  the mock says or for want of a matching sensor.
\<close>

lemma temp_file_readBool:
  assumes "createTempFile content = (os_lseek, os_read)"
  shows "readBool os_lseek os_read fd \<longleftrightarrow> 0 \<le> fd \<and> content \<noteq> [] \<and> hd content \<noteq> CHR ''0''"
  using assms by (auto simp: createTempFile_def readBool_def split: list.splits if_splits)

lemma mock_initialize:
  "fst (initializeSensorQueue (MockSensorManager sensors r1 r2) ty wakeup n) =
    (if r1 \<noteq> OK then r1
     else if \<exists>x\<in>set sensors. typeAsString x = ty \<and> (bit (sensor_flags x) 0 \<longleftrightarrow> wakeup) then r2
     else NOT_EXIST)"
  by (auto simp: initializeSensorQueue_spec MockSensorManager_def filter_empty_conv)

end
