(* ===== verification/Vendor_Init.thy ===== *)
theory Vendor_Init
  imports Prelude
begin

text \<open>
  The init extension \<^verbatim>\<open>src/init/init_ruan.cpp\<close>: the table of product variants, the choice of a variant
  by hardware sku and region, and the system properties that are overridden for it.  The property
  service of the platform (\<^verbatim>\<open>__system_property_find\<close>, \<^verbatim>\<open>__system_property_update\<close>,
  \<^verbatim>\<open>__system_property_add\<close>, \<^verbatim>\<open>GetProperty\<close>) is not part of the repository and is a parameter, as are
  \<^verbatim>\<open>property_override\<close> and the \<^verbatim>\<open>DEVICE_*\<close> macros, which the file uses and does not declare.  The file
  calls \<^verbatim>\<open>GetVariant\<close> and declares no function of that name; the statements that choose a variant
  stand at the end of the loader in the anonymous namespace and are modelled as
  \<open>select_variant\<close> with the two strings they compare as arguments.
\<close>

section \<open>Variants\<close>

record VariantInfo =
  region :: string
  hardware_sku :: string
  product_name :: string
  odm_name :: string
  brand :: string
  model :: string
  market_name :: string

definition kDefaultVariant :: VariantInfo where
  "kDefaultVariant = \<lparr>region = ''GL'', hardware_sku = ''ruanp'', product_name = ''ruan_global'',
     odm_name = ''ruan_global'', brand = ''POCO'', model = ''POCO Pad 5G'',
     market_name = ''POCO Pad 5G''\<rparr>"

definition kPocoVariant :: VariantInfo where
  "kPocoVariant = \<lparr>region = ''GL'', hardware_sku = ''ruanp'', product_name = ''ruan_global'',
     odm_name = ''ruan_global'', brand = ''POCO'', model = ''POCO Pad 5G'',
     market_name = ''POCO Pad 5G''\<rparr>"

definition kVariants :: "VariantInfo list" where
  "kVariants =
    [\<lparr>region = ''CN'', hardware_sku = ''ruan'', product_name = ''ruan'', odm_name = ''ruan_cn'',
      brand = ''Redmi'', model = ''Redmi Pad Pro'', market_name = ''Redmi Pad Pro''\<rparr>,
     \<lparr>region = ''GL'', hardware_sku = ''ruan'', product_name = ''ruan_global'', odm_name = ''ruan_global'',
      brand = ''Redmi'', model = ''Redmi Pad Pro 5G'', market_name = ''Redmi Pad Pro 5G''\<rparr>,
     \<lparr>region = ''IN'', hardware_sku = ''ruan'', product_name = ''ruan_in'', odm_name = ''ruan_india'',
      brand = ''Redmi'', model = ''Redmi Pad Pro 5G'', market_name = ''Redmi Pad Pro 5G''\<rparr>,
     \<lparr>region = ''CN'', hardware_sku = ''ruanp'', product_name = ''ruan_global'', odm_name = ''ruan_global'',
      brand = ''POCO'', model = ''POCO Pad 5G'', market_name = ''POCO Pad 5G''\<rparr>,
     \<lparr>region = ''GL'', hardware_sku = ''ruanp'', product_name = ''ruan_global'', odm_name = ''ruan_global'',
      brand = ''POCO'', model = ''POCO Pad 5G'', market_name = ''POCO Pad 5G''\<rparr>,
     \<lparr>region = ''IN'', hardware_sku = ''ruanp'', product_name = ''ruan_global'', odm_name = ''ruan_global'',
      brand = ''POCO'', model = ''POCO Pad 5G'', market_name = ''POCO Pad 5G''\<rparr>]"

text \<open>\<^verbatim>\<open>std::toupper\<close> in the C locale, on every character.\<close>

definition toupper :: "char \<Rightarrow> char" where
  "toupper c = (let n = (of_char c :: nat) in
     if 97 \<le> n \<and> n \<le> 122 then char_of (n - 32) else c)"

definition NormalizeValue :: "string \<Rightarrow> string" where
  "NormalizeValue s = map toupper s"

text \<open>The first condition that holds decides.\<close>

definition select_variant :: "string \<Rightarrow> string \<Rightarrow> VariantInfo" where
  "select_variant sku reg =
    (if sku = ''RUANP'' then kPocoVariant
     else if sku = ''RUAN'' then kVariants ! 1
     else if reg = ''CN'' then kVariants ! 0
     else if reg = ''IN'' then kVariants ! 2
     else kDefaultVariant)"

section \<open>The property service\<close>

record ('st, 'pi) property_service =
  system_property_find :: "'st \<Rightarrow> string \<Rightarrow> 'pi option"
  system_property_update :: "'pi \<Rightarrow> string \<Rightarrow> 'st \<Rightarrow> 'st"
  system_property_add :: "string \<Rightarrow> string \<Rightarrow> 'st \<Rightarrow> 'st"
  get_value :: "'st \<Rightarrow> string \<Rightarrow> string option"

definition PropertyOverride ::
  "('st, 'pi) property_service \<Rightarrow> string \<Rightarrow> string \<Rightarrow> bool \<Rightarrow> 'st \<Rightarrow> 'st" where
  "PropertyOverride ps prop val add st =
    (case system_property_find ps st prop of
       Some pi \<Rightarrow> system_property_update ps pi val st
     | None \<Rightarrow> if add then system_property_add ps prop val st else st)"

text \<open>
  What the loader relies on: a property is found exactly when it has a value, and writing a value
  below the limit of 92 characters through a found handle, or adding one under a new name, changes
  the value of that property and no other.
\<close>

definition service_ok :: "('st, 'pi) property_service \<Rightarrow> bool" where
  "service_ok ps \<longleftrightarrow>
    (\<forall>st k. system_property_find ps st k = None \<longleftrightarrow> get_value ps st k = None) \<and>
    (\<forall>st k pi v. system_property_find ps st k = Some pi \<and> length v < 92 \<longrightarrow>
       get_value ps (system_property_update ps pi v st) = (get_value ps st)(k \<mapsto> v)) \<and>
    (\<forall>st k v. system_property_find ps st k = None \<and> length v < 92 \<longrightarrow>
       get_value ps (system_property_add ps k v st) = (get_value ps st)(k \<mapsto> v))"

section \<open>The loaders\<close>

definition load_all ::
  "('st, 'pi) property_service \<Rightarrow> (string \<times> string) list \<Rightarrow> 'st \<Rightarrow> 'st" where
  "load_all ps kvs st = fold (\<lambda>(k, v). PropertyOverride ps k v True) kvs st"

text \<open>The calls of \<^verbatim>\<open>vendor_load_properties\<close>, in order, for the chosen variant.\<close>

definition variant_properties :: "VariantInfo \<Rightarrow> (string \<times> string) list" where
  "variant_properties variant =
    [(''bluetooth.device.default_name'', market_name variant),
     (''ro.board.platform'', ''parrot''),
     (''ro.build.characteristics'', ''tablet''),
     (''ro.hardware'', ''qcom''),
     (''ro.product.board'', ''parrot''),
     (''ro.product.brand'', brand variant),
     (''ro.product.device'', ''ruan''),
     (''ro.product.manufacturer'', ''Xiaomi''),
     (''ro.product.marketname'', market_name variant),
     (''ro.product.model'', model variant),
     (''ro.product.name'', product_name variant),
     (''ro.product.odm.brand'', brand variant),
     (''ro.product.odm.device'', ''ruan''),
     (''ro.product.odm.manufacturer'', ''Xiaomi''),
     (''ro.product.odm.model'', model variant),
     (''ro.product.odm.name'', odm_name variant),
     (''ro.product.vendor.brand'', brand variant),
     (''ro.product.vendor.device'', ''ruan''),
     (''ro.product.vendor.manufacturer'', ''Xiaomi''),
     (''ro.product.vendor.model'', model variant),
     (''ro.product.vendor.name'', product_name variant),
     (''ro.radio.noril'', ''false''),
     (''ro.soc.manufacturer'', ''Qualcomm''),
     (''ro.soc.model'', ''SM7435''),
     (''ro.telephony.sim.count'', ''2''),
     (''vendor.usb.product_string'', market_name variant)]"

definition vendor_load_properties ::
  "('st, 'pi) property_service \<Rightarrow> VariantInfo \<Rightarrow> 'st \<Rightarrow> 'st" where
  "vendor_load_properties ps variant st = load_all ps (variant_properties variant) st"

text \<open>
  The loader of the anonymous namespace, up to its return statements: the macros it names are
  arguments, \<open>variant\<close> is what \<^verbatim>\<open>GetProperty\<close> returns for \<^verbatim>\<open>ro.boot.hardware.variant\<close>.
\<close>

record device_macros =
  DEVICE_NAME :: string
  DEVICE_MODEL :: string
  DEVICE_BRAND :: string
  DEVICE_MANUFACTURER :: string

definition device_properties :: "device_macros \<Rightarrow> string \<Rightarrow> (string \<times> string) list" where
  "device_properties dm variant =
    [(''ro.product.device'', DEVICE_NAME dm),
     (''ro.product.name'', ''ruan_global''),
     (''ro.product.model'', DEVICE_MODEL dm),
     (''ro.product.brand'', DEVICE_BRAND dm),
     (''ro.product.manufacturer'', DEVICE_MANUFACTURER dm),
     (''ro.build.fingerprint'',
      ''POCO/ruan_global/ruan:15/AP3A.240905.015.A2/OS2.0.208.0.VFSMIXM:user/release-keys''),
     (''ro.build.description'',
      ''ruan_global-user 15 AP3A.240905.015.A2 OS2.0.208.0.VFSMIXM release-keys''),
     (''ro.product.marketname'', ''POCO Pad 5G''),
     (''ro.product.board'', ''parrot''),
     (''ro.board.platform'', ''parrot''),
     (''ro.hardware'', ''qcom''),
     (''ro.hardware.keystore'', ''parrot''),
     (''ro.hardware.gatekeeper'', ''parrot''),
     (''ro.hardware.keymaster'', ''parrot''),
     (''ro.soc.manufacturer'', ''QTI''),
     (''ro.soc.model'', ''SM7435''),
     (''ro.display.type'', ''LCD''),
     (''ro.display.resolution'', ''2560x1600''),
     (''ro.display.density'', ''320''),
     (''ro.display.refresh_rate'', ''120''),
     (''ro.build.characteristics'', ''tablet''),
     (''ro.sf.lcd_density'', ''320''),
     (''ro.product.first_api_level'', ''34''),
     (''ro.build.version.security_patch'', ''2025-02-01''),
     (''ro.vendor.build.security_patch'', ''2025-02-01''),
     (''ro.build.version.release'', ''15''),
     (''ro.build.version.sdk'', ''35'')] @
    (if variant \<noteq> [] then
       (if variant = ''wifi'' \<or> variant = ''WIFI'' then
          [(''ro.radio.noril'', ''true''), (''ro.telephony.sim.count'', ''0'')]
        else [(''ro.radio.noril'', ''false''), (''ro.telephony.sim.count'', ''2'')])
     else [])"

definition load_device_properties ::
  "(string \<Rightarrow> string \<Rightarrow> 'st \<Rightarrow> 'st) \<Rightarrow> device_macros \<Rightarrow> string \<Rightarrow> 'st \<Rightarrow> 'st" where
  "load_device_properties property_override dm variant st =
    fold (\<lambda>(k, v). property_override k v) (device_properties dm variant) st"

section \<open>Lemmas\<close>

lemma toupper_idem: "toupper (toupper c) = toupper c"
  by (auto simp: toupper_def Let_def)

lemma NormalizeValue_idem: "NormalizeValue (NormalizeValue s) = NormalizeValue s"
  by (simp add: NormalizeValue_def toupper_idem)

lemma toupper_letters:
  "toupper CHR ''r'' = CHR ''R''" "toupper CHR ''u'' = CHR ''U''" "toupper CHR ''a'' = CHR ''A''"
  "toupper CHR ''n'' = CHR ''N''" "toupper CHR ''p'' = CHR ''P''"
  by code_simp+

lemmas variant_defs = kDefaultVariant_def kPocoVariant_def kVariants_def

lemma PropertyOverride_get:
  assumes "service_ok ps" and "length v < 92"
  shows "get_value ps (PropertyOverride ps k v True st) = (get_value ps st)(k \<mapsto> v)"
  using assms by (auto simp: service_ok_def PropertyOverride_def split: option.splits)

text \<open>Without \<open>add\<close> an absent property stays absent.\<close>

lemma PropertyOverride_no_add:
  assumes "service_ok ps" and "length v < 92"
  shows "get_value ps (PropertyOverride ps k v False st) =
    (if get_value ps st k = None then get_value ps st else (get_value ps st)(k \<mapsto> v))"
proof (cases "system_property_find ps st k")
  case None
  moreover have "get_value ps st k = None" using assms(1) None by (auto simp: service_ok_def)
  ultimately show ?thesis by (simp add: PropertyOverride_def)
next
  case (Some pi)
  moreover have "get_value ps st k \<noteq> None"
    using assms(1) Some unfolding service_ok_def by (metis option.distinct(1))
  moreover have "get_value ps (system_property_update ps pi v st) = (get_value ps st)(k \<mapsto> v)"
    using assms Some unfolding service_ok_def by blast
  ultimately show ?thesis by (auto simp: PropertyOverride_def)
qed

text \<open>
  Loading a list with distinct names: each name has the value of its entry and every other
  property keeps its value.
\<close>

lemma load_all_get:
  assumes "service_ok ps" and "\<forall>(_, v)\<in>set kvs. length v < 92" and "distinct (map fst kvs)"
  shows "get_value ps (load_all ps kvs st) = get_value ps st ++ map_of kvs"
  using assms(2,3)
proof (induction kvs arbitrary: st)
  case Nil
  then show ?case by (simp add: load_all_def)
next
  case (Cons kv kvs)
  obtain k v where kv: "kv = (k, v)" by (cases kv)
  have "get_value ps (load_all ps (kv # kvs) st) =
      get_value ps (PropertyOverride ps k v True st) ++ map_of kvs"
    using Cons by (simp add: load_all_def kv)
  also have "\<dots> = (get_value ps st)(k \<mapsto> v) ++ map_of kvs"
    using Cons.prems by (simp add: PropertyOverride_get [OF assms(1)] kv)
  also have "\<dots> = get_value ps st ++ map_of (kv # kvs)"
    using Cons.prems(2) by (simp add: kv map_add_upd_left dom_map_of_conv_image_fst)
  finally show ?case .
qed

lemma variant_properties_distinct: "distinct (map fst (variant_properties v))"
  by (simp add: variant_properties_def)

definition short_variant :: "VariantInfo \<Rightarrow> bool" where
  "short_variant v \<longleftrightarrow> length (product_name v) < 92 \<and> length (odm_name v) < 92 \<and>
     length (brand v) < 92 \<and> length (model v) < 92 \<and> length (market_name v) < 92"

lemma select_variant_short: "short_variant (select_variant sku reg)"
  by (simp add: short_variant_def select_variant_def variant_defs)

lemma variant_properties_short:
  "short_variant v \<Longrightarrow> \<forall>(_, x)\<in>set (variant_properties v). length x < 92"
  by (simp add: variant_properties_def short_variant_def)

text \<open>A property service that is a map from names to values, the name itself as the handle.\<close>

definition map_service :: "(string \<rightharpoonup> string, string) property_service" where
  "map_service = \<lparr>system_property_find = \<lambda>m k. if m k = None then None else Some k,
     system_property_update = \<lambda>k v m. m(k \<mapsto> v), system_property_add = \<lambda>k v m. m(k \<mapsto> v),
     get_value = \<lambda>m. m\<rparr>"

lemma map_service_ok: "service_ok map_service"
  by (auto simp: service_ok_def map_service_def split: if_splits)

section \<open>Properties\<close>

text \<open>
  C8. After \<open>vendor_load_properties\<close> for the variant chosen for any sku and region, each of the 26
  properties it names has the value the code writes, whether the property existed before or not,
  and every other property has the value it had.
\<close>

theorem vendor_load_properties_spec:
  assumes "service_ok ps"
  shows "get_value ps (vendor_load_properties ps (select_variant sku reg) st) =
    get_value ps st ++ map_of (variant_properties (select_variant sku reg))"
  unfolding vendor_load_properties_def
  using load_all_get [OF assms variant_properties_short [OF select_variant_short]
      variant_properties_distinct] .

theorem vendor_load_properties_spec_witness:
  "get_value map_service
     (vendor_load_properties map_service (select_variant ''RUAN'' ''IN'') (Map.empty(''ro.hardware'' \<mapsto> ''x'')))
     ''ro.product.model'' = Some ''Redmi Pad Pro 5G''"
  using vendor_load_properties_spec [OF map_service_ok, of "''RUAN''" "''IN''" "Map.empty(''ro.hardware'' \<mapsto> ''x'')"]
  by (simp add: select_variant_def variant_defs variant_properties_def)

text \<open>
  C33. The chosen variant is the one of the sku when the sku is known, so brand and model fit the
  hardware; but a known sku decides alone: for the skus RUAN and RUANP every region gives the
  global variant, so the Chinese and Indian Redmi variants are chosen only for an unknown sku, and
  the three POCO rows of the table are never read.
\<close>

theorem select_variant_spec:
  "(sku \<in> {''RUAN'', ''RUANP''} \<longrightarrow>
      NormalizeValue (hardware_sku (select_variant sku reg)) = sku \<and>
      region (select_variant sku reg) = ''GL'') \<and>
   (sku \<notin> {''RUAN'', ''RUANP''} \<and> reg \<in> {''CN'', ''IN''} \<longrightarrow>
      region (select_variant sku reg) = reg) \<and>
   (brand (select_variant sku reg) = ''POCO'' \<longleftrightarrow> hardware_sku (select_variant sku reg) = ''ruanp'') \<and>
   select_variant sku reg \<in> set (take 3 kVariants) \<union> {kDefaultVariant}"
  by (auto simp: select_variant_def variant_defs NormalizeValue_def toupper_letters)

theorem select_variant_spec_witness:
  "region (select_variant ''RUAN'' ''CN'') = ''GL'' \<and> region (select_variant ''X'' ''IN'') = ''IN''"
  using select_variant_spec [of "''RUAN''" "''CN''"] select_variant_spec [of "''X''" "''IN''"] by simp

definition shared_names :: "device_macros \<Rightarrow> string \<Rightarrow> VariantInfo \<Rightarrow> string list" where
  "shared_names dm var v =
    filter (\<lambda>k. k \<in> set (map fst (device_properties dm var))) (map fst (variant_properties v))"

text \<open>
  The two loaders write fourteen properties in common (twelve without a boot variant) and
  contradict each other: they never agree on \<^verbatim>\<open>ro.soc.manufacturer\<close>, and for a wifi boot variant the
  one in the namespace disables the radio which the other enables.
\<close>

lemma loaders_disagree:
  "length (shared_names dm var v) = (if var = [] then 12 else 14) \<and>
   map_of (device_properties dm var) ''ro.soc.manufacturer'' = Some ''QTI'' \<and>
   map_of (variant_properties v) ''ro.soc.manufacturer'' = Some ''Qualcomm'' \<and>
   map_of (device_properties dm var) ''ro.radio.noril'' =
     (if var = [] then None
      else if var = ''wifi'' \<or> var = ''WIFI'' then Some ''true'' else Some ''false'') \<and>
   map_of (variant_properties v) ''ro.radio.noril'' = Some ''false''"
proof (intro conjI)
  show "length (shared_names dm var v) = (if var = [] then 12 else 14)"
    by (cases "var = []"; cases "var = ''wifi'' \<or> var = ''WIFI''")
      (simp_all add: shared_names_def device_properties_def variant_properties_def)
  show "map_of (device_properties dm var) ''ro.radio.noril'' =
     (if var = [] then None
      else if var = ''wifi'' \<or> var = ''WIFI'' then Some ''true'' else Some ''false'')"
    by (cases "var = []"; cases "var = ''wifi'' \<or> var = ''WIFI''")
      (simp_all add: device_properties_def)
qed (simp_all add: device_properties_def variant_properties_def)

end
