(* ===== verification/C_Layout.thy ===== *)
theory C_Layout
  imports Prelude "HOL-Library.Code_Target_Nat"
begin

text \<open>
  How the C implementation of the device lays out the structs that its headers pass between user
  space and the kernel: sizes, alignments and offsets of scalars, arrays, structs, packed structs
  and unions, for the two data models that run on the SoC (64-bit processes, \<open>LP64\<close>, and 32-bit
  compat processes, \<open>ILP32\<close>; both align every scalar to its size), the little-endian memory image
  of a value and its reading back, and ioctl requests as the \<^verbatim>\<open>_IO\<close>, \<^verbatim>\<open>_IOR\<close>, \<^verbatim>\<open>_IOW\<close>, \<^verbatim>\<open>_IOWR\<close> macros
  name them.  The layout rules are those of the C ABI; the encoding of a request as a number is
  code of the kernel headers, which are not part of the repository, and stays a parameter.
\<close>

section \<open>Types\<close>

datatype data_model = ILP32 | LP64

datatype cscalar =
    C_char | C_u8 | C_s8 | C_u16 | C_s16 | C_u32 | C_s32 | C_u64 | C_s64
  | C_short | C_ushort | C_int | C_uint | C_enum | C_llong | C_ullong | C_bool
  | C_long | C_ulong | C_size_t | C_ptr

datatype ctype =
    Scalar cscalar
  | Bits cscalar "(string \<times> nat) list"   \<comment> \<open>bit-fields that share one storage unit, with their widths\<close>
  | Array ctype nat
  | Struct bool "(string \<times> ctype) list"   \<comment> \<open>the flag: packed\<close>
  | Union "(string \<times> ctype) list"

fun word_bytes :: "data_model \<Rightarrow> nat" where
  "word_bytes ILP32 = 4"
| "word_bytes LP64 = 8"

fun scalar_size :: "data_model \<Rightarrow> cscalar \<Rightarrow> nat" where
  "scalar_size dm C_char = 1"
| "scalar_size dm C_u8 = 1"
| "scalar_size dm C_s8 = 1"
| "scalar_size dm C_bool = 1"
| "scalar_size dm C_u16 = 2"
| "scalar_size dm C_s16 = 2"
| "scalar_size dm C_short = 2"
| "scalar_size dm C_ushort = 2"
| "scalar_size dm C_u32 = 4"
| "scalar_size dm C_s32 = 4"
| "scalar_size dm C_int = 4"
| "scalar_size dm C_uint = 4"
| "scalar_size dm C_enum = 4"
| "scalar_size dm C_u64 = 8"
| "scalar_size dm C_s64 = 8"
| "scalar_size dm C_llong = 8"
| "scalar_size dm C_ullong = 8"
| "scalar_size dm C_long = word_bytes dm"
| "scalar_size dm C_ulong = word_bytes dm"
| "scalar_size dm C_size_t = word_bytes dm"
| "scalar_size dm C_ptr = word_bytes dm"

section \<open>Sizes, alignments and offsets\<close>

text \<open>
  Placing fields, each given by its alignment and size, from the first free offset: their offsets
  and the offset behind the last one.
\<close>

fun offsets :: "nat \<Rightarrow> (nat \<times> nat) list \<Rightarrow> nat list" where
  "offsets ofs [] = []"
| "offsets ofs ((a, sz) # xs) = align_up ofs a # offsets (align_up ofs a + sz) xs"

fun end_of :: "nat \<Rightarrow> (nat \<times> nat) list \<Rightarrow> nat" where
  "end_of ofs [] = ofs"
| "end_of ofs ((a, sz) # xs) = end_of (align_up ofs a + sz) xs"

fun max_list :: "nat list \<Rightarrow> nat" where
  "max_list [] = 0"
| "max_list (x # xs) = max x (max_list xs)"

fun calign :: "data_model \<Rightarrow> ctype \<Rightarrow> nat" where
  "calign dm (Scalar s) = scalar_size dm s"
| "calign dm (Bits s bs) = scalar_size dm s"
| "calign dm (Array t n) = calign dm t"
| "calign dm (Struct packed fs) =
     (if packed then 1 else max 1 (max_list (map (\<lambda>(_, t). calign dm t) fs)))"
| "calign dm (Union fs) = max 1 (max_list (map (\<lambda>(_, t). calign dm t) fs))"

definition field_align :: "data_model \<Rightarrow> bool \<Rightarrow> ctype \<Rightarrow> nat" where
  "field_align dm packed t = (if packed then 1 else calign dm t)"

fun csize :: "data_model \<Rightarrow> ctype \<Rightarrow> nat" where
  "csize dm (Scalar s) = scalar_size dm s"
| "csize dm (Bits s bs) = scalar_size dm s"
| "csize dm (Array t n) = n * csize dm t"
| "csize dm (Struct packed fs) =
     align_up (end_of 0 (map (\<lambda>(_, t). (field_align dm packed t, csize dm t)) fs))
       (calign dm (Struct packed fs))"
| "csize dm (Union fs) =
     align_up (max_list (map (\<lambda>(_, t). csize dm t) fs)) (calign dm (Union fs))"

definition field_layout :: "data_model \<Rightarrow> bool \<Rightarrow> (string \<times> ctype) list \<Rightarrow> (nat \<times> nat) list" where
  "field_layout dm packed fs = map (\<lambda>(_, t). (field_align dm packed t, csize dm t)) fs"

text \<open>The fields of a struct with their offsets, and \<^verbatim>\<open>offsetof\<close> of a named field.\<close>

fun field_offsets :: "data_model \<Rightarrow> ctype \<Rightarrow> (string \<times> nat) list" where
  "field_offsets dm (Struct packed fs) = zip (map fst fs) (offsets 0 (field_layout dm packed fs))"
| "field_offsets dm _ = []"

definition coffset :: "data_model \<Rightarrow> ctype \<Rightarrow> string \<Rightarrow> nat option" where
  "coffset dm t name = map_of (field_offsets dm t) name"

section \<open>Memory images\<close>

datatype cval =
    VNum nat            \<comment> \<open>a scalar, read as an unsigned number\<close>
  | VArr "cval list"
  | VRec "cval list"
  | VRaw "u8 list"      \<comment> \<open>the bytes of a union\<close>

fun le_bytes :: "nat \<Rightarrow> nat \<Rightarrow> u8 list" where
  "le_bytes 0 n = []"
| "le_bytes (Suc k) n = of_nat n # le_bytes k (n div 256)"

fun le_num :: "u8 list \<Rightarrow> nat" where
  "le_num [] = 0"
| "le_num (b # bs) = unat b + 256 * le_num bs"

text \<open>A memory image extended with zero bytes to a given length.\<close>

definition pad_to :: "nat \<Rightarrow> u8 list \<Rightarrow> u8 list" where
  "pad_to n bs = bs @ replicate (n - length bs) 0"

text \<open>Field images placed behind the bytes \<open>acc\<close>, each with its alignment.\<close>

fun place :: "u8 list \<Rightarrow> (nat \<times> u8 list) list \<Rightarrow> u8 list" where
  "place acc [] = acc"
| "place acc ((a, bs) # xs) = place (pad_to (align_up (length acc) a) acc @ bs) xs"

fun well_typed :: "data_model \<Rightarrow> ctype \<Rightarrow> cval \<Rightarrow> bool" where
  "well_typed dm (Scalar s) v = (case v of VNum n \<Rightarrow> n < 256 ^ scalar_size dm s | _ \<Rightarrow> False)"
| "well_typed dm (Bits s bs) v = (case v of VNum n \<Rightarrow> n < 256 ^ scalar_size dm s | _ \<Rightarrow> False)"
| "well_typed dm (Array t n) v =
     (case v of VArr vs \<Rightarrow> length vs = n \<and> (\<forall>x\<in>set vs. well_typed dm t x) | _ \<Rightarrow> False)"
| "well_typed dm (Struct packed fs) v =
     (case v of VRec vs \<Rightarrow> length vs = length fs \<and>
        list_all (\<lambda>p. p) (map2 (\<lambda>p x. p x) (map (\<lambda>(_, t). well_typed dm t) fs) vs) | _ \<Rightarrow> False)"
| "well_typed dm (Union fs) v =
     (case v of VRaw bs \<Rightarrow> length bs = csize dm (Union fs) | _ \<Rightarrow> False)"

fun encode :: "data_model \<Rightarrow> ctype \<Rightarrow> cval \<Rightarrow> u8 list" where
  "encode dm (Scalar s) v = (case v of VNum n \<Rightarrow> le_bytes (scalar_size dm s) n | _ \<Rightarrow> [])"
| "encode dm (Bits s bs) v = (case v of VNum n \<Rightarrow> le_bytes (scalar_size dm s) n | _ \<Rightarrow> [])"
| "encode dm (Array t n) v =
     (case v of VArr vs \<Rightarrow> concat (map (encode dm t) vs) | _ \<Rightarrow> [])"
| "encode dm (Struct packed fs) v =
     (case v of VRec vs \<Rightarrow>
        pad_to (csize dm (Struct packed fs))
          (place [] (zip (map (\<lambda>(_, t). field_align dm packed t) fs)
                         (map2 (\<lambda>e x. e x) (map (\<lambda>(_, t). encode dm t) fs) vs)))
      | _ \<Rightarrow> [])"
| "encode dm (Union fs) v = (case v of VRaw bs \<Rightarrow> bs | _ \<Rightarrow> [])"

fun chunks :: "nat \<Rightarrow> nat \<Rightarrow> 'a list \<Rightarrow> 'a list list" where
  "chunks 0 w bs = []"
| "chunks (Suc n) w bs = take w bs # chunks n w (drop w bs)"

fun decode :: "data_model \<Rightarrow> ctype \<Rightarrow> u8 list \<Rightarrow> cval" where
  "decode dm (Scalar s) bs = VNum (le_num bs)"
| "decode dm (Bits s fs) bs = VNum (le_num bs)"
| "decode dm (Array t n) bs = VArr (map (decode dm t) (chunks n (csize dm t) bs))"
| "decode dm (Struct packed fs) bs =
     VRec (map2 (\<lambda>d ofs. d (drop ofs bs))
       (map (\<lambda>(_, t) b. decode dm t (take (csize dm t) b)) fs)
       (offsets 0 (field_layout dm packed fs)))"
| "decode dm (Union fs) bs = VRaw bs"

text \<open>
  Declarations a compiler accepts: the members of a struct or union have different names, and
  bit-fields that share a storage unit fit into it.
\<close>

fun ctype_ok :: "data_model \<Rightarrow> ctype \<Rightarrow> bool" where
  "ctype_ok dm (Scalar s) = True"
| "ctype_ok dm (Bits s bs) =
     (distinct (map fst bs) \<and> sum_list (map snd bs) \<le> 8 * scalar_size dm s)"
| "ctype_ok dm (Array t n) = ctype_ok dm t"
| "ctype_ok dm (Struct packed fs) =
     (distinct (map fst fs) \<and> list_all (\<lambda>p. p) (map (\<lambda>(_, t). ctype_ok dm t) fs))"
| "ctype_ok dm (Union fs) =
     (distinct (map fst fs) \<and> list_all (\<lambda>p. p) (map (\<lambda>(_, t). ctype_ok dm t) fs))"

text \<open>Types whose layout does not depend on the data model: no \<open>long\<close>, \<open>size_t\<close> or pointer.\<close>

fun fixed_width :: "ctype \<Rightarrow> bool" where
  "fixed_width (Scalar s) = (s \<notin> {C_long, C_ulong, C_size_t, C_ptr})"
| "fixed_width (Bits s bs) = (s \<notin> {C_long, C_ulong, C_size_t, C_ptr})"
| "fixed_width (Array t n) = fixed_width t"
| "fixed_width (Struct packed fs) = list_all (\<lambda>(_, t). fixed_width t) fs"
| "fixed_width (Union fs) = list_all (\<lambda>(_, t). fixed_width t) fs"

text \<open>
  The offset and the type of the field that a path of names leads to, through nested structs, and
  the value the path leads to.
\<close>

fun field_index :: "string \<Rightarrow> (string \<times> 'a) list \<Rightarrow> nat option" where
  "field_index x [] = None"
| "field_index x ((y, _) # fs) = (if x = y then Some 0 else map_option Suc (field_index x fs))"

fun field_at :: "data_model \<Rightarrow> string list \<Rightarrow> ctype \<Rightarrow> (nat \<times> ctype) option" where
  "field_at dm [] t = Some (0, t)"
| "field_at dm (x # xs) (Struct packed fs) =
    (case field_index x fs of
       None \<Rightarrow> None
     | Some i \<Rightarrow>
         (case field_at dm xs (snd (fs ! i)) of
            None \<Rightarrow> None
          | Some (ofs, t) \<Rightarrow> Some (offsets 0 (field_layout dm packed fs) ! i + ofs, t)))"
| "field_at dm (x # xs) _ = None"

fun value_at :: "string list \<Rightarrow> ctype \<Rightarrow> cval \<Rightarrow> cval option" where
  "value_at [] t v = Some v"
| "value_at (x # xs) (Struct packed fs) (VRec vs) =
    (case field_index x fs of
       None \<Rightarrow> None
     | Some i \<Rightarrow> value_at xs (snd (fs ! i)) (vs ! i))"
| "value_at (x # xs) _ _ = None"

text \<open>
  A struct with the attribute \<^verbatim>\<open>packed, aligned(4)\<close>: fields without padding, the whole aligned and
  padded to four bytes, as by an empty array of words.
\<close>

definition packed_aligned4 :: "(string \<times> ctype) list \<Rightarrow> ctype" where
  "packed_aligned4 fs = Struct False [(''body'', Struct True fs), (''end'', Array (Scalar C_u32) 0)]"

section \<open>Ioctl requests\<close>

datatype ioc_dir = IOC_NONE | IOC_WRITE | IOC_READ | IOC_READWRITE

text \<open>A request: its name, direction, type character, number and argument type.\<close>

record ioctl =
  ioc_name :: string
  ioc_dir :: ioc_dir
  ioc_type :: nat
  ioc_nr :: nat
  ioc_arg :: "ctype option"

definition IO :: "string \<Rightarrow> nat \<Rightarrow> nat \<Rightarrow> ioctl" where
  "IO n ty nr = \<lparr>ioc_name = n, ioc_dir = IOC_NONE, ioc_type = ty, ioc_nr = nr, ioc_arg = None\<rparr>"
definition IOR :: "string \<Rightarrow> nat \<Rightarrow> nat \<Rightarrow> ctype \<Rightarrow> ioctl" where
  "IOR n ty nr t = \<lparr>ioc_name = n, ioc_dir = IOC_READ, ioc_type = ty, ioc_nr = nr, ioc_arg = Some t\<rparr>"
definition IOW :: "string \<Rightarrow> nat \<Rightarrow> nat \<Rightarrow> ctype \<Rightarrow> ioctl" where
  "IOW n ty nr t = \<lparr>ioc_name = n, ioc_dir = IOC_WRITE, ioc_type = ty, ioc_nr = nr, ioc_arg = Some t\<rparr>"
definition IOWR :: "string \<Rightarrow> nat \<Rightarrow> nat \<Rightarrow> ctype \<Rightarrow> ioctl" where
  "IOWR n ty nr t = \<lparr>ioc_name = n, ioc_dir = IOC_READWRITE, ioc_type = ty, ioc_nr = nr, ioc_arg = Some t\<rparr>"

definition arg_size :: "data_model \<Rightarrow> ioctl \<Rightarrow> nat" where
  "arg_size dm i = (case ioc_arg i of None \<Rightarrow> 0 | Some t \<Rightarrow> csize dm t)"

text \<open>The four fields a request is made of.\<close>

definition request :: "data_model \<Rightarrow> ioctl \<Rightarrow> ioc_dir \<times> nat \<times> nat \<times> nat" where
  "request dm i = (ioc_dir i, ioc_type i, ioc_nr i, arg_size dm i)"

text \<open>Type and number are bytes and the argument size has 14 bits.\<close>

definition request_ok :: "data_model \<Rightarrow> ioctl \<Rightarrow> bool" where
  "request_ok dm i \<longleftrightarrow> ioc_type i < 256 \<and> ioc_nr i < 256 \<and> arg_size dm i < 16384"

text \<open>
  What the requests of a driver rely on in the kernel's encoding of a request as a number:
  different fields in range give different numbers.
\<close>

definition ioc_encoding :: "(ioc_dir \<times> nat \<times> nat \<times> nat \<Rightarrow> nat) \<Rightarrow> bool" where
  "ioc_encoding enc \<longleftrightarrow>
     inj_on enc {(d, ty, nr, sz). ty < 256 \<and> nr < 256 \<and> sz < 16384}"

definition argument_compatible :: "ioctl \<Rightarrow> bool" where
  "argument_compatible i = (case ioc_arg i of None \<Rightarrow> True | Some t \<Rightarrow> fixed_width t)"

section \<open>Layout lemmas\<close>

lemma word_bytes_pos [simp]: "0 < word_bytes dm"
  by (cases dm) simp_all

lemma scalar_size_pos [simp]: "0 < scalar_size dm s"
  by (cases s) simp_all

lemma calign_pos [simp]: "0 < calign dm t"
  by (induction t) (simp_all add: less_max_iff_disj)

lemma field_align_pos [simp]: "0 < field_align dm packed t"
  by (simp add: field_align_def)

lemma length_offsets [simp]: "length (offsets ofs xs) = length xs"
  by (induction xs arbitrary: ofs) auto

lemma length_field_layout [simp]: "length (field_layout dm packed fs) = length fs"
  by (simp add: field_layout_def)

lemma end_of_ge: "\<forall>(a, _)\<in>set xs. 0 < a \<Longrightarrow> ofs \<le> end_of ofs xs"
proof (induction xs arbitrary: ofs)
  case (Cons x xs)
  obtain a sz where x: "x = (a, sz)" by (cases x)
  have "ofs \<le> align_up ofs a + sz"
    using Cons.prems le_align_up [of a ofs] by (simp add: x)
  also have "\<dots> \<le> end_of (align_up ofs a + sz) xs"
    by (rule Cons.IH) (use Cons.prems in simp)
  finally show ?case by (simp add: x)
qed simp

text \<open>Every field starts aligned and fields do not overlap: each ends before the next starts.\<close>

lemma offsets_ge:
  "\<forall>(a, _)\<in>set xs. 0 < a \<Longrightarrow> i < length xs \<Longrightarrow> ofs \<le> offsets ofs xs ! i"
proof (induction xs arbitrary: ofs i)
  case (Cons x xs)
  obtain a sz where x: "x = (a, sz)" by (cases x)
  have "ofs \<le> align_up ofs a"
    using Cons.prems by (intro le_align_up) (simp add: x)
  then show ?case
    using Cons.prems Cons.IH [of "i - 1" "align_up ofs a + sz"] by (cases i) (simp_all add: x)
qed simp

lemma offsets_aligned: "i < length xs \<Longrightarrow> fst (xs ! i) dvd offsets ofs xs ! i"
proof (induction xs arbitrary: ofs i)
  case (Cons x xs)
  then show ?case by (cases x; cases i) simp_all
qed simp

lemma offsets_end:
  "\<forall>(a, _)\<in>set xs. 0 < a \<Longrightarrow> i < length xs \<Longrightarrow>
   offsets ofs xs ! i + snd (xs ! i) \<le> end_of ofs xs"
proof (induction xs arbitrary: ofs i)
  case (Cons x xs)
  then show ?case
    using end_of_ge [of xs] by (cases x; cases i) auto
qed simp

lemma offsets_disjoint:
  "\<forall>(a, _)\<in>set xs. 0 < a \<Longrightarrow> i < j \<Longrightarrow> j < length xs \<Longrightarrow>
   offsets ofs xs ! i + snd (xs ! i) \<le> offsets ofs xs ! j"
proof (induction xs arbitrary: ofs i j)
  case (Cons x xs)
  obtain a sz where x: "x = (a, sz)" by (cases x)
  obtain k where k: "j = Suc k" using Cons.prems by (cases j) auto
  show ?case
    using Cons.prems Cons.IH [of "i - 1" k "align_up ofs a + sz"]
      offsets_ge [of xs k "align_up ofs a + sz"]
    by (cases i) (auto simp: x k)
qed simp

lemma field_layout_pos: "\<forall>(a, _)\<in>set (field_layout dm packed fs). 0 < a"
  by (auto simp: field_layout_def)

lemma csize_struct_end: "end_of 0 (field_layout dm packed fs) \<le> csize dm (Struct packed fs)"
  using le_align_up [OF calign_pos [of dm "Struct packed fs"]]
  by (simp add: field_layout_def)

lemma packed_aligned4_layout:
  "calign dm (packed_aligned4 fs) = 4"
  "csize dm (packed_aligned4 fs) = align_up (csize dm (Struct True fs)) 4"
proof -
  have "calign dm (Struct True fs) = 1"
    by simp
  then show "calign dm (packed_aligned4 fs) = 4"
    and "csize dm (packed_aligned4 fs) = align_up (csize dm (Struct True fs)) 4"
    by (simp_all add: packed_aligned4_def field_layout_def field_align_def)
qed

section \<open>Memory images read back\<close>

lemma length_le_bytes [simp]: "length (le_bytes k n) = k"
  by (induction k arbitrary: n) auto

lemma le_num_le_bytes: "n < 256 ^ k \<Longrightarrow> le_num (le_bytes k n) = n"
proof (induction k arbitrary: n)
  case (Suc k)
  then have "n div 256 < 256 ^ k"
    by (simp add: less_mult_imp_div_less mult.commute)
  then have "le_num (le_bytes k (n div 256)) = n div 256"
    by (rule Suc.IH)
  then show ?case
    by (simp add: unat_of_nat)
qed simp

lemma length_pad_to [simp]: "length (pad_to n bs) = max n (length bs)"
  by (simp add: pad_to_def)

abbreviation image_layout :: "(nat \<times> u8 list) list \<Rightarrow> (nat \<times> nat) list" where
  "image_layout xs \<equiv> map (\<lambda>(a, bs). (a, length bs)) xs"

lemma length_place:
  "\<forall>(a, _)\<in>set xs. 0 < a \<Longrightarrow> length (place acc xs) = end_of (length acc) (image_layout xs)"
proof (induction xs arbitrary: acc)
  case (Cons x xs)
  then show ?case
    by (cases x) (simp add: le_align_up max_absorb1)
qed simp

lemma place_prefix: "\<exists>zs. place acc xs = acc @ zs"
proof (induction xs arbitrary: acc)
  case (Cons x xs)
  obtain a bs where x: "x = (a, bs)" by (cases x)
  obtain zs where "place (pad_to (align_up (length acc) a) acc @ bs) xs =
      (pad_to (align_up (length acc) a) acc @ bs) @ zs"
    using Cons.IH by blast
  then show ?case by (simp add: x pad_to_def)
qed simp

lemma place_field:
  assumes "\<forall>(a, _)\<in>set xs. 0 < a" and "i < length xs"
  shows "take (length (snd (xs ! i)))
    (drop (offsets (length acc) (image_layout xs) ! i) (place acc xs @ zs)) = snd (xs ! i)"
  using assms
proof (induction xs arbitrary: acc i)
  case (Cons x xs)
  obtain a bs where x: "x = (a, bs)" by (cases x)
  let ?acc = "pad_to (align_up (length acc) a) acc"
  have a: "0 < a" using Cons.prems(1) by (simp add: x)
  have len: "length ?acc = align_up (length acc) a"
    using le_align_up [OF a] by (simp add: max_absorb1)
  show ?case
  proof (cases i)
    case 0
    obtain ys where "place (?acc @ bs) xs = (?acc @ bs) @ ys"
      using place_prefix by blast
    then show ?thesis
      using 0 len by (simp add: x)
  next
    case (Suc k)
    then show ?thesis
      using Cons.IH [of k "?acc @ bs"] Cons.prems len by (simp add: x)
  qed
qed simp

lemma chunks_concat:
  "\<forall>x\<in>set xss. length x = w \<Longrightarrow> chunks (length xss) w (concat xss) = xss"
  by (induction xss) simp_all

lemma ctype_fields_induct [case_names Scalar Bits Array Struct Union]:
  assumes "\<And>s. P (Scalar s)" and "\<And>s bs. P (Bits s bs)" and "\<And>t n. P t \<Longrightarrow> P (Array t n)"
    and "\<And>packed fs. (\<And>x t. (x, t) \<in> set fs \<Longrightarrow> P t) \<Longrightarrow> P (Struct packed fs)"
    and "\<And>fs. (\<And>x t. (x, t) \<in> set fs \<Longrightarrow> P t) \<Longrightarrow> P (Union fs)"
  shows "P t"
proof (induction t)
  case (Struct packed fs)
  show ?case by (rule assms(4)) (use Struct in \<open>auto intro: snds.intros\<close>)
next
  case (Union fs)
  show ?case by (rule assms(5)) (use Union in \<open>auto intro: snds.intros\<close>)
qed (use assms in auto)

lemma nth_field: "i < length fs \<Longrightarrow> (fst (fs ! i), snd (fs ! i)) \<in> set fs"
  by simp

lemma well_typed_struct:
  "well_typed dm (Struct packed fs) (VRec vs) \<longleftrightarrow>
     length vs = length fs \<and> (\<forall>i<length fs. well_typed dm (snd (fs ! i)) (vs ! i))"
  by (auto simp: list_all_length case_prod_beta)

definition field_images :: "data_model \<Rightarrow> bool \<Rightarrow> (string \<times> ctype) list \<Rightarrow> cval list \<Rightarrow> (nat \<times> u8 list) list" where
  "field_images dm packed fs vs = zip (map (\<lambda>(_, t). field_align dm packed t) fs)
     (map2 (\<lambda>e x. e x) (map (\<lambda>(_, t). encode dm t) fs) vs)"

lemma length_field_images [simp]:
  "length vs = length fs \<Longrightarrow> length (field_images dm packed fs vs) = length fs"
  by (simp add: field_images_def)

lemma nth_field_images:
  "length vs = length fs \<Longrightarrow> i < length fs \<Longrightarrow>
   field_images dm packed fs vs ! i =
     (field_align dm packed (snd (fs ! i)), encode dm (snd (fs ! i)) (vs ! i))"
  by (simp add: field_images_def case_prod_beta)

lemma field_images_pos: "\<forall>(a, _)\<in>set (field_images dm packed fs vs). 0 < a"
  by (auto simp: field_images_def dest!: set_zip_leftD)

lemma image_layout_fields:
  assumes "length vs = length fs"
    and "\<forall>i<length fs. length (encode dm (snd (fs ! i)) (vs ! i)) = csize dm (snd (fs ! i))"
  shows "image_layout (field_images dm packed fs vs) = field_layout dm packed fs"
  using assms by (intro nth_equalityI)
    (simp_all add: nth_field_images field_layout_def case_prod_beta)

lemma length_encode: "well_typed dm t v \<Longrightarrow> length (encode dm t v) = csize dm t"
proof (induction t arbitrary: v rule: ctype_fields_induct)
  case (Array t n)
  then obtain vs where v: "v = VArr vs" "length vs = n" "\<forall>x\<in>set vs. well_typed dm t x"
    by (auto split: cval.splits)
  then have "map length (map (encode dm t) vs) = replicate n (csize dm t)"
    using Array.IH by (intro nth_equalityI) auto
  then show ?case
    by (simp add: v(1) length_concat sum_list_replicate del: map_map)
next
  case (Struct packed fs)
  then obtain vs where v: "v = VRec vs" and len: "length vs = length fs"
    and wt: "\<forall>i<length fs. well_typed dm (snd (fs ! i)) (vs ! i)"
    using well_typed_struct by (cases v) auto
  have "\<forall>i<length fs. length (encode dm (snd (fs ! i)) (vs ! i)) = csize dm (snd (fs ! i))"
    using wt Struct.IH [OF nth_field] by blast
  then have "length (place [] (field_images dm packed fs vs)) = end_of 0 (field_layout dm packed fs)"
    using length_place [OF field_images_pos, of "[]" dm packed fs vs] len
    by (simp add: image_layout_fields)
  then show ?case
    using csize_struct_end [of dm packed fs]
    by (simp add: v field_images_def [symmetric] max_absorb1 del: csize.simps)
qed (auto split: cval.splits)

text \<open>What is found at a field's offset is the field's own image.\<close>

lemma encode_field:
  assumes "well_typed dm (Struct packed fs) (VRec vs)" and "i < length fs"
  shows "take (csize dm (snd (fs ! i))) (drop (offsets 0 (field_layout dm packed fs) ! i)
      (encode dm (Struct packed fs) (VRec vs))) = encode dm (snd (fs ! i)) (vs ! i)"
proof -
  have len: "length vs = length fs" and wt: "\<forall>i<length fs. well_typed dm (snd (fs ! i)) (vs ! i)"
    using assms(1) well_typed_struct by blast+
  have sz: "\<forall>i<length fs. length (encode dm (snd (fs ! i)) (vs ! i)) = csize dm (snd (fs ! i))"
    using wt by (simp add: length_encode)
  show ?thesis
    using place_field [OF field_images_pos, of i dm packed fs vs "[]"] assms(2) len sz
    by (simp add: field_images_def [symmetric] pad_to_def nth_field_images image_layout_fields
        del: csize.simps take_append drop_append)
qed

lemma decode_encode: "well_typed dm t v \<Longrightarrow> decode dm t (encode dm t v) = v"
proof (induction t arbitrary: v rule: ctype_fields_induct)
  case (Scalar s)
  then show ?case by (auto split: cval.splits simp: le_num_le_bytes)
next
  case (Bits s bs)
  then show ?case by (auto split: cval.splits simp: le_num_le_bytes)
next
  case (Array t n)
  then obtain vs where v: "v = VArr vs" "length vs = n" "\<forall>x\<in>set vs. well_typed dm t x"
    by (auto split: cval.splits)
  then have "chunks n (csize dm t) (concat (map (encode dm t) vs)) = map (encode dm t) vs"
    using chunks_concat [of "map (encode dm t) vs" "csize dm t"] by (simp add: length_encode)
  then show ?case
    using v Array.IH by (simp add: map_idI)
next
  case (Struct packed fs)
  then obtain vs where v: "v = VRec vs" and len: "length vs = length fs"
    and wt: "\<forall>i<length fs. well_typed dm (snd (fs ! i)) (vs ! i)"
    using well_typed_struct by (cases v) auto
  have fld: "take (csize dm (snd (fs ! i))) (drop (offsets 0 (field_layout dm packed fs) ! i)
      (encode dm (Struct packed fs) v)) = encode dm (snd (fs ! i)) (vs ! i)" if "i < length fs" for i
    using encode_field [of dm packed fs vs i] Struct.prems that by (simp only: v)
  show ?case
    using wt len fld Struct.IH [OF nth_field]
    by (simp add: v del: encode.simps csize.simps)
      (auto intro!: nth_equalityI simp: case_prod_beta)
next
  case (Union fs)
  then show ?case by (auto split: cval.splits)
qed

text \<open>Any bytes of the right number are the image of some well-typed value.\<close>

lemma le_num_less: "le_num bs < 256 ^ length bs"
proof (induction bs)
  case (Cons b bs)
  have "unat b < 256"
    using unsigned_less [of b, where 'a = nat] by simp
  then have "unat b + 256 * le_num bs < 256 * (le_num bs + 1)"
    by simp
  also have "\<dots> \<le> 256 * 256 ^ length bs"
    using Cons.IH by (intro mult_left_mono) simp_all
  finally show ?case by simp
qed simp

lemma chunks_length:
  "length bs = n * w \<Longrightarrow> length (chunks n w bs) = n \<and> (\<forall>x\<in>set (chunks n w bs). length x = w)"
proof (induction n arbitrary: bs)
  case (Suc n)
  have "length (drop w bs) = n * w" using Suc.prems by simp
  then show ?case using Suc.IH [of "drop w bs"] Suc.prems by simp
qed simp

lemma field_within:
  assumes "i < length fs"
  shows "offsets 0 (field_layout dm packed fs) ! i + csize dm (snd (fs ! i))
    \<le> csize dm (Struct packed fs)"
proof -
  have "snd (field_layout dm packed fs ! i) = csize dm (snd (fs ! i))"
    using assms by (simp add: field_layout_def case_prod_beta)
  then show ?thesis
    using offsets_end [OF field_layout_pos, of i dm packed fs 0] assms
      csize_struct_end [of dm packed fs]
    by (simp del: csize.simps)
qed

text \<open>In an accepted struct \<^verbatim>\<open>offsetof\<close> finds every member, aligned and within the struct.\<close>

lemma coffset_nth:
  assumes "distinct (map fst fs)" and "i < length fs"
  shows "coffset dm (Struct packed fs) (fst (fs ! i)) =
    Some (offsets 0 (field_layout dm packed fs) ! i)"
proof -
  have "map fst (field_offsets dm (Struct packed fs)) = map fst fs"
    by simp
  moreover have "field_offsets dm (Struct packed fs) ! i =
      (fst (fs ! i), offsets 0 (field_layout dm packed fs) ! i)"
    using assms(2) by simp
  ultimately show ?thesis
    unfolding coffset_def using assms
    by (intro map_of_is_SomeI) (auto simp: in_set_conv_nth)
qed

lemma member_placed:
  assumes "ctype_ok dm (Struct packed fs)" and "(x, u) \<in> set fs"
  obtains ofs where "coffset dm (Struct packed fs) x = Some ofs"
    "ofs + csize dm u \<le> csize dm (Struct packed fs)" "field_align dm packed u dvd ofs"
proof -
  obtain i where i: "i < length fs" "fs ! i = (x, u)"
    using assms(2) by (auto simp: in_set_conv_nth)
  have "field_align dm packed u dvd offsets 0 (field_layout dm packed fs) ! i"
    using offsets_aligned [of i "field_layout dm packed fs" 0] i by (simp add: field_layout_def)
  then show ?thesis
    using that coffset_nth [OF _ i(1), of dm packed] field_within [OF i(1), of dm packed] assms(1) i(2)
    by simp
qed

lemma decode_well_typed: "length bs = csize dm t \<Longrightarrow> well_typed dm t (decode dm t bs)"
proof (induction t arbitrary: bs rule: ctype_fields_induct)
  case (Scalar s)
  then show ?case using le_num_less [of bs] by simp
next
  case (Bits s fs)
  then show ?case using le_num_less [of bs] by simp
next
  case (Array t n)
  then show ?case using chunks_length [of bs n "csize dm t"] by (auto simp: mult.commute)
next
  case (Struct packed fs)
  let ?ofs = "offsets 0 (field_layout dm packed fs)"
  have "length (take (csize dm (snd (fs ! i))) (drop (?ofs ! i) bs)) = csize dm (snd (fs ! i))"
    if "i < length fs" for i
    using field_within [OF that, of dm packed] Struct.prems by (simp del: csize.simps)
  then have "\<forall>i<length fs. well_typed dm (snd (fs ! i))
      (decode dm (snd (fs ! i)) (take (csize dm (snd (fs ! i))) (drop (?ofs ! i) bs)))"
    using Struct.IH [OF nth_field] by blast
  then show ?case
    by (simp add: well_typed_struct case_prod_beta del: well_typed.simps)
next
  case (Union fs)
  then show ?case by simp
qed

section \<open>Fields of fields\<close>

lemma field_index_less: "field_index x fs = Some i \<Longrightarrow> i < length fs"
  by (induction fs arbitrary: i rule: field_index.induct) (auto split: if_splits)

text \<open>Bytes taken within bytes taken: the offsets add up.\<close>

lemma take_drop_within:
  assumes "ofs + n \<le> m"
  shows "take n (drop ofs (take m (drop ofs' bs))) = take n (drop (ofs' + ofs) bs)"
  using assms by (simp add: drop_take min_absorb1 add.commute)

lemma field_at_within:
  "field_at dm path t = Some (ofs, u) \<Longrightarrow> ofs + csize dm u \<le> csize dm t"
proof (induction dm path t arbitrary: ofs u rule: field_at.induct)
  case (2 dm x xs packed fs)
  then obtain i ofs' where i: "field_index x fs = Some i"
    and ofs': "field_at dm xs (snd (fs ! i)) = Some (ofs', u)"
    and ofs: "ofs = offsets 0 (field_layout dm packed fs) ! i + ofs'"
    by (auto split: option.splits)
  show ?case
    using "2.IH" [OF i ofs'] field_within [OF field_index_less [OF i], of dm packed] ofs
    by (simp del: csize.simps)
qed auto

text \<open>
  Reading a nested field straight from the bytes of the whole, without knowing the rest of the
  type, gives the value of the field.
\<close>

lemma read_field:
  assumes "field_at dm path t = Some (ofs, u)" and "well_typed dm t v"
  shows "\<exists>x. value_at path t v = Some x \<and> well_typed dm u x \<and>
    decode dm u (take (csize dm u) (drop ofs (encode dm t v))) = x"
  using assms
proof (induction dm path t arbitrary: ofs u v rule: field_at.induct)
  case (1 dm t)
  then show ?case by (auto simp: decode_encode length_encode)
next
  case (2 dm x xs packed fs)
  then obtain i ofs' where i: "field_index x fs = Some i"
    and ofs': "field_at dm xs (snd (fs ! i)) = Some (ofs', u)"
    and ofs: "ofs = offsets 0 (field_layout dm packed fs) ! i + ofs'"
    by (auto split: option.splits)
  obtain vs where v: "v = VRec vs" using "2.prems"(2) by (cases v) auto
  have n: "i < length fs" using i by (rule field_index_less)
  have wt: "well_typed dm (snd (fs ! i)) (vs ! i)"
    using "2.prems"(2) n by (simp add: v well_typed_struct del: well_typed.simps)
  have "take (csize dm u) (drop ofs (encode dm (Struct packed fs) v)) =
      take (csize dm u) (drop ofs' (encode dm (snd (fs ! i)) (vs ! i)))"
    using take_drop_within [OF field_at_within [OF ofs']]
      encode_field [of dm packed fs vs i] "2.prems"(2) n
    by (metis ofs v)
  then show ?case
    using "2.IH" [OF i ofs' wt] by (simp add: v i del: encode.simps)
qed auto

lemma fixed_width_scalar: "fixed_width (Scalar s) \<Longrightarrow> scalar_size dm s = scalar_size dm' s"
  by (cases s) simp_all

lemma fixed_width_calign: "fixed_width t \<Longrightarrow> calign dm t = calign dm' t"
proof (induction t rule: ctype_fields_induct)
  case (Struct packed fs)
  then have "map (\<lambda>(_, t). calign dm t) fs = map (\<lambda>(_, t). calign dm' t) fs"
    by (auto simp: list_all_iff)
  then show ?case by (simp only: calign.simps)
next
  case (Union fs)
  then have "map (\<lambda>(_, t). calign dm t) fs = map (\<lambda>(_, t). calign dm' t) fs"
    by (auto simp: list_all_iff)
  then show ?case by (simp only: calign.simps)
qed (use fixed_width_scalar in auto)

lemma fixed_width_csize: "fixed_width t \<Longrightarrow> csize dm t = csize dm' t"
proof (induction t rule: ctype_fields_induct)
  case (Struct packed fs)
  have "map (\<lambda>(_, t). (field_align dm packed t, csize dm t)) fs =
      map (\<lambda>(_, t). (field_align dm' packed t, csize dm' t)) fs"
    using Struct by (auto simp: list_all_iff field_align_def intro!: fixed_width_calign)
  then show ?case
    using fixed_width_calign [OF Struct.prems, of dm dm'] by (simp only: csize.simps)
next
  case (Union fs)
  have "map (\<lambda>(_, t). csize dm t) fs = map (\<lambda>(_, t). csize dm' t) fs"
    using Union by (auto simp: list_all_iff)
  then show ?case
    using fixed_width_calign [OF Union.prems, of dm dm'] by (simp only: csize.simps)
qed (use fixed_width_scalar in auto)

lemma fixed_width_field_layout:
  "fixed_width (Struct packed fs) \<Longrightarrow> field_layout dm packed fs = field_layout dm' packed fs"
  by (auto simp: field_layout_def list_all_iff field_align_def
      intro!: fixed_width_calign fixed_width_csize)

lemma fixed_width_field_at: "fixed_width t \<Longrightarrow> field_at dm path t = field_at dm' path t"
proof (induction dm path t rule: field_at.induct)
  case (2 dm x xs packed fs)
  have "fixed_width (snd (fs ! i))" if "field_index x fs = Some i" for i
    using "2.prems" nth_mem [OF field_index_less [OF that]] by (auto simp: list_all_iff)
  then show ?case
    using "2.IH" fixed_width_field_layout [OF "2.prems", of dm dm']
    by (auto split: option.splits)
qed auto

text \<open>The memory image of a value of such a type is the same in both data models.\<close>

lemma fixed_width_encode:
  "fixed_width t \<Longrightarrow> encode dm t v = encode dm' t v"
proof (induction t arbitrary: v rule: ctype_fields_induct)
  case (Scalar s)
  then show ?case
    using fixed_width_scalar [OF Scalar, of dm dm'] by (simp split: cval.splits)
next
  case (Bits s bs)
  then show ?case
    using fixed_width_scalar [of s dm dm'] by (simp split: cval.splits)
next
  case (Array t n)
  then show ?case by (auto split: cval.splits intro!: arg_cong [where f = concat])
next
  case (Struct packed fs)
  have fields: "\<forall>x\<in>set fs. fixed_width (snd x)"
    using Struct.prems by (auto simp: list_all_iff)
  have "map (\<lambda>(_, t). encode dm t) fs = map (\<lambda>(_, t). encode dm' t) fs"
    using fields Struct.IH by (auto simp: fun_eq_iff)
  moreover have "map (\<lambda>(_, t). field_align dm packed t) fs = map (\<lambda>(_, t). field_align dm' packed t) fs"
    using fields by (auto simp: field_align_def intro!: fixed_width_calign)
  ultimately show ?case
    using fixed_width_csize [OF Struct.prems, of dm dm'] by (simp only: encode.simps)
qed simp

section \<open>Tables of requests\<close>

definition ioc_key :: "ioctl \<Rightarrow> nat \<times> nat" where
  "ioc_key i = (ioc_type i, ioc_nr i)"

lemma request_inj:
  assumes "ioc_encoding enc" and "request_ok dm i" and "request_ok dm' j"
  shows "enc (request dm i) = enc (request dm' j) \<longleftrightarrow> request dm i = request dm' j"
  using assms unfolding ioc_encoding_def request_ok_def request_def
  by (auto dest!: inj_onD)

lemma request_ok_fields:
  "request_ok dm i \<Longrightarrow> ioc_type i < 256 \<and> ioc_nr i < 256"
  by (simp add: request_ok_def)

lemma request_compatible:
  "argument_compatible i \<Longrightarrow> request dm i = request dm' i"
  by (auto simp: argument_compatible_def request_def arg_size_def split: option.splits
      intro: fixed_width_csize)

text \<open>
  The contract of a driver's table: the fields of every request are in range and the requests
  differ, in both data models.
\<close>

locale request_table =
  fixes tbl :: "ioctl list"
  assumes in_range: "i \<in> set tbl \<Longrightarrow> request_ok dm i"
    and requests_distinct: "distinct (map (request dm) tbl)"
begin

text \<open>Two requests of the table have one number only when they are the same request.\<close>

lemma number_unique:
  assumes "ioc_encoding enc" and "i \<in> set tbl" and "j \<in> set tbl"
  shows "enc (request dm i) = enc (request dm j) \<longleftrightarrow> i = j"
  using request_inj [OF assms(1) in_range [OF assms(2)] in_range [OF assms(3)]]
    requests_distinct [of dm] assms(2,3)
  by (auto simp: distinct_map dest: inj_onD)

end

text \<open>The stronger contract: no two requests share type and number.\<close>

locale ioctl_table =
  fixes tbl :: "ioctl list"
  assumes fields_in_range: "i \<in> set tbl \<Longrightarrow> request_ok dm i"
    and keys_distinct: "distinct (map ioc_key tbl)"
begin

lemma request_key:
  assumes "i \<in> set tbl" and "j \<in> set tbl" and "request dm i = request dm' j"
  shows "i = j"
proof -
  have "ioc_key i = ioc_key j" using assms(3) by (simp add: request_def ioc_key_def)
  then show ?thesis
    using assms(1,2) keys_distinct by (auto simp: distinct_map dest: inj_onD)
qed

lemma distinct_requests: "distinct (map (request dm) tbl)"
  using keys_distinct request_key by (auto simp: distinct_map inj_on_def)

end

sublocale ioctl_table \<subseteq> request_table
  by unfold_locales (simp_all add: fields_in_range distinct_requests)

context ioctl_table
begin

text \<open>
  The number that a 32-bit process computes for a request is a number of the 64-bit interface exactly
  when the argument has the same size in both, and then it is the number of the same request.
\<close>

lemma number_across:
  assumes "ioc_encoding enc" and "i \<in> set tbl" and "j \<in> set tbl"
  shows "enc (request ILP32 i) = enc (request LP64 j) \<longleftrightarrow> i = j \<and> arg_size ILP32 i = arg_size LP64 i"
  using request_inj [OF assms(1) fields_in_range [OF assms(2)] fields_in_range [OF assms(3)]]
    request_key [OF assms(2,3)]
  by (auto simp: request_def)

text \<open>The same with the requests of different argument sizes listed.\<close>

lemma number_across_except:
  assumes "ioc_encoding enc" and i: "i \<in> set tbl" and j: "j \<in> set tbl" and ex: "set ex \<subseteq> set tbl"
    and differ: "list_all (\<lambda>i. arg_size ILP32 i \<noteq> arg_size LP64 i \<longleftrightarrow> ioc_key i \<in> set (map ioc_key ex)) tbl"
  shows "enc (request ILP32 i) = enc (request LP64 j) \<longleftrightarrow> i = j \<and> i \<notin> set ex"
proof -
  have "arg_size ILP32 i \<noteq> arg_size LP64 i \<longleftrightarrow> ioc_key i \<in> ioc_key ` set ex"
    using differ i by (simp add: list_all_iff)
  also have "\<dots> \<longleftrightarrow> i \<in> set ex"
    using ex i keys_distinct by (auto simp: distinct_map inj_on_def)
  finally show ?thesis
    using number_across [OF assms(1) i j] by auto
qed

end

text \<open>The contracts as executable checks of a table.\<close>

definition requests_ok :: "ioctl list \<Rightarrow> bool" where
  "requests_ok tbl \<longleftrightarrow> list_all (\<lambda>i. request_ok ILP32 i \<and> request_ok LP64 i) tbl"

lemma requests_okD: "requests_ok tbl \<Longrightarrow> i \<in> set tbl \<Longrightarrow> request_ok dm i"
  by (cases dm) (simp_all add: requests_ok_def list_all_iff)

lemma ioctl_tableI: "requests_ok tbl \<Longrightarrow> distinct (map ioc_key tbl) \<Longrightarrow> ioctl_table tbl"
  by unfold_locales (auto intro: requests_okD)

lemma request_tableI:
  "requests_ok tbl \<Longrightarrow> distinct (map (request ILP32) tbl) \<Longrightarrow> distinct (map (request LP64) tbl) \<Longrightarrow>
   request_table tbl"
  by unfold_locales (auto intro: requests_okD, metis data_model.exhaust)

text \<open>A table served behind the requests that a whole class of devices has in common.\<close>

definition extends_ok :: "ioctl list \<Rightarrow> ioctl list \<Rightarrow> bool" where
  "extends_ok base tbl \<longleftrightarrow>
    requests_ok (base @ tbl) \<and> distinct (map (request ILP32) (base @ tbl)) \<and>
    distinct (map (request LP64) (base @ tbl))"

lemma extends_tableI: "list_all (extends_ok base) tbls \<Longrightarrow> tbl \<in> set tbls \<Longrightarrow> request_table (base @ tbl)"
  by (auto simp: list_all_iff extends_ok_def intro: request_tableI)

text \<open>
  A class that reserves the numbers from \<open>n\<close> for its devices needs to be checked only once.
\<close>

definition reserved_ok :: "nat \<Rightarrow> ioctl list \<Rightarrow> bool" where
  "reserved_ok n tbl \<longleftrightarrow>
    requests_ok tbl \<and> distinct (map ioc_key tbl) \<and> list_all (\<lambda>i. n \<le> ioc_nr i) tbl"

lemma reserved_table:
  assumes "ioctl_table base" and "list_all (\<lambda>i. ioc_nr i < n) base" and "reserved_ok n tbl"
  shows "ioctl_table (base @ tbl)"
proof
  show "request_ok dm i" if "i \<in> set (base @ tbl)" for dm i
    using that assms(3) ioctl_table.fields_in_range [OF assms(1)] requests_okD
    by (auto simp: reserved_ok_def)
  have "ioc_key ` set base \<inter> ioc_key ` set tbl = {}"
    using assms(2,3) by (fastforce simp: reserved_ok_def list_all_iff ioc_key_def)
  then show "distinct (map ioc_key (base @ tbl))"
    using ioctl_table.keys_distinct [OF assms(1)] assms(3)
    by (simp add: reserved_ok_def)
qed

lemma ioctl_request_table: "ioctl_table tbl \<Longrightarrow> request_table tbl"
  by (rule request_table.intro) (simp_all add: ioctl_table.fields_in_range ioctl_table.distinct_requests)

text \<open>
  The layout of the generic kernel ABI (number in bits 0 to 7, type in 8 to 15, size in 16 to 29,
  direction above), as an example of an encoding that satisfies the hypothesis.
\<close>

fun dir_code :: "ioc_dir \<Rightarrow> nat" where
  "dir_code IOC_NONE = 0"
| "dir_code IOC_WRITE = 1"
| "dir_code IOC_READ = 2"
| "dir_code IOC_READWRITE = 3"

fun sample_encoding :: "ioc_dir \<times> nat \<times> nat \<times> nat \<Rightarrow> nat" where
  "sample_encoding (d, ty, nr, sz) = nr + 256 * (ty + 256 * (sz + 16384 * dir_code d))"

lemma split_inj: "a < m \<Longrightarrow> b < m \<Longrightarrow> a + m * x = b + m * y \<longleftrightarrow> a = b \<and> x = y" for m :: nat
proof
  assume "a < m" and "b < m" and eq: "a + m * x = b + m * y"
  have "a = (a + m * x) mod m" using \<open>a < m\<close> by simp
  also have "\<dots> = (b + m * y) mod m" by (simp only: eq)
  also have "\<dots> = b" using \<open>b < m\<close> by simp
  finally have "a = b" .
  then show "a = b \<and> x = y" using eq \<open>a < m\<close> by simp
qed simp

lemma dir_code_inj: "dir_code d = dir_code e \<longleftrightarrow> d = e"
  by (cases d; cases e) simp_all

lemma sample_encoding_ok: "ioc_encoding sample_encoding"
  unfolding ioc_encoding_def
  by (intro inj_onI) (clarsimp simp: split_inj dir_code_inj simp del: distrib_left_numeral)

end
