(* ===== verification/Mi_Disp.thy ===== *)
theory Mi_Disp
  imports C_Layout
begin

text \<open>
  The display feature interface of \<^verbatim>\<open>src/include/display/drm/mi_disp.h\<close>: its enumerations with their
  codes, the predicates and name functions that the header declares twice (once for the kernel,
  once for user space), the argument structs and the sixteen ioctls.
\<close>

section \<open>Enumerations\<close>

datatype disp_display_type =
    MI_DISP_PRIMARY | MI_DISP_SECONDARY | MI_DISP_MAX

primrec disp_display_type_code :: "disp_display_type \<Rightarrow> u32" where
  "disp_display_type_code MI_DISP_PRIMARY = 0"
| "disp_display_type_code MI_DISP_SECONDARY = 1"
| "disp_display_type_code MI_DISP_MAX = 2"

datatype common_feature_state =
    FEATURE_OFF | FEATURE_ON

primrec common_feature_state_code :: "common_feature_state \<Rightarrow> u32" where
  "common_feature_state_code FEATURE_OFF = 0"
| "common_feature_state_code FEATURE_ON = 1"

datatype disp_feature_id =
    DISP_FEATURE_DIMMING | DISP_FEATURE_HBM | DISP_FEATURE_HBM_FOD | DISP_FEATURE_DOZE_BRIGHTNESS |
    DISP_FEATURE_FOD_CALIBRATION_BRIGHTNESS | DISP_FEATURE_FOD_CALIBRATION_HBM |
    DISP_FEATURE_FLAT_MODE | DISP_FEATURE_CRC | DISP_FEATURE_DC | DISP_FEATURE_LOCAL_HBM |
    DISP_FEATURE_SENSOR_LUX | DISP_FEATURE_LOW_BRIGHTNESS_FOD | DISP_FEATURE_FP_STATUS |
    DISP_FEATURE_FOLD_STATUS | DISP_FEATURE_NATURE_FLAT_MODE | DISP_FEATURE_SPR_RENDER |
    DISP_FEATURE_AOD_TO_NORMAL | DISP_FEATURE_COLOR_INVERT | DISP_FEATURE_DC_BACKLIGHT |
    DISP_FEATURE_GIR | DISP_FEATURE_DBI | DISP_FEATURE_DDIC_ROUND_CORNER |
    DISP_FEATURE_HBM_BACKLIGHT | DISP_FEATURE_BACKLIGHT | DISP_FEATURE_BRIGHTNESS |
    DISP_FEATURE_LCD_HBM | DISP_FEATURE_DOZE_STATE | DISP_FEATURE_PEAK_HDR_MODE | DISP_FEATURE_CABC
    | DISP_FEATURE_BIST_MODE | DISP_FEATURE_BIST_MODE_COLOR | DISP_FEATURE_ROUND_MODE |
    DISP_FEATURE_GAMUT | DISP_FEATURE_POWERSTATUS | DISP_FEATURE_SYSTEM_BUILD_VERSION |
    DISP_FEATURE_MAX

primrec disp_feature_id_code :: "disp_feature_id \<Rightarrow> u32" where
  "disp_feature_id_code DISP_FEATURE_DIMMING = 0"
| "disp_feature_id_code DISP_FEATURE_HBM = 1"
| "disp_feature_id_code DISP_FEATURE_HBM_FOD = 2"
| "disp_feature_id_code DISP_FEATURE_DOZE_BRIGHTNESS = 3"
| "disp_feature_id_code DISP_FEATURE_FOD_CALIBRATION_BRIGHTNESS = 4"
| "disp_feature_id_code DISP_FEATURE_FOD_CALIBRATION_HBM = 5"
| "disp_feature_id_code DISP_FEATURE_FLAT_MODE = 6"
| "disp_feature_id_code DISP_FEATURE_CRC = 7"
| "disp_feature_id_code DISP_FEATURE_DC = 8"
| "disp_feature_id_code DISP_FEATURE_LOCAL_HBM = 9"
| "disp_feature_id_code DISP_FEATURE_SENSOR_LUX = 10"
| "disp_feature_id_code DISP_FEATURE_LOW_BRIGHTNESS_FOD = 11"
| "disp_feature_id_code DISP_FEATURE_FP_STATUS = 12"
| "disp_feature_id_code DISP_FEATURE_FOLD_STATUS = 13"
| "disp_feature_id_code DISP_FEATURE_NATURE_FLAT_MODE = 14"
| "disp_feature_id_code DISP_FEATURE_SPR_RENDER = 15"
| "disp_feature_id_code DISP_FEATURE_AOD_TO_NORMAL = 16"
| "disp_feature_id_code DISP_FEATURE_COLOR_INVERT = 17"
| "disp_feature_id_code DISP_FEATURE_DC_BACKLIGHT = 18"
| "disp_feature_id_code DISP_FEATURE_GIR = 19"
| "disp_feature_id_code DISP_FEATURE_DBI = 20"
| "disp_feature_id_code DISP_FEATURE_DDIC_ROUND_CORNER = 21"
| "disp_feature_id_code DISP_FEATURE_HBM_BACKLIGHT = 22"
| "disp_feature_id_code DISP_FEATURE_BACKLIGHT = 23"
| "disp_feature_id_code DISP_FEATURE_BRIGHTNESS = 24"
| "disp_feature_id_code DISP_FEATURE_LCD_HBM = 25"
| "disp_feature_id_code DISP_FEATURE_DOZE_STATE = 26"
| "disp_feature_id_code DISP_FEATURE_PEAK_HDR_MODE = 27"
| "disp_feature_id_code DISP_FEATURE_CABC = 28"
| "disp_feature_id_code DISP_FEATURE_BIST_MODE = 29"
| "disp_feature_id_code DISP_FEATURE_BIST_MODE_COLOR = 30"
| "disp_feature_id_code DISP_FEATURE_ROUND_MODE = 31"
| "disp_feature_id_code DISP_FEATURE_GAMUT = 32"
| "disp_feature_id_code DISP_FEATURE_POWERSTATUS = 33"
| "disp_feature_id_code DISP_FEATURE_SYSTEM_BUILD_VERSION = 34"
| "disp_feature_id_code DISP_FEATURE_MAX = 35"

datatype local_hbm_state =
    LOCAL_HBM_OFF_TO_NORMAL | LOCAL_HBM_NORMAL_WHITE_1000NIT | LOCAL_HBM_NORMAL_WHITE_750NIT |
    LOCAL_HBM_NORMAL_WHITE_500NIT | LOCAL_HBM_NORMAL_WHITE_110NIT | LOCAL_HBM_NORMAL_GREEN_500NIT |
    LOCAL_HBM_HLPM_WHITE_1000NIT | LOCAL_HBM_HLPM_WHITE_110NIT | LOCAL_HBM_OFF_TO_HLPM |
    LOCAL_HBM_OFF_TO_LLPM | LOCAL_HBM_OFF_TO_NORMAL_BACKLIGHT |
    LOCAL_HBM_OFF_TO_NORMAL_BACKLIGHT_RESTORE | LOCAL_HBM_MAX

primrec local_hbm_state_code :: "local_hbm_state \<Rightarrow> u32" where
  "local_hbm_state_code LOCAL_HBM_OFF_TO_NORMAL = 0"
| "local_hbm_state_code LOCAL_HBM_NORMAL_WHITE_1000NIT = 1"
| "local_hbm_state_code LOCAL_HBM_NORMAL_WHITE_750NIT = 2"
| "local_hbm_state_code LOCAL_HBM_NORMAL_WHITE_500NIT = 3"
| "local_hbm_state_code LOCAL_HBM_NORMAL_WHITE_110NIT = 4"
| "local_hbm_state_code LOCAL_HBM_NORMAL_GREEN_500NIT = 5"
| "local_hbm_state_code LOCAL_HBM_HLPM_WHITE_1000NIT = 6"
| "local_hbm_state_code LOCAL_HBM_HLPM_WHITE_110NIT = 7"
| "local_hbm_state_code LOCAL_HBM_OFF_TO_HLPM = 8"
| "local_hbm_state_code LOCAL_HBM_OFF_TO_LLPM = 9"
| "local_hbm_state_code LOCAL_HBM_OFF_TO_NORMAL_BACKLIGHT = 10"
| "local_hbm_state_code LOCAL_HBM_OFF_TO_NORMAL_BACKLIGHT_RESTORE = 11"
| "local_hbm_state_code LOCAL_HBM_MAX = 12"

datatype fod_ui_ready_state =
    LOCAL_HBM_UI_NONE | GLOBAL_FOD_HBM_OVERLAY | GLOBAL_FOD_ICON | FOD_LOW_BRIGHTNESS_CAPTURE |
    LOCAL_HBM_UI_READY | LOCAL_HBM_NEED_UPDATE_TO_FOD_FPS

primrec fod_ui_ready_state_code :: "fod_ui_ready_state \<Rightarrow> u32" where
  "fod_ui_ready_state_code LOCAL_HBM_UI_NONE = 0"
| "fod_ui_ready_state_code GLOBAL_FOD_HBM_OVERLAY = 1"
| "fod_ui_ready_state_code GLOBAL_FOD_ICON = 2"
| "fod_ui_ready_state_code FOD_LOW_BRIGHTNESS_CAPTURE = 4"
| "fod_ui_ready_state_code LOCAL_HBM_UI_READY = 8"
| "fod_ui_ready_state_code LOCAL_HBM_NEED_UPDATE_TO_FOD_FPS = 16"

datatype fingerprint_status =
    FINGERPRINT_NONE | ENROLL_START | ENROLL_STOP | AUTH_START | AUTH_STOP | HEART_RATE_START |
    HEART_RATE_STOP

primrec fingerprint_status_code :: "fingerprint_status \<Rightarrow> u32" where
  "fingerprint_status_code FINGERPRINT_NONE = 0"
| "fingerprint_status_code ENROLL_START = 1"
| "fingerprint_status_code ENROLL_STOP = 2"
| "fingerprint_status_code AUTH_START = 3"
| "fingerprint_status_code AUTH_STOP = 4"
| "fingerprint_status_code HEART_RATE_START = 5"
| "fingerprint_status_code HEART_RATE_STOP = 6"

datatype spr_render_status =
    SPR_1D_RENDERING | SPR_2D_RENDERING

primrec spr_render_status_code :: "spr_render_status \<Rightarrow> u32" where
  "spr_render_status_code SPR_1D_RENDERING = 1"
| "spr_render_status_code SPR_2D_RENDERING = 2"

datatype lcd_hbm_level =
    LCD_HBM_OFF | LCD_HBM_L1_ON | LCD_HBM_L2_ON | LCD_HBM_L3_ON | LCD_HBM_MAX

primrec lcd_hbm_level_code :: "lcd_hbm_level \<Rightarrow> u32" where
  "lcd_hbm_level_code LCD_HBM_OFF = 0"
| "lcd_hbm_level_code LCD_HBM_L1_ON = 1"
| "lcd_hbm_level_code LCD_HBM_L2_ON = 2"
| "lcd_hbm_level_code LCD_HBM_L3_ON = 3"
| "lcd_hbm_level_code LCD_HBM_MAX = 4"

datatype crc_mode =
    CRC_OFF | CRC_SRGB | CRC_P3 | CRC_P3_D65 | CRC_P3_FLAT | CRC_SRGB_D65 | CRC_MODE_MAX

primrec crc_mode_code :: "crc_mode \<Rightarrow> u32" where
  "crc_mode_code CRC_OFF = 0"
| "crc_mode_code CRC_SRGB = 1"
| "crc_mode_code CRC_P3 = 2"
| "crc_mode_code CRC_P3_D65 = 3"
| "crc_mode_code CRC_P3_FLAT = 4"
| "crc_mode_code CRC_SRGB_D65 = 5"
| "crc_mode_code CRC_MODE_MAX = 6"

datatype gir_mode =
    GIR_OFF | GIR_ON | GIR_MODE_MAX

primrec gir_mode_code :: "gir_mode \<Rightarrow> u32" where
  "gir_mode_code GIR_OFF = 0"
| "gir_mode_code GIR_ON = 1"
| "gir_mode_code GIR_MODE_MAX = 2"

datatype cabc_status =
    LCD_CABC_OFF | LCD_CABC_UI_ON | LCD_CABC_MOVIE_ON | LCD_CABC_STILL_ON

primrec cabc_status_code :: "cabc_status \<Rightarrow> u32" where
  "cabc_status_code LCD_CABC_OFF = 0"
| "cabc_status_code LCD_CABC_UI_ON = 1"
| "cabc_status_code LCD_CABC_MOVIE_ON = 2"
| "cabc_status_code LCD_CABC_STILL_ON = 3"

datatype doze_brightness_state =
    DOZE_TO_NORMAL | DOZE_BRIGHTNESS_HBM | DOZE_BRIGHTNESS_LBM | DOZE_BRIGHTNESS_MAX

primrec doze_brightness_state_code :: "doze_brightness_state \<Rightarrow> u32" where
  "doze_brightness_state_code DOZE_TO_NORMAL = 0"
| "doze_brightness_state_code DOZE_BRIGHTNESS_HBM = 1"
| "doze_brightness_state_code DOZE_BRIGHTNESS_LBM = 2"
| "doze_brightness_state_code DOZE_BRIGHTNESS_MAX = 3"

datatype lhbm_target_brightness_state =
    LHBM_TARGET_BRIGHTNESS_OFF_FINGER_UP | LHBM_TARGET_BRIGHTNESS_OFF_AUTH_STOP |
    LHBM_TARGET_BRIGHTNESS_WHITE_1000NIT | LHBM_TARGET_BRIGHTNESS_WHITE_110NIT |
    LHBM_TARGET_BRIGHTNESS_GREEN_500NIT | LHBM_TARGET_BRIGHTNESS_MAX

primrec lhbm_target_brightness_state_code :: "lhbm_target_brightness_state \<Rightarrow> u32" where
  "lhbm_target_brightness_state_code LHBM_TARGET_BRIGHTNESS_OFF_FINGER_UP = 0"
| "lhbm_target_brightness_state_code LHBM_TARGET_BRIGHTNESS_OFF_AUTH_STOP = 1"
| "lhbm_target_brightness_state_code LHBM_TARGET_BRIGHTNESS_WHITE_1000NIT = 2"
| "lhbm_target_brightness_state_code LHBM_TARGET_BRIGHTNESS_WHITE_110NIT = 3"
| "lhbm_target_brightness_state_code LHBM_TARGET_BRIGHTNESS_GREEN_500NIT = 4"
| "lhbm_target_brightness_state_code LHBM_TARGET_BRIGHTNESS_MAX = 5"

datatype disp_event_type =
    MI_DISP_EVENT_POWER | MI_DISP_EVENT_BACKLIGHT | MI_DISP_EVENT_FOD | MI_DISP_EVENT_DOZE |
    MI_DISP_EVENT_FPS | MI_DISP_EVENT_BRIGHTNESS_CLONE | MI_DISP_EVENT_51_BRIGHTNESS |
    MI_DISP_EVENT_HBM | MI_DISP_EVENT_DC | MI_DISP_EVENT_PANEL_DEAD | MI_DISP_EVENT_PANEL_EVENT |
    MI_DISP_EVENT_DDIC_RESOLUTION | MI_DISP_EVENT_FLAT_MODE | MI_DISP_EVENT_MAX

primrec disp_event_type_code :: "disp_event_type \<Rightarrow> u32" where
  "disp_event_type_code MI_DISP_EVENT_POWER = 0"
| "disp_event_type_code MI_DISP_EVENT_BACKLIGHT = 1"
| "disp_event_type_code MI_DISP_EVENT_FOD = 2"
| "disp_event_type_code MI_DISP_EVENT_DOZE = 3"
| "disp_event_type_code MI_DISP_EVENT_FPS = 4"
| "disp_event_type_code MI_DISP_EVENT_BRIGHTNESS_CLONE = 5"
| "disp_event_type_code MI_DISP_EVENT_51_BRIGHTNESS = 6"
| "disp_event_type_code MI_DISP_EVENT_HBM = 7"
| "disp_event_type_code MI_DISP_EVENT_DC = 8"
| "disp_event_type_code MI_DISP_EVENT_PANEL_DEAD = 9"
| "disp_event_type_code MI_DISP_EVENT_PANEL_EVENT = 10"
| "disp_event_type_code MI_DISP_EVENT_DDIC_RESOLUTION = 11"
| "disp_event_type_code MI_DISP_EVENT_FLAT_MODE = 12"
| "disp_event_type_code MI_DISP_EVENT_MAX = 13"

datatype panel_power_state =
    MI_DISP_POWER_ON | MI_DISP_POWER_LP1 | MI_DISP_POWER_LP2 | MI_DISP_POWER_STANDBY |
    MI_DISP_POWER_SUSPEND | MI_DISP_POWER_OFF

primrec panel_power_state_code :: "panel_power_state \<Rightarrow> u32" where
  "panel_power_state_code MI_DISP_POWER_ON = 0"
| "panel_power_state_code MI_DISP_POWER_LP1 = 1"
| "panel_power_state_code MI_DISP_POWER_LP2 = 2"
| "panel_power_state_code MI_DISP_POWER_STANDBY = 3"
| "panel_power_state_code MI_DISP_POWER_SUSPEND = 4"
| "panel_power_state_code MI_DISP_POWER_OFF = 5"

datatype disp_dsi_cmd_state =
    MI_DSI_CMD_LP_STATE | MI_DSI_CMD_HS_STATE | MI_DSI_CMD_MAX_STATE

primrec disp_dsi_cmd_state_code :: "disp_dsi_cmd_state \<Rightarrow> u32" where
  "disp_dsi_cmd_state_code MI_DSI_CMD_LP_STATE = 0"
| "disp_dsi_cmd_state_code MI_DSI_CMD_HS_STATE = 1"
| "disp_dsi_cmd_state_code MI_DSI_CMD_MAX_STATE = 2"

section \<open>A switch over an enumeration\<close>

definition c_switch :: "('e \<Rightarrow> u32) \<Rightarrow> ('e \<times> 'a) list \<Rightarrow> 'a \<Rightarrow> u32 \<Rightarrow> 'a" where
  "c_switch code arms dflt x =
    (case List.find (\<lambda>(l, _). code l = x) arms of Some (_, r) \<Rightarrow> r | None \<Rightarrow> dflt)"

section \<open>The functions of the kernel\<close>

definition is_support_disp_id :: "u32 \<Rightarrow> int" where
  "is_support_disp_id disp_id = (if disp_id < disp_display_type_code MI_DISP_MAX then 1 else 0)"

definition get_disp_id_name_arms :: "(disp_display_type \<times> string) list" where
  "get_disp_id_name_arms =
    [(MI_DISP_PRIMARY, ''primary''),
     (MI_DISP_SECONDARY, ''secondary'')]"

definition get_disp_id_name :: "u32 \<Rightarrow> string" where
  "get_disp_id_name disp_id = c_switch disp_display_type_code get_disp_id_name_arms ''Unknown'' disp_id"

definition is_support_doze_brightness :: "u32 \<Rightarrow> int" where
  "is_support_doze_brightness doze_brightness = (if doze_brightness < doze_brightness_state_code DOZE_BRIGHTNESS_MAX then 1 else 0)"

definition is_aod_brightness :: "u32 \<Rightarrow> int" where
  "is_aod_brightness doze_brightness = (if doze_brightness_state_code DOZE_BRIGHTNESS_HBM = doze_brightness \<or> doze_brightness = doze_brightness_state_code DOZE_BRIGHTNESS_LBM then 1 else 0)"

definition get_doze_brightness_name_arms :: "(doze_brightness_state \<times> string) list" where
  "get_doze_brightness_name_arms =
    [(DOZE_TO_NORMAL, ''doze_to_normal''),
     (DOZE_BRIGHTNESS_HBM, ''doze_brightness_high''),
     (DOZE_BRIGHTNESS_LBM, ''doze_brightness_low'')]"

definition get_doze_brightness_name :: "u32 \<Rightarrow> string" where
  "get_doze_brightness_name doze_brightness = c_switch doze_brightness_state_code get_doze_brightness_name_arms ''Unknown'' doze_brightness"

definition is_support_lcd_hbm_level :: "u32 \<Rightarrow> int" where
  "is_support_lcd_hbm_level lcd_hbm_level = (if lcd_hbm_level < lcd_hbm_level_code LCD_HBM_MAX then 1 else 0)"

definition is_support_disp_event_type :: "u32 \<Rightarrow> int" where
  "is_support_disp_event_type event_type = (if event_type < disp_event_type_code MI_DISP_EVENT_MAX then 1 else 0)"

definition get_disp_event_type_name_arms :: "(disp_event_type \<times> string) list" where
  "get_disp_event_type_name_arms =
    [(MI_DISP_EVENT_POWER, ''Power''),
     (MI_DISP_EVENT_BACKLIGHT, ''Backlight''),
     (MI_DISP_EVENT_FOD, ''Fod''),
     (MI_DISP_EVENT_DOZE, ''Doze''),
     (MI_DISP_EVENT_FPS, ''Fps''),
     (MI_DISP_EVENT_BRIGHTNESS_CLONE, ''Brightness_clone''),
     (MI_DISP_EVENT_51_BRIGHTNESS, ''51_brightness''),
     (MI_DISP_EVENT_HBM, ''HBM''),
     (MI_DISP_EVENT_DC, ''DC''),
     (MI_DISP_EVENT_PANEL_DEAD, ''panel_dead''),
     (MI_DISP_EVENT_PANEL_EVENT, ''panel_event''),
     (MI_DISP_EVENT_DDIC_RESOLUTION, ''ddic_resolution''),
     (MI_DISP_EVENT_FLAT_MODE, ''flat_mode'')]"

definition get_disp_event_type_name :: "u32 \<Rightarrow> string" where
  "get_disp_event_type_name event_type = c_switch disp_event_type_code get_disp_event_type_name_arms ''Unknown'' event_type"

definition is_support_disp_feature_id :: "u32 \<Rightarrow> int" where
  "is_support_disp_feature_id feature_id = (if feature_id < disp_feature_id_code DISP_FEATURE_MAX then 1 else 0)"

definition get_local_hbm_state_name_arms :: "(local_hbm_state \<times> string) list" where
  "get_local_hbm_state_name_arms =
    [(LOCAL_HBM_OFF_TO_NORMAL, ''[lhbm off to nomal]''),
     (LOCAL_HBM_NORMAL_WHITE_1000NIT, ''[lhbm normal white 1000nit]''),
     (LOCAL_HBM_NORMAL_WHITE_750NIT, ''[lhbm normal white 750nit]''),
     (LOCAL_HBM_NORMAL_WHITE_500NIT, ''[lhbm normal white 500nit]''),
     (LOCAL_HBM_NORMAL_WHITE_110NIT, ''[lhbm normal white 110nit]''),
     (LOCAL_HBM_NORMAL_GREEN_500NIT, ''[lhbm normal green 500nit]''),
     (LOCAL_HBM_HLPM_WHITE_1000NIT, ''[lhbm H-doze to white 1000nit]''),
     (LOCAL_HBM_HLPM_WHITE_110NIT, ''[lhbm H-doze to white 110nit]''),
     (LOCAL_HBM_OFF_TO_HLPM, ''[lhbm off to H-doze]''),
     (LOCAL_HBM_OFF_TO_LLPM, ''[lhbm off to L-doze]''),
     (LOCAL_HBM_OFF_TO_NORMAL_BACKLIGHT, ''[lhbm off to nomal backlight]''),
     (LOCAL_HBM_OFF_TO_NORMAL_BACKLIGHT_RESTORE, ''[lhbm off to nomal backlight restore]'')]"

definition get_local_hbm_state_name :: "u32 \<Rightarrow> string" where
  "get_local_hbm_state_name state = c_switch local_hbm_state_code get_local_hbm_state_name_arms ''Unknown'' state"

definition get_fingerprint_status_name_arms :: "(fingerprint_status \<times> string) list" where
  "get_fingerprint_status_name_arms =
    [(FINGERPRINT_NONE, ''none''),
     (ENROLL_START, ''enroll_start''),
     (ENROLL_STOP, ''enroll_stop''),
     (AUTH_START, ''authenticate_start''),
     (AUTH_STOP, ''authenticate_stop''),
     (HEART_RATE_START, ''heart_rate_start''),
     (HEART_RATE_STOP, ''heart_rate_stop'')]"

definition get_fingerprint_status_name :: "u32 \<Rightarrow> string" where
  "get_fingerprint_status_name status = c_switch fingerprint_status_code get_fingerprint_status_name_arms ''Unknown'' status"

definition get_disp_feature_id_name_arms :: "(disp_feature_id \<times> string) list" where
  "get_disp_feature_id_name_arms =
    [(DISP_FEATURE_DIMMING, ''dimming''),
     (DISP_FEATURE_HBM, ''hbm''),
     (DISP_FEATURE_HBM_FOD, ''hbm_fod''),
     (DISP_FEATURE_DOZE_BRIGHTNESS, ''doze_brightness''),
     (DISP_FEATURE_FOD_CALIBRATION_BRIGHTNESS, ''fod_calibration_brightness''),
     (DISP_FEATURE_FOD_CALIBRATION_HBM, ''fod_calibration_hbm''),
     (DISP_FEATURE_FLAT_MODE, ''flat_mode''),
     (DISP_FEATURE_CRC, ''crc''),
     (DISP_FEATURE_DC, ''dc_mode''),
     (DISP_FEATURE_LOCAL_HBM, ''local_hbm''),
     (DISP_FEATURE_SENSOR_LUX, ''sensor_lux''),
     (DISP_FEATURE_LOW_BRIGHTNESS_FOD, ''low_brightness_fod''),
     (DISP_FEATURE_FP_STATUS, ''fp_status''),
     (DISP_FEATURE_FOLD_STATUS, ''fold_status''),
     (DISP_FEATURE_NATURE_FLAT_MODE, ''nature_flat_mode''),
     (DISP_FEATURE_SPR_RENDER, ''spr_render''),
     (DISP_FEATURE_AOD_TO_NORMAL, ''aod_to_normal''),
     (DISP_FEATURE_COLOR_INVERT, ''color_invert''),
     (DISP_FEATURE_DC_BACKLIGHT, ''dc_backlight''),
     (DISP_FEATURE_GIR, ''gir''),
     (DISP_FEATURE_DBI, ''dbi''),
     (DISP_FEATURE_DDIC_ROUND_CORNER, ''ddic_round_corner''),
     (DISP_FEATURE_HBM_BACKLIGHT, ''hbm_backlight_level''),
     (DISP_FEATURE_BACKLIGHT, ''backlight''),
     (DISP_FEATURE_BRIGHTNESS, ''brightness''),
     (DISP_FEATURE_LCD_HBM, ''lcd_hbm''),
     (DISP_FEATURE_DOZE_STATE, ''doze_state''),
     (DISP_FEATURE_PEAK_HDR_MODE, ''peak_hdr_mode''),
     (DISP_FEATURE_CABC, ''cabc''),
     (DISP_FEATURE_BIST_MODE, ''bist_mode''),
     (DISP_FEATURE_BIST_MODE_COLOR, ''bist_mode_color''),
     (DISP_FEATURE_ROUND_MODE, ''round_mode''),
     (DISP_FEATURE_GAMUT, ''gamut''),
     (DISP_FEATURE_POWERSTATUS, ''power_status''),
     (DISP_FEATURE_SYSTEM_BUILD_VERSION, ''system_build_version'')]"

definition get_disp_feature_id_name :: "u32 \<Rightarrow> string" where
  "get_disp_feature_id_name feature_id = c_switch disp_feature_id_code get_disp_feature_id_name_arms ''Unknown'' feature_id"

definition get_lhbm_value_name_arms :: "(lhbm_target_brightness_state \<times> string) list" where
  "get_lhbm_value_name_arms =
    [(LHBM_TARGET_BRIGHTNESS_OFF_FINGER_UP, ''LHBM_OFF_FINGER_UP''),
     (LHBM_TARGET_BRIGHTNESS_OFF_AUTH_STOP, ''LHBM_OFF_AUTH_STOP''),
     (LHBM_TARGET_BRIGHTNESS_WHITE_1000NIT, ''LHBM_ON_WHITE_1000NIT''),
     (LHBM_TARGET_BRIGHTNESS_WHITE_110NIT, ''LHBM_ON_WHITE_110NIT''),
     (LHBM_TARGET_BRIGHTNESS_GREEN_500NIT, ''LHBM_ON_GREEN_500NIT'')]"

definition get_lhbm_value_name :: "u32 \<Rightarrow> string" where
  "get_lhbm_value_name lhbm_value = c_switch lhbm_target_brightness_state_code get_lhbm_value_name_arms ''Unknown'' lhbm_value"

section \<open>The functions of user space\<close>

definition isSupportDispId :: "u32 \<Rightarrow> int" where
  "isSupportDispId disp_id = (if disp_id < disp_display_type_code MI_DISP_MAX then 1 else 0)"

definition getDispIdName_arms :: "(disp_display_type \<times> string) list" where
  "getDispIdName_arms =
    [(MI_DISP_PRIMARY, ''primary''),
     (MI_DISP_SECONDARY, ''secondary'')]"

definition getDispIdName :: "u32 \<Rightarrow> string" where
  "getDispIdName disp_id = c_switch disp_display_type_code getDispIdName_arms ''Unknown'' disp_id"

definition isSupportDozeBrightness :: "u32 \<Rightarrow> int" where
  "isSupportDozeBrightness doze_brightness = (if doze_brightness < doze_brightness_state_code DOZE_BRIGHTNESS_MAX then 1 else 0)"

definition isAodBrightness :: "u32 \<Rightarrow> int" where
  "isAodBrightness doze_brightness = (if doze_brightness_state_code DOZE_BRIGHTNESS_HBM = doze_brightness \<or> doze_brightness = doze_brightness_state_code DOZE_BRIGHTNESS_LBM then 1 else 0)"

definition getDozeBrightnessName_arms :: "(doze_brightness_state \<times> string) list" where
  "getDozeBrightnessName_arms =
    [(DOZE_TO_NORMAL, ''doze_to_normal''),
     (DOZE_BRIGHTNESS_HBM, ''doze_brightness_high''),
     (DOZE_BRIGHTNESS_LBM, ''doze_brightness_low'')]"

definition getDozeBrightnessName :: "u32 \<Rightarrow> string" where
  "getDozeBrightnessName doze_brightness = c_switch doze_brightness_state_code getDozeBrightnessName_arms ''Unknown'' doze_brightness"

definition isSupportLcdHbmLevel :: "u32 \<Rightarrow> int" where
  "isSupportLcdHbmLevel lcd_hbm_level = (if lcd_hbm_level < lcd_hbm_level_code LCD_HBM_MAX then 1 else 0)"

definition isSupportDispEventType :: "u32 \<Rightarrow> int" where
  "isSupportDispEventType event_type = (if event_type < disp_event_type_code MI_DISP_EVENT_MAX then 1 else 0)"

definition getDispEventTypeName_arms :: "(disp_event_type \<times> string) list" where
  "getDispEventTypeName_arms =
    [(MI_DISP_EVENT_POWER, ''Power''),
     (MI_DISP_EVENT_BACKLIGHT, ''Backlight''),
     (MI_DISP_EVENT_FOD, ''Fod''),
     (MI_DISP_EVENT_DOZE, ''Doze''),
     (MI_DISP_EVENT_FPS, ''Fps''),
     (MI_DISP_EVENT_BRIGHTNESS_CLONE, ''Brightness_clone''),
     (MI_DISP_EVENT_51_BRIGHTNESS, ''51_brightness''),
     (MI_DISP_EVENT_HBM, ''HBM''),
     (MI_DISP_EVENT_DC, ''DC''),
     (MI_DISP_EVENT_PANEL_DEAD, ''panel_dead''),
     (MI_DISP_EVENT_PANEL_EVENT, ''panel_event''),
     (MI_DISP_EVENT_DDIC_RESOLUTION, ''ddic_resolution''),
     (MI_DISP_EVENT_FLAT_MODE, ''flat_mode'')]"

definition getDispEventTypeName :: "u32 \<Rightarrow> string" where
  "getDispEventTypeName event_type = c_switch disp_event_type_code getDispEventTypeName_arms ''Unknown'' event_type"

definition isSupportDispFeatureId :: "u32 \<Rightarrow> int" where
  "isSupportDispFeatureId feature_id = (if feature_id < disp_feature_id_code DISP_FEATURE_MAX then 1 else 0)"

definition getLocalHbmStateName_arms :: "(local_hbm_state \<times> string) list" where
  "getLocalHbmStateName_arms =
    [(LOCAL_HBM_OFF_TO_NORMAL, ''[lhbm off to nomal]''),
     (LOCAL_HBM_NORMAL_WHITE_1000NIT, ''[lhbm normal white 1000nit]''),
     (LOCAL_HBM_NORMAL_WHITE_750NIT, ''[lhbm normal white 750nit]''),
     (LOCAL_HBM_NORMAL_WHITE_500NIT, ''[lhbm normal white 500nit]''),
     (LOCAL_HBM_NORMAL_WHITE_110NIT, ''[lhbm normal white 110nit]''),
     (LOCAL_HBM_NORMAL_GREEN_500NIT, ''[lhbm normal green 500nit]''),
     (LOCAL_HBM_HLPM_WHITE_1000NIT, ''[lhbm H-doze to white 1000nit]''),
     (LOCAL_HBM_HLPM_WHITE_110NIT, ''[lhbm H-doze to white 110nit]''),
     (LOCAL_HBM_OFF_TO_HLPM, ''[lhbm off to H-doze]''),
     (LOCAL_HBM_OFF_TO_LLPM, ''[lhbm off to L-doze]''),
     (LOCAL_HBM_OFF_TO_NORMAL_BACKLIGHT, ''[lhbm off to nomal backlight]''),
     (LOCAL_HBM_OFF_TO_NORMAL_BACKLIGHT_RESTORE, ''[lhbm off to nomal backlight restore]'')]"

definition getLocalHbmStateName :: "u32 \<Rightarrow> string" where
  "getLocalHbmStateName state = c_switch local_hbm_state_code getLocalHbmStateName_arms ''Unknown'' state"

definition getFingerprintStatusName_arms :: "(fingerprint_status \<times> string) list" where
  "getFingerprintStatusName_arms =
    [(FINGERPRINT_NONE, ''none''),
     (ENROLL_START, ''enroll_start''),
     (ENROLL_STOP, ''enroll_stop''),
     (AUTH_START, ''authenticate_start''),
     (AUTH_STOP, ''authenticate_stop''),
     (HEART_RATE_START, ''heart_rate_start''),
     (HEART_RATE_STOP, ''heart_rate_stop'')]"

definition getFingerprintStatusName :: "u32 \<Rightarrow> string" where
  "getFingerprintStatusName status = c_switch fingerprint_status_code getFingerprintStatusName_arms ''Unknown'' status"

definition getDispFeatureIdName_arms :: "(disp_feature_id \<times> string) list" where
  "getDispFeatureIdName_arms =
    [(DISP_FEATURE_DIMMING, ''dimming''),
     (DISP_FEATURE_HBM, ''hbm''),
     (DISP_FEATURE_HBM_FOD, ''hbm_fod''),
     (DISP_FEATURE_DOZE_BRIGHTNESS, ''doze_brightness''),
     (DISP_FEATURE_FOD_CALIBRATION_BRIGHTNESS, ''fod_calibration_brightness''),
     (DISP_FEATURE_FOD_CALIBRATION_HBM, ''fod_calibration_hbm''),
     (DISP_FEATURE_FLAT_MODE, ''flat_mode''),
     (DISP_FEATURE_CRC, ''crc''),
     (DISP_FEATURE_DC, ''dc_mode''),
     (DISP_FEATURE_LOCAL_HBM, ''local_hbm''),
     (DISP_FEATURE_SENSOR_LUX, ''sensor_lux''),
     (DISP_FEATURE_LOW_BRIGHTNESS_FOD, ''low_brightness_fod''),
     (DISP_FEATURE_FP_STATUS, ''fp_status''),
     (DISP_FEATURE_FOLD_STATUS, ''fold_status''),
     (DISP_FEATURE_NATURE_FLAT_MODE, ''nature_flat_mode''),
     (DISP_FEATURE_SPR_RENDER, ''spr_render''),
     (DISP_FEATURE_AOD_TO_NORMAL, ''aod_to_normal''),
     (DISP_FEATURE_COLOR_INVERT, ''color_invert''),
     (DISP_FEATURE_DC_BACKLIGHT, ''dc_backlight''),
     (DISP_FEATURE_GIR, ''gir''),
     (DISP_FEATURE_DBI, ''dbi''),
     (DISP_FEATURE_DDIC_ROUND_CORNER, ''ddic_round_corner''),
     (DISP_FEATURE_HBM_BACKLIGHT, ''hbm_backlight_level''),
     (DISP_FEATURE_BACKLIGHT, ''backlight''),
     (DISP_FEATURE_BRIGHTNESS, ''brightness''),
     (DISP_FEATURE_LCD_HBM, ''lcd_hbm''),
     (DISP_FEATURE_DOZE_STATE, ''doze_state''),
     (DISP_FEATURE_PEAK_HDR_MODE, ''peak_hdr_mode''),
     (DISP_FEATURE_CABC, ''cabc''),
     (DISP_FEATURE_BIST_MODE, ''bist_mode''),
     (DISP_FEATURE_BIST_MODE_COLOR, ''bist_mode_color''),
     (DISP_FEATURE_ROUND_MODE, ''round_mode''),
     (DISP_FEATURE_GAMUT, ''gamut''),
     (DISP_FEATURE_POWERSTATUS, ''power_status''),
     (DISP_FEATURE_SYSTEM_BUILD_VERSION, ''system_build_version'')]"

definition getDispFeatureIdName :: "u32 \<Rightarrow> string" where
  "getDispFeatureIdName feature_id = c_switch disp_feature_id_code getDispFeatureIdName_arms ''Unknown'' feature_id"

definition getLhbmValueName_arms :: "(lhbm_target_brightness_state \<times> string) list" where
  "getLhbmValueName_arms =
    [(LHBM_TARGET_BRIGHTNESS_OFF_FINGER_UP, ''LHBM_OFF_FINGER_UP''),
     (LHBM_TARGET_BRIGHTNESS_OFF_AUTH_STOP, ''LHBM_OFF_AUTH_STOP''),
     (LHBM_TARGET_BRIGHTNESS_WHITE_1000NIT, ''LHBM_ON_WHITE_1000NIT''),
     (LHBM_TARGET_BRIGHTNESS_WHITE_110NIT, ''LHBM_ON_WHITE_110NIT''),
     (LHBM_TARGET_BRIGHTNESS_GREEN_500NIT, ''LHBM_ON_GREEN_500NIT'')]"

definition getLhbmValueName :: "u32 \<Rightarrow> string" where
  "getLhbmValueName lhbm_value = c_switch lhbm_target_brightness_state_code getLhbmValueName_arms ''Unknown'' lhbm_value"

section \<open>Argument structs\<close>

definition struct_disp_base :: ctype where
  "struct_disp_base = Struct False [
    (''flag'', Scalar C_u32), (''disp_id'', Scalar C_u32)]"

definition struct_disp_version :: ctype where
  "struct_disp_version = Struct False [
    (''base'', struct_disp_base), (''version'', Scalar C_u32)]"

definition struct_disp_feature_req :: ctype where
  "struct_disp_feature_req = Struct False [
    (''base'', struct_disp_base), (''feature_id'', Scalar C_u32), (''feature_val'', Scalar C_s32),
    (''tx_len'', Scalar C_u32), (''tx_ptr'', Scalar C_u64), (''rx_len'', Scalar C_u32),
    (''rx_ptr'', Scalar C_u64)]"

definition struct_disp_doze_brightness_req :: ctype where
  "struct_disp_doze_brightness_req = Struct False [
    (''base'', struct_disp_base), (''doze_brightness'', Scalar C_u32)]"

definition struct_disp_local_hbm_req :: ctype where
  "struct_disp_local_hbm_req = Struct False [
    (''base'', struct_disp_base), (''local_hbm_value'', Scalar C_u32)]"

definition struct_disp_brightness_req :: ctype where
  "struct_disp_brightness_req = Struct False [
    (''base'', struct_disp_base), (''brightness'', Scalar C_u32),
    (''brightness_clone'', Scalar C_u32)]"

definition struct_disp_panel_info :: ctype where
  "struct_disp_panel_info = Struct False [
    (''base'', struct_disp_base), (''info_len'', Scalar C_u32), (''info'', Scalar C_ptr)]"

definition struct_disp_wp_info :: ctype where
  "struct_disp_wp_info = Struct False [
    (''base'', struct_disp_base), (''info_len'', Scalar C_u32), (''info'', Scalar C_ptr)]"

definition struct_disp_manufacturer_info_req :: ctype where
  "struct_disp_manufacturer_info_req = Struct False [
    (''base'', struct_disp_base), (''wp_info'', Scalar C_ptr), (''maxbrightness'', Scalar C_ptr),
    (''manufacturer_time'', Scalar C_ptr), (''wp_info_len'', Scalar C_u32),
    (''max_brightness_len'', Scalar C_u32), (''manufacturer_time_len'', Scalar C_u32)]"

definition struct_disp_fps_info :: ctype where
  "struct_disp_fps_info = Struct False [
    (''base'', struct_disp_base), (''fps'', Scalar C_u32)]"

definition struct_disp_event_req :: ctype where
  "struct_disp_event_req = Struct False [
    (''base'', struct_disp_base), (''type'', Scalar C_u32)]"

definition struct_disp_event :: ctype where
  "struct_disp_event = Struct False [
    (''disp_id'', Scalar C_s32), (''type'', Scalar C_u32), (''length'', Scalar C_u32)]"

definition struct_disp_event_resp :: ctype where
  "struct_disp_event_resp = Struct False [
    (''base'', struct_disp_event), (''data'', Array (Scalar C_u8) 0)]"

definition struct_disp_dsi_cmd_req :: ctype where
  "struct_disp_dsi_cmd_req = Struct False [
    (''base'', struct_disp_base), (''tx_state'', Scalar C_u8), (''tx_len'', Scalar C_u32),
    (''tx_ptr'', Scalar C_u64), (''rx_state'', Scalar C_u8), (''rx_len'', Scalar C_u32),
    (''rx_ptr'', Scalar C_u64)]"

section \<open>Version and requests\<close>

definition MI_DISP_FEATURE_VERSION_MAJOR :: u32 where
  "MI_DISP_FEATURE_VERSION_MAJOR = 1"

definition MI_DISP_FEATURE_VERSION_MINOR :: u32 where
  "MI_DISP_FEATURE_VERSION_MINOR = 0"

definition MI_DISP_FEATURE_VERSION :: u32 where
  "MI_DISP_FEATURE_VERSION =
    or (push_bit 8 (and MI_DISP_FEATURE_VERSION_MAJOR 0xFF)) (and MI_DISP_FEATURE_VERSION_MINOR 0xFF)"

definition MI_DISP_IOCTL_VERSION :: ioctl where
  "MI_DISP_IOCTL_VERSION = IOR ''MI_DISP_IOCTL_VERSION'' 0x44 0x0 struct_disp_version"

definition MI_DISP_IOCTL_SET_FEATURE :: ioctl where
  "MI_DISP_IOCTL_SET_FEATURE = IOWR ''MI_DISP_IOCTL_SET_FEATURE'' 0x44 0x1 struct_disp_feature_req"

definition MI_DISP_IOCTL_SET_DOZE_BRIGHTNESS :: ioctl where
  "MI_DISP_IOCTL_SET_DOZE_BRIGHTNESS = IOW ''MI_DISP_IOCTL_SET_DOZE_BRIGHTNESS'' 0x44 0x2 struct_disp_doze_brightness_req"

definition MI_DISP_IOCTL_GET_DOZE_BRIGHTNESS :: ioctl where
  "MI_DISP_IOCTL_GET_DOZE_BRIGHTNESS = IOR ''MI_DISP_IOCTL_GET_DOZE_BRIGHTNESS'' 0x44 0x3 struct_disp_doze_brightness_req"

definition MI_DISP_IOCTL_GET_PANEL_INFO :: ioctl where
  "MI_DISP_IOCTL_GET_PANEL_INFO = IOWR ''MI_DISP_IOCTL_GET_PANEL_INFO'' 0x44 0x4 struct_disp_panel_info"

definition MI_DISP_IOCTL_GET_WP_INFO :: ioctl where
  "MI_DISP_IOCTL_GET_WP_INFO = IOWR ''MI_DISP_IOCTL_GET_WP_INFO'' 0x44 0x5 struct_disp_wp_info"

definition MI_DISP_IOCTL_GET_FPS :: ioctl where
  "MI_DISP_IOCTL_GET_FPS = IOR ''MI_DISP_IOCTL_GET_FPS'' 0x44 0x6 struct_disp_fps_info"

definition MI_DISP_IOCTL_REGISTER_EVENT :: ioctl where
  "MI_DISP_IOCTL_REGISTER_EVENT = IOW ''MI_DISP_IOCTL_REGISTER_EVENT'' 0x44 0x7 struct_disp_event_req"

definition MI_DISP_IOCTL_DEREGISTER_EVENT :: ioctl where
  "MI_DISP_IOCTL_DEREGISTER_EVENT = IOW ''MI_DISP_IOCTL_DEREGISTER_EVENT'' 0x44 0x8 struct_disp_event_req"

definition MI_DISP_IOCTL_WRITE_DSI_CMD :: ioctl where
  "MI_DISP_IOCTL_WRITE_DSI_CMD = IOW ''MI_DISP_IOCTL_WRITE_DSI_CMD'' 0x44 0x9 struct_disp_dsi_cmd_req"

definition MI_DISP_IOCTL_READ_DSI_CMD :: ioctl where
  "MI_DISP_IOCTL_READ_DSI_CMD = IOWR ''MI_DISP_IOCTL_READ_DSI_CMD'' 0x44 0xa struct_disp_dsi_cmd_req"

definition MI_DISP_IOCTL_GET_BRIGHTNESS :: ioctl where
  "MI_DISP_IOCTL_GET_BRIGHTNESS = IOR ''MI_DISP_IOCTL_GET_BRIGHTNESS'' 0x44 0xb struct_disp_brightness_req"

definition MI_DISP_IOCTL_SET_BRIGHTNESS :: ioctl where
  "MI_DISP_IOCTL_SET_BRIGHTNESS = IOW ''MI_DISP_IOCTL_SET_BRIGHTNESS'' 0x44 0xc struct_disp_brightness_req"

definition MI_DISP_IOCTL_GET_MANUFACTURER_INFO :: ioctl where
  "MI_DISP_IOCTL_GET_MANUFACTURER_INFO = IOWR ''MI_DISP_IOCTL_GET_MANUFACTURER_INFO'' 0x44 0xd struct_disp_manufacturer_info_req"

definition MI_DISP_IOCTL_SET_LOCAL_HBM :: ioctl where
  "MI_DISP_IOCTL_SET_LOCAL_HBM = IOW ''MI_DISP_IOCTL_SET_LOCAL_HBM'' 0x44 0xe struct_disp_local_hbm_req"

definition MI_DISP_IOCTL_GET_FEATURE :: ioctl where
  "MI_DISP_IOCTL_GET_FEATURE = IOWR ''MI_DISP_IOCTL_GET_FEATURE'' 0x44 0xf struct_disp_feature_req"

definition mi_disp_ioctls :: "ioctl list" where
  "mi_disp_ioctls =
    [MI_DISP_IOCTL_VERSION, MI_DISP_IOCTL_SET_FEATURE, MI_DISP_IOCTL_SET_DOZE_BRIGHTNESS,
    MI_DISP_IOCTL_GET_DOZE_BRIGHTNESS, MI_DISP_IOCTL_GET_PANEL_INFO, MI_DISP_IOCTL_GET_WP_INFO,
    MI_DISP_IOCTL_GET_FPS, MI_DISP_IOCTL_REGISTER_EVENT, MI_DISP_IOCTL_DEREGISTER_EVENT,
    MI_DISP_IOCTL_WRITE_DSI_CMD, MI_DISP_IOCTL_READ_DSI_CMD, MI_DISP_IOCTL_GET_BRIGHTNESS,
    MI_DISP_IOCTL_SET_BRIGHTNESS, MI_DISP_IOCTL_GET_MANUFACTURER_INFO, MI_DISP_IOCTL_SET_LOCAL_HBM,
    MI_DISP_IOCTL_GET_FEATURE]"

section \<open>Tables of names\<close>

lemma find_unique:
  "distinct (map f xs) \<Longrightarrow> x \<in> set xs \<Longrightarrow> List.find (\<lambda>y. f y = f x) xs = Some x"
  by (induction xs) auto

text \<open>
  The contract of a name function: its labels are the codes below the end marker in order, and its
  names differ from each other and from the name of an unknown code.
\<close>

locale enum_names =
  fixes code :: "'e \<Rightarrow> u32" and arms :: "('e \<times> string) list" and top :: u32
  assumes labels: "map (unat \<circ> code \<circ> fst) arms = [0..<unat top]"
    and names_distinct: "distinct (''Unknown'' # map snd arms)"
begin

lemma length_arms: "length arms = unat top"
  using arg_cong [OF labels, of length] by simp

lemma label_nth: "i < length arms \<Longrightarrow> unat (code (fst (arms ! i))) = i"
  using arg_cong [OF labels, of "\<lambda>xs. xs ! i"] length_arms by simp

lemma find_label:
  "List.find (\<lambda>(l, _). code l = x) arms = (if x < top then Some (arms ! unat x) else None)"
proof (cases "x < top")
  case True
  then have x: "unat x < length arms" by (simp add: length_arms word_less_nat_alt)
  have "List.find (\<lambda>y. (code \<circ> fst) y = (code \<circ> fst) (arms ! unat x)) arms = Some (arms ! unat x)"
  proof (rule find_unique)
    have "distinct (map unat (map (code \<circ> fst) arms))"
      using labels by (simp add: comp_assoc)
    then show "distinct (map (code \<circ> fst) arms)" by (simp only: distinct_map)
    show "arms ! unat x \<in> set arms" using x by simp
  qed
  moreover have "code (fst (arms ! unat x)) = x"
    using label_nth [OF x] by (simp add: word_unat_eq_iff)
  ultimately show ?thesis using True by (simp add: case_prod_unfold)
next
  case False
  have "code (fst y) \<noteq> x" if "y \<in> set arms" for y
  proof -
    from that obtain i where "i < length arms" and y: "arms ! i = y"
      unfolding in_set_conv_nth by blast
    then have "code (fst y) < top"
      using label_nth length_arms by (auto simp: word_less_nat_alt simp flip: y)
    then show ?thesis using False by auto
  qed
  then show ?thesis using False by (force simp: find_None_iff)
qed

lemma switch_eq: "c_switch code arms ''Unknown'' x = (if x < top then snd (arms ! unat x) else ''Unknown'')"
  by (simp add: c_switch_def find_label case_prod_beta)

lemma switch_unknown: "c_switch code arms ''Unknown'' x = ''Unknown'' \<longleftrightarrow> \<not> x < top"
proof (cases "x < top")
  case True
  then have "snd (arms ! unat x) \<in> set (map snd arms)" by (simp add: length_arms word_less_nat_alt)
  then have "snd (arms ! unat x) \<noteq> ''Unknown''" using names_distinct by (metis distinct.simps(2))
  then show ?thesis using True by (simp add: switch_eq)
qed (simp add: switch_eq)

lemma switch_inj:
  assumes "x < top" and "c_switch code arms ''Unknown'' x = c_switch code arms ''Unknown'' y"
  shows "x = y"
proof -
  have "y < top" using assms switch_unknown [of x] switch_unknown [of y] by simp
  then have "map snd arms ! unat x = map snd arms ! unat y"
    using assms by (simp add: switch_eq length_arms word_less_nat_alt)
  then show ?thesis
    using names_distinct assms(1) \<open>y < top\<close>
    by (simp only: distinct.simps nth_eq_iff_index_eq length_map length_arms word_less_nat_alt
        word_unat_eq_iff)
qed

lemma supported_inj:
  "(if x < top then 1 else (0 :: int)) = 1 \<Longrightarrow>
   c_switch code arms ''Unknown'' x = c_switch code arms ''Unknown'' y \<Longrightarrow> x = y"
  using switch_inj by (auto split: if_splits)

lemma named_inj:
  "c_switch code arms ''Unknown'' x \<noteq> ''Unknown'' \<Longrightarrow>
   c_switch code arms ''Unknown'' x = c_switch code arms ''Unknown'' y \<Longrightarrow> x = y"
  using switch_inj switch_unknown by blast

end

interpretation disp_id: enum_names disp_display_type_code get_disp_id_name_arms "disp_display_type_code MI_DISP_MAX"
  by unfold_locales (simp_all add: get_disp_id_name_arms_def upt_rec)

interpretation doze_brightness: enum_names doze_brightness_state_code get_doze_brightness_name_arms "doze_brightness_state_code DOZE_BRIGHTNESS_MAX"
  by unfold_locales (simp_all add: get_doze_brightness_name_arms_def upt_rec)

interpretation disp_event_type: enum_names disp_event_type_code get_disp_event_type_name_arms "disp_event_type_code MI_DISP_EVENT_MAX"
  by unfold_locales (simp_all add: get_disp_event_type_name_arms_def upt_rec)

interpretation local_hbm_state: enum_names local_hbm_state_code get_local_hbm_state_name_arms "local_hbm_state_code LOCAL_HBM_MAX"
  by unfold_locales (simp_all add: get_local_hbm_state_name_arms_def upt_rec)

interpretation disp_feature_id: enum_names disp_feature_id_code get_disp_feature_id_name_arms "disp_feature_id_code DISP_FEATURE_MAX"
  by unfold_locales (simp_all add: get_disp_feature_id_name_arms_def upt_rec)

interpretation lhbm_value: enum_names lhbm_target_brightness_state_code get_lhbm_value_name_arms "lhbm_target_brightness_state_code LHBM_TARGET_BRIGHTNESS_MAX"
  by unfold_locales (simp_all add: get_lhbm_value_name_arms_def upt_rec)

lemmas kernel_defs = is_support_disp_id_def get_disp_id_name_def is_support_doze_brightness_def is_aod_brightness_def get_doze_brightness_name_def is_support_lcd_hbm_level_def is_support_disp_event_type_def get_disp_event_type_name_def is_support_disp_feature_id_def get_local_hbm_state_name_def get_fingerprint_status_name_def get_disp_feature_id_name_def get_lhbm_value_name_def

lemmas user_defs = isSupportDispId_def getDispIdName_def isSupportDozeBrightness_def isAodBrightness_def getDozeBrightnessName_def isSupportLcdHbmLevel_def isSupportDispEventType_def getDispEventTypeName_def isSupportDispFeatureId_def getLocalHbmStateName_def getFingerprintStatusName_def getDispFeatureIdName_def getLhbmValueName_def

lemmas arms_defs = get_disp_id_name_arms_def get_doze_brightness_name_arms_def get_disp_event_type_name_arms_def get_local_hbm_state_name_arms_def get_fingerprint_status_name_arms_def get_disp_feature_id_name_arms_def get_lhbm_value_name_arms_def getDispIdName_arms_def getDozeBrightnessName_arms_def getDispEventTypeName_arms_def getLocalHbmStateName_arms_def getFingerprintStatusName_arms_def getDispFeatureIdName_arms_def getLhbmValueName_arms_def

interpretation mi_disp: ioctl_table mi_disp_ioctls
  by (rule ioctl_tableI) code_simp+

section \<open>Properties\<close>

text \<open>
  C23. The functions the header declares for the kernel and their counterparts for user space
  compute the same results on every argument, all thirteen pairs of them.
\<close>

theorem kernel_user_agree:
  "is_support_disp_id x = isSupportDispId x \<and>
   get_disp_id_name x = getDispIdName x \<and>
   is_support_doze_brightness x = isSupportDozeBrightness x \<and>
   is_aod_brightness x = isAodBrightness x \<and>
   get_doze_brightness_name x = getDozeBrightnessName x \<and>
   is_support_lcd_hbm_level x = isSupportLcdHbmLevel x \<and>
   is_support_disp_event_type x = isSupportDispEventType x \<and>
   get_disp_event_type_name x = getDispEventTypeName x \<and>
   is_support_disp_feature_id x = isSupportDispFeatureId x \<and>
   get_local_hbm_state_name x = getLocalHbmStateName x \<and>
   get_fingerprint_status_name x = getFingerprintStatusName x \<and>
   get_disp_feature_id_name x = getDispFeatureIdName x \<and>
   get_lhbm_value_name x = getLhbmValueName x"
  unfolding kernel_defs user_defs arms_defs by simp

lemma supported_iff_named:
  "(is_support_disp_id x = 1 \<longleftrightarrow> get_disp_id_name x \<noteq> ''Unknown'') \<and>
   (is_support_doze_brightness x = 1 \<longleftrightarrow> get_doze_brightness_name x \<noteq> ''Unknown'') \<and>
   (is_support_disp_event_type x = 1 \<longleftrightarrow> get_disp_event_type_name x \<noteq> ''Unknown'') \<and>
   (is_support_disp_feature_id x = 1 \<longleftrightarrow> get_disp_feature_id_name x \<noteq> ''Unknown'') \<and>
   (get_local_hbm_state_name x \<noteq> ''Unknown'' \<longleftrightarrow> x < local_hbm_state_code LOCAL_HBM_MAX) \<and>
   (get_lhbm_value_name x \<noteq> ''Unknown'' \<longleftrightarrow>
      x < lhbm_target_brightness_state_code LHBM_TARGET_BRIGHTNESS_MAX) \<and>
   (is_aod_brightness x = 1 \<longleftrightarrow>
      is_support_doze_brightness x = 1 \<and> x \<noteq> doze_brightness_state_code DOZE_TO_NORMAL)"
proof (intro conjI)
  show "is_aod_brightness x = 1 \<longleftrightarrow>
      is_support_doze_brightness x = 1 \<and> x \<noteq> doze_brightness_state_code DOZE_TO_NORMAL"
    by (auto simp: kernel_defs word_less_nat_alt word_unat_eq_iff)
qed (simp_all add: kernel_defs disp_id.switch_unknown doze_brightness.switch_unknown
    disp_event_type.switch_unknown disp_feature_id.switch_unknown local_hbm_state.switch_unknown
    lhbm_value.switch_unknown del: disp_display_type_code.simps doze_brightness_state_code.simps
    disp_event_type_code.simps disp_feature_id_code.simps local_hbm_state_code.simps
    lhbm_target_brightness_state_code.simps)

lemma names_injective:
  "(is_support_disp_id x = 1 \<and> get_disp_id_name x = get_disp_id_name y \<longrightarrow> x = y) \<and>
   (is_support_doze_brightness x = 1 \<and> get_doze_brightness_name x = get_doze_brightness_name y \<longrightarrow> x = y) \<and>
   (is_support_disp_event_type x = 1 \<and> get_disp_event_type_name x = get_disp_event_type_name y \<longrightarrow> x = y) \<and>
   (is_support_disp_feature_id x = 1 \<and> get_disp_feature_id_name x = get_disp_feature_id_name y \<longrightarrow> x = y) \<and>
   (get_local_hbm_state_name x \<noteq> ''Unknown'' \<and>
      get_local_hbm_state_name x = get_local_hbm_state_name y \<longrightarrow> x = y) \<and>
   (get_lhbm_value_name x \<noteq> ''Unknown'' \<and> get_lhbm_value_name x = get_lhbm_value_name y \<longrightarrow> x = y)"
  unfolding kernel_defs
  by (intro conjI impI; elim conjE;
      (erule (1) disp_id.supported_inj | erule (1) doze_brightness.supported_inj
       | erule (1) disp_event_type.supported_inj | erule (1) disp_feature_id.supported_inj
       | erule (1) local_hbm_state.named_inj | erule (1) lhbm_value.named_inj))

text \<open>
  C39. A display id, doze brightness, event type or feature id is supported exactly when it has a name
  other than \<^verbatim>\<open>Unknown\<close>; local-HBM states and values have one exactly below the end marker of their
  enumeration; an always-on doze brightness is a supported one other than the first.  Two different
  supported codes never have the same name, so that a name in a log identifies the code.
\<close>

theorem names_characterise_codes:
  "((is_support_disp_id x = 1 \<longleftrightarrow> get_disp_id_name x \<noteq> ''Unknown'') \<and>
   (is_support_doze_brightness x = 1 \<longleftrightarrow> get_doze_brightness_name x \<noteq> ''Unknown'') \<and>
   (is_support_disp_event_type x = 1 \<longleftrightarrow> get_disp_event_type_name x \<noteq> ''Unknown'') \<and>
   (is_support_disp_feature_id x = 1 \<longleftrightarrow> get_disp_feature_id_name x \<noteq> ''Unknown'') \<and>
   (get_local_hbm_state_name x \<noteq> ''Unknown'' \<longleftrightarrow> x < local_hbm_state_code LOCAL_HBM_MAX) \<and>
   (get_lhbm_value_name x \<noteq> ''Unknown'' \<longleftrightarrow>
      x < lhbm_target_brightness_state_code LHBM_TARGET_BRIGHTNESS_MAX) \<and>
   (is_aod_brightness x = 1 \<longleftrightarrow>
      is_support_doze_brightness x = 1 \<and> x \<noteq> doze_brightness_state_code DOZE_TO_NORMAL)) \<and>
   (is_support_disp_id x = 1 \<and> get_disp_id_name x = get_disp_id_name y \<longrightarrow> x = y) \<and>
   (is_support_doze_brightness x = 1 \<and> get_doze_brightness_name x = get_doze_brightness_name y \<longrightarrow> x = y) \<and>
   (is_support_disp_event_type x = 1 \<and> get_disp_event_type_name x = get_disp_event_type_name y \<longrightarrow> x = y) \<and>
   (is_support_disp_feature_id x = 1 \<and> get_disp_feature_id_name x = get_disp_feature_id_name y \<longrightarrow> x = y) \<and>
   (get_local_hbm_state_name x \<noteq> ''Unknown'' \<and>
      get_local_hbm_state_name x = get_local_hbm_state_name y \<longrightarrow> x = y) \<and>
   (get_lhbm_value_name x \<noteq> ''Unknown'' \<and> get_lhbm_value_name x = get_lhbm_value_name y \<longrightarrow> x = y)"
  using supported_iff_named names_injective by (rule conjI)

theorem names_characterise_codes_witness:
  "get_disp_feature_id_name 5 \<noteq> get_disp_feature_id_name 6"
proof
  assume "get_disp_feature_id_name 5 = get_disp_feature_id_name 6"
  moreover have "is_support_disp_feature_id 5 = 1" by (simp add: is_support_disp_feature_id_def)
  ultimately have "(5 :: u32) = 6" using names_characterise_codes [of 5 6] by blast
  then show False by simp
qed

text \<open>
  Whatever the kernel's injective encoding of requests is, the sixteen requests of the interface
  have sixteen numbers in a process of either width.  The number that a 32-bit process computes is a
  number of the 64-bit interface exactly for the thirteen requests whose argument has no pointer, and
  then it is the number of the same request; the three information requests with \<^verbatim>\<open>char *\<close> members
  have numbers there that no request has.
\<close>

lemma mi_disp_numbers:
  assumes "ioc_encoding enc" and "i \<in> set mi_disp_ioctls" and "j \<in> set mi_disp_ioctls"
  shows "(enc (request dm i) = enc (request dm j) \<longleftrightarrow> i = j) \<and>
    (enc (request ILP32 i) = enc (request LP64 j) \<longleftrightarrow>
      i = j \<and> i \<notin> set [MI_DISP_IOCTL_GET_PANEL_INFO, MI_DISP_IOCTL_GET_WP_INFO,
                       MI_DISP_IOCTL_GET_MANUFACTURER_INFO])"
proof
  show "enc (request dm i) = enc (request dm j) \<longleftrightarrow> i = j"
    using mi_disp.number_unique [OF assms] .
  show "enc (request ILP32 i) = enc (request LP64 j) \<longleftrightarrow>
      i = j \<and> i \<notin> set [MI_DISP_IOCTL_GET_PANEL_INFO, MI_DISP_IOCTL_GET_WP_INFO,
                       MI_DISP_IOCTL_GET_MANUFACTURER_INFO]"
  proof (rule mi_disp.number_across_except [OF assms])
    show "set [MI_DISP_IOCTL_GET_PANEL_INFO, MI_DISP_IOCTL_GET_WP_INFO,
        MI_DISP_IOCTL_GET_MANUFACTURER_INFO] \<subseteq> set mi_disp_ioctls"
      by (simp add: mi_disp_ioctls_def)
  qed code_simp
qed

lemma mi_disp_numbers_witness:
  "sample_encoding (request ILP32 MI_DISP_IOCTL_GET_WP_INFO) \<noteq>
   sample_encoding (request LP64 MI_DISP_IOCTL_GET_WP_INFO)"
  using mi_disp_numbers [OF sample_encoding_ok, of MI_DISP_IOCTL_GET_WP_INFO MI_DISP_IOCTL_GET_WP_INFO LP64]
  by (simp add: mi_disp_ioctls_def)

end
