(* ===== verification/Kgsl.thy ===== *)
theory Kgsl
  imports C_Layout
begin

text \<open>
  The interface of the GPU driver, \<^verbatim>\<open>src/include/linux/msm_kgsl.h\<close>: flag words of contexts, command
  batches and memory objects, the memory store that the GPU and its clients share, the argument
  structs and the ioctls.
\<close>

section \<open>Flag words\<close>

definition KGSL_CONTEXT_SAVE_GMEM :: u32 where
  "KGSL_CONTEXT_SAVE_GMEM = 0x1"

definition KGSL_CONTEXT_NO_GMEM_ALLOC :: u32 where
  "KGSL_CONTEXT_NO_GMEM_ALLOC = 0x2"

definition KGSL_CONTEXT_SUBMIT_IB_LIST :: u32 where
  "KGSL_CONTEXT_SUBMIT_IB_LIST = 0x4"

definition KGSL_CONTEXT_CTX_SWITCH :: u32 where
  "KGSL_CONTEXT_CTX_SWITCH = 0x8"

definition KGSL_CONTEXT_PREAMBLE :: u32 where
  "KGSL_CONTEXT_PREAMBLE = 0x10"

definition KGSL_CONTEXT_TRASH_STATE :: u32 where
  "KGSL_CONTEXT_TRASH_STATE = 0x20"

definition KGSL_CONTEXT_PER_CONTEXT_TS :: u32 where
  "KGSL_CONTEXT_PER_CONTEXT_TS = 0x40"

definition KGSL_CONTEXT_USER_GENERATED_TS :: u32 where
  "KGSL_CONTEXT_USER_GENERATED_TS = 0x80"

definition KGSL_CONTEXT_END_OF_FRAME :: u32 where
  "KGSL_CONTEXT_END_OF_FRAME = 0x100"

definition KGSL_CONTEXT_NO_FAULT_TOLERANCE :: u32 where
  "KGSL_CONTEXT_NO_FAULT_TOLERANCE = 0x200"

definition KGSL_CONTEXT_SYNC :: u32 where
  "KGSL_CONTEXT_SYNC = 0x400"

definition KGSL_CONTEXT_PWR_CONSTRAINT :: u32 where
  "KGSL_CONTEXT_PWR_CONSTRAINT = 0x800"

definition KGSL_CONTEXT_PRIORITY_MASK :: u32 where
  "KGSL_CONTEXT_PRIORITY_MASK = 0xf000"

definition KGSL_CONTEXT_PRIORITY_SHIFT :: nat where
  "KGSL_CONTEXT_PRIORITY_SHIFT = 12"

definition KGSL_CONTEXT_PRIORITY_UNDEF :: u32 where
  "KGSL_CONTEXT_PRIORITY_UNDEF = 0x0"

definition KGSL_CONTEXT_IFH_NOP :: u32 where
  "KGSL_CONTEXT_IFH_NOP = 0x10000"

definition KGSL_CONTEXT_SECURE :: u32 where
  "KGSL_CONTEXT_SECURE = 0x20000"

definition KGSL_CONTEXT_NO_SNAPSHOT :: u32 where
  "KGSL_CONTEXT_NO_SNAPSHOT = 0x40000"

definition KGSL_CONTEXT_SPARSE :: u32 where
  "KGSL_CONTEXT_SPARSE = 0x80000"

definition KGSL_CONTEXT_PREEMPT_STYLE_MASK :: u32 where
  "KGSL_CONTEXT_PREEMPT_STYLE_MASK = 0xe000000"

definition KGSL_CONTEXT_PREEMPT_STYLE_SHIFT :: nat where
  "KGSL_CONTEXT_PREEMPT_STYLE_SHIFT = 25"

definition KGSL_CONTEXT_PREEMPT_STYLE_DEFAULT :: u32 where
  "KGSL_CONTEXT_PREEMPT_STYLE_DEFAULT = 0x0"

definition KGSL_CONTEXT_PREEMPT_STYLE_RINGBUFFER :: u32 where
  "KGSL_CONTEXT_PREEMPT_STYLE_RINGBUFFER = 0x1"

definition KGSL_CONTEXT_PREEMPT_STYLE_FINEGRAIN :: u32 where
  "KGSL_CONTEXT_PREEMPT_STYLE_FINEGRAIN = 0x2"

definition KGSL_CONTEXT_TYPE_MASK :: u32 where
  "KGSL_CONTEXT_TYPE_MASK = 0x1f00000"

definition KGSL_CONTEXT_TYPE_SHIFT :: nat where
  "KGSL_CONTEXT_TYPE_SHIFT = 20"

definition KGSL_CONTEXT_TYPE_ANY :: u32 where
  "KGSL_CONTEXT_TYPE_ANY = 0x0"

definition KGSL_CONTEXT_TYPE_GL :: u32 where
  "KGSL_CONTEXT_TYPE_GL = 0x1"

definition KGSL_CONTEXT_TYPE_CL :: u32 where
  "KGSL_CONTEXT_TYPE_CL = 0x2"

definition KGSL_CONTEXT_TYPE_C2D :: u32 where
  "KGSL_CONTEXT_TYPE_C2D = 0x3"

definition KGSL_CONTEXT_TYPE_RS :: u32 where
  "KGSL_CONTEXT_TYPE_RS = 0x4"

definition KGSL_CONTEXT_TYPE_VK :: u32 where
  "KGSL_CONTEXT_TYPE_VK = 0x5"

definition KGSL_CONTEXT_TYPE_UNKNOWN :: u32 where
  "KGSL_CONTEXT_TYPE_UNKNOWN = 0x1e"

definition KGSL_CONTEXT_INVALIDATE_ON_FAULT :: u32 where
  "KGSL_CONTEXT_INVALIDATE_ON_FAULT = 0x10000000"

definition KGSL_CONTEXT_LPAC :: u32 where
  "KGSL_CONTEXT_LPAC = 0x20000000"

definition KGSL_CONTEXT_FAULT_INFO :: u32 where
  "KGSL_CONTEXT_FAULT_INFO = 0x40000000"

definition KGSL_CONTEXT_INVALID :: u32 where
  "KGSL_CONTEXT_INVALID = 0xffffffff"

definition KGSL_MEMFLAGS_SECURE :: u64 where
  "KGSL_MEMFLAGS_SECURE = 0x8"

definition KGSL_MEMFLAGS_GPUREADONLY :: u64 where
  "KGSL_MEMFLAGS_GPUREADONLY = 0x1000000"

definition KGSL_MEMFLAGS_GPUWRITEONLY :: u64 where
  "KGSL_MEMFLAGS_GPUWRITEONLY = 0x2000000"

definition KGSL_MEMFLAGS_FORCE_32BIT :: u64 where
  "KGSL_MEMFLAGS_FORCE_32BIT = 0x100000000"

definition KGSL_CACHEMODE_MASK :: u64 where
  "KGSL_CACHEMODE_MASK = 0xc000000"

definition KGSL_CACHEMODE_SHIFT :: nat where
  "KGSL_CACHEMODE_SHIFT = 26"

definition KGSL_CACHEMODE_WRITECOMBINE :: u64 where
  "KGSL_CACHEMODE_WRITECOMBINE = 0x0"

definition KGSL_CACHEMODE_UNCACHED :: u64 where
  "KGSL_CACHEMODE_UNCACHED = 0x1"

definition KGSL_CACHEMODE_WRITETHROUGH :: u64 where
  "KGSL_CACHEMODE_WRITETHROUGH = 0x2"

definition KGSL_CACHEMODE_WRITEBACK :: u64 where
  "KGSL_CACHEMODE_WRITEBACK = 0x3"

definition KGSL_MEMFLAGS_USE_CPU_MAP :: u64 where
  "KGSL_MEMFLAGS_USE_CPU_MAP = 0x10000000"

definition KGSL_MEMFLAGS_SPARSE_PHYS :: u64 where
  "KGSL_MEMFLAGS_SPARSE_PHYS = 0x20000000"

definition KGSL_MEMFLAGS_SPARSE_VIRT :: u64 where
  "KGSL_MEMFLAGS_SPARSE_VIRT = 0x40000000"

definition KGSL_MEMFLAGS_IOCOHERENT :: u64 where
  "KGSL_MEMFLAGS_IOCOHERENT = 0x80000000"

definition KGSL_MEMFLAGS_GUARD_PAGE :: u64 where
  "KGSL_MEMFLAGS_GUARD_PAGE = 0x200000000"

definition KGSL_MEMFLAGS_VBO :: u64 where
  "KGSL_MEMFLAGS_VBO = 0x400000000"

definition KGSL_MEMTYPE_MASK :: u64 where
  "KGSL_MEMTYPE_MASK = 0xff00"

definition KGSL_MEMTYPE_SHIFT :: nat where
  "KGSL_MEMTYPE_SHIFT = 8"

definition KGSL_MEMTYPE_OBJECTANY :: u64 where
  "KGSL_MEMTYPE_OBJECTANY = 0x0"

definition KGSL_MEMTYPE_FRAMEBUFFER :: u64 where
  "KGSL_MEMTYPE_FRAMEBUFFER = 0x1"

definition KGSL_MEMTYPE_RENDERBUFFER :: u64 where
  "KGSL_MEMTYPE_RENDERBUFFER = 0x2"

definition KGSL_MEMTYPE_ARRAYBUFFER :: u64 where
  "KGSL_MEMTYPE_ARRAYBUFFER = 0x3"

definition KGSL_MEMTYPE_ELEMENTARRAYBUFFER :: u64 where
  "KGSL_MEMTYPE_ELEMENTARRAYBUFFER = 0x4"

definition KGSL_MEMTYPE_VERTEXARRAYBUFFER :: u64 where
  "KGSL_MEMTYPE_VERTEXARRAYBUFFER = 0x5"

definition KGSL_MEMTYPE_TEXTURE :: u64 where
  "KGSL_MEMTYPE_TEXTURE = 0x6"

definition KGSL_MEMTYPE_SURFACE :: u64 where
  "KGSL_MEMTYPE_SURFACE = 0x7"

definition KGSL_MEMTYPE_EGL_SURFACE :: u64 where
  "KGSL_MEMTYPE_EGL_SURFACE = 0x8"

definition KGSL_MEMTYPE_GL :: u64 where
  "KGSL_MEMTYPE_GL = 0x9"

definition KGSL_MEMTYPE_CL :: u64 where
  "KGSL_MEMTYPE_CL = 0xa"

definition KGSL_MEMTYPE_CL_BUFFER_MAP :: u64 where
  "KGSL_MEMTYPE_CL_BUFFER_MAP = 0xb"

definition KGSL_MEMTYPE_CL_BUFFER_NOMAP :: u64 where
  "KGSL_MEMTYPE_CL_BUFFER_NOMAP = 0xc"

definition KGSL_MEMTYPE_CL_IMAGE_MAP :: u64 where
  "KGSL_MEMTYPE_CL_IMAGE_MAP = 0xd"

definition KGSL_MEMTYPE_CL_IMAGE_NOMAP :: u64 where
  "KGSL_MEMTYPE_CL_IMAGE_NOMAP = 0xe"

definition KGSL_MEMTYPE_CL_KERNEL_STACK :: u64 where
  "KGSL_MEMTYPE_CL_KERNEL_STACK = 0xf"

definition KGSL_MEMTYPE_COMMAND :: u64 where
  "KGSL_MEMTYPE_COMMAND = 0x10"

definition KGSL_MEMTYPE_2D :: u64 where
  "KGSL_MEMTYPE_2D = 0x11"

definition KGSL_MEMTYPE_EGL_IMAGE :: u64 where
  "KGSL_MEMTYPE_EGL_IMAGE = 0x12"

definition KGSL_MEMTYPE_EGL_SHADOW :: u64 where
  "KGSL_MEMTYPE_EGL_SHADOW = 0x13"

definition KGSL_MEMTYPE_MULTISAMPLE :: u64 where
  "KGSL_MEMTYPE_MULTISAMPLE = 0x14"

definition KGSL_MEMTYPE_KERNEL :: u64 where
  "KGSL_MEMTYPE_KERNEL = 0xff"

definition KGSL_MEMALIGN_MASK :: u64 where
  "KGSL_MEMALIGN_MASK = 0xff0000"

definition KGSL_MEMALIGN_SHIFT :: nat where
  "KGSL_MEMALIGN_SHIFT = 16"

definition KGSL_MEMFLAGS_USERMEM_MASK :: u64 where
  "KGSL_MEMFLAGS_USERMEM_MASK = 0xe0"

definition KGSL_MEMFLAGS_USERMEM_SHIFT :: nat where
  "KGSL_MEMFLAGS_USERMEM_SHIFT = 5"

datatype kgsl_user_mem_type =
    KGSL_USER_MEM_TYPE_PMEM | KGSL_USER_MEM_TYPE_ASHMEM | KGSL_USER_MEM_TYPE_ADDR |
    KGSL_USER_MEM_TYPE_ION | KGSL_USER_MEM_TYPE_DMABUF | KGSL_USER_MEM_TYPE_MAX

fun kgsl_user_mem_type_code :: "kgsl_user_mem_type \<Rightarrow> u32" where
  "kgsl_user_mem_type_code KGSL_USER_MEM_TYPE_PMEM = 0"
| "kgsl_user_mem_type_code KGSL_USER_MEM_TYPE_ASHMEM = 1"
| "kgsl_user_mem_type_code KGSL_USER_MEM_TYPE_ADDR = 2"
| "kgsl_user_mem_type_code KGSL_USER_MEM_TYPE_ION = 3"
| "kgsl_user_mem_type_code KGSL_USER_MEM_TYPE_DMABUF = 3"
| "kgsl_user_mem_type_code KGSL_USER_MEM_TYPE_MAX = 7"

definition KGSL_USERMEM_FLAG :: "u32 \<Rightarrow> u32" where
  "KGSL_USERMEM_FLAG x = push_bit KGSL_MEMFLAGS_USERMEM_SHIFT (x + 1)"

text \<open>The macro multiplies by \<^verbatim>\<open>1000*1000U\<close>, so in 32 bits.\<close>

definition KGSL_CONVERT_TO_MBPS :: "u32 \<Rightarrow> u32" where
  "KGSL_CONVERT_TO_MBPS val = val * 1000 * 1000"

text \<open>The flags and fields that share a flag word, as masks.\<close>

definition context_fields :: "u32 list" where
  "context_fields =
    [KGSL_CONTEXT_SAVE_GMEM, KGSL_CONTEXT_NO_GMEM_ALLOC, KGSL_CONTEXT_SUBMIT_IB_LIST,
    KGSL_CONTEXT_CTX_SWITCH, KGSL_CONTEXT_PREAMBLE, KGSL_CONTEXT_TRASH_STATE,
    KGSL_CONTEXT_PER_CONTEXT_TS, KGSL_CONTEXT_USER_GENERATED_TS, KGSL_CONTEXT_END_OF_FRAME,
    KGSL_CONTEXT_NO_FAULT_TOLERANCE, KGSL_CONTEXT_SYNC, KGSL_CONTEXT_PWR_CONSTRAINT,
    KGSL_CONTEXT_IFH_NOP, KGSL_CONTEXT_SECURE, KGSL_CONTEXT_NO_SNAPSHOT, KGSL_CONTEXT_SPARSE,
    KGSL_CONTEXT_INVALIDATE_ON_FAULT, KGSL_CONTEXT_LPAC, KGSL_CONTEXT_FAULT_INFO,
    KGSL_CONTEXT_PRIORITY_MASK, KGSL_CONTEXT_PREEMPT_STYLE_MASK, KGSL_CONTEXT_TYPE_MASK]"

definition command_fields_table :: "(string \<times> u32) list" where
  "command_fields_table =
    [(''KGSL_CMDBATCH_MEMLIST'', 0x1), (''KGSL_CMDBATCH_MARKER'', 0x2),
     (''KGSL_CMDBATCH_SUBMIT_IB_LIST'', 0x4), (''KGSL_CMDBATCH_CTX_SWITCH'', 0x8),
     (''KGSL_CMDBATCH_PROFILING'', 0x10), (''KGSL_CMDBATCH_PROFILING_KTIME'', 0x20),
     (''KGSL_CMDBATCH_END_OF_FRAME'', 0x100), (''KGSL_CMDBATCH_SYNC'', 0x400),
     (''KGSL_CMDBATCH_PWR_CONSTRAINT'', 0x800), (''KGSL_CMDBATCH_SPARSE'', 0x1000),
     (''KGSL_CMDBATCH_START_RECURRING'', 0x100000), (''KGSL_CMDBATCH_STOP_RECURRING'', 0x200000)]"

definition command_fields :: "u32 list" where
  "command_fields = map snd command_fields_table"

definition memory_fields :: "u64 list" where
  "memory_fields =
    [KGSL_MEMFLAGS_SECURE, KGSL_MEMFLAGS_GPUREADONLY, KGSL_MEMFLAGS_GPUWRITEONLY,
    KGSL_MEMFLAGS_FORCE_32BIT, KGSL_MEMFLAGS_USE_CPU_MAP, KGSL_MEMFLAGS_SPARSE_PHYS,
    KGSL_MEMFLAGS_SPARSE_VIRT, KGSL_MEMFLAGS_IOCOHERENT, KGSL_MEMFLAGS_GUARD_PAGE,
    KGSL_MEMFLAGS_VBO, KGSL_CACHEMODE_MASK, KGSL_MEMTYPE_MASK, KGSL_MEMALIGN_MASK,
    KGSL_MEMFLAGS_USERMEM_MASK]"

section \<open>Structs\<close>

definition struct_kgsl_devinfo :: ctype where
  "struct_kgsl_devinfo = Struct False [
    (''device_id'', Scalar C_uint), (''chip_id'', Scalar C_uint), (''mmu_enabled'', Scalar C_uint),
    (''gmem_gpubaseaddr'', Scalar C_ulong), (''gpu_id'', Scalar C_uint),
    (''gmem_sizebytes'', Scalar C_size_t)]"

definition struct_kgsl_devmemstore :: ctype where
  "struct_kgsl_devmemstore = Struct False [
    (''soptimestamp'', Scalar C_uint), (''sbz'', Scalar C_uint), (''eoptimestamp'', Scalar C_uint),
    (''sbz2'', Scalar C_uint), (''preempted'', Scalar C_uint), (''sbz3'', Scalar C_uint),
    (''ref_wait_ts'', Scalar C_uint), (''sbz4'', Scalar C_uint),
    (''current_context'', Scalar C_uint), (''sbz5'', Scalar C_uint)]"

definition struct_kgsl_capabilities_properties :: ctype where
  "struct_kgsl_capabilities_properties = Struct False [
    (''list'', Scalar C_u64), (''count'', Scalar C_u32)]"

definition struct_kgsl_capabilities :: ctype where
  "struct_kgsl_capabilities = Struct False [
    (''data'', Scalar C_u64), (''size'', Scalar C_u64), (''querytype'', Scalar C_u32)]"

definition struct_kgsl_shadowprop :: ctype where
  "struct_kgsl_shadowprop = Struct False [
    (''gpuaddr'', Scalar C_ulong), (''size'', Scalar C_size_t), (''flags'', Scalar C_uint)]"

definition struct_kgsl_qdss_stm_prop :: ctype where
  "struct_kgsl_qdss_stm_prop = Struct False [
    (''gpuaddr'', Scalar C_u64), (''size'', Scalar C_u64)]"

definition struct_kgsl_qtimer_prop :: ctype where
  "struct_kgsl_qtimer_prop = Struct False [
    (''gpuaddr'', Scalar C_u64), (''size'', Scalar C_u64)]"

definition struct_kgsl_version :: ctype where
  "struct_kgsl_version = Struct False [
    (''drv_major'', Scalar C_uint), (''drv_minor'', Scalar C_uint), (''dev_major'', Scalar C_uint),
    (''dev_minor'', Scalar C_uint)]"

definition struct_kgsl_sp_generic_mem :: ctype where
  "struct_kgsl_sp_generic_mem = Struct False [
    (''local'', Scalar C_u64), (''pvt'', Scalar C_u64)]"

definition struct_kgsl_ucode_version :: ctype where
  "struct_kgsl_ucode_version = Struct False [
    (''pfp'', Scalar C_uint), (''pm4'', Scalar C_uint)]"

definition struct_kgsl_gpmu_version :: ctype where
  "struct_kgsl_gpmu_version = Struct False [
    (''major'', Scalar C_uint), (''minor'', Scalar C_uint), (''features'', Scalar C_uint)]"

definition struct_kgsl_context_property :: ctype where
  "struct_kgsl_context_property = Struct False [
    (''data'', Scalar C_u64), (''size'', Scalar C_u32), (''type'', Scalar C_u32),
    (''contextid'', Scalar C_u32)]"

definition struct_kgsl_context_property_fault :: ctype where
  "struct_kgsl_context_property_fault = Struct False [
    (''faults'', Scalar C_s32), (''timestamp'', Scalar C_u32)]"

definition struct_kgsl_gpu_model :: ctype where
  "struct_kgsl_gpu_model = Struct False [
    (''gpu_model'', Array (Scalar C_char) 32)]"

definition struct_kgsl_ibdesc :: ctype where
  "struct_kgsl_ibdesc = Struct False [
    (''gpuaddr'', Scalar C_ulong), (''__pad'', Scalar C_ulong), (''sizedwords'', Scalar C_size_t),
    (''ctrl'', Scalar C_uint)]"

definition struct_kgsl_cmdbatch_profiling_buffer :: ctype where
  "struct_kgsl_cmdbatch_profiling_buffer = Struct False [
    (''wall_clock_s'', Scalar C_u64), (''wall_clock_ns'', Scalar C_u64),
    (''gpu_ticks_queued'', Scalar C_u64), (''gpu_ticks_submitted'', Scalar C_u64),
    (''gpu_ticks_retired'', Scalar C_u64)]"

definition struct_kgsl_device_getproperty :: ctype where
  "struct_kgsl_device_getproperty = Struct False [
    (''type'', Scalar C_uint), (''value'', Scalar C_ptr), (''sizebytes'', Scalar C_size_t)]"

definition struct_kgsl_device_waittimestamp :: ctype where
  "struct_kgsl_device_waittimestamp = Struct False [
    (''timestamp'', Scalar C_uint), (''timeout'', Scalar C_uint)]"

definition struct_kgsl_device_waittimestamp_ctxtid :: ctype where
  "struct_kgsl_device_waittimestamp_ctxtid = Struct False [
    (''context_id'', Scalar C_uint), (''timestamp'', Scalar C_uint), (''timeout'', Scalar C_uint)]"

definition struct_kgsl_ringbuffer_issueibcmds :: ctype where
  "struct_kgsl_ringbuffer_issueibcmds = Struct False [
    (''drawctxt_id'', Scalar C_uint), (''ibdesc_addr'', Scalar C_ulong),
    (''numibs'', Scalar C_uint), (''timestamp'', Scalar C_uint), (''flags'', Scalar C_uint)]"

definition struct_kgsl_cmdstream_readtimestamp :: ctype where
  "struct_kgsl_cmdstream_readtimestamp = Struct False [
    (''type'', Scalar C_uint), (''timestamp'', Scalar C_uint)]"

definition struct_kgsl_cmdstream_freememontimestamp :: ctype where
  "struct_kgsl_cmdstream_freememontimestamp = Struct False [
    (''gpuaddr'', Scalar C_ulong), (''type'', Scalar C_uint), (''timestamp'', Scalar C_uint)]"

definition struct_kgsl_drawctxt_create :: ctype where
  "struct_kgsl_drawctxt_create = Struct False [
    (''flags'', Scalar C_uint), (''drawctxt_id'', Scalar C_uint)]"

definition struct_kgsl_drawctxt_destroy :: ctype where
  "struct_kgsl_drawctxt_destroy = Struct False [
    (''drawctxt_id'', Scalar C_uint)]"

definition struct_kgsl_map_user_mem :: ctype where
  "struct_kgsl_map_user_mem = Struct False [
    (''fd'', Scalar C_int), (''gpuaddr'', Scalar C_ulong), (''len'', Scalar C_size_t),
    (''offset'', Scalar C_size_t), (''hostptr'', Scalar C_ulong), (''memtype'', Scalar C_enum),
    (''flags'', Scalar C_uint)]"

definition struct_kgsl_cmdstream_readtimestamp_ctxtid :: ctype where
  "struct_kgsl_cmdstream_readtimestamp_ctxtid = Struct False [
    (''context_id'', Scalar C_uint), (''type'', Scalar C_uint), (''timestamp'', Scalar C_uint)]"

definition struct_kgsl_cmdstream_freememontimestamp_ctxtid :: ctype where
  "struct_kgsl_cmdstream_freememontimestamp_ctxtid = Struct False [
    (''context_id'', Scalar C_uint), (''gpuaddr'', Scalar C_ulong), (''type'', Scalar C_uint),
    (''timestamp'', Scalar C_uint)]"

definition struct_kgsl_sharedmem_from_pmem :: ctype where
  "struct_kgsl_sharedmem_from_pmem = Struct False [
    (''pmem_fd'', Scalar C_int), (''gpuaddr'', Scalar C_ulong), (''len'', Scalar C_uint),
    (''offset'', Scalar C_uint)]"

definition struct_kgsl_sharedmem_free :: ctype where
  "struct_kgsl_sharedmem_free = Struct False [
    (''gpuaddr'', Scalar C_ulong)]"

definition struct_kgsl_cff_user_event :: ctype where
  "struct_kgsl_cff_user_event = Struct False [
    (''cff_opcode'', Scalar C_u8), (''op1'', Scalar C_uint), (''op2'', Scalar C_uint),
    (''op3'', Scalar C_uint), (''op4'', Scalar C_uint), (''op5'', Scalar C_uint),
    (''__pad'', Array (Scalar C_uint) 2)]"

definition struct_kgsl_gmem_desc :: ctype where
  "struct_kgsl_gmem_desc = Struct False [
    (''x'', Scalar C_uint), (''y'', Scalar C_uint), (''width'', Scalar C_uint),
    (''height'', Scalar C_uint), (''pitch'', Scalar C_uint)]"

definition struct_kgsl_buffer_desc :: ctype where
  "struct_kgsl_buffer_desc = Struct False [
    (''hostptr'', Scalar C_ptr), (''gpuaddr'', Scalar C_ulong), (''size'', Scalar C_int),
    (''format'', Scalar C_uint), (''pitch'', Scalar C_uint), (''enabled'', Scalar C_uint)]"

definition struct_kgsl_bind_gmem_shadow :: ctype where
  "struct_kgsl_bind_gmem_shadow = Struct False [
    (''drawctxt_id'', Scalar C_uint), (''gmem_desc'', struct_kgsl_gmem_desc),
    (''shadow_x'', Scalar C_uint), (''shadow_y'', Scalar C_uint),
    (''shadow_buffer'', struct_kgsl_buffer_desc), (''buffer_id'', Scalar C_uint)]"

definition struct_kgsl_sharedmem_from_vmalloc :: ctype where
  "struct_kgsl_sharedmem_from_vmalloc = Struct False [
    (''gpuaddr'', Scalar C_ulong), (''hostptr'', Scalar C_uint), (''flags'', Scalar C_uint)]"

definition struct_kgsl_drawctxt_set_bin_base_offset :: ctype where
  "struct_kgsl_drawctxt_set_bin_base_offset = Struct False [
    (''drawctxt_id'', Scalar C_uint), (''offset'', Scalar C_uint)]"

definition struct_kgsl_cmdwindow_write :: ctype where
  "struct_kgsl_cmdwindow_write = Struct False [
    (''target'', Scalar C_enum), (''addr'', Scalar C_uint), (''data'', Scalar C_uint)]"

definition struct_kgsl_gpumem_alloc :: ctype where
  "struct_kgsl_gpumem_alloc = Struct False [
    (''gpuaddr'', Scalar C_ulong), (''size'', Scalar C_size_t), (''flags'', Scalar C_uint)]"

definition struct_kgsl_cff_syncmem :: ctype where
  "struct_kgsl_cff_syncmem = Struct False [
    (''gpuaddr'', Scalar C_ulong), (''len'', Scalar C_size_t),
    (''__pad'', Array (Scalar C_uint) 2)]"

definition struct_kgsl_timestamp_event :: ctype where
  "struct_kgsl_timestamp_event = Struct False [
    (''type'', Scalar C_int), (''timestamp'', Scalar C_uint), (''context_id'', Scalar C_uint),
    (''priv'', Scalar C_ptr), (''len'', Scalar C_size_t)]"

definition struct_kgsl_timestamp_event_genlock :: ctype where
  "struct_kgsl_timestamp_event_genlock = Struct False [
    (''handle'', Scalar C_int)]"

definition struct_kgsl_timestamp_event_fence :: ctype where
  "struct_kgsl_timestamp_event_fence = Struct False [
    (''fence_fd'', Scalar C_int)]"

definition struct_kgsl_gpumem_alloc_id :: ctype where
  "struct_kgsl_gpumem_alloc_id = Struct False [
    (''id'', Scalar C_uint), (''flags'', Scalar C_uint), (''size'', Scalar C_size_t),
    (''mmapsize'', Scalar C_size_t), (''gpuaddr'', Scalar C_ulong),
    (''__pad'', Array (Scalar C_ulong) 2)]"

definition struct_kgsl_gpumem_free_id :: ctype where
  "struct_kgsl_gpumem_free_id = Struct False [
    (''id'', Scalar C_uint), (''__pad'', Scalar C_uint)]"

definition struct_kgsl_gpumem_get_info :: ctype where
  "struct_kgsl_gpumem_get_info = Struct False [
    (''gpuaddr'', Scalar C_ulong), (''id'', Scalar C_uint), (''flags'', Scalar C_uint),
    (''size'', Scalar C_size_t), (''mmapsize'', Scalar C_size_t), (''useraddr'', Scalar C_ulong),
    (''__pad'', Array (Scalar C_ulong) 4)]"

definition struct_kgsl_gpumem_sync_cache :: ctype where
  "struct_kgsl_gpumem_sync_cache = Struct False [
    (''gpuaddr'', Scalar C_ulong), (''id'', Scalar C_uint), (''op'', Scalar C_uint),
    (''offset'', Scalar C_size_t), (''length'', Scalar C_size_t)]"

definition struct_kgsl_perfcounter_get :: ctype where
  "struct_kgsl_perfcounter_get = Struct False [
    (''groupid'', Scalar C_uint), (''countable'', Scalar C_uint), (''offset'', Scalar C_uint),
    (''offset_hi'', Scalar C_uint), (''__pad'', Scalar C_uint)]"

definition struct_kgsl_perfcounter_put :: ctype where
  "struct_kgsl_perfcounter_put = Struct False [
    (''groupid'', Scalar C_uint), (''countable'', Scalar C_uint),
    (''__pad'', Array (Scalar C_uint) 2)]"

definition struct_kgsl_perfcounter_query :: ctype where
  "struct_kgsl_perfcounter_query = Struct False [
    (''groupid'', Scalar C_uint), (''countables'', Scalar C_ptr), (''count'', Scalar C_uint),
    (''max_counters'', Scalar C_uint), (''__pad'', Array (Scalar C_uint) 2)]"

definition struct_kgsl_perfcounter_read_group :: ctype where
  "struct_kgsl_perfcounter_read_group = Struct False [
    (''groupid'', Scalar C_uint), (''countable'', Scalar C_uint), (''value'', Scalar C_ullong)]"

definition struct_kgsl_perfcounter_read :: ctype where
  "struct_kgsl_perfcounter_read = Struct False [
    (''reads'', Scalar C_ptr), (''count'', Scalar C_uint), (''__pad'', Array (Scalar C_uint) 2)]"

definition struct_kgsl_gpumem_sync_cache_bulk :: ctype where
  "struct_kgsl_gpumem_sync_cache_bulk = Struct False [
    (''id_list'', Scalar C_ptr), (''count'', Scalar C_uint), (''op'', Scalar C_uint),
    (''__pad'', Array (Scalar C_uint) 2)]"

definition struct_kgsl_cmd_syncpoint_timestamp :: ctype where
  "struct_kgsl_cmd_syncpoint_timestamp = Struct False [
    (''context_id'', Scalar C_uint), (''timestamp'', Scalar C_uint)]"

definition struct_kgsl_cmd_syncpoint_fence :: ctype where
  "struct_kgsl_cmd_syncpoint_fence = Struct False [
    (''fd'', Scalar C_int)]"

definition struct_kgsl_cmd_syncpoint_timeline :: ctype where
  "struct_kgsl_cmd_syncpoint_timeline = Struct False [
    (''timelines'', Scalar C_u64), (''count'', Scalar C_u32), (''timelines_size'', Scalar C_u32)]"

definition struct_kgsl_cmd_syncpoint :: ctype where
  "struct_kgsl_cmd_syncpoint = Struct False [
    (''type'', Scalar C_int), (''priv'', Scalar C_ptr), (''size'', Scalar C_size_t)]"

definition struct_kgsl_submit_commands :: ctype where
  "struct_kgsl_submit_commands = Struct False [
    (''context_id'', Scalar C_uint), (''flags'', Scalar C_uint), (''cmdlist'', Scalar C_ptr),
    (''numcmds'', Scalar C_uint), (''synclist'', Scalar C_ptr), (''numsyncs'', Scalar C_uint),
    (''timestamp'', Scalar C_uint), (''__pad'', Array (Scalar C_uint) 4)]"

definition struct_kgsl_device_constraint :: ctype where
  "struct_kgsl_device_constraint = Struct False [
    (''type'', Scalar C_uint), (''context_id'', Scalar C_uint), (''data'', Scalar C_ptr),
    (''size'', Scalar C_size_t)]"

definition struct_kgsl_device_constraint_pwrlevel :: ctype where
  "struct_kgsl_device_constraint_pwrlevel = Struct False [
    (''level'', Scalar C_uint)]"

definition struct_kgsl_syncsource_create :: ctype where
  "struct_kgsl_syncsource_create = Struct False [
    (''id'', Scalar C_uint), (''__pad'', Array (Scalar C_uint) 3)]"

definition struct_kgsl_syncsource_destroy :: ctype where
  "struct_kgsl_syncsource_destroy = Struct False [
    (''id'', Scalar C_uint), (''__pad'', Array (Scalar C_uint) 3)]"

definition struct_kgsl_syncsource_create_fence :: ctype where
  "struct_kgsl_syncsource_create_fence = Struct False [
    (''id'', Scalar C_uint), (''fence_fd'', Scalar C_int), (''__pad'', Array (Scalar C_uint) 4)]"

definition struct_kgsl_syncsource_signal_fence :: ctype where
  "struct_kgsl_syncsource_signal_fence = Struct False [
    (''id'', Scalar C_uint), (''fence_fd'', Scalar C_int), (''__pad'', Array (Scalar C_uint) 4)]"

definition struct_kgsl_cff_sync_gpuobj :: ctype where
  "struct_kgsl_cff_sync_gpuobj = Struct False [
    (''offset'', Scalar C_u64), (''length'', Scalar C_u64), (''id'', Scalar C_uint)]"

definition struct_kgsl_gpuobj_alloc :: ctype where
  "struct_kgsl_gpuobj_alloc = Struct False [
    (''size'', Scalar C_u64), (''flags'', Scalar C_u64), (''va_len'', Scalar C_u64),
    (''mmapsize'', Scalar C_u64), (''id'', Scalar C_uint), (''metadata_len'', Scalar C_uint),
    (''metadata'', Scalar C_u64)]"

definition struct_kgsl_gpuobj_free :: ctype where
  "struct_kgsl_gpuobj_free = Struct False [
    (''flags'', Scalar C_u64), (''priv'', Scalar C_u64), (''id'', Scalar C_uint),
    (''type'', Scalar C_uint), (''len'', Scalar C_uint)]"

definition struct_kgsl_gpu_event_timestamp :: ctype where
  "struct_kgsl_gpu_event_timestamp = Struct False [
    (''context_id'', Scalar C_uint), (''timestamp'', Scalar C_uint)]"

definition struct_kgsl_gpu_event_fence :: ctype where
  "struct_kgsl_gpu_event_fence = Struct False [
    (''fd'', Scalar C_int)]"

definition struct_kgsl_gpuobj_info :: ctype where
  "struct_kgsl_gpuobj_info = Struct False [
    (''gpuaddr'', Scalar C_u64), (''flags'', Scalar C_u64), (''size'', Scalar C_u64),
    (''va_len'', Scalar C_u64), (''va_addr'', Scalar C_u64), (''id'', Scalar C_uint)]"

definition struct_kgsl_gpuobj_import :: ctype where
  "struct_kgsl_gpuobj_import = Struct False [
    (''priv'', Scalar C_u64), (''priv_len'', Scalar C_u64), (''flags'', Scalar C_u64),
    (''type'', Scalar C_uint), (''id'', Scalar C_uint)]"

definition struct_kgsl_gpuobj_import_dma_buf :: ctype where
  "struct_kgsl_gpuobj_import_dma_buf = Struct False [
    (''fd'', Scalar C_int)]"

definition struct_kgsl_gpuobj_import_useraddr :: ctype where
  "struct_kgsl_gpuobj_import_useraddr = Struct False [
    (''virtaddr'', Scalar C_u64)]"

definition struct_kgsl_gpuobj_sync_obj :: ctype where
  "struct_kgsl_gpuobj_sync_obj = Struct False [
    (''offset'', Scalar C_u64), (''length'', Scalar C_u64), (''id'', Scalar C_uint),
    (''op'', Scalar C_uint)]"

definition struct_kgsl_gpuobj_sync :: ctype where
  "struct_kgsl_gpuobj_sync = Struct False [
    (''objs'', Scalar C_u64), (''obj_len'', Scalar C_uint), (''count'', Scalar C_uint)]"

definition struct_kgsl_command_object :: ctype where
  "struct_kgsl_command_object = Struct False [
    (''offset'', Scalar C_u64), (''gpuaddr'', Scalar C_u64), (''size'', Scalar C_u64),
    (''flags'', Scalar C_uint), (''id'', Scalar C_uint)]"

definition struct_kgsl_command_syncpoint :: ctype where
  "struct_kgsl_command_syncpoint = Struct False [
    (''priv'', Scalar C_u64), (''size'', Scalar C_u64), (''type'', Scalar C_uint)]"

definition struct_kgsl_gpu_command :: ctype where
  "struct_kgsl_gpu_command = Struct False [
    (''flags'', Scalar C_u64), (''cmdlist'', Scalar C_u64), (''cmdsize'', Scalar C_uint),
    (''numcmds'', Scalar C_uint), (''objlist'', Scalar C_u64), (''objsize'', Scalar C_uint),
    (''numobjs'', Scalar C_uint), (''synclist'', Scalar C_u64), (''syncsize'', Scalar C_uint),
    (''numsyncs'', Scalar C_uint), (''context_id'', Scalar C_uint), (''timestamp'', Scalar C_uint)]"

definition struct_kgsl_preemption_counters_query :: ctype where
  "struct_kgsl_preemption_counters_query = Struct False [
    (''counters'', Scalar C_u64), (''size_user'', Scalar C_uint),
    (''size_priority_level'', Scalar C_uint), (''max_priority_level'', Scalar C_uint)]"

definition struct_kgsl_gpuobj_set_info :: ctype where
  "struct_kgsl_gpuobj_set_info = Struct False [
    (''flags'', Scalar C_u64), (''metadata'', Scalar C_u64), (''id'', Scalar C_uint),
    (''metadata_len'', Scalar C_uint), (''type'', Scalar C_uint)]"

definition struct_kgsl_sparse_phys_alloc :: ctype where
  "struct_kgsl_sparse_phys_alloc = Struct False [
    (''size'', Scalar C_u64), (''pagesize'', Scalar C_u64), (''flags'', Scalar C_u64),
    (''id'', Scalar C_uint)]"

definition struct_kgsl_sparse_phys_free :: ctype where
  "struct_kgsl_sparse_phys_free = Struct False [
    (''id'', Scalar C_uint)]"

definition struct_kgsl_sparse_virt_alloc :: ctype where
  "struct_kgsl_sparse_virt_alloc = Struct False [
    (''size'', Scalar C_u64), (''pagesize'', Scalar C_u64), (''flags'', Scalar C_u64),
    (''gpuaddr'', Scalar C_u64), (''id'', Scalar C_uint)]"

definition struct_kgsl_sparse_virt_free :: ctype where
  "struct_kgsl_sparse_virt_free = Struct False [
    (''id'', Scalar C_uint)]"

definition struct_kgsl_sparse_binding_object :: ctype where
  "struct_kgsl_sparse_binding_object = Struct False [
    (''virtoffset'', Scalar C_u64), (''physoffset'', Scalar C_u64), (''size'', Scalar C_u64),
    (''flags'', Scalar C_u64), (''id'', Scalar C_uint)]"

definition struct_kgsl_sparse_bind :: ctype where
  "struct_kgsl_sparse_bind = Struct False [
    (''list'', Scalar C_u64), (''id'', Scalar C_uint), (''size'', Scalar C_uint),
    (''count'', Scalar C_uint)]"

definition struct_kgsl_gpu_sparse_command :: ctype where
  "struct_kgsl_gpu_sparse_command = Struct False [
    (''flags'', Scalar C_u64), (''sparselist'', Scalar C_u64), (''synclist'', Scalar C_u64),
    (''sparsesize'', Scalar C_uint), (''numsparse'', Scalar C_uint), (''syncsize'', Scalar C_uint),
    (''numsyncs'', Scalar C_uint), (''context_id'', Scalar C_uint), (''timestamp'', Scalar C_uint),
    (''id'', Scalar C_uint)]"

definition struct_kgsl_gpumem_bind_range :: ctype where
  "struct_kgsl_gpumem_bind_range = Struct False [
    (''child_offset'', Scalar C_u64), (''target_offset'', Scalar C_u64),
    (''length'', Scalar C_u64), (''child_id'', Scalar C_u32), (''op'', Scalar C_u32)]"

definition struct_kgsl_gpumem_bind_ranges :: ctype where
  "struct_kgsl_gpumem_bind_ranges = Struct False [
    (''ranges'', Scalar C_u64), (''ranges_nents'', Scalar C_u32), (''ranges_size'', Scalar C_u32),
    (''id'', Scalar C_u32), (''flags'', Scalar C_u32), (''fence_id'', Scalar C_int),
    (''padding'', Scalar C_u32)]"

definition struct_kgsl_gpu_aux_command_bind :: ctype where
  "struct_kgsl_gpu_aux_command_bind = Struct False [
    (''rangeslist'', Scalar C_u64), (''numranges'', Scalar C_u64), (''rangesize'', Scalar C_u64),
    (''target'', Scalar C_u32), (''padding'', Scalar C_u32)]"

definition struct_kgsl_gpu_aux_command_generic :: ctype where
  "struct_kgsl_gpu_aux_command_generic = Struct False [
    (''priv'', Scalar C_u64), (''size'', Scalar C_u64), (''type'', Scalar C_u32),
    (''padding'', Scalar C_u32)]"

definition struct_kgsl_gpu_aux_command :: ctype where
  "struct_kgsl_gpu_aux_command = Struct False [
    (''flags'', Scalar C_u64), (''cmdlist'', Scalar C_u64), (''cmdsize'', Scalar C_u32),
    (''numcmds'', Scalar C_u32), (''synclist'', Scalar C_u64), (''syncsize'', Scalar C_u32),
    (''numsyncs'', Scalar C_u32), (''context_id'', Scalar C_u32), (''timestamp'', Scalar C_u32)]"

definition struct_kgsl_timeline_create :: ctype where
  "struct_kgsl_timeline_create = Struct False [
    (''seqno'', Scalar C_u64), (''id'', Scalar C_u32), (''padding'', Scalar C_u32)]"

definition struct_kgsl_timeline_val :: ctype where
  "struct_kgsl_timeline_val = Struct False [
    (''seqno'', Scalar C_u64), (''timeline'', Scalar C_u32), (''padding'', Scalar C_u32)]"

definition struct_kgsl_timeline_wait :: ctype where
  "struct_kgsl_timeline_wait = Struct False [
    (''tv_sec'', Scalar C_s64), (''tv_nsec'', Scalar C_s64), (''timelines'', Scalar C_u64),
    (''count'', Scalar C_u32), (''timelines_size'', Scalar C_u32), (''flags'', Scalar C_u32),
    (''padding'', Scalar C_u32)]"

definition struct_kgsl_timeline_signal :: ctype where
  "struct_kgsl_timeline_signal = Struct False [
    (''timelines'', Scalar C_u64), (''count'', Scalar C_u32), (''timelines_size'', Scalar C_u32)]"

definition struct_kgsl_timeline_fence_get :: ctype where
  "struct_kgsl_timeline_fence_get = Struct False [
    (''seqno'', Scalar C_u64), (''timeline'', Scalar C_u32), (''handle'', Scalar C_int)]"

definition struct_kgsl_gpu_aux_command_timeline :: ctype where
  "struct_kgsl_gpu_aux_command_timeline = Struct False [
    (''timelines'', Scalar C_u64), (''count'', Scalar C_u32), (''timelines_size'', Scalar C_u32)]"

definition struct_kgsl_pagefault_report :: ctype where
  "struct_kgsl_pagefault_report = Struct False [
    (''fault_addr'', Scalar C_u64), (''reserved'', Array (Scalar C_u64) 2),
    (''fault_type'', Scalar C_u32), (''__pad'', Scalar C_u32)]"

definition struct_kgsl_fault :: ctype where
  "struct_kgsl_fault = Struct False [
    (''fault'', Scalar C_u64), (''type'', Scalar C_u32), (''count'', Scalar C_u32),
    (''size'', Scalar C_u32), (''padding'', Scalar C_u32)]"

definition struct_kgsl_fault_report :: ctype where
  "struct_kgsl_fault_report = Struct False [
    (''faultlist'', Scalar C_u64), (''faultnents'', Scalar C_u32), (''faultsize'', Scalar C_u32),
    (''context_id'', Scalar C_u32), (''padding'', Scalar C_u32)]"

definition struct_kgsl_recurring_command :: ctype where
  "struct_kgsl_recurring_command = Struct False [
    (''flags'', Scalar C_u64), (''cmdlist'', Scalar C_u64), (''cmdsize'', Scalar C_u32),
    (''numcmds'', Scalar C_u32), (''objlist'', Scalar C_u64), (''objsize'', Scalar C_u32),
    (''numobjs'', Scalar C_u32), (''context_id'', Scalar C_u32), (''padding'', Scalar C_u32)]"

text \<open>
  The offset of a field of the memory store of a context, in the unsigned long arithmetic of
  \<^verbatim>\<open>sizeof\<close> and \<^verbatim>\<open>offsetof\<close>.
\<close>

definition KGSL_MEMSTORE_OFFSET :: "data_model \<Rightarrow> nat \<Rightarrow> string \<Rightarrow> nat option" where
  "KGSL_MEMSTORE_OFFSET dm ctxt_id fld =
    (case coffset dm struct_kgsl_devmemstore fld of
       None \<Rightarrow> None
     | Some ofs \<Rightarrow>
         Some ((ctxt_id * csize dm struct_kgsl_devmemstore + ofs) mod 2 ^ (8 * word_bytes dm)))"

section \<open>Requests\<close>

definition IOCTL_KGSL_DEVICE_GETPROPERTY :: ioctl where
  "IOCTL_KGSL_DEVICE_GETPROPERTY = IOWR ''IOCTL_KGSL_DEVICE_GETPROPERTY'' 0x9 0x2 struct_kgsl_device_getproperty"

definition IOCTL_KGSL_DEVICE_WAITTIMESTAMP :: ioctl where
  "IOCTL_KGSL_DEVICE_WAITTIMESTAMP = IOW ''IOCTL_KGSL_DEVICE_WAITTIMESTAMP'' 0x9 0x6 struct_kgsl_device_waittimestamp"

definition IOCTL_KGSL_DEVICE_WAITTIMESTAMP_CTXTID :: ioctl where
  "IOCTL_KGSL_DEVICE_WAITTIMESTAMP_CTXTID = IOW ''IOCTL_KGSL_DEVICE_WAITTIMESTAMP_CTXTID'' 0x9 0x7 struct_kgsl_device_waittimestamp_ctxtid"

definition IOCTL_KGSL_RINGBUFFER_ISSUEIBCMDS :: ioctl where
  "IOCTL_KGSL_RINGBUFFER_ISSUEIBCMDS = IOWR ''IOCTL_KGSL_RINGBUFFER_ISSUEIBCMDS'' 0x9 0x10 struct_kgsl_ringbuffer_issueibcmds"

definition IOCTL_KGSL_CMDSTREAM_READTIMESTAMP_OLD :: ioctl where
  "IOCTL_KGSL_CMDSTREAM_READTIMESTAMP_OLD = IOR ''IOCTL_KGSL_CMDSTREAM_READTIMESTAMP_OLD'' 0x9 0x11 struct_kgsl_cmdstream_readtimestamp"

definition IOCTL_KGSL_CMDSTREAM_READTIMESTAMP :: ioctl where
  "IOCTL_KGSL_CMDSTREAM_READTIMESTAMP = IOWR ''IOCTL_KGSL_CMDSTREAM_READTIMESTAMP'' 0x9 0x11 struct_kgsl_cmdstream_readtimestamp"

definition IOCTL_KGSL_CMDSTREAM_FREEMEMONTIMESTAMP :: ioctl where
  "IOCTL_KGSL_CMDSTREAM_FREEMEMONTIMESTAMP = IOW ''IOCTL_KGSL_CMDSTREAM_FREEMEMONTIMESTAMP'' 0x9 0x12 struct_kgsl_cmdstream_freememontimestamp"

definition IOCTL_KGSL_CMDSTREAM_FREEMEMONTIMESTAMP_OLD :: ioctl where
  "IOCTL_KGSL_CMDSTREAM_FREEMEMONTIMESTAMP_OLD = IOR ''IOCTL_KGSL_CMDSTREAM_FREEMEMONTIMESTAMP_OLD'' 0x9 0x12 struct_kgsl_cmdstream_freememontimestamp"

definition IOCTL_KGSL_DRAWCTXT_CREATE :: ioctl where
  "IOCTL_KGSL_DRAWCTXT_CREATE = IOWR ''IOCTL_KGSL_DRAWCTXT_CREATE'' 0x9 0x13 struct_kgsl_drawctxt_create"

definition IOCTL_KGSL_DRAWCTXT_DESTROY :: ioctl where
  "IOCTL_KGSL_DRAWCTXT_DESTROY = IOW ''IOCTL_KGSL_DRAWCTXT_DESTROY'' 0x9 0x14 struct_kgsl_drawctxt_destroy"

definition IOCTL_KGSL_MAP_USER_MEM :: ioctl where
  "IOCTL_KGSL_MAP_USER_MEM = IOWR ''IOCTL_KGSL_MAP_USER_MEM'' 0x9 0x15 struct_kgsl_map_user_mem"

definition IOCTL_KGSL_CMDSTREAM_READTIMESTAMP_CTXTID :: ioctl where
  "IOCTL_KGSL_CMDSTREAM_READTIMESTAMP_CTXTID = IOWR ''IOCTL_KGSL_CMDSTREAM_READTIMESTAMP_CTXTID'' 0x9 0x16 struct_kgsl_cmdstream_readtimestamp_ctxtid"

definition IOCTL_KGSL_CMDSTREAM_FREEMEMONTIMESTAMP_CTXTID :: ioctl where
  "IOCTL_KGSL_CMDSTREAM_FREEMEMONTIMESTAMP_CTXTID = IOW ''IOCTL_KGSL_CMDSTREAM_FREEMEMONTIMESTAMP_CTXTID'' 0x9 0x17 struct_kgsl_cmdstream_freememontimestamp_ctxtid"

definition IOCTL_KGSL_SHAREDMEM_FROM_PMEM :: ioctl where
  "IOCTL_KGSL_SHAREDMEM_FROM_PMEM = IOWR ''IOCTL_KGSL_SHAREDMEM_FROM_PMEM'' 0x9 0x20 struct_kgsl_sharedmem_from_pmem"

definition IOCTL_KGSL_SHAREDMEM_FREE :: ioctl where
  "IOCTL_KGSL_SHAREDMEM_FREE = IOW ''IOCTL_KGSL_SHAREDMEM_FREE'' 0x9 0x21 struct_kgsl_sharedmem_free"

definition IOCTL_KGSL_CFF_USER_EVENT :: ioctl where
  "IOCTL_KGSL_CFF_USER_EVENT = IOW ''IOCTL_KGSL_CFF_USER_EVENT'' 0x9 0x31 struct_kgsl_cff_user_event"

definition IOCTL_KGSL_DRAWCTXT_BIND_GMEM_SHADOW :: ioctl where
  "IOCTL_KGSL_DRAWCTXT_BIND_GMEM_SHADOW = IOW ''IOCTL_KGSL_DRAWCTXT_BIND_GMEM_SHADOW'' 0x9 0x22 struct_kgsl_bind_gmem_shadow"

definition IOCTL_KGSL_SHAREDMEM_FROM_VMALLOC :: ioctl where
  "IOCTL_KGSL_SHAREDMEM_FROM_VMALLOC = IOWR ''IOCTL_KGSL_SHAREDMEM_FROM_VMALLOC'' 0x9 0x23 struct_kgsl_sharedmem_from_vmalloc"

definition IOCTL_KGSL_SHAREDMEM_FLUSH_CACHE :: ioctl where
  "IOCTL_KGSL_SHAREDMEM_FLUSH_CACHE = IOW ''IOCTL_KGSL_SHAREDMEM_FLUSH_CACHE'' 0x9 0x24 struct_kgsl_sharedmem_free"

definition IOCTL_KGSL_DRAWCTXT_SET_BIN_BASE_OFFSET :: ioctl where
  "IOCTL_KGSL_DRAWCTXT_SET_BIN_BASE_OFFSET = IOW ''IOCTL_KGSL_DRAWCTXT_SET_BIN_BASE_OFFSET'' 0x9 0x25 struct_kgsl_drawctxt_set_bin_base_offset"

definition IOCTL_KGSL_CMDWINDOW_WRITE :: ioctl where
  "IOCTL_KGSL_CMDWINDOW_WRITE = IOW ''IOCTL_KGSL_CMDWINDOW_WRITE'' 0x9 0x2e struct_kgsl_cmdwindow_write"

definition IOCTL_KGSL_GPUMEM_ALLOC :: ioctl where
  "IOCTL_KGSL_GPUMEM_ALLOC = IOWR ''IOCTL_KGSL_GPUMEM_ALLOC'' 0x9 0x2f struct_kgsl_gpumem_alloc"

definition IOCTL_KGSL_CFF_SYNCMEM :: ioctl where
  "IOCTL_KGSL_CFF_SYNCMEM = IOW ''IOCTL_KGSL_CFF_SYNCMEM'' 0x9 0x30 struct_kgsl_cff_syncmem"

definition IOCTL_KGSL_TIMESTAMP_EVENT_OLD :: ioctl where
  "IOCTL_KGSL_TIMESTAMP_EVENT_OLD = IOW ''IOCTL_KGSL_TIMESTAMP_EVENT_OLD'' 0x9 0x31 struct_kgsl_timestamp_event"

definition IOCTL_KGSL_SETPROPERTY :: ioctl where
  "IOCTL_KGSL_SETPROPERTY = IOW ''IOCTL_KGSL_SETPROPERTY'' 0x9 0x32 struct_kgsl_device_getproperty"

definition IOCTL_KGSL_TIMESTAMP_EVENT :: ioctl where
  "IOCTL_KGSL_TIMESTAMP_EVENT = IOWR ''IOCTL_KGSL_TIMESTAMP_EVENT'' 0x9 0x33 struct_kgsl_timestamp_event"

definition IOCTL_KGSL_GPUMEM_ALLOC_ID :: ioctl where
  "IOCTL_KGSL_GPUMEM_ALLOC_ID = IOWR ''IOCTL_KGSL_GPUMEM_ALLOC_ID'' 0x9 0x34 struct_kgsl_gpumem_alloc_id"

definition IOCTL_KGSL_GPUMEM_FREE_ID :: ioctl where
  "IOCTL_KGSL_GPUMEM_FREE_ID = IOWR ''IOCTL_KGSL_GPUMEM_FREE_ID'' 0x9 0x35 struct_kgsl_gpumem_free_id"

definition IOCTL_KGSL_GPUMEM_GET_INFO :: ioctl where
  "IOCTL_KGSL_GPUMEM_GET_INFO = IOWR ''IOCTL_KGSL_GPUMEM_GET_INFO'' 0x9 0x36 struct_kgsl_gpumem_get_info"

definition IOCTL_KGSL_GPUMEM_SYNC_CACHE :: ioctl where
  "IOCTL_KGSL_GPUMEM_SYNC_CACHE = IOW ''IOCTL_KGSL_GPUMEM_SYNC_CACHE'' 0x9 0x37 struct_kgsl_gpumem_sync_cache"

definition IOCTL_KGSL_PERFCOUNTER_GET :: ioctl where
  "IOCTL_KGSL_PERFCOUNTER_GET = IOWR ''IOCTL_KGSL_PERFCOUNTER_GET'' 0x9 0x38 struct_kgsl_perfcounter_get"

definition IOCTL_KGSL_PERFCOUNTER_PUT :: ioctl where
  "IOCTL_KGSL_PERFCOUNTER_PUT = IOW ''IOCTL_KGSL_PERFCOUNTER_PUT'' 0x9 0x39 struct_kgsl_perfcounter_put"

definition IOCTL_KGSL_PERFCOUNTER_QUERY :: ioctl where
  "IOCTL_KGSL_PERFCOUNTER_QUERY = IOWR ''IOCTL_KGSL_PERFCOUNTER_QUERY'' 0x9 0x3a struct_kgsl_perfcounter_query"

definition IOCTL_KGSL_PERFCOUNTER_READ :: ioctl where
  "IOCTL_KGSL_PERFCOUNTER_READ = IOWR ''IOCTL_KGSL_PERFCOUNTER_READ'' 0x9 0x3b struct_kgsl_perfcounter_read"

definition IOCTL_KGSL_GPUMEM_SYNC_CACHE_BULK :: ioctl where
  "IOCTL_KGSL_GPUMEM_SYNC_CACHE_BULK = IOWR ''IOCTL_KGSL_GPUMEM_SYNC_CACHE_BULK'' 0x9 0x3c struct_kgsl_gpumem_sync_cache_bulk"

definition IOCTL_KGSL_SUBMIT_COMMANDS :: ioctl where
  "IOCTL_KGSL_SUBMIT_COMMANDS = IOWR ''IOCTL_KGSL_SUBMIT_COMMANDS'' 0x9 0x3d struct_kgsl_submit_commands"

definition IOCTL_KGSL_SYNCSOURCE_CREATE :: ioctl where
  "IOCTL_KGSL_SYNCSOURCE_CREATE = IOWR ''IOCTL_KGSL_SYNCSOURCE_CREATE'' 0x9 0x40 struct_kgsl_syncsource_create"

definition IOCTL_KGSL_SYNCSOURCE_DESTROY :: ioctl where
  "IOCTL_KGSL_SYNCSOURCE_DESTROY = IOWR ''IOCTL_KGSL_SYNCSOURCE_DESTROY'' 0x9 0x41 struct_kgsl_syncsource_destroy"

definition IOCTL_KGSL_SYNCSOURCE_CREATE_FENCE :: ioctl where
  "IOCTL_KGSL_SYNCSOURCE_CREATE_FENCE = IOWR ''IOCTL_KGSL_SYNCSOURCE_CREATE_FENCE'' 0x9 0x42 struct_kgsl_syncsource_create_fence"

definition IOCTL_KGSL_SYNCSOURCE_SIGNAL_FENCE :: ioctl where
  "IOCTL_KGSL_SYNCSOURCE_SIGNAL_FENCE = IOWR ''IOCTL_KGSL_SYNCSOURCE_SIGNAL_FENCE'' 0x9 0x43 struct_kgsl_syncsource_signal_fence"

definition IOCTL_KGSL_CFF_SYNC_GPUOBJ :: ioctl where
  "IOCTL_KGSL_CFF_SYNC_GPUOBJ = IOW ''IOCTL_KGSL_CFF_SYNC_GPUOBJ'' 0x9 0x44 struct_kgsl_cff_sync_gpuobj"

definition IOCTL_KGSL_GPUOBJ_ALLOC :: ioctl where
  "IOCTL_KGSL_GPUOBJ_ALLOC = IOWR ''IOCTL_KGSL_GPUOBJ_ALLOC'' 0x9 0x45 struct_kgsl_gpuobj_alloc"

definition IOCTL_KGSL_GPUOBJ_FREE :: ioctl where
  "IOCTL_KGSL_GPUOBJ_FREE = IOW ''IOCTL_KGSL_GPUOBJ_FREE'' 0x9 0x46 struct_kgsl_gpuobj_free"

definition IOCTL_KGSL_GPUOBJ_INFO :: ioctl where
  "IOCTL_KGSL_GPUOBJ_INFO = IOWR ''IOCTL_KGSL_GPUOBJ_INFO'' 0x9 0x47 struct_kgsl_gpuobj_info"

definition IOCTL_KGSL_GPUOBJ_IMPORT :: ioctl where
  "IOCTL_KGSL_GPUOBJ_IMPORT = IOWR ''IOCTL_KGSL_GPUOBJ_IMPORT'' 0x9 0x48 struct_kgsl_gpuobj_import"

definition IOCTL_KGSL_GPUOBJ_SYNC :: ioctl where
  "IOCTL_KGSL_GPUOBJ_SYNC = IOW ''IOCTL_KGSL_GPUOBJ_SYNC'' 0x9 0x49 struct_kgsl_gpuobj_sync"

definition IOCTL_KGSL_GPU_COMMAND :: ioctl where
  "IOCTL_KGSL_GPU_COMMAND = IOWR ''IOCTL_KGSL_GPU_COMMAND'' 0x9 0x4a struct_kgsl_gpu_command"

definition IOCTL_KGSL_PREEMPTIONCOUNTER_QUERY :: ioctl where
  "IOCTL_KGSL_PREEMPTIONCOUNTER_QUERY = IOWR ''IOCTL_KGSL_PREEMPTIONCOUNTER_QUERY'' 0x9 0x4b struct_kgsl_preemption_counters_query"

definition IOCTL_KGSL_GPUOBJ_SET_INFO :: ioctl where
  "IOCTL_KGSL_GPUOBJ_SET_INFO = IOW ''IOCTL_KGSL_GPUOBJ_SET_INFO'' 0x9 0x4c struct_kgsl_gpuobj_set_info"

definition IOCTL_KGSL_SPARSE_PHYS_ALLOC :: ioctl where
  "IOCTL_KGSL_SPARSE_PHYS_ALLOC = IOWR ''IOCTL_KGSL_SPARSE_PHYS_ALLOC'' 0x9 0x50 struct_kgsl_sparse_phys_alloc"

definition IOCTL_KGSL_SPARSE_PHYS_FREE :: ioctl where
  "IOCTL_KGSL_SPARSE_PHYS_FREE = IOW ''IOCTL_KGSL_SPARSE_PHYS_FREE'' 0x9 0x51 struct_kgsl_sparse_phys_free"

definition IOCTL_KGSL_SPARSE_VIRT_ALLOC :: ioctl where
  "IOCTL_KGSL_SPARSE_VIRT_ALLOC = IOWR ''IOCTL_KGSL_SPARSE_VIRT_ALLOC'' 0x9 0x52 struct_kgsl_sparse_virt_alloc"

definition IOCTL_KGSL_SPARSE_VIRT_FREE :: ioctl where
  "IOCTL_KGSL_SPARSE_VIRT_FREE = IOW ''IOCTL_KGSL_SPARSE_VIRT_FREE'' 0x9 0x53 struct_kgsl_sparse_virt_free"

definition IOCTL_KGSL_SPARSE_BIND :: ioctl where
  "IOCTL_KGSL_SPARSE_BIND = IOW ''IOCTL_KGSL_SPARSE_BIND'' 0x9 0x54 struct_kgsl_sparse_bind"

definition IOCTL_KGSL_GPU_SPARSE_COMMAND :: ioctl where
  "IOCTL_KGSL_GPU_SPARSE_COMMAND = IOWR ''IOCTL_KGSL_GPU_SPARSE_COMMAND'' 0x9 0x55 struct_kgsl_gpu_sparse_command"

definition IOCTL_KGSL_GPUMEM_BIND_RANGES :: ioctl where
  "IOCTL_KGSL_GPUMEM_BIND_RANGES = IOWR ''IOCTL_KGSL_GPUMEM_BIND_RANGES'' 0x9 0x56 struct_kgsl_gpumem_bind_ranges"

definition IOCTL_KGSL_GPU_AUX_COMMAND :: ioctl where
  "IOCTL_KGSL_GPU_AUX_COMMAND = IOWR ''IOCTL_KGSL_GPU_AUX_COMMAND'' 0x9 0x57 struct_kgsl_gpu_aux_command"

definition IOCTL_KGSL_TIMELINE_CREATE :: ioctl where
  "IOCTL_KGSL_TIMELINE_CREATE = IOWR ''IOCTL_KGSL_TIMELINE_CREATE'' 0x9 0x58 struct_kgsl_timeline_create"

definition IOCTL_KGSL_TIMELINE_WAIT :: ioctl where
  "IOCTL_KGSL_TIMELINE_WAIT = IOW ''IOCTL_KGSL_TIMELINE_WAIT'' 0x9 0x59 struct_kgsl_timeline_wait"

definition IOCTL_KGSL_TIMELINE_QUERY :: ioctl where
  "IOCTL_KGSL_TIMELINE_QUERY = IOWR ''IOCTL_KGSL_TIMELINE_QUERY'' 0x9 0x5a struct_kgsl_timeline_val"

definition IOCTL_KGSL_TIMELINE_SIGNAL :: ioctl where
  "IOCTL_KGSL_TIMELINE_SIGNAL = IOW ''IOCTL_KGSL_TIMELINE_SIGNAL'' 0x9 0x5b struct_kgsl_timeline_signal"

definition IOCTL_KGSL_TIMELINE_FENCE_GET :: ioctl where
  "IOCTL_KGSL_TIMELINE_FENCE_GET = IOWR ''IOCTL_KGSL_TIMELINE_FENCE_GET'' 0x9 0x5c struct_kgsl_timeline_fence_get"

definition IOCTL_KGSL_TIMELINE_DESTROY :: ioctl where
  "IOCTL_KGSL_TIMELINE_DESTROY = IOW ''IOCTL_KGSL_TIMELINE_DESTROY'' 0x9 0x5d (Scalar C_u32)"

definition IOCTL_KGSL_GET_FAULT_REPORT :: ioctl where
  "IOCTL_KGSL_GET_FAULT_REPORT = IOWR ''IOCTL_KGSL_GET_FAULT_REPORT'' 0x9 0x5e struct_kgsl_fault_report"

definition IOCTL_KGSL_RECURRING_COMMAND :: ioctl where
  "IOCTL_KGSL_RECURRING_COMMAND = IOWR ''IOCTL_KGSL_RECURRING_COMMAND'' 0x9 0x5f struct_kgsl_recurring_command"

definition kgsl_ioctls :: "ioctl list" where
  "kgsl_ioctls =
    [IOCTL_KGSL_DEVICE_GETPROPERTY, IOCTL_KGSL_DEVICE_WAITTIMESTAMP,
    IOCTL_KGSL_DEVICE_WAITTIMESTAMP_CTXTID, IOCTL_KGSL_RINGBUFFER_ISSUEIBCMDS,
    IOCTL_KGSL_CMDSTREAM_READTIMESTAMP_OLD, IOCTL_KGSL_CMDSTREAM_READTIMESTAMP,
    IOCTL_KGSL_CMDSTREAM_FREEMEMONTIMESTAMP, IOCTL_KGSL_CMDSTREAM_FREEMEMONTIMESTAMP_OLD,
    IOCTL_KGSL_DRAWCTXT_CREATE, IOCTL_KGSL_DRAWCTXT_DESTROY, IOCTL_KGSL_MAP_USER_MEM,
    IOCTL_KGSL_CMDSTREAM_READTIMESTAMP_CTXTID, IOCTL_KGSL_CMDSTREAM_FREEMEMONTIMESTAMP_CTXTID,
    IOCTL_KGSL_SHAREDMEM_FROM_PMEM, IOCTL_KGSL_SHAREDMEM_FREE, IOCTL_KGSL_CFF_USER_EVENT,
    IOCTL_KGSL_DRAWCTXT_BIND_GMEM_SHADOW, IOCTL_KGSL_SHAREDMEM_FROM_VMALLOC,
    IOCTL_KGSL_SHAREDMEM_FLUSH_CACHE, IOCTL_KGSL_DRAWCTXT_SET_BIN_BASE_OFFSET,
    IOCTL_KGSL_CMDWINDOW_WRITE, IOCTL_KGSL_GPUMEM_ALLOC, IOCTL_KGSL_CFF_SYNCMEM,
    IOCTL_KGSL_TIMESTAMP_EVENT_OLD, IOCTL_KGSL_SETPROPERTY, IOCTL_KGSL_TIMESTAMP_EVENT,
    IOCTL_KGSL_GPUMEM_ALLOC_ID, IOCTL_KGSL_GPUMEM_FREE_ID, IOCTL_KGSL_GPUMEM_GET_INFO,
    IOCTL_KGSL_GPUMEM_SYNC_CACHE, IOCTL_KGSL_PERFCOUNTER_GET, IOCTL_KGSL_PERFCOUNTER_PUT,
    IOCTL_KGSL_PERFCOUNTER_QUERY, IOCTL_KGSL_PERFCOUNTER_READ, IOCTL_KGSL_GPUMEM_SYNC_CACHE_BULK,
    IOCTL_KGSL_SUBMIT_COMMANDS, IOCTL_KGSL_SYNCSOURCE_CREATE, IOCTL_KGSL_SYNCSOURCE_DESTROY,
    IOCTL_KGSL_SYNCSOURCE_CREATE_FENCE, IOCTL_KGSL_SYNCSOURCE_SIGNAL_FENCE,
    IOCTL_KGSL_CFF_SYNC_GPUOBJ, IOCTL_KGSL_GPUOBJ_ALLOC, IOCTL_KGSL_GPUOBJ_FREE,
    IOCTL_KGSL_GPUOBJ_INFO, IOCTL_KGSL_GPUOBJ_IMPORT, IOCTL_KGSL_GPUOBJ_SYNC,
    IOCTL_KGSL_GPU_COMMAND, IOCTL_KGSL_PREEMPTIONCOUNTER_QUERY, IOCTL_KGSL_GPUOBJ_SET_INFO,
    IOCTL_KGSL_SPARSE_PHYS_ALLOC, IOCTL_KGSL_SPARSE_PHYS_FREE, IOCTL_KGSL_SPARSE_VIRT_ALLOC,
    IOCTL_KGSL_SPARSE_VIRT_FREE, IOCTL_KGSL_SPARSE_BIND, IOCTL_KGSL_GPU_SPARSE_COMMAND,
    IOCTL_KGSL_GPUMEM_BIND_RANGES, IOCTL_KGSL_GPU_AUX_COMMAND, IOCTL_KGSL_TIMELINE_CREATE,
    IOCTL_KGSL_TIMELINE_WAIT, IOCTL_KGSL_TIMELINE_QUERY, IOCTL_KGSL_TIMELINE_SIGNAL,
    IOCTL_KGSL_TIMELINE_FENCE_GET, IOCTL_KGSL_TIMELINE_DESTROY, IOCTL_KGSL_GET_FAULT_REPORT,
    IOCTL_KGSL_RECURRING_COMMAND]"

text \<open>The requests whose argument has another size in a 32-bit process.\<close>

definition kgsl_width_dependent :: "ioctl list" where
  "kgsl_width_dependent =
    [IOCTL_KGSL_DEVICE_GETPROPERTY, IOCTL_KGSL_RINGBUFFER_ISSUEIBCMDS,
    IOCTL_KGSL_CMDSTREAM_FREEMEMONTIMESTAMP, IOCTL_KGSL_CMDSTREAM_FREEMEMONTIMESTAMP_OLD,
    IOCTL_KGSL_MAP_USER_MEM, IOCTL_KGSL_CMDSTREAM_FREEMEMONTIMESTAMP_CTXTID,
    IOCTL_KGSL_SHAREDMEM_FROM_PMEM, IOCTL_KGSL_SHAREDMEM_FREE, IOCTL_KGSL_DRAWCTXT_BIND_GMEM_SHADOW,
    IOCTL_KGSL_SHAREDMEM_FROM_VMALLOC, IOCTL_KGSL_SHAREDMEM_FLUSH_CACHE, IOCTL_KGSL_GPUMEM_ALLOC,
    IOCTL_KGSL_CFF_SYNCMEM, IOCTL_KGSL_TIMESTAMP_EVENT_OLD, IOCTL_KGSL_SETPROPERTY,
    IOCTL_KGSL_TIMESTAMP_EVENT, IOCTL_KGSL_GPUMEM_ALLOC_ID, IOCTL_KGSL_GPUMEM_GET_INFO,
    IOCTL_KGSL_GPUMEM_SYNC_CACHE, IOCTL_KGSL_PERFCOUNTER_QUERY, IOCTL_KGSL_PERFCOUNTER_READ,
    IOCTL_KGSL_GPUMEM_SYNC_CACHE_BULK, IOCTL_KGSL_SUBMIT_COMMANDS]"

section \<open>Lemmas\<close>

lemma word_below_7: "x \<in> {0, 1, 2, 3, 4, 5, 6}" if "unat x < 7" for x :: u32
proof -
  define k where "k = unat x"
  have x: "x = of_nat k" by (simp add: k_def)
  have "k = 0 \<or> k = 1 \<or> k = 2 \<or> k = 3 \<or> k = 4 \<or> k = 5 \<or> k = 6"
    using that by (auto simp: k_def)
  then show ?thesis by (auto simp: x)
qed

lemmas context_defs =
  context_fields_def KGSL_CONTEXT_SAVE_GMEM_def KGSL_CONTEXT_NO_GMEM_ALLOC_def
  KGSL_CONTEXT_SUBMIT_IB_LIST_def KGSL_CONTEXT_CTX_SWITCH_def KGSL_CONTEXT_PREAMBLE_def
  KGSL_CONTEXT_TRASH_STATE_def KGSL_CONTEXT_PER_CONTEXT_TS_def KGSL_CONTEXT_USER_GENERATED_TS_def
  KGSL_CONTEXT_END_OF_FRAME_def KGSL_CONTEXT_NO_FAULT_TOLERANCE_def KGSL_CONTEXT_SYNC_def
  KGSL_CONTEXT_PWR_CONSTRAINT_def KGSL_CONTEXT_PRIORITY_MASK_def KGSL_CONTEXT_PRIORITY_SHIFT_def
  KGSL_CONTEXT_PRIORITY_UNDEF_def KGSL_CONTEXT_IFH_NOP_def KGSL_CONTEXT_SECURE_def
  KGSL_CONTEXT_NO_SNAPSHOT_def KGSL_CONTEXT_SPARSE_def KGSL_CONTEXT_PREEMPT_STYLE_MASK_def
  KGSL_CONTEXT_PREEMPT_STYLE_SHIFT_def KGSL_CONTEXT_PREEMPT_STYLE_DEFAULT_def
  KGSL_CONTEXT_PREEMPT_STYLE_RINGBUFFER_def KGSL_CONTEXT_PREEMPT_STYLE_FINEGRAIN_def
  KGSL_CONTEXT_TYPE_MASK_def KGSL_CONTEXT_TYPE_SHIFT_def KGSL_CONTEXT_TYPE_ANY_def
  KGSL_CONTEXT_TYPE_GL_def KGSL_CONTEXT_TYPE_CL_def KGSL_CONTEXT_TYPE_C2D_def
  KGSL_CONTEXT_TYPE_RS_def KGSL_CONTEXT_TYPE_VK_def KGSL_CONTEXT_TYPE_UNKNOWN_def
  KGSL_CONTEXT_INVALIDATE_ON_FAULT_def KGSL_CONTEXT_LPAC_def KGSL_CONTEXT_FAULT_INFO_def
  KGSL_CONTEXT_INVALID_def

lemmas command_defs = command_fields_def command_fields_table_def            

lemmas memory_defs =
  memory_fields_def KGSL_MEMFLAGS_SECURE_def KGSL_MEMFLAGS_GPUREADONLY_def
  KGSL_MEMFLAGS_GPUWRITEONLY_def KGSL_MEMFLAGS_FORCE_32BIT_def KGSL_CACHEMODE_MASK_def
  KGSL_CACHEMODE_SHIFT_def KGSL_CACHEMODE_WRITECOMBINE_def KGSL_CACHEMODE_UNCACHED_def
  KGSL_CACHEMODE_WRITETHROUGH_def KGSL_CACHEMODE_WRITEBACK_def KGSL_MEMFLAGS_USE_CPU_MAP_def
  KGSL_MEMFLAGS_SPARSE_PHYS_def KGSL_MEMFLAGS_SPARSE_VIRT_def KGSL_MEMFLAGS_IOCOHERENT_def
  KGSL_MEMFLAGS_GUARD_PAGE_def KGSL_MEMFLAGS_VBO_def KGSL_MEMTYPE_MASK_def KGSL_MEMTYPE_SHIFT_def
  KGSL_MEMTYPE_OBJECTANY_def KGSL_MEMTYPE_FRAMEBUFFER_def KGSL_MEMTYPE_RENDERBUFFER_def
  KGSL_MEMTYPE_ARRAYBUFFER_def KGSL_MEMTYPE_ELEMENTARRAYBUFFER_def
  KGSL_MEMTYPE_VERTEXARRAYBUFFER_def KGSL_MEMTYPE_TEXTURE_def KGSL_MEMTYPE_SURFACE_def
  KGSL_MEMTYPE_EGL_SURFACE_def KGSL_MEMTYPE_GL_def KGSL_MEMTYPE_CL_def
  KGSL_MEMTYPE_CL_BUFFER_MAP_def KGSL_MEMTYPE_CL_BUFFER_NOMAP_def KGSL_MEMTYPE_CL_IMAGE_MAP_def
  KGSL_MEMTYPE_CL_IMAGE_NOMAP_def KGSL_MEMTYPE_CL_KERNEL_STACK_def KGSL_MEMTYPE_COMMAND_def
  KGSL_MEMTYPE_2D_def KGSL_MEMTYPE_EGL_IMAGE_def KGSL_MEMTYPE_EGL_SHADOW_def
  KGSL_MEMTYPE_MULTISAMPLE_def KGSL_MEMTYPE_KERNEL_def KGSL_MEMALIGN_MASK_def
  KGSL_MEMALIGN_SHIFT_def KGSL_MEMFLAGS_USERMEM_MASK_def KGSL_MEMFLAGS_USERMEM_SHIFT_def

lemma context_fields_disjoint: "disjoint_masks context_fields"
  by (simp add: context_defs)

lemma memory_fields_disjoint: "disjoint_masks memory_fields"
  by (simp add: memory_defs)

lemma command_fields_disjoint: "disjoint_masks command_fields"
  by (simp add: command_defs)

lemma memstore_size: "csize dm struct_kgsl_devmemstore = 40"
  by (cases dm; code_simp)

lemma memstore_layout:
  "field_offsets dm struct_kgsl_devmemstore =
    [(''soptimestamp'', 0), (''sbz'', 4), (''eoptimestamp'', 8), (''sbz2'', 12), (''preempted'', 16),
     (''sbz3'', 20), (''ref_wait_ts'', 24), (''sbz4'', 28), (''current_context'', 32), (''sbz5'', 36)]"
  by (cases dm; code_simp)

lemma memstore_field:
  assumes "coffset dm struct_kgsl_devmemstore fld = Some ofs"
  shows "4 dvd ofs" and "ofs < 40"
proof -
  have "(fld, ofs) \<in> set (field_offsets dm struct_kgsl_devmemstore)"
    using assms by (auto simp: coffset_def dest: map_of_SomeD)
  then show "4 dvd ofs" and "ofs < 40" by (auto simp: memstore_layout)
qed

text \<open>Two fields at one offset are one field.\<close>

lemma memstore_names:
  assumes "coffset dm struct_kgsl_devmemstore f = Some ofs"
    and "coffset dm struct_kgsl_devmemstore g = Some ofs"
  shows "f = g"
proof -
  have "distinct (map snd (field_offsets dm struct_kgsl_devmemstore))" by (simp add: memstore_layout)
  moreover have "(f, ofs) \<in> set (field_offsets dm struct_kgsl_devmemstore)"
    and "(g, ofs) \<in> set (field_offsets dm struct_kgsl_devmemstore)"
    using assms by (auto simp: coffset_def dest: map_of_SomeD)
  ultimately show ?thesis by (force simp: distinct_map inj_on_def)
qed

lemma kgsl_requests_ok: "requests_ok kgsl_ioctls"
  by code_simp

lemma kgsl_ilp32_distinct: "distinct (map (request ILP32) kgsl_ioctls)"
  by code_simp

lemma kgsl_lp64_distinct:
  "distinct (map (request LP64) (filter (\<lambda>i. ioc_name i \<noteq> ''IOCTL_KGSL_TIMESTAMP_EVENT_OLD'') kgsl_ioctls))"
  by code_simp

lemma kgsl_old_event: "request LP64 IOCTL_KGSL_TIMESTAMP_EVENT_OLD = request LP64 IOCTL_KGSL_CFF_USER_EVENT"
  by code_simp

lemma kgsl_ilp32_inj:
  "i \<in> set kgsl_ioctls \<Longrightarrow> j \<in> set kgsl_ioctls \<Longrightarrow> request ILP32 i = request ILP32 j \<Longrightarrow> i = j"
  using kgsl_ilp32_distinct by (auto simp: distinct_map dest: inj_onD)

lemma kgsl_members:
  "IOCTL_KGSL_TIMESTAMP_EVENT_OLD \<in> set kgsl_ioctls" "IOCTL_KGSL_CFF_USER_EVENT \<in> set kgsl_ioctls"
  "set kgsl_width_dependent \<subseteq> set kgsl_ioctls"
  by (simp_all add: kgsl_ioctls_def kgsl_width_dependent_def)

lemma kgsl_old_name:
  assumes "i \<in> set kgsl_ioctls" and "ioc_name i = ''IOCTL_KGSL_TIMESTAMP_EVENT_OLD''"
  shows "i = IOCTL_KGSL_TIMESTAMP_EVENT_OLD"
proof -
  have "list_all (\<lambda>i. ioc_name i = ''IOCTL_KGSL_TIMESTAMP_EVENT_OLD'' \<longrightarrow>
      request ILP32 i = request ILP32 IOCTL_KGSL_TIMESTAMP_EVENT_OLD) kgsl_ioctls"
    by code_simp
  then show ?thesis
    using assms kgsl_ilp32_inj [OF assms(1) kgsl_members(1)] by (simp add: list_all_iff)
qed

text \<open>
  On a 64-bit kernel the requests differ when the old timestamp request is replaced by the one whose
  number it shares.
\<close>

definition canonical_request :: "ioctl \<Rightarrow> ioctl" where
  "canonical_request i =
    (if i = IOCTL_KGSL_TIMESTAMP_EVENT_OLD then IOCTL_KGSL_CFF_USER_EVENT else i)"

lemma kgsl_lp64_requests:
  assumes "i \<in> set kgsl_ioctls" and "j \<in> set kgsl_ioctls"
  shows "request LP64 i = request LP64 j \<longleftrightarrow> canonical_request i = canonical_request j"
proof -
  have canon: "request LP64 (canonical_request i) = request LP64 i" for i
    by (simp add: canonical_request_def kgsl_old_event)
  have name: "ioc_name IOCTL_KGSL_CFF_USER_EVENT \<noteq> ''IOCTL_KGSL_TIMESTAMP_EVENT_OLD''" by code_simp
  have mem: "canonical_request i \<in>
      set (filter (\<lambda>i. ioc_name i \<noteq> ''IOCTL_KGSL_TIMESTAMP_EVENT_OLD'') kgsl_ioctls)"
    if "i \<in> set kgsl_ioctls" for i
    using that name kgsl_members(2) kgsl_old_name [OF that] by (auto simp: canonical_request_def)
  have "inj_on (request LP64)
      (set (filter (\<lambda>i. ioc_name i \<noteq> ''IOCTL_KGSL_TIMESTAMP_EVENT_OLD'') kgsl_ioctls))"
    using kgsl_lp64_distinct unfolding distinct_map by blast
  then have "request LP64 (canonical_request i) = request LP64 (canonical_request j) \<longleftrightarrow>
      canonical_request i = canonical_request j"
    using mem [OF assms(1)] mem [OF assms(2)] by (rule inj_on_eq_iff)
  then show ?thesis by (simp only: canon)
qed

text \<open>Addresses of two slots of forty bytes, without overlap.\<close>

lemma slot_disjoint:
  fixes c d a b :: nat
  assumes "4 dvd a" and "a < 40" and "4 dvd b" and "b < 40" and "c \<noteq> d \<or> a \<noteq> b"
  shows "c * 40 + a + 4 \<le> d * 40 + b \<or> d * 40 + b + 4 \<le> c * 40 + a"
proof -
  obtain k l where kl: "a = 4 * k" "b = 4 * l" using assms(1,3) by (auto elim!: dvdE)
  then have "10 * c + k \<noteq> 10 * d + l" using assms by presburger
  then have "10 * c + k + 1 \<le> 10 * d + l \<or> 10 * d + l + 1 \<le> 10 * c + k" by linarith
  then show ?thesis using kl by linarith
qed

section \<open>Properties\<close>

text \<open>
  C19. The words that \<open>KGSL_MEMSTORE_OFFSET\<close> addresses for different contexts or different fields
  never overlap, each is aligned to four bytes, and a 32-bit and a 64-bit process compute the same
  offset, as long as the slot of the context lies below the limit of 32-bit addresses.
\<close>

theorem memstore_words_disjoint:
  assumes "KGSL_MEMSTORE_OFFSET dm c f = Some a" and "KGSL_MEMSTORE_OFFSET dm d g = Some b"
    and "40 * (c + 1) \<le> 2 ^ 32" and "40 * (d + 1) \<le> 2 ^ 32" and "(c, f) \<noteq> (d, g)"
  shows "(a + 4 \<le> b \<or> b + 4 \<le> a) \<and> 4 dvd a \<and> a < 40 * (c + 1) \<and>
    KGSL_MEMSTORE_OFFSET dm' c f = Some a"
proof -
  have low: "n mod 2 ^ (8 * word_bytes dm) = n" if "n < 2 ^ 32" for n :: nat and dm
    using that by (cases dm) simp_all
  have val: "\<exists>o1. coffset dm struct_kgsl_devmemstore f = Some o1 \<and> a = c * 40 + o1"
    if "KGSL_MEMSTORE_OFFSET dm c f = Some a" and "40 * (c + 1) \<le> 2 ^ 32" for dm c f a
    using that memstore_field(2) [of dm f] low
    by (fastforce simp: KGSL_MEMSTORE_OFFSET_def memstore_size split: option.splits)
  obtain o1 where o1: "coffset dm struct_kgsl_devmemstore f = Some o1" "a = c * 40 + o1"
    using val [OF assms(1,3)] by blast
  obtain o2 where o2: "coffset dm struct_kgsl_devmemstore g = Some o2" "b = d * 40 + o2"
    using val [OF assms(2,4)] by blast
  have "c \<noteq> d \<or> o1 \<noteq> o2" using assms(5) o1(1) o2(1) memstore_names by blast
  then have "a + 4 \<le> b \<or> b + 4 \<le> a"
    using slot_disjoint [of o1 o2 c d] memstore_field [OF o1(1)] memstore_field [OF o2(1)] o1(2) o2(2)
    by blast
  moreover have "coffset dm' struct_kgsl_devmemstore f = Some o1"
    using o1(1) by (simp add: coffset_def memstore_layout)
  then have "KGSL_MEMSTORE_OFFSET dm' c f = Some a"
    using low [of a dm'] memstore_field [OF o1(1)] assms(3) o1(2)
    by (simp add: KGSL_MEMSTORE_OFFSET_def memstore_size)
  ultimately show ?thesis
    using memstore_field [OF o1(1)] o1(2) by auto
qed

theorem memstore_words_disjoint_witness:
  "KGSL_MEMSTORE_OFFSET ILP32 3 ''eoptimestamp'' = Some 128"
proof -
  have "KGSL_MEMSTORE_OFFSET LP64 3 ''eoptimestamp'' = Some 128"
    and "KGSL_MEMSTORE_OFFSET LP64 3 ''soptimestamp'' = Some 120"
    by code_simp+
  then show ?thesis
    using memstore_words_disjoint [of LP64 3 "''eoptimestamp''" 128 3 "''soptimestamp''" 120 ILP32] by simp
qed

text \<open>
  C9. Under any injective encoding of requests as numbers, the 65 requests of the driver have
  different numbers in a 32-bit process.  In a 64-bit process exactly one pair collides:
  \<^verbatim>\<open>IOCTL_KGSL_TIMESTAMP_EVENT_OLD\<close> and \<^verbatim>\<open>IOCTL_KGSL_CFF_USER_EVENT\<close>, whose arguments have the same
  size there.
\<close>

theorem kgsl_collision:
  assumes "ioc_encoding enc" and "i \<in> set kgsl_ioctls" and "j \<in> set kgsl_ioctls"
  shows "(enc (request ILP32 i) = enc (request ILP32 j) \<longleftrightarrow> i = j) \<and>
    (enc (request LP64 i) = enc (request LP64 j) \<longleftrightarrow>
       i = j \<or> {i, j} = {IOCTL_KGSL_TIMESTAMP_EVENT_OLD, IOCTL_KGSL_CFF_USER_EVENT})"
  using request_inj [OF assms(1) requests_okD [OF kgsl_requests_ok assms(2)]
      requests_okD [OF kgsl_requests_ok assms(3)]]
    kgsl_ilp32_inj [OF assms(2,3)] kgsl_lp64_requests [OF assms(2,3)]
  by (auto simp: canonical_request_def doubleton_eq_iff)

theorem kgsl_collision_witness:
  "sample_encoding (request LP64 IOCTL_KGSL_TIMESTAMP_EVENT_OLD) =
     sample_encoding (request LP64 IOCTL_KGSL_CFF_USER_EVENT) \<and>
   (sample_encoding (request ILP32 IOCTL_KGSL_TIMESTAMP_EVENT_OLD) =
      sample_encoding (request ILP32 IOCTL_KGSL_CFF_USER_EVENT) \<longleftrightarrow>
    IOCTL_KGSL_TIMESTAMP_EVENT_OLD = IOCTL_KGSL_CFF_USER_EVENT)"
  using kgsl_collision [OF sample_encoding_ok kgsl_members(1,2)] by blast

text \<open>
  C30. The argument of a request has another size in a 32-bit process exactly for the 23 listed
  requests; the argument of every other request has the same memory image in both kinds of process,
  for every value.
\<close>

theorem kgsl_compat:
  assumes "i \<in> set kgsl_ioctls"
  shows "(arg_size ILP32 i \<noteq> arg_size LP64 i \<longleftrightarrow> i \<in> set kgsl_width_dependent) \<and>
    (i \<notin> set kgsl_width_dependent \<longrightarrow>
      (\<forall>t v. ioc_arg i = Some t \<longrightarrow> encode ILP32 t v = encode LP64 t v))"
proof -
  have "list_all (\<lambda>i. (arg_size ILP32 i \<noteq> arg_size LP64 i \<longleftrightarrow>
        request ILP32 i \<in> set (map (request ILP32) kgsl_width_dependent)) \<and>
      (argument_compatible i \<longleftrightarrow> arg_size ILP32 i = arg_size LP64 i)) kgsl_ioctls"
    by code_simp
  then have "(arg_size ILP32 i \<noteq> arg_size LP64 i \<longleftrightarrow>
      request ILP32 i \<in> request ILP32 ` set kgsl_width_dependent)"
    and comp: "argument_compatible i \<longleftrightarrow> arg_size ILP32 i = arg_size LP64 i"
    using assms by (simp_all add: list_all_iff)
  then have iff: "arg_size ILP32 i \<noteq> arg_size LP64 i \<longleftrightarrow> i \<in> set kgsl_width_dependent"
    using kgsl_members(3) kgsl_ilp32_inj [OF assms] by auto
  then show ?thesis
    using comp fixed_width_encode by (auto simp: argument_compatible_def)
qed

theorem kgsl_compat_witness:
  "\<forall>v. encode ILP32 struct_kgsl_gpuobj_free v = encode LP64 struct_kgsl_gpuobj_free v"
proof -
  have "request ILP32 IOCTL_KGSL_GPUOBJ_FREE \<notin> set (map (request ILP32) kgsl_width_dependent)"
    by code_simp
  then have "IOCTL_KGSL_GPUOBJ_FREE \<notin> set kgsl_width_dependent" by auto
  moreover have "IOCTL_KGSL_GPUOBJ_FREE \<in> set kgsl_ioctls" by (simp add: kgsl_ioctls_def)
  ultimately show ?thesis
    using kgsl_compat [of IOCTL_KGSL_GPUOBJ_FREE] by (simp add: IOCTL_KGSL_GPUOBJ_FREE_def IOW_def)
qed

text \<open>
  The flags and fields that share the flag word of a context, of a command batch or of a memory
  object do not overlap.  The user-memory field of the memory flags holds \<open>KGSL_USERMEM_FLAG\<close> of
  every memory type below \<^verbatim>\<open>KGSL_USER_MEM_TYPE_MAX\<close>: the flag is not zero, stays in the field and
  gives the type back; the flag of \<^verbatim>\<open>KGSL_USER_MEM_TYPE_MAX\<close> itself falls out of the field, into the
  memory type.
\<close>

lemma kgsl_flag_words:
  "(i < length context_fields \<and> j < length context_fields \<and> i \<noteq> j \<longrightarrow>
      and (context_fields ! i) (context_fields ! j) = 0) \<and>
   (i < length command_fields \<and> j < length command_fields \<and> i \<noteq> j \<longrightarrow>
      and (command_fields ! i) (command_fields ! j) = 0) \<and>
   (i < length memory_fields \<and> j < length memory_fields \<and> i \<noteq> j \<longrightarrow>
      and (memory_fields ! i) (memory_fields ! j) = 0) \<and>
   (x < kgsl_user_mem_type_code KGSL_USER_MEM_TYPE_MAX \<longrightarrow>
      KGSL_USERMEM_FLAG x \<noteq> 0 \<and>
      and (ucast (KGSL_USERMEM_FLAG x)) KGSL_MEMFLAGS_USERMEM_MASK = (ucast (KGSL_USERMEM_FLAG x) :: u64) \<and>
      drop_bit KGSL_MEMFLAGS_USERMEM_SHIFT (KGSL_USERMEM_FLAG x) - 1 = x) \<and>
   and (ucast (KGSL_USERMEM_FLAG (kgsl_user_mem_type_code KGSL_USER_MEM_TYPE_MAX)))
     KGSL_MEMTYPE_MASK \<noteq> (0 :: u64)"
proof (intro conjI)
  show "x < kgsl_user_mem_type_code KGSL_USER_MEM_TYPE_MAX \<longrightarrow>
      KGSL_USERMEM_FLAG x \<noteq> 0 \<and>
      and (ucast (KGSL_USERMEM_FLAG x)) KGSL_MEMFLAGS_USERMEM_MASK = (ucast (KGSL_USERMEM_FLAG x) :: u64) \<and>
      drop_bit KGSL_MEMFLAGS_USERMEM_SHIFT (KGSL_USERMEM_FLAG x) - 1 = x"
  proof
    assume "x < kgsl_user_mem_type_code KGSL_USER_MEM_TYPE_MAX"
    then have "unat x < 7" by (simp add: word_less_nat_alt)
    then have "x \<in> {0, 1, 2, 3, 4, 5, 6}" by (rule word_below_7)
    then show "KGSL_USERMEM_FLAG x \<noteq> 0 \<and>
      and (ucast (KGSL_USERMEM_FLAG x)) KGSL_MEMFLAGS_USERMEM_MASK = (ucast (KGSL_USERMEM_FLAG x) :: u64) \<and>
      drop_bit KGSL_MEMFLAGS_USERMEM_SHIFT (KGSL_USERMEM_FLAG x) - 1 = x"
      by (auto simp: KGSL_USERMEM_FLAG_def memory_defs)
  qed
qed (use disjoint_masks_apart [OF context_fields_disjoint] disjoint_masks_apart [OF command_fields_disjoint]
      disjoint_masks_apart [OF memory_fields_disjoint] in \<open>auto simp: KGSL_USERMEM_FLAG_def memory_defs\<close>)

lemma kgsl_flag_words_witness:
  "drop_bit KGSL_MEMFLAGS_USERMEM_SHIFT (KGSL_USERMEM_FLAG 3) - 1 = 3"
  using kgsl_flag_words [of 0 0 3] by (simp add: word_less_nat_alt)

end
