(* ===== verification/Ipa_Clients.thy ===== *)
theory Ipa_Clients
  imports Prelude "HOL-Library.Code_Target_Nat"
begin

text \<open>
  The clients, events and resources of the IPA packet accelerator, from
  \<^verbatim>\<open>src/include/linux/msm_ipa.h\<close>: the numbering of the client pipes and the macros that classify
  them, the events that the driver's modules number one after the other, the attributes of a filter
  rule, the resources of the resource manager.
\<close>

section \<open>Clients\<close>

definition IPA_CLIENT_HSIC1_PROD :: nat where
  "IPA_CLIENT_HSIC1_PROD = 0"

definition IPA_CLIENT_HSIC1_CONS :: nat where
  "IPA_CLIENT_HSIC1_CONS = 1"

definition IPA_CLIENT_HSIC2_PROD :: nat where
  "IPA_CLIENT_HSIC2_PROD = 2"

definition IPA_CLIENT_HSIC2_CONS :: nat where
  "IPA_CLIENT_HSIC2_CONS = 3"

definition IPA_CLIENT_HSIC3_PROD :: nat where
  "IPA_CLIENT_HSIC3_PROD = 4"

definition IPA_CLIENT_HSIC3_CONS :: nat where
  "IPA_CLIENT_HSIC3_CONS = 5"

definition IPA_CLIENT_HSIC4_PROD :: nat where
  "IPA_CLIENT_HSIC4_PROD = 6"

definition IPA_CLIENT_HSIC4_CONS :: nat where
  "IPA_CLIENT_HSIC4_CONS = 7"

definition IPA_CLIENT_HSIC5_PROD :: nat where
  "IPA_CLIENT_HSIC5_PROD = 8"

definition IPA_CLIENT_HSIC5_CONS :: nat where
  "IPA_CLIENT_HSIC5_CONS = 9"

definition IPA_CLIENT_WLAN1_PROD :: nat where
  "IPA_CLIENT_WLAN1_PROD = 10"

definition IPA_CLIENT_WLAN1_CONS :: nat where
  "IPA_CLIENT_WLAN1_CONS = 11"

definition IPA_CLIENT_A5_WLAN_AMPDU_PROD :: nat where
  "IPA_CLIENT_A5_WLAN_AMPDU_PROD = 12"

definition IPA_CLIENT_WLAN2_CONS :: nat where
  "IPA_CLIENT_WLAN2_CONS = 13"

definition IPA_CLIENT_WLAN3_PROD :: nat where
  "IPA_CLIENT_WLAN3_PROD = 14"

definition IPA_CLIENT_WLAN3_CONS :: nat where
  "IPA_CLIENT_WLAN3_CONS = 15"

definition IPA_CLIENT_WLAN2_PROD1 :: nat where
  "IPA_CLIENT_WLAN2_PROD1 = 16"

definition IPA_CLIENT_WLAN4_CONS :: nat where
  "IPA_CLIENT_WLAN4_CONS = 17"

definition IPA_CLIENT_USB_PROD :: nat where
  "IPA_CLIENT_USB_PROD = 18"

definition IPA_CLIENT_USB_CONS :: nat where
  "IPA_CLIENT_USB_CONS = 19"

definition IPA_CLIENT_USB2_PROD :: nat where
  "IPA_CLIENT_USB2_PROD = 20"

definition IPA_CLIENT_USB2_CONS :: nat where
  "IPA_CLIENT_USB2_CONS = 21"

definition IPA_CLIENT_USB3_PROD :: nat where
  "IPA_CLIENT_USB3_PROD = 22"

definition IPA_CLIENT_USB3_CONS :: nat where
  "IPA_CLIENT_USB3_CONS = 23"

definition IPA_CLIENT_USB4_PROD :: nat where
  "IPA_CLIENT_USB4_PROD = 24"

definition IPA_CLIENT_USB4_CONS :: nat where
  "IPA_CLIENT_USB4_CONS = 25"

definition IPA_CLIENT_UC_USB_PROD :: nat where
  "IPA_CLIENT_UC_USB_PROD = 26"

definition IPA_CLIENT_USB_DPL_CONS :: nat where
  "IPA_CLIENT_USB_DPL_CONS = 27"

definition IPA_CLIENT_A2_EMBEDDED_PROD :: nat where
  "IPA_CLIENT_A2_EMBEDDED_PROD = 28"

definition IPA_CLIENT_A2_EMBEDDED_CONS :: nat where
  "IPA_CLIENT_A2_EMBEDDED_CONS = 29"

definition IPA_CLIENT_A2_TETHERED_PROD :: nat where
  "IPA_CLIENT_A2_TETHERED_PROD = 30"

definition IPA_CLIENT_A2_TETHERED_CONS :: nat where
  "IPA_CLIENT_A2_TETHERED_CONS = 31"

definition IPA_CLIENT_APPS_LAN_PROD :: nat where
  "IPA_CLIENT_APPS_LAN_PROD = 32"

definition IPA_CLIENT_APPS_LAN_CONS :: nat where
  "IPA_CLIENT_APPS_LAN_CONS = 33"

definition IPA_CLIENT_APPS_WAN_PROD :: nat where
  "IPA_CLIENT_APPS_WAN_PROD = 34"

definition IPA_CLIENT_APPS_LAN_WAN_PROD :: nat where
  "IPA_CLIENT_APPS_LAN_WAN_PROD = IPA_CLIENT_APPS_WAN_PROD"

definition IPA_CLIENT_APPS_WAN_CONS :: nat where
  "IPA_CLIENT_APPS_WAN_CONS = 35"

definition IPA_CLIENT_APPS_CMD_PROD :: nat where
  "IPA_CLIENT_APPS_CMD_PROD = 36"

definition IPA_CLIENT_A5_LAN_WAN_CONS :: nat where
  "IPA_CLIENT_A5_LAN_WAN_CONS = 37"

definition IPA_CLIENT_ODU_PROD :: nat where
  "IPA_CLIENT_ODU_PROD = 38"

definition IPA_CLIENT_ODU_EMB_CONS :: nat where
  "IPA_CLIENT_ODU_EMB_CONS = 39"

definition IPA_CLIENT_WLAN3_PROD1 :: nat where
  "IPA_CLIENT_WLAN3_PROD1 = 40"

definition IPA_CLIENT_ODU_TETH_CONS :: nat where
  "IPA_CLIENT_ODU_TETH_CONS = 41"

definition IPA_CLIENT_MHI_PROD :: nat where
  "IPA_CLIENT_MHI_PROD = 42"

definition IPA_CLIENT_MHI_CONS :: nat where
  "IPA_CLIENT_MHI_CONS = 43"

definition IPA_CLIENT_MEMCPY_DMA_SYNC_PROD :: nat where
  "IPA_CLIENT_MEMCPY_DMA_SYNC_PROD = 44"

definition IPA_CLIENT_MEMCPY_DMA_SYNC_CONS :: nat where
  "IPA_CLIENT_MEMCPY_DMA_SYNC_CONS = 45"

definition IPA_CLIENT_MEMCPY_DMA_ASYNC_PROD :: nat where
  "IPA_CLIENT_MEMCPY_DMA_ASYNC_PROD = 46"

definition IPA_CLIENT_MEMCPY_DMA_ASYNC_CONS :: nat where
  "IPA_CLIENT_MEMCPY_DMA_ASYNC_CONS = 47"

definition IPA_CLIENT_ETHERNET_PROD :: nat where
  "IPA_CLIENT_ETHERNET_PROD = 48"

definition IPA_CLIENT_ETHERNET_CONS :: nat where
  "IPA_CLIENT_ETHERNET_CONS = 49"

definition IPA_CLIENT_Q6_LAN_PROD :: nat where
  "IPA_CLIENT_Q6_LAN_PROD = 50"

definition IPA_CLIENT_Q6_LAN_CONS :: nat where
  "IPA_CLIENT_Q6_LAN_CONS = 51"

definition IPA_CLIENT_Q6_WAN_PROD :: nat where
  "IPA_CLIENT_Q6_WAN_PROD = 52"

definition IPA_CLIENT_Q6_WAN_CONS :: nat where
  "IPA_CLIENT_Q6_WAN_CONS = 53"

definition IPA_CLIENT_Q6_CMD_PROD :: nat where
  "IPA_CLIENT_Q6_CMD_PROD = 54"

definition IPA_CLIENT_Q6_DUN_CONS :: nat where
  "IPA_CLIENT_Q6_DUN_CONS = 55"

definition IPA_CLIENT_Q6_DECOMP_PROD :: nat where
  "IPA_CLIENT_Q6_DECOMP_PROD = 56"

definition IPA_CLIENT_Q6_DECOMP_CONS :: nat where
  "IPA_CLIENT_Q6_DECOMP_CONS = 57"

definition IPA_CLIENT_Q6_DECOMP2_PROD :: nat where
  "IPA_CLIENT_Q6_DECOMP2_PROD = 58"

definition IPA_CLIENT_Q6_DECOMP2_CONS :: nat where
  "IPA_CLIENT_Q6_DECOMP2_CONS = 59"

definition IPA_CLIENT_Q6_LTE_WIFI_AGGR_CONS :: nat where
  "IPA_CLIENT_Q6_LTE_WIFI_AGGR_CONS = 61"

definition IPA_CLIENT_TEST_PROD :: nat where
  "IPA_CLIENT_TEST_PROD = 62"

definition IPA_CLIENT_TEST_CONS :: nat where
  "IPA_CLIENT_TEST_CONS = 63"

definition IPA_CLIENT_TEST1_PROD :: nat where
  "IPA_CLIENT_TEST1_PROD = 64"

definition IPA_CLIENT_TEST1_CONS :: nat where
  "IPA_CLIENT_TEST1_CONS = 65"

definition IPA_CLIENT_TEST2_PROD :: nat where
  "IPA_CLIENT_TEST2_PROD = 66"

definition IPA_CLIENT_TEST2_CONS :: nat where
  "IPA_CLIENT_TEST2_CONS = 67"

definition IPA_CLIENT_TEST3_PROD :: nat where
  "IPA_CLIENT_TEST3_PROD = 68"

definition IPA_CLIENT_TEST3_CONS :: nat where
  "IPA_CLIENT_TEST3_CONS = 69"

definition IPA_CLIENT_TEST4_PROD :: nat where
  "IPA_CLIENT_TEST4_PROD = 70"

definition IPA_CLIENT_TEST4_CONS :: nat where
  "IPA_CLIENT_TEST4_CONS = 71"

definition IPA_CLIENT_DUMMY_CONS :: nat where
  "IPA_CLIENT_DUMMY_CONS = 73"

definition IPA_CLIENT_Q6_DL_NLO_DATA_PROD :: nat where
  "IPA_CLIENT_Q6_DL_NLO_DATA_PROD = 74"

definition IPA_CLIENT_Q6_UL_NLO_DATA_CONS :: nat where
  "IPA_CLIENT_Q6_UL_NLO_DATA_CONS = 75"

definition IPA_CLIENT_Q6_UL_NLO_ACK_CONS :: nat where
  "IPA_CLIENT_Q6_UL_NLO_ACK_CONS = 77"

definition IPA_CLIENT_Q6_QBAP_STATUS_CONS :: nat where
  "IPA_CLIENT_Q6_QBAP_STATUS_CONS = 79"

definition IPA_CLIENT_MHI_DPL_CONS :: nat where
  "IPA_CLIENT_MHI_DPL_CONS = 81"

definition IPA_CLIENT_ODL_DPL_CONS :: nat where
  "IPA_CLIENT_ODL_DPL_CONS = 83"

definition IPA_CLIENT_Q6_AUDIO_DMA_MHI_PROD :: nat where
  "IPA_CLIENT_Q6_AUDIO_DMA_MHI_PROD = 84"

definition IPA_CLIENT_Q6_AUDIO_DMA_MHI_CONS :: nat where
  "IPA_CLIENT_Q6_AUDIO_DMA_MHI_CONS = 85"

definition IPA_CLIENT_WIGIG_PROD :: nat where
  "IPA_CLIENT_WIGIG_PROD = 86"

definition IPA_CLIENT_WIGIG1_CONS :: nat where
  "IPA_CLIENT_WIGIG1_CONS = 87"

definition IPA_CLIENT_WIGIG2_CONS :: nat where
  "IPA_CLIENT_WIGIG2_CONS = 89"

definition IPA_CLIENT_WIGIG3_CONS :: nat where
  "IPA_CLIENT_WIGIG3_CONS = 91"

definition IPA_CLIENT_WIGIG4_CONS :: nat where
  "IPA_CLIENT_WIGIG4_CONS = 93"

definition IPA_CLIENT_APPS_WAN_COAL_CONS :: nat where
  "IPA_CLIENT_APPS_WAN_COAL_CONS = 95"

definition IPA_CLIENT_MHI_PRIME_TETH_PROD :: nat where
  "IPA_CLIENT_MHI_PRIME_TETH_PROD = 96"

definition IPA_CLIENT_MHI_PRIME_TETH_CONS :: nat where
  "IPA_CLIENT_MHI_PRIME_TETH_CONS = 97"

definition IPA_CLIENT_MHI_PRIME_RMNET_PROD :: nat where
  "IPA_CLIENT_MHI_PRIME_RMNET_PROD = 98"

definition IPA_CLIENT_MHI_PRIME_RMNET_CONS :: nat where
  "IPA_CLIENT_MHI_PRIME_RMNET_CONS = 99"

definition IPA_CLIENT_MHI_PRIME_DPL_PROD :: nat where
  "IPA_CLIENT_MHI_PRIME_DPL_PROD = 100"

definition IPA_CLIENT_MHI_COAL_CONS :: nat where
  "IPA_CLIENT_MHI_COAL_CONS = 101"

definition IPA_CLIENT_AQC_ETHERNET_PROD :: nat where
  "IPA_CLIENT_AQC_ETHERNET_PROD = 102"

definition IPA_CLIENT_AQC_ETHERNET_CONS :: nat where
  "IPA_CLIENT_AQC_ETHERNET_CONS = 103"

definition IPA_CLIENT_APPS_WAN_LOW_LAT_PROD :: nat where
  "IPA_CLIENT_APPS_WAN_LOW_LAT_PROD = 104"

definition IPA_CLIENT_APPS_WAN_LOW_LAT_CONS :: nat where
  "IPA_CLIENT_APPS_WAN_LOW_LAT_CONS = 105"

definition IPA_CLIENT_QDSS_PROD :: nat where
  "IPA_CLIENT_QDSS_PROD = 106"

definition IPA_CLIENT_MHI_QDSS_CONS :: nat where
  "IPA_CLIENT_MHI_QDSS_CONS = 107"

definition IPA_CLIENT_RTK_ETHERNET_PROD :: nat where
  "IPA_CLIENT_RTK_ETHERNET_PROD = 108"

definition IPA_CLIENT_RTK_ETHERNET_CONS :: nat where
  "IPA_CLIENT_RTK_ETHERNET_CONS = 109"

definition IPA_CLIENT_MHI_LOW_LAT_PROD :: nat where
  "IPA_CLIENT_MHI_LOW_LAT_PROD = 110"

definition IPA_CLIENT_MHI_LOW_LAT_CONS :: nat where
  "IPA_CLIENT_MHI_LOW_LAT_CONS = 111"

definition IPA_CLIENT_MHI2_PROD :: nat where
  "IPA_CLIENT_MHI2_PROD = 112"

definition IPA_CLIENT_MHI2_CONS :: nat where
  "IPA_CLIENT_MHI2_CONS = 113"

definition IPA_CLIENT_Q6_CV2X_PROD :: nat where
  "IPA_CLIENT_Q6_CV2X_PROD = 114"

definition IPA_CLIENT_Q6_CV2X_CONS :: nat where
  "IPA_CLIENT_Q6_CV2X_CONS = 115"

definition IPA_CLIENT_ETHERNET2_PROD :: nat where
  "IPA_CLIENT_ETHERNET2_PROD = 116"

definition IPA_CLIENT_ETHERNET2_CONS :: nat where
  "IPA_CLIENT_ETHERNET2_CONS = 117"

definition IPA_CLIENT_WLAN2_CONS1 :: nat where
  "IPA_CLIENT_WLAN2_CONS1 = 119"

definition IPA_CLIENT_APPS_WAN_LOW_LAT_DATA_PROD :: nat where
  "IPA_CLIENT_APPS_WAN_LOW_LAT_DATA_PROD = 120"

definition IPA_CLIENT_APPS_WAN_LOW_LAT_DATA_CONS :: nat where
  "IPA_CLIENT_APPS_WAN_LOW_LAT_DATA_CONS = 121"

definition IPA_CLIENT_Q6_DL_NLO_LL_DATA_PROD :: nat where
  "IPA_CLIENT_Q6_DL_NLO_LL_DATA_PROD = 122"

definition IPA_CLIENT_TPUT_CONS :: nat where
  "IPA_CLIENT_TPUT_CONS = 125"

definition IPA_CLIENT_Q6_DL_NLO_ETH_DATA_PROD :: nat where
  "IPA_CLIENT_Q6_DL_NLO_ETH_DATA_PROD = 126"

definition IPA_CLIENT_APPS_WAN_ETH_PROD :: nat where
  "IPA_CLIENT_APPS_WAN_ETH_PROD = 128"

definition IPA_CLIENT_WLAN2_PROD :: nat where
  "IPA_CLIENT_WLAN2_PROD = IPA_CLIENT_A5_WLAN_AMPDU_PROD"

definition IPA_CLIENT_MAX :: nat where
  "IPA_CLIENT_MAX = IPA_CLIENT_APPS_WAN_ETH_PROD + 1"

definition ipa_client_type :: "(string \<times> nat) list" where
  "ipa_client_type =
    [(''IPA_CLIENT_HSIC1_PROD'', IPA_CLIENT_HSIC1_PROD), (''IPA_CLIENT_HSIC1_CONS'',
    IPA_CLIENT_HSIC1_CONS), (''IPA_CLIENT_HSIC2_PROD'', IPA_CLIENT_HSIC2_PROD),
    (''IPA_CLIENT_HSIC2_CONS'', IPA_CLIENT_HSIC2_CONS), (''IPA_CLIENT_HSIC3_PROD'',
    IPA_CLIENT_HSIC3_PROD), (''IPA_CLIENT_HSIC3_CONS'', IPA_CLIENT_HSIC3_CONS),
    (''IPA_CLIENT_HSIC4_PROD'', IPA_CLIENT_HSIC4_PROD), (''IPA_CLIENT_HSIC4_CONS'',
    IPA_CLIENT_HSIC4_CONS), (''IPA_CLIENT_HSIC5_PROD'', IPA_CLIENT_HSIC5_PROD),
    (''IPA_CLIENT_HSIC5_CONS'', IPA_CLIENT_HSIC5_CONS), (''IPA_CLIENT_WLAN1_PROD'',
    IPA_CLIENT_WLAN1_PROD), (''IPA_CLIENT_WLAN1_CONS'', IPA_CLIENT_WLAN1_CONS),
    (''IPA_CLIENT_A5_WLAN_AMPDU_PROD'', IPA_CLIENT_A5_WLAN_AMPDU_PROD), (''IPA_CLIENT_WLAN2_CONS'',
    IPA_CLIENT_WLAN2_CONS), (''IPA_CLIENT_WLAN3_PROD'', IPA_CLIENT_WLAN3_PROD),
    (''IPA_CLIENT_WLAN3_CONS'', IPA_CLIENT_WLAN3_CONS), (''IPA_CLIENT_WLAN2_PROD1'',
    IPA_CLIENT_WLAN2_PROD1), (''IPA_CLIENT_WLAN4_CONS'', IPA_CLIENT_WLAN4_CONS),
    (''IPA_CLIENT_USB_PROD'', IPA_CLIENT_USB_PROD), (''IPA_CLIENT_USB_CONS'', IPA_CLIENT_USB_CONS),
    (''IPA_CLIENT_USB2_PROD'', IPA_CLIENT_USB2_PROD), (''IPA_CLIENT_USB2_CONS'',
    IPA_CLIENT_USB2_CONS), (''IPA_CLIENT_USB3_PROD'', IPA_CLIENT_USB3_PROD),
    (''IPA_CLIENT_USB3_CONS'', IPA_CLIENT_USB3_CONS), (''IPA_CLIENT_USB4_PROD'',
    IPA_CLIENT_USB4_PROD), (''IPA_CLIENT_USB4_CONS'', IPA_CLIENT_USB4_CONS),
    (''IPA_CLIENT_UC_USB_PROD'', IPA_CLIENT_UC_USB_PROD), (''IPA_CLIENT_USB_DPL_CONS'',
    IPA_CLIENT_USB_DPL_CONS), (''IPA_CLIENT_A2_EMBEDDED_PROD'', IPA_CLIENT_A2_EMBEDDED_PROD),
    (''IPA_CLIENT_A2_EMBEDDED_CONS'', IPA_CLIENT_A2_EMBEDDED_CONS),
    (''IPA_CLIENT_A2_TETHERED_PROD'', IPA_CLIENT_A2_TETHERED_PROD),
    (''IPA_CLIENT_A2_TETHERED_CONS'', IPA_CLIENT_A2_TETHERED_CONS), (''IPA_CLIENT_APPS_LAN_PROD'',
    IPA_CLIENT_APPS_LAN_PROD), (''IPA_CLIENT_APPS_LAN_CONS'', IPA_CLIENT_APPS_LAN_CONS),
    (''IPA_CLIENT_APPS_WAN_PROD'', IPA_CLIENT_APPS_WAN_PROD), (''IPA_CLIENT_APPS_LAN_WAN_PROD'',
    IPA_CLIENT_APPS_LAN_WAN_PROD), (''IPA_CLIENT_APPS_WAN_CONS'', IPA_CLIENT_APPS_WAN_CONS),
    (''IPA_CLIENT_APPS_CMD_PROD'', IPA_CLIENT_APPS_CMD_PROD), (''IPA_CLIENT_A5_LAN_WAN_CONS'',
    IPA_CLIENT_A5_LAN_WAN_CONS), (''IPA_CLIENT_ODU_PROD'', IPA_CLIENT_ODU_PROD),
    (''IPA_CLIENT_ODU_EMB_CONS'', IPA_CLIENT_ODU_EMB_CONS), (''IPA_CLIENT_WLAN3_PROD1'',
    IPA_CLIENT_WLAN3_PROD1), (''IPA_CLIENT_ODU_TETH_CONS'', IPA_CLIENT_ODU_TETH_CONS),
    (''IPA_CLIENT_MHI_PROD'', IPA_CLIENT_MHI_PROD), (''IPA_CLIENT_MHI_CONS'', IPA_CLIENT_MHI_CONS),
    (''IPA_CLIENT_MEMCPY_DMA_SYNC_PROD'', IPA_CLIENT_MEMCPY_DMA_SYNC_PROD),
    (''IPA_CLIENT_MEMCPY_DMA_SYNC_CONS'', IPA_CLIENT_MEMCPY_DMA_SYNC_CONS),
    (''IPA_CLIENT_MEMCPY_DMA_ASYNC_PROD'', IPA_CLIENT_MEMCPY_DMA_ASYNC_PROD),
    (''IPA_CLIENT_MEMCPY_DMA_ASYNC_CONS'', IPA_CLIENT_MEMCPY_DMA_ASYNC_CONS),
    (''IPA_CLIENT_ETHERNET_PROD'', IPA_CLIENT_ETHERNET_PROD), (''IPA_CLIENT_ETHERNET_CONS'',
    IPA_CLIENT_ETHERNET_CONS), (''IPA_CLIENT_Q6_LAN_PROD'', IPA_CLIENT_Q6_LAN_PROD),
    (''IPA_CLIENT_Q6_LAN_CONS'', IPA_CLIENT_Q6_LAN_CONS), (''IPA_CLIENT_Q6_WAN_PROD'',
    IPA_CLIENT_Q6_WAN_PROD), (''IPA_CLIENT_Q6_WAN_CONS'', IPA_CLIENT_Q6_WAN_CONS),
    (''IPA_CLIENT_Q6_CMD_PROD'', IPA_CLIENT_Q6_CMD_PROD), (''IPA_CLIENT_Q6_DUN_CONS'',
    IPA_CLIENT_Q6_DUN_CONS), (''IPA_CLIENT_Q6_DECOMP_PROD'', IPA_CLIENT_Q6_DECOMP_PROD),
    (''IPA_CLIENT_Q6_DECOMP_CONS'', IPA_CLIENT_Q6_DECOMP_CONS), (''IPA_CLIENT_Q6_DECOMP2_PROD'',
    IPA_CLIENT_Q6_DECOMP2_PROD), (''IPA_CLIENT_Q6_DECOMP2_CONS'', IPA_CLIENT_Q6_DECOMP2_CONS),
    (''IPA_CLIENT_Q6_LTE_WIFI_AGGR_CONS'', IPA_CLIENT_Q6_LTE_WIFI_AGGR_CONS),
    (''IPA_CLIENT_TEST_PROD'', IPA_CLIENT_TEST_PROD), (''IPA_CLIENT_TEST_CONS'',
    IPA_CLIENT_TEST_CONS), (''IPA_CLIENT_TEST1_PROD'', IPA_CLIENT_TEST1_PROD),
    (''IPA_CLIENT_TEST1_CONS'', IPA_CLIENT_TEST1_CONS), (''IPA_CLIENT_TEST2_PROD'',
    IPA_CLIENT_TEST2_PROD), (''IPA_CLIENT_TEST2_CONS'', IPA_CLIENT_TEST2_CONS),
    (''IPA_CLIENT_TEST3_PROD'', IPA_CLIENT_TEST3_PROD), (''IPA_CLIENT_TEST3_CONS'',
    IPA_CLIENT_TEST3_CONS), (''IPA_CLIENT_TEST4_PROD'', IPA_CLIENT_TEST4_PROD),
    (''IPA_CLIENT_TEST4_CONS'', IPA_CLIENT_TEST4_CONS), (''IPA_CLIENT_DUMMY_CONS'',
    IPA_CLIENT_DUMMY_CONS), (''IPA_CLIENT_Q6_DL_NLO_DATA_PROD'', IPA_CLIENT_Q6_DL_NLO_DATA_PROD),
    (''IPA_CLIENT_Q6_UL_NLO_DATA_CONS'', IPA_CLIENT_Q6_UL_NLO_DATA_CONS),
    (''IPA_CLIENT_Q6_UL_NLO_ACK_CONS'', IPA_CLIENT_Q6_UL_NLO_ACK_CONS),
    (''IPA_CLIENT_Q6_QBAP_STATUS_CONS'', IPA_CLIENT_Q6_QBAP_STATUS_CONS),
    (''IPA_CLIENT_MHI_DPL_CONS'', IPA_CLIENT_MHI_DPL_CONS), (''IPA_CLIENT_ODL_DPL_CONS'',
    IPA_CLIENT_ODL_DPL_CONS), (''IPA_CLIENT_Q6_AUDIO_DMA_MHI_PROD'',
    IPA_CLIENT_Q6_AUDIO_DMA_MHI_PROD), (''IPA_CLIENT_Q6_AUDIO_DMA_MHI_CONS'',
    IPA_CLIENT_Q6_AUDIO_DMA_MHI_CONS), (''IPA_CLIENT_WIGIG_PROD'', IPA_CLIENT_WIGIG_PROD),
    (''IPA_CLIENT_WIGIG1_CONS'', IPA_CLIENT_WIGIG1_CONS), (''IPA_CLIENT_WIGIG2_CONS'',
    IPA_CLIENT_WIGIG2_CONS), (''IPA_CLIENT_WIGIG3_CONS'', IPA_CLIENT_WIGIG3_CONS),
    (''IPA_CLIENT_WIGIG4_CONS'', IPA_CLIENT_WIGIG4_CONS), (''IPA_CLIENT_APPS_WAN_COAL_CONS'',
    IPA_CLIENT_APPS_WAN_COAL_CONS), (''IPA_CLIENT_MHI_PRIME_TETH_PROD'',
    IPA_CLIENT_MHI_PRIME_TETH_PROD), (''IPA_CLIENT_MHI_PRIME_TETH_CONS'',
    IPA_CLIENT_MHI_PRIME_TETH_CONS), (''IPA_CLIENT_MHI_PRIME_RMNET_PROD'',
    IPA_CLIENT_MHI_PRIME_RMNET_PROD), (''IPA_CLIENT_MHI_PRIME_RMNET_CONS'',
    IPA_CLIENT_MHI_PRIME_RMNET_CONS), (''IPA_CLIENT_MHI_PRIME_DPL_PROD'',
    IPA_CLIENT_MHI_PRIME_DPL_PROD), (''IPA_CLIENT_MHI_COAL_CONS'', IPA_CLIENT_MHI_COAL_CONS),
    (''IPA_CLIENT_AQC_ETHERNET_PROD'', IPA_CLIENT_AQC_ETHERNET_PROD),
    (''IPA_CLIENT_AQC_ETHERNET_CONS'', IPA_CLIENT_AQC_ETHERNET_CONS),
    (''IPA_CLIENT_APPS_WAN_LOW_LAT_PROD'', IPA_CLIENT_APPS_WAN_LOW_LAT_PROD),
    (''IPA_CLIENT_APPS_WAN_LOW_LAT_CONS'', IPA_CLIENT_APPS_WAN_LOW_LAT_CONS),
    (''IPA_CLIENT_QDSS_PROD'', IPA_CLIENT_QDSS_PROD), (''IPA_CLIENT_MHI_QDSS_CONS'',
    IPA_CLIENT_MHI_QDSS_CONS), (''IPA_CLIENT_RTK_ETHERNET_PROD'', IPA_CLIENT_RTK_ETHERNET_PROD),
    (''IPA_CLIENT_RTK_ETHERNET_CONS'', IPA_CLIENT_RTK_ETHERNET_CONS),
    (''IPA_CLIENT_MHI_LOW_LAT_PROD'', IPA_CLIENT_MHI_LOW_LAT_PROD),
    (''IPA_CLIENT_MHI_LOW_LAT_CONS'', IPA_CLIENT_MHI_LOW_LAT_CONS), (''IPA_CLIENT_MHI2_PROD'',
    IPA_CLIENT_MHI2_PROD), (''IPA_CLIENT_MHI2_CONS'', IPA_CLIENT_MHI2_CONS),
    (''IPA_CLIENT_Q6_CV2X_PROD'', IPA_CLIENT_Q6_CV2X_PROD), (''IPA_CLIENT_Q6_CV2X_CONS'',
    IPA_CLIENT_Q6_CV2X_CONS), (''IPA_CLIENT_ETHERNET2_PROD'', IPA_CLIENT_ETHERNET2_PROD),
    (''IPA_CLIENT_ETHERNET2_CONS'', IPA_CLIENT_ETHERNET2_CONS), (''IPA_CLIENT_WLAN2_CONS1'',
    IPA_CLIENT_WLAN2_CONS1), (''IPA_CLIENT_APPS_WAN_LOW_LAT_DATA_PROD'',
    IPA_CLIENT_APPS_WAN_LOW_LAT_DATA_PROD), (''IPA_CLIENT_APPS_WAN_LOW_LAT_DATA_CONS'',
    IPA_CLIENT_APPS_WAN_LOW_LAT_DATA_CONS), (''IPA_CLIENT_Q6_DL_NLO_LL_DATA_PROD'',
    IPA_CLIENT_Q6_DL_NLO_LL_DATA_PROD), (''IPA_CLIENT_TPUT_CONS'', IPA_CLIENT_TPUT_CONS),
    (''IPA_CLIENT_Q6_DL_NLO_ETH_DATA_PROD'', IPA_CLIENT_Q6_DL_NLO_ETH_DATA_PROD),
    (''IPA_CLIENT_APPS_WAN_ETH_PROD'', IPA_CLIENT_APPS_WAN_ETH_PROD)]"

section \<open>Classes of clients\<close>

definition IPA_CLIENT_IS_APPS_CONS :: "nat \<Rightarrow> bool" where
  "IPA_CLIENT_IS_APPS_CONS client \<longleftrightarrow>
    client = IPA_CLIENT_APPS_LAN_CONS \<or> client = IPA_CLIENT_APPS_WAN_CONS \<or> client =
    IPA_CLIENT_APPS_WAN_COAL_CONS \<or> client = IPA_CLIENT_APPS_WAN_LOW_LAT_CONS \<or> client =
    IPA_CLIENT_APPS_WAN_LOW_LAT_DATA_CONS"

definition IPA_CLIENT_IS_APPS_PROD :: "nat \<Rightarrow> bool" where
  "IPA_CLIENT_IS_APPS_PROD client \<longleftrightarrow>
    client = IPA_CLIENT_APPS_LAN_PROD \<or> client = IPA_CLIENT_APPS_WAN_PROD \<or> client =
    IPA_CLIENT_APPS_WAN_LOW_LAT_PROD \<or> client = IPA_CLIENT_APPS_WAN_LOW_LAT_DATA_PROD \<or>
    client = IPA_CLIENT_APPS_WAN_ETH_PROD"

definition IPA_CLIENT_IS_USB_CONS :: "nat \<Rightarrow> bool" where
  "IPA_CLIENT_IS_USB_CONS client \<longleftrightarrow>
    client = IPA_CLIENT_USB_CONS \<or> client = IPA_CLIENT_USB2_CONS \<or> client =
    IPA_CLIENT_USB3_CONS \<or> client = IPA_CLIENT_USB_DPL_CONS \<or> client = IPA_CLIENT_USB4_CONS"

definition IPA_CLIENT_IS_WAN_CONS :: "nat \<Rightarrow> bool" where
  "IPA_CLIENT_IS_WAN_CONS client \<longleftrightarrow>
    client = IPA_CLIENT_APPS_WAN_CONS \<or> client = IPA_CLIENT_APPS_WAN_COAL_CONS"

definition IPA_CLIENT_IS_LOW_LAT_CONS :: "nat \<Rightarrow> bool" where
  "IPA_CLIENT_IS_LOW_LAT_CONS client \<longleftrightarrow>
    client = IPA_CLIENT_APPS_WAN_LOW_LAT_CONS"

definition IPA_CLIENT_IS_WLAN_CONS :: "nat \<Rightarrow> bool" where
  "IPA_CLIENT_IS_WLAN_CONS client \<longleftrightarrow>
    client = IPA_CLIENT_WLAN1_CONS \<or> client = IPA_CLIENT_WLAN2_CONS \<or> client =
    IPA_CLIENT_WLAN3_CONS \<or> client = IPA_CLIENT_WLAN2_CONS1 \<or> client =
    IPA_CLIENT_WLAN4_CONS"

definition IPA_CLIENT_IS_ODU_CONS :: "nat \<Rightarrow> bool" where
  "IPA_CLIENT_IS_ODU_CONS client \<longleftrightarrow>
    client = IPA_CLIENT_ODU_EMB_CONS \<or> client = IPA_CLIENT_ODU_TETH_CONS"

definition IPA_CLIENT_IS_Q6_CONS :: "nat \<Rightarrow> bool" where
  "IPA_CLIENT_IS_Q6_CONS client \<longleftrightarrow>
    client = IPA_CLIENT_Q6_LAN_CONS \<or> client = IPA_CLIENT_Q6_WAN_CONS \<or> client =
    IPA_CLIENT_Q6_DUN_CONS \<or> client = IPA_CLIENT_Q6_DECOMP_CONS \<or> client =
    IPA_CLIENT_Q6_DECOMP2_CONS \<or> client = IPA_CLIENT_Q6_LTE_WIFI_AGGR_CONS \<or> client =
    IPA_CLIENT_Q6_UL_NLO_DATA_CONS \<or> client = IPA_CLIENT_Q6_UL_NLO_ACK_CONS \<or> client =
    IPA_CLIENT_Q6_QBAP_STATUS_CONS \<or> client = IPA_CLIENT_Q6_CV2X_CONS \<or> client =
    IPA_CLIENT_Q6_AUDIO_DMA_MHI_CONS"

definition IPA_CLIENT_IS_Q6_PROD :: "nat \<Rightarrow> bool" where
  "IPA_CLIENT_IS_Q6_PROD client \<longleftrightarrow>
    client = IPA_CLIENT_Q6_LAN_PROD \<or> client = IPA_CLIENT_Q6_WAN_PROD \<or> client =
    IPA_CLIENT_Q6_CMD_PROD \<or> client = IPA_CLIENT_Q6_DECOMP_PROD \<or> client =
    IPA_CLIENT_Q6_DECOMP2_PROD \<or> client = IPA_CLIENT_Q6_DL_NLO_LL_DATA_PROD \<or> client =
    IPA_CLIENT_Q6_DL_NLO_DATA_PROD \<or> client = IPA_CLIENT_Q6_CV2X_PROD \<or> client =
    IPA_CLIENT_Q6_AUDIO_DMA_MHI_PROD"

definition IPA_CLIENT_IS_Q6_NON_ZIP_CONS :: "nat \<Rightarrow> bool" where
  "IPA_CLIENT_IS_Q6_NON_ZIP_CONS client \<longleftrightarrow>
    client = IPA_CLIENT_Q6_LAN_CONS \<or> client = IPA_CLIENT_Q6_WAN_CONS \<or> client =
    IPA_CLIENT_Q6_DUN_CONS \<or> client = IPA_CLIENT_Q6_LTE_WIFI_AGGR_CONS \<or> client =
    IPA_CLIENT_Q6_UL_NLO_DATA_CONS \<or> client = IPA_CLIENT_Q6_UL_NLO_ACK_CONS \<or> client =
    IPA_CLIENT_Q6_QBAP_STATUS_CONS \<or> client = IPA_CLIENT_Q6_CV2X_CONS \<or> client =
    IPA_CLIENT_Q6_AUDIO_DMA_MHI_CONS"

definition IPA_CLIENT_IS_Q6_ZIP_CONS :: "nat \<Rightarrow> bool" where
  "IPA_CLIENT_IS_Q6_ZIP_CONS client \<longleftrightarrow>
    client = IPA_CLIENT_Q6_DECOMP_CONS \<or> client = IPA_CLIENT_Q6_DECOMP2_CONS"

definition IPA_CLIENT_IS_Q6_NON_ZIP_PROD :: "nat \<Rightarrow> bool" where
  "IPA_CLIENT_IS_Q6_NON_ZIP_PROD client \<longleftrightarrow>
    client = IPA_CLIENT_Q6_LAN_PROD \<or> client = IPA_CLIENT_Q6_WAN_PROD \<or> client =
    IPA_CLIENT_Q6_CMD_PROD \<or> client = IPA_CLIENT_Q6_DL_NLO_DATA_PROD \<or> client =
    IPA_CLIENT_Q6_DL_NLO_LL_DATA_PROD \<or> client = IPA_CLIENT_Q6_CV2X_PROD \<or> client =
    IPA_CLIENT_Q6_AUDIO_DMA_MHI_PROD"

definition IPA_CLIENT_IS_Q6_ZIP_PROD :: "nat \<Rightarrow> bool" where
  "IPA_CLIENT_IS_Q6_ZIP_PROD client \<longleftrightarrow>
    client = IPA_CLIENT_Q6_DECOMP_PROD \<or> client = IPA_CLIENT_Q6_DECOMP2_PROD"

definition IPA_CLIENT_IS_MEMCPY_DMA_CONS :: "nat \<Rightarrow> bool" where
  "IPA_CLIENT_IS_MEMCPY_DMA_CONS client \<longleftrightarrow>
    client = IPA_CLIENT_MEMCPY_DMA_SYNC_CONS \<or> client = IPA_CLIENT_MEMCPY_DMA_ASYNC_CONS"

definition IPA_CLIENT_IS_MEMCPY_DMA_PROD :: "nat \<Rightarrow> bool" where
  "IPA_CLIENT_IS_MEMCPY_DMA_PROD client \<longleftrightarrow>
    client = IPA_CLIENT_MEMCPY_DMA_SYNC_PROD \<or> client = IPA_CLIENT_MEMCPY_DMA_ASYNC_PROD"

definition IPA_CLIENT_IS_MHI :: "nat \<Rightarrow> bool" where
  "IPA_CLIENT_IS_MHI client \<longleftrightarrow>
    client = IPA_CLIENT_MHI_CONS \<or> client = IPA_CLIENT_MHI_PROD \<or> client =
    IPA_CLIENT_MHI2_PROD \<or> client = IPA_CLIENT_MHI2_CONS \<or> client = IPA_CLIENT_MHI_DPL_CONS
    \<or> client = IPA_CLIENT_MHI_LOW_LAT_CONS \<or> client = IPA_CLIENT_MHI_LOW_LAT_PROD \<or>
    client = IPA_CLIENT_MHI_QDSS_CONS \<or> client = IPA_CLIENT_MHI_COAL_CONS"

definition IPA_CLIENT_IS_TEST_PROD :: "nat \<Rightarrow> bool" where
  "IPA_CLIENT_IS_TEST_PROD client \<longleftrightarrow>
    client = IPA_CLIENT_TEST_PROD \<or> client = IPA_CLIENT_TEST1_PROD \<or> client =
    IPA_CLIENT_TEST2_PROD \<or> client = IPA_CLIENT_TEST3_PROD \<or> client = IPA_CLIENT_TEST4_PROD"

definition IPA_CLIENT_IS_TEST_CONS :: "nat \<Rightarrow> bool" where
  "IPA_CLIENT_IS_TEST_CONS client \<longleftrightarrow>
    client = IPA_CLIENT_TEST_CONS \<or> client = IPA_CLIENT_TEST1_CONS \<or> client =
    IPA_CLIENT_TEST2_CONS \<or> client = IPA_CLIENT_TEST3_CONS \<or> client = IPA_CLIENT_TEST4_CONS"

definition IPA_CLIENT_IS_TEST :: "nat \<Rightarrow> bool" where
  "IPA_CLIENT_IS_TEST client \<longleftrightarrow> IPA_CLIENT_IS_TEST_PROD client \<or> IPA_CLIENT_IS_TEST_CONS client"

section \<open>Address families, NAT memory and hardware versions\<close>

definition ipa3_nat_mem_in :: "(string \<times> nat) list" where
  "ipa3_nat_mem_in =
    [(''IPA_NAT_MEM_IN_DDR'', 0), (''IPA_NAT_MEM_IN_SRAM'', 1), (''IPA_NAT_MEM_IN_MAX'', 2)]"

definition ipa_ip_type :: "(string \<times> nat) list" where
  "ipa_ip_type =
    [(''IPA_IP_v4'', 0), (''IPA_IP_v6'', 1), (''IPA_IP_MAX'', 2), (''IPA_IP_v4_VLAN'', 2),
    (''IPA_IP_v6_VLAN'', 3), (''IPA_IP_MAX_WLAN'', 4)]"

definition ipa_hw_type :: "(string \<times> nat) list" where
  "ipa_hw_type =
    [(''IPA_HW_None'', 0), (''IPA_HW_v1_0'', 1), (''IPA_HW_v1_1'', 2), (''IPA_HW_v2_0'', 3),
    (''IPA_HW_v2_1'', 4), (''IPA_HW_v2_5'', 5), (''IPA_HW_v2_6'', 5), (''IPA_HW_v2_6L'', 6),
    (''IPA_HW_v3_0'', 10), (''IPA_HW_v3_1'', 11), (''IPA_HW_v3_5'', 12), (''IPA_HW_v3_5_1'', 13),
    (''IPA_HW_v4_0'', 14), (''IPA_HW_v4_1'', 15), (''IPA_HW_v4_2'', 16), (''IPA_HW_v4_5'', 17),
    (''IPA_HW_v4_7'', 18), (''IPA_HW_v4_9'', 19), (''IPA_HW_v4_11'', 20), (''IPA_HW_v5_0'', 21),
    (''IPA_HW_v5_1'', 22), (''IPA_HW_v5_2'', 23)]"

definition IPA_VALID_NAT_MEM_IN :: "int \<Rightarrow> bool" where
  "IPA_VALID_NAT_MEM_IN t \<longleftrightarrow> t \<ge> 0 \<and> t < int (enum_val ipa3_nat_mem_in ''IPA_NAT_MEM_IN_MAX'')"

definition VALID_IPA_IP_TYPE :: "int \<Rightarrow> bool" where
  "VALID_IPA_IP_TYPE t \<longleftrightarrow> t \<ge> int (enum_val ipa_ip_type ''IPA_IP_v4'') \<and> t < int (enum_val ipa_ip_type ''IPA_IP_MAX'')"

section \<open>Events\<close>

definition ipa_wlan_event :: "(string \<times> nat) list" where
  "ipa_wlan_event = enum_run 0
    [''WLAN_CLIENT_CONNECT'', ''WLAN_CLIENT_DISCONNECT'', ''WLAN_CLIENT_POWER_SAVE_MODE'',
    ''WLAN_CLIENT_NORMAL_MODE'', ''SW_ROUTING_ENABLE'', ''SW_ROUTING_DISABLE'', ''WLAN_AP_CONNECT'',
    ''WLAN_AP_DISCONNECT'', ''WLAN_STA_CONNECT'', ''WLAN_STA_DISCONNECT'',
    ''WLAN_CLIENT_CONNECT_EX'', ''WLAN_SWITCH_TO_SCC'', ''WLAN_SWITCH_TO_MCC'', ''WLAN_WDI_ENABLE'',
    ''WLAN_WDI_DISABLE'', ''IPA_WLAN_EVENT_MAX'']"

definition ipa_wan_event :: "(string \<times> nat) list" where
  "ipa_wan_event = enum_run (enum_val ipa_wlan_event ''IPA_WLAN_EVENT_MAX'')
    [''WAN_UPSTREAM_ROUTE_ADD'', ''WAN_UPSTREAM_ROUTE_DEL'', ''WAN_EMBMS_CONNECT'',
    ''WAN_XLAT_CONNECT'', ''IPA_WAN_EVENT_MAX'']"

definition ipa_ecm_event :: "(string \<times> nat) list" where
  "ipa_ecm_event = enum_run (enum_val ipa_wan_event ''IPA_WAN_EVENT_MAX'')
    [''ECM_CONNECT'', ''ECM_DISCONNECT'', ''IPA_ECM_EVENT_MAX'']"

definition ipa_tethering_stats_event :: "(string \<times> nat) list" where
  "ipa_tethering_stats_event = enum_run (enum_val ipa_ecm_event ''IPA_ECM_EVENT_MAX'')
    [''IPA_TETHERING_STATS_UPDATE_STATS'', ''IPA_TETHERING_STATS_UPDATE_NETWORK_STATS'',
    ''IPA_TETHERING_STATS_EVENT_MAX'']"

definition ipa_quota_event :: "(string \<times> nat) list" where
  "ipa_quota_event = enum_run (enum_val ipa_tethering_stats_event ''IPA_TETHERING_STATS_EVENT_MAX'')
    [''IPA_QUOTA_REACH'', ''IPA_QUOTA_EVENT_MAX'']"

definition ipa_ssr_event :: "(string \<times> nat) list" where
  "ipa_ssr_event = enum_run (enum_val ipa_quota_event ''IPA_QUOTA_EVENT_MAX'')
    [''IPA_SSR_BEFORE_SHUTDOWN'', ''IPA_SSR_AFTER_POWERUP'', ''IPA_SSR_EVENT_MAX'']"

definition ipa_vlan_l2tp_event :: "(string \<times> nat) list" where
  "ipa_vlan_l2tp_event = enum_run (enum_val ipa_ssr_event ''IPA_SSR_EVENT_MAX'')
    [''ADD_VLAN_IFACE'', ''DEL_VLAN_IFACE'', ''ADD_L2TP_VLAN_MAPPING'', ''DEL_L2TP_VLAN_MAPPING'',
    ''IPA_VLAN_L2TP_EVENT_MAX'']"

definition ipa_per_client_stats_event :: "(string \<times> nat) list" where
  "ipa_per_client_stats_event = enum_run (enum_val ipa_vlan_l2tp_event ''IPA_VLAN_L2TP_EVENT_MAX'')
    [''IPA_PER_CLIENT_STATS_CONNECT_EVENT'', ''IPA_PER_CLIENT_STATS_DISCONNECT_EVENT'',
    ''IPA_PER_CLIENT_STATS_EVENT_MAX'']"

definition ipa_vlan_bridge_event :: "(string \<times> nat) list" where
  "ipa_vlan_bridge_event = enum_run (enum_val ipa_per_client_stats_event ''IPA_PER_CLIENT_STATS_EVENT_MAX'')
    [''ADD_BRIDGE_VLAN_MAPPING'', ''DEL_BRIDGE_VLAN_MAPPING'', ''BRIDGE_VLAN_MAPPING_MAX'']"

definition ipa_wlan_fw_ssr_event :: "(string \<times> nat) list" where
  "ipa_wlan_fw_ssr_event = enum_run (enum_val ipa_vlan_bridge_event ''BRIDGE_VLAN_MAPPING_MAX'')
    [''WLAN_FWR_SSR_BEFORE_SHUTDOWN'', ''IPA_WLAN_FW_SSR_EVENT_MAX'']"

definition ipa_gsb_event :: "(string \<times> nat) list" where
  "ipa_gsb_event = enum_run (enum_val ipa_wlan_fw_ssr_event ''IPA_WLAN_FW_SSR_EVENT_MAX'')
    [''IPA_GSB_CONNECT'', ''IPA_GSB_DISCONNECT'', ''IPA_GSB_EVENT_MAX'']"

definition ipa_coalesce_event :: "(string \<times> nat) list" where
  "ipa_coalesce_event = enum_run (enum_val ipa_gsb_event ''IPA_GSB_EVENT_MAX'')
    [''IPA_COALESCE_ENABLE'', ''IPA_COALESCE_DISABLE'', ''IPA_COALESCE_EVENT_MAX'']"

definition ipa_mtu_event :: "(string \<times> nat) list" where
  "ipa_mtu_event = enum_run (enum_val ipa_coalesce_event ''IPA_COALESCE_EVENT_MAX'')
    [''IPA_SET_MTU'', ''IPA_MTU_EVENT_MAX'']"

definition ipa_peripheral_event :: "(string \<times> nat) list" where
  "ipa_peripheral_event = [(''IPA_PERIPHERAL_CONNECT'', enum_val ipa_ecm_event ''ECM_CONNECT''),
    (''IPA_PERIPHERAL_DISCONNECT'', enum_val ipa_ecm_event ''ECM_DISCONNECT'')]"

definition WIGIG_CLIENT_CONNECT :: nat where
  "WIGIG_CLIENT_CONNECT = enum_val ipa_mtu_event ''IPA_MTU_EVENT_MAX''"

definition WIGIG_FST_SWITCH :: nat where
  "WIGIG_FST_SWITCH = WIGIG_CLIENT_CONNECT + 1"

definition WIGIG_EVENT_MAX :: nat where
  "WIGIG_EVENT_MAX = WIGIG_FST_SWITCH + 1"

definition ipa_pdn_config_event :: "(string \<times> nat) list" where
  "ipa_pdn_config_event = enum_run WIGIG_EVENT_MAX
    [''IPA_PDN_DEFAULT_MODE_CONFIG'', ''IPA_PDN_IP_COLLISION_MODE_CONFIG'',
    ''IPA_PDN_IP_PASSTHROUGH_MODE_CONFIG'', ''IPA_PDN_CONFIG_EVENT_MAX'']"

definition ipa_mac_flt_event :: "(string \<times> nat) list" where
  "ipa_mac_flt_event = enum_run (enum_val ipa_pdn_config_event ''IPA_PDN_CONFIG_EVENT_MAX'')
    [''IPA_MAC_FLT_EVENT'', ''IPA_MAC_FLT_EVENT_MAX'']"

definition ipa_sockv5_event :: "(string \<times> nat) list" where
  "ipa_sockv5_event = enum_run (enum_val ipa_mac_flt_event ''IPA_MAC_FLT_EVENT_MAX'')
    [''IPA_SOCKV5_ADD'', ''IPA_SOCKV5_DEL'', ''IPA_SOCKV5_EVENT_MAX'']"

definition ipa_warning_limit_event :: "(string \<times> nat) list" where
  "ipa_warning_limit_event = enum_run (enum_val ipa_sockv5_event ''IPA_SOCKV5_EVENT_MAX'')
    [''IPA_WARNING_LIMIT_REACHED'', ''IPA_WARNING_LIMIT_EVENT_MAX'']"

definition ipa_sw_flt_event :: "(string \<times> nat) list" where
  "ipa_sw_flt_event = enum_run (enum_val ipa_warning_limit_event ''IPA_WARNING_LIMIT_EVENT_MAX'')
    [''IPA_SW_FLT_EVENT'', ''IPA_SW_FLT_EVENT_MAX'']"

definition ipa_pkt_threshold_event :: "(string \<times> nat) list" where
  "ipa_pkt_threshold_event = enum_run (enum_val ipa_sw_flt_event ''IPA_SW_FLT_EVENT_MAX'')
    [''IPA_PKT_THRESHOLD_EVENT'', ''IPA_PKT_THRESHOLD_EVENT_MAX'']"

definition ipa_move_nat_table_event :: "(string \<times> nat) list" where
  "ipa_move_nat_table_event = enum_run (enum_val ipa_pkt_threshold_event ''IPA_PKT_THRESHOLD_EVENT_MAX'')
    [''IPA_MOVE_NAT_TABLE'', ''IPA_MOVE_NAT_EVENT_MAX'']"

definition ipa_eogre_event :: "(string \<times> nat) list" where
  "ipa_eogre_event = enum_run (enum_val ipa_move_nat_table_event ''IPA_MOVE_NAT_EVENT_MAX'')
    [''IPA_EoGRE_UP_EVENT'', ''IPA_EoGRE_DOWN_EVENT'', ''IPA_EoGRE_EVENT_MAX'']"

definition ipa_ippt_sw_flt_event :: "(string \<times> nat) list" where
  "ipa_ippt_sw_flt_event = enum_run (enum_val ipa_eogre_event ''IPA_EoGRE_EVENT_MAX'')
    [''IPA_IPPT_SW_FLT_EVENT'', ''IPA_IPPT_SW_FLT_EVENT_MAX'']"

definition ipa_macsec_event :: "(string \<times> nat) list" where
  "ipa_macsec_event = enum_run (enum_val ipa_ippt_sw_flt_event ''IPA_IPPT_SW_FLT_EVENT_MAX'')
    [''IPA_MACSEC_ADD_EVENT'', ''IPA_MACSEC_DEL_EVENT'', ''IPA_MACSEC_EVENT_MAX'']"

definition ipa_done_restore_event :: "(string \<times> nat) list" where
  "ipa_done_restore_event = enum_run (enum_val ipa_macsec_event ''IPA_MACSEC_EVENT_MAX'')
    [''IPA_DONE_RESTORE_EVENT'', ''IPA_DONE_RESTORE_EVENT_MAX'']"

definition ipa_ext_route_evt :: "(string \<times> nat) list" where
  "ipa_ext_route_evt = enum_run (enum_val ipa_done_restore_event ''IPA_DONE_RESTORE_EVENT_MAX'')
    [''IPA_SET_EXT_ROUTER_MODE_EVENT'', ''IPA_SET_EXT_ROUTER_MODE_EVENT_MAX'']"

definition ipa_eth_pdu_evt :: "(string \<times> nat) list" where
  "ipa_eth_pdu_evt = enum_run (enum_val ipa_ext_route_evt ''IPA_SET_EXT_ROUTER_MODE_EVENT_MAX'')
    [''IPA_ENABLE_ETH_PDU_MODE_EVENT'', ''IPA_ENABLE_ETH_PDU_MODE_EVENT_MAX'']"

definition IPA_EVENT_MAX_NUM :: nat where
  "IPA_EVENT_MAX_NUM = enum_val ipa_eth_pdu_evt ''IPA_ENABLE_ETH_PDU_MODE_EVENT_MAX''"

text \<open>All events: every enumeration without its end marker, and the two wigig events.\<close>

definition ipa_events :: "(string \<times> nat) list" where
  "ipa_events =
    butlast ipa_wlan_event @
    butlast ipa_wan_event @
    butlast ipa_ecm_event @
    butlast ipa_tethering_stats_event @
    butlast ipa_quota_event @
    butlast ipa_ssr_event @
    butlast ipa_vlan_l2tp_event @
    butlast ipa_per_client_stats_event @
    butlast ipa_vlan_bridge_event @
    butlast ipa_wlan_fw_ssr_event @
    butlast ipa_gsb_event @
    butlast ipa_coalesce_event @
    butlast ipa_mtu_event @
    [(''WIGIG_CLIENT_CONNECT'', WIGIG_CLIENT_CONNECT), (''WIGIG_FST_SWITCH'', WIGIG_FST_SWITCH)] @
    butlast ipa_pdn_config_event @
    butlast ipa_mac_flt_event @
    butlast ipa_sockv5_event @
    butlast ipa_warning_limit_event @
    butlast ipa_sw_flt_event @
    butlast ipa_pkt_threshold_event @
    butlast ipa_move_nat_table_event @
    butlast ipa_eogre_event @
    butlast ipa_ippt_sw_flt_event @
    butlast ipa_macsec_event @
    butlast ipa_done_restore_event @
    butlast ipa_ext_route_evt @
    butlast ipa_eth_pdu_evt"

section \<open>Rule attributes and resources\<close>

definition IPA_FLT_TOS :: u32 where
  "IPA_FLT_TOS = push_bit 0 1"

definition IPA_FLT_PROTOCOL :: u32 where
  "IPA_FLT_PROTOCOL = push_bit 1 1"

definition IPA_FLT_SRC_ADDR :: u32 where
  "IPA_FLT_SRC_ADDR = push_bit 2 1"

definition IPA_FLT_DST_ADDR :: u32 where
  "IPA_FLT_DST_ADDR = push_bit 3 1"

definition IPA_FLT_SRC_PORT_RANGE :: u32 where
  "IPA_FLT_SRC_PORT_RANGE = push_bit 4 1"

definition IPA_FLT_DST_PORT_RANGE :: u32 where
  "IPA_FLT_DST_PORT_RANGE = push_bit 5 1"

definition IPA_FLT_TYPE :: u32 where
  "IPA_FLT_TYPE = push_bit 6 1"

definition IPA_FLT_CODE :: u32 where
  "IPA_FLT_CODE = push_bit 7 1"

definition IPA_FLT_SPI :: u32 where
  "IPA_FLT_SPI = push_bit 8 1"

definition IPA_FLT_SRC_PORT :: u32 where
  "IPA_FLT_SRC_PORT = push_bit 9 1"

definition IPA_FLT_DST_PORT :: u32 where
  "IPA_FLT_DST_PORT = push_bit 10 1"

definition IPA_FLT_TC :: u32 where
  "IPA_FLT_TC = push_bit 11 1"

definition IPA_FLT_FLOW_LABEL :: u32 where
  "IPA_FLT_FLOW_LABEL = push_bit 12 1"

definition IPA_FLT_NEXT_HDR :: u32 where
  "IPA_FLT_NEXT_HDR = push_bit 13 1"

definition IPA_FLT_META_DATA :: u32 where
  "IPA_FLT_META_DATA = push_bit 14 1"

definition IPA_FLT_FRAGMENT :: u32 where
  "IPA_FLT_FRAGMENT = push_bit 15 1"

definition IPA_FLT_TOS_MASKED :: u32 where
  "IPA_FLT_TOS_MASKED = push_bit 16 1"

definition IPA_FLT_MAC_SRC_ADDR_ETHER_II :: u32 where
  "IPA_FLT_MAC_SRC_ADDR_ETHER_II = push_bit 17 1"

definition IPA_FLT_MAC_DST_ADDR_ETHER_II :: u32 where
  "IPA_FLT_MAC_DST_ADDR_ETHER_II = push_bit 18 1"

definition IPA_FLT_MAC_SRC_ADDR_802_3 :: u32 where
  "IPA_FLT_MAC_SRC_ADDR_802_3 = push_bit 19 1"

definition IPA_FLT_MAC_DST_ADDR_802_3 :: u32 where
  "IPA_FLT_MAC_DST_ADDR_802_3 = push_bit 20 1"

definition IPA_FLT_MAC_ETHER_TYPE :: u32 where
  "IPA_FLT_MAC_ETHER_TYPE = push_bit 21 1"

definition IPA_FLT_MAC_DST_ADDR_L2TP :: u32 where
  "IPA_FLT_MAC_DST_ADDR_L2TP = push_bit 22 1"

definition IPA_FLT_TCP_SYN :: u32 where
  "IPA_FLT_TCP_SYN = push_bit 23 1"

definition IPA_FLT_TCP_SYN_L2TP :: u32 where
  "IPA_FLT_TCP_SYN_L2TP = push_bit 24 1"

definition IPA_FLT_L2TP_INNER_IP_TYPE :: u32 where
  "IPA_FLT_L2TP_INNER_IP_TYPE = push_bit 25 1"

definition IPA_FLT_L2TP_INNER_IPV4_DST_ADDR :: u32 where
  "IPA_FLT_L2TP_INNER_IPV4_DST_ADDR = push_bit 26 1"

definition IPA_FLT_IS_PURE_ACK :: u32 where
  "IPA_FLT_IS_PURE_ACK = push_bit 27 1"

definition IPA_FLT_VLAN_ID :: u32 where
  "IPA_FLT_VLAN_ID = push_bit 28 1"

definition IPA_FLT_MAC_SRC_ADDR_802_1Q :: u32 where
  "IPA_FLT_MAC_SRC_ADDR_802_1Q = push_bit 29 1"

definition IPA_FLT_MAC_DST_ADDR_802_1Q :: u32 where
  "IPA_FLT_MAC_DST_ADDR_802_1Q = push_bit 30 1"

definition IPA_FLT_L2TP_UDP_INNER_MAC_DST_ADDR :: u32 where
  "IPA_FLT_L2TP_UDP_INNER_MAC_DST_ADDR = push_bit 31 1"

definition ipa_flt_attributes :: "u32 list" where
  "ipa_flt_attributes =
    [IPA_FLT_TOS, IPA_FLT_PROTOCOL, IPA_FLT_SRC_ADDR, IPA_FLT_DST_ADDR, IPA_FLT_SRC_PORT_RANGE,
    IPA_FLT_DST_PORT_RANGE, IPA_FLT_TYPE, IPA_FLT_CODE, IPA_FLT_SPI, IPA_FLT_SRC_PORT,
    IPA_FLT_DST_PORT, IPA_FLT_TC, IPA_FLT_FLOW_LABEL, IPA_FLT_NEXT_HDR, IPA_FLT_META_DATA,
    IPA_FLT_FRAGMENT, IPA_FLT_TOS_MASKED, IPA_FLT_MAC_SRC_ADDR_ETHER_II,
    IPA_FLT_MAC_DST_ADDR_ETHER_II, IPA_FLT_MAC_SRC_ADDR_802_3, IPA_FLT_MAC_DST_ADDR_802_3,
    IPA_FLT_MAC_ETHER_TYPE, IPA_FLT_MAC_DST_ADDR_L2TP, IPA_FLT_TCP_SYN, IPA_FLT_TCP_SYN_L2TP,
    IPA_FLT_L2TP_INNER_IP_TYPE, IPA_FLT_L2TP_INNER_IPV4_DST_ADDR, IPA_FLT_IS_PURE_ACK,
    IPA_FLT_VLAN_ID, IPA_FLT_MAC_SRC_ADDR_802_1Q, IPA_FLT_MAC_DST_ADDR_802_1Q,
    IPA_FLT_L2TP_UDP_INNER_MAC_DST_ADDR]"

definition ipa_rm_resource_name :: "(string \<times> nat) list" where
  "ipa_rm_resource_name =
    [(''IPA_RM_RESOURCE_Q6_PROD'', 0), (''IPA_RM_RESOURCE_Q6_CONS'', 1),
    (''IPA_RM_RESOURCE_USB_PROD'', 2), (''IPA_RM_RESOURCE_USB_CONS'', 3),
    (''IPA_RM_RESOURCE_USB_DPL_DUMMY_PROD'', 4), (''IPA_RM_RESOURCE_USB_DPL_CONS'', 5),
    (''IPA_RM_RESOURCE_HSIC_PROD'', 6), (''IPA_RM_RESOURCE_HSIC_CONS'', 7),
    (''IPA_RM_RESOURCE_STD_ECM_PROD'', 8), (''IPA_RM_RESOURCE_APPS_CONS'', 9),
    (''IPA_RM_RESOURCE_RNDIS_PROD'', 10), (''IPA_RM_RESOURCE_WWAN_0_PROD'', 12),
    (''IPA_RM_RESOURCE_WLAN_PROD'', 14), (''IPA_RM_RESOURCE_WLAN_CONS'', 15),
    (''IPA_RM_RESOURCE_ODU_ADAPT_PROD'', 16), (''IPA_RM_RESOURCE_ODU_ADAPT_CONS'', 17),
    (''IPA_RM_RESOURCE_MHI_PROD'', 18), (''IPA_RM_RESOURCE_MHI_CONS'', 19),
    (''IPA_RM_RESOURCE_ETHERNET_PROD'', 20), (''IPA_RM_RESOURCE_ETHERNET_CONS'', 21)]"

section \<open>Lemmas\<close>

lemmas client_defs = IPA_CLIENT_HSIC1_PROD_def IPA_CLIENT_HSIC1_CONS_def IPA_CLIENT_HSIC2_PROD_def IPA_CLIENT_HSIC2_CONS_def IPA_CLIENT_HSIC3_PROD_def IPA_CLIENT_HSIC3_CONS_def IPA_CLIENT_HSIC4_PROD_def IPA_CLIENT_HSIC4_CONS_def IPA_CLIENT_HSIC5_PROD_def IPA_CLIENT_HSIC5_CONS_def IPA_CLIENT_WLAN1_PROD_def IPA_CLIENT_WLAN1_CONS_def IPA_CLIENT_A5_WLAN_AMPDU_PROD_def IPA_CLIENT_WLAN2_CONS_def IPA_CLIENT_WLAN3_PROD_def IPA_CLIENT_WLAN3_CONS_def IPA_CLIENT_WLAN2_PROD1_def IPA_CLIENT_WLAN4_CONS_def IPA_CLIENT_USB_PROD_def IPA_CLIENT_USB_CONS_def IPA_CLIENT_USB2_PROD_def IPA_CLIENT_USB2_CONS_def IPA_CLIENT_USB3_PROD_def IPA_CLIENT_USB3_CONS_def IPA_CLIENT_USB4_PROD_def IPA_CLIENT_USB4_CONS_def IPA_CLIENT_UC_USB_PROD_def IPA_CLIENT_USB_DPL_CONS_def IPA_CLIENT_A2_EMBEDDED_PROD_def IPA_CLIENT_A2_EMBEDDED_CONS_def IPA_CLIENT_A2_TETHERED_PROD_def IPA_CLIENT_A2_TETHERED_CONS_def IPA_CLIENT_APPS_LAN_PROD_def IPA_CLIENT_APPS_LAN_CONS_def IPA_CLIENT_APPS_WAN_PROD_def IPA_CLIENT_APPS_LAN_WAN_PROD_def IPA_CLIENT_APPS_WAN_CONS_def IPA_CLIENT_APPS_CMD_PROD_def IPA_CLIENT_A5_LAN_WAN_CONS_def IPA_CLIENT_ODU_PROD_def IPA_CLIENT_ODU_EMB_CONS_def IPA_CLIENT_WLAN3_PROD1_def IPA_CLIENT_ODU_TETH_CONS_def IPA_CLIENT_MHI_PROD_def IPA_CLIENT_MHI_CONS_def IPA_CLIENT_MEMCPY_DMA_SYNC_PROD_def IPA_CLIENT_MEMCPY_DMA_SYNC_CONS_def IPA_CLIENT_MEMCPY_DMA_ASYNC_PROD_def IPA_CLIENT_MEMCPY_DMA_ASYNC_CONS_def IPA_CLIENT_ETHERNET_PROD_def IPA_CLIENT_ETHERNET_CONS_def IPA_CLIENT_Q6_LAN_PROD_def IPA_CLIENT_Q6_LAN_CONS_def IPA_CLIENT_Q6_WAN_PROD_def IPA_CLIENT_Q6_WAN_CONS_def IPA_CLIENT_Q6_CMD_PROD_def IPA_CLIENT_Q6_DUN_CONS_def IPA_CLIENT_Q6_DECOMP_PROD_def IPA_CLIENT_Q6_DECOMP_CONS_def IPA_CLIENT_Q6_DECOMP2_PROD_def IPA_CLIENT_Q6_DECOMP2_CONS_def IPA_CLIENT_Q6_LTE_WIFI_AGGR_CONS_def IPA_CLIENT_TEST_PROD_def IPA_CLIENT_TEST_CONS_def IPA_CLIENT_TEST1_PROD_def IPA_CLIENT_TEST1_CONS_def IPA_CLIENT_TEST2_PROD_def IPA_CLIENT_TEST2_CONS_def IPA_CLIENT_TEST3_PROD_def IPA_CLIENT_TEST3_CONS_def IPA_CLIENT_TEST4_PROD_def IPA_CLIENT_TEST4_CONS_def IPA_CLIENT_DUMMY_CONS_def IPA_CLIENT_Q6_DL_NLO_DATA_PROD_def IPA_CLIENT_Q6_UL_NLO_DATA_CONS_def IPA_CLIENT_Q6_UL_NLO_ACK_CONS_def IPA_CLIENT_Q6_QBAP_STATUS_CONS_def IPA_CLIENT_MHI_DPL_CONS_def IPA_CLIENT_ODL_DPL_CONS_def IPA_CLIENT_Q6_AUDIO_DMA_MHI_PROD_def IPA_CLIENT_Q6_AUDIO_DMA_MHI_CONS_def IPA_CLIENT_WIGIG_PROD_def IPA_CLIENT_WIGIG1_CONS_def IPA_CLIENT_WIGIG2_CONS_def IPA_CLIENT_WIGIG3_CONS_def IPA_CLIENT_WIGIG4_CONS_def IPA_CLIENT_APPS_WAN_COAL_CONS_def IPA_CLIENT_MHI_PRIME_TETH_PROD_def IPA_CLIENT_MHI_PRIME_TETH_CONS_def IPA_CLIENT_MHI_PRIME_RMNET_PROD_def IPA_CLIENT_MHI_PRIME_RMNET_CONS_def IPA_CLIENT_MHI_PRIME_DPL_PROD_def IPA_CLIENT_MHI_COAL_CONS_def IPA_CLIENT_AQC_ETHERNET_PROD_def IPA_CLIENT_AQC_ETHERNET_CONS_def IPA_CLIENT_APPS_WAN_LOW_LAT_PROD_def IPA_CLIENT_APPS_WAN_LOW_LAT_CONS_def IPA_CLIENT_QDSS_PROD_def IPA_CLIENT_MHI_QDSS_CONS_def IPA_CLIENT_RTK_ETHERNET_PROD_def IPA_CLIENT_RTK_ETHERNET_CONS_def IPA_CLIENT_MHI_LOW_LAT_PROD_def IPA_CLIENT_MHI_LOW_LAT_CONS_def IPA_CLIENT_MHI2_PROD_def IPA_CLIENT_MHI2_CONS_def IPA_CLIENT_Q6_CV2X_PROD_def IPA_CLIENT_Q6_CV2X_CONS_def IPA_CLIENT_ETHERNET2_PROD_def IPA_CLIENT_ETHERNET2_CONS_def IPA_CLIENT_WLAN2_CONS1_def IPA_CLIENT_APPS_WAN_LOW_LAT_DATA_PROD_def IPA_CLIENT_APPS_WAN_LOW_LAT_DATA_CONS_def IPA_CLIENT_Q6_DL_NLO_LL_DATA_PROD_def IPA_CLIENT_TPUT_CONS_def IPA_CLIENT_Q6_DL_NLO_ETH_DATA_PROD_def IPA_CLIENT_APPS_WAN_ETH_PROD_def IPA_CLIENT_WLAN2_PROD_def IPA_CLIENT_MAX_def

lemmas client_class_defs = IPA_CLIENT_IS_APPS_CONS_def IPA_CLIENT_IS_APPS_PROD_def IPA_CLIENT_IS_USB_CONS_def IPA_CLIENT_IS_WAN_CONS_def IPA_CLIENT_IS_LOW_LAT_CONS_def IPA_CLIENT_IS_WLAN_CONS_def IPA_CLIENT_IS_ODU_CONS_def IPA_CLIENT_IS_Q6_CONS_def IPA_CLIENT_IS_Q6_PROD_def IPA_CLIENT_IS_Q6_NON_ZIP_CONS_def IPA_CLIENT_IS_Q6_ZIP_CONS_def IPA_CLIENT_IS_Q6_NON_ZIP_PROD_def IPA_CLIENT_IS_Q6_ZIP_PROD_def IPA_CLIENT_IS_MEMCPY_DMA_CONS_def IPA_CLIENT_IS_MEMCPY_DMA_PROD_def IPA_CLIENT_IS_MHI_def IPA_CLIENT_IS_TEST_PROD_def IPA_CLIENT_IS_TEST_CONS_def IPA_CLIENT_IS_TEST_def

text \<open>The direction of a client by its name.\<close>

fun contains :: "string \<Rightarrow> string \<Rightarrow> bool" where
  "contains p [] = (p = [])"
| "contains p (c # cs) = (take (length p) (c # cs) = p \<or> contains p cs)"

definition directed :: "string \<times> nat \<Rightarrow> bool" where
  "directed x \<longleftrightarrow>
     (contains ''_PROD'' (fst x) \<longleftrightarrow> even (snd x)) \<and> (contains ''_CONS'' (fst x) \<longleftrightarrow> odd (snd x))"

lemma clients_directed: "list_all directed ipa_client_type"
  by code_simp

lemma clients_range: "list_all (\<lambda>x. snd x < IPA_CLIENT_MAX) ipa_client_type"
  by code_simp

lemma resources_directed: "list_all directed ipa_rm_resource_name"
  by code_simp

text \<open>The classes of which a client can be in one only.\<close>

definition client_classes :: "(nat \<Rightarrow> bool) list" where
  "client_classes =
    [IPA_CLIENT_IS_APPS_CONS, IPA_CLIENT_IS_APPS_PROD, IPA_CLIENT_IS_USB_CONS, IPA_CLIENT_IS_WLAN_CONS,
     IPA_CLIENT_IS_ODU_CONS, IPA_CLIENT_IS_Q6_CONS, IPA_CLIENT_IS_Q6_PROD,
     IPA_CLIENT_IS_MEMCPY_DMA_CONS, IPA_CLIENT_IS_MEMCPY_DMA_PROD, IPA_CLIENT_IS_MHI,
     IPA_CLIENT_IS_TEST]"

definition classes_ok :: "nat \<Rightarrow> bool" where
  "classes_ok c \<longleftrightarrow>
    (IPA_CLIENT_IS_Q6_CONS c \<longleftrightarrow> IPA_CLIENT_IS_Q6_NON_ZIP_CONS c \<noteq> IPA_CLIENT_IS_Q6_ZIP_CONS c) \<and>
    (IPA_CLIENT_IS_Q6_PROD c \<longleftrightarrow> IPA_CLIENT_IS_Q6_NON_ZIP_PROD c \<noteq> IPA_CLIENT_IS_Q6_ZIP_PROD c) \<and>
    \<not> (IPA_CLIENT_IS_Q6_NON_ZIP_CONS c \<and> IPA_CLIENT_IS_Q6_ZIP_CONS c) \<and>
    \<not> (IPA_CLIENT_IS_Q6_NON_ZIP_PROD c \<and> IPA_CLIENT_IS_Q6_ZIP_PROD c) \<and>
    (IPA_CLIENT_IS_WAN_CONS c \<or> IPA_CLIENT_IS_LOW_LAT_CONS c \<longrightarrow> IPA_CLIENT_IS_APPS_CONS c) \<and>
    (IPA_CLIENT_IS_APPS_CONS c \<or> IPA_CLIENT_IS_USB_CONS c \<or> IPA_CLIENT_IS_WLAN_CONS c \<or>
     IPA_CLIENT_IS_ODU_CONS c \<or> IPA_CLIENT_IS_Q6_CONS c \<or> IPA_CLIENT_IS_MEMCPY_DMA_CONS c \<or>
     IPA_CLIENT_IS_TEST_CONS c \<longrightarrow> odd c) \<and>
    (IPA_CLIENT_IS_APPS_PROD c \<or> IPA_CLIENT_IS_Q6_PROD c \<or> IPA_CLIENT_IS_MEMCPY_DMA_PROD c \<or>
     IPA_CLIENT_IS_TEST_PROD c \<longrightarrow> even c) \<and>
    length (filter (\<lambda>p. p c) client_classes) \<le> 1"

lemma classes_ok_below: "list_all classes_ok [0..<IPA_CLIENT_MAX]"
  by code_simp

lemma class_below:
  "\<not> c < IPA_CLIENT_MAX \<Longrightarrow> classes_ok c"
  by (simp add: classes_ok_def client_classes_def client_class_defs client_defs)

lemma q6_clients:
  "list_all (\<lambda>x. contains ''_Q6_'' (fst x) \<longrightarrow>
      (IPA_CLIENT_IS_Q6_PROD (snd x) \<longleftrightarrow> even (snd x) \<and> snd x \<noteq> IPA_CLIENT_Q6_DL_NLO_ETH_DATA_PROD) \<and>
      (IPA_CLIENT_IS_Q6_CONS (snd x) \<longleftrightarrow> odd (snd x))) ipa_client_type"
  by code_simp

section \<open>Properties\<close>

text \<open>
  C24. Every client of the enumeration is numbered below \<^verbatim>\<open>IPA_CLIENT_MAX\<close>, producers with even and
  consumers with odd numbers, and so are the resources of the resource manager.  For every number
  the classifying macros agree with this and with each other: consumer classes hold of odd and
  producer classes of even numbers only, the Q6 consumers and producers are divided into zip and
  non-zip ones, the WAN and the low-latency consumers are application consumers, and no number is in
  two of the classes of application, USB, WLAN, ODU, Q6, memory copy, MHI and test clients.  The Q6
  macros hold of every client with a Q6 name, of the right direction, but one:
  \<^verbatim>\<open>IPA_CLIENT_Q6_DL_NLO_ETH_DATA_PROD\<close> is a client of the enumeration and in none of the classes.
\<close>

theorem ipa_client_classes:
  "(\<forall>x\<in>set ipa_client_type. directed x \<and> snd x < IPA_CLIENT_MAX \<and>
      (contains ''_Q6_'' (fst x) \<longrightarrow>
        (IPA_CLIENT_IS_Q6_PROD (snd x) \<longleftrightarrow>
          even (snd x) \<and> snd x \<noteq> IPA_CLIENT_Q6_DL_NLO_ETH_DATA_PROD) \<and>
        (IPA_CLIENT_IS_Q6_CONS (snd x) \<longleftrightarrow> odd (snd x)))) \<and>
   (\<forall>x\<in>set ipa_rm_resource_name. directed x) \<and> classes_ok c \<and>
   (''IPA_CLIENT_Q6_DL_NLO_ETH_DATA_PROD'', IPA_CLIENT_Q6_DL_NLO_ETH_DATA_PROD) \<in> set ipa_client_type \<and>
   (\<forall>p\<in>set client_classes. \<not> p IPA_CLIENT_Q6_DL_NLO_ETH_DATA_PROD)"
proof (intro conjI)
  show "\<forall>x\<in>set ipa_client_type. directed x \<and> snd x < IPA_CLIENT_MAX \<and>
      (contains ''_Q6_'' (fst x) \<longrightarrow>
        (IPA_CLIENT_IS_Q6_PROD (snd x) \<longleftrightarrow>
          even (snd x) \<and> snd x \<noteq> IPA_CLIENT_Q6_DL_NLO_ETH_DATA_PROD) \<and>
        (IPA_CLIENT_IS_Q6_CONS (snd x) \<longleftrightarrow> odd (snd x)))"
    using clients_directed clients_range q6_clients by (simp add: list_all_iff)
  show "classes_ok c"
    using classes_ok_below class_below [of c] by (cases "c < IPA_CLIENT_MAX") (simp_all add: list_all_iff)
  show "\<forall>p\<in>set client_classes. \<not> p IPA_CLIENT_Q6_DL_NLO_ETH_DATA_PROD"
    by (simp add: client_classes_def client_class_defs client_defs)
  show "(''IPA_CLIENT_Q6_DL_NLO_ETH_DATA_PROD'', IPA_CLIENT_Q6_DL_NLO_ETH_DATA_PROD) \<in> set ipa_client_type"
    by (simp add: ipa_client_type_def)
qed (use resources_directed in \<open>simp add: list_all_iff\<close>)

theorem ipa_client_classes_witness:
  "IPA_CLIENT_IS_Q6_PROD IPA_CLIENT_Q6_LAN_PROD \<and> classes_ok IPA_CLIENT_Q6_WAN_CONS"
proof -
  have "(''IPA_CLIENT_Q6_LAN_PROD'', IPA_CLIENT_Q6_LAN_PROD) \<in> set ipa_client_type"
    by (simp add: ipa_client_type_def)
  moreover have "contains ''_Q6_'' ''IPA_CLIENT_Q6_LAN_PROD''" by code_simp
  moreover have "even IPA_CLIENT_Q6_LAN_PROD" "IPA_CLIENT_Q6_LAN_PROD \<noteq> IPA_CLIENT_Q6_DL_NLO_ETH_DATA_PROD"
    by code_simp+
  ultimately show ?thesis
    using ipa_client_classes [of IPA_CLIENT_Q6_WAN_CONS] by (metis fst_conv snd_conv)
qed

text \<open>
  The events of all modules are numbered without gap and without overlap from zero to
  \<^verbatim>\<open>IPA_EVENT_MAX_NUM\<close>, although each enumeration only names the end of the one before it; every code
  fits the one-byte message type.  The peripheral events are the ECM events under another name.
\<close>

lemma ipa_event_codes:
  "map snd ipa_events = [0..<IPA_EVENT_MAX_NUM] \<and> IPA_EVENT_MAX_NUM \<le> 256 \<and>
   distinct (map fst ipa_events) \<and>
   map snd ipa_peripheral_event = map (enum_val ipa_events) [''ECM_CONNECT'', ''ECM_DISCONNECT'']"
  by (intro conjI; code_simp)

end
