(* ===== verification/Ipa_Ioctl.thy ===== *)
theory Ipa_Ioctl
  imports C_Layout
begin

text \<open>
  The structs and ioctls of the IPA driver, from \<^verbatim>\<open>src/include/linux/msm_ipa.h\<close>.  The length of an
  Ethernet address, \<^verbatim>\<open>ETH_ALEN\<close>, comes from a kernel header that is not part of the repository and is
  an argument of the structs that use it.
\<close>

section \<open>Structs\<close>

definition struct_ipa_rule_attrib :: "nat \<Rightarrow> ctype" where
  "struct_ipa_rule_attrib eth_alen = Struct False [
    (''attrib_mask'', Scalar C_u32), (''src_port_lo'', Scalar C_u16),
    (''src_port_hi'', Scalar C_u16), (''dst_port_lo'', Scalar C_u16),
    (''dst_port_hi'', Scalar C_u16), (''type'', Scalar C_u8), (''code'', Scalar C_u8),
    (''tos_value'', Scalar C_u8), (''tos_mask'', Scalar C_u8), (''spi'', Scalar C_u32),
    (''src_port'', Scalar C_u16), (''dst_port'', Scalar C_u16), (''meta_data'', Scalar C_u32),
    (''meta_data_mask'', Scalar C_u32), (''src_mac_addr'', Array (Scalar C_u8) eth_alen),
    (''src_mac_addr_mask'', Array (Scalar C_u8) eth_alen),
    (''dst_mac_addr'', Array (Scalar C_u8) eth_alen),
    (''dst_mac_addr_mask'', Array (Scalar C_u8) eth_alen), (''ether_type'', Scalar C_u16),
    (''u'', Union [
      (''v4'', Struct False [
        (''tos'', Scalar C_u8), (''protocol'', Scalar C_u8), (''src_addr'', Scalar C_u32),
        (''src_addr_mask'', Scalar C_u32), (''dst_addr'', Scalar C_u32),
        (''dst_addr_mask'', Scalar C_u32)]),
      (''v6'', Struct False [
        (''tc'', Scalar C_u8), (''flow_label'', Scalar C_u32), (''next_hdr'', Scalar C_u8),
        (''src_addr'', Array (Scalar C_u32) 4), (''src_addr_mask'', Array (Scalar C_u32) 4),
        (''dst_addr'', Array (Scalar C_u32) 4), (''dst_addr_mask'', Array (Scalar C_u32) 4)])]),
    (''vlan_id'', Scalar C_u16), (''payload_length'', Scalar C_u16),
    (''ext_attrib_mask'', Scalar C_u32), (''l2tp_udp_next_hdr'', Scalar C_u8),
    (''padding1'', Scalar C_u8), (''padding2'', Scalar C_u32)]"

definition struct_ipa_ipfltr_eq_16 :: ctype where
  "struct_ipa_ipfltr_eq_16 = Struct False [
    (''offset'', Scalar C_s8), (''value'', Scalar C_u16)]"

definition struct_ipa_ipfltr_eq_32 :: ctype where
  "struct_ipa_ipfltr_eq_32 = Struct False [
    (''offset'', Scalar C_s8), (''value'', Scalar C_u32)]"

definition struct_ipa_ipfltr_mask_eq_128 :: ctype where
  "struct_ipa_ipfltr_mask_eq_128 = Struct False [
    (''offset'', Scalar C_s8), (''mask'', Array (Scalar C_u8) 16),
    (''value'', Array (Scalar C_u8) 16)]"

definition struct_ipa_ipfltr_mask_eq_32 :: ctype where
  "struct_ipa_ipfltr_mask_eq_32 = Struct False [
    (''offset'', Scalar C_s8), (''mask'', Scalar C_u32), (''value'', Scalar C_u32)]"

definition struct_ipa_ipfltr_range_eq_16 :: ctype where
  "struct_ipa_ipfltr_range_eq_16 = Struct False [
    (''offset'', Scalar C_s8), (''range_low'', Scalar C_u16), (''range_high'', Scalar C_u16)]"

definition struct_ipa_ipfltri_rule_eq :: ctype where
  "struct_ipa_ipfltri_rule_eq = Struct False [
    (''rule_eq_bitmap'', Scalar C_u16), (''tos_eq_present'', Scalar C_u8),
    (''tos_eq'', Scalar C_u8), (''protocol_eq_present'', Scalar C_u8),
    (''protocol_eq'', Scalar C_u8), (''num_ihl_offset_range_16'', Scalar C_u8),
    (''ihl_offset_range_16'', Array struct_ipa_ipfltr_range_eq_16 2),
    (''num_offset_meq_32'', Scalar C_u8),
    (''offset_meq_32'', Array struct_ipa_ipfltr_mask_eq_32 2), (''tc_eq_present'', Scalar C_u8),
    (''tc_eq'', Scalar C_u8), (''fl_eq_present'', Scalar C_u8), (''fl_eq'', Scalar C_u32),
    (''ihl_offset_eq_16_present'', Scalar C_u8), (''ihl_offset_eq_16'', struct_ipa_ipfltr_eq_16),
    (''ihl_offset_eq_32_present'', Scalar C_u8), (''ihl_offset_eq_32'', struct_ipa_ipfltr_eq_32),
    (''num_ihl_offset_meq_32'', Scalar C_u8),
    (''ihl_offset_meq_32'', Array struct_ipa_ipfltr_mask_eq_32 2),
    (''num_offset_meq_128'', Scalar C_u8),
    (''offset_meq_128'', Array struct_ipa_ipfltr_mask_eq_128 2),
    (''metadata_meq32_present'', Scalar C_u8), (''metadata_meq32'', struct_ipa_ipfltr_mask_eq_32),
    (''ipv4_frag_eq_present'', Scalar C_u8)]"

definition struct_ipa_flt_rule :: "nat \<Rightarrow> ctype" where
  "struct_ipa_flt_rule eth_alen = Struct False [
    (''retain_hdr'', Scalar C_u8), (''to_uc'', Scalar C_u8), (''action'', Scalar C_enum),
    (''rt_tbl_hdl'', Scalar C_u32), (''attrib'', struct_ipa_rule_attrib eth_alen),
    (''eq_attrib'', struct_ipa_ipfltri_rule_eq), (''rt_tbl_idx'', Scalar C_u32),
    (''eq_attrib_type'', Scalar C_u8), (''max_prio'', Scalar C_u8), (''hashable'', Scalar C_u8),
    (''rule_id'', Scalar C_u16), (''set_metadata'', Scalar C_u8), (''pdn_idx'', Scalar C_u8)]"

definition struct_ipa_flt_rule_v2 :: "nat \<Rightarrow> ctype" where
  "struct_ipa_flt_rule_v2 eth_alen = Struct False [
    (''retain_hdr'', Scalar C_u8), (''to_uc'', Scalar C_u8), (''action'', Scalar C_enum),
    (''rt_tbl_hdl'', Scalar C_u32), (''attrib'', struct_ipa_rule_attrib eth_alen),
    (''eq_attrib'', struct_ipa_ipfltri_rule_eq), (''rt_tbl_idx'', Scalar C_u32),
    (''eq_attrib_type'', Scalar C_u8), (''max_prio'', Scalar C_u8), (''hashable'', Scalar C_u8),
    (''rule_id'', Scalar C_u16), (''set_metadata'', Scalar C_u8), (''pdn_idx'', Scalar C_u8),
    (''enable_stats'', Scalar C_u8), (''cnt_idx'', Scalar C_u8),
    (''close_aggr_irq_mod'', Scalar C_u8)]"

definition struct_ipa_rt_rule :: "nat \<Rightarrow> ctype" where
  "struct_ipa_rt_rule eth_alen = Struct False [
    (''dst'', Scalar C_enum), (''hdr_hdl'', Scalar C_u32), (''hdr_proc_ctx_hdl'', Scalar C_u32),
    (''attrib'', struct_ipa_rule_attrib eth_alen), (''max_prio'', Scalar C_u8),
    (''hashable'', Scalar C_u8), (''retain_hdr'', Scalar C_u8), (''coalesce'', Scalar C_u8)]"

definition struct_ipa_rt_rule_v2 :: "nat \<Rightarrow> ctype" where
  "struct_ipa_rt_rule_v2 eth_alen = Struct False [
    (''dst'', Scalar C_enum), (''hdr_hdl'', Scalar C_u32), (''hdr_proc_ctx_hdl'', Scalar C_u32),
    (''attrib'', struct_ipa_rule_attrib eth_alen), (''max_prio'', Scalar C_u8),
    (''hashable'', Scalar C_u8), (''retain_hdr'', Scalar C_u8), (''coalesce'', Scalar C_u8),
    (''enable_stats'', Scalar C_u8), (''cnt_idx'', Scalar C_u8),
    (''close_aggr_irq_mod'', Scalar C_u8)]"

definition struct_ipa_hdr_add :: ctype where
  "struct_ipa_hdr_add = Struct False [
    (''name'', Array (Scalar C_char) 32), (''hdr'', Array (Scalar C_u8) 64),
    (''hdr_len'', Scalar C_u8), (''type'', Scalar C_enum), (''is_partial'', Scalar C_u8),
    (''hdr_hdl'', Scalar C_u32), (''status'', Scalar C_int), (''is_eth2_ofst_valid'', Scalar C_u8),
    (''eth2_ofst'', Scalar C_u16)]"

definition struct_ipa_ioc_add_hdr :: ctype where
  "struct_ipa_ioc_add_hdr = Struct False [
    (''commit'', Scalar C_u8), (''num_hdrs'', Scalar C_u8), (''hdr'', Array struct_ipa_hdr_add 0)]"

definition struct_ipa_l2tp_header_add_procparams :: ctype where
  "struct_ipa_l2tp_header_add_procparams = Struct False [
    ('''', Bits C_u32 [(''eth_hdr_retained'', 1), (''input_ip_version'', 1), (''output_ip_version'', 1), (''second_pass'', 1), (''reserved'', 28)]),
    (''padding'', Scalar C_u32)]"

definition struct_ipa_l2tp_header_remove_procparams :: ctype where
  "struct_ipa_l2tp_header_remove_procparams = Struct False [
    ('''', Bits C_u32 [(''hdr_len_remove'', 8), (''eth_hdr_retained'', 1), (''hdr_ofst_pkt_size_valid'', 1), (''hdr_ofst_pkt_size'', 6), (''hdr_endianness'', 1), (''reserved'', 15)])]"

definition struct_ipa_l2tp_hdr_proc_ctx_params :: ctype where
  "struct_ipa_l2tp_hdr_proc_ctx_params = Struct False [
    (''hdr_add_param'', struct_ipa_l2tp_header_add_procparams),
    (''hdr_remove_param'', struct_ipa_l2tp_header_remove_procparams),
    (''is_dst_pipe_valid'', Scalar C_u8), (''dst_pipe'', Scalar C_enum)]"

definition struct_IpaDscpVlanPcpMap_t :: ctype where
  "struct_IpaDscpVlanPcpMap_t = Struct True [
    (''vlan'', Array (Scalar C_u16) 8), (''dscp'', Array (Array (Scalar C_u8) 8) 8),
    (''num_vlan'', Scalar C_u8), (''reserved0'', Scalar C_u8)]"

definition struct_ipa_ipgre_info :: ctype where
  "struct_ipa_ipgre_info = Struct False [
    (''iptype'', Scalar C_enum), (''ipv4_src'', Scalar C_u32), (''ipv4_dst'', Scalar C_u32),
    (''ipv6_src'', Array (Scalar C_u32) 4), (''ipv6_dst'', Array (Scalar C_u32) 4),
    (''gre_protocol'', Scalar C_u16)]"

definition struct_ipa_ioc_eogre_info :: ctype where
  "struct_ipa_ioc_eogre_info = Struct False [
    (''ipgre_info'', struct_ipa_ipgre_info), (''map_info'', struct_IpaDscpVlanPcpMap_t)]"

definition struct_ipa_eogre_header_add_procparams :: ctype where
  "struct_ipa_eogre_header_add_procparams = Struct False [
    ('''', Bits C_u32 [(''eth_hdr_retained'', 1), (''input_ip_version'', 1), (''output_ip_version'', 1), (''second_pass'', 1), (''reserved'', 28)])]"

definition struct_ipa_eogre_header_remove_procparams :: ctype where
  "struct_ipa_eogre_header_remove_procparams = Struct False [
    ('''', Bits C_u32 [(''hdr_len_remove'', 8), (''reserved'', 24)])]"

definition struct_ipa_eogre_hdr_proc_ctx_params :: ctype where
  "struct_ipa_eogre_hdr_proc_ctx_params = Struct False [
    (''hdr_add_param'', struct_ipa_eogre_header_add_procparams),
    (''hdr_remove_param'', struct_ipa_eogre_header_remove_procparams)]"

definition struct_ipa_eth_II_to_eth_II_ex_procparams :: ctype where
  "struct_ipa_eth_II_to_eth_II_ex_procparams = Struct False [
    ('''', Bits C_u32 [(''input_ethhdr_negative_offset'', 8), (''output_ethhdr_negative_offset'', 8), (''output_dscp_pcp_update'', 1), (''reserved'', 15)])]"

definition struct_ipa_wwan_to_eth_II_ex_procparams :: ctype where
  "struct_ipa_wwan_to_eth_II_ex_procparams = Struct False [
    ('''', Bits C_u32 [(''input_ethhdr_negative_offset'', 8), (''output_ethhdr_negative_offset'', 8), (''output_dscp_pcp_update'', 1), (''input_ethhdr_valid'', 1), (''reserved'', 14)])]"

definition struct_ipa_hdr_proc_ctx_add :: ctype where
  "struct_ipa_hdr_proc_ctx_add = Struct False [
    (''type'', Scalar C_enum), (''hdr_hdl'', Scalar C_u32), (''proc_ctx_hdl'', Scalar C_u32),
    (''status'', Scalar C_int), (''l2tp_params'', struct_ipa_l2tp_hdr_proc_ctx_params),
    (''eogre_params'', struct_ipa_eogre_hdr_proc_ctx_params),
    (''generic_params'', struct_ipa_eth_II_to_eth_II_ex_procparams),
    (''generic_params_v2'', struct_ipa_wwan_to_eth_II_ex_procparams)]"

definition struct_ipa_ioc_add_hdr_proc_ctx :: ctype where
  "struct_ipa_ioc_add_hdr_proc_ctx = Struct False [
    (''commit'', Scalar C_u8), (''num_proc_ctxs'', Scalar C_u8),
    (''proc_ctx'', Array struct_ipa_hdr_proc_ctx_add 0)]"

definition struct_ipa_ioc_copy_hdr :: ctype where
  "struct_ipa_ioc_copy_hdr = Struct False [
    (''name'', Array (Scalar C_char) 32), (''hdr'', Array (Scalar C_u8) 64),
    (''hdr_len'', Scalar C_u8), (''type'', Scalar C_enum), (''is_partial'', Scalar C_u8),
    (''is_eth2_ofst_valid'', Scalar C_u8), (''eth2_ofst'', Scalar C_u16)]"

definition struct_ipa_ioc_get_hdr :: ctype where
  "struct_ipa_ioc_get_hdr = Struct False [
    (''name'', Array (Scalar C_char) 32), (''hdl'', Scalar C_u32)]"

definition struct_ipa_hdr_del :: ctype where
  "struct_ipa_hdr_del = Struct False [
    (''hdl'', Scalar C_u32), (''status'', Scalar C_int)]"

definition struct_ipa_ioc_del_hdr :: ctype where
  "struct_ipa_ioc_del_hdr = Struct False [
    (''commit'', Scalar C_u8), (''num_hdls'', Scalar C_u8), (''hdl'', Array struct_ipa_hdr_del 0)]"

definition struct_ipa_hdr_proc_ctx_del :: ctype where
  "struct_ipa_hdr_proc_ctx_del = Struct False [
    (''hdl'', Scalar C_u32), (''status'', Scalar C_int)]"

definition struct_ipa_ioc_del_hdr_proc_ctx :: ctype where
  "struct_ipa_ioc_del_hdr_proc_ctx = Struct False [
    (''commit'', Scalar C_u8), (''num_hdls'', Scalar C_u8),
    (''hdl'', Array struct_ipa_hdr_proc_ctx_del 0)]"

definition struct_ipa_rt_rule_add :: "nat \<Rightarrow> ctype" where
  "struct_ipa_rt_rule_add eth_alen = Struct False [
    (''rule'', struct_ipa_rt_rule eth_alen), (''at_rear'', Scalar C_u8),
    (''rt_rule_hdl'', Scalar C_u32), (''status'', Scalar C_int)]"

definition struct_ipa_rt_rule_add_v2 :: "nat \<Rightarrow> ctype" where
  "struct_ipa_rt_rule_add_v2 eth_alen = Struct False [
    (''at_rear'', Scalar C_u8), (''rt_rule_hdl'', Scalar C_u32), (''status'', Scalar C_int),
    (''rule'', struct_ipa_rt_rule_v2 eth_alen)]"

definition struct_ipa_ioc_add_rt_rule :: "nat \<Rightarrow> ctype" where
  "struct_ipa_ioc_add_rt_rule eth_alen = Struct False [
    (''commit'', Scalar C_u8), (''ip'', Scalar C_enum),
    (''rt_tbl_name'', Array (Scalar C_char) 32), (''num_rules'', Scalar C_u8),
    (''rules'', Array (struct_ipa_rt_rule_add eth_alen) 0)]"

definition struct_ipa_ioc_add_rt_rule_v2 :: ctype where
  "struct_ipa_ioc_add_rt_rule_v2 = Struct False [
    (''commit'', Scalar C_u8), (''ip'', Scalar C_enum),
    (''rt_tbl_name'', Array (Scalar C_char) 32), (''num_rules'', Scalar C_u8),
    (''rule_add_size'', Scalar C_u32), (''reserved1'', Scalar C_u32), (''reserved2'', Scalar C_u8),
    (''rules'', Scalar C_u64)]"

definition struct_ipa_ioc_add_rt_rule_after :: "nat \<Rightarrow> ctype" where
  "struct_ipa_ioc_add_rt_rule_after eth_alen = Struct False [
    (''commit'', Scalar C_u8), (''ip'', Scalar C_enum),
    (''rt_tbl_name'', Array (Scalar C_char) 32), (''num_rules'', Scalar C_u8),
    (''add_after_hdl'', Scalar C_u32), (''rules'', Array (struct_ipa_rt_rule_add eth_alen) 0)]"

definition struct_ipa_ioc_add_rt_rule_after_v2 :: ctype where
  "struct_ipa_ioc_add_rt_rule_after_v2 = Struct False [
    (''commit'', Scalar C_u8), (''ip'', Scalar C_enum),
    (''rt_tbl_name'', Array (Scalar C_char) 32), (''num_rules'', Scalar C_u8),
    (''add_after_hdl'', Scalar C_u32), (''rule_add_size'', Scalar C_u32),
    (''reserved'', Scalar C_u8), (''rules'', Scalar C_u64)]"

definition struct_ipa_rt_rule_mdfy :: "nat \<Rightarrow> ctype" where
  "struct_ipa_rt_rule_mdfy eth_alen = Struct False [
    (''rule'', struct_ipa_rt_rule eth_alen), (''rt_rule_hdl'', Scalar C_u32),
    (''status'', Scalar C_int)]"

definition struct_ipa_rt_rule_mdfy_v2 :: "nat \<Rightarrow> ctype" where
  "struct_ipa_rt_rule_mdfy_v2 eth_alen = Struct False [
    (''rt_rule_hdl'', Scalar C_u32), (''status'', Scalar C_int),
    (''rule'', struct_ipa_rt_rule_v2 eth_alen)]"

definition struct_ipa_ioc_mdfy_rt_rule :: "nat \<Rightarrow> ctype" where
  "struct_ipa_ioc_mdfy_rt_rule eth_alen = Struct False [
    (''commit'', Scalar C_u8), (''ip'', Scalar C_enum), (''num_rules'', Scalar C_u8),
    (''rules'', Array (struct_ipa_rt_rule_mdfy eth_alen) 0)]"

definition struct_ipa_ioc_mdfy_rt_rule_v2 :: ctype where
  "struct_ipa_ioc_mdfy_rt_rule_v2 = Struct False [
    (''commit'', Scalar C_u8), (''ip'', Scalar C_enum), (''num_rules'', Scalar C_u8),
    (''rule_mdfy_size'', Scalar C_u32), (''reserved'', Scalar C_u8), (''rules'', Scalar C_u64)]"

definition struct_ipa_rt_rule_del :: ctype where
  "struct_ipa_rt_rule_del = Struct False [
    (''hdl'', Scalar C_u32), (''status'', Scalar C_int)]"

definition struct_ipa_rt_rule_add_ext :: "nat \<Rightarrow> ctype" where
  "struct_ipa_rt_rule_add_ext eth_alen = Struct False [
    (''rule'', struct_ipa_rt_rule eth_alen), (''at_rear'', Scalar C_u8),
    (''rt_rule_hdl'', Scalar C_u32), (''status'', Scalar C_int), (''rule_id'', Scalar C_u16)]"

definition struct_ipa_rt_rule_add_ext_v2 :: "nat \<Rightarrow> ctype" where
  "struct_ipa_rt_rule_add_ext_v2 eth_alen = Struct False [
    (''at_rear'', Scalar C_u8), (''rt_rule_hdl'', Scalar C_u32), (''status'', Scalar C_int),
    (''rule_id'', Scalar C_u16), (''rule'', struct_ipa_rt_rule_v2 eth_alen)]"

definition struct_ipa_ioc_add_rt_rule_ext :: "nat \<Rightarrow> ctype" where
  "struct_ipa_ioc_add_rt_rule_ext eth_alen = Struct False [
    (''commit'', Scalar C_u8), (''ip'', Scalar C_enum),
    (''rt_tbl_name'', Array (Scalar C_char) 32), (''num_rules'', Scalar C_u8),
    (''rules'', Array (struct_ipa_rt_rule_add_ext eth_alen) 0)]"

definition struct_ipa_ioc_add_rt_rule_ext_v2 :: ctype where
  "struct_ipa_ioc_add_rt_rule_ext_v2 = Struct False [
    (''commit'', Scalar C_u8), (''ip'', Scalar C_enum),
    (''rt_tbl_name'', Array (Scalar C_char) 32), (''num_rules'', Scalar C_u8),
    (''rule_add_ext_size'', Scalar C_u32), (''reserved1'', Scalar C_u32),
    (''reserved2'', Scalar C_u8), (''rules'', Scalar C_u64)]"

definition struct_ipa_ioc_del_rt_rule :: ctype where
  "struct_ipa_ioc_del_rt_rule = Struct False [
    (''commit'', Scalar C_u8), (''ip'', Scalar C_enum), (''num_hdls'', Scalar C_u8),
    (''hdl'', Array struct_ipa_rt_rule_del 0)]"

definition struct_ipa_ioc_get_rt_tbl_indx :: ctype where
  "struct_ipa_ioc_get_rt_tbl_indx = Struct False [
    (''ip'', Scalar C_enum), (''name'', Array (Scalar C_char) 32), (''idx'', Scalar C_u32)]"

definition struct_ipa_flt_rule_add :: "nat \<Rightarrow> ctype" where
  "struct_ipa_flt_rule_add eth_alen = Struct False [
    (''rule'', struct_ipa_flt_rule eth_alen), (''at_rear'', Scalar C_u8),
    (''flt_rule_hdl'', Scalar C_u32), (''status'', Scalar C_int)]"

definition struct_ipa_flt_rule_add_v2 :: "nat \<Rightarrow> ctype" where
  "struct_ipa_flt_rule_add_v2 eth_alen = Struct False [
    (''at_rear'', Scalar C_u8), (''flt_rule_hdl'', Scalar C_u32), (''status'', Scalar C_int),
    (''rule'', struct_ipa_flt_rule_v2 eth_alen)]"

definition struct_ipa_ioc_add_flt_rule :: "nat \<Rightarrow> ctype" where
  "struct_ipa_ioc_add_flt_rule eth_alen = Struct False [
    (''commit'', Scalar C_u8), (''ip'', Scalar C_enum), (''ep'', Scalar C_enum),
    (''global'', Scalar C_u8), (''num_rules'', Scalar C_u8),
    (''rules'', Array (struct_ipa_flt_rule_add eth_alen) 0)]"

definition struct_ipa_ioc_add_flt_rule_v2 :: ctype where
  "struct_ipa_ioc_add_flt_rule_v2 = Struct False [
    (''commit'', Scalar C_u8), (''ip'', Scalar C_enum), (''ep'', Scalar C_enum),
    (''global'', Scalar C_u8), (''num_rules'', Scalar C_u8), (''flt_rule_size'', Scalar C_u32),
    (''reserved1'', Scalar C_u32), (''reserved2'', Scalar C_u16), (''reserved3'', Scalar C_u8),
    (''rules'', Scalar C_u64)]"

definition struct_ipa_ioc_add_flt_rule_after :: "nat \<Rightarrow> ctype" where
  "struct_ipa_ioc_add_flt_rule_after eth_alen = Struct False [
    (''commit'', Scalar C_u8), (''ip'', Scalar C_enum), (''ep'', Scalar C_enum),
    (''num_rules'', Scalar C_u8), (''add_after_hdl'', Scalar C_u32),
    (''rules'', Array (struct_ipa_flt_rule_add eth_alen) 0)]"

definition struct_ipa_ioc_add_flt_rule_after_v2 :: ctype where
  "struct_ipa_ioc_add_flt_rule_after_v2 = Struct False [
    (''commit'', Scalar C_u8), (''ip'', Scalar C_enum), (''ep'', Scalar C_enum),
    (''num_rules'', Scalar C_u8), (''add_after_hdl'', Scalar C_u32),
    (''flt_rule_size'', Scalar C_u32), (''reserved'', Scalar C_u32), (''rules'', Scalar C_u64)]"

definition struct_ipa_flt_rule_mdfy :: "nat \<Rightarrow> ctype" where
  "struct_ipa_flt_rule_mdfy eth_alen = Struct False [
    (''rule'', struct_ipa_flt_rule eth_alen), (''rule_hdl'', Scalar C_u32),
    (''status'', Scalar C_int)]"

definition struct_ipa_flt_rule_mdfy_v2 :: "nat \<Rightarrow> ctype" where
  "struct_ipa_flt_rule_mdfy_v2 eth_alen = Struct False [
    (''rule_hdl'', Scalar C_u32), (''status'', Scalar C_int),
    (''rule'', struct_ipa_flt_rule_v2 eth_alen)]"

definition struct_ipa_ioc_mdfy_flt_rule :: "nat \<Rightarrow> ctype" where
  "struct_ipa_ioc_mdfy_flt_rule eth_alen = Struct False [
    (''commit'', Scalar C_u8), (''ip'', Scalar C_enum), (''num_rules'', Scalar C_u8),
    (''rules'', Array (struct_ipa_flt_rule_mdfy eth_alen) 0)]"

definition struct_ipa_ioc_mdfy_flt_rule_v2 :: ctype where
  "struct_ipa_ioc_mdfy_flt_rule_v2 = Struct False [
    (''commit'', Scalar C_u8), (''ip'', Scalar C_enum), (''num_rules'', Scalar C_u8),
    (''rule_mdfy_size'', Scalar C_u32), (''reserved'', Scalar C_u8), (''rules'', Scalar C_u64)]"

definition struct_ipa_flt_rule_del :: ctype where
  "struct_ipa_flt_rule_del = Struct False [
    (''hdl'', Scalar C_u32), (''status'', Scalar C_int)]"

definition struct_ipa_ioc_del_flt_rule :: ctype where
  "struct_ipa_ioc_del_flt_rule = Struct False [
    (''commit'', Scalar C_u8), (''ip'', Scalar C_enum), (''num_hdls'', Scalar C_u8),
    (''hdl'', Array struct_ipa_flt_rule_del 0)]"

definition struct_ipa_ioc_get_rt_tbl :: ctype where
  "struct_ipa_ioc_get_rt_tbl = Struct False [
    (''ip'', Scalar C_enum), (''name'', Array (Scalar C_char) 32), (''hdl'', Scalar C_u32)]"

definition struct_ipa_ioc_query_intf :: ctype where
  "struct_ipa_ioc_query_intf = Struct False [
    (''name'', Array (Scalar C_char) 32), (''num_tx_props'', Scalar C_u32),
    (''num_rx_props'', Scalar C_u32), (''num_ext_props'', Scalar C_u32),
    (''excp_pipe'', Scalar C_enum)]"

definition struct_ipa_ioc_tx_intf_prop :: "nat \<Rightarrow> ctype" where
  "struct_ipa_ioc_tx_intf_prop eth_alen = Struct False [
    (''ip'', Scalar C_enum), (''attrib'', struct_ipa_rule_attrib eth_alen),
    (''dst_pipe'', Scalar C_enum), (''alt_dst_pipe'', Scalar C_enum),
    (''hdr_name'', Array (Scalar C_char) 32), (''hdr_l2_type'', Scalar C_enum)]"

definition struct_ipa_ioc_query_intf_tx_props :: "nat \<Rightarrow> ctype" where
  "struct_ipa_ioc_query_intf_tx_props eth_alen = Struct False [
    (''name'', Array (Scalar C_char) 32), (''num_tx_props'', Scalar C_u32),
    (''tx'', Array (struct_ipa_ioc_tx_intf_prop eth_alen) 0)]"

definition struct_ipa_ioc_ext_intf_prop :: ctype where
  "struct_ipa_ioc_ext_intf_prop = Struct False [
    (''ip'', Scalar C_enum), (''eq_attrib'', struct_ipa_ipfltri_rule_eq),
    (''action'', Scalar C_enum), (''rt_tbl_idx'', Scalar C_u32), (''mux_id'', Scalar C_u8),
    (''filter_hdl'', Scalar C_u32), (''is_xlat_rule'', Scalar C_u8), (''rule_id'', Scalar C_u32),
    (''is_rule_hashable'', Scalar C_u8), (''replicate_needed'', Scalar C_u8)]"

definition struct_ipa_ioc_query_intf_ext_props :: ctype where
  "struct_ipa_ioc_query_intf_ext_props = Struct False [
    (''name'', Array (Scalar C_char) 32), (''num_ext_props'', Scalar C_u32),
    (''ext'', Array struct_ipa_ioc_ext_intf_prop 0)]"

definition struct_ipa_ioc_rx_intf_prop :: "nat \<Rightarrow> ctype" where
  "struct_ipa_ioc_rx_intf_prop eth_alen = Struct False [
    (''ip'', Scalar C_enum), (''attrib'', struct_ipa_rule_attrib eth_alen),
    (''src_pipe'', Scalar C_enum), (''hdr_l2_type'', Scalar C_enum)]"

definition struct_ipa_ioc_query_intf_rx_props :: "nat \<Rightarrow> ctype" where
  "struct_ipa_ioc_query_intf_rx_props eth_alen = Struct False [
    (''name'', Array (Scalar C_char) 32), (''num_rx_props'', Scalar C_u32),
    (''rx'', Array (struct_ipa_ioc_rx_intf_prop eth_alen) 0)]"

definition struct_ipa_ioc_nat_alloc_mem :: ctype where
  "struct_ipa_ioc_nat_alloc_mem = Struct False [
    (''dev_name'', Array (Scalar C_char) 32), (''size'', Scalar C_size_t),
    (''offset'', Scalar C_long)]"

definition struct_ipa_ioc_nat_ipv6ct_table_alloc :: ctype where
  "struct_ipa_ioc_nat_ipv6ct_table_alloc = Struct False [
    (''size'', Scalar C_size_t), (''offset'', Scalar C_long)]"

definition struct_ipa_ioc_v4_nat_init :: ctype where
  "struct_ipa_ioc_v4_nat_init = Struct False [
    (''tbl_index'', Scalar C_u8), (''ipv4_rules_offset'', Scalar C_u32),
    (''expn_rules_offset'', Scalar C_u32), (''index_offset'', Scalar C_u32),
    (''index_expn_offset'', Scalar C_u32), (''table_entries'', Scalar C_u16),
    (''expn_table_entries'', Scalar C_u16), (''ip_addr'', Scalar C_u32),
    (''mem_type'', Scalar C_u8), (''focus_change'', Scalar C_u8)]"

definition struct_ipa_ioc_ipv6ct_init :: ctype where
  "struct_ipa_ioc_ipv6ct_init = Struct False [
    (''base_table_offset'', Scalar C_u32), (''expn_table_offset'', Scalar C_u32),
    (''table_entries'', Scalar C_u16), (''expn_table_entries'', Scalar C_u16),
    (''tbl_index'', Scalar C_u8)]"

definition struct_ipa_ioc_v4_nat_del :: ctype where
  "struct_ipa_ioc_v4_nat_del = Struct False [
    (''table_index'', Scalar C_u8), (''public_ip_addr'', Scalar C_u32)]"

definition struct_ipa_ioc_nat_ipv6ct_table_del :: ctype where
  "struct_ipa_ioc_nat_ipv6ct_table_del = Struct False [
    (''table_index'', Scalar C_u8), (''mem_type'', Scalar C_u8)]"

definition struct_ipa_ioc_nat_dma_one :: ctype where
  "struct_ipa_ioc_nat_dma_one = Struct False [
    (''table_index'', Scalar C_u8), (''base_addr'', Scalar C_u8), (''offset'', Scalar C_u32),
    (''data'', Scalar C_u16)]"

definition struct_ipa_ioc_nat_dma_cmd :: ctype where
  "struct_ipa_ioc_nat_dma_cmd = Struct False [
    (''entries'', Scalar C_u8), (''mem_type'', Scalar C_u8),
    (''dma'', Array struct_ipa_ioc_nat_dma_one 0)]"

definition struct_ipa_ioc_nat_pdn_entry :: ctype where
  "struct_ipa_ioc_nat_pdn_entry = Struct False [
    (''pdn_index'', Scalar C_u8), (''public_ip'', Scalar C_u32), (''src_metadata'', Scalar C_u32),
    (''dst_metadata'', Scalar C_u32)]"

definition struct_ipa_ioc_vlan_iface_info :: ctype where
  "struct_ipa_ioc_vlan_iface_info = Struct False [
    (''name'', Array (Scalar C_char) 32), (''vlan_id'', Scalar C_u8)]"

definition struct_ipa_ioc_l2tp_vlan_mapping_info :: ctype where
  "struct_ipa_ioc_l2tp_vlan_mapping_info = Struct False [
    (''iptype'', Scalar C_enum), (''l2tp_iface_name'', Array (Scalar C_char) 32),
    (''l2tp_session_id'', Scalar C_u8), (''vlan_iface_name'', Array (Scalar C_char) 32),
    (''tunnel_type'', Scalar C_enum), (''src_port'', Scalar C_u16), (''dst_port'', Scalar C_u16),
    (''mtu'', Scalar C_u16), (''padding'', Scalar C_u8)]"

definition struct_ipa_ioc_gsb_info :: ctype where
  "struct_ipa_ioc_gsb_info = Struct False [
    (''name'', Array (Scalar C_char) 32)]"

definition struct_ipa_ep_pair_info :: ctype where
  "struct_ipa_ep_pair_info = Struct False [
    (''consumer_pipe_num'', Scalar C_u32), (''producer_pipe_num'', Scalar C_u32),
    (''ep_id'', Scalar C_u32), (''padding'', Scalar C_u32)]"

definition struct_ipa_ioc_get_ep_info :: ctype where
  "struct_ipa_ioc_get_ep_info = Struct False [
    (''ep_type'', Scalar C_enum), (''ep_pair_size'', Scalar C_u32),
    (''max_ep_pairs'', Scalar C_u8), (''num_ep_pairs'', Scalar C_u8), (''padding'', Scalar C_u16),
    (''info'', Scalar C_u64), (''teth_prot'', Scalar C_enum), (''teth_prot_valid'', Scalar C_u8)]"

definition struct_ipa_set_pkt_threshold :: ctype where
  "struct_ipa_set_pkt_threshold = Struct False [
    (''pkt_threshold_enable'', Scalar C_u8), (''pkt_threshold'', Scalar C_int)]"

definition struct_ipa_ioc_set_pkt_threshold :: ctype where
  "struct_ipa_ioc_set_pkt_threshold = Struct False [
    (''ioctl_ptr'', Scalar C_u64), (''ioctl_data_size'', Scalar C_u32),
    (''padding'', Scalar C_u32)]"

definition struct_ipa_ioc_wigig_fst_switch :: ctype where
  "struct_ipa_ioc_wigig_fst_switch = Struct False [
    (''netdev_name'', Array (Scalar C_u8) 32), (''client_mac_addr'', Array (Scalar C_u8) 6),
    (''to_wigig'', Scalar C_int)]"

definition struct_ipa_msg_meta :: ctype where
  "struct_ipa_msg_meta = Struct False [
    (''msg_type'', Scalar C_u8), (''rsvd'', Scalar C_u8), (''msg_len'', Scalar C_u16)]"

definition struct_ipa_wlan_msg :: ctype where
  "struct_ipa_wlan_msg = Struct False [
    (''name'', Array (Scalar C_char) 32), (''mac_addr'', Array (Scalar C_u8) 6),
    (''ast_update'', Scalar C_u8)]"

definition struct_ipa_wlan_hdr_attrib_val :: ctype where
  "struct_ipa_wlan_hdr_attrib_val = Struct False [
    (''attrib_type'', Scalar C_enum), (''offset'', Scalar C_u8),
    (''u'', Union [
      (''mac_addr'', Array (Scalar C_u8) 6), (''sta_id'', Scalar C_u8),
      (''ta_peer_id'', Scalar C_u16)])]"

definition struct_ipa_wlan_msg_ex :: ctype where
  "struct_ipa_wlan_msg_ex = Struct False [
    (''name'', Array (Scalar C_char) 32), (''num_of_attribs'', Scalar C_u8),
    (''attribs'', Array struct_ipa_wlan_hdr_attrib_val 0)]"

definition struct_ipa_wigig_msg :: ctype where
  "struct_ipa_wigig_msg = Struct False [
    (''name'', Array (Scalar C_char) 32), (''client_mac_addr'', Array (Scalar C_u8) 6),
    (''u'', Union [
      (''ipa_client'', Scalar C_enum), (''to_wigig'', Scalar C_u8)])]"

definition struct_ipa_ecm_msg :: ctype where
  "struct_ipa_ecm_msg = Struct False [
    (''name'', Array (Scalar C_char) 32), (''ifindex'', Scalar C_int)]"

definition struct_ipa_wan_msg :: ctype where
  "struct_ipa_wan_msg = Struct False [
    (''upstream_ifname'', Array (Scalar C_char) 32),
    (''tethered_ifname'', Array (Scalar C_char) 32), (''ip'', Scalar C_enum),
    (''ipv4_addr_gw'', Scalar C_u32), (''ipv6_addr_gw'', Array (Scalar C_u32) 4)]"

definition struct_ipa_kernel_tests_socksv5_uc_tmpl :: ctype where
  "struct_ipa_kernel_tests_socksv5_uc_tmpl = Struct False [
    (''direction'', Scalar C_u8), (''padding1'', Scalar C_u8), (''handle'', Scalar C_u16),
    (''cmd_id'', Scalar C_u16), (''padding2'', Scalar C_u16), (''cmd_param'', Scalar C_u32),
    (''ip_src_addr'', Scalar C_u32), (''ip_dst_addr'', Scalar C_u32),
    (''ipv6_src_addr'', Array (Scalar C_u32) 4), (''ipv6_dst_addr'', Array (Scalar C_u32) 4),
    (''src_port'', Scalar C_u16), (''dst_port'', Scalar C_u16),
    (''ipa_sockv5_mask'', Scalar C_u32), (''out_irs'', Scalar C_u32), (''out_iss'', Scalar C_u32),
    (''in_irs'', Scalar C_u32), (''in_iss'', Scalar C_u32), (''out_ircv_tsval'', Scalar C_u32),
    (''in_ircv_tsecr'', Scalar C_u32), (''out_ircv_tsecr'', Scalar C_u32),
    (''in_ircv_tsval'', Scalar C_u32),
    ('''', Bits C_u16 [(''in_isnd_wscale'', 4), (''out_isnd_wscale'', 4), (''in_ircv_wscale'', 4), (''out_ircv_wscale'', 4)]),
    (''padding3'', Scalar C_u32)]"

definition struct_ipacm_socksv5_info :: ctype where
  "struct_ipacm_socksv5_info = Struct False [
    (''ip_type'', Scalar C_enum), (''ipv4_src'', Scalar C_u32), (''ipv4_dst'', Scalar C_u32),
    (''ipv6_src'', Array (Scalar C_u32) 4), (''ipv6_dst'', Array (Scalar C_u32) 4),
    (''src_port'', Scalar C_u16), (''dst_port'', Scalar C_u16), (''index'', Scalar C_u16),
    (''padding'', Scalar C_u16)]"

definition struct_ipa_socksv5_msg :: ctype where
  "struct_ipa_socksv5_msg = Struct False [
    (''ul_in'', struct_ipacm_socksv5_info), (''dl_in'', struct_ipacm_socksv5_info),
    (''handle'', Scalar C_u16), (''padding'', Scalar C_u16)]"

definition struct_ipa_ioc_ipv6_nat_uc_act_entry :: ctype where
  "struct_ipa_ioc_ipv6_nat_uc_act_entry = Struct False [
    (''cmd_id'', Scalar C_u16), (''index'', Scalar C_u16), (''padding'', Scalar C_u32),
    (''private_port'', Scalar C_u32), (''public_port'', Scalar C_u32),
    (''private_address_lsb'', Scalar C_u64), (''private_address_msb'', Scalar C_u64),
    (''public_address_lsb'', Scalar C_u64), (''public_address_msb'', Scalar C_u64)]"

definition struct_ipa_ioc_uc_activation_entry :: ctype where
  "struct_ipa_ioc_uc_activation_entry = Union [
    (''socks'', struct_ipa_kernel_tests_socksv5_uc_tmpl),
    (''ipv6_nat'', struct_ipa_ioc_ipv6_nat_uc_act_entry)]"

definition struct_ipa_ioc_rm_dependency :: ctype where
  "struct_ipa_ioc_rm_dependency = Struct False [
    (''resource_name'', Scalar C_enum), (''depends_on_name'', Scalar C_enum)]"

definition struct_ipa_ioc_generate_flt_eq :: "nat \<Rightarrow> ctype" where
  "struct_ipa_ioc_generate_flt_eq eth_alen = Struct False [
    (''ip'', Scalar C_enum), (''attrib'', struct_ipa_rule_attrib eth_alen),
    (''eq_attrib'', struct_ipa_ipfltri_rule_eq)]"

definition struct_ipa_ioc_write_qmapid :: ctype where
  "struct_ipa_ioc_write_qmapid = Struct False [
    (''client'', Scalar C_enum), (''qmap_id'', Scalar C_u8)]"

definition struct_ipa_flt_rt_counter_alloc :: ctype where
  "struct_ipa_flt_rt_counter_alloc = Struct False [
    (''num_counters'', Scalar C_u8), (''allow_less'', Scalar C_u8), (''start_id'', Scalar C_u8),
    (''end_id'', Scalar C_u8)]"

definition struct_ipa_ioc_flt_rt_counter_alloc :: ctype where
  "struct_ipa_ioc_flt_rt_counter_alloc = Struct False [
    (''hdl'', Scalar C_int), (''hw_counter'', struct_ipa_flt_rt_counter_alloc),
    (''sw_counter'', struct_ipa_flt_rt_counter_alloc)]"

definition struct_ipa_flt_rt_stats :: ctype where
  "struct_ipa_flt_rt_stats = Struct False [
    (''num_pkts'', Scalar C_u32), (''num_pkts_hash'', Scalar C_u32), (''num_bytes'', Scalar C_u64)]"

definition struct_ipa_ioc_flt_rt_query :: ctype where
  "struct_ipa_ioc_flt_rt_query = Struct False [
    (''start_id'', Scalar C_u8), (''end_id'', Scalar C_u8), (''reset'', Scalar C_u8),
    (''stats_size'', Scalar C_u32), (''reserved'', Scalar C_u8), (''stats'', Scalar C_u64)]"

definition struct_ipa_lan_client_msg :: ctype where
  "struct_ipa_lan_client_msg = Struct False [
    (''lanIface'', Array (Scalar C_char) 32), (''mac'', Array (Scalar C_u8) 6)]"

definition struct_ipa_lan_client :: ctype where
  "struct_ipa_lan_client = Struct False [
    (''mac'', Array (Scalar C_u8) 6), (''client_idx'', Scalar C_s8), (''inited'', Scalar C_u8)]"

definition struct_ipa_lan_client_cntr_index :: ctype where
  "struct_ipa_lan_client_cntr_index = Struct False [
    (''ul_cnt_idx'', Scalar C_u8), (''dl_cnt_idx'', Scalar C_u8)]"

definition struct_ipa_tether_device_info :: ctype where
  "struct_ipa_tether_device_info = Struct False [
    (''ul_src_pipe'', Scalar C_s32), (''hdr_len'', Scalar C_u8), (''padding1'', Scalar C_u8),
    (''padding2'', Scalar C_u16), (''num_clients'', Scalar C_u32),
    (''lan_client'', Array struct_ipa_lan_client 16),
    (''lan_client_indices'', Array struct_ipa_lan_client_cntr_index 16)]"

definition struct_ipa_ioc_get_vlan_mode :: ctype where
  "struct_ipa_ioc_get_vlan_mode = Struct False [
    (''iface'', Scalar C_enum), (''is_vlan_mode'', Scalar C_u32)]"

definition struct_ipa_ioc_bridge_vlan_mapping_info :: ctype where
  "struct_ipa_ioc_bridge_vlan_mapping_info = Struct False [
    (''bridge_name'', Array (Scalar C_char) 32), (''lan2lan_sw'', Scalar C_u8),
    (''vlan_id'', Scalar C_u16), (''bridge_ipv4'', Scalar C_u32), (''subnet_mask'', Scalar C_u32)]"

definition struct_ipa_coalesce_info :: ctype where
  "struct_ipa_coalesce_info = Struct False [
    (''qmap_id'', Scalar C_u8), (''tcp_enable'', Scalar C_u8), (''udp_enable'', Scalar C_u8)]"

definition struct_ipa_mtu_info :: ctype where
  "struct_ipa_mtu_info = Struct False [
    (''if_name'', Array (Scalar C_char) 32), (''ip_type'', Scalar C_enum),
    (''mtu_v4'', Scalar C_u16), (''mtu_v6'', Scalar C_u16)]"

definition struct_ipa_odl_ep_info :: ctype where
  "struct_ipa_odl_ep_info = Struct False [
    (''cons_pipe_num'', Scalar C_u32), (''prod_pipe_num'', Scalar C_u32),
    (''peripheral_iface_id'', Scalar C_u32), (''ep_type'', Scalar C_u32)]"

definition struct_odl_agg_pipe_info :: ctype where
  "struct_odl_agg_pipe_info = Struct False [
    (''agg_byte_limit'', Scalar C_u16)]"

definition struct_ipa_odl_modem_config :: ctype where
  "struct_ipa_odl_modem_config = Struct False [
    (''config_status'', Scalar C_u8)]"

definition struct_ipa_ioc_fnr_index_info :: ctype where
  "struct_ipa_ioc_fnr_index_info = Struct False [
    (''hw_counter_offset'', Scalar C_u8), (''sw_counter_offset'', Scalar C_u8)]"

definition struct_ipa_pdn_ip_collision_cfg :: ctype where
  "struct_ipa_pdn_ip_collision_cfg = Struct False [
    (''pdn_ip_addr'', Scalar C_u32)]"

definition struct_ipa_pdn_ip_passthrough_cfg :: ctype where
  "struct_ipa_pdn_ip_passthrough_cfg = Struct False [
    (''pdn_ip_addr'', Scalar C_u32), (''device_type'', Scalar C_enum), (''vlan_id'', Scalar C_u16),
    (''client_mac_addr'', Array (Scalar C_u8) 6), (''skip_nat'', Scalar C_u8)]"

definition struct_ipa_ioc_pdn_config :: ctype where
  "struct_ipa_ioc_pdn_config = Struct False [
    (''dev_name'', Array (Scalar C_char) 32), (''pdn_cfg_type'', Scalar C_enum),
    (''enable'', Scalar C_u8),
    (''u'', Union [
      (''collison_cfg'', struct_ipa_pdn_ip_collision_cfg),
      (''passthrough_cfg'', struct_ipa_pdn_ip_passthrough_cfg)]),
    (''default_pdn'', Scalar C_u8)]"

definition struct_ipa_ioc_mac_client_list_type :: ctype where
  "struct_ipa_ioc_mac_client_list_type = Struct False [
    (''num_of_clients'', Scalar C_int), (''mac_addr'', Array (Array (Scalar C_u8) 6) 32),
    (''flt_state'', Scalar C_u8), (''padding'', Scalar C_u8)]"

definition struct_ipa_sw_flt_list_type :: ctype where
  "struct_ipa_sw_flt_list_type = Struct False [
    (''mac_enable'', Scalar C_u8), (''num_of_mac'', Scalar C_int),
    (''mac_addr'', Array (Array (Scalar C_u8) 6) 32), (''ipv4_segs_enable'', Scalar C_u8),
    (''ipv4_segs_ipv6_offload'', Scalar C_u8), (''num_of_ipv4_segs'', Scalar C_int),
    (''ipv4_segs'', Array (Array (Scalar C_u32) 2) 16), (''iface_enable'', Scalar C_u8),
    (''num_of_iface'', Scalar C_int), (''iface'', Array (Array (Scalar C_char) 32) 4)]"

definition struct_ipa_ippt_sw_flt_list_type :: ctype where
  "struct_ipa_ippt_sw_flt_list_type = Struct False [
    (''ipv4_enable'', Scalar C_u8), (''num_of_ipv4'', Scalar C_int),
    (''ipv4'', Array (Scalar C_u32) 16), (''port_enable'', Scalar C_u8),
    (''num_of_port'', Scalar C_int), (''port'', Array (Scalar C_u16) 5)]"

definition struct_ipa_ioc_sw_flt_list_type :: ctype where
  "struct_ipa_ioc_sw_flt_list_type = Struct False [
    (''ioctl_ptr'', Scalar C_u64), (''ioctl_data_size'', Scalar C_u32),
    (''padding'', Scalar C_u32)]"

definition struct_ipa_macsec_map :: ctype where
  "struct_ipa_macsec_map = Struct False [
    (''phy_name'', Array (Scalar C_char) 32), (''macsec_name'', Array (Scalar C_char) 32)]"

definition struct_ipa_ioc_macsec_info :: ctype where
  "struct_ipa_ioc_macsec_info = Struct False [
    (''ioctl_ptr'', Scalar C_u64), (''ioctl_data_size'', Scalar C_u32),
    (''padding'', Scalar C_u32)]"

definition struct_ipa_ioc_ext_router_info :: ctype where
  "struct_ipa_ioc_ext_router_info = Struct False [
    (''mode'', Scalar C_enum), (''pdn_name'', Array (Scalar C_char) 32),
    (''ipv6_addr'', Array (Scalar C_u32) 4), (''ipv6_mask'', Array (Scalar C_u32) 4)]"

definition struct_ipa_ioc_dscp_pcp_map_info :: ctype where
  "struct_ipa_ioc_dscp_pcp_map_info = Struct False [
    (''add'', Scalar C_u32), (''dscp_pcp_map'', Array (Scalar C_u8) 64)]"

definition struct_teth_aggr_params_link :: ctype where
  "struct_teth_aggr_params_link = Struct False [
    (''aggr_prot'', Scalar C_enum), (''max_transfer_size_byte'', Scalar C_u32),
    (''max_datagrams'', Scalar C_u32)]"

definition struct_teth_aggr_params :: ctype where
  "struct_teth_aggr_params = Struct False [
    (''ul'', struct_teth_aggr_params_link), (''dl'', struct_teth_aggr_params_link)]"

definition struct_teth_aggr_capabilities :: ctype where
  "struct_teth_aggr_capabilities = Struct False [
    (''num_protocols'', Scalar C_u16), (''prot_caps'', Array struct_teth_aggr_params_link 0)]"

definition struct_teth_ioc_set_bridge_mode :: ctype where
  "struct_teth_ioc_set_bridge_mode = Struct False [
    (''link_protocol'', Scalar C_enum), (''lcid'', Scalar C_u16)]"

definition struct_teth_ioc_aggr_params :: ctype where
  "struct_teth_ioc_aggr_params = Struct False [
    (''aggr_params'', struct_teth_aggr_params), (''lcid'', Scalar C_u16)]"

definition struct_ipa_nat_in_sram_info :: ctype where
  "struct_ipa_nat_in_sram_info = Struct False [
    (''sram_mem_available_for_nat'', Scalar C_u32), (''nat_table_offset_into_mmap'', Scalar C_u32),
    (''best_nat_in_sram_size_rqst'', Scalar C_u32)]"

section \<open>Requests\<close>

definition ipa_requests_1 :: "ioctl list" where
  "ipa_requests_1 =
    [IOWR ''IPA_IOC_ADD_HDR'' 0xcf 0x0 (Scalar C_ptr),
     IOWR ''IPA_IOC_DEL_HDR'' 0xcf 0x1 (Scalar C_ptr),
     IOWR ''IPA_IOC_ADD_RT_RULE'' 0xcf 0x2 (Scalar C_ptr),
     IOWR ''IPA_IOC_ADD_RT_RULE_V2'' 0xcf 0x43 (Scalar C_ptr),
     IOWR ''IPA_IOC_ADD_RT_RULE_EXT'' 0xcf 0x2e (Scalar C_ptr),
     IOWR ''IPA_IOC_ADD_RT_RULE_EXT_V2'' 0xcf 0x44 (Scalar C_ptr),
     IOWR ''IPA_IOC_ADD_RT_RULE_AFTER'' 0xcf 0x2b (Scalar C_ptr),
     IOWR ''IPA_IOC_ADD_RT_RULE_AFTER_V2'' 0xcf 0x45 (Scalar C_ptr),
     IOWR ''IPA_IOC_DEL_RT_RULE'' 0xcf 0x3 (Scalar C_ptr),
     IOWR ''IPA_IOC_ADD_FLT_RULE'' 0xcf 0x4 (Scalar C_ptr),
     IOWR ''IPA_IOC_ADD_FLT_RULE_V2'' 0xcf 0x47 (Scalar C_ptr),
     IOWR ''IPA_IOC_ADD_FLT_RULE_AFTER'' 0xcf 0x2c (Scalar C_ptr),
     IOWR ''IPA_IOC_ADD_FLT_RULE_AFTER_V2'' 0xcf 0x48 (Scalar C_ptr),
     IOWR ''IPA_IOC_DEL_FLT_RULE'' 0xcf 0x5 (Scalar C_ptr),
     IO ''IPA_IOC_COMMIT_HDR'' 0xcf 0x6,
     IO ''IPA_IOC_RESET_HDR'' 0xcf 0x7,
     IOW ''IPA_IOC_COMMIT_RT'' 0xcf 0x8 (Scalar C_enum),
     IOW ''IPA_IOC_RESET_RT'' 0xcf 0x9 (Scalar C_enum),
     IOW ''IPA_IOC_COMMIT_FLT'' 0xcf 0xa (Scalar C_enum),
     IOW ''IPA_IOC_RESET_FLT'' 0xcf 0xb (Scalar C_enum),
     IO ''IPA_IOC_DUMP'' 0xcf 0xc,
     IOWR ''IPA_IOC_GET_RT_TBL'' 0xcf 0xd (Scalar C_ptr),
     IOW ''IPA_IOC_PUT_RT_TBL'' 0xcf 0xe (Scalar C_u32),
     IOWR ''IPA_IOC_COPY_HDR'' 0xcf 0xf (Scalar C_ptr),
     IOWR ''IPA_IOC_QUERY_INTF'' 0xcf 0x10 (Scalar C_ptr),
     IOWR ''IPA_IOC_QUERY_INTF_TX_PROPS'' 0xcf 0x11 (Scalar C_ptr),
     IOWR ''IPA_IOC_QUERY_INTF_RX_PROPS'' 0xcf 0x12 (Scalar C_ptr),
     IOWR ''IPA_IOC_QUERY_INTF_EXT_PROPS'' 0xcf 0x20 (Scalar C_ptr),
     IOWR ''IPA_IOC_GET_HDR'' 0xcf 0x13 (Scalar C_ptr),
     IOW ''IPA_IOC_PUT_HDR'' 0xcf 0x14 (Scalar C_u32),
     IOWR ''IPA_IOC_ALLOC_NAT_MEM'' 0xcf 0x16 (Scalar C_ptr),
     IOWR ''IPA_IOC_ALLOC_NAT_TABLE'' 0xcf 0x34 (Scalar C_ptr),
     IOWR ''IPA_IOC_ALLOC_IPV6CT_TABLE'' 0xcf 0x35 (Scalar C_ptr),
     IOWR ''IPA_IOC_V4_INIT_NAT'' 0xcf 0x17 (Scalar C_ptr),
     IOWR ''IPA_IOC_INIT_IPV6CT_TABLE'' 0xcf 0x19 (Scalar C_ptr)]"

definition IPA_IOC_NAT_DMA :: ioctl where
  "IPA_IOC_NAT_DMA = IOWR ''IPA_IOC_NAT_DMA'' 0xcf 0x18 (Scalar C_ptr)"

definition IPA_IOC_TABLE_DMA_CMD :: ioctl where
  "IPA_IOC_TABLE_DMA_CMD = IOWR ''IPA_IOC_TABLE_DMA_CMD'' 0xcf 0x18 (Scalar C_ptr)"

definition ipa_requests_2 :: "ioctl list" where
  "ipa_requests_2 =
    [IOWR ''IPA_IOC_V4_DEL_NAT'' 0xcf 0x1a (Scalar C_ptr),
     IOWR ''IPA_IOC_DEL_NAT_TABLE'' 0xcf 0x36 (Scalar C_ptr),
     IOWR ''IPA_IOC_DEL_IPV6CT_TABLE'' 0xcf 0x37 (Scalar C_ptr),
     IOWR ''IPA_IOC_GET_NAT_OFFSET'' 0xcf 0x1c (Scalar C_ptr),
     IOWR ''IPA_IOC_NAT_MODIFY_PDN'' 0xcf 0x33 (Scalar C_ptr),
     IOW ''IPA_IOC_SET_FLT'' 0xcf 0x15 (Scalar C_u32),
     IOWR ''IPA_IOC_PULL_MSG'' 0xcf 0x1b (Scalar C_ptr),
     IOWR ''IPA_IOC_RM_ADD_DEPENDENCY'' 0xcf 0x1d (Scalar C_ptr),
     IOWR ''IPA_IOC_RM_DEL_DEPENDENCY'' 0xcf 0x1e (Scalar C_ptr),
     IOWR ''IPA_IOC_GENERATE_FLT_EQ'' 0xcf 0x1f (Scalar C_ptr),
     IOR ''IPA_IOC_QUERY_EP_MAPPING'' 0xcf 0x21 (Scalar C_u32),
     IOWR ''IPA_IOC_QUERY_RT_TBL_INDEX'' 0xcf 0x22 (Scalar C_ptr),
     IOWR ''IPA_IOC_WRITE_QMAPID'' 0xcf 0x23 (Scalar C_ptr),
     IOWR ''IPA_IOC_MDFY_FLT_RULE'' 0xcf 0x24 (Scalar C_ptr),
     IOWR ''IPA_IOC_MDFY_FLT_RULE_V2'' 0xcf 0x49 (Scalar C_ptr),
     IOWR ''IPA_IOC_MDFY_RT_RULE'' 0xcf 0x2a (Scalar C_ptr),
     IOWR ''IPA_IOC_MDFY_RT_RULE_V2'' 0xcf 0x46 (Scalar C_ptr),
     IOWR ''IPA_IOC_NOTIFY_WAN_UPSTREAM_ROUTE_ADD'' 0xcf 0x25 (Scalar C_ptr),
     IOWR ''IPA_IOC_NOTIFY_WAN_UPSTREAM_ROUTE_DEL'' 0xcf 0x26 (Scalar C_ptr),
     IOWR ''IPA_IOC_NOTIFY_WAN_EMBMS_CONNECTED'' 0xcf 0x27 (Scalar C_ptr),
     IOWR ''IPA_IOC_ADD_HDR_PROC_CTX'' 0xcf 0x28 (Scalar C_ptr),
     IOWR ''IPA_IOC_DEL_HDR_PROC_CTX'' 0xcf 0x29 (Scalar C_ptr),
     IOWR ''IPA_IOC_GET_HW_VERSION'' 0xcf 0x2d (Scalar C_ptr),
     IOWR ''IPA_IOC_ADD_VLAN_IFACE'' 0xcf 0x2f (Scalar C_ptr),
     IOWR ''IPA_IOC_DEL_VLAN_IFACE'' 0xcf 0x30 (Scalar C_ptr),
     IOWR ''IPA_IOC_ADD_L2TP_VLAN_MAPPING'' 0xcf 0x31 (Scalar C_ptr),
     IOWR ''IPA_IOC_DEL_L2TP_VLAN_MAPPING'' 0xcf 0x32 (Scalar C_ptr),
     IOWR ''IPA_IOC_GET_VLAN_MODE'' 0xcf 0x3a (Scalar C_ptr),
     IOWR ''IPA_IOC_ADD_BRIDGE_VLAN_MAPPING'' 0xcf 0x3b struct_ipa_ioc_bridge_vlan_mapping_info,
     IOWR ''IPA_IOC_DEL_BRIDGE_VLAN_MAPPING'' 0xcf 0x3c struct_ipa_ioc_bridge_vlan_mapping_info,
     IO ''IPA_IOC_CLEANUP'' 0xcf 0x38,
     IO ''IPA_IOC_QUERY_WLAN_CLIENT'' 0xcf 0x39,
     IOWR ''IPA_IOC_ODL_QUERY_ADAPL_EP_INFO'' 0xcf 0x3d struct_ipa_odl_ep_info,
     IOWR ''IPA_IOC_ODL_GET_AGG_BYTE_LIMIT'' 0xcf 0x3e struct_odl_agg_pipe_info,
     IOWR ''IPA_IOC_ODL_QUERY_MODEM_CONFIG'' 0xcf 0x3f struct_ipa_odl_modem_config,
     IOWR ''IPA_IOC_GSB_CONNECT'' 0xcf 0x40 struct_ipa_ioc_gsb_info,
     IOWR ''IPA_IOC_GSB_DISCONNECT'' 0xcf 0x41 struct_ipa_ioc_gsb_info,
     IOWR ''IPA_IOC_WIGIG_FST_SWITCH'' 0xcf 0x42 struct_ipa_ioc_wigig_fst_switch,
     IOWR ''IPA_IOC_FNR_COUNTER_ALLOC'' 0xcf 0x4a struct_ipa_ioc_flt_rt_counter_alloc,
     IOWR ''IPA_IOC_FNR_COUNTER_DEALLOC'' 0xcf 0x4b (Scalar C_int),
     IOWR ''IPA_IOC_FNR_COUNTER_QUERY'' 0xcf 0x4c struct_ipa_ioc_flt_rt_query,
     IOWR ''IPA_IOC_SET_FNR_COUNTER_INFO'' 0xcf 0x4d struct_ipa_ioc_fnr_index_info,
     IOWR ''IPA_IOC_GET_NAT_IN_SRAM_INFO'' 0xcf 0x4e struct_ipa_nat_in_sram_info]"

definition ipa_requests_3 :: "ioctl list" where
  "ipa_requests_3 =
    [IOWR ''IPA_IOC_APP_CLOCK_VOTE'' 0xcf 0x4f (Scalar C_u32),
     IOWR ''IPA_IOC_PDN_CONFIG'' 0xcf 0x50 struct_ipa_ioc_pdn_config,
     IOWR ''IPA_IOC_SET_MAC_FLT'' 0xcf 0x51 struct_ipa_ioc_mac_client_list_type,
     IOWR ''IPA_IOC_GET_PHERIPHERAL_EP_INFO'' 0xcf 0x52 struct_ipa_ioc_get_ep_info,
     IOWR ''IPA_IOC_ADD_UC_ACT_ENTRY'' 0xcf 0x53 struct_ipa_ioc_uc_activation_entry,
     IOWR ''IPA_IOC_DEL_UC_ACT_ENTRY'' 0xcf 0x54 (Scalar C_u16),
     IO ''IPA_IOC_QUERY_CACHED_DRIVER_MSG'' 0xcf 0x5e,
     IOWR ''IPA_IOC_SET_SW_FLT'' 0xcf 0x55 struct_ipa_ioc_sw_flt_list_type,
     IOWR ''IPA_IOC_SET_PKT_THRESHOLD'' 0xcf 0x57 struct_ipa_ioc_set_pkt_threshold,
     IOWR ''IPA_IOC_ADD_EoGRE_MAPPING'' 0xcf 0x58 struct_ipa_ioc_eogre_info,
     IOWR ''IPA_IOC_DEL_EoGRE_MAPPING'' 0xcf 0x59 struct_ipa_ioc_eogre_info,
     IOWR ''IPA_IOC_SET_IPPT_SW_FLT'' 0xcf 0x5a struct_ipa_ioc_sw_flt_list_type,
     IOWR ''IPA_IOC_ADD_MACSEC_MAPPING'' 0xcf 0x5c struct_ipa_ioc_macsec_info,
     IOWR ''IPA_IOC_DEL_MACSEC_MAPPING'' 0xcf 0x5d struct_ipa_ioc_macsec_info,
     IOWR ''IPA_IOC_SET_EXT_ROUTER_MODE'' 0xcf 0x5f struct_ipa_ioc_ext_router_info,
     IOWR ''IPA_IOC_ADD_DEL_DSCP_PCP_MAPPING'' 0xcf 0x60 struct_ipa_ioc_dscp_pcp_map_info]"

definition ipa_requests_4 :: "ioctl list" where
  "ipa_requests_4 =
    [IOW ''TETH_BRIDGE_IOC_SET_BRIDGE_MODE'' 0xce 0x0 (Scalar C_ptr),
     IOW ''TETH_BRIDGE_IOC_SET_AGGR_PARAMS'' 0xce 0x1 (Scalar C_ptr),
     IOR ''TETH_BRIDGE_IOC_GET_AGGR_PARAMS'' 0xce 0x2 (Scalar C_ptr),
     IOWR ''TETH_BRIDGE_IOC_GET_AGGR_CAPABILITIES'' 0xce 0x3 (Scalar C_ptr)]"

definition ipa_requests_5 :: "ioctl list" where
  "ipa_requests_5 =
    [IOW ''ODU_BRIDGE_IOC_SET_MODE'' 0xcd 0x0 (Scalar C_enum),
     IOW ''ODU_BRIDGE_IOC_SET_LLV6_ADDR'' 0xcd 0x1 (Scalar C_ptr)]"

definition ipa_commands :: "ioctl list" where
  "ipa_commands =
    ipa_requests_1 @ [IPA_IOC_TABLE_DMA_CMD] @ ipa_requests_2 @ ipa_requests_3 @ ipa_requests_4 @ ipa_requests_5"

text \<open>All requests: the commands and the old name of the table command.\<close>

definition ipa_ioctls :: "ioctl list" where
  "ipa_ioctls = IPA_IOC_NAT_DMA # ipa_commands"

section \<open>Lemmas\<close>

interpretation ipa: ioctl_table ipa_commands
  by (rule ioctl_tableI) code_simp+

lemma ipa_nat_dma: "request dm IPA_IOC_NAT_DMA = request dm IPA_IOC_TABLE_DMA_CMD"
  by (cases dm; code_simp)

lemma ipa_pointer_arguments:
  "list_all (\<lambda>i. arg_size ILP32 i \<noteq> arg_size LP64 i \<longleftrightarrow> ioc_arg i = Some (Scalar C_ptr)) ipa_ioctls"
  by code_simp

text \<open>The command that a request names: the old NAT name is another name of the table command.\<close>

definition ipa_command :: "ioctl \<Rightarrow> ioctl" where
  "ipa_command i = (if i = IPA_IOC_NAT_DMA then IPA_IOC_TABLE_DMA_CMD else i)"

lemma ipa_command_in: "i \<in> set ipa_ioctls \<Longrightarrow> ipa_command i \<in> set ipa_commands"
  by (auto simp: ipa_command_def ipa_ioctls_def ipa_commands_def)

lemma ipa_command_request: "request dm (ipa_command i) = request dm i"
  by (simp add: ipa_command_def ipa_nat_dma)

lemma ipa_command_eq:
  "ipa_command i = ipa_command j \<longleftrightarrow> i = j \<or> {i, j} = {IPA_IOC_NAT_DMA, IPA_IOC_TABLE_DMA_CMD}"
  by (auto simp: ipa_command_def doubleton_eq_iff)

lemma ipa_command_size: "arg_size dm (ipa_command i) = arg_size dm i"
  using ipa_command_request [of dm i] by (simp add: request_def)

section \<open>Properties\<close>

text \<open>
  Under any injective encoding of requests as numbers, two requests of the IPA driver have the
  same number, in a process of either width, exactly when they are the same request or the old name
  \<^verbatim>\<open>IPA_IOC_NAT_DMA\<close> and the table command that replaced it.  The number that a 32-bit process
  computes for a request is the number of a request in a 64-bit process exactly when it is that of
  the same command and the declared argument is not a pointer: a request declared with a pointer
  type has another number there, and it never is the number of another command.
\<close>

lemma ipa_numbers:
  assumes "ioc_encoding enc" and "i \<in> set ipa_ioctls" and "j \<in> set ipa_ioctls"
  shows "(enc (request dm i) = enc (request dm j) \<longleftrightarrow>
      i = j \<or> {i, j} = {IPA_IOC_NAT_DMA, IPA_IOC_TABLE_DMA_CMD}) \<and>
    (enc (request ILP32 i) = enc (request LP64 j) \<longleftrightarrow>
      (i = j \<or> {i, j} = {IPA_IOC_NAT_DMA, IPA_IOC_TABLE_DMA_CMD}) \<and> ioc_arg i \<noteq> Some (Scalar C_ptr))"
proof
  note commands = ipa_command_in [OF assms(2)] ipa_command_in [OF assms(3)]
  show "enc (request dm i) = enc (request dm j) \<longleftrightarrow>
      i = j \<or> {i, j} = {IPA_IOC_NAT_DMA, IPA_IOC_TABLE_DMA_CMD}"
    using ipa.number_unique [OF assms(1) commands] by (simp only: ipa_command_request ipa_command_eq)
  have "arg_size ILP32 i = arg_size LP64 i \<longleftrightarrow> ioc_arg i \<noteq> Some (Scalar C_ptr)"
    using ipa_pointer_arguments assms(2) by (auto simp: list_all_iff)
  then show "enc (request ILP32 i) = enc (request LP64 j) \<longleftrightarrow>
      (i = j \<or> {i, j} = {IPA_IOC_NAT_DMA, IPA_IOC_TABLE_DMA_CMD}) \<and> ioc_arg i \<noteq> Some (Scalar C_ptr)"
    using ipa.number_across [OF assms(1) commands]
    by (simp only: ipa_command_request ipa_command_eq ipa_command_size)
qed

lemma ipa_numbers_witness:
  "sample_encoding (request LP64 IPA_IOC_NAT_DMA) = sample_encoding (request LP64 IPA_IOC_TABLE_DMA_CMD)"
  using ipa_numbers [OF sample_encoding_ok, of IPA_IOC_NAT_DMA IPA_IOC_TABLE_DMA_CMD LP64]
  by (simp add: ipa_ioctls_def ipa_commands_def)

end
