(* ===== verification/Ipa_Qmi.thy ===== *)
theory Ipa_Qmi
  imports C_Layout
begin

text \<open>
  The messages between the IPA driver and the modem, from
  \<^verbatim>\<open>src/include/linux/ipa_qmi_service_v01.h\<close>: the enumerations, the C structs of the messages, their
  identifiers and maximal lengths.  The encoding of a message on the wire is code of the kernel's QMI
  library and is not modelled; what it relies on in the structs, the pairing of optional fields with
  their flags and of arrays with their lengths, is.
\<close>

section \<open>Enumerations\<close>

definition ipa_qmi_result_type_v01 :: "(string \<times> int) list" where
  "ipa_qmi_result_type_v01 =
    [(''IPA_QMI_RESULT_TYPE_MIN_ENUM_VAL_V01'', - 2147483648), (''IPA_QMI_RESULT_SUCCESS_V01'', 0),
    (''IPA_QMI_RESULT_FAILURE_V01'', 1), (''IPA_QMI_RESULT_TYPE_MAX_ENUM_VAL_V01'', 2147483647)]"

definition ipa_qmi_error_type_v01 :: "(string \<times> int) list" where
  "ipa_qmi_error_type_v01 =
    [(''IPA_QMI_ERROR_TYPE_MIN_ENUM_VAL_V01'', - 2147483648), (''IPA_QMI_ERR_NONE_V01'', 0),
    (''IPA_QMI_ERR_MALFORMED_MSG_V01'', 1), (''IPA_QMI_ERR_NO_MEMORY_V01'', 2),
    (''IPA_QMI_ERR_INTERNAL_V01'', 3), (''IPA_QMI_ERR_CLIENT_IDS_EXHAUSTED_V01'', 5),
    (''IPA_QMI_ERR_INVALID_ID_V01'', 41), (''IPA_QMI_ERR_ENCODING_V01'', 58),
    (''IPA_QMI_ERR_INCOMPATIBLE_STATE_V01'', 90), (''IPA_QMI_ERR_NOT_SUPPORTED_V01'', 94),
    (''IPA_QMI_ERROR_TYPE_MAX_ENUM_VAL_V01'', 2147483647)]"

definition ipa_platform_type_enum_v01 :: "(string \<times> int) list" where
  "ipa_platform_type_enum_v01 =
    [(''IPA_PLATFORM_TYPE_ENUM_MIN_ENUM_VAL_V01'', - 2147483647),
    (''QMI_IPA_PLATFORM_TYPE_INVALID_V01'', 0), (''QMI_IPA_PLATFORM_TYPE_TN_V01'', 1),
    (''QMI_IPA_PLATFORM_TYPE_LE_V01'', 2), (''QMI_IPA_PLATFORM_TYPE_MSM_ANDROID_V01'', 3),
    (''QMI_IPA_PLATFORM_TYPE_MSM_WINDOWS_V01'', 4), (''QMI_IPA_PLATFORM_TYPE_MSM_QNX_V01'', 5),
    (''QMI_IPA_PLATFORM_TYPE_LE_MHI_V01'', 6), (''IPA_PLATFORM_TYPE_ENUM_MAX_ENUM_VAL_V01'',
    2147483647)]"

definition ipa_eth_hw_config_enum_v01 :: "(string \<times> int) list" where
  "ipa_eth_hw_config_enum_v01 =
    [(''IPA_QMI_ETH_HW_CONFIG_ENUM_MIN_ENUM_VAL_V01'', - 2147483647), (''IPA_QMI_ETH_HW_NONE_V01'',
    0), (''IPA_QMI_ETH_HW_VLAN_IP_V01'', 1), (''IPA_QMI_ETH_HW_NON_VLAN_IP_V01'', 2),
    (''IPA_QMI_ETH_HW_CONFIG_ENUM_MAX_ENUM_VAL_V01'', 2147483647)]"

definition ipa_ip_type_enum_v01 :: "(string \<times> int) list" where
  "ipa_ip_type_enum_v01 =
    [(''IPA_IP_TYPE_ENUM_MIN_ENUM_VAL_V01'', - 2147483647), (''QMI_IPA_IP_TYPE_INVALID_V01'', 0),
    (''QMI_IPA_IP_TYPE_V4_V01'', 1), (''QMI_IPA_IP_TYPE_V6_V01'', 2), (''QMI_IPA_IP_TYPE_V4V6_V01'',
    3), (''IPA_IP_TYPE_ENUM_MAX_ENUM_VAL_V01'', 2147483647)]"

definition ipa_filter_action_enum_v01 :: "(string \<times> int) list" where
  "ipa_filter_action_enum_v01 =
    [(''IPA_FILTER_ACTION_ENUM_MIN_ENUM_VAL_V01'', - 2147483647),
    (''QMI_IPA_FILTER_ACTION_INVALID_V01'', 0), (''QMI_IPA_FILTER_ACTION_SRC_NAT_V01'', 1),
    (''QMI_IPA_FILTER_ACTION_DST_NAT_V01'', 2), (''QMI_IPA_FILTER_ACTION_ROUTING_V01'', 3),
    (''QMI_IPA_FILTER_ACTION_EXCEPTION_V01'', 4), (''IPA_FILTER_ACTION_ENUM_MAX_ENUM_VAL_V01'',
    2147483647)]"

definition ipa_peripheral_speed_enum_v01 :: "(string \<times> int) list" where
  "ipa_peripheral_speed_enum_v01 =
    [(''IPA_PERIPHERAL_SPEED_ENUM_MIN_ENUM_VAL_V01'', - 2147483647), (''QMI_IPA_PER_USB_FS_V01'',
    1), (''QMI_IPA_PER_USB_HS_V01'', 2), (''QMI_IPA_PER_USB_SS_V01'', 3), (''QMI_IPA_PER_WLAN_V01'',
    4), (''IPA_PERIPHERAL_SPEED_ENUM_MAX_ENUM_VAL_V01'', 2147483647)]"

definition ipa_pipe_mode_enum_v01 :: "(string \<times> int) list" where
  "ipa_pipe_mode_enum_v01 =
    [(''IPA_PIPE_MODE_ENUM_MIN_ENUM_VAL_V01'', - 2147483647), (''QMI_IPA_PIPE_MODE_HW_V01'', 1),
    (''QMI_IPA_PIPE_MODE_SW_V01'', 2), (''IPA_PIPE_MODE_ENUM_MAX_ENUM_VAL_V01'', 2147483647)]"

definition ipa_peripheral_type_enum_v01 :: "(string \<times> int) list" where
  "ipa_peripheral_type_enum_v01 =
    [(''IPA_PERIPHERAL_TYPE_ENUM_MIN_ENUM_VAL_V01'', - 2147483647), (''QMI_IPA_PERIPHERAL_USB_V01'',
    1), (''QMI_IPA_PERIPHERAL_HSIC_V01'', 2), (''QMI_IPA_PERIPHERAL_PCIE_V01'', 3),
    (''IPA_PERIPHERAL_TYPE_ENUM_MAX_ENUM_VAL_V01'', 2147483647)]"

definition ipa_stats_type_enum_v01 :: "(string \<times> int) list" where
  "ipa_stats_type_enum_v01 =
    [(''IPA_STATS_TYPE_ENUM_MIN_ENUM_VAL_V01'', - 2147483647), (''QMI_IPA_STATS_TYPE_INVALID_V01'',
    0), (''QMI_IPA_STATS_TYPE_PIPE_V01'', 1), (''QMI_IPA_STATS_TYPE_FILTER_RULES_V01'', 2),
    (''IPA_STATS_TYPE_ENUM_MAX_ENUM_VAL_V01'', 2147483647)]"

definition ipa_ul_firewall_status_enum_v01 :: "(string \<times> int) list" where
  "ipa_ul_firewall_status_enum_v01 =
    [(''IPA_UL_FIREWALL_STATUS_ENUM_MIN_ENUM_VAL_V01'', - 2147483647),
    (''QMI_IPA_UL_FIREWALL_STATUS_SUCCESS_V01'', 0), (''QMI_IPA_UL_FIREWALL_STATUS_FAILURE_V01'',
    1), (''IPA_UL_FIREWALL_STATUS_ENUM_MAX_ENUM_VAL_V01'', 2147483647)]"

definition ipa_mhi_brst_mode_enum_v01 :: "(string \<times> int) list" where
  "ipa_mhi_brst_mode_enum_v01 =
    [(''IPA_MHI_BRST_MODE_ENUM_MIN_VAL_V01'', - 2147483648), (''QMI_IPA_BURST_MODE_DEFAULT_V01'',
    0), (''QMI_IPA_BURST_MODE_ENABLED_V01'', 1), (''QMI_IPA_BURST_MODE_DISABLED_V01'', 2),
    (''IPA_MHI_BRST_MODE_ENUM_MAX_VAL_V01'', 2147483647)]"

definition ipa_clock_rate_enum_v01 :: "(string \<times> int) list" where
  "ipa_clock_rate_enum_v01 =
    [(''IPA_CLOCK_RATE_ENUM_MIN_ENUM_VAL_V01'', - 2147483648), (''QMI_IPA_CLOCK_RATE_INVALID_V01'',
    0), (''QMI_IPA_CLOCK_RATE_LOW_SVS_V01'', 1), (''QMI_IPA_CLOCK_RATE_SVS_V01'', 2),
    (''QMI_IPA_CLOCK_RATE_NOMINAL_V01'', 3), (''QMI_IPA_CLOCK_RATE_TURBO_V01'', 4),
    (''IPA_CLOCK_RATE_ENUM_MAX_ENUM_VAL_V01'', 2147483647)]"

definition ipa_ep_desc_type_enum_v01 :: "(string \<times> int) list" where
  "ipa_ep_desc_type_enum_v01 =
    [(''IPA_EP_DESC_TYPE_ENUM_MIN_VAL_V01'', - 2147483648), (''DATA_EP_DESC_TYPE_RESERVED_V01'', 0),
    (''DATA_EP_DESC_TYPE_EMB_CONS_V01'', 1), (''DATA_EP_DESC_TYPE_EMB_PROD_V01'', 2),
    (''DATA_EP_DESC_TYPE_RSC_PROD_V01'', 3), (''DATA_EP_DESC_TYPE_QDSS_PROD_V01'', 4),
    (''DATA_EP_DESC_TYPE_DPL_PROD_V01'', 5), (''DATA_EP_DESC_TYPE_TETH_CONS_V01'', 6),
    (''DATA_EP_DESC_TYPE_TETH_PROD_V01'', 7), (''DATA_EP_DESC_TYPE_TETH_RMNET_CONS_V01'', 8),
    (''DATA_EP_DESC_TYPE_TETH_RMNET_PROD_V01'', 9), (''DATA_EP_DESC_TYPE_EMB_FLOW_CTL_CONS_V01'',
    10), (''DATA_EP_DESC_TYPE_EMB_FLOW_CTL_PROD_V01'', 11), (''IPA_EP_DESC_TYPE_ENUM_MAX_VAL_V01'',
    2147483647)]"

definition ipa_ic_type_enum_v01 :: "(string \<times> int) list" where
  "ipa_ic_type_enum_v01 =
    [(''IPA_IC_TYPE_ENUM_MIN_VAL_V01'', - 2147483648), (''DATA_IC_TYPE_RESERVED_V01'', 0),
    (''DATA_IC_TYPE_MHI_V01'', 1), (''DATA_IC_TYPE_MHI_PRIME_V01'', 2), (''DATA_IC_TYPE_USB_V01'',
    3), (''DATA_IC_TYPE_AP_V01'', 4), (''DATA_IC_TYPE_Q6_V01'', 5), (''DATA_IC_TYPE_UC_V01'', 6),
    (''DATA_IC_TYPE_ETH_V01'', 7), (''IPA_IC_TYPE_ENUM_MAX_VAL_V01'', 2147483647)]"

definition ipa_ep_status_type_v01 :: "(string \<times> int) list" where
  "ipa_ep_status_type_v01 =
    [(''IPA_EP_STATUS_TYPE_MIN_VAL_V01'', - 2147483648), (''DATA_EP_STATUS_RESERVED_V01'', 0),
    (''DATA_EP_STATUS_STATIC_V01'', 1), (''DATA_EP_STATUS_CONNECTED_V01'', 2),
    (''DATA_EP_STATUS_DISCONNECTED_V01'', 3), (''IPA_EP_STATUS_TYPE_MAX_VAL_V01'', 2147483647)]"

definition ipa_aggr_enum_type_v01 :: "(string \<times> int) list" where
  "ipa_aggr_enum_type_v01 =
    [(''IPA_AGGR_ENUM_TYPE_MIN_VAL_V01'', - 2147483648), (''DATA_AGGR_TYPE_RESERVED_V01'', 0),
    (''DATA_AGGR_TYPE_QMAP_V01'', 1), (''DATA_AGGR_TYPE_QMAPv5_V01'', 2),
    (''DATA_AGGR_TYPE_INHERITED_V01'', 3), (''IPA_AGGR_ENUM_TYPE_MAX_VAL_V01'', 2147483647)]"

definition ipa_move_nat_type_enum_v01 :: "(string \<times> int) list" where
  "ipa_move_nat_type_enum_v01 =
    [(''QMI_IPA_MOVE_NAT_TO_DDR_V01'', 0), (''QMI_IPA_MOVE_NAT_TO_SRAM_V01'', 1)]"

section \<open>Structs\<close>

definition struct_ipa_qmi_response_type_v01 :: ctype where
  "struct_ipa_qmi_response_type_v01 = Struct False [
    (''result'', Scalar C_u16), (''error'', Scalar C_u16)]"

definition struct_ipa_hdr_tbl_info_type_v01 :: ctype where
  "struct_ipa_hdr_tbl_info_type_v01 = Struct False [
    (''modem_offset_start'', Scalar C_u32), (''modem_offset_end'', Scalar C_u32)]"

definition struct_ipa_route_tbl_info_type_v01 :: ctype where
  "struct_ipa_route_tbl_info_type_v01 = Struct False [
    (''route_tbl_start_addr'', Scalar C_u32), (''num_indices'', Scalar C_u32)]"

definition struct_ipa_filter_stats_info_type_v01 :: ctype where
  "struct_ipa_filter_stats_info_type_v01 = Struct False [
    (''hw_filter_stats_start_addr'', Scalar C_u32), (''hw_filter_stats_size'', Scalar C_u32),
    (''hw_filter_stats_start_index'', Scalar C_u8), (''hw_filter_stats_end_index'', Scalar C_u8)]"

definition struct_ipa_modem_mem_info_type_v01 :: ctype where
  "struct_ipa_modem_mem_info_type_v01 = Struct False [
    (''block_start_addr'', Scalar C_u32), (''size'', Scalar C_u32)]"

definition struct_ipa_hdr_proc_ctx_tbl_info_type_v01 :: ctype where
  "struct_ipa_hdr_proc_ctx_tbl_info_type_v01 = Struct False [
    (''modem_offset_start'', Scalar C_u32), (''modem_offset_end'', Scalar C_u32)]"

definition struct_ipa_zip_tbl_info_type_v01 :: ctype where
  "struct_ipa_zip_tbl_info_type_v01 = Struct False [
    (''modem_offset_start'', Scalar C_u32), (''modem_offset_end'', Scalar C_u32)]"

definition struct_ipa_init_modem_driver_req_msg_v01 :: ctype where
  "struct_ipa_init_modem_driver_req_msg_v01 = Struct False [
    (''platform_type_valid'', Scalar C_u8), (''platform_type'', Scalar C_enum),
    (''hdr_tbl_info_valid'', Scalar C_u8), (''hdr_tbl_info'', struct_ipa_hdr_tbl_info_type_v01),
    (''v4_route_tbl_info_valid'', Scalar C_u8),
    (''v4_route_tbl_info'', struct_ipa_route_tbl_info_type_v01),
    (''v6_route_tbl_info_valid'', Scalar C_u8),
    (''v6_route_tbl_info'', struct_ipa_route_tbl_info_type_v01),
    (''v4_filter_tbl_start_addr_valid'', Scalar C_u8),
    (''v4_filter_tbl_start_addr'', Scalar C_u32),
    (''v6_filter_tbl_start_addr_valid'', Scalar C_u8),
    (''v6_filter_tbl_start_addr'', Scalar C_u32), (''modem_mem_info_valid'', Scalar C_u8),
    (''modem_mem_info'', struct_ipa_modem_mem_info_type_v01),
    (''ctrl_comm_dest_end_pt_valid'', Scalar C_u8), (''ctrl_comm_dest_end_pt'', Scalar C_u32),
    (''is_ssr_bootup_valid'', Scalar C_u8), (''is_ssr_bootup'', Scalar C_u8),
    (''hdr_proc_ctx_tbl_info_valid'', Scalar C_u8),
    (''hdr_proc_ctx_tbl_info'', struct_ipa_hdr_proc_ctx_tbl_info_type_v01),
    (''zip_tbl_info_valid'', Scalar C_u8), (''zip_tbl_info'', struct_ipa_zip_tbl_info_type_v01),
    (''v4_hash_route_tbl_info_valid'', Scalar C_u8),
    (''v4_hash_route_tbl_info'', struct_ipa_route_tbl_info_type_v01),
    (''v6_hash_route_tbl_info_valid'', Scalar C_u8),
    (''v6_hash_route_tbl_info'', struct_ipa_route_tbl_info_type_v01),
    (''v4_hash_filter_tbl_start_addr_valid'', Scalar C_u8),
    (''v4_hash_filter_tbl_start_addr'', Scalar C_u32),
    (''v6_hash_filter_tbl_start_addr_valid'', Scalar C_u8),
    (''v6_hash_filter_tbl_start_addr'', Scalar C_u32),
    (''hw_stats_quota_base_addr_valid'', Scalar C_u8),
    (''hw_stats_quota_base_addr'', Scalar C_u32), (''hw_stats_quota_size_valid'', Scalar C_u8),
    (''hw_stats_quota_size'', Scalar C_u32), (''hw_drop_stats_base_addr_valid'', Scalar C_u8),
    (''hw_drop_stats_base_addr'', Scalar C_u32), (''hw_drop_stats_table_size_valid'', Scalar C_u8),
    (''hw_drop_stats_table_size'', Scalar C_u32), (''hw_fiter_stats_info_valid'', Scalar C_u8),
    (''hw_filter_stats_info'', struct_ipa_filter_stats_info_type_v01),
    (''smem_info_valid'', Scalar C_u8), (''smem_info'', struct_ipa_modem_mem_info_type_v01),
    (''per_stats_smem_info_valid'', Scalar C_u8),
    (''per_stats_smem_info'', struct_ipa_modem_mem_info_type_v01)]"

definition struct_ipa_init_modem_driver_resp_msg_v01 :: ctype where
  "struct_ipa_init_modem_driver_resp_msg_v01 = Struct False [
    (''resp'', struct_ipa_qmi_response_type_v01), (''ctrl_comm_dest_end_pt_valid'', Scalar C_u8),
    (''ctrl_comm_dest_end_pt'', Scalar C_u32), (''default_end_pt_valid'', Scalar C_u8),
    (''default_end_pt'', Scalar C_u32), (''modem_driver_init_pending_valid'', Scalar C_u8),
    (''modem_driver_init_pending'', Scalar C_u8)]"

definition struct_ipa_init_modem_driver_cmplt_req_msg_v01 :: ctype where
  "struct_ipa_init_modem_driver_cmplt_req_msg_v01 = Struct False [
    (''status'', Scalar C_u8)]"

definition struct_ipa_init_modem_driver_cmplt_resp_msg_v01 :: ctype where
  "struct_ipa_init_modem_driver_cmplt_resp_msg_v01 = Struct False [
    (''resp'', struct_ipa_qmi_response_type_v01)]"

definition struct_ipa_indication_reg_req_msg_v01 :: ctype where
  "struct_ipa_indication_reg_req_msg_v01 = Struct False [
    (''master_driver_init_complete_valid'', Scalar C_u8),
    (''master_driver_init_complete'', Scalar C_u8),
    (''data_usage_quota_reached_valid'', Scalar C_u8), (''data_usage_quota_reached'', Scalar C_u8),
    (''ipa_mhi_ready_ind_valid'', Scalar C_u8), (''ipa_mhi_ready_ind'', Scalar C_u8),
    (''endpoint_desc_ind_valid'', Scalar C_u8), (''endpoint_desc_ind'', Scalar C_u8),
    (''bw_change_ind_valid'', Scalar C_u8), (''bw_change_ind'', Scalar C_u8),
    (''rmnet_eth_mac_info_valid'', Scalar C_u8), (''rmnet_eth_mac_info'', Scalar C_u8)]"

definition struct_ipa_indication_reg_resp_msg_v01 :: ctype where
  "struct_ipa_indication_reg_resp_msg_v01 = Struct False [
    (''resp'', struct_ipa_qmi_response_type_v01)]"

definition struct_ipa_master_driver_init_complt_ind_msg_v01 :: ctype where
  "struct_ipa_master_driver_init_complt_ind_msg_v01 = Struct False [
    (''master_driver_init_status'', struct_ipa_qmi_response_type_v01)]"

definition struct_ipa_ipfltr_range_eq_16_type_v01 :: ctype where
  "struct_ipa_ipfltr_range_eq_16_type_v01 = Struct False [
    (''offset'', Scalar C_u8), (''range_low'', Scalar C_u16), (''range_high'', Scalar C_u16)]"

definition struct_ipa_ipfltr_mask_eq_32_type_v01 :: ctype where
  "struct_ipa_ipfltr_mask_eq_32_type_v01 = Struct False [
    (''offset'', Scalar C_u8), (''mask'', Scalar C_u32), (''value'', Scalar C_u32)]"

definition struct_ipa_ipfltr_eq_16_type_v01 :: ctype where
  "struct_ipa_ipfltr_eq_16_type_v01 = Struct False [
    (''offset'', Scalar C_u8), (''value'', Scalar C_u16)]"

definition struct_ipa_ipfltr_eq_32_type_v01 :: ctype where
  "struct_ipa_ipfltr_eq_32_type_v01 = Struct False [
    (''offset'', Scalar C_u8), (''value'', Scalar C_u32)]"

definition struct_ipa_ipfltr_mask_eq_128_type_v01 :: ctype where
  "struct_ipa_ipfltr_mask_eq_128_type_v01 = Struct False [
    (''offset'', Scalar C_u8), (''mask'', Array (Scalar C_u8) 16),
    (''value'', Array (Scalar C_u8) 16)]"

definition struct_ipa_filter_rule_type_v01 :: ctype where
  "struct_ipa_filter_rule_type_v01 = Struct False [
    (''rule_eq_bitmap'', Scalar C_u16), (''tos_eq_present'', Scalar C_u8),
    (''tos_eq'', Scalar C_u8), (''protocol_eq_present'', Scalar C_u8),
    (''protocol_eq'', Scalar C_u8), (''num_ihl_offset_range_16'', Scalar C_u8),
    (''ihl_offset_range_16'', Array struct_ipa_ipfltr_range_eq_16_type_v01 2),
    (''num_offset_meq_32'', Scalar C_u8),
    (''offset_meq_32'', Array struct_ipa_ipfltr_mask_eq_32_type_v01 2),
    (''tc_eq_present'', Scalar C_u8), (''tc_eq'', Scalar C_u8), (''flow_eq_present'', Scalar C_u8),
    (''flow_eq'', Scalar C_u32), (''ihl_offset_eq_16_present'', Scalar C_u8),
    (''ihl_offset_eq_16'', struct_ipa_ipfltr_eq_16_type_v01),
    (''ihl_offset_eq_32_present'', Scalar C_u8),
    (''ihl_offset_eq_32'', struct_ipa_ipfltr_eq_32_type_v01),
    (''num_ihl_offset_meq_32'', Scalar C_u8),
    (''ihl_offset_meq_32'', Array struct_ipa_ipfltr_mask_eq_32_type_v01 2),
    (''num_offset_meq_128'', Scalar C_u8),
    (''offset_meq_128'', Array struct_ipa_ipfltr_mask_eq_128_type_v01 2),
    (''metadata_meq32_present'', Scalar C_u8),
    (''metadata_meq32'', struct_ipa_ipfltr_mask_eq_32_type_v01),
    (''ipv4_frag_eq_present'', Scalar C_u8)]"

definition struct_ipa_filter_rule_req2_type_v01 :: ctype where
  "struct_ipa_filter_rule_req2_type_v01 = Struct False [
    (''rule_eq_bitmap'', Scalar C_u16), (''pure_ack_eq_present'', Scalar C_u8),
    (''pure_ack_eq'', Scalar C_u8), (''protocol_eq_present'', Scalar C_u8),
    (''protocol_eq'', Scalar C_u8), (''num_ihl_offset_range_16'', Scalar C_u8),
    (''ihl_offset_range_16'', Array struct_ipa_ipfltr_range_eq_16_type_v01 2),
    (''num_offset_meq_32'', Scalar C_u8),
    (''offset_meq_32'', Array struct_ipa_ipfltr_mask_eq_32_type_v01 2),
    (''tc_eq_present'', Scalar C_u8), (''tc_eq'', Scalar C_u8), (''flow_eq_present'', Scalar C_u8),
    (''flow_eq'', Scalar C_u32), (''ihl_offset_eq_16_present'', Scalar C_u8),
    (''ihl_offset_eq_16'', struct_ipa_ipfltr_eq_16_type_v01),
    (''ihl_offset_eq_32_present'', Scalar C_u8),
    (''ihl_offset_eq_32'', struct_ipa_ipfltr_eq_32_type_v01),
    (''num_ihl_offset_meq_32'', Scalar C_u8),
    (''ihl_offset_meq_32'', Array struct_ipa_ipfltr_mask_eq_32_type_v01 2),
    (''num_offset_meq_128'', Scalar C_u8),
    (''offset_meq_128'', Array struct_ipa_ipfltr_mask_eq_128_type_v01 2),
    (''metadata_meq32_present'', Scalar C_u8),
    (''metadata_meq32'', struct_ipa_ipfltr_mask_eq_32_type_v01),
    (''ipv4_frag_eq_present'', Scalar C_u8)]"

definition struct_ipa_filter_spec_type_v01 :: ctype where
  "struct_ipa_filter_spec_type_v01 = Struct False [
    (''filter_spec_identifier'', Scalar C_u32), (''ip_type'', Scalar C_enum),
    (''filter_rule'', struct_ipa_filter_rule_type_v01), (''filter_action'', Scalar C_enum),
    (''is_routing_table_index_valid'', Scalar C_u8), (''route_table_index'', Scalar C_u32),
    (''is_mux_id_valid'', Scalar C_u8), (''mux_id'', Scalar C_u32)]"

definition struct_ipa_filter_spec_ex_type_v01 :: ctype where
  "struct_ipa_filter_spec_ex_type_v01 = Struct False [
    (''ip_type'', Scalar C_enum), (''filter_rule'', struct_ipa_filter_rule_type_v01),
    (''filter_action'', Scalar C_enum), (''is_routing_table_index_valid'', Scalar C_u8),
    (''route_table_index'', Scalar C_u32), (''is_mux_id_valid'', Scalar C_u8),
    (''mux_id'', Scalar C_u32), (''rule_id'', Scalar C_u32), (''is_rule_hashable'', Scalar C_u8)]"

definition struct_ipa_filter_spec_ex2_type_v01 :: ctype where
  "struct_ipa_filter_spec_ex2_type_v01 = Struct False [
    (''ip_type'', Scalar C_enum), (''filter_rule'', struct_ipa_filter_rule_req2_type_v01),
    (''filter_action'', Scalar C_enum), (''is_routing_table_index_valid'', Scalar C_u8),
    (''route_table_index'', Scalar C_u32), (''is_mux_id_valid'', Scalar C_u8),
    (''mux_id'', Scalar C_u32), (''rule_id'', Scalar C_u32), (''is_rule_hashable'', Scalar C_u8)]"

definition struct_ipa_install_fltr_rule_req_msg_v01 :: ctype where
  "struct_ipa_install_fltr_rule_req_msg_v01 = Struct False [
    (''filter_spec_list_valid'', Scalar C_u8), (''filter_spec_list_len'', Scalar C_u32),
    (''filter_spec_list'', Array struct_ipa_filter_spec_type_v01 64),
    (''source_pipe_index_valid'', Scalar C_u8), (''source_pipe_index'', Scalar C_u32),
    (''num_ipv4_filters_valid'', Scalar C_u8), (''num_ipv4_filters'', Scalar C_u32),
    (''num_ipv6_filters_valid'', Scalar C_u8), (''num_ipv6_filters'', Scalar C_u32),
    (''xlat_filter_indices_list_valid'', Scalar C_u8),
    (''xlat_filter_indices_list_len'', Scalar C_u32),
    (''xlat_filter_indices_list'', Array (Scalar C_u32) 64),
    (''filter_spec_ex_list_valid'', Scalar C_u8), (''filter_spec_ex_list_len'', Scalar C_u32),
    (''filter_spec_ex_list'', Array struct_ipa_filter_spec_ex_type_v01 64),
    (''filter_spec_ex2_list_valid'', Scalar C_u8), (''filter_spec_ex2_list_len'', Scalar C_u32),
    (''filter_spec_ex2_list'', Array struct_ipa_filter_spec_ex2_type_v01 64),
    (''ul_firewall_indices_list_valid'', Scalar C_u8),
    (''ul_firewall_indices_list_len'', Scalar C_u32),
    (''ul_firewall_indices_list'', Array (Scalar C_u32) 64)]"

definition struct_ipa_filter_rule_identifier_to_handle_map_v01 :: ctype where
  "struct_ipa_filter_rule_identifier_to_handle_map_v01 = Struct False [
    (''filter_spec_identifier'', Scalar C_u32), (''filter_handle'', Scalar C_u32)]"

definition struct_ipa_install_fltr_rule_resp_msg_v01 :: ctype where
  "struct_ipa_install_fltr_rule_resp_msg_v01 = Struct False [
    (''resp'', struct_ipa_qmi_response_type_v01), (''filter_handle_list_valid'', Scalar C_u8),
    (''filter_handle_list_len'', Scalar C_u32),
    (''filter_handle_list'', Array struct_ipa_filter_rule_identifier_to_handle_map_v01 64),
    (''rule_id_valid'', Scalar C_u8), (''rule_id_len'', Scalar C_u32),
    (''rule_id'', Array (Scalar C_u32) 64)]"

definition struct_ipa_filter_handle_to_index_map_v01 :: ctype where
  "struct_ipa_filter_handle_to_index_map_v01 = Struct False [
    (''filter_handle'', Scalar C_u32), (''filter_index'', Scalar C_u32)]"

definition struct_ipa_fltr_installed_notif_req_msg_v01 :: ctype where
  "struct_ipa_fltr_installed_notif_req_msg_v01 = Struct False [
    (''source_pipe_index'', Scalar C_u32), (''install_status'', Scalar C_enum),
    (''filter_index_list_len'', Scalar C_u32),
    (''filter_index_list'', Array struct_ipa_filter_handle_to_index_map_v01 64),
    (''embedded_pipe_index_valid'', Scalar C_u8), (''embedded_pipe_index'', Scalar C_u32),
    (''retain_header_valid'', Scalar C_u8), (''retain_header'', Scalar C_u8),
    (''embedded_call_mux_id_valid'', Scalar C_u8), (''embedded_call_mux_id'', Scalar C_u32),
    (''num_ipv4_filters_valid'', Scalar C_u8), (''num_ipv4_filters'', Scalar C_u32),
    (''num_ipv6_filters_valid'', Scalar C_u8), (''num_ipv6_filters'', Scalar C_u32),
    (''start_ipv4_filter_idx_valid'', Scalar C_u8), (''start_ipv4_filter_idx'', Scalar C_u32),
    (''start_ipv6_filter_idx_valid'', Scalar C_u8), (''start_ipv6_filter_idx'', Scalar C_u32),
    (''rule_id_valid'', Scalar C_u8), (''rule_id_len'', Scalar C_u32),
    (''rule_id'', Array (Scalar C_u32) 64), (''dst_pipe_id_valid'', Scalar C_u8),
    (''dst_pipe_id_len'', Scalar C_u32), (''dst_pipe_id'', Array (Scalar C_u32) 8),
    (''rule_id_ex_valid'', Scalar C_u8), (''rule_id_ex_len'', Scalar C_u32),
    (''rule_id_ex'', Array (Scalar C_u32) 256)]"

definition struct_ipa_fltr_installed_notif_resp_msg_v01 :: ctype where
  "struct_ipa_fltr_installed_notif_resp_msg_v01 = Struct False [
    (''resp'', struct_ipa_qmi_response_type_v01)]"

definition struct_ipa_enable_force_clear_datapath_req_msg_v01 :: ctype where
  "struct_ipa_enable_force_clear_datapath_req_msg_v01 = Struct False [
    (''source_pipe_bitmask'', Scalar C_u32), (''request_id'', Scalar C_u32),
    (''throttle_source_valid'', Scalar C_u8), (''throttle_source'', Scalar C_u8),
    (''source_pipe_bitmask_ext_valid'', Scalar C_u8),
    (''source_pipe_bitmask_ext'', Array (Scalar C_u32) 4)]"

definition struct_ipa_enable_force_clear_datapath_resp_msg_v01 :: ctype where
  "struct_ipa_enable_force_clear_datapath_resp_msg_v01 = Struct False [
    (''resp'', struct_ipa_qmi_response_type_v01)]"

definition struct_ipa_disable_force_clear_datapath_req_msg_v01 :: ctype where
  "struct_ipa_disable_force_clear_datapath_req_msg_v01 = Struct False [
    (''request_id'', Scalar C_u32)]"

definition struct_ipa_disable_force_clear_datapath_resp_msg_v01 :: ctype where
  "struct_ipa_disable_force_clear_datapath_resp_msg_v01 = Struct False [
    (''resp'', struct_ipa_qmi_response_type_v01)]"

definition struct_ipa_config_req_msg_v01 :: ctype where
  "struct_ipa_config_req_msg_v01 = Struct False [
    (''peripheral_type_valid'', Scalar C_u8), (''peripheral_type'', Scalar C_enum),
    (''hw_deaggr_supported_valid'', Scalar C_u8), (''hw_deaggr_supported'', Scalar C_u8),
    (''max_aggr_frame_size_valid'', Scalar C_u8), (''max_aggr_frame_size'', Scalar C_u32),
    (''ipa_ingress_pipe_mode_valid'', Scalar C_u8), (''ipa_ingress_pipe_mode'', Scalar C_enum),
    (''peripheral_speed_info_valid'', Scalar C_u8), (''peripheral_speed_info'', Scalar C_enum),
    (''dl_accumulation_time_limit_valid'', Scalar C_u8),
    (''dl_accumulation_time_limit'', Scalar C_u32),
    (''dl_accumulation_pkt_limit_valid'', Scalar C_u8),
    (''dl_accumulation_pkt_limit'', Scalar C_u32),
    (''dl_accumulation_byte_limit_valid'', Scalar C_u8),
    (''dl_accumulation_byte_limit'', Scalar C_u32),
    (''ul_accumulation_time_limit_valid'', Scalar C_u8),
    (''ul_accumulation_time_limit'', Scalar C_u32), (''hw_control_flags_valid'', Scalar C_u8),
    (''hw_control_flags'', Scalar C_u32), (''ul_msi_event_threshold_valid'', Scalar C_u8),
    (''ul_msi_event_threshold'', Scalar C_u32), (''dl_msi_event_threshold_valid'', Scalar C_u8),
    (''dl_msi_event_threshold'', Scalar C_u32), (''ul_fifo_size_valid'', Scalar C_u8),
    (''ul_fifo_size'', Scalar C_u32), (''dl_fifo_size_valid'', Scalar C_u8),
    (''dl_fifo_size'', Scalar C_u32), (''dl_buf_size_valid'', Scalar C_u8),
    (''dl_buf_size'', Scalar C_u32)]"

definition struct_ipa_config_resp_msg_v01 :: ctype where
  "struct_ipa_config_resp_msg_v01 = Struct False [
    (''resp'', struct_ipa_qmi_response_type_v01)]"

definition struct_ipa_pipe_stats_info_type_v01 :: ctype where
  "struct_ipa_pipe_stats_info_type_v01 = Struct False [
    (''pipe_index'', Scalar C_u32), (''num_ipv4_packets'', Scalar C_u64),
    (''num_ipv4_bytes'', Scalar C_u64), (''num_ipv6_packets'', Scalar C_u64),
    (''num_ipv6_bytes'', Scalar C_u64)]"

definition struct_ipa_stats_type_filter_rule_v01 :: ctype where
  "struct_ipa_stats_type_filter_rule_v01 = Struct False [
    (''filter_rule_index'', Scalar C_u32), (''num_packets'', Scalar C_u64)]"

definition struct_ipa_get_data_stats_req_msg_v01 :: ctype where
  "struct_ipa_get_data_stats_req_msg_v01 = Struct False [
    (''ipa_stats_type'', Scalar C_enum), (''reset_stats_valid'', Scalar C_u8),
    (''reset_stats'', Scalar C_u8)]"

definition struct_ipa_get_data_stats_resp_msg_v01 :: ctype where
  "struct_ipa_get_data_stats_resp_msg_v01 = Struct False [
    (''resp'', struct_ipa_qmi_response_type_v01), (''ipa_stats_type_valid'', Scalar C_u8),
    (''ipa_stats_type'', Scalar C_enum), (''ul_src_pipe_stats_list_valid'', Scalar C_u8),
    (''ul_src_pipe_stats_list_len'', Scalar C_u32),
    (''ul_src_pipe_stats_list'', Array struct_ipa_pipe_stats_info_type_v01 20),
    (''dl_dst_pipe_stats_list_valid'', Scalar C_u8),
    (''dl_dst_pipe_stats_list_len'', Scalar C_u32),
    (''dl_dst_pipe_stats_list'', Array struct_ipa_pipe_stats_info_type_v01 20),
    (''dl_filter_rule_stats_list_valid'', Scalar C_u8),
    (''dl_filter_rule_stats_list_len'', Scalar C_u32),
    (''dl_filter_rule_stats_list'', Array struct_ipa_stats_type_filter_rule_v01 64)]"

definition struct_ipa_apn_data_stats_info_type_v01 :: ctype where
  "struct_ipa_apn_data_stats_info_type_v01 = Struct False [
    (''mux_id'', Scalar C_u32), (''num_ul_packets'', Scalar C_u64),
    (''num_ul_bytes'', Scalar C_u64), (''num_dl_packets'', Scalar C_u64),
    (''num_dl_bytes'', Scalar C_u64)]"

definition struct_ipa_get_apn_data_stats_req_msg_v01 :: ctype where
  "struct_ipa_get_apn_data_stats_req_msg_v01 = Struct False [
    (''mux_id_list_valid'', Scalar C_u8), (''mux_id_list_len'', Scalar C_u32),
    (''mux_id_list'', Array (Scalar C_u32) 8)]"

definition struct_ipa_get_apn_data_stats_resp_msg_v01 :: ctype where
  "struct_ipa_get_apn_data_stats_resp_msg_v01 = Struct False [
    (''resp'', struct_ipa_qmi_response_type_v01), (''apn_data_stats_list_valid'', Scalar C_u8),
    (''apn_data_stats_list_len'', Scalar C_u32),
    (''apn_data_stats_list'', Array struct_ipa_apn_data_stats_info_type_v01 8)]"

definition struct_ipa_data_usage_quota_info_type_v01 :: ctype where
  "struct_ipa_data_usage_quota_info_type_v01 = Struct False [
    (''mux_id'', Scalar C_u32), (''num_Mbytes'', Scalar C_u64)]"

definition struct_ipa_set_data_usage_quota_req_msg_v01 :: ctype where
  "struct_ipa_set_data_usage_quota_req_msg_v01 = Struct False [
    (''apn_quota_list_valid'', Scalar C_u8), (''apn_quota_list_len'', Scalar C_u32),
    (''apn_quota_list'', Array struct_ipa_data_usage_quota_info_type_v01 8),
    (''apn_warning_list_valid'', Scalar C_u8), (''apn_warning_list_len'', Scalar C_u32),
    (''apn_warning_list'', Array struct_ipa_data_usage_quota_info_type_v01 8)]"

definition struct_ipa_set_data_usage_quota_resp_msg_v01 :: ctype where
  "struct_ipa_set_data_usage_quota_resp_msg_v01 = Struct False [
    (''resp'', struct_ipa_qmi_response_type_v01)]"

definition struct_ipa_data_usage_quota_reached_ind_msg_v01 :: ctype where
  "struct_ipa_data_usage_quota_reached_ind_msg_v01 = Struct False [
    (''apn'', struct_ipa_data_usage_quota_info_type_v01),
    (''is_warning_limit_valid'', Scalar C_u8), (''is_warning_limit'', Scalar C_u8)]"

definition struct_ipa_stop_data_usage_quota_req_msg_v01 :: ctype where
  "struct_ipa_stop_data_usage_quota_req_msg_v01 = Struct False [
    (''is_quota_limit_valid'', Scalar C_u8), (''is_quota_limit'', Scalar C_u8),
    (''is_warning_limit_valid'', Scalar C_u8), (''is_warning_limit'', Scalar C_u8)]"

definition struct_ipa_stop_data_usage_quota_resp_msg_v01 :: ctype where
  "struct_ipa_stop_data_usage_quota_resp_msg_v01 = Struct False [
    (''resp'', struct_ipa_qmi_response_type_v01)]"

definition struct_ipa_install_fltr_rule_req_ex_msg_v01 :: ctype where
  "struct_ipa_install_fltr_rule_req_ex_msg_v01 = Struct False [
    (''filter_spec_ex_list_valid'', Scalar C_u8), (''filter_spec_ex_list_len'', Scalar C_u32),
    (''filter_spec_ex_list'', Array struct_ipa_filter_spec_ex_type_v01 128),
    (''source_pipe_index_valid'', Scalar C_u8), (''source_pipe_index'', Scalar C_u32),
    (''num_ipv4_filters_valid'', Scalar C_u8), (''num_ipv4_filters'', Scalar C_u32),
    (''num_ipv6_filters_valid'', Scalar C_u8), (''num_ipv6_filters'', Scalar C_u32),
    (''xlat_filter_indices_list_valid'', Scalar C_u8),
    (''xlat_filter_indices_list_len'', Scalar C_u32),
    (''xlat_filter_indices_list'', Array (Scalar C_u32) 128),
    (''filter_spec_ex2_list_valid'', Scalar C_u8), (''filter_spec_ex2_list_len'', Scalar C_u32),
    (''filter_spec_ex2_list'', Array struct_ipa_filter_spec_ex2_type_v01 64),
    (''ul_firewall_indices_list_valid'', Scalar C_u8),
    (''ul_firewall_indices_list_len'', Scalar C_u32),
    (''ul_firewall_indices_list'', Array (Scalar C_u32) 64)]"

definition struct_ipa_install_fltr_rule_resp_ex_msg_v01 :: ctype where
  "struct_ipa_install_fltr_rule_resp_ex_msg_v01 = Struct False [
    (''resp'', struct_ipa_qmi_response_type_v01), (''rule_id_valid'', Scalar C_u8),
    (''rule_id_len'', Scalar C_u32), (''rule_id'', Array (Scalar C_u32) 128)]"

definition struct_ipa_enable_per_client_stats_req_msg_v01 :: ctype where
  "struct_ipa_enable_per_client_stats_req_msg_v01 = Struct False [
    (''enable_per_client_stats'', Scalar C_u8)]"

definition struct_ipa_enable_per_client_stats_resp_msg_v01 :: ctype where
  "struct_ipa_enable_per_client_stats_resp_msg_v01 = Struct False [
    (''resp'', struct_ipa_qmi_response_type_v01)]"

definition struct_ipa_per_client_stats_info_type_v01 :: ctype where
  "struct_ipa_per_client_stats_info_type_v01 = Struct False [
    (''client_id'', Scalar C_u32), (''src_pipe_id'', Scalar C_u32),
    (''num_ul_ipv4_bytes'', Scalar C_u64), (''num_ul_ipv6_bytes'', Scalar C_u64),
    (''num_dl_ipv4_bytes'', Scalar C_u64), (''num_dl_ipv6_bytes'', Scalar C_u64),
    (''num_ul_ipv4_pkts'', Scalar C_u32), (''num_ul_ipv6_pkts'', Scalar C_u32),
    (''num_dl_ipv4_pkts'', Scalar C_u32), (''num_dl_ipv6_pkts'', Scalar C_u32)]"

definition struct_ipa_get_stats_per_client_req_msg_v01 :: ctype where
  "struct_ipa_get_stats_per_client_req_msg_v01 = Struct False [
    (''client_id'', Scalar C_u32), (''src_pipe_id'', Scalar C_u32),
    (''reset_stats_valid'', Scalar C_u8), (''reset_stats'', Scalar C_u8)]"

definition struct_ipa_get_stats_per_client_resp_msg_v01 :: ctype where
  "struct_ipa_get_stats_per_client_resp_msg_v01 = Struct False [
    (''resp'', struct_ipa_qmi_response_type_v01), (''per_client_stats_list_valid'', Scalar C_u8),
    (''per_client_stats_list_len'', Scalar C_u32),
    (''per_client_stats_list'', Array struct_ipa_per_client_stats_info_type_v01 64)]"

definition struct_ipa_ul_firewall_rule_type_v01 :: ctype where
  "struct_ipa_ul_firewall_rule_type_v01 = Struct False [
    (''ip_type'', Scalar C_enum), (''filter_rule'', struct_ipa_filter_rule_type_v01)]"

definition struct_ipa_configure_ul_firewall_rules_req_msg_v01 :: ctype where
  "struct_ipa_configure_ul_firewall_rules_req_msg_v01 = Struct False [
    (''firewall_rules_list_len'', Scalar C_u32),
    (''firewall_rules_list'', Array struct_ipa_ul_firewall_rule_type_v01 64),
    (''mux_id'', Scalar C_u32), (''disable_valid'', Scalar C_u8), (''disable'', Scalar C_u8),
    (''are_blacklist_filters_valid'', Scalar C_u8), (''are_blacklist_filters'', Scalar C_u8)]"

definition struct_ipa_configure_ul_firewall_rules_resp_msg_v01 :: ctype where
  "struct_ipa_configure_ul_firewall_rules_resp_msg_v01 = Struct False [
    (''resp'', struct_ipa_qmi_response_type_v01)]"

definition struct_ipa_ul_firewall_config_result_type_v01 :: ctype where
  "struct_ipa_ul_firewall_config_result_type_v01 = Struct False [
    (''is_success'', Scalar C_enum), (''mux_id'', Scalar C_u32)]"

definition struct_ipa_configure_ul_firewall_rules_ind_msg_v01 :: ctype where
  "struct_ipa_configure_ul_firewall_rules_ind_msg_v01 = Struct False [
    (''result'', struct_ipa_ul_firewall_config_result_type_v01)]"

definition struct_ipa_mhi_ch_init_info_type_v01 :: ctype where
  "struct_ipa_mhi_ch_init_info_type_v01 = Struct False [
    (''ch_id'', Scalar C_u8), (''er_id'', Scalar C_u8), (''ch_doorbell_addr'', Scalar C_u32),
    (''er_doorbell_addr'', Scalar C_u32), (''direction_type'', Scalar C_u32)]"

definition struct_ipa_mhi_smmu_info_type_v01 :: ctype where
  "struct_ipa_mhi_smmu_info_type_v01 = Struct False [
    (''iova_ctl_base_addr'', Scalar C_u64), (''iova_ctl_size'', Scalar C_u64),
    (''iova_data_base_addr'', Scalar C_u64), (''iova_data_size'', Scalar C_u64)]"

definition struct_ipa_mhi_ready_indication_msg_v01 :: ctype where
  "struct_ipa_mhi_ready_indication_msg_v01 = Struct False [
    (''ch_info_arr_len'', Scalar C_u32),
    (''ch_info_arr'', Array struct_ipa_mhi_ch_init_info_type_v01 6),
    (''smmu_info_valid'', Scalar C_u8), (''smmu_info'', struct_ipa_mhi_smmu_info_type_v01)]"

definition struct_ipa_mhi_mem_addr_info_type_v01 :: ctype where
  "struct_ipa_mhi_mem_addr_info_type_v01 = Struct False [
    (''pa'', Scalar C_u64), (''iova'', Scalar C_u64), (''size'', Scalar C_u64)]"

definition struct_ipa_mhi_tr_info_type_v01 :: ctype where
  "struct_ipa_mhi_tr_info_type_v01 = Struct False [
    (''ch_id'', Scalar C_u8), (''poll_cfg'', Scalar C_u16), (''brst_mode_type'', Scalar C_enum),
    (''ring_iova'', Scalar C_u64), (''ring_len'', Scalar C_u64), (''rp'', Scalar C_u64),
    (''wp'', Scalar C_u64)]"

definition struct_ipa_mhi_er_info_type_v01 :: ctype where
  "struct_ipa_mhi_er_info_type_v01 = Struct False [
    (''er_id'', Scalar C_u8), (''intmod_cycles'', Scalar C_u32), (''intmod_count'', Scalar C_u32),
    (''msi_addr'', Scalar C_u32), (''ring_iova'', Scalar C_u64), (''ring_len'', Scalar C_u64),
    (''rp'', Scalar C_u64), (''wp'', Scalar C_u64)]"

definition struct_ipa_mhi_alloc_channel_req_msg_v01 :: ctype where
  "struct_ipa_mhi_alloc_channel_req_msg_v01 = Struct False [
    (''tr_info_arr_len'', Scalar C_u32),
    (''tr_info_arr'', Array struct_ipa_mhi_tr_info_type_v01 6),
    (''er_info_arr_len'', Scalar C_u32),
    (''er_info_arr'', Array struct_ipa_mhi_er_info_type_v01 6),
    (''ctrl_addr_map_info_len'', Scalar C_u32),
    (''ctrl_addr_map_info'', Array struct_ipa_mhi_mem_addr_info_type_v01 6),
    (''data_addr_map_info_len'', Scalar C_u32),
    (''data_addr_map_info'', Array struct_ipa_mhi_mem_addr_info_type_v01 6)]"

definition struct_ipa_mhi_ch_alloc_resp_type_v01 :: ctype where
  "struct_ipa_mhi_ch_alloc_resp_type_v01 = Struct False [
    (''ch_id'', Scalar C_u8), (''is_success'', Scalar C_u8)]"

definition struct_ipa_mhi_alloc_channel_resp_msg_v01 :: ctype where
  "struct_ipa_mhi_alloc_channel_resp_msg_v01 = Struct False [
    (''resp'', struct_ipa_qmi_response_type_v01), (''alloc_resp_arr_valid'', Scalar C_u8),
    (''alloc_resp_arr_len'', Scalar C_u32),
    (''alloc_resp_arr'', Array struct_ipa_mhi_ch_alloc_resp_type_v01 6)]"

definition struct_ipa_mhi_clk_vote_req_msg_v01 :: ctype where
  "struct_ipa_mhi_clk_vote_req_msg_v01 = Struct False [
    (''mhi_vote'', Scalar C_u8), (''tput_value_valid'', Scalar C_u8),
    (''tput_value'', Scalar C_u32), (''clk_rate_valid'', Scalar C_u8),
    (''clk_rate'', Scalar C_enum)]"

definition struct_ipa_mhi_clk_vote_resp_msg_v01 :: ctype where
  "struct_ipa_mhi_clk_vote_resp_msg_v01 = Struct False [
    (''resp'', struct_ipa_qmi_response_type_v01)]"

definition struct_ipa_mhi_cleanup_req_msg_v01 :: ctype where
  "struct_ipa_mhi_cleanup_req_msg_v01 = Struct False [
    (''cleanup_valid'', Scalar C_u8), (''cleanup'', Scalar C_u8)]"

definition struct_ipa_mhi_cleanup_resp_msg_v01 :: ctype where
  "struct_ipa_mhi_cleanup_resp_msg_v01 = Struct False [
    (''resp'', struct_ipa_qmi_response_type_v01)]"

definition struct_ipa_ep_id_type_v01 :: ctype where
  "struct_ipa_ep_id_type_v01 = Struct False [
    (''ic_type'', Scalar C_enum), (''ep_type'', Scalar C_enum), (''ep_id'', Scalar C_u32),
    (''ep_status'', Scalar C_enum)]"

definition struct_ipa_endp_desc_indication_msg_v01 :: ctype where
  "struct_ipa_endp_desc_indication_msg_v01 = Struct False [
    (''ep_info_valid'', Scalar C_u8), (''ep_info_len'', Scalar C_u32),
    (''ep_info'', Array struct_ipa_ep_id_type_v01 31), (''num_eps_valid'', Scalar C_u8),
    (''num_eps'', Scalar C_u32)]"

definition struct_ipa_mhi_prime_aggr_info_type_v01 :: ctype where
  "struct_ipa_mhi_prime_aggr_info_type_v01 = Struct False [
    (''ic_type'', Scalar C_enum), (''ep_type'', Scalar C_enum), (''bytes_count'', Scalar C_u32),
    (''pkt_count'', Scalar C_u32), (''aggr_type'', Scalar C_enum)]"

definition struct_ipa_mhi_prime_aggr_info_req_msg_v01 :: ctype where
  "struct_ipa_mhi_prime_aggr_info_req_msg_v01 = Struct False [
    (''aggr_info_valid'', Scalar C_u8), (''aggr_info_len'', Scalar C_u32),
    (''aggr_info'', Array struct_ipa_mhi_prime_aggr_info_type_v01 31),
    (''num_eps_valid'', Scalar C_u8), (''num_eps'', Scalar C_u32)]"

definition struct_ipa_mhi_prime_aggr_info_resp_msg_v01 :: ctype where
  "struct_ipa_mhi_prime_aggr_info_resp_msg_v01 = Struct False [
    (''resp'', struct_ipa_qmi_response_type_v01)]"

definition struct_ipa_add_offload_connection_req_msg_v01 :: ctype where
  "struct_ipa_add_offload_connection_req_msg_v01 = Struct False [
    (''num_ipv4_filters_valid'', Scalar C_u8), (''num_ipv4_filters'', Scalar C_u32),
    (''num_ipv6_filters_valid'', Scalar C_u8), (''num_ipv6_filters'', Scalar C_u32),
    (''xlat_filter_indices_list_valid'', Scalar C_u8),
    (''xlat_filter_indices_list_len'', Scalar C_u32),
    (''xlat_filter_indices_list'', Array (Scalar C_u32) 64),
    (''filter_spec_ex2_list_valid'', Scalar C_u8), (''filter_spec_ex2_list_len'', Scalar C_u32),
    (''filter_spec_ex2_list'', Array struct_ipa_filter_spec_ex2_type_v01 64),
    (''embedded_call_mux_id_valid'', Scalar C_u8), (''embedded_call_mux_id'', Scalar C_u32),
    (''default_mhi_path_valid'', Scalar C_u8), (''default_mhi_path'', Scalar C_u8)]"

definition struct_ipa_add_offload_connection_resp_msg_v01 :: ctype where
  "struct_ipa_add_offload_connection_resp_msg_v01 = Struct False [
    (''resp'', struct_ipa_qmi_response_type_v01), (''filter_handle_list_valid'', Scalar C_u8),
    (''filter_handle_list_len'', Scalar C_u32),
    (''filter_handle_list'', Array struct_ipa_filter_rule_identifier_to_handle_map_v01 64)]"

definition struct_ipa_remove_offload_connection_req_msg_v01 :: ctype where
  "struct_ipa_remove_offload_connection_req_msg_v01 = Struct False [
    (''filter_handle_list_valid'', Scalar C_u8), (''filter_handle_list_len'', Scalar C_u32),
    (''filter_handle_list'', Array struct_ipa_filter_rule_identifier_to_handle_map_v01 64),
    (''clean_all_rules_valid'', Scalar C_u8), (''clean_all_rules'', Scalar C_u8)]"

definition struct_ipa_remove_offload_connection_resp_msg_v01 :: ctype where
  "struct_ipa_remove_offload_connection_resp_msg_v01 = Struct False [
    (''resp_valid'', Scalar C_u8), (''resp'', struct_ipa_qmi_response_type_v01)]"

definition struct_ipa_bw_change_ind_msg_v01 :: ctype where
  "struct_ipa_bw_change_ind_msg_v01 = Struct False [
    (''peak_bw_ul_valid'', Scalar C_u8), (''peak_bw_dl_valid'', Scalar C_u8),
    (''peak_bw_ul'', Scalar C_u32), (''peak_bw_dl'', Scalar C_u32)]"

definition struct_ipa_move_nat_req_msg_v01 :: ctype where
  "struct_ipa_move_nat_req_msg_v01 = Struct False [
    (''nat_move_direction'', Scalar C_enum)]"

definition struct_ipa_move_nat_resp_msg_v01 :: ctype where
  "struct_ipa_move_nat_resp_msg_v01 = Struct False [
    (''resp'', struct_ipa_qmi_response_type_v01)]"

definition struct_ipa_move_nat_table_complt_ind_msg_v01 :: ctype where
  "struct_ipa_move_nat_table_complt_ind_msg_v01 = Struct False [
    (''nat_table_move_status'', struct_ipa_qmi_response_type_v01)]"

definition struct_ipa_eth_backhaul_info_req_msg_v01 :: ctype where
  "struct_ipa_eth_backhaul_info_req_msg_v01 = Struct False [
    (''src_mac_addr'', Array (Scalar C_u8) 6), (''dst_mac_addr'', Array (Scalar C_u8) 6),
    (''ipv4_addr_eth0'', Array (Scalar C_u32) 4), (''eth_pipe'', Scalar C_u8),
    (''enable'', Scalar C_u8)]"

definition struct_ipa_eth_backhaul_info_resp_msg_v01 :: ctype where
  "struct_ipa_eth_backhaul_info_resp_msg_v01 = Struct False [
    (''resp'', struct_ipa_qmi_response_type_v01)]"

definition struct_ipa_rmnet_eth_info_type_v01 :: ctype where
  "struct_ipa_rmnet_eth_info_type_v01 = Struct False [
    (''mac_addr'', Array (Scalar C_u8) 6), (''mux_id'', Scalar C_u32)]"

definition struct_ipa_rmnet_eth_info_indication_msg_v01 :: ctype where
  "struct_ipa_rmnet_eth_info_indication_msg_v01 = Struct False [
    (''rmnet_eth_info_valid'', Scalar C_u8), (''rmnet_eth_info_len'', Scalar C_u32),
    (''rmnet_eth_info'', Array struct_ipa_rmnet_eth_info_type_v01 19)]"

section \<open>Messages\<close>

datatype qmi_kind = QReq | QResp | QInd

record qmi_message =
  msg_name :: string
  msg_kind :: qmi_kind
  msg_id :: nat
  msg_max_len :: nat

definition IPA_MHI_CLK_VOTE_REQ_MSG_V01_MAX_MSG_LEN :: nat where
  "IPA_MHI_CLK_VOTE_REQ_MSG_V01_MAX_MSG_LEN = 18"

definition IPA_MHI_CLK_VOTE_RESP_MSG_V01_MAX_MSG_LEN :: nat where
  "IPA_MHI_CLK_VOTE_RESP_MSG_V01_MAX_MSG_LEN = 7"

definition IPA_MHI_READY_INDICATION_MSG_V01_MAX_MSG_LEN :: nat where
  "IPA_MHI_READY_INDICATION_MSG_V01_MAX_MSG_LEN = 123"

definition IPA_MHI_ALLOC_CHANNEL_REQ_MSG_V01_MAX_MSG_LEN :: nat where
  "IPA_MHI_ALLOC_CHANNEL_REQ_MSG_V01_MAX_MSG_LEN = 808"

definition IPA_MHI_ALLOC_CHANNEL_RESP_MSG_V01_MAX_MSG_LEN :: nat where
  "IPA_MHI_ALLOC_CHANNEL_RESP_MSG_V01_MAX_MSG_LEN = 23"

definition IPA_MHI_CLEANUP_REQ_MSG_V01_MAX_MSG_LEN :: nat where
  "IPA_MHI_CLEANUP_REQ_MSG_V01_MAX_MSG_LEN = 4"

definition IPA_MHI_CLEANUP_RESP_MSG_V01_MAX_MSG_LEN :: nat where
  "IPA_MHI_CLEANUP_RESP_MSG_V01_MAX_MSG_LEN = 7"

definition IPA_ENDP_DESC_INDICATION_MSG_V01_MAX_MSG_LEN :: nat where
  "IPA_ENDP_DESC_INDICATION_MSG_V01_MAX_MSG_LEN = 507"

definition IPA_MHI_PRIME_AGGR_INFO_REQ_MSG_V01_MAX_MSG_LEN :: nat where
  "IPA_MHI_PRIME_AGGR_INFO_REQ_MSG_V01_MAX_MSG_LEN = 631"

definition IPA_MHI_PRIME_AGGR_INFO_RESP_MSG_V01_MAX_MSG_LEN :: nat where
  "IPA_MHI_PRIME_AGGR_INFO_RESP_MSG_V01_MAX_MSG_LEN = 7"

definition IPA_ADD_OFFLOAD_CONNECTION_REQ_MSG_V01_MAX_MSG_LEN :: nat where
  "IPA_ADD_OFFLOAD_CONNECTION_REQ_MSG_V01_MAX_MSG_LEN = 11361"

definition IPA_ADD_OFFLOAD_CONNECTION_RESP_MSG_V01_MAX_MSG_LEN :: nat where
  "IPA_ADD_OFFLOAD_CONNECTION_RESP_MSG_V01_MAX_MSG_LEN = 523"

definition IPA_REMOVE_OFFLOAD_CONNECTION_REQ_MSG_V01_MAX_MSG_LEN :: nat where
  "IPA_REMOVE_OFFLOAD_CONNECTION_REQ_MSG_V01_MAX_MSG_LEN = 520"

definition IPA_REMOVE_OFFLOAD_CONNECTION_RESP_MSG_V01_MAX_MSG_LEN :: nat where
  "IPA_REMOVE_OFFLOAD_CONNECTION_RESP_MSG_V01_MAX_MSG_LEN = 7"

definition IPA_BW_CHANGE_IND_MSG_V01_MAX_MSG_LEN :: nat where
  "IPA_BW_CHANGE_IND_MSG_V01_MAX_MSG_LEN = 14"

definition IPA_MOVE_NAT_REQ_MSG_V01_MAX_MSG_LEN :: nat where
  "IPA_MOVE_NAT_REQ_MSG_V01_MAX_MSG_LEN = 8"

definition IPA_MOVE_NAT_RESP_MSG_V01_MAX_MSG_LEN :: nat where
  "IPA_MOVE_NAT_RESP_MSG_V01_MAX_MSG_LEN = 7"

definition QMI_IPA_NAT_TABLE_MOVE_COMPLETE_IND_MAX_MSG_LEN_V01 :: nat where
  "QMI_IPA_NAT_TABLE_MOVE_COMPLETE_IND_MAX_MSG_LEN_V01 = 7"

definition IPA_ETH_BACKHAUL_INFO_REQ_MSG_V01_MAX_MSG_LEN :: nat where
  "IPA_ETH_BACKHAUL_INFO_REQ_MSG_V01_MAX_MSG_LEN = 45"

definition IPA_ETH_BACKHAUL_INFO_RESP_MSG_V01_MAX_MSG_LEN :: nat where
  "IPA_ETH_BACKHAUL_INFO_RESP_MSG_V01_MAX_MSG_LEN = 7"

definition IPA_RMNET_ETH_INFO_INDICATION_MSG_V01_MAX_MSG_LEN :: nat where
  "IPA_RMNET_ETH_INFO_INDICATION_MSG_V01_MAX_MSG_LEN = 194"

definition QMI_IPA_MAX_MSG_LEN :: nat where
  "QMI_IPA_MAX_MSG_LEN = 22685"

definition qmi_messages :: "qmi_message list" where
  "qmi_messages =
    [\<lparr>msg_name = ''INDICATION_REGISTER_REQ'', msg_kind = QReq,
       msg_id = 0x0020, msg_max_len = 16\<rparr>,
     \<lparr>msg_name = ''INDICATION_REGISTER_RESP'', msg_kind = QResp,
       msg_id = 0x0020, msg_max_len = 7\<rparr>,
     \<lparr>msg_name = ''INIT_MODEM_DRIVER_REQ'', msg_kind = QReq,
       msg_id = 0x0021, msg_max_len = 197\<rparr>,
     \<lparr>msg_name = ''INIT_MODEM_DRIVER_RESP'', msg_kind = QResp,
       msg_id = 0x0021, msg_max_len = 25\<rparr>,
     \<lparr>msg_name = ''MASTER_DRIVER_INIT_COMPLETE_IND'', msg_kind = QInd,
       msg_id = 0x0022, msg_max_len = 7\<rparr>,
     \<lparr>msg_name = ''INSTALL_FILTER_RULE_REQ'', msg_kind = QReq,
       msg_id = 0x0023, msg_max_len = 33705\<rparr>,
     \<lparr>msg_name = ''INSTALL_FILTER_RULE_RESP'', msg_kind = QResp,
       msg_id = 0x0023, msg_max_len = 783\<rparr>,
     \<lparr>msg_name = ''FILTER_INSTALLED_NOTIF_REQ'', msg_kind = QReq,
       msg_id = 0x0024, msg_max_len = 1899\<rparr>,
     \<lparr>msg_name = ''FILTER_INSTALLED_NOTIF_RESP'', msg_kind = QResp,
       msg_id = 0x0024, msg_max_len = 7\<rparr>,
     \<lparr>msg_name = ''ENABLE_FORCE_CLEAR_DATAPATH_REQ'', msg_kind = QReq,
       msg_id = 0x0025, msg_max_len = 37\<rparr>,
     \<lparr>msg_name = ''ENABLE_FORCE_CLEAR_DATAPATH_RESP'', msg_kind = QResp,
       msg_id = 0x0025, msg_max_len = 7\<rparr>,
     \<lparr>msg_name = ''DISABLE_FORCE_CLEAR_DATAPATH_REQ'', msg_kind = QReq,
       msg_id = 0x0026, msg_max_len = 7\<rparr>,
     \<lparr>msg_name = ''DISABLE_FORCE_CLEAR_DATAPATH_RESP'', msg_kind = QResp,
       msg_id = 0x0026, msg_max_len = 7\<rparr>,
     \<lparr>msg_name = ''CONFIG_REQ'', msg_kind = QReq,
       msg_id = 0x0027, msg_max_len = 102\<rparr>,
     \<lparr>msg_name = ''CONFIG_RESP'', msg_kind = QResp,
       msg_id = 0x0027, msg_max_len = 7\<rparr>,
     \<lparr>msg_name = ''DISABLE_LINK_LOW_PWR_STATE_REQ'', msg_kind = QReq,
       msg_id = 0x0028, msg_max_len = 18\<rparr>,
     \<lparr>msg_name = ''DISABLE_LINK_LOW_PWR_STATE_RESP'', msg_kind = QResp,
       msg_id = 0x0028, msg_max_len = 7\<rparr>,
     \<lparr>msg_name = ''ENABLE_LINK_LOW_PWR_STATE_REQ'', msg_kind = QReq,
       msg_id = 0x0029, msg_max_len = 7\<rparr>,
     \<lparr>msg_name = ''ENABLE_LINK_LOW_PWR_STATE_RESP'', msg_kind = QResp,
       msg_id = 0x0029, msg_max_len = 7\<rparr>,
     \<lparr>msg_name = ''GET_DATA_STATS_REQ'', msg_kind = QReq,
       msg_id = 0x0030, msg_max_len = 11\<rparr>,
     \<lparr>msg_name = ''GET_DATA_STATS_RESP'', msg_kind = QResp,
       msg_id = 0x0030, msg_max_len = 2234\<rparr>,
     \<lparr>msg_name = ''GET_APN_DATA_STATS_REQ'', msg_kind = QReq,
       msg_id = 0x0031, msg_max_len = 36\<rparr>,
     \<lparr>msg_name = ''GET_APN_DATA_STATS_RESP'', msg_kind = QResp,
       msg_id = 0x0031, msg_max_len = 299\<rparr>,
     \<lparr>msg_name = ''SET_DATA_USAGE_QUOTA_REQ'', msg_kind = QReq,
       msg_id = 0x0032, msg_max_len = 200\<rparr>,
     \<lparr>msg_name = ''SET_DATA_USAGE_QUOTA_RESP'', msg_kind = QResp,
       msg_id = 0x0032, msg_max_len = 7\<rparr>,
     \<lparr>msg_name = ''DATA_USAGE_QUOTA_REACHED_IND'', msg_kind = QInd,
       msg_id = 0x0033, msg_max_len = 19\<rparr>,
     \<lparr>msg_name = ''STOP_DATA_USAGE_QUOTA_REQ'', msg_kind = QReq,
       msg_id = 0x0034, msg_max_len = 8\<rparr>,
     \<lparr>msg_name = ''STOP_DATA_USAGE_QUOTA_RESP'', msg_kind = QResp,
       msg_id = 0x0034, msg_max_len = 7\<rparr>,
     \<lparr>msg_name = ''INIT_MODEM_DRIVER_CMPLT_REQ'', msg_kind = QReq,
       msg_id = 0x0035, msg_max_len = 4\<rparr>,
     \<lparr>msg_name = ''INIT_MODEM_DRIVER_CMPLT_RESP'', msg_kind = QResp,
       msg_id = 0x0035, msg_max_len = 7\<rparr>,
     \<lparr>msg_name = ''INSTALL_FILTER_RULE_EX_REQ'', msg_kind = QReq,
       msg_id = 0x0037, msg_max_len = 34021\<rparr>,
     \<lparr>msg_name = ''INSTALL_FILTER_RULE_EX_RESP'', msg_kind = QResp,
       msg_id = 0x0037, msg_max_len = 523\<rparr>,
     \<lparr>msg_name = ''ENABLE_PER_CLIENT_STATS_REQ'', msg_kind = QReq,
       msg_id = 0x0038, msg_max_len = 4\<rparr>,
     \<lparr>msg_name = ''ENABLE_PER_CLIENT_STATS_RESP'', msg_kind = QResp,
       msg_id = 0x0038, msg_max_len = 7\<rparr>,
     \<lparr>msg_name = ''GET_STATS_PER_CLIENT_REQ'', msg_kind = QReq,
       msg_id = 0x0039, msg_max_len = 18\<rparr>,
     \<lparr>msg_name = ''GET_STATS_PER_CLIENT_RESP'', msg_kind = QResp,
       msg_id = 0x0039, msg_max_len = 3595\<rparr>,
     \<lparr>msg_name = ''INSTALL_UL_FIREWALL_RULES_REQ'', msg_kind = QReq,
       msg_id = 0x003A, msg_max_len = 9875\<rparr>,
     \<lparr>msg_name = ''INSTALL_UL_FIREWALL_RULES_RESP'', msg_kind = QResp,
       msg_id = 0x003A, msg_max_len = 7\<rparr>,
     \<lparr>msg_name = ''INSTALL_UL_FIREWALL_RULES_IND'', msg_kind = QInd,
       msg_id = 0x003A, msg_max_len = 11\<rparr>,
     \<lparr>msg_name = ''MHI_CLK_VOTE_REQ'', msg_kind = QReq,
       msg_id = 0x003B, msg_max_len = IPA_MHI_CLK_VOTE_REQ_MSG_V01_MAX_MSG_LEN\<rparr>,
     \<lparr>msg_name = ''MHI_CLK_VOTE_RESP'', msg_kind = QResp,
       msg_id = 0x003B, msg_max_len = IPA_MHI_CLK_VOTE_RESP_MSG_V01_MAX_MSG_LEN\<rparr>,
     \<lparr>msg_name = ''MHI_READY_IND'', msg_kind = QInd,
       msg_id = 0x003C, msg_max_len = IPA_MHI_READY_INDICATION_MSG_V01_MAX_MSG_LEN\<rparr>,
     \<lparr>msg_name = ''MHI_ALLOC_CHANNEL_REQ'', msg_kind = QReq,
       msg_id = 0x003D, msg_max_len = IPA_MHI_ALLOC_CHANNEL_REQ_MSG_V01_MAX_MSG_LEN\<rparr>,
     \<lparr>msg_name = ''MHI_ALLOC_CHANNEL_RESP'', msg_kind = QResp,
       msg_id = 0x003D, msg_max_len = IPA_MHI_ALLOC_CHANNEL_RESP_MSG_V01_MAX_MSG_LEN\<rparr>,
     \<lparr>msg_name = ''MHI_CLEANUP_REQ'', msg_kind = QReq,
       msg_id = 0x003E, msg_max_len = IPA_MHI_CLEANUP_REQ_MSG_V01_MAX_MSG_LEN\<rparr>,
     \<lparr>msg_name = ''MHI_CLEANUP_RESP'', msg_kind = QResp,
       msg_id = 0x003E, msg_max_len = IPA_MHI_CLEANUP_RESP_MSG_V01_MAX_MSG_LEN\<rparr>,
     \<lparr>msg_name = ''ENDP_DESC_INDICATION'', msg_kind = QInd,
       msg_id = 0x003F, msg_max_len = IPA_ENDP_DESC_INDICATION_MSG_V01_MAX_MSG_LEN\<rparr>,
     \<lparr>msg_name = ''MHI_PRIME_AGGR_INFO_REQ'', msg_kind = QReq,
       msg_id = 0x0040, msg_max_len = IPA_MHI_PRIME_AGGR_INFO_REQ_MSG_V01_MAX_MSG_LEN\<rparr>,
     \<lparr>msg_name = ''MHI_PRIME_AGGR_INFO_RESP'', msg_kind = QResp,
       msg_id = 0x0040, msg_max_len = IPA_MHI_PRIME_AGGR_INFO_RESP_MSG_V01_MAX_MSG_LEN\<rparr>,
     \<lparr>msg_name = ''ADD_OFFLOAD_CONNECTION_REQ'', msg_kind = QReq,
       msg_id = 0x0041, msg_max_len = IPA_ADD_OFFLOAD_CONNECTION_REQ_MSG_V01_MAX_MSG_LEN\<rparr>,
     \<lparr>msg_name = ''ADD_OFFLOAD_CONNECTION_RESP'', msg_kind = QResp,
       msg_id = 0x0041, msg_max_len = IPA_ADD_OFFLOAD_CONNECTION_RESP_MSG_V01_MAX_MSG_LEN\<rparr>,
     \<lparr>msg_name = ''REMOVE_OFFLOAD_CONNECTION_REQ'', msg_kind = QReq,
       msg_id = 0x0042, msg_max_len = IPA_REMOVE_OFFLOAD_CONNECTION_REQ_MSG_V01_MAX_MSG_LEN\<rparr>,
     \<lparr>msg_name = ''REMOVE_OFFLOAD_CONNECTION_RESP'', msg_kind = QResp,
       msg_id = 0x0042, msg_max_len = IPA_REMOVE_OFFLOAD_CONNECTION_RESP_MSG_V01_MAX_MSG_LEN\<rparr>,
     \<lparr>msg_name = ''BW_CHANGE_INDICATION'', msg_kind = QInd,
       msg_id = 0x0044, msg_max_len = IPA_BW_CHANGE_IND_MSG_V01_MAX_MSG_LEN\<rparr>,
     \<lparr>msg_name = ''MOVE_NAT_REQ'', msg_kind = QReq,
       msg_id = 0x0046, msg_max_len = IPA_MOVE_NAT_REQ_MSG_V01_MAX_MSG_LEN\<rparr>,
     \<lparr>msg_name = ''MOVE_NAT_RESP'', msg_kind = QResp,
       msg_id = 0x0046, msg_max_len = IPA_MOVE_NAT_RESP_MSG_V01_MAX_MSG_LEN\<rparr>,
     \<lparr>msg_name = ''MOVE_NAT_COMPLETE_IND'', msg_kind = QInd,
       msg_id = 0x0046, msg_max_len = QMI_IPA_NAT_TABLE_MOVE_COMPLETE_IND_MAX_MSG_LEN_V01\<rparr>,
     \<lparr>msg_name = ''ETH_BACKHAUL_INFO_REQ'', msg_kind = QReq,
       msg_id = 0x0047, msg_max_len = IPA_ETH_BACKHAUL_INFO_REQ_MSG_V01_MAX_MSG_LEN\<rparr>,
     \<lparr>msg_name = ''ETH_BACKHAUL_INFO_RESP'', msg_kind = QResp,
       msg_id = 0x0047, msg_max_len = IPA_ETH_BACKHAUL_INFO_RESP_MSG_V01_MAX_MSG_LEN\<rparr>,
     \<lparr>msg_name = ''RMNET_ETH_INFO_INDICATION'', msg_kind = QInd,
       msg_id = 0x0048, msg_max_len = IPA_RMNET_ETH_INFO_INDICATION_MSG_V01_MAX_MSG_LEN\<rparr>]"

section \<open>Optional fields\<close>

definition ends_with :: "string \<Rightarrow> string \<Rightarrow> bool" where
  "ends_with p s \<longleftrightarrow> drop (length s - length p) s = p"

text \<open>
  The flag of an optional field is a byte named after the field, and stands right before it or, for
  an array, before the length of the array.  The length of an array is a 32-bit number named after
  the array.
\<close>

fun misplaced :: "(string \<times> ctype) list \<Rightarrow> string list" where
  "misplaced [] = []"
| "misplaced ((f, t) # fs) =
    (if ends_with ''_valid'' f then
       (let stem = take (length f - 6) f in
        (case fs of [] \<Rightarrow> [f]
         | (n, u) # ms \<Rightarrow>
             if t = Scalar C_u8 \<and> (n = stem \<or>
               n = stem @ ''_len'' \<and> u = Scalar C_u32 \<and>
                 (case ms of [] \<Rightarrow> False
                  | (m, w) # _ \<Rightarrow> m = stem \<and> (case w of Array _ _ \<Rightarrow> True | _ \<Rightarrow> False)))
             then [] else [f]))
     else []) @ misplaced fs"

fun misplaced_flags :: "ctype \<Rightarrow> string list" where
  "misplaced_flags (Struct packed fs) = misplaced fs"
| "misplaced_flags _ = []"

definition qmi_structs :: "ctype list" where
  "qmi_structs =
    [struct_ipa_qmi_response_type_v01, struct_ipa_hdr_tbl_info_type_v01,
    struct_ipa_route_tbl_info_type_v01, struct_ipa_filter_stats_info_type_v01,
    struct_ipa_modem_mem_info_type_v01, struct_ipa_hdr_proc_ctx_tbl_info_type_v01,
    struct_ipa_zip_tbl_info_type_v01, struct_ipa_init_modem_driver_resp_msg_v01,
    struct_ipa_init_modem_driver_cmplt_req_msg_v01, struct_ipa_init_modem_driver_cmplt_resp_msg_v01,
    struct_ipa_indication_reg_req_msg_v01, struct_ipa_indication_reg_resp_msg_v01,
    struct_ipa_master_driver_init_complt_ind_msg_v01, struct_ipa_ipfltr_range_eq_16_type_v01,
    struct_ipa_ipfltr_mask_eq_32_type_v01, struct_ipa_ipfltr_eq_16_type_v01,
    struct_ipa_ipfltr_eq_32_type_v01, struct_ipa_ipfltr_mask_eq_128_type_v01,
    struct_ipa_filter_rule_type_v01, struct_ipa_filter_rule_req2_type_v01,
    struct_ipa_install_fltr_rule_req_msg_v01, struct_ipa_filter_rule_identifier_to_handle_map_v01,
    struct_ipa_install_fltr_rule_resp_msg_v01, struct_ipa_filter_handle_to_index_map_v01,
    struct_ipa_fltr_installed_notif_req_msg_v01, struct_ipa_fltr_installed_notif_resp_msg_v01,
    struct_ipa_enable_force_clear_datapath_req_msg_v01,
    struct_ipa_enable_force_clear_datapath_resp_msg_v01,
    struct_ipa_disable_force_clear_datapath_req_msg_v01,
    struct_ipa_disable_force_clear_datapath_resp_msg_v01, struct_ipa_config_req_msg_v01,
    struct_ipa_config_resp_msg_v01, struct_ipa_pipe_stats_info_type_v01,
    struct_ipa_stats_type_filter_rule_v01, struct_ipa_get_data_stats_req_msg_v01,
    struct_ipa_get_data_stats_resp_msg_v01, struct_ipa_apn_data_stats_info_type_v01,
    struct_ipa_get_apn_data_stats_req_msg_v01, struct_ipa_get_apn_data_stats_resp_msg_v01,
    struct_ipa_data_usage_quota_info_type_v01, struct_ipa_set_data_usage_quota_req_msg_v01,
    struct_ipa_set_data_usage_quota_resp_msg_v01, struct_ipa_data_usage_quota_reached_ind_msg_v01,
    struct_ipa_stop_data_usage_quota_req_msg_v01, struct_ipa_stop_data_usage_quota_resp_msg_v01,
    struct_ipa_install_fltr_rule_req_ex_msg_v01, struct_ipa_install_fltr_rule_resp_ex_msg_v01,
    struct_ipa_enable_per_client_stats_req_msg_v01, struct_ipa_enable_per_client_stats_resp_msg_v01,
    struct_ipa_per_client_stats_info_type_v01, struct_ipa_get_stats_per_client_req_msg_v01,
    struct_ipa_get_stats_per_client_resp_msg_v01, struct_ipa_ul_firewall_rule_type_v01,
    struct_ipa_configure_ul_firewall_rules_req_msg_v01,
    struct_ipa_configure_ul_firewall_rules_resp_msg_v01,
    struct_ipa_ul_firewall_config_result_type_v01,
    struct_ipa_configure_ul_firewall_rules_ind_msg_v01, struct_ipa_mhi_ch_init_info_type_v01,
    struct_ipa_mhi_smmu_info_type_v01, struct_ipa_mhi_ready_indication_msg_v01,
    struct_ipa_mhi_mem_addr_info_type_v01, struct_ipa_mhi_tr_info_type_v01,
    struct_ipa_mhi_er_info_type_v01, struct_ipa_mhi_alloc_channel_req_msg_v01,
    struct_ipa_mhi_ch_alloc_resp_type_v01, struct_ipa_mhi_alloc_channel_resp_msg_v01,
    struct_ipa_mhi_clk_vote_req_msg_v01, struct_ipa_mhi_clk_vote_resp_msg_v01,
    struct_ipa_mhi_cleanup_req_msg_v01, struct_ipa_mhi_cleanup_resp_msg_v01,
    struct_ipa_ep_id_type_v01, struct_ipa_endp_desc_indication_msg_v01,
    struct_ipa_mhi_prime_aggr_info_type_v01, struct_ipa_mhi_prime_aggr_info_req_msg_v01,
    struct_ipa_mhi_prime_aggr_info_resp_msg_v01, struct_ipa_add_offload_connection_req_msg_v01,
    struct_ipa_add_offload_connection_resp_msg_v01,
    struct_ipa_remove_offload_connection_req_msg_v01,
    struct_ipa_remove_offload_connection_resp_msg_v01, struct_ipa_move_nat_req_msg_v01,
    struct_ipa_move_nat_resp_msg_v01, struct_ipa_move_nat_table_complt_ind_msg_v01,
    struct_ipa_eth_backhaul_info_req_msg_v01, struct_ipa_eth_backhaul_info_resp_msg_v01,
    struct_ipa_rmnet_eth_info_type_v01, struct_ipa_rmnet_eth_info_indication_msg_v01]"

definition qmi_irregular :: "(ctype \<times> string list) list" where
  "qmi_irregular =
    [(struct_ipa_init_modem_driver_req_msg_v01, [''hw_fiter_stats_info_valid'']),
     (struct_ipa_filter_spec_type_v01, [''is_routing_table_index_valid'', ''is_mux_id_valid'']),
     (struct_ipa_filter_spec_ex_type_v01, [''is_routing_table_index_valid'', ''is_mux_id_valid'']),
     (struct_ipa_filter_spec_ex2_type_v01, [''is_routing_table_index_valid'', ''is_mux_id_valid'']),
     (struct_ipa_bw_change_ind_msg_v01, [''peak_bw_ul_valid'', ''peak_bw_dl_valid''])]"

section \<open>Lemmas\<close>

lemma qmi_regular_structs: "list_all (\<lambda>t. misplaced_flags t = []) qmi_structs"
  by code_simp

lemma qmi_irregular_structs: "list_all (\<lambda>(t, fs). misplaced_flags t = fs) qmi_irregular"
  by code_simp

lemma qmi_fixed_width: "list_all fixed_width (qmi_structs @ map fst qmi_irregular)"
  by code_simp

text \<open>
  In every message struct but five, each flag of an optional field is a byte that stands right before
  its field, or before the 32-bit length of an array that follows.  The exceptions are nine flags: a
  misspelt flag of the driver initialisation, two flags of each of the three filter specifications
  that are named after another field, and two flags of the bandwidth indication that stand together
  before both fields.
\<close>

lemma qmi_flag_positions:
  "(\<forall>t\<in>set qmi_structs. misplaced_flags t = []) \<and>
   (\<forall>x\<in>set qmi_irregular. misplaced_flags (fst x) = snd x)"
  using qmi_regular_structs qmi_irregular_structs by (auto simp: list_all_iff)

section \<open>Properties\<close>

text \<open>
  C40. Every struct of the QMI messages between the IPA driver and the modem has the same size and,
  for every value, the same bytes for 32-bit and 64-bit code.
\<close>

theorem qmi_messages_compatible:
  assumes "t \<in> set (qmi_structs @ map fst qmi_irregular)"
  shows "csize ILP32 t = csize LP64 t \<and> encode ILP32 t v = encode LP64 t v"
  using assms qmi_fixed_width fixed_width_csize [of t ILP32 LP64] fixed_width_encode [of t ILP32 v LP64]
  by (simp only: list_all_iff)

theorem qmi_messages_compatible_witness:
  "csize ILP32 struct_ipa_config_req_msg_v01 = csize LP64 struct_ipa_config_req_msg_v01"
proof -
  have "struct_ipa_config_req_msg_v01 \<in> set (qmi_structs @ map fst qmi_irregular)" by (simp add: qmi_structs_def)
  then show ?thesis using qmi_messages_compatible by blast
qed

text \<open>
  No two requests, no two responses and no two indications share an identifier, and every
  response answers a request.  The receive buffer \<^verbatim>\<open>QMI_IPA_MAX_MSG_LEN\<close> holds every message except
  the two requests that install filter rules, whose maximal lengths exceed it.
\<close>

lemma qmi_message_table:
  "distinct (map (\<lambda>m. (msg_kind m, msg_id m)) qmi_messages) \<and>
   set (map msg_id (filter (\<lambda>m. msg_kind m = QResp) qmi_messages)) =
     set (map msg_id (filter (\<lambda>m. msg_kind m = QReq) qmi_messages)) \<and>
   map msg_name (filter (\<lambda>m. msg_max_len m > QMI_IPA_MAX_MSG_LEN) qmi_messages) =
     [''INSTALL_FILTER_RULE_REQ'', ''INSTALL_FILTER_RULE_EX_REQ'']"
  by (intro conjI; code_simp)

end
