(* ===== verification/Secure_Ioctl.thy ===== *)
theory Secure_Ioctl
  imports C_Layout
begin

text \<open>
  The structs and ioctls of the secure world and its co-processors, from the headers
  \<^verbatim>\<open>linux/qseecom.h\<close>, \<^verbatim>\<open>linux/smcinvoke.h\<close>,
  \<^verbatim>\<open>linux/qcedev.h\<close>, \<^verbatim>\<open>linux/spcom.h\<close>,
  \<^verbatim>\<open>linux/spss_utils.h\<close>, \<^verbatim>\<open>linux/qcota.h\<close> under
  \<^verbatim>\<open>src/include\<close>, each driver with the table of its requests and the
  contract the table satisfies.
\<close>

section \<open>The interface of \<^verbatim>\<open>src/include/linux/qseecom.h\<close>\<close>

definition struct_qseecom_register_listener_req :: ctype where
  "struct_qseecom_register_listener_req = Struct False [
    (''listener_id'', Scalar C_u32), (''ifd_data_fd'', Scalar C_s32),
    (''virt_sb_base'', Scalar C_ptr), (''sb_size'', Scalar C_u32)]"

definition struct_qseecom_send_cmd_req :: ctype where
  "struct_qseecom_send_cmd_req = Struct False [
    (''cmd_req_buf'', Scalar C_ptr), (''cmd_req_len'', Scalar C_uint),
    (''resp_buf'', Scalar C_ptr), (''resp_len'', Scalar C_uint)]"

definition struct_qseecom_ion_fd_info :: ctype where
  "struct_qseecom_ion_fd_info = Struct False [
    (''fd'', Scalar C_s32), (''cmd_buf_offset'', Scalar C_u32)]"

definition struct_qseecom_send_modfd_cmd_req :: ctype where
  "struct_qseecom_send_modfd_cmd_req = Struct False [
    (''cmd_req_buf'', Scalar C_ptr), (''cmd_req_len'', Scalar C_uint),
    (''resp_buf'', Scalar C_ptr), (''resp_len'', Scalar C_uint),
    (''ifd_data'', Array struct_qseecom_ion_fd_info 4)]"

definition struct_qseecom_send_resp_req :: ctype where
  "struct_qseecom_send_resp_req = Struct False [
    (''resp_buf'', Scalar C_ptr), (''resp_len'', Scalar C_uint)]"

definition struct_qseecom_load_img_req :: ctype where
  "struct_qseecom_load_img_req = Struct False [
    (''mdt_len'', Scalar C_u32), (''img_len'', Scalar C_u32), (''ifd_data_fd'', Scalar C_s32),
    (''img_name'', Array (Scalar C_char) 64), (''app_arch'', Scalar C_u32),
    (''app_id'', Scalar C_u32)]"

definition struct_qseecom_set_sb_mem_param_req :: ctype where
  "struct_qseecom_set_sb_mem_param_req = Struct False [
    (''ifd_data_fd'', Scalar C_s32), (''virt_sb_base'', Scalar C_ptr), (''sb_len'', Scalar C_u32)]"

definition struct_qseecom_qseos_version_req :: ctype where
  "struct_qseecom_qseos_version_req = Struct False [
    (''qseos_version'', Scalar C_uint)]"

definition struct_qseecom_qseos_app_load_query :: ctype where
  "struct_qseecom_qseos_app_load_query = Struct False [
    (''app_name'', Array (Scalar C_char) 64), (''app_id'', Scalar C_u32),
    (''app_arch'', Scalar C_u32)]"

definition struct_qseecom_send_svc_cmd_req :: ctype where
  "struct_qseecom_send_svc_cmd_req = Struct False [
    (''cmd_id'', Scalar C_u32), (''cmd_req_buf'', Scalar C_ptr), (''cmd_req_len'', Scalar C_uint),
    (''resp_buf'', Scalar C_ptr), (''resp_len'', Scalar C_uint)]"

definition struct_qseecom_create_key_req :: ctype where
  "struct_qseecom_create_key_req = Struct False [
    (''hash32'', Array (Scalar C_u8) 32), (''usage'', Scalar C_enum)]"

definition struct_qseecom_wipe_key_req :: ctype where
  "struct_qseecom_wipe_key_req = Struct False [
    (''usage'', Scalar C_enum), (''wipe_key_flag'', Scalar C_int)]"

definition struct_qseecom_update_key_userinfo_req :: ctype where
  "struct_qseecom_update_key_userinfo_req = Struct False [
    (''current_hash32'', Array (Scalar C_u8) 32), (''new_hash32'', Array (Scalar C_u8) 32),
    (''usage'', Scalar C_enum)]"

definition struct_qseecom_save_partition_hash_req :: ctype where
  "struct_qseecom_save_partition_hash_req = Struct False [
    (''partition_id'', Scalar C_int), (''digest'', Array (Scalar C_char) 32)]"

definition struct_qseecom_is_es_activated_req :: ctype where
  "struct_qseecom_is_es_activated_req = Struct False [
    (''is_activated'', Scalar C_int)]"

definition struct_qseecom_mdtp_cipher_dip_req :: ctype where
  "struct_qseecom_mdtp_cipher_dip_req = Struct False [
    (''in_buf'', Scalar C_ptr), (''in_buf_size'', Scalar C_u32), (''out_buf'', Scalar C_ptr),
    (''out_buf_size'', Scalar C_u32), (''direction'', Scalar C_u32)]"

definition struct_qseecom_send_modfd_listener_resp :: ctype where
  "struct_qseecom_send_modfd_listener_resp = Struct False [
    (''resp_buf_ptr'', Scalar C_ptr), (''resp_len'', Scalar C_uint),
    (''ifd_data'', Array struct_qseecom_ion_fd_info 4)]"

definition struct_qseecom_qteec_req :: ctype where
  "struct_qseecom_qteec_req = Struct False [
    (''req_ptr'', Scalar C_ptr), (''req_len'', Scalar C_u32), (''resp_ptr'', Scalar C_ptr),
    (''resp_len'', Scalar C_u32)]"

definition struct_qseecom_qteec_modfd_req :: ctype where
  "struct_qseecom_qteec_modfd_req = Struct False [
    (''req_ptr'', Scalar C_ptr), (''req_len'', Scalar C_u32), (''resp_ptr'', Scalar C_ptr),
    (''resp_len'', Scalar C_u32), (''ifd_data'', Array struct_qseecom_ion_fd_info 4)]"

definition struct_qseecom_sg_entry :: ctype where
  "struct_qseecom_sg_entry = Struct False [
    (''phys_addr'', Scalar C_u32), (''len'', Scalar C_u32)]"

definition struct_qseecom_sg_entry_64bit :: ctype where
  "struct_qseecom_sg_entry_64bit = Struct True [
    (''phys_addr'', Scalar C_u64), (''len'', Scalar C_u32)]"

definition struct_qseecom_sg_list_buf_hdr_64bit :: ctype where
  "struct_qseecom_sg_list_buf_hdr_64bit = Struct True [
    (''blank_entry'', struct_qseecom_sg_entry_64bit), (''version'', Scalar C_u32),
    (''new_buf_phys_addr'', Scalar C_u64), (''nents_total'', Scalar C_u32)]"

definition struct_qseecom_ce_pipe_entry :: ctype where
  "struct_qseecom_ce_pipe_entry = Struct False [
    (''valid'', Scalar C_int), (''ce_num'', Scalar C_uint), (''ce_pipe_pair'', Scalar C_uint)]"

definition struct_qseecom_ice_data_t :: ctype where
  "struct_qseecom_ice_data_t = Struct False [
    (''flag'', Scalar C_int)]"

definition struct_qseecom_ce_info_req :: ctype where
  "struct_qseecom_ce_info_req = Struct False [
    (''handle'', Array (Scalar C_u8) 32), (''usage'', Scalar C_uint),
    (''unit_num'', Scalar C_uint), (''num_ce_pipe_entries'', Scalar C_uint),
    (''ce_pipe_entry'', Array struct_qseecom_ce_pipe_entry 3)]"

definition struct_qseecom_ice_key_data_t :: ctype where
  "struct_qseecom_ice_key_data_t = Struct False [
    (''key'', Array (Scalar C_u8) 32), (''key_len'', Scalar C_u32),
    (''salt'', Array (Scalar C_u8) 32), (''salt_len'', Scalar C_u32)]"

definition qseecom_requests_1 :: "ioctl list" where
  "qseecom_requests_1 =
    [IOWR ''QSEECOM_IOCTL_REGISTER_LISTENER_REQ'' 0x97 0x1 struct_qseecom_register_listener_req,
     IO ''QSEECOM_IOCTL_UNREGISTER_LISTENER_REQ'' 0x97 0x2]"

definition QSEECOM_IOCTL_SEND_CMD_REQ :: ioctl where
  "QSEECOM_IOCTL_SEND_CMD_REQ = IOWR ''QSEECOM_IOCTL_SEND_CMD_REQ'' 0x97 0x3 struct_qseecom_send_cmd_req"

definition qseecom_requests_2 :: "ioctl list" where
  "qseecom_requests_2 =
    [IOWR ''QSEECOM_IOCTL_SEND_MODFD_CMD_REQ'' 0x97 0x4 struct_qseecom_send_modfd_cmd_req,
     IO ''QSEECOM_IOCTL_RECEIVE_REQ'' 0x97 0x5,
     IO ''QSEECOM_IOCTL_SEND_RESP_REQ'' 0x97 0x6,
     IOWR ''QSEECOM_IOCTL_LOAD_APP_REQ'' 0x97 0x7 struct_qseecom_load_img_req,
     IOWR ''QSEECOM_IOCTL_SET_MEM_PARAM_REQ'' 0x97 0x8 struct_qseecom_set_sb_mem_param_req,
     IO ''QSEECOM_IOCTL_UNLOAD_APP_REQ'' 0x97 0x9,
     IOWR ''QSEECOM_IOCTL_GET_QSEOS_VERSION_REQ'' 0x97 0xa struct_qseecom_qseos_version_req,
     IO ''QSEECOM_IOCTL_PERF_ENABLE_REQ'' 0x97 0xb,
     IO ''QSEECOM_IOCTL_PERF_DISABLE_REQ'' 0x97 0xc,
     IOWR ''QSEECOM_IOCTL_LOAD_EXTERNAL_ELF_REQ'' 0x97 0xd struct_qseecom_load_img_req,
     IO ''QSEECOM_IOCTL_UNLOAD_EXTERNAL_ELF_REQ'' 0x97 0xe,
     IOWR ''QSEECOM_IOCTL_APP_LOADED_QUERY_REQ'' 0x97 0xf struct_qseecom_qseos_app_load_query,
     IOWR ''QSEECOM_IOCTL_SEND_CMD_SERVICE_REQ'' 0x97 0x10 struct_qseecom_send_svc_cmd_req,
     IOWR ''QSEECOM_IOCTL_CREATE_KEY_REQ'' 0x97 0x11 struct_qseecom_create_key_req,
     IOWR ''QSEECOM_IOCTL_WIPE_KEY_REQ'' 0x97 0x12 struct_qseecom_wipe_key_req,
     IOWR ''QSEECOM_IOCTL_SAVE_PARTITION_HASH_REQ'' 0x97 0x13 struct_qseecom_save_partition_hash_req,
     IOWR ''QSEECOM_IOCTL_IS_ES_ACTIVATED_REQ'' 0x97 0x14 struct_qseecom_is_es_activated_req,
     IOWR ''QSEECOM_IOCTL_SEND_MODFD_RESP'' 0x97 0x15 struct_qseecom_send_modfd_listener_resp,
     IOWR ''QSEECOM_IOCTL_SET_BUS_SCALING_REQ'' 0x97 0x17 (Scalar C_int),
     IOWR ''QSEECOM_IOCTL_UPDATE_KEY_USER_INFO_REQ'' 0x97 0x18 struct_qseecom_update_key_userinfo_req,
     IOWR ''QSEECOM_QTEEC_IOCTL_OPEN_SESSION_REQ'' 0x97 0x1e struct_qseecom_qteec_modfd_req,
     IOWR ''QSEECOM_QTEEC_IOCTL_CLOSE_SESSION_REQ'' 0x97 0x1f struct_qseecom_qteec_req,
     IOWR ''QSEECOM_QTEEC_IOCTL_INVOKE_MODFD_CMD_REQ'' 0x97 0x20 struct_qseecom_qteec_modfd_req,
     IOWR ''QSEECOM_QTEEC_IOCTL_REQUEST_CANCELLATION_REQ'' 0x97 0x21 struct_qseecom_qteec_modfd_req,
     IOWR ''QSEECOM_IOCTL_MDTP_CIPHER_DIP_REQ'' 0x97 0x22 struct_qseecom_mdtp_cipher_dip_req,
     IOWR ''QSEECOM_IOCTL_SEND_MODFD_CMD_64_REQ'' 0x97 0x23 struct_qseecom_send_modfd_cmd_req,
     IOWR ''QSEECOM_IOCTL_SEND_MODFD_RESP_64'' 0x97 0x24 struct_qseecom_send_modfd_listener_resp,
     IOWR ''QSEECOM_IOCTL_GET_CE_PIPE_INFO'' 0x97 0x28 struct_qseecom_ce_info_req,
     IOWR ''QSEECOM_IOCTL_FREE_CE_PIPE_INFO'' 0x97 0x29 struct_qseecom_ce_info_req,
     IOWR ''QSEECOM_IOCTL_QUERY_CE_PIPE_INFO'' 0x97 0x2a struct_qseecom_ce_info_req,
     IOWR ''QSEECOM_IOCTL_SET_ICE_INFO'' 0x97 0x2b struct_qseecom_ice_data_t,
     IOWR ''QSEECOM_IOCTL_FBE_CLEAR_KEY'' 0x97 0x2c struct_qseecom_ice_key_data_t]"

definition qseecom_ioctls :: "ioctl list" where
  "qseecom_ioctls =
    qseecom_requests_1 @ [QSEECOM_IOCTL_SEND_CMD_REQ] @ qseecom_requests_2"

section \<open>The interface of \<^verbatim>\<open>src/include/linux/smcinvoke.h\<close>\<close>

definition struct_smcinvoke_buf :: ctype where
  "struct_smcinvoke_buf = Struct False [
    (''addr'', Scalar C_u64), (''size'', Scalar C_u64)]"

definition struct_smcinvoke_obj :: ctype where
  "struct_smcinvoke_obj = Struct False [
    (''fd'', Scalar C_s64), (''cb_server_fd'', Scalar C_s32), (''reserved'', Scalar C_s32)]"

definition struct_smcinvoke_arg :: ctype where
  "struct_smcinvoke_arg = Union [
    (''b'', struct_smcinvoke_buf), (''o'', struct_smcinvoke_obj)]"

definition struct_smcinvoke_cmd_req :: ctype where
  "struct_smcinvoke_cmd_req = Struct False [
    (''op'', Scalar C_u32), (''counts'', Scalar C_u32), (''result'', Scalar C_s32),
    (''argsize'', Scalar C_u32), (''args'', Scalar C_u64)]"

definition struct_smcinvoke_accept :: ctype where
  "struct_smcinvoke_accept = Struct False [
    (''has_resp'', Scalar C_u32), (''txn_id'', Scalar C_u32), (''result'', Scalar C_s32),
    (''cbobj_id'', Scalar C_s32), (''op'', Scalar C_u32), (''counts'', Scalar C_u32),
    (''reserved'', Scalar C_s32), (''argsize'', Scalar C_u32), (''buf_len'', Scalar C_u64),
    (''buf_addr'', Scalar C_u64)]"

definition struct_smcinvoke_server :: ctype where
  "struct_smcinvoke_server = Struct False [
    (''cb_buf_size'', Scalar C_u32)]"

definition smcinvoke_ioctls :: "ioctl list" where
  "smcinvoke_ioctls =
    [IOWR ''SMCINVOKE_IOCTL_INVOKE_REQ'' 0x98 0x1 struct_smcinvoke_cmd_req,
     IOWR ''SMCINVOKE_IOCTL_ACCEPT_REQ'' 0x98 0x2 struct_smcinvoke_accept,
     IOWR ''SMCINVOKE_IOCTL_SERVER_REQ'' 0x98 0x3 struct_smcinvoke_server,
     IOWR ''SMCINVOKE_IOCTL_ACK_LOCAL_OBJ'' 0x98 0x4 (Scalar C_s32)]"

section \<open>The interface of \<^verbatim>\<open>src/include/linux/qcedev.h\<close>\<close>

definition struct_buf_info :: ctype where
  "struct_buf_info = Struct False [
    ('''', Union [
      (''offset'', Scalar C_u32), (''vaddr'', Scalar C_ptr)]),
    (''len'', Scalar C_u32)]"

definition struct_qcedev_vbuf_info :: ctype where
  "struct_qcedev_vbuf_info = Struct False [
    (''src'', Array struct_buf_info 16), (''dst'', Array struct_buf_info 16)]"

definition struct_qcedev_pmem_info :: ctype where
  "struct_qcedev_pmem_info = Struct False [
    (''fd_src'', Scalar C_int), (''src'', Array struct_buf_info 16), (''fd_dst'', Scalar C_int),
    (''dst'', Array struct_buf_info 16)]"

definition struct_qcedev_cipher_op_req :: ctype where
  "struct_qcedev_cipher_op_req = Struct False [
    (''use_pmem'', Scalar C_u8),
    ('''', Union [
      (''pmem'', struct_qcedev_pmem_info), (''vbuf'', struct_qcedev_vbuf_info)]),
    (''entries'', Scalar C_u32), (''data_len'', Scalar C_u32), (''in_place_op'', Scalar C_u8),
    (''enckey'', Array (Scalar C_u8) 64), (''encklen'', Scalar C_u32),
    (''iv'', Array (Scalar C_u8) 32), (''ivlen'', Scalar C_u32), (''byteoffset'', Scalar C_u32),
    (''alg'', Scalar C_enum), (''mode'', Scalar C_enum), (''op'', Scalar C_enum)]"

definition struct_qcedev_sha_op_req :: ctype where
  "struct_qcedev_sha_op_req = Struct False [
    (''data'', Array struct_buf_info 16), (''entries'', Scalar C_u32),
    (''data_len'', Scalar C_u32), (''digest'', Array (Scalar C_u8) 32), (''diglen'', Scalar C_u32),
    (''authkey'', Scalar C_ptr), (''authklen'', Scalar C_u32), (''alg'', Scalar C_enum)]"

definition struct_pattern_info :: ctype where
  "struct_pattern_info = Struct False [
    (''patt_sz'', Scalar C_u8), (''proc_data_sz'', Scalar C_u8), (''patt_offset'', Scalar C_u8)]"

definition struct_qcedev_offload_cipher_op_req :: ctype where
  "struct_qcedev_offload_cipher_op_req = Struct False [
    (''vbuf'', struct_qcedev_vbuf_info), (''entries'', Scalar C_u32), (''data_len'', Scalar C_u32),
    (''in_place_op'', Scalar C_u32), (''encklen'', Scalar C_u32), (''iv'', Array (Scalar C_u8) 32),
    (''ivlen'', Scalar C_u32), (''iv_ctr_size'', Scalar C_u32), (''byteoffset'', Scalar C_u32),
    (''block_offset'', Scalar C_u8), (''is_pattern_valid'', Scalar C_u8),
    (''is_copy_op'', Scalar C_u8), (''pattern_info'', struct_pattern_info),
    (''alg'', Scalar C_enum), (''mode'', Scalar C_enum), (''op'', Scalar C_enum),
    (''err'', Scalar C_enum)]"

definition struct_qfips_verify_t :: ctype where
  "struct_qfips_verify_t = Struct False [
    (''kernel_size'', Scalar C_uint), (''kernel'', Scalar C_ptr)]"

definition struct_qcedev_map_buf_req :: ctype where
  "struct_qcedev_map_buf_req = Struct False [
    (''fd'', Array (Scalar C_s32) 16), (''num_fds'', Scalar C_u32),
    (''fd_size'', Array (Scalar C_u32) 16), (''fd_offset'', Array (Scalar C_u32) 16),
    (''buf_vaddr'', Array (Scalar C_u64) 16)]"

definition struct_qcedev_unmap_buf_req :: ctype where
  "struct_qcedev_unmap_buf_req = Struct False [
    (''fd'', Array (Scalar C_s32) 16), (''num_fds'', Scalar C_u32)]"

definition qcedev_ioctls :: "ioctl list" where
  "qcedev_ioctls =
    [IOWR ''QCEDEV_IOCTL_ENC_REQ'' 0x87 0x1 struct_qcedev_cipher_op_req,
     IOWR ''QCEDEV_IOCTL_DEC_REQ'' 0x87 0x2 struct_qcedev_cipher_op_req,
     IOWR ''QCEDEV_IOCTL_SHA_INIT_REQ'' 0x87 0x3 struct_qcedev_sha_op_req,
     IOWR ''QCEDEV_IOCTL_SHA_UPDATE_REQ'' 0x87 0x4 struct_qcedev_sha_op_req,
     IOWR ''QCEDEV_IOCTL_SHA_FINAL_REQ'' 0x87 0x5 struct_qcedev_sha_op_req,
     IOWR ''QCEDEV_IOCTL_GET_SHA_REQ'' 0x87 0x6 struct_qcedev_sha_op_req,
     IO ''QCEDEV_IOCTL_LOCK_CE'' 0x87 0x7,
     IO ''QCEDEV_IOCTL_UNLOCK_CE'' 0x87 0x8,
     IOWR ''QCEDEV_IOCTL_GET_CMAC_REQ'' 0x87 0x9 struct_qcedev_sha_op_req,
     IOWR ''QCEDEV_IOCTL_MAP_BUF_REQ'' 0x87 0xa struct_qcedev_map_buf_req,
     IOWR ''QCEDEV_IOCTL_UNMAP_BUF_REQ'' 0x87 0xb struct_qcedev_unmap_buf_req,
     IOWR ''QCEDEV_IOCTL_OFFLOAD_OP_REQ'' 0x87 0xc struct_qcedev_offload_cipher_op_req]"

section \<open>The interface of \<^verbatim>\<open>src/include/linux/spcom.h\<close>\<close>

definition struct_spcom_user_command :: ctype where
  "struct_spcom_user_command = Struct True [
    (''cmd_id'', Scalar C_enum), (''arg'', Scalar C_u32)]"

definition struct_spcom_send_command :: ctype where
  "struct_spcom_send_command = Struct True [
    (''cmd_id'', Scalar C_enum), (''timeout_msec'', Scalar C_u32), (''buf_size'', Scalar C_u32),
    (''buf'', Array (Scalar C_char) 0)]"

definition struct_spcom_user_create_channel_command :: ctype where
  "struct_spcom_user_create_channel_command = Struct True [
    (''cmd_id'', Scalar C_enum), (''ch_name'', Array (Scalar C_char) 32),
    (''is_sharable'', Scalar C_bool)]"

definition struct_spcom_user_restart_sp_command :: ctype where
  "struct_spcom_user_restart_sp_command = Struct True [
    (''cmd_id'', Scalar C_enum), (''arg'', Scalar C_u32), (''is_updated'', Scalar C_u32)]"

definition struct_spcom_ion_info :: ctype where
  "struct_spcom_ion_info = Struct False [
    (''fd'', Scalar C_s32), (''buf_offset'', Scalar C_u32)]"

definition struct_spcom_ion_handle :: ctype where
  "struct_spcom_ion_handle = Struct False [
    (''fd'', Scalar C_s32)]"

definition struct_spcom_rmb_error_info :: ctype where
  "struct_spcom_rmb_error_info = Struct True [
    (''rmb_error'', Scalar C_u32), (''padding'', Scalar C_u32)]"

definition struct_spcom_user_send_modified_command :: ctype where
  "struct_spcom_user_send_modified_command = Struct True [
    (''cmd_id'', Scalar C_enum), (''ion_info'', Array struct_spcom_ion_info 4),
    (''timeout_msec'', Scalar C_u32), (''buf_size'', Scalar C_u32),
    (''buf'', Array (Scalar C_char) 0)]"

definition struct_spcom_poll_param :: ctype where
  "struct_spcom_poll_param = Struct True [
    (''wait'', Scalar C_bool), (''cmd_id'', Scalar C_enum), (''retval'', Scalar C_int)]"

definition struct_spcom_dma_buf_info :: ctype where
  "struct_spcom_dma_buf_info = Struct True [
    (''fd'', Scalar C_s32), (''offset'', Scalar C_u32)]"

definition struct_spcom_dma_buf_info_table :: ctype where
  "struct_spcom_dma_buf_info_table = Struct True [
    (''info'', Array struct_spcom_dma_buf_info 4)]"

definition struct_spcom_ioctl_poll_event :: ctype where
  "struct_spcom_ioctl_poll_event = Struct True [
    (''event_id'', Scalar C_u32), (''wait'', Scalar C_u32), (''retval'', Scalar C_s32),
    (''padding'', Scalar C_u32)]"

definition struct_spcom_ioctl_ch :: ctype where
  "struct_spcom_ioctl_ch = Struct True [
    (''ch_name'', Array (Scalar C_char) 32)]"

definition struct_spcom_ioctl_message :: ctype where
  "struct_spcom_ioctl_message = Struct True [
    (''ch_name'', Array (Scalar C_char) 32), (''timeout_msec'', Scalar C_u32),
    (''buffer_size'', Scalar C_u32), (''buffer'', Array (Scalar C_char) 0)]"

definition struct_spcom_ioctl_modified_message :: ctype where
  "struct_spcom_ioctl_modified_message = Struct True [
    (''ch_name'', Array (Scalar C_char) 32), (''timeout_msec'', Scalar C_u32),
    (''buffer_size'', Scalar C_u32), (''info'', Array struct_spcom_dma_buf_info 4),
    (''buffer'', Array (Scalar C_char) 0)]"

definition struct_spcom_ioctl_next_request_size :: ctype where
  "struct_spcom_ioctl_next_request_size = Struct True [
    (''ch_name'', Array (Scalar C_char) 32), (''size'', Scalar C_u32), (''padding'', Scalar C_u32)]"

definition struct_spcom_ioctl_dmabuf_lock :: ctype where
  "struct_spcom_ioctl_dmabuf_lock = Struct True [
    (''ch_name'', Array (Scalar C_char) 32), (''fd'', Scalar C_s32), (''padding'', Scalar C_u32)]"

definition spcom_requests_1 :: "ioctl list" where
  "spcom_requests_1 =
    [IOR ''SPCOM_GET_IONFD'' 0x53 0x0 struct_spcom_ion_handle,
     IOW ''SPCOM_SET_IONFD'' 0x53 0x0 struct_spcom_ion_handle]"

definition SPCOM_POLL_STATE :: ioctl where
  "SPCOM_POLL_STATE = IOWR ''SPCOM_POLL_STATE'' 0x53 0x1 struct_spcom_poll_param"

definition SPCOM_GET_RMB_ERROR :: ioctl where
  "SPCOM_GET_RMB_ERROR = IOR ''SPCOM_GET_RMB_ERROR'' 0x53 0x2 struct_spcom_rmb_error_info"

definition spcom_ioctls :: "ioctl list" where
  "spcom_ioctls =
    spcom_requests_1 @ [SPCOM_POLL_STATE, SPCOM_GET_RMB_ERROR]"

definition SPCOM_IOCTL_STATE_POLL :: ioctl where
  "SPCOM_IOCTL_STATE_POLL = IOWR ''SPCOM_IOCTL_STATE_POLL'' 0x53 0x3e8 struct_spcom_ioctl_poll_event"

definition spcom_extended_requests_1 :: "ioctl list" where
  "spcom_extended_requests_1 =
    [IOW ''SPCOM_IOCTL_SHARED_CH_CREATE'' 0x53 0x3e9 struct_spcom_ioctl_ch,
     IOW ''SPCOM_IOCTL_CH_REGISTER'' 0x53 0x3ea struct_spcom_ioctl_ch,
     IOW ''SPCOM_IOCTL_CH_UNREGISTER'' 0x53 0x3eb struct_spcom_ioctl_ch,
     IOW ''SPCOM_IOCTL_CH_IS_CONNECTED'' 0x53 0x3ec struct_spcom_ioctl_ch]"

definition SPCOM_IOCTL_SEND_MSG :: ioctl where
  "SPCOM_IOCTL_SEND_MSG = IOW ''SPCOM_IOCTL_SEND_MSG'' 0x53 0x3ed struct_spcom_ioctl_message"

definition spcom_extended_requests_2 :: "ioctl list" where
  "spcom_extended_requests_2 =
    [IOW ''SPCOM_IOCTL_SEND_MOD_MSG'' 0x53 0x3ee struct_spcom_ioctl_modified_message,
     IOWR ''SPCOM_IOCTL_GET_NEXT_REQ_SZ'' 0x53 0x3ef struct_spcom_ioctl_next_request_size,
     IOWR ''SPCOM_IOCTL_GET_MSG'' 0x53 0x3f0 struct_spcom_ioctl_message,
     IOW ''SPCOM_IOCTL_DMABUF_LOCK'' 0x53 0x3f1 struct_spcom_ioctl_dmabuf_lock,
     IOW ''SPCOM_IOCTL_DMABUF_UNLOCK'' 0x53 0x3f2 struct_spcom_ioctl_dmabuf_lock,
     IO ''SPCOM_IOCTL_RESTART_SPU'' 0x53 0x3f3,
     IO ''SPCOM_IOCTL_ENABLE_SSR'' 0x53 0x3f4]"

definition spcom_extended_ioctls :: "ioctl list" where
  "spcom_extended_ioctls =
    [SPCOM_IOCTL_STATE_POLL] @ spcom_extended_requests_1 @ [SPCOM_IOCTL_SEND_MSG] @
    spcom_extended_requests_2"

section \<open>The interface of \<^verbatim>\<open>src/include/linux/spss_utils.h\<close>\<close>

definition struct_spss_ioc_set_fw_cmac :: ctype where
  "struct_spss_ioc_set_fw_cmac = Struct True [
    (''cmac'', Array (Scalar C_u32) 4), (''apps_cmac'', Array (Array (Scalar C_u32) 4) 3)]"

definition struct_spss_ioc_wait_for_event :: ctype where
  "struct_spss_ioc_wait_for_event = Struct True [
    (''event_id'', Scalar C_u32), (''timeout_sec'', Scalar C_u32), (''status'', Scalar C_u32)]"

definition struct_spss_ioc_signal_event :: ctype where
  "struct_spss_ioc_signal_event = Struct True [
    (''event_id'', Scalar C_u32), (''status'', Scalar C_u32)]"

definition struct_spss_ioc_is_signaled :: ctype where
  "struct_spss_ioc_is_signaled = Struct True [
    (''event_id'', Scalar C_u32), (''status'', Scalar C_u32)]"

definition struct_spss_ioc_set_fw_and_apps_cmac :: ctype where
  "struct_spss_ioc_set_fw_and_apps_cmac = Struct True [
    (''cmac_buf_ptr'', Scalar C_u64), (''cmac_buf_size'', Scalar C_u32),
    (''num_of_cmacs'', Scalar C_u32)]"

definition SPSS_IOC_SET_FW_CMAC :: ioctl where
  "SPSS_IOC_SET_FW_CMAC = IOWR ''SPSS_IOC_SET_FW_CMAC'' 0x53 0x1 struct_spss_ioc_set_fw_cmac"

definition SPSS_IOC_WAIT_FOR_EVENT :: ioctl where
  "SPSS_IOC_WAIT_FOR_EVENT = IOWR ''SPSS_IOC_WAIT_FOR_EVENT'' 0x53 0x2 struct_spss_ioc_wait_for_event"

definition SPSS_IOC_SIGNAL_EVENT :: ioctl where
  "SPSS_IOC_SIGNAL_EVENT = IOWR ''SPSS_IOC_SIGNAL_EVENT'' 0x53 0x3 struct_spss_ioc_signal_event"

definition spss_utils_requests_1 :: "ioctl list" where
  "spss_utils_requests_1 =
    [IOWR ''SPSS_IOC_IS_EVENT_SIGNALED'' 0x53 0x4 struct_spss_ioc_is_signaled,
     IOWR ''SPSS_IOC_SET_SSR_STATE'' 0x53 0x5 (Scalar C_u32)]"

definition SPSS_IOC_SET_FW_AND_APPS_CMAC :: ioctl where
  "SPSS_IOC_SET_FW_AND_APPS_CMAC = IOWR ''SPSS_IOC_SET_FW_AND_APPS_CMAC'' 0x53 0x6 struct_spss_ioc_set_fw_and_apps_cmac"

definition spss_utils_ioctls :: "ioctl list" where
  "spss_utils_ioctls =
    [SPSS_IOC_SET_FW_CMAC, SPSS_IOC_WAIT_FOR_EVENT, SPSS_IOC_SIGNAL_EVENT] @ spss_utils_requests_1 @
    [SPSS_IOC_SET_FW_AND_APPS_CMAC]"

section \<open>The interface of \<^verbatim>\<open>src/include/linux/qcota.h\<close>\<close>

definition struct_qce_f8_req :: ctype where
  "struct_qce_f8_req = Struct False [
    (''data_in'', Scalar C_ptr), (''data_out'', Scalar C_ptr), (''data_len'', Scalar C_u16),
    (''count_c'', Scalar C_u32), (''bearer'', Scalar C_u8), (''ckey'', Array (Scalar C_u8) 16),
    (''direction'', Scalar C_enum), (''algorithm'', Scalar C_enum),
    (''current_req_info'', Scalar C_int)]"

definition struct_qce_f8_multi_pkt_req :: ctype where
  "struct_qce_f8_multi_pkt_req = Struct False [
    (''num_pkt'', Scalar C_u16), (''cipher_start'', Scalar C_u16), (''cipher_size'', Scalar C_u16),
    (''qce_f8_req'', struct_qce_f8_req)]"

definition struct_cipher_iov :: ctype where
  "struct_cipher_iov = Struct False [
    (''addr'', Scalar C_ptr), (''size'', Scalar C_ushort)]"

definition struct_qce_f8_variable_multi_pkt_req :: ctype where
  "struct_qce_f8_variable_multi_pkt_req = Struct False [
    (''num_pkt'', Scalar C_ushort), (''cipher_iov'', Array struct_cipher_iov 20),
    (''qce_f8_req'', struct_qce_f8_req)]"

definition struct_qce_f9_req :: ctype where
  "struct_qce_f9_req = Struct False [
    (''message'', Scalar C_ptr), (''msize'', Scalar C_u16), (''last_bits'', Scalar C_u8),
    (''mac_i'', Scalar C_u32), (''fresh'', Scalar C_u32), (''count_i'', Scalar C_u32),
    (''direction'', Scalar C_enum), (''ikey'', Array (Scalar C_u8) 16),
    (''algorithm'', Scalar C_enum), (''current_req_info'', Scalar C_int)]"

definition qcota_ioctls :: "ioctl list" where
  "qcota_ioctls =
    [IOWR ''QCOTA_F8_REQ'' 0x85 0x1 struct_qce_f8_req,
     IOWR ''QCOTA_F8_MPKT_REQ'' 0x85 0x2 struct_qce_f8_multi_pkt_req,
     IOWR ''QCOTA_F9_REQ'' 0x85 0x3 struct_qce_f9_req,
     IOWR ''QCOTA_F8_V_MPKT_REQ'' 0x85 0x4 struct_qce_f8_variable_multi_pkt_req]"

section \<open>The tables satisfy their contracts\<close>

interpretation qseecom: ioctl_table qseecom_ioctls
  by (rule ioctl_tableI) code_simp+

interpretation smcinvoke: ioctl_table smcinvoke_ioctls
  by (rule ioctl_tableI) code_simp+

interpretation qcedev: ioctl_table qcedev_ioctls
  by (rule ioctl_tableI) code_simp+

interpretation spcom: request_table spcom_ioctls
  by (rule request_tableI) code_simp+

interpretation spss_utils: ioctl_table spss_utils_ioctls
  by (rule ioctl_tableI) code_simp+

interpretation qcota: ioctl_table qcota_ioctls
  by (rule ioctl_tableI) code_simp+

end
