(* ===== verification/Audio_Ioctl.thy ===== *)
theory Audio_Ioctl
  imports C_Layout
begin

text \<open>
  The structs and ioctls of the audio drivers, from the headers
  \<^verbatim>\<open>linux/msm_audio.h\<close>, \<^verbatim>\<open>sound/lsm_params.h\<close>,
  \<^verbatim>\<open>linux/msm_audio_calibration.h\<close>,
  \<^verbatim>\<open>sound/devdep_params.h\<close> under \<^verbatim>\<open>src/include\<close>,
  each driver with the table of its requests and the contract the table satisfies.
\<close>

section \<open>The interface of \<^verbatim>\<open>src/include/linux/msm_audio.h\<close>\<close>

definition struct_msm_audio_config :: ctype where
  "struct_msm_audio_config = Struct False [
    (''buffer_size'', Scalar C_u32), (''buffer_count'', Scalar C_u32),
    (''channel_count'', Scalar C_u32), (''sample_rate'', Scalar C_u32), (''type'', Scalar C_u32),
    (''meta_field'', Scalar C_u32), (''bits'', Scalar C_u32), (''unused'', Array (Scalar C_u32) 3)]"

definition struct_msm_audio_stream_config :: ctype where
  "struct_msm_audio_stream_config = Struct False [
    (''buffer_size'', Scalar C_u32), (''buffer_count'', Scalar C_u32)]"

definition struct_msm_audio_buf_cfg :: ctype where
  "struct_msm_audio_buf_cfg = Struct False [
    (''meta_info_enable'', Scalar C_u32), (''frames_per_buf'', Scalar C_u32)]"

definition struct_msm_audio_stats :: ctype where
  "struct_msm_audio_stats = Struct False [
    (''byte_count'', Scalar C_u32), (''sample_count'', Scalar C_u32),
    (''unused'', Array (Scalar C_u32) 2)]"

definition struct_msm_audio_ion_info :: ctype where
  "struct_msm_audio_ion_info = Struct False [
    (''fd'', Scalar C_int), (''vaddr'', Scalar C_ptr)]"

definition struct_msm_audio_pmem_info :: ctype where
  "struct_msm_audio_pmem_info = Struct False [
    (''fd'', Scalar C_int), (''vaddr'', Scalar C_ptr)]"

definition struct_msm_audio_aio_buf :: ctype where
  "struct_msm_audio_aio_buf = Struct False [
    (''buf_addr'', Scalar C_ptr), (''buf_len'', Scalar C_u32), (''data_len'', Scalar C_u32),
    (''private_data'', Scalar C_ptr), (''mfield_sz'', Scalar C_ushort)]"

definition struct_msm_mute_info :: ctype where
  "struct_msm_mute_info = Struct False [
    (''mute'', Scalar C_u32), (''path'', Scalar C_u32)]"

definition struct_msm_vol_info :: ctype where
  "struct_msm_vol_info = Struct False [
    (''vol'', Scalar C_u32), (''path'', Scalar C_u32)]"

definition struct_msm_voicerec_mode :: ctype where
  "struct_msm_voicerec_mode = Struct False [
    (''rec_mode'', Scalar C_u32)]"

definition struct_msm_snd_device_config :: ctype where
  "struct_msm_snd_device_config = Struct False [
    (''device'', Scalar C_u32), (''ear_mute'', Scalar C_u32), (''mic_mute'', Scalar C_u32)]"

definition struct_cad_devices_type :: ctype where
  "struct_cad_devices_type = Struct False [
    (''rx_device'', Scalar C_u32), (''tx_device'', Scalar C_u32), (''pathtype'', Scalar C_enum)]"

definition struct_msm_cad_device_config :: ctype where
  "struct_msm_cad_device_config = Struct False [
    (''device'', struct_cad_devices_type), (''ear_mute'', Scalar C_u32),
    (''mic_mute'', Scalar C_u32)]"

definition struct_msm_snd_volume_config :: ctype where
  "struct_msm_snd_volume_config = Struct False [
    (''device'', Scalar C_u32), (''method'', Scalar C_u32), (''volume'', Scalar C_u32)]"

definition struct_msm_cad_volume_config :: ctype where
  "struct_msm_cad_volume_config = Struct False [
    (''device'', struct_cad_devices_type), (''method'', Scalar C_u32), (''volume'', Scalar C_u32)]"

definition struct_msm_snd_endpoint :: ctype where
  "struct_msm_snd_endpoint = Struct False [
    (''id'', Scalar C_int), (''name'', Array (Scalar C_char) 64)]"

definition struct_msm_cad_endpoint :: ctype where
  "struct_msm_cad_endpoint = Struct False [
    (''id'', Scalar C_int), (''name'', Array (Scalar C_char) 64)]"

definition struct_msm_audio_pcm_config :: ctype where
  "struct_msm_audio_pcm_config = Struct False [
    (''pcm_feedback'', Scalar C_u32), (''buffer_count'', Scalar C_u32),
    (''buffer_size'', Scalar C_u32)]"

definition struct_msm_audio_bitstream_info :: ctype where
  "struct_msm_audio_bitstream_info = Struct False [
    (''codec_type'', Scalar C_u32), (''chan_info'', Scalar C_u32), (''sample_rate'', Scalar C_u32),
    (''bit_stream_info'', Scalar C_u32), (''bit_rate'', Scalar C_u32),
    (''unused'', Array (Scalar C_u32) 3)]"

definition struct_msm_audio_bitstream_error_info :: ctype where
  "struct_msm_audio_bitstream_error_info = Struct False [
    (''dec_id'', Scalar C_u32), (''err_msg_indicator'', Scalar C_u32),
    (''err_type'', Scalar C_u32)]"

definition struct_msm_audio_event_payload :: ctype where
  "struct_msm_audio_event_payload = Union [
    (''aio_buf'', struct_msm_audio_aio_buf), (''stream_info'', struct_msm_audio_bitstream_info),
    (''error_info'', struct_msm_audio_bitstream_error_info), (''reserved'', Scalar C_int)]"

definition struct_msm_audio_event :: ctype where
  "struct_msm_audio_event = Struct False [
    (''event_type'', Scalar C_int), (''timeout_ms'', Scalar C_int),
    (''event_payload'', struct_msm_audio_event_payload)]"

definition struct_msm_snd_device_info :: ctype where
  "struct_msm_snd_device_info = Struct False [
    (''dev_id'', Scalar C_u32), (''dev_cap'', Scalar C_u32),
    (''dev_name'', Array (Scalar C_char) 64)]"

definition struct_msm_snd_device_list :: ctype where
  "struct_msm_snd_device_list = Struct False [
    (''num_dev'', Scalar C_u32), (''list'', Scalar C_ptr)]"

definition struct_msm_dtmf_config :: ctype where
  "struct_msm_dtmf_config = Struct False [
    (''path'', Scalar C_u16), (''dtmf_hi'', Scalar C_u16), (''dtmf_low'', Scalar C_u16),
    (''duration'', Scalar C_u16), (''tx_gain'', Scalar C_u16), (''rx_gain'', Scalar C_u16),
    (''mixing'', Scalar C_u16)]"

definition struct_msm_audio_route_config :: ctype where
  "struct_msm_audio_route_config = Struct False [
    (''stream_type'', Scalar C_u32), (''stream_id'', Scalar C_u32), (''dev_id'', Scalar C_u32)]"

definition struct_msm_audio_eq_band :: ctype where
  "struct_msm_audio_eq_band = Struct True [
    (''band_idx'', Scalar C_u16), (''filter_type'', Scalar C_u32),
    (''center_freq_hz'', Scalar C_u32), (''filter_gain'', Scalar C_u32),
    (''q_factor'', Scalar C_u32)]"

definition struct_msm_audio_eq_stream_config :: ctype where
  "struct_msm_audio_eq_stream_config = Struct True [
    (''enable'', Scalar C_u32), (''num_bands'', Scalar C_u32),
    (''eq_bands'', Array struct_msm_audio_eq_band 12)]"

definition struct_msm_acdb_cmd_device :: ctype where
  "struct_msm_acdb_cmd_device = Struct False [
    (''command_id'', Scalar C_u32), (''device_id'', Scalar C_u32), (''network_id'', Scalar C_u32),
    (''sample_rate_id'', Scalar C_u32), (''interface_id'', Scalar C_u32),
    (''algorithm_block_id'', Scalar C_u32), (''total_bytes'', Scalar C_u32),
    (''phys_buf'', Scalar C_ptr)]"

definition struct_msm_hwacc_data_config :: ctype where
  "struct_msm_hwacc_data_config = Struct False [
    (''buf_size'', Scalar C_u32), (''num_buf'', Scalar C_u32), (''num_channels'', Scalar C_u32),
    (''channel_map'', Array (Scalar C_u8) 8), (''sample_rate'', Scalar C_u32),
    (''bits_per_sample'', Scalar C_u32)]"

definition struct_msm_hwacc_buf_cfg :: ctype where
  "struct_msm_hwacc_buf_cfg = Struct False [
    (''input_len'', Scalar C_u32), (''output_len'', Scalar C_u32)]"

definition struct_msm_hwacc_buf_avail :: ctype where
  "struct_msm_hwacc_buf_avail = Struct False [
    (''input_num_avail'', Scalar C_u32), (''output_num_avail'', Scalar C_u32)]"

definition struct_msm_hwacc_effects_config :: ctype where
  "struct_msm_hwacc_effects_config = Struct False [
    (''input'', struct_msm_hwacc_data_config), (''output'', struct_msm_hwacc_data_config),
    (''buf_cfg'', struct_msm_hwacc_buf_cfg), (''meta_mode_enabled'', Scalar C_u32),
    (''overwrite_topology'', Scalar C_u32), (''topology'', Scalar C_s32)]"

definition struct_msm_adsp_event_data :: ctype where
  "struct_msm_adsp_event_data = Struct False [
    (''event_type'', Scalar C_u32), (''payload_len'', Scalar C_u32),
    (''payload'', Array (Scalar C_u8) 0)]"

definition AUDIO_START :: ioctl where
  "AUDIO_START = IOW ''AUDIO_START'' 0x61 0x0 (Scalar C_uint)"

definition AUDIO_STOP :: ioctl where
  "AUDIO_STOP = IOW ''AUDIO_STOP'' 0x61 0x1 (Scalar C_uint)"

definition AUDIO_FLUSH :: ioctl where
  "AUDIO_FLUSH = IOW ''AUDIO_FLUSH'' 0x61 0x2 (Scalar C_uint)"

definition AUDIO_GET_CONFIG :: ioctl where
  "AUDIO_GET_CONFIG = IOR ''AUDIO_GET_CONFIG'' 0x61 0x3 struct_msm_audio_config"

definition msm_audio_requests_1 :: "ioctl list" where
  "msm_audio_requests_1 =
    [IOW ''AUDIO_SET_CONFIG'' 0x61 0x4 struct_msm_audio_config,
     IOR ''AUDIO_GET_STATS'' 0x61 0x5 struct_msm_audio_stats,
     IOW ''AUDIO_ENABLE_AUDPP'' 0x61 0x6 (Scalar C_uint),
     IOW ''AUDIO_SET_ADRC'' 0x61 0x7 (Scalar C_uint),
     IOW ''AUDIO_SET_EQ'' 0x61 0x8 (Scalar C_uint),
     IOW ''AUDIO_SET_RX_IIR'' 0x61 0x9 (Scalar C_uint),
     IOW ''AUDIO_SET_VOLUME'' 0x61 0xa (Scalar C_uint),
     IOW ''AUDIO_PAUSE'' 0x61 0xb (Scalar C_uint),
     IOW ''AUDIO_PLAY_DTMF'' 0x61 0xc (Scalar C_uint),
     IOR ''AUDIO_GET_EVENT'' 0x61 0xd struct_msm_audio_event,
     IOW ''AUDIO_ABORT_GET_EVENT'' 0x61 0xe (Scalar C_uint),
     IOW ''AUDIO_REGISTER_PMEM'' 0x61 0xf (Scalar C_uint),
     IOW ''AUDIO_DEREGISTER_PMEM'' 0x61 0x10 (Scalar C_uint),
     IOW ''AUDIO_ASYNC_WRITE'' 0x61 0x11 struct_msm_audio_aio_buf,
     IOW ''AUDIO_ASYNC_READ'' 0x61 0x12 struct_msm_audio_aio_buf,
     IOW ''AUDIO_SET_INCALL'' 0x61 0x13 struct_msm_voicerec_mode,
     IOR ''AUDIO_GET_NUM_SND_DEVICE'' 0x61 0x14 (Scalar C_uint),
     IOWR ''AUDIO_GET_SND_DEVICES'' 0x61 0x15 struct_msm_snd_device_list,
     IOW ''AUDIO_ENABLE_SND_DEVICE'' 0x61 0x16 (Scalar C_uint),
     IOW ''AUDIO_DISABLE_SND_DEVICE'' 0x61 0x17 (Scalar C_uint),
     IOW ''AUDIO_ROUTE_STREAM'' 0x61 0x18 struct_msm_audio_route_config,
     IOR ''AUDIO_GET_PCM_CONFIG'' 0x61 0x1e (Scalar C_uint),
     IOW ''AUDIO_SET_PCM_CONFIG'' 0x61 0x1f (Scalar C_uint),
     IOW ''AUDIO_SWITCH_DEVICE'' 0x61 0x20 (Scalar C_uint),
     IOW ''AUDIO_SET_MUTE'' 0x61 0x21 (Scalar C_uint),
     IOW ''AUDIO_UPDATE_ACDB'' 0x61 0x22 (Scalar C_uint),
     IOW ''AUDIO_START_VOICE'' 0x61 0x23 (Scalar C_uint),
     IOW ''AUDIO_STOP_VOICE'' 0x61 0x24 (Scalar C_uint),
     IOW ''AUDIO_REINIT_ACDB'' 0x61 0x27 (Scalar C_uint),
     IOW ''AUDIO_OUTPORT_FLUSH'' 0x61 0x28 (Scalar C_ushort),
     IOW ''AUDIO_SET_ERR_THRESHOLD_VALUE'' 0x61 0x29 (Scalar C_ushort),
     IOR ''AUDIO_GET_BITSTREAM_ERROR_INFO'' 0x61 0x2a struct_msm_audio_bitstream_error_info,
     IOW ''AUDIO_SET_SRS_TRUMEDIA_PARAM'' 0x61 0x2b (Scalar C_uint),
     IOW ''AUDIO_SET_STREAM_CONFIG'' 0x61 0x50 struct_msm_audio_stream_config,
     IOR ''AUDIO_GET_STREAM_CONFIG'' 0x61 0x51 struct_msm_audio_stream_config,
     IOR ''AUDIO_GET_SESSION_ID'' 0x61 0x52 (Scalar C_ushort),
     IOR ''AUDIO_GET_STREAM_INFO'' 0x61 0x53 struct_msm_audio_bitstream_info,
     IOW ''AUDIO_SET_PAN'' 0x61 0x54 (Scalar C_uint),
     IOW ''AUDIO_SET_QCONCERT_PLUS'' 0x61 0x55 (Scalar C_uint),
     IOW ''AUDIO_SET_MBADRC'' 0x61 0x56 (Scalar C_uint),
     IOW ''AUDIO_SET_VOLUME_PATH'' 0x61 0x57 struct_msm_vol_info,
     IOW ''AUDIO_SET_MAX_VOL_ALL'' 0x61 0x58 (Scalar C_uint),
     IOW ''AUDIO_ENABLE_AUDPRE'' 0x61 0x59 (Scalar C_uint),
     IOW ''AUDIO_SET_AGC'' 0x61 0x5a (Scalar C_uint),
     IOW ''AUDIO_SET_NS'' 0x61 0x5b (Scalar C_uint),
     IOW ''AUDIO_SET_TX_IIR'' 0x61 0x5c (Scalar C_uint),
     IOW ''AUDIO_GET_BUF_CFG'' 0x61 0x5d struct_msm_audio_buf_cfg,
     IOW ''AUDIO_SET_BUF_CFG'' 0x61 0x5e struct_msm_audio_buf_cfg,
     IOW ''AUDIO_SET_ACDB_BLK'' 0x61 0x5f struct_msm_acdb_cmd_device,
     IOW ''AUDIO_GET_ACDB_BLK'' 0x61 0x60 struct_msm_acdb_cmd_device,
     IOW ''IOCTL_MAP_PHYS_ADDR'' 0x61 0x61 (Scalar C_int),
     IOW ''IOCTL_UNMAP_PHYS_ADDR'' 0x61 0x62 (Scalar C_int),
     IOW ''AUDIO_SET_EFFECTS_CONFIG'' 0x61 0x63 struct_msm_hwacc_effects_config,
     IOW ''AUDIO_EFFECTS_SET_BUF_LEN'' 0x61 0x64 struct_msm_hwacc_buf_cfg,
     IOW ''AUDIO_EFFECTS_GET_BUF_AVAIL'' 0x61 0x65 struct_msm_hwacc_buf_avail,
     IOW ''AUDIO_EFFECTS_WRITE'' 0x61 0x66 (Scalar C_ptr),
     IOWR ''AUDIO_EFFECTS_READ'' 0x61 0x67 (Scalar C_ptr),
     IOW ''AUDIO_EFFECTS_SET_PP_PARAMS'' 0x61 0x68 (Scalar C_ptr),
     IOW ''AUDIO_PM_AWAKE'' 0x61 0x69 (Scalar C_uint),
     IOW ''AUDIO_PM_RELAX'' 0x61 0x6a (Scalar C_uint),
     IOW ''AUDIO_REGISTER_ION'' 0x61 0x6b struct_msm_audio_ion_info,
     IOW ''AUDIO_DEREGISTER_ION'' 0x61 0x6c struct_msm_audio_ion_info,
     IOW ''IOCTL_MAP_HYP_ASSIGN'' 0x61 0x6d (Scalar C_int),
     IOW ''IOCTL_UNMAP_HYP_ASSIGN'' 0x61 0x6e (Scalar C_int)]"

definition SND_SET_DEVICE :: ioctl where
  "SND_SET_DEVICE = IOW ''SND_SET_DEVICE'' 0x73 0x2 (Scalar C_ptr)"

definition SND_SET_VOLUME :: ioctl where
  "SND_SET_VOLUME = IOW ''SND_SET_VOLUME'' 0x73 0x3 (Scalar C_ptr)"

definition SND_GET_NUM_ENDPOINTS :: ioctl where
  "SND_GET_NUM_ENDPOINTS = IOR ''SND_GET_NUM_ENDPOINTS'' 0x73 0x4 (Scalar C_ptr)"

definition SND_GET_ENDPOINT :: ioctl where
  "SND_GET_ENDPOINT = IOWR ''SND_GET_ENDPOINT'' 0x73 0x5 (Scalar C_ptr)"

definition msm_audio_requests_2 :: "ioctl list" where
  "msm_audio_requests_2 =
    [IOW ''SND_AVC_CTL'' 0x73 0x6 (Scalar C_ptr),
     IOW ''SND_AGC_CTL'' 0x73 0x7 (Scalar C_ptr)]"

definition msm_audio_ioctls :: "ioctl list" where
  "msm_audio_ioctls =
    [AUDIO_START, AUDIO_STOP, AUDIO_FLUSH, AUDIO_GET_CONFIG] @ msm_audio_requests_1 @
    [SND_SET_DEVICE, SND_SET_VOLUME, SND_GET_NUM_ENDPOINTS, SND_GET_ENDPOINT] @
    msm_audio_requests_2"

definition CAD_SET_DEVICE :: ioctl where
  "CAD_SET_DEVICE = IOW ''CAD_SET_DEVICE'' 0x73 0x2 (Scalar C_ptr)"

definition CAD_SET_VOLUME :: ioctl where
  "CAD_SET_VOLUME = IOW ''CAD_SET_VOLUME'' 0x73 0x3 (Scalar C_ptr)"

definition CAD_GET_NUM_ENDPOINTS :: ioctl where
  "CAD_GET_NUM_ENDPOINTS = IOR ''CAD_GET_NUM_ENDPOINTS'' 0x73 0x4 (Scalar C_ptr)"

definition CAD_GET_ENDPOINT :: ioctl where
  "CAD_GET_ENDPOINT = IOWR ''CAD_GET_ENDPOINT'' 0x73 0x5 (Scalar C_ptr)"

definition cad_ioctls :: "ioctl list" where
  "cad_ioctls =
    [CAD_SET_DEVICE, CAD_SET_VOLUME, CAD_GET_NUM_ENDPOINTS, CAD_GET_ENDPOINT]"

section \<open>The interface of \<^verbatim>\<open>src/include/sound/lsm_params.h\<close>\<close>

definition struct_snd_lsm_ep_det_thres :: ctype where
  "struct_snd_lsm_ep_det_thres = Struct False [
    (''epd_begin'', Scalar C_u32), (''epd_end'', Scalar C_u32)]"

definition struct_snd_lsm_detect_mode :: ctype where
  "struct_snd_lsm_detect_mode = Struct False [
    (''mode'', Scalar C_enum), (''detect_failure'', Scalar C_bool)]"

definition struct_snd_lsm_gain :: ctype where
  "struct_snd_lsm_gain = Struct False [
    (''gain'', Scalar C_u16)]"

definition struct_snd_lsm_poll_enable :: ctype where
  "struct_snd_lsm_poll_enable = Struct False [
    (''poll_en'', Scalar C_bool)]"

definition struct_snd_lsm_det_event_type :: ctype where
  "struct_snd_lsm_det_event_type = Struct False [
    (''event_type'', Scalar C_u32), (''mode'', Scalar C_u32)]"

definition struct_snd_lsm_sound_model_v2 :: ctype where
  "struct_snd_lsm_sound_model_v2 = Struct False [
    (''data'', Scalar C_ptr), (''confidence_level'', Scalar C_ptr), (''data_size'', Scalar C_u32),
    (''detection_mode'', Scalar C_enum), (''num_confidence_levels'', Scalar C_u8),
    (''detect_failure'', Scalar C_bool)]"

definition struct_snd_lsm_session_data :: ctype where
  "struct_snd_lsm_session_data = Struct False [
    (''app_id'', Scalar C_enum)]"

definition struct_snd_lsm_stage_info :: ctype where
  "struct_snd_lsm_stage_info = Struct False [
    (''app_type'', Scalar C_u32), (''lpi_enable'', Scalar C_u32)]"

definition struct_snd_lsm_session_data_v2 :: ctype where
  "struct_snd_lsm_session_data_v2 = Struct False [
    (''app_id'', Scalar C_enum), (''num_stages'', Scalar C_u32),
    (''stage_info'', Array struct_snd_lsm_stage_info 2)]"

definition struct_snd_lsm_lab_control :: ctype where
  "struct_snd_lsm_lab_control = Struct False [
    (''enable'', Scalar C_u32)]"

definition struct_snd_lsm_event_status :: ctype where
  "struct_snd_lsm_event_status = Struct False [
    (''status'', Scalar C_u16), (''payload_size'', Scalar C_u16),
    (''payload'', Array (Scalar C_u8) 0)]"

definition struct_snd_lsm_event_status_v3 :: ctype where
  "struct_snd_lsm_event_status_v3 = Struct False [
    (''timestamp_lsw'', Scalar C_u32), (''timestamp_msw'', Scalar C_u32),
    (''status'', Scalar C_u16), (''payload_size'', Scalar C_u16),
    (''payload'', Array (Scalar C_u8) 0)]"

definition struct_snd_lsm_detection_params :: ctype where
  "struct_snd_lsm_detection_params = Struct False [
    (''conf_level'', Scalar C_ptr), (''detect_mode'', Scalar C_enum),
    (''num_confidence_levels'', Scalar C_u8), (''detect_failure'', Scalar C_bool),
    (''poll_enable'', Scalar C_bool)]"

definition struct_lsm_params_info :: ctype where
  "struct_lsm_params_info = Struct False [
    (''module_id'', Scalar C_u32), (''param_id'', Scalar C_u32), (''param_size'', Scalar C_u32),
    (''param_data'', Scalar C_ptr), (''param_type'', Scalar C_u32)]"

definition struct_lsm_params_info_v2 :: ctype where
  "struct_lsm_params_info_v2 = Struct False [
    (''module_id'', Scalar C_u32), (''param_id'', Scalar C_u32), (''param_size'', Scalar C_u32),
    (''param_data'', Scalar C_ptr), (''param_type'', Scalar C_u32),
    (''instance_id'', Scalar C_u16), (''stage_idx'', Scalar C_u16), (''model_id'', Scalar C_u32)]"

definition struct_snd_lsm_module_params :: ctype where
  "struct_snd_lsm_module_params = Struct False [
    (''params'', Scalar C_ptr), (''num_params'', Scalar C_u32), (''data_size'', Scalar C_u32)]"

definition struct_snd_lsm_output_format_cfg :: ctype where
  "struct_snd_lsm_output_format_cfg = Struct False [
    (''format'', Scalar C_u8), (''packing'', Scalar C_u8), (''events'', Scalar C_u8),
    (''mode'', Scalar C_u8)]"

definition struct_snd_lsm_input_hw_params :: ctype where
  "struct_snd_lsm_input_hw_params = Struct True [
    (''sample_rate'', Scalar C_u32), (''bit_width'', Scalar C_u16),
    (''num_channels'', Scalar C_u16)]"

definition struct_lsm_params_get_info :: ctype where
  "struct_lsm_params_get_info = Struct True [
    (''module_id'', Scalar C_u32), (''instance_id'', Scalar C_u16), (''reserved'', Scalar C_u16),
    (''param_id'', Scalar C_u32), (''param_size'', Scalar C_u32), (''param_type'', Scalar C_u32),
    (''stage_idx'', Scalar C_u16), (''payload'', Array (Scalar C_u8) 0)]"

definition lsm_params_ioctls :: "ioctl list" where
  "lsm_params_ioctls =
    [IOW ''SNDRV_LSM_DEREG_SND_MODEL'' 0x55 0x1 (Scalar C_int),
     IOW ''SNDRV_LSM_EVENT_STATUS'' 0x55 0x2 struct_snd_lsm_event_status,
     IOW ''SNDRV_LSM_ABORT_EVENT'' 0x55 0x3 (Scalar C_int),
     IOW ''SNDRV_LSM_START'' 0x55 0x4 (Scalar C_int),
     IOW ''SNDRV_LSM_STOP'' 0x55 0x5 (Scalar C_int),
     IOW ''SNDRV_LSM_SET_SESSION_DATA'' 0x55 0x6 struct_snd_lsm_session_data,
     IOW ''SNDRV_LSM_REG_SND_MODEL_V2'' 0x55 0x7 struct_snd_lsm_sound_model_v2,
     IOW ''SNDRV_LSM_LAB_CONTROL'' 0x55 0x8 (Scalar C_u32),
     IO ''SNDRV_LSM_STOP_LAB'' 0x55 0x9,
     IOW ''SNDRV_LSM_SET_PARAMS'' 0x55 0xa struct_snd_lsm_detection_params,
     IOW ''SNDRV_LSM_SET_MODULE_PARAMS'' 0x55 0xb struct_snd_lsm_module_params,
     IOW ''SNDRV_LSM_OUT_FORMAT_CFG'' 0x55 0xc struct_snd_lsm_output_format_cfg,
     IO ''SNDRV_LSM_SET_PORT'' 0x55 0xd,
     IOW ''SNDRV_LSM_SET_FWK_MODE_CONFIG'' 0x55 0xe (Scalar C_u32),
     IOW ''SNDRV_LSM_EVENT_STATUS_V3'' 0x55 0xf struct_snd_lsm_event_status_v3,
     IOW ''SNDRV_LSM_GENERIC_DET_EVENT'' 0x55 0x10 struct_snd_lsm_event_status,
     IOW ''SNDRV_LSM_SET_INPUT_HW_PARAMS'' 0x55 0x11 struct_snd_lsm_input_hw_params,
     IOW ''SNDRV_LSM_SET_SESSION_DATA_V2'' 0x55 0x12 struct_snd_lsm_session_data_v2,
     IOW ''SNDRV_LSM_SET_MODULE_PARAMS_V2'' 0x55 0x13 struct_snd_lsm_module_params,
     IOWR ''SNDRV_LSM_GET_MODULE_PARAMS'' 0x55 0x14 struct_lsm_params_get_info]"

section \<open>The interface of \<^verbatim>\<open>src/include/linux/msm_audio_calibration.h\<close>\<close>

definition msm_audio_calibration_ioctls :: "ioctl list" where
  "msm_audio_calibration_ioctls =
    [IOWR ''AUDIO_ALLOCATE_CALIBRATION'' 0x61 0xc8 (Scalar C_ptr),
     IOWR ''AUDIO_DEALLOCATE_CALIBRATION'' 0x61 0xc9 (Scalar C_ptr),
     IOWR ''AUDIO_PREPARE_CALIBRATION'' 0x61 0xca (Scalar C_ptr),
     IOWR ''AUDIO_SET_CALIBRATION'' 0x61 0xcb (Scalar C_ptr),
     IOWR ''AUDIO_GET_CALIBRATION'' 0x61 0xcc (Scalar C_ptr),
     IOWR ''AUDIO_POST_CALIBRATION'' 0x61 0xcd (Scalar C_ptr),
     IOR ''AUDIO_GET_RTAC_ADM_INFO'' 0x61 0xcf (Scalar C_ptr),
     IOR ''AUDIO_GET_RTAC_VOICE_INFO'' 0x61 0xd0 (Scalar C_ptr),
     IOWR ''AUDIO_GET_RTAC_ADM_CAL'' 0x61 0xd1 (Scalar C_ptr),
     IOWR ''AUDIO_SET_RTAC_ADM_CAL'' 0x61 0xd2 (Scalar C_ptr),
     IOWR ''AUDIO_GET_RTAC_ASM_CAL'' 0x61 0xd3 (Scalar C_ptr),
     IOWR ''AUDIO_SET_RTAC_ASM_CAL'' 0x61 0xd4 (Scalar C_ptr),
     IOWR ''AUDIO_GET_RTAC_CVS_CAL'' 0x61 0xd5 (Scalar C_ptr),
     IOWR ''AUDIO_SET_RTAC_CVS_CAL'' 0x61 0xd6 (Scalar C_ptr),
     IOWR ''AUDIO_GET_RTAC_CVP_CAL'' 0x61 0xd7 (Scalar C_ptr),
     IOWR ''AUDIO_SET_RTAC_CVP_CAL'' 0x61 0xd8 (Scalar C_ptr),
     IOWR ''AUDIO_GET_RTAC_AFE_CAL'' 0x61 0xd9 (Scalar C_ptr),
     IOWR ''AUDIO_SET_RTAC_AFE_CAL'' 0x61 0xda (Scalar C_ptr)]"

section \<open>The interface of \<^verbatim>\<open>src/include/sound/devdep_params.h\<close>\<close>

definition struct_dolby_param_data :: ctype where
  "struct_dolby_param_data = Struct False [
    (''version'', Scalar C_s32), (''device_id'', Scalar C_s32), (''be_id'', Scalar C_s32),
    (''param_id'', Scalar C_s32), (''length'', Scalar C_s32), (''data'', Scalar C_ptr)]"

definition struct_dolby_param_license :: ctype where
  "struct_dolby_param_license = Struct False [
    (''dmid'', Scalar C_s32), (''license_key'', Scalar C_s32)]"

definition struct_dts_eagle_param_desc :: ctype where
  "struct_dts_eagle_param_desc = Struct True [
    (''id'', Scalar C_u32), (''size'', Scalar C_u32), (''offset'', Scalar C_s32),
    (''device'', Scalar C_u32)]"

definition struct_snd_pcm_mmap_fd :: ctype where
  "struct_snd_pcm_mmap_fd = Struct False [
    (''dir'', Scalar C_s32), (''fd'', Scalar C_s32), (''size'', Scalar C_s32),
    (''actual_size'', Scalar C_s32)]"

definition struct_snd_pcm_prsnt_position :: ctype where
  "struct_snd_pcm_prsnt_position = Struct False [
    (''timestamp'', Scalar C_u64), (''frames'', Scalar C_u64), (''clock_id'', Scalar C_s32)]"

definition devdep_params_requests_1 :: "ioctl list" where
  "devdep_params_requests_1 =
    [IOWR ''SNDRV_DEVDEP_DAP_IOCTL_SET_PARAM'' 0x55 0x10 struct_dolby_param_data,
     IOR ''SNDRV_DEVDEP_DAP_IOCTL_GET_PARAM'' 0x55 0x11 struct_dolby_param_data,
     IOWR ''SNDRV_DEVDEP_DAP_IOCTL_DAP_COMMAND'' 0x55 0x13 struct_dolby_param_data,
     IOWR ''SNDRV_DEVDEP_DAP_IOCTL_DAP_LICENSE'' 0x55 0x14 struct_dolby_param_license,
     IOR ''SNDRV_DEVDEP_DAP_IOCTL_GET_VISUALIZER'' 0x55 0x15 struct_dolby_param_data]"

definition devdep_params_requests_2 :: "ioctl list" where
  "devdep_params_requests_2 =
    [IOR ''DTS_EAGLE_IOCTL_GET_CACHE_SIZE'' 0xf2 0x0 (Scalar C_int),
     IOW ''DTS_EAGLE_IOCTL_SET_CACHE_SIZE'' 0xf2 0x1 (Scalar C_int),
     IOR ''DTS_EAGLE_IOCTL_GET_PARAM'' 0xf2 0x2 (Scalar C_ptr),
     IOW ''DTS_EAGLE_IOCTL_SET_PARAM'' 0xf2 0x3 (Scalar C_ptr),
     IOW ''DTS_EAGLE_IOCTL_SET_CACHE_BLOCK'' 0xf2 0x4 (Scalar C_ptr),
     IOW ''DTS_EAGLE_IOCTL_SET_ACTIVE_DEVICE'' 0xf2 0x5 (Scalar C_ptr),
     IOR ''DTS_EAGLE_IOCTL_GET_LICENSE'' 0xf2 0x6 (Scalar C_ptr),
     IOW ''DTS_EAGLE_IOCTL_SET_LICENSE'' 0xf2 0x7 (Scalar C_ptr),
     IOW ''DTS_EAGLE_IOCTL_SEND_LICENSE'' 0xf2 0x8 (Scalar C_int),
     IOW ''DTS_EAGLE_IOCTL_SET_VOLUME_COMMANDS'' 0xf2 0x9 (Scalar C_ptr)]"

definition devdep_params_requests_3 :: "ioctl list" where
  "devdep_params_requests_3 =
    [IOWR ''SNDRV_PCM_IOCTL_MMAP_DATA_FD'' 0x55 0xd2 struct_snd_pcm_mmap_fd,
     IOWR ''SNDRV_PCM_IOCTL_DSP_POSITION'' 0x55 0xd3 struct_snd_pcm_prsnt_position]"

definition devdep_params_ioctls :: "ioctl list" where
  "devdep_params_ioctls =
    devdep_params_requests_1 @ devdep_params_requests_2 @ devdep_params_requests_3"

section \<open>The tables satisfy their contracts\<close>

interpretation msm_audio: ioctl_table msm_audio_ioctls
  by (rule ioctl_tableI) code_simp+

interpretation lsm_params: ioctl_table lsm_params_ioctls
  by (rule ioctl_tableI) code_simp+

interpretation msm_audio_calibration: ioctl_table msm_audio_calibration_ioctls
  by (rule ioctl_tableI) code_simp+

interpretation devdep_params: ioctl_table devdep_params_ioctls
  by (rule ioctl_tableI) code_simp+

end
