(* ===== verification/Platform_Ioctl.thy ===== *)
theory Platform_Ioctl
  imports C_Layout
begin

text \<open>
  The structs and ioctls of memory sharing, virtual machines, modem links and platform services,
  from the headers \<^verbatim>\<open>linux/mem-buf.h\<close>,
  \<^verbatim>\<open>linux/ion.h\<close>, \<^verbatim>\<open>linux/msm_ion.h\<close>,
  \<^verbatim>\<open>media/synx.h\<close>, \<^verbatim>\<open>linux/gh_virtio_backend.h\<close>,
  \<^verbatim>\<open>linux/gunyah/gh_vm.h\<close>, \<^verbatim>\<open>linux/mhi.h\<close>,
  \<^verbatim>\<open>linux/esoc_ctrl.h\<close>,
  \<^verbatim>\<open>linux/helioscom_interface.h\<close>,
  \<^verbatim>\<open>linux/usb/usb_ctrl_qti.h\<close>,
  \<^verbatim>\<open>linux/qg-profile.h\<close>,
  \<^verbatim>\<open>misc/wigig_sensing_uapi.h\<close>,
  \<^verbatim>\<open>misc/adsp_sleepmon.h\<close> under \<^verbatim>\<open>src/include\<close>, each
  driver with the table of its requests and the contract the table satisfies.
\<close>

section \<open>The interface of \<^verbatim>\<open>src/include/linux/mem-buf.h\<close>\<close>

definition struct_acl_entry :: ctype where
  "struct_acl_entry = Struct False [
    (''vmid'', Scalar C_u32), (''perms'', Scalar C_u32)]"

definition struct_mem_buf_ion_data :: ctype where
  "struct_mem_buf_ion_data = Struct False [
    (''heap_id'', Scalar C_u32)]"

definition struct_mem_buf_dmaheap_data :: ctype where
  "struct_mem_buf_dmaheap_data = Struct False [
    (''heap_name'', Scalar C_u64)]"

definition struct_mem_buf_alloc_ioctl_arg :: ctype where
  "struct_mem_buf_alloc_ioctl_arg = Struct False [
    (''size'', Scalar C_u64), (''acl_list'', Scalar C_u64), (''nr_acl_entries'', Scalar C_u32),
    (''src_mem_type'', Scalar C_u32), (''src_data'', Scalar C_u64),
    (''dst_mem_type'', Scalar C_u32), (''mem_buf_fd'', Scalar C_u32), (''dst_data'', Scalar C_u64),
    (''reserved0'', Scalar C_u64), (''reserved1'', Scalar C_u64), (''reserved2'', Scalar C_u64)]"

definition struct_mem_buf_lend_ioctl_arg :: ctype where
  "struct_mem_buf_lend_ioctl_arg = Struct False [
    (''dma_buf_fd'', Scalar C_u32), (''nr_acl_entries'', Scalar C_u32),
    (''acl_list'', Scalar C_u64), (''memparcel_hdl'', Scalar C_u64), (''reserved0'', Scalar C_u64),
    (''reserved1'', Scalar C_u64), (''reserved2'', Scalar C_u64)]"

definition struct_mem_buf_retrieve_ioctl_arg :: ctype where
  "struct_mem_buf_retrieve_ioctl_arg = Struct False [
    (''sender_vm_fd'', Scalar C_u32), (''nr_acl_entries'', Scalar C_u32),
    (''acl_list'', Scalar C_u64), (''memparcel_hdl'', Scalar C_u64),
    (''dma_buf_import_fd'', Scalar C_u32), (''fd_flags'', Scalar C_u32),
    (''reserved0'', Scalar C_u64), (''reserved1'', Scalar C_u64), (''reserved2'', Scalar C_u64)]"

definition struct_mem_buf_reclaim_ioctl_arg :: ctype where
  "struct_mem_buf_reclaim_ioctl_arg = Struct False [
    (''memparcel_hdl'', Scalar C_u64), (''dma_buf_fd'', Scalar C_u32),
    (''reserved0'', Scalar C_u32), (''reserved1'', Scalar C_u64), (''reserved2'', Scalar C_u64)]"

definition struct_mem_buf_share_ioctl_arg :: ctype where
  "struct_mem_buf_share_ioctl_arg = Struct False [
    (''dma_buf_fd'', Scalar C_u32), (''nr_acl_entries'', Scalar C_u32),
    (''acl_list'', Scalar C_u64), (''memparcel_hdl'', Scalar C_u64), (''reserved0'', Scalar C_u64),
    (''reserved1'', Scalar C_u64), (''reserved2'', Scalar C_u64)]"

definition struct_mem_buf_exclusive_owner_ioctl_arg :: ctype where
  "struct_mem_buf_exclusive_owner_ioctl_arg = Struct False [
    (''dma_buf_fd'', Scalar C_u32), (''is_exclusive_owner'', Scalar C_u32)]"

definition MEM_BUF_IOC_ALLOC :: ioctl where
  "MEM_BUF_IOC_ALLOC = IOWR ''MEM_BUF_IOC_ALLOC'' 0x4d 0x0 struct_mem_buf_alloc_ioctl_arg"

definition MEM_BUF_IOC_LEND :: ioctl where
  "MEM_BUF_IOC_LEND = IOWR ''MEM_BUF_IOC_LEND'' 0x4d 0x3 struct_mem_buf_lend_ioctl_arg"

definition MEM_BUF_IOC_RETRIEVE :: ioctl where
  "MEM_BUF_IOC_RETRIEVE = IOWR ''MEM_BUF_IOC_RETRIEVE'' 0x4d 0x4 struct_mem_buf_retrieve_ioctl_arg"

definition MEM_BUF_IOC_RECLAIM :: ioctl where
  "MEM_BUF_IOC_RECLAIM = IOWR ''MEM_BUF_IOC_RECLAIM'' 0x4d 0x3 struct_mem_buf_reclaim_ioctl_arg"

definition MEM_BUF_IOC_SHARE :: ioctl where
  "MEM_BUF_IOC_SHARE = IOWR ''MEM_BUF_IOC_SHARE'' 0x4d 0x6 struct_mem_buf_share_ioctl_arg"

definition MEM_BUF_IOC_EXCLUSIVE_OWNER :: ioctl where
  "MEM_BUF_IOC_EXCLUSIVE_OWNER = IOWR ''MEM_BUF_IOC_EXCLUSIVE_OWNER'' 0x4d 0x2 struct_mem_buf_exclusive_owner_ioctl_arg"

definition mem_buf_ioctls :: "ioctl list" where
  "mem_buf_ioctls =
    [MEM_BUF_IOC_ALLOC, MEM_BUF_IOC_LEND, MEM_BUF_IOC_RETRIEVE, MEM_BUF_IOC_RECLAIM,
    MEM_BUF_IOC_SHARE, MEM_BUF_IOC_EXCLUSIVE_OWNER]"

section \<open>The interface of \<^verbatim>\<open>src/include/linux/ion.h\<close>\<close>

definition struct_ion_allocation_data :: ctype where
  "struct_ion_allocation_data = Struct False [
    (''len'', Scalar C_u64), (''heap_id_mask'', Scalar C_u32), (''flags'', Scalar C_u32),
    (''fd'', Scalar C_u32), (''unused'', Scalar C_u32)]"

definition struct_ion_heap_data :: ctype where
  "struct_ion_heap_data = Struct False [
    (''name'', Array (Scalar C_char) 32), (''type'', Scalar C_u32), (''heap_id'', Scalar C_u32),
    (''reserved0'', Scalar C_u32), (''reserved1'', Scalar C_u32), (''reserved2'', Scalar C_u32)]"

definition struct_ion_heap_query :: ctype where
  "struct_ion_heap_query = Struct False [
    (''cnt'', Scalar C_u32), (''reserved0'', Scalar C_u32), (''heaps'', Scalar C_u64),
    (''reserved1'', Scalar C_u32), (''reserved2'', Scalar C_u32)]"

definition ion_ioctls :: "ioctl list" where
  "ion_ioctls =
    [IOWR ''ION_IOC_ALLOC'' 0x49 0x0 struct_ion_allocation_data,
     IOWR ''ION_IOC_HEAP_QUERY'' 0x49 0x8 struct_ion_heap_query,
     IOR ''ION_IOC_ABI_VERSION'' 0x49 0x9 (Scalar C_u32)]"

section \<open>The interface of \<^verbatim>\<open>src/include/linux/msm_ion.h\<close>\<close>

definition struct_ion_prefetch_regions :: ctype where
  "struct_ion_prefetch_regions = Struct False [
    (''sizes'', Scalar C_u64), (''vmid'', Scalar C_u32), (''nr_sizes'', Scalar C_u32)]"

definition struct_ion_prefetch_data :: ctype where
  "struct_ion_prefetch_data = Struct False [
    (''len'', Scalar C_u64), (''regions'', Scalar C_u64), (''heap_id'', Scalar C_u32),
    (''nr_regions'', Scalar C_u32)]"

definition msm_ion_ioctls :: "ioctl list" where
  "msm_ion_ioctls =
    [IOWR ''ION_IOC_PREFETCH'' 0x4d 0x3 struct_ion_prefetch_data,
     IOWR ''ION_IOC_DRAIN'' 0x4d 0x4 struct_ion_prefetch_data]"

section \<open>The interface of \<^verbatim>\<open>src/include/media/synx.h\<close>\<close>

definition struct_synx_info :: ctype where
  "struct_synx_info = Struct False [
    (''name'', Array (Scalar C_char) 64), (''synx_obj'', Scalar C_s32)]"

definition struct_synx_userpayload_info :: ctype where
  "struct_synx_userpayload_info = Struct False [
    (''synx_obj'', Scalar C_s32), (''reserved'', Scalar C_u32),
    (''payload'', Array (Scalar C_u64) 4)]"

definition struct_synx_signal :: ctype where
  "struct_synx_signal = Struct False [
    (''synx_obj'', Scalar C_s32), (''synx_state'', Scalar C_u32)]"

definition struct_synx_merge :: ctype where
  "struct_synx_merge = Struct False [
    (''synx_objs'', Scalar C_u64), (''num_objs'', Scalar C_u32), (''merged'', Scalar C_s32)]"

definition struct_synx_wait :: ctype where
  "struct_synx_wait = Struct False [
    (''synx_obj'', Scalar C_s32), (''reserved'', Scalar C_u32), (''timeout_ms'', Scalar C_u64)]"

definition struct_synx_external_desc :: ctype where
  "struct_synx_external_desc = Struct False [
    (''type'', Scalar C_u32), (''reserved'', Scalar C_u32), (''id'', Array (Scalar C_s32) 2)]"

definition struct_synx_bind :: ctype where
  "struct_synx_bind = Struct False [
    (''synx_obj'', Scalar C_s32), (''reserved'', Scalar C_u32),
    (''ext_sync_desc'', struct_synx_external_desc)]"

definition struct_synx_addrefcount :: ctype where
  "struct_synx_addrefcount = Struct False [
    (''synx_obj'', Scalar C_s32), (''count'', Scalar C_u32)]"

definition struct_synx_id_info :: ctype where
  "struct_synx_id_info = Struct False [
    (''synx_obj'', Scalar C_s32), (''secure_key'', Scalar C_u32), (''new_synx_obj'', Scalar C_s32),
    (''padding'', Scalar C_u32)]"

definition struct_synx_fence_desc :: ctype where
  "struct_synx_fence_desc = Struct False [
    (''type'', Scalar C_u32), (''reserved'', Scalar C_u32), (''id'', Array (Scalar C_s32) 2)]"

definition struct_synx_create_v2 :: ctype where
  "struct_synx_create_v2 = Struct False [
    (''name'', Array (Scalar C_char) 64), (''synx_obj'', Scalar C_u32), (''flags'', Scalar C_u32),
    (''desc'', struct_synx_fence_desc)]"

definition struct_synx_userpayload_info_v2 :: ctype where
  "struct_synx_userpayload_info_v2 = Struct False [
    (''synx_obj'', Scalar C_u32), (''reserved'', Scalar C_u32),
    (''payload'', Array (Scalar C_u64) 4)]"

definition struct_synx_signal_v2 :: ctype where
  "struct_synx_signal_v2 = Struct False [
    (''synx_obj'', Scalar C_u32), (''synx_state'', Scalar C_u32), (''reserved'', Scalar C_u64)]"

definition struct_synx_merge_v2 :: ctype where
  "struct_synx_merge_v2 = Struct False [
    (''synx_objs'', Scalar C_u64), (''num_objs'', Scalar C_u32), (''merged'', Scalar C_u32),
    (''flags'', Scalar C_u32), (''reserved'', Scalar C_u32)]"

definition struct_synx_wait_v2 :: ctype where
  "struct_synx_wait_v2 = Struct False [
    (''synx_obj'', Scalar C_u32), (''reserved'', Scalar C_u32), (''timeout_ms'', Scalar C_u64)]"

definition struct_synx_external_desc_v2 :: ctype where
  "struct_synx_external_desc_v2 = Struct False [
    (''id'', Scalar C_u64), (''type'', Scalar C_u32), (''reserved'', Scalar C_u32)]"

definition struct_synx_bind_v2 :: ctype where
  "struct_synx_bind_v2 = Struct False [
    (''synx_obj'', Scalar C_u32), (''reserved'', Scalar C_u32),
    (''ext_sync_desc'', struct_synx_external_desc_v2)]"

definition struct_synx_import_info :: ctype where
  "struct_synx_import_info = Struct False [
    (''synx_obj'', Scalar C_u32), (''flags'', Scalar C_u32), (''new_synx_obj'', Scalar C_u32),
    (''reserved'', Scalar C_u32), (''desc'', struct_synx_fence_desc)]"

definition struct_synx_import_arr_info :: ctype where
  "struct_synx_import_arr_info = Struct False [
    (''list'', Scalar C_u64), (''num_objs'', Scalar C_u32)]"

definition struct_synx_fence_fd :: ctype where
  "struct_synx_fence_fd = Struct False [
    (''synx_obj'', Scalar C_u32), (''fd'', Scalar C_s32)]"

definition struct_synx_private_ioctl_arg :: ctype where
  "struct_synx_private_ioctl_arg = Struct False [
    (''id'', Scalar C_u32), (''size'', Scalar C_u32), (''result'', Scalar C_u32),
    (''reserved'', Scalar C_u32), (''ioctl_ptr'', Scalar C_u64)]"

definition synx_ioctls :: "ioctl list" where
  "synx_ioctls =
    [IOWR ''SYNX_PRIVATE_IOCTL_CMD'' 0x73 0x82 struct_synx_private_ioctl_arg]"

section \<open>The interface of \<^verbatim>\<open>src/include/linux/gh_virtio_backend.h\<close>\<close>

definition struct_virtio_ack_reset :: ctype where
  "struct_virtio_ack_reset = Struct False [
    (''label'', Scalar C_u32), (''reserved'', Scalar C_u32)]"

definition struct_virtio_driver_features :: ctype where
  "struct_virtio_driver_features = Struct False [
    (''label'', Scalar C_u32), (''reserved'', Scalar C_u32), (''features_sel'', Scalar C_u32),
    (''features'', Scalar C_u32)]"

definition struct_virtio_queue_info :: ctype where
  "struct_virtio_queue_info = Struct False [
    (''label'', Scalar C_u32), (''queue_sel'', Scalar C_u32), (''queue_num'', Scalar C_u32),
    (''queue_ready'', Scalar C_u32), (''queue_desc'', Scalar C_u64),
    (''queue_driver'', Scalar C_u64), (''queue_device'', Scalar C_u64)]"

definition struct_virtio_config_data :: ctype where
  "struct_virtio_config_data = Struct False [
    (''label'', Scalar C_u32), (''config_size'', Scalar C_u32), (''config_data'', Scalar C_u64)]"

definition struct_virtio_dev_features :: ctype where
  "struct_virtio_dev_features = Struct False [
    (''label'', Scalar C_u32), (''reserved'', Scalar C_u32), (''features_sel'', Scalar C_u32),
    (''features'', Scalar C_u32)]"

definition struct_virtio_queue_max :: ctype where
  "struct_virtio_queue_max = Struct False [
    (''label'', Scalar C_u32), (''reserved'', Scalar C_u32), (''queue_sel'', Scalar C_u32),
    (''queue_num_max'', Scalar C_u32)]"

definition struct_virtio_event :: ctype where
  "struct_virtio_event = Struct False [
    (''label'', Scalar C_u32), (''event'', Scalar C_u32), (''event_data'', Scalar C_u32),
    (''reserved'', Scalar C_u32)]"

definition struct_virtio_eventfd :: ctype where
  "struct_virtio_eventfd = Struct False [
    (''label'', Scalar C_u32), (''flags'', Scalar C_u32), (''queue_num'', Scalar C_u32),
    (''fd'', Scalar C_s32)]"

definition struct_virtio_irqfd :: ctype where
  "struct_virtio_irqfd = Struct False [
    (''label'', Scalar C_u32), (''flags'', Scalar C_u32), (''fd'', Scalar C_s32),
    (''reserved'', Scalar C_u32)]"

definition GH_GET_SHARED_MEMORY_SIZE :: ioctl where
  "GH_GET_SHARED_MEMORY_SIZE = IOR ''GH_GET_SHARED_MEMORY_SIZE'' 0xbc 0x1 (Scalar C_u64)"

definition GH_IOEVENTFD :: ioctl where
  "GH_IOEVENTFD = IOW ''GH_IOEVENTFD'' 0xbc 0x2 struct_virtio_eventfd"

definition gh_virtio_backend_requests_1 :: "ioctl list" where
  "gh_virtio_backend_requests_1 =
    [IOW ''GH_IRQFD'' 0xbc 0x3 struct_virtio_irqfd,
     IOWR ''GH_WAIT_FOR_EVENT'' 0xbc 0x4 struct_virtio_event,
     IOW ''GH_SET_DEVICE_FEATURES'' 0xbc 0x5 struct_virtio_dev_features,
     IOW ''GH_SET_QUEUE_NUM_MAX'' 0xbc 0x6 struct_virtio_queue_max,
     IOW ''GH_SET_DEVICE_CONFIG_DATA'' 0xbc 0x7 struct_virtio_config_data,
     IOWR ''GH_GET_DRIVER_CONFIG_DATA'' 0xbc 0x8 struct_virtio_config_data,
     IOWR ''GH_GET_QUEUE_INFO'' 0xbc 0x9 struct_virtio_queue_info,
     IOWR ''GH_GET_DRIVER_FEATURES'' 0xbc 0xa struct_virtio_driver_features,
     IOWR ''GH_ACK_DRIVER_OK'' 0xbc 0xb (Scalar C_u32),
     IO ''GH_SET_APP_READY'' 0xbc 0xc,
     IOW ''GH_ACK_RESET'' 0xbc 0xd struct_virtio_ack_reset]"

definition gh_virtio_backend_ioctls :: "ioctl list" where
  "gh_virtio_backend_ioctls =
    [GH_GET_SHARED_MEMORY_SIZE, GH_IOEVENTFD] @ gh_virtio_backend_requests_1"

section \<open>The interface of \<^verbatim>\<open>src/include/linux/gunyah/gh_vm.h\<close>\<close>

definition struct_gh_vm_api_version :: ctype where
  "struct_gh_vm_api_version = Struct False [
    (''major'', Scalar C_uint), (''minor'', Scalar C_uint)]"

definition struct_gh_vm_create :: ctype where
  "struct_gh_vm_create = Struct False [
    (''type'', Scalar C_u32), (''name'', Array (Scalar C_char) 16)]"

definition struct_gh_vm_sec_exit_status :: ctype where
  "struct_gh_vm_sec_exit_status = Struct False [
    (''reason'', Scalar C_u32)]"

definition GH_VM_GET_API_VERSION :: ioctl where
  "GH_VM_GET_API_VERSION = IOR ''GH_VM_GET_API_VERSION'' 0x67 0x1 struct_gh_vm_api_version"

definition gh_vm_requests_1 :: "ioctl list" where
  "gh_vm_requests_1 =
    [IOW ''GH_VM_CREATE'' 0x67 0x2 struct_gh_vm_create,
     IO ''GH_VM_SEC_START'' 0x67 0x3]"

definition GH_VM_SEC_STOP :: ioctl where
  "GH_VM_SEC_STOP = IOW ''GH_VM_SEC_STOP'' 0x67 0x4 (Scalar C_u32)"

definition GH_VM_SEC_WAIT_FOR_EXIT :: ioctl where
  "GH_VM_SEC_WAIT_FOR_EXIT = IOR ''GH_VM_SEC_WAIT_FOR_EXIT'' 0x67 0x5 struct_gh_vm_sec_exit_status"

definition GH_VM_SEC_SET_RESTART_LEVEL :: ioctl where
  "GH_VM_SEC_SET_RESTART_LEVEL = IOW ''GH_VM_SEC_SET_RESTART_LEVEL'' 0x67 0x6 (Scalar C_u32)"

definition gh_vm_ioctls :: "ioctl list" where
  "gh_vm_ioctls =
    [GH_VM_GET_API_VERSION] @ gh_vm_requests_1 @ [GH_VM_SEC_STOP, GH_VM_SEC_WAIT_FOR_EXIT,
    GH_VM_SEC_SET_RESTART_LEVEL]"

section \<open>The interface of \<^verbatim>\<open>src/include/linux/mhi.h\<close>\<close>

definition struct_peripheral_ep_info :: ctype where
  "struct_peripheral_ep_info = Struct False [
    (''ep_type'', Scalar C_enum), (''peripheral_iface_id'', Scalar C_u32)]"

definition struct_ipa_ep_pair :: ctype where
  "struct_ipa_ep_pair = Struct False [
    (''cons_pipe_num'', Scalar C_u32), (''prod_pipe_num'', Scalar C_u32)]"

definition struct_ep_info :: ctype where
  "struct_ep_info = Struct False [
    (''ph_ep_info'', struct_peripheral_ep_info), (''ipa_ep_pair'', struct_ipa_ep_pair)]"

definition mhi_ioctls :: "ioctl list" where
  "mhi_ioctls =
    [IOR ''MHI_UCI_EP_LOOKUP'' 0x6d 0x2 struct_ep_info,
     IOR ''MHI_UCI_DPL_EP_LOOKUP'' 0x6d 0x3 struct_ep_info,
     IOR ''MHI_UCI_CV2X_EP_LOOKUP'' 0x6d 0x4 struct_ep_info]"

section \<open>The interface of \<^verbatim>\<open>src/include/linux/esoc_ctrl.h\<close>\<close>

definition struct_esoc_link_data :: ctype where
  "struct_esoc_link_data = Struct False [
    (''prio'', Scalar C_enum), (''link_id'', Scalar C_u64)]"

definition esoc_ctrl_ioctls :: "ioctl list" where
  "esoc_ctrl_ioctls =
    [IOW ''ESOC_CMD_EXE'' 0xcc 0x1 (Scalar C_uint),
     IOR ''ESOC_WAIT_FOR_REQ'' 0xcc 0x2 (Scalar C_uint),
     IOW ''ESOC_NOTIFY'' 0xcc 0x3 (Scalar C_uint),
     IOR ''ESOC_GET_STATUS'' 0xcc 0x4 (Scalar C_uint),
     IOR ''ESOC_GET_ERR_FATAL'' 0xcc 0x5 (Scalar C_uint),
     IOR ''ESOC_WAIT_FOR_CRASH'' 0xcc 0x6 (Scalar C_uint),
     IO ''ESOC_REG_REQ_ENG'' 0xcc 0x7,
     IO ''ESOC_REG_CMD_ENG'' 0xcc 0x8,
     IOWR ''ESOC_GET_LINK_ID'' 0xcc 0x9 struct_esoc_link_data,
     IOW ''ESOC_SET_BOOT_FAIL_ACT'' 0xcc 0xa (Scalar C_uint),
     IOW ''ESOC_SET_N_PON_TRIES'' 0xcc 0xb (Scalar C_uint)]"

section \<open>The interface of \<^verbatim>\<open>src/include/linux/helioscom_interface.h\<close>\<close>

definition struct_helios_ui_data :: ctype where
  "struct_helios_ui_data = Struct False [
    (''write'', Scalar C_u64), (''result'', Scalar C_u64), (''helios_address'', Scalar C_u32),
    (''cmd'', Scalar C_u32), (''num_of_words'', Scalar C_u32), (''buffer'', Scalar C_ptr)]"

definition helioscom_interface_ioctls :: "ioctl list" where
  "helioscom_interface_ioctls =
    [IOWR ''REG_READ'' 0x56 0x0 struct_helios_ui_data,
     IOWR ''AHB_READ'' 0x56 0x1 struct_helios_ui_data,
     IOW ''AHB_WRITE'' 0x56 0x2 struct_helios_ui_data,
     IOR ''SET_SPI_FREE'' 0x56 0x3 struct_helios_ui_data,
     IOR ''SET_SPI_BUSY'' 0x56 0x4 struct_helios_ui_data,
     IOWR ''REG_WRITE'' 0x56 0x5 struct_helios_ui_data,
     IOWR ''HELIOS_SOFT_RESET'' 0x56 0x6 struct_helios_ui_data,
     IOWR ''HELIOS_TWM_EXIT'' 0x56 0x8 struct_helios_ui_data,
     IOWR ''HELIOS_APP_RUNNING'' 0x56 0x9 struct_helios_ui_data,
     IOWR ''HELIOS_MODEM_DOWN2_HELIOS_DONE'' 0x56 0x7 struct_helios_ui_data,
     IOWR ''HELIOS_LOAD'' 0x56 0xb struct_helios_ui_data,
     IOWR ''HELIOS_UNLOAD'' 0x56 0xc struct_helios_ui_data,
     IOWR ''HELIOS_ADSP_DOWN2_HELIOS_DONE'' 0x56 0xa struct_helios_ui_data,
     IOWR ''DEVICE_STATE_TRANSITION'' 0x56 0xd struct_helios_ui_data,
     IOWR ''SEND_TIME_DATA'' 0x56 0xe struct_helios_ui_data]"

section \<open>The interface of \<^verbatim>\<open>src/include/linux/usb/usb_ctrl_qti.h\<close>\<close>

definition usb_struct_peripheral_ep_info :: ctype where
  "usb_struct_peripheral_ep_info = Struct False [
    (''ep_type'', Scalar C_enum), (''peripheral_iface_id'', Scalar C_u32)]"

definition usb_struct_ipa_ep_pair :: ctype where
  "usb_struct_ipa_ep_pair = Struct False [
    (''cons_pipe_num'', Scalar C_u32), (''prod_pipe_num'', Scalar C_u32)]"

definition usb_struct_ep_info :: ctype where
  "usb_struct_ep_info = Struct False [
    (''ph_ep_info'', usb_struct_peripheral_ep_info), (''ipa_ep_pair'', usb_struct_ipa_ep_pair)]"

definition usb_struct_data_buf_info :: ctype where
  "usb_struct_data_buf_info = Struct False [
    (''epout_buf_len'', Scalar C_u32), (''epout_total_buf_len'', Scalar C_u32),
    (''epin_buf_len'', Scalar C_u32), (''epin_total_buf_len'', Scalar C_u32)]"

definition usb_ctrl_qti_ioctls :: "ioctl list" where
  "usb_ctrl_qti_ioctls =
    [IOR ''QTI_CTRL_GET_LINE_STATE'' 0x72 0x2 (Scalar C_int),
     IOR ''QTI_CTRL_EP_LOOKUP'' 0x72 0x3 usb_struct_ep_info,
     IO ''QTI_CTRL_MODEM_OFFLINE'' 0x72 0x4,
     IO ''QTI_CTRL_MODEM_ONLINE'' 0x72 0x5,
     IOR ''QTI_CTRL_DATA_BUF_INFO'' 0x72 0x6 usb_struct_data_buf_info,
     IOR ''GSI_MBIM_GET_NTB_SIZE'' 0x6f 0x2 (Scalar C_u32),
     IOR ''GSI_MBIM_GET_DATAGRAM_COUNT'' 0x6f 0x3 (Scalar C_u16),
     IOR ''GSI_MBIM_EP_LOOKUP'' 0x6f 0x4 usb_struct_ep_info,
     IOR ''GSI_MBIM_GPS_USB_STATUS'' 0x6f 0x5 (Scalar C_int)]"

section \<open>The interface of \<^verbatim>\<open>src/include/linux/qg-profile.h\<close>\<close>

definition struct_battery_params :: ctype where
  "struct_battery_params = Struct False [
    (''soc'', Scalar C_int), (''ocv_uv'', Scalar C_int), (''fcc_mah'', Scalar C_int),
    (''slope'', Scalar C_int), (''var'', Scalar C_int), (''batt_temp'', Scalar C_int),
    (''table_index'', Scalar C_int)]"

definition qg_profile_ioctls :: "ioctl list" where
  "qg_profile_ioctls =
    [IOWR ''BPIOCXSOC'' 0x42 0x1 struct_battery_params,
     IOWR ''BPIOCXOCV'' 0x42 0x2 struct_battery_params,
     IOWR ''BPIOCXFCC'' 0x42 0x3 struct_battery_params,
     IOWR ''BPIOCXSLOPE'' 0x42 0x4 struct_battery_params,
     IOWR ''BPIOCXVAR'' 0x42 0x5 struct_battery_params]"

section \<open>The interface of \<^verbatim>\<open>src/include/misc/wigig_sensing_uapi.h\<close>\<close>

definition struct_wigig_sensing_change_mode :: ctype where
  "struct_wigig_sensing_change_mode = Struct False [
    (''mode'', Scalar C_enum), (''has_channel'', Scalar C_bool), (''channel'', Scalar C_u32),
    (''burst_size'', Scalar C_u32)]"

text \<open>Where the header passes \<^verbatim>\<open>sizeof (t)\<close> for the type, the argument has the type of that number.\<close>

definition WIGIG_SENSING_IOC_SET_AUTO_RECOVERY :: ioctl where
  "WIGIG_SENSING_IOC_SET_AUTO_RECOVERY = IO ''WIGIG_SENSING_IOC_SET_AUTO_RECOVERY'' 0x72 0x0"

definition WIGIG_SENSING_IOC_GET_MODE :: ioctl where
  "WIGIG_SENSING_IOC_GET_MODE = IOR ''WIGIG_SENSING_IOC_GET_MODE'' 0x72 0x1 (Scalar C_size_t)"

definition WIGIG_SENSING_IOC_CHANGE_MODE :: ioctl where
  "WIGIG_SENSING_IOC_CHANGE_MODE = IOWR ''WIGIG_SENSING_IOC_CHANGE_MODE'' 0x72 0x2 (Scalar C_size_t)"

definition WIGIG_SENSING_IOC_CLEAR_DATA :: ioctl where
  "WIGIG_SENSING_IOC_CLEAR_DATA = IO ''WIGIG_SENSING_IOC_CLEAR_DATA'' 0x72 0x3"

definition WIGIG_SENSING_IOC_GET_NUM_DROPPED_BURSTS :: ioctl where
  "WIGIG_SENSING_IOC_GET_NUM_DROPPED_BURSTS = IOR ''WIGIG_SENSING_IOC_GET_NUM_DROPPED_BURSTS'' 0x72 0x4 (Scalar C_u32)"

definition WIGIG_SENSING_IOC_GET_EVENT :: ioctl where
  "WIGIG_SENSING_IOC_GET_EVENT = IOR ''WIGIG_SENSING_IOC_GET_EVENT'' 0x72 0x5 (Scalar C_size_t)"

definition WIGIG_SENSING_IOC_GET_NUM_AVAIL_BURSTS :: ioctl where
  "WIGIG_SENSING_IOC_GET_NUM_AVAIL_BURSTS = IOR ''WIGIG_SENSING_IOC_GET_NUM_AVAIL_BURSTS'' 0x72 0x6 (Scalar C_size_t)"

definition wigig_ioctls :: "ioctl list" where
  "wigig_ioctls =
    [WIGIG_SENSING_IOC_SET_AUTO_RECOVERY, WIGIG_SENSING_IOC_GET_MODE, WIGIG_SENSING_IOC_CHANGE_MODE,
    WIGIG_SENSING_IOC_CLEAR_DATA, WIGIG_SENSING_IOC_GET_NUM_DROPPED_BURSTS,
    WIGIG_SENSING_IOC_GET_EVENT, WIGIG_SENSING_IOC_GET_NUM_AVAIL_BURSTS]"

section \<open>The interface of \<^verbatim>\<open>src/include/misc/adsp_sleepmon.h\<close>\<close>

definition struct_adspsleepmon_ioctl_audio :: ctype where
  "struct_adspsleepmon_ioctl_audio = Struct False [
    (''version'', Scalar C_u32), (''command'', Scalar C_u32),
    (''reserved'', Array (Scalar C_u32) 3)]"

definition struct_adspsleepmon_ioctl_panic :: ctype where
  "struct_adspsleepmon_ioctl_panic = Struct False [
    (''version'', Scalar C_u32), (''command'', Scalar C_u32)]"

definition adsp_sleepmon_ioctls :: "ioctl list" where
  "adsp_sleepmon_ioctls =
    [IOWR ''ADSPSLEEPMON_IOCTL_AUDIO_ACTIVITY'' 0x52 0x1 struct_adspsleepmon_ioctl_audio,
     IOWR ''ADSPSLEEPMON_IOCTL_CONFIGURE_PANIC'' 0x52 0x2 struct_adspsleepmon_ioctl_panic]"

section \<open>The tables satisfy their contracts\<close>

interpretation mem_buf: request_table mem_buf_ioctls
  by (rule request_tableI) code_simp+

interpretation ion: ioctl_table ion_ioctls
  by (rule ioctl_tableI) code_simp+

interpretation msm_ion: ioctl_table msm_ion_ioctls
  by (rule ioctl_tableI) code_simp+

interpretation synx: ioctl_table synx_ioctls
  by (rule ioctl_tableI) code_simp+

interpretation gh_virtio_backend: ioctl_table gh_virtio_backend_ioctls
  by (rule ioctl_tableI) code_simp+

interpretation gh_vm: ioctl_table gh_vm_ioctls
  by (rule ioctl_tableI) code_simp+

interpretation mhi: ioctl_table mhi_ioctls
  by (rule ioctl_tableI) code_simp+

interpretation esoc_ctrl: ioctl_table esoc_ctrl_ioctls
  by (rule ioctl_tableI) code_simp+

interpretation helioscom_interface: ioctl_table helioscom_interface_ioctls
  by (rule ioctl_tableI) code_simp+

interpretation usb_ctrl_qti: ioctl_table usb_ctrl_qti_ioctls
  by (rule ioctl_tableI) code_simp+

interpretation qg_profile: ioctl_table qg_profile_ioctls
  by (rule ioctl_tableI) code_simp+

interpretation wigig: ioctl_table wigig_ioctls
  by (rule ioctl_tableI) code_simp+

interpretation adsp_sleepmon: ioctl_table adsp_sleepmon_ioctls
  by (rule ioctl_tableI) code_simp+

end
