(* ===== verification/Audio_Calibration.thy ===== *)
theory Audio_Calibration
  imports C_Layout
begin

text \<open>
  The messages of the audio calibration ioctls, \<^verbatim>\<open>src/include/linux/msm_audio_calibration.h\<close>. The
  ioctls themselves pass a pointer (theory \<open>Audio_Ioctl\<close>); what it points to starts with a header
  that says which calibration follows. The header defines \<^verbatim>\<open>MSM_CMA_MEM_ALLOC\<close>,
  \<^verbatim>\<open>MSM_SPKR_PROT_SPV3\<close> and \<^verbatim>\<open>TOPOLOGY_SPECIFIC_CHANNEL_INFO\<close> itself, so the fields they guard are
  present.
\<close>

section \<open>Calibration types\<close>

definition cal_types :: "(string \<times> nat) list" where
  "cal_types = enum_run 0
    [''CVP_VOC_RX_TOPOLOGY_CAL_TYPE'', ''CVP_VOC_TX_TOPOLOGY_CAL_TYPE'',
    ''CVP_VOCPROC_STATIC_CAL_TYPE'', ''CVP_VOCPROC_DYNAMIC_CAL_TYPE'',
    ''CVS_VOCSTRM_STATIC_CAL_TYPE'', ''CVP_VOCDEV_CFG_CAL_TYPE'',
    ''CVP_VOCPROC_STATIC_COL_CAL_TYPE'', ''CVP_VOCPROC_DYNAMIC_COL_CAL_TYPE'',
    ''CVS_VOCSTRM_STATIC_COL_CAL_TYPE'', ''ADM_TOPOLOGY_CAL_TYPE'', ''ADM_CUST_TOPOLOGY_CAL_TYPE'',
    ''ADM_AUDPROC_CAL_TYPE'', ''ADM_AUDVOL_CAL_TYPE'', ''ASM_TOPOLOGY_CAL_TYPE'',
    ''ASM_CUST_TOPOLOGY_CAL_TYPE'', ''ASM_AUDSTRM_CAL_TYPE'', ''AFE_COMMON_RX_CAL_TYPE'',
    ''AFE_COMMON_TX_CAL_TYPE'', ''AFE_ANC_CAL_TYPE'', ''AFE_AANC_CAL_TYPE'',
    ''AFE_FB_SPKR_PROT_CAL_TYPE'', ''AFE_HW_DELAY_CAL_TYPE'', ''AFE_SIDETONE_CAL_TYPE'',
    ''AFE_TOPOLOGY_CAL_TYPE'', ''AFE_CUST_TOPOLOGY_CAL_TYPE'', ''LSM_CUST_TOPOLOGY_CAL_TYPE'',
    ''LSM_TOPOLOGY_CAL_TYPE'', ''LSM_CAL_TYPE'', ''ADM_RTAC_INFO_CAL_TYPE'',
    ''VOICE_RTAC_INFO_CAL_TYPE'', ''ADM_RTAC_APR_CAL_TYPE'', ''ASM_RTAC_APR_CAL_TYPE'',
    ''VOICE_RTAC_APR_CAL_TYPE'', ''MAD_CAL_TYPE'', ''ULP_AFE_CAL_TYPE'', ''ULP_LSM_CAL_TYPE'',
    ''DTS_EAGLE_CAL_TYPE'', ''AUDIO_CORE_METAINFO_CAL_TYPE'', ''SRS_TRUMEDIA_CAL_TYPE'',
    ''CORE_CUSTOM_TOPOLOGIES_CAL_TYPE'', ''ADM_RTAC_AUDVOL_CAL_TYPE'',
    ''ULP_LSM_TOPOLOGY_ID_CAL_TYPE'', ''AFE_FB_SPKR_PROT_TH_VI_CAL_TYPE'',
    ''AFE_FB_SPKR_PROT_EX_VI_CAL_TYPE'', ''AFE_SIDETONE_IIR_CAL_TYPE'',
    ''AFE_LSM_TOPOLOGY_CAL_TYPE'', ''AFE_LSM_TX_CAL_TYPE'', ''ADM_LSM_TOPOLOGY_CAL_TYPE'',
    ''ADM_LSM_AUDPROC_CAL_TYPE'', ''ADM_LSM_AUDPROC_PERSISTENT_CAL_TYPE'',
    ''ADM_AUDPROC_PERSISTENT_CAL_TYPE'', ''AFE_FB_SPKR_PROT_V4_EX_VI_CAL_TYPE'', ''MAX_CAL_TYPES'']"

definition VERSION_0_0 :: nat where "VERSION_0_0 = 0"

definition PER_VOCODER_CAL_BIT_MASK :: nat where "PER_VOCODER_CAL_BIT_MASK = 0x10000"

definition rx_device_numbers :: "(string \<times> nat) list" where
  "rx_device_numbers =
    [(''RX_DEVICE'', 0), (''TX_DEVICE'', 1), (''MAX_PATH_TYPE'', 2)]"

definition default_feature_set_numbers :: "(string \<times> nat) list" where
  "default_feature_set_numbers =
    [(''DEFAULT_FEATURE_SET'', 0), (''VOL_BOOST_FEATURE_SET'', 1)]"

datatype msm_spkr_prot_states =
    MSM_SPKR_PROT_CALIBRATED | MSM_SPKR_PROT_CALIBRATION_IN_PROGRESS | MSM_SPKR_PROT_DISABLED |
    MSM_SPKR_PROT_NOT_CALIBRATED | MSM_SPKR_PROT_PRE_CALIBRATED | MSM_SPKR_PROT_IN_FTM_MODE |
    MSM_SPKR_PROT_IN_V_VALI_MODE

fun msm_spkr_prot_states_code :: "msm_spkr_prot_states \<Rightarrow> u32" where
  "msm_spkr_prot_states_code MSM_SPKR_PROT_CALIBRATED = 0"
| "msm_spkr_prot_states_code MSM_SPKR_PROT_CALIBRATION_IN_PROGRESS = 1"
| "msm_spkr_prot_states_code MSM_SPKR_PROT_DISABLED = 2"
| "msm_spkr_prot_states_code MSM_SPKR_PROT_NOT_CALIBRATED = 3"
| "msm_spkr_prot_states_code MSM_SPKR_PROT_PRE_CALIBRATED = 4"
| "msm_spkr_prot_states_code MSM_SPKR_PROT_IN_FTM_MODE = 5"
| "msm_spkr_prot_states_code MSM_SPKR_PROT_IN_V_VALI_MODE = 6"

datatype msm_spkr_count =
    SP_V2_SPKR_1 | SP_V2_SPKR_2 | SP_V2_NUM_MAX_SPKRS

fun msm_spkr_count_code :: "msm_spkr_count \<Rightarrow> u32" where
  "msm_spkr_count_code SP_V2_SPKR_1 = 0"
| "msm_spkr_count_code SP_V2_SPKR_2 = 1"
| "msm_spkr_count_code SP_V2_NUM_MAX_SPKRS = 2"

definition MAX_IOCTL_CMD_SIZE :: nat where "MAX_IOCTL_CMD_SIZE = 512"
definition MAX_HW_DELAY_ENTRIES :: nat where "MAX_HW_DELAY_ENTRIES = 25"
definition max_sidetone_iir_data_size_numbers :: "(string \<times> nat) list" where
  "max_sidetone_iir_data_size_numbers =
    [(''MAX_SIDETONE_IIR_DATA_SIZE'', 224), (''MAX_NO_IIR_FILTER_STAGE'', 10)]"

definition VSS_NUM_CHANNELS_MAX :: nat where "VSS_NUM_CHANNELS_MAX = 32"
definition MAX_VOICE_COLUMNS :: nat where "MAX_VOICE_COLUMNS = 20"

section \<open>Messages\<close>

definition struct_audio_cal_header :: ctype where
  "struct_audio_cal_header = Struct False [
    (''data_size'', Scalar C_s32), (''version'', Scalar C_s32), (''cal_type'', Scalar C_s32),
    (''cal_type_size'', Scalar C_s32)]"

definition struct_audio_cal_type_header :: ctype where
  "struct_audio_cal_type_header = Struct False [
    (''version'', Scalar C_s32), (''buffer_number'', Scalar C_s32)]"

definition struct_audio_cal_data :: ctype where
  "struct_audio_cal_data = Struct False [
    (''cal_size'', Scalar C_s32), (''mem_handle'', Scalar C_s32), (''cma_mem'', Scalar C_u32)]"

definition struct_audio_cal_type_alloc :: ctype where
  "struct_audio_cal_type_alloc = Struct False [
    (''cal_hdr'', struct_audio_cal_type_header), (''cal_data'', struct_audio_cal_data)]"

definition struct_audio_cal_alloc :: ctype where
  "struct_audio_cal_alloc = Struct False [
    (''hdr'', struct_audio_cal_header), (''cal_type'', struct_audio_cal_type_alloc)]"

definition struct_audio_cal_type_dealloc :: ctype where
  "struct_audio_cal_type_dealloc = Struct False [
    (''cal_hdr'', struct_audio_cal_type_header), (''cal_data'', struct_audio_cal_data)]"

definition struct_audio_cal_dealloc :: ctype where
  "struct_audio_cal_dealloc = Struct False [
    (''hdr'', struct_audio_cal_header), (''cal_type'', struct_audio_cal_type_dealloc)]"

definition struct_audio_cal_type_prepare :: ctype where
  "struct_audio_cal_type_prepare = Struct False [
    (''cal_hdr'', struct_audio_cal_type_header), (''cal_data'', struct_audio_cal_data)]"

definition struct_audio_cal_prepare :: ctype where
  "struct_audio_cal_prepare = Struct False [
    (''hdr'', struct_audio_cal_header), (''cal_type'', struct_audio_cal_type_prepare)]"

definition struct_audio_cal_type_post :: ctype where
  "struct_audio_cal_type_post = Struct False [
    (''cal_hdr'', struct_audio_cal_type_header), (''cal_data'', struct_audio_cal_data)]"

definition struct_audio_cal_post :: ctype where
  "struct_audio_cal_post = Struct False [
    (''hdr'', struct_audio_cal_header), (''cal_type'', struct_audio_cal_type_post)]"

definition struct_audio_cal_info_metainfo :: ctype where
  "struct_audio_cal_info_metainfo = Struct False [
    (''nKey'', Scalar C_u32)]"

definition struct_audio_cal_info_adm_top :: ctype where
  "struct_audio_cal_info_adm_top = Struct False [
    (''topology'', Scalar C_s32), (''acdb_id'', Scalar C_s32), (''path'', Scalar C_s32),
    (''app_type'', Scalar C_s32), (''sample_rate'', Scalar C_s32)]"

definition struct_audio_cal_info_audproc :: ctype where
  "struct_audio_cal_info_audproc = Struct False [
    (''acdb_id'', Scalar C_s32), (''path'', Scalar C_s32), (''app_type'', Scalar C_s32),
    (''sample_rate'', Scalar C_s32)]"

definition struct_audio_cal_info_audvol :: ctype where
  "struct_audio_cal_info_audvol = Struct False [
    (''acdb_id'', Scalar C_s32), (''path'', Scalar C_s32), (''app_type'', Scalar C_s32),
    (''vol_index'', Scalar C_s32)]"

definition struct_audio_cal_info_afe :: ctype where
  "struct_audio_cal_info_afe = Struct False [
    (''acdb_id'', Scalar C_s32), (''path'', Scalar C_s32), (''sample_rate'', Scalar C_s32)]"

definition struct_audio_cal_info_afe_top :: ctype where
  "struct_audio_cal_info_afe_top = Struct False [
    (''topology'', Scalar C_s32), (''acdb_id'', Scalar C_s32), (''path'', Scalar C_s32),
    (''sample_rate'', Scalar C_s32)]"

definition struct_audio_cal_info_asm_top :: ctype where
  "struct_audio_cal_info_asm_top = Struct False [
    (''topology'', Scalar C_s32), (''app_type'', Scalar C_s32)]"

definition struct_audio_cal_info_audstrm :: ctype where
  "struct_audio_cal_info_audstrm = Struct False [
    (''app_type'', Scalar C_s32)]"

definition struct_audio_cal_info_aanc :: ctype where
  "struct_audio_cal_info_aanc = Struct False [
    (''acdb_id'', Scalar C_s32)]"

definition struct_audio_cal_hw_delay_entry :: ctype where
  "struct_audio_cal_hw_delay_entry = Struct False [
    (''sample_rate'', Scalar C_u32), (''delay_usec'', Scalar C_u32)]"

definition struct_audio_cal_hw_delay_data :: ctype where
  "struct_audio_cal_hw_delay_data = Struct False [
    (''num_entries'', Scalar C_u32), (''entry'', Array struct_audio_cal_hw_delay_entry 25)]"

definition struct_audio_cal_info_hw_delay :: ctype where
  "struct_audio_cal_info_hw_delay = Struct False [
    (''acdb_id'', Scalar C_s32), (''path'', Scalar C_s32), (''property_type'', Scalar C_s32),
    (''data'', struct_audio_cal_hw_delay_data)]"

definition struct_audio_cal_info_spk_prot_cfg :: ctype where
  "struct_audio_cal_info_spk_prot_cfg = Struct False [
    (''r0'', Array (Scalar C_s32) 2), (''t0'', Array (Scalar C_s32) 2),
    (''quick_calib_flag'', Scalar C_u32), (''mode'', Scalar C_u32), (''sp_version'', Scalar C_u32),
    (''limiter_th'', Array (Scalar C_s32) 2)]"

definition struct_audio_cal_info_sp_th_vi_ftm_cfg :: ctype where
  "struct_audio_cal_info_sp_th_vi_ftm_cfg = Struct False [
    (''mode'', Scalar C_u32), (''wait_time'', Array (Scalar C_u32) 2),
    (''ftm_time'', Array (Scalar C_u32) 2)]"

definition struct_audio_cal_info_sp_th_vi_v_vali_cfg :: ctype where
  "struct_audio_cal_info_sp_th_vi_v_vali_cfg = Struct False [
    (''mode'', Scalar C_u32), (''wait_time'', Array (Scalar C_u32) 2),
    (''vali_time'', Array (Scalar C_u32) 2)]"

definition struct_audio_cal_info_sp_ex_vi_ftm_cfg :: ctype where
  "struct_audio_cal_info_sp_ex_vi_ftm_cfg = Struct False [
    (''wait_time'', Array (Scalar C_u32) 2), (''ftm_time'', Array (Scalar C_u32) 2),
    (''mode'', Scalar C_u32)]"

definition struct_audio_cal_info_sp_ex_vi_param :: ctype where
  "struct_audio_cal_info_sp_ex_vi_param = Struct False [
    (''freq_q20'', Array (Scalar C_s32) 2), (''resis_q24'', Array (Scalar C_s32) 2),
    (''qmct_q24'', Array (Scalar C_s32) 2), (''status'', Array (Scalar C_s32) 2)]"

definition struct_audio_cal_info_sp_v4_ex_vi_param :: ctype where
  "struct_audio_cal_info_sp_v4_ex_vi_param = Struct False [
    (''ftm_re_q24'', Array (Scalar C_s32) 2), (''ftm_Bl_q24'', Array (Scalar C_s32) 2),
    (''ftm_Rms_q24'', Array (Scalar C_s32) 2), (''ftm_Kms_q24'', Array (Scalar C_s32) 2),
    (''ftm_freq_q20'', Array (Scalar C_s32) 2), (''ftm_Qms_q24'', Array (Scalar C_s32) 2),
    (''status'', Array (Scalar C_u32) 2)]"

definition struct_audio_cal_info_sp_th_vi_param :: ctype where
  "struct_audio_cal_info_sp_th_vi_param = Struct False [
    (''mode'', Scalar C_u32), (''r_dc_q24'', Array (Scalar C_s32) 2),
    (''temp_q22'', Array (Scalar C_s32) 2), (''status'', Array (Scalar C_s32) 2)]"

definition struct_audio_cal_info_sp_th_vi_v_vali_param :: ctype where
  "struct_audio_cal_info_sp_th_vi_v_vali_param = Struct False [
    (''mode'', Scalar C_u32), (''vrms_q24'', Array (Scalar C_u32) 2),
    (''status'', Array (Scalar C_s32) 2)]"

definition struct_audio_cal_info_msm_spk_prot_status :: ctype where
  "struct_audio_cal_info_msm_spk_prot_status = Struct False [
    (''r0'', Array (Scalar C_s32) 2), (''status'', Scalar C_s32)]"

definition struct_audio_cal_info_sidetone :: ctype where
  "struct_audio_cal_info_sidetone = Struct False [
    (''enable'', Scalar C_u16), (''gain'', Scalar C_u16), (''tx_acdb_id'', Scalar C_s32),
    (''rx_acdb_id'', Scalar C_s32), (''mid'', Scalar C_s32), (''pid'', Scalar C_s32)]"

definition struct_audio_cal_info_sidetone_iir :: ctype where
  "struct_audio_cal_info_sidetone_iir = Struct False [
    (''iir_enable'', Scalar C_u16), (''num_biquad_stages'', Scalar C_u16),
    (''pregain'', Scalar C_u16), (''tx_acdb_id'', Scalar C_s32), (''rx_acdb_id'', Scalar C_s32),
    (''mid'', Scalar C_s32), (''pid'', Scalar C_s32), (''iir_config'', Array (Scalar C_u8) 224)]"

definition struct_audio_cal_info_lsm_top :: ctype where
  "struct_audio_cal_info_lsm_top = Struct False [
    (''topology'', Scalar C_s32), (''acdb_id'', Scalar C_s32), (''app_type'', Scalar C_s32)]"

definition struct_audio_cal_info_lsm :: ctype where
  "struct_audio_cal_info_lsm = Struct False [
    (''acdb_id'', Scalar C_s32), (''path'', Scalar C_s32), (''app_type'', Scalar C_s32)]"

definition struct_audio_cal_info_voc_top :: ctype where
  "struct_audio_cal_info_voc_top = Struct False [
    (''topology'', Scalar C_s32), (''acdb_id'', Scalar C_s32), (''num_channels'', Scalar C_u32),
    (''channel_mapping'', Array (Scalar C_u8) 32)]"

definition struct_audio_cal_info_vocproc :: ctype where
  "struct_audio_cal_info_vocproc = Struct False [
    (''tx_acdb_id'', Scalar C_s32), (''rx_acdb_id'', Scalar C_s32),
    (''tx_sample_rate'', Scalar C_s32), (''rx_sample_rate'', Scalar C_s32)]"

definition struct_audio_cal_info_vocvol :: ctype where
  "struct_audio_cal_info_vocvol = Struct False [
    (''tx_acdb_id'', Scalar C_s32), (''rx_acdb_id'', Scalar C_s32),
    (''feature_set'', Scalar C_s32)]"

definition struct_audio_cal_info_vocdev_cfg :: ctype where
  "struct_audio_cal_info_vocdev_cfg = Struct False [
    (''tx_acdb_id'', Scalar C_s32), (''rx_acdb_id'', Scalar C_s32)]"

definition struct_audio_cal_col_na :: ctype where
  "struct_audio_cal_col_na = Struct True [('''', Union [
    (''val8'', Scalar C_u8), (''val16'', Scalar C_u16), (''val32'', Scalar C_u32),
    (''val64'', Scalar C_u64)])]"

definition struct_audio_cal_col :: ctype where
  "struct_audio_cal_col = Struct True [
    (''id'', Scalar C_u32), (''type'', Scalar C_u32), (''na_value'', struct_audio_cal_col_na)]"

definition struct_audio_cal_col_data :: ctype where
  "struct_audio_cal_col_data = Struct True [
    (''num_columns'', Scalar C_u32), (''column'', Array struct_audio_cal_col 20)]"

definition struct_audio_cal_info_voc_col :: ctype where
  "struct_audio_cal_info_voc_col = Struct False [
    (''table_id'', Scalar C_s32), (''tx_acdb_id'', Scalar C_s32), (''rx_acdb_id'', Scalar C_s32),
    (''data'', struct_audio_cal_col_data)]"

definition struct_audio_cal_type_basic :: ctype where
  "struct_audio_cal_type_basic = Struct False [
    (''cal_hdr'', struct_audio_cal_type_header), (''cal_data'', struct_audio_cal_data)]"

definition struct_audio_cal_basic :: ctype where
  "struct_audio_cal_basic = Struct False [
    (''hdr'', struct_audio_cal_header), (''cal_type'', struct_audio_cal_type_basic)]"

definition struct_audio_cal_type_adm_top :: ctype where
  "struct_audio_cal_type_adm_top = Struct False [
    (''cal_hdr'', struct_audio_cal_type_header), (''cal_data'', struct_audio_cal_data),
    (''cal_info'', struct_audio_cal_info_adm_top)]"

definition struct_audio_cal_adm_top :: ctype where
  "struct_audio_cal_adm_top = Struct False [
    (''hdr'', struct_audio_cal_header), (''cal_type'', struct_audio_cal_type_adm_top)]"

definition struct_audio_cal_type_metainfo :: ctype where
  "struct_audio_cal_type_metainfo = Struct False [
    (''cal_hdr'', struct_audio_cal_type_header), (''cal_data'', struct_audio_cal_data),
    (''cal_info'', struct_audio_cal_info_metainfo)]"

definition struct_audio_core_metainfo :: ctype where
  "struct_audio_core_metainfo = Struct False [
    (''hdr'', struct_audio_cal_header), (''cal_type'', struct_audio_cal_type_metainfo)]"

definition struct_audio_cal_type_audproc :: ctype where
  "struct_audio_cal_type_audproc = Struct False [
    (''cal_hdr'', struct_audio_cal_type_header), (''cal_data'', struct_audio_cal_data),
    (''cal_info'', struct_audio_cal_info_audproc)]"

definition struct_audio_cal_audproc :: ctype where
  "struct_audio_cal_audproc = Struct False [
    (''hdr'', struct_audio_cal_header), (''cal_type'', struct_audio_cal_type_audproc)]"

definition struct_audio_cal_type_audvol :: ctype where
  "struct_audio_cal_type_audvol = Struct False [
    (''cal_hdr'', struct_audio_cal_type_header), (''cal_data'', struct_audio_cal_data),
    (''cal_info'', struct_audio_cal_info_audvol)]"

definition struct_audio_cal_audvol :: ctype where
  "struct_audio_cal_audvol = Struct False [
    (''hdr'', struct_audio_cal_header), (''cal_type'', struct_audio_cal_type_audvol)]"

definition struct_audio_cal_type_asm_top :: ctype where
  "struct_audio_cal_type_asm_top = Struct False [
    (''cal_hdr'', struct_audio_cal_type_header), (''cal_data'', struct_audio_cal_data),
    (''cal_info'', struct_audio_cal_info_asm_top)]"

definition struct_audio_cal_asm_top :: ctype where
  "struct_audio_cal_asm_top = Struct False [
    (''hdr'', struct_audio_cal_header), (''cal_type'', struct_audio_cal_type_asm_top)]"

definition struct_audio_cal_type_audstrm :: ctype where
  "struct_audio_cal_type_audstrm = Struct False [
    (''cal_hdr'', struct_audio_cal_type_header), (''cal_data'', struct_audio_cal_data),
    (''cal_info'', struct_audio_cal_info_audstrm)]"

definition struct_audio_cal_audstrm :: ctype where
  "struct_audio_cal_audstrm = Struct False [
    (''hdr'', struct_audio_cal_header), (''cal_type'', struct_audio_cal_type_audstrm)]"

definition struct_audio_cal_type_afe :: ctype where
  "struct_audio_cal_type_afe = Struct False [
    (''cal_hdr'', struct_audio_cal_type_header), (''cal_data'', struct_audio_cal_data),
    (''cal_info'', struct_audio_cal_info_afe)]"

definition struct_audio_cal_afe :: ctype where
  "struct_audio_cal_afe = Struct False [
    (''hdr'', struct_audio_cal_header), (''cal_type'', struct_audio_cal_type_afe)]"

definition struct_audio_cal_type_afe_top :: ctype where
  "struct_audio_cal_type_afe_top = Struct False [
    (''cal_hdr'', struct_audio_cal_type_header), (''cal_data'', struct_audio_cal_data),
    (''cal_info'', struct_audio_cal_info_afe_top)]"

definition struct_audio_cal_afe_top :: ctype where
  "struct_audio_cal_afe_top = Struct False [
    (''hdr'', struct_audio_cal_header), (''cal_type'', struct_audio_cal_type_afe_top)]"

definition struct_audio_cal_type_aanc :: ctype where
  "struct_audio_cal_type_aanc = Struct False [
    (''cal_hdr'', struct_audio_cal_type_header), (''cal_data'', struct_audio_cal_data),
    (''cal_info'', struct_audio_cal_info_aanc)]"

definition struct_audio_cal_aanc :: ctype where
  "struct_audio_cal_aanc = Struct False [
    (''hdr'', struct_audio_cal_header), (''cal_type'', struct_audio_cal_type_aanc)]"

definition struct_audio_cal_type_fb_spk_prot_cfg :: ctype where
  "struct_audio_cal_type_fb_spk_prot_cfg = Struct False [
    (''cal_hdr'', struct_audio_cal_type_header), (''cal_data'', struct_audio_cal_data),
    (''cal_info'', struct_audio_cal_info_spk_prot_cfg)]"

definition struct_audio_cal_fb_spk_prot_cfg :: ctype where
  "struct_audio_cal_fb_spk_prot_cfg = Struct False [
    (''hdr'', struct_audio_cal_header), (''cal_type'', struct_audio_cal_type_fb_spk_prot_cfg)]"

definition struct_audio_cal_type_sp_th_vi_ftm_cfg :: ctype where
  "struct_audio_cal_type_sp_th_vi_ftm_cfg = Struct False [
    (''cal_hdr'', struct_audio_cal_type_header), (''cal_data'', struct_audio_cal_data),
    (''cal_info'', struct_audio_cal_info_sp_th_vi_ftm_cfg)]"

definition struct_audio_cal_sp_th_vi_ftm_cfg :: ctype where
  "struct_audio_cal_sp_th_vi_ftm_cfg = Struct False [
    (''hdr'', struct_audio_cal_header), (''cal_type'', struct_audio_cal_type_sp_th_vi_ftm_cfg)]"

definition struct_audio_cal_type_sp_th_vi_v_vali_cfg :: ctype where
  "struct_audio_cal_type_sp_th_vi_v_vali_cfg = Struct False [
    (''cal_hdr'', struct_audio_cal_type_header), (''cal_data'', struct_audio_cal_data),
    (''cal_info'', struct_audio_cal_info_sp_th_vi_v_vali_cfg)]"

definition struct_audio_cal_sp_th_vi_v_vali_cfg :: ctype where
  "struct_audio_cal_sp_th_vi_v_vali_cfg = Struct False [
    (''hdr'', struct_audio_cal_header), (''cal_type'', struct_audio_cal_type_sp_th_vi_v_vali_cfg)]"

definition struct_audio_cal_type_sp_ex_vi_ftm_cfg :: ctype where
  "struct_audio_cal_type_sp_ex_vi_ftm_cfg = Struct False [
    (''cal_hdr'', struct_audio_cal_type_header), (''cal_data'', struct_audio_cal_data),
    (''cal_info'', struct_audio_cal_info_sp_ex_vi_ftm_cfg)]"

definition struct_audio_cal_sp_ex_vi_ftm_cfg :: ctype where
  "struct_audio_cal_sp_ex_vi_ftm_cfg = Struct False [
    (''hdr'', struct_audio_cal_header), (''cal_type'', struct_audio_cal_type_sp_ex_vi_ftm_cfg)]"

definition struct_audio_cal_type_hw_delay :: ctype where
  "struct_audio_cal_type_hw_delay = Struct False [
    (''cal_hdr'', struct_audio_cal_type_header), (''cal_data'', struct_audio_cal_data),
    (''cal_info'', struct_audio_cal_info_hw_delay)]"

definition struct_audio_cal_hw_delay :: ctype where
  "struct_audio_cal_hw_delay = Struct False [
    (''hdr'', struct_audio_cal_header), (''cal_type'', struct_audio_cal_type_hw_delay)]"

definition struct_audio_cal_type_sidetone :: ctype where
  "struct_audio_cal_type_sidetone = Struct False [
    (''cal_hdr'', struct_audio_cal_type_header), (''cal_data'', struct_audio_cal_data),
    (''cal_info'', struct_audio_cal_info_sidetone)]"

definition struct_audio_cal_sidetone :: ctype where
  "struct_audio_cal_sidetone = Struct False [
    (''hdr'', struct_audio_cal_header), (''cal_type'', struct_audio_cal_type_sidetone)]"

definition struct_audio_cal_type_sidetone_iir :: ctype where
  "struct_audio_cal_type_sidetone_iir = Struct False [
    (''cal_hdr'', struct_audio_cal_type_header), (''cal_data'', struct_audio_cal_data),
    (''cal_info'', struct_audio_cal_info_sidetone_iir)]"

definition struct_audio_cal_sidetone_iir :: ctype where
  "struct_audio_cal_sidetone_iir = Struct False [
    (''hdr'', struct_audio_cal_header), (''cal_type'', struct_audio_cal_type_sidetone_iir)]"

definition struct_audio_cal_type_lsm_top :: ctype where
  "struct_audio_cal_type_lsm_top = Struct False [
    (''cal_hdr'', struct_audio_cal_type_header), (''cal_data'', struct_audio_cal_data),
    (''cal_info'', struct_audio_cal_info_lsm_top)]"

definition struct_audio_cal_lsm_top :: ctype where
  "struct_audio_cal_lsm_top = Struct False [
    (''hdr'', struct_audio_cal_header), (''cal_type'', struct_audio_cal_type_lsm_top)]"

definition struct_audio_cal_type_lsm :: ctype where
  "struct_audio_cal_type_lsm = Struct False [
    (''cal_hdr'', struct_audio_cal_type_header), (''cal_data'', struct_audio_cal_data),
    (''cal_info'', struct_audio_cal_info_lsm)]"

definition struct_audio_cal_lsm :: ctype where
  "struct_audio_cal_lsm = Struct False [
    (''hdr'', struct_audio_cal_header), (''cal_type'', struct_audio_cal_type_lsm)]"

definition struct_audio_cal_type_voc_top :: ctype where
  "struct_audio_cal_type_voc_top = Struct False [
    (''cal_hdr'', struct_audio_cal_type_header), (''cal_data'', struct_audio_cal_data),
    (''cal_info'', struct_audio_cal_info_voc_top)]"

definition struct_audio_cal_voc_top :: ctype where
  "struct_audio_cal_voc_top = Struct False [
    (''hdr'', struct_audio_cal_header), (''cal_type'', struct_audio_cal_type_voc_top)]"

definition struct_audio_cal_type_vocproc :: ctype where
  "struct_audio_cal_type_vocproc = Struct False [
    (''cal_hdr'', struct_audio_cal_type_header), (''cal_data'', struct_audio_cal_data),
    (''cal_info'', struct_audio_cal_info_vocproc)]"

definition struct_audio_cal_vocproc :: ctype where
  "struct_audio_cal_vocproc = Struct False [
    (''hdr'', struct_audio_cal_header), (''cal_type'', struct_audio_cal_type_vocproc)]"

definition struct_audio_cal_type_vocvol :: ctype where
  "struct_audio_cal_type_vocvol = Struct False [
    (''cal_hdr'', struct_audio_cal_type_header), (''cal_data'', struct_audio_cal_data),
    (''cal_info'', struct_audio_cal_info_vocvol)]"

definition struct_audio_cal_vocvol :: ctype where
  "struct_audio_cal_vocvol = Struct False [
    (''hdr'', struct_audio_cal_header), (''cal_type'', struct_audio_cal_type_vocvol)]"

definition struct_audio_cal_type_vocdev_cfg :: ctype where
  "struct_audio_cal_type_vocdev_cfg = Struct False [
    (''cal_hdr'', struct_audio_cal_type_header), (''cal_data'', struct_audio_cal_data),
    (''cal_info'', struct_audio_cal_info_vocdev_cfg)]"

definition struct_audio_cal_vocdev_cfg :: ctype where
  "struct_audio_cal_vocdev_cfg = Struct False [
    (''hdr'', struct_audio_cal_header), (''cal_type'', struct_audio_cal_type_vocdev_cfg)]"

definition struct_audio_cal_type_voc_col :: ctype where
  "struct_audio_cal_type_voc_col = Struct False [
    (''cal_hdr'', struct_audio_cal_type_header), (''cal_data'', struct_audio_cal_data),
    (''cal_info'', struct_audio_cal_info_voc_col)]"

definition struct_audio_cal_voc_col :: ctype where
  "struct_audio_cal_voc_col = Struct False [
    (''hdr'', struct_audio_cal_header), (''cal_type'', struct_audio_cal_type_voc_col)]"

definition struct_audio_cal_type_fb_spk_prot_status :: ctype where
  "struct_audio_cal_type_fb_spk_prot_status = Struct False [
    (''cal_hdr'', struct_audio_cal_type_header), (''cal_data'', struct_audio_cal_data),
    (''cal_info'', struct_audio_cal_info_msm_spk_prot_status)]"

definition struct_audio_cal_fb_spk_prot_status :: ctype where
  "struct_audio_cal_fb_spk_prot_status = Struct False [
    (''hdr'', struct_audio_cal_header), (''cal_type'', struct_audio_cal_type_fb_spk_prot_status)]"

definition struct_audio_cal_type_sp_th_vi_param :: ctype where
  "struct_audio_cal_type_sp_th_vi_param = Struct False [
    (''cal_hdr'', struct_audio_cal_type_header), (''cal_data'', struct_audio_cal_data),
    (''cal_info'', struct_audio_cal_info_sp_th_vi_param)]"

definition struct_audio_cal_sp_th_vi_param :: ctype where
  "struct_audio_cal_sp_th_vi_param = Struct False [
    (''hdr'', struct_audio_cal_header), (''cal_type'', struct_audio_cal_type_sp_th_vi_param)]"

definition struct_audio_cal_type_sp_th_vi_v_vali_param :: ctype where
  "struct_audio_cal_type_sp_th_vi_v_vali_param = Struct False [
    (''cal_hdr'', struct_audio_cal_type_header), (''cal_data'', struct_audio_cal_data),
    (''cal_info'', struct_audio_cal_info_sp_th_vi_v_vali_param)]"

definition struct_audio_cal_sp_th_vi_v_vali_param :: ctype where
  "struct_audio_cal_sp_th_vi_v_vali_param = Struct False [
    (''hdr'', struct_audio_cal_header),
    (''cal_type'', struct_audio_cal_type_sp_th_vi_v_vali_param)]"

definition struct_audio_cal_type_sp_ex_vi_param :: ctype where
  "struct_audio_cal_type_sp_ex_vi_param = Struct False [
    (''cal_hdr'', struct_audio_cal_type_header), (''cal_data'', struct_audio_cal_data),
    (''cal_info'', struct_audio_cal_info_sp_ex_vi_param)]"

definition struct_audio_cal_sp_ex_vi_param :: ctype where
  "struct_audio_cal_sp_ex_vi_param = Struct False [
    (''hdr'', struct_audio_cal_header), (''cal_type'', struct_audio_cal_type_sp_ex_vi_param)]"

definition struct_audio_cal_type_sp_v4_ex_vi_param :: ctype where
  "struct_audio_cal_type_sp_v4_ex_vi_param = Struct False [
    (''cal_hdr'', struct_audio_cal_type_header), (''cal_data'', struct_audio_cal_data),
    (''cal_info'', struct_audio_cal_info_sp_v4_ex_vi_param)]"

definition struct_audio_cal_sp_v4_ex_vi_param :: ctype where
  "struct_audio_cal_sp_v4_ex_vi_param = Struct False [
    (''hdr'', struct_audio_cal_header), (''cal_type'', struct_audio_cal_type_sp_v4_ex_vi_param)]"

text \<open>The messages: a header, then what the calibration type needs.\<close>

definition calibration_messages :: "ctype list" where
  "calibration_messages =
    [struct_audio_cal_alloc, struct_audio_cal_dealloc, struct_audio_cal_prepare,
    struct_audio_cal_post, struct_audio_cal_basic, struct_audio_cal_adm_top,
    struct_audio_core_metainfo, struct_audio_cal_audproc, struct_audio_cal_audvol,
    struct_audio_cal_asm_top, struct_audio_cal_audstrm, struct_audio_cal_afe,
    struct_audio_cal_afe_top, struct_audio_cal_aanc, struct_audio_cal_fb_spk_prot_cfg,
    struct_audio_cal_sp_th_vi_ftm_cfg, struct_audio_cal_sp_th_vi_v_vali_cfg,
    struct_audio_cal_sp_ex_vi_ftm_cfg, struct_audio_cal_hw_delay, struct_audio_cal_sidetone,
    struct_audio_cal_sidetone_iir, struct_audio_cal_lsm_top, struct_audio_cal_lsm,
    struct_audio_cal_voc_top, struct_audio_cal_vocproc, struct_audio_cal_vocvol,
    struct_audio_cal_vocdev_cfg, struct_audio_cal_voc_col, struct_audio_cal_fb_spk_prot_status,
    struct_audio_cal_sp_th_vi_param, struct_audio_cal_sp_th_vi_v_vali_param,
    struct_audio_cal_sp_ex_vi_param, struct_audio_cal_sp_v4_ex_vi_param]"

text \<open>The paths that every message shares.\<close>

definition message_prefix :: "(string list \<times> nat \<times> ctype) list" where
  "message_prefix =
    [([''hdr''], 0, struct_audio_cal_header),
     ([''hdr'', ''data_size''], 0, Scalar C_s32),
     ([''hdr'', ''version''], 4, Scalar C_s32),
     ([''hdr'', ''cal_type''], 8, Scalar C_s32),
     ([''hdr'', ''cal_type_size''], 12, Scalar C_s32),
     ([''cal_type'', ''cal_hdr''], 16, struct_audio_cal_type_header),
     ([''cal_type'', ''cal_hdr'', ''buffer_number''], 20, Scalar C_s32),
     ([''cal_type'', ''cal_data''], 24, struct_audio_cal_data),
     ([''cal_type'', ''cal_data'', ''cal_size''], 24, Scalar C_s32),
     ([''cal_type'', ''cal_data'', ''mem_handle''], 28, Scalar C_s32)]"

section \<open>Lemmas\<close>

lemma cal_types_run:
  "enum_val cal_types ''MAX_CAL_TYPES'' = 52" "map snd cal_types = [0..<53]"
  by code_simp+

lemma messages_fixed_width: "list_all fixed_width calibration_messages"
  by code_simp

lemma message_prefix_LP64:
  "list_all (\<lambda>t. list_all (\<lambda>(path, r). field_at LP64 path t = Some r) message_prefix)
    calibration_messages"
  by code_simp

lemma message_prefix_at:
  assumes "t \<in> set calibration_messages" and "(path, r) \<in> set message_prefix"
  shows "field_at dm path t = Some r"
proof -
  have "fixed_width t" and "field_at LP64 path t = Some r"
    using assms messages_fixed_width message_prefix_LP64 by (auto simp: list_all_iff)
  then show ?thesis by (simp add: fixed_width_field_at [of t dm path LP64])
qed

lemma messages_fit: "list_all (\<lambda>t. 36 \<le> csize dm t \<and> csize dm t \<le> MAX_IOCTL_CMD_SIZE) calibration_messages"
  by (cases dm) code_simp+

section \<open>Properties\<close>

text \<open>
  C18. Every calibration message, whatever its type, has between 36 bytes and the 512 that the
  driver accepts, and starts with the same header: reading the data size, version, calibration
  type, buffer number, calibration size or memory handle at its fixed offset, before the message's
  own type is known, gives the value the sender stored there.
\<close>

theorem calibration_prefix:
  assumes "t \<in> set calibration_messages" and "well_typed dm t v"
    and "(path, ofs, u) \<in> set message_prefix"
  shows "36 \<le> length (encode dm t v) \<and> length (encode dm t v) \<le> MAX_IOCTL_CMD_SIZE \<and>
    value_at path t v = Some (decode dm u (take (csize dm u) (drop ofs (encode dm t v))))"
proof -
  have "field_at dm path t = Some (ofs, u)"
    using assms(1,3) by (rule message_prefix_at)
  then show ?thesis
    using read_field [OF _ assms(2)] messages_fit [of dm] assms(1)
    by (auto simp: list_all_iff length_encode [OF assms(2)])
qed

definition sample_message :: cval where
  "sample_message =
    VRec [VRec [VNum 36, VNum 0, VNum 11, VNum 20],
          VRec [VRec [VNum 0, VNum 2], VRec [VNum 4096, VNum 7, VNum 0]]]"

lemma sample_message_ok: "well_typed LP64 struct_audio_cal_basic sample_message"
  by code_simp

theorem calibration_prefix_witness:
  "value_at [''hdr'', ''cal_type''] struct_audio_cal_basic sample_message =
     Some (decode LP64 (Scalar C_s32) (take (csize LP64 (Scalar C_s32))
       (drop 8 (encode LP64 struct_audio_cal_basic sample_message)))) \<and>
   value_at [''hdr'', ''cal_type''] struct_audio_cal_basic sample_message = Some (VNum 11)"
proof -
  have "struct_audio_cal_basic \<in> set calibration_messages"
    by (simp add: calibration_messages_def)
  then show ?thesis
    using calibration_prefix [OF _ sample_message_ok, of "[''hdr'', ''cal_type'']" 8 "Scalar C_s32"]
    by (simp add: message_prefix_def) code_simp
qed

text \<open>
  The thermal calibrations of the speaker protection are told apart by their first word: the mode
  is at the same offset in all of them.
\<close>

lemma speaker_mode_first:
  "list_all (\<lambda>t. field_at dm [''cal_type'', ''cal_info'', ''mode''] t = Some (36, Scalar C_u32))
    [struct_audio_cal_sp_th_vi_ftm_cfg, struct_audio_cal_sp_th_vi_v_vali_cfg,
     struct_audio_cal_sp_th_vi_param, struct_audio_cal_sp_th_vi_v_vali_param]"
  by (cases dm) code_simp+

end
