(* ===== verification/Radio_Iris.thy ===== *)
theory Radio_Iris
  imports C_Layout
begin

text \<open>
  The host side of the FM radio, \<^verbatim>\<open>src/include/media/radio-iris.h\<close> and
  \<^verbatim>\<open>radio-iris-commands.h\<close>: command opcodes of the host controller interface, the packed structs
  of its command and event packets, the byte offsets at which the driver reads them, the
  fields of RDS groups, the spur table.
\<close>

unbundle bit_operations_syntax

section \<open>Ranges of the controls\<close>

definition MIN_TX_TONE_VAL :: int where "MIN_TX_TONE_VAL = 0x00"
definition MAX_TX_TONE_VAL :: int where "MAX_TX_TONE_VAL = 0x07"
definition MIN_HARD_MUTE_VAL :: int where "MIN_HARD_MUTE_VAL = 0x00"
definition MAX_HARD_MUTE_VAL :: int where "MAX_HARD_MUTE_VAL = 0x03"
definition MIN_SRCH_MODE :: int where "MIN_SRCH_MODE = 0x00"
definition MAX_SRCH_MODE :: int where "MAX_SRCH_MODE = 0x09"
definition MIN_SCAN_DWELL :: int where "MIN_SCAN_DWELL = 0x00"
definition MAX_SCAN_DWELL :: int where "MAX_SCAN_DWELL = 0x0F"
definition MIN_SIG_TH :: int where "MIN_SIG_TH = 0x00"
definition MAX_SIG_TH :: int where "MAX_SIG_TH = 0x03"
definition MIN_PTY :: int where "MIN_PTY = 0x00"
definition MAX_PTY :: int where "MAX_PTY = 0x1F"
definition MIN_PI :: int where "MIN_PI = 0x0000"
definition MAX_PI :: int where "MAX_PI = 0xFFFF"
definition MIN_SRCH_STATIONS_CNT :: int where "MIN_SRCH_STATIONS_CNT = 0x00"
definition MAX_SRCH_STATIONS_CNT :: int where "MAX_SRCH_STATIONS_CNT = 0x14"
definition MIN_CHAN_SPACING :: int where "MIN_CHAN_SPACING = 0x00"
definition MAX_CHAN_SPACING :: int where "MAX_CHAN_SPACING = 0x02"
definition MIN_EMPHASIS :: int where "MIN_EMPHASIS = 0x00"
definition MAX_EMPHASIS :: int where "MAX_EMPHASIS = 0x01"
definition MIN_RDS_STD :: int where "MIN_RDS_STD = 0x00"
definition MAX_RDS_STD :: int where "MAX_RDS_STD = 0x02"
definition MIN_ANTENNA_VAL :: int where "MIN_ANTENNA_VAL = 0x00"
definition MAX_ANTENNA_VAL :: int where "MAX_ANTENNA_VAL = 0x01"
definition MIN_TX_PS_REPEAT_CNT :: int where "MIN_TX_PS_REPEAT_CNT = 0x01"
definition MAX_TX_PS_REPEAT_CNT :: int where "MAX_TX_PS_REPEAT_CNT = 0x0F"
definition MIN_SOFT_MUTE :: int where "MIN_SOFT_MUTE = 0x00"
definition MAX_SOFT_MUTE :: int where "MAX_SOFT_MUTE = 0x01"
definition MIN_PEEK_ACCESS_LEN :: int where "MIN_PEEK_ACCESS_LEN = 0x01"
definition MAX_PEEK_ACCESS_LEN :: int where "MAX_PEEK_ACCESS_LEN = 0xF9"
definition MIN_RESET_CNTR :: int where "MIN_RESET_CNTR = 0x00"
definition MAX_RESET_CNTR :: int where "MAX_RESET_CNTR = 0x01"
definition MIN_HLSI :: int where "MIN_HLSI = 0x00"
definition MAX_HLSI :: int where "MAX_HLSI = 0x02"
definition MIN_NOTCH_FILTER :: int where "MIN_NOTCH_FILTER = 0x00"
definition MAX_NOTCH_FILTER :: int where "MAX_NOTCH_FILTER = 0x02"
definition MIN_INTF_DET_OUT_LW_TH :: int where "MIN_INTF_DET_OUT_LW_TH = 0x00"
definition MAX_INTF_DET_OUT_LW_TH :: int where "MAX_INTF_DET_OUT_LW_TH = 0xFF"
definition MIN_INTF_DET_OUT_HG_TH :: int where "MIN_INTF_DET_OUT_HG_TH = 0x00"
definition MAX_INTF_DET_OUT_HG_TH :: int where "MAX_INTF_DET_OUT_HG_TH = 0xFF"
definition MIN_SINR_TH :: int where "MIN_SINR_TH = -128"
definition MAX_SINR_TH :: int where "MAX_SINR_TH = 127"
definition MIN_SINR_SAMPLES :: int where "MIN_SINR_SAMPLES = 0x01"
definition MAX_SINR_SAMPLES :: int where "MAX_SINR_SAMPLES = 0xFF"
definition MIN_BLEND_HI :: int where "MIN_BLEND_HI = -128"
definition MAX_BLEND_HI :: int where "MAX_BLEND_HI = 127"

definition control_ranges :: "(int \<times> int) list" where
  "control_ranges =
    [(MIN_TX_TONE_VAL, MAX_TX_TONE_VAL), (MIN_HARD_MUTE_VAL, MAX_HARD_MUTE_VAL), (MIN_SRCH_MODE,
    MAX_SRCH_MODE), (MIN_SCAN_DWELL, MAX_SCAN_DWELL), (MIN_SIG_TH, MAX_SIG_TH), (MIN_PTY, MAX_PTY),
    (MIN_PI, MAX_PI), (MIN_SRCH_STATIONS_CNT, MAX_SRCH_STATIONS_CNT), (MIN_CHAN_SPACING,
    MAX_CHAN_SPACING), (MIN_EMPHASIS, MAX_EMPHASIS), (MIN_RDS_STD, MAX_RDS_STD), (MIN_ANTENNA_VAL,
    MAX_ANTENNA_VAL), (MIN_TX_PS_REPEAT_CNT, MAX_TX_PS_REPEAT_CNT), (MIN_SOFT_MUTE, MAX_SOFT_MUTE),
    (MIN_PEEK_ACCESS_LEN, MAX_PEEK_ACCESS_LEN), (MIN_RESET_CNTR, MAX_RESET_CNTR), (MIN_HLSI,
    MAX_HLSI), (MIN_NOTCH_FILTER, MAX_NOTCH_FILTER), (MIN_INTF_DET_OUT_LW_TH,
    MAX_INTF_DET_OUT_LW_TH), (MIN_INTF_DET_OUT_HG_TH, MAX_INTF_DET_OUT_HG_TH), (MIN_SINR_TH,
    MAX_SINR_TH), (MIN_SINR_SAMPLES, MAX_SINR_SAMPLES), (MIN_BLEND_HI, MAX_BLEND_HI)]"

section \<open>Packets\<close>

definition radio_hci_command_pkt_numbers :: "(string \<times> nat) list" where
  "radio_hci_command_pkt_numbers =
    [(''RADIO_HCI_COMMAND_PKT'', 0x11), (''RADIO_HCI_EVENT_PKT'', 0x14),
     (''MAX_RIVA_PEEK_RSP_SIZE'', 251)]"

definition DEFAULT_DATA_OFFSET :: nat where "DEFAULT_DATA_OFFSET = 2"
definition DEFAULT_DATA_SIZE :: nat where "DEFAULT_DATA_SIZE = 249"
definition FM_TX_PWR_LVL_STEP_SIZE :: nat where "FM_TX_PWR_LVL_STEP_SIZE = 36"
definition FM_TX_PWR_LVL_0 :: nat where "FM_TX_PWR_LVL_0 = 0"
definition FM_TX_PWR_LVL_MAX :: nat where "FM_TX_PWR_LVL_MAX = 7"
definition fm_tx_phy_cfg_mode_numbers :: "(string \<times> nat) list" where
  "fm_tx_phy_cfg_mode_numbers =
    [(''FM_TX_PHY_CFG_MODE'', 0x3c), (''FM_TX_PHY_CFG_LEN'', 0x10), (''FM_TX_PWR_GAIN_OFFSET'',
     14), (''FM_RDS_CNFG_MODE'', 0x0f), (''FM_RDS_CNFG_LEN'', 0x10), (''AF_RMSSI_TH_LSB_OFFSET'',
     10), (''AF_RMSSI_TH_MSB_OFFSET'', 11), (''AF_RMSSI_SAMPLES_OFFSET'', 15),
     (''FM_RX_CONFG_MODE'', 0x15), (''FM_RX_CNFG_LEN'', 0x20), (''GD_CH_RMSSI_TH_OFFSET'', 12),
     (''MAX_GD_CH_RMSSI_TH'', 127), (''SRCH_ALGO_TYPE_OFFSET'', 25), (''SINRFIRSTSTAGE_OFFSET'',
     26), (''RMSSIFIRSTSTAGE_OFFSET'', 27), (''CF0TH12_BYTE1_OFFSET'', 8),
     (''CF0TH12_BYTE2_OFFSET'', 9), (''CF0TH12_BYTE3_OFFSET'', 10), (''CF0TH12_BYTE4_OFFSET'',
     11), (''MAX_SINR_FIRSTSTAGE'', 127), (''MAX_RMSSI_FIRSTSTAGE'', 127), (''RDS_PS0_XFR_MODE'',
     0x01), (''RDS_PS0_LEN'', 6), (''RX_REPEATE_BYTE_OFFSET'', 5)]"

definition FM_SPUR_TBL_SIZE :: nat where "FM_SPUR_TBL_SIZE = 240"
definition SPUR_DATA_LEN :: nat where "SPUR_DATA_LEN = 16"
definition ENTRIES_EACH_CMD :: nat where "ENTRIES_EACH_CMD = 15"
definition SPUR_DATA_INDEX :: nat where "SPUR_DATA_INDEX = 2"
definition FM_AF_LIST_MAX_SIZE :: nat where "FM_AF_LIST_MAX_SIZE = 200"
definition max_blend_index_numbers :: "(string \<times> nat) list" where
  "max_blend_index_numbers =
    [(''MAX_BLEND_INDEX'', 49), (''TUNE_PARAM'', 16), (''FM_RDS_3A_GRP'', 0x40)]"

definition AF_LIST_MAX :: nat where "AF_LIST_MAX = FM_AF_LIST_MAX_SIZE div 4"

definition tx_ps_data_length_numbers :: "(string \<times> nat) list" where
  "tx_ps_data_length_numbers =
    [(''TX_PS_DATA_LENGTH'', 108), (''TX_RT_DATA_LENGTH'', 64), (''PS_STRING_LEN'', 9)]"

definition MAX_RAW_RDS_GRPS :: nat where "MAX_RAW_RDS_GRPS = 21"
definition RDSGRP_DATA_OFFSET :: nat where "RDSGRP_DATA_OFFSET = 0x1"
definition dummy_class_numbers :: "(string \<times> nat) list" where
  "dummy_class_numbers =
    [(''DUMMY_CLASS'', 0), (''RT_PLUS_LEN_1_TAG'', 3), (''RT_ERT_FLAG_BIT'', 5)]"

definition radio_hci_dev_numbers :: "(string \<times> nat) list" where
  "radio_hci_dev_numbers =
    [(''RADIO_HCI_DEV_REG'', 1), (''RADIO_HCI_DEV_WRITE'', 2)]"

definition RDS_PTYPE :: nat where "RDS_PTYPE = 2"
definition RDS_PID_LOWER :: nat where "RDS_PID_LOWER = 1"
definition RDS_PID_HIGHER :: nat where "RDS_PID_HIGHER = 0"
definition RDS_OFFSET :: nat where "RDS_OFFSET = 5"
definition RDS_PS_LENGTH_OFFSET :: nat where "RDS_PS_LENGTH_OFFSET = 7"
definition RDS_STRING :: nat where "RDS_STRING = 8"
definition RDS_PS_DATA_OFFSET :: nat where "RDS_PS_DATA_OFFSET = 8"
definition rds_config_offset_numbers :: "(string \<times> nat) list" where
  "rds_config_offset_numbers =
    [(''RDS_CONFIG_OFFSET'', 3), (''RDS_AF_JUMP_OFFSET'', 4)]"

definition PI_CODE_OFFSET :: nat where "PI_CODE_OFFSET = 4"
definition AF_SIZE_OFFSET :: nat where "AF_SIZE_OFFSET = 6"
definition AF_LIST_OFFSET :: nat where "AF_LIST_OFFSET = 7"
definition RT_A_B_FLAG_OFFSET :: nat where "RT_A_B_FLAG_OFFSET = 4"

definition STD_BUF_SIZE :: nat where "STD_BUF_SIZE = 256"
definition region_us_eu_band_low_numbers :: "(string \<times> nat) list" where
  "region_us_eu_band_low_numbers =
    [(''REGION_US_EU_BAND_LOW'', 87500), (''REGION_US_EU_BAND_HIGH'', 108000),
     (''REGION_JAPAN_STANDARD_BAND_LOW'', 76000), (''REGION_JAPAN_STANDARD_BAND_HIGH'', 90000),
     (''REGION_JAPAN_WIDE_BAND_LOW'', 90000), (''REGION_JAPAN_WIDE_BAND_HIGH'', 108000),
     (''SRCH_MODE'', 0x07), (''SRCH_DIR'', 0x08), (''SCAN_DWELL'', 0x70), (''SRCH_ON'', 0x80),
     (''IOC_HRD_MUTE'', 0x03), (''IOC_SFT_MUTE'', 0x01), (''IOC_MON_STR'', 0x01),
     (''IOC_SIG_BLND'', 0x01), (''IOC_INTF_BLND'', 0x01), (''IOC_ANTENNA'', 0x01), (''RDS_ON'',
     0x01), (''RDS_BUF_SZ'', 100)]"

definition RDS_BLOCKS_NUM :: nat where "RDS_BLOCKS_NUM = 4"
definition BYTES_PER_BLOCK :: nat where "BYTES_PER_BLOCK = 3"
definition max_ps_length_numbers :: "(string \<times> nat) list" where
  "max_ps_length_numbers =
    [(''MAX_PS_LENGTH'', 108), (''MAX_RT_LENGTH'', 64), (''RDS_GRP_CNTR_LEN'', 36),
     (''RX_RT_DATA_LENGTH'', 63), (''SRCH_DIR_UP'', 0), (''SRCH_DIR_DOWN'', 1),
     (''SEARCH_RDS_STNS_MODE_OFFSET'', 4), (''PARAMS_PER_STATION'', 0x08), (''STN_NUM_OFFSET'',
     0x01), (''STN_FREQ_OFFSET'', 0x02), (''KHZ_TO_MHZ'', 1000)]"

definition ctrl_numbers :: "(string \<times> nat) list" where
  "ctrl_numbers =
    [(''CTRL_ON'', 1), (''CTRL_OFF'', 0)]"

definition riva_peek_opcode_numbers :: "(string \<times> nat) list" where
  "riva_peek_opcode_numbers =
    [(''RIVA_PEEK_OPCODE'', 0x0D), (''RIVA_POKE_OPCODE'', 0x0C), (''PEEK_DATA_OFSET'', 0x1)]"

definition RIVA_PEEK_PARAM :: nat where "RIVA_PEEK_PARAM = 0x6"
definition riva_peek_len_ofset_numbers :: "(string \<times> nat) list" where
  "riva_peek_len_ofset_numbers =
    [(''RIVA_PEEK_LEN_OFSET'', 0x6), (''SSBI_PEEK_LEN'', 0x01), (''PROCS_CALIB_MODE'', 1)]"

definition PROCS_CALIB_SIZE :: nat where "PROCS_CALIB_SIZE = 23"
definition DC_CALIB_MODE :: nat where "DC_CALIB_MODE = 2"
definition DC_CALIB_SIZE :: nat where "DC_CALIB_SIZE = 48"
definition RSB_CALIB_MODE :: nat where "RSB_CALIB_MODE = 3"
definition RSB_CALIB_SIZE :: nat where "RSB_CALIB_SIZE = 4"
definition CALIB_DATA_OFSET :: nat where "CALIB_DATA_OFSET = 2"
definition CALIB_MODE_OFSET :: nat where "CALIB_MODE_OFSET = 1"
definition MAX_CALIB_SIZE :: nat where "MAX_CALIB_SIZE = 75"
definition invalid_channel_numbers :: "(string \<times> nat) list" where
  "invalid_channel_numbers =
    [(''INVALID_CHANNEL'', 0), (''VALID_CHANNEL'', 1)]"

definition sig_level_intr_numbers :: "(string \<times> nat) list" where
  "sig_level_intr_numbers =
    [(''SIG_LEVEL_INTR'', 1), (''RDS_SYNC_INTR'', 2), (''AUDIO_CTRL_INTR'', 4),
     (''AF_JUMP_ENABLE'', 16)]"

definition hci_req_numbers :: "(string \<times> nat) list" where
  "hci_req_numbers =
    [(''HCI_REQ_DONE'', 0), (''HCI_REQ_PEND'', 1), (''HCI_REQ_CANCELED'', 2), (''HCI_REQ_STATUS'',
     3)]"

definition hci_fm_numbers :: "(string \<times> nat) list" where
  "hci_fm_numbers =
    [(''HCI_FM_ENABLE_RECV_CMD'', 1), (''HCI_FM_DISABLE_RECV_CMD'', 2),
     (''HCI_FM_GET_RECV_CONF_CMD'', 3), (''HCI_FM_GET_STATION_PARAM_CMD'', 4),
     (''HCI_FM_GET_SIGNAL_TH_CMD'', 5), (''HCI_FM_GET_PROGRAM_SERVICE_CMD'', 6),
     (''HCI_FM_GET_RADIO_TEXT_CMD'', 7), (''HCI_FM_GET_AF_LIST_CMD'', 8),
     (''HCI_FM_CANCEL_SEARCH_CMD'', 9), (''HCI_FM_RESET_CMD'', 10), (''HCI_FM_GET_FEATURES_CMD'',
     11), (''HCI_FM_STATION_DBG_PARAM_CMD'', 12), (''HCI_FM_ENABLE_TRANS_CMD'', 13),
     (''HCI_FM_DISABLE_TRANS_CMD'', 14), (''HCI_FM_GET_TX_CONFIG'', 15),
     (''HCI_FM_GET_DET_CH_TH_CMD'', 16), (''HCI_FM_GET_BLND_TBL_CMD'', 17)]"

definition struct_radio_hci_command_hdr :: ctype where
  "struct_radio_hci_command_hdr = Struct True [
    (''opcode'', Scalar C_u16), (''plen'', Scalar C_u8)]"

definition struct_radio_hci_event_hdr :: ctype where
  "struct_radio_hci_event_hdr = Struct True [
    (''evt'', Scalar C_u8), (''plen'', Scalar C_u8)]"

definition struct_hci_fm_recv_conf_req :: ctype where
  "struct_hci_fm_recv_conf_req = Struct True [
    (''emphasis'', Scalar C_u8), (''ch_spacing'', Scalar C_u8), (''rds_std'', Scalar C_u8),
    (''hlsi'', Scalar C_u8), (''band_low_limit'', Scalar C_u32),
    (''band_high_limit'', Scalar C_u32)]"

definition struct_hci_fm_trans_conf_req_struct :: ctype where
  "struct_hci_fm_trans_conf_req_struct = Struct True [
    (''emphasis'', Scalar C_u8), (''rds_std'', Scalar C_u8), (''band_low_limit'', Scalar C_u32),
    (''band_high_limit'', Scalar C_u32)]"

definition struct_hci_fm_tx_ps :: ctype where
  "struct_hci_fm_tx_ps = Struct True [
    (''ps_control'', Scalar C_u8), (''pi'', Scalar C_u16), (''pty'', Scalar C_u8),
    (''ps_repeatcount'', Scalar C_u8), (''ps_num'', Scalar C_u8),
    (''ps_data'', Array (Scalar C_u8) 108)]"

definition struct_hci_fm_tx_rt :: ctype where
  "struct_hci_fm_tx_rt = Struct True [
    (''rt_control'', Scalar C_u8), (''pi'', Scalar C_u16), (''pty'', Scalar C_u8),
    (''rt_len'', Scalar C_u8), (''rt_data'', Array (Scalar C_u8) 64)]"

definition struct_hci_fm_mute_mode_req :: ctype where
  "struct_hci_fm_mute_mode_req = Struct True [
    (''hard_mute'', Scalar C_u8), (''soft_mute'', Scalar C_u8)]"

definition struct_hci_fm_stereo_mode_req :: ctype where
  "struct_hci_fm_stereo_mode_req = Struct True [
    (''stereo_mode'', Scalar C_u8), (''sig_blend'', Scalar C_u8), (''intf_blend'', Scalar C_u8),
    (''most_switch'', Scalar C_u8)]"

definition struct_hci_fm_search_station_req :: ctype where
  "struct_hci_fm_search_station_req = Struct True [
    (''srch_mode'', Scalar C_u8), (''scan_time'', Scalar C_u8), (''srch_dir'', Scalar C_u8)]"

definition struct_hci_fm_search_rds_station_req :: ctype where
  "struct_hci_fm_search_rds_station_req = Struct True [
    (''srch_station'', struct_hci_fm_search_station_req), (''srch_pty'', Scalar C_u8),
    (''srch_pi'', Scalar C_u16)]"

definition struct_hci_fm_search_station_list_req :: ctype where
  "struct_hci_fm_search_station_list_req = Struct True [
    (''srch_list_mode'', Scalar C_u8), (''srch_list_dir'', Scalar C_u8),
    (''srch_list_max'', Scalar C_u32), (''srch_pty'', Scalar C_u8)]"

definition struct_hci_fm_rds_grp_req :: ctype where
  "struct_hci_fm_rds_grp_req = Struct True [
    (''rds_grp_enable_mask'', Scalar C_u32), (''rds_buf_size'', Scalar C_u32),
    (''en_rds_change_filter'', Scalar C_u8)]"

definition struct_hci_fm_en_avd_ctrl_req :: ctype where
  "struct_hci_fm_en_avd_ctrl_req = Struct True [
    (''no_freqs'', Scalar C_u8), (''freq_index'', Scalar C_u8), (''lo_shft'', Scalar C_u8),
    (''freq_min'', Scalar C_u16), (''freq_max'', Scalar C_u16)]"

definition struct_hci_fm_def_data_rd_req :: ctype where
  "struct_hci_fm_def_data_rd_req = Struct True [
    (''mode'', Scalar C_u8), (''length'', Scalar C_u8), (''param_len'', Scalar C_u8),
    (''param'', Scalar C_u8)]"

definition struct_hci_fm_def_data_wr_req :: ctype where
  "struct_hci_fm_def_data_wr_req = Struct True [
    (''mode'', Scalar C_u8), (''length'', Scalar C_u8), (''data'', Array (Scalar C_u8) 249)]"

definition struct_hci_fm_riva_data :: ctype where
  "struct_hci_fm_riva_data = Struct True [
    (''subopcode'', Scalar C_u8), (''start_addr'', Scalar C_u32), (''length'', Scalar C_u8)]"

definition struct_hci_fm_riva_poke :: ctype where
  "struct_hci_fm_riva_poke = Struct True [
    (''cmd_params'', struct_hci_fm_riva_data), (''data'', Array (Scalar C_u8) 251)]"

definition struct_hci_fm_ssbi_req :: ctype where
  "struct_hci_fm_ssbi_req = Struct True [
    (''start_addr'', Scalar C_u16), (''data'', Scalar C_u8)]"

definition struct_hci_fm_ssbi_peek :: ctype where
  "struct_hci_fm_ssbi_peek = Struct True [
    (''start_address'', Scalar C_u16)]"

definition struct_hci_fm_ch_det_threshold :: ctype where
  "struct_hci_fm_ch_det_threshold = Struct True [
    (''sinr'', Scalar C_char), (''sinr_samples'', Scalar C_u8), (''low_th'', Scalar C_u8),
    (''high_th'', Scalar C_u8)]"

definition struct_hci_fm_blend_table :: ctype where
  "struct_hci_fm_blend_table = Struct True [
    (''ucBlendType'', Scalar C_u8), (''ucBlendRampRateUp'', Scalar C_u8),
    (''ucBlendDebounceNumSampleUp'', Scalar C_u8), (''ucBlendDebounceIdxUp'', Scalar C_u8),
    (''ucBlendSinrIdxSkipStep'', Scalar C_u8), (''scBlendSinrHi'', Scalar C_u8),
    (''scBlendRmssiHi'', Scalar C_u8), (''ucBlendIndexHi'', Scalar C_u8),
    (''ucBlendIndex'', Array (Scalar C_u8) 49)]"

definition struct_hci_ev_tune_status :: ctype where
  "struct_hci_ev_tune_status = Struct True [
    (''sub_event'', Scalar C_u8), (''station_freq'', Scalar C_u32), (''serv_avble'', Scalar C_u8),
    (''rssi'', Scalar C_char), (''stereo_prg'', Scalar C_u8), (''rds_sync_status'', Scalar C_u8),
    (''mute_mode'', Scalar C_u8), (''sinr'', Scalar C_char), (''intf_det_th'', Scalar C_u8)]"

definition struct_rds_blk_data :: ctype where
  "struct_rds_blk_data = Struct True [
    (''rdsMsb'', Scalar C_u8), (''rdsLsb'', Scalar C_u8), (''blockStatus'', Scalar C_u8)]"

definition struct_rds_grp_data :: ctype where
  "struct_rds_grp_data = Struct True [
    (''rdsBlk'', Array struct_rds_blk_data 4)]"

definition struct_hci_ev_rds_rx_data :: ctype where
  "struct_hci_ev_rds_rx_data = Struct True [
    (''num_rds_grps'', Scalar C_u8), (''rds_grp_data'', Array struct_rds_grp_data 21)]"

definition struct_hci_ev_prg_service :: ctype where
  "struct_hci_ev_prg_service = Struct True [
    (''pi_prg_id'', Scalar C_u16), (''pty_prg_type'', Scalar C_u8),
    (''ta_prg_code_type'', Scalar C_u8), (''ta_ann_code_flag'', Scalar C_u8),
    (''ms_switch_code_flag'', Scalar C_u8), (''dec_id_ctrl_code_flag'', Scalar C_u8),
    (''ps_num'', Scalar C_u8), (''prg_service_name'', Array (Scalar C_u8) 119)]"

definition struct_hci_ev_radio_text :: ctype where
  "struct_hci_ev_radio_text = Struct True [
    (''pi_prg_id'', Scalar C_u16), (''pty_prg_type'', Scalar C_u8),
    (''ta_prg_code_type'', Scalar C_u8), (''txt_ab_flag'', Scalar C_u8),
    (''radio_txt'', Array (Scalar C_u8) 64)]"

definition struct_hci_ev_af_list :: ctype where
  "struct_hci_ev_af_list = Struct True [
    (''tune_freq'', Scalar C_u32), (''pi_code'', Scalar C_u16), (''af_size'', Scalar C_u8),
    (''af_list'', Array (Scalar C_u8) 200)]"

definition struct_hci_ev_cmd_complete :: ctype where
  "struct_hci_ev_cmd_complete = Struct True [
    (''num_hci_cmd_pkts'', Scalar C_u8), (''cmd_opcode'', Scalar C_u16)]"

definition struct_hci_ev_cmd_status :: ctype where
  "struct_hci_ev_cmd_status = Struct True [
    (''status'', Scalar C_u8), (''num_hci_cmd_pkts'', Scalar C_u8),
    (''status_opcode'', Scalar C_u16)]"

definition struct_hci_ev_srch_st :: ctype where
  "struct_hci_ev_srch_st = Struct True [
    (''station_freq'', Scalar C_u32), (''rds_cap'', Scalar C_u8), (''pty'', Scalar C_u8),
    (''status_opcode'', Scalar C_u16)]"

definition struct_hci_ev_rel_freq :: ctype where
  "struct_hci_ev_rel_freq = Struct True [
    (''rel_freq_msb'', Scalar C_u8), (''rel_freq_lsb'', Scalar C_u8)]"

definition struct_hci_ev_srch_list_compl :: ctype where
  "struct_hci_ev_srch_list_compl = Struct True [
    (''num_stations_found'', Scalar C_u8), (''rel_freq'', Array struct_hci_ev_rel_freq 20)]"

definition struct_hci_fm_conf_rsp :: ctype where
  "struct_hci_fm_conf_rsp = Struct True [
    (''status'', Scalar C_u8), (''recv_conf_rsp'', struct_hci_fm_recv_conf_req)]"

definition struct_hci_fm_get_trans_conf_rsp :: ctype where
  "struct_hci_fm_get_trans_conf_rsp = Struct True [
    (''status'', Scalar C_u8), (''trans_conf_rsp'', struct_hci_fm_trans_conf_req_struct)]"

definition struct_hci_fm_sig_threshold_rsp :: ctype where
  "struct_hci_fm_sig_threshold_rsp = Struct True [
    (''status'', Scalar C_u8), (''sig_threshold'', Scalar C_u8)]"

definition struct_hci_fm_station_rsp :: ctype where
  "struct_hci_fm_station_rsp = Struct True [
    (''station_rsp'', struct_hci_ev_tune_status)]"

definition struct_hci_fm_prgm_srv_rsp :: ctype where
  "struct_hci_fm_prgm_srv_rsp = Struct True [
    (''status'', Scalar C_u8), (''prg_srv'', struct_hci_ev_prg_service)]"

definition struct_hci_fm_radio_txt_rsp :: ctype where
  "struct_hci_fm_radio_txt_rsp = Struct True [
    (''status'', Scalar C_u8), (''rd_txt'', struct_hci_ev_radio_text)]"

definition struct_hci_fm_af_list_rsp :: ctype where
  "struct_hci_fm_af_list_rsp = Struct True [
    (''status'', Scalar C_u8), (''rd_txt'', struct_hci_ev_af_list)]"

definition struct_hci_fm_data_rd_rsp :: ctype where
  "struct_hci_fm_data_rd_rsp = Struct True [
    (''status'', Scalar C_u8), (''ret_data_len'', Scalar C_u8),
    (''data'', Array (Scalar C_u8) 249)]"

definition struct_hci_fm_feature_list_rsp :: ctype where
  "struct_hci_fm_feature_list_rsp = Struct True [
    (''status'', Scalar C_u8), (''feature_mask'', Scalar C_u8)]"

definition struct_hci_fm_dbg_param_rsp :: ctype where
  "struct_hci_fm_dbg_param_rsp = Struct True [
    (''status'', Scalar C_u8), (''blend'', Scalar C_u8), (''soft_mute'', Scalar C_u8),
    (''inf_blend'', Scalar C_u8), (''inf_soft_mute'', Scalar C_u8), (''pilot_pil'', Scalar C_u8),
    (''io_verc'', Scalar C_u8), (''in_det_out'', Scalar C_u8)]"

definition struct_hci_fm_spur_data :: ctype where
  "struct_hci_fm_spur_data = Struct True [
    (''freq'', Array (Scalar C_u32) 30), (''rmssi'', Array (Scalar C_s8) 30),
    (''enable'', Array (Scalar C_u8) 30)]"

definition struct_hci_fm_set_cal_req_proc :: ctype where
  "struct_hci_fm_set_cal_req_proc = Struct True [
    (''mode'', Scalar C_u8), (''data'', Array (Scalar C_u8) 23)]"

definition struct_hci_fm_set_cal_req_dc :: ctype where
  "struct_hci_fm_set_cal_req_dc = Struct True [
    (''mode'', Scalar C_u8), (''data'', Array (Scalar C_u8) 48)]"

definition struct_hci_cc_do_calibration_rsp :: ctype where
  "struct_hci_cc_do_calibration_rsp = Struct True [
    (''status'', Scalar C_u8), (''mode'', Scalar C_u8), (''data'', Array (Scalar C_u8) 75)]"

definition struct_hci_fm_set_spur_table_req :: ctype where
  "struct_hci_fm_set_spur_table_req = Struct True [
    (''mode'', Scalar C_u8), (''no_of_freqs_entries'', Scalar C_u8),
    (''spur_data'', Array (Scalar C_u8) 240)]"

definition RADIO_HCI_COMMAND_HDR_SIZE :: "data_model \<Rightarrow> nat" where
  "RADIO_HCI_COMMAND_HDR_SIZE dm = csize dm struct_radio_hci_command_hdr"

definition RADIO_HCI_EVENT_HDR_SIZE :: "data_model \<Rightarrow> nat" where
  "RADIO_HCI_EVENT_HDR_SIZE dm = csize dm struct_radio_hci_event_hdr"

text \<open>The parameters that follow a command header or an event header.\<close>

definition packet_parameters :: "(string \<times> ctype) list" where
  "packet_parameters =
    [(''hci_fm_recv_conf_req'', struct_hci_fm_recv_conf_req), (''hci_fm_trans_conf_req_struct'',
    struct_hci_fm_trans_conf_req_struct), (''hci_fm_tx_ps'', struct_hci_fm_tx_ps),
    (''hci_fm_tx_rt'', struct_hci_fm_tx_rt), (''hci_fm_mute_mode_req'',
    struct_hci_fm_mute_mode_req), (''hci_fm_stereo_mode_req'', struct_hci_fm_stereo_mode_req),
    (''hci_fm_search_station_req'', struct_hci_fm_search_station_req),
    (''hci_fm_search_rds_station_req'', struct_hci_fm_search_rds_station_req),
    (''hci_fm_search_station_list_req'', struct_hci_fm_search_station_list_req),
    (''hci_fm_rds_grp_req'', struct_hci_fm_rds_grp_req), (''hci_fm_en_avd_ctrl_req'',
    struct_hci_fm_en_avd_ctrl_req), (''hci_fm_def_data_rd_req'', struct_hci_fm_def_data_rd_req),
    (''hci_fm_def_data_wr_req'', struct_hci_fm_def_data_wr_req), (''hci_fm_riva_data'',
    struct_hci_fm_riva_data), (''hci_fm_riva_poke'', struct_hci_fm_riva_poke), (''hci_fm_ssbi_req'',
    struct_hci_fm_ssbi_req), (''hci_fm_ssbi_peek'', struct_hci_fm_ssbi_peek),
    (''hci_fm_ch_det_threshold'', struct_hci_fm_ch_det_threshold), (''hci_fm_blend_table'',
    struct_hci_fm_blend_table), (''hci_ev_tune_status'', struct_hci_ev_tune_status),
    (''rds_blk_data'', struct_rds_blk_data), (''rds_grp_data'', struct_rds_grp_data),
    (''hci_ev_rds_rx_data'', struct_hci_ev_rds_rx_data), (''hci_ev_prg_service'',
    struct_hci_ev_prg_service), (''hci_ev_radio_text'', struct_hci_ev_radio_text),
    (''hci_ev_af_list'', struct_hci_ev_af_list), (''hci_ev_cmd_complete'',
    struct_hci_ev_cmd_complete), (''hci_ev_cmd_status'', struct_hci_ev_cmd_status),
    (''hci_ev_srch_st'', struct_hci_ev_srch_st), (''hci_ev_rel_freq'', struct_hci_ev_rel_freq),
    (''hci_ev_srch_list_compl'', struct_hci_ev_srch_list_compl), (''hci_fm_conf_rsp'',
    struct_hci_fm_conf_rsp), (''hci_fm_get_trans_conf_rsp'', struct_hci_fm_get_trans_conf_rsp),
    (''hci_fm_sig_threshold_rsp'', struct_hci_fm_sig_threshold_rsp), (''hci_fm_station_rsp'',
    struct_hci_fm_station_rsp), (''hci_fm_prgm_srv_rsp'', struct_hci_fm_prgm_srv_rsp),
    (''hci_fm_radio_txt_rsp'', struct_hci_fm_radio_txt_rsp), (''hci_fm_af_list_rsp'',
    struct_hci_fm_af_list_rsp), (''hci_fm_data_rd_rsp'', struct_hci_fm_data_rd_rsp),
    (''hci_fm_feature_list_rsp'', struct_hci_fm_feature_list_rsp), (''hci_fm_dbg_param_rsp'',
    struct_hci_fm_dbg_param_rsp), (''hci_fm_spur_data'', struct_hci_fm_spur_data),
    (''hci_fm_set_cal_req_proc'', struct_hci_fm_set_cal_req_proc), (''hci_fm_set_cal_req_dc'',
    struct_hci_fm_set_cal_req_dc), (''hci_cc_do_calibration_rsp'',
    struct_hci_cc_do_calibration_rsp), (''hci_fm_set_spur_table_req'',
    struct_hci_fm_set_spur_table_req)]"

section \<open>Commands\<close>

definition HCI_OCF_FM_ENABLE_RECV_REQ :: u32 where "HCI_OCF_FM_ENABLE_RECV_REQ = 0x0001"
definition HCI_OCF_FM_DISABLE_RECV_REQ :: u32 where "HCI_OCF_FM_DISABLE_RECV_REQ = 0x0002"
definition HCI_OCF_FM_GET_RECV_CONF_REQ :: u32 where "HCI_OCF_FM_GET_RECV_CONF_REQ = 0x0003"
definition HCI_OCF_FM_SET_RECV_CONF_REQ :: u32 where "HCI_OCF_FM_SET_RECV_CONF_REQ = 0x0004"
definition HCI_OCF_FM_SET_MUTE_MODE_REQ :: u32 where "HCI_OCF_FM_SET_MUTE_MODE_REQ = 0x0005"
definition HCI_OCF_FM_SET_STEREO_MODE_REQ :: u32 where "HCI_OCF_FM_SET_STEREO_MODE_REQ = 0x0006"
definition HCI_OCF_FM_SET_ANTENNA :: u32 where "HCI_OCF_FM_SET_ANTENNA = 0x0007"
definition HCI_OCF_FM_SET_SIGNAL_THRESHOLD :: u32 where "HCI_OCF_FM_SET_SIGNAL_THRESHOLD = 0x0008"
definition HCI_OCF_FM_GET_SIGNAL_THRESHOLD :: u32 where "HCI_OCF_FM_GET_SIGNAL_THRESHOLD = 0x0009"
definition HCI_OCF_FM_GET_STATION_PARAM_REQ :: u32 where
  "HCI_OCF_FM_GET_STATION_PARAM_REQ = 0x000A"
definition HCI_OCF_FM_GET_PROGRAM_SERVICE_REQ :: u32 where
  "HCI_OCF_FM_GET_PROGRAM_SERVICE_REQ = 0x000B"
definition HCI_OCF_FM_GET_RADIO_TEXT_REQ :: u32 where "HCI_OCF_FM_GET_RADIO_TEXT_REQ = 0x000C"
definition HCI_OCF_FM_GET_AF_LIST_REQ :: u32 where "HCI_OCF_FM_GET_AF_LIST_REQ = 0x000D"
definition HCI_OCF_FM_SEARCH_STATIONS :: u32 where "HCI_OCF_FM_SEARCH_STATIONS = 0x000E"
definition HCI_OCF_FM_SEARCH_RDS_STATIONS :: u32 where "HCI_OCF_FM_SEARCH_RDS_STATIONS = 0x000F"
definition HCI_OCF_FM_SEARCH_STATIONS_LIST :: u32 where "HCI_OCF_FM_SEARCH_STATIONS_LIST = 0x0010"
definition HCI_OCF_FM_CANCEL_SEARCH :: u32 where "HCI_OCF_FM_CANCEL_SEARCH = 0x0011"
definition HCI_OCF_FM_RDS_GRP :: u32 where "HCI_OCF_FM_RDS_GRP = 0x0012"
definition HCI_OCF_FM_RDS_GRP_PROCESS :: u32 where "HCI_OCF_FM_RDS_GRP_PROCESS = 0x0013"
definition HCI_OCF_FM_EN_WAN_AVD_CTRL :: u32 where "HCI_OCF_FM_EN_WAN_AVD_CTRL = 0x0014"
definition HCI_OCF_FM_EN_NOTCH_CTRL :: u32 where "HCI_OCF_FM_EN_NOTCH_CTRL = 0x0015"
definition HCI_OCF_FM_SET_EVENT_MASK :: u32 where "HCI_OCF_FM_SET_EVENT_MASK = 0x0016"
definition HCI_OCF_FM_SET_CH_DET_THRESHOLD :: u32 where "HCI_OCF_FM_SET_CH_DET_THRESHOLD = 0x0017"
definition HCI_OCF_FM_GET_CH_DET_THRESHOLD :: u32 where "HCI_OCF_FM_GET_CH_DET_THRESHOLD = 0x0018"
definition HCI_OCF_FM_SET_BLND_TBL :: u32 where "HCI_OCF_FM_SET_BLND_TBL = 0x001B"
definition HCI_OCF_FM_GET_BLND_TBL :: u32 where "HCI_OCF_FM_GET_BLND_TBL = 0x001C"
definition HCI_OCF_FM_ENABLE_TRANS_REQ :: u32 where "HCI_OCF_FM_ENABLE_TRANS_REQ = 0x0001"
definition HCI_OCF_FM_DISABLE_TRANS_REQ :: u32 where "HCI_OCF_FM_DISABLE_TRANS_REQ = 0x0002"
definition HCI_OCF_FM_GET_TRANS_CONF_REQ :: u32 where "HCI_OCF_FM_GET_TRANS_CONF_REQ = 0x0003"
definition HCI_OCF_FM_SET_TRANS_CONF_REQ :: u32 where "HCI_OCF_FM_SET_TRANS_CONF_REQ = 0x0004"
definition HCI_OCF_FM_RDS_RT_REQ :: u32 where "HCI_OCF_FM_RDS_RT_REQ = 0x0008"
definition HCI_OCF_FM_RDS_PS_REQ :: u32 where "HCI_OCF_FM_RDS_PS_REQ = 0x0009"
definition HCI_OCF_FM_TUNE_STATION_REQ :: u32 where "HCI_OCF_FM_TUNE_STATION_REQ = 0x0001"
definition HCI_OCF_FM_DEFAULT_DATA_READ :: u32 where "HCI_OCF_FM_DEFAULT_DATA_READ = 0x0002"
definition HCI_OCF_FM_DEFAULT_DATA_WRITE :: u32 where "HCI_OCF_FM_DEFAULT_DATA_WRITE = 0x0003"
definition HCI_OCF_FM_RESET :: u32 where "HCI_OCF_FM_RESET = 0x0004"
definition HCI_OCF_FM_GET_FEATURE_LIST :: u32 where "HCI_OCF_FM_GET_FEATURE_LIST = 0x0005"
definition HCI_OCF_FM_DO_CALIBRATION :: u32 where "HCI_OCF_FM_DO_CALIBRATION = 0x0006"
definition HCI_OCF_FM_SET_CALIBRATION :: u32 where "HCI_OCF_FM_SET_CALIBRATION = 0x0007"
definition HCI_OCF_FM_SET_SPUR_TABLE :: u32 where "HCI_OCF_FM_SET_SPUR_TABLE = 0x0008"
definition HCI_OCF_FM_GET_SPUR_TABLE :: u32 where "HCI_OCF_FM_GET_SPUR_TABLE = 0x0009"
definition HCI_OCF_FM_READ_GRP_COUNTERS :: u32 where "HCI_OCF_FM_READ_GRP_COUNTERS = 0x0001"
definition HCI_OCF_FM_PEEK_DATA :: u32 where "HCI_OCF_FM_PEEK_DATA = 0x0002"
definition HCI_OCF_FM_POKE_DATA :: u32 where "HCI_OCF_FM_POKE_DATA = 0x0003"
definition HCI_OCF_FM_SSBI_PEEK_REG :: u32 where "HCI_OCF_FM_SSBI_PEEK_REG = 0x0004"
definition HCI_OCF_FM_SSBI_POKE_REG :: u32 where "HCI_OCF_FM_SSBI_POKE_REG = 0x0005"
definition HCI_OCF_FM_STATION_DBG_PARAM :: u32 where "HCI_OCF_FM_STATION_DBG_PARAM = 0x0007"
definition HCI_FM_SET_INTERNAL_TONE_GENRATOR :: u32 where
  "HCI_FM_SET_INTERNAL_TONE_GENRATOR = 0x0008"

definition HCI_OGF_FM_RECV_CTRL_CMD_REQ :: u32 where "HCI_OGF_FM_RECV_CTRL_CMD_REQ = 0x0013"
definition HCI_OGF_FM_TRANS_CTRL_CMD_REQ :: u32 where "HCI_OGF_FM_TRANS_CTRL_CMD_REQ = 0x0014"
definition HCI_OGF_FM_COMMON_CTRL_CMD_REQ :: u32 where "HCI_OGF_FM_COMMON_CTRL_CMD_REQ = 0x0015"
definition HCI_OGF_FM_STATUS_PARAMETERS_CMD_REQ :: u32 where
  "HCI_OGF_FM_STATUS_PARAMETERS_CMD_REQ = 0x0016"
definition HCI_OGF_FM_TEST_CMD_REQ :: u32 where "HCI_OGF_FM_TEST_CMD_REQ = 0x0017"
definition HCI_OGF_FM_DIAGNOSTIC_CMD_REQ :: u32 where "HCI_OGF_FM_DIAGNOSTIC_CMD_REQ = 0x003F"

text \<open>Operands are promoted to \<^verbatim>\<open>int\<close>; the cast to \<^verbatim>\<open>__u16\<close> keeps the lower half.\<close>

definition hci_opcode_pack :: "u32 \<Rightarrow> u32 \<Rightarrow> u16" where
  "hci_opcode_pack ogf ocf = ucast ((ocf AND 0x03ff) OR push_bit 10 ogf)"

definition hci_opcode_ogf :: "u16 \<Rightarrow> u32" where
  "hci_opcode_ogf op = drop_bit 10 (ucast op)"

definition hci_opcode_ocf :: "u16 \<Rightarrow> u32" where
  "hci_opcode_ocf op = ucast op AND 0x03ff"

definition hci_recv_ctrl_cmd_op_pack :: "u32 \<Rightarrow> u16" where
  "hci_recv_ctrl_cmd_op_pack ocf = hci_opcode_pack HCI_OGF_FM_RECV_CTRL_CMD_REQ ocf"

definition hci_trans_ctrl_cmd_op_pack :: "u32 \<Rightarrow> u16" where
  "hci_trans_ctrl_cmd_op_pack ocf = hci_opcode_pack HCI_OGF_FM_TRANS_CTRL_CMD_REQ ocf"

definition hci_common_cmd_op_pack :: "u32 \<Rightarrow> u16" where
  "hci_common_cmd_op_pack ocf = hci_opcode_pack HCI_OGF_FM_COMMON_CTRL_CMD_REQ ocf"

definition hci_status_param_op_pack :: "u32 \<Rightarrow> u16" where
  "hci_status_param_op_pack ocf = hci_opcode_pack HCI_OGF_FM_STATUS_PARAMETERS_CMD_REQ ocf"

definition hci_diagnostic_cmd_op_pack :: "u32 \<Rightarrow> u16" where
  "hci_diagnostic_cmd_op_pack ocf = hci_opcode_pack HCI_OGF_FM_DIAGNOSTIC_CMD_REQ ocf"

text \<open>The commands of each group, under the headings of the header, with their opcodes.\<close>

definition recv_commands :: "(string \<times> u16) list" where
  "recv_commands =
    [(''HCI_OCF_FM_ENABLE_RECV_REQ'', hci_recv_ctrl_cmd_op_pack HCI_OCF_FM_ENABLE_RECV_REQ),
    (''HCI_OCF_FM_DISABLE_RECV_REQ'', hci_recv_ctrl_cmd_op_pack HCI_OCF_FM_DISABLE_RECV_REQ),
    (''HCI_OCF_FM_GET_RECV_CONF_REQ'', hci_recv_ctrl_cmd_op_pack HCI_OCF_FM_GET_RECV_CONF_REQ),
    (''HCI_OCF_FM_SET_RECV_CONF_REQ'', hci_recv_ctrl_cmd_op_pack HCI_OCF_FM_SET_RECV_CONF_REQ),
    (''HCI_OCF_FM_SET_MUTE_MODE_REQ'', hci_recv_ctrl_cmd_op_pack HCI_OCF_FM_SET_MUTE_MODE_REQ),
    (''HCI_OCF_FM_SET_STEREO_MODE_REQ'', hci_recv_ctrl_cmd_op_pack HCI_OCF_FM_SET_STEREO_MODE_REQ),
    (''HCI_OCF_FM_SET_ANTENNA'', hci_recv_ctrl_cmd_op_pack HCI_OCF_FM_SET_ANTENNA),
    (''HCI_OCF_FM_SET_SIGNAL_THRESHOLD'', hci_recv_ctrl_cmd_op_pack
    HCI_OCF_FM_SET_SIGNAL_THRESHOLD), (''HCI_OCF_FM_GET_SIGNAL_THRESHOLD'',
    hci_recv_ctrl_cmd_op_pack HCI_OCF_FM_GET_SIGNAL_THRESHOLD),
    (''HCI_OCF_FM_GET_STATION_PARAM_REQ'', hci_recv_ctrl_cmd_op_pack
    HCI_OCF_FM_GET_STATION_PARAM_REQ), (''HCI_OCF_FM_GET_PROGRAM_SERVICE_REQ'',
    hci_recv_ctrl_cmd_op_pack HCI_OCF_FM_GET_PROGRAM_SERVICE_REQ),
    (''HCI_OCF_FM_GET_RADIO_TEXT_REQ'', hci_recv_ctrl_cmd_op_pack HCI_OCF_FM_GET_RADIO_TEXT_REQ),
    (''HCI_OCF_FM_GET_AF_LIST_REQ'', hci_recv_ctrl_cmd_op_pack HCI_OCF_FM_GET_AF_LIST_REQ),
    (''HCI_OCF_FM_SEARCH_STATIONS'', hci_recv_ctrl_cmd_op_pack HCI_OCF_FM_SEARCH_STATIONS),
    (''HCI_OCF_FM_SEARCH_RDS_STATIONS'', hci_recv_ctrl_cmd_op_pack HCI_OCF_FM_SEARCH_RDS_STATIONS),
    (''HCI_OCF_FM_SEARCH_STATIONS_LIST'', hci_recv_ctrl_cmd_op_pack
    HCI_OCF_FM_SEARCH_STATIONS_LIST), (''HCI_OCF_FM_CANCEL_SEARCH'', hci_recv_ctrl_cmd_op_pack
    HCI_OCF_FM_CANCEL_SEARCH), (''HCI_OCF_FM_RDS_GRP'', hci_recv_ctrl_cmd_op_pack
    HCI_OCF_FM_RDS_GRP), (''HCI_OCF_FM_RDS_GRP_PROCESS'', hci_recv_ctrl_cmd_op_pack
    HCI_OCF_FM_RDS_GRP_PROCESS), (''HCI_OCF_FM_EN_WAN_AVD_CTRL'', hci_recv_ctrl_cmd_op_pack
    HCI_OCF_FM_EN_WAN_AVD_CTRL), (''HCI_OCF_FM_EN_NOTCH_CTRL'', hci_recv_ctrl_cmd_op_pack
    HCI_OCF_FM_EN_NOTCH_CTRL), (''HCI_OCF_FM_SET_EVENT_MASK'', hci_recv_ctrl_cmd_op_pack
    HCI_OCF_FM_SET_EVENT_MASK), (''HCI_OCF_FM_SET_CH_DET_THRESHOLD'', hci_recv_ctrl_cmd_op_pack
    HCI_OCF_FM_SET_CH_DET_THRESHOLD), (''HCI_OCF_FM_GET_CH_DET_THRESHOLD'',
    hci_recv_ctrl_cmd_op_pack HCI_OCF_FM_GET_CH_DET_THRESHOLD), (''HCI_OCF_FM_SET_BLND_TBL'',
    hci_recv_ctrl_cmd_op_pack HCI_OCF_FM_SET_BLND_TBL), (''HCI_OCF_FM_GET_BLND_TBL'',
    hci_recv_ctrl_cmd_op_pack HCI_OCF_FM_GET_BLND_TBL)]"

definition trans_commands :: "(string \<times> u16) list" where
  "trans_commands =
    [(''HCI_OCF_FM_ENABLE_TRANS_REQ'', hci_trans_ctrl_cmd_op_pack HCI_OCF_FM_ENABLE_TRANS_REQ),
    (''HCI_OCF_FM_DISABLE_TRANS_REQ'', hci_trans_ctrl_cmd_op_pack HCI_OCF_FM_DISABLE_TRANS_REQ),
    (''HCI_OCF_FM_GET_TRANS_CONF_REQ'', hci_trans_ctrl_cmd_op_pack HCI_OCF_FM_GET_TRANS_CONF_REQ),
    (''HCI_OCF_FM_SET_TRANS_CONF_REQ'', hci_trans_ctrl_cmd_op_pack HCI_OCF_FM_SET_TRANS_CONF_REQ),
    (''HCI_OCF_FM_RDS_RT_REQ'', hci_trans_ctrl_cmd_op_pack HCI_OCF_FM_RDS_RT_REQ),
    (''HCI_OCF_FM_RDS_PS_REQ'', hci_trans_ctrl_cmd_op_pack HCI_OCF_FM_RDS_PS_REQ)]"

definition common_commands :: "(string \<times> u16) list" where
  "common_commands =
    [(''HCI_OCF_FM_TUNE_STATION_REQ'', hci_common_cmd_op_pack HCI_OCF_FM_TUNE_STATION_REQ),
    (''HCI_OCF_FM_DEFAULT_DATA_READ'', hci_common_cmd_op_pack HCI_OCF_FM_DEFAULT_DATA_READ),
    (''HCI_OCF_FM_DEFAULT_DATA_WRITE'', hci_common_cmd_op_pack HCI_OCF_FM_DEFAULT_DATA_WRITE),
    (''HCI_OCF_FM_RESET'', hci_common_cmd_op_pack HCI_OCF_FM_RESET),
    (''HCI_OCF_FM_GET_FEATURE_LIST'', hci_common_cmd_op_pack HCI_OCF_FM_GET_FEATURE_LIST),
    (''HCI_OCF_FM_DO_CALIBRATION'', hci_common_cmd_op_pack HCI_OCF_FM_DO_CALIBRATION),
    (''HCI_OCF_FM_SET_CALIBRATION'', hci_common_cmd_op_pack HCI_OCF_FM_SET_CALIBRATION),
    (''HCI_OCF_FM_SET_SPUR_TABLE'', hci_common_cmd_op_pack HCI_OCF_FM_SET_SPUR_TABLE),
    (''HCI_OCF_FM_GET_SPUR_TABLE'', hci_common_cmd_op_pack HCI_OCF_FM_GET_SPUR_TABLE)]"

definition status_commands :: "(string \<times> u16) list" where
  "status_commands =
    [(''HCI_OCF_FM_READ_GRP_COUNTERS'', hci_status_param_op_pack HCI_OCF_FM_READ_GRP_COUNTERS)]"

definition diagnostic_commands :: "(string \<times> u16) list" where
  "diagnostic_commands =
    [(''HCI_OCF_FM_PEEK_DATA'', hci_diagnostic_cmd_op_pack HCI_OCF_FM_PEEK_DATA),
    (''HCI_OCF_FM_POKE_DATA'', hci_diagnostic_cmd_op_pack HCI_OCF_FM_POKE_DATA),
    (''HCI_OCF_FM_SSBI_PEEK_REG'', hci_diagnostic_cmd_op_pack HCI_OCF_FM_SSBI_PEEK_REG),
    (''HCI_OCF_FM_SSBI_POKE_REG'', hci_diagnostic_cmd_op_pack HCI_OCF_FM_SSBI_POKE_REG),
    (''HCI_OCF_FM_STATION_DBG_PARAM'', hci_diagnostic_cmd_op_pack HCI_OCF_FM_STATION_DBG_PARAM),
    (''HCI_FM_SET_INTERNAL_TONE_GENRATOR'', hci_diagnostic_cmd_op_pack
    HCI_FM_SET_INTERNAL_TONE_GENRATOR)]"

definition hci_commands :: "(string \<times> u16) list" where
  "hci_commands =
    recv_commands @ trans_commands @ common_commands @ status_commands @ diagnostic_commands"

section \<open>Events\<close>

definition event_codes_table :: "(string \<times> u8) list" where
  "event_codes_table =
    [(''HCI_EV_TUNE_STATUS'', 0x01), (''HCI_EV_RDS_LOCK_STATUS'', 0x02),
     (''HCI_EV_STEREO_STATUS'', 0x03), (''HCI_EV_SERVICE_AVAILABLE'', 0x04),
     (''HCI_EV_SEARCH_PROGRESS'', 0x05), (''HCI_EV_SEARCH_RDS_PROGRESS'', 0x06),
     (''HCI_EV_SEARCH_LIST_PROGRESS'', 0x07), (''HCI_EV_RDS_RX_DATA'', 0x08),
     (''HCI_EV_PROGRAM_SERVICE'', 0x09), (''HCI_EV_RADIO_TEXT'', 0x0A), (''HCI_EV_FM_AF_LIST'',
     0x0B), (''HCI_EV_TX_RDS_GRP_AVBLE'', 0x0C), (''HCI_EV_TX_RDS_GRP_COMPL'', 0x0D),
     (''HCI_EV_TX_RDS_CONT_GRP_COMPL'', 0x0E), (''HCI_EV_CMD_COMPLETE'', 0x0F),
     (''HCI_EV_CMD_STATUS'', 0x10), (''HCI_EV_TUNE_COMPLETE'', 0x11), (''HCI_EV_SEARCH_COMPLETE'',
     0x12), (''HCI_EV_SEARCH_RDS_COMPLETE'', 0x13), (''HCI_EV_SEARCH_LIST_COMPLETE'', 0x14)]"

definition event_codes :: "u8 list" where
  "event_codes = map snd event_codes_table"

section \<open>RDS groups\<close>

definition TAG1_MSB_OFFSET :: nat where "TAG1_MSB_OFFSET = 3"
definition TAG1_MSB_MASK :: nat where "TAG1_MSB_MASK = 7"
definition TAG1_LSB_OFFSET :: nat where "TAG1_LSB_OFFSET = 5"
definition TAG1_POS_MSB_MASK :: nat where "TAG1_POS_MSB_MASK = 31"
definition TAG1_POS_MSB_OFFSET :: nat where "TAG1_POS_MSB_OFFSET = 1"
definition TAG1_POS_LSB_OFFSET :: nat where "TAG1_POS_LSB_OFFSET = 7"
definition tag1_len_numbers :: "(string \<times> nat) list" where
  "tag1_len_numbers =
    [(''TAG1_LEN_OFFSET'', 1), (''TAG1_LEN_MASK'', 63)]"

definition TAG2_MSB_OFFSET :: nat where "TAG2_MSB_OFFSET = 5"
definition TAG2_MSB_MASK :: nat where "TAG2_MSB_MASK = 1"
definition TAG2_LSB_OFFSET :: nat where "TAG2_LSB_OFFSET = 3"
definition TAG2_POS_MSB_MASK :: nat where "TAG2_POS_MSB_MASK = 7"
definition TAG2_POS_MSB_OFFSET :: nat where "TAG2_POS_MSB_OFFSET = 3"
definition TAG2_POS_LSB_OFFSET :: nat where "TAG2_POS_LSB_OFFSET = 5"
definition TAG2_LEN_MASK :: nat where "TAG2_LEN_MASK = 31"

text \<open>
  Fields of the RadioText Plus tags that straddle two bytes: the mask of the bits of the first
  byte, how far they move up, and how far the second byte moves down.
\<close>

definition rt_plus_fields :: "(nat \<times> nat \<times> nat) list" where
  "rt_plus_fields =
    [(TAG1_MSB_MASK, TAG1_MSB_OFFSET, TAG1_LSB_OFFSET),
     (TAG1_POS_MSB_MASK, TAG1_POS_MSB_OFFSET, TAG1_POS_LSB_OFFSET),
     (TAG2_MSB_MASK, TAG2_MSB_OFFSET, TAG2_LSB_OFFSET),
     (TAG2_POS_MSB_MASK, TAG2_POS_MSB_OFFSET, TAG2_POS_LSB_OFFSET)]"

definition grp_3a_numbers :: "(string \<times> nat) list" where
  "grp_3a_numbers =
    [(''GRP_3A'', 0x6), (''RT_PLUS_AID'', 0x4bd7), (''ERT_AID'', 0x6552), (''CARRIAGE_RETURN'',
     0x000D), (''MAX_ERT_SEGMENT'', 31), (''ERT_FORMAT_DIR_BIT'', 1)]"

definition AGT_MASK :: u32 where "AGT_MASK = 31"

definition AGT :: "u32 \<Rightarrow> u32" where
  "AGT x = x AND AGT_MASK"

definition AID :: "u32 \<Rightarrow> u32 \<Rightarrow> u32" where
  "AID lsb msb = push_bit 8 msb OR lsb"

definition GTC :: "u32 \<Rightarrow> u32" where
  "GTC blk2msb = drop_bit 3 blk2msb"

text \<open>Of \<^verbatim>\<open>int\<close> operands: the shift to the right is arithmetic.\<close>

definition EXTRACT_BIT :: "u32 \<Rightarrow> nat \<Rightarrow> u32" where
  "EXTRACT_BIT data bit_pos = signed_drop_bit bit_pos (data AND push_bit bit_pos 1)"

section \<open>Spur table\<close>

definition clkspurid_numbers :: "(string \<times> nat) list" where
  "clkspurid_numbers =
    [(''CLKSPURID_INDEX0'', 0), (''CLKSPURID_INDEX1'', 5), (''CLKSPURID_INDEX2'', 10),
     (''CLKSPURID_INDEX3'', 15), (''CLKSPURID_INDEX4'', 20)]"

definition CLKSPURID_INDEX5 :: nat where "CLKSPURID_INDEX5 = 25"
definition MAX_SPUR_FREQ_LIMIT :: nat where "MAX_SPUR_FREQ_LIMIT = 30"
definition ckk_spur_numbers :: "(string \<times> nat) list" where
  "ckk_spur_numbers =
    [(''CKK_SPUR'', 0x3B), (''SPUR_DATA_SIZE'', 0x4)]"

definition SPUR_ENTRIES_PER_ID :: nat where "SPUR_ENTRIES_PER_ID = 0x5"

text \<open>Frequencies are \<^verbatim>\<open>__u32\<close> values in kHz: the difference wraps around below 76 MHz.\<close>

definition COMPUTE_SPUR :: "u32 \<Rightarrow> u32" where
  "COMPUTE_SPUR val = (val - 76000) div 50"

definition GET_FREQ :: "u32 \<Rightarrow> u32 \<Rightarrow> u32" where
  "GET_FREQ val b = (if b = 1 then drop_bit 8 val else val AND 0xFF)"

definition GET_SPUR_ENTRY_LEVEL :: "u32 \<Rightarrow> u32" where
  "GET_SPUR_ENTRY_LEVEL val = val div 5"

definition GET_MSB :: "u32 \<Rightarrow> u32" where
  "GET_MSB x = drop_bit 8 x AND 0xFF"

definition GET_LSB :: "u32 \<Rightarrow> u32" where
  "GET_LSB x = x AND 0xFF"

section \<open>States and modes\<close>

datatype radio_state_t =
    FM_OFF | FM_RECV | FM_TRANS | FM_RESET | FM_CALIB | FM_TURNING_OFF | FM_RECV_TURNING_ON |
    FM_TRANS_TURNING_ON | FM_MAX_NO_STATES

fun radio_state_t_code :: "radio_state_t \<Rightarrow> u32" where
  "radio_state_t_code FM_OFF = 0"
| "radio_state_t_code FM_RECV = 1"
| "radio_state_t_code FM_TRANS = 2"
| "radio_state_t_code FM_RESET = 3"
| "radio_state_t_code FM_CALIB = 4"
| "radio_state_t_code FM_TURNING_OFF = 5"
| "radio_state_t_code FM_RECV_TURNING_ON = 6"
| "radio_state_t_code FM_TRANS_TURNING_ON = 7"
| "radio_state_t_code FM_MAX_NO_STATES = 8"

datatype emphasis_type =
    FM_RX_EMP75 | FM_RX_EMP50

fun emphasis_type_code :: "emphasis_type \<Rightarrow> u32" where
  "emphasis_type_code FM_RX_EMP75 = 0"
| "emphasis_type_code FM_RX_EMP50 = 1"

datatype channel_space_type =
    FM_RX_SPACE_200KHZ | FM_RX_SPACE_100KHZ | FM_RX_SPACE_50KHZ

fun channel_space_type_code :: "channel_space_type \<Rightarrow> u32" where
  "channel_space_type_code FM_RX_SPACE_200KHZ = 0"
| "channel_space_type_code FM_RX_SPACE_100KHZ = 1"
| "channel_space_type_code FM_RX_SPACE_50KHZ = 2"

datatype high_low_injection =
    AUTO_HI_LO_INJECTION | LOW_SIDE_INJECTION | HIGH_SIDE_INJECTION

fun high_low_injection_code :: "high_low_injection \<Rightarrow> u32" where
  "high_low_injection_code AUTO_HI_LO_INJECTION = 0"
| "high_low_injection_code LOW_SIDE_INJECTION = 1"
| "high_low_injection_code HIGH_SIDE_INJECTION = 2"

datatype fm_rds_type =
    FM_RX_RDBS_SYSTEM | FM_RX_RDS_SYSTEM

fun fm_rds_type_code :: "fm_rds_type \<Rightarrow> u32" where
  "fm_rds_type_code FM_RX_RDBS_SYSTEM = 0"
| "fm_rds_type_code FM_RX_RDS_SYSTEM = 1"

datatype iris_region_t =
    IRIS_REGION_US | IRIS_REGION_EU | IRIS_REGION_JAPAN | IRIS_REGION_JAPAN_WIDE | IRIS_REGION_OTHER

fun iris_region_t_code :: "iris_region_t \<Rightarrow> u32" where
  "iris_region_t_code IRIS_REGION_US = 0"
| "iris_region_t_code IRIS_REGION_EU = 1"
| "iris_region_t_code IRIS_REGION_JAPAN = 2"
| "iris_region_t_code IRIS_REGION_JAPAN_WIDE = 3"
| "iris_region_t_code IRIS_REGION_OTHER = 4"

datatype iris_buf_t =
    IRIS_BUF_SRCH_LIST | IRIS_BUF_EVENTS | IRIS_BUF_RT_RDS | IRIS_BUF_PS_RDS | IRIS_BUF_RAW_RDS |
    IRIS_BUF_AF_LIST | IRIS_BUF_PEEK | IRIS_BUF_SSBI_PEEK | IRIS_BUF_RDS_CNTRS | IRIS_BUF_RD_DEFAULT
    | IRIS_BUF_CAL_DATA | IRIS_BUF_RT_PLUS | IRIS_BUF_ERT | IRIS_BUF_SPUR | IRIS_BUF_MAX

fun iris_buf_t_code :: "iris_buf_t \<Rightarrow> u32" where
  "iris_buf_t_code IRIS_BUF_SRCH_LIST = 0"
| "iris_buf_t_code IRIS_BUF_EVENTS = 1"
| "iris_buf_t_code IRIS_BUF_RT_RDS = 2"
| "iris_buf_t_code IRIS_BUF_PS_RDS = 3"
| "iris_buf_t_code IRIS_BUF_RAW_RDS = 4"
| "iris_buf_t_code IRIS_BUF_AF_LIST = 5"
| "iris_buf_t_code IRIS_BUF_PEEK = 6"
| "iris_buf_t_code IRIS_BUF_SSBI_PEEK = 7"
| "iris_buf_t_code IRIS_BUF_RDS_CNTRS = 8"
| "iris_buf_t_code IRIS_BUF_RD_DEFAULT = 9"
| "iris_buf_t_code IRIS_BUF_CAL_DATA = 10"
| "iris_buf_t_code IRIS_BUF_RT_PLUS = 11"
| "iris_buf_t_code IRIS_BUF_ERT = 12"
| "iris_buf_t_code IRIS_BUF_SPUR = 13"
| "iris_buf_t_code IRIS_BUF_MAX = 14"

datatype iris_xfr_t =
    IRIS_XFR_SYNC | IRIS_XFR_ERROR | IRIS_XFR_SRCH_LIST | IRIS_XFR_RT_RDS | IRIS_XFR_PS_RDS |
    IRIS_XFR_AF_LIST | IRIS_XFR_MAX

fun iris_xfr_t_code :: "iris_xfr_t \<Rightarrow> u32" where
  "iris_xfr_t_code IRIS_XFR_SYNC = 0"
| "iris_xfr_t_code IRIS_XFR_ERROR = 1"
| "iris_xfr_t_code IRIS_XFR_SRCH_LIST = 2"
| "iris_xfr_t_code IRIS_XFR_RT_RDS = 3"
| "iris_xfr_t_code IRIS_XFR_PS_RDS = 4"
| "iris_xfr_t_code IRIS_XFR_AF_LIST = 5"
| "iris_xfr_t_code IRIS_XFR_MAX = 6"

datatype search_t =
    SEEK | SCAN | SCAN_FOR_STRONG | SCAN_FOR_WEAK | RDS_SEEK_PTY | RDS_SCAN_PTY | RDS_SEEK_PI |
    RDS_AF_JUMP

fun search_t_code :: "search_t \<Rightarrow> u32" where
  "search_t_code SEEK = 0"
| "search_t_code SCAN = 1"
| "search_t_code SCAN_FOR_STRONG = 2"
| "search_t_code SCAN_FOR_WEAK = 3"
| "search_t_code RDS_SEEK_PTY = 4"
| "search_t_code RDS_SCAN_PTY = 5"
| "search_t_code RDS_SEEK_PI = 6"
| "search_t_code RDS_AF_JUMP = 7"

datatype spur_entry_levels =
    ENTRY_0 | ENTRY_1 | ENTRY_2 | ENTRY_3 | ENTRY_4 | ENTRY_5

fun spur_entry_levels_code :: "spur_entry_levels \<Rightarrow> u32" where
  "spur_entry_levels_code ENTRY_0 = 0"
| "spur_entry_levels_code ENTRY_1 = 1"
| "spur_entry_levels_code ENTRY_2 = 2"
| "spur_entry_levels_code ENTRY_3 = 3"
| "spur_entry_levels_code ENTRY_4 = 4"
| "spur_entry_levels_code ENTRY_5 = 5"

section \<open>Controls and events of the driver\<close>

definition v4l2_cid_private_iris_t :: "(string \<times> nat) list" where
  "v4l2_cid_private_iris_t =
    enum_run 0x8000001
      [''V4L2_CID_PRIVATE_IRIS_SRCHMODE'', ''V4L2_CID_PRIVATE_IRIS_SCANDWELL'',
      ''V4L2_CID_PRIVATE_IRIS_SRCHON'', ''V4L2_CID_PRIVATE_IRIS_STATE'',
      ''V4L2_CID_PRIVATE_IRIS_TRANSMIT_MODE'', ''V4L2_CID_PRIVATE_IRIS_RDSGROUP_MASK'',
      ''V4L2_CID_PRIVATE_IRIS_REGION'', ''V4L2_CID_PRIVATE_IRIS_SIGNAL_TH'',
      ''V4L2_CID_PRIVATE_IRIS_SRCH_PTY'', ''V4L2_CID_PRIVATE_IRIS_SRCH_PI'',
      ''V4L2_CID_PRIVATE_IRIS_SRCH_CNT'', ''V4L2_CID_PRIVATE_IRIS_EMPHASIS'',
      ''V4L2_CID_PRIVATE_IRIS_RDS_STD'', ''V4L2_CID_PRIVATE_IRIS_SPACING'',
      ''V4L2_CID_PRIVATE_IRIS_RDSON'', ''V4L2_CID_PRIVATE_IRIS_RDSGROUP_PROC'',
      ''V4L2_CID_PRIVATE_IRIS_LP_MODE'', ''V4L2_CID_PRIVATE_IRIS_ANTENNA'',
      ''V4L2_CID_PRIVATE_IRIS_RDSD_BUF'', ''V4L2_CID_PRIVATE_IRIS_PSALL'',
      ''V4L2_CID_PRIVATE_IRIS_TX_SETPSREPEATCOUNT'', ''V4L2_CID_PRIVATE_IRIS_STOP_RDS_TX_PS_NAME'',
      ''V4L2_CID_PRIVATE_IRIS_STOP_RDS_TX_RT'', ''V4L2_CID_PRIVATE_IRIS_IOVERC'',
      ''V4L2_CID_PRIVATE_IRIS_INTDET'', ''V4L2_CID_PRIVATE_IRIS_MPX_DCC'',
      ''V4L2_CID_PRIVATE_IRIS_AF_JUMP'', ''V4L2_CID_PRIVATE_IRIS_RSSI_DELTA'',
      ''V4L2_CID_PRIVATE_IRIS_HLSI'', ''V4L2_CID_PRIVATE_IRIS_SOFT_MUTE'',
      ''V4L2_CID_PRIVATE_IRIS_RIVA_ACCS_ADDR'', ''V4L2_CID_PRIVATE_IRIS_RIVA_ACCS_LEN'',
      ''V4L2_CID_PRIVATE_IRIS_RIVA_PEEK'', ''V4L2_CID_PRIVATE_IRIS_RIVA_POKE'',
      ''V4L2_CID_PRIVATE_IRIS_SSBI_ACCS_ADDR'', ''V4L2_CID_PRIVATE_IRIS_SSBI_PEEK'',
      ''V4L2_CID_PRIVATE_IRIS_SSBI_POKE'', ''V4L2_CID_PRIVATE_IRIS_TX_TONE'',
      ''V4L2_CID_PRIVATE_IRIS_RDS_GRP_COUNTERS'', ''V4L2_CID_PRIVATE_IRIS_SET_NOTCH_FILTER'',
      ''V4L2_CID_PRIVATE_IRIS_SET_AUDIO_PATH'', ''V4L2_CID_PRIVATE_IRIS_DO_CALIBRATION'',
      ''V4L2_CID_PRIVATE_IRIS_SRCH_ALGORITHM'', ''V4L2_CID_PRIVATE_IRIS_GET_SINR'',
      ''V4L2_CID_PRIVATE_INTF_LOW_THRESHOLD'', ''V4L2_CID_PRIVATE_INTF_HIGH_THRESHOLD'',
      ''V4L2_CID_PRIVATE_SINR_THRESHOLD'', ''V4L2_CID_PRIVATE_SINR_SAMPLES'',
      ''V4L2_CID_PRIVATE_SPUR_FREQ'', ''V4L2_CID_PRIVATE_SPUR_FREQ_RMSSI'',
      ''V4L2_CID_PRIVATE_SPUR_SELECTION'', ''V4L2_CID_PRIVATE_UPDATE_SPUR_TABLE'',
      ''V4L2_CID_PRIVATE_VALID_CHANNEL'', ''V4L2_CID_PRIVATE_AF_RMSSI_TH'',
      ''V4L2_CID_PRIVATE_AF_RMSSI_SAMPLES'', ''V4L2_CID_PRIVATE_GOOD_CH_RMSSI_TH'',
      ''V4L2_CID_PRIVATE_SRCHALGOTYPE'', ''V4L2_CID_PRIVATE_CF0TH12'',
      ''V4L2_CID_PRIVATE_SINRFIRSTSTAGE'', ''V4L2_CID_PRIVATE_RMSSIFIRSTSTAGE'',
      ''V4L2_CID_PRIVATE_RXREPEATCOUNT'', ''V4L2_CID_PRIVATE_IRIS_RSSI_TH'',
      ''V4L2_CID_PRIVATE_IRIS_AF_JUMP_RSSI_TH'', ''V4L2_CID_PRIVATE_BLEND_SINRHI'',
      ''V4L2_CID_PRIVATE_BLEND_RMSSIHI''] @
    enum_run 0x980928
      [''V4L2_CID_PRIVATE_IRIS_READ_DEFAULT'', ''V4L2_CID_PRIVATE_IRIS_WRITE_DEFAULT'',
      ''V4L2_CID_PRIVATE_IRIS_SET_CALIBRATION''] @
    enum_run 0x98092d
      [''V4L2_CID_PRIVATE_IRIS_SET_SPURTABLE'', ''V4L2_CID_PRIVATE_IRIS_GET_SPUR_TBL'']"

datatype iris_evt_t =
    IRIS_EVT_RADIO_READY | IRIS_EVT_TUNE_SUCC | IRIS_EVT_SEEK_COMPLETE | IRIS_EVT_SCAN_NEXT |
    IRIS_EVT_NEW_RAW_RDS | IRIS_EVT_NEW_RT_RDS | IRIS_EVT_NEW_PS_RDS | IRIS_EVT_ERROR |
    IRIS_EVT_BELOW_TH | IRIS_EVT_ABOVE_TH | IRIS_EVT_STEREO | IRIS_EVT_MONO | IRIS_EVT_RDS_AVAIL |
    IRIS_EVT_RDS_NOT_AVAIL | IRIS_EVT_NEW_SRCH_LIST | IRIS_EVT_NEW_AF_LIST | IRIS_EVT_TXRDSDAT |
    IRIS_EVT_TXRDSDONE | IRIS_EVT_RADIO_DISABLED | IRIS_EVT_NEW_ODA | IRIS_EVT_NEW_RT_PLUS |
    IRIS_EVT_NEW_ERT | IRIS_EVT_SPUR_TBL

fun iris_evt_t_code :: "iris_evt_t \<Rightarrow> u32" where
  "iris_evt_t_code IRIS_EVT_RADIO_READY = 0"
| "iris_evt_t_code IRIS_EVT_TUNE_SUCC = 1"
| "iris_evt_t_code IRIS_EVT_SEEK_COMPLETE = 2"
| "iris_evt_t_code IRIS_EVT_SCAN_NEXT = 3"
| "iris_evt_t_code IRIS_EVT_NEW_RAW_RDS = 4"
| "iris_evt_t_code IRIS_EVT_NEW_RT_RDS = 5"
| "iris_evt_t_code IRIS_EVT_NEW_PS_RDS = 6"
| "iris_evt_t_code IRIS_EVT_ERROR = 7"
| "iris_evt_t_code IRIS_EVT_BELOW_TH = 8"
| "iris_evt_t_code IRIS_EVT_ABOVE_TH = 9"
| "iris_evt_t_code IRIS_EVT_STEREO = 10"
| "iris_evt_t_code IRIS_EVT_MONO = 11"
| "iris_evt_t_code IRIS_EVT_RDS_AVAIL = 12"
| "iris_evt_t_code IRIS_EVT_RDS_NOT_AVAIL = 13"
| "iris_evt_t_code IRIS_EVT_NEW_SRCH_LIST = 14"
| "iris_evt_t_code IRIS_EVT_NEW_AF_LIST = 15"
| "iris_evt_t_code IRIS_EVT_TXRDSDAT = 16"
| "iris_evt_t_code IRIS_EVT_TXRDSDONE = 17"
| "iris_evt_t_code IRIS_EVT_RADIO_DISABLED = 18"
| "iris_evt_t_code IRIS_EVT_NEW_ODA = 19"
| "iris_evt_t_code IRIS_EVT_NEW_RT_PLUS = 20"
| "iris_evt_t_code IRIS_EVT_NEW_ERT = 21"
| "iris_evt_t_code IRIS_EVT_SPUR_TBL = 22"

section \<open>Lemmas\<close>

lemmas radio_ogf =
  HCI_OGF_FM_RECV_CTRL_CMD_REQ_def HCI_OGF_FM_TRANS_CTRL_CMD_REQ_def
  HCI_OGF_FM_COMMON_CTRL_CMD_REQ_def HCI_OGF_FM_STATUS_PARAMETERS_CMD_REQ_def
  HCI_OGF_FM_TEST_CMD_REQ_def HCI_OGF_FM_DIAGNOSTIC_CMD_REQ_def

lemmas radio_ocf =
  HCI_OCF_FM_ENABLE_RECV_REQ_def HCI_OCF_FM_DISABLE_RECV_REQ_def HCI_OCF_FM_GET_RECV_CONF_REQ_def
  HCI_OCF_FM_SET_RECV_CONF_REQ_def HCI_OCF_FM_SET_MUTE_MODE_REQ_def
  HCI_OCF_FM_SET_STEREO_MODE_REQ_def HCI_OCF_FM_SET_ANTENNA_def HCI_OCF_FM_SET_SIGNAL_THRESHOLD_def
  HCI_OCF_FM_GET_SIGNAL_THRESHOLD_def HCI_OCF_FM_GET_STATION_PARAM_REQ_def
  HCI_OCF_FM_GET_PROGRAM_SERVICE_REQ_def HCI_OCF_FM_GET_RADIO_TEXT_REQ_def
  HCI_OCF_FM_GET_AF_LIST_REQ_def HCI_OCF_FM_SEARCH_STATIONS_def HCI_OCF_FM_SEARCH_RDS_STATIONS_def
  HCI_OCF_FM_SEARCH_STATIONS_LIST_def HCI_OCF_FM_CANCEL_SEARCH_def HCI_OCF_FM_RDS_GRP_def
  HCI_OCF_FM_RDS_GRP_PROCESS_def HCI_OCF_FM_EN_WAN_AVD_CTRL_def HCI_OCF_FM_EN_NOTCH_CTRL_def
  HCI_OCF_FM_SET_EVENT_MASK_def HCI_OCF_FM_SET_CH_DET_THRESHOLD_def
  HCI_OCF_FM_GET_CH_DET_THRESHOLD_def HCI_OCF_FM_SET_BLND_TBL_def HCI_OCF_FM_GET_BLND_TBL_def
  HCI_OCF_FM_ENABLE_TRANS_REQ_def HCI_OCF_FM_DISABLE_TRANS_REQ_def HCI_OCF_FM_GET_TRANS_CONF_REQ_def
  HCI_OCF_FM_SET_TRANS_CONF_REQ_def HCI_OCF_FM_RDS_RT_REQ_def HCI_OCF_FM_RDS_PS_REQ_def
  HCI_OCF_FM_TUNE_STATION_REQ_def HCI_OCF_FM_DEFAULT_DATA_READ_def HCI_OCF_FM_DEFAULT_DATA_WRITE_def
  HCI_OCF_FM_RESET_def HCI_OCF_FM_GET_FEATURE_LIST_def HCI_OCF_FM_DO_CALIBRATION_def
  HCI_OCF_FM_SET_CALIBRATION_def HCI_OCF_FM_SET_SPUR_TABLE_def HCI_OCF_FM_GET_SPUR_TABLE_def
  HCI_OCF_FM_READ_GRP_COUNTERS_def HCI_OCF_FM_PEEK_DATA_def HCI_OCF_FM_POKE_DATA_def
  HCI_OCF_FM_SSBI_PEEK_REG_def HCI_OCF_FM_SSBI_POKE_REG_def HCI_OCF_FM_STATION_DBG_PARAM_def
  HCI_FM_SET_INTERNAL_TONE_GENRATOR_def

lemmas command_lists =
  recv_commands_def trans_commands_def common_commands_def status_commands_def
  diagnostic_commands_def

lemmas op_packs =
  hci_recv_ctrl_cmd_op_pack_def hci_trans_ctrl_cmd_op_pack_def hci_common_cmd_op_pack_def
  hci_status_param_op_pack_def hci_diagnostic_cmd_op_pack_def

lemma unat_hci_opcode_pack:
  assumes "unat ogf < 64"
  shows "unat (hci_opcode_pack ogf ocf) = unat ogf * 1024 + unat ocf mod 1024"
proof -
  have ocf: "unat (ocf AND 0x3ff) = unat ocf mod 1024"
    using unat_field [of 0 ocf 10] by (simp add: mask_eq_exp_minus_1)
  have "unat ((ocf AND 0x3ff) OR push_bit 10 ogf) = unat ogf * 2 ^ 10 + unat (ocf AND 0x3ff)"
    using or_is_plus [of "ocf AND 0x3ff" 10 ogf] assms by (simp add: ocf or.commute)
  then have sum: "unat ((ocf AND 0x3ff) OR push_bit 10 ogf) = unat ogf * 1024 + unat ocf mod 1024"
    by (simp add: ocf)
  have "unat ogf * 1024 + unat ocf mod 1024 < 65536"
    using assms mod_less_divisor [of 1024 "unat ocf"] by linarith
  then show ?thesis
    by (simp add: hci_opcode_pack_def unsigned_ucast_eq sum take_bit_nat_eq_self)
qed

lemma unat_hci_opcode_ogf: "unat (hci_opcode_ogf op) = unat op div 1024"
  by (simp add: hci_opcode_ogf_def unat_drop_bit_eq unat_ucast_up del: drop_bit_numeral_bit0)
     (simp add: drop_bit_eq_div)

lemma unat_hci_opcode_ocf: "unat (hci_opcode_ocf op) = unat op mod 1024"
  using unat_field [of 0 "ucast op :: u32" 10]
  by (simp add: hci_opcode_ocf_def unat_ucast_up mask_eq_exp_minus_1)

lemma hci_opcode_fields:
  assumes "unat ogf < 64" and "unat ocf < 1024"
  shows "hci_opcode_ogf (hci_opcode_pack ogf ocf) = ogf"
    and "hci_opcode_ocf (hci_opcode_pack ogf ocf) = ocf"
  using assms
  by (simp_all add: word_unat_eq_iff unat_hci_opcode_ogf unat_hci_opcode_ocf unat_hci_opcode_pack)

lemma hci_opcode_pack_fields: "hci_opcode_pack (hci_opcode_ogf op) (hci_opcode_ocf op) = op"
proof -
  have "unat op < 65536"
    using unsigned_less [of op, where 'a = nat] by simp
  then have "unat (hci_opcode_ogf op) < 64"
    by (simp add: unat_hci_opcode_ogf less_mult_imp_div_less)
  then show ?thesis
    by (simp add: word_unat_eq_iff unat_hci_opcode_pack unat_hci_opcode_ogf unat_hci_opcode_ocf
        div_mult_mod_eq)
qed

lemma hci_commands_distinct: "distinct (map snd hci_commands)"
proof -
  have "distinct (map unat (map snd hci_commands))"
    by (simp add: hci_commands_def command_lists op_packs unat_hci_opcode_pack radio_ogf radio_ocf)
  then show ?thesis by (simp only: distinct_map)
qed

section \<open>Properties\<close>

text \<open>
  C27. Command opcodes: a group below 64 and a command below 1024 come back from the packed
  opcode, every 16-bit opcode is the packing of its two parts, and no two commands of the header,
  of whatever group, have the same opcode.
\<close>

theorem hci_opcode_round_trip:
  "(unat ogf < 64 \<and> unat ocf < 1024 \<longrightarrow>
      hci_opcode_ogf (hci_opcode_pack ogf ocf) = ogf \<and>
      hci_opcode_ocf (hci_opcode_pack ogf ocf) = ocf) \<and>
   hci_opcode_pack (hci_opcode_ogf op) (hci_opcode_ocf op) = op \<and>
   distinct (map snd hci_commands)"
  using hci_opcode_fields [of ogf ocf] hci_opcode_pack_fields [of op] hci_commands_distinct
  by blast

theorem hci_opcode_round_trip_witness:
  "hci_opcode_ocf (hci_diagnostic_cmd_op_pack HCI_OCF_FM_POKE_DATA) = HCI_OCF_FM_POKE_DATA"
  using hci_opcode_round_trip [of HCI_OGF_FM_DIAGNOSTIC_CMD_REQ HCI_OCF_FM_POKE_DATA]
  by (simp add: hci_diagnostic_cmd_op_pack_def HCI_OGF_FM_DIAGNOSTIC_CMD_REQ_def
      HCI_OCF_FM_POKE_DATA_def)

text \<open>
  The length of a packet's parameters is one byte (\<^verbatim>\<open>plen\<close>). Every parameter struct fits,
  and has the same bytes on 32-bit and 64-bit hosts, but for the memory write
  (\<^verbatim>\<open>hci_fm_riva_poke\<close>), which declares 257 bytes; with the largest access length the controls
  allow, what is sent of it has exactly 255.
\<close>

lemma packet_parameters_fit:
  "filter (\<lambda>(n, t). 255 < csize dm t) packet_parameters =
     [(''hci_fm_riva_poke'', struct_hci_fm_riva_poke)] \<and>
   csize dm struct_hci_fm_riva_poke = 257 \<and>
   int (csize dm struct_hci_fm_riva_data) + MAX_PEEK_ACCESS_LEN = 255 \<and>
   list_all (\<lambda>(n, t). fixed_width t) packet_parameters \<and>
   RADIO_HCI_COMMAND_HDR_SIZE dm = 3 \<and> RADIO_HCI_EVENT_HDR_SIZE dm = 2"
  by (cases dm; hypsubst; intro conjI; code_simp)

text \<open>
  The byte offsets at which events and responses are read are the offsets of the fields they
  stand for: programme service, radio text, alternative frequencies, raw RDS groups, default
  data, calibration data and spur table.
\<close>

lemma event_offsets:
  "coffset dm struct_hci_ev_prg_service ''pi_prg_id'' = Some RDS_PID_HIGHER \<and>
   coffset dm struct_hci_ev_prg_service ''pty_prg_type'' = Some RDS_PTYPE \<and>
   coffset dm struct_hci_ev_prg_service ''ps_num'' = Some RDS_PS_LENGTH_OFFSET \<and>
   coffset dm struct_hci_ev_prg_service ''prg_service_name'' = Some RDS_PS_DATA_OFFSET \<and>
   coffset dm struct_hci_ev_radio_text ''txt_ab_flag'' = Some RT_A_B_FLAG_OFFSET \<and>
   coffset dm struct_hci_ev_radio_text ''radio_txt'' = Some RDS_OFFSET \<and>
   coffset dm struct_hci_ev_af_list ''pi_code'' = Some PI_CODE_OFFSET \<and>
   coffset dm struct_hci_ev_af_list ''af_size'' = Some AF_SIZE_OFFSET \<and>
   coffset dm struct_hci_ev_af_list ''af_list'' = Some AF_LIST_OFFSET \<and>
   coffset dm struct_hci_ev_rds_rx_data ''rds_grp_data'' = Some RDSGRP_DATA_OFFSET \<and>
   csize dm struct_rds_grp_data = RDS_BLOCKS_NUM * BYTES_PER_BLOCK \<and>
   coffset dm struct_hci_fm_def_data_wr_req ''data'' = Some DEFAULT_DATA_OFFSET \<and>
   coffset dm struct_hci_fm_data_rd_rsp ''data'' = Some DEFAULT_DATA_OFFSET \<and>
   coffset dm struct_hci_cc_do_calibration_rsp ''mode'' = Some CALIB_MODE_OFSET \<and>
   coffset dm struct_hci_cc_do_calibration_rsp ''data'' = Some CALIB_DATA_OFSET \<and>
   coffset dm struct_hci_fm_set_spur_table_req ''spur_data'' = Some SPUR_DATA_INDEX \<and>
   csize dm struct_hci_fm_riva_data = RIVA_PEEK_PARAM"
  by (cases dm; hypsubst; intro conjI; code_simp)

text \<open>
  The parts of the tables add up: the calibration data is the process, DC and RSB parts, a spur
  command carries its entries, the spur limit is six clocks of five entries.
\<close>

lemma radio_sizes:
  "MAX_CALIB_SIZE = PROCS_CALIB_SIZE + DC_CALIB_SIZE + RSB_CALIB_SIZE"
  "FM_SPUR_TBL_SIZE = ENTRIES_EACH_CMD * SPUR_DATA_LEN"
  "MAX_SPUR_FREQ_LIMIT = CLKSPURID_INDEX5 + SPUR_ENTRIES_PER_ID"
  "FM_TX_PWR_LVL_MAX * FM_TX_PWR_LVL_STEP_SIZE \<le> 255"
  "AF_LIST_MAX * 4 = FM_AF_LIST_MAX_SIZE"
  by code_simp+

lemma control_ranges_ordered: "list_all (\<lambda>(lo, hi). lo \<le> hi) control_ranges"
  by code_simp

lemma control_ids_distinct: "distinct (map snd v4l2_cid_private_iris_t)"
  by code_simp

text \<open>The addresses the comments of the control enumeration give are the values of the constants.\<close>

lemma control_ids_commented:
  "map_of v4l2_cid_private_iris_t ''V4L2_CID_PRIVATE_IRIS_PSALL'' = Some 0x8000014"
  "map_of v4l2_cid_private_iris_t ''V4L2_CID_PRIVATE_IRIS_HLSI'' = Some 0x800001d"
  "map_of v4l2_cid_private_iris_t ''V4L2_CID_PRIVATE_IRIS_SET_NOTCH_FILTER'' = Some 0x8000028"
  by code_simp+

lemma event_codes_run: "map unat event_codes = [1..<21]"
  by code_simp

text \<open>A straddling field is filled without overlap: what moves up ends where the rest begins.\<close>

lemma rt_plus_fields_join:
  "list_all (\<lambda>(m, up, down). up + down = 8 \<and> m < 2 ^ (6 - up)) rt_plus_fields"
  by code_simp

lemma EXTRACT_BIT_spec:
  assumes "n < 31"
  shows "EXTRACT_BIT data n = of_bool (bit data n)"
  by (rule bit_word_eqI) (use assms in \<open>auto simp: EXTRACT_BIT_def bit_simps\<close>)

text \<open>
  Spur frequencies: for a frequency of the FM bands (76 MHz to 108 MHz) that lies on the 50 kHz
  grid, the two bytes of its spur index each fit a byte and give the frequency back; a frequency
  below 76 MHz wraps around to an index no pair of bytes can hold.
\<close>

lemma spur_round_trip:
  "(unat f \<in> {76000..108000} \<and> 50 dvd unat f \<longrightarrow>
      unat (GET_FREQ (COMPUTE_SPUR f) 1) < 256 \<and> unat (GET_FREQ (COMPUTE_SPUR f) 0) < 256 \<and>
      76000 + 50 * (256 * GET_FREQ (COMPUTE_SPUR f) 1 + GET_FREQ (COMPUTE_SPUR f) 0) = f) \<and>
   (unat f < 76000 \<longrightarrow> 0x10000 \<le> COMPUTE_SPUR f)"
proof (intro conjI impI)
  assume f: "unat f \<in> {76000..108000} \<and> 50 dvd unat f"
  then obtain m where "unat f = 50 * m" by (auto elim: dvdE)
  with f have k: "unat f = 76000 + 50 * (m - 1520)" and k_le: "m - 1520 \<le> 640" by auto
  define k where "k = m - 1520"
  note k = k [folded k_def] and k_le = k_le [folded k_def]
  have s: "unat (COMPUTE_SPUR f) = k"
    using k by (simp add: COMPUTE_SPUR_def unat_div unat_sub word_le_nat_alt)
  have hi: "unat (GET_FREQ (COMPUTE_SPUR f) 1) = k div 256"
    using s by (simp add: GET_FREQ_def unat_drop_bit_eq) (simp add: drop_bit_eq_div)
  have lo: "unat (GET_FREQ (COMPUTE_SPUR f) 0) = k mod 256"
    using s unat_field [of 0 "COMPUTE_SPUR f" 8] by (simp add: GET_FREQ_def mask_eq_exp_minus_1)
  show "unat (GET_FREQ (COMPUTE_SPUR f) 1) < 256" and "unat (GET_FREQ (COMPUTE_SPUR f) 0) < 256"
    using hi lo k_le by auto
  have e: "12800 * (k div 256) + 50 * (k mod 256) = 50 * k"
    using mult_div_mod_eq [of 256 k] by linarith
  show "76000 + 50 * (256 * GET_FREQ (COMPUTE_SPUR f) 1 + GET_FREQ (COMPUTE_SPUR f) 0) = f"
    using hi lo k k_le e by (simp add: word_unat_eq_iff nowrap)
next
  assume "unat f < 76000"
  then have "unat (f - 76000) = unat f + 2 ^ 32 - 76000"
    by (simp add: unat_sub_if')
  then show "0x10000 \<le> COMPUTE_SPUR f"
    by (simp add: COMPUTE_SPUR_def unat_div word_le_nat_alt)
qed

lemma spur_round_trip_witness:
  "76000 + 50 * (256 * GET_FREQ (COMPUTE_SPUR 104550) 1 + GET_FREQ (COMPUTE_SPUR 104550) 0) = 104550 \<and>
   0x10000 \<le> COMPUTE_SPUR 75950"
  using spur_round_trip [of 104550] spur_round_trip [of 75950] by simp

end
