(* ===== verification/Display_Drm.thy ===== *)
theory Display_Drm
  imports C_Layout
begin

text \<open>
  The display controller's own interface on top of the kernel's mode setting:
  \<^verbatim>\<open>src/include/display/drm/sde_drm.h\<close> (scalers, regions of interest, HDR, custom events and
  requests) and \<^verbatim>\<open>msm_drm_pp.h\<close> (the colour processing blobs). \<^verbatim>\<open>struct drm_clip_rect\<close>,
  \<^verbatim>\<open>struct drm_event\<close>, the magic number and base of DRM requests and \<^verbatim>\<open>fourcc_mod_code\<close> come from the
  kernel's own headers, which the repository does not have: they are parameters here.
\<close>

unbundle bit_operations_syntax

section \<open>Sizes, modes and flags\<close>

definition sde_max_numbers :: "(string \<times> nat) list" where
  "sde_max_numbers =
    [(''SDE_MAX_PLANES'', 4), (''SDE_MAX_DE_CURVES'', 3)]"

definition SDE_MAX_DS_COUNT :: nat where "SDE_MAX_DS_COUNT = 2"
definition sde_csc_numbers :: "(string \<times> nat) list" where
  "sde_csc_numbers =
    [(''SDE_CSC_MATRIX_COEFF_SIZE'', 9), (''SDE_CSC_CLAMP_SIZE'', 6), (''SDE_CSC_BIAS_SIZE'', 3)]"

definition SDE_MAX_DIM_LAYERS :: nat where "SDE_MAX_DIM_LAYERS = 7"
definition SDE_MAX_ROI_V1 :: nat where "SDE_MAX_ROI_V1 = 4"
definition UBWC_STATS_MAX_ROI :: nat where "UBWC_STATS_MAX_ROI = 0x3"
definition sde_frame_data_numbers :: "(string \<times> nat) list" where
  "sde_frame_data_numbers =
    [(''SDE_FRAME_DATA_BUFFER_MAX'', 0x3), (''SDE_FRAME_DATA_GUARD_BYTES'', 0xFF),
     (''SDE_FRAME_DATA_MAX_PLANES'', 0x10)]"

definition HDR_PRIMARIES_COUNT :: nat where "HDR_PRIMARIES_COUNT = 3"
definition SDE_DRM_BITMASK_COUNT :: nat where "SDE_DRM_BITMASK_COUNT = 64"
definition SDE_DRM_DEINTERLACE :: nat where "SDE_DRM_DEINTERLACE = 0"
definition display_primaries_numbers :: "(string \<times> nat) list" where
  "display_primaries_numbers =
    [(''DISPLAY_PRIMARIES_WX'', 0), (''DISPLAY_PRIMARIES_WY'', 1), (''DISPLAY_PRIMARIES_RX'', 2),
     (''DISPLAY_PRIMARIES_RY'', 3), (''DISPLAY_PRIMARIES_GX'', 4), (''DISPLAY_PRIMARIES_GY'', 5),
     (''DISPLAY_PRIMARIES_BX'', 6), (''DISPLAY_PRIMARIES_BY'', 7), (''DISPLAY_PRIMARIES_MAX'', 8)]"

definition drm_noise_numbers :: "(string \<times> nat) list" where
  "drm_noise_numbers =
    [(''DRM_NOISE_ATTN_MAX'', 255), (''DRM_NOISE_STREN_MAX'', 6)]"

definition filter_numbers :: "(string \<times> nat) list" where
  "filter_numbers =
    [(''FILTER_EDGE_DIRECTED_2D'', 0x0), (''FILTER_CIRCULAR_2D'', 0x1), (''FILTER_SEPARABLE_1D'',
     0x2), (''FILTER_BILINEAR'', 0x3), (''FILTER_ALPHA_DROP_REPEAT'', 0x0),
     (''FILTER_ALPHA_BILINEAR'', 0x1), (''FILTER_ALPHA_2D'', 0x3), (''FILTER_BLEND_CIRCULAR_2D'',
     0x0), (''FILTER_BLEND_SEPARABLE_1D'', 0x1)]"

definition sde_drm_blend_op_numbers :: "(string \<times> nat) list" where
  "sde_drm_blend_op_numbers =
    [(''SDE_DRM_BLEND_OP_NOT_DEFINED'', 0), (''SDE_DRM_BLEND_OP_OPAQUE'', 1),
     (''SDE_DRM_BLEND_OP_PREMULTIPLIED'', 2), (''SDE_DRM_BLEND_OP_COVERAGE'', 3),
     (''SDE_DRM_BLEND_OP_MAX'', 4), (''SDE_DRM_BLEND_OP_SKIP'', 5)]"

definition sde_syscache_llcc_numbers :: "(string \<times> nat) list" where
  "sde_syscache_llcc_numbers =
    [(''SDE_SYSCACHE_LLCC_DISP'', 0), (''SDE_SYSCACHE_LLCC_EVA_LEFT'', 1),
     (''SDE_SYSCACHE_LLCC_EVA_RIGHT'', 2)]"

definition sde_drm_fb_numbers :: "(string \<times> nat) list" where
  "sde_drm_fb_numbers =
    [(''SDE_DRM_FB_NON_SEC'', 0), (''SDE_DRM_FB_SEC'', 1), (''SDE_DRM_FB_NON_SEC_DIR_TRANS'', 2),
     (''SDE_DRM_FB_SEC_DIR_TRANS'', 3)]"

definition sde_drm_sec_numbers :: "(string \<times> nat) list" where
  "sde_drm_sec_numbers =
    [(''SDE_DRM_SEC_NON_SEC'', 0), (''SDE_DRM_SEC_ONLY'', 1)]"

definition SDE_DYN_EXP_DISABLE :: nat where "SDE_DYN_EXP_DISABLE = 0x1"
definition SDE_DRM_WB_CFG :: nat where "SDE_DRM_WB_CFG = 0x1"
definition sde_mode_dpms_numbers :: "(string \<times> nat) list" where
  "sde_mode_dpms_numbers =
    [(''SDE_MODE_DPMS_ON'', 0), (''SDE_MODE_DPMS_LP1'', 1), (''SDE_MODE_DPMS_LP2'', 2),
     (''SDE_MODE_DPMS_STANDBY'', 3), (''SDE_MODE_DPMS_SUSPEND'', 4), (''SDE_MODE_DPMS_OFF'', 5)]"

definition sde_recovery_numbers :: "(string \<times> nat) list" where
  "sde_recovery_numbers =
    [(''SDE_RECOVERY_SUCCESS'', 0), (''SDE_RECOVERY_CAPTURE'', 1), (''SDE_RECOVERY_HARD_RESET'',
     2)]"

definition hdr_eotf_numbers :: "(string \<times> nat) list" where
  "hdr_eotf_numbers =
    [(''HDR_EOTF_SDR_LUM_RANGE'', 0x0), (''HDR_EOTF_HDR_LUM_RANGE'', 0x1),
     (''HDR_EOTF_SMTPE_ST2084'', 0x2), (''HDR_EOTF_HLG'', 0x3)]"

definition PA_VLUT_SIZE :: nat where "PA_VLUT_SIZE = 256"
definition SIXZONE_LUT_SIZE :: nat where "SIXZONE_LUT_SIZE = 384"
definition GAMUT_3D_MODE_17 :: nat where "GAMUT_3D_MODE_17 = 1"
definition GAMUT_3D_MODE_5 :: nat where "GAMUT_3D_MODE_5 = 2"
definition GAMUT_3D_MODE_13 :: nat where "GAMUT_3D_MODE_13 = 3"
definition GAMUT_3D_MODE17_TBL_SZ :: nat where "GAMUT_3D_MODE17_TBL_SZ = 1229"
definition GAMUT_3D_MODE5_TBL_SZ :: nat where "GAMUT_3D_MODE5_TBL_SZ = 32"
definition GAMUT_3D_MODE13_TBL_SZ :: nat where "GAMUT_3D_MODE13_TBL_SZ = 550"
definition GAMUT_3D_SCALE_OFF_SZ :: nat where "GAMUT_3D_SCALE_OFF_SZ = 16"
definition GAMUT_3D_SCALEB_OFF_SZ :: nat where "GAMUT_3D_SCALEB_OFF_SZ = 12"
definition GAMUT_3D_TBL_NUM :: nat where "GAMUT_3D_TBL_NUM = 4"
definition GAMUT_3D_SCALE_OFF_TBL_NUM :: nat where "GAMUT_3D_SCALE_OFF_TBL_NUM = 3"
definition PGC_TBL_LEN :: nat where "PGC_TBL_LEN = 512"
definition IGC_TBL_LEN :: nat where "IGC_TBL_LEN = 256"
definition last_lut_numbers :: "(string \<times> nat) list" where
  "last_lut_numbers =
    [(''LAST_LUT'', 2), (''HIST_V_SIZE'', 256)]"

definition ad4_lut_numbers :: "(string \<times> nat) list" where
  "ad4_lut_numbers =
    [(''AD4_LUT_GRP0_SIZE'', 33), (''AD4_LUT_GRP1_SIZE'', 32)]"

definition DITHER_MATRIX_SZ :: nat where "DITHER_MATRIX_SZ = 16"
definition ltm_feature_def_numbers :: "(string \<times> nat) list" where
  "ltm_feature_def_numbers =
    [(''LTM_FEATURE_DEF'', 1), (''LTM_DATA_SIZE_0'', 32), (''LTM_DATA_SIZE_1'', 128),
     (''LTM_DATA_SIZE_2'', 256), (''LTM_DATA_SIZE_3'', 33), (''LTM_BUFFER_SIZE'', 5),
     (''LTM_GUARD_BYTES'', 255), (''LTM_BLOCK_SIZE'', 2)]"

definition spr_init_param_size_numbers :: "(string \<times> nat) list" where
  "spr_init_param_size_numbers =
    [(''SPR_INIT_PARAM_SIZE_1'', 4), (''SPR_INIT_PARAM_SIZE_2'', 5), (''SPR_INIT_PARAM_SIZE_3'',
     16), (''SPR_INIT_PARAM_SIZE_4'', 24), (''SPR_INIT_PARAM_SIZE_5'', 32)]"

definition cfg0_param_len_numbers :: "(string \<times> nat) list" where
  "cfg0_param_len_numbers =
    [(''CFG0_PARAM_LEN'', 8), (''CFG1_PARAM_LEN'', 8), (''CFG1_PARAM0_LEN'', 153),
     (''CFG0_PARAM2_LEN'', 256), (''CFG5_PARAM01_LEN'', 4), (''CFG3_PARAM01_LEN'', 4)]"

definition rc_data_size_max_numbers :: "(string \<times> nat) list" where
  "rc_data_size_max_numbers =
    [(''RC_DATA_SIZE_MAX'', 2720), (''RC_CFG_SIZE_MAX'', 4)]"

definition fp16_gc_mode_numbers :: "(string \<times> nat) list" where
  "fp16_gc_mode_numbers =
    [(''FP16_GC_MODE_INVALID'', 0), (''FP16_GC_MODE_SRGB'', 1), (''FP16_GC_MODE_PQ'', 2)]"

definition fp16_csc_numbers :: "(string \<times> nat) list" where
  "fp16_csc_numbers =
    [(''FP16_CSC_CFG0_PARAM_LEN'', 12), (''FP16_CSC_CFG1_PARAM_LEN'', 8)]"

definition DIMMING_BL_LUT_LEN :: nat where "DIMMING_BL_LUT_LEN = 8192"

definition scaler_lut_flags_table :: "(string \<times> u32) list" where
  "scaler_lut_flags_table =
    [(''SCALER_LUT_SWAP'', 0x1), (''SCALER_LUT_DIR_WR'', 0x2), (''SCALER_LUT_Y_CIR_WR'', 0x4),
     (''SCALER_LUT_UV_CIR_WR'', 0x8), (''SCALER_LUT_Y_SEP_WR'', 0x10), (''SCALER_LUT_UV_SEP_WR'',
     0x20)]"

definition scaler_lut_flags :: "u32 list" where
  "scaler_lut_flags = map snd scaler_lut_flags_table"

definition dest_scaler_flags_table :: "(string \<times> u32) list" where
  "dest_scaler_flags_table =
    [(''SDE_DRM_DESTSCALER_ENABLE'', 0x1), (''SDE_DRM_DESTSCALER_SCALE_UPDATE'', 0x2),
     (''SDE_DRM_DESTSCALER_ENHANCER_UPDATE'', 0x4), (''SDE_DRM_DESTSCALER_PU_ENABLE'', 0x8)]"

definition dest_scaler_flags :: "u32 list" where
  "dest_scaler_flags = map snd dest_scaler_flags_table"

definition SDE_DRM_DIM_LAYER_INCLUSIVE :: u32 where "SDE_DRM_DIM_LAYER_INCLUSIVE = 0x1"
definition SDE_DRM_DIM_LAYER_EXCLUSIVE :: u32 where "SDE_DRM_DIM_LAYER_EXCLUSIVE = 0x2"

definition dim_layer_flags :: "u32 list" where
  "dim_layer_flags =
    [SDE_DRM_DIM_LAYER_INCLUSIVE, SDE_DRM_DIM_LAYER_EXCLUSIVE]"

definition colorimetry_flags_table :: "(string \<times> u32) list" where
  "colorimetry_flags_table =
    [(''DRM_EDID_CLRMETRY_xvYCC_601'', 1), (''DRM_EDID_CLRMETRY_xvYCC_709'', 2),
     (''DRM_EDID_CLRMETRY_sYCC_601'', 4), (''DRM_EDID_CLRMETRY_ADOBE_YCC_601'', 8),
     (''DRM_EDID_CLRMETRY_ADOBE_RGB'', 0x10), (''DRM_EDID_CLRMETRY_BT2020_CYCC'', 0x20),
     (''DRM_EDID_CLRMETRY_BT2020_YCC'', 0x40), (''DRM_EDID_CLRMETRY_BT2020_RGB'', 0x80),
     (''DRM_EDID_CLRMETRY_DCI_P3'', 0x8000)]"

definition colorimetry_flags :: "u32 list" where
  "colorimetry_flags = map snd colorimetry_flags_table"

definition DRM_MODE_FLAG_VID_MODE_PANEL :: u32 where "DRM_MODE_FLAG_VID_MODE_PANEL = 0x01"
definition DRM_MODE_FLAG_CMD_MODE_PANEL :: u32 where "DRM_MODE_FLAG_CMD_MODE_PANEL = 0x02"

definition panel_mode_flags :: "u32 list" where
  "panel_mode_flags =
    [DRM_MODE_FLAG_VID_MODE_PANEL, DRM_MODE_FLAG_CMD_MODE_PANEL]"

definition display_hint_flags_table :: "(string \<times> u32) list" where
  "display_hint_flags_table =
    [(''DRM_MSM_DISPLAY_EARLY_WAKEUP_HINT'', 0x01), (''DRM_MSM_DISPLAY_POWER_COLLAPSE_HINT'',
     0x02), (''DRM_MSM_DISPLAY_IDLE_TIMEOUT_HINT'', 0x04), (''DRM_MSM_DISPLAY_MODE_CHANGE_HINT'',
     0x08)]"

definition display_hint_flags :: "u32 list" where
  "display_hint_flags = map snd display_hint_flags_table"

definition pa_hsic_flags_table :: "(string \<times> u32) list" where
  "pa_hsic_flags_table =
    [(''PA_HSIC_HUE_ENABLE'', 1), (''PA_HSIC_SAT_ENABLE'', 2), (''PA_HSIC_VAL_ENABLE'', 4),
     (''PA_HSIC_CONT_ENABLE'', 8)]"

definition pa_hsic_flags :: "u32 list" where
  "pa_hsic_flags = map snd pa_hsic_flags_table"

definition memcol_flags_table :: "(string \<times> u32) list" where
  "memcol_flags_table =
    [(''MEMCOL_PROT_HUE'', 1), (''MEMCOL_PROT_SAT'', 2), (''MEMCOL_PROT_VAL'', 4),
     (''MEMCOL_PROT_CONT'', 8), (''MEMCOL_PROT_SIXZONE'', 0x10), (''MEMCOL_PROT_BLEND'', 0x20)]"

definition memcol_flags :: "u32 list" where
  "memcol_flags = map snd memcol_flags_table"

definition SIXZONE_HUE_ENABLE :: u32 where "SIXZONE_HUE_ENABLE = 1"
definition SIXZONE_SAT_ENABLE :: u32 where "SIXZONE_SAT_ENABLE = 2"
definition SIXZONE_VAL_ENABLE :: u32 where "SIXZONE_VAL_ENABLE = 4"

definition sixzone_flags :: "u32 list" where
  "sixzone_flags =
    [SIXZONE_HUE_ENABLE, SIXZONE_SAT_ENABLE, SIXZONE_VAL_ENABLE]"

definition LTM_STATS_SAT :: u32 where "LTM_STATS_SAT = 2"
definition LTM_STATS_MERGE_SAT :: u32 where "LTM_STATS_MERGE_SAT = 4"

definition ltm_stats_flags :: "u32 list" where
  "ltm_stats_flags =
    [LTM_STATS_SAT, LTM_STATS_MERGE_SAT]"

definition DIMMING_ENABLE :: u32 where "DIMMING_ENABLE = 1"
definition DIMMING_MIN_BL_VALID :: u32 where "DIMMING_MIN_BL_VALID = 2"

definition dimming_flags :: "u32 list" where
  "dimming_flags =
    [DIMMING_ENABLE, DIMMING_MIN_BL_VALID]"

definition SDE_DP_DSC_RESERVATION_SWITCH :: u32 where "SDE_DP_DSC_RESERVATION_SWITCH = 1"
definition SDE_DRM_WB_CFG_FLAGS_CONNECTED :: u32 where "SDE_DRM_WB_CFG_FLAGS_CONNECTED = 1"
definition DRM_NOISE_TEMPORAL_FLAG :: u32 where "DRM_NOISE_TEMPORAL_FLAG = 1"
definition DRM_MSM_WAKE_UP_ALL_DISPLAYS :: u32 where "DRM_MSM_WAKE_UP_ALL_DISPLAYS = 0xFFFFFFFF"

definition PCC_BEFORE :: u32 where "PCC_BEFORE = 1"
definition GAMUT_3D_MAP_EN :: u32 where "GAMUT_3D_MAP_EN = 1"
definition PGC_8B_ROUND :: u32 where "PGC_8B_ROUND = 1"
definition IGC_DITHER_ENABLE :: u32 where "IGC_DITHER_ENABLE = 1"
definition DITHER_LUMA_MODE :: u32 where "DITHER_LUMA_MODE = 1"
definition LTM_HIST_CHECKSUM_SUPPORT :: u32 where "LTM_HIST_CHECKSUM_SUPPORT = 1"
definition SPR_FLAG_BYPASS :: u32 where "SPR_FLAG_BYPASS = 1"
definition FP16_GC_FLAG_ALPHA_EN :: u32 where "FP16_GC_FLAG_ALPHA_EN = 1"

text \<open>Format modifiers: the vendor's codes, through the kernel's way of combining them.\<close>

definition DRM_FORMAT_MOD_QCOM_DX :: "(u64 \<Rightarrow> u64) \<Rightarrow> u64" where
  "DRM_FORMAT_MOD_QCOM_DX fourcc_mod_code_QCOM = fourcc_mod_code_QCOM 0x2"
definition DRM_FORMAT_MOD_QCOM_TIGHT :: "(u64 \<Rightarrow> u64) \<Rightarrow> u64" where
  "DRM_FORMAT_MOD_QCOM_TIGHT fourcc_mod_code_QCOM = fourcc_mod_code_QCOM 0x4"
definition DRM_FORMAT_MOD_QCOM_TILE :: "(u64 \<Rightarrow> u64) \<Rightarrow> u64" where
  "DRM_FORMAT_MOD_QCOM_TILE fourcc_mod_code_QCOM = fourcc_mod_code_QCOM 0x8"
definition DRM_FORMAT_MOD_QCOM_ALPHA_SWAP :: "(u64 \<Rightarrow> u64) \<Rightarrow> u64" where
  "DRM_FORMAT_MOD_QCOM_ALPHA_SWAP fourcc_mod_code_QCOM = fourcc_mod_code_QCOM 0x10"
definition DRM_FORMAT_MOD_QCOM_FSC_TILE :: "(u64 \<Rightarrow> u64) \<Rightarrow> u64" where
  "DRM_FORMAT_MOD_QCOM_FSC_TILE fourcc_mod_code_QCOM = fourcc_mod_code_QCOM 0x20"

section \<open>Structs of the controller\<close>

definition struct_sde_drm_pix_ext_v1 :: ctype where
  "struct_sde_drm_pix_ext_v1 = Struct False [
    (''num_ext_pxls_lr'', Array (Scalar C_s32) 4), (''num_ext_pxls_tb'', Array (Scalar C_s32) 4),
    (''left_ftch'', Array (Scalar C_s32) 4), (''right_ftch'', Array (Scalar C_s32) 4),
    (''top_ftch'', Array (Scalar C_s32) 4), (''btm_ftch'', Array (Scalar C_s32) 4),
    (''left_rpt'', Array (Scalar C_s32) 4), (''right_rpt'', Array (Scalar C_s32) 4),
    (''top_rpt'', Array (Scalar C_s32) 4), (''btm_rpt'', Array (Scalar C_s32) 4)]"

definition struct_sde_drm_scaler_v1 :: ctype where
  "struct_sde_drm_scaler_v1 = Struct False [
    (''pe'', struct_sde_drm_pix_ext_v1), (''init_phase_x'', Array (Scalar C_s32) 4),
    (''phase_step_x'', Array (Scalar C_s32) 4), (''init_phase_y'', Array (Scalar C_s32) 4),
    (''phase_step_y'', Array (Scalar C_s32) 4), (''horz_filter'', Array (Scalar C_u32) 4),
    (''vert_filter'', Array (Scalar C_u32) 4)]"

definition struct_sde_drm_de_v1 :: ctype where
  "struct_sde_drm_de_v1 = Struct False [
    (''enable'', Scalar C_u32), (''sharpen_level1'', Scalar C_s16),
    (''sharpen_level2'', Scalar C_s16), (''clip'', Scalar C_u16), (''limit'', Scalar C_u16),
    (''thr_quiet'', Scalar C_u16), (''thr_dieout'', Scalar C_u16), (''thr_low'', Scalar C_u16),
    (''thr_high'', Scalar C_u16), (''prec_shift'', Scalar C_u16),
    (''adjust_a'', Array (Scalar C_s16) 3), (''adjust_b'', Array (Scalar C_s16) 3),
    (''adjust_c'', Array (Scalar C_s16) 3)]"

definition struct_sde_drm_scaler_v2 :: ctype where
  "struct_sde_drm_scaler_v2 = Struct False [
    (''enable'', Scalar C_u32), (''dir_en'', Scalar C_u32), (''pe'', struct_sde_drm_pix_ext_v1),
    (''horz_decimate'', Scalar C_u32), (''vert_decimate'', Scalar C_u32),
    (''init_phase_x'', Array (Scalar C_s32) 4), (''phase_step_x'', Array (Scalar C_s32) 4),
    (''init_phase_y'', Array (Scalar C_s32) 4), (''phase_step_y'', Array (Scalar C_s32) 4),
    (''preload_x'', Array (Scalar C_u32) 4), (''preload_y'', Array (Scalar C_u32) 4),
    (''src_width'', Array (Scalar C_u32) 4), (''src_height'', Array (Scalar C_u32) 4),
    (''dst_width'', Scalar C_u32), (''dst_height'', Scalar C_u32),
    (''y_rgb_filter_cfg'', Scalar C_u32), (''uv_filter_cfg'', Scalar C_u32),
    (''alpha_filter_cfg'', Scalar C_u32), (''blend_cfg'', Scalar C_u32),
    (''lut_flag'', Scalar C_u32), (''dir_lut_idx'', Scalar C_u32),
    (''y_rgb_cir_lut_idx'', Scalar C_u32), (''uv_cir_lut_idx'', Scalar C_u32),
    (''y_rgb_sep_lut_idx'', Scalar C_u32), (''uv_sep_lut_idx'', Scalar C_u32),
    (''de'', struct_sde_drm_de_v1), (''dir_weight'', Scalar C_u32),
    (''unsharp_mask_blend'', Scalar C_u32), (''de_blend'', Scalar C_u32),
    (''flags'', Scalar C_u32), (''pre_downscale_x_0'', Scalar C_u32),
    (''pre_downscale_x_1'', Scalar C_u32), (''pre_downscale_y_0'', Scalar C_u32),
    (''pre_downscale_y_1'', Scalar C_u32)]"

definition struct_sde_drm_dest_scaler_cfg :: ctype where
  "struct_sde_drm_dest_scaler_cfg = Struct False [
    (''flags'', Scalar C_u32), (''index'', Scalar C_u32), (''lm_width'', Scalar C_u32),
    (''lm_height'', Scalar C_u32), (''scaler_cfg'', Scalar C_u64)]"

definition struct_sde_drm_dest_scaler_data :: ctype where
  "struct_sde_drm_dest_scaler_data = Struct False [
    (''num_dest_scaler'', Scalar C_u32), (''ds_cfg'', Array struct_sde_drm_dest_scaler_cfg 2)]"

definition struct_sde_drm_csc_v1 :: ctype where
  "struct_sde_drm_csc_v1 = Struct False [
    (''ctm_coeff'', Array (Scalar C_s64) 9), (''pre_bias'', Array (Scalar C_u32) 3),
    (''post_bias'', Array (Scalar C_u32) 3), (''pre_clamp'', Array (Scalar C_u32) 6),
    (''post_clamp'', Array (Scalar C_u32) 6)]"

definition struct_sde_drm_color :: ctype where
  "struct_sde_drm_color = Struct False [
    (''color_0'', Scalar C_u32), (''color_1'', Scalar C_u32), (''color_2'', Scalar C_u32),
    (''color_3'', Scalar C_u32)]"

definition struct_sde_drm_dim_layer_cfg :: "ctype \<Rightarrow> ctype" where
  "struct_sde_drm_dim_layer_cfg drm_clip_rect = Struct False [
    (''flags'', Scalar C_u32), (''stage'', Scalar C_u32), (''color_fill'', struct_sde_drm_color),
    (''rect'', drm_clip_rect)]"

definition struct_sde_drm_dim_layer_v1 :: "ctype \<Rightarrow> ctype" where
  "struct_sde_drm_dim_layer_v1 drm_clip_rect = Struct False [
    (''num_layers'', Scalar C_u32),
    (''layer_cfg'', Array (struct_sde_drm_dim_layer_cfg drm_clip_rect) 7)]"

definition struct_sde_drm_wb_cfg :: ctype where
  "struct_sde_drm_wb_cfg = Struct False [
    (''flags'', Scalar C_u32), (''connector_id'', Scalar C_u32), (''count_modes'', Scalar C_u32),
    (''modes'', Scalar C_u64)]"

definition struct_sde_drm_roi_v1 :: "ctype \<Rightarrow> ctype" where
  "struct_sde_drm_roi_v1 drm_clip_rect = Struct False [
    (''num_rects'', Scalar C_u32), (''roi'', Array drm_clip_rect 4)]"

definition struct_sde_drm_ubwc_stats_roi :: ctype where
  "struct_sde_drm_ubwc_stats_roi = Struct False [
    (''y_coord0'', Scalar C_u16), (''y_coord1'', Scalar C_u16)]"

definition struct_sde_drm_ubwc_stats_data :: ctype where
  "struct_sde_drm_ubwc_stats_data = Struct False [
    (''roi'', struct_sde_drm_ubwc_stats_roi), (''worst_bw'', Array (Scalar C_u16) 3),
    (''worst_bw_y_coord'', Array (Scalar C_u16) 3), (''total_bw'', Array (Scalar C_u32) 3),
    (''error'', Scalar C_u32), (''meta_error'', Scalar C_u32)]"

definition struct_sde_drm_frame_data_buffers_ctrl :: ctype where
  "struct_sde_drm_frame_data_buffers_ctrl = Struct False [
    (''num_buffers'', Scalar C_u32), (''fds'', Array (Scalar C_u32) 3)]"

definition struct_sde_drm_frame_data_buf :: ctype where
  "struct_sde_drm_frame_data_buf = Struct False [
    (''fd'', Scalar C_u32), (''offset'', Scalar C_u32), (''status'', Scalar C_u32)]"

definition struct_sde_drm_plane_frame_data :: ctype where
  "struct_sde_drm_plane_frame_data = Struct False [
    (''plane_id'', Scalar C_u32), (''ubwc_stats'', struct_sde_drm_ubwc_stats_data)]"

definition struct_sde_drm_frame_data_packet :: ctype where
  "struct_sde_drm_frame_data_packet = Struct False [
    (''frame_count'', Scalar C_u32), (''commit_count'', Scalar C_u64),
    (''plane_frame_data'', Array struct_sde_drm_plane_frame_data 16)]"

definition struct_drm_msm_ext_hdr_metadata :: ctype where
  "struct_drm_msm_ext_hdr_metadata = Struct False [
    (''hdr_state'', Scalar C_u32), (''eotf'', Scalar C_u32), (''hdr_supported'', Scalar C_u32),
    (''display_primaries_x'', Array (Scalar C_u32) 3),
    (''display_primaries_y'', Array (Scalar C_u32) 3), (''white_point_x'', Scalar C_u32),
    (''white_point_y'', Scalar C_u32), (''max_luminance'', Scalar C_u32),
    (''min_luminance'', Scalar C_u32), (''max_content_light_level'', Scalar C_u32),
    (''max_average_light_level'', Scalar C_u32), (''hdr_plus_payload'', Scalar C_u64),
    (''hdr_plus_payload_size'', Scalar C_u32)]"

definition struct_drm_msm_ext_hdr_properties :: ctype where
  "struct_drm_msm_ext_hdr_properties = Struct False [
    (''hdr_metadata_type_one'', Scalar C_u8), (''hdr_supported'', Scalar C_u32),
    (''hdr_eotf'', Scalar C_u32), (''hdr_max_luminance'', Scalar C_u32),
    (''hdr_avg_luminance'', Scalar C_u32), (''hdr_min_luminance'', Scalar C_u32),
    (''hdr_plus_supported'', Scalar C_u32)]"

definition struct_drm_panel_hdr_properties :: ctype where
  "struct_drm_panel_hdr_properties = Struct False [
    (''hdr_enabled'', Scalar C_u32), (''display_primaries'', Array (Scalar C_u32) 8),
    (''peak_brightness'', Scalar C_u32), (''blackness_level'', Scalar C_u32)]"

definition struct_drm_msm_event_req :: ctype where
  "struct_drm_msm_event_req = Struct False [
    (''object_id'', Scalar C_u32), (''object_type'', Scalar C_u32), (''event'', Scalar C_u32),
    (''client_context'', Scalar C_u64), (''index'', Scalar C_u32)]"

definition struct_drm_msm_event_resp :: "ctype \<Rightarrow> ctype" where
  "struct_drm_msm_event_resp drm_event = Struct False [
    (''base'', drm_event), (''info'', struct_drm_msm_event_req), (''data'', Array (Scalar C_u8) 0)]"

definition struct_drm_msm_power_ctrl :: ctype where
  "struct_drm_msm_power_ctrl = Struct False [
    (''enable'', Scalar C_u32), (''flags'', Scalar C_u32)]"

definition struct_drm_msm_early_wakeup :: ctype where
  "struct_drm_msm_early_wakeup = Struct False [
    (''wakeup_hint'', Scalar C_u32), (''connector_id'', Scalar C_u32)]"

definition struct_drm_msm_display_hint :: ctype where
  "struct_drm_msm_display_hint = Struct False [
    (''data'', Scalar C_u64), (''hint_flags'', Scalar C_u32)]"

definition struct_drm_msm_noise_layer_cfg :: ctype where
  "struct_drm_msm_noise_layer_cfg = Struct False [
    (''flags'', Scalar C_u64), (''zposn'', Scalar C_u32), (''zposattn'', Scalar C_u32),
    (''attn_factor'', Scalar C_u32), (''strength'', Scalar C_u32), (''alpha_noise'', Scalar C_u32)]"

section \<open>Structs of the colour processing\<close>

definition struct_drm_msm_pcc_coeff :: ctype where
  "struct_drm_msm_pcc_coeff = Struct False [
    (''c'', Scalar C_u32), (''r'', Scalar C_u32), (''g'', Scalar C_u32), (''b'', Scalar C_u32),
    (''rg'', Scalar C_u32), (''gb'', Scalar C_u32), (''rb'', Scalar C_u32),
    (''rgb'', Scalar C_u32)]"

definition struct_drm_msm_pcc :: ctype where
  "struct_drm_msm_pcc = Struct False [
    (''flags'', Scalar C_u64), (''r'', struct_drm_msm_pcc_coeff),
    (''g'', struct_drm_msm_pcc_coeff), (''b'', struct_drm_msm_pcc_coeff), (''r_rr'', Scalar C_u32),
    (''r_gg'', Scalar C_u32), (''r_bb'', Scalar C_u32), (''g_rr'', Scalar C_u32),
    (''g_gg'', Scalar C_u32), (''g_bb'', Scalar C_u32), (''b_rr'', Scalar C_u32),
    (''b_gg'', Scalar C_u32), (''b_bb'', Scalar C_u32)]"

definition struct_drm_msm_pa_vlut :: ctype where
  "struct_drm_msm_pa_vlut = Struct False [
    (''flags'', Scalar C_u64), (''val'', Array (Scalar C_u32) 256)]"

definition struct_drm_msm_pa_hsic :: ctype where
  "struct_drm_msm_pa_hsic = Struct False [
    (''flags'', Scalar C_u64), (''hue'', Scalar C_u32), (''saturation'', Scalar C_u32),
    (''value'', Scalar C_u32), (''contrast'', Scalar C_u32)]"

definition struct_drm_msm_memcol :: ctype where
  "struct_drm_msm_memcol = Struct False [
    (''prot_flags'', Scalar C_u64), (''color_adjust_p0'', Scalar C_u32),
    (''color_adjust_p1'', Scalar C_u32), (''color_adjust_p2'', Scalar C_u32),
    (''blend_gain'', Scalar C_u32), (''sat_hold'', Scalar C_u32), (''val_hold'', Scalar C_u32),
    (''hue_region'', Scalar C_u32), (''sat_region'', Scalar C_u32), (''val_region'', Scalar C_u32)]"

definition struct_drm_msm_sixzone_curve :: ctype where
  "struct_drm_msm_sixzone_curve = Struct False [
    (''p1'', Scalar C_u32), (''p0'', Scalar C_u32)]"

definition struct_drm_msm_sixzone :: ctype where
  "struct_drm_msm_sixzone = Struct False [
    (''flags'', Scalar C_u64), (''threshold'', Scalar C_u32), (''adjust_p0'', Scalar C_u32),
    (''adjust_p1'', Scalar C_u32), (''sat_hold'', Scalar C_u32), (''val_hold'', Scalar C_u32),
    (''curve'', Array struct_drm_msm_sixzone_curve 384)]"

definition struct_drm_msm_3d_col :: ctype where
  "struct_drm_msm_3d_col = Struct False [
    (''c2_c1'', Scalar C_u32), (''c0'', Scalar C_u32)]"

definition struct_drm_msm_3d_gamut :: ctype where
  "struct_drm_msm_3d_gamut = Struct False [
    (''flags'', Scalar C_u64), (''mode'', Scalar C_u32),
    (''scale_off'', Array (Array (Scalar C_u32) 16) 3),
    (''col'', Array (Array struct_drm_msm_3d_col 1229) 4)]"

definition struct_drm_msm_pgc_lut :: ctype where
  "struct_drm_msm_pgc_lut = Struct False [
    (''flags'', Scalar C_u64), (''c0'', Array (Scalar C_u32) 512),
    (''c1'', Array (Scalar C_u32) 512), (''c2'', Array (Scalar C_u32) 512)]"

definition struct_drm_msm_igc_lut :: ctype where
  "struct_drm_msm_igc_lut = Struct False [
    (''flags'', Scalar C_u64), (''c0'', Array (Scalar C_u32) 256),
    (''c1'', Array (Scalar C_u32) 256), (''c2'', Array (Scalar C_u32) 256),
    (''strength'', Scalar C_u32), (''c0_last'', Scalar C_u32), (''c1_last'', Scalar C_u32),
    (''c2_last'', Scalar C_u32)]"

definition struct_drm_msm_hist :: ctype where
  "struct_drm_msm_hist = Struct False [
    (''flags'', Scalar C_u64), (''data'', Array (Scalar C_u32) 256)]"

definition struct_drm_msm_ad4_init :: ctype where
  "struct_drm_msm_ad4_init = Struct False [
    (''init_param_001'', Array (Scalar C_u32) 33), (''init_param_002'', Array (Scalar C_u32) 33),
    (''init_param_003'', Array (Scalar C_u32) 33), (''init_param_004'', Array (Scalar C_u32) 33),
    (''init_param_005'', Array (Scalar C_u32) 32), (''init_param_006'', Array (Scalar C_u32) 32),
    (''init_param_007'', Array (Scalar C_u32) 33), (''init_param_008'', Array (Scalar C_u32) 33),
    (''init_param_009'', Scalar C_u32), (''init_param_010'', Scalar C_u32),
    (''init_param_011'', Scalar C_u32), (''init_param_012'', Scalar C_u32),
    (''init_param_013'', Scalar C_u32), (''init_param_014'', Scalar C_u32),
    (''init_param_015'', Scalar C_u32), (''init_param_016'', Scalar C_u32),
    (''init_param_017'', Scalar C_u32), (''init_param_018'', Scalar C_u32),
    (''init_param_019'', Scalar C_u32), (''init_param_020'', Scalar C_u32),
    (''init_param_021'', Scalar C_u32), (''init_param_022'', Scalar C_u32),
    (''init_param_023'', Scalar C_u32), (''init_param_024'', Scalar C_u32),
    (''init_param_025'', Scalar C_u32), (''init_param_026'', Scalar C_u32),
    (''init_param_027'', Scalar C_u32), (''init_param_028'', Scalar C_u32),
    (''init_param_029'', Scalar C_u32), (''init_param_030'', Scalar C_u32),
    (''init_param_031'', Scalar C_u32), (''init_param_032'', Scalar C_u32),
    (''init_param_033'', Scalar C_u32), (''init_param_034'', Scalar C_u32),
    (''init_param_035'', Scalar C_u32), (''init_param_036'', Scalar C_u32),
    (''init_param_037'', Scalar C_u32), (''init_param_038'', Scalar C_u32),
    (''init_param_039'', Scalar C_u32), (''init_param_040'', Scalar C_u32),
    (''init_param_041'', Scalar C_u32), (''init_param_042'', Scalar C_u32),
    (''init_param_043'', Scalar C_u32), (''init_param_044'', Scalar C_u32),
    (''init_param_045'', Scalar C_u32), (''init_param_046'', Scalar C_u32),
    (''init_param_047'', Scalar C_u32), (''init_param_048'', Scalar C_u32),
    (''init_param_049'', Scalar C_u32), (''init_param_050'', Scalar C_u32),
    (''init_param_051'', Scalar C_u32), (''init_param_052'', Scalar C_u32),
    (''init_param_053'', Scalar C_u32), (''init_param_054'', Scalar C_u32),
    (''init_param_055'', Scalar C_u32), (''init_param_056'', Scalar C_u32),
    (''init_param_057'', Scalar C_u32), (''init_param_058'', Scalar C_u32),
    (''init_param_059'', Scalar C_u32), (''init_param_060'', Scalar C_u32),
    (''init_param_061'', Scalar C_u32), (''init_param_062'', Scalar C_u32),
    (''init_param_063'', Scalar C_u32), (''init_param_064'', Scalar C_u32),
    (''init_param_065'', Scalar C_u32), (''init_param_066'', Scalar C_u32),
    (''init_param_067'', Scalar C_u32), (''init_param_068'', Scalar C_u32),
    (''init_param_069'', Scalar C_u32), (''init_param_070'', Scalar C_u32),
    (''init_param_071'', Scalar C_u32), (''init_param_072'', Scalar C_u32),
    (''init_param_073'', Scalar C_u32), (''init_param_074'', Scalar C_u32),
    (''init_param_075'', Scalar C_u32)]"

definition struct_drm_msm_ad4_cfg :: ctype where
  "struct_drm_msm_ad4_cfg = Struct False [
    (''cfg_param_001'', Scalar C_u32), (''cfg_param_002'', Scalar C_u32),
    (''cfg_param_003'', Scalar C_u32), (''cfg_param_004'', Scalar C_u32),
    (''cfg_param_005'', Scalar C_u32), (''cfg_param_006'', Scalar C_u32),
    (''cfg_param_007'', Scalar C_u32), (''cfg_param_008'', Scalar C_u32),
    (''cfg_param_009'', Scalar C_u32), (''cfg_param_010'', Scalar C_u32),
    (''cfg_param_011'', Scalar C_u32), (''cfg_param_012'', Scalar C_u32),
    (''cfg_param_013'', Scalar C_u32), (''cfg_param_014'', Scalar C_u32),
    (''cfg_param_015'', Scalar C_u32), (''cfg_param_016'', Scalar C_u32),
    (''cfg_param_017'', Scalar C_u32), (''cfg_param_018'', Scalar C_u32),
    (''cfg_param_019'', Scalar C_u32), (''cfg_param_020'', Scalar C_u32),
    (''cfg_param_021'', Scalar C_u32), (''cfg_param_022'', Scalar C_u32),
    (''cfg_param_023'', Scalar C_u32), (''cfg_param_024'', Scalar C_u32),
    (''cfg_param_025'', Scalar C_u32), (''cfg_param_026'', Scalar C_u32),
    (''cfg_param_027'', Scalar C_u32), (''cfg_param_028'', Scalar C_u32),
    (''cfg_param_029'', Scalar C_u32), (''cfg_param_030'', Scalar C_u32),
    (''cfg_param_031'', Scalar C_u32), (''cfg_param_032'', Scalar C_u32),
    (''cfg_param_033'', Scalar C_u32), (''cfg_param_034'', Scalar C_u32),
    (''cfg_param_035'', Scalar C_u32), (''cfg_param_036'', Scalar C_u32),
    (''cfg_param_037'', Scalar C_u32), (''cfg_param_038'', Scalar C_u32),
    (''cfg_param_039'', Scalar C_u32), (''cfg_param_040'', Scalar C_u32),
    (''cfg_param_041'', Scalar C_u32), (''cfg_param_042'', Scalar C_u32),
    (''cfg_param_043'', Scalar C_u32), (''cfg_param_044'', Scalar C_u32),
    (''cfg_param_045'', Scalar C_u32), (''cfg_param_046'', Scalar C_u32),
    (''cfg_param_047'', Scalar C_u32), (''cfg_param_048'', Scalar C_u32),
    (''cfg_param_049'', Scalar C_u32), (''cfg_param_050'', Scalar C_u32),
    (''cfg_param_051'', Scalar C_u32), (''cfg_param_052'', Scalar C_u32),
    (''cfg_param_053'', Scalar C_u32)]"

definition struct_drm_msm_dither :: ctype where
  "struct_drm_msm_dither = Struct False [
    (''flags'', Scalar C_u64), (''temporal_en'', Scalar C_u32), (''c0_bitdepth'', Scalar C_u32),
    (''c1_bitdepth'', Scalar C_u32), (''c2_bitdepth'', Scalar C_u32),
    (''c3_bitdepth'', Scalar C_u32), (''matrix'', Array (Scalar C_u32) 16)]"

definition struct_drm_msm_pa_dither :: ctype where
  "struct_drm_msm_pa_dither = Struct False [
    (''flags'', Scalar C_u64), (''strength'', Scalar C_u32), (''offset_en'', Scalar C_u32),
    (''matrix'', Array (Scalar C_u32) 16)]"

definition struct_drm_msm_ad4_roi_cfg :: ctype where
  "struct_drm_msm_ad4_roi_cfg = Struct False [
    (''h_x'', Scalar C_u32), (''h_y'', Scalar C_u32), (''v_x'', Scalar C_u32),
    (''v_y'', Scalar C_u32), (''factor_in'', Scalar C_u32), (''factor_out'', Scalar C_u32)]"

definition struct_drm_msm_ltm_stats_data :: ctype where
  "struct_drm_msm_ltm_stats_data = Struct False [
    (''stats_01'', Array (Array (Scalar C_u32) 128) 32), (''stats_02'', Array (Scalar C_u32) 256),
    (''stats_03'', Array (Scalar C_u32) 32), (''stats_04'', Array (Scalar C_u32) 32),
    (''stats_05'', Array (Scalar C_u32) 32), (''status_flag'', Scalar C_u32),
    (''display_h'', Scalar C_u32), (''display_v'', Scalar C_u32),
    (''init_h'', Array (Scalar C_u32) 2), (''init_v'', Scalar C_u32), (''inc_h'', Scalar C_u32),
    (''inc_v'', Scalar C_u32), (''portrait_en'', Scalar C_u32), (''merge_en'', Scalar C_u32),
    (''cfg_param_01'', Scalar C_u32), (''cfg_param_02'', Scalar C_u32),
    (''cfg_param_03'', Scalar C_u32), (''cfg_param_04'', Scalar C_u32),
    (''feature_flag'', Scalar C_u32), (''checksum'', Scalar C_u32)]"

definition struct_drm_msm_ltm_init_param :: ctype where
  "struct_drm_msm_ltm_init_param = Struct False [
    (''init_param_01'', Scalar C_u32), (''init_param_02'', Scalar C_u32),
    (''init_param_03'', Scalar C_u32), (''init_param_04'', Scalar C_u32)]"

definition struct_drm_msm_ltm_cfg_param :: ctype where
  "struct_drm_msm_ltm_cfg_param = Struct False [
    (''cfg_param_01'', Scalar C_u32), (''cfg_param_02'', Scalar C_u32),
    (''cfg_param_03'', Scalar C_u32), (''cfg_param_04'', Scalar C_u32),
    (''cfg_param_05'', Scalar C_u32), (''cfg_param_06'', Scalar C_u32)]"

definition struct_drm_msm_ltm_data :: ctype where
  "struct_drm_msm_ltm_data = Struct False [
    (''data'', Array (Array (Scalar C_u32) 33) 32)]"

definition struct_drm_msm_ltm_buffers_ctrl :: ctype where
  "struct_drm_msm_ltm_buffers_ctrl = Struct False [
    (''num_of_buffers'', Scalar C_u32), (''fds'', Array (Scalar C_u32) 5)]"

definition struct_drm_msm_ltm_buffer :: ctype where
  "struct_drm_msm_ltm_buffer = Struct False [
    (''fd'', Scalar C_u32), (''offset'', Scalar C_u32), (''status'', Scalar C_u32)]"

definition struct_drm_msm_spr_init_cfg :: ctype where
  "struct_drm_msm_spr_init_cfg = Struct False [
    (''flags'', Scalar C_u64), (''cfg0'', Scalar C_u16), (''cfg1'', Scalar C_u16),
    (''cfg2'', Scalar C_u16), (''cfg3'', Scalar C_u16), (''cfg4'', Scalar C_u16),
    (''cfg5'', Scalar C_u16), (''cfg6'', Scalar C_u16), (''cfg7'', Scalar C_u16),
    (''cfg8'', Scalar C_u16), (''cfg9'', Scalar C_u16), (''cfg10'', Scalar C_u32),
    (''cfg11'', Array (Scalar C_u16) 4), (''cfg12'', Array (Scalar C_u16) 4),
    (''cfg13'', Array (Scalar C_u16) 4), (''cfg14'', Array (Scalar C_u16) 5),
    (''cfg15'', Array (Scalar C_u16) 32), (''cfg16'', Array (Scalar C_int) 16),
    (''cfg17'', Array (Scalar C_int) 24)]"

definition struct_drm_msm_dem_cfg :: ctype where
  "struct_drm_msm_dem_cfg = Struct False [
    (''flags'', Scalar C_u64), (''pentile'', Scalar C_u32), (''cfg0_en'', Scalar C_u32),
    (''cfg0_param0_len'', Scalar C_u32), (''cfg0_param0'', Array (Scalar C_u32) 8),
    (''cfg0_param1_len'', Scalar C_u32), (''cfg0_param1'', Array (Scalar C_u32) 8),
    (''cfg0_param2_len'', Scalar C_u32), (''cfg0_param2_c0'', Array (Scalar C_u64) 256),
    (''cfg0_param2_c1'', Array (Scalar C_u64) 256), (''cfg0_param2_c2'', Array (Scalar C_u64) 256),
    (''cfg0_param3_len'', Scalar C_u32), (''cfg0_param3_c0'', Array (Scalar C_u32) 8),
    (''cfg0_param3_c1'', Array (Scalar C_u32) 8), (''cfg0_param3_c2'', Array (Scalar C_u32) 8),
    (''cfg0_param4_len'', Scalar C_u32), (''cfg0_param4'', Array (Scalar C_u32) 8),
    (''cfg1_en'', Scalar C_u32), (''cfg1_high_idx'', Scalar C_u32),
    (''cfg1_low_idx'', Scalar C_u32), (''cfg01_param0_len'', Scalar C_u32),
    (''cfg01_param0'', Array (Scalar C_u32) 8), (''cfg1_param0_len'', Scalar C_u32),
    (''cfg1_param0_c0'', Array (Scalar C_u32) 153), (''cfg1_param0_c1'', Array (Scalar C_u32) 153),
    (''cfg1_param0_c2'', Array (Scalar C_u32) 153), (''cfg2_en'', Scalar C_u32),
    (''cfg3_en'', Scalar C_u32), (''cfg3_param0_len'', Scalar C_u32),
    (''cfg3_param0_a'', Array (Scalar C_u32) 4), (''cfg3_param0_b'', Array (Scalar C_u32) 4),
    (''cfg3_ab_adj'', Scalar C_u32), (''cfg4_en'', Scalar C_u32), (''cfg5_en'', Scalar C_u32),
    (''cfg5_param0_len'', Scalar C_u32), (''cfg5_param0'', Array (Scalar C_u32) 4),
    (''cfg5_param1_len'', Scalar C_u32), (''cfg5_param1'', Array (Scalar C_u32) 4),
    (''c0_depth'', Scalar C_u32), (''c1_depth'', Scalar C_u32), (''c2_depth'', Scalar C_u32),
    (''src_id'', Scalar C_u32)]"

definition struct_drm_msm_ad4_manual_str_cfg :: ctype where
  "struct_drm_msm_ad4_manual_str_cfg = Struct False [
    (''in_str'', Scalar C_u32), (''out_str'', Scalar C_u32)]"

definition struct_drm_msm_rc_mask_cfg :: ctype where
  "struct_drm_msm_rc_mask_cfg = Struct False [
    (''flags'', Scalar C_u64), (''cfg_param_01'', Scalar C_u32), (''cfg_param_02'', Scalar C_u32),
    (''cfg_param_03'', Scalar C_u32), (''cfg_param_04'', Array (Scalar C_u32) 4),
    (''cfg_param_05'', Array (Scalar C_u32) 4), (''cfg_param_06'', Array (Scalar C_u32) 4),
    (''cfg_param_07'', Scalar C_u64), (''cfg_param_08'', Scalar C_u32),
    (''cfg_param_09'', Array (Scalar C_u64) 2720), (''height'', Scalar C_u32),
    (''width'', Scalar C_u32)]"

definition struct_drm_msm_fp16_gc :: ctype where
  "struct_drm_msm_fp16_gc = Struct False [
    (''flags'', Scalar C_u64), (''mode'', Scalar C_u64)]"

definition struct_drm_msm_fp16_csc :: ctype where
  "struct_drm_msm_fp16_csc = Struct False [
    (''flags'', Scalar C_u64), (''cfg_param_0_len'', Scalar C_u32),
    (''cfg_param_0'', Array (Scalar C_u32) 12), (''cfg_param_1_len'', Scalar C_u32),
    (''cfg_param_1'', Array (Scalar C_u32) 8)]"

definition struct_drm_msm_backlight_info :: ctype where
  "struct_drm_msm_backlight_info = Struct False [
    (''brightness_max'', Scalar C_u32), (''brightness'', Scalar C_u32),
    (''bl_level_max'', Scalar C_u32), (''bl_level'', Scalar C_u32), (''bl_scale'', Scalar C_u32),
    (''bl_scale_sv'', Scalar C_u32), (''status'', Scalar C_u32), (''min_bl'', Scalar C_u32),
    (''bl_scale_max'', Scalar C_u32), (''bl_scale_sv_max'', Scalar C_u32)]"

definition struct_drm_msm_dimming_bl_lut :: ctype where
  "struct_drm_msm_dimming_bl_lut = Struct False [
    (''length'', Scalar C_u32), (''mapped_bl'', Array (Scalar C_u32) 8192)]"

definition controller_structs :: "ctype list" where
  "controller_structs =
    [struct_sde_drm_pix_ext_v1, struct_sde_drm_scaler_v1, struct_sde_drm_de_v1,
    struct_sde_drm_scaler_v2, struct_sde_drm_dest_scaler_cfg, struct_sde_drm_dest_scaler_data,
    struct_sde_drm_csc_v1, struct_sde_drm_color, struct_sde_drm_wb_cfg,
    struct_sde_drm_ubwc_stats_roi, struct_sde_drm_ubwc_stats_data,
    struct_sde_drm_frame_data_buffers_ctrl, struct_sde_drm_frame_data_buf,
    struct_sde_drm_plane_frame_data, struct_sde_drm_frame_data_packet,
    struct_drm_msm_ext_hdr_metadata, struct_drm_msm_ext_hdr_properties,
    struct_drm_panel_hdr_properties, struct_drm_msm_event_req, struct_drm_msm_power_ctrl,
    struct_drm_msm_early_wakeup, struct_drm_msm_display_hint, struct_drm_msm_noise_layer_cfg]"

text \<open>The ones that hold rectangles or an event of the kernel.\<close>

definition controller_structs_with :: "ctype \<Rightarrow> ctype \<Rightarrow> ctype list" where
  "controller_structs_with drm_clip_rect drm_event =
    [struct_sde_drm_dim_layer_cfg drm_clip_rect, struct_sde_drm_dim_layer_v1 drm_clip_rect,
    struct_sde_drm_roi_v1 drm_clip_rect, struct_drm_msm_event_resp drm_event]"

definition color_structs :: "ctype list" where
  "color_structs =
    [struct_drm_msm_pcc_coeff, struct_drm_msm_pcc, struct_drm_msm_pa_vlut, struct_drm_msm_pa_hsic,
    struct_drm_msm_memcol, struct_drm_msm_sixzone_curve, struct_drm_msm_sixzone,
    struct_drm_msm_3d_col, struct_drm_msm_3d_gamut, struct_drm_msm_pgc_lut, struct_drm_msm_igc_lut,
    struct_drm_msm_hist, struct_drm_msm_ad4_init, struct_drm_msm_ad4_cfg, struct_drm_msm_dither,
    struct_drm_msm_pa_dither, struct_drm_msm_ad4_roi_cfg, struct_drm_msm_ltm_stats_data,
    struct_drm_msm_ltm_init_param, struct_drm_msm_ltm_cfg_param, struct_drm_msm_ltm_data,
    struct_drm_msm_ltm_buffers_ctrl, struct_drm_msm_ltm_buffer, struct_drm_msm_spr_init_cfg,
    struct_drm_msm_dem_cfg, struct_drm_msm_ad4_manual_str_cfg, struct_drm_msm_rc_mask_cfg,
    struct_drm_msm_fp16_gc, struct_drm_msm_fp16_csc, struct_drm_msm_backlight_info,
    struct_drm_msm_dimming_bl_lut]"

section \<open>Events and requests\<close>

definition display_events_table :: "(string \<times> u32) list" where
  "display_events_table =
    [(''DRM_EVENT_HISTOGRAM'', 0x80000000), (''DRM_EVENT_AD_BACKLIGHT'', 0x80000001),
     (''DRM_EVENT_CRTC_POWER'', 0x80000002), (''DRM_EVENT_SYS_BACKLIGHT'', 0x80000003),
     (''DRM_EVENT_SDE_POWER'', 0x80000004), (''DRM_EVENT_IDLE_NOTIFY'', 0x80000005),
     (''DRM_EVENT_PANEL_DEAD'', 0x80000006), (''DRM_EVENT_SDE_HW_RECOVERY'', 0x80000007),
     (''DRM_EVENT_LTM_HIST'', 0x80000008), (''DRM_EVENT_LTM_WB_PB'', 0x80000009),
     (''DRM_EVENT_LTM_OFF'', 0x8000000A), (''DRM_EVENT_MMRM_CB'', 0x8000000B),
     (''DRM_EVENT_FRAME_DATA'', 0x8000000C), (''DRM_EVENT_DIMMING_BL'', 0x8000000D),
     (''DRM_EVENT_VM_RELEASE'', 0x8000000E)]"

definition display_events :: "u32 list" where
  "display_events = map snd display_events_table"

definition DRM_SDE_WB_CONFIG :: nat where "DRM_SDE_WB_CONFIG = 0x40"
definition DRM_MSM_REGISTER_EVENT :: nat where "DRM_MSM_REGISTER_EVENT = 0x41"
definition DRM_MSM_DEREGISTER_EVENT :: nat where "DRM_MSM_DEREGISTER_EVENT = 0x42"
definition DRM_MSM_RMFB2 :: nat where "DRM_MSM_RMFB2 = 0x43"
definition DRM_MSM_POWER_CTRL :: nat where "DRM_MSM_POWER_CTRL = 0x44"
definition DRM_MSM_DISPLAY_HINT :: nat where "DRM_MSM_DISPLAY_HINT = 0x45"

definition DRM_IOCTL_SDE_WB_CONFIG :: "nat \<Rightarrow> nat \<Rightarrow> ioctl" where
  "DRM_IOCTL_SDE_WB_CONFIG base command_base =
    IOW ''DRM_IOCTL_SDE_WB_CONFIG'' base (command_base + DRM_SDE_WB_CONFIG) struct_sde_drm_wb_cfg"

definition DRM_IOCTL_MSM_REGISTER_EVENT :: "nat \<Rightarrow> nat \<Rightarrow> ioctl" where
  "DRM_IOCTL_MSM_REGISTER_EVENT base command_base =
    IOW ''DRM_IOCTL_MSM_REGISTER_EVENT'' base (command_base + DRM_MSM_REGISTER_EVENT) struct_drm_msm_event_req"

definition DRM_IOCTL_MSM_DEREGISTER_EVENT :: "nat \<Rightarrow> nat \<Rightarrow> ioctl" where
  "DRM_IOCTL_MSM_DEREGISTER_EVENT base command_base =
    IOW ''DRM_IOCTL_MSM_DEREGISTER_EVENT'' base (command_base + DRM_MSM_DEREGISTER_EVENT) struct_drm_msm_event_req"

definition DRM_IOCTL_MSM_RMFB2 :: "nat \<Rightarrow> nat \<Rightarrow> ioctl" where
  "DRM_IOCTL_MSM_RMFB2 base command_base =
    IOW ''DRM_IOCTL_MSM_RMFB2'' base (command_base + DRM_MSM_RMFB2) (Scalar C_uint)"

definition DRM_IOCTL_MSM_POWER_CTRL :: "nat \<Rightarrow> nat \<Rightarrow> ioctl" where
  "DRM_IOCTL_MSM_POWER_CTRL base command_base =
    IOW ''DRM_IOCTL_MSM_POWER_CTRL'' base (command_base + DRM_MSM_POWER_CTRL) struct_drm_msm_power_ctrl"

definition DRM_IOCTL_MSM_DISPLAY_HINT :: "nat \<Rightarrow> nat \<Rightarrow> ioctl" where
  "DRM_IOCTL_MSM_DISPLAY_HINT base command_base =
    IOW ''DRM_IOCTL_MSM_DISPLAY_HINT'' base (command_base + DRM_MSM_DISPLAY_HINT) struct_drm_msm_display_hint"

definition sde_drm_ioctls :: "nat \<Rightarrow> nat \<Rightarrow> ioctl list" where
  "sde_drm_ioctls base command_base =
    [DRM_IOCTL_SDE_WB_CONFIG base command_base, DRM_IOCTL_MSM_REGISTER_EVENT base command_base,
    DRM_IOCTL_MSM_DEREGISTER_EVENT base command_base, DRM_IOCTL_MSM_RMFB2 base command_base,
    DRM_IOCTL_MSM_POWER_CTRL base command_base, DRM_IOCTL_MSM_DISPLAY_HINT base command_base]"

text \<open>
  The three-dimensional gamut tables: the mode, that is the number of grid points along an axis, and the
  length of each of the tables the grid is spread over.
\<close>

definition gamut_tables :: "(nat \<times> nat \<times> nat) list" where
  "gamut_tables =
    [(GAMUT_3D_MODE_17, 17, GAMUT_3D_MODE17_TBL_SZ), (GAMUT_3D_MODE_5, 5, GAMUT_3D_MODE5_TBL_SZ),
     (GAMUT_3D_MODE_13, 13, GAMUT_3D_MODE13_TBL_SZ)]"

section \<open>Lemmas\<close>

lemmas display_flag_defs =
  scaler_lut_flags_def scaler_lut_flags_table_def dest_scaler_flags_def dest_scaler_flags_table_def
  dim_layer_flags_def colorimetry_flags_def colorimetry_flags_table_def panel_mode_flags_def
  display_hint_flags_def display_hint_flags_table_def pa_hsic_flags_def pa_hsic_flags_table_def
  memcol_flags_def memcol_flags_table_def sixzone_flags_def ltm_stats_flags_def dimming_flags_def
  SDE_DRM_DIM_LAYER_INCLUSIVE_def SDE_DRM_DIM_LAYER_EXCLUSIVE_def DRM_MODE_FLAG_VID_MODE_PANEL_def
  DRM_MODE_FLAG_CMD_MODE_PANEL_def SIXZONE_HUE_ENABLE_def SIXZONE_SAT_ENABLE_def
  SIXZONE_VAL_ENABLE_def LTM_STATS_SAT_def LTM_STATS_MERGE_SAT_def DIMMING_ENABLE_def
  DIMMING_MIN_BL_VALID_def

lemmas sde_request_defs =
  sde_drm_ioctls_def DRM_IOCTL_SDE_WB_CONFIG_def DRM_IOCTL_MSM_REGISTER_EVENT_def
  DRM_IOCTL_MSM_DEREGISTER_EVENT_def DRM_IOCTL_MSM_RMFB2_def DRM_IOCTL_MSM_POWER_CTRL_def
  DRM_IOCTL_MSM_DISPLAY_HINT_def DRM_SDE_WB_CONFIG_def DRM_MSM_REGISTER_EVENT_def
  DRM_MSM_DEREGISTER_EVENT_def DRM_MSM_RMFB2_def DRM_MSM_POWER_CTRL_def DRM_MSM_DISPLAY_HINT_def

lemma flag_words_disjoint:
  "list_all disjoint_masks
    [scaler_lut_flags, dest_scaler_flags, dim_layer_flags, colorimetry_flags, panel_mode_flags,
     display_hint_flags, pa_hsic_flags, memcol_flags, sixzone_flags, ltm_stats_flags, dimming_flags]"
  by (simp add: display_flag_defs)

lemma controller_structs_fixed: "list_all fixed_width controller_structs"
  by code_simp

lemma color_structs_fixed: "list_all fixed_width color_structs"
  by code_simp

lemma controller_structs_with_fixed:
  "fixed_width drm_clip_rect \<Longrightarrow> fixed_width drm_event \<Longrightarrow>
   list_all fixed_width (controller_structs_with drm_clip_rect drm_event)"
  by (simp add: controller_structs_with_def struct_sde_drm_dim_layer_cfg_def
      struct_sde_drm_dim_layer_v1_def struct_sde_drm_roi_v1_def struct_drm_msm_event_resp_def
      struct_drm_msm_event_req_def struct_sde_drm_color_def)

text \<open>
  The contract of the kernel's numbering of DRM requests: one byte for the magic number, and room for
  the driver's commands above the base of the driver-private range.
\<close>

locale drm_base =
  fixes base command_base :: nat
  assumes base_byte: "base < 256"
    and commands_fit: "command_base + DRM_MSM_DISPLAY_HINT < 256"

sublocale drm_base \<subseteq> ioctl_table "sde_drm_ioctls base command_base"
proof (rule ioctl_tableI)
  show "distinct (map ioc_key (sde_drm_ioctls base command_base))"
    by (simp add: sde_request_defs ioc_key_def IOW_def)
  have "\<forall>i \<in> set (sde_drm_ioctls base command_base). ioc_type i < 256 \<and> ioc_nr i < 256"
    using base_byte commands_fit by (simp add: sde_request_defs IOW_def)
  moreover have "\<forall>i \<in> set (sde_drm_ioctls base command_base). arg_size dm i < 16384" for dm
    by (cases dm) (simp_all add: sde_request_defs IOW_def arg_size_def struct_sde_drm_wb_cfg_def
        struct_drm_msm_event_req_def struct_drm_msm_power_ctrl_def
        struct_drm_msm_display_hint_def field_align_def align_up_def ceil_div_def)
  ultimately show "requests_ok (sde_drm_ioctls base command_base)"
    by (auto simp: requests_ok_def list_all_iff request_ok_def)
qed

context drm_base
begin

lemma argument_compatible:
  "i \<in> set (sde_drm_ioctls base command_base) \<Longrightarrow> argument_compatible i"
  by (auto simp: sde_request_defs argument_compatible_def IOW_def struct_sde_drm_wb_cfg_def
      struct_drm_msm_event_req_def struct_drm_msm_power_ctrl_def struct_drm_msm_display_hint_def)

lemma number_any_width:
  assumes "ioc_encoding enc" and "i \<in> set (sde_drm_ioctls base command_base)"
    and "j \<in> set (sde_drm_ioctls base command_base)"
  shows "enc (request dm i) = enc (request dm' j) \<longleftrightarrow> i = j"
  using number_unique [OF assms, of dm] request_compatible [OF argument_compatible [OF assms(3)], of dm dm']
  by simp

end

text \<open>The documented values: magic number \<open>d\<close>, driver-private range from \<open>0x40\<close>.\<close>

interpretation drm: drm_base "0x64" "0x40"
  by unfold_locales (simp_all add: DRM_MSM_DISPLAY_HINT_def)

section \<open>Properties\<close>

text \<open>
  C29. A display blob means the same to a 32-bit client and to the 64-bit kernel: whatever
  fixed-width rectangle and event types the kernel's headers have, every struct of the controller
  and of the colour processing has the same size and the same bytes in both data models.
\<close>

theorem display_blobs_compatible:
  assumes "fixed_width drm_clip_rect" and "fixed_width drm_event"
    and "t \<in> set (controller_structs @ color_structs @ controller_structs_with drm_clip_rect drm_event)"
  shows "csize ILP32 t = csize LP64 t \<and> encode ILP32 t v = encode LP64 t v"
proof -
  have "fixed_width t"
    using assms controller_structs_fixed color_structs_fixed
      controller_structs_with_fixed [OF assms(1,2)]
    by (auto simp: list_all_iff)
  then show ?thesis
    by (simp add: fixed_width_csize [of t ILP32 LP64] fixed_width_encode [of t ILP32 v LP64])
qed

definition sample_rect :: ctype where
  "sample_rect = Struct False [(''x1'', Scalar C_ushort), (''y1'', Scalar C_ushort),
    (''x2'', Scalar C_ushort), (''y2'', Scalar C_ushort)]"

definition sample_event :: ctype where
  "sample_event = Struct False [(''type'', Scalar C_u32), (''length'', Scalar C_u32)]"

theorem display_blobs_compatible_witness:
  "csize ILP32 (struct_sde_drm_roi_v1 sample_rect) = csize LP64 (struct_sde_drm_roi_v1 sample_rect)"
  using display_blobs_compatible [of sample_rect sample_event "struct_sde_drm_roi_v1 sample_rect"]
  by (simp add: sample_rect_def sample_event_def controller_structs_with_def)

text \<open>
  Wherever the kernel puts the driver-private commands, as long as they fit in a byte, the six
  display requests have six numbers, and each has the same number in a 32-bit and in a 64-bit process.
\<close>

lemma sde_requests_distinct:
  assumes "ioc_encoding enc" and "base < 256" and "command_base + DRM_MSM_DISPLAY_HINT < 256"
    and "i \<in> set (sde_drm_ioctls base command_base)" and "j \<in> set (sde_drm_ioctls base command_base)"
  shows "enc (request dm i) = enc (request dm' j) \<longleftrightarrow> i = j"
proof -
  have "drm_base base command_base"
    using assms(2,3) by unfold_locales
  then show ?thesis
    using assms(1,4,5) by (rule drm_base.number_any_width)
qed

lemma sde_requests_distinct_witness:
  "sample_encoding (request ILP32 (DRM_IOCTL_MSM_REGISTER_EVENT 0x64 0x40)) =
   sample_encoding (request LP64 (DRM_IOCTL_MSM_REGISTER_EVENT 0x64 0x40))"
  using sde_requests_distinct [OF sample_encoding_ok, of "0x64" "0x40"
      "DRM_IOCTL_MSM_REGISTER_EVENT 0x64 0x40" "DRM_IOCTL_MSM_REGISTER_EVENT 0x64 0x40" ILP32 LP64]
  by (simp add: DRM_MSM_DISPLAY_HINT_def sde_drm_ioctls_def)

text \<open>
  The gamut tables hold their grids: in each mode the points of the grid, the cube of the mode's
  number, spread over the four tables, need exactly the length the header gives, which the
  arrays of the struct have room for; the scale offsets are one fewer than the grid points.
\<close>

lemma gamut_tables_hold_grid:
  "list_all (\<lambda>(m, n, len). len = ceil_div (n ^ 3) GAMUT_3D_TBL_NUM) gamut_tables \<and>
   distinct (map fst gamut_tables) \<and>
   GAMUT_3D_SCALE_OFF_SZ = 17 - 1 \<and> GAMUT_3D_SCALEB_OFF_SZ = 13 - 1 \<and>
   csize dm struct_drm_msm_3d_gamut =
     align_up (8 + 4 + GAMUT_3D_SCALE_OFF_TBL_NUM * GAMUT_3D_SCALE_OFF_SZ * 4 +
       GAMUT_3D_TBL_NUM * max_list (map (\<lambda>(m, n, len). len) gamut_tables) *
       csize dm struct_drm_msm_3d_col) 8"
  by (cases dm; hypsubst; intro conjI; code_simp)

text \<open>
  The event response: the custom payload starts where the base and the request information end,
  so that the documented size of the payload is right when the kernel's event type fills whole
  double words.
\<close>

lemma event_payload_offset:
  "coffset dm (struct_drm_msm_event_resp drm_event) ''data'' =
     Some (align_up (csize dm drm_event) 8 + csize dm struct_drm_msm_event_req)"
  by (cases dm) (simp_all add: coffset_def struct_drm_msm_event_resp_def
      struct_drm_msm_event_req_def field_layout_def field_align_def align_up_def ceil_div_def)

lemma display_events_run: "map unat display_events = [0x80000000..<0x8000000F]"
  by code_simp

end
