(* ===== verification/Msm_Drm_Stub.thy ===== *)
theory Msm_Drm_Stub
  imports Display_Drm
begin

text \<open>
  The short stand-ins for the display driver's header: \<^verbatim>\<open>src/include/linux/msm_drm.h\<close> and the two equal
  files \<^verbatim>\<open>src/include/drm/msm_drm.h\<close> and \<^verbatim>\<open>src/include/display/drm/msm_drm.h\<close>. They declare the same
  struct, requests, events and panel flags as \<^verbatim>\<open>sde_drm.h\<close>, which \<open>Display_Drm\<close> models, with other
  contents. The lemmas compare the two interfaces.
\<close>

section \<open>The declarations\<close>

text \<open>The first file calls the last field \<open>event_id\<close>, the others \<open>event\<close>.\<close>

definition stub_drm_msm_event_req :: "string \<Rightarrow> ctype" where
  "stub_drm_msm_event_req event = Struct False [
    (''object_id'', Scalar C_u32), (''object_type'', Scalar C_u32), (event, Scalar C_u32)]"

definition stub_drm_msm_event_resp :: ctype where
  "stub_drm_msm_event_resp = Struct False [
    (''base'', Struct False [(''type'', Scalar C_u32), (''length'', Scalar C_u32)]),
    (''data'', Array (Scalar C_u8) 0)]"

definition stub_events :: "(string \<times> u32) list" where
  "stub_events =
    [(''DRM_EVENT_PANEL_DEAD'', 0x1), (''DRM_EVENT_CRTC_POWER'', 0x2),
     (''DRM_EVENT_HISTOGRAM'', 0x3), (''DRM_EVENT_SDE_POWER'', 0x4)]"

definition stub_panel_flags :: "(string \<times> u32) list" where
  "stub_panel_flags =
    [(''DRM_MODE_FLAG_CMD_MODE_PANEL'', 0x100), (''DRM_MODE_FLAG_VID_MODE_PANEL'', 0x200)]"

definition stub_ioctls :: "string \<Rightarrow> ioctl list" where
  "stub_ioctls event =
    [IOWR ''DRM_IOCTL_MSM_REGISTER_EVENT'' 0x64 0x41 (stub_drm_msm_event_req event),
     IOWR ''DRM_IOCTL_MSM_DEREGISTER_EVENT'' 0x64 0x42 (stub_drm_msm_event_req event)]"

section \<open>Lemmas\<close>

lemma stub_size: "csize dm (stub_drm_msm_event_req event) = 12"
  by (cases dm) (simp_all add: stub_drm_msm_event_req_def field_align_def align_up_def ceil_div_def)

lemma event_req_size: "csize dm struct_drm_msm_event_req = 32"
  by (cases dm; hypsubst; code_simp)

lemma stub_requests_ok: "i \<in> set (stub_ioctls event) \<Longrightarrow> request_ok dm i \<and> ioc_dir i = IOC_READWRITE"
  by (auto simp: stub_ioctls_def request_ok_def IOWR_def arg_size_def stub_size)

lemma same_name:
  assumes "i \<in> set (stub_ioctls event)"
  shows "\<exists>j \<in> set (sde_drm_ioctls base command_base). ioc_name j = ioc_name i \<and>
    ioc_nr j = command_base + ioc_nr i \<and> arg_size dm' i < arg_size dm j"
proof -
  let ?R = "DRM_IOCTL_MSM_REGISTER_EVENT base command_base"
  let ?D = "DRM_IOCTL_MSM_DEREGISTER_EVENT base command_base"
  have mem: "?R \<in> set (sde_drm_ioctls base command_base)" "?D \<in> set (sde_drm_ioctls base command_base)"
    by (simp_all add: sde_drm_ioctls_def)
  have "arg_size dm ?R = 32" "arg_size dm ?D = 32" "arg_size dm' i = 12"
    using assms
    by (auto simp: arg_size_def DRM_IOCTL_MSM_REGISTER_EVENT_def DRM_IOCTL_MSM_DEREGISTER_EVENT_def
        IOW_def event_req_size stub_ioctls_def IOWR_def stub_size)
  moreover have "ioc_name i = ioc_name ?R \<and> ioc_nr ?R = command_base + ioc_nr i \<or>
      ioc_name i = ioc_name ?D \<and> ioc_nr ?D = command_base + ioc_nr i"
    using assms
    by (auto simp: DRM_IOCTL_MSM_REGISTER_EVENT_def DRM_IOCTL_MSM_DEREGISTER_EVENT_def IOW_def
        stub_ioctls_def IOWR_def DRM_MSM_REGISTER_EVENT_def DRM_MSM_DEREGISTER_EVENT_def)
  ultimately show ?thesis
    using mem by auto
qed

text \<open>All requests of the driver are writes: none has the number of a request of another direction.\<close>

context drm_base
begin

lemma requests_write: "j \<in> set (sde_drm_ioctls base command_base) \<Longrightarrow> ioc_dir j = IOC_WRITE"
  by (auto simp: sde_request_defs IOW_def)

lemma other_direction:
  assumes "ioc_encoding enc" and "request_ok dm' i" and "ioc_dir i \<noteq> IOC_WRITE"
    and "j \<in> set (sde_drm_ioctls base command_base)"
  shows "enc (request dm j) \<noteq> enc (request dm' i)"
  using request_inj [OF assms(1) fields_in_range [OF assms(4)] assms(2), of dm]
    requests_write [OF assms(4)] assms(3)
  by (auto simp: request_def)

end

section \<open>Properties\<close>

text \<open>
  C28. A request of a stand-in header is never a request of the display driver: wherever the kernel
  puts the driver's commands, as long as they fit in a byte, no request of the driver has the number
  of the stand-in's request, in either data model. The request of the same name has a number that is
  higher by the base of the driver's commands, and a larger argument.
\<close>

theorem stub_requests_not_served:
  assumes "ioc_encoding enc" and "base < 256" and "command_base + DRM_MSM_DISPLAY_HINT < 256"
    and "i \<in> set (stub_ioctls event)"
  shows "(\<forall>j \<in> set (sde_drm_ioctls base command_base). enc (request dm j) \<noteq> enc (request dm' i)) \<and>
    (\<exists>j \<in> set (sde_drm_ioctls base command_base). ioc_name j = ioc_name i \<and>
       ioc_nr j = command_base + ioc_nr i \<and> arg_size dm' i < arg_size dm j)"
proof
  have "drm_base base command_base"
    using assms(2,3) by unfold_locales
  then show "\<forall>j \<in> set (sde_drm_ioctls base command_base). enc (request dm j) \<noteq> enc (request dm' i)"
    using drm_base.other_direction [OF _ assms(1)] stub_requests_ok [OF assms(4)] by simp
  show "\<exists>j \<in> set (sde_drm_ioctls base command_base). ioc_name j = ioc_name i \<and>
       ioc_nr j = command_base + ioc_nr i \<and> arg_size dm' i < arg_size dm j"
    using same_name [OF assms(4)] by blast
qed

theorem stub_requests_not_served_witness:
  "sample_encoding (request LP64 (DRM_IOCTL_MSM_REGISTER_EVENT 0x64 0x40)) \<noteq>
     sample_encoding (request LP64 (hd (stub_ioctls ''event_id'')))"
  using stub_requests_not_served [OF sample_encoding_ok, of "0x64" "0x40" "hd (stub_ioctls ''event_id'')"
      "''event_id''" LP64 LP64]
  by (simp add: DRM_MSM_DISPLAY_HINT_def stub_ioctls_def sde_drm_ioctls_def)

text \<open>
  The events and panel flags disagree as well: no event of the stand-in is one of the driver's, and
  its panel flags are bits that the driver's flags do not use, in the opposite order.
\<close>

lemma stub_events_unknown:
  "map fst stub_events = [''DRM_EVENT_PANEL_DEAD'', ''DRM_EVENT_CRTC_POWER'', ''DRM_EVENT_HISTOGRAM'',
     ''DRM_EVENT_SDE_POWER''] \<and>
   set (map fst stub_events) \<subseteq> set (map fst display_events_table) \<and>
   set (map snd stub_events) \<inter> set display_events = {}"
  by code_simp

lemma stub_panel_flags_disjoint: "disjoint_masks (map snd stub_panel_flags @ panel_mode_flags)"
  by code_simp

text \<open>In the stand-in the payload follows the event header, in the driver's events a copy of the request.\<close>

lemma stub_payload_offset:
  "coffset dm stub_drm_msm_event_resp ''data'' = Some 8 \<and>
   coffset dm (struct_drm_msm_event_resp sample_event) ''data'' = Some 40"
  by (cases dm; hypsubst; code_simp)

end
