(* ===== verification/Alsa_Tlv.thy ===== *)
theory Alsa_Tlv
  imports Prelude "HOL-Library.Monad_Syntax"
begin

text \<open>
  The type-length-value blocks that ALSA controls carry for their decibel scales
  (\<^verbatim>\<open>src/include/sound/tlv.h\<close>). The header has macros that lay the blocks out as arrays of
  \<^verbatim>\<open>unsigned int\<close>; a comment says how a reader finds its way through them. The macros are
  definitions on word lists; the reader of the comment is \<open>read_tlvs\<close>, and the theorems say
  that it recovers what the macros were given, however deeply containers are nested.
\<close>

unbundle bit_operations_syntax

section \<open>The macros\<close>

definition SNDRV_CTL_TLVT_CONTAINER :: u32 where "SNDRV_CTL_TLVT_CONTAINER = 0"
definition SNDRV_CTL_TLVT_DB_SCALE :: u32 where "SNDRV_CTL_TLVT_DB_SCALE = 1"
definition SNDRV_CTL_TLVT_DB_LINEAR :: u32 where "SNDRV_CTL_TLVT_DB_LINEAR = 2"
definition SNDRV_CTL_TLVT_DB_RANGE :: u32 where "SNDRV_CTL_TLVT_DB_RANGE = 3"
definition SNDRV_CTL_TLVT_DB_MINMAX :: u32 where "SNDRV_CTL_TLVT_DB_MINMAX = 4"
definition SNDRV_CTL_TLVT_DB_MINMAX_MUTE :: u32 where "SNDRV_CTL_TLVT_DB_MINMAX_MUTE = 5"
definition SNDRV_CTL_TLVT_CHMAP_FIXED :: u32 where "SNDRV_CTL_TLVT_CHMAP_FIXED = 0x101"
definition SNDRV_CTL_TLVT_CHMAP_VAR :: u32 where "SNDRV_CTL_TLVT_CHMAP_VAR = 0x102"
definition SNDRV_CTL_TLVT_CHMAP_PAIRED :: u32 where "SNDRV_CTL_TLVT_CHMAP_PAIRED = 0x103"

text \<open>\<^verbatim>\<open>sizeof\<close> of the array the arguments form, cast to \<^verbatim>\<open>unsigned int\<close>.\<close>

definition SNDRV_CTL_TLVD_LENGTH :: "u32 list \<Rightarrow> u32" where
  "SNDRV_CTL_TLVD_LENGTH args = word_of_nat (4 * length args)"

definition SNDRV_CTL_TLVD_ITEM :: "u32 \<Rightarrow> u32 list \<Rightarrow> u32 list" where
  "SNDRV_CTL_TLVD_ITEM type args = type # SNDRV_CTL_TLVD_LENGTH args # args"

definition SNDRV_CTL_TLVO_TYPE :: nat where "SNDRV_CTL_TLVO_TYPE = 0"
definition SNDRV_CTL_TLVO_LEN :: nat where "SNDRV_CTL_TLVO_LEN = 1"

definition SNDRV_CTL_TLVD_CONTAINER_ITEM :: "u32 list \<Rightarrow> u32 list" where
  "SNDRV_CTL_TLVD_CONTAINER_ITEM args = SNDRV_CTL_TLVD_ITEM SNDRV_CTL_TLVT_CONTAINER args"

text \<open>The \<^verbatim>\<open>DECLARE\<close> macros declare an array; each is modelled by the array's contents.\<close>

definition SNDRV_CTL_TLVD_DECLARE_CONTAINER :: "u32 list \<Rightarrow> u32 list" where
  "SNDRV_CTL_TLVD_DECLARE_CONTAINER args = SNDRV_CTL_TLVD_CONTAINER_ITEM args"

definition SNDRV_CTL_TLVD_DB_SCALE_MASK :: u32 where "SNDRV_CTL_TLVD_DB_SCALE_MASK = 0xffff"
definition SNDRV_CTL_TLVD_DB_SCALE_MUTE :: u32 where "SNDRV_CTL_TLVD_DB_SCALE_MUTE = 0x10000"

definition SNDRV_CTL_TLVD_DB_SCALE_ITEM :: "u32 \<Rightarrow> u32 \<Rightarrow> u32 \<Rightarrow> u32 list" where
  "SNDRV_CTL_TLVD_DB_SCALE_ITEM min' step mute =
    SNDRV_CTL_TLVD_ITEM SNDRV_CTL_TLVT_DB_SCALE
      [min',
       (step AND SNDRV_CTL_TLVD_DB_SCALE_MASK) OR
         (if mute \<noteq> 0 then SNDRV_CTL_TLVD_DB_SCALE_MUTE else 0)]"

definition SNDRV_CTL_TLVD_DECLARE_DB_SCALE :: "u32 \<Rightarrow> u32 \<Rightarrow> u32 \<Rightarrow> u32 list" where
  "SNDRV_CTL_TLVD_DECLARE_DB_SCALE min' step mute = SNDRV_CTL_TLVD_DB_SCALE_ITEM min' step mute"

definition SNDRV_CTL_TLVO_DB_SCALE_MIN :: nat where "SNDRV_CTL_TLVO_DB_SCALE_MIN = 2"
definition SNDRV_CTL_TLVO_DB_SCALE_MUTE_AND_STEP :: nat where
  "SNDRV_CTL_TLVO_DB_SCALE_MUTE_AND_STEP = 3"

definition SNDRV_CTL_TLVD_DB_MINMAX_ITEM :: "u32 \<Rightarrow> u32 \<Rightarrow> u32 list" where
  "SNDRV_CTL_TLVD_DB_MINMAX_ITEM min_dB max_dB =
    SNDRV_CTL_TLVD_ITEM SNDRV_CTL_TLVT_DB_MINMAX [min_dB, max_dB]"

definition SNDRV_CTL_TLVD_DB_MINMAX_MUTE_ITEM :: "u32 \<Rightarrow> u32 \<Rightarrow> u32 list" where
  "SNDRV_CTL_TLVD_DB_MINMAX_MUTE_ITEM min_dB max_dB =
    SNDRV_CTL_TLVD_ITEM SNDRV_CTL_TLVT_DB_MINMAX_MUTE [min_dB, max_dB]"

definition SNDRV_CTL_TLVD_DECLARE_DB_MINMAX :: "u32 \<Rightarrow> u32 \<Rightarrow> u32 list" where
  "SNDRV_CTL_TLVD_DECLARE_DB_MINMAX min_dB max_dB = SNDRV_CTL_TLVD_DB_MINMAX_ITEM min_dB max_dB"

definition SNDRV_CTL_TLVD_DECLARE_DB_MINMAX_MUTE :: "u32 \<Rightarrow> u32 \<Rightarrow> u32 list" where
  "SNDRV_CTL_TLVD_DECLARE_DB_MINMAX_MUTE min_dB max_dB =
    SNDRV_CTL_TLVD_DB_MINMAX_MUTE_ITEM min_dB max_dB"

definition SNDRV_CTL_TLVO_DB_MINMAX_MIN :: nat where "SNDRV_CTL_TLVO_DB_MINMAX_MIN = 2"
definition SNDRV_CTL_TLVO_DB_MINMAX_MAX :: nat where "SNDRV_CTL_TLVO_DB_MINMAX_MAX = 3"

definition SNDRV_CTL_TLVD_DB_LINEAR_ITEM :: "u32 \<Rightarrow> u32 \<Rightarrow> u32 list" where
  "SNDRV_CTL_TLVD_DB_LINEAR_ITEM min_dB max_dB =
    SNDRV_CTL_TLVD_ITEM SNDRV_CTL_TLVT_DB_LINEAR [min_dB, max_dB]"

definition SNDRV_CTL_TLVD_DECLARE_DB_LINEAR :: "u32 \<Rightarrow> u32 \<Rightarrow> u32 list" where
  "SNDRV_CTL_TLVD_DECLARE_DB_LINEAR min_dB max_dB = SNDRV_CTL_TLVD_DB_LINEAR_ITEM min_dB max_dB"

definition SNDRV_CTL_TLVO_DB_LINEAR_MIN :: nat where "SNDRV_CTL_TLVO_DB_LINEAR_MIN = 2"
definition SNDRV_CTL_TLVO_DB_LINEAR_MAX :: nat where "SNDRV_CTL_TLVO_DB_LINEAR_MAX = 3"

definition SNDRV_CTL_TLVD_DB_RANGE_ITEM :: "u32 list \<Rightarrow> u32 list" where
  "SNDRV_CTL_TLVD_DB_RANGE_ITEM args = SNDRV_CTL_TLVD_ITEM SNDRV_CTL_TLVT_DB_RANGE args"

definition SNDRV_CTL_TLVD_DECLARE_DB_RANGE :: "u32 list \<Rightarrow> u32 list" where
  "SNDRV_CTL_TLVD_DECLARE_DB_RANGE args = SNDRV_CTL_TLVD_DB_RANGE_ITEM args"

definition SNDRV_CTL_TLVD_DB_GAIN_MUTE :: int where "SNDRV_CTL_TLVD_DB_GAIN_MUTE = -9999999"

lemmas tlv_types =
  SNDRV_CTL_TLVT_CONTAINER_def SNDRV_CTL_TLVT_DB_SCALE_def SNDRV_CTL_TLVT_DB_LINEAR_def
  SNDRV_CTL_TLVT_DB_RANGE_def SNDRV_CTL_TLVT_DB_MINMAX_def SNDRV_CTL_TLVT_DB_MINMAX_MUTE_def
  SNDRV_CTL_TLVT_CHMAP_FIXED_def SNDRV_CTL_TLVT_CHMAP_VAR_def SNDRV_CTL_TLVT_CHMAP_PAIRED_def

lemmas tlv_items =
  SNDRV_CTL_TLVD_CONTAINER_ITEM_def SNDRV_CTL_TLVD_DB_SCALE_ITEM_def
  SNDRV_CTL_TLVD_DB_MINMAX_ITEM_def SNDRV_CTL_TLVD_DB_MINMAX_MUTE_ITEM_def
  SNDRV_CTL_TLVD_DB_LINEAR_ITEM_def SNDRV_CTL_TLVD_DB_RANGE_ITEM_def

lemmas tlv_offsets =
  SNDRV_CTL_TLVO_TYPE_def SNDRV_CTL_TLVO_LEN_def SNDRV_CTL_TLVO_DB_SCALE_MIN_def
  SNDRV_CTL_TLVO_DB_SCALE_MUTE_AND_STEP_def SNDRV_CTL_TLVO_DB_MINMAX_MIN_def
  SNDRV_CTL_TLVO_DB_MINMAX_MAX_def SNDRV_CTL_TLVO_DB_LINEAR_MIN_def
  SNDRV_CTL_TLVO_DB_LINEAR_MAX_def

section \<open>Trees of blocks and the arrays the macros make of them\<close>

text \<open>
  A block with a payload of its own, a container of blocks, or a decibel range, whose entries
  are a least value, a greatest value and a block (the header: \<open>Each item is: <min> <max> <TLV>\<close>).
\<close>

datatype tlv = Item u32 "u32 list" | Container "tlv list" | Db_Range "db_range list"
  and db_range = Db_Range_Entry u32 u32 tlv

fun tlv_words :: "tlv \<Rightarrow> u32 list" and db_range_words :: "db_range \<Rightarrow> u32 list" where
  "tlv_words (Item type args) = SNDRV_CTL_TLVD_ITEM type args"
| "tlv_words (Container ts) = SNDRV_CTL_TLVD_CONTAINER_ITEM (concat (map tlv_words ts))"
| "tlv_words (Db_Range es) = SNDRV_CTL_TLVD_DB_RANGE_ITEM (concat (map db_range_words es))"
| "db_range_words (Db_Range_Entry lo hi t) = lo # hi # tlv_words t"

text \<open>The type word and the payload of a block.\<close>

fun tlv_type :: "tlv \<Rightarrow> u32" where
  "tlv_type (Item type args) = type"
| "tlv_type (Container ts) = SNDRV_CTL_TLVT_CONTAINER"
| "tlv_type (Db_Range es) = SNDRV_CTL_TLVT_DB_RANGE"

fun tlv_payload :: "tlv \<Rightarrow> u32 list" where
  "tlv_payload (Item type args) = args"
| "tlv_payload (Container ts) = concat (map tlv_words ts)"
| "tlv_payload (Db_Range es) = concat (map db_range_words es)"

lemma tlv_words_ITEM: "tlv_words t = SNDRV_CTL_TLVD_ITEM (tlv_type t) (tlv_payload t)"
  by (cases t) (simp_all add: tlv_items)

text \<open>The bytes of an array must be countable in an \<^verbatim>\<open>unsigned int\<close>.\<close>

definition fits :: "u32 list \<Rightarrow> bool" where
  "fits args \<longleftrightarrow> 4 * length args < 2 ^ 32"

fun tlv_ok :: "tlv \<Rightarrow> bool" and db_range_ok :: "db_range \<Rightarrow> bool" where
  "tlv_ok (Item type args) \<longleftrightarrow>
    type \<noteq> SNDRV_CTL_TLVT_CONTAINER \<and> type \<noteq> SNDRV_CTL_TLVT_DB_RANGE \<and> fits args"
| "tlv_ok (Container ts) \<longleftrightarrow> (\<forall>t \<in> set ts. tlv_ok t) \<and> fits (concat (map tlv_words ts))"
| "tlv_ok (Db_Range es) \<longleftrightarrow> (\<forall>e \<in> set es. db_range_ok e) \<and> fits (concat (map db_range_words es))"
| "db_range_ok (Db_Range_Entry lo hi t) \<longleftrightarrow> tlv_ok t"

section \<open>The reader\<close>

text \<open>
  The comment of the header: data follow the type and the length, and the next block is
  \<open>block_length\<close> bytes further, the length rounded up to a multiple of four. \<^verbatim>\<open>sizeof\<close> has type
  \<^verbatim>\<open>size_t\<close>, so the sum is taken in 64 bits and does not wrap around.
\<close>

definition block_length :: "u32 \<Rightarrow> u64" where
  "block_length len = (ucast len + (4 - 1)) AND NOT (4 - 1)"

definition block_words :: "u32 \<Rightarrow> nat" where
  "block_words len = unat (block_length len) div 4"

function read_payload :: "u32 \<Rightarrow> u32 list \<Rightarrow> tlv option"
  and read_tlvs :: "u32 list \<Rightarrow> tlv list option"
  and read_db_ranges :: "u32 list \<Rightarrow> db_range list option" where
  "read_payload type ws =
    (if type = SNDRV_CTL_TLVT_CONTAINER then map_option Container (read_tlvs ws)
     else if type = SNDRV_CTL_TLVT_DB_RANGE then map_option Db_Range (read_db_ranges ws)
     else Some (Item type ws))"
| "read_tlvs [] = Some []"
| "read_tlvs [type] = None"
| "read_tlvs (type # len # ws) =
    (if length ws < block_words len then None
     else do {
       t \<leftarrow> read_payload type (take (block_words len) ws);
       ts \<leftarrow> read_tlvs (drop (block_words len) ws);
       Some (t # ts)
     })"
| "read_db_ranges [] = Some []"
| "read_db_ranges [lo] = None"
| "read_db_ranges [lo, hi] = None"
| "read_db_ranges [lo, hi, type] = None"
| "read_db_ranges (lo # hi # type # len # ws) =
    (if length ws < block_words len then None
     else do {
       t \<leftarrow> read_payload type (take (block_words len) ws);
       es \<leftarrow> read_db_ranges (drop (block_words len) ws);
       Some (Db_Range_Entry lo hi t # es)
     })"
  by pat_completeness auto

text \<open>
  Every recursive call reads a shorter array, also when a length is 0 or reaches beyond the
  end: a block has at least its two header words.
\<close>

termination
  by (relation "measure (\<lambda>x. case x of Inl (type, ws) \<Rightarrow> 2 * length ws + 1
      | Inr (Inl ws) \<Rightarrow> 2 * length ws | Inr (Inr ws) \<Rightarrow> 2 * length ws)") auto

lemma block_length_unat: "unat (block_length len) = align_up (unat len) 4"
proof -
  have "unat (ucast len + 3 :: u64) = unat len + 3"
    using unsigned_less [of len, where 'a = nat] by (simp add: unat_word_ariths unat_ucast_up)
  then show ?thesis
    using and_not_mask_nat [of 2 "ucast len + 3 :: u64"]
    by (simp add: block_length_def align_up_def ceil_div_def)
qed

lemma block_words_LENGTH [simp]:
  "fits args \<Longrightarrow> block_words (SNDRV_CTL_TLVD_LENGTH args) = length args"
  by (simp add: block_words_def block_length_unat SNDRV_CTL_TLVD_LENGTH_def fits_def unat_of_nat
      take_bit_nat_eq_self del: of_nat_mult)

lemma read_tlvs_ITEM [simp]:
  "fits args \<Longrightarrow> read_tlvs (SNDRV_CTL_TLVD_ITEM type args @ rest) =
    do { t \<leftarrow> read_payload type args; ts \<leftarrow> read_tlvs rest; Some (t # ts) }"
  by (simp add: SNDRV_CTL_TLVD_ITEM_def)

lemma read_db_ranges_ITEM [simp]:
  "fits args \<Longrightarrow> read_db_ranges (lo # hi # SNDRV_CTL_TLVD_ITEM type args @ rest) =
    do { t \<leftarrow> read_payload type args; es \<leftarrow> read_db_ranges rest;
         Some (Db_Range_Entry lo hi t # es) }"
  by (simp add: SNDRV_CTL_TLVD_ITEM_def)

text \<open>A reader that peels one block off an array reads a whole list of them.\<close>

lemma read_list:
  assumes "read [] = Some []"
    and "\<And>x rest. x \<in> set xs \<Longrightarrow> read (enc x @ rest) = do { ys \<leftarrow> read rest; Some (x # ys) }"
  shows "read (concat (map enc xs)) = Some xs"
  using assms(2) by (induction xs) (simp_all add: assms(1))

lemma tlv_ok_fits: "tlv_ok t \<Longrightarrow> fits (tlv_payload t)"
  by (cases t) simp_all

lemma read_tlvs_peel:
  assumes "tlv_ok t" and "read_payload (tlv_type t) (tlv_payload t) = Some t"
  shows "read_tlvs (tlv_words t @ rest) = do { ts \<leftarrow> read_tlvs rest; Some (t # ts) }"
  using assms by (simp add: tlv_words_ITEM tlv_ok_fits del: read_payload.simps)

lemma read_db_ranges_peel:
  assumes "tlv_ok t" and "read_payload (tlv_type t) (tlv_payload t) = Some t"
  shows "read_db_ranges (db_range_words (Db_Range_Entry lo hi t) @ rest) =
    do { es \<leftarrow> read_db_ranges rest; Some (Db_Range_Entry lo hi t # es) }"
  using assms by (simp add: tlv_words_ITEM tlv_ok_fits del: read_payload.simps)

lemma read_payload_words:
  "tlv_ok t \<Longrightarrow> read_payload (tlv_type t) (tlv_payload t) = Some t"
  "db_range_ok e \<Longrightarrow>
    read_db_ranges (db_range_words e @ rest) = do { es \<leftarrow> read_db_ranges rest; Some (e # es) }"
proof (induction t and e arbitrary: and rest)
  case (Item type args)
  then show ?case by simp
next
  case (Container ts)
  then have "read_tlvs (concat (map tlv_words ts)) = Some ts"
    by (intro read_list [where read = read_tlvs and enc = tlv_words] read_tlvs_peel) simp_all
  then show ?case by simp
next
  case (Db_Range es)
  then have "read_db_ranges (concat (map db_range_words es)) = Some es"
    by (intro read_list [where read = read_db_ranges and enc = db_range_words]) simp_all
  then show ?case by (simp add: tlv_types)
next
  case (Db_Range_Entry lo hi t)
  then show ?case
    by (simp add: read_db_ranges_peel del: db_range_words.simps read_payload.simps)
qed

section \<open>What the arrays mean\<close>

text \<open>
  The nested form is the one the header's macros write: a scale inside a range inside a
  container.
\<close>

definition example_tlvs :: "tlv list" where
  "example_tlvs =
    [Container [Item SNDRV_CTL_TLVT_DB_SCALE [0xffffe890, 100],
       Db_Range [Db_Range_Entry 0 1 (Item SNDRV_CTL_TLVT_DB_LINEAR [0xffffe890, 0]),
                 Db_Range_Entry 2 7 (Item SNDRV_CTL_TLVT_DB_MINMAX [0, 600])]],
     Item SNDRV_CTL_TLVT_CHMAP_FIXED []]"

lemma example_tlvs_ok: "\<forall>t \<in> set example_tlvs. tlv_ok t"
  by (simp add: example_tlvs_def tlv_types tlv_items fits_def SNDRV_CTL_TLVD_ITEM_def)

lemma example_tlvs_words:
  "concat (map tlv_words example_tlvs) =
    SNDRV_CTL_TLVD_DECLARE_CONTAINER
      (SNDRV_CTL_TLVD_DB_SCALE_ITEM 0xffffe890 100 0 @
       SNDRV_CTL_TLVD_DB_RANGE_ITEM
         ([0, 1] @ SNDRV_CTL_TLVD_DB_LINEAR_ITEM 0xffffe890 0 @
          [2, 7] @ SNDRV_CTL_TLVD_DB_MINMAX_ITEM 0 600)) @
    SNDRV_CTL_TLVD_ITEM SNDRV_CTL_TLVT_CHMAP_FIXED []"
  by (simp add: example_tlvs_def tlv_items SNDRV_CTL_TLVD_DECLARE_CONTAINER_def
      SNDRV_CTL_TLVD_ITEM_def SNDRV_CTL_TLVD_DB_SCALE_MASK_def)

text \<open>
  C5. Whatever blocks the macros lay out one after the other, with containers and decibel ranges
  nested to any depth, as long as each payload has fewer than \<open>2^32\<close> bytes: the reader of the
  header's comment, which moves on by the rounded length of each block, gets exactly those
  blocks back.
\<close>

theorem tlv_round_trip:
  assumes "\<forall>t \<in> set ts. tlv_ok t"
  shows "read_tlvs (concat (map tlv_words ts)) = Some ts"
  using assms read_payload_words(1)
  by (intro read_list [where read = read_tlvs and enc = tlv_words] read_tlvs_peel) simp_all

theorem tlv_round_trip_witness:
  "read_tlvs
    (SNDRV_CTL_TLVD_DECLARE_CONTAINER
      (SNDRV_CTL_TLVD_DB_SCALE_ITEM 0xffffe890 100 0 @
       SNDRV_CTL_TLVD_DB_RANGE_ITEM
         ([0, 1] @ SNDRV_CTL_TLVD_DB_LINEAR_ITEM 0xffffe890 0 @
          [2, 7] @ SNDRV_CTL_TLVD_DB_MINMAX_ITEM 0 600)) @
    SNDRV_CTL_TLVD_ITEM SNDRV_CTL_TLVT_CHMAP_FIXED []) = Some example_tlvs"
  using tlv_round_trip [OF example_tlvs_ok] by (simp only: example_tlvs_words)

lemma read_tlvs_truncated:
  assumes "tlv_ok t" and "0 < n" and "n < length (tlv_words t)"
  shows "read_tlvs (take n (tlv_words t)) = None"
proof -
  let ?args = "tlv_payload t"
  have f: "fits ?args" using assms(1) by (rule tlv_ok_fits)
  consider "n = 1" | k where "n = Suc (Suc k)" "k < length ?args"
    using assms(2,3) by (cases n; cases "n - 1") (auto simp: tlv_words_ITEM SNDRV_CTL_TLVD_ITEM_def)
  then show ?thesis
    using f by cases (simp_all add: tlv_words_ITEM SNDRV_CTL_TLVD_ITEM_def del: read_payload.simps)
qed

text \<open>
  An array that ends in the middle of a block is refused: after any number of whole blocks,
  a block cut short anywhere, in its header or in its payload, makes the reader return nothing
  at all.
\<close>

lemma tlv_truncated:
  assumes "\<forall>t \<in> set ts. tlv_ok t" and "tlv_ok t" and "0 < n" and "n < length (tlv_words t)"
  shows "read_tlvs (concat (map tlv_words ts) @ take n (tlv_words t)) = None"
  using assms(1)
proof (induction ts)
  case Nil
  then show ?case using read_tlvs_truncated [OF assms(2-4)] by simp
next
  case (Cons u us)
  then show ?case
    using read_tlvs_peel [OF _ read_payload_words(1), of u]
    by (simp del: read_payload.simps)
qed

lemma tlv_truncated_witness:
  "read_tlvs (tlv_words (Item 5 [0, 600]) @ take 3 (tlv_words (Item 5 [0, 600]))) = None"
  using tlv_truncated [of "[Item 5 [0, 600]]" "Item 5 [0, 600]" 3]
  by (simp add: tlv_types fits_def SNDRV_CTL_TLVD_ITEM_def del: read_tlvs.simps)

lemma scale_word_bits:
  fixes step :: u32
  shows "((step AND 0xffff) OR (if m then 0x10000 else 0)) AND 0xffff = step AND 0xffff"
    and "((step AND 0xffff) OR (if m then 0x10000 else 0)) AND 0x10000 \<noteq> 0 \<longleftrightarrow> m"
  by (simp_all add: and.assoc bit.conj_disj_distrib2)

text \<open>
  A decibel scale read through the header's accessor offsets: the type and the length of its
  two words, the least gain as it was given (its sign included), the mute flag exactly when the
  macro's argument was non-zero, and the lower 16 bits of the step. A step of \<open>0x10000\<close> or more
  is cut, and no step reaches the mute flag.
\<close>

lemma db_scale_item_spec:
  "let item = SNDRV_CTL_TLVD_DB_SCALE_ITEM lo step mute in
    item ! SNDRV_CTL_TLVO_TYPE = SNDRV_CTL_TLVT_DB_SCALE \<and>
    item ! SNDRV_CTL_TLVO_LEN = 8 \<and> length item = 4 \<and>
    item ! SNDRV_CTL_TLVO_DB_SCALE_MIN = lo \<and>
    unat (item ! SNDRV_CTL_TLVO_DB_SCALE_MUTE_AND_STEP AND SNDRV_CTL_TLVD_DB_SCALE_MASK) =
      unat step mod 0x10000 \<and>
    (item ! SNDRV_CTL_TLVO_DB_SCALE_MUTE_AND_STEP AND SNDRV_CTL_TLVD_DB_SCALE_MUTE \<noteq> 0 \<longleftrightarrow>
      mute \<noteq> 0)"
proof -
  have m: "unat (step AND 0xffff) = unat step mod 0x10000"
    using arg_cong [OF take_bit_eq_mask [of 16 step], of unat]
    by (simp add: take_bit_eq_mod unat_mod mask_eq_exp_minus_1)
  show ?thesis
    using scale_word_bits [of step "mute \<noteq> 0"] m
    by (cases "mute = 0") (simp_all add: Let_def tlv_items SNDRV_CTL_TLVD_ITEM_def tlv_offsets
        SNDRV_CTL_TLVD_LENGTH_def SNDRV_CTL_TLVD_DB_SCALE_MASK_def
        SNDRV_CTL_TLVD_DB_SCALE_MUTE_def)
qed

end
