(* ===== verification/Abi_Versions.thy ===== *)
theory Abi_Versions
  imports Prelude "HOL-Library.Product_Lexorder"
begin

text \<open>
  Version words. ALSA (\<^verbatim>\<open>src/include/sound/asound.h\<close>) and the Sound Open Firmware
  (\<^verbatim>\<open>src/include/sound/sof/abi.h\<close>) both pack the three parts of a version into one 32-bit word, with
  fields of different widths and different rules of compatibility. \<open>version_word\<close> is what they
  share; both are interpretations of it.
\<close>

unbundle bit_operations_syntax

section \<open>ALSA protocol versions\<close>

text \<open>
  The arguments are non-negative \<^verbatim>\<open>int\<close> values; the accessors shift right and mask, so that the
  sign bit a version of major 32768 or more would have makes no difference.
\<close>

definition SNDRV_PROTOCOL_VERSION :: "u32 \<Rightarrow> u32 \<Rightarrow> u32 \<Rightarrow> u32" where
  "SNDRV_PROTOCOL_VERSION major minor subminor = (push_bit 16 major OR push_bit 8 minor) OR subminor"

definition SNDRV_PROTOCOL_MAJOR :: "u32 \<Rightarrow> u32" where
  "SNDRV_PROTOCOL_MAJOR version = drop_bit 16 version AND 0xffff"

definition SNDRV_PROTOCOL_MINOR :: "u32 \<Rightarrow> u32" where
  "SNDRV_PROTOCOL_MINOR version = drop_bit 8 version AND 0xff"

definition SNDRV_PROTOCOL_MICRO :: "u32 \<Rightarrow> u32" where
  "SNDRV_PROTOCOL_MICRO version = version AND 0xff"

definition SNDRV_PROTOCOL_INCOMPATIBLE :: "u32 \<Rightarrow> u32 \<Rightarrow> bool" where
  "SNDRV_PROTOCOL_INCOMPATIBLE kversion uversion \<longleftrightarrow>
    SNDRV_PROTOCOL_MAJOR kversion \<noteq> SNDRV_PROTOCOL_MAJOR uversion \<or>
    (SNDRV_PROTOCOL_MAJOR kversion = SNDRV_PROTOCOL_MAJOR uversion \<and>
     SNDRV_PROTOCOL_MINOR kversion \<noteq> SNDRV_PROTOCOL_MINOR uversion)"

definition SNDRV_HWDEP_VERSION :: u32 where
  "SNDRV_HWDEP_VERSION = SNDRV_PROTOCOL_VERSION 1 0 1"
definition SNDRV_PCM_VERSION :: u32 where
  "SNDRV_PCM_VERSION = SNDRV_PROTOCOL_VERSION 2 0 15"
definition SNDRV_RAWMIDI_VERSION :: u32 where
  "SNDRV_RAWMIDI_VERSION = SNDRV_PROTOCOL_VERSION 2 0 1"
definition SNDRV_TIMER_VERSION :: u32 where
  "SNDRV_TIMER_VERSION = SNDRV_PROTOCOL_VERSION 2 0 7"
definition SNDRV_CTL_VERSION :: u32 where
  "SNDRV_CTL_VERSION = SNDRV_PROTOCOL_VERSION 2 0 8"
definition SNDRV_COMPRESS_VERSION :: u32 where
  "SNDRV_COMPRESS_VERSION = SNDRV_PROTOCOL_VERSION 0 2 0"
definition SNDRV_EMU10K1_VERSION :: u32 where
  "SNDRV_EMU10K1_VERSION = SNDRV_PROTOCOL_VERSION 1 0 1"
definition SNDRV_SEQ_VERSION :: u32 where
  "SNDRV_SEQ_VERSION = SNDRV_PROTOCOL_VERSION 1 0 2"
definition SNDRV_LSM_VERSION :: u32 where
  "SNDRV_LSM_VERSION = SNDRV_PROTOCOL_VERSION 0 3 2"

section \<open>Sound Open Firmware ABI versions\<close>

definition SOF_ABI_MAJOR :: u32 where "SOF_ABI_MAJOR = 3"
definition SOF_ABI_MINOR :: u32 where "SOF_ABI_MINOR = 17"
definition SOF_ABI_PATCH :: u32 where "SOF_ABI_PATCH = 0"

definition SOF_ABI_MAJOR_SHIFT :: nat where "SOF_ABI_MAJOR_SHIFT = 24"
definition SOF_ABI_MAJOR_MASK :: u32 where "SOF_ABI_MAJOR_MASK = 0xff"
definition SOF_ABI_MINOR_SHIFT :: nat where "SOF_ABI_MINOR_SHIFT = 12"
definition SOF_ABI_MINOR_MASK :: u32 where "SOF_ABI_MINOR_MASK = 0xfff"
definition SOF_ABI_PATCH_SHIFT :: nat where "SOF_ABI_PATCH_SHIFT = 0"
definition SOF_ABI_PATCH_MASK :: u32 where "SOF_ABI_PATCH_MASK = 0xfff"

definition SOF_ABI_VER :: "u32 \<Rightarrow> u32 \<Rightarrow> u32 \<Rightarrow> u32" where
  "SOF_ABI_VER major minor patch =
    (push_bit SOF_ABI_MAJOR_SHIFT major OR push_bit SOF_ABI_MINOR_SHIFT minor) OR
    push_bit SOF_ABI_PATCH_SHIFT patch"

definition SOF_ABI_VERSION_MAJOR :: "u32 \<Rightarrow> u32" where
  "SOF_ABI_VERSION_MAJOR version = drop_bit SOF_ABI_MAJOR_SHIFT version AND SOF_ABI_MAJOR_MASK"

definition SOF_ABI_VERSION_MINOR :: "u32 \<Rightarrow> u32" where
  "SOF_ABI_VERSION_MINOR version = drop_bit SOF_ABI_MINOR_SHIFT version AND SOF_ABI_MINOR_MASK"

definition SOF_ABI_VERSION_PATCH :: "u32 \<Rightarrow> u32" where
  "SOF_ABI_VERSION_PATCH version = drop_bit SOF_ABI_PATCH_SHIFT version AND SOF_ABI_PATCH_MASK"

definition SOF_ABI_VERSION_INCOMPATIBLE :: "u32 \<Rightarrow> u32 \<Rightarrow> bool" where
  "SOF_ABI_VERSION_INCOMPATIBLE sof_ver client_ver \<longleftrightarrow>
    SOF_ABI_VERSION_MAJOR sof_ver \<noteq> SOF_ABI_VERSION_MAJOR client_ver"

definition SOF_ABI_VERSION :: u32 where
  "SOF_ABI_VERSION = SOF_ABI_VER SOF_ABI_MAJOR SOF_ABI_MINOR SOF_ABI_PATCH"

definition SOF_ABI_MAGIC :: u32 where "SOF_ABI_MAGIC = 0x00464F53"

lemmas sof_fields =
  SOF_ABI_MAJOR_SHIFT_def SOF_ABI_MAJOR_MASK_def SOF_ABI_MINOR_SHIFT_def SOF_ABI_MINOR_MASK_def
  SOF_ABI_PATCH_SHIFT_def SOF_ABI_PATCH_MASK_def

section \<open>The common contract\<close>

text \<open>
  A version word has a minor field of \<open>b\<close> bits and a last field of \<open>c\<close> bits; the major field has the
  \<open>a\<close> bits above them. The laws say what number the packed word is and what number each accessor
  reads.
\<close>

locale version_word =
  fixes ver :: "u32 \<Rightarrow> u32 \<Rightarrow> u32 \<Rightarrow> u32"
    and major minor micro :: "u32 \<Rightarrow> u32"
    and a b c :: nat
  assumes total: "a + b + c = 32"
    and ver_unat: "unat x < 2 ^ a \<Longrightarrow> unat y < 2 ^ b \<Longrightarrow> unat z < 2 ^ c \<Longrightarrow>
      unat (ver x y z) = (unat x * 2 ^ b + unat y) * 2 ^ c + unat z"
    and major_unat: "unat (major v) = unat v div 2 ^ c div 2 ^ b"
    and minor_unat: "unat (minor v) = unat v div 2 ^ c mod 2 ^ b"
    and micro_unat: "unat (micro v) = unat v mod 2 ^ c"
begin

lemma fields_bounded: "unat (major v) < 2 ^ a" "unat (minor v) < 2 ^ b" "unat (micro v) < 2 ^ c"
proof -
  have "unat v < 2 ^ a * (2 ^ c * 2 ^ b)"
    using unsigned_less [of v, where 'a = nat] total
    by (simp flip: power_add add: add.assoc add.commute [of c])
  then have "unat v div (2 ^ c * 2 ^ b) < 2 ^ a"
    by (rule less_mult_imp_div_less)
  then show "unat (major v) < 2 ^ a"
    by (simp add: major_unat div_mult2_eq)
qed (simp_all add: minor_unat micro_unat)

lemma fields_ver:
  assumes "unat x < 2 ^ a" "unat y < 2 ^ b" "unat z < 2 ^ c"
  shows "major (ver x y z) = x \<and> minor (ver x y z) = y \<and> micro (ver x y z) = z"
  using assms by (simp add: word_unat_eq_iff major_unat minor_unat micro_unat ver_unat)

lemma ver_fields: "ver (major v) (minor v) (micro v) = v"
proof -
  have "unat (ver (major v) (minor v) (micro v)) = unat v"
    using fields_bounded [of v]
    by (simp only: ver_unat) (simp add: major_unat minor_unat micro_unat div_mult_mod_eq)
  then show ?thesis by (simp add: word_unat_eq_iff)
qed

lemma eq_iff_fields: "v = w \<longleftrightarrow> major v = major w \<and> minor v = minor w \<and> micro v = micro w"
  by (metis ver_fields)

text \<open>The order of the words is the order of the versions, part by part.\<close>

lemma less_iff_fields:
  "v < w \<longleftrightarrow> (major v, minor v, micro v) < (major w, minor w, micro w)"
proof -
  have quot: "x < y \<longleftrightarrow> x div n < y div n \<or> x div n = y div n \<and> x mod n < y mod n"
    if "0 < n" for x y n :: nat
  proof -
    have "x div n < y div n \<Longrightarrow> x < y"
      by (meson div_le_mono leD leI)
    moreover have "x < y \<Longrightarrow> x div n \<le> y div n"
      by (simp add: div_le_mono)
    moreover have "x div n = y div n \<Longrightarrow> x < y \<longleftrightarrow> x mod n < y mod n"
      by (metis add_less_cancel_left div_mult_mod_eq)
    ultimately show ?thesis by linarith
  qed
  have same: "x = y" if "x div n = y div n" "x mod n = y mod n" for x y n :: nat
    using that by (metis div_mult_mod_eq)
  show ?thesis
    using quot [of "2 ^ c" "unat v" "unat w"]
      quot [of "2 ^ b" "unat v div 2 ^ c" "unat w div 2 ^ c"]
      same [of "unat v div 2 ^ c" "2 ^ b" "unat w div 2 ^ c"]
    by (auto simp: less_prod_def' word_less_nat_alt word_unat_eq_iff major_unat minor_unat
        micro_unat)
qed

end

text \<open>Three fields that do not overlap, joined by \<open>OR\<close>, are the sum the contract speaks of.\<close>

lemma unat_pack3:
  fixes x y z :: u32
  assumes "a + b + c = 32" and "unat x < 2 ^ a" and "unat y < 2 ^ b" and "unat z < 2 ^ c"
  shows "unat ((push_bit (c + b) x OR push_bit c y) OR z) = (unat x * 2 ^ b + unat y) * 2 ^ c + unat z"
proof -
  have len: "LENGTH(32) = 32" by simp
  note plus = or_is_plus [where 'a = 32, unfolded len]
  have "unat x * 2 ^ b + unat y < (unat x + 1) * 2 ^ b"
    using assms(3) by simp
  also have "\<dots> \<le> 2 ^ a * 2 ^ b"
    using assms(2) by (intro mult_right_mono) auto
  finally have xy: "unat x * 2 ^ b + unat y < 2 ^ (a + b)"
    by (simp add: power_add)
  then have "(unat x * 2 ^ b + unat y) * 2 ^ c < 2 ^ (a + b) * 2 ^ c"
    by simp
  then have xyc: "(unat x * 2 ^ b + unat y) * 2 ^ c < 2 ^ 32"
    by (simp only: assms(1) flip: power_add)
  have "(2::nat) ^ (a + b) \<le> 2 ^ 32"
    using assms(1) by (intro power_increasing) simp_all
  then have "unat (push_bit b x OR y) = unat x * 2 ^ b + unat y"
    using xy assms(3) by (intro plus) linarith+
  moreover have "push_bit (c + b) x OR push_bit c y = push_bit c (push_bit b x OR y)"
    by (simp only: push_bit_or push_bit_push_bit)
  ultimately show ?thesis
    using xyc assms(4) by (simp only: plus)
qed

lemma field_masks:
  "0xff = (mask 8 :: u32)" "0xfff = (mask 12 :: u32)" "0xffff = (mask 16 :: u32)"
  by (simp_all add: mask_eq_exp_minus_1)

lemma unat_top_div:
  fixes v :: u32
  assumes "k + n = 32"
  shows "unat v div 2 ^ k mod 2 ^ n = unat v div 2 ^ k"
proof -
  have "(2::nat) ^ n * 2 ^ k = 2 ^ 32"
    by (simp only: assms [symmetric] power_add mult.commute)
  then have "unat v < 2 ^ n * 2 ^ k"
    using unsigned_less [of v, where 'a = nat] by simp
  then show ?thesis by (simp add: less_mult_imp_div_less)
qed

interpretation sndrv: version_word SNDRV_PROTOCOL_VERSION SNDRV_PROTOCOL_MAJOR
  SNDRV_PROTOCOL_MINOR SNDRV_PROTOCOL_MICRO 16 8 8
proof unfold_locales
  show "unat x < 2 ^ 16 \<Longrightarrow> unat y < 2 ^ 8 \<Longrightarrow> unat z < 2 ^ 8 \<Longrightarrow>
    unat (SNDRV_PROTOCOL_VERSION x y z) = (unat x * 2 ^ 8 + unat y) * 2 ^ 8 + unat z" for x y z
    using unat_pack3 [of 16 8 8 x y z] by (simp add: SNDRV_PROTOCOL_VERSION_def)
  show "unat (SNDRV_PROTOCOL_MAJOR v) = unat v div 2 ^ 8 div 2 ^ 8" for v
    using unat_field [of 16 v 16] unat_top_div [of 16 16 v]
    by (simp add: SNDRV_PROTOCOL_MAJOR_def field_masks div_mult2_eq [symmetric])
  show "unat (SNDRV_PROTOCOL_MINOR v) = unat v div 2 ^ 8 mod 2 ^ 8" for v
    using unat_field [of 8 v 8] by (simp add: SNDRV_PROTOCOL_MINOR_def field_masks)
  show "unat (SNDRV_PROTOCOL_MICRO v) = unat v mod 2 ^ 8" for v
    using unat_field [of 0 v 8] by (simp add: SNDRV_PROTOCOL_MICRO_def field_masks)
qed simp

interpretation sof: version_word SOF_ABI_VER SOF_ABI_VERSION_MAJOR
  SOF_ABI_VERSION_MINOR SOF_ABI_VERSION_PATCH 8 12 12
proof unfold_locales
  show "unat x < 2 ^ 8 \<Longrightarrow> unat y < 2 ^ 12 \<Longrightarrow> unat z < 2 ^ 12 \<Longrightarrow>
    unat (SOF_ABI_VER x y z) = (unat x * 2 ^ 12 + unat y) * 2 ^ 12 + unat z" for x y z
    using unat_pack3 [of 8 12 12 x y z] by (simp add: SOF_ABI_VER_def sof_fields)
  show "unat (SOF_ABI_VERSION_MAJOR v) = unat v div 2 ^ 12 div 2 ^ 12" for v
    using unat_field [of 24 v 8] unat_top_div [of 24 8 v]
    by (simp add: SOF_ABI_VERSION_MAJOR_def sof_fields field_masks div_mult2_eq [symmetric])
  show "unat (SOF_ABI_VERSION_MINOR v) = unat v div 2 ^ 12 mod 2 ^ 12" for v
    using unat_field [of 12 v 12] by (simp add: SOF_ABI_VERSION_MINOR_def sof_fields field_masks)
  show "unat (SOF_ABI_VERSION_PATCH v) = unat v mod 2 ^ 12" for v
    using unat_field [of 0 v 12] by (simp add: SOF_ABI_VERSION_PATCH_def sof_fields field_masks)
qed simp

section \<open>Properties\<close>

text \<open>
  C17. Version words round trip in both formats: parts within their fields come back from the
  packed word, and every 32-bit word is the packing of the three parts read from it.
\<close>

theorem version_round_trip:
  "(unat a < 2 ^ 16 \<and> unat b < 2 ^ 8 \<and> unat c < 2 ^ 8 \<longrightarrow>
      SNDRV_PROTOCOL_MAJOR (SNDRV_PROTOCOL_VERSION a b c) = a \<and>
      SNDRV_PROTOCOL_MINOR (SNDRV_PROTOCOL_VERSION a b c) = b \<and>
      SNDRV_PROTOCOL_MICRO (SNDRV_PROTOCOL_VERSION a b c) = c) \<and>
   SNDRV_PROTOCOL_VERSION (SNDRV_PROTOCOL_MAJOR v) (SNDRV_PROTOCOL_MINOR v)
     (SNDRV_PROTOCOL_MICRO v) = v \<and>
   (unat a < 2 ^ 8 \<and> unat b < 2 ^ 12 \<and> unat c < 2 ^ 12 \<longrightarrow>
      SOF_ABI_VERSION_MAJOR (SOF_ABI_VER a b c) = a \<and>
      SOF_ABI_VERSION_MINOR (SOF_ABI_VER a b c) = b \<and>
      SOF_ABI_VERSION_PATCH (SOF_ABI_VER a b c) = c) \<and>
   SOF_ABI_VER (SOF_ABI_VERSION_MAJOR v) (SOF_ABI_VERSION_MINOR v) (SOF_ABI_VERSION_PATCH v) = v"
  using sndrv.fields_ver [of a b c] sndrv.ver_fields [of v] sof.fields_ver [of a b c]
    sof.ver_fields [of v]
  by blast

theorem version_round_trip_witness:
  "SNDRV_PROTOCOL_MICRO SNDRV_PCM_VERSION = 15 \<and>
   SOF_ABI_VERSION_MINOR SOF_ABI_VERSION = SOF_ABI_MINOR"
  using version_round_trip [of 2 0 15] version_round_trip [of SOF_ABI_MAJOR SOF_ABI_MINOR SOF_ABI_PATCH]
  by (simp add: SNDRV_PCM_VERSION_def SOF_ABI_VERSION_def SOF_ABI_MAJOR_def SOF_ABI_MINOR_def
      SOF_ABI_PATCH_def)

text \<open>
  Compatibility. Two ALSA protocol versions are compatible exactly when they differ at most
  in their last part, two firmware ABI versions when they have the same major part; both are
  equivalence relations, so a chain of compatible parties is compatible end to end. Versions
  compare as numbers the way they compare part by part.
\<close>

lemma version_compatibility:
  "(SNDRV_PROTOCOL_INCOMPATIBLE v w \<longleftrightarrow>
      (SNDRV_PROTOCOL_MAJOR v, SNDRV_PROTOCOL_MINOR v) \<noteq>
      (SNDRV_PROTOCOL_MAJOR w, SNDRV_PROTOCOL_MINOR w)) \<and>
   equivp (\<lambda>v w. \<not> SNDRV_PROTOCOL_INCOMPATIBLE v w) \<and>
   equivp (\<lambda>v w. \<not> SOF_ABI_VERSION_INCOMPATIBLE v w) \<and>
   (v < w \<longleftrightarrow>
      (SNDRV_PROTOCOL_MAJOR v, SNDRV_PROTOCOL_MINOR v, SNDRV_PROTOCOL_MICRO v) <
      (SNDRV_PROTOCOL_MAJOR w, SNDRV_PROTOCOL_MINOR w, SNDRV_PROTOCOL_MICRO w)) \<and>
   (v < w \<longleftrightarrow>
      (SOF_ABI_VERSION_MAJOR v, SOF_ABI_VERSION_MINOR v, SOF_ABI_VERSION_PATCH v) <
      (SOF_ABI_VERSION_MAJOR w, SOF_ABI_VERSION_MINOR w, SOF_ABI_VERSION_PATCH w))"
proof (intro conjI)
  show "equivp (\<lambda>v w. \<not> SNDRV_PROTOCOL_INCOMPATIBLE v w)"
    by (rule equivpI) (auto simp: SNDRV_PROTOCOL_INCOMPATIBLE_def reflp_def symp_def transp_def)
  show "equivp (\<lambda>v w. \<not> SOF_ABI_VERSION_INCOMPATIBLE v w)"
    by (rule equivpI) (auto simp: SOF_ABI_VERSION_INCOMPATIBLE_def reflp_def symp_def transp_def)
  show "SNDRV_PROTOCOL_INCOMPATIBLE v w \<longleftrightarrow>
      (SNDRV_PROTOCOL_MAJOR v, SNDRV_PROTOCOL_MINOR v) \<noteq>
      (SNDRV_PROTOCOL_MAJOR w, SNDRV_PROTOCOL_MINOR w)"
    by (auto simp: SNDRV_PROTOCOL_INCOMPATIBLE_def)
qed (rule sndrv.less_iff_fields sof.less_iff_fields)+

end
