(* ===== verification/Asound.thy ===== *)
theory Asound
  imports C_Layout
begin

text \<open>
  The ALSA interface between the kernel and user space, \<^verbatim>\<open>src/include/sound/asound.h\<close>: the hardware
  dependent, PCM, raw MIDI, timer and control devices, as user space on a little-endian machine
  sees them. \<^verbatim>\<open>time_t\<close> is \<^verbatim>\<open>long\<close>, the configuration without 64-bit time in 32-bit processes. Types whose
  declaration itself measures other types (\<^verbatim>\<open>sizeof\<close> in an array bound) take the data model as an
  argument. A bit-field that does not fill its unit is completed by an unnamed field.
\<close>

unbundle bit_operations_syntax

section \<open>Numbers and flags\<close>

subsection \<open>PCM\<close>

definition sndrv_pcm_access_numbers :: "(string \<times> nat) list" where
  "sndrv_pcm_access_numbers =
    [(''SNDRV_PCM_ACCESS_MMAP_INTERLEAVED'', 0), (''SNDRV_PCM_ACCESS_MMAP_NONINTERLEAVED'', 1),
     (''SNDRV_PCM_ACCESS_MMAP_COMPLEX'', 2), (''SNDRV_PCM_ACCESS_RW_INTERLEAVED'', 3)]"

definition SNDRV_PCM_ACCESS_RW_NONINTERLEAVED :: nat where
  "SNDRV_PCM_ACCESS_RW_NONINTERLEAVED = 4"

definition SNDRV_PCM_ACCESS_LAST :: nat where "SNDRV_PCM_ACCESS_LAST = SNDRV_PCM_ACCESS_RW_NONINTERLEAVED"

definition SNDRV_PCM_FORMAT_S8 :: nat where "SNDRV_PCM_FORMAT_S8 = 0"
definition SNDRV_PCM_FORMAT_U8 :: nat where "SNDRV_PCM_FORMAT_U8 = 1"
definition SNDRV_PCM_FORMAT_S16_LE :: nat where "SNDRV_PCM_FORMAT_S16_LE = 2"
definition SNDRV_PCM_FORMAT_S16_BE :: nat where "SNDRV_PCM_FORMAT_S16_BE = 3"
definition SNDRV_PCM_FORMAT_U16_LE :: nat where "SNDRV_PCM_FORMAT_U16_LE = 4"
definition SNDRV_PCM_FORMAT_U16_BE :: nat where "SNDRV_PCM_FORMAT_U16_BE = 5"
definition SNDRV_PCM_FORMAT_S24_LE :: nat where "SNDRV_PCM_FORMAT_S24_LE = 6"
definition SNDRV_PCM_FORMAT_S24_BE :: nat where "SNDRV_PCM_FORMAT_S24_BE = 7"
definition SNDRV_PCM_FORMAT_U24_LE :: nat where "SNDRV_PCM_FORMAT_U24_LE = 8"
definition SNDRV_PCM_FORMAT_U24_BE :: nat where "SNDRV_PCM_FORMAT_U24_BE = 9"
definition SNDRV_PCM_FORMAT_S32_LE :: nat where "SNDRV_PCM_FORMAT_S32_LE = 10"
definition SNDRV_PCM_FORMAT_S32_BE :: nat where "SNDRV_PCM_FORMAT_S32_BE = 11"
definition SNDRV_PCM_FORMAT_U32_LE :: nat where "SNDRV_PCM_FORMAT_U32_LE = 12"
definition SNDRV_PCM_FORMAT_U32_BE :: nat where "SNDRV_PCM_FORMAT_U32_BE = 13"
definition SNDRV_PCM_FORMAT_FLOAT_LE :: nat where "SNDRV_PCM_FORMAT_FLOAT_LE = 14"
definition SNDRV_PCM_FORMAT_FLOAT_BE :: nat where "SNDRV_PCM_FORMAT_FLOAT_BE = 15"
definition SNDRV_PCM_FORMAT_FLOAT64_LE :: nat where "SNDRV_PCM_FORMAT_FLOAT64_LE = 16"
definition SNDRV_PCM_FORMAT_FLOAT64_BE :: nat where "SNDRV_PCM_FORMAT_FLOAT64_BE = 17"
definition SNDRV_PCM_FORMAT_IEC958_SUBFRAME_LE :: nat where
  "SNDRV_PCM_FORMAT_IEC958_SUBFRAME_LE = 18"
definition sndrv_pcm_format_numbers :: "(string \<times> nat) list" where
  "sndrv_pcm_format_numbers =
    [(''SNDRV_PCM_FORMAT_IEC958_SUBFRAME_BE'', 19), (''SNDRV_PCM_FORMAT_MU_LAW'', 20),
     (''SNDRV_PCM_FORMAT_A_LAW'', 21), (''SNDRV_PCM_FORMAT_IMA_ADPCM'', 22),
     (''SNDRV_PCM_FORMAT_MPEG'', 23), (''SNDRV_PCM_FORMAT_GSM'', 24)]"

definition SNDRV_PCM_FORMAT_S20_LE :: nat where "SNDRV_PCM_FORMAT_S20_LE = 25"
definition SNDRV_PCM_FORMAT_S20_BE :: nat where "SNDRV_PCM_FORMAT_S20_BE = 26"
definition SNDRV_PCM_FORMAT_U20_LE :: nat where "SNDRV_PCM_FORMAT_U20_LE = 27"
definition sndrv_pcm_format_numbers_2 :: "(string \<times> nat) list" where
  "sndrv_pcm_format_numbers_2 =
    [(''SNDRV_PCM_FORMAT_U20_BE'', 28), (''SNDRV_PCM_FORMAT_SPECIAL'', 31),
     (''SNDRV_PCM_FORMAT_S24_3LE'', 32), (''SNDRV_PCM_FORMAT_S24_3BE'', 33),
     (''SNDRV_PCM_FORMAT_U24_3LE'', 34), (''SNDRV_PCM_FORMAT_U24_3BE'', 35),
     (''SNDRV_PCM_FORMAT_S20_3LE'', 36), (''SNDRV_PCM_FORMAT_S20_3BE'', 37),
     (''SNDRV_PCM_FORMAT_U20_3LE'', 38), (''SNDRV_PCM_FORMAT_U20_3BE'', 39),
     (''SNDRV_PCM_FORMAT_S18_3LE'', 40), (''SNDRV_PCM_FORMAT_S18_3BE'', 41),
     (''SNDRV_PCM_FORMAT_U18_3LE'', 42), (''SNDRV_PCM_FORMAT_U18_3BE'', 43),
     (''SNDRV_PCM_FORMAT_G723_24'', 44), (''SNDRV_PCM_FORMAT_G723_24_1B'', 45),
     (''SNDRV_PCM_FORMAT_G723_40'', 46), (''SNDRV_PCM_FORMAT_G723_40_1B'', 47),
     (''SNDRV_PCM_FORMAT_DSD_U8'', 48), (''SNDRV_PCM_FORMAT_DSD_U16_LE'', 49),
     (''SNDRV_PCM_FORMAT_DSD_U32_LE'', 50), (''SNDRV_PCM_FORMAT_DSD_U16_BE'', 51)]"

definition SNDRV_PCM_FORMAT_DSD_U32_BE :: nat where "SNDRV_PCM_FORMAT_DSD_U32_BE = 52"

definition SNDRV_PCM_FORMAT_LAST :: nat where "SNDRV_PCM_FORMAT_LAST = SNDRV_PCM_FORMAT_DSD_U32_BE"
definition SNDRV_PCM_FORMAT_FIRST :: nat where "SNDRV_PCM_FORMAT_FIRST = SNDRV_PCM_FORMAT_S8"

text \<open>The formats of the machine's own byte order.\<close>

definition sndrv_pcm_format_numbers_3 :: "(string \<times> nat) list" where
  "sndrv_pcm_format_numbers_3 =
    [(''SNDRV_PCM_FORMAT_S16'', SNDRV_PCM_FORMAT_S16_LE), (''SNDRV_PCM_FORMAT_U16'',
     SNDRV_PCM_FORMAT_U16_LE), (''SNDRV_PCM_FORMAT_S24'', SNDRV_PCM_FORMAT_S24_LE),
     (''SNDRV_PCM_FORMAT_U24'', SNDRV_PCM_FORMAT_U24_LE), (''SNDRV_PCM_FORMAT_S32'',
     SNDRV_PCM_FORMAT_S32_LE), (''SNDRV_PCM_FORMAT_U32'', SNDRV_PCM_FORMAT_U32_LE),
     (''SNDRV_PCM_FORMAT_FLOAT'', SNDRV_PCM_FORMAT_FLOAT_LE), (''SNDRV_PCM_FORMAT_FLOAT64'',
     SNDRV_PCM_FORMAT_FLOAT64_LE), (''SNDRV_PCM_FORMAT_IEC958_SUBFRAME'',
     SNDRV_PCM_FORMAT_IEC958_SUBFRAME_LE), (''SNDRV_PCM_FORMAT_S20'', SNDRV_PCM_FORMAT_S20_LE),
     (''SNDRV_PCM_FORMAT_U20'', SNDRV_PCM_FORMAT_U20_LE)]"

definition SNDRV_PCM_SUBFORMAT_STD :: nat where "SNDRV_PCM_SUBFORMAT_STD = 0"

definition SNDRV_PCM_SUBFORMAT_LAST :: nat where "SNDRV_PCM_SUBFORMAT_LAST = SNDRV_PCM_SUBFORMAT_STD"

definition SNDRV_PCM_INFO_HAS_WALL_CLOCK :: u32 where "SNDRV_PCM_INFO_HAS_WALL_CLOCK = 0x01000000"

definition pcm_info_flags_table :: "(string \<times> u32) list" where
  "pcm_info_flags_table =
    [(''SNDRV_PCM_INFO_MMAP'', 0x00000001), (''SNDRV_PCM_INFO_MMAP_VALID'', 0x00000002),
     (''SNDRV_PCM_INFO_DOUBLE'', 0x00000004), (''SNDRV_PCM_INFO_BATCH'', 0x00000010),
     (''SNDRV_PCM_INFO_SYNC_APPLPTR'', 0x00000020), (''SNDRV_PCM_INFO_INTERLEAVED'', 0x00000100),
     (''SNDRV_PCM_INFO_NONINTERLEAVED'', 0x00000200), (''SNDRV_PCM_INFO_COMPLEX'', 0x00000400),
     (''SNDRV_PCM_INFO_BLOCK_TRANSFER'', 0x00010000), (''SNDRV_PCM_INFO_OVERRANGE'', 0x00020000),
     (''SNDRV_PCM_INFO_RESUME'', 0x00040000), (''SNDRV_PCM_INFO_PAUSE'', 0x00080000),
     (''SNDRV_PCM_INFO_HALF_DUPLEX'', 0x00100000), (''SNDRV_PCM_INFO_JOINT_DUPLEX'', 0x00200000),
     (''SNDRV_PCM_INFO_SYNC_START'', 0x00400000), (''SNDRV_PCM_INFO_NO_PERIOD_WAKEUP'',
     0x00800000), (''SNDRV_PCM_INFO_HAS_LINK_ATIME'', 0x01000000),
     (''SNDRV_PCM_INFO_HAS_LINK_ABSOLUTE_ATIME'', 0x02000000),
     (''SNDRV_PCM_INFO_HAS_LINK_ESTIMATED_ATIME'', 0x04000000),
     (''SNDRV_PCM_INFO_HAS_LINK_SYNCHRONIZED_ATIME'', 0x08000000),
     (''SNDRV_PCM_INFO_DRAIN_TRIGGER'', 0x40000000), (''SNDRV_PCM_INFO_FIFO_IN_FRAMES'',
     0x80000000)]"

definition pcm_info_flags :: "u32 list" where
  "pcm_info_flags = map snd pcm_info_flags_table"

definition sndrv_pcm_state_numbers :: "(string \<times> nat) list" where
  "sndrv_pcm_state_numbers =
    [(''SNDRV_PCM_STATE_OPEN'', 0), (''SNDRV_PCM_STATE_SETUP'', 1), (''SNDRV_PCM_STATE_PREPARED'',
     2), (''SNDRV_PCM_STATE_RUNNING'', 3), (''SNDRV_PCM_STATE_XRUN'', 4),
     (''SNDRV_PCM_STATE_DRAINING'', 5), (''SNDRV_PCM_STATE_PAUSED'', 6),
     (''SNDRV_PCM_STATE_SUSPENDED'', 7)]"

definition SNDRV_PCM_STATE_DISCONNECTED :: nat where "SNDRV_PCM_STATE_DISCONNECTED = 8"

definition SNDRV_PCM_STATE_LAST :: nat where "SNDRV_PCM_STATE_LAST = SNDRV_PCM_STATE_DISCONNECTED"

definition sndrv_pcm_mmap_offset_numbers :: "(string \<times> u32) list" where
  "sndrv_pcm_mmap_offset_numbers =
    [(''SNDRV_PCM_MMAP_OFFSET_DATA'', 0x0), (''SNDRV_PCM_MMAP_OFFSET_STATUS_OLD'', 0x80000000),
     (''SNDRV_PCM_MMAP_OFFSET_CONTROL_OLD'', 0x81000000), (''SNDRV_PCM_MMAP_OFFSET_STATUS_NEW'',
     0x82000000), (''SNDRV_PCM_MMAP_OFFSET_CONTROL_NEW'', 0x83000000)]"

definition SNDRV_PCM_HW_PARAM_ACCESS :: nat where "SNDRV_PCM_HW_PARAM_ACCESS = 0"
definition SNDRV_PCM_HW_PARAM_FORMAT :: nat where "SNDRV_PCM_HW_PARAM_FORMAT = 1"
definition SNDRV_PCM_HW_PARAM_SUBFORMAT :: nat where "SNDRV_PCM_HW_PARAM_SUBFORMAT = 2"
definition SNDRV_PCM_HW_PARAM_SAMPLE_BITS :: nat where "SNDRV_PCM_HW_PARAM_SAMPLE_BITS = 8"
definition sndrv_pcm_hw_param_numbers :: "(string \<times> nat) list" where
  "sndrv_pcm_hw_param_numbers =
    [(''SNDRV_PCM_HW_PARAM_FRAME_BITS'', 9), (''SNDRV_PCM_HW_PARAM_CHANNELS'', 10),
     (''SNDRV_PCM_HW_PARAM_RATE'', 11), (''SNDRV_PCM_HW_PARAM_PERIOD_TIME'', 12),
     (''SNDRV_PCM_HW_PARAM_PERIOD_SIZE'', 13), (''SNDRV_PCM_HW_PARAM_PERIOD_BYTES'', 14),
     (''SNDRV_PCM_HW_PARAM_PERIODS'', 15), (''SNDRV_PCM_HW_PARAM_BUFFER_TIME'', 16),
     (''SNDRV_PCM_HW_PARAM_BUFFER_SIZE'', 17), (''SNDRV_PCM_HW_PARAM_BUFFER_BYTES'', 18)]"

definition SNDRV_PCM_HW_PARAM_TICK_TIME :: nat where "SNDRV_PCM_HW_PARAM_TICK_TIME = 19"

definition SNDRV_PCM_HW_PARAM_FIRST_MASK :: nat where "SNDRV_PCM_HW_PARAM_FIRST_MASK = SNDRV_PCM_HW_PARAM_ACCESS"
definition SNDRV_PCM_HW_PARAM_LAST_MASK :: nat where "SNDRV_PCM_HW_PARAM_LAST_MASK = SNDRV_PCM_HW_PARAM_SUBFORMAT"
definition SNDRV_PCM_HW_PARAM_FIRST_INTERVAL :: nat where "SNDRV_PCM_HW_PARAM_FIRST_INTERVAL = SNDRV_PCM_HW_PARAM_SAMPLE_BITS"
definition SNDRV_PCM_HW_PARAM_LAST_INTERVAL :: nat where "SNDRV_PCM_HW_PARAM_LAST_INTERVAL = SNDRV_PCM_HW_PARAM_TICK_TIME"

definition sndrv_pcm_hw_params_numbers :: "(string \<times> u32) list" where
  "sndrv_pcm_hw_params_numbers =
    [(''SNDRV_PCM_HW_PARAMS_NORESAMPLE'', 1), (''SNDRV_PCM_HW_PARAMS_EXPORT_BUFFER'', 2),
     (''SNDRV_PCM_HW_PARAMS_NO_PERIOD_WAKEUP'', 4)]"

definition sndrv_pcm_sync_ptr_numbers :: "(string \<times> u32) list" where
  "sndrv_pcm_sync_ptr_numbers =
    [(''SNDRV_PCM_SYNC_PTR_HWSYNC'', 1), (''SNDRV_PCM_SYNC_PTR_APPL'', 2),
     (''SNDRV_PCM_SYNC_PTR_AVAIL_MIN'', 4)]"

definition SNDRV_MASK_MAX :: nat where "SNDRV_MASK_MAX = 256"

definition sndrv_chmap_numbers :: "(string \<times> u32) list" where
  "sndrv_chmap_numbers =
    [(''SNDRV_CHMAP_POSITION_MASK'', 0xffff), (''SNDRV_CHMAP_PHASE_INVERSE'', 0x10000),
     (''SNDRV_CHMAP_DRIVER_SPEC'', 0x20000)]"

subsection \<open>Raw MIDI, timers and controls\<close>

definition sndrv_rawmidi_info_numbers :: "(string \<times> u32) list" where
  "sndrv_rawmidi_info_numbers =
    [(''SNDRV_RAWMIDI_INFO_OUTPUT'', 0x00000001), (''SNDRV_RAWMIDI_INFO_INPUT'', 0x00000002),
     (''SNDRV_RAWMIDI_INFO_DUPLEX'', 0x00000004)]"

definition sndrv_timer_psflg_numbers :: "(string \<times> u32) list" where
  "sndrv_timer_psflg_numbers =
    [(''SNDRV_TIMER_PSFLG_AUTO'', 1), (''SNDRV_TIMER_PSFLG_EXCLUSIVE'', 2),
     (''SNDRV_TIMER_PSFLG_EARLY_EVENT'', 4)]"

definition sndrv_timer_numbers :: "(string \<times> nat) list" where
  "sndrv_timer_numbers =
    [(''SNDRV_TIMER_GLOBAL_SYSTEM'', 0), (''SNDRV_TIMER_GLOBAL_RTC'', 1),
     (''SNDRV_TIMER_GLOBAL_HPET'', 2), (''SNDRV_TIMER_GLOBAL_HRTIMER'', 3),
     (''SNDRV_TIMER_FLG_SLAVE'', 1)]"

definition sndrv_ctl_elem_type_numbers :: "(string \<times> nat) list" where
  "sndrv_ctl_elem_type_numbers =
    [(''SNDRV_CTL_ELEM_TYPE_NONE'', 0), (''SNDRV_CTL_ELEM_TYPE_BOOLEAN'', 1),
     (''SNDRV_CTL_ELEM_TYPE_INTEGER'', 2), (''SNDRV_CTL_ELEM_TYPE_ENUMERATED'', 3),
     (''SNDRV_CTL_ELEM_TYPE_BYTES'', 4), (''SNDRV_CTL_ELEM_TYPE_IEC958'', 5)]"

definition SNDRV_CTL_ELEM_TYPE_INTEGER64 :: nat where "SNDRV_CTL_ELEM_TYPE_INTEGER64 = 6"

definition sndrv_ctl_elem_numbers :: "(string \<times> nat) list" where
  "sndrv_ctl_elem_numbers =
    [(''SNDRV_CTL_ELEM_TYPE_LAST'', SNDRV_CTL_ELEM_TYPE_INTEGER64),
     (''SNDRV_CTL_ELEM_IFACE_CARD'', 0), (''SNDRV_CTL_ELEM_IFACE_HWDEP'', 1),
     (''SNDRV_CTL_ELEM_IFACE_MIXER'', 2), (''SNDRV_CTL_ELEM_IFACE_PCM'', 3),
     (''SNDRV_CTL_ELEM_IFACE_RAWMIDI'', 4), (''SNDRV_CTL_ELEM_IFACE_TIMER'', 5)]"

definition SNDRV_CTL_ELEM_IFACE_SEQUENCER :: nat where "SNDRV_CTL_ELEM_IFACE_SEQUENCER = 6"

definition SNDRV_CTL_ELEM_IFACE_LAST :: nat where "SNDRV_CTL_ELEM_IFACE_LAST = SNDRV_CTL_ELEM_IFACE_SEQUENCER"

definition SNDRV_CTL_ELEM_ACCESS_READWRITE :: u32 where "SNDRV_CTL_ELEM_ACCESS_READWRITE = 3"
definition SNDRV_CTL_ELEM_ACCESS_TLV_READWRITE :: u32 where
  "SNDRV_CTL_ELEM_ACCESS_TLV_READWRITE = 0x30"
definition sndrv_ctl_power_numbers :: "(string \<times> u32) list" where
  "sndrv_ctl_power_numbers =
    [(''SNDRV_CTL_POWER_D0'', 0x0000), (''SNDRV_CTL_POWER_D1'', 0x0100), (''SNDRV_CTL_POWER_D2'',
     0x0200), (''SNDRV_CTL_POWER_D3'', 0x0300), (''SNDRV_CTL_POWER_D3hot'', 0x300),
     (''SNDRV_CTL_POWER_D3cold'', 0x301)]"

definition ctl_access_flags_table :: "(string \<times> u32) list" where
  "ctl_access_flags_table =
    [(''SNDRV_CTL_ELEM_ACCESS_READ'', 1), (''SNDRV_CTL_ELEM_ACCESS_WRITE'', 2),
     (''SNDRV_CTL_ELEM_ACCESS_VOLATILE'', 4), (''SNDRV_CTL_ELEM_ACCESS_TLV_READ'', 0x10),
     (''SNDRV_CTL_ELEM_ACCESS_TLV_WRITE'', 0x20), (''SNDRV_CTL_ELEM_ACCESS_TLV_COMMAND'', 0x40),
     (''SNDRV_CTL_ELEM_ACCESS_INACTIVE'', 0x100), (''SNDRV_CTL_ELEM_ACCESS_LOCK'', 0x200),
     (''SNDRV_CTL_ELEM_ACCESS_OWNER'', 0x400), (''SNDRV_CTL_ELEM_ACCESS_TLV_CALLBACK'',
     0x10000000), (''SNDRV_CTL_ELEM_ACCESS_USER'', 0x20000000)]"

definition ctl_access_flags :: "u32 list" where
  "ctl_access_flags = map snd ctl_access_flags_table"

definition SNDRV_CTL_ELEM_ID_NAME_MAXLEN :: nat where "SNDRV_CTL_ELEM_ID_NAME_MAXLEN = 44"

definition sndrv_ctl_event_mask_numbers :: "(string \<times> u32) list" where
  "sndrv_ctl_event_mask_numbers =
    [(''SNDRV_CTL_EVENT_MASK_VALUE'', 1), (''SNDRV_CTL_EVENT_MASK_INFO'', 2),
     (''SNDRV_CTL_EVENT_MASK_ADD'', 4), (''SNDRV_CTL_EVENT_MASK_TLV'', 8),
     (''SNDRV_CTL_EVENT_MASK_REMOVE'', 0xffffffff)]"

subsection \<open>Enumerations\<close>

definition hwdep_ifaces :: "(string \<times> nat) list" where
  "hwdep_ifaces =
    enum_run 0
      [''SNDRV_HWDEP_IFACE_OPL2'', ''SNDRV_HWDEP_IFACE_OPL3'', ''SNDRV_HWDEP_IFACE_OPL4'',
      ''SNDRV_HWDEP_IFACE_SB16CSP'', ''SNDRV_HWDEP_IFACE_EMU10K1'', ''SNDRV_HWDEP_IFACE_YSS225'',
      ''SNDRV_HWDEP_IFACE_ICS2115'', ''SNDRV_HWDEP_IFACE_SSCAPE'', ''SNDRV_HWDEP_IFACE_VX'',
      ''SNDRV_HWDEP_IFACE_MIXART'', ''SNDRV_HWDEP_IFACE_USX2Y'',
      ''SNDRV_HWDEP_IFACE_EMUX_WAVETABLE'', ''SNDRV_HWDEP_IFACE_BLUETOOTH'',
      ''SNDRV_HWDEP_IFACE_USX2Y_PCM'', ''SNDRV_HWDEP_IFACE_PCXHR'', ''SNDRV_HWDEP_IFACE_SB_RC'',
      ''SNDRV_HWDEP_IFACE_HDA'', ''SNDRV_HWDEP_IFACE_USB_STREAM'', ''SNDRV_HWDEP_IFACE_FW_DICE'',
      ''SNDRV_HWDEP_IFACE_FW_FIREWORKS'', ''SNDRV_HWDEP_IFACE_FW_BEBOB'',
      ''SNDRV_HWDEP_IFACE_FW_OXFW'', ''SNDRV_HWDEP_IFACE_FW_DIGI00X'',
      ''SNDRV_HWDEP_IFACE_FW_TASCAM'', ''SNDRV_HWDEP_IFACE_LINE6'', ''SNDRV_HWDEP_IFACE_FW_MOTU'',
      ''SNDRV_HWDEP_IFACE_FW_FIREFACE''] @
    enum_run 26
      [''SNDRV_HWDEP_IFACE_LAST'']"

definition pcm_classes :: "(string \<times> nat) list" where
  "pcm_classes =
    enum_run 0
      [''SNDRV_PCM_CLASS_GENERIC'', ''SNDRV_PCM_CLASS_MULTI'', ''SNDRV_PCM_CLASS_MODEM'',
      ''SNDRV_PCM_CLASS_DIGITIZER''] @
    enum_run 3
      [''SNDRV_PCM_CLASS_LAST'']"

definition pcm_subclasses :: "(string \<times> nat) list" where
  "pcm_subclasses =
    enum_run 0
      [''SNDRV_PCM_SUBCLASS_GENERIC_MIX'', ''SNDRV_PCM_SUBCLASS_MULTI_MIX''] @
    enum_run 1
      [''SNDRV_PCM_SUBCLASS_LAST'']"

definition pcm_streams :: "(string \<times> nat) list" where
  "pcm_streams =
    enum_run 0
      [''SNDRV_PCM_STREAM_PLAYBACK'', ''SNDRV_PCM_STREAM_CAPTURE''] @
    enum_run 1
      [''SNDRV_PCM_STREAM_LAST'']"

definition pcm_tstamp_modes :: "(string \<times> nat) list" where
  "pcm_tstamp_modes =
    enum_run 0
      [''SNDRV_PCM_TSTAMP_NONE'', ''SNDRV_PCM_TSTAMP_ENABLE''] @
    enum_run 1
      [''SNDRV_PCM_TSTAMP_LAST'']"

definition pcm_audio_tstamp_types :: "(string \<times> nat) list" where
  "pcm_audio_tstamp_types =
    enum_run 0
      [''SNDRV_PCM_AUDIO_TSTAMP_TYPE_COMPAT'', ''SNDRV_PCM_AUDIO_TSTAMP_TYPE_DEFAULT'',
      ''SNDRV_PCM_AUDIO_TSTAMP_TYPE_LINK'', ''SNDRV_PCM_AUDIO_TSTAMP_TYPE_LINK_ABSOLUTE'',
      ''SNDRV_PCM_AUDIO_TSTAMP_TYPE_LINK_ESTIMATED'',
      ''SNDRV_PCM_AUDIO_TSTAMP_TYPE_LINK_SYNCHRONIZED''] @
    enum_run 5
      [''SNDRV_PCM_AUDIO_TSTAMP_TYPE_LAST'']"

definition pcm_tstamp_types :: "(string \<times> nat) list" where
  "pcm_tstamp_types =
    enum_run 0
      [''SNDRV_PCM_TSTAMP_TYPE_GETTIMEOFDAY'', ''SNDRV_PCM_TSTAMP_TYPE_MONOTONIC'',
      ''SNDRV_PCM_TSTAMP_TYPE_MONOTONIC_RAW''] @
    enum_run 2
      [''SNDRV_PCM_TSTAMP_TYPE_LAST'']"

definition chmap_positions :: "(string \<times> nat) list" where
  "chmap_positions =
    enum_run 0
      [''SNDRV_CHMAP_UNKNOWN'', ''SNDRV_CHMAP_NA'', ''SNDRV_CHMAP_MONO'', ''SNDRV_CHMAP_FL'',
      ''SNDRV_CHMAP_FR'', ''SNDRV_CHMAP_RL'', ''SNDRV_CHMAP_RR'', ''SNDRV_CHMAP_FC'',
      ''SNDRV_CHMAP_LFE'', ''SNDRV_CHMAP_SL'', ''SNDRV_CHMAP_SR'', ''SNDRV_CHMAP_RC'',
      ''SNDRV_CHMAP_FLC'', ''SNDRV_CHMAP_FRC'', ''SNDRV_CHMAP_RLC'', ''SNDRV_CHMAP_RRC'',
      ''SNDRV_CHMAP_FLW'', ''SNDRV_CHMAP_FRW'', ''SNDRV_CHMAP_FLH'', ''SNDRV_CHMAP_FCH'',
      ''SNDRV_CHMAP_FRH'', ''SNDRV_CHMAP_TC'', ''SNDRV_CHMAP_TFL'', ''SNDRV_CHMAP_TFR'',
      ''SNDRV_CHMAP_TFC'', ''SNDRV_CHMAP_TRL'', ''SNDRV_CHMAP_TRR'', ''SNDRV_CHMAP_TRC'',
      ''SNDRV_CHMAP_TFLC'', ''SNDRV_CHMAP_TFRC'', ''SNDRV_CHMAP_TSL'', ''SNDRV_CHMAP_TSR'',
      ''SNDRV_CHMAP_LLFE'', ''SNDRV_CHMAP_RLFE'', ''SNDRV_CHMAP_BC'', ''SNDRV_CHMAP_BLC'',
      ''SNDRV_CHMAP_BRC''] @
    enum_run 36
      [''SNDRV_CHMAP_LAST'']"

definition rawmidi_streams :: "(string \<times> nat) list" where
  "rawmidi_streams =
    enum_run 0
      [''SNDRV_RAWMIDI_STREAM_OUTPUT'', ''SNDRV_RAWMIDI_STREAM_INPUT''] @
    enum_run 1
      [''SNDRV_RAWMIDI_STREAM_LAST'']"

definition timer_sclasses :: "(string \<times> nat) list" where
  "timer_sclasses =
    enum_run 0
      [''SNDRV_TIMER_SCLASS_NONE'', ''SNDRV_TIMER_SCLASS_APPLICATION'',
      ''SNDRV_TIMER_SCLASS_SEQUENCER'', ''SNDRV_TIMER_SCLASS_OSS_SEQUENCER''] @
    enum_run 3
      [''SNDRV_TIMER_SCLASS_LAST'']"

definition timer_events :: "(string \<times> nat) list" where
  "timer_events =
    enum_run 0
      [''SNDRV_TIMER_EVENT_RESOLUTION'', ''SNDRV_TIMER_EVENT_TICK'', ''SNDRV_TIMER_EVENT_START'',
      ''SNDRV_TIMER_EVENT_STOP'', ''SNDRV_TIMER_EVENT_CONTINUE'', ''SNDRV_TIMER_EVENT_PAUSE'',
      ''SNDRV_TIMER_EVENT_EARLY'', ''SNDRV_TIMER_EVENT_SUSPEND'', ''SNDRV_TIMER_EVENT_RESUME''] @
    enum_run 12
      [''SNDRV_TIMER_EVENT_MSTART'', ''SNDRV_TIMER_EVENT_MSTOP'', ''SNDRV_TIMER_EVENT_MCONTINUE'',
      ''SNDRV_TIMER_EVENT_MPAUSE''] @
    enum_run 17
      [''SNDRV_TIMER_EVENT_MSUSPEND'', ''SNDRV_TIMER_EVENT_MRESUME'']"

definition sndrv_ctl_event_type :: "(string \<times> nat) list" where
  "sndrv_ctl_event_type =
    enum_run 0
      [''SNDRV_CTL_EVENT_ELEM''] @
    enum_run 0
      [''SNDRV_CTL_EVENT_LAST'']"

definition timer_classes :: "(string \<times> int) list" where
  "timer_classes =
    [(''SNDRV_TIMER_CLASS_NONE'', -1), (''SNDRV_TIMER_CLASS_SLAVE'', 0),
    (''SNDRV_TIMER_CLASS_GLOBAL'', 1), (''SNDRV_TIMER_CLASS_CARD'', 2), (''SNDRV_TIMER_CLASS_PCM'',
    3), (''SNDRV_TIMER_CLASS_LAST'', 3)]"

section \<open>Structs\<close>

text \<open>The C library's \<^verbatim>\<open>struct timespec\<close>.\<close>

definition struct_timespec :: ctype where
  "struct_timespec = Struct False [(''tv_sec'', Scalar C_long), (''tv_nsec'', Scalar C_long)]"

definition struct_snd_aes_iec958 :: ctype where
  "struct_snd_aes_iec958 = Struct False [
    (''status'', Array (Scalar C_u8) 24), (''subcode'', Array (Scalar C_u8) 147),
    (''pad'', Scalar C_u8), (''dig_subframe'', Array (Scalar C_u8) 4)]"

definition struct_snd_cea_861_aud_if :: ctype where
  "struct_snd_cea_861_aud_if = Struct False [
    (''db1_ct_cc'', Scalar C_u8), (''db2_sf_ss'', Scalar C_u8), (''db3'', Scalar C_u8),
    (''db4_ca'', Scalar C_u8), (''db5_dminh_lsv'', Scalar C_u8)]"

definition struct_snd_hwdep_info :: ctype where
  "struct_snd_hwdep_info = Struct False [
    (''device'', Scalar C_uint), (''card'', Scalar C_int), (''id'', Array (Scalar C_u8) 64),
    (''name'', Array (Scalar C_u8) 80), (''iface'', Scalar C_int),
    (''reserved'', Array (Scalar C_u8) 64)]"

definition struct_snd_hwdep_dsp_status :: ctype where
  "struct_snd_hwdep_dsp_status = Struct False [
    (''version'', Scalar C_uint), (''id'', Array (Scalar C_u8) 32), (''num_dsps'', Scalar C_uint),
    (''dsp_loaded'', Scalar C_uint), (''chip_ready'', Scalar C_uint),
    (''reserved'', Array (Scalar C_u8) 16)]"

definition struct_snd_hwdep_dsp_image :: ctype where
  "struct_snd_hwdep_dsp_image = Struct False [
    (''index'', Scalar C_uint), (''name'', Array (Scalar C_u8) 64), (''image'', Scalar C_ptr),
    (''length'', Scalar C_size_t), (''driver_data'', Scalar C_ulong)]"

definition struct_snd_pcm_sync_id :: ctype where
  "struct_snd_pcm_sync_id = Union [
    (''id'', Array (Scalar C_u8) 16), (''id16'', Array (Scalar C_ushort) 8),
    (''id32'', Array (Scalar C_uint) 4)]"

definition struct_snd_pcm_info :: ctype where
  "struct_snd_pcm_info = Struct False [
    (''device'', Scalar C_uint), (''subdevice'', Scalar C_uint), (''stream'', Scalar C_int),
    (''card'', Scalar C_int), (''id'', Array (Scalar C_u8) 64), (''name'', Array (Scalar C_u8) 80),
    (''subname'', Array (Scalar C_u8) 32), (''dev_class'', Scalar C_int),
    (''dev_subclass'', Scalar C_int), (''subdevices_count'', Scalar C_uint),
    (''subdevices_avail'', Scalar C_uint), (''sync'', struct_snd_pcm_sync_id),
    (''reserved'', Array (Scalar C_u8) 64)]"

definition struct_snd_interval :: ctype where
  "struct_snd_interval = Struct False [
    (''min'', Scalar C_uint), (''max'', Scalar C_uint),
    ('''', Bits C_uint [(''openmin'', 1), (''openmax'', 1), (''integer'', 1), (''empty'', 1), ('''', 28)])]"

definition struct_snd_mask :: ctype where
  "struct_snd_mask = Struct False [
    (''bits'', Array (Scalar C_u32) 8)]"

definition struct_snd_pcm_hw_params :: ctype where
  "struct_snd_pcm_hw_params = Struct False [
    (''flags'', Scalar C_uint), (''masks'', Array struct_snd_mask 3),
    (''mres'', Array struct_snd_mask 5), (''intervals'', Array struct_snd_interval 12),
    (''ires'', Array struct_snd_interval 9), (''rmask'', Scalar C_uint),
    (''cmask'', Scalar C_uint), (''info'', Scalar C_uint), (''msbits'', Scalar C_uint),
    (''rate_num'', Scalar C_uint), (''rate_den'', Scalar C_uint), (''fifo_size'', Scalar C_ulong),
    (''reserved'', Array (Scalar C_u8) 64)]"

definition struct_snd_pcm_sw_params :: ctype where
  "struct_snd_pcm_sw_params = Struct False [
    (''tstamp_mode'', Scalar C_int), (''period_step'', Scalar C_uint),
    (''sleep_min'', Scalar C_uint), (''avail_min'', Scalar C_ulong),
    (''xfer_align'', Scalar C_ulong), (''start_threshold'', Scalar C_ulong),
    (''stop_threshold'', Scalar C_ulong), (''silence_threshold'', Scalar C_ulong),
    (''silence_size'', Scalar C_ulong), (''boundary'', Scalar C_ulong), (''proto'', Scalar C_uint),
    (''tstamp_type'', Scalar C_uint), (''reserved'', Array (Scalar C_u8) 56)]"

definition struct_snd_pcm_channel_info :: ctype where
  "struct_snd_pcm_channel_info = Struct False [
    (''channel'', Scalar C_uint), (''offset'', Scalar C_long), (''first'', Scalar C_uint),
    (''step'', Scalar C_uint)]"

definition struct___snd_timespec64 :: ctype where
  "struct___snd_timespec64 = Struct False [
    (''tv_sec'', Scalar C_s64), (''tv_nsec'', Scalar C_s64)]"

definition struct___snd_pcm_mmap_status :: ctype where
  "struct___snd_pcm_mmap_status = Struct False [
    (''state'', Scalar C_int), (''pad1'', Scalar C_int), (''hw_ptr'', Scalar C_ulong),
    (''tstamp'', struct_timespec), (''suspended_state'', Scalar C_int),
    (''audio_tstamp'', struct_timespec)]"

definition struct___snd_pcm_mmap_control :: ctype where
  "struct___snd_pcm_mmap_control = Struct False [
    (''appl_ptr'', Scalar C_ulong), (''avail_min'', Scalar C_ulong)]"

definition struct___snd_pcm_sync_ptr :: ctype where
  "struct___snd_pcm_sync_ptr = Struct False [
    (''flags'', Scalar C_uint),
    (''s'', Union [
      (''status'', struct___snd_pcm_mmap_status), (''reserved'', Array (Scalar C_u8) 64)]),
    (''c'', Union [
      (''control'', struct___snd_pcm_mmap_control), (''reserved'', Array (Scalar C_u8) 64)])]"

definition struct_snd_xferi :: ctype where
  "struct_snd_xferi = Struct False [
    (''result'', Scalar C_long), (''buf'', Scalar C_ptr), (''frames'', Scalar C_ulong)]"

definition struct_snd_xfern :: ctype where
  "struct_snd_xfern = Struct False [
    (''result'', Scalar C_long), (''bufs'', Scalar C_ptr), (''frames'', Scalar C_ulong)]"

definition struct_snd_rawmidi_info :: ctype where
  "struct_snd_rawmidi_info = Struct False [
    (''device'', Scalar C_uint), (''subdevice'', Scalar C_uint), (''stream'', Scalar C_int),
    (''card'', Scalar C_int), (''flags'', Scalar C_uint), (''id'', Array (Scalar C_u8) 64),
    (''name'', Array (Scalar C_u8) 80), (''subname'', Array (Scalar C_u8) 32),
    (''subdevices_count'', Scalar C_uint), (''subdevices_avail'', Scalar C_uint),
    (''reserved'', Array (Scalar C_u8) 64)]"

definition struct_snd_rawmidi_params :: ctype where
  "struct_snd_rawmidi_params = Struct False [
    (''stream'', Scalar C_int), (''buffer_size'', Scalar C_size_t),
    (''avail_min'', Scalar C_size_t), ('''', Bits C_u8 [(''no_active_sensing'', 1), ('''', 7)]),
    (''reserved'', Array (Scalar C_u8) 16)]"

definition struct_snd_timer_id :: ctype where
  "struct_snd_timer_id = Struct False [
    (''dev_class'', Scalar C_int), (''dev_sclass'', Scalar C_int), (''card'', Scalar C_int),
    (''device'', Scalar C_int), (''subdevice'', Scalar C_int)]"

definition struct_snd_timer_ginfo :: ctype where
  "struct_snd_timer_ginfo = Struct False [
    (''tid'', struct_snd_timer_id), (''flags'', Scalar C_uint), (''card'', Scalar C_int),
    (''id'', Array (Scalar C_u8) 64), (''name'', Array (Scalar C_u8) 80),
    (''reserved0'', Scalar C_ulong), (''resolution'', Scalar C_ulong),
    (''resolution_min'', Scalar C_ulong), (''resolution_max'', Scalar C_ulong),
    (''clients'', Scalar C_uint), (''reserved'', Array (Scalar C_u8) 32)]"

definition struct_snd_timer_gparams :: ctype where
  "struct_snd_timer_gparams = Struct False [
    (''tid'', struct_snd_timer_id), (''period_num'', Scalar C_ulong),
    (''period_den'', Scalar C_ulong), (''reserved'', Array (Scalar C_u8) 32)]"

definition struct_snd_timer_gstatus :: ctype where
  "struct_snd_timer_gstatus = Struct False [
    (''tid'', struct_snd_timer_id), (''resolution'', Scalar C_ulong),
    (''resolution_num'', Scalar C_ulong), (''resolution_den'', Scalar C_ulong),
    (''reserved'', Array (Scalar C_u8) 32)]"

definition struct_snd_timer_select :: ctype where
  "struct_snd_timer_select = Struct False [
    (''id'', struct_snd_timer_id), (''reserved'', Array (Scalar C_u8) 32)]"

definition struct_snd_timer_info :: ctype where
  "struct_snd_timer_info = Struct False [
    (''flags'', Scalar C_uint), (''card'', Scalar C_int), (''id'', Array (Scalar C_u8) 64),
    (''name'', Array (Scalar C_u8) 80), (''reserved0'', Scalar C_ulong),
    (''resolution'', Scalar C_ulong), (''reserved'', Array (Scalar C_u8) 64)]"

definition struct_snd_timer_params :: ctype where
  "struct_snd_timer_params = Struct False [
    (''flags'', Scalar C_uint), (''ticks'', Scalar C_uint), (''queue_size'', Scalar C_uint),
    (''reserved0'', Scalar C_uint), (''filter'', Scalar C_uint),
    (''reserved'', Array (Scalar C_u8) 60)]"

definition struct_snd_timer_status :: ctype where
  "struct_snd_timer_status = Struct False [
    (''tstamp'', struct_timespec), (''resolution'', Scalar C_uint), (''lost'', Scalar C_uint),
    (''overrun'', Scalar C_uint), (''queue'', Scalar C_uint),
    (''reserved'', Array (Scalar C_u8) 64)]"

definition struct_snd_timer_read :: ctype where
  "struct_snd_timer_read = Struct False [
    (''resolution'', Scalar C_uint), (''ticks'', Scalar C_uint)]"

definition struct_snd_ctl_card_info :: ctype where
  "struct_snd_ctl_card_info = Struct False [
    (''card'', Scalar C_int), (''pad'', Scalar C_int), (''id'', Array (Scalar C_u8) 16),
    (''driver'', Array (Scalar C_u8) 16), (''name'', Array (Scalar C_u8) 32),
    (''longname'', Array (Scalar C_u8) 80), (''reserved_'', Array (Scalar C_u8) 16),
    (''mixername'', Array (Scalar C_u8) 80), (''components'', Array (Scalar C_u8) 128)]"

definition struct_snd_ctl_elem_id :: ctype where
  "struct_snd_ctl_elem_id = Struct False [
    (''numid'', Scalar C_uint), (''iface'', Scalar C_int), (''device'', Scalar C_uint),
    (''subdevice'', Scalar C_uint), (''name'', Array (Scalar C_u8) 44), (''index'', Scalar C_uint)]"

definition struct_snd_ctl_elem_list :: ctype where
  "struct_snd_ctl_elem_list = Struct False [
    (''offset'', Scalar C_uint), (''space'', Scalar C_uint), (''used'', Scalar C_uint),
    (''count'', Scalar C_uint), (''pids'', Scalar C_ptr), (''reserved'', Array (Scalar C_u8) 50)]"

definition struct_snd_ctl_elem_info :: ctype where
  "struct_snd_ctl_elem_info = Struct False [
    (''id'', struct_snd_ctl_elem_id), (''type'', Scalar C_int), (''access'', Scalar C_uint),
    (''count'', Scalar C_uint), (''owner'', Scalar C_int),
    (''value'', Union [
      (''integer'', Struct False [
        (''min'', Scalar C_long), (''max'', Scalar C_long), (''step'', Scalar C_long)]),
      (''integer64'', Struct False [
        (''min'', Scalar C_llong), (''max'', Scalar C_llong), (''step'', Scalar C_llong)]),
      (''enumerated'', Struct False [
        (''items'', Scalar C_uint), (''item'', Scalar C_uint),
        (''name'', Array (Scalar C_char) 64), (''names_ptr'', Scalar C_u64),
        (''names_length'', Scalar C_uint)]),
      (''reserved'', Array (Scalar C_u8) 128)]),
    (''reserved'', Array (Scalar C_u8) 64)]"

definition struct_snd_ctl_elem_value :: ctype where
  "struct_snd_ctl_elem_value = Struct False [
    (''id'', struct_snd_ctl_elem_id), ('''', Bits C_uint [(''indirect'', 1), ('''', 31)]),
    (''value'', Union [
      (''integer'', Union [
        (''value'', Array (Scalar C_long) 128), (''value_ptr'', Scalar C_ptr)]),
      (''integer64'', Union [
        (''value'', Array (Scalar C_llong) 64), (''value_ptr'', Scalar C_ptr)]),
      (''enumerated'', Union [
        (''item'', Array (Scalar C_uint) 128), (''item_ptr'', Scalar C_ptr)]),
      (''bytes'', Union [
        (''data'', Array (Scalar C_u8) 512), (''data_ptr'', Scalar C_ptr)]),
      (''iec958'', struct_snd_aes_iec958)]),
    (''reserved'', Array (Scalar C_u8) 128)]"

definition struct_snd_ctl_tlv :: ctype where
  "struct_snd_ctl_tlv = Struct False [
    (''numid'', Scalar C_uint), (''length'', Scalar C_uint), (''tlv'', Array (Scalar C_uint) 0)]"

definition struct_snd_ctl_event :: ctype where
  "struct_snd_ctl_event = Struct False [
    (''type'', Scalar C_int),
    (''data'', Union [
      (''elem'', Struct False [
        (''mask'', Scalar C_uint), (''id'', struct_snd_ctl_elem_id)]),
      (''data8'', Array (Scalar C_u8) 60)])]"

subsection \<open>Structs that measure other types\<close>

text \<open>\<^verbatim>\<open>sizeof(time_t) - sizeof(int)\<close> bytes.\<close>

definition time_pad :: "data_model \<Rightarrow> ctype" where
  "time_pad dm = Struct False [(''pad'', Array (Scalar C_u8) (scalar_size dm C_long - scalar_size dm C_int))]"

definition struct_snd_pcm_status :: "data_model \<Rightarrow> ctype" where
  "struct_snd_pcm_status dm = Struct False [
    (''state'', Scalar C_int), (''pad1'', time_pad dm),
    (''trigger_tstamp'', struct_timespec), (''tstamp'', struct_timespec),
    (''appl_ptr'', Scalar C_ulong), (''hw_ptr'', Scalar C_ulong), (''delay'', Scalar C_long),
    (''avail'', Scalar C_ulong), (''avail_max'', Scalar C_ulong), (''overrange'', Scalar C_ulong),
    (''suspended_state'', Scalar C_int), (''audio_tstamp_data'', Scalar C_u32),
    (''audio_tstamp'', struct_timespec), (''driver_tstamp'', struct_timespec),
    (''audio_tstamp_accuracy'', Scalar C_u32),
    (''reserved'', Array (Scalar C_u8) (52 - 2 * csize dm struct_timespec))]"

text \<open>Little endian: no padding before a frame count, and up to 64 bits after it.\<close>

definition pad_before_uframe :: "data_model \<Rightarrow> ctype" where
  "pad_before_uframe dm = Array (Scalar C_char) 0"

definition pad_after_uframe :: "data_model \<Rightarrow> ctype" where
  "pad_after_uframe dm = Array (Scalar C_char) (scalar_size dm C_u64 - scalar_size dm C_ulong)"

definition struct_snd_pcm_mmap_status64 :: "data_model \<Rightarrow> ctype" where
  "struct_snd_pcm_mmap_status64 dm = Struct False [
    (''state'', Scalar C_int), (''pad1'', Scalar C_u32),
    (''__pad1'', pad_before_uframe dm), (''hw_ptr'', Scalar C_ulong), (''__pad2'', pad_after_uframe dm),
    (''tstamp'', struct___snd_timespec64),
    (''suspended_state'', Scalar C_int), (''pad3'', Scalar C_u32),
    (''audio_tstamp'', struct___snd_timespec64)]"

definition struct_snd_pcm_mmap_control64 :: "data_model \<Rightarrow> ctype" where
  "struct_snd_pcm_mmap_control64 dm = Struct False [
    (''__pad1'', pad_before_uframe dm), (''appl_ptr'', Scalar C_ulong), (''__pad2'', pad_before_uframe dm),
    (''__pad3'', pad_before_uframe dm), (''avail_min'', Scalar C_ulong), (''__pad4'', pad_after_uframe dm)]"

definition struct_snd_pcm_sync_ptr64 :: "data_model \<Rightarrow> ctype" where
  "struct_snd_pcm_sync_ptr64 dm = Struct False [
    (''flags'', Scalar C_u32), (''pad1'', Scalar C_u32),
    (''s'', Union [(''status'', struct_snd_pcm_mmap_status64 dm),
                   (''reserved'', Array (Scalar C_u8) 64)]),
    (''c'', Union [(''control'', struct_snd_pcm_mmap_control64 dm),
                   (''reserved'', Array (Scalar C_u8) 64)])]"

definition struct_snd_rawmidi_status :: "data_model \<Rightarrow> ctype" where
  "struct_snd_rawmidi_status dm = Struct False [
    (''stream'', Scalar C_int), (''pad1'', time_pad dm), (''tstamp'', struct_timespec),
    (''avail'', Scalar C_size_t), (''xruns'', Scalar C_size_t),
    (''reserved'', Array (Scalar C_u8) 16)]"

definition struct_snd_timer_tread :: "data_model \<Rightarrow> ctype" where
  "struct_snd_timer_tread dm = Struct False [
    (''event'', Scalar C_int), (''pad1'', time_pad dm), (''tstamp'', struct_timespec),
    (''val'', Scalar C_uint), (''pad2'', time_pad dm)]"

section \<open>Requests\<close>

definition SNDRV_HWDEP_IOCTL_PVERSION :: ioctl where
  "SNDRV_HWDEP_IOCTL_PVERSION = IOR ''SNDRV_HWDEP_IOCTL_PVERSION'' 0x48 0x0 (Scalar C_int)"

definition SNDRV_HWDEP_IOCTL_INFO :: ioctl where
  "SNDRV_HWDEP_IOCTL_INFO = IOR ''SNDRV_HWDEP_IOCTL_INFO'' 0x48 0x1 struct_snd_hwdep_info"

definition SNDRV_HWDEP_IOCTL_DSP_STATUS :: ioctl where
  "SNDRV_HWDEP_IOCTL_DSP_STATUS = IOR ''SNDRV_HWDEP_IOCTL_DSP_STATUS'' 0x48 0x2 struct_snd_hwdep_dsp_status"

definition SNDRV_HWDEP_IOCTL_DSP_LOAD :: ioctl where
  "SNDRV_HWDEP_IOCTL_DSP_LOAD = IOW ''SNDRV_HWDEP_IOCTL_DSP_LOAD'' 0x48 0x3 struct_snd_hwdep_dsp_image"

definition hwdep_ioctls :: "ioctl list" where
  "hwdep_ioctls =
    [SNDRV_HWDEP_IOCTL_PVERSION, SNDRV_HWDEP_IOCTL_INFO, SNDRV_HWDEP_IOCTL_DSP_STATUS,
    SNDRV_HWDEP_IOCTL_DSP_LOAD]"

definition SNDRV_PCM_IOCTL_PVERSION :: ioctl where
  "SNDRV_PCM_IOCTL_PVERSION = IOR ''SNDRV_PCM_IOCTL_PVERSION'' 0x41 0x0 (Scalar C_int)"

definition SNDRV_PCM_IOCTL_INFO :: ioctl where
  "SNDRV_PCM_IOCTL_INFO = IOR ''SNDRV_PCM_IOCTL_INFO'' 0x41 0x1 struct_snd_pcm_info"

definition SNDRV_PCM_IOCTL_TSTAMP :: ioctl where
  "SNDRV_PCM_IOCTL_TSTAMP = IOW ''SNDRV_PCM_IOCTL_TSTAMP'' 0x41 0x2 (Scalar C_int)"

definition SNDRV_PCM_IOCTL_TTSTAMP :: ioctl where
  "SNDRV_PCM_IOCTL_TTSTAMP = IOW ''SNDRV_PCM_IOCTL_TTSTAMP'' 0x41 0x3 (Scalar C_int)"

definition SNDRV_PCM_IOCTL_USER_PVERSION :: ioctl where
  "SNDRV_PCM_IOCTL_USER_PVERSION = IOW ''SNDRV_PCM_IOCTL_USER_PVERSION'' 0x41 0x4 (Scalar C_int)"

definition SNDRV_PCM_IOCTL_HW_REFINE :: ioctl where
  "SNDRV_PCM_IOCTL_HW_REFINE = IOWR ''SNDRV_PCM_IOCTL_HW_REFINE'' 0x41 0x10 struct_snd_pcm_hw_params"

definition SNDRV_PCM_IOCTL_HW_PARAMS :: ioctl where
  "SNDRV_PCM_IOCTL_HW_PARAMS = IOWR ''SNDRV_PCM_IOCTL_HW_PARAMS'' 0x41 0x11 struct_snd_pcm_hw_params"

definition SNDRV_PCM_IOCTL_HW_FREE :: ioctl where
  "SNDRV_PCM_IOCTL_HW_FREE = IO ''SNDRV_PCM_IOCTL_HW_FREE'' 0x41 0x12"

definition SNDRV_PCM_IOCTL_SW_PARAMS :: ioctl where
  "SNDRV_PCM_IOCTL_SW_PARAMS = IOWR ''SNDRV_PCM_IOCTL_SW_PARAMS'' 0x41 0x13 struct_snd_pcm_sw_params"

definition SNDRV_PCM_IOCTL_STATUS :: "data_model \<Rightarrow> ioctl" where
  "SNDRV_PCM_IOCTL_STATUS dm = IOR ''SNDRV_PCM_IOCTL_STATUS'' 0x41 0x20 (struct_snd_pcm_status dm)"

definition SNDRV_PCM_IOCTL_DELAY :: ioctl where
  "SNDRV_PCM_IOCTL_DELAY = IOR ''SNDRV_PCM_IOCTL_DELAY'' 0x41 0x21 (Scalar C_long)"

definition SNDRV_PCM_IOCTL_HWSYNC :: ioctl where
  "SNDRV_PCM_IOCTL_HWSYNC = IO ''SNDRV_PCM_IOCTL_HWSYNC'' 0x41 0x22"

definition SNDRV_PCM_IOCTL_SYNC_PTR :: ioctl where
  "SNDRV_PCM_IOCTL_SYNC_PTR = IOWR ''SNDRV_PCM_IOCTL_SYNC_PTR'' 0x41 0x23 struct___snd_pcm_sync_ptr"

definition SNDRV_PCM_IOCTL_STATUS_EXT :: "data_model \<Rightarrow> ioctl" where
  "SNDRV_PCM_IOCTL_STATUS_EXT dm = IOWR ''SNDRV_PCM_IOCTL_STATUS_EXT'' 0x41 0x24 (struct_snd_pcm_status dm)"

definition SNDRV_PCM_IOCTL_CHANNEL_INFO :: ioctl where
  "SNDRV_PCM_IOCTL_CHANNEL_INFO = IOR ''SNDRV_PCM_IOCTL_CHANNEL_INFO'' 0x41 0x32 struct_snd_pcm_channel_info"

definition SNDRV_PCM_IOCTL_PREPARE :: ioctl where
  "SNDRV_PCM_IOCTL_PREPARE = IO ''SNDRV_PCM_IOCTL_PREPARE'' 0x41 0x40"

definition SNDRV_PCM_IOCTL_RESET :: ioctl where
  "SNDRV_PCM_IOCTL_RESET = IO ''SNDRV_PCM_IOCTL_RESET'' 0x41 0x41"

definition SNDRV_PCM_IOCTL_START :: ioctl where
  "SNDRV_PCM_IOCTL_START = IO ''SNDRV_PCM_IOCTL_START'' 0x41 0x42"

definition SNDRV_PCM_IOCTL_DROP :: ioctl where
  "SNDRV_PCM_IOCTL_DROP = IO ''SNDRV_PCM_IOCTL_DROP'' 0x41 0x43"

definition SNDRV_PCM_IOCTL_DRAIN :: ioctl where
  "SNDRV_PCM_IOCTL_DRAIN = IO ''SNDRV_PCM_IOCTL_DRAIN'' 0x41 0x44"

definition SNDRV_PCM_IOCTL_PAUSE :: ioctl where
  "SNDRV_PCM_IOCTL_PAUSE = IOW ''SNDRV_PCM_IOCTL_PAUSE'' 0x41 0x45 (Scalar C_int)"

definition SNDRV_PCM_IOCTL_REWIND :: ioctl where
  "SNDRV_PCM_IOCTL_REWIND = IOW ''SNDRV_PCM_IOCTL_REWIND'' 0x41 0x46 (Scalar C_ulong)"

definition SNDRV_PCM_IOCTL_RESUME :: ioctl where
  "SNDRV_PCM_IOCTL_RESUME = IO ''SNDRV_PCM_IOCTL_RESUME'' 0x41 0x47"

definition SNDRV_PCM_IOCTL_XRUN :: ioctl where
  "SNDRV_PCM_IOCTL_XRUN = IO ''SNDRV_PCM_IOCTL_XRUN'' 0x41 0x48"

definition SNDRV_PCM_IOCTL_FORWARD :: ioctl where
  "SNDRV_PCM_IOCTL_FORWARD = IOW ''SNDRV_PCM_IOCTL_FORWARD'' 0x41 0x49 (Scalar C_ulong)"

definition SNDRV_PCM_IOCTL_WRITEI_FRAMES :: ioctl where
  "SNDRV_PCM_IOCTL_WRITEI_FRAMES = IOW ''SNDRV_PCM_IOCTL_WRITEI_FRAMES'' 0x41 0x50 struct_snd_xferi"

definition SNDRV_PCM_IOCTL_READI_FRAMES :: ioctl where
  "SNDRV_PCM_IOCTL_READI_FRAMES = IOR ''SNDRV_PCM_IOCTL_READI_FRAMES'' 0x41 0x51 struct_snd_xferi"

definition SNDRV_PCM_IOCTL_WRITEN_FRAMES :: ioctl where
  "SNDRV_PCM_IOCTL_WRITEN_FRAMES = IOW ''SNDRV_PCM_IOCTL_WRITEN_FRAMES'' 0x41 0x52 struct_snd_xfern"

definition SNDRV_PCM_IOCTL_READN_FRAMES :: ioctl where
  "SNDRV_PCM_IOCTL_READN_FRAMES = IOR ''SNDRV_PCM_IOCTL_READN_FRAMES'' 0x41 0x53 struct_snd_xfern"

definition SNDRV_PCM_IOCTL_LINK :: ioctl where
  "SNDRV_PCM_IOCTL_LINK = IOW ''SNDRV_PCM_IOCTL_LINK'' 0x41 0x60 (Scalar C_int)"

definition SNDRV_PCM_IOCTL_UNLINK :: ioctl where
  "SNDRV_PCM_IOCTL_UNLINK = IO ''SNDRV_PCM_IOCTL_UNLINK'' 0x41 0x61"

definition pcm_ioctls :: "data_model \<Rightarrow> ioctl list" where
  "pcm_ioctls dm =
    [SNDRV_PCM_IOCTL_PVERSION, SNDRV_PCM_IOCTL_INFO, SNDRV_PCM_IOCTL_TSTAMP,
    SNDRV_PCM_IOCTL_TTSTAMP, SNDRV_PCM_IOCTL_USER_PVERSION, SNDRV_PCM_IOCTL_HW_REFINE,
    SNDRV_PCM_IOCTL_HW_PARAMS, SNDRV_PCM_IOCTL_HW_FREE, SNDRV_PCM_IOCTL_SW_PARAMS,
    SNDRV_PCM_IOCTL_STATUS dm, SNDRV_PCM_IOCTL_DELAY, SNDRV_PCM_IOCTL_HWSYNC,
    SNDRV_PCM_IOCTL_SYNC_PTR, SNDRV_PCM_IOCTL_STATUS_EXT dm, SNDRV_PCM_IOCTL_CHANNEL_INFO,
    SNDRV_PCM_IOCTL_PREPARE, SNDRV_PCM_IOCTL_RESET, SNDRV_PCM_IOCTL_START, SNDRV_PCM_IOCTL_DROP,
    SNDRV_PCM_IOCTL_DRAIN, SNDRV_PCM_IOCTL_PAUSE, SNDRV_PCM_IOCTL_REWIND, SNDRV_PCM_IOCTL_RESUME,
    SNDRV_PCM_IOCTL_XRUN, SNDRV_PCM_IOCTL_FORWARD, SNDRV_PCM_IOCTL_WRITEI_FRAMES,
    SNDRV_PCM_IOCTL_READI_FRAMES, SNDRV_PCM_IOCTL_WRITEN_FRAMES, SNDRV_PCM_IOCTL_READN_FRAMES,
    SNDRV_PCM_IOCTL_LINK, SNDRV_PCM_IOCTL_UNLINK]"

definition SNDRV_RAWMIDI_IOCTL_PVERSION :: ioctl where
  "SNDRV_RAWMIDI_IOCTL_PVERSION = IOR ''SNDRV_RAWMIDI_IOCTL_PVERSION'' 0x57 0x0 (Scalar C_int)"

definition SNDRV_RAWMIDI_IOCTL_INFO :: ioctl where
  "SNDRV_RAWMIDI_IOCTL_INFO = IOR ''SNDRV_RAWMIDI_IOCTL_INFO'' 0x57 0x1 struct_snd_rawmidi_info"

definition SNDRV_RAWMIDI_IOCTL_PARAMS :: ioctl where
  "SNDRV_RAWMIDI_IOCTL_PARAMS = IOWR ''SNDRV_RAWMIDI_IOCTL_PARAMS'' 0x57 0x10 struct_snd_rawmidi_params"

definition SNDRV_RAWMIDI_IOCTL_STATUS :: "data_model \<Rightarrow> ioctl" where
  "SNDRV_RAWMIDI_IOCTL_STATUS dm = IOWR ''SNDRV_RAWMIDI_IOCTL_STATUS'' 0x57 0x20 (struct_snd_rawmidi_status dm)"

definition SNDRV_RAWMIDI_IOCTL_DROP :: ioctl where
  "SNDRV_RAWMIDI_IOCTL_DROP = IOW ''SNDRV_RAWMIDI_IOCTL_DROP'' 0x57 0x30 (Scalar C_int)"

definition SNDRV_RAWMIDI_IOCTL_DRAIN :: ioctl where
  "SNDRV_RAWMIDI_IOCTL_DRAIN = IOW ''SNDRV_RAWMIDI_IOCTL_DRAIN'' 0x57 0x31 (Scalar C_int)"

definition rawmidi_ioctls :: "data_model \<Rightarrow> ioctl list" where
  "rawmidi_ioctls dm =
    [SNDRV_RAWMIDI_IOCTL_PVERSION, SNDRV_RAWMIDI_IOCTL_INFO, SNDRV_RAWMIDI_IOCTL_PARAMS,
    SNDRV_RAWMIDI_IOCTL_STATUS dm, SNDRV_RAWMIDI_IOCTL_DROP, SNDRV_RAWMIDI_IOCTL_DRAIN]"

definition SNDRV_TIMER_IOCTL_PVERSION :: ioctl where
  "SNDRV_TIMER_IOCTL_PVERSION = IOR ''SNDRV_TIMER_IOCTL_PVERSION'' 0x54 0x0 (Scalar C_int)"

definition SNDRV_TIMER_IOCTL_NEXT_DEVICE :: ioctl where
  "SNDRV_TIMER_IOCTL_NEXT_DEVICE = IOWR ''SNDRV_TIMER_IOCTL_NEXT_DEVICE'' 0x54 0x1 struct_snd_timer_id"

definition SNDRV_TIMER_IOCTL_TREAD_OLD :: ioctl where
  "SNDRV_TIMER_IOCTL_TREAD_OLD = IOW ''SNDRV_TIMER_IOCTL_TREAD_OLD'' 0x54 0x2 (Scalar C_int)"

definition SNDRV_TIMER_IOCTL_GINFO :: ioctl where
  "SNDRV_TIMER_IOCTL_GINFO = IOWR ''SNDRV_TIMER_IOCTL_GINFO'' 0x54 0x3 struct_snd_timer_ginfo"

definition SNDRV_TIMER_IOCTL_GPARAMS :: ioctl where
  "SNDRV_TIMER_IOCTL_GPARAMS = IOW ''SNDRV_TIMER_IOCTL_GPARAMS'' 0x54 0x4 struct_snd_timer_gparams"

definition SNDRV_TIMER_IOCTL_GSTATUS :: ioctl where
  "SNDRV_TIMER_IOCTL_GSTATUS = IOWR ''SNDRV_TIMER_IOCTL_GSTATUS'' 0x54 0x5 struct_snd_timer_gstatus"

definition SNDRV_TIMER_IOCTL_SELECT :: ioctl where
  "SNDRV_TIMER_IOCTL_SELECT = IOW ''SNDRV_TIMER_IOCTL_SELECT'' 0x54 0x10 struct_snd_timer_select"

definition SNDRV_TIMER_IOCTL_INFO :: ioctl where
  "SNDRV_TIMER_IOCTL_INFO = IOR ''SNDRV_TIMER_IOCTL_INFO'' 0x54 0x11 struct_snd_timer_info"

definition SNDRV_TIMER_IOCTL_PARAMS :: ioctl where
  "SNDRV_TIMER_IOCTL_PARAMS = IOW ''SNDRV_TIMER_IOCTL_PARAMS'' 0x54 0x12 struct_snd_timer_params"

definition SNDRV_TIMER_IOCTL_STATUS :: ioctl where
  "SNDRV_TIMER_IOCTL_STATUS = IOR ''SNDRV_TIMER_IOCTL_STATUS'' 0x54 0x14 struct_snd_timer_status"

definition SNDRV_TIMER_IOCTL_START :: ioctl where
  "SNDRV_TIMER_IOCTL_START = IO ''SNDRV_TIMER_IOCTL_START'' 0x54 0xa0"

definition SNDRV_TIMER_IOCTL_STOP :: ioctl where
  "SNDRV_TIMER_IOCTL_STOP = IO ''SNDRV_TIMER_IOCTL_STOP'' 0x54 0xa1"

definition SNDRV_TIMER_IOCTL_CONTINUE :: ioctl where
  "SNDRV_TIMER_IOCTL_CONTINUE = IO ''SNDRV_TIMER_IOCTL_CONTINUE'' 0x54 0xa2"

definition SNDRV_TIMER_IOCTL_PAUSE :: ioctl where
  "SNDRV_TIMER_IOCTL_PAUSE = IO ''SNDRV_TIMER_IOCTL_PAUSE'' 0x54 0xa3"

definition SNDRV_TIMER_IOCTL_TREAD64 :: ioctl where
  "SNDRV_TIMER_IOCTL_TREAD64 = IOW ''SNDRV_TIMER_IOCTL_TREAD64'' 0x54 0xa4 (Scalar C_int)"

definition timer_ioctls :: "ioctl list" where
  "timer_ioctls =
    [SNDRV_TIMER_IOCTL_PVERSION, SNDRV_TIMER_IOCTL_NEXT_DEVICE, SNDRV_TIMER_IOCTL_TREAD_OLD,
    SNDRV_TIMER_IOCTL_GINFO, SNDRV_TIMER_IOCTL_GPARAMS, SNDRV_TIMER_IOCTL_GSTATUS,
    SNDRV_TIMER_IOCTL_SELECT, SNDRV_TIMER_IOCTL_INFO, SNDRV_TIMER_IOCTL_PARAMS,
    SNDRV_TIMER_IOCTL_STATUS, SNDRV_TIMER_IOCTL_START, SNDRV_TIMER_IOCTL_STOP,
    SNDRV_TIMER_IOCTL_CONTINUE, SNDRV_TIMER_IOCTL_PAUSE, SNDRV_TIMER_IOCTL_TREAD64]"

definition SNDRV_CTL_IOCTL_PVERSION :: ioctl where
  "SNDRV_CTL_IOCTL_PVERSION = IOR ''SNDRV_CTL_IOCTL_PVERSION'' 0x55 0x0 (Scalar C_int)"

definition SNDRV_CTL_IOCTL_CARD_INFO :: ioctl where
  "SNDRV_CTL_IOCTL_CARD_INFO = IOR ''SNDRV_CTL_IOCTL_CARD_INFO'' 0x55 0x1 struct_snd_ctl_card_info"

definition SNDRV_CTL_IOCTL_ELEM_LIST :: ioctl where
  "SNDRV_CTL_IOCTL_ELEM_LIST = IOWR ''SNDRV_CTL_IOCTL_ELEM_LIST'' 0x55 0x10 struct_snd_ctl_elem_list"

definition SNDRV_CTL_IOCTL_ELEM_INFO :: ioctl where
  "SNDRV_CTL_IOCTL_ELEM_INFO = IOWR ''SNDRV_CTL_IOCTL_ELEM_INFO'' 0x55 0x11 struct_snd_ctl_elem_info"

definition SNDRV_CTL_IOCTL_ELEM_READ :: ioctl where
  "SNDRV_CTL_IOCTL_ELEM_READ = IOWR ''SNDRV_CTL_IOCTL_ELEM_READ'' 0x55 0x12 struct_snd_ctl_elem_value"

definition SNDRV_CTL_IOCTL_ELEM_WRITE :: ioctl where
  "SNDRV_CTL_IOCTL_ELEM_WRITE = IOWR ''SNDRV_CTL_IOCTL_ELEM_WRITE'' 0x55 0x13 struct_snd_ctl_elem_value"

definition SNDRV_CTL_IOCTL_ELEM_LOCK :: ioctl where
  "SNDRV_CTL_IOCTL_ELEM_LOCK = IOW ''SNDRV_CTL_IOCTL_ELEM_LOCK'' 0x55 0x14 struct_snd_ctl_elem_id"

definition SNDRV_CTL_IOCTL_ELEM_UNLOCK :: ioctl where
  "SNDRV_CTL_IOCTL_ELEM_UNLOCK = IOW ''SNDRV_CTL_IOCTL_ELEM_UNLOCK'' 0x55 0x15 struct_snd_ctl_elem_id"

definition SNDRV_CTL_IOCTL_SUBSCRIBE_EVENTS :: ioctl where
  "SNDRV_CTL_IOCTL_SUBSCRIBE_EVENTS = IOWR ''SNDRV_CTL_IOCTL_SUBSCRIBE_EVENTS'' 0x55 0x16 (Scalar C_int)"

definition SNDRV_CTL_IOCTL_ELEM_ADD :: ioctl where
  "SNDRV_CTL_IOCTL_ELEM_ADD = IOWR ''SNDRV_CTL_IOCTL_ELEM_ADD'' 0x55 0x17 struct_snd_ctl_elem_info"

definition SNDRV_CTL_IOCTL_ELEM_REPLACE :: ioctl where
  "SNDRV_CTL_IOCTL_ELEM_REPLACE = IOWR ''SNDRV_CTL_IOCTL_ELEM_REPLACE'' 0x55 0x18 struct_snd_ctl_elem_info"

definition SNDRV_CTL_IOCTL_ELEM_REMOVE :: ioctl where
  "SNDRV_CTL_IOCTL_ELEM_REMOVE = IOWR ''SNDRV_CTL_IOCTL_ELEM_REMOVE'' 0x55 0x19 struct_snd_ctl_elem_id"

definition SNDRV_CTL_IOCTL_TLV_READ :: ioctl where
  "SNDRV_CTL_IOCTL_TLV_READ = IOWR ''SNDRV_CTL_IOCTL_TLV_READ'' 0x55 0x1a struct_snd_ctl_tlv"

definition SNDRV_CTL_IOCTL_TLV_WRITE :: ioctl where
  "SNDRV_CTL_IOCTL_TLV_WRITE = IOWR ''SNDRV_CTL_IOCTL_TLV_WRITE'' 0x55 0x1b struct_snd_ctl_tlv"

definition SNDRV_CTL_IOCTL_TLV_COMMAND :: ioctl where
  "SNDRV_CTL_IOCTL_TLV_COMMAND = IOWR ''SNDRV_CTL_IOCTL_TLV_COMMAND'' 0x55 0x1c struct_snd_ctl_tlv"

definition SNDRV_CTL_IOCTL_HWDEP_NEXT_DEVICE :: ioctl where
  "SNDRV_CTL_IOCTL_HWDEP_NEXT_DEVICE = IOWR ''SNDRV_CTL_IOCTL_HWDEP_NEXT_DEVICE'' 0x55 0x20 (Scalar C_int)"

definition SNDRV_CTL_IOCTL_HWDEP_INFO :: ioctl where
  "SNDRV_CTL_IOCTL_HWDEP_INFO = IOR ''SNDRV_CTL_IOCTL_HWDEP_INFO'' 0x55 0x21 struct_snd_hwdep_info"

definition SNDRV_CTL_IOCTL_PCM_NEXT_DEVICE :: ioctl where
  "SNDRV_CTL_IOCTL_PCM_NEXT_DEVICE = IOR ''SNDRV_CTL_IOCTL_PCM_NEXT_DEVICE'' 0x55 0x30 (Scalar C_int)"

definition SNDRV_CTL_IOCTL_PCM_INFO :: ioctl where
  "SNDRV_CTL_IOCTL_PCM_INFO = IOWR ''SNDRV_CTL_IOCTL_PCM_INFO'' 0x55 0x31 struct_snd_pcm_info"

definition SNDRV_CTL_IOCTL_PCM_PREFER_SUBDEVICE :: ioctl where
  "SNDRV_CTL_IOCTL_PCM_PREFER_SUBDEVICE = IOW ''SNDRV_CTL_IOCTL_PCM_PREFER_SUBDEVICE'' 0x55 0x32 (Scalar C_int)"

definition SNDRV_CTL_IOCTL_RAWMIDI_NEXT_DEVICE :: ioctl where
  "SNDRV_CTL_IOCTL_RAWMIDI_NEXT_DEVICE = IOWR ''SNDRV_CTL_IOCTL_RAWMIDI_NEXT_DEVICE'' 0x55 0x40 (Scalar C_int)"

definition SNDRV_CTL_IOCTL_RAWMIDI_INFO :: ioctl where
  "SNDRV_CTL_IOCTL_RAWMIDI_INFO = IOWR ''SNDRV_CTL_IOCTL_RAWMIDI_INFO'' 0x55 0x41 struct_snd_rawmidi_info"

definition SNDRV_CTL_IOCTL_RAWMIDI_PREFER_SUBDEVICE :: ioctl where
  "SNDRV_CTL_IOCTL_RAWMIDI_PREFER_SUBDEVICE = IOW ''SNDRV_CTL_IOCTL_RAWMIDI_PREFER_SUBDEVICE'' 0x55 0x42 (Scalar C_int)"

definition SNDRV_CTL_IOCTL_POWER :: ioctl where
  "SNDRV_CTL_IOCTL_POWER = IOWR ''SNDRV_CTL_IOCTL_POWER'' 0x55 0xd0 (Scalar C_int)"

definition SNDRV_CTL_IOCTL_POWER_STATE :: ioctl where
  "SNDRV_CTL_IOCTL_POWER_STATE = IOR ''SNDRV_CTL_IOCTL_POWER_STATE'' 0x55 0xd1 (Scalar C_int)"

definition ctl_ioctls :: "ioctl list" where
  "ctl_ioctls =
    [SNDRV_CTL_IOCTL_PVERSION, SNDRV_CTL_IOCTL_CARD_INFO, SNDRV_CTL_IOCTL_ELEM_LIST,
    SNDRV_CTL_IOCTL_ELEM_INFO, SNDRV_CTL_IOCTL_ELEM_READ, SNDRV_CTL_IOCTL_ELEM_WRITE,
    SNDRV_CTL_IOCTL_ELEM_LOCK, SNDRV_CTL_IOCTL_ELEM_UNLOCK, SNDRV_CTL_IOCTL_SUBSCRIBE_EVENTS,
    SNDRV_CTL_IOCTL_ELEM_ADD, SNDRV_CTL_IOCTL_ELEM_REPLACE, SNDRV_CTL_IOCTL_ELEM_REMOVE,
    SNDRV_CTL_IOCTL_TLV_READ, SNDRV_CTL_IOCTL_TLV_WRITE, SNDRV_CTL_IOCTL_TLV_COMMAND,
    SNDRV_CTL_IOCTL_HWDEP_NEXT_DEVICE, SNDRV_CTL_IOCTL_HWDEP_INFO, SNDRV_CTL_IOCTL_PCM_NEXT_DEVICE,
    SNDRV_CTL_IOCTL_PCM_INFO, SNDRV_CTL_IOCTL_PCM_PREFER_SUBDEVICE,
    SNDRV_CTL_IOCTL_RAWMIDI_NEXT_DEVICE, SNDRV_CTL_IOCTL_RAWMIDI_INFO,
    SNDRV_CTL_IOCTL_RAWMIDI_PREFER_SUBDEVICE, SNDRV_CTL_IOCTL_POWER, SNDRV_CTL_IOCTL_POWER_STATE]"

section \<open>Control names\<close>

definition SNDRV_CTL_NAME_NONE :: string where "SNDRV_CTL_NAME_NONE = ''''"
definition SNDRV_CTL_NAME_PLAYBACK :: string where "SNDRV_CTL_NAME_PLAYBACK = ''Playback ''"
definition SNDRV_CTL_NAME_CAPTURE :: string where "SNDRV_CTL_NAME_CAPTURE = ''Capture ''"
definition SNDRV_CTL_NAME_IEC958_NONE :: string where "SNDRV_CTL_NAME_IEC958_NONE = ''''"
definition SNDRV_CTL_NAME_IEC958_SWITCH :: string where "SNDRV_CTL_NAME_IEC958_SWITCH = ''Switch''"
definition SNDRV_CTL_NAME_IEC958_VOLUME :: string where "SNDRV_CTL_NAME_IEC958_VOLUME = ''Volume''"
definition SNDRV_CTL_NAME_IEC958_DEFAULT :: string where "SNDRV_CTL_NAME_IEC958_DEFAULT = ''Default''"
definition SNDRV_CTL_NAME_IEC958_MASK :: string where "SNDRV_CTL_NAME_IEC958_MASK = ''Mask''"
definition SNDRV_CTL_NAME_IEC958_CON_MASK :: string where "SNDRV_CTL_NAME_IEC958_CON_MASK = ''Con Mask''"
definition SNDRV_CTL_NAME_IEC958_PRO_MASK :: string where "SNDRV_CTL_NAME_IEC958_PRO_MASK = ''Pro Mask''"
definition SNDRV_CTL_NAME_IEC958_PCM_STREAM :: string where "SNDRV_CTL_NAME_IEC958_PCM_STREAM = ''PCM Stream''"

text \<open>The macro pastes a prefix, an explanation, the name of a direction and the name of an item.\<close>

definition SNDRV_CTL_NAME_IEC958 :: "string \<Rightarrow> string \<Rightarrow> string \<Rightarrow> string" where
  "SNDRV_CTL_NAME_IEC958 expl direction what = ''IEC958 '' @ expl @ direction @ what"

definition iec958_directions :: "string list" where
  "iec958_directions = [SNDRV_CTL_NAME_NONE, SNDRV_CTL_NAME_PLAYBACK, SNDRV_CTL_NAME_CAPTURE]"

definition iec958_items :: "string list" where
  "iec958_items =
    [SNDRV_CTL_NAME_IEC958_NONE, SNDRV_CTL_NAME_IEC958_SWITCH, SNDRV_CTL_NAME_IEC958_VOLUME,
    SNDRV_CTL_NAME_IEC958_DEFAULT, SNDRV_CTL_NAME_IEC958_MASK, SNDRV_CTL_NAME_IEC958_CON_MASK,
    SNDRV_CTL_NAME_IEC958_PRO_MASK, SNDRV_CTL_NAME_IEC958_PCM_STREAM]"

text \<open>The requests whose number depends on the width of the process.\<close>

definition alsa_width_dependent :: "string list" where
  "alsa_width_dependent =
    [''SNDRV_HWDEP_IOCTL_DSP_LOAD'', ''SNDRV_PCM_IOCTL_HW_REFINE'', ''SNDRV_PCM_IOCTL_HW_PARAMS'',
    ''SNDRV_PCM_IOCTL_SW_PARAMS'', ''SNDRV_PCM_IOCTL_STATUS'', ''SNDRV_PCM_IOCTL_DELAY'',
    ''SNDRV_PCM_IOCTL_SYNC_PTR'', ''SNDRV_PCM_IOCTL_STATUS_EXT'', ''SNDRV_PCM_IOCTL_CHANNEL_INFO'',
    ''SNDRV_PCM_IOCTL_REWIND'', ''SNDRV_PCM_IOCTL_FORWARD'', ''SNDRV_PCM_IOCTL_WRITEI_FRAMES'',
    ''SNDRV_PCM_IOCTL_READI_FRAMES'', ''SNDRV_PCM_IOCTL_WRITEN_FRAMES'',
    ''SNDRV_PCM_IOCTL_READN_FRAMES'', ''SNDRV_RAWMIDI_IOCTL_PARAMS'',
    ''SNDRV_RAWMIDI_IOCTL_STATUS'', ''SNDRV_TIMER_IOCTL_GINFO'', ''SNDRV_TIMER_IOCTL_GPARAMS'',
    ''SNDRV_TIMER_IOCTL_GSTATUS'', ''SNDRV_TIMER_IOCTL_INFO'', ''SNDRV_TIMER_IOCTL_STATUS'',
    ''SNDRV_CTL_IOCTL_ELEM_LIST'', ''SNDRV_CTL_IOCTL_ELEM_READ'', ''SNDRV_CTL_IOCTL_ELEM_WRITE'']"

section \<open>Lemmas\<close>

lemmas pcm_info_defs =
  pcm_info_flags_def pcm_info_flags_table_def SNDRV_PCM_INFO_HAS_WALL_CLOCK_def

lemmas ctl_access_defs =
  ctl_access_flags_def ctl_access_flags_table_def SNDRV_CTL_ELEM_ACCESS_READWRITE_def
  SNDRV_CTL_ELEM_ACCESS_TLV_READWRITE_def

lemma pcm_info_flags_disjoint: "disjoint_masks pcm_info_flags"
  by (simp add: pcm_info_defs)

lemma ctl_access_flags_disjoint: "disjoint_masks ctl_access_flags"
  by (simp add: ctl_access_defs)

text \<open>The parameters of a hardware setup are numbered so that each has one slot of its struct.\<close>

lemma hw_params_slots:
  "8 * csize dm struct_snd_mask = SNDRV_MASK_MAX"
  "coffset dm struct_snd_pcm_hw_params ''intervals'' =
     Some (4 + (SNDRV_PCM_HW_PARAM_LAST_MASK - SNDRV_PCM_HW_PARAM_FIRST_MASK + 1 + 5) *
       csize dm struct_snd_mask)"
  by (cases dm; hypsubst; code_simp)+

lemma hw_params_numbers:
  "SNDRV_PCM_HW_PARAM_LAST_MASK < SNDRV_PCM_HW_PARAM_FIRST_INTERVAL"
  "SNDRV_PCM_FORMAT_LAST < SNDRV_MASK_MAX"
  by code_simp+

interpretation hwdep: ioctl_table hwdep_ioctls
  by (rule ioctl_tableI) code_simp+

interpretation timer: ioctl_table timer_ioctls
  by (rule ioctl_tableI) code_simp+

interpretation ctl: ioctl_table ctl_ioctls
  by (rule ioctl_tableI) code_simp+

lemma pcm_ioctls_ok: "requests_ok (pcm_ioctls dm)" "distinct (map ioc_key (pcm_ioctls dm))"
  by (cases dm; hypsubst; code_simp)+

lemma rawmidi_ioctls_ok: "requests_ok (rawmidi_ioctls dm)" "distinct (map ioc_key (rawmidi_ioctls dm))"
  by (cases dm; hypsubst; code_simp)+

interpretation pcm: ioctl_table "pcm_ioctls dm" for dm
  using pcm_ioctls_ok by (rule ioctl_tableI)

interpretation rawmidi: ioctl_table "rawmidi_ioctls dm" for dm
  using rawmidi_ioctls_ok by (rule ioctl_tableI)

text \<open>All requests of the ALSA devices, as a process of the given width sees them.\<close>

definition alsa_ioctls :: "data_model \<Rightarrow> ioctl list" where
  "alsa_ioctls dm = hwdep_ioctls @ pcm_ioctls dm @ rawmidi_ioctls dm @ timer_ioctls @ ctl_ioctls"

definition iec958_names :: "string list" where
  "iec958_names =
    concat (map (\<lambda>d. map (SNDRV_CTL_NAME_IEC958 [] d) iec958_items) iec958_directions)"

text \<open>Names and keys identify the requests, and are the same for both widths, in the same order.\<close>

lemma alsa_aligned:
  "map ioc_name (alsa_ioctls ILP32) = map ioc_name (alsa_ioctls LP64)"
  "map ioc_key (alsa_ioctls ILP32) = map ioc_key (alsa_ioctls LP64)"
  "distinct (map ioc_name (alsa_ioctls ILP32))"
  "distinct (map ioc_key (alsa_ioctls ILP32))"
  "requests_ok (alsa_ioctls ILP32)" "requests_ok (alsa_ioctls LP64)"
  by code_simp+

lemma alsa_pairs:
  "list_all (\<lambda>(i, j). (request ILP32 i = request LP64 j \<longleftrightarrow> ioc_name i \<notin> set alsa_width_dependent) \<and>
      (request ILP32 i = request LP64 j \<longrightarrow> ioc_arg i = ioc_arg j \<and>
        (argument_compatible i \<or> ioc_arg i = Some struct_snd_ctl_elem_info)))
    (zip (alsa_ioctls ILP32) (alsa_ioctls LP64))"
  by code_simp

lemma zip_aligned:
  assumes "map f xs = map f ys" and "distinct (map f xs)" and "x \<in> set xs" and "y \<in> set ys"
  shows "f x = f y \<longleftrightarrow> (x, y) \<in> set (zip xs ys)"
proof -
  have len: "length xs = length ys" using map_eq_imp_length_eq [OF assms(1)] .
  have nth: "f (xs ! k) = f (ys ! k)" if "k < length xs" for k
    using that len arg_cong [OF assms(1), of "\<lambda>zs. zs ! k"] by simp
  obtain a b where a: "a < length xs" "x = xs ! a" and b: "b < length xs" "y = ys ! b"
    using assms(3,4) len by (auto simp: in_set_conv_nth)
  have "(x, y) \<in> set (zip xs ys)" if "f x = f y"
  proof -
    have "f (xs ! a) = f (xs ! b)" using that a b nth by simp
    then have "a = b" using nth_eq_iff_index_eq [OF assms(2), of a b] a b by simp
    then show ?thesis using a b len by (auto simp: set_zip)
  qed
  moreover have "f x = f y" if "(x, y) \<in> set (zip xs ys)"
    using that nth by (auto simp: set_zip)
  ultimately show ?thesis by blast
qed

subsection \<open>Reading members of a struct\<close>

text \<open>
  The number that a program of either width reads from a member of a struct in memory, the member
  given by the names that lead to it through nested structs and unions.
\<close>

fun member_at :: "data_model \<Rightarrow> string list \<Rightarrow> ctype \<Rightarrow> (nat \<times> ctype) option" where
  "member_at dm [] t = Some (0, t)"
| "member_at dm (x # xs) (Struct packed fs) =
    (case field_index x fs of
       None \<Rightarrow> None
     | Some i \<Rightarrow>
         (case member_at dm xs (snd (fs ! i)) of
            None \<Rightarrow> None
          | Some (ofs, t) \<Rightarrow> Some (offsets 0 (field_layout dm packed fs) ! i + ofs, t)))"
| "member_at dm (x # xs) (Union fs) =
    (case field_index x fs of None \<Rightarrow> None | Some i \<Rightarrow> member_at dm xs (snd (fs ! i)))"
| "member_at dm (x # xs) _ = None"

definition read_member :: "data_model \<Rightarrow> ctype \<Rightarrow> string list \<Rightarrow> u8 list \<Rightarrow> nat option" where
  "read_member dm t path bs =
    (case member_at dm path t of
       None \<Rightarrow> None
     | Some (ofs, u) \<Rightarrow> Some (le_num (take (csize dm u) (drop ofs bs))))"

lemma le_num_append: "le_num (bs @ cs) = le_num bs + 256 ^ length bs * le_num cs"
  by (induction bs) (simp_all add: algebra_simps)

text \<open>Eight bytes read as one number are two numbers of four bytes.\<close>

lemma le_num_split:
  assumes "ofs + 4 \<le> length bs"
  shows "le_num (take 8 (drop ofs bs)) =
    le_num (take 4 (drop ofs bs)) + 2 ^ 32 * le_num (take 4 (drop (ofs + 4) bs))"
proof -
  have "take 8 (drop ofs bs) = take 4 (drop ofs bs) @ take 4 (drop (ofs + 4) bs)"
    using take_add [of 4 4 "drop ofs bs"] by (simp add: add.commute)
  then show ?thesis
    using assms by (simp add: le_num_append)
qed

lemma le_num_low: "ofs + 4 \<le> length bs \<Longrightarrow> le_num (take 4 (drop ofs bs)) < 2 ^ 32"
  using le_num_less [of "take 4 (drop ofs bs)"] by simp

lemma elem_info_size: "csize dm struct_snd_ctl_elem_info = 272"
  by (cases dm; hypsubst; code_simp)

lemma elem_info_members:
  "member_at dm [''access''] struct_snd_ctl_elem_info = Some (68, Scalar C_uint)"
  "member_at dm [''count''] struct_snd_ctl_elem_info = Some (72, Scalar C_uint)"
  "member_at dm [''value'', ''integer64'', ''min''] struct_snd_ctl_elem_info = Some (80, Scalar C_llong)"
  "member_at dm [''value'', ''integer64'', ''max''] struct_snd_ctl_elem_info = Some (88, Scalar C_llong)"
  "member_at dm [''value'', ''integer'', ''min''] struct_snd_ctl_elem_info = Some (80, Scalar C_long)"
  "member_at dm [''value'', ''integer'', ''max''] struct_snd_ctl_elem_info =
     Some (80 + word_bytes dm, Scalar C_long)"
  "member_at dm [''value'', ''integer'', ''step''] struct_snd_ctl_elem_info =
     Some (80 + 2 * word_bytes dm, Scalar C_long)"
  by (cases dm; hypsubst; code_simp)+

lemma mmap_sizes:
  "csize LP64 (struct_snd_pcm_mmap_status64 LP64) = 56"
  "csize LP64 (struct_snd_pcm_mmap_control64 LP64) = 16"
  by code_simp+

lemma mmap_members:
  "member_at dm [''appl_ptr''] (struct_snd_pcm_mmap_control64 dm) = Some (0, Scalar C_ulong)"
  "member_at dm [''avail_min''] (struct_snd_pcm_mmap_control64 dm) = Some (word_bytes dm, Scalar C_ulong)"
  "member_at dm [''hw_ptr''] (struct_snd_pcm_mmap_status64 dm) = Some (8, Scalar C_ulong)"
  "member_at dm [''state''] (struct_snd_pcm_mmap_status64 dm) = Some (0, Scalar C_int)"
  "member_at dm [''suspended_state''] (struct_snd_pcm_mmap_status64 dm) = Some (32, Scalar C_int)"
  "member_at dm [''tstamp'', ''tv_sec''] (struct_snd_pcm_mmap_status64 dm) = Some (16, Scalar C_s64)"
  "member_at dm [''tstamp'', ''tv_nsec''] (struct_snd_pcm_mmap_status64 dm) = Some (24, Scalar C_s64)"
  "member_at dm [''audio_tstamp'', ''tv_sec''] (struct_snd_pcm_mmap_status64 dm) = Some (40, Scalar C_s64)"
  "member_at dm [''audio_tstamp'', ''tv_nsec''] (struct_snd_pcm_mmap_status64 dm) = Some (48, Scalar C_s64)"
  by (cases dm; hypsubst; code_simp)+

section \<open>Properties\<close>



text \<open>
  C21. The exception: a \<^verbatim>\<open>struct snd_ctl_elem_info\<close> has the same size in both widths, but whatever
  bytes it holds, what a 64-bit program reads as the minimum of an integer element is the 32-bit
  program's minimum with its maximum as the upper half, and what it reads as the maximum starts with
  the 32-bit program's step.  The access rights, the count and the 64-bit integer range are read alike.
\<close>

theorem elem_info_misread:
  assumes "length bs = csize dm struct_snd_ctl_elem_info"
    and "read_member ILP32 struct_snd_ctl_elem_info [''value'', ''integer'', ''min''] bs = Some low"
    and "read_member ILP32 struct_snd_ctl_elem_info [''value'', ''integer'', ''max''] bs = Some high"
    and "read_member ILP32 struct_snd_ctl_elem_info [''value'', ''integer'', ''step''] bs = Some step"
  shows "read_member LP64 struct_snd_ctl_elem_info [''value'', ''integer'', ''min''] bs =
      Some (low + 2 ^ 32 * high) \<and>
    (\<exists>m. read_member LP64 struct_snd_ctl_elem_info [''value'', ''integer'', ''max''] bs = Some m \<and>
      m mod 2 ^ 32 = step) \<and>
    (\<forall>path \<in> set [[''access''], [''count''], [''value'', ''integer64'', ''min''],
        [''value'', ''integer64'', ''max'']].
      read_member ILP32 struct_snd_ctl_elem_info path bs = read_member LP64 struct_snd_ctl_elem_info path bs)"
proof -
  note at = elem_info_members
  have len: "length bs = 272" using assms(1) by (simp add: elem_info_size)
  have "read_member LP64 struct_snd_ctl_elem_info [''value'', ''integer'', ''min''] bs =
      Some (low + 2 ^ 32 * high)"
    using assms(2,3) le_num_split [of 80 bs] len by (simp add: read_member_def at)
  moreover have "(le_num (take 8 (drop 88 bs))) mod 2 ^ 32 = step"
    using assms(4) le_num_split [of 88 bs] le_num_low [of 88 bs] len by (simp add: read_member_def at)
  ultimately show ?thesis
    by (simp add: read_member_def at)
qed

theorem elem_info_misread_witness:
  "read_member LP64 struct_snd_ctl_elem_info [''value'', ''integer'', ''min'']
     (replicate 80 0 @ [1, 0, 0, 0, 2, 0, 0, 0] @ replicate 184 0) = Some (1 + 2 ^ 32 * 2)"
proof -
  let ?bs = "replicate 80 0 @ [1, 0, 0, 0, 2, 0, 0, 0] @ replicate 184 0 :: u8 list"
  have len: "length ?bs = csize LP64 struct_snd_ctl_elem_info" by code_simp
  have "read_member ILP32 struct_snd_ctl_elem_info [''value'', ''integer'', ''min''] ?bs = Some 1"
    and "read_member ILP32 struct_snd_ctl_elem_info [''value'', ''integer'', ''max''] ?bs = Some 2"
    and "read_member ILP32 struct_snd_ctl_elem_info [''value'', ''integer'', ''step''] ?bs = Some 0"
    by code_simp+
  from elem_info_misread [OF len this] show ?thesis by blast
qed

text \<open>
  C22. The memory-mapped PCM records in their 64-bit layout, whatever bytes they hold.  The status is
  read alike in both widths, the position of the hardware up to the 32 bits of a frame count.  The
  control is not: the second padding of \<^verbatim>\<open>__snd_pcm_mmap_control64\<close> is declared with the type for
  padding before a frame count, which is empty on little-endian machines, and so the application
  position that the 64-bit side reads has the 32-bit side's \<^verbatim>\<open>avail_min\<close> as its upper half.
\<close>

theorem mmap_control64_misread:
  assumes "csize LP64 (struct_snd_pcm_mmap_status64 LP64) \<le> length ss"
    and "csize LP64 (struct_snd_pcm_mmap_control64 LP64) \<le> length cs"
    and "read_member ILP32 (struct_snd_pcm_mmap_control64 ILP32) [''appl_ptr''] cs = Some appl"
    and "read_member ILP32 (struct_snd_pcm_mmap_control64 ILP32) [''avail_min''] cs = Some avail"
    and "read_member LP64 (struct_snd_pcm_mmap_status64 LP64) [''hw_ptr''] ss = Some hw"
  shows "read_member LP64 (struct_snd_pcm_mmap_control64 LP64) [''appl_ptr''] cs =
      Some (appl + 2 ^ 32 * avail) \<and>
    read_member ILP32 (struct_snd_pcm_mmap_status64 ILP32) [''hw_ptr''] ss = Some (hw mod 2 ^ 32) \<and>
    (\<forall>path \<in> set [[''state''], [''suspended_state''], [''tstamp'', ''tv_sec''], [''tstamp'', ''tv_nsec''],
        [''audio_tstamp'', ''tv_sec''], [''audio_tstamp'', ''tv_nsec'']].
      read_member ILP32 (struct_snd_pcm_mmap_status64 ILP32) path ss =
      read_member LP64 (struct_snd_pcm_mmap_status64 LP64) path ss)"
proof -
  note at = mmap_members
  have len: "56 \<le> length ss" "16 \<le> length cs" using assms(1,2) by (simp_all add: mmap_sizes)
  have "read_member LP64 (struct_snd_pcm_mmap_control64 LP64) [''appl_ptr''] cs =
      Some (appl + 2 ^ 32 * avail)"
    using assms(3,4) le_num_split [of 0 cs] len by (simp add: read_member_def at)
  moreover have "read_member ILP32 (struct_snd_pcm_mmap_status64 ILP32) [''hw_ptr''] ss = Some (hw mod 2 ^ 32)"
    using assms(5) le_num_split [of 8 ss] le_num_low [of 8 ss] len by (auto simp: read_member_def at)
  ultimately show ?thesis
    by (simp add: read_member_def at)
qed

theorem mmap_control64_misread_witness:
  "read_member LP64 (struct_snd_pcm_mmap_control64 LP64) [''appl_ptr'']
     [9, 0, 0, 0, 4, 0, 0, 0, 0, 0, 0, 0, 0, 0, 0, 0] = Some (9 + 2 ^ 32 * 4)"
proof -
  let ?ss = "replicate 56 0 :: u8 list"
  let ?cs = "[9, 0, 0, 0, 4, 0, 0, 0, 0, 0, 0, 0, 0, 0, 0, 0] :: u8 list"
  have "csize LP64 (struct_snd_pcm_mmap_status64 LP64) \<le> length ?ss"
    and "csize LP64 (struct_snd_pcm_mmap_control64 LP64) \<le> length ?cs"
    and "read_member ILP32 (struct_snd_pcm_mmap_control64 ILP32) [''appl_ptr''] ?cs = Some 9"
    and "read_member ILP32 (struct_snd_pcm_mmap_control64 ILP32) [''avail_min''] ?cs = Some 4"
    and "read_member LP64 (struct_snd_pcm_mmap_status64 LP64) [''hw_ptr''] ?ss = Some 0"
    by code_simp+
  from mmap_control64_misread [OF this] show ?thesis by blast
qed

text \<open>
  The names of the digital-interface controls: every name the macro builds without an
  explanation leaves room for the terminator in the name of a control element, and no two choices
  of direction and item give the same name.
\<close>

lemma iec958_names_fit:
  "list_all (\<lambda>n. length n < SNDRV_CTL_ELEM_ID_NAME_MAXLEN) iec958_names \<and> distinct iec958_names"
  by (intro conjI; code_simp)

end
