(* ===== verification/Asequencer.thy ===== *)
theory Asequencer
  imports Asound
begin

text \<open>
  The ALSA sequencer, \<^verbatim>\<open>src/include/sound/asequencer.h\<close>: event types, the flag byte of an event, the
  event itself, clients, ports and queues, and the requests of the sequencer device.
\<close>

unbundle bit_operations_syntax

section \<open>Event types\<close>

definition seq_event_types_table :: "(string \<times> nat) list" where
  "seq_event_types_table =
    [(''SNDRV_SEQ_EVENT_SYSTEM'', 0), (''SNDRV_SEQ_EVENT_RESULT'', 1), (''SNDRV_SEQ_EVENT_NOTE'',
     5), (''SNDRV_SEQ_EVENT_NOTEON'', 6), (''SNDRV_SEQ_EVENT_NOTEOFF'', 7),
     (''SNDRV_SEQ_EVENT_KEYPRESS'', 8), (''SNDRV_SEQ_EVENT_CONTROLLER'', 10),
     (''SNDRV_SEQ_EVENT_PGMCHANGE'', 11), (''SNDRV_SEQ_EVENT_CHANPRESS'', 12),
     (''SNDRV_SEQ_EVENT_PITCHBEND'', 13), (''SNDRV_SEQ_EVENT_CONTROL14'', 14),
     (''SNDRV_SEQ_EVENT_NONREGPARAM'', 15), (''SNDRV_SEQ_EVENT_REGPARAM'', 16),
     (''SNDRV_SEQ_EVENT_SONGPOS'', 20), (''SNDRV_SEQ_EVENT_SONGSEL'', 21),
     (''SNDRV_SEQ_EVENT_QFRAME'', 22), (''SNDRV_SEQ_EVENT_TIMESIGN'', 23),
     (''SNDRV_SEQ_EVENT_KEYSIGN'', 24), (''SNDRV_SEQ_EVENT_START'', 30),
     (''SNDRV_SEQ_EVENT_CONTINUE'', 31), (''SNDRV_SEQ_EVENT_STOP'', 32),
     (''SNDRV_SEQ_EVENT_SETPOS_TICK'', 33), (''SNDRV_SEQ_EVENT_SETPOS_TIME'', 34),
     (''SNDRV_SEQ_EVENT_TEMPO'', 35), (''SNDRV_SEQ_EVENT_CLOCK'', 36), (''SNDRV_SEQ_EVENT_TICK'',
     37), (''SNDRV_SEQ_EVENT_QUEUE_SKEW'', 38), (''SNDRV_SEQ_EVENT_TUNE_REQUEST'', 40),
     (''SNDRV_SEQ_EVENT_RESET'', 41), (''SNDRV_SEQ_EVENT_SENSING'', 42),
     (''SNDRV_SEQ_EVENT_ECHO'', 50), (''SNDRV_SEQ_EVENT_OSS'', 51),
     (''SNDRV_SEQ_EVENT_CLIENT_START'', 60), (''SNDRV_SEQ_EVENT_CLIENT_EXIT'', 61),
     (''SNDRV_SEQ_EVENT_CLIENT_CHANGE'', 62), (''SNDRV_SEQ_EVENT_PORT_START'', 63),
     (''SNDRV_SEQ_EVENT_PORT_EXIT'', 64), (''SNDRV_SEQ_EVENT_PORT_CHANGE'', 65),
     (''SNDRV_SEQ_EVENT_PORT_SUBSCRIBED'', 66), (''SNDRV_SEQ_EVENT_PORT_UNSUBSCRIBED'', 67),
     (''SNDRV_SEQ_EVENT_USR0'', 90), (''SNDRV_SEQ_EVENT_USR1'', 91), (''SNDRV_SEQ_EVENT_USR2'',
     92), (''SNDRV_SEQ_EVENT_USR3'', 93), (''SNDRV_SEQ_EVENT_USR4'', 94),
     (''SNDRV_SEQ_EVENT_USR5'', 95), (''SNDRV_SEQ_EVENT_USR6'', 96), (''SNDRV_SEQ_EVENT_USR7'',
     97), (''SNDRV_SEQ_EVENT_USR8'', 98), (''SNDRV_SEQ_EVENT_USR9'', 99),
     (''SNDRV_SEQ_EVENT_SYSEX'', 130), (''SNDRV_SEQ_EVENT_BOUNCE'', 131),
     (''SNDRV_SEQ_EVENT_USR_VAR0'', 135), (''SNDRV_SEQ_EVENT_USR_VAR1'', 136),
     (''SNDRV_SEQ_EVENT_USR_VAR2'', 137), (''SNDRV_SEQ_EVENT_USR_VAR3'', 138),
     (''SNDRV_SEQ_EVENT_USR_VAR4'', 139), (''SNDRV_SEQ_EVENT_KERNEL_ERROR'', 150),
     (''SNDRV_SEQ_EVENT_KERNEL_QUOTE'', 151), (''SNDRV_SEQ_EVENT_NONE'', 255)]"

definition seq_event_types :: "nat list" where
  "seq_event_types = map snd seq_event_types_table"

section \<open>Flags\<close>

definition sndrv_seq_time_stamp_numbers :: "(string \<times> u8) list" where
  "sndrv_seq_time_stamp_numbers =
    [(''SNDRV_SEQ_TIME_STAMP_TICK'', 0), (''SNDRV_SEQ_TIME_STAMP_REAL'', 1)]"

definition SNDRV_SEQ_TIME_STAMP_MASK :: u8 where "SNDRV_SEQ_TIME_STAMP_MASK = 1"
definition sndrv_seq_time_mode_numbers :: "(string \<times> u8) list" where
  "sndrv_seq_time_mode_numbers =
    [(''SNDRV_SEQ_TIME_MODE_ABS'', 0), (''SNDRV_SEQ_TIME_MODE_REL'', 2)]"

definition SNDRV_SEQ_TIME_MODE_MASK :: u8 where "SNDRV_SEQ_TIME_MODE_MASK = 2"
definition sndrv_seq_event_length_numbers :: "(string \<times> u8) list" where
  "sndrv_seq_event_length_numbers =
    [(''SNDRV_SEQ_EVENT_LENGTH_FIXED'', 0), (''SNDRV_SEQ_EVENT_LENGTH_VARIABLE'', 4),
     (''SNDRV_SEQ_EVENT_LENGTH_VARUSR'', 8)]"

definition SNDRV_SEQ_EVENT_LENGTH_MASK :: u8 where "SNDRV_SEQ_EVENT_LENGTH_MASK = 12"
definition sndrv_seq_priority_numbers :: "(string \<times> u8) list" where
  "sndrv_seq_priority_numbers =
    [(''SNDRV_SEQ_PRIORITY_NORMAL'', 0), (''SNDRV_SEQ_PRIORITY_HIGH'', 0x10)]"

definition SNDRV_SEQ_PRIORITY_MASK :: u8 where "SNDRV_SEQ_PRIORITY_MASK = 0x10"

definition seq_mode_masks :: "u8 list" where
  "seq_mode_masks =
    [SNDRV_SEQ_TIME_STAMP_MASK, SNDRV_SEQ_TIME_MODE_MASK, SNDRV_SEQ_EVENT_LENGTH_MASK,
    SNDRV_SEQ_PRIORITY_MASK]"

definition sndrv_seq_numbers :: "(string \<times> nat) list" where
  "sndrv_seq_numbers =
    [(''SNDRV_SEQ_ADDRESS_UNKNOWN'', 253), (''SNDRV_SEQ_ADDRESS_SUBSCRIBERS'', 254),
     (''SNDRV_SEQ_ADDRESS_BROADCAST'', 255), (''SNDRV_SEQ_QUEUE_DIRECT'', 253)]"

definition sndrv_seq_client_numbers :: "(string \<times> nat) list" where
  "sndrv_seq_client_numbers =
    [(''SNDRV_SEQ_CLIENT_SYSTEM'', 0), (''SNDRV_SEQ_CLIENT_DUMMY'', 14),
     (''SNDRV_SEQ_CLIENT_OSS'', 15)]"

definition no_client_numbers :: "(string \<times> nat) list" where
  "no_client_numbers =
    [(''NO_CLIENT'', 0), (''USER_CLIENT'', 1), (''KERNEL_CLIENT'', 2)]"

definition sndrv_seq_port_system_numbers :: "(string \<times> nat) list" where
  "sndrv_seq_port_system_numbers =
    [(''SNDRV_SEQ_PORT_SYSTEM_TIMER'', 0), (''SNDRV_SEQ_PORT_SYSTEM_ANNOUNCE'', 1)]"

definition sndrv_seq_timer_numbers :: "(string \<times> nat) list" where
  "sndrv_seq_timer_numbers =
    [(''SNDRV_SEQ_TIMER_ALSA'', 0), (''SNDRV_SEQ_TIMER_MIDI_CLOCK'', 1),
     (''SNDRV_SEQ_TIMER_MIDI_TICK'', 2)]"

definition sndrv_seq_query_subs_numbers :: "(string \<times> nat) list" where
  "sndrv_seq_query_subs_numbers =
    [(''SNDRV_SEQ_QUERY_SUBS_READ'', 0), (''SNDRV_SEQ_QUERY_SUBS_WRITE'', 1)]"

definition SNDRV_SEQ_QUEUE_FLG_SYNC :: nat where "SNDRV_SEQ_QUEUE_FLG_SYNC = 1"

definition seq_filter_flags_table :: "(string \<times> u32) list" where
  "seq_filter_flags_table =
    [(''SNDRV_SEQ_FILTER_BROADCAST'', 1), (''SNDRV_SEQ_FILTER_MULTICAST'', 2),
     (''SNDRV_SEQ_FILTER_BOUNCE'', 4), (''SNDRV_SEQ_FILTER_USE_EVENT'', 0x80000000)]"

definition seq_filter_flags :: "u32 list" where
  "seq_filter_flags = map snd seq_filter_flags_table"

definition seq_remove_flags_table :: "(string \<times> u32) list" where
  "seq_remove_flags_table =
    [(''SNDRV_SEQ_REMOVE_INPUT'', 1), (''SNDRV_SEQ_REMOVE_OUTPUT'', 2),
     (''SNDRV_SEQ_REMOVE_DEST'', 4), (''SNDRV_SEQ_REMOVE_DEST_CHANNEL'', 8),
     (''SNDRV_SEQ_REMOVE_TIME_BEFORE'', 0x10), (''SNDRV_SEQ_REMOVE_TIME_AFTER'', 0x20),
     (''SNDRV_SEQ_REMOVE_TIME_TICK'', 0x40), (''SNDRV_SEQ_REMOVE_EVENT_TYPE'', 0x80),
     (''SNDRV_SEQ_REMOVE_IGNORE_OFF'', 0x100), (''SNDRV_SEQ_REMOVE_TAG_MATCH'', 0x200)]"

definition seq_remove_flags :: "u32 list" where
  "seq_remove_flags = map snd seq_remove_flags_table"

definition seq_port_capabilities_table :: "(string \<times> u32) list" where
  "seq_port_capabilities_table =
    [(''SNDRV_SEQ_PORT_CAP_READ'', 1), (''SNDRV_SEQ_PORT_CAP_WRITE'', 2),
     (''SNDRV_SEQ_PORT_CAP_SYNC_READ'', 4), (''SNDRV_SEQ_PORT_CAP_SYNC_WRITE'', 8),
     (''SNDRV_SEQ_PORT_CAP_DUPLEX'', 0x10), (''SNDRV_SEQ_PORT_CAP_SUBS_READ'', 0x20),
     (''SNDRV_SEQ_PORT_CAP_SUBS_WRITE'', 0x40), (''SNDRV_SEQ_PORT_CAP_NO_EXPORT'', 0x80)]"

definition seq_port_capabilities :: "u32 list" where
  "seq_port_capabilities = map snd seq_port_capabilities_table"

definition seq_port_types_table :: "(string \<times> u32) list" where
  "seq_port_types_table =
    [(''SNDRV_SEQ_PORT_TYPE_SPECIFIC'', 1), (''SNDRV_SEQ_PORT_TYPE_MIDI_GENERIC'', 2),
     (''SNDRV_SEQ_PORT_TYPE_MIDI_GM'', 4), (''SNDRV_SEQ_PORT_TYPE_MIDI_GS'', 8),
     (''SNDRV_SEQ_PORT_TYPE_MIDI_XG'', 0x10), (''SNDRV_SEQ_PORT_TYPE_MIDI_MT32'', 0x20),
     (''SNDRV_SEQ_PORT_TYPE_MIDI_GM2'', 0x40), (''SNDRV_SEQ_PORT_TYPE_SYNTH'', 0x400),
     (''SNDRV_SEQ_PORT_TYPE_DIRECT_SAMPLE'', 0x800), (''SNDRV_SEQ_PORT_TYPE_SAMPLE'', 0x1000),
     (''SNDRV_SEQ_PORT_TYPE_HARDWARE'', 0x10000), (''SNDRV_SEQ_PORT_TYPE_SOFTWARE'', 0x20000),
     (''SNDRV_SEQ_PORT_TYPE_SYNTHESIZER'', 0x40000), (''SNDRV_SEQ_PORT_TYPE_PORT'', 0x80000),
     (''SNDRV_SEQ_PORT_TYPE_APPLICATION'', 0x100000)]"

definition seq_port_types :: "u32 list" where
  "seq_port_types = map snd seq_port_types_table"

definition SNDRV_SEQ_PORT_FLG_GIVEN_PORT :: u32 where "SNDRV_SEQ_PORT_FLG_GIVEN_PORT = 1"
definition SNDRV_SEQ_PORT_FLG_TIMESTAMP :: u32 where "SNDRV_SEQ_PORT_FLG_TIMESTAMP = 2"
definition SNDRV_SEQ_PORT_FLG_TIME_REAL :: u32 where "SNDRV_SEQ_PORT_FLG_TIME_REAL = 4"

definition seq_port_flags :: "u32 list" where
  "seq_port_flags =
    [SNDRV_SEQ_PORT_FLG_GIVEN_PORT, SNDRV_SEQ_PORT_FLG_TIMESTAMP, SNDRV_SEQ_PORT_FLG_TIME_REAL]"

definition SNDRV_SEQ_PORT_SUBS_EXCLUSIVE :: u32 where "SNDRV_SEQ_PORT_SUBS_EXCLUSIVE = 1"
definition SNDRV_SEQ_PORT_SUBS_TIMESTAMP :: u32 where "SNDRV_SEQ_PORT_SUBS_TIMESTAMP = 2"
definition SNDRV_SEQ_PORT_SUBS_TIME_REAL :: u32 where "SNDRV_SEQ_PORT_SUBS_TIME_REAL = 4"

definition seq_subscription_flags :: "u32 list" where
  "seq_subscription_flags =
    [SNDRV_SEQ_PORT_SUBS_EXCLUSIVE, SNDRV_SEQ_PORT_SUBS_TIMESTAMP, SNDRV_SEQ_PORT_SUBS_TIME_REAL]"

section \<open>Structs\<close>

definition struct_snd_seq_addr :: ctype where
  "struct_snd_seq_addr = Struct False [
    (''client'', Scalar C_u8), (''port'', Scalar C_u8)]"

definition struct_snd_seq_connect :: ctype where
  "struct_snd_seq_connect = Struct False [
    (''sender'', struct_snd_seq_addr), (''dest'', struct_snd_seq_addr)]"

definition struct_snd_seq_ev_note :: ctype where
  "struct_snd_seq_ev_note = Struct False [
    (''channel'', Scalar C_u8), (''note'', Scalar C_u8), (''velocity'', Scalar C_u8),
    (''off_velocity'', Scalar C_u8), (''duration'', Scalar C_uint)]"

definition struct_snd_seq_ev_ctrl :: ctype where
  "struct_snd_seq_ev_ctrl = Struct False [
    (''channel'', Scalar C_u8), (''unused1'', Scalar C_u8), (''unused2'', Scalar C_u8),
    (''unused3'', Scalar C_u8), (''param'', Scalar C_uint), (''value'', Scalar C_int)]"

definition struct_snd_seq_ev_raw8 :: ctype where
  "struct_snd_seq_ev_raw8 = Struct False [
    (''d'', Array (Scalar C_u8) 12)]"

definition struct_snd_seq_ev_raw32 :: ctype where
  "struct_snd_seq_ev_raw32 = Struct False [
    (''d'', Array (Scalar C_uint) 3)]"

definition struct_snd_seq_ev_ext :: ctype where
  "struct_snd_seq_ev_ext = Struct True [
    (''len'', Scalar C_uint), (''ptr'', Scalar C_ptr)]"

definition struct_snd_seq_result :: ctype where
  "struct_snd_seq_result = Struct False [
    (''event'', Scalar C_int), (''result'', Scalar C_int)]"

definition struct_snd_seq_real_time :: ctype where
  "struct_snd_seq_real_time = Struct False [
    (''tv_sec'', Scalar C_uint), (''tv_nsec'', Scalar C_uint)]"

definition struct_snd_seq_timestamp :: ctype where
  "struct_snd_seq_timestamp = Union [
    (''tick'', Scalar C_uint), (''time'', struct_snd_seq_real_time)]"

definition struct_snd_seq_queue_skew :: ctype where
  "struct_snd_seq_queue_skew = Struct False [
    (''value'', Scalar C_uint), (''base'', Scalar C_uint)]"

definition struct_snd_seq_ev_queue_control :: ctype where
  "struct_snd_seq_ev_queue_control = Struct False [
    (''queue'', Scalar C_u8), (''pad'', Array (Scalar C_u8) 3),
    (''param'', Union [
      (''value'', Scalar C_int), (''time'', struct_snd_seq_timestamp),
      (''position'', Scalar C_uint), (''skew'', struct_snd_seq_queue_skew),
      (''d32'', Array (Scalar C_uint) 2), (''d8'', Array (Scalar C_u8) 8)])]"

definition struct_snd_seq_ev_quote :: ctype where
  "struct_snd_seq_ev_quote = Struct True [
    (''origin'', struct_snd_seq_addr), (''value'', Scalar C_ushort), (''event'', Scalar C_ptr)]"

definition struct_snd_seq_event :: ctype where
  "struct_snd_seq_event = Struct False [
    (''type'', Scalar C_u8), (''flags'', Scalar C_u8), (''tag'', Scalar C_char),
    (''queue'', Scalar C_u8), (''time'', struct_snd_seq_timestamp),
    (''source'', struct_snd_seq_addr), (''dest'', struct_snd_seq_addr),
    (''data'', Union [
      (''note'', struct_snd_seq_ev_note), (''control'', struct_snd_seq_ev_ctrl),
      (''raw8'', struct_snd_seq_ev_raw8), (''raw32'', struct_snd_seq_ev_raw32),
      (''ext'', struct_snd_seq_ev_ext), (''queue'', struct_snd_seq_ev_queue_control),
      (''time'', struct_snd_seq_timestamp), (''addr'', struct_snd_seq_addr),
      (''connect'', struct_snd_seq_connect), (''result'', struct_snd_seq_result),
      (''quote'', struct_snd_seq_ev_quote)])]"

definition struct_snd_seq_event_bounce :: ctype where
  "struct_snd_seq_event_bounce = Struct False [
    (''err'', Scalar C_int), (''event'', struct_snd_seq_event)]"

definition struct_snd_seq_system_info :: ctype where
  "struct_snd_seq_system_info = Struct False [
    (''queues'', Scalar C_int), (''clients'', Scalar C_int), (''ports'', Scalar C_int),
    (''channels'', Scalar C_int), (''cur_clients'', Scalar C_int), (''cur_queues'', Scalar C_int),
    (''reserved'', Array (Scalar C_char) 24)]"

definition struct_snd_seq_running_info :: ctype where
  "struct_snd_seq_running_info = Struct False [
    (''client'', Scalar C_u8), (''big_endian'', Scalar C_u8), (''cpu_mode'', Scalar C_u8),
    (''pad'', Scalar C_u8), (''reserved'', Array (Scalar C_u8) 12)]"

definition struct_snd_seq_client_info :: ctype where
  "struct_snd_seq_client_info = Struct False [
    (''client'', Scalar C_int), (''type'', Scalar C_int), (''name'', Array (Scalar C_char) 64),
    (''filter'', Scalar C_uint), (''multicast_filter'', Array (Scalar C_u8) 8),
    (''event_filter'', Array (Scalar C_u8) 32), (''num_ports'', Scalar C_int),
    (''event_lost'', Scalar C_int), (''card'', Scalar C_int), (''pid'', Scalar C_int),
    (''reserved'', Array (Scalar C_char) 56)]"

definition struct_snd_seq_client_pool :: ctype where
  "struct_snd_seq_client_pool = Struct False [
    (''client'', Scalar C_int), (''output_pool'', Scalar C_int), (''input_pool'', Scalar C_int),
    (''output_room'', Scalar C_int), (''output_free'', Scalar C_int),
    (''input_free'', Scalar C_int), (''reserved'', Array (Scalar C_char) 64)]"

definition struct_snd_seq_remove_events :: ctype where
  "struct_snd_seq_remove_events = Struct False [
    (''remove_mode'', Scalar C_uint), (''time'', struct_snd_seq_timestamp),
    (''queue'', Scalar C_u8), (''dest'', struct_snd_seq_addr), (''channel'', Scalar C_u8),
    (''type'', Scalar C_int), (''tag'', Scalar C_char), (''reserved'', Array (Scalar C_int) 10)]"

definition struct_snd_seq_port_info :: ctype where
  "struct_snd_seq_port_info = Struct False [
    (''addr'', struct_snd_seq_addr), (''name'', Array (Scalar C_char) 64),
    (''capability'', Scalar C_uint), (''type'', Scalar C_uint), (''midi_channels'', Scalar C_int),
    (''midi_voices'', Scalar C_int), (''synth_voices'', Scalar C_int),
    (''read_use'', Scalar C_int), (''write_use'', Scalar C_int), (''kernel'', Scalar C_ptr),
    (''flags'', Scalar C_uint), (''time_queue'', Scalar C_u8),
    (''reserved'', Array (Scalar C_char) 59)]"

definition struct_snd_seq_queue_info :: ctype where
  "struct_snd_seq_queue_info = Struct False [
    (''queue'', Scalar C_int), (''owner'', Scalar C_int),
    ('''', Bits C_u8 [(''locked'', 1), ('''', 7)]), (''name'', Array (Scalar C_char) 64),
    (''flags'', Scalar C_uint), (''reserved'', Array (Scalar C_char) 60)]"

definition struct_snd_seq_queue_status :: ctype where
  "struct_snd_seq_queue_status = Struct False [
    (''queue'', Scalar C_int), (''events'', Scalar C_int), (''tick'', Scalar C_uint),
    (''time'', struct_snd_seq_real_time), (''running'', Scalar C_int), (''flags'', Scalar C_int),
    (''reserved'', Array (Scalar C_char) 64)]"

definition struct_snd_seq_queue_tempo :: ctype where
  "struct_snd_seq_queue_tempo = Struct False [
    (''queue'', Scalar C_int), (''tempo'', Scalar C_uint), (''ppq'', Scalar C_int),
    (''skew_value'', Scalar C_uint), (''skew_base'', Scalar C_uint),
    (''reserved'', Array (Scalar C_char) 24)]"

definition struct_snd_seq_queue_timer :: ctype where
  "struct_snd_seq_queue_timer = Struct False [
    (''queue'', Scalar C_int), (''type'', Scalar C_int),
    (''u'', Union [
      (''alsa'', Struct False [
        (''id'', struct_snd_timer_id), (''resolution'', Scalar C_uint)])]),
    (''reserved'', Array (Scalar C_char) 64)]"

definition struct_snd_seq_queue_client :: ctype where
  "struct_snd_seq_queue_client = Struct False [
    (''queue'', Scalar C_int), (''client'', Scalar C_int), (''used'', Scalar C_int),
    (''reserved'', Array (Scalar C_char) 64)]"

definition struct_snd_seq_port_subscribe :: ctype where
  "struct_snd_seq_port_subscribe = Struct False [
    (''sender'', struct_snd_seq_addr), (''dest'', struct_snd_seq_addr),
    (''voices'', Scalar C_uint), (''flags'', Scalar C_uint), (''queue'', Scalar C_u8),
    (''pad'', Array (Scalar C_u8) 3), (''reserved'', Array (Scalar C_char) 64)]"

definition struct_snd_seq_query_subs :: ctype where
  "struct_snd_seq_query_subs = Struct False [
    (''root'', struct_snd_seq_addr), (''type'', Scalar C_int), (''index'', Scalar C_int),
    (''num_subs'', Scalar C_int), (''addr'', struct_snd_seq_addr), (''queue'', Scalar C_u8),
    (''flags'', Scalar C_uint), (''reserved'', Array (Scalar C_char) 64)]"

section \<open>Requests\<close>

definition seq_ioctls :: "ioctl list" where
  "seq_ioctls =
    [IOR ''SNDRV_SEQ_IOCTL_PVERSION'' 0x53 0x0 (Scalar C_int),
     IOR ''SNDRV_SEQ_IOCTL_CLIENT_ID'' 0x53 0x1 (Scalar C_int),
     IOWR ''SNDRV_SEQ_IOCTL_SYSTEM_INFO'' 0x53 0x2 struct_snd_seq_system_info,
     IOWR ''SNDRV_SEQ_IOCTL_RUNNING_MODE'' 0x53 0x3 struct_snd_seq_running_info,
     IOWR ''SNDRV_SEQ_IOCTL_GET_CLIENT_INFO'' 0x53 0x10 struct_snd_seq_client_info,
     IOW ''SNDRV_SEQ_IOCTL_SET_CLIENT_INFO'' 0x53 0x11 struct_snd_seq_client_info,
     IOWR ''SNDRV_SEQ_IOCTL_CREATE_PORT'' 0x53 0x20 struct_snd_seq_port_info,
     IOW ''SNDRV_SEQ_IOCTL_DELETE_PORT'' 0x53 0x21 struct_snd_seq_port_info,
     IOWR ''SNDRV_SEQ_IOCTL_GET_PORT_INFO'' 0x53 0x22 struct_snd_seq_port_info,
     IOW ''SNDRV_SEQ_IOCTL_SET_PORT_INFO'' 0x53 0x23 struct_snd_seq_port_info,
     IOW ''SNDRV_SEQ_IOCTL_SUBSCRIBE_PORT'' 0x53 0x30 struct_snd_seq_port_subscribe,
     IOW ''SNDRV_SEQ_IOCTL_UNSUBSCRIBE_PORT'' 0x53 0x31 struct_snd_seq_port_subscribe,
     IOWR ''SNDRV_SEQ_IOCTL_CREATE_QUEUE'' 0x53 0x32 struct_snd_seq_queue_info,
     IOW ''SNDRV_SEQ_IOCTL_DELETE_QUEUE'' 0x53 0x33 struct_snd_seq_queue_info,
     IOWR ''SNDRV_SEQ_IOCTL_GET_QUEUE_INFO'' 0x53 0x34 struct_snd_seq_queue_info,
     IOWR ''SNDRV_SEQ_IOCTL_SET_QUEUE_INFO'' 0x53 0x35 struct_snd_seq_queue_info,
     IOWR ''SNDRV_SEQ_IOCTL_GET_NAMED_QUEUE'' 0x53 0x36 struct_snd_seq_queue_info,
     IOWR ''SNDRV_SEQ_IOCTL_GET_QUEUE_STATUS'' 0x53 0x40 struct_snd_seq_queue_status,
     IOWR ''SNDRV_SEQ_IOCTL_GET_QUEUE_TEMPO'' 0x53 0x41 struct_snd_seq_queue_tempo,
     IOW ''SNDRV_SEQ_IOCTL_SET_QUEUE_TEMPO'' 0x53 0x42 struct_snd_seq_queue_tempo,
     IOWR ''SNDRV_SEQ_IOCTL_GET_QUEUE_TIMER'' 0x53 0x45 struct_snd_seq_queue_timer,
     IOW ''SNDRV_SEQ_IOCTL_SET_QUEUE_TIMER'' 0x53 0x46 struct_snd_seq_queue_timer,
     IOWR ''SNDRV_SEQ_IOCTL_GET_QUEUE_CLIENT'' 0x53 0x49 struct_snd_seq_queue_client,
     IOW ''SNDRV_SEQ_IOCTL_SET_QUEUE_CLIENT'' 0x53 0x4a struct_snd_seq_queue_client,
     IOWR ''SNDRV_SEQ_IOCTL_GET_CLIENT_POOL'' 0x53 0x4b struct_snd_seq_client_pool,
     IOW ''SNDRV_SEQ_IOCTL_SET_CLIENT_POOL'' 0x53 0x4c struct_snd_seq_client_pool,
     IOW ''SNDRV_SEQ_IOCTL_REMOVE_EVENTS'' 0x53 0x4e struct_snd_seq_remove_events,
     IOWR ''SNDRV_SEQ_IOCTL_QUERY_SUBS'' 0x53 0x4f struct_snd_seq_query_subs,
     IOWR ''SNDRV_SEQ_IOCTL_GET_SUBSCRIPTION'' 0x53 0x50 struct_snd_seq_port_subscribe,
     IOWR ''SNDRV_SEQ_IOCTL_QUERY_NEXT_CLIENT'' 0x53 0x51 struct_snd_seq_client_info,
     IOWR ''SNDRV_SEQ_IOCTL_QUERY_NEXT_PORT'' 0x53 0x52 struct_snd_seq_port_info]"

section \<open>Lemmas\<close>

lemmas seq_flag_defs =
  seq_filter_flags_def seq_filter_flags_table_def seq_remove_flags_def seq_remove_flags_table_def
  seq_port_capabilities_def seq_port_capabilities_table_def seq_port_types_def
  seq_port_types_table_def seq_port_flags_def seq_subscription_flags_def
  SNDRV_SEQ_PORT_FLG_GIVEN_PORT_def SNDRV_SEQ_PORT_FLG_TIMESTAMP_def
  SNDRV_SEQ_PORT_FLG_TIME_REAL_def SNDRV_SEQ_PORT_SUBS_EXCLUSIVE_def
  SNDRV_SEQ_PORT_SUBS_TIMESTAMP_def SNDRV_SEQ_PORT_SUBS_TIME_REAL_def

lemmas seq_mode_defs =
  seq_mode_masks_def SNDRV_SEQ_TIME_STAMP_MASK_def SNDRV_SEQ_TIME_MODE_MASK_def
  SNDRV_SEQ_EVENT_LENGTH_MASK_def SNDRV_SEQ_PRIORITY_MASK_def

lemma seq_flags_disjoint:
  "list_all disjoint_masks [seq_filter_flags, seq_remove_flags, seq_port_capabilities,
     seq_port_types, seq_port_flags, seq_subscription_flags]"
  by (simp add: seq_flag_defs)

lemma seq_mode_masks_disjoint: "disjoint_masks seq_mode_masks"
  by (simp add: seq_mode_defs)

interpretation seq: ioctl_table seq_ioctls
  by (rule ioctl_tableI) code_simp+

section \<open>Properties\<close>

text \<open>
  A sequencer event is 28 bytes on every machine, although its data may hold a pointer:
  every alternative of the data fits in the 12 bytes of the raw words and starts right after the
  addresses. The event types are distinct and fit the byte they are stored in, and the mode fields
  share the flag byte without overlap.
\<close>

lemma seq_event_layout:
  "csize dm struct_snd_seq_event = 28 \<and>
   coffset dm struct_snd_seq_event ''data'' = Some 16 \<and>
   list_all (\<lambda>t. csize dm t \<le> csize dm struct_snd_seq_ev_raw32)
     [struct_snd_seq_ev_note, struct_snd_seq_ev_ctrl, struct_snd_seq_ev_raw8,
      struct_snd_seq_ev_ext, struct_snd_seq_ev_queue_control, struct_snd_seq_timestamp,
      struct_snd_seq_addr, struct_snd_seq_connect, struct_snd_seq_result,
      struct_snd_seq_ev_quote] \<and>
   sorted_wrt (<) seq_event_types \<and> list_all (\<lambda>n. n < 256) seq_event_types \<and>
   disjoint_masks seq_mode_masks"
proof (intro conjI)
  show "disjoint_masks seq_mode_masks"
    by (rule seq_mode_masks_disjoint)
  show "sorted_wrt (<) seq_event_types" and "list_all (\<lambda>n. n < 256) seq_event_types"
    by code_simp+
qed (cases dm; hypsubst; code_simp)+

end
