(* ===== verification/Sound_Cards.thy ===== *)
theory Sound_Cards
  imports Asound
begin

text \<open>
  Sound cards with a hardware dependent device of their own, each header of
  \<^verbatim>\<open>src/include/sound\<close> in one section: the EMU10K1 effects processor, RME HDSP and HDSPM, FireWire
  units, OPL synthesizers, the SoundBlaster signal processor, USB streams and the EMU8000
  wavetable.
\<close>

unbundle bit_operations_syntax

section \<open>\<^verbatim>\<open>src/include/sound/emu10k1.h\<close>\<close>

subsection \<open>The effects processor\<close>

text \<open>Instruction codes.\<close>

definition fx8010_instructions_table :: "(string \<times> nat) list" where
  "fx8010_instructions_table =
    [(''iMAC0'', 0x00), (''iMAC1'', 0x01), (''iMAC2'', 0x02), (''iMAC3'', 0x03), (''iMACINT0'',
     0x04), (''iMACINT1'', 0x05), (''iACC3'', 0x06), (''iMACMV'', 0x07), (''iANDXOR'', 0x08),
     (''iTSTNEG'', 0x09), (''iLIMITGE'', 0x0a), (''iLIMITLT'', 0x0b), (''iLOG'', 0x0c), (''iEXP'',
     0x0d), (''iINTERP'', 0x0e), (''iSKIP'', 0x0f)]"

definition fx8010_instructions :: "nat list" where
  "fx8010_instructions = map snd fx8010_instructions_table"

text \<open>
  Registers. The bases of the general purpose registers and of the tank memory are declared by the
  driver and are parameters here.
\<close>

definition FXBUS :: "nat \<Rightarrow> nat" where "FXBUS x = 0x00 + x"
definition EXTIN :: "nat \<Rightarrow> nat" where "EXTIN x = 0x10 + x"
definition EXTOUT :: "nat \<Rightarrow> nat" where "EXTOUT x = 0x20 + x"
definition FXBUS2 :: "nat \<Rightarrow> nat" where "FXBUS2 x = 0x30 + x"
definition A_FXBUS :: "nat \<Rightarrow> nat" where "A_FXBUS x = 0x00 + x"
definition A_EXTIN :: "nat \<Rightarrow> nat" where "A_EXTIN x = 0x40 + x"
definition A_P16VIN :: "nat \<Rightarrow> nat" where "A_P16VIN x = 0x50 + x"
definition A_EXTOUT :: "nat \<Rightarrow> nat" where "A_EXTOUT x = 0x60 + x"
definition A_FXBUS2 :: "nat \<Rightarrow> nat" where "A_FXBUS2 x = 0x80 + x"
definition A_EMU32OUTH :: "nat \<Rightarrow> nat" where "A_EMU32OUTH x = 0xa0 + x"
definition A_EMU32OUTL :: "nat \<Rightarrow> nat" where "A_EMU32OUTL x = 0xb0 + x"
definition A3_EMU32IN :: "nat \<Rightarrow> nat" where "A3_EMU32IN x = 0x160 + x"
definition A3_EMU32OUT :: "nat \<Rightarrow> nat" where "A3_EMU32OUT x = 0x1E0 + x"
definition GPR :: "nat \<Rightarrow> nat \<Rightarrow> nat" where "GPR FXGPREGBASE x = FXGPREGBASE + x"
definition ITRAM_DATA :: "nat \<Rightarrow> nat \<Rightarrow> nat" where "ITRAM_DATA TANKMEMDATAREGBASE x = TANKMEMDATAREGBASE + 0x00 + x"
definition ETRAM_DATA :: "nat \<Rightarrow> nat \<Rightarrow> nat" where "ETRAM_DATA TANKMEMDATAREGBASE x = TANKMEMDATAREGBASE + 0x80 + x"
definition ITRAM_ADDR :: "nat \<Rightarrow> nat \<Rightarrow> nat" where "ITRAM_ADDR TANKMEMADDRREGBASE x = TANKMEMADDRREGBASE + 0x00 + x"
definition ETRAM_ADDR :: "nat \<Rightarrow> nat \<Rightarrow> nat" where "ETRAM_ADDR TANKMEMADDRREGBASE x = TANKMEMADDRREGBASE + 0x80 + x"
definition A_ITRAM_DATA :: "nat \<Rightarrow> nat \<Rightarrow> nat" where "A_ITRAM_DATA TANKMEMDATAREGBASE x = TANKMEMDATAREGBASE + 0x00 + x"
definition A_ETRAM_DATA :: "nat \<Rightarrow> nat \<Rightarrow> nat" where "A_ETRAM_DATA TANKMEMDATAREGBASE x = TANKMEMDATAREGBASE + 0xc0 + x"
definition A_ITRAM_ADDR :: "nat \<Rightarrow> nat \<Rightarrow> nat" where "A_ITRAM_ADDR TANKMEMADDRREGBASE x = TANKMEMADDRREGBASE + 0x00 + x"
definition A_ETRAM_ADDR :: "nat \<Rightarrow> nat \<Rightarrow> nat" where "A_ETRAM_ADDR TANKMEMADDRREGBASE x = TANKMEMADDRREGBASE + 0xc0 + x"
definition A_ITRAM_CTL :: "nat \<Rightarrow> nat \<Rightarrow> nat" where "A_ITRAM_CTL A_TANKMEMCTLREGBASE x = A_TANKMEMCTLREGBASE + 0x00 + x"
definition A_ETRAM_CTL :: "nat \<Rightarrow> nat \<Rightarrow> nat" where "A_ETRAM_CTL A_TANKMEMCTLREGBASE x = A_TANKMEMCTLREGBASE + 0xc0 + x"
definition A_GPR :: "nat \<Rightarrow> nat \<Rightarrow> nat" where "A_GPR A_FXGPREGBASE x = A_FXGPREGBASE + x"

definition A_GPR_DBACE :: nat where "A_GPR_DBACE = 0xde"

text \<open>
  The register blocks with the number of registers the comments give them, in the order of their
  addresses, and the constant registers that follow.
\<close>

definition live_blocks :: "((nat \<Rightarrow> nat) \<times> nat) list" where
  "live_blocks =
    [(FXBUS, 0x10), (EXTIN, 0x10), (EXTOUT, 0x10), (FXBUS2, 0x10)]"

definition live_constants_table :: "(string \<times> nat) list" where
  "live_constants_table =
    [(''C_00000000'', 0x40), (''C_00000001'', 0x41), (''C_00000002'', 0x42), (''C_00000003'',
     0x43), (''C_00000004'', 0x44), (''C_00000008'', 0x45), (''C_00000010'', 0x46),
     (''C_00000020'', 0x47), (''C_00000100'', 0x48), (''C_00010000'', 0x49), (''C_00080000'',
     0x4a), (''C_10000000'', 0x4b), (''C_20000000'', 0x4c), (''C_40000000'', 0x4d),
     (''C_80000000'', 0x4e), (''C_7fffffff'', 0x4f), (''C_ffffffff'', 0x50), (''C_fffffffe'',
     0x51), (''C_c0000000'', 0x52), (''C_4f1bbcdc'', 0x53), (''C_5a7ef9db'', 0x54),
     (''C_00100000'', 0x55), (''GPR_ACCU'', 0x56), (''GPR_COND'', 0x57), (''GPR_NOISE0'', 0x58),
     (''GPR_NOISE1'', 0x59), (''GPR_IRQ'', 0x5a), (''GPR_DBAC'', 0x5b)]"

definition live_constants :: "nat list" where
  "live_constants = map snd live_constants_table"

definition audigy_blocks :: "((nat \<Rightarrow> nat) \<times> nat) list" where
  "audigy_blocks =
    [(A_FXBUS, 0x40), (A_EXTIN, 0x10), (A_P16VIN, 0x10), (A_EXTOUT, 0x20), (A_FXBUS2, 0x20),
    (A_EMU32OUTH, 0x10), (A_EMU32OUTL, 0x10)]"

definition audigy_constants_table :: "(string \<times> nat) list" where
  "audigy_constants_table =
    [(''A_C_00000000'', 0xc0), (''A_C_00000001'', 0xc1), (''A_C_00000002'', 0xc2),
     (''A_C_00000003'', 0xc3), (''A_C_00000004'', 0xc4), (''A_C_00000008'', 0xc5),
     (''A_C_00000010'', 0xc6), (''A_C_00000020'', 0xc7), (''A_C_00000100'', 0xc8),
     (''A_C_00010000'', 0xc9), (''A_C_00000800'', 0xca), (''A_C_10000000'', 0xcb),
     (''A_C_20000000'', 0xcc), (''A_C_40000000'', 0xcd), (''A_C_80000000'', 0xce),
     (''A_C_7fffffff'', 0xcf), (''A_C_ffffffff'', 0xd0), (''A_C_fffffffe'', 0xd1),
     (''A_C_c0000000'', 0xd2), (''A_C_4f1bbcdc'', 0xd3), (''A_C_5a7ef9db'', 0xd4),
     (''A_C_00100000'', 0xd5), (''A_GPR_ACCU'', 0xd6), (''A_GPR_COND'', 0xd7), (''A_GPR_NOISE0'',
     0xd8), (''A_GPR_NOISE1'', 0xd9), (''A_GPR_IRQ'', 0xda), (''A_GPR_DBAC'', 0xdb)]"

definition audigy_constants :: "nat list" where
  "audigy_constants = map snd audigy_constants_table"

definition block_registers :: "((nat \<Rightarrow> nat) \<times> nat) list \<Rightarrow> nat list" where
  "block_registers bs = concat (map (\<lambda>(f, n). map f [0..<n]) bs)"

text \<open>Channels of the blocks.\<close>

definition fxbus_channels_table :: "(string \<times> nat) list" where
  "fxbus_channels_table =
    [(''FXBUS_PCM_LEFT'', 0x00), (''FXBUS_PCM_RIGHT'', 0x01), (''FXBUS_PCM_LEFT_REAR'', 0x02),
     (''FXBUS_PCM_RIGHT_REAR'', 0x03), (''FXBUS_MIDI_LEFT'', 0x04), (''FXBUS_MIDI_RIGHT'', 0x05),
     (''FXBUS_PCM_CENTER'', 0x06), (''FXBUS_PCM_LFE'', 0x07), (''FXBUS_PCM_LEFT_FRONT'', 0x08),
     (''FXBUS_PCM_RIGHT_FRONT'', 0x09), (''FXBUS_MIDI_REVERB'', 0x0c), (''FXBUS_MIDI_CHORUS'',
     0x0d), (''FXBUS_PCM_LEFT_SIDE'', 0x0e), (''FXBUS_PCM_RIGHT_SIDE'', 0x0f), (''FXBUS_PT_LEFT'',
     0x14), (''FXBUS_PT_RIGHT'', 0x15)]"

definition fxbus_channels :: "nat list" where
  "fxbus_channels = map snd fxbus_channels_table"

definition extin_channels_table :: "(string \<times> nat) list" where
  "extin_channels_table =
    [(''EXTIN_AC97_L'', 0x00), (''EXTIN_AC97_R'', 0x01), (''EXTIN_SPDIF_CD_L'', 0x02),
     (''EXTIN_SPDIF_CD_R'', 0x03), (''EXTIN_ZOOM_L'', 0x04), (''EXTIN_ZOOM_R'', 0x05),
     (''EXTIN_TOSLINK_L'', 0x06), (''EXTIN_TOSLINK_R'', 0x07), (''EXTIN_LINE1_L'', 0x08),
     (''EXTIN_LINE1_R'', 0x09), (''EXTIN_COAX_SPDIF_L'', 0x0a), (''EXTIN_COAX_SPDIF_R'', 0x0b),
     (''EXTIN_LINE2_L'', 0x0c), (''EXTIN_LINE2_R'', 0x0d)]"

definition extin_channels :: "nat list" where
  "extin_channels = map snd extin_channels_table"

definition extout_channels_table :: "(string \<times> nat) list" where
  "extout_channels_table =
    [(''EXTOUT_AC97_L'', 0x00), (''EXTOUT_AC97_R'', 0x01), (''EXTOUT_TOSLINK_L'', 0x02),
     (''EXTOUT_TOSLINK_R'', 0x03), (''EXTOUT_AC97_CENTER'', 0x04), (''EXTOUT_AC97_LFE'', 0x05),
     (''EXTOUT_HEADPHONE_L'', 0x06), (''EXTOUT_HEADPHONE_R'', 0x07), (''EXTOUT_REAR_L'', 0x08),
     (''EXTOUT_REAR_R'', 0x09), (''EXTOUT_ADC_CAP_L'', 0x0a), (''EXTOUT_ADC_CAP_R'', 0x0b),
     (''EXTOUT_MIC_CAP'', 0x0c), (''EXTOUT_AC97_REAR_L'', 0x0d), (''EXTOUT_AC97_REAR_R'', 0x0e),
     (''EXTOUT_ACENTER'', 0x11), (''EXTOUT_ALFE'', 0x12)]"

definition extout_channels :: "nat list" where
  "extout_channels = map snd extout_channels_table"

definition a_extin_channels_table :: "(string \<times> nat) list" where
  "a_extin_channels_table =
    [(''A_EXTIN_AC97_L'', 0x00), (''A_EXTIN_AC97_R'', 0x01), (''A_EXTIN_SPDIF_CD_L'', 0x02),
     (''A_EXTIN_SPDIF_CD_R'', 0x03), (''A_EXTIN_OPT_SPDIF_L'', 0x04), (''A_EXTIN_OPT_SPDIF_R'',
     0x05), (''A_EXTIN_LINE2_L'', 0x08), (''A_EXTIN_LINE2_R'', 0x09), (''A_EXTIN_ADC_L'', 0x0a),
     (''A_EXTIN_ADC_R'', 0x0b), (''A_EXTIN_AUX2_L'', 0x0c), (''A_EXTIN_AUX2_R'', 0x0d)]"

definition a_extin_channels :: "nat list" where
  "a_extin_channels = map snd a_extin_channels_table"

definition a_extout_channels_table :: "(string \<times> nat) list" where
  "a_extout_channels_table =
    [(''A_EXTOUT_FRONT_L'', 0x00), (''A_EXTOUT_FRONT_R'', 0x01), (''A_EXTOUT_CENTER'', 0x02),
     (''A_EXTOUT_LFE'', 0x03), (''A_EXTOUT_HEADPHONE_L'', 0x04), (''A_EXTOUT_HEADPHONE_R'', 0x05),
     (''A_EXTOUT_REAR_L'', 0x06), (''A_EXTOUT_REAR_R'', 0x07), (''A_EXTOUT_AFRONT_L'', 0x08),
     (''A_EXTOUT_AFRONT_R'', 0x09), (''A_EXTOUT_ACENTER'', 0x0a), (''A_EXTOUT_ALFE'', 0x0b),
     (''A_EXTOUT_ASIDE_L'', 0x0c), (''A_EXTOUT_ASIDE_R'', 0x0d), (''A_EXTOUT_AREAR_L'', 0x0e),
     (''A_EXTOUT_AREAR_R'', 0x0f), (''A_EXTOUT_AC97_L'', 0x10), (''A_EXTOUT_AC97_R'', 0x11),
     (''A_EXTOUT_ADC_CAP_L'', 0x16), (''A_EXTOUT_ADC_CAP_R'', 0x17), (''A_EXTOUT_MIC_CAP'', 0x18)]"

definition a_extout_channels :: "nat list" where
  "a_extout_channels = map snd a_extout_channels_table"

definition live_channels :: "(nat list \<times> nat list) list" where
  "live_channels =
    [(fxbus_channels, [0..<0x20]), (extin_channels, [0..<0x10]), (extout_channels, [0..<0x20])]"

definition audigy_channels :: "(nat list \<times> nat list) list" where
  "audigy_channels = [(a_extin_channels, [0..<0x10]), (a_extout_channels, [0..<0x20])]"

text \<open>Debug register and tank memory address line.\<close>

definition fx8010_debug_fields_table :: "(string \<times> u32) list" where
  "fx8010_debug_fields_table =
    [(''EMU10K1_DBG_ZC'', 0x80000000), (''EMU10K1_DBG_SATURATION_OCCURED'', 0x02000000),
     (''EMU10K1_DBG_SATURATION_ADDR'', 0x01ff0000), (''EMU10K1_DBG_SINGLE_STEP'', 0x00008000),
     (''EMU10K1_DBG_STEP'', 0x00004000), (''EMU10K1_DBG_CONDITION_CODE'', 0x00003e00),
     (''EMU10K1_DBG_SINGLE_STEP_ADDR'', 0x000001ff)]"

definition fx8010_debug_fields :: "u32 list" where
  "fx8010_debug_fields = map snd fx8010_debug_fields_table"

definition tank_address_fields_table :: "(string \<times> u32) list" where
  "tank_address_fields_table =
    [(''TANKMEMADDRREG_ADDR_MASK'', 0x000fffff), (''TANKMEMADDRREG_CLEAR'', 0x00800000),
     (''TANKMEMADDRREG_ALIGN'', 0x00400000), (''TANKMEMADDRREG_WRITE'', 0x00200000),
     (''TANKMEMADDRREG_READ'', 0x00100000)]"

definition tank_address_fields :: "u32 list" where
  "tank_address_fields = map snd tank_address_fields_table"

definition emu10k1_numbers :: "(string \<times> nat) list" where
  "emu10k1_numbers =
    [(''EMU10K1_CARD_CREATIVE'', 0x00000000), (''EMU10K1_CARD_EMUAPS'', 0x00000001),
     (''EMU10K1_FX8010_PCM_COUNT'', 8)]"

definition emu10k1_gpr_translation_numbers :: "(string \<times> nat) list" where
  "emu10k1_gpr_translation_numbers =
    [(''EMU10K1_GPR_TRANSLATION_NONE'', 0), (''EMU10K1_GPR_TRANSLATION_TABLE100'', 1),
     (''EMU10K1_GPR_TRANSLATION_BASS'', 2), (''EMU10K1_GPR_TRANSLATION_TREBLE'', 3),
     (''EMU10K1_GPR_TRANSLATION_ONOFF'', 4)]"

datatype emu10k1_ctl_elem_iface =
    EMU10K1_CTL_ELEM_IFACE_MIXER | EMU10K1_CTL_ELEM_IFACE_PCM

fun emu10k1_ctl_elem_iface_code :: "emu10k1_ctl_elem_iface \<Rightarrow> u32" where
  "emu10k1_ctl_elem_iface_code EMU10K1_CTL_ELEM_IFACE_MIXER = 2"
| "emu10k1_ctl_elem_iface_code EMU10K1_CTL_ELEM_IFACE_PCM = 3"

subsection \<open>Structs and requests\<close>

definition struct_snd_emu10k1_fx8010_info :: ctype where
  "struct_snd_emu10k1_fx8010_info = Struct False [
    (''internal_tram_size'', Scalar C_uint), (''external_tram_size'', Scalar C_uint),
    (''fxbus_names'', Array (Array (Scalar C_char) 32) 16),
    (''extin_names'', Array (Array (Scalar C_char) 32) 16),
    (''extout_names'', Array (Array (Scalar C_char) 32) 32), (''gpr_controls'', Scalar C_uint)]"

definition struct_emu10k1_ctl_elem_id :: ctype where
  "struct_emu10k1_ctl_elem_id = Struct False [
    (''pad'', Scalar C_uint), (''iface'', Scalar C_int), (''device'', Scalar C_uint),
    (''subdevice'', Scalar C_uint), (''name'', Array (Scalar C_u8) 44), (''index'', Scalar C_uint)]"

definition struct_snd_emu10k1_fx8010_control_gpr :: ctype where
  "struct_snd_emu10k1_fx8010_control_gpr = Struct False [
    (''id'', struct_emu10k1_ctl_elem_id), (''vcount'', Scalar C_uint), (''count'', Scalar C_uint),
    (''gpr'', Array (Scalar C_ushort) 32), (''value'', Array (Scalar C_uint) 32),
    (''min'', Scalar C_uint), (''max'', Scalar C_uint), (''translation'', Scalar C_uint),
    (''tlv'', Scalar C_ptr)]"

definition struct_snd_emu10k1_fx8010_control_old_gpr :: ctype where
  "struct_snd_emu10k1_fx8010_control_old_gpr = Struct False [
    (''id'', struct_emu10k1_ctl_elem_id), (''vcount'', Scalar C_uint), (''count'', Scalar C_uint),
    (''gpr'', Array (Scalar C_ushort) 32), (''value'', Array (Scalar C_uint) 32),
    (''min'', Scalar C_uint), (''max'', Scalar C_uint), (''translation'', Scalar C_uint)]"

definition struct_snd_emu10k1_fx8010_tram :: ctype where
  "struct_snd_emu10k1_fx8010_tram = Struct False [
    (''address'', Scalar C_uint), (''size'', Scalar C_uint), (''samples'', Scalar C_ptr)]"

definition struct_snd_emu10k1_fx8010_pcm_rec :: ctype where
  "struct_snd_emu10k1_fx8010_pcm_rec = Struct False [
    (''substream'', Scalar C_uint), (''res1'', Scalar C_uint), (''channels'', Scalar C_uint),
    (''tram_start'', Scalar C_uint), (''buffer_size'', Scalar C_uint),
    (''gpr_size'', Scalar C_ushort), (''gpr_ptr'', Scalar C_ushort),
    (''gpr_count'', Scalar C_ushort), (''gpr_tmpcount'', Scalar C_ushort),
    (''gpr_trigger'', Scalar C_ushort), (''gpr_running'', Scalar C_ushort), (''pad'', Scalar C_u8),
    (''etram'', Array (Scalar C_u8) 32), (''res2'', Scalar C_uint)]"

definition EMU10K1_DECLARE_BITMAP :: "data_model \<Rightarrow> nat \<Rightarrow> ctype" where
  "EMU10K1_DECLARE_BITMAP dm bits = Array (Scalar C_ulong) (bits div (scalar_size dm C_ulong * 8))"

definition struct_snd_emu10k1_fx8010_code :: "data_model \<Rightarrow> ctype" where
  "struct_snd_emu10k1_fx8010_code dm = Struct False [
    (''name'', Array (Scalar C_char) 128),
    (''gpr_valid'', EMU10K1_DECLARE_BITMAP dm 0x200), (''gpr_map'', Scalar C_ptr),
    (''gpr_add_control_count'', Scalar C_uint), (''gpr_add_controls'', Scalar C_ptr),
    (''gpr_del_control_count'', Scalar C_uint), (''gpr_del_controls'', Scalar C_ptr),
    (''gpr_list_control_count'', Scalar C_uint), (''gpr_list_control_total'', Scalar C_uint),
    (''gpr_list_controls'', Scalar C_ptr),
    (''tram_valid'', EMU10K1_DECLARE_BITMAP dm 0x100), (''tram_data_map'', Scalar C_ptr),
    (''tram_addr_map'', Scalar C_ptr),
    (''code_valid'', EMU10K1_DECLARE_BITMAP dm 1024), (''code'', Scalar C_ptr)]"

definition SNDRV_EMU10K1_IOCTL_INFO :: ioctl where
  "SNDRV_EMU10K1_IOCTL_INFO = IOR ''SNDRV_EMU10K1_IOCTL_INFO'' 0x48 0x10 struct_snd_emu10k1_fx8010_info"

definition SNDRV_EMU10K1_IOCTL_CODE_POKE :: "data_model \<Rightarrow> ioctl" where
  "SNDRV_EMU10K1_IOCTL_CODE_POKE dm = IOW ''SNDRV_EMU10K1_IOCTL_CODE_POKE'' 0x48 0x11 (struct_snd_emu10k1_fx8010_code dm)"

definition SNDRV_EMU10K1_IOCTL_CODE_PEEK :: "data_model \<Rightarrow> ioctl" where
  "SNDRV_EMU10K1_IOCTL_CODE_PEEK dm = IOWR ''SNDRV_EMU10K1_IOCTL_CODE_PEEK'' 0x48 0x12 (struct_snd_emu10k1_fx8010_code dm)"

definition SNDRV_EMU10K1_IOCTL_TRAM_SETUP :: ioctl where
  "SNDRV_EMU10K1_IOCTL_TRAM_SETUP = IOW ''SNDRV_EMU10K1_IOCTL_TRAM_SETUP'' 0x48 0x20 (Scalar C_int)"

definition SNDRV_EMU10K1_IOCTL_TRAM_POKE :: ioctl where
  "SNDRV_EMU10K1_IOCTL_TRAM_POKE = IOW ''SNDRV_EMU10K1_IOCTL_TRAM_POKE'' 0x48 0x21 struct_snd_emu10k1_fx8010_tram"

definition SNDRV_EMU10K1_IOCTL_TRAM_PEEK :: ioctl where
  "SNDRV_EMU10K1_IOCTL_TRAM_PEEK = IOWR ''SNDRV_EMU10K1_IOCTL_TRAM_PEEK'' 0x48 0x22 struct_snd_emu10k1_fx8010_tram"

definition SNDRV_EMU10K1_IOCTL_PCM_POKE :: ioctl where
  "SNDRV_EMU10K1_IOCTL_PCM_POKE = IOW ''SNDRV_EMU10K1_IOCTL_PCM_POKE'' 0x48 0x30 struct_snd_emu10k1_fx8010_pcm_rec"

definition SNDRV_EMU10K1_IOCTL_PCM_PEEK :: ioctl where
  "SNDRV_EMU10K1_IOCTL_PCM_PEEK = IOWR ''SNDRV_EMU10K1_IOCTL_PCM_PEEK'' 0x48 0x31 struct_snd_emu10k1_fx8010_pcm_rec"

definition SNDRV_EMU10K1_IOCTL_PVERSION :: ioctl where
  "SNDRV_EMU10K1_IOCTL_PVERSION = IOR ''SNDRV_EMU10K1_IOCTL_PVERSION'' 0x48 0x40 (Scalar C_int)"

definition SNDRV_EMU10K1_IOCTL_STOP :: ioctl where
  "SNDRV_EMU10K1_IOCTL_STOP = IO ''SNDRV_EMU10K1_IOCTL_STOP'' 0x48 0x80"

definition SNDRV_EMU10K1_IOCTL_CONTINUE :: ioctl where
  "SNDRV_EMU10K1_IOCTL_CONTINUE = IO ''SNDRV_EMU10K1_IOCTL_CONTINUE'' 0x48 0x81"

definition SNDRV_EMU10K1_IOCTL_ZERO_TRAM_COUNTER :: ioctl where
  "SNDRV_EMU10K1_IOCTL_ZERO_TRAM_COUNTER = IO ''SNDRV_EMU10K1_IOCTL_ZERO_TRAM_COUNTER'' 0x48 0x82"

definition SNDRV_EMU10K1_IOCTL_SINGLE_STEP :: ioctl where
  "SNDRV_EMU10K1_IOCTL_SINGLE_STEP = IOW ''SNDRV_EMU10K1_IOCTL_SINGLE_STEP'' 0x48 0x83 (Scalar C_int)"

definition SNDRV_EMU10K1_IOCTL_DBG_READ :: ioctl where
  "SNDRV_EMU10K1_IOCTL_DBG_READ = IOR ''SNDRV_EMU10K1_IOCTL_DBG_READ'' 0x48 0x84 (Scalar C_int)"

definition emu10k1_ioctls :: "data_model \<Rightarrow> ioctl list" where
  "emu10k1_ioctls dm =
    [SNDRV_EMU10K1_IOCTL_INFO, SNDRV_EMU10K1_IOCTL_CODE_POKE dm, SNDRV_EMU10K1_IOCTL_CODE_PEEK dm,
    SNDRV_EMU10K1_IOCTL_TRAM_SETUP, SNDRV_EMU10K1_IOCTL_TRAM_POKE, SNDRV_EMU10K1_IOCTL_TRAM_PEEK,
    SNDRV_EMU10K1_IOCTL_PCM_POKE, SNDRV_EMU10K1_IOCTL_PCM_PEEK, SNDRV_EMU10K1_IOCTL_PVERSION,
    SNDRV_EMU10K1_IOCTL_STOP, SNDRV_EMU10K1_IOCTL_CONTINUE, SNDRV_EMU10K1_IOCTL_ZERO_TRAM_COUNTER,
    SNDRV_EMU10K1_IOCTL_SINGLE_STEP, SNDRV_EMU10K1_IOCTL_DBG_READ]"

section \<open>\<^verbatim>\<open>src/include/sound/hdsp.h\<close>\<close>

definition HDSP_MATRIX_MIXER_SIZE :: nat where "HDSP_MATRIX_MIXER_SIZE = 2048"

datatype HDSP_IO_Type =
    Digiface | Multiface | H9652 | H9632 | RPM | Undefined

fun HDSP_IO_Type_code :: "HDSP_IO_Type \<Rightarrow> u32" where
  "HDSP_IO_Type_code Digiface = 0"
| "HDSP_IO_Type_code Multiface = 1"
| "HDSP_IO_Type_code H9652 = 2"
| "HDSP_IO_Type_code H9632 = 3"
| "HDSP_IO_Type_code RPM = 4"
| "HDSP_IO_Type_code Undefined = 5"

definition struct_hdsp_peak_rms :: ctype where
  "struct_hdsp_peak_rms = Struct False [
    (''input_peaks'', Array (Scalar C_u32) 26), (''playback_peaks'', Array (Scalar C_u32) 26),
    (''output_peaks'', Array (Scalar C_u32) 28), (''input_rms'', Array (Scalar C_u64) 26),
    (''playback_rms'', Array (Scalar C_u64) 26), (''output_rms'', Array (Scalar C_u64) 26)]"

definition struct_hdsp_config_info :: ctype where
  "struct_hdsp_config_info = Struct False [
    (''pref_sync_ref'', Scalar C_u8), (''wordclock_sync_check'', Scalar C_u8),
    (''spdif_sync_check'', Scalar C_u8), (''adatsync_sync_check'', Scalar C_u8),
    (''adat_sync_check'', Array (Scalar C_u8) 3), (''spdif_in'', Scalar C_u8),
    (''spdif_out'', Scalar C_u8), (''spdif_professional'', Scalar C_u8),
    (''spdif_emphasis'', Scalar C_u8), (''spdif_nonaudio'', Scalar C_u8),
    (''spdif_sample_rate'', Scalar C_uint), (''system_sample_rate'', Scalar C_uint),
    (''autosync_sample_rate'', Scalar C_uint), (''system_clock_mode'', Scalar C_u8),
    (''clock_source'', Scalar C_u8), (''autosync_ref'', Scalar C_u8), (''line_out'', Scalar C_u8),
    (''passthru'', Scalar C_u8), (''da_gain'', Scalar C_u8), (''ad_gain'', Scalar C_u8),
    (''phone_gain'', Scalar C_u8), (''xlr_breakout_cable'', Scalar C_u8),
    (''analog_extension_board'', Scalar C_u8)]"

definition struct_hdsp_firmware :: ctype where
  "struct_hdsp_firmware = Struct False [
    (''firmware_data'', Scalar C_ptr)]"

definition struct_hdsp_version :: ctype where
  "struct_hdsp_version = Struct False [
    (''io_type'', Scalar C_enum), (''firmware_rev'', Scalar C_ushort)]"

definition struct_hdsp_mixer :: ctype where
  "struct_hdsp_mixer = Struct False [
    (''matrix'', Array (Scalar C_ushort) 2048)]"

definition struct_hdsp_9632_aeb :: ctype where
  "struct_hdsp_9632_aeb = Struct False [
    (''aebi'', Scalar C_int), (''aebo'', Scalar C_int)]"

definition SNDRV_HDSP_IOCTL_GET_PEAK_RMS :: ioctl where
  "SNDRV_HDSP_IOCTL_GET_PEAK_RMS = IOR ''SNDRV_HDSP_IOCTL_GET_PEAK_RMS'' 0x48 0x40 struct_hdsp_peak_rms"

definition SNDRV_HDSP_IOCTL_GET_CONFIG_INFO :: ioctl where
  "SNDRV_HDSP_IOCTL_GET_CONFIG_INFO = IOR ''SNDRV_HDSP_IOCTL_GET_CONFIG_INFO'' 0x48 0x41 struct_hdsp_config_info"

definition SNDRV_HDSP_IOCTL_UPLOAD_FIRMWARE :: ioctl where
  "SNDRV_HDSP_IOCTL_UPLOAD_FIRMWARE = IOW ''SNDRV_HDSP_IOCTL_UPLOAD_FIRMWARE'' 0x48 0x42 struct_hdsp_firmware"

definition SNDRV_HDSP_IOCTL_GET_VERSION :: ioctl where
  "SNDRV_HDSP_IOCTL_GET_VERSION = IOR ''SNDRV_HDSP_IOCTL_GET_VERSION'' 0x48 0x43 struct_hdsp_version"

definition SNDRV_HDSP_IOCTL_GET_MIXER :: ioctl where
  "SNDRV_HDSP_IOCTL_GET_MIXER = IOR ''SNDRV_HDSP_IOCTL_GET_MIXER'' 0x48 0x44 struct_hdsp_mixer"

definition SNDRV_HDSP_IOCTL_GET_9632_AEB :: ioctl where
  "SNDRV_HDSP_IOCTL_GET_9632_AEB = IOR ''SNDRV_HDSP_IOCTL_GET_9632_AEB'' 0x48 0x45 struct_hdsp_9632_aeb"

definition hdsp_ioctls :: "ioctl list" where
  "hdsp_ioctls =
    [SNDRV_HDSP_IOCTL_GET_PEAK_RMS, SNDRV_HDSP_IOCTL_GET_CONFIG_INFO,
    SNDRV_HDSP_IOCTL_UPLOAD_FIRMWARE, SNDRV_HDSP_IOCTL_GET_VERSION, SNDRV_HDSP_IOCTL_GET_MIXER,
    SNDRV_HDSP_IOCTL_GET_9632_AEB]"

section \<open>\<^verbatim>\<open>src/include/sound/hdspm.h\<close>\<close>

definition HDSPM_MAX_CHANNELS :: nat where "HDSPM_MAX_CHANNELS = 64"
definition HDSPM_ADDON_TCO :: nat where "HDSPM_ADDON_TCO = 1"
definition HDSPM_MIXER_CHANNELS :: nat where "HDSPM_MIXER_CHANNELS = 64"

datatype hdspm_io_type =
    MADI | MADIface | AIO | AES32 | RayDAT

fun hdspm_io_type_code :: "hdspm_io_type \<Rightarrow> u32" where
  "hdspm_io_type_code MADI = 0"
| "hdspm_io_type_code MADIface = 1"
| "hdspm_io_type_code AIO = 2"
| "hdspm_io_type_code AES32 = 3"
| "hdspm_io_type_code RayDAT = 4"

datatype hdspm_speed =
    ss | ds | qs

fun hdspm_speed_code :: "hdspm_speed \<Rightarrow> u32" where
  "hdspm_speed_code ss = 0"
| "hdspm_speed_code ds = 1"
| "hdspm_speed_code qs = 2"

datatype hdspm_ltc_format =
    format_invalid | fps_24 | fps_25 | fps_2997 | fps_30

fun hdspm_ltc_format_code :: "hdspm_ltc_format \<Rightarrow> u32" where
  "hdspm_ltc_format_code format_invalid = 0"
| "hdspm_ltc_format_code fps_24 = 1"
| "hdspm_ltc_format_code fps_25 = 2"
| "hdspm_ltc_format_code fps_2997 = 3"
| "hdspm_ltc_format_code fps_30 = 4"

datatype hdspm_ltc_frame =
    frame_invalid | drop_frame | full_frame

fun hdspm_ltc_frame_code :: "hdspm_ltc_frame \<Rightarrow> u32" where
  "hdspm_ltc_frame_code frame_invalid = 0"
| "hdspm_ltc_frame_code drop_frame = 1"
| "hdspm_ltc_frame_code full_frame = 2"

datatype hdspm_ltc_input_format =
    ntsc | pal | no_video

fun hdspm_ltc_input_format_code :: "hdspm_ltc_input_format \<Rightarrow> u32" where
  "hdspm_ltc_input_format_code ntsc = 0"
| "hdspm_ltc_input_format_code pal = 1"
| "hdspm_ltc_input_format_code no_video = 2"

datatype hdspm_sync =
    hdspm_sync_no_lock | hdspm_sync_lock | hdspm_sync_sync

fun hdspm_sync_code :: "hdspm_sync \<Rightarrow> u32" where
  "hdspm_sync_code hdspm_sync_no_lock = 0"
| "hdspm_sync_code hdspm_sync_lock = 1"
| "hdspm_sync_code hdspm_sync_sync = 2"

datatype hdspm_madi_input =
    hdspm_input_optical | hdspm_input_coax

fun hdspm_madi_input_code :: "hdspm_madi_input \<Rightarrow> u32" where
  "hdspm_madi_input_code hdspm_input_optical = 0"
| "hdspm_madi_input_code hdspm_input_coax = 1"

datatype hdspm_madi_channel_format =
    hdspm_format_ch_64 | hdspm_format_ch_56

fun hdspm_madi_channel_format_code :: "hdspm_madi_channel_format \<Rightarrow> u32" where
  "hdspm_madi_channel_format_code hdspm_format_ch_64 = 0"
| "hdspm_madi_channel_format_code hdspm_format_ch_56 = 1"

datatype hdspm_madi_frame_format =
    hdspm_frame_48 | hdspm_frame_96

fun hdspm_madi_frame_format_code :: "hdspm_madi_frame_format \<Rightarrow> u32" where
  "hdspm_madi_frame_format_code hdspm_frame_48 = 0"
| "hdspm_madi_frame_format_code hdspm_frame_96 = 1"

datatype hdspm_syncsource =
    syncsource_wc | syncsource_madi | syncsource_tco | syncsource_sync | syncsource_none

fun hdspm_syncsource_code :: "hdspm_syncsource \<Rightarrow> u32" where
  "hdspm_syncsource_code syncsource_wc = 0"
| "hdspm_syncsource_code syncsource_madi = 1"
| "hdspm_syncsource_code syncsource_tco = 2"
| "hdspm_syncsource_code syncsource_sync = 3"
| "hdspm_syncsource_code syncsource_none = 4"

definition struct_hdspm_peak_rms :: ctype where
  "struct_hdspm_peak_rms = Struct False [
    (''input_peaks'', Array (Scalar C_u32) 64), (''playback_peaks'', Array (Scalar C_u32) 64),
    (''output_peaks'', Array (Scalar C_u32) 64), (''input_rms'', Array (Scalar C_u64) 64),
    (''playback_rms'', Array (Scalar C_u64) 64), (''output_rms'', Array (Scalar C_u64) 64),
    (''speed'', Scalar C_u8), (''status2'', Scalar C_int)]"

definition struct_hdspm_config :: ctype where
  "struct_hdspm_config = Struct False [
    (''pref_sync_ref'', Scalar C_u8), (''wordclock_sync_check'', Scalar C_u8),
    (''madi_sync_check'', Scalar C_u8), (''system_sample_rate'', Scalar C_uint),
    (''autosync_sample_rate'', Scalar C_uint), (''system_clock_mode'', Scalar C_u8),
    (''clock_source'', Scalar C_u8), (''autosync_ref'', Scalar C_u8), (''line_out'', Scalar C_u8),
    (''passthru'', Scalar C_uint), (''analog_out'', Scalar C_uint)]"

definition struct_hdspm_ltc :: ctype where
  "struct_hdspm_ltc = Struct False [
    (''ltc'', Scalar C_uint), (''format'', Scalar C_enum), (''frame'', Scalar C_enum),
    (''input_format'', Scalar C_enum)]"

definition struct_hdspm_status :: ctype where
  "struct_hdspm_status = Struct False [
    (''card_type'', Scalar C_u8), (''autosync_source'', Scalar C_enum),
    (''card_clock'', Scalar C_u64), (''master_period'', Scalar C_u32),
    (''card_specific'', Union [
      (''madi'', Struct False [
        (''sync_wc'', Scalar C_u8), (''sync_madi'', Scalar C_u8), (''sync_tco'', Scalar C_u8),
        (''sync_in'', Scalar C_u8), (''madi_input'', Scalar C_u8),
        (''channel_format'', Scalar C_u8), (''frame_format'', Scalar C_u8)])])]"

definition struct_hdspm_version :: ctype where
  "struct_hdspm_version = Struct False [
    (''card_type'', Scalar C_u8), (''cardname'', Array (Scalar C_char) 20),
    (''serial'', Scalar C_uint), (''firmware_rev'', Scalar C_ushort), (''addons'', Scalar C_int)]"

definition struct_hdspm_channelfader :: ctype where
  "struct_hdspm_channelfader = Struct False [
    (''in'', Array (Scalar C_uint) 64), (''pb'', Array (Scalar C_uint) 64)]"

definition struct_hdspm_mixer :: ctype where
  "struct_hdspm_mixer = Struct False [
    (''ch'', Array struct_hdspm_channelfader 64)]"

definition struct_hdspm_mixer_ioctl :: ctype where
  "struct_hdspm_mixer_ioctl = Struct False [
    (''mixer'', Scalar C_ptr)]"

definition SNDRV_HDSPM_IOCTL_GET_PEAK_RMS :: ioctl where
  "SNDRV_HDSPM_IOCTL_GET_PEAK_RMS = IOR ''SNDRV_HDSPM_IOCTL_GET_PEAK_RMS'' 0x48 0x42 struct_hdspm_peak_rms"

definition SNDRV_HDSPM_IOCTL_GET_CONFIG :: ioctl where
  "SNDRV_HDSPM_IOCTL_GET_CONFIG = IOR ''SNDRV_HDSPM_IOCTL_GET_CONFIG'' 0x48 0x41 struct_hdspm_config"

definition SNDRV_HDSPM_IOCTL_GET_LTC :: ioctl where
  "SNDRV_HDSPM_IOCTL_GET_LTC = IOR ''SNDRV_HDSPM_IOCTL_GET_LTC'' 0x48 0x46 struct_hdspm_ltc"

definition SNDRV_HDSPM_IOCTL_GET_STATUS :: ioctl where
  "SNDRV_HDSPM_IOCTL_GET_STATUS = IOR ''SNDRV_HDSPM_IOCTL_GET_STATUS'' 0x48 0x47 struct_hdspm_status"

definition SNDRV_HDSPM_IOCTL_GET_VERSION :: ioctl where
  "SNDRV_HDSPM_IOCTL_GET_VERSION = IOR ''SNDRV_HDSPM_IOCTL_GET_VERSION'' 0x48 0x48 struct_hdspm_version"

definition SNDRV_HDSPM_IOCTL_GET_MIXER :: ioctl where
  "SNDRV_HDSPM_IOCTL_GET_MIXER = IOR ''SNDRV_HDSPM_IOCTL_GET_MIXER'' 0x48 0x44 struct_hdspm_mixer_ioctl"

definition hdspm_ioctls :: "ioctl list" where
  "hdspm_ioctls =
    [SNDRV_HDSPM_IOCTL_GET_PEAK_RMS, SNDRV_HDSPM_IOCTL_GET_CONFIG, SNDRV_HDSPM_IOCTL_GET_LTC,
    SNDRV_HDSPM_IOCTL_GET_STATUS, SNDRV_HDSPM_IOCTL_GET_VERSION, SNDRV_HDSPM_IOCTL_GET_MIXER]"

section \<open>\<^verbatim>\<open>src/include/sound/firewire.h\<close>\<close>

definition sndrv_firewire_type_numbers :: "(string \<times> nat) list" where
  "sndrv_firewire_type_numbers =
    [(''SNDRV_FIREWIRE_TYPE_DICE'', 1), (''SNDRV_FIREWIRE_TYPE_FIREWORKS'', 2),
     (''SNDRV_FIREWIRE_TYPE_BEBOB'', 3), (''SNDRV_FIREWIRE_TYPE_OXFW'', 4),
     (''SNDRV_FIREWIRE_TYPE_DIGI00X'', 5), (''SNDRV_FIREWIRE_TYPE_TASCAM'', 6),
     (''SNDRV_FIREWIRE_TYPE_MOTU'', 7), (''SNDRV_FIREWIRE_TYPE_FIREFACE'', 8)]"

definition SNDRV_FIREWIRE_TASCAM_STATE_COUNT :: nat where "SNDRV_FIREWIRE_TASCAM_STATE_COUNT = 64"

definition struct_snd_firewire_event_common :: ctype where
  "struct_snd_firewire_event_common = Struct False [
    (''type'', Scalar C_uint)]"

definition struct_snd_firewire_event_lock_status :: ctype where
  "struct_snd_firewire_event_lock_status = Struct False [
    (''type'', Scalar C_uint), (''status'', Scalar C_uint)]"

definition struct_snd_firewire_event_dice_notification :: ctype where
  "struct_snd_firewire_event_dice_notification = Struct False [
    (''type'', Scalar C_uint), (''notification'', Scalar C_uint)]"

definition struct_snd_efw_transaction :: ctype where
  "struct_snd_efw_transaction = Struct False [
    (''length'', Scalar C_u32), (''version'', Scalar C_u32), (''seqnum'', Scalar C_u32),
    (''category'', Scalar C_u32), (''command'', Scalar C_u32), (''status'', Scalar C_u32),
    (''params'', Array (Scalar C_u32) 0)]"

definition struct_snd_firewire_event_efw_response :: ctype where
  "struct_snd_firewire_event_efw_response = Struct False [
    (''type'', Scalar C_uint), (''response'', Array (Scalar C_u32) 0)]"

definition struct_snd_firewire_event_digi00x_message :: ctype where
  "struct_snd_firewire_event_digi00x_message = Struct False [
    (''type'', Scalar C_uint), (''message'', Scalar C_u32)]"

definition struct_snd_firewire_event_motu_notification :: ctype where
  "struct_snd_firewire_event_motu_notification = Struct False [
    (''type'', Scalar C_uint), (''message'', Scalar C_u32)]"

definition struct_snd_firewire_tascam_change :: ctype where
  "struct_snd_firewire_tascam_change = Struct False [
    (''index'', Scalar C_uint), (''before'', Scalar C_u32), (''after'', Scalar C_u32)]"

definition struct_snd_firewire_event_tascam_control :: ctype where
  "struct_snd_firewire_event_tascam_control = Struct False [
    (''type'', Scalar C_uint), (''changes'', Array struct_snd_firewire_tascam_change 0)]"

definition struct_snd_firewire_event :: ctype where
  "struct_snd_firewire_event = Union [
    (''common'', struct_snd_firewire_event_common),
    (''lock_status'', struct_snd_firewire_event_lock_status),
    (''dice_notification'', struct_snd_firewire_event_dice_notification),
    (''efw_response'', struct_snd_firewire_event_efw_response),
    (''digi00x_message'', struct_snd_firewire_event_digi00x_message),
    (''tascam_control'', struct_snd_firewire_event_tascam_control),
    (''motu_notification'', struct_snd_firewire_event_motu_notification)]"

definition struct_snd_firewire_get_info :: ctype where
  "struct_snd_firewire_get_info = Struct False [
    (''type'', Scalar C_uint), (''card'', Scalar C_uint), (''guid'', Array (Scalar C_u8) 8),
    (''device_name'', Array (Scalar C_char) 16)]"

definition struct_snd_firewire_tascam_state :: ctype where
  "struct_snd_firewire_tascam_state = Struct False [
    (''data'', Array (Scalar C_u32) 64)]"

definition firewire_ioctls :: "ioctl list" where
  "firewire_ioctls =
    [IOR ''SNDRV_FIREWIRE_IOCTL_GET_INFO'' 0x48 0xf8 struct_snd_firewire_get_info,
     IO ''SNDRV_FIREWIRE_IOCTL_LOCK'' 0x48 0xf9,
     IO ''SNDRV_FIREWIRE_IOCTL_UNLOCK'' 0x48 0xfa,
     IOR ''SNDRV_FIREWIRE_IOCTL_TASCAM_STATE'' 0x48 0xfb struct_snd_firewire_tascam_state]"

definition firewire_events_table :: "(string \<times> u32) list" where
  "firewire_events_table =
    [(''SNDRV_FIREWIRE_EVENT_LOCK_STATUS'', 0x000010cc),
     (''SNDRV_FIREWIRE_EVENT_DICE_NOTIFICATION'', 0xd1ce004e),
     (''SNDRV_FIREWIRE_EVENT_EFW_RESPONSE'', 0x4e617475),
     (''SNDRV_FIREWIRE_EVENT_DIGI00X_MESSAGE'', 0x746e736c),
     (''SNDRV_FIREWIRE_EVENT_MOTU_NOTIFICATION'', 0x64776479),
     (''SNDRV_FIREWIRE_EVENT_TASCAM_CONTROL'', 0x7473636d)]"

definition firewire_events :: "u32 list" where
  "firewire_events = map snd firewire_events_table"

section \<open>\<^verbatim>\<open>src/include/sound/asound_fm.h\<close>\<close>

definition sndrv_dm_fm_mode_numbers :: "(string \<times> nat) list" where
  "sndrv_dm_fm_mode_numbers =
    [(''SNDRV_DM_FM_MODE_OPL2'', 0x00), (''SNDRV_DM_FM_MODE_OPL3'', 0x01)]"

definition sndrv_dm_fm_oss_ioctl_numbers :: "(string \<times> nat) list" where
  "sndrv_dm_fm_oss_ioctl_numbers =
    [(''SNDRV_DM_FM_OSS_IOCTL_RESET'', 0x20), (''SNDRV_DM_FM_OSS_IOCTL_PLAY_NOTE'', 0x21),
     (''SNDRV_DM_FM_OSS_IOCTL_SET_VOICE'', 0x22), (''SNDRV_DM_FM_OSS_IOCTL_SET_PARAMS'', 0x23),
     (''SNDRV_DM_FM_OSS_IOCTL_SET_MODE'', 0x24), (''SNDRV_DM_FM_OSS_IOCTL_SET_OPL'', 0x25)]"

definition struct_snd_dm_fm_info :: ctype where
  "struct_snd_dm_fm_info = Struct False [
    (''fm_mode'', Scalar C_u8), (''rhythm'', Scalar C_u8)]"

definition struct_snd_dm_fm_voice :: ctype where
  "struct_snd_dm_fm_voice = Struct False [
    (''op'', Scalar C_u8), (''voice'', Scalar C_u8), (''am'', Scalar C_u8),
    (''vibrato'', Scalar C_u8), (''do_sustain'', Scalar C_u8), (''kbd_scale'', Scalar C_u8),
    (''harmonic'', Scalar C_u8), (''scale_level'', Scalar C_u8), (''volume'', Scalar C_u8),
    (''attack'', Scalar C_u8), (''decay'', Scalar C_u8), (''sustain'', Scalar C_u8),
    (''release'', Scalar C_u8), (''feedback'', Scalar C_u8), (''connection'', Scalar C_u8),
    (''left'', Scalar C_u8), (''right'', Scalar C_u8), (''waveform'', Scalar C_u8)]"

definition struct_snd_dm_fm_note :: ctype where
  "struct_snd_dm_fm_note = Struct False [
    (''voice'', Scalar C_u8), (''octave'', Scalar C_u8), (''fnum'', Scalar C_uint),
    (''key_on'', Scalar C_u8)]"

definition struct_snd_dm_fm_params :: ctype where
  "struct_snd_dm_fm_params = Struct False [
    (''am_depth'', Scalar C_u8), (''vib_depth'', Scalar C_u8), (''kbd_split'', Scalar C_u8),
    (''rhythm'', Scalar C_u8), (''bass'', Scalar C_u8), (''snare'', Scalar C_u8),
    (''tomtom'', Scalar C_u8), (''cymbal'', Scalar C_u8), (''hihat'', Scalar C_u8)]"

definition struct_sbi_patch :: ctype where
  "struct_sbi_patch = Struct False [
    (''prog'', Scalar C_u8), (''bank'', Scalar C_u8), (''key'', Array (Scalar C_char) 4),
    (''name'', Array (Scalar C_char) 25), (''extension'', Array (Scalar C_char) 7),
    (''data'', Array (Scalar C_u8) 32)]"

definition fm_ioctls :: "ioctl list" where
  "fm_ioctls =
    [IOR ''SNDRV_DM_FM_IOCTL_INFO'' 0x48 0x20 struct_snd_dm_fm_info,
     IO ''SNDRV_DM_FM_IOCTL_RESET'' 0x48 0x21,
     IOW ''SNDRV_DM_FM_IOCTL_PLAY_NOTE'' 0x48 0x22 struct_snd_dm_fm_note,
     IOW ''SNDRV_DM_FM_IOCTL_SET_VOICE'' 0x48 0x23 struct_snd_dm_fm_voice,
     IOW ''SNDRV_DM_FM_IOCTL_SET_PARAMS'' 0x48 0x24 struct_snd_dm_fm_params,
     IOW ''SNDRV_DM_FM_IOCTL_SET_MODE'' 0x48 0x25 (Scalar C_int),
     IOW ''SNDRV_DM_FM_IOCTL_SET_CONNECTION'' 0x48 0x26 (Scalar C_int),
     IO ''SNDRV_DM_FM_IOCTL_CLEAR_PATCHES'' 0x48 0x40]"

section \<open>\<^verbatim>\<open>src/include/sound/sb16_csp.h\<close>\<close>

definition sndrv_sb_csp_numbers :: "(string \<times> nat) list" where
  "sndrv_sb_csp_numbers =
    [(''SNDRV_SB_CSP_MODE_NONE'', 0x00), (''SNDRV_SB_CSP_MODE_DSP_READ'', 0x01),
     (''SNDRV_SB_CSP_MODE_DSP_WRITE'', 0x02), (''SNDRV_SB_CSP_MODE_QSOUND'', 0x04),
     (''SNDRV_SB_CSP_LOAD_FROMUSER'', 0x01), (''SNDRV_SB_CSP_LOAD_INITBLOCK'', 0x02),
     (''SNDRV_SB_CSP_SAMPLE_8BIT'', 0x01), (''SNDRV_SB_CSP_SAMPLE_16BIT'', 0x02),
     (''SNDRV_SB_CSP_MONO'', 0x01), (''SNDRV_SB_CSP_STEREO'', 0x02), (''SNDRV_SB_CSP_RATE_8000'',
     0x01), (''SNDRV_SB_CSP_RATE_11025'', 0x02), (''SNDRV_SB_CSP_RATE_22050'', 0x04),
     (''SNDRV_SB_CSP_RATE_44100'', 0x08), (''SNDRV_SB_CSP_RATE_ALL'', 0x0f),
     (''SNDRV_SB_CSP_ST_IDLE'', 0x00), (''SNDRV_SB_CSP_ST_LOADED'', 0x01),
     (''SNDRV_SB_CSP_ST_RUNNING'', 0x02), (''SNDRV_SB_CSP_ST_PAUSED'', 0x04),
     (''SNDRV_SB_CSP_ST_AUTO'', 0x08), (''SNDRV_SB_CSP_ST_QSOUND'', 0x10),
     (''SNDRV_SB_CSP_QSOUND_MAX_RIGHT'', 0x20), (''SNDRV_SB_CSP_MAX_MICROCODE_FILE_SIZE'',
     0x3000)]"

definition struct_snd_sb_csp_mc_header :: ctype where
  "struct_snd_sb_csp_mc_header = Struct False [
    (''codec_name'', Array (Scalar C_char) 16), (''func_req'', Scalar C_ushort)]"

definition struct_snd_sb_csp_microcode :: ctype where
  "struct_snd_sb_csp_microcode = Struct False [
    (''info'', struct_snd_sb_csp_mc_header), (''data'', Array (Scalar C_u8) 12288)]"

definition struct_snd_sb_csp_start :: ctype where
  "struct_snd_sb_csp_start = Struct False [
    (''sample_width'', Scalar C_int), (''channels'', Scalar C_int)]"

definition struct_snd_sb_csp_info :: ctype where
  "struct_snd_sb_csp_info = Struct False [
    (''codec_name'', Array (Scalar C_char) 16), (''func_nr'', Scalar C_ushort),
    (''acc_format'', Scalar C_uint), (''acc_channels'', Scalar C_ushort),
    (''acc_width'', Scalar C_ushort), (''acc_rates'', Scalar C_ushort),
    (''csp_mode'', Scalar C_ushort), (''run_channels'', Scalar C_ushort),
    (''run_width'', Scalar C_ushort), (''version'', Scalar C_ushort), (''state'', Scalar C_ushort)]"

text \<open>The request that loads microcode spells its direction and size out; they are those of \<^verbatim>\<open>_IOW\<close>.\<close>

definition SNDRV_SB_CSP_IOCTL_INFO :: ioctl where
  "SNDRV_SB_CSP_IOCTL_INFO = IOR ''SNDRV_SB_CSP_IOCTL_INFO'' 0x48 0x10 struct_snd_sb_csp_info"

definition SNDRV_SB_CSP_IOCTL_LOAD_CODE :: ioctl where
  "SNDRV_SB_CSP_IOCTL_LOAD_CODE = IOW ''SNDRV_SB_CSP_IOCTL_LOAD_CODE'' 0x48 0x11 struct_snd_sb_csp_microcode"

definition SNDRV_SB_CSP_IOCTL_UNLOAD_CODE :: ioctl where
  "SNDRV_SB_CSP_IOCTL_UNLOAD_CODE = IO ''SNDRV_SB_CSP_IOCTL_UNLOAD_CODE'' 0x48 0x12"

definition SNDRV_SB_CSP_IOCTL_START :: ioctl where
  "SNDRV_SB_CSP_IOCTL_START = IOW ''SNDRV_SB_CSP_IOCTL_START'' 0x48 0x13 struct_snd_sb_csp_start"

definition SNDRV_SB_CSP_IOCTL_STOP :: ioctl where
  "SNDRV_SB_CSP_IOCTL_STOP = IO ''SNDRV_SB_CSP_IOCTL_STOP'' 0x48 0x14"

definition SNDRV_SB_CSP_IOCTL_PAUSE :: ioctl where
  "SNDRV_SB_CSP_IOCTL_PAUSE = IO ''SNDRV_SB_CSP_IOCTL_PAUSE'' 0x48 0x15"

definition SNDRV_SB_CSP_IOCTL_RESTART :: ioctl where
  "SNDRV_SB_CSP_IOCTL_RESTART = IO ''SNDRV_SB_CSP_IOCTL_RESTART'' 0x48 0x16"

definition sb_csp_ioctls :: "ioctl list" where
  "sb_csp_ioctls =
    [SNDRV_SB_CSP_IOCTL_INFO, SNDRV_SB_CSP_IOCTL_LOAD_CODE, SNDRV_SB_CSP_IOCTL_UNLOAD_CODE,
    SNDRV_SB_CSP_IOCTL_START, SNDRV_SB_CSP_IOCTL_STOP, SNDRV_SB_CSP_IOCTL_PAUSE,
    SNDRV_SB_CSP_IOCTL_RESTART]"

section \<open>\<^verbatim>\<open>src/include/sound/usb_stream.h\<close>\<close>

definition USB_STREAM_INTERFACE_VERSION :: nat where "USB_STREAM_INTERFACE_VERSION = 2"

datatype usb_stream_state =
    usb_stream_invalid | usb_stream_stopped | usb_stream_sync0 | usb_stream_sync1 | usb_stream_ready
    | usb_stream_running | usb_stream_xrun

fun usb_stream_state_code :: "usb_stream_state \<Rightarrow> u32" where
  "usb_stream_state_code usb_stream_invalid = 0"
| "usb_stream_state_code usb_stream_stopped = 1"
| "usb_stream_state_code usb_stream_sync0 = 2"
| "usb_stream_state_code usb_stream_sync1 = 3"
| "usb_stream_state_code usb_stream_ready = 4"
| "usb_stream_state_code usb_stream_running = 5"
| "usb_stream_state_code usb_stream_xrun = 6"

definition struct_usb_stream_packet :: ctype where
  "struct_usb_stream_packet = Struct False [
    (''offset'', Scalar C_uint), (''length'', Scalar C_uint)]"

definition struct_usb_stream_config :: ctype where
  "struct_usb_stream_config = Struct False [
    (''version'', Scalar C_uint), (''sample_rate'', Scalar C_uint),
    (''period_frames'', Scalar C_uint), (''frame_size'', Scalar C_uint)]"

definition struct_usb_stream :: ctype where
  "struct_usb_stream = Struct False [
    (''cfg'', struct_usb_stream_config), (''read_size'', Scalar C_uint),
    (''write_size'', Scalar C_uint), (''period_size'', Scalar C_int), (''state'', Scalar C_uint),
    (''idle_insize'', Scalar C_int), (''idle_outsize'', Scalar C_int),
    (''sync_packet'', Scalar C_int), (''insize_done'', Scalar C_uint),
    (''periods_done'', Scalar C_uint), (''periods_polled'', Scalar C_uint),
    (''outpacket'', Array struct_usb_stream_packet 2), (''inpackets'', Scalar C_uint),
    (''inpacket_head'', Scalar C_uint), (''inpacket_split'', Scalar C_uint),
    (''inpacket_split_at'', Scalar C_uint), (''next_inpacket_split'', Scalar C_uint),
    (''next_inpacket_split_at'', Scalar C_uint), (''inpacket'', Array struct_usb_stream_packet 0)]"

definition SNDRV_USB_STREAM_IOCTL_SET_PARAMS :: ioctl where
  "SNDRV_USB_STREAM_IOCTL_SET_PARAMS = IOW ''SNDRV_USB_STREAM_IOCTL_SET_PARAMS'' 0x48 0x90 struct_usb_stream_config"

definition usb_stream_ioctls :: "ioctl list" where
  "usb_stream_ioctls =
    [SNDRV_USB_STREAM_IOCTL_SET_PARAMS]"

section \<open>\<^verbatim>\<open>src/include/sound/sfnt_info.h\<close>\<close>

definition sndrv_sfnt_numbers :: "(string \<times> nat) list" where
  "sndrv_sfnt_numbers =
    [(''SNDRV_SFNT_LOAD_INFO'', 0), (''SNDRV_SFNT_LOAD_DATA'', 1), (''SNDRV_SFNT_OPEN_PATCH'', 2),
     (''SNDRV_SFNT_CLOSE_PATCH'', 3), (''SNDRV_SFNT_REPLACE_DATA'', 5),
     (''SNDRV_SFNT_MAP_PRESET'', 6), (''SNDRV_SFNT_PROBE_DATA'', 8), (''SNDRV_SFNT_REMOVE_INFO'',
     9)]"

definition SNDRV_SFNT_PATCH_NAME_LEN :: nat where "SNDRV_SFNT_PATCH_NAME_LEN = 32"
definition sndrv_sfnt_pat_numbers :: "(string \<times> nat) list" where
  "sndrv_sfnt_pat_numbers =
    [(''SNDRV_SFNT_PAT_TYPE_MISC'', 0), (''SNDRV_SFNT_PAT_TYPE_GUS'', 6),
     (''SNDRV_SFNT_PAT_TYPE_MAP'', 7), (''SNDRV_SFNT_PAT_LOCKED'', 0x100),
     (''SNDRV_SFNT_PAT_SHARED'', 0x200)]"

definition sndrv_sfnt_mode_numbers :: "(string \<times> nat) list" where
  "sndrv_sfnt_mode_numbers =
    [(''SNDRV_SFNT_MODE_ROMSOUND'', 0x8000), (''SNDRV_SFNT_MODE_STEREO'', 1),
     (''SNDRV_SFNT_MODE_LOOPING'', 2), (''SNDRV_SFNT_MODE_NORELEASE'', 4),
     (''SNDRV_SFNT_MODE_INIT_PARM'', 8)]"

definition sndrv_sfnt_wr_numbers :: "(string \<times> nat) list" where
  "sndrv_sfnt_wr_numbers =
    [(''SNDRV_SFNT_WR_APPEND'', 0), (''SNDRV_SFNT_WR_EXCLUSIVE'', 1), (''SNDRV_SFNT_WR_REPLACE'',
     2)]"

definition sndrv_sfnt_sample_numbers :: "(string \<times> nat) list" where
  "sndrv_sfnt_sample_numbers =
    [(''SNDRV_SFNT_SAMPLE_8BITS'', 1), (''SNDRV_SFNT_SAMPLE_UNSIGNED'', 2),
     (''SNDRV_SFNT_SAMPLE_NO_BLANK'', 4), (''SNDRV_SFNT_SAMPLE_SINGLESHOT'', 8),
     (''SNDRV_SFNT_SAMPLE_BIDIR_LOOP'', 16), (''SNDRV_SFNT_SAMPLE_STEREO_LEFT'', 32),
     (''SNDRV_SFNT_SAMPLE_STEREO_RIGHT'', 64), (''SNDRV_SFNT_SAMPLE_REVERSE_LOOP'', 128)]"

definition struct_soundfont_patch_info :: ctype where
  "struct_soundfont_patch_info = Struct False [
    (''key'', Scalar C_ushort), (''device_no'', Scalar C_short), (''sf_id'', Scalar C_ushort),
    (''optarg'', Scalar C_short), (''len'', Scalar C_int), (''type'', Scalar C_short),
    (''reserved'', Scalar C_short)]"

definition struct_soundfont_open_parm :: ctype where
  "struct_soundfont_open_parm = Struct False [
    (''type'', Scalar C_ushort), (''reserved'', Scalar C_short),
    (''name'', Array (Scalar C_char) 32)]"

definition struct_soundfont_voice_parm :: ctype where
  "struct_soundfont_voice_parm = Struct False [
    (''moddelay'', Scalar C_ushort), (''modatkhld'', Scalar C_ushort),
    (''moddcysus'', Scalar C_ushort), (''modrelease'', Scalar C_ushort),
    (''modkeyhold'', Scalar C_short), (''modkeydecay'', Scalar C_short),
    (''voldelay'', Scalar C_ushort), (''volatkhld'', Scalar C_ushort),
    (''voldcysus'', Scalar C_ushort), (''volrelease'', Scalar C_ushort),
    (''volkeyhold'', Scalar C_short), (''volkeydecay'', Scalar C_short),
    (''lfo1delay'', Scalar C_ushort), (''lfo2delay'', Scalar C_ushort),
    (''pefe'', Scalar C_ushort), (''fmmod'', Scalar C_ushort), (''tremfrq'', Scalar C_ushort),
    (''fm2frq2'', Scalar C_ushort), (''cutoff'', Scalar C_u8), (''filterQ'', Scalar C_u8),
    (''chorus'', Scalar C_u8), (''reverb'', Scalar C_u8),
    (''reserved'', Array (Scalar C_ushort) 4)]"

definition struct_soundfont_voice_info :: ctype where
  "struct_soundfont_voice_info = Struct False [
    (''sf_id'', Scalar C_ushort), (''sample'', Scalar C_ushort), (''start'', Scalar C_int),
    (''end'', Scalar C_int), (''loopstart'', Scalar C_int), (''loopend'', Scalar C_int),
    (''rate_offset'', Scalar C_short), (''mode'', Scalar C_ushort), (''root'', Scalar C_short),
    (''tune'', Scalar C_short), (''low'', Scalar C_u8), (''high'', Scalar C_u8),
    (''vellow'', Scalar C_u8), (''velhigh'', Scalar C_u8), (''fixkey'', Scalar C_s8),
    (''fixvel'', Scalar C_s8), (''pan'', Scalar C_s8), (''fixpan'', Scalar C_s8),
    (''exclusiveClass'', Scalar C_short), (''amplitude'', Scalar C_u8),
    (''attenuation'', Scalar C_u8), (''scaleTuning'', Scalar C_short),
    (''parm'', struct_soundfont_voice_parm), (''sample_mode'', Scalar C_ushort)]"

definition struct_soundfont_voice_rec_hdr :: ctype where
  "struct_soundfont_voice_rec_hdr = Struct False [
    (''bank'', Scalar C_u8), (''instr'', Scalar C_u8), (''nvoices'', Scalar C_char),
    (''write_mode'', Scalar C_char)]"

definition struct_soundfont_sample_info :: ctype where
  "struct_soundfont_sample_info = Struct False [
    (''sf_id'', Scalar C_ushort), (''sample'', Scalar C_ushort), (''start'', Scalar C_int),
    (''end'', Scalar C_int), (''loopstart'', Scalar C_int), (''loopend'', Scalar C_int),
    (''size'', Scalar C_int), (''dummy'', Scalar C_short), (''mode_flags'', Scalar C_ushort),
    (''truesize'', Scalar C_uint)]"

definition struct_soundfont_voice_map :: ctype where
  "struct_soundfont_voice_map = Struct False [
    (''map_bank'', Scalar C_int), (''map_instr'', Scalar C_int), (''map_key'', Scalar C_int),
    (''src_bank'', Scalar C_int), (''src_instr'', Scalar C_int), (''src_key'', Scalar C_int)]"

definition struct_snd_emux_misc_mode :: ctype where
  "struct_snd_emux_misc_mode = Struct False [
    (''port'', Scalar C_int), (''mode'', Scalar C_int), (''value'', Scalar C_int),
    (''value2'', Scalar C_int)]"

definition emux_ioctls :: "ioctl list" where
  "emux_ioctls =
    [IOR ''SNDRV_EMUX_IOCTL_VERSION'' 0x48 0x80 (Scalar C_uint),
     IOWR ''SNDRV_EMUX_IOCTL_LOAD_PATCH'' 0x48 0x81 struct_soundfont_patch_info,
     IO ''SNDRV_EMUX_IOCTL_RESET_SAMPLES'' 0x48 0x82,
     IO ''SNDRV_EMUX_IOCTL_REMOVE_LAST_SAMPLES'' 0x48 0x83,
     IOW ''SNDRV_EMUX_IOCTL_MEM_AVAIL'' 0x48 0x84 (Scalar C_int),
     IOWR ''SNDRV_EMUX_IOCTL_MISC_MODE'' 0x48 0x84 struct_snd_emux_misc_mode]"

text \<open>The key of a patch on a little-endian machine.\<close>

definition SNDRV_OSS_PATCHKEY :: "u32 \<Rightarrow> u32" where
  "SNDRV_OSS_PATCHKEY patch_id = push_bit 8 patch_id OR 0xfd"

definition SNDRV_OSS_SOUNDFONT_PATCH :: u32 where
  "SNDRV_OSS_SOUNDFONT_PATCH = SNDRV_OSS_PATCHKEY 0x07"

section \<open>Lemmas\<close>

lemmas fx8010_field_defs =
  fx8010_debug_fields_def fx8010_debug_fields_table_def tank_address_fields_def
  tank_address_fields_table_def

section \<open>The tables behind the hardware dependent device\<close>

text \<open>
  A card's requests are served by its hardware dependent device, behind the requests every such
  device has. Each card's table is therefore checked together with \<^const>\<open>hwdep_ioctls\<close>.
\<close>

definition card_tables :: "data_model \<Rightarrow> ioctl list list" where
  "card_tables dm =
    [emu10k1_ioctls dm, hdsp_ioctls, hdspm_ioctls, firewire_ioctls, fm_ioctls, sb_csp_ioctls,
     usb_stream_ioctls, emux_ioctls]"

lemma card_tables_ok: "list_all (extends_ok hwdep_ioctls) (card_tables dm)"
  by (cases dm; hypsubst; code_simp)

lemmas card_request_table = extends_tableI [OF card_tables_ok]

interpretation emux: request_table "hwdep_ioctls @ emux_ioctls"
  by (rule card_request_table [of _ LP64]) (simp add: card_tables_def)

interpretation emu10k1: request_table "hwdep_ioctls @ emu10k1_ioctls dm" for dm
  by (rule card_request_table [of _ dm]) (simp add: card_tables_def)

lemma fx8010_fields_disjoint: "disjoint_masks fx8010_debug_fields" "disjoint_masks tank_address_fields"
  by (simp_all add: fx8010_field_defs)

text \<open>The channel numbers fit the block they index.\<close>

lemma fx8010_channels_fit:
  "list_all (\<lambda>(cs, ns). distinct cs \<and> list_all (\<lambda>c. c \<in> set ns) cs) (live_channels @ audigy_channels)"
  by code_simp

section \<open>Properties\<close>

text \<open>
  The register file of the effects processor: on either generation, the blocks of input and
  output registers lie one behind the other without gap or overlap, and the constant registers
  continue where the blocks end, so that every register number up to the last of them has exactly
  one meaning.
\<close>

lemma fx8010_register_map:
  "block_registers live_blocks @ live_constants = [0..<0x5c] \<and>
   block_registers audigy_blocks @ audigy_constants = [0..<0xdc]"
  by (intro conjI; code_simp)

end
