(* ===== verification/Bcache_Disk.thy ===== *)
theory Bcache_Disk
  imports Bcache C_Layout
begin

text \<open>
  What the block cache of \<^verbatim>\<open>src/include/linux/bcache.h\<close> keeps on disk: keys in an array of 64-bit
  words, the sets of keys that make up a btree node and a journal entry, walked with
  \<^const>\<open>bkey_next\<close>, and the byte layout of superblock, journal, bucket and volume records.
\<close>

section \<open>Keys in memory\<close>

text \<open>
  The words a key occupies, and the key that starts at a position of an array of words. The header
  has no check that a key lies inside the array: the value \<^term>\<open>None\<close> stands for an access outside it,
  which C leaves undefined.
\<close>

definition bkey_words :: "bkey \<Rightarrow> u64 list" where
  "bkey_words k = high k # low k # ptr k"

definition bkey_ok :: "bkey \<Rightarrow> bool" where
  "bkey_ok k \<longleftrightarrow> length (ptr k) = unat (KEY_PTRS k)"

definition bkey_at :: "u64 list \<Rightarrow> nat \<Rightarrow> bkey option" where
  "bkey_at mem pos =
    (if length mem < pos + 2 then None
     else let k = \<lparr>high = mem ! pos, low = mem ! (pos + 1), ptr = []\<rparr>
          in if length mem < bkey_next k pos then None
             else Some (k\<lparr>ptr := take (unat (KEY_PTRS k)) (drop (pos + 2) mem)\<rparr>))"

text \<open>
  \<^verbatim>\<open>bkey_copy\<close> is \<^verbatim>\<open>memcpy\<close> of the key's bytes; the behaviour is undefined when the source is no key, the
  destination too short, or the two overlap.
\<close>

definition bkey_copy :: "u64 list \<Rightarrow> nat \<Rightarrow> nat \<Rightarrow> u64 list option" where
  "bkey_copy mem dest src =
    (case bkey_at mem src of
       None \<Rightarrow> None
     | Some k \<Rightarrow>
         let n = unat (bkey_bytes k) div 8
         in if dest + n \<le> length mem \<and> (dest + n \<le> src \<or> src + n \<le> dest)
            then Some (take dest mem @ take n (drop src mem) @ drop (dest + n) mem)
            else None)"

section \<open>Sets of keys\<close>

record bset =
  csum :: u64
  magic :: u64
  seq :: u64
  version :: u32
  keys :: u32
  d :: "u64 list"

text \<open>
  The keys from one position to another, each found behind the one before it by \<^const>\<open>bkey_next\<close>. The
  macros only step a pointer and refuse nothing: \<^term>\<open>None\<close> is a walk whose pointer steps over the last
  position or out of the array, about which nothing is claimed.
\<close>

function walk :: "u64 list \<Rightarrow> nat \<Rightarrow> nat \<Rightarrow> bkey list option" where
  "walk mem pos stop =
    (if stop = pos then Some []
     else if stop < pos then None
     else case bkey_at mem pos of
       None \<Rightarrow> None
     | Some k \<Rightarrow> map_option ((#) k) (walk mem (bkey_next k pos) stop))"
  by pat_completeness auto
termination
  by (relation "measure (\<lambda>(mem, pos, stop). stop - pos)") (auto simp: bkey_next_def unat_bkey_u64s)

declare walk.simps [simp del]

text \<open>
  All keys of a set: \<open>keys\<close> counts the words of the set, not its keys.  Words that the array does not
  have are again an access outside it.
\<close>

definition set_keys :: "bset \<Rightarrow> bkey list option" where
  "set_keys s = (if length (d s) < bkey_idx 0 (keys s) then None else walk (d s) 0 (bkey_idx 0 (keys s)))"

section \<open>Records on disk\<close>

definition SB_SECTOR :: nat where "SB_SECTOR = 8"
definition SB_SIZE :: nat where "SB_SIZE = 4096"
definition SB_LABEL_SIZE :: nat where "SB_LABEL_SIZE = 32"
definition SB_JOURNAL_BUCKETS :: nat where "SB_JOURNAL_BUCKETS = 256"
definition MAX_CACHES_PER_SET :: nat where "MAX_CACHES_PER_SET = 8"
definition BDEV_DATA_START_DEFAULT :: nat where "BDEV_DATA_START_DEFAULT = 16"

text \<open>\<^verbatim>\<open>SECTOR_SHIFT\<close> is the kernel's.\<close>

definition SB_OFFSET :: "nat \<Rightarrow> nat" where
  "SB_OFFSET SECTOR_SHIFT = SB_SECTOR * 2 ^ SECTOR_SHIFT"

definition sb_versions :: "(string \<times> nat) list" where
  "sb_versions =
    [(''BCACHE_SB_VERSION_CDEV'', 0), (''BCACHE_SB_VERSION_BDEV'', 1),
     (''BCACHE_SB_VERSION_CDEV_WITH_UUID'', 3), (''BCACHE_SB_VERSION_BDEV_WITH_OFFSET'', 4),
     (''BCACHE_SB_VERSION_CDEV_WITH_FEATURES'', 5), (''BCACHE_SB_VERSION_BDEV_WITH_FEATURES'', 6)]"

definition BCACHE_SB_MAX_VERSION :: nat where "BCACHE_SB_MAX_VERSION = 6"

text \<open>
  The anonymous unions of the superblock have the names \<open>set\<close>, \<open>dev\<close> and \<open>njournal\<close>; the anonymous
  structs of the second one are declared here.
\<close>

definition sb_disk_cdev :: ctype where
  "sb_disk_cdev = Struct False [
    (''nbuckets'', Scalar C_u64), (''block_size'', Scalar C_u16), (''bucket_size'', Scalar C_u16),
    (''nr_in_set'', Scalar C_u16), (''nr_this_dev'', Scalar C_u16)]"

definition sb_cdev :: ctype where
  "sb_cdev = Struct False [
    (''nbuckets'', Scalar C_u64), (''block_size'', Scalar C_u16), (''nr_in_set'', Scalar C_u16),
    (''nr_this_dev'', Scalar C_u16), (''bucket_size'', Scalar C_u32)]"

definition sb_bdev :: ctype where
  "sb_bdev = Struct False [(''data_offset'', Scalar C_u64)]"

definition struct_cache_sb_disk :: ctype where
  "struct_cache_sb_disk = Struct False [
    (''csum'', Scalar C_u64), (''offset'', Scalar C_u64), (''version'', Scalar C_u64),
    (''magic'', Array (Scalar C_u8) 16), (''uuid'', Array (Scalar C_u8) 16),
    (''set'', Union [(''set_uuid'', Array (Scalar C_u8) 16), (''set_magic'', Scalar C_u64)]),
    (''label'', Array (Scalar C_u8) SB_LABEL_SIZE), (''flags'', Scalar C_u64),
    (''seq'', Scalar C_u64), (''feature_compat'', Scalar C_u64),
    (''feature_incompat'', Scalar C_u64), (''feature_ro_compat'', Scalar C_u64),
    (''pad'', Array (Scalar C_u64) 5), (''dev'', Union [(''cdev'', sb_disk_cdev), (''bdev'', sb_bdev)]),
    (''last_mount'', Scalar C_u32), (''first_bucket'', Scalar C_u16),
    (''njournal'', Union [(''njournal_buckets'', Scalar C_u16), (''keys'', Scalar C_u16)]),
    (''d'', Array (Scalar C_u64) SB_JOURNAL_BUCKETS), (''obso_bucket_size_hi'', Scalar C_u16)]"

definition struct_cache_sb :: ctype where
  "struct_cache_sb = Struct False [
    (''offset'', Scalar C_u64), (''version'', Scalar C_u64),
    (''magic'', Array (Scalar C_u8) 16), (''uuid'', Array (Scalar C_u8) 16),
    (''set'', Union [(''set_uuid'', Array (Scalar C_u8) 16), (''set_magic'', Scalar C_u64)]),
    (''label'', Array (Scalar C_u8) SB_LABEL_SIZE), (''flags'', Scalar C_u64),
    (''seq'', Scalar C_u64), (''feature_compat'', Scalar C_u64),
    (''feature_incompat'', Scalar C_u64), (''feature_ro_compat'', Scalar C_u64),
    (''dev'', Union [(''cdev'', sb_cdev), (''bdev'', sb_bdev)]),
    (''last_mount'', Scalar C_u32), (''first_bucket'', Scalar C_u16),
    (''njournal'', Union [(''njournal_buckets'', Scalar C_u16), (''keys'', Scalar C_u16)]),
    (''d'', Array (Scalar C_u64) SB_JOURNAL_BUCKETS)]"

definition struct_bkey :: ctype where
  "struct_bkey = Struct False [
    (''high'', Scalar C_u64), (''low'', Scalar C_u64), (''ptr'', Array (Scalar C_u64) 0)]"

definition BKEY_PADDED :: ctype where
  "BKEY_PADDED = Union [(''key'', struct_bkey), (''key_pad'', Array (Scalar C_u64) BKEY_PAD)]"

definition struct_jset :: ctype where
  "struct_jset = Struct False [
    (''csum'', Scalar C_u64), (''magic'', Scalar C_u64), (''seq'', Scalar C_u64),
    (''version'', Scalar C_u32), (''keys'', Scalar C_u32), (''last_seq'', Scalar C_u64),
    (''uuid_bucket'', BKEY_PADDED), (''btree_root'', BKEY_PADDED),
    (''btree_level'', Scalar C_u16), (''pad'', Array (Scalar C_u16) 3),
    (''prio_bucket'', Array (Scalar C_u64) MAX_CACHES_PER_SET),
    (''start'', Union [(''start'', Array struct_bkey 0), (''d'', Array (Scalar C_u64) 0)])]"

definition struct_bucket_disk :: ctype where
  "struct_bucket_disk = Struct True [(''prio'', Scalar C_u16), (''gen'', Scalar C_u8)]"

definition struct_prio_set :: ctype where
  "struct_prio_set = Struct False [
    (''csum'', Scalar C_u64), (''magic'', Scalar C_u64), (''seq'', Scalar C_u64),
    (''version'', Scalar C_u32), (''pad'', Scalar C_u32), (''next_bucket'', Scalar C_u64),
    (''data'', Array struct_bucket_disk 0)]"

definition uuid_entry_fields :: ctype where
  "uuid_entry_fields = Struct False [
    (''uuid'', Array (Scalar C_u8) 16), (''label'', Array (Scalar C_u8) 32),
    (''first_reg'', Scalar C_u32), (''last_reg'', Scalar C_u32), (''invalidated'', Scalar C_u32),
    (''flags'', Scalar C_u32), (''sectors'', Scalar C_u64)]"

definition struct_uuid_entry :: ctype where
  "struct_uuid_entry = Struct False [
    (''entry'', Union [(''fields'', uuid_entry_fields), (''pad'', Array (Scalar C_u8) 128)])]"

definition struct_bset :: ctype where
  "struct_bset = Struct False [
    (''csum'', Scalar C_u64), (''magic'', Scalar C_u64), (''seq'', Scalar C_u64),
    (''version'', Scalar C_u32), (''keys'', Scalar C_u32),
    (''start'', Union [(''start'', Array struct_bkey 0), (''d'', Array (Scalar C_u64) 0)])]"

definition struct_uuid_entry_v0 :: ctype where
  "struct_uuid_entry_v0 = Struct False [
    (''uuid'', Array (Scalar C_u8) 16), (''label'', Array (Scalar C_u8) 32),
    (''first_reg'', Scalar C_u32), (''last_reg'', Scalar C_u32), (''invalidated'', Scalar C_u32),
    (''pad'', Scalar C_u32)]"

text \<open>The flag of a flash-only volume, bit 0 of its 32-bit flags.\<close>

definition UUID_FLASH_ONLY :: "u32 \<Rightarrow> u64" where
  "UUID_FLASH_ONLY fl = BITMASK_get 0 1 (ucast fl)"

definition SET_UUID_FLASH_ONLY :: "u32 \<Rightarrow> u64 \<Rightarrow> u32" where
  "SET_UUID_FLASH_ONLY fl v = ucast (BITMASK_set 0 1 (ucast fl) v)"

text \<open>The bytes of a set on disk, its header and the words behind it, and the set they hold.\<close>

definition bset_header :: "bset \<Rightarrow> cval" where
  "bset_header s =
    VRec [VNum (unat (csum s)), VNum (unat (magic s)), VNum (unat (seq s)), VNum (unat (version s)),
      VNum (unat (keys s)), VRaw []]"

definition bset_image :: "data_model \<Rightarrow> bset \<Rightarrow> u8 list" where
  "bset_image dm s =
    encode dm struct_bset (bset_header s) @ concat (map (\<lambda>w. le_bytes 8 (unat w)) (d s))"

definition read_bset :: "data_model \<Rightarrow> u8 list \<Rightarrow> bset option" where
  "read_bset dm bs =
    (let h = csize dm struct_bset
     in if length bs < h \<or> (length bs - h) mod 8 \<noteq> 0 then None
        else case decode dm struct_bset (take h bs) of
          VRec [VNum c, VNum m, VNum q, VNum v, VNum k, _] \<Rightarrow>
            Some \<lparr>csum = word_of_nat c, magic = word_of_nat m, seq = word_of_nat q,
              version = word_of_nat v, keys = word_of_nat k,
              d = map (\<lambda>b. word_of_nat (le_num b)) (chunks ((length bs - h) div 8) 8 (drop h bs))\<rparr>
        | _ \<Rightarrow> None)"

section \<open>Lemmas\<close>

lemma length_bkey_words: "bkey_ok k \<Longrightarrow> length (bkey_words k) = unat (bkey_u64s k)"
  by (simp add: bkey_words_def bkey_ok_def unat_bkey_u64s)

lemma KEY_PTRS_cong: "high k = high k' \<Longrightarrow> KEY_PTRS k = KEY_PTRS k'"
  by (simp add: KEY_PTRS_def)

lemma bkey_u64s_cong: "high k = high k' \<Longrightarrow> bkey_u64s k = bkey_u64s k'"
  by (simp add: bkey_u64s_def KEY_PTRS_def)

text \<open>A key is at a position exactly when its words are.\<close>

lemma bkey_at_iff:
  "bkey_at mem pos = Some k \<longleftrightarrow>
     bkey_ok k \<and> pos + unat (bkey_u64s k) \<le> length mem \<and>
     take (unat (bkey_u64s k)) (drop pos mem) = bkey_words k"
proof (cases "pos + 2 \<le> length mem")
  case True
  let ?k = "\<lparr>high = mem ! pos, low = mem ! (pos + 1), ptr = []\<rparr>"
  have drop: "drop pos mem = mem ! pos # mem ! (pos + 1) # drop (pos + 2) mem"
    using True by (metis Cons_nth_drop_Suc Suc_le_lessD add.commute add_2_eq_Suc add_Suc_shift
        less_SucI plus_1_eq_Suc Suc_lessD numeral_2_eq_2)
  have words: "take (unat (bkey_u64s k)) (drop pos mem) =
      mem ! pos # mem ! (pos + 1) # take (unat (KEY_PTRS k)) (drop (pos + 2) mem)"
    by (simp add: drop unat_bkey_u64s)
  show ?thesis
  proof
    assume "bkey_at mem pos = Some k"
    then have k: "high k = high ?k" "low k = low ?k"
        "ptr k = take (unat (KEY_PTRS ?k)) (drop (pos + 2) mem)"
      and len: "bkey_next ?k pos \<le> length mem"
      using True by (auto simp: bkey_at_def Let_def split: if_splits)
    have p: "KEY_PTRS ?k = KEY_PTRS k"
      using k by (intro KEY_PTRS_cong) simp
    have "pos + unat (bkey_u64s k) \<le> length mem"
      using len p by (simp add: bkey_next_def bkey_u64s_def)
    moreover from this have "bkey_ok k"
      using k(3) p by (simp add: bkey_ok_def unat_bkey_u64s)
    moreover have "take (unat (bkey_u64s k)) (drop pos mem) = bkey_words k"
      unfolding words bkey_words_def using k p by simp
    ultimately show "bkey_ok k \<and> pos + unat (bkey_u64s k) \<le> length mem \<and>
        take (unat (bkey_u64s k)) (drop pos mem) = bkey_words k"
      by blast
  next
    assume k: "bkey_ok k \<and> pos + unat (bkey_u64s k) \<le> length mem \<and>
        take (unat (bkey_u64s k)) (drop pos mem) = bkey_words k"
    then have eq: "high k = mem ! pos" "low k = mem ! (pos + 1)"
        "ptr k = take (unat (KEY_PTRS k)) (drop (pos + 2) mem)"
      by (auto simp: words bkey_words_def)
    then have "KEY_PTRS ?k = KEY_PTRS k"
      by (intro KEY_PTRS_cong) simp
    then show "bkey_at mem pos = Some k"
      using True k eq by (simp add: bkey_at_def Let_def bkey_next_def unat_bkey_u64s)
  qed
next
  case False
  then show ?thesis
    by (simp add: bkey_at_def unat_bkey_u64s)
qed

lemma walk_iff:
  assumes "stop \<le> length mem"
  shows "walk mem pos stop = Some ks \<longleftrightarrow>
    list_all bkey_ok ks \<and> pos \<le> stop \<and> take (stop - pos) (drop pos mem) = concat (map bkey_words ks)"
proof (induction ks arbitrary: pos)
  case Nil
  show ?case
    using assms by (subst walk.simps) (auto split: option.splits)
next
  case (Cons k ks)
  let ?n = "unat (bkey_u64s k)"
  have n: "0 < ?n" by (simp add: unat_bkey_u64s)
  have "walk mem pos stop = Some (k # ks) \<longleftrightarrow>
      pos < stop \<and> bkey_at mem pos = Some k \<and> walk mem (pos + ?n) stop = Some ks"
    by (subst walk.simps) (auto simp: bkey_next_def split: option.splits)
  also have "\<dots> \<longleftrightarrow> bkey_ok k \<and> list_all bkey_ok ks \<and> pos + ?n \<le> stop \<and>
      take ?n (drop pos mem) = bkey_words k \<and>
      take (stop - (pos + ?n)) (drop (pos + ?n) mem) = concat (map bkey_words ks)"
    using assms n by (auto simp: bkey_at_iff Cons.IH)
  also have "\<dots> \<longleftrightarrow> bkey_ok k \<and> list_all bkey_ok ks \<and> pos \<le> stop \<and>
      take (stop - pos) (drop pos mem) = bkey_words k @ concat (map bkey_words ks)"
  proof (cases "pos + ?n \<le> stop")
    case True
    have "take (stop - pos) (drop pos mem) =
        take ?n (drop pos mem) @ take (stop - (pos + ?n)) (drop (pos + ?n) mem)"
      using True take_add [of ?n "stop - (pos + ?n)" "drop pos mem"] by (simp add: add.commute)
    then show ?thesis
      using True assms length_bkey_words [of k] by (auto simp: append_eq_append_conv)
  next
    case False
    then show ?thesis
      using assms length_bkey_words [of k]
      by (auto dest: arg_cong [where f = length])
  qed
  finally show ?case by simp
qed

lemma set_keys_iff:
  "set_keys s = Some ks \<longleftrightarrow>
    list_all bkey_ok ks \<and> unat (keys s) \<le> length (d s) \<and>
    take (unat (keys s)) (d s) = concat (map bkey_words ks)"
  by (auto simp: set_keys_def bkey_idx_def walk_iff)

lemma bset_header_typed: "well_typed dm struct_bset (bset_header s)"
  using unsigned_less [of "csum s", where 'a = nat] unsigned_less [of "magic s", where 'a = nat]
    unsigned_less [of "seq s", where 'a = nat] unsigned_less [of "version s", where 'a = nat]
    unsigned_less [of "keys s", where 'a = nat]
  by (simp add: struct_bset_def bset_header_def struct_bkey_def align_up_def ceil_div_def)

lemma csize_bset: "csize dm struct_bset = 32"
  by (cases dm; hypsubst; code_simp)

lemma words_read_back:
  "map (\<lambda>b. word_of_nat (le_num b)) (map (\<lambda>w. le_bytes 8 (unat w)) ws) = (ws :: u64 list)"
proof -
  have "le_num (le_bytes 8 (unat w)) = unat w" for w :: u64
    using unsigned_less [of w, where 'a = nat] by (intro le_num_le_bytes) simp
  then show ?thesis by (simp add: o_def)
qed

lemma read_bset_image: "read_bset dm (bset_image dm s) = Some s"
proof -
  let ?ws = "map (\<lambda>w. le_bytes 8 (unat w)) (d s)"
  have len: "length (encode dm struct_bset (bset_header s)) = 32"
    using length_encode [OF bset_header_typed] by (simp add: csize_bset)
  have total: "length (bset_image dm s) = 32 + 8 * length (d s)"
    by (simp add: bset_image_def len length_concat o_def sum_list_triv mult.commute)
  have words: "chunks (length (d s)) 8 (concat ?ws) = ?ws"
    using chunks_concat [of ?ws 8] by simp
  have "decode dm struct_bset (take 32 (bset_image dm s)) = bset_header s"
    using decode_encode [OF bset_header_typed] by (simp add: bset_image_def len)
  moreover have "drop 32 (bset_image dm s) = concat ?ws"
    by (simp add: bset_image_def len)
  ultimately show ?thesis
    by (simp add: read_bset_def csize_bset total words words_read_back bset_header_def Let_def
        del: map_map)
qed

text \<open>The records on disk; \<^verbatim>\<open>struct cache_sb\<close> is the superblock in memory.\<close>

definition disk_structs :: "ctype list" where
  "disk_structs =
    [struct_cache_sb_disk, struct_jset, struct_bucket_disk, struct_prio_set,
     struct_uuid_entry, struct_bset, struct_uuid_entry_v0]"

lemma disk_structs_fixed: "list_all fixed_width (struct_cache_sb # disk_structs)"
  by code_simp

lemma bset_image_width: "bset_image dm s = bset_image dm' s"
proof -
  have "fixed_width struct_bset" by code_simp
  then show ?thesis
    by (simp add: bset_image_def fixed_width_encode [of struct_bset dm _ dm'])
qed

text \<open>The set that holds a list of keys, with whatever words behind them.\<close>

definition bset_of :: "bkey list \<Rightarrow> u64 list \<Rightarrow> bset" where
  "bset_of ks rest =
    \<lparr>csum = 0, magic = 0, seq = 0, version = 1,
     keys = word_of_nat (length (concat (map bkey_words ks))), d = concat (map bkey_words ks) @ rest\<rparr>"

definition example_key :: bkey where
  "example_key = \<lparr>high = 0x1000000000800001, low = 16, ptr = [MAKE_PTR 3 1000 2]\<rparr>"

definition example_keys :: "bkey list" where
  "example_keys = [example_key, \<lparr>high = 1, low = 24, ptr = []\<rparr>]"

lemma example_ptrs: "KEY_PTRS example_key = 1" "KEY_PTRS \<lparr>high = 1, low = 24, ptr = []\<rparr> = 0"
  by (simp_all add: example_key_def KEY_PTRS_def BITMASK_get_def low_ones_def mask_eq_exp_minus_1)

lemma example_keys_ok: "list_all bkey_ok example_keys"
  by (simp add: example_keys_def bkey_ok_def example_ptrs) (simp add: example_key_def)

lemma example_words: "length (bkey_words example_key) = 3" "length (concat (map bkey_words example_keys)) = 5"
  by (simp_all add: example_keys_def bkey_words_def example_key_def)

section \<open>Properties\<close>

text \<open>
  C6. A set of keys on disk. Keys whose pointer counts are right, written one behind the other
  after the header of a set, are read back by a machine of either width: the header and the
  words come back from the bytes, and the walk with \<^verbatim>\<open>bkey_next\<close> from the first word to the word
  that \<^verbatim>\<open>bkey_idx\<close> gives for the header's count visits exactly these keys, whatever follows them.
\<close>

theorem bset_round_trip:
  assumes "list_all bkey_ok ks" and "length (concat (map bkey_words ks)) < 2 ^ 32"
  shows "\<exists>s. read_bset dm' (bset_image dm (bset_of ks rest)) = Some s \<and> set_keys s = Some ks"
proof -
  have "set_keys (bset_of ks rest) = Some ks"
    using assms by (simp add: set_keys_iff bset_of_def unat_of_nat del: length_concat)
  then show ?thesis
    using read_bset_image [of dm'] bset_image_width [of dm _ dm'] by simp
qed

theorem bset_round_trip_witness:
  "\<exists>s. read_bset ILP32 (bset_image LP64 (bset_of example_keys [42])) = Some s \<and>
     set_keys s = Some example_keys"
proof (rule bset_round_trip)
  show "length (concat (map bkey_words example_keys)) < 2 ^ 32" by (simp only: example_words) simp
qed (rule example_keys_ok)

text \<open>
  \<^verbatim>\<open>bkey_copy\<close> puts a copy of the key at the destination and changes no other word; the source is
  still there.
\<close>

lemma bkey_copy_spec:
  assumes "bkey_copy mem dest src = Some mem'"
  shows "\<exists>k. bkey_at mem src = Some k \<and> bkey_at mem' dest = Some k \<and> bkey_at mem' src = Some k \<and>
    length mem' = length mem \<and>
    (\<forall>i<length mem. i < dest \<or> dest + unat (bkey_u64s k) \<le> i \<longrightarrow> mem' ! i = mem ! i)"
proof -
  obtain k where k: "bkey_at mem src = Some k"
    using assms by (auto simp: bkey_copy_def split: option.splits)
  let ?n = "unat (bkey_u64s k)"
  have n: "unat (bkey_bytes k) div 8 = ?n"
    by (simp add: unat_bkey_bytes)
  have room: "dest + ?n \<le> length mem" and apart: "dest + ?n \<le> src \<or> src + ?n \<le> dest"
    and mem': "mem' = take dest mem @ take ?n (drop src mem) @ drop (dest + ?n) mem"
    using assms k by (auto simp: bkey_copy_def n Let_def split: if_splits)
  have at: "bkey_ok k" "src + ?n \<le> length mem" "take ?n (drop src mem) = bkey_words k"
    using k by (auto simp: bkey_at_iff)
  have len: "length mem' = length mem"
    using room at(2) by (simp add: mem')
  have frame: "mem' ! i = mem ! i" if "i < length mem" "i < dest \<or> dest + ?n \<le> i" for i
    using that room at(2) by (auto simp: mem' nth_append)
  have "bkey_at mem' dest = Some k"
    using room at len by (simp add: bkey_at_iff) (simp add: mem')
  moreover have "take ?n (drop src mem') = take ?n (drop src mem)"
    using apart at(2) len frame by (intro nth_equalityI) auto
  then have "bkey_at mem' src = Some k"
    using at len by (simp add: bkey_at_iff)
  ultimately show ?thesis
    using k len frame by blast
qed

lemma bkey_copy_spec_witness:
  "bkey_copy ([0, 0, 0, 0] @ bkey_words example_key) 0 4 =
     Some (bkey_words example_key @ [0] @ bkey_words example_key) \<and>
   bkey_at (bkey_words example_key @ [0] @ bkey_words example_key) 0 = Some example_key"
proof -
  have at: "bkey_at ([0, 0, 0, 0] @ bkey_words example_key) 4 = Some example_key"
    using example_keys_ok
    by (simp add: bkey_at_iff unat_bkey_u64s example_ptrs example_keys_def example_words)
  have copy: "bkey_copy ([0, 0, 0, 0] @ bkey_words example_key) 0 4 =
      Some (bkey_words example_key @ [0] @ bkey_words example_key)"
    using at by (simp add: bkey_copy_def unat_bkey_bytes unat_bkey_u64s example_ptrs example_words)
  show ?thesis
    using bkey_copy_spec [OF copy] at copy by auto
qed

text \<open>
  C31. The records on disk, and the superblock in memory, have the same bytes for both widths. The
  superblock on disk fits the area that is
  read for it, and with sectors of at least 512 bytes it ends before the first sector a backing device uses for
  data by default. The block size, which backing devices read too, lies behind their own part of
  the union. The journal buckets fill whole words of a bitmap. A volume record has the 128 bytes of
  its padding and begins like the obsolete record, whose padding has become the flags.
\<close>

theorem disk_layout:
  "(t \<in> set (struct_cache_sb # disk_structs) \<longrightarrow> csize ILP32 t = csize LP64 t \<and> encode ILP32 t v = encode LP64 t v) \<and>
   csize dm struct_cache_sb_disk \<le> SB_SIZE \<and>
   (9 \<le> SECTOR_SHIFT \<longrightarrow>
     SB_OFFSET SECTOR_SHIFT + SB_SIZE \<le> BDEV_DATA_START_DEFAULT * 2 ^ SECTOR_SHIFT) \<and>
   coffset dm sb_disk_cdev ''block_size'' = Some (csize dm sb_bdev) \<and>
   8 * word_bytes dm dvd SB_JOURNAL_BUCKETS \<and>
   csize dm struct_uuid_entry = 128 \<and>
   map (coffset dm uuid_entry_fields)
     [''uuid'', ''label'', ''first_reg'', ''last_reg'', ''invalidated'', ''flags''] =
   map (coffset dm struct_uuid_entry_v0)
     [''uuid'', ''label'', ''first_reg'', ''last_reg'', ''invalidated'', ''pad'']"
proof (intro conjI)
  show "t \<in> set (struct_cache_sb # disk_structs) \<longrightarrow> csize ILP32 t = csize LP64 t \<and> encode ILP32 t v = encode LP64 t v"
    using disk_structs_fixed fixed_width_csize [of t ILP32 LP64] fixed_width_encode [of t ILP32 v LP64]
    by (auto simp: list_all_iff)
  show "9 \<le> SECTOR_SHIFT \<longrightarrow>
      SB_OFFSET SECTOR_SHIFT + SB_SIZE \<le> BDEV_DATA_START_DEFAULT * 2 ^ SECTOR_SHIFT"
    using power_increasing [of 9 SECTOR_SHIFT "2 :: nat"]
    by (simp add: SB_OFFSET_def SB_SECTOR_def SB_SIZE_def BDEV_DATA_START_DEFAULT_def)
qed ((cases dm; hypsubst; code_simp), (cases dm; hypsubst; code_simp), (cases dm; hypsubst; code_simp),
    (cases dm; hypsubst; code_simp), (cases dm; hypsubst; code_simp))

theorem disk_layout_witness:
  "csize ILP32 struct_jset = csize LP64 struct_jset \<and>
   SB_OFFSET 9 + SB_SIZE \<le> BDEV_DATA_START_DEFAULT * 2 ^ 9"
  using disk_layout [of struct_jset "VRaw []" LP64 9] by (simp add: disk_structs_def)

end
