(* ===== verification/Codec_Ioctl.thy ===== *)
theory Codec_Ioctl
  imports Audio_Ioctl
begin

text \<open>
  Structs, numbers and requests of the audio encoders and decoders, from the headers
  \<^verbatim>\<open>linux/msm_audio_aac.h\<close>,
  \<^verbatim>\<open>linux/msm_audio_ac3.h\<close>,
  \<^verbatim>\<open>linux/msm_audio_alac.h\<close>,
  \<^verbatim>\<open>linux/msm_audio_amrnb.h\<close>,
  \<^verbatim>\<open>linux/msm_audio_amrwb.h\<close>,
  \<^verbatim>\<open>linux/msm_audio_amrwbplus.h\<close>,
  \<^verbatim>\<open>linux/msm_audio_ape.h\<close>,
  \<^verbatim>\<open>linux/msm_audio_g711.h\<close>,
  \<^verbatim>\<open>linux/msm_audio_g711_dec.h\<close>,
  \<^verbatim>\<open>linux/msm_audio_mvs.h\<close>,
  \<^verbatim>\<open>linux/msm_audio_qcp.h\<close>,
  \<^verbatim>\<open>linux/msm_audio_sbc.h\<close>,
  \<^verbatim>\<open>linux/msm_audio_voicememo.h\<close>,
  \<^verbatim>\<open>linux/msm_audio_wma.h\<close>,
  \<^verbatim>\<open>linux/msm_audio_wmapro.h\<close>,
  \<^verbatim>\<open>sound/msmcal-hwdep.h\<close>,
  \<^verbatim>\<open>sound/audio_slimslave.h\<close>,
  \<^verbatim>\<open>sound/voice_params.h\<close>, \<^verbatim>\<open>linux/avtimer.h\<close> under
  \<^verbatim>\<open>src/include\<close>.
\<close>

section \<open>\<^verbatim>\<open>src/include/linux/msm_audio_aac.h\<close>\<close>

definition audio_aac_numbers :: "(string \<times> nat) list" where
  "audio_aac_numbers =
    [(''AUDIO_AAC_FORMAT_RAW'', 0x0000), (''AUDIO_AAC_FORMAT_PSUEDO_RAW'', 0x0001),
     (''AUDIO_AAC_FORMAT_LOAS'', 0x0002), (''AUDIO_AAC_FORMAT_ADIF'', 0x0003),
     (''AUDIO_AAC_OBJECT_LC'', 0x0002), (''AUDIO_AAC_OBJECT_LTP'', 0x0004),
     (''AUDIO_AAC_OBJECT_ERLC'', 0x0011), (''AUDIO_AAC_OBJECT_BSAC'', 0x0016),
     (''AUDIO_AAC_SEC_DATA_RES_ON'', 0x0001), (''AUDIO_AAC_SEC_DATA_RES_OFF'', 0x0000),
     (''AUDIO_AAC_SCA_DATA_RES_ON'', 0x0001), (''AUDIO_AAC_SCA_DATA_RES_OFF'', 0x0000),
     (''AUDIO_AAC_SPEC_DATA_RES_ON'', 0x0001), (''AUDIO_AAC_SPEC_DATA_RES_OFF'', 0x0000),
     (''AUDIO_AAC_SBR_ON_FLAG_ON'', 0x0001), (''AUDIO_AAC_SBR_ON_FLAG_OFF'', 0x0000),
     (''AUDIO_AAC_SBR_PS_ON_FLAG_ON'', 0x0001), (''AUDIO_AAC_SBR_PS_ON_FLAG_OFF'', 0x0000),
     (''AUDIO_AAC_DUAL_MONO_PL_PR'', 0), (''AUDIO_AAC_DUAL_MONO_SL_SR'', 1),
     (''AUDIO_AAC_DUAL_MONO_SL_PR'', 2), (''AUDIO_AAC_DUAL_MONO_PL_SR'', 3)]"

definition struct_msm_audio_aac_config :: ctype where
  "struct_msm_audio_aac_config = Struct False [
    (''format'', Scalar C_short), (''audio_object'', Scalar C_ushort),
    (''ep_config'', Scalar C_ushort), (''aac_section_data_resilience_flag'', Scalar C_ushort),
    (''aac_scalefactor_data_resilience_flag'', Scalar C_ushort),
    (''aac_spectral_data_resilience_flag'', Scalar C_ushort), (''sbr_on_flag'', Scalar C_ushort),
    (''sbr_ps_on_flag'', Scalar C_ushort), (''dual_mono_mode'', Scalar C_ushort),
    (''channel_configuration'', Scalar C_ushort), (''sample_rate'', Scalar C_ushort)]"

definition struct_msm_audio_aac_enc_config :: ctype where
  "struct_msm_audio_aac_enc_config = Struct False [
    (''channels'', Scalar C_u32), (''sample_rate'', Scalar C_u32), (''bit_rate'', Scalar C_u32),
    (''stream_format'', Scalar C_u32)]"

definition msm_audio_aac_ioctls :: "ioctl list" where
  "msm_audio_aac_ioctls =
    [IOW ''AUDIO_SET_AAC_CONFIG'' 0x61 0x6f struct_msm_audio_aac_config,
     IOR ''AUDIO_GET_AAC_CONFIG'' 0x61 0x70 struct_msm_audio_aac_config,
     IOW ''AUDIO_SET_AAC_ENC_CONFIG'' 0x61 0x72 struct_msm_audio_aac_enc_config,
     IOR ''AUDIO_GET_AAC_ENC_CONFIG'' 0x61 0x73 struct_msm_audio_aac_enc_config,
     IOR ''AUDIO_SET_AAC_MIX_CONFIG'' 0x61 0x74 (Scalar C_u32)]"

section \<open>\<^verbatim>\<open>src/include/linux/msm_audio_ac3.h\<close>\<close>

definition audac3_def_numbers :: "(string \<times> nat) list" where
  "audac3_def_numbers =
    [(''AUDAC3_DEF_WORDSIZE'', 0), (''AUDAC3_DEF_USER_DOWNMIX_FLAG'', 0x0),
     (''AUDAC3_DEF_USER_KARAOKE_FLAG'', 0x0), (''AUDAC3_DEF_ERROR_CONCEALMENT'', 0),
     (''AUDAC3_DEF_MAX_REPEAT_COUNT'', 0)]"

definition struct_msm_audio_ac3_config :: ctype where
  "struct_msm_audio_ac3_config = Struct False [
    (''numChans'', Scalar C_ushort), (''wordSize'', Scalar C_ushort),
    (''kCapableMode'', Scalar C_ushort), (''compMode'', Scalar C_ushort),
    (''outLfeOn'', Scalar C_ushort), (''outputMode'', Scalar C_ushort),
    (''stereoMode'', Scalar C_ushort), (''dualMonoMode'', Scalar C_ushort),
    (''fsCod'', Scalar C_ushort), (''pcmScaleFac'', Scalar C_ushort),
    (''dynRngScaleHi'', Scalar C_ushort), (''dynRngScaleLow'', Scalar C_ushort),
    (''user_downmix_flag'', Scalar C_ushort), (''user_karaoke_flag'', Scalar C_ushort),
    (''dm_address_high'', Scalar C_ushort), (''dm_address_low'', Scalar C_ushort),
    (''ko_address_high'', Scalar C_ushort), (''ko_address_low'', Scalar C_ushort),
    (''error_concealment'', Scalar C_ushort), (''max_rep_count'', Scalar C_ushort),
    (''channel_routing_mode'', Array (Scalar C_ushort) 6)]"

definition msm_audio_ac3_ioctls :: "ioctl list" where
  "msm_audio_ac3_ioctls =
    [IOW ''AUDIO_SET_AC3_CONFIG'' 0x61 0x6f (Scalar C_uint),
     IOR ''AUDIO_GET_AC3_CONFIG'' 0x61 0x70 (Scalar C_uint)]"

section \<open>\<^verbatim>\<open>src/include/linux/msm_audio_alac.h\<close>\<close>

definition struct_msm_audio_alac_config :: ctype where
  "struct_msm_audio_alac_config = Struct False [
    (''frameLength'', Scalar C_u32), (''compatVersion'', Scalar C_u8), (''bitDepth'', Scalar C_u8),
    (''pb'', Scalar C_u8), (''mb'', Scalar C_u8), (''kb'', Scalar C_u8),
    (''channelCount'', Scalar C_u8), (''maxRun'', Scalar C_u16), (''maxSize'', Scalar C_u32),
    (''averageBitRate'', Scalar C_u32), (''sampleRate'', Scalar C_u32),
    (''channelLayout'', Scalar C_u32)]"

definition msm_audio_alac_ioctls :: "ioctl list" where
  "msm_audio_alac_ioctls =
    [IOR ''AUDIO_GET_ALAC_CONFIG'' 0x61 0x6f struct_msm_audio_alac_config,
     IOW ''AUDIO_SET_ALAC_CONFIG'' 0x61 0x70 struct_msm_audio_alac_config]"

section \<open>\<^verbatim>\<open>src/include/linux/msm_audio_amrnb.h\<close>\<close>

definition struct_msm_audio_amrnb_enc_config :: ctype where
  "struct_msm_audio_amrnb_enc_config = Struct False [
    (''voicememoencweight1'', Scalar C_ushort), (''voicememoencweight2'', Scalar C_ushort),
    (''voicememoencweight3'', Scalar C_ushort), (''voicememoencweight4'', Scalar C_ushort),
    (''dtx_mode_enable'', Scalar C_ushort), (''test_mode_enable'', Scalar C_ushort),
    (''enc_mode'', Scalar C_ushort)]"

definition struct_msm_audio_amrnb_enc_config_v2 :: ctype where
  "struct_msm_audio_amrnb_enc_config_v2 = Struct False [
    (''band_mode'', Scalar C_u32), (''dtx_enable'', Scalar C_u32),
    (''frame_format'', Scalar C_u32)]"

definition msm_audio_amrnb_ioctls :: "ioctl list" where
  "msm_audio_amrnb_ioctls =
    [IOW ''AUDIO_GET_AMRNB_ENC_CONFIG'' 0x61 0x6f (Scalar C_uint),
     IOR ''AUDIO_SET_AMRNB_ENC_CONFIG'' 0x61 0x70 (Scalar C_uint),
     IOW ''AUDIO_GET_AMRNB_ENC_CONFIG_V2'' 0x61 0x71 struct_msm_audio_amrnb_enc_config_v2,
     IOR ''AUDIO_SET_AMRNB_ENC_CONFIG_V2'' 0x61 0x72 struct_msm_audio_amrnb_enc_config_v2]"

section \<open>\<^verbatim>\<open>src/include/linux/msm_audio_amrwb.h\<close>\<close>

definition struct_msm_audio_amrwb_enc_config :: ctype where
  "struct_msm_audio_amrwb_enc_config = Struct False [
    (''band_mode'', Scalar C_u32), (''dtx_enable'', Scalar C_u32),
    (''frame_format'', Scalar C_u32)]"

definition msm_audio_amrwb_ioctls :: "ioctl list" where
  "msm_audio_amrwb_ioctls =
    [IOW ''AUDIO_GET_AMRWB_ENC_CONFIG'' 0x61 0x6f struct_msm_audio_amrwb_enc_config,
     IOR ''AUDIO_SET_AMRWB_ENC_CONFIG'' 0x61 0x70 struct_msm_audio_amrwb_enc_config]"

section \<open>\<^verbatim>\<open>src/include/linux/msm_audio_amrwbplus.h\<close>\<close>

definition struct_msm_audio_amrwbplus_config_v2 :: ctype where
  "struct_msm_audio_amrwbplus_config_v2 = Struct False [
    (''size_bytes'', Scalar C_uint), (''version'', Scalar C_uint),
    (''num_channels'', Scalar C_uint), (''amr_band_mode'', Scalar C_uint),
    (''amr_dtx_mode'', Scalar C_uint), (''amr_frame_fmt'', Scalar C_uint),
    (''amr_lsf_idx'', Scalar C_uint)]"

definition msm_audio_amrwbplus_ioctls :: "ioctl list" where
  "msm_audio_amrwbplus_ioctls =
    [IOR ''AUDIO_GET_AMRWBPLUS_CONFIG_V2'' 0x61 0x71 struct_msm_audio_amrwbplus_config_v2,
     IOW ''AUDIO_SET_AMRWBPLUS_CONFIG_V2'' 0x61 0x72 struct_msm_audio_amrwbplus_config_v2]"

section \<open>\<^verbatim>\<open>src/include/linux/msm_audio_ape.h\<close>\<close>

definition struct_msm_audio_ape_config :: ctype where
  "struct_msm_audio_ape_config = Struct False [
    (''compatibleVersion'', Scalar C_u16), (''compressionLevel'', Scalar C_u16),
    (''formatFlags'', Scalar C_u32), (''blocksPerFrame'', Scalar C_u32),
    (''finalFrameBlocks'', Scalar C_u32), (''totalFrames'', Scalar C_u32),
    (''bitsPerSample'', Scalar C_u16), (''numChannels'', Scalar C_u16),
    (''sampleRate'', Scalar C_u32), (''seekTablePresent'', Scalar C_u32)]"

definition msm_audio_ape_ioctls :: "ioctl list" where
  "msm_audio_ape_ioctls =
    [IOR ''AUDIO_GET_APE_CONFIG'' 0x61 0x6f struct_msm_audio_ape_config,
     IOW ''AUDIO_SET_APE_CONFIG'' 0x61 0x70 struct_msm_audio_ape_config]"

section \<open>\<^verbatim>\<open>src/include/linux/msm_audio_g711.h\<close>\<close>

definition struct_msm_audio_g711_enc_config :: ctype where
  "struct_msm_audio_g711_enc_config = Struct False [
    (''sample_rate'', Scalar C_u32)]"

definition msm_audio_g711_ioctls :: "ioctl list" where
  "msm_audio_g711_ioctls =
    [IOW ''AUDIO_SET_G711_ENC_CONFIG'' 0x61 0x6f struct_msm_audio_g711_enc_config,
     IOR ''AUDIO_GET_G711_ENC_CONFIG'' 0x61 0x70 struct_msm_audio_g711_enc_config]"

section \<open>\<^verbatim>\<open>src/include/linux/msm_audio_g711_dec.h\<close>\<close>

definition struct_msm_audio_g711_dec_config :: ctype where
  "struct_msm_audio_g711_dec_config = Struct False [
    (''sample_rate'', Scalar C_u32)]"

definition msm_audio_g711_dec_ioctls :: "ioctl list" where
  "msm_audio_g711_dec_ioctls =
    [IOW ''AUDIO_SET_G711_DEC_CONFIG'' 0x61 0x6f struct_msm_audio_g711_dec_config,
     IOR ''AUDIO_GET_G711_DEC_CONFIG'' 0x61 0x70 struct_msm_audio_g711_dec_config]"

section \<open>\<^verbatim>\<open>src/include/linux/msm_audio_mvs.h\<close>\<close>

definition mvs_mode_numbers :: "(string \<times> nat) list" where
  "mvs_mode_numbers =
    [(''MVS_MODE_IS733'', 0x1), (''MVS_MODE_IS127'', 0x2), (''MVS_MODE_4GV_NB'', 0x3),
     (''MVS_MODE_4GV_WB'', 0x4), (''MVS_MODE_AMR'', 0x5), (''MVS_MODE_EFR'', 0x6),
     (''MVS_MODE_FR'', 0x7), (''MVS_MODE_HR'', 0x8), (''MVS_MODE_LINEAR_PCM'', 0x9),
     (''MVS_MODE_G711'', 0xA), (''MVS_MODE_PCM'', 0xC), (''MVS_MODE_AMR_WB'', 0xD),
     (''MVS_MODE_G729A'', 0xE), (''MVS_MODE_G711A'', 0xF), (''MVS_MODE_G722'', 0x10),
     (''MVS_MODE_PCM_WB'', 0x12)]"

definition MVS_MAX_VOC_PKT_SIZE :: nat where "MVS_MAX_VOC_PKT_SIZE = 640"
definition Q5V2_MVS_MAX_VOC_PKT_SIZE :: nat where "Q5V2_MVS_MAX_VOC_PKT_SIZE = 320"

definition msm_audio_amr_mode :: "(string \<times> nat) list" where
  "msm_audio_amr_mode =
    enum_run 0
      [''MVS_AMR_MODE_0475'', ''MVS_AMR_MODE_0515'', ''MVS_AMR_MODE_0590'', ''MVS_AMR_MODE_0670'',
      ''MVS_AMR_MODE_0740'', ''MVS_AMR_MODE_0795'', ''MVS_AMR_MODE_1020'', ''MVS_AMR_MODE_1220'',
      ''MVS_AMR_MODE_0660'', ''MVS_AMR_MODE_0885'', ''MVS_AMR_MODE_1265'', ''MVS_AMR_MODE_1425'',
      ''MVS_AMR_MODE_1585'', ''MVS_AMR_MODE_1825'', ''MVS_AMR_MODE_1985'', ''MVS_AMR_MODE_2305'',
      ''MVS_AMR_MODE_2385'', ''MVS_AMR_MODE_UNDEF'']"

definition msm_audio_voc_rate :: "(string \<times> nat) list" where
  "msm_audio_voc_rate =
    enum_run 0
      [''MVS_VOC_0_RATE'', ''MVS_VOC_8_RATE'', ''MVS_VOC_4_RATE'', ''MVS_VOC_2_RATE'',
      ''MVS_VOC_1_RATE'', ''MVS_VOC_ERASURE'', ''MVS_VOC_RATE_MAX''] @
    enum_run 6
      [''MVS_VOC_RATE_UNDEF'']"

definition msm_audio_amr_frame_type :: "(string \<times> nat) list" where
  "msm_audio_amr_frame_type =
    enum_run 0
      [''MVS_AMR_SPEECH_GOOD'', ''MVS_AMR_SPEECH_DEGRADED'', ''MVS_AMR_ONSET'',
      ''MVS_AMR_SPEECH_BAD'', ''MVS_AMR_SID_FIRST'', ''MVS_AMR_SID_UPDATE'', ''MVS_AMR_SID_BAD'',
      ''MVS_AMR_NO_DATA'', ''MVS_AMR_SPEECH_LOST'']"

definition msm_audio_g711a_mode :: "(string \<times> nat) list" where
  "msm_audio_g711a_mode =
    enum_run 0
      [''MVS_G711A_MODE_MULAW'', ''MVS_G711A_MODE_ALAW'']"

definition msm_audio_g711_mode :: "(string \<times> nat) list" where
  "msm_audio_g711_mode =
    enum_run 0
      [''MVS_G711_MODE_MULAW'', ''MVS_G711_MODE_ALAW'']"

definition mvs_g722_mode_type :: "(string \<times> nat) list" where
  "mvs_g722_mode_type =
    enum_run 0
      [''MVS_G722_MODE_01'', ''MVS_G722_MODE_02'', ''MVS_G722_MODE_03'', ''MVS_G722_MODE_MAX'',
      ''MVS_G722_MODE_UNDEF'']"

definition msm_audio_g711a_frame_type :: "(string \<times> nat) list" where
  "msm_audio_g711a_frame_type =
    enum_run 0
      [''MVS_G711A_SPEECH_GOOD'', ''MVS_G711A_SID'', ''MVS_G711A_NO_DATA'', ''MVS_G711A_ERASURE'']"

definition msm_audio_g729a_frame_type :: "(string \<times> nat) list" where
  "msm_audio_g729a_frame_type =
    enum_run 0
      [''MVS_G729A_NO_DATA'', ''MVS_G729A_SPEECH_GOOD'', ''MVS_G729A_SID'', ''MVS_G729A_ERASURE'']"

definition struct_min_max_rate :: ctype where
  "struct_min_max_rate = Struct False [
    (''min_rate'', Scalar C_u32), (''max_rate'', Scalar C_u32)]"

definition struct_msm_audio_mvs_config :: ctype where
  "struct_msm_audio_mvs_config = Struct False [
    (''mvs_mode'', Scalar C_u32), (''rate_type'', Scalar C_u32),
    (''min_max_rate'', struct_min_max_rate), (''dtx_mode'', Scalar C_u32)]"

definition struct_gsm_header :: ctype where
  "struct_gsm_header = Struct False [
    (''bfi'', Scalar C_u8), (''sid'', Scalar C_u8), (''taf'', Scalar C_u8), (''ufi'', Scalar C_u8)]"

definition struct_q6_msm_audio_mvs_frame :: ctype where
  "struct_q6_msm_audio_mvs_frame = Struct False [
    (''header'', Union [
      (''frame_type'', Scalar C_u32), (''packet_rate'', Scalar C_u32),
      (''gsm_frame_type'', struct_gsm_header)]),
    (''len'', Scalar C_u32), (''voc_pkt'', Array (Scalar C_u8) 640)]"

definition struct_msm_audio_mvs_frame :: ctype where
  "struct_msm_audio_mvs_frame = Struct False [
    (''frame_type'', Scalar C_u32), (''len'', Scalar C_u32),
    (''voc_pkt'', Array (Scalar C_u8) 640)]"

definition struct_q5v2_msm_audio_mvs_frame :: ctype where
  "struct_q5v2_msm_audio_mvs_frame = Struct False [
    (''frame_type'', Scalar C_u32), (''len'', Scalar C_u32),
    (''voc_pkt'', Array (Scalar C_u8) 320)]"

definition msm_audio_mvs_ioctls :: "ioctl list" where
  "msm_audio_mvs_ioctls =
    [IOW ''AUDIO_GET_MVS_CONFIG'' 0x61 0x6f (Scalar C_uint),
     IOR ''AUDIO_SET_MVS_CONFIG'' 0x61 0x70 (Scalar C_uint)]"

section \<open>\<^verbatim>\<open>src/include/linux/msm_audio_qcp.h\<close>\<close>

definition cdma_rate_numbers :: "(string \<times> nat) list" where
  "cdma_rate_numbers =
    [(''CDMA_RATE_BLANK'', 0x00), (''CDMA_RATE_EIGHTH'', 0x01), (''CDMA_RATE_QUARTER'', 0x02),
     (''CDMA_RATE_HALF'', 0x03), (''CDMA_RATE_FULL'', 0x04), (''CDMA_RATE_ERASURE'', 0x05)]"

definition struct_msm_audio_qcelp_enc_config :: ctype where
  "struct_msm_audio_qcelp_enc_config = Struct False [
    (''cdma_rate'', Scalar C_u32), (''min_bit_rate'', Scalar C_u32),
    (''max_bit_rate'', Scalar C_u32)]"

definition struct_msm_audio_evrc_enc_config :: ctype where
  "struct_msm_audio_evrc_enc_config = Struct False [
    (''cdma_rate'', Scalar C_u32), (''min_bit_rate'', Scalar C_u32),
    (''max_bit_rate'', Scalar C_u32)]"

definition msm_audio_qcp_ioctls :: "ioctl list" where
  "msm_audio_qcp_ioctls =
    [IOW ''AUDIO_SET_QCELP_ENC_CONFIG'' 0x61 0x0 struct_msm_audio_qcelp_enc_config,
     IOR ''AUDIO_GET_QCELP_ENC_CONFIG'' 0x61 0x1 struct_msm_audio_qcelp_enc_config,
     IOW ''AUDIO_SET_EVRC_ENC_CONFIG'' 0x61 0x2 struct_msm_audio_evrc_enc_config,
     IOR ''AUDIO_GET_EVRC_ENC_CONFIG'' 0x61 0x3 struct_msm_audio_evrc_enc_config]"

section \<open>\<^verbatim>\<open>src/include/linux/msm_audio_sbc.h\<close>\<close>

definition audio_sbc_numbers :: "(string \<times> nat) list" where
  "audio_sbc_numbers =
    [(''AUDIO_SBC_BA_LOUDNESS'', 0x0), (''AUDIO_SBC_BA_SNR'', 0x1), (''AUDIO_SBC_MODE_MONO'',
     0x0), (''AUDIO_SBC_MODE_DUAL'', 0x1), (''AUDIO_SBC_MODE_STEREO'', 0x2),
     (''AUDIO_SBC_MODE_JSTEREO'', 0x3), (''AUDIO_SBC_BANDS_8'', 0x1), (''AUDIO_SBC_BLOCKS_4'',
     0x0), (''AUDIO_SBC_BLOCKS_8'', 0x1), (''AUDIO_SBC_BLOCKS_12'', 0x2),
     (''AUDIO_SBC_BLOCKS_16'', 0x3)]"

definition struct_msm_audio_sbc_enc_config :: ctype where
  "struct_msm_audio_sbc_enc_config = Struct False [
    (''channels'', Scalar C_u32), (''sample_rate'', Scalar C_u32),
    (''bit_allocation'', Scalar C_u32), (''number_of_subbands'', Scalar C_u32),
    (''number_of_blocks'', Scalar C_u32), (''bit_rate'', Scalar C_u32), (''mode'', Scalar C_u32)]"

definition msm_audio_sbc_ioctls :: "ioctl list" where
  "msm_audio_sbc_ioctls =
    [IOW ''AUDIO_SET_SBC_ENC_CONFIG'' 0x61 0x6f struct_msm_audio_sbc_enc_config,
     IOR ''AUDIO_GET_SBC_ENC_CONFIG'' 0x61 0x70 struct_msm_audio_sbc_enc_config]"

section \<open>\<^verbatim>\<open>src/include/linux/msm_audio_voicememo.h\<close>\<close>

definition rpc_voc_rec_dir_type :: "(string \<times> nat) list" where
  "rpc_voc_rec_dir_type =
    enum_run 0
      [''RPC_VOC_REC_NONE'', ''RPC_VOC_REC_FORWARD'', ''RPC_VOC_REC_REVERSE'', ''RPC_VOC_REC_BOTH'',
      ''RPC_VOC_MAX_REC_TYPE'']"

definition rpc_voc_capability_type :: "(string \<times> nat) list" where
  "rpc_voc_capability_type =
    enum_run 4
      [''RPC_VOC_CAP_IS733''] @
    enum_run 8
      [''RPC_VOC_CAP_IS127''] @
    enum_run 64
      [''RPC_VOC_CAP_AMR''] @
    enum_run 0x7fffffff
      [''RPC_VOC_CAP_32BIT_DUMMY'']"

definition rpc_voc_rate_type :: "(string \<times> nat) list" where
  "rpc_voc_rate_type =
    enum_run 0
      [''RPC_VOC_0_RATE'', ''RPC_VOC_8_RATE'', ''RPC_VOC_4_RATE'', ''RPC_VOC_2_RATE'',
      ''RPC_VOC_1_RATE'', ''RPC_VOC_ERASURE'', ''RPC_VOC_ERR_RATE''] @
    enum_run 0
      [''RPC_VOC_AMR_RATE_475'', ''RPC_VOC_AMR_RATE_515'', ''RPC_VOC_AMR_RATE_590'',
      ''RPC_VOC_AMR_RATE_670'', ''RPC_VOC_AMR_RATE_740'', ''RPC_VOC_AMR_RATE_795'',
      ''RPC_VOC_AMR_RATE_1020'', ''RPC_VOC_AMR_RATE_1220'']"

definition rpc_voc_pb_len_rate_var_type :: "(string \<times> nat) list" where
  "rpc_voc_pb_len_rate_var_type =
    enum_run 3
      [''RPC_VOC_PB_NATIVE_QCP'', ''RPC_VOC_PB_AMR'', ''RPC_VOC_PB_EVB'']"

definition struct_msm_audio_voicememo_config :: ctype where
  "struct_msm_audio_voicememo_config = Struct False [
    (''rec_type'', Scalar C_u32), (''rec_interval_ms'', Scalar C_u32),
    (''auto_stop_ms'', Scalar C_u32), (''capability'', Scalar C_u32), (''max_rate'', Scalar C_u32),
    (''min_rate'', Scalar C_u32), (''frame_format'', Scalar C_u32), (''dtx_enable'', Scalar C_u32),
    (''data_req_ms'', Scalar C_u32)]"

definition msm_audio_voicememo_ioctls :: "ioctl list" where
  "msm_audio_voicememo_ioctls =
    [IOW ''AUDIO_GET_VOICEMEMO_CONFIG'' 0x61 0x6f (Scalar C_uint),
     IOR ''AUDIO_SET_VOICEMEMO_CONFIG'' 0x61 0x70 (Scalar C_uint)]"

section \<open>\<^verbatim>\<open>src/include/linux/msm_audio_wma.h\<close>\<close>

definition struct_msm_audio_wma_config :: ctype where
  "struct_msm_audio_wma_config = Struct False [
    (''armdatareqthr'', Scalar C_ushort), (''channelsdecoded'', Scalar C_ushort),
    (''wmabytespersec'', Scalar C_ushort), (''wmasamplingfreq'', Scalar C_ushort),
    (''wmaencoderopts'', Scalar C_ushort)]"

definition struct_msm_audio_wma_config_v2 :: ctype where
  "struct_msm_audio_wma_config_v2 = Struct False [
    (''format_tag'', Scalar C_ushort), (''numchannels'', Scalar C_ushort),
    (''samplingrate'', Scalar C_u32), (''avgbytespersecond'', Scalar C_u32),
    (''block_align'', Scalar C_ushort), (''validbitspersample'', Scalar C_ushort),
    (''channelmask'', Scalar C_u32), (''encodeopt'', Scalar C_ushort)]"

definition msm_audio_wma_ioctls :: "ioctl list" where
  "msm_audio_wma_ioctls =
    [IOR ''AUDIO_GET_WMA_CONFIG'' 0x61 0x6f (Scalar C_uint),
     IOW ''AUDIO_SET_WMA_CONFIG'' 0x61 0x70 (Scalar C_uint),
     IOR ''AUDIO_GET_WMA_CONFIG_V2'' 0x61 0x71 struct_msm_audio_wma_config_v2,
     IOW ''AUDIO_SET_WMA_CONFIG_V2'' 0x61 0x72 struct_msm_audio_wma_config_v2]"

section \<open>\<^verbatim>\<open>src/include/linux/msm_audio_wmapro.h\<close>\<close>

definition struct_msm_audio_wmapro_config :: ctype where
  "struct_msm_audio_wmapro_config = Struct False [
    (''armdatareqthr'', Scalar C_ushort), (''validbitspersample'', Scalar C_u8),
    (''numchannels'', Scalar C_u8), (''formattag'', Scalar C_ushort),
    (''samplingrate'', Scalar C_u32), (''avgbytespersecond'', Scalar C_u32),
    (''asfpacketlength'', Scalar C_ushort), (''channelmask'', Scalar C_u32),
    (''encodeopt'', Scalar C_ushort), (''advancedencodeopt'', Scalar C_ushort),
    (''advancedencodeopt2'', Scalar C_u32)]"

definition msm_audio_wmapro_ioctls :: "ioctl list" where
  "msm_audio_wmapro_ioctls =
    [IOR ''AUDIO_GET_WMAPRO_CONFIG'' 0x61 0x6f struct_msm_audio_wmapro_config,
     IOW ''AUDIO_SET_WMAPRO_CONFIG'' 0x61 0x70 struct_msm_audio_wmapro_config]"

section \<open>\<^verbatim>\<open>src/include/sound/msmcal-hwdep.h\<close>\<close>

definition wcd9xxx_codec_hwdep_node_numbers :: "(string \<times> nat) list" where
  "wcd9xxx_codec_hwdep_node_numbers =
    [(''WCD9XXX_CODEC_HWDEP_NODE'', 1000), (''AQT1000_CODEC_HWDEP_NODE'', 1001),
     (''Q6AFE_HWDEP_NODE'', 1002)]"

definition wcd_cal_type :: "(string \<times> nat) list" where
  "wcd_cal_type =
    enum_run 0
      [''WCD9XXX_MIN_CAL''] @
    enum_run 0
      [''WCD9XXX_ANC_CAL'', ''WCD9XXX_MAD_CAL'', ''WCD9XXX_MBHC_CAL'', ''WCD9XXX_VBAT_CAL'',
      ''WCD9XXX_MAX_CAL'']"

definition q6afe_cal_type :: "(string \<times> nat) list" where
  "q6afe_cal_type =
    enum_run 0
      [''Q6AFE_MIN_CAL''] @
    enum_run 0
      [''Q6AFE_VAD_CORE_CAL'', ''Q6AFE_MAX_CAL'']"

definition struct_wcdcal_ioctl_buffer :: ctype where
  "struct_wcdcal_ioctl_buffer = Struct False [
    (''size'', Scalar C_u32), (''buffer'', Scalar C_ptr), (''cal_type'', Scalar C_enum)]"

definition struct_q6afecal_ioctl_buffer :: ctype where
  "struct_q6afecal_ioctl_buffer = Struct False [
    (''size'', Scalar C_u32), (''buffer'', Scalar C_ptr), (''cal_type'', Scalar C_enum)]"

definition SNDRV_CTL_IOCTL_HWDEP_CAL_TYPE :: ioctl where
  "SNDRV_CTL_IOCTL_HWDEP_CAL_TYPE = IOW ''SNDRV_CTL_IOCTL_HWDEP_CAL_TYPE'' 0x55 0x1 struct_wcdcal_ioctl_buffer"

definition SNDRV_IOCTL_HWDEP_VAD_CAL_TYPE :: ioctl where
  "SNDRV_IOCTL_HWDEP_VAD_CAL_TYPE = IOW ''SNDRV_IOCTL_HWDEP_VAD_CAL_TYPE'' 0x55 0x1 struct_q6afecal_ioctl_buffer"

definition msmcal_hwdep_ioctls :: "ioctl list" where
  "msmcal_hwdep_ioctls =
    [SNDRV_CTL_IOCTL_HWDEP_CAL_TYPE, SNDRV_IOCTL_HWDEP_VAD_CAL_TYPE]"

section \<open>\<^verbatim>\<open>src/include/sound/audio_slimslave.h\<close>\<close>

definition audio_slimslave_enum :: "(string \<times> nat) list" where
  "audio_slimslave_enum =
    enum_run 0
      [''AUDIO_SLIMSLAVE_UNVOTE'', ''AUDIO_SLIMSLAVE_VOTE'']"

definition audio_slimslave_ioctls :: "ioctl list" where
  "audio_slimslave_ioctls =
    [IO ''AUDIO_SLIMSLAVE_IOCTL_UNVOTE'' 0x53 0x0,
     IO ''AUDIO_SLIMSLAVE_IOCTL_VOTE'' 0x53 0x1]"

section \<open>\<^verbatim>\<open>src/include/sound/voice_params.h\<close>\<close>

definition voice_lch_mode :: "(string \<times> nat) list" where
  "voice_lch_mode =
    enum_run 1
      [''VOICE_LCH_START'', ''VOICE_LCH_STOP'']"

definition voice_params_ioctls :: "ioctl list" where
  "voice_params_ioctls =
    [IOW ''SNDRV_VOICE_IOCTL_LCH'' 0x55 0x0 (Scalar C_enum)]"

section \<open>\<^verbatim>\<open>src/include/linux/avtimer.h\<close>\<close>

definition avtimer_ioctls :: "ioctl list" where
  "avtimer_ioctls =
    [IOR ''IOCTL_GET_AVTIMER_TICK'' 0x64 0x0 (Scalar C_u64)]"

section \<open>The tables satisfy their contracts\<close>

interpretation audio_slimslave: ioctl_table audio_slimslave_ioctls
  by (rule ioctl_tableI) code_simp+

interpretation voice_params: ioctl_table voice_params_ioctls
  by (rule ioctl_tableI) code_simp+

interpretation avtimer: ioctl_table avtimer_ioctls
  by (rule ioctl_tableI) code_simp+

section \<open>Codecs behind the common audio requests\<close>

text \<open>
  Every codec device serves the requests all audio devices have, and its own behind them. The
  header reserves the numbers from \<^verbatim>\<open>AUDIO_MAX_COMMON_IOCTL_NUM\<close> for the codecs.
\<close>

definition AUDIO_MAX_COMMON_IOCTL_NUM :: nat where "AUDIO_MAX_COMMON_IOCTL_NUM = 111"

definition codec_tables :: "ioctl list list" where
  "codec_tables =
    [msm_audio_aac_ioctls, msm_audio_ac3_ioctls, msm_audio_alac_ioctls, msm_audio_amrnb_ioctls,
     msm_audio_amrwb_ioctls, msm_audio_amrwbplus_ioctls, msm_audio_ape_ioctls,
     msm_audio_g711_ioctls, msm_audio_g711_dec_ioctls, msm_audio_mvs_ioctls,
     msm_audio_sbc_ioctls, msm_audio_voicememo_ioctls, msm_audio_wma_ioctls,
     msm_audio_wmapro_ioctls]"

text \<open>
  The requests of the QCELP and EVRC encoders have numbers of the common range, so that only the
  size of the argument tells them from the common requests.
\<close>

lemma codec_tables_ok:
  "list_all (reserved_ok AUDIO_MAX_COMMON_IOCTL_NUM) codec_tables"
  "list_all (\<lambda>i. ioc_nr i < AUDIO_MAX_COMMON_IOCTL_NUM) msm_audio_ioctls"
  by code_simp+

lemma qcp_table_ok: "extends_ok msm_audio_ioctls msm_audio_qcp_ioctls"
  by code_simp

lemma codec_request_table:
  assumes "tbl \<in> set (msm_audio_qcp_ioctls # codec_tables)"
  shows "request_table (msm_audio_ioctls @ tbl)"
proof (cases "tbl = msm_audio_qcp_ioctls")
  case True
  then show ?thesis using qcp_table_ok extends_tableI [of msm_audio_ioctls "[tbl]" tbl] by simp
next
  case False
  then have "reserved_ok AUDIO_MAX_COMMON_IOCTL_NUM tbl"
    using assms codec_tables_ok(1) by (auto simp: list_all_iff)
  then have "ioctl_table (msm_audio_ioctls @ tbl)"
    by (rule reserved_table [OF msm_audio.ioctl_table_axioms codec_tables_ok(2)])
  then show ?thesis by (rule ioctl_request_table)
qed

text \<open>
  The two calibration requests of \<^verbatim>\<open>msmcal-hwdep.h\<close> are one request under two names, with two
  argument types of the same layout.
\<close>

lemma hwdep_cal_requests:
  "request dm SNDRV_CTL_IOCTL_HWDEP_CAL_TYPE = request dm SNDRV_IOCTL_HWDEP_VAD_CAL_TYPE"
  by (cases dm; hypsubst; code_simp)

end
