(* ===== verification/Compress_Offload.thy ===== *)
theory Compress_Offload
  imports C_Layout
begin

text \<open>
  Structs, numbers and requests of compressed audio: stream parameters, the offload device and
  format and effect parameters, from the headers \<^verbatim>\<open>sound/compress_params.h\<close>,
  \<^verbatim>\<open>sound/compress_offload.h\<close>,
  \<^verbatim>\<open>sound/audio_compressed_formats.h\<close>,
  \<^verbatim>\<open>sound/audio_effects.h\<close> under \<^verbatim>\<open>src/include\<close>.
\<close>

section \<open>\<^verbatim>\<open>src/include/sound/compress_params.h\<close>\<close>

definition max_num_codecs_numbers :: "(string \<times> nat) list" where
  "max_num_codecs_numbers =
    [(''MAX_NUM_CODECS'', 32), (''MAX_NUM_CODEC_DESCRIPTORS'', 32), (''MAX_NUM_BITRATES'', 32),
     (''MAX_NUM_SAMPLE_RATES'', 32), (''SND_AUDIOCODEC_PCM'', 0x00000001),
     (''SND_AUDIOCODEC_MP3'', 0x00000002), (''SND_AUDIOCODEC_AMR'', 0x00000003),
     (''SND_AUDIOCODEC_AMRWB'', 0x00000004), (''SND_AUDIOCODEC_AMRWBPLUS'', 0x00000005),
     (''SND_AUDIOCODEC_AAC'', 0x00000006), (''SND_AUDIOCODEC_WMA'', 0x00000007),
     (''SND_AUDIOCODEC_REAL'', 0x00000008), (''SND_AUDIOCODEC_VORBIS'', 0x00000009),
     (''SND_AUDIOCODEC_FLAC'', 0x0000000A), (''SND_AUDIOCODEC_IEC61937'', 0x0000000B),
     (''SND_AUDIOCODEC_G723_1'', 0x0000000C), (''SND_AUDIOCODEC_G729'', 0x0000000D),
     (''SND_AUDIOCODEC_BESPOKE'', 0x0000000E), (''SND_AUDIOCODEC_ALAC'', 0x0000000F),
     (''SND_AUDIOCODEC_APE'', 0x00000010)]"

definition snd_audioprofile_pcm_numbers :: "(string \<times> nat) list" where
  "snd_audioprofile_pcm_numbers =
    [(''SND_AUDIOPROFILE_PCM'', 0x00000001), (''SND_AUDIOCHANMODE_MP3_MONO'', 0x00000001),
     (''SND_AUDIOCHANMODE_MP3_STEREO'', 0x00000002), (''SND_AUDIOCHANMODE_MP3_JOINTSTEREO'',
     0x00000004), (''SND_AUDIOCHANMODE_MP3_DUAL'', 0x00000008), (''SND_AUDIOPROFILE_AMR'',
     0x00000001), (''SND_AUDIOMODE_AMR_DTX_OFF'', 0x00000001), (''SND_AUDIOMODE_AMR_VAD1'',
     0x00000002), (''SND_AUDIOMODE_AMR_VAD2'', 0x00000004), (''SND_AUDIOSTREAMFORMAT_UNDEFINED'',
     0x00000000), (''SND_AUDIOSTREAMFORMAT_CONFORMANCE'', 0x00000001),
     (''SND_AUDIOSTREAMFORMAT_IF1'', 0x00000002), (''SND_AUDIOSTREAMFORMAT_IF2'', 0x00000004),
     (''SND_AUDIOSTREAMFORMAT_FSF'', 0x00000008), (''SND_AUDIOSTREAMFORMAT_RTPPAYLOAD'',
     0x00000010), (''SND_AUDIOSTREAMFORMAT_ITU'', 0x00000020), (''SND_AUDIOPROFILE_AMRWB'',
     0x00000001), (''SND_AUDIOMODE_AMRWB_DTX_OFF'', 0x00000001), (''SND_AUDIOMODE_AMRWB_VAD1'',
     0x00000002), (''SND_AUDIOMODE_AMRWB_VAD2'', 0x00000004), (''SND_AUDIOPROFILE_AMRWBPLUS'',
     0x00000001), (''SND_AUDIOPROFILE_AAC'', 0x00000001), (''SND_AUDIOMODE_AAC_MAIN'',
     0x00000001), (''SND_AUDIOMODE_AAC_LC'', 0x00000002), (''SND_AUDIOMODE_AAC_SSR'', 0x00000004),
     (''SND_AUDIOMODE_AAC_LTP'', 0x00000008), (''SND_AUDIOMODE_AAC_HE'', 0x00000010),
     (''SND_AUDIOMODE_AAC_SCALABLE'', 0x00000020), (''SND_AUDIOMODE_AAC_ERLC'', 0x00000040),
     (''SND_AUDIOMODE_AAC_LD'', 0x00000080), (''SND_AUDIOMODE_AAC_HE_PS'', 0x00000100),
     (''SND_AUDIOMODE_AAC_HE_MPS'', 0x00000200), (''SND_AUDIOSTREAMFORMAT_MP2ADTS'', 0x00000001),
     (''SND_AUDIOSTREAMFORMAT_MP4ADTS'', 0x00000002), (''SND_AUDIOSTREAMFORMAT_MP4LOAS'',
     0x00000004), (''SND_AUDIOSTREAMFORMAT_MP4LATM'', 0x00000008),
     (''SND_AUDIOSTREAMFORMAT_ADIF'', 0x00000010), (''SND_AUDIOSTREAMFORMAT_MP4FF'', 0x00000020),
     (''SND_AUDIOSTREAMFORMAT_RAW'', 0x00000040), (''SND_AUDIOPROFILE_WMA7'', 0x00000001),
     (''SND_AUDIOPROFILE_WMA8'', 0x00000002), (''SND_AUDIOPROFILE_WMA9'', 0x00000004),
     (''SND_AUDIOPROFILE_WMA10'', 0x00000008), (''SND_AUDIOPROFILE_WMA9_PRO'', 0x00000010),
     (''SND_AUDIOPROFILE_WMA9_LOSSLESS'', 0x00000020), (''SND_AUDIOPROFILE_WMA10_LOSSLESS'',
     0x00000040), (''SND_AUDIOMODE_WMA_LEVEL1'', 0x00000001), (''SND_AUDIOMODE_WMA_LEVEL2'',
     0x00000002), (''SND_AUDIOMODE_WMA_LEVEL3'', 0x00000004), (''SND_AUDIOMODE_WMA_LEVEL4'',
     0x00000008), (''SND_AUDIOMODE_WMAPRO_LEVELM0'', 0x00000010),
     (''SND_AUDIOMODE_WMAPRO_LEVELM1'', 0x00000020), (''SND_AUDIOMODE_WMAPRO_LEVELM2'',
     0x00000040), (''SND_AUDIOMODE_WMAPRO_LEVELM3'', 0x00000080),
     (''SND_AUDIOSTREAMFORMAT_WMA_ASF'', 0x00000001)]"

definition snd_audiostreamformat_wma_noasf_hdr_numbers :: "(string \<times> nat) list" where
  "snd_audiostreamformat_wma_noasf_hdr_numbers =
    [(''SND_AUDIOSTREAMFORMAT_WMA_NOASF_HDR'', 0x00000002), (''SND_AUDIOPROFILE_REALAUDIO'',
     0x00000001), (''SND_AUDIOMODE_REALAUDIO_G2'', 0x00000001), (''SND_AUDIOMODE_REALAUDIO_8'',
     0x00000002), (''SND_AUDIOMODE_REALAUDIO_10'', 0x00000004),
     (''SND_AUDIOMODE_REALAUDIO_SURROUND'', 0x00000008), (''SND_AUDIOPROFILE_VORBIS'',
     0x00000001), (''SND_AUDIOMODE_VORBIS'', 0x00000001), (''SND_AUDIOPROFILE_FLAC'', 0x00000001)]"

definition snd_audiomode_flac_level0_numbers :: "(string \<times> nat) list" where
  "snd_audiomode_flac_level0_numbers =
    [(''SND_AUDIOMODE_FLAC_LEVEL0'', 0x00000001), (''SND_AUDIOMODE_FLAC_LEVEL1'', 0x00000002),
     (''SND_AUDIOMODE_FLAC_LEVEL2'', 0x00000004), (''SND_AUDIOMODE_FLAC_LEVEL3'', 0x00000008),
     (''SND_AUDIOMODE_FLAC_LEVEL4'', 0x00000010), (''SND_AUDIOMODE_FLAC_LEVEL5'', 0x00000020),
     (''SND_AUDIOMODE_FLAC_LEVEL6'', 0x00000040), (''SND_AUDIOMODE_FLAC_LEVEL7'', 0x00000080),
     (''SND_AUDIOMODE_FLAC_LEVEL8'', 0x00000100), (''SND_AUDIOSTREAMFORMAT_FLAC'', 0x00000001),
     (''SND_AUDIOSTREAMFORMAT_FLAC_OGG'', 0x00000002), (''SND_AUDIOPROFILE_IEC61937'',
     0x00000001), (''SND_AUDIOPROFILE_IEC61937_SPDIF'', 0x00000002)]"

definition snd_audiomode_iec_ref_stream_header_numbers :: "(string \<times> nat) list" where
  "snd_audiomode_iec_ref_stream_header_numbers =
    [(''SND_AUDIOMODE_IEC_REF_STREAM_HEADER'', 0x00000000), (''SND_AUDIOMODE_IEC_LPCM'',
     0x00000001), (''SND_AUDIOMODE_IEC_AC3'', 0x00000002), (''SND_AUDIOMODE_IEC_MPEG1'',
     0x00000004), (''SND_AUDIOMODE_IEC_MP3'', 0x00000008), (''SND_AUDIOMODE_IEC_MPEG2'',
     0x00000010), (''SND_AUDIOMODE_IEC_AACLC'', 0x00000020), (''SND_AUDIOMODE_IEC_DTS'',
     0x00000040), (''SND_AUDIOMODE_IEC_ATRAC'', 0x00000080), (''SND_AUDIOMODE_IEC_SACD'',
     0x00000100), (''SND_AUDIOMODE_IEC_EAC3'', 0x00000200), (''SND_AUDIOMODE_IEC_DTS_HD'',
     0x00000400), (''SND_AUDIOMODE_IEC_MLP'', 0x00000800), (''SND_AUDIOMODE_IEC_DST'',
     0x00001000), (''SND_AUDIOMODE_IEC_WMAPRO'', 0x00002000), (''SND_AUDIOMODE_IEC_REF_CXT'',
     0x00004000), (''SND_AUDIOMODE_IEC_HE_AAC'', 0x00008000), (''SND_AUDIOMODE_IEC_HE_AAC2'',
     0x00010000), (''SND_AUDIOMODE_IEC_MPEG_SURROUND'', 0x00020000), (''SND_AUDIOPROFILE_G723_1'',
     0x00000001), (''SND_AUDIOMODE_G723_1_ANNEX_A'', 0x00000001),
     (''SND_AUDIOMODE_G723_1_ANNEX_B'', 0x00000002), (''SND_AUDIOMODE_G723_1_ANNEX_C'',
     0x00000004), (''SND_AUDIOPROFILE_G729'', 0x00000001), (''SND_AUDIOMODE_G729_ANNEX_A'',
     0x00000001), (''SND_AUDIOMODE_G729_ANNEX_B'', 0x00000002)]"

definition snd_ratecontrolmode_numbers :: "(string \<times> nat) list" where
  "snd_ratecontrolmode_numbers =
    [(''SND_RATECONTROLMODE_CONSTANTBITRATE'', 0x00000001),
     (''SND_RATECONTROLMODE_VARIABLEBITRATE'', 0x00000002)]"

definition struct_snd_enc_wma :: ctype where
  "struct_snd_enc_wma = Struct False [
    (''super_block_align'', Scalar C_u32)]"

definition struct_snd_enc_vorbis :: ctype where
  "struct_snd_enc_vorbis = packed_aligned4 [
    (''quality'', Scalar C_s32), (''managed'', Scalar C_u32), (''max_bit_rate'', Scalar C_u32),
    (''min_bit_rate'', Scalar C_u32), (''downmix'', Scalar C_u32)]"

definition struct_snd_enc_real :: ctype where
  "struct_snd_enc_real = packed_aligned4 [
    (''quant_bits'', Scalar C_u32), (''start_region'', Scalar C_u32),
    (''num_regions'', Scalar C_u32)]"

definition struct_snd_enc_flac :: ctype where
  "struct_snd_enc_flac = packed_aligned4 [
    (''num'', Scalar C_u32), (''gain'', Scalar C_u32)]"

definition struct_snd_enc_generic :: ctype where
  "struct_snd_enc_generic = packed_aligned4 [
    (''bw'', Scalar C_u32), (''reserved'', Array (Scalar C_s32) 15)]"

definition struct_snd_dec_flac :: ctype where
  "struct_snd_dec_flac = packed_aligned4 [
    (''sample_size'', Scalar C_u16), (''min_blk_size'', Scalar C_u16),
    (''max_blk_size'', Scalar C_u16), (''min_frame_size'', Scalar C_u16),
    (''max_frame_size'', Scalar C_u16), (''reserved'', Scalar C_u16)]"

definition struct_snd_dec_wma :: ctype where
  "struct_snd_dec_wma = packed_aligned4 [
    (''encoder_option'', Scalar C_u32), (''adv_encoder_option'', Scalar C_u32),
    (''adv_encoder_option2'', Scalar C_u32), (''reserved'', Scalar C_u32)]"

definition struct_snd_dec_alac :: ctype where
  "struct_snd_dec_alac = packed_aligned4 [
    (''frame_length'', Scalar C_u32), (''compatible_version'', Scalar C_u8), (''pb'', Scalar C_u8),
    (''mb'', Scalar C_u8), (''kb'', Scalar C_u8), (''max_run'', Scalar C_u32),
    (''max_frame_bytes'', Scalar C_u32)]"

definition struct_snd_dec_ape :: ctype where
  "struct_snd_dec_ape = packed_aligned4 [
    (''compatible_version'', Scalar C_u16), (''compression_level'', Scalar C_u16),
    (''format_flags'', Scalar C_u32), (''blocks_per_frame'', Scalar C_u32),
    (''final_frame_blocks'', Scalar C_u32), (''total_frames'', Scalar C_u32),
    (''seek_table_present'', Scalar C_u32)]"

definition struct_snd_codec_options :: ctype where
  "struct_snd_codec_options = packed_aligned4 [('''', Union [
    (''wma'', struct_snd_enc_wma), (''vorbis'', struct_snd_enc_vorbis),
    (''real'', struct_snd_enc_real), (''flac'', struct_snd_enc_flac),
    (''generic'', struct_snd_enc_generic), (''flac_d'', struct_snd_dec_flac),
    (''wma_d'', struct_snd_dec_wma), (''alac_d'', struct_snd_dec_alac),
    (''ape_d'', struct_snd_dec_ape)])]"

definition struct_snd_codec_desc :: ctype where
  "struct_snd_codec_desc = packed_aligned4 [
    (''max_ch'', Scalar C_u32), (''sample_rates'', Array (Scalar C_u32) 32),
    (''num_sample_rates'', Scalar C_u32), (''bit_rate'', Array (Scalar C_u32) 32),
    (''num_bitrates'', Scalar C_u32), (''rate_control'', Scalar C_u32),
    (''profiles'', Scalar C_u32), (''modes'', Scalar C_u32), (''formats'', Scalar C_u32),
    (''min_buffer'', Scalar C_u32), (''reserved'', Array (Scalar C_u32) 15)]"

definition struct_snd_codec :: ctype where
  "struct_snd_codec = packed_aligned4 [
    (''id'', Scalar C_u32), (''ch_in'', Scalar C_u32), (''ch_out'', Scalar C_u32),
    (''sample_rate'', Scalar C_u32), (''bit_rate'', Scalar C_u32),
    (''rate_control'', Scalar C_u32), (''profile'', Scalar C_u32), (''level'', Scalar C_u32),
    (''ch_mode'', Scalar C_u32), (''format'', Scalar C_u32), (''align'', Scalar C_u32),
    (''options'', struct_snd_codec_options), (''reserved'', Array (Scalar C_u32) 3)]"

section \<open>\<^verbatim>\<open>src/include/sound/compress_offload.h\<close>\<close>

definition snd_compr_trigger_numbers :: "(string \<times> nat) list" where
  "snd_compr_trigger_numbers =
    [(''SND_COMPR_TRIGGER_DRAIN'', 7), (''SND_COMPR_TRIGGER_NEXT_TRACK'', 8),
     (''SND_COMPR_TRIGGER_PARTIAL_DRAIN'', 9)]"

definition snd_compr_direction :: "(string \<times> nat) list" where
  "snd_compr_direction =
    enum_run 0
      [''SND_COMPRESS_PLAYBACK'', ''SND_COMPRESS_CAPTURE'']"

definition sndrv_compress_encoder :: "(string \<times> nat) list" where
  "sndrv_compress_encoder =
    enum_run 1
      [''SNDRV_COMPRESS_ENCODER_PADDING'', ''SNDRV_COMPRESS_ENCODER_DELAY'']"

definition struct_snd_compressed_buffer :: ctype where
  "struct_snd_compressed_buffer = packed_aligned4 [
    (''fragment_size'', Scalar C_u32), (''fragments'', Scalar C_u32)]"

definition struct_snd_compr_params :: ctype where
  "struct_snd_compr_params = packed_aligned4 [
    (''buffer'', struct_snd_compressed_buffer), (''codec'', struct_snd_codec),
    (''no_wake_mode'', Scalar C_u8)]"

definition struct_snd_compr_tstamp :: ctype where
  "struct_snd_compr_tstamp = packed_aligned4 [
    (''byte_offset'', Scalar C_u32), (''copied_total'', Scalar C_u32),
    (''pcm_frames'', Scalar C_u32), (''pcm_io_frames'', Scalar C_u32),
    (''sampling_rate'', Scalar C_u32)]"

definition struct_snd_compr_avail :: ctype where
  "struct_snd_compr_avail = packed_aligned4 [
    (''avail'', Scalar C_u64), (''tstamp'', struct_snd_compr_tstamp)]"

definition struct_snd_compr_caps :: ctype where
  "struct_snd_compr_caps = packed_aligned4 [
    (''num_codecs'', Scalar C_u32), (''direction'', Scalar C_u32),
    (''min_fragment_size'', Scalar C_u32), (''max_fragment_size'', Scalar C_u32),
    (''min_fragments'', Scalar C_u32), (''max_fragments'', Scalar C_u32),
    (''codecs'', Array (Scalar C_u32) 32), (''reserved'', Array (Scalar C_u32) 11)]"

definition struct_snd_compr_codec_caps :: ctype where
  "struct_snd_compr_codec_caps = packed_aligned4 [
    (''codec'', Scalar C_u32), (''num_descriptors'', Scalar C_u32),
    (''descriptor'', Array struct_snd_codec_desc 32)]"

definition struct_snd_compr_metadata :: ctype where
  "struct_snd_compr_metadata = packed_aligned4 [
    (''key'', Scalar C_u32), (''value'', Array (Scalar C_u32) 8)]"

definition compress_offload_ioctls :: "ioctl list" where
  "compress_offload_ioctls =
    [IOR ''SNDRV_COMPRESS_IOCTL_VERSION'' 0x43 0x0 (Scalar C_int),
     IOWR ''SNDRV_COMPRESS_GET_CAPS'' 0x43 0x10 struct_snd_compr_caps,
     IOWR ''SNDRV_COMPRESS_GET_CODEC_CAPS'' 0x43 0x11 struct_snd_compr_codec_caps,
     IOW ''SNDRV_COMPRESS_SET_PARAMS'' 0x43 0x12 struct_snd_compr_params,
     IOR ''SNDRV_COMPRESS_GET_PARAMS'' 0x43 0x13 struct_snd_codec,
     IOW ''SNDRV_COMPRESS_SET_METADATA'' 0x43 0x14 struct_snd_compr_metadata,
     IOWR ''SNDRV_COMPRESS_GET_METADATA'' 0x43 0x15 struct_snd_compr_metadata,
     IOR ''SNDRV_COMPRESS_TSTAMP'' 0x43 0x20 struct_snd_compr_tstamp,
     IOR ''SNDRV_COMPRESS_AVAIL'' 0x43 0x21 struct_snd_compr_avail,
     IO ''SNDRV_COMPRESS_PAUSE'' 0x43 0x30,
     IO ''SNDRV_COMPRESS_RESUME'' 0x43 0x31,
     IO ''SNDRV_COMPRESS_START'' 0x43 0x32,
     IO ''SNDRV_COMPRESS_STOP'' 0x43 0x33,
     IO ''SNDRV_COMPRESS_DRAIN'' 0x43 0x34,
     IO ''SNDRV_COMPRESS_NEXT_TRACK'' 0x43 0x35,
     IO ''SNDRV_COMPRESS_PARTIAL_DRAIN'' 0x43 0x36]"

section \<open>\<^verbatim>\<open>src/include/sound/audio_compressed_formats.h\<close>\<close>

definition audio_comp_format_numbers :: "(string \<times> nat) list" where
  "audio_comp_format_numbers =
    [(''AUDIO_COMP_FORMAT_ALAC'', 0x1), (''AUDIO_COMP_FORMAT_APE'', 0x2),
     (''AUDIO_COMP_FORMAT_APTX'', 0x3), (''AUDIO_COMP_FORMAT_DSD'', 0x4),
     (''AUDIO_COMP_FORMAT_FLAC'', 0x5), (''AUDIO_COMP_FORMAT_VORBIS'', 0x6),
     (''AUDIO_COMP_FORMAT_WMA'', 0x7), (''AUDIO_COMP_FORMAT_WMA_PRO'', 0x8)]"

definition struct_snd_generic_dec_aac :: ctype where
  "struct_snd_generic_dec_aac = packed_aligned4 [
    (''audio_obj_type'', Scalar C_u16), (''pce_bits_size'', Scalar C_u16)]"

definition struct_snd_generic_dec_flac :: ctype where
  "struct_snd_generic_dec_flac = packed_aligned4 [
    (''sample_size'', Scalar C_u16), (''min_blk_size'', Scalar C_u16),
    (''max_blk_size'', Scalar C_u16), (''min_frame_size'', Scalar C_u16),
    (''max_frame_size'', Scalar C_u16)]"

definition struct_snd_generic_dec_alac :: ctype where
  "struct_snd_generic_dec_alac = packed_aligned4 [
    (''frame_length'', Scalar C_u32), (''compatible_version'', Scalar C_u8),
    (''bit_depth'', Scalar C_u8), (''pb'', Scalar C_u8), (''mb'', Scalar C_u8),
    (''kb'', Scalar C_u8), (''num_channels'', Scalar C_u8), (''max_run'', Scalar C_u16),
    (''max_frame_bytes'', Scalar C_u32), (''avg_bit_rate'', Scalar C_u32),
    (''sample_rate'', Scalar C_u32), (''channel_layout_tag'', Scalar C_u32)]"

definition struct_snd_generic_dec_ape :: ctype where
  "struct_snd_generic_dec_ape = packed_aligned4 [
    (''compatible_version'', Scalar C_u16), (''compression_level'', Scalar C_u16),
    (''format_flags'', Scalar C_u32), (''blocks_per_frame'', Scalar C_u32),
    (''final_frame_blocks'', Scalar C_u32), (''total_frames'', Scalar C_u32),
    (''bits_per_sample'', Scalar C_u16), (''num_channels'', Scalar C_u16),
    (''sample_rate'', Scalar C_u32), (''seek_table_present'', Scalar C_u32)]"

definition struct_snd_generic_dec_wma :: ctype where
  "struct_snd_generic_dec_wma = packed_aligned4 [
    (''super_block_align'', Scalar C_u32), (''bits_per_sample'', Scalar C_u32),
    (''channelmask'', Scalar C_u32), (''encodeopt'', Scalar C_u32), (''encodeopt1'', Scalar C_u32),
    (''encodeopt2'', Scalar C_u32), (''avg_bit_rate'', Scalar C_u32)]"

definition struct_snd_generic_dec_aptx :: ctype where
  "struct_snd_generic_dec_aptx = packed_aligned4 [
    (''lap'', Scalar C_u32), (''uap'', Scalar C_u32), (''nap'', Scalar C_u32)]"

definition struct_snd_generic_dec_vorbis :: ctype where
  "struct_snd_generic_dec_vorbis = packed_aligned4 [
    (''bit_stream_fmt'', Scalar C_u32)]"

definition struct_snd_generic_dec_dsd :: ctype where
  "struct_snd_generic_dec_dsd = packed_aligned4 [
    (''blk_size'', Scalar C_u32)]"

definition struct_snd_generic_dec_amrwb_plus :: ctype where
  "struct_snd_generic_dec_amrwb_plus = packed_aligned4 [
    (''bit_stream_fmt'', Scalar C_u32)]"

section \<open>\<^verbatim>\<open>src/include/sound/audio_effects.h\<close>\<close>

definition audio_effects_config_numbers :: "(string \<times> nat) list" where
  "audio_effects_config_numbers =
    [(''AUDIO_EFFECTS_CONFIG_CACHE'', 0), (''AUDIO_EFFECTS_CONFIG_SET'', 1),
     (''AUDIO_EFFECTS_CONFIG_GET'', 2)]"

definition virtualizer_module_numbers :: "(string \<times> nat) list" where
  "virtualizer_module_numbers =
    [(''VIRTUALIZER_MODULE'', 0x00001000), (''VIRTUALIZER_ENABLE'', 0x00001001),
     (''VIRTUALIZER_STRENGTH'', 0x00001002), (''VIRTUALIZER_OUT_TYPE'', 0x00001003),
     (''VIRTUALIZER_GAIN_ADJUST'', 0x00001004), (''VIRTUALIZER_ENABLE_PARAM_LEN'', 1),
     (''VIRTUALIZER_STRENGTH_PARAM_LEN'', 1), (''VIRTUALIZER_OUT_TYPE_PARAM_LEN'', 1),
     (''VIRTUALIZER_GAIN_ADJUST_PARAM_LEN'', 1), (''REVERB_MODULE'', 0x00002000),
     (''REVERB_ENABLE'', 0x00002001), (''REVERB_MODE'', 0x00002002), (''REVERB_PRESET'',
     0x00002003), (''REVERB_WET_MIX'', 0x00002004), (''REVERB_GAIN_ADJUST'', 0x00002005),
     (''REVERB_ROOM_LEVEL'', 0x00002006), (''REVERB_ROOM_HF_LEVEL'', 0x00002007),
     (''REVERB_DECAY_TIME'', 0x00002008), (''REVERB_DECAY_HF_RATIO'', 0x00002009),
     (''REVERB_REFLECTIONS_LEVEL'', 0x0000200a), (''REVERB_REFLECTIONS_DELAY'', 0x0000200b),
     (''REVERB_LEVEL'', 0x0000200c), (''REVERB_DELAY'', 0x0000200d), (''REVERB_DIFFUSION'',
     0x0000200e), (''REVERB_DENSITY'', 0x0000200f), (''REVERB_ENABLE_PARAM_LEN'', 1),
     (''REVERB_MODE_PARAM_LEN'', 1), (''REVERB_PRESET_PARAM_LEN'', 1),
     (''REVERB_WET_MIX_PARAM_LEN'', 1), (''REVERB_GAIN_ADJUST_PARAM_LEN'', 1),
     (''REVERB_ROOM_LEVEL_PARAM_LEN'', 1), (''REVERB_ROOM_HF_LEVEL_PARAM_LEN'', 1),
     (''REVERB_DECAY_TIME_PARAM_LEN'', 1), (''REVERB_DECAY_HF_RATIO_PARAM_LEN'', 1),
     (''REVERB_REFLECTIONS_LEVEL_PARAM_LEN'', 1), (''REVERB_REFLECTIONS_DELAY_PARAM_LEN'', 1),
     (''REVERB_LEVEL_PARAM_LEN'', 1), (''REVERB_DELAY_PARAM_LEN'', 1),
     (''REVERB_DIFFUSION_PARAM_LEN'', 1), (''REVERB_DENSITY_PARAM_LEN'', 1),
     (''BASS_BOOST_MODULE'', 0x00003000), (''BASS_BOOST_ENABLE'', 0x00003001),
     (''BASS_BOOST_MODE'', 0x00003002), (''BASS_BOOST_STRENGTH'', 0x00003003),
     (''BASS_BOOST_ENABLE_PARAM_LEN'', 1), (''BASS_BOOST_MODE_PARAM_LEN'', 1),
     (''BASS_BOOST_STRENGTH_PARAM_LEN'', 1), (''EQ_MODULE'', 0x00004000), (''EQ_ENABLE'',
     0x00004001), (''EQ_CONFIG'', 0x00004002), (''EQ_NUM_BANDS'', 0x00004003),
     (''EQ_BAND_LEVELS'', 0x00004004), (''EQ_BAND_LEVEL_RANGE'', 0x00004005), (''EQ_BAND_FREQS'',
     0x00004006), (''EQ_SINGLE_BAND_FREQ_RANGE'', 0x00004007), (''EQ_SINGLE_BAND_FREQ'',
     0x00004008), (''EQ_BAND_INDEX'', 0x00004009), (''EQ_PRESET_ID'', 0x0000400a),
     (''EQ_NUM_PRESETS'', 0x0000400b), (''EQ_PRESET_NAME'', 0x0000400c), (''EQ_ENABLE_PARAM_LEN'',
     1), (''EQ_CONFIG_PARAM_LEN'', 3), (''EQ_CONFIG_PER_BAND_PARAM_LEN'', 5),
     (''EQ_NUM_BANDS_PARAM_LEN'', 1), (''EQ_BAND_LEVELS_PARAM_LEN'', 13),
     (''EQ_BAND_LEVEL_RANGE_PARAM_LEN'', 2), (''EQ_BAND_FREQS_PARAM_LEN'', 13),
     (''EQ_SINGLE_BAND_FREQ_RANGE_PARAM_LEN'', 2), (''EQ_SINGLE_BAND_FREQ_PARAM_LEN'', 1),
     (''EQ_BAND_INDEX_PARAM_LEN'', 1), (''EQ_PRESET_ID_PARAM_LEN'', 1),
     (''EQ_NUM_PRESETS_PARAM_LEN'', 1), (''EQ_PRESET_NAME_PARAM_LEN'', 32), (''EQ_TYPE_NONE'', 0),
     (''EQ_BASS_BOOST'', 1), (''EQ_BASS_CUT'', 2), (''EQ_TREBLE_BOOST'', 3), (''EQ_TREBLE_CUT'',
     4), (''EQ_BAND_BOOST'', 5), (''EQ_BAND_CUT'', 6), (''SOFT_VOLUME_MODULE'', 0x00006000),
     (''SOFT_VOLUME_ENABLE'', 0x00006001), (''SOFT_VOLUME_GAIN_2CH'', 0x00006002),
     (''SOFT_VOLUME_GAIN_MASTER'', 0x00006003), (''SOFT_VOLUME_ENABLE_PARAM_LEN'', 1),
     (''SOFT_VOLUME_GAIN_2CH_PARAM_LEN'', 2), (''SOFT_VOLUME_GAIN_MASTER_PARAM_LEN'', 1),
     (''SOFT_VOLUME2_MODULE'', 0x00007000), (''SOFT_VOLUME2_ENABLE'', 0x00007001),
     (''SOFT_VOLUME2_GAIN_2CH'', 0x00007002), (''SOFT_VOLUME2_GAIN_MASTER'', 0x00007003),
     (''SOFT_VOLUME2_ENABLE_PARAM_LEN'', 1), (''SOFT_VOLUME2_GAIN_2CH_PARAM_LEN'', 2)]"

definition SOFT_VOLUME2_GAIN_MASTER_PARAM_LEN :: nat where
  "SOFT_VOLUME2_GAIN_MASTER_PARAM_LEN = 1"
definition pbe_conf_module_id_numbers :: "(string \<times> nat) list" where
  "pbe_conf_module_id_numbers =
    [(''PBE_CONF_MODULE_ID'', 0x00010C2A), (''PBE_CONF_PARAM_ID'', 0x00010C49), (''PBE_MODULE'',
     0x00008000), (''PBE_ENABLE'', 0x00008001), (''PBE_CONFIG'', 0x00008002),
     (''PBE_ENABLE_PARAM_LEN'', 1), (''PBE_CONFIG_PARAM_LEN'', 28), (''COMMAND_PAYLOAD_LEN'', 3),
     (''COMMAND_IID_PAYLOAD_LEN'', 4), (''MAX_INBAND_PARAM_SZ'', 4096), (''Q27_UNITY'',
     134217728), (''Q8_UNITY'', 256), (''CUSTOM_OPENSL_PRESET'', 18)]"

definition NUM_OSL_REVERB_PRESETS_SUPPORTED :: nat where "NUM_OSL_REVERB_PRESETS_SUPPORTED = 6"
definition max_eq_bands_numbers :: "(string \<times> nat) list" where
  "max_eq_bands_numbers =
    [(''MAX_EQ_BANDS'', 12), (''MAX_OSL_EQ_BANDS'', 5)]"

definition EQ_CONFIG_PARAM_MAX_LEN :: nat where "EQ_CONFIG_PARAM_MAX_LEN = 63"

definition struct_virtualizer_params :: ctype where
  "struct_virtualizer_params = Struct False [
    (''device'', Scalar C_u32), (''enable_flag'', Scalar C_u32), (''strength'', Scalar C_u32),
    (''out_type'', Scalar C_u32), (''gain_adjust'', Scalar C_s32)]"

definition struct_reverb_params :: ctype where
  "struct_reverb_params = Struct False [
    (''device'', Scalar C_u32), (''enable_flag'', Scalar C_u32), (''mode'', Scalar C_u32),
    (''preset'', Scalar C_u32), (''wet_mix'', Scalar C_u32), (''gain_adjust'', Scalar C_s32),
    (''room_level'', Scalar C_s32), (''room_hf_level'', Scalar C_s32),
    (''decay_time'', Scalar C_u32), (''decay_hf_ratio'', Scalar C_u32),
    (''reflections_level'', Scalar C_s32), (''reflections_delay'', Scalar C_u32),
    (''level'', Scalar C_s32), (''delay'', Scalar C_u32), (''diffusion'', Scalar C_u32),
    (''density'', Scalar C_u32)]"

definition struct_bass_boost_params :: ctype where
  "struct_bass_boost_params = Struct False [
    (''device'', Scalar C_u32), (''enable_flag'', Scalar C_u32), (''mode'', Scalar C_u32),
    (''strength'', Scalar C_u32)]"

definition struct_eq_config_t :: ctype where
  "struct_eq_config_t = Struct False [
    (''eq_pregain'', Scalar C_s32), (''preset_id'', Scalar C_s32), (''num_bands'', Scalar C_u32)]"

definition struct_eq_per_band_config_t :: ctype where
  "struct_eq_per_band_config_t = Struct False [
    (''band_idx'', Scalar C_s32), (''filter_type'', Scalar C_u32),
    (''freq_millihertz'', Scalar C_u32), (''gain_millibels'', Scalar C_s32),
    (''quality_factor'', Scalar C_u32)]"

definition struct_eq_per_band_freq_range_t :: ctype where
  "struct_eq_per_band_freq_range_t = Struct False [
    (''band_index'', Scalar C_u32), (''min_freq_millihertz'', Scalar C_u32),
    (''max_freq_millihertz'', Scalar C_u32)]"

definition struct_eq_params :: ctype where
  "struct_eq_params = Struct False [
    (''device'', Scalar C_u32), (''enable_flag'', Scalar C_u32), (''config'', struct_eq_config_t),
    (''per_band_cfg'', Array struct_eq_per_band_config_t 12),
    (''per_band_freq_range'', Array struct_eq_per_band_freq_range_t 12),
    (''band_index'', Scalar C_u32), (''freq_millihertz'', Scalar C_u32)]"

definition struct_pbe_config_t :: ctype where
  "struct_pbe_config_t = Struct True [
    (''real_bass_mix'', Scalar C_s16), (''bass_color_control'', Scalar C_s16),
    (''main_chain_delay'', Scalar C_u16), (''xover_filter_order'', Scalar C_u16),
    (''bandpass_filter_order'', Scalar C_u16), (''drc_delay'', Scalar C_s16),
    (''rms_tav'', Scalar C_u16), (''exp_threshold'', Scalar C_s16), (''exp_slope'', Scalar C_u16),
    (''comp_threshold'', Scalar C_s16), (''comp_slope'', Scalar C_u16),
    (''makeup_gain'', Scalar C_u16), (''comp_attack'', Scalar C_u32),
    (''comp_release'', Scalar C_u32), (''exp_attack'', Scalar C_u32),
    (''exp_release'', Scalar C_u32), (''limiter_bass_threshold'', Scalar C_s16),
    (''limiter_high_threshold'', Scalar C_s16), (''limiter_bass_makeup_gain'', Scalar C_s16),
    (''limiter_high_makeup_gain'', Scalar C_s16), (''limiter_bass_gc'', Scalar C_s16),
    (''limiter_high_gc'', Scalar C_s16), (''limiter_delay'', Scalar C_s16),
    (''reserved'', Scalar C_u16), (''p1LowPassCoeffs'', Array (Scalar C_s32) 10),
    (''p1HighPassCoeffs'', Array (Scalar C_s32) 10),
    (''p1BandPassCoeffs'', Array (Scalar C_s32) 15),
    (''p1BassShelfCoeffs'', Array (Scalar C_s32) 5),
    (''p1TrebleShelfCoeffs'', Array (Scalar C_s32) 5)]"

definition struct_pbe_params :: ctype where
  "struct_pbe_params = Struct False [
    (''device'', Scalar C_u32), (''enable_flag'', Scalar C_u32), (''cfg_len'', Scalar C_u32),
    (''config'', struct_pbe_config_t)]"

definition struct_soft_volume_params :: ctype where
  "struct_soft_volume_params = Struct False [
    (''device'', Scalar C_u32), (''enable_flag'', Scalar C_u32), (''master_gain'', Scalar C_u32),
    (''left_gain'', Scalar C_u32), (''right_gain'', Scalar C_u32)]"

definition struct_msm_nt_eff_all_config :: ctype where
  "struct_msm_nt_eff_all_config = Struct False [
    (''bass_boost'', struct_bass_boost_params), (''pbe'', struct_pbe_params),
    (''virtualizer'', struct_virtualizer_params), (''reverb'', struct_reverb_params),
    (''equalizer'', struct_eq_params), (''saplus_vol'', struct_soft_volume_params),
    (''topo_switch_vol'', struct_soft_volume_params)]"

section \<open>The tables satisfy their contracts\<close>

interpretation compress_offload: ioctl_table compress_offload_ioctls
  by (rule ioctl_tableI) code_simp+

section \<open>Both widths\<close>

definition compress_structs :: "ctype list" where
  "compress_structs =
    [struct_snd_codec_desc, struct_snd_codec, struct_snd_compressed_buffer, struct_snd_compr_params,
     struct_snd_compr_tstamp, struct_snd_compr_avail, struct_snd_compr_caps,
     struct_snd_compr_codec_caps, struct_snd_compr_metadata]"

text \<open>
  The structs of the offload device have the same bytes in 32-bit and 64-bit processes, and none is
  longer than the size field of a request.
\<close>

lemma compress_structs_fixed: "list_all fixed_width compress_structs"
  by code_simp

lemma compress_compat:
  "t \<in> set compress_structs \<Longrightarrow> csize ILP32 t = csize LP64 t \<and> encode ILP32 t v = encode LP64 t v"
  using compress_structs_fixed fixed_width_csize [of t ILP32 LP64] fixed_width_encode [of t ILP32 v LP64]
  by (simp add: list_all_iff)

lemma compress_numbers_compat:
  assumes "ioc_encoding enc" and "i \<in> set compress_offload_ioctls" and "j \<in> set compress_offload_ioctls"
  shows "enc (request ILP32 i) = enc (request LP64 j) \<longleftrightarrow> i = j"
proof -
  have "list_all (\<lambda>i. arg_size ILP32 i = arg_size LP64 i) compress_offload_ioctls"
    by code_simp
  then show ?thesis
    using compress_offload.number_across [OF assms] assms(2) by (simp add: list_all_iff)
qed

end
