(* ===== verification/Topology.thy ===== *)
theory Topology
  imports C_Layout
begin

text \<open>
  Structs, numbers and requests of the audio topology files, their tokens and firmware images, from
  the headers \<^verbatim>\<open>sound/asoc.h\<close>,
  \<^verbatim>\<open>sound/skl-tplg-interface.h\<close>, \<^verbatim>\<open>sound/sof/fw.h\<close>,
  \<^verbatim>\<open>sound/sof/header.h\<close>, \<^verbatim>\<open>sound/snd_sst_tokens.h\<close>,
  \<^verbatim>\<open>sound/sof/tokens.h\<close>, \<^verbatim>\<open>sound/wcd-dsp-glink.h\<close>
  under \<^verbatim>\<open>src/include\<close>.
\<close>

section \<open>\<^verbatim>\<open>src/include/sound/asoc.h\<close>\<close>

definition SND_SOC_TPLG_MAX_CHAN :: nat where "SND_SOC_TPLG_MAX_CHAN = 8"
definition SND_SOC_TPLG_MAX_FORMATS :: nat where "SND_SOC_TPLG_MAX_FORMATS = 16"
definition SND_SOC_TPLG_STREAM_CONFIG_MAX :: nat where "SND_SOC_TPLG_STREAM_CONFIG_MAX = 8"
definition snd_soc_tplg_numbers :: "(string \<times> nat) list" where
  "snd_soc_tplg_numbers =
    [(''SND_SOC_TPLG_HW_CONFIG_MAX'', 8), (''SND_SOC_TPLG_CTL_VOLSW'', 1),
     (''SND_SOC_TPLG_CTL_VOLSW_SX'', 2), (''SND_SOC_TPLG_CTL_VOLSW_XR_SX'', 3),
     (''SND_SOC_TPLG_CTL_ENUM'', 4), (''SND_SOC_TPLG_CTL_BYTES'', 5),
     (''SND_SOC_TPLG_CTL_ENUM_VALUE'', 6), (''SND_SOC_TPLG_CTL_RANGE'', 7),
     (''SND_SOC_TPLG_CTL_STROBE'', 8)]"

definition snd_soc_tplg_numbers_2 :: "(string \<times> nat) list" where
  "snd_soc_tplg_numbers_2 =
    [(''SND_SOC_TPLG_DAPM_CTL_VOLSW'', 64), (''SND_SOC_TPLG_DAPM_CTL_ENUM_DOUBLE'', 65),
     (''SND_SOC_TPLG_DAPM_CTL_ENUM_VIRT'', 66), (''SND_SOC_TPLG_DAPM_CTL_ENUM_VALUE'', 67),
     (''SND_SOC_TPLG_DAPM_CTL_PIN'', 68), (''SND_SOC_TPLG_DAPM_INPUT'', 0),
     (''SND_SOC_TPLG_DAPM_OUTPUT'', 1), (''SND_SOC_TPLG_DAPM_MUX'', 2),
     (''SND_SOC_TPLG_DAPM_MIXER'', 3), (''SND_SOC_TPLG_DAPM_PGA'', 4),
     (''SND_SOC_TPLG_DAPM_OUT_DRV'', 5), (''SND_SOC_TPLG_DAPM_ADC'', 6),
     (''SND_SOC_TPLG_DAPM_DAC'', 7), (''SND_SOC_TPLG_DAPM_SWITCH'', 8),
     (''SND_SOC_TPLG_DAPM_PRE'', 9), (''SND_SOC_TPLG_DAPM_POST'', 10),
     (''SND_SOC_TPLG_DAPM_AIF_IN'', 11), (''SND_SOC_TPLG_DAPM_AIF_OUT'', 12),
     (''SND_SOC_TPLG_DAPM_DAI_IN'', 13), (''SND_SOC_TPLG_DAPM_DAI_OUT'', 14),
     (''SND_SOC_TPLG_DAPM_DAI_LINK'', 15), (''SND_SOC_TPLG_DAPM_BUFFER'', 16),
     (''SND_SOC_TPLG_DAPM_SCHEDULER'', 17), (''SND_SOC_TPLG_DAPM_EFFECT'', 18),
     (''SND_SOC_TPLG_DAPM_SIGGEN'', 19), (''SND_SOC_TPLG_DAPM_SRC'', 20),
     (''SND_SOC_TPLG_DAPM_ASRC'', 21), (''SND_SOC_TPLG_DAPM_ENCODER'', 22),
     (''SND_SOC_TPLG_DAPM_DECODER'', 23), (''SND_SOC_TPLG_DAPM_LAST'', 23),
     (''SND_SOC_TPLG_MAGIC'', 0x41536F43), (''SND_SOC_TPLG_NUM_TEXTS'', 16),
     (''SND_SOC_TPLG_ABI_VERSION'', 0x5), (''SND_SOC_TPLG_ABI_VERSION_MIN'', 0x4),
     (''SND_SOC_TPLG_TLV_SIZE'', 32)]"

definition snd_soc_tplg_numbers_3 :: "(string \<times> nat) list" where
  "snd_soc_tplg_numbers_3 =
    [(''SND_SOC_TPLG_TYPE_MIXER'', 1), (''SND_SOC_TPLG_TYPE_BYTES'', 2),
     (''SND_SOC_TPLG_TYPE_ENUM'', 3), (''SND_SOC_TPLG_TYPE_DAPM_GRAPH'', 4),
     (''SND_SOC_TPLG_TYPE_DAPM_WIDGET'', 5), (''SND_SOC_TPLG_TYPE_DAI_LINK'', 6),
     (''SND_SOC_TPLG_TYPE_PCM'', 7), (''SND_SOC_TPLG_TYPE_MANIFEST'', 8),
     (''SND_SOC_TPLG_TYPE_CODEC_LINK'', 9), (''SND_SOC_TPLG_TYPE_BACKEND_LINK'', 10),
     (''SND_SOC_TPLG_TYPE_PDATA'', 11), (''SND_SOC_TPLG_TYPE_DAI'', 12),
     (''SND_SOC_TPLG_TYPE_MAX'', 12), (''SND_SOC_TPLG_TYPE_VENDOR_FW'', 1000),
     (''SND_SOC_TPLG_TYPE_VENDOR_CONFIG'', 1001), (''SND_SOC_TPLG_TYPE_VENDOR_COEFF'', 1002),
     (''SND_SOC_TPLG_TYPEVENDOR_CODEC'', 1003), (''SND_SOC_TPLG_STREAM_PLAYBACK'', 0),
     (''SND_SOC_TPLG_STREAM_CAPTURE'', 1), (''SND_SOC_TPLG_TUPLE_TYPE_UUID'', 0),
     (''SND_SOC_TPLG_TUPLE_TYPE_STRING'', 1), (''SND_SOC_TPLG_TUPLE_TYPE_BOOL'', 2),
     (''SND_SOC_TPLG_TUPLE_TYPE_BYTE'', 3), (''SND_SOC_TPLG_TUPLE_TYPE_WORD'', 4),
     (''SND_SOC_TPLG_TUPLE_TYPE_SHORT'', 5), (''SND_SOC_TPLG_DAI_FLGBIT_SYMMETRIC_RATES'', 1),
     (''SND_SOC_TPLG_DAI_FLGBIT_SYMMETRIC_CHANNELS'', 2),
     (''SND_SOC_TPLG_DAI_FLGBIT_SYMMETRIC_SAMPLEBITS'', 4),
     (''SND_SOC_TPLG_DAI_CLK_GATE_UNDEFINED'', 0), (''SND_SOC_TPLG_DAI_CLK_GATE_GATED'', 1),
     (''SND_SOC_TPLG_DAI_CLK_GATE_CONT'', 2), (''SND_SOC_TPLG_MCLK_CO'', 0),
     (''SND_SOC_TPLG_MCLK_CI'', 1)]"

definition snd_soc_numbers :: "(string \<times> nat) list" where
  "snd_soc_numbers =
    [(''SND_SOC_DAI_FORMAT_I2S'', 1), (''SND_SOC_DAI_FORMAT_RIGHT_J'', 2),
     (''SND_SOC_DAI_FORMAT_LEFT_J'', 3), (''SND_SOC_DAI_FORMAT_DSP_A'', 4),
     (''SND_SOC_DAI_FORMAT_DSP_B'', 5), (''SND_SOC_DAI_FORMAT_AC97'', 6),
     (''SND_SOC_DAI_FORMAT_PDM'', 7), (''SND_SOC_DAI_FORMAT_MSB'', 3),
     (''SND_SOC_DAI_FORMAT_LSB'', 2), (''SND_SOC_TPLG_LNK_FLGBIT_SYMMETRIC_RATES'', 1),
     (''SND_SOC_TPLG_LNK_FLGBIT_SYMMETRIC_CHANNELS'', 2),
     (''SND_SOC_TPLG_LNK_FLGBIT_SYMMETRIC_SAMPLEBITS'', 4),
     (''SND_SOC_TPLG_LNK_FLGBIT_VOICE_WAKEUP'', 8)]"

definition snd_soc_tplg_bclk_numbers :: "(string \<times> nat) list" where
  "snd_soc_tplg_bclk_numbers =
    [(''SND_SOC_TPLG_BCLK_CM'', 0), (''SND_SOC_TPLG_BCLK_CS'', 1)]"

definition snd_soc_tplg_fsync_numbers :: "(string \<times> nat) list" where
  "snd_soc_tplg_fsync_numbers =
    [(''SND_SOC_TPLG_FSYNC_CM'', 0), (''SND_SOC_TPLG_FSYNC_CS'', 1)]"

definition struct_snd_soc_tplg_hdr :: ctype where
  "struct_snd_soc_tplg_hdr = Struct True [
    (''magic'', Scalar C_u32), (''abi'', Scalar C_u32), (''version'', Scalar C_u32),
    (''type'', Scalar C_u32), (''size'', Scalar C_u32), (''vendor_type'', Scalar C_u32),
    (''payload_size'', Scalar C_u32), (''index'', Scalar C_u32), (''count'', Scalar C_u32)]"

definition struct_snd_soc_tplg_vendor_uuid_elem :: ctype where
  "struct_snd_soc_tplg_vendor_uuid_elem = Struct True [
    (''token'', Scalar C_u32), (''uuid'', Array (Scalar C_char) 16)]"

definition struct_snd_soc_tplg_vendor_value_elem :: ctype where
  "struct_snd_soc_tplg_vendor_value_elem = Struct True [
    (''token'', Scalar C_u32), (''value'', Scalar C_u32)]"

definition struct_snd_soc_tplg_vendor_string_elem :: ctype where
  "struct_snd_soc_tplg_vendor_string_elem = Struct True [
    (''token'', Scalar C_u32), (''string'', Array (Scalar C_char) 44)]"

definition struct_snd_soc_tplg_vendor_array :: ctype where
  "struct_snd_soc_tplg_vendor_array = Struct True [
    (''size'', Scalar C_u32), (''type'', Scalar C_u32), (''num_elems'', Scalar C_u32),
    ('''', Union [
      (''uuid'', Array struct_snd_soc_tplg_vendor_uuid_elem 0),
      (''value'', Array struct_snd_soc_tplg_vendor_value_elem 0),
      (''string'', Array struct_snd_soc_tplg_vendor_string_elem 0)])]"

definition struct_snd_soc_tplg_private :: ctype where
  "struct_snd_soc_tplg_private = Struct True [
    (''size'', Scalar C_u32),
    ('''', Union [
      (''data'', Array (Scalar C_char) 0), (''array'', Array struct_snd_soc_tplg_vendor_array 0)])]"

definition struct_snd_soc_tplg_tlv_dbscale :: ctype where
  "struct_snd_soc_tplg_tlv_dbscale = Struct True [
    (''min'', Scalar C_u32), (''step'', Scalar C_u32), (''mute'', Scalar C_u32)]"

definition struct_snd_soc_tplg_ctl_tlv :: ctype where
  "struct_snd_soc_tplg_ctl_tlv = Struct True [
    (''size'', Scalar C_u32), (''type'', Scalar C_u32),
    ('''', Union [
      (''data'', Array (Scalar C_u32) 32), (''scale'', struct_snd_soc_tplg_tlv_dbscale)])]"

definition struct_snd_soc_tplg_channel :: ctype where
  "struct_snd_soc_tplg_channel = Struct True [
    (''size'', Scalar C_u32), (''reg'', Scalar C_u32), (''shift'', Scalar C_u32),
    (''id'', Scalar C_u32)]"

definition struct_snd_soc_tplg_io_ops :: ctype where
  "struct_snd_soc_tplg_io_ops = Struct True [
    (''get'', Scalar C_u32), (''put'', Scalar C_u32), (''info'', Scalar C_u32)]"

definition struct_snd_soc_tplg_ctl_hdr :: ctype where
  "struct_snd_soc_tplg_ctl_hdr = Struct True [
    (''size'', Scalar C_u32), (''type'', Scalar C_u32), (''name'', Array (Scalar C_char) 44),
    (''access'', Scalar C_u32), (''ops'', struct_snd_soc_tplg_io_ops),
    (''tlv'', struct_snd_soc_tplg_ctl_tlv)]"

definition struct_snd_soc_tplg_stream_caps :: ctype where
  "struct_snd_soc_tplg_stream_caps = Struct True [
    (''size'', Scalar C_u32), (''name'', Array (Scalar C_char) 44), (''formats'', Scalar C_u64),
    (''rates'', Scalar C_u32), (''rate_min'', Scalar C_u32), (''rate_max'', Scalar C_u32),
    (''channels_min'', Scalar C_u32), (''channels_max'', Scalar C_u32),
    (''periods_min'', Scalar C_u32), (''periods_max'', Scalar C_u32),
    (''period_size_min'', Scalar C_u32), (''period_size_max'', Scalar C_u32),
    (''buffer_size_min'', Scalar C_u32), (''buffer_size_max'', Scalar C_u32),
    (''sig_bits'', Scalar C_u32)]"

definition struct_snd_soc_tplg_stream :: ctype where
  "struct_snd_soc_tplg_stream = Struct True [
    (''size'', Scalar C_u32), (''name'', Array (Scalar C_char) 44), (''format'', Scalar C_u64),
    (''rate'', Scalar C_u32), (''period_bytes'', Scalar C_u32), (''buffer_bytes'', Scalar C_u32),
    (''channels'', Scalar C_u32)]"

definition struct_snd_soc_tplg_hw_config :: ctype where
  "struct_snd_soc_tplg_hw_config = Struct True [
    (''size'', Scalar C_u32), (''id'', Scalar C_u32), (''fmt'', Scalar C_u32),
    (''clock_gated'', Scalar C_u8), (''invert_bclk'', Scalar C_u8),
    (''invert_fsync'', Scalar C_u8), (''bclk_master'', Scalar C_u8),
    (''fsync_master'', Scalar C_u8), (''mclk_direction'', Scalar C_u8),
    (''reserved'', Scalar C_u16), (''mclk_rate'', Scalar C_u32), (''bclk_rate'', Scalar C_u32),
    (''fsync_rate'', Scalar C_u32), (''tdm_slots'', Scalar C_u32),
    (''tdm_slot_width'', Scalar C_u32), (''tx_slots'', Scalar C_u32), (''rx_slots'', Scalar C_u32),
    (''tx_channels'', Scalar C_u32), (''tx_chanmap'', Array (Scalar C_u32) 8),
    (''rx_channels'', Scalar C_u32), (''rx_chanmap'', Array (Scalar C_u32) 8)]"

definition struct_snd_soc_tplg_manifest :: ctype where
  "struct_snd_soc_tplg_manifest = Struct True [
    (''size'', Scalar C_u32), (''control_elems'', Scalar C_u32), (''widget_elems'', Scalar C_u32),
    (''graph_elems'', Scalar C_u32), (''pcm_elems'', Scalar C_u32),
    (''dai_link_elems'', Scalar C_u32), (''dai_elems'', Scalar C_u32),
    (''reserved'', Array (Scalar C_u32) 20), (''priv'', struct_snd_soc_tplg_private)]"

definition struct_snd_soc_tplg_mixer_control :: ctype where
  "struct_snd_soc_tplg_mixer_control = Struct True [
    (''hdr'', struct_snd_soc_tplg_ctl_hdr), (''size'', Scalar C_u32), (''min'', Scalar C_u32),
    (''max'', Scalar C_u32), (''platform_max'', Scalar C_u32), (''invert'', Scalar C_u32),
    (''num_channels'', Scalar C_u32), (''channel'', Array struct_snd_soc_tplg_channel 8),
    (''priv'', struct_snd_soc_tplg_private)]"

definition struct_snd_soc_tplg_enum_control :: ctype where
  "struct_snd_soc_tplg_enum_control = Struct True [
    (''hdr'', struct_snd_soc_tplg_ctl_hdr), (''size'', Scalar C_u32),
    (''num_channels'', Scalar C_u32), (''channel'', Array struct_snd_soc_tplg_channel 8),
    (''items'', Scalar C_u32), (''mask'', Scalar C_u32), (''count'', Scalar C_u32),
    (''texts'', Array (Array (Scalar C_char) 44) 16), (''values'', Array (Scalar C_u32) 176),
    (''priv'', struct_snd_soc_tplg_private)]"

definition struct_snd_soc_tplg_bytes_control :: ctype where
  "struct_snd_soc_tplg_bytes_control = Struct True [
    (''hdr'', struct_snd_soc_tplg_ctl_hdr), (''size'', Scalar C_u32), (''max'', Scalar C_u32),
    (''mask'', Scalar C_u32), (''base'', Scalar C_u32), (''num_regs'', Scalar C_u32),
    (''ext_ops'', struct_snd_soc_tplg_io_ops), (''priv'', struct_snd_soc_tplg_private)]"

definition struct_snd_soc_tplg_dapm_graph_elem :: ctype where
  "struct_snd_soc_tplg_dapm_graph_elem = Struct True [
    (''sink'', Array (Scalar C_char) 44), (''control'', Array (Scalar C_char) 44),
    (''source'', Array (Scalar C_char) 44)]"

definition struct_snd_soc_tplg_dapm_widget :: ctype where
  "struct_snd_soc_tplg_dapm_widget = Struct True [
    (''size'', Scalar C_u32), (''id'', Scalar C_u32), (''name'', Array (Scalar C_char) 44),
    (''sname'', Array (Scalar C_char) 44), (''reg'', Scalar C_u32), (''shift'', Scalar C_u32),
    (''mask'', Scalar C_u32), (''subseq'', Scalar C_u32), (''invert'', Scalar C_u32),
    (''ignore_suspend'', Scalar C_u32), (''event_flags'', Scalar C_u16),
    (''event_type'', Scalar C_u16), (''num_kcontrols'', Scalar C_u32),
    (''priv'', struct_snd_soc_tplg_private)]"

definition struct_snd_soc_tplg_pcm :: ctype where
  "struct_snd_soc_tplg_pcm = Struct True [
    (''size'', Scalar C_u32), (''pcm_name'', Array (Scalar C_char) 44),
    (''dai_name'', Array (Scalar C_char) 44), (''pcm_id'', Scalar C_u32),
    (''dai_id'', Scalar C_u32), (''playback'', Scalar C_u32), (''capture'', Scalar C_u32),
    (''compress'', Scalar C_u32), (''stream'', Array struct_snd_soc_tplg_stream 8),
    (''num_streams'', Scalar C_u32), (''caps'', Array struct_snd_soc_tplg_stream_caps 2),
    (''flag_mask'', Scalar C_u32), (''flags'', Scalar C_u32),
    (''priv'', struct_snd_soc_tplg_private)]"

definition struct_snd_soc_tplg_link_config :: ctype where
  "struct_snd_soc_tplg_link_config = Struct True [
    (''size'', Scalar C_u32), (''id'', Scalar C_u32), (''name'', Array (Scalar C_char) 44),
    (''stream_name'', Array (Scalar C_char) 44), (''stream'', Array struct_snd_soc_tplg_stream 8),
    (''num_streams'', Scalar C_u32), (''hw_config'', Array struct_snd_soc_tplg_hw_config 8),
    (''num_hw_configs'', Scalar C_u32), (''default_hw_config_id'', Scalar C_u32),
    (''flag_mask'', Scalar C_u32), (''flags'', Scalar C_u32),
    (''priv'', struct_snd_soc_tplg_private)]"

definition struct_snd_soc_tplg_dai :: ctype where
  "struct_snd_soc_tplg_dai = Struct True [
    (''size'', Scalar C_u32), (''dai_name'', Array (Scalar C_char) 44), (''dai_id'', Scalar C_u32),
    (''playback'', Scalar C_u32), (''capture'', Scalar C_u32),
    (''caps'', Array struct_snd_soc_tplg_stream_caps 2), (''flag_mask'', Scalar C_u32),
    (''flags'', Scalar C_u32), (''priv'', struct_snd_soc_tplg_private)]"

definition struct_snd_soc_tplg_manifest_v4 :: ctype where
  "struct_snd_soc_tplg_manifest_v4 = Struct True [
    (''size'', Scalar C_u32), (''control_elems'', Scalar C_u32), (''widget_elems'', Scalar C_u32),
    (''graph_elems'', Scalar C_u32), (''pcm_elems'', Scalar C_u32),
    (''dai_link_elems'', Scalar C_u32), (''priv'', struct_snd_soc_tplg_private)]"

definition struct_snd_soc_tplg_stream_caps_v4 :: ctype where
  "struct_snd_soc_tplg_stream_caps_v4 = Struct True [
    (''size'', Scalar C_u32), (''name'', Array (Scalar C_char) 44), (''formats'', Scalar C_u64),
    (''rates'', Scalar C_u32), (''rate_min'', Scalar C_u32), (''rate_max'', Scalar C_u32),
    (''channels_min'', Scalar C_u32), (''channels_max'', Scalar C_u32),
    (''periods_min'', Scalar C_u32), (''periods_max'', Scalar C_u32),
    (''period_size_min'', Scalar C_u32), (''period_size_max'', Scalar C_u32),
    (''buffer_size_min'', Scalar C_u32), (''buffer_size_max'', Scalar C_u32)]"

definition struct_snd_soc_tplg_pcm_v4 :: ctype where
  "struct_snd_soc_tplg_pcm_v4 = Struct True [
    (''size'', Scalar C_u32), (''pcm_name'', Array (Scalar C_char) 44),
    (''dai_name'', Array (Scalar C_char) 44), (''pcm_id'', Scalar C_u32),
    (''dai_id'', Scalar C_u32), (''playback'', Scalar C_u32), (''capture'', Scalar C_u32),
    (''compress'', Scalar C_u32), (''stream'', Array struct_snd_soc_tplg_stream 8),
    (''num_streams'', Scalar C_u32), (''caps'', Array struct_snd_soc_tplg_stream_caps_v4 2)]"

definition struct_snd_soc_tplg_link_config_v4 :: ctype where
  "struct_snd_soc_tplg_link_config_v4 = Struct True [
    (''size'', Scalar C_u32), (''id'', Scalar C_u32),
    (''stream'', Array struct_snd_soc_tplg_stream 8), (''num_streams'', Scalar C_u32)]"

section \<open>\<^verbatim>\<open>src/include/sound/skl-tplg-interface.h\<close>\<close>

definition skl_control_type_byte_tlv_numbers :: "(string \<times> nat) list" where
  "skl_control_type_byte_tlv_numbers =
    [(''SKL_CONTROL_TYPE_BYTE_TLV'', 0x100), (''SKL_CONTROL_TYPE_MIC_SELECT'', 0x102),
     (''SKL_CONTROL_TYPE_MULTI_IO_SELECT'', 0x103), (''SKL_CONTROL_TYPE_MULTI_IO_SELECT_DMIC'',
     0x104), (''HDA_SST_CFG_MAX'', 900), (''MAX_IN_QUEUE'', 8), (''MAX_OUT_QUEUE'', 8),
     (''SKL_UUID_STR_SZ'', 40)]"

definition skl_event_types :: "(string \<times> nat) list" where
  "skl_event_types =
    enum_run 0
      [''SKL_EVENT_NONE'', ''SKL_MIXER_EVENT'', ''SKL_MUX_EVENT'', ''SKL_VMIXER_EVENT'',
      ''SKL_PGA_EVENT'']"

definition skl_ch_cfg :: "(string \<times> nat) list" where
  "skl_ch_cfg =
    enum_run 0
      [''SKL_CH_CFG_MONO'', ''SKL_CH_CFG_STEREO'', ''SKL_CH_CFG_2_1'', ''SKL_CH_CFG_3_0'',
      ''SKL_CH_CFG_3_1'', ''SKL_CH_CFG_QUATRO'', ''SKL_CH_CFG_4_0'', ''SKL_CH_CFG_5_0'',
      ''SKL_CH_CFG_5_1'', ''SKL_CH_CFG_DUAL_MONO'', ''SKL_CH_CFG_I2S_DUAL_STEREO_0'',
      ''SKL_CH_CFG_I2S_DUAL_STEREO_1'', ''SKL_CH_CFG_4_CHANNEL'', ''SKL_CH_CFG_INVALID'']"

definition skl_module_type :: "(string \<times> nat) list" where
  "skl_module_type =
    enum_run 0
      [''SKL_MODULE_TYPE_MIXER'', ''SKL_MODULE_TYPE_COPIER'', ''SKL_MODULE_TYPE_UPDWMIX'',
      ''SKL_MODULE_TYPE_SRCINT'', ''SKL_MODULE_TYPE_ALGO'', ''SKL_MODULE_TYPE_BASE_OUTFMT'',
      ''SKL_MODULE_TYPE_KPB'', ''SKL_MODULE_TYPE_MIC_SELECT'']"

definition skl_core_affinity :: "(string \<times> nat) list" where
  "skl_core_affinity =
    enum_run 0
      [''SKL_AFFINITY_CORE_0'', ''SKL_AFFINITY_CORE_1'', ''SKL_AFFINITY_CORE_MAX'']"

definition skl_pipe_conn_type :: "(string \<times> nat) list" where
  "skl_pipe_conn_type =
    enum_run 0
      [''SKL_PIPE_CONN_TYPE_NONE'', ''SKL_PIPE_CONN_TYPE_FE'', ''SKL_PIPE_CONN_TYPE_BE'']"

definition skl_hw_conn_type :: "(string \<times> nat) list" where
  "skl_hw_conn_type =
    enum_run 0
      [''SKL_CONN_NONE'', ''SKL_CONN_SOURCE'', ''SKL_CONN_SINK'']"

definition skl_dev_type :: "(string \<times> nat) list" where
  "skl_dev_type =
    enum_run 0
      [''SKL_DEVICE_BT'', ''SKL_DEVICE_DMIC'', ''SKL_DEVICE_I2S'', ''SKL_DEVICE_SLIMBUS'',
      ''SKL_DEVICE_HDALINK'', ''SKL_DEVICE_HDAHOST'', ''SKL_DEVICE_NONE'']"

definition skl_interleaving :: "(string \<times> nat) list" where
  "skl_interleaving =
    enum_run 0
      [''SKL_INTERLEAVING_PER_CHANNEL'', ''SKL_INTERLEAVING_PER_SAMPLE'']"

definition skl_sample_type :: "(string \<times> nat) list" where
  "skl_sample_type =
    enum_run 0
      [''SKL_SAMPLE_TYPE_INT_MSB'', ''SKL_SAMPLE_TYPE_INT_LSB'', ''SKL_SAMPLE_TYPE_INT_SIGNED'',
      ''SKL_SAMPLE_TYPE_INT_UNSIGNED'', ''SKL_SAMPLE_TYPE_FLOAT'']"

definition module_pin_type :: "(string \<times> nat) list" where
  "module_pin_type =
    enum_run 0
      [''SKL_PIN_TYPE_HOMOGENEOUS'', ''SKL_PIN_TYPE_HETEROGENEOUS'']"

definition skl_module_param_type :: "(string \<times> nat) list" where
  "skl_module_param_type =
    enum_run 0
      [''SKL_PARAM_DEFAULT'', ''SKL_PARAM_INIT'', ''SKL_PARAM_SET'', ''SKL_PARAM_BIND'']"

definition skl_tkn_dir :: "(string \<times> nat) list" where
  "skl_tkn_dir =
    enum_run 0
      [''SKL_DIR_IN'', ''SKL_DIR_OUT'']"

definition skl_tuple_type :: "(string \<times> nat) list" where
  "skl_tuple_type =
    enum_run 0
      [''SKL_TYPE_TUPLE'', ''SKL_TYPE_DATA'']"

definition struct_skl_dfw_algo_data :: ctype where
  "struct_skl_dfw_algo_data = Struct True [
    ('''', Bits C_u32 [(''set_params'', 2), (''rsvd'', 30)]), (''param_id'', Scalar C_u32),
    (''max'', Scalar C_u32), (''params'', Array (Scalar C_char) 0)]"

definition struct_skl_dfw_v4_module_pin :: ctype where
  "struct_skl_dfw_v4_module_pin = Struct True [
    (''module_id'', Scalar C_u16), (''instance_id'', Scalar C_u16)]"

definition struct_skl_dfw_v4_module_fmt :: ctype where
  "struct_skl_dfw_v4_module_fmt = Struct True [
    (''channels'', Scalar C_u32), (''freq'', Scalar C_u32), (''bit_depth'', Scalar C_u32),
    (''valid_bit_depth'', Scalar C_u32), (''ch_cfg'', Scalar C_u32),
    (''interleaving_style'', Scalar C_u32), (''sample_type'', Scalar C_u32),
    (''ch_map'', Scalar C_u32)]"

definition struct_skl_dfw_v4_module_caps :: ctype where
  "struct_skl_dfw_v4_module_caps = Struct True [
    ('''', Bits C_u32 [(''set_params'', 2), (''rsvd'', 30)]), (''param_id'', Scalar C_u32),
    (''caps_size'', Scalar C_u32), (''caps'', Array (Scalar C_u32) 900)]"

definition struct_skl_dfw_v4_pipe :: ctype where
  "struct_skl_dfw_v4_pipe = Struct True [
    (''pipe_id'', Scalar C_u8), (''pipe_priority'', Scalar C_u8),
    ('''', Bits C_u16 [(''conn_type'', 4), (''rsvd'', 4), (''memory_pages'', 8)])]"

definition struct_skl_dfw_v4_module :: ctype where
  "struct_skl_dfw_v4_module = Struct True [
    (''uuid'', Array (Scalar C_char) 40), (''module_id'', Scalar C_u16),
    (''instance_id'', Scalar C_u16), (''max_mcps'', Scalar C_u32), (''mem_pages'', Scalar C_u32),
    (''obs'', Scalar C_u32), (''ibs'', Scalar C_u32), (''vbus_id'', Scalar C_u32),
    ('''', Bits C_u32 [(''max_in_queue'', 8), (''max_out_queue'', 8), (''time_slot'', 8), (''core_id'', 4), (''rsvd1'', 4)]),
    ('''', Bits C_u32 [(''module_type'', 8), (''conn_type'', 4), (''dev_type'', 4), (''hw_conn_type'', 4), (''rsvd2'', 12)]),
    ('''', Bits C_u32 [(''params_fixup'', 8), (''converter'', 8), (''input_pin_type'', 1), (''output_pin_type'', 1), (''is_dynamic_in_pin'', 1), (''is_dynamic_out_pin'', 1), (''is_loadable'', 1), (''rsvd3'', 11)]),
    (''pipe'', struct_skl_dfw_v4_pipe), (''in_fmt'', Array struct_skl_dfw_v4_module_fmt 8),
    (''out_fmt'', Array struct_skl_dfw_v4_module_fmt 8),
    (''in_pin'', Array struct_skl_dfw_v4_module_pin 8),
    (''out_pin'', Array struct_skl_dfw_v4_module_pin 8), (''caps'', struct_skl_dfw_v4_module_caps)]"

section \<open>\<^verbatim>\<open>src/include/sound/sof/fw.h\<close>\<close>

definition snd_sof_fw_numbers :: "(string \<times> nat) list" where
  "snd_sof_fw_numbers =
    [(''SND_SOF_FW_SIG_SIZE'', 4), (''SND_SOF_FW_ABI'', 1)]"

definition snd_sof_fw_blk_type :: "(string \<times> int) list" where
  "snd_sof_fw_blk_type =
    [(''SOF_FW_BLK_TYPE_INVALID'', -1), (''SOF_FW_BLK_TYPE_START'', 0), (''SOF_FW_BLK_TYPE_RSRVD0'',
    0), (''SOF_FW_BLK_TYPE_IRAM'', 1), (''SOF_FW_BLK_TYPE_DRAM'', 2), (''SOF_FW_BLK_TYPE_SRAM'', 3),
    (''SOF_FW_BLK_TYPE_ROM'', 4), (''SOF_FW_BLK_TYPE_IMR'', 5), (''SOF_FW_BLK_TYPE_RSRVD6'', 6),
    (''SOF_FW_BLK_TYPE_RSRVD7'', 7), (''SOF_FW_BLK_TYPE_RSRVD8'', 8), (''SOF_FW_BLK_TYPE_RSRVD9'',
    9), (''SOF_FW_BLK_TYPE_RSRVD10'', 10), (''SOF_FW_BLK_TYPE_RSRVD11'', 11),
    (''SOF_FW_BLK_TYPE_RSRVD12'', 12), (''SOF_FW_BLK_TYPE_RSRVD13'', 13),
    (''SOF_FW_BLK_TYPE_RSRVD14'', 14), (''SOF_FW_BLK_TYPE_NUM'', 15)]"

definition snd_sof_fw_mod_type :: "(string \<times> nat) list" where
  "snd_sof_fw_mod_type =
    enum_run 0
      [''SOF_FW_BASE'', ''SOF_FW_MODULE'']"

definition struct_snd_sof_blk_hdr :: ctype where
  "struct_snd_sof_blk_hdr = Struct True [
    (''type'', Scalar C_enum), (''size'', Scalar C_u32), (''offset'', Scalar C_u32)]"

definition struct_snd_sof_mod_hdr :: ctype where
  "struct_snd_sof_mod_hdr = Struct True [
    (''type'', Scalar C_enum), (''size'', Scalar C_u32), (''num_blocks'', Scalar C_u32)]"

definition struct_snd_sof_fw_header :: ctype where
  "struct_snd_sof_fw_header = Struct True [
    (''sig'', Array (Scalar C_u8) 4), (''file_size'', Scalar C_u32),
    (''num_modules'', Scalar C_u32), (''abi'', Scalar C_u32)]"

section \<open>\<^verbatim>\<open>src/include/sound/sof/header.h\<close>\<close>

definition struct_sof_abi_hdr :: ctype where
  "struct_sof_abi_hdr = Struct True [
    (''magic'', Scalar C_u32), (''type'', Scalar C_u32), (''size'', Scalar C_u32),
    (''abi'', Scalar C_u32), (''reserved'', Array (Scalar C_u32) 4),
    (''data'', Array (Scalar C_u32) 0)]"

section \<open>\<^verbatim>\<open>src/include/sound/snd_sst_tokens.h\<close>\<close>

definition SKL_TKNS :: "(string \<times> nat) list" where
  "SKL_TKNS =
    enum_run 1
      [''SKL_TKN_UUID'', ''SKL_TKN_U8_NUM_BLOCKS'', ''SKL_TKN_U8_BLOCK_TYPE'',
      ''SKL_TKN_U8_IN_PIN_TYPE'', ''SKL_TKN_U8_OUT_PIN_TYPE'', ''SKL_TKN_U8_DYN_IN_PIN'',
      ''SKL_TKN_U8_DYN_OUT_PIN'', ''SKL_TKN_U8_IN_QUEUE_COUNT'', ''SKL_TKN_U8_OUT_QUEUE_COUNT'',
      ''SKL_TKN_U8_TIME_SLOT'', ''SKL_TKN_U8_CORE_ID'', ''SKL_TKN_U8_MOD_TYPE'',
      ''SKL_TKN_U8_CONN_TYPE'', ''SKL_TKN_U8_DEV_TYPE'', ''SKL_TKN_U8_HW_CONN_TYPE'',
      ''SKL_TKN_U16_MOD_INST_ID'', ''SKL_TKN_U16_BLOCK_SIZE'', ''SKL_TKN_U32_MAX_MCPS'',
      ''SKL_TKN_U32_MEM_PAGES'', ''SKL_TKN_U32_OBS'', ''SKL_TKN_U32_IBS'', ''SKL_TKN_U32_VBUS_ID'',
      ''SKL_TKN_U32_PARAMS_FIXUP'', ''SKL_TKN_U32_CONVERTER'', ''SKL_TKN_U32_PIPE_ID'',
      ''SKL_TKN_U32_PIPE_CONN_TYPE'', ''SKL_TKN_U32_PIPE_PRIORITY'', ''SKL_TKN_U32_PIPE_MEM_PGS'',
      ''SKL_TKN_U32_DIR_PIN_COUNT'', ''SKL_TKN_U32_FMT_CH'', ''SKL_TKN_U32_FMT_FREQ'',
      ''SKL_TKN_U32_FMT_BIT_DEPTH'', ''SKL_TKN_U32_FMT_SAMPLE_SIZE'', ''SKL_TKN_U32_FMT_CH_CONFIG'',
      ''SKL_TKN_U32_FMT_INTERLEAVE'', ''SKL_TKN_U32_FMT_SAMPLE_TYPE'', ''SKL_TKN_U32_FMT_CH_MAP'',
      ''SKL_TKN_U32_PIN_MOD_ID'', ''SKL_TKN_U32_PIN_INST_ID'', ''SKL_TKN_U32_MOD_SET_PARAMS'',
      ''SKL_TKN_U32_MOD_PARAM_ID'', ''SKL_TKN_U32_CAPS_SET_PARAMS'', ''SKL_TKN_U32_CAPS_PARAMS_ID'',
      ''SKL_TKN_U32_CAPS_SIZE'', ''SKL_TKN_U32_PROC_DOMAIN'', ''SKL_TKN_U32_LIB_COUNT'',
      ''SKL_TKN_STR_LIB_NAME'', ''SKL_TKN_U32_PMODE'', ''SKL_TKL_U32_D0I3_CAPS''] @
    enum_run 49
      [''SKL_TKN_U32_D0I3_CAPS'', ''SKL_TKN_U32_DMA_BUF_SIZE'', ''SKL_TKN_U32_PIPE_DIRECTION'',
      ''SKL_TKN_U32_PIPE_CONFIG_ID'', ''SKL_TKN_U32_NUM_CONFIGS'', ''SKL_TKN_U32_PATH_MEM_PGS'',
      ''SKL_TKN_U32_CFG_FREQ'', ''SKL_TKN_U8_CFG_CHAN'', ''SKL_TKN_U8_CFG_BPS'',
      ''SKL_TKN_CFG_MOD_RES_ID'', ''SKL_TKN_CFG_MOD_FMT_ID'', ''SKL_TKN_U8_NUM_MOD'',
      ''SKL_TKN_MM_U8_MOD_IDX'', ''SKL_TKN_MM_U8_NUM_RES'', ''SKL_TKN_MM_U8_NUM_INTF'',
      ''SKL_TKN_MM_U32_RES_ID'', ''SKL_TKN_MM_U32_CPS'', ''SKL_TKN_MM_U32_DMA_SIZE'',
      ''SKL_TKN_MM_U32_CPC'', ''SKL_TKN_MM_U32_RES_PIN_ID'', ''SKL_TKN_MM_U32_INTF_PIN_ID'',
      ''SKL_TKN_MM_U32_PIN_BUF'', ''SKL_TKN_MM_U32_FMT_ID'', ''SKL_TKN_MM_U32_NUM_IN_FMT'',
      ''SKL_TKN_MM_U32_NUM_OUT_FMT'', ''SKL_TKN_U32_ASTATE_IDX'', ''SKL_TKN_U32_ASTATE_COUNT'',
      ''SKL_TKN_U32_ASTATE_KCPS'', ''SKL_TKN_U32_ASTATE_CLK_SRC''] @
    enum_run 77
      [''SKL_TKN_MAX'']"


section \<open>\<^verbatim>\<open>src/include/sound/sof/tokens.h\<close>\<close>

definition sof_tplg_kctl_numbers :: "(string \<times> nat) list" where
  "sof_tplg_kctl_numbers =
    [(''SOF_TPLG_KCTL_VOL_ID'', 256), (''SOF_TPLG_KCTL_ENUM_ID'', 257),
     (''SOF_TPLG_KCTL_BYTES_ID'', 258), (''SOF_TPLG_KCTL_SWITCH_ID'', 259),
     (''SOF_TPLG_KCTL_BYTES_VOLATILE_RO'', 260), (''SOF_TPLG_KCTL_BYTES_VOLATILE_RW'', 261),
     (''SOF_TPLG_KCTL_BYTES_WO_ID'', 262)]"

definition sof_tkn_buf_numbers :: "(string \<times> nat) list" where
  "sof_tkn_buf_numbers =
    [(''SOF_TKN_BUF_SIZE'', 100), (''SOF_TKN_BUF_CAPS'', 101)]"

definition sof_tkn_numbers :: "(string \<times> nat) list" where
  "sof_tkn_numbers =
    [(''SOF_TKN_DAI_TYPE'', 154), (''SOF_TKN_DAI_INDEX'', 155), (''SOF_TKN_DAI_DIRECTION'', 156),
     (''SOF_TKN_SCHED_PERIOD'', 200), (''SOF_TKN_SCHED_PRIORITY'', 201), (''SOF_TKN_SCHED_MIPS'',
     202), (''SOF_TKN_SCHED_CORE'', 203), (''SOF_TKN_SCHED_FRAMES'', 204),
     (''SOF_TKN_SCHED_TIME_DOMAIN'', 205), (''SOF_TKN_VOLUME_RAMP_STEP_TYPE'', 250),
     (''SOF_TKN_VOLUME_RAMP_STEP_MS'', 251), (''SOF_TKN_SRC_RATE_IN'', 300),
     (''SOF_TKN_SRC_RATE_OUT'', 301), (''SOF_TKN_ASRC_RATE_IN'', 320), (''SOF_TKN_ASRC_RATE_OUT'',
     321), (''SOF_TKN_ASRC_ASYNCHRONOUS_MODE'', 322), (''SOF_TKN_ASRC_OPERATION_MODE'', 323),
     (''SOF_TKN_PCM_DMAC_CONFIG'', 353), (''SOF_TKN_COMP_PERIOD_SINK_COUNT'', 400),
     (''SOF_TKN_COMP_PERIOD_SOURCE_COUNT'', 401), (''SOF_TKN_COMP_FORMAT'', 402)]"

definition sof_tkn_numbers_2 :: "(string \<times> nat) list" where
  "sof_tkn_numbers_2 =
    [(''SOF_TKN_COMP_CORE_ID'', 404), (''SOF_TKN_COMP_UUID'', 405),
     (''SOF_TKN_INTEL_SSP_CLKS_CONTROL'', 500), (''SOF_TKN_INTEL_SSP_MCLK_ID'', 501),
     (''SOF_TKN_INTEL_SSP_SAMPLE_BITS'', 502), (''SOF_TKN_INTEL_SSP_FRAME_PULSE_WIDTH'', 503),
     (''SOF_TKN_INTEL_SSP_QUIRKS'', 504), (''SOF_TKN_INTEL_SSP_TDM_PADDING_PER_SLOT'', 505),
     (''SOF_TKN_INTEL_SSP_BCLK_DELAY'', 506), (''SOF_TKN_INTEL_DMIC_DRIVER_VERSION'', 600),
     (''SOF_TKN_INTEL_DMIC_CLK_MIN'', 601), (''SOF_TKN_INTEL_DMIC_CLK_MAX'', 602),
     (''SOF_TKN_INTEL_DMIC_DUTY_MIN'', 603), (''SOF_TKN_INTEL_DMIC_DUTY_MAX'', 604),
     (''SOF_TKN_INTEL_DMIC_NUM_PDM_ACTIVE'', 605), (''SOF_TKN_INTEL_DMIC_SAMPLE_RATE'', 608),
     (''SOF_TKN_INTEL_DMIC_FIFO_WORD_LENGTH'', 609), (''SOF_TKN_INTEL_DMIC_UNMUTE_RAMP_TIME_MS'',
     610), (''SOF_TKN_INTEL_DMIC_PDM_CTRL_ID'', 700), (''SOF_TKN_INTEL_DMIC_PDM_MIC_A_Enable'',
     701), (''SOF_TKN_INTEL_DMIC_PDM_MIC_B_Enable'', 702), (''SOF_TKN_INTEL_DMIC_PDM_POLARITY_A'',
     703), (''SOF_TKN_INTEL_DMIC_PDM_POLARITY_B'', 704), (''SOF_TKN_INTEL_DMIC_PDM_CLK_EDGE'',
     705), (''SOF_TKN_INTEL_DMIC_PDM_SKEW'', 706), (''SOF_TKN_TONE_SAMPLE_RATE'', 800),
     (''SOF_TKN_PROCESS_TYPE'', 900), (''SOF_TKN_EFFECT_TYPE'', 900),
     (''SOF_TKN_IMX_SAI_MCLK_ID'', 1000), (''SOF_TKN_IMX_ESAI_MCLK_ID'', 1100),
     (''SOF_TKN_STREAM_PLAYBACK_COMPATIBLE_D0I3'', 1200),
     (''SOF_TKN_STREAM_CAPTURE_COMPATIBLE_D0I3'', 1201), (''SOF_TKN_MUTE_LED_USE'', 1300),
     (''SOF_TKN_MUTE_LED_DIRECTION'', 1301), (''SOF_TKN_INTEL_ALH_RATE'', 1400),
     (''SOF_TKN_INTEL_ALH_CH'', 1401), (''SOF_TKN_INTEL_HDA_RATE'', 1500),
     (''SOF_TKN_INTEL_HDA_CH'', 1501)]"


section \<open>\<^verbatim>\<open>src/include/sound/wcd-dsp-glink.h\<close>\<close>

definition WDSP_CH_NAME_MAX_LEN :: nat where "WDSP_CH_NAME_MAX_LEN = 50"
definition WDSP_READY_PKT :: nat where "WDSP_READY_PKT = 3"

definition wdsp_enum :: "(string \<times> nat) list" where
  "wdsp_enum =
    enum_run 1
      [''WDSP_REG_PKT'', ''WDSP_CMD_PKT'', ''WDSP_READY_PKT'']"

definition struct_wdsp_reg_pkt :: ctype where
  "struct_wdsp_reg_pkt = Struct False [
    (''no_of_channels'', Scalar C_u8), (''payload'', Array (Scalar C_u8) 0)]"

definition struct_wdsp_cmd_pkt :: ctype where
  "struct_wdsp_cmd_pkt = Struct False [
    (''ch_name'', Array (Scalar C_char) 50), (''payload_size'', Scalar C_u32),
    (''payload'', Array (Scalar C_u8) 0)]"

definition struct_wdsp_write_pkt :: ctype where
  "struct_wdsp_write_pkt = Struct False [
    (''pkt_type'', Scalar C_u8), (''payload'', Array (Scalar C_u8) 0)]"

definition struct_wdsp_glink_ch_cfg :: ctype where
  "struct_wdsp_glink_ch_cfg = Struct False [
    (''name'', Array (Scalar C_char) 50), (''latency_in_us'', Scalar C_u32),
    (''no_of_intents'', Scalar C_u32), (''intents_size'', Array (Scalar C_u32) 0)]"

text \<open>The signature of a firmware image.\<close>

definition SND_SOF_FW_SIG :: string where "SND_SOF_FW_SIG = ''Reef''"

section \<open>Versions of a topology file\<close>

text \<open>
  The element structs of a topology file and, for the ones that have changed, the struct of ABI
  version 4 with the current one.
\<close>

definition topology_elements :: "ctype list" where
  "topology_elements =
    [struct_snd_soc_tplg_ctl_hdr, struct_snd_soc_tplg_stream_caps, struct_snd_soc_tplg_stream,
     struct_snd_soc_tplg_hw_config, struct_snd_soc_tplg_manifest, struct_snd_soc_tplg_dapm_widget,
     struct_snd_soc_tplg_pcm, struct_snd_soc_tplg_link_config, struct_snd_soc_tplg_dai,
     struct_snd_soc_tplg_manifest_v4, struct_snd_soc_tplg_stream_caps_v4,
     struct_snd_soc_tplg_pcm_v4, struct_snd_soc_tplg_link_config_v4]"

definition topology_versions :: "(ctype \<times> ctype) list" where
  "topology_versions =
    [(struct_snd_soc_tplg_manifest_v4, struct_snd_soc_tplg_manifest),
     (struct_snd_soc_tplg_stream_caps_v4, struct_snd_soc_tplg_stream_caps),
     (struct_snd_soc_tplg_pcm_v4, struct_snd_soc_tplg_pcm),
     (struct_snd_soc_tplg_link_config_v4, struct_snd_soc_tplg_link_config)]"

lemma topology_fixed: "list_all fixed_width topology_elements"
  by code_simp

lemma topology_size_field:
  "list_all (\<lambda>t. field_at LP64 [''size''] t = Some (0, Scalar C_u32)) topology_elements"
  by code_simp

text \<open>
  Every element starts with its size, so that a reader finds the size before it knows the version,
  on either width of machine.
\<close>

lemma topology_size_first:
  assumes "t \<in> set topology_elements" and "well_typed dm t v"
  shows "value_at [''size''] t v = Some (decode dm (Scalar C_u32) (take 4 (encode dm t v)))"
proof -
  have "field_at dm [''size''] t = Some (0, Scalar C_u32)"
    using assms(1) topology_size_field topology_fixed fixed_width_field_at [of t dm "[''size'']" LP64]
    by (simp add: list_all_iff)
  then show ?thesis
    using read_field [OF _ assms(2), of "[''size'']" 0 "Scalar C_u32"] by simp
qed

text \<open>The size tells the two versions apart: the old struct is the smaller one.\<close>

lemma topology_sizes_differ:
  "list_all (\<lambda>(old, new). csize dm old < csize dm new) topology_versions"
  by (cases dm; hypsubst; code_simp)

text \<open>Apart from the two aliases, the tokens number the range from 1 without a gap.\<close>

lemma skl_tokens_run:
  "map snd (filter (\<lambda>(n, _). n \<notin> {''SKL_TKL_U32_D0I3_CAPS'', ''SKL_TKN_MAX''}) SKL_TKNS) =
     [1..<Suc (the (map_of SKL_TKNS ''SKL_TKN_MAX''))]"
  by code_simp

end
