(* ===== verification/Network_Ioctl.thy ===== *)
theory Network_Ioctl
  imports Ipa_Ioctl Ipa_Qmi
begin

text \<open>
  Structs, numbers and requests of the modem data path and the WiMAX device, from the headers
  \<^verbatim>\<open>linux/rmnet_ipa_fd_ioctl.h\<close>,
  \<^verbatim>\<open>linux/msm_rmnet.h\<close>, \<^verbatim>\<open>linux/rmnet_data.h\<close>,
  \<^verbatim>\<open>linux/wimax/i2400m.h\<close>, \<^verbatim>\<open>linux/wimax.h\<close> under
  \<^verbatim>\<open>src/include\<close>.
\<close>

section \<open>\<^verbatim>\<open>src/include/linux/rmnet_ipa_fd_ioctl.h\<close>\<close>

definition wan_ioc_magic_numbers :: "(string \<times> nat) list" where
  "wan_ioc_magic_numbers =
    [(''WAN_IOC_MAGIC'', 0x69), (''WAN_IOCTL_ADD_FLT_RULE'', 0), (''WAN_IOCTL_ADD_FLT_INDEX'', 1),
     (''WAN_IOCTL_VOTE_FOR_BW_MBPS'', 2), (''WAN_IOCTL_POLL_TETHERING_STATS'', 3),
     (''WAN_IOCTL_SET_DATA_QUOTA'', 4), (''WAN_IOCTL_SET_TETHER_CLIENT_PIPE'', 5),
     (''WAN_IOCTL_QUERY_TETHER_STATS'', 6), (''WAN_IOCTL_RESET_TETHER_STATS'', 7),
     (''WAN_IOCTL_QUERY_DL_FILTER_STATS'', 8), (''WAN_IOCTL_ADD_FLT_RULE_EX'', 9),
     (''WAN_IOCTL_QUERY_TETHER_STATS_ALL'', 10), (''WAN_IOCTL_NOTIFY_WAN_STATE'', 11),
     (''WAN_IOCTL_ADD_UL_FLT_RULE'', 12), (''WAN_IOCTL_ENABLE_PER_CLIENT_STATS'', 13),
     (''WAN_IOCTL_QUERY_PER_CLIENT_STATS'', 14), (''WAN_IOCTL_SET_LAN_CLIENT_INFO'', 15),
     (''WAN_IOCTL_CLEAR_LAN_CLIENT_INFO'', 16), (''WAN_IOCTL_SEND_LAN_CLIENT_MSG'', 17),
     (''WAN_IOCTL_ADD_OFFLOAD_CONNECTION'', 18), (''WAN_IOCTL_RMV_OFFLOAD_CONNECTION'', 19),
     (''WAN_IOCTL_GET_WAN_MTU'', 20), (''WAN_IOCTL_SET_DATA_QUOTA_WARNING'', 21),
     (''WAN_IOCTL_NOTIFY_NAT_MOVE_RES'', 22)]"

definition IFNAMSIZ :: nat where "IFNAMSIZ = 16"

definition struct_wan_ioctl_poll_tethering_stats :: ctype where
  "struct_wan_ioctl_poll_tethering_stats = Struct False [
    (''polling_interval_secs'', Scalar C_u64), (''reset_stats'', Scalar C_u8)]"

definition struct_wan_ioctl_set_data_quota :: ctype where
  "struct_wan_ioctl_set_data_quota = Struct False [
    (''interface_name'', Array (Scalar C_char) 16), (''quota_mbytes'', Scalar C_u64),
    (''set_quota'', Scalar C_u8)]"

definition struct_wan_ioctl_set_data_quota_warning :: ctype where
  "struct_wan_ioctl_set_data_quota_warning = Struct False [
    (''interface_name'', Array (Scalar C_char) 16), (''quota_mbytes'', Scalar C_u64),
    (''set_quota'', Scalar C_u8), (''set_warning'', Scalar C_u8), (''padding2'', Scalar C_u16),
    (''warning_mbytes'', Scalar C_u64)]"

definition struct_wan_ioctl_set_tether_client_pipe :: ctype where
  "struct_wan_ioctl_set_tether_client_pipe = Struct False [
    (''ipa_client'', Scalar C_enum), (''reset_client'', Scalar C_u8),
    (''ul_src_pipe_len'', Scalar C_u32), (''ul_src_pipe_list'', Array (Scalar C_u32) 20),
    (''dl_dst_pipe_len'', Scalar C_u32), (''dl_dst_pipe_list'', Array (Scalar C_u32) 20)]"

definition struct_wan_ioctl_query_tether_stats :: ctype where
  "struct_wan_ioctl_query_tether_stats = Struct False [
    (''upstreamIface'', Array (Scalar C_char) 16), (''tetherIface'', Array (Scalar C_char) 16),
    (''ipa_client'', Scalar C_enum), (''ipv4_tx_packets'', Scalar C_u64),
    (''ipv4_tx_bytes'', Scalar C_u64), (''ipv4_rx_packets'', Scalar C_u64),
    (''ipv4_rx_bytes'', Scalar C_u64), (''ipv6_tx_packets'', Scalar C_u64),
    (''ipv6_tx_bytes'', Scalar C_u64), (''ipv6_rx_packets'', Scalar C_u64),
    (''ipv6_rx_bytes'', Scalar C_u64)]"

definition struct_wan_ioctl_query_tether_stats_all :: ctype where
  "struct_wan_ioctl_query_tether_stats_all = Struct False [
    (''upstreamIface'', Array (Scalar C_char) 16), (''ipa_client'', Scalar C_enum),
    (''reset_stats'', Scalar C_u8), (''tx_bytes'', Scalar C_u64), (''rx_bytes'', Scalar C_u64)]"

definition struct_wan_ioctl_reset_tether_stats :: ctype where
  "struct_wan_ioctl_reset_tether_stats = Struct False [
    (''upstreamIface'', Array (Scalar C_char) 16), (''reset_stats'', Scalar C_u8)]"

definition struct_wan_ioctl_query_dl_filter_stats :: ctype where
  "struct_wan_ioctl_query_dl_filter_stats = Struct False [
    (''reset_stats'', Scalar C_u8), (''stats_resp'', struct_ipa_get_data_stats_resp_msg_v01),
    (''index'', Scalar C_u32)]"

definition struct_wan_ioctl_notify_wan_state :: ctype where
  "struct_wan_ioctl_notify_wan_state = Struct False [
    (''up'', Scalar C_u8), (''upstreamIface'', Array (Scalar C_char) 16)]"

definition struct_wan_ioctl_send_lan_client_msg :: ctype where
  "struct_wan_ioctl_send_lan_client_msg = Struct False [
    (''lan_client'', struct_ipa_lan_client_msg), (''client_event'', Scalar C_enum)]"

definition struct_wan_ioctl_lan_client_info :: ctype where
  "struct_wan_ioctl_lan_client_info = Struct False [
    (''device_type'', Scalar C_enum), (''mac'', Array (Scalar C_u8) 6),
    (''client_init'', Scalar C_u8), (''client_idx'', Scalar C_s8), (''hdr_len'', Scalar C_u8),
    (''ul_src_pipe'', Scalar C_enum), (''ul_cnt_idx'', Scalar C_u8), (''dl_cnt_idx'', Scalar C_u8)]"

definition struct_wan_ioctl_per_client_info :: ctype where
  "struct_wan_ioctl_per_client_info = Struct False [
    (''mac'', Array (Scalar C_u8) 6), (''ipv4_tx_bytes'', Scalar C_u64),
    (''ipv4_rx_bytes'', Scalar C_u64), (''ipv6_tx_bytes'', Scalar C_u64),
    (''ipv6_rx_bytes'', Scalar C_u64)]"

definition struct_wan_ioctl_query_per_client_stats :: ctype where
  "struct_wan_ioctl_query_per_client_stats = Struct False [
    (''device_type'', Scalar C_enum), (''reset_stats'', Scalar C_u8),
    (''disconnect_clnt'', Scalar C_u8), (''num_clients'', Scalar C_u8),
    (''client_info'', Array struct_wan_ioctl_per_client_info 16)]"

definition rmnet_ipa_fd_ioctls :: "ioctl list" where
  "rmnet_ipa_fd_ioctls =
    [IOWR ''WAN_IOC_ADD_FLT_RULE'' 0x69 0x0 (Scalar C_ptr),
     IOWR ''WAN_IOC_ADD_FLT_RULE_INDEX'' 0x69 0x1 (Scalar C_ptr),
     IOWR ''WAN_IOC_VOTE_FOR_BW_MBPS'' 0x69 0x2 (Scalar C_ptr),
     IOWR ''WAN_IOC_POLL_TETHERING_STATS'' 0x69 0x3 (Scalar C_ptr),
     IOWR ''WAN_IOC_SET_DATA_QUOTA'' 0x69 0x4 (Scalar C_ptr),
     IOWR ''WAN_IOC_SET_TETHER_CLIENT_PIPE'' 0x69 0x5 (Scalar C_ptr),
     IOWR ''WAN_IOC_QUERY_TETHER_STATS'' 0x69 0x6 (Scalar C_ptr),
     IOWR ''WAN_IOC_RESET_TETHER_STATS'' 0x69 0x7 (Scalar C_ptr),
     IOWR ''WAN_IOC_QUERY_DL_FILTER_STATS'' 0x69 0x8 (Scalar C_ptr),
     IOWR ''WAN_IOC_ADD_FLT_RULE_EX'' 0x69 0x9 (Scalar C_ptr),
     IOWR ''WAN_IOC_QUERY_TETHER_STATS_ALL'' 0x69 0xa (Scalar C_ptr),
     IOWR ''WAN_IOC_NOTIFY_WAN_STATE'' 0x69 0xb (Scalar C_ptr),
     IOWR ''WAN_IOC_ADD_UL_FLT_RULE'' 0x69 0xc (Scalar C_ptr),
     IOWR ''WAN_IOC_ENABLE_PER_CLIENT_STATS'' 0x69 0xd (Scalar C_ptr),
     IOWR ''WAN_IOC_QUERY_PER_CLIENT_STATS'' 0x69 0xe (Scalar C_ptr),
     IOWR ''WAN_IOC_SET_LAN_CLIENT_INFO'' 0x69 0xf (Scalar C_ptr),
     IOWR ''WAN_IOC_SEND_LAN_CLIENT_MSG'' 0x69 0x11 (Scalar C_ptr),
     IOWR ''WAN_IOC_CLEAR_LAN_CLIENT_INFO'' 0x69 0x10 (Scalar C_ptr),
     IOWR ''WAN_IOC_ADD_OFFLOAD_CONNECTION'' 0x69 0x12 (Scalar C_ptr),
     IOWR ''WAN_IOC_RMV_OFFLOAD_CONNECTION'' 0x69 0x13 (Scalar C_ptr),
     IOWR ''WAN_IOC_GET_WAN_MTU'' 0x69 0x14 (Scalar C_ptr),
     IOWR ''WAN_IOC_SET_DATA_QUOTA_WARNING'' 0x69 0x15 struct_wan_ioctl_set_data_quota_warning,
     IOWR ''WAN_IOC_NOTIFY_NAT_MOVE_RES'' 0x69 0x16 (Scalar C_bool)]"

section \<open>\<^verbatim>\<open>src/include/linux/msm_rmnet.h\<close>\<close>

definition RMNET_MODE_NONE :: nat where "RMNET_MODE_NONE = 0x00"
definition RMNET_MODE_MASK :: nat where "RMNET_MODE_MASK = 7"
definition rmnet_ioctl_numbers :: "(string \<times> nat) list" where
  "rmnet_ioctl_numbers =
    [(''RMNET_IOCTL_SET_LLP_ETHERNET'', 0x000089F1), (''RMNET_IOCTL_SET_LLP_IP'', 0x000089F2),
     (''RMNET_IOCTL_GET_LLP'', 0x000089F3), (''RMNET_IOCTL_SET_QOS_ENABLE'', 0x000089F4),
     (''RMNET_IOCTL_SET_QOS_DISABLE'', 0x000089F5), (''RMNET_IOCTL_GET_QOS'', 0x000089F6),
     (''RMNET_IOCTL_GET_OPMODE'', 0x000089F7), (''RMNET_IOCTL_OPEN'', 0x000089F8),
     (''RMNET_IOCTL_CLOSE'', 0x000089F9), (''RMNET_IOCTL_FLOW_ENABLE'', 0x000089FA),
     (''RMNET_IOCTL_FLOW_DISABLE'', 0x000089FB), (''RMNET_IOCTL_FLOW_SET_HNDL'', 0x000089FC),
     (''RMNET_IOCTL_EXTENDED'', 0x000089FD), (''RMNET_IOCTL_EXTENDED_V2'', 0x000089FE),
     (''RMNET_IOCTL_GET_SUPPORTED_FEATURES'', 0x0000), (''RMNET_IOCTL_SET_MRU'', 0x0001),
     (''RMNET_IOCTL_GET_MRU'', 0x0002), (''RMNET_IOCTL_GET_EPID'', 0x0003),
     (''RMNET_IOCTL_GET_DRIVER_NAME'', 0x0004), (''RMNET_IOCTL_ADD_MUX_CHANNEL'', 0x0005),
     (''RMNET_IOCTL_SET_EGRESS_DATA_FORMAT'', 0x0006), (''RMNET_IOCTL_SET_INGRESS_DATA_FORMAT'',
     0x0007), (''RMNET_IOCTL_SET_AGGREGATION_COUNT'', 0x0008),
     (''RMNET_IOCTL_GET_AGGREGATION_COUNT'', 0x0009), (''RMNET_IOCTL_SET_AGGREGATION_SIZE'',
     0x000A), (''RMNET_IOCTL_GET_AGGREGATION_SIZE'', 0x000B), (''RMNET_IOCTL_FLOW_CONTROL'',
     0x000C), (''RMNET_IOCTL_GET_DFLT_CONTROL_CHANNEL'', 0x000D), (''RMNET_IOCTL_GET_HWSW_MAP'',
     0x000E), (''RMNET_IOCTL_SET_RX_HEADROOM'', 0x000F), (''RMNET_IOCTL_GET_EP_PAIR'', 0x0010),
     (''RMNET_IOCTL_SET_QOS_VERSION'', 0x0011), (''RMNET_IOCTL_GET_QOS_VERSION'', 0x0012),
     (''RMNET_IOCTL_GET_SUPPORTED_QOS_MODES'', 0x0013), (''RMNET_IOCTL_SET_SLEEP_STATE'', 0x0014),
     (''RMNET_IOCTL_SET_XLAT_DEV_INFO'', 0x0015), (''RMNET_IOCTL_DEREGISTER_DEV'', 0x0016),
     (''RMNET_IOCTL_GET_SG_SUPPORT'', 0x0017), (''RMNET_IOCTL_SET_OFFLOAD'', 0x0018),
     (''RMNET_IOCTL_GET_MTU'', 0x0019), (''RMNET_IOCTL_SET_MTU'', 0x0020),
     (''RMNET_IOCTL_GET_EPID_LL'', 0x0021), (''RMNET_IOCTL_GET_EP_PAIR_LL'', 0x0022),
     (''RMNET_IOCTL_SET_ETH_VLAN'', 0x0023), (''RMNET_IOCTL_ADD_MUX_CHANNEL_v2'', 0x0024),
     (''RMNET_IOCTL_GET_EPID_ETH'', 0x0025), (''RMNET_IOCTL_GET_EP_PAIR_ETH'', 0x0026)]"

definition RMNET_IOCTL_SET_EGRESS_DATA_FORMAT_V2 :: nat where
  "RMNET_IOCTL_SET_EGRESS_DATA_FORMAT_V2 = 0x0000"
definition rmnet_ioctl_numbers_2 :: "(string \<times> nat) list" where
  "rmnet_ioctl_numbers_2 =
    [(''RMNET_IOCTL_SET_INGRESS_DATA_FORMAT_V2'', 0x0001),
     (''RMNET_IOCTL_FEAT_NOTIFY_MUX_CHANNEL'', 1), (''RMNET_IOCTL_FEAT_SET_EGRESS_DATA_FORMAT'',
     2), (''RMNET_IOCTL_FEAT_SET_INGRESS_DATA_FORMAT'', 4),
     (''RMNET_IOCTL_FEAT_SET_AGGREGATION_COUNT'', 8), (''RMNET_IOCTL_FEAT_GET_AGGREGATION_COUNT'',
     16), (''RMNET_IOCTL_FEAT_SET_AGGREGATION_SIZE'', 32),
     (''RMNET_IOCTL_FEAT_GET_AGGREGATION_SIZE'', 64), (''RMNET_IOCTL_FEAT_FLOW_CONTROL'', 128),
     (''RMNET_IOCTL_FEAT_GET_DFLT_CONTROL_CHANNEL'', 256), (''RMNET_IOCTL_FEAT_GET_HWSW_MAP'',
     512), (''RMNET_IOCTL_FEAT_ETH_PDU'', 1024), (''RMNET_IOCTL_EGRESS_FORMAT_MAP'', 2),
     (''RMNET_IOCTL_EGRESS_FORMAT_AGGREGATION'', 4), (''RMNET_IOCTL_EGRESS_FORMAT_MUXING'', 8),
     (''RMNET_IOCTL_EGRESS_FORMAT_CHECKSUM'', 16), (''RMNET_IOCTL_EGRESS_FORMAT_IP_ROUTE'', 32),
     (''RMNET_IOCTL_INGRESS_FORMAT_MAP'', 2), (''RMNET_IOCTL_INGRESS_FORMAT_DEAGGREGATION'', 4),
     (''RMNET_IOCTL_INGRESS_FORMAT_DEMUXING'', 8), (''RMNET_IOCTL_INGRESS_FORMAT_CHECKSUM'', 16),
     (''RMNET_IOCTL_INGRESS_FORMAT_AGG_DATA'', 32), (''RMNET_IOCTL_INGRESS_FORMAT_IP_ROUTE'', 64),
     (''RMNET_IOCTL_OFFLOAD_FORMAT_NONE'', 0), (''RMNET_IOCTL_COALESCING_FORMAT_TCP'', 1),
     (''RMNET_IOCTL_COALESCING_FORMAT_UDP'', 2)]"

definition MAC_ADDR_SIZE :: nat where "MAC_ADDR_SIZE = 6"
definition rmnet_ioctl_qos_mode_numbers :: "(string \<times> nat) list" where
  "rmnet_ioctl_qos_mode_numbers =
    [(''RMNET_IOCTL_QOS_MODE_6'', 1), (''RMNET_IOCTL_QOS_MODE_8'', 2)]"

definition rmnet_egress_ep_type :: "(string \<times> nat) list" where
  "rmnet_egress_ep_type =
    enum_run 0
      [''RMNET_EGRESS_DEFAULT'', ''RMNET_EGRESS_LOW_LAT_CTRL'', ''RMNET_EGRESS_LOW_LAT_DATA'',
      ''RMNET_EGRESS_ETH_DATA'', ''RMNET_EGRESS_MAX'']"

definition rmnet_ingress_ep_type :: "(string \<times> nat) list" where
  "rmnet_ingress_ep_type =
    enum_run 0
      [''RMNET_INGRESS_COALS'', ''RMNET_INGRESS_DEFAULT'', ''RMNET_INGRESS_LOW_LAT_CTRL'',
      ''RMNET_INGRESS_LOW_LAT_DATA'', ''RMNET_INGRESS_MAX'']"

definition rmnet_egress_ingress_pipe_setup_status :: "(string \<times> nat) list" where
  "rmnet_egress_ingress_pipe_setup_status =
    enum_run 0
      [''IPA_PIPE_SETUP_SUCCESS'', ''IPA_PIPE_SETUP_FAILURE'', ''IPA_PIPE_SETUP_EXISTS'']"

definition struct_rmnet_egress_param :: ctype where
  "struct_rmnet_egress_param = Struct False [
    (''egress_ep_type'', Scalar C_u32), (''pipe_setup_status'', Scalar C_u32),
    (''cs_offload_en'', Scalar C_u32), (''aggr_en'', Scalar C_u32), (''ulso_en'', Scalar C_u32),
    (''ipid_min_max_idx'', Scalar C_u32), (''int_modt'', Scalar C_u32),
    (''int_modc'', Scalar C_u32)]"

definition struct_rmnet_ingress_param :: ctype where
  "struct_rmnet_ingress_param = Struct False [
    (''ingress_ep_type'', Scalar C_u32), (''pipe_setup_status'', Scalar C_u32),
    (''cs_offload_en'', Scalar C_u32), (''buff_size'', Scalar C_u32),
    (''agg_byte_limit'', Scalar C_u32), (''agg_time_limit'', Scalar C_u32),
    (''agg_pkt_limit'', Scalar C_u32), (''int_modt'', Scalar C_u32), (''int_modc'', Scalar C_u32),
    (''padding'', Scalar C_u32)]"

definition struct_ingress_format_v2 :: ctype where
  "struct_ingress_format_v2 = Struct False [
    (''ingress_param_ptr'', Scalar C_u64), (''ingress_param_size'', Scalar C_u32),
    (''number_of_eps'', Scalar C_u32)]"

definition struct_egress_format_v2 :: ctype where
  "struct_egress_format_v2 = Struct False [
    (''egress_param_ptr'', Scalar C_u64), (''egress_param_size'', Scalar C_u32),
    (''number_of_eps'', Scalar C_u32)]"

definition struct_rmnet_ioctl_extended_s_v2 :: ctype where
  "struct_rmnet_ioctl_extended_s_v2 = Struct False [
    (''ioctl_ptr'', Scalar C_u64), (''ioctl_data_size'', Scalar C_u32),
    (''extended_v2_ioctl_type'', Scalar C_u32)]"

definition struct_rmnet_ioctl_extended_s :: ctype where
  "struct_rmnet_ioctl_extended_s = Struct False [
    (''extended_ioctl'', Scalar C_u32),
    (''u'', Union [
      (''data'', Scalar C_u32), (''if_name'', Array (Scalar C_s8) 16),
      (''rmnet_mux_val'', Struct False [
        (''mux_id'', Scalar C_u32), (''vchannel_name'', Array (Scalar C_s8) 16)]),
      (''flow_control_prop'', Struct False [
        (''flow_mode'', Scalar C_u8), (''mux_id'', Scalar C_u8)]),
      (''ipa_ep_pair'', Struct False [
        (''consumer_pipe_num'', Scalar C_u32), (''producer_pipe_num'', Scalar C_u32)]),
      (''ingress_format'', Struct False [
        (''__data'', Scalar C_u32), (''agg_size'', Scalar C_u32), (''agg_count'', Scalar C_u32)]),
      (''offload_params'', Struct False [
        (''flags'', Scalar C_u32), (''mux_id'', Scalar C_u8)]),
      (''mtu_params'', Struct False [
        (''if_name'', Array (Scalar C_s8) 16), (''mtu_v4'', Scalar C_u16),
        (''mtu_v6'', Scalar C_u16)]),
      (''rmnet_mux_val_v2'', Struct False [
        (''mux_id'', Scalar C_u32), (''vchannel_name'', Array (Scalar C_s8) 16),
        (''mac'', Array (Scalar C_u8) 6)])])]"

definition struct_rmnet_ioctl_data_s :: ctype where
  "struct_rmnet_ioctl_data_s = Struct False [
    (''u'', Union [
      (''operation_mode'', Scalar C_u32), (''tcm_handle'', Scalar C_u32)])]"

definition struct_QMI_QOS_HDR_S :: ctype where
  "struct_QMI_QOS_HDR_S = Struct True [
    (''version'', Scalar C_u8), (''flags'', Scalar C_u8), (''flow_id'', Scalar C_u32)]"

definition struct_qmi_qos_hdr8_s :: ctype where
  "struct_qmi_qos_hdr8_s = Struct True [
    (''hdr'', struct_QMI_QOS_HDR_S), (''reserved'', Array (Scalar C_u8) 2)]"

section \<open>\<^verbatim>\<open>src/include/linux/rmnet_data.h\<close>\<close>

definition rmnet_numbers :: "(string \<times> nat) list" where
  "rmnet_numbers =
    [(''RMNET_EGRESS_FORMAT__RESERVED__'', 1), (''RMNET_EGRESS_FORMAT_MAP'', 2),
     (''RMNET_EGRESS_FORMAT_AGGREGATION'', 4), (''RMNET_EGRESS_FORMAT_MUXING'', 8),
     (''RMNET_EGRESS_FORMAT_MAP_CKSUMV3'', 16), (''RMNET_EGRESS_FORMAT_MAP_CKSUMV4'', 32),
     (''RMNET_INGRESS_FIX_ETHERNET'', 1), (''RMNET_INGRESS_FORMAT_MAP'', 2),
     (''RMNET_INGRESS_FORMAT_DEAGGREGATION'', 4), (''RMNET_INGRESS_FORMAT_DEMUXING'', 8),
     (''RMNET_INGRESS_FORMAT_MAP_COMMANDS'', 16), (''RMNET_INGRESS_FORMAT_MAP_CKSUMV3'', 32),
     (''RMNET_INGRESS_FORMAT_MAP_CKSUMV4'', 64), (''RMNET_NETLINK_PROTO'', 31),
     (''RMNET_MAX_STR_LEN'', 16), (''RMNET_NL_DATA_MAX_LEN'', 64), (''RMNET_NETLINK_MSG_COMMAND'',
     0), (''RMNET_NETLINK_MSG_RETURNCODE'', 1), (''RMNET_NETLINK_MSG_RETURNDATA'', 2)]"

definition RMNET_NETLINK_NEW_VND_WITH_NAME :: nat where "RMNET_NETLINK_NEW_VND_WITH_NAME = 16"

definition rmnet_netlink_message_types_e :: "(string \<times> nat) list" where
  "rmnet_netlink_message_types_e =
    enum_run 0
      [''RMNET_NETLINK_ASSOCIATE_NETWORK_DEVICE'', ''RMNET_NETLINK_UNASSOCIATE_NETWORK_DEVICE'',
      ''RMNET_NETLINK_GET_NETWORK_DEVICE_ASSOCIATED'',
      ''RMNET_NETLINK_SET_LINK_EGRESS_DATA_FORMAT'', ''RMNET_NETLINK_GET_LINK_EGRESS_DATA_FORMAT'',
      ''RMNET_NETLINK_SET_LINK_INGRESS_DATA_FORMAT'',
      ''RMNET_NETLINK_GET_LINK_INGRESS_DATA_FORMAT'', ''RMNET_NETLINK_SET_LOGICAL_EP_CONFIG'',
      ''RMNET_NETLINK_UNSET_LOGICAL_EP_CONFIG'', ''RMNET_NETLINK_GET_LOGICAL_EP_CONFIG'',
      ''RMNET_NETLINK_NEW_VND'', ''RMNET_NETLINK_NEW_VND_WITH_PREFIX'',
      ''RMNET_NETLINK_GET_VND_NAME'', ''RMNET_NETLINK_FREE_VND'', ''RMNET_NETLINK_ADD_VND_TC_FLOW'',
      ''RMNET_NETLINK_DEL_VND_TC_FLOW'', ''RMNET_NETLINK_NEW_VND_WITH_NAME'']"

definition rmnet_config_endpoint_modes_e :: "(string \<times> nat) list" where
  "rmnet_config_endpoint_modes_e =
    enum_run 0
      [''RMNET_EPMODE_NONE'', ''RMNET_EPMODE_VND'', ''RMNET_EPMODE_BRIDGE'',
      ''RMNET_EPMODE_LENGTH'']"

definition rmnet_config_return_codes_e :: "(string \<times> nat) list" where
  "rmnet_config_return_codes_e =
    enum_run 0
      [''RMNET_CONFIG_OK'', ''RMNET_CONFIG_UNKNOWN_MESSAGE'', ''RMNET_CONFIG_UNKNOWN_ERROR'',
      ''RMNET_CONFIG_NOMEM'', ''RMNET_CONFIG_DEVICE_IN_USE'', ''RMNET_CONFIG_INVALID_REQUEST'',
      ''RMNET_CONFIG_NO_SUCH_DEVICE'', ''RMNET_CONFIG_BAD_ARGUMENTS'',
      ''RMNET_CONFIG_BAD_EGRESS_DEVICE'', ''RMNET_CONFIG_TC_HANDLE_FULL'']"

definition struct_rmnet_nl_msg_s :: ctype where
  "struct_rmnet_nl_msg_s = Struct False [
    (''reserved'', Scalar C_u16), (''message_type'', Scalar C_u16),
    ('''', Bits C_u16 [(''reserved2'', 14), (''crd'', 2)]),
    ('''', Union [
      (''arg_length'', Scalar C_u16), (''return_code'', Scalar C_u16)]),
    ('''', Union [
      (''data'', Array (Scalar C_u8) 64),
      (''data_format'', Struct False [
        (''dev'', Array (Scalar C_u8) 16), (''flags'', Scalar C_u32), (''agg_size'', Scalar C_u16),
        (''agg_count'', Scalar C_u16), (''tail_spacing'', Scalar C_u8)]),
      (''local_ep_config'', Struct False [
        (''dev'', Array (Scalar C_u8) 16), (''ep_id'', Scalar C_s32),
        (''operating_mode'', Scalar C_u8), (''next_dev'', Array (Scalar C_u8) 16)]),
      (''vnd'', Struct False [
        (''id'', Scalar C_u32), (''vnd_name'', Array (Scalar C_u8) 16)]),
      (''flow_control'', Struct False [
        (''id'', Scalar C_u32), (''map_flow_id'', Scalar C_u32), (''tc_flow_id'', Scalar C_u32)])])]"

section \<open>\<^verbatim>\<open>src/include/linux/wimax/i2400m.h\<close>\<close>

definition i2400m_pld_numbers :: "(string \<times> nat) list" where
  "i2400m_pld_numbers =
    [(''I2400M_PLD_SIZE_MASK'', 0x00003fff), (''I2400M_PLD_TYPE_SHIFT'', 16),
     (''I2400M_PLD_TYPE_MASK'', 0x000f0000)]"

definition i2400m_brh_opcode :: "(string \<times> nat) list" where
  "i2400m_brh_opcode =
    enum_run 1
      [''I2400M_BRH_READ'', ''I2400M_BRH_WRITE'', ''I2400M_BRH_JUMP''] @
    enum_run 8
      [''I2400M_BRH_SIGNED_JUMP'', ''I2400M_BRH_HASH_PAYLOAD_ONLY'']"

definition i2400m_brh :: "(string \<times> nat) list" where
  "i2400m_brh =
    enum_run 0xcbbc0000
      [''I2400M_BRH_SIGNATURE''] @
    enum_run 0xffff0000
      [''I2400M_BRH_SIGNATURE_MASK''] @
    enum_run 16
      [''I2400M_BRH_SIGNATURE_SHIFT''] @
    enum_run 15
      [''I2400M_BRH_OPCODE_MASK''] @
    enum_run 0xf0
      [''I2400M_BRH_RESPONSE_MASK''] @
    enum_run 4
      [''I2400M_BRH_RESPONSE_SHIFT''] @
    enum_run 0x400
      [''I2400M_BRH_DIRECT_ACCESS''] @
    enum_run 0x200
      [''I2400M_BRH_RESPONSE_REQUIRED''] @
    enum_run 0x100
      [''I2400M_BRH_USE_CHECKSUM'']"

definition i2400m_pt :: "(string \<times> nat) list" where
  "i2400m_pt =
    enum_run 0
      [''I2400M_PT_DATA'', ''I2400M_PT_CTRL'', ''I2400M_PT_TRACE'', ''I2400M_PT_RESET_WARM'',
      ''I2400M_PT_RESET_COLD'', ''I2400M_PT_EDATA'', ''I2400M_PT_ILLEGAL'']"

definition i2400m_cs :: "(string \<times> nat) list" where
  "i2400m_cs =
    enum_run 0
      [''I2400M_CS_IPV4_0''] @
    enum_run 2
      [''I2400M_CS_IPV4'']"

definition i2400m_ro :: "(string \<times> nat) list" where
  "i2400m_ro =
    enum_run 1
      [''I2400M_RO_NEEDED''] @
    enum_run 3
      [''I2400M_RO_TYPE''] @
    enum_run 1
      [''I2400M_RO_TYPE_SHIFT''] @
    enum_run 15
      [''I2400M_RO_CIN''] @
    enum_run 4
      [''I2400M_RO_CIN_SHIFT''] @
    enum_run 0x7ff
      [''I2400M_RO_FBN''] @
    enum_run 8
      [''I2400M_RO_FBN_SHIFT''] @
    enum_run 0x7ff
      [''I2400M_RO_SN''] @
    enum_run 21
      [''I2400M_RO_SN_SHIFT'']"

definition i2400m_ro_type :: "(string \<times> nat) list" where
  "i2400m_ro_type =
    enum_run 0
      [''I2400M_RO_TYPE_RESET'', ''I2400M_RO_TYPE_PACKET'', ''I2400M_RO_TYPE_WS'',
      ''I2400M_RO_TYPE_PACKET_WS'']"

definition i2400m_enum :: "(string \<times> nat) list" where
  "i2400m_enum =
    enum_run 16
      [''I2400M_PL_ALIGN''] @
    enum_run 0x3eff
      [''I2400M_PL_SIZE_MAX''] @
    enum_run 60
      [''I2400M_MAX_PLS_IN_MSG''] @
    enum_run 0xcafe900d
      [''I2400M_H2D_PREVIEW_BARKER''] @
    enum_run 0xc01dc01d
      [''I2400M_COLD_RESET_BARKER''] @
    enum_run 0x50f750f7
      [''I2400M_WARM_RESET_BARKER''] @
    enum_run 0xdeadbeef
      [''I2400M_NBOOT_BARKER''] @
    enum_run 0xff1c1a1
      [''I2400M_SBOOT_BARKER''] @
    enum_run 0x80000001
      [''I2400M_SBOOT_BARKER_6050''] @
    enum_run 0xfeedbabe
      [''I2400M_ACK_BARKER''] @
    enum_run 0xbeefbabe
      [''I2400M_D2H_MSG_BARKER'']"

definition i2400m_l3l4_version_enum :: "(string \<times> nat) list" where
  "i2400m_l3l4_version_enum =
    enum_run 0x100
      [''I2400M_L3L4_VERSION'']"

definition i2400m_mt :: "(string \<times> nat) list" where
  "i2400m_mt =
    enum_run 0
      [''I2400M_MT_RESERVED''] @
    enum_run 0xffff
      [''I2400M_MT_INVALID''] @
    enum_run 0x8000
      [''I2400M_MT_REPORT_MASK''] @
    enum_run 0x4202
      [''I2400M_MT_GET_SCAN_RESULT''] @
    enum_run 0x4402
      [''I2400M_MT_SET_SCAN_PARAM''] @
    enum_run 0x4602
      [''I2400M_MT_CMD_RF_CONTROL'', ''I2400M_MT_CMD_SCAN'', ''I2400M_MT_CMD_CONNECT'',
      ''I2400M_MT_CMD_DISCONNECT'', ''I2400M_MT_CMD_EXIT_IDLE''] @
    enum_run 0x5201
      [''I2400M_MT_GET_LM_VERSION'', ''I2400M_MT_GET_DEVICE_INFO'', ''I2400M_MT_GET_LINK_STATUS'',
      ''I2400M_MT_GET_STATISTICS'', ''I2400M_MT_GET_STATE'', ''I2400M_MT_GET_MEDIA_STATUS''] @
    enum_run 0x5404
      [''I2400M_MT_SET_INIT_CONFIG''] @
    enum_run 0x5601
      [''I2400M_MT_CMD_INIT'', ''I2400M_MT_CMD_TERMINATE'', ''I2400M_MT_CMD_MODE_OF_OP'',
      ''I2400M_MT_CMD_RESET_DEVICE'', ''I2400M_MT_CMD_MONITOR_CONTROL'',
      ''I2400M_MT_CMD_ENTER_POWERSAVE''] @
    enum_run 0x6201
      [''I2400M_MT_GET_TLS_OPERATION_RESULT''] @
    enum_run 0x6402
      [''I2400M_MT_SET_EAP_SUCCESS'', ''I2400M_MT_SET_EAP_FAIL'', ''I2400M_MT_SET_EAP_KEY''] @
    enum_run 0x6602
      [''I2400M_MT_CMD_SEND_EAP_RESPONSE''] @
    enum_run 0xc002
      [''I2400M_MT_REPORT_SCAN_RESULT''] @
    enum_run 0xd002
      [''I2400M_MT_REPORT_STATE''] @
    enum_run 0xd005
      [''I2400M_MT_REPORT_POWERSAVE_READY''] @
    enum_run 0xe002
      [''I2400M_MT_REPORT_EAP_REQUEST'', ''I2400M_MT_REPORT_EAP_RESTART'',
      ''I2400M_MT_REPORT_ALT_ACCEPT'', ''I2400M_MT_REPORT_KEY_REQUEST'']"

definition i2400m_ms :: "(string \<times> nat) list" where
  "i2400m_ms =
    enum_run 0
      [''I2400M_MS_DONE_OK'', ''I2400M_MS_DONE_IN_PROGRESS'', ''I2400M_MS_INVALID_OP'',
      ''I2400M_MS_BAD_STATE'', ''I2400M_MS_ILLEGAL_VALUE'', ''I2400M_MS_MISSING_PARAMS'',
      ''I2400M_MS_VERSION_ERROR'', ''I2400M_MS_ACCESSIBILITY_ERROR'', ''I2400M_MS_BUSY'',
      ''I2400M_MS_CORRUPTED_TLV'', ''I2400M_MS_UNINITIALIZED'', ''I2400M_MS_UNKNOWN_ERROR'',
      ''I2400M_MS_PRODUCTION_ERROR'', ''I2400M_MS_NO_RF'', ''I2400M_MS_NOT_READY_FOR_POWERSAVE'',
      ''I2400M_MS_THERMAL_CRITICAL'', ''I2400M_MS_MAX'']"

definition i2400m_tlv :: "(string \<times> nat) list" where
  "i2400m_tlv =
    enum_run 0x81
      [''I2400M_TLV_L4_MESSAGE_VERSIONS''] @
    enum_run 0x8d
      [''I2400M_TLV_SYSTEM_STATE''] @
    enum_run 0xa1
      [''I2400M_TLV_MEDIA_STATUS'', ''I2400M_TLV_RF_OPERATION'', ''I2400M_TLV_RF_STATUS''] @
    enum_run 0x84
      [''I2400M_TLV_DEVICE_RESET_TYPE''] @
    enum_run 0x259
      [''I2400M_TLV_CONFIG_IDLE_PARAMETERS''] @
    enum_run 0x263
      [''I2400M_TLV_CONFIG_IDLE_TIMEOUT''] @
    enum_run 0x266
      [''I2400M_TLV_CONFIG_D2H_DATA_FORMAT'', ''I2400M_TLV_CONFIG_DL_HOST_REORDER'']"

definition i2400m_system_state :: "(string \<times> nat) list" where
  "i2400m_system_state =
    enum_run 1
      [''I2400M_SS_UNINITIALIZED'', ''I2400M_SS_INIT'', ''I2400M_SS_READY'', ''I2400M_SS_SCAN'',
      ''I2400M_SS_STANDBY'', ''I2400M_SS_CONNECTING'', ''I2400M_SS_WIMAX_CONNECTED'',
      ''I2400M_SS_DATA_PATH_CONNECTED'', ''I2400M_SS_IDLE'', ''I2400M_SS_DISCONNECTING'',
      ''I2400M_SS_OUT_OF_ZONE'', ''I2400M_SS_SLEEPACTIVE'', ''I2400M_SS_PRODUCTION'',
      ''I2400M_SS_CONFIG'', ''I2400M_SS_RF_OFF'', ''I2400M_SS_RF_SHUTDOWN'',
      ''I2400M_SS_DEVICE_DISCONNECT'', ''I2400M_SS_MAX'']"

definition i2400m_rf_switch_status :: "(string \<times> nat) list" where
  "i2400m_rf_switch_status =
    enum_run 1
      [''I2400M_RF_SWITCH_ON'', ''I2400M_RF_SWITCH_OFF'']"

definition i2400m_rf_operation_o_enum :: "(string \<times> nat) list" where
  "i2400m_rf_operation_o_enum =
    enum_run 1
      [''i2400m_rf_operation_on'', ''i2400m_rf_operation_off'']"

definition i2400m_tlv_reset_type :: "(string \<times> nat) list" where
  "i2400m_tlv_reset_type =
    enum_run 1
      [''I2400M_RESET_TYPE_COLD'', ''I2400M_RESET_TYPE_WARM'']"

definition i2400m_media_status :: "(string \<times> nat) list" where
  "i2400m_media_status =
    enum_run 1
      [''I2400M_MEDIA_STATUS_LINK_UP'', ''I2400M_MEDIA_STATUS_LINK_DOWN'',
      ''I2400M_MEDIA_STATUS_LINK_RENEW'']"

definition struct_i2400m_bcf_hdr :: ctype where
  "struct_i2400m_bcf_hdr = Struct True [
    (''module_type'', Scalar C_u32), (''header_len'', Scalar C_u32),
    (''header_version'', Scalar C_u32), (''module_id'', Scalar C_u32),
    (''module_vendor'', Scalar C_u32), (''date'', Scalar C_u32), (''size'', Scalar C_u32),
    (''key_size'', Scalar C_u32), (''modulus_size'', Scalar C_u32),
    (''exponent_size'', Scalar C_u32), (''reserved'', Array (Scalar C_u8) 88)]"

definition struct_i2400m_bootrom_header :: ctype where
  "struct_i2400m_bootrom_header = Struct True [
    (''command'', Scalar C_u32), (''target_addr'', Scalar C_u32), (''data_size'', Scalar C_u32),
    (''block_checksum'', Scalar C_u32), (''payload'', Array (Scalar C_char) 0)]"

definition struct_i2400m_pl_data_hdr :: ctype where
  "struct_i2400m_pl_data_hdr = Struct True [
    (''reserved'', Scalar C_u32)]"

definition struct_i2400m_pl_edata_hdr :: ctype where
  "struct_i2400m_pl_edata_hdr = Struct True [
    (''reorder'', Scalar C_u32), (''cs'', Scalar C_u8), (''reserved'', Array (Scalar C_u8) 11)]"

definition struct_i2400m_pld :: ctype where
  "struct_i2400m_pld = Struct True [
    (''val'', Scalar C_u32)]"

definition struct_i2400m_msg_hdr :: ctype where
  "struct_i2400m_msg_hdr = Struct True [
    ('''', Union [
      (''barker'', Scalar C_u32), (''size'', Scalar C_u32)]),
    ('''', Union [
      (''sequence'', Scalar C_u32), (''offset'', Scalar C_u32)]),
    (''num_pls'', Scalar C_u16), (''rsv1'', Scalar C_u16), (''padding'', Scalar C_u16),
    (''rsv2'', Scalar C_u16), (''pld'', Array struct_i2400m_pld 0)]"

definition struct_i2400m_tlv_hdr :: ctype where
  "struct_i2400m_tlv_hdr = Struct True [
    (''type'', Scalar C_u16), (''length'', Scalar C_u16), (''pl'', Array (Scalar C_u8) 0)]"

definition struct_i2400m_l3l4_hdr :: ctype where
  "struct_i2400m_l3l4_hdr = Struct True [
    (''type'', Scalar C_u16), (''length'', Scalar C_u16), (''version'', Scalar C_u16),
    (''resv1'', Scalar C_u16), (''status'', Scalar C_u16), (''resv2'', Scalar C_u16),
    (''pl'', Array struct_i2400m_tlv_hdr 0)]"

definition struct_i2400m_tlv_system_state :: ctype where
  "struct_i2400m_tlv_system_state = Struct True [
    (''hdr'', struct_i2400m_tlv_hdr), (''state'', Scalar C_u32)]"

definition struct_i2400m_tlv_l4_message_versions :: ctype where
  "struct_i2400m_tlv_l4_message_versions = Struct True [
    (''hdr'', struct_i2400m_tlv_hdr), (''major'', Scalar C_u16), (''minor'', Scalar C_u16),
    (''branch'', Scalar C_u16), (''reserved'', Scalar C_u16)]"

definition struct_i2400m_tlv_detailed_device_info :: "nat \<Rightarrow> ctype" where
  "struct_i2400m_tlv_detailed_device_info ETH_ALEN = Struct True [
    (''hdr'', struct_i2400m_tlv_hdr), (''reserved1'', Array (Scalar C_u8) 400),
    (''mac_address'', Array (Scalar C_u8) ETH_ALEN), (''reserved2'', Array (Scalar C_u8) 2)]"

definition struct_i2400m_tlv_rf_switches_status :: ctype where
  "struct_i2400m_tlv_rf_switches_status = Struct True [
    (''hdr'', struct_i2400m_tlv_hdr), (''sw_rf_switch'', Scalar C_u8),
    (''hw_rf_switch'', Scalar C_u8), (''reserved'', Array (Scalar C_u8) 2)]"

definition struct_i2400m_tlv_rf_operation :: ctype where
  "struct_i2400m_tlv_rf_operation = Struct True [
    (''hdr'', struct_i2400m_tlv_hdr), (''status'', Scalar C_u32)]"

definition struct_i2400m_tlv_device_reset_type :: ctype where
  "struct_i2400m_tlv_device_reset_type = Struct True [
    (''hdr'', struct_i2400m_tlv_hdr), (''reset_type'', Scalar C_u32)]"

definition struct_i2400m_tlv_config_idle_parameters :: ctype where
  "struct_i2400m_tlv_config_idle_parameters = Struct True [
    (''hdr'', struct_i2400m_tlv_hdr), (''idle_timeout'', Scalar C_u32),
    (''idle_paging_interval'', Scalar C_u32)]"

definition struct_i2400m_tlv_media_status :: ctype where
  "struct_i2400m_tlv_media_status = Struct True [
    (''hdr'', struct_i2400m_tlv_hdr), (''media_status'', Scalar C_u32)]"

definition struct_i2400m_tlv_config_idle_timeout :: ctype where
  "struct_i2400m_tlv_config_idle_timeout = Struct True [
    (''hdr'', struct_i2400m_tlv_hdr), (''timeout'', Scalar C_u32)]"

definition struct_i2400m_tlv_config_d2h_data_format :: ctype where
  "struct_i2400m_tlv_config_d2h_data_format = Struct True [
    (''hdr'', struct_i2400m_tlv_hdr), (''format'', Scalar C_u8),
    (''reserved'', Array (Scalar C_u8) 3)]"

definition struct_i2400m_tlv_config_dl_host_reorder :: ctype where
  "struct_i2400m_tlv_config_dl_host_reorder = Struct True [
    (''hdr'', struct_i2400m_tlv_hdr), (''reorder'', Scalar C_u8),
    (''reserved'', Array (Scalar C_u8) 3)]"

section \<open>\<^verbatim>\<open>src/include/linux/wimax.h\<close>\<close>

definition wimax_gnl_enum :: "(string \<times> nat) list" where
  "wimax_gnl_enum =
    enum_run 1
      [''WIMAX_GNL_VERSION''] @
    enum_run 0
      [''WIMAX_GNL_ATTR_INVALID''] @
    enum_run 10
      [''WIMAX_GNL_ATTR_MAX'']"

definition wimax_gnl_enum2 :: "(string \<times> nat) list" where
  "wimax_gnl_enum2 =
    enum_run 0
      [''WIMAX_GNL_OP_MSG_FROM_USER'', ''WIMAX_GNL_OP_MSG_TO_USER'', ''WIMAX_GNL_OP_RFKILL'',
      ''WIMAX_GNL_OP_RESET'', ''WIMAX_GNL_RE_STATE_CHANGE'', ''WIMAX_GNL_OP_STATE_GET'']"

definition wimax_gnl_msg_enum :: "(string \<times> nat) list" where
  "wimax_gnl_msg_enum =
    enum_run 1
      [''WIMAX_GNL_MSG_IFIDX'', ''WIMAX_GNL_MSG_PIPE_NAME'', ''WIMAX_GNL_MSG_DATA'']"

definition wimax_rf_state :: "(string \<times> nat) list" where
  "wimax_rf_state =
    enum_run 0
      [''WIMAX_RF_OFF'', ''WIMAX_RF_ON'', ''WIMAX_RF_QUERY'']"

definition wimax_gnl_rfkill_enum :: "(string \<times> nat) list" where
  "wimax_gnl_rfkill_enum =
    enum_run 1
      [''WIMAX_GNL_RFKILL_IFIDX'', ''WIMAX_GNL_RFKILL_STATE'']"

definition wimax_gnl_reset_ifidx_enum :: "(string \<times> nat) list" where
  "wimax_gnl_reset_ifidx_enum =
    enum_run 1
      [''WIMAX_GNL_RESET_IFIDX'']"

definition wimax_gnl_stget_ifidx_enum :: "(string \<times> nat) list" where
  "wimax_gnl_stget_ifidx_enum =
    enum_run 1
      [''WIMAX_GNL_STGET_IFIDX'']"

definition wimax_gnl_stch_enum :: "(string \<times> nat) list" where
  "wimax_gnl_stch_enum =
    enum_run 1
      [''WIMAX_GNL_STCH_IFIDX'', ''WIMAX_GNL_STCH_STATE_OLD'', ''WIMAX_GNL_STCH_STATE_NEW'']"

definition wimax_st :: "(string \<times> nat) list" where
  "wimax_st =
    enum_run 0
      [''__WIMAX_ST_NULL'', ''WIMAX_ST_DOWN'', ''__WIMAX_ST_QUIESCING'', ''WIMAX_ST_UNINITIALIZED'',
      ''WIMAX_ST_RADIO_OFF'', ''WIMAX_ST_READY'', ''WIMAX_ST_SCANNING'', ''WIMAX_ST_CONNECTING'',
      ''WIMAX_ST_CONNECTED'', ''__WIMAX_ST_INVALID'']"


section \<open>The tables satisfy their contracts\<close>

interpretation rmnet_ipa_fd: ioctl_table rmnet_ipa_fd_ioctls
  by (rule ioctl_tableI) code_simp+

section \<open>Modes and packed words\<close>

unbundle bit_operations_syntax

definition RMNET_MODE_QOS :: u32 where "RMNET_MODE_QOS = 0x04"
definition RMNET_MODE_LLP_IP :: u32 where "RMNET_MODE_LLP_IP = 0x02"
definition RMNET_MODE_LLP_ETH :: u32 where "RMNET_MODE_LLP_ETH = 0x01"

definition RMNET_IS_MODE_QOS :: "u32 \<Rightarrow> bool" where
  "RMNET_IS_MODE_QOS mode \<longleftrightarrow> mode AND RMNET_MODE_QOS = RMNET_MODE_QOS"

definition RMNET_IS_MODE_IP :: "u32 \<Rightarrow> bool" where
  "RMNET_IS_MODE_IP mode \<longleftrightarrow> mode AND RMNET_MODE_LLP_IP = RMNET_MODE_LLP_IP"

lemma rmnet_modes:
  "RMNET_IS_MODE_QOS mode \<longleftrightarrow> bit mode 2" "RMNET_IS_MODE_IP mode \<longleftrightarrow> bit mode 1"
proof -
  have "mode AND 2 ^ n = 2 ^ n \<longleftrightarrow> bit mode n" if "n < 32" for n
  proof
    assume "mode AND 2 ^ n = 2 ^ n"
    then have "bit (mode AND 2 ^ n) n = bit (2 ^ n :: u32) n" by simp
    then show "bit mode n" using that by (simp add: bit_simps)
  next
    assume "bit mode n"
    then show "mode AND 2 ^ n = 2 ^ n" by (intro bit_word_eqI) (auto simp: bit_simps)
  qed
  from this [of 2] this [of 1] show
    "RMNET_IS_MODE_QOS mode \<longleftrightarrow> bit mode 2" "RMNET_IS_MODE_IP mode \<longleftrightarrow> bit mode 1"
    by (simp_all add: RMNET_IS_MODE_QOS_def RMNET_IS_MODE_IP_def RMNET_MODE_QOS_def
        RMNET_MODE_LLP_IP_def)
qed

lemma rmnet_mode_mask: "unat (RMNET_MODE_LLP_ETH OR RMNET_MODE_LLP_IP OR RMNET_MODE_QOS) = RMNET_MODE_MASK"
  by (simp add: RMNET_MODE_LLP_ETH_def RMNET_MODE_LLP_IP_def RMNET_MODE_QOS_def RMNET_MODE_MASK_def)

text \<open>
  The word that tells how a received packet is reordered: each mask of \<^verbatim>\<open>enum i2400m_ro\<close> with its
  shift. The fields do not overlap.
\<close>

definition enum_word :: "(string \<times> nat) list \<Rightarrow> string \<Rightarrow> u32" where
  "enum_word tbl n = (case map_of tbl n of None \<Rightarrow> 0 | Some v \<Rightarrow> word_of_nat v)"

definition enum_shift :: "(string \<times> nat) list \<Rightarrow> string \<Rightarrow> nat" where
  "enum_shift tbl n = (case map_of tbl n of None \<Rightarrow> 0 | Some v \<Rightarrow> v)"

definition reorder_masks :: "u32 list" where
  "reorder_masks =
    enum_word i2400m_ro ''I2400M_RO_NEEDED'' #
    map (\<lambda>n. push_bit (enum_shift i2400m_ro (n @ ''_SHIFT'')) (enum_word i2400m_ro n))
      [''I2400M_RO_TYPE'', ''I2400M_RO_CIN'', ''I2400M_RO_FBN'', ''I2400M_RO_SN'']"

lemma reorder_masks_values: "reorder_masks = [0x1, 0x6, 0xf0, 0x7ff00, 0xffe00000]"
  by code_simp

lemma reorder_masks_disjoint: "disjoint_masks reorder_masks"
  by (simp add: reorder_masks_values)

text \<open>
  The command word of the boot mode: signature, opcode, response and the three flags of
  \<^verbatim>\<open>enum i2400m_brh\<close> do not overlap, and the signature and every opcode lie in their field, so that a
  composed command gives back its parts.
\<close>

definition boot_masks :: "u32 list" where
  "boot_masks = map (enum_word i2400m_brh)
    [''I2400M_BRH_SIGNATURE_MASK'', ''I2400M_BRH_OPCODE_MASK'', ''I2400M_BRH_RESPONSE_MASK'',
     ''I2400M_BRH_DIRECT_ACCESS'', ''I2400M_BRH_RESPONSE_REQUIRED'', ''I2400M_BRH_USE_CHECKSUM'']"

definition boot_command :: "u32 \<Rightarrow> u32 \<Rightarrow> u32" where
  "boot_command opcode flags = enum_word i2400m_brh ''I2400M_BRH_SIGNATURE'' OR opcode OR flags"

lemma boot_masks_values: "boot_masks = [0xffff0000, 0xf, 0xf0, 0x400, 0x200, 0x100]"
  by code_simp

lemma boot_masks_disjoint: "disjoint_masks boot_masks"
  by (simp add: boot_masks_values)

lemma boot_command_parts:
  assumes "(name, v) \<in> set i2400m_brh_opcode" and "flags AND 0xfffff8ff = 0"
  shows "boot_command (word_of_nat v) flags AND boot_masks ! 0 = enum_word i2400m_brh ''I2400M_BRH_SIGNATURE'' \<and>
    boot_command (word_of_nat v) flags AND boot_masks ! 1 = word_of_nat v \<and>
    boot_command (word_of_nat v) flags AND 0x700 = flags"
proof -
  have "list_all (\<lambda>(_, v). (word_of_nat v :: u32) AND 0xf = word_of_nat v) i2400m_brh_opcode"
    by code_simp
  then have v: "(word_of_nat v :: u32) AND 0xf = word_of_nat v"
    using assms(1) by (auto simp: list_all_iff)
  have sig: "enum_word i2400m_brh ''I2400M_BRH_SIGNATURE'' = 0xcbbc0000"
    by code_simp
  have apart: "x AND m = 0" if "x AND k = x" "k AND m = 0" for x k m :: u32
    using that by (metis and.assoc and_zero_eq)
  have f: "flags AND 0x700 = flags"
  proof -
    have "(0xfffff8ff OR 0x700 :: u32) = -1" by simp
    then have "flags = flags AND (0xfffff8ff OR 0x700)" by (metis and.right_neutral)
    then show ?thesis using assms(2) by (metis bit.conj_disj_distrib or.left_neutral)
  qed
  show ?thesis
    using apart [OF v, of "0xffff0000"] apart [OF v, of "0x700"] apart [OF f, of "0xffff0000"]
      apart [OF f, of "0xf"] v f
    by (simp add: boot_command_def boot_masks_values sig bit.conj_disj_distrib2)
qed

text \<open>
  The payload descriptor: size and type do not overlap, the largest payload fits the size, and every
  packet type fits the type.
\<close>

lemma payload_descriptor_fits:
  "disjoint_masks [enum_word i2400m_pld_numbers ''I2400M_PLD_SIZE_MASK'',
     enum_word i2400m_pld_numbers ''I2400M_PLD_TYPE_MASK'']"
  "enum_word i2400m_enum ''I2400M_PL_SIZE_MAX'' AND
     enum_word i2400m_pld_numbers ''I2400M_PLD_SIZE_MASK'' = enum_word i2400m_enum ''I2400M_PL_SIZE_MAX''"
  "list_all (\<lambda>(_, t). let w = push_bit (enum_shift i2400m_pld_numbers ''I2400M_PLD_TYPE_SHIFT'') (word_of_nat t)
     in w AND enum_word i2400m_pld_numbers ''I2400M_PLD_TYPE_MASK'' = w) i2400m_pt"
  by code_simp+

end
