(* ===== verification/Device_Misc.thy ===== *)
theory Device_Misc
  imports C_Layout
begin

text \<open>
  Structs, numbers and requests of small devices and services of the platform, from the headers
  \<^verbatim>\<open>linux/lightnvm.h\<close>, \<^verbatim>\<open>linux/qcom_sync_file.h\<close>,
  \<^verbatim>\<open>linux/raw.h\<close>, \<^verbatim>\<open>linux/qrng.h\<close>,
  \<^verbatim>\<open>linux/msm_dsps.h\<close>, \<^verbatim>\<open>linux/nfc/nfcinfo.h\<close>,
  \<^verbatim>\<open>linux/qbt_handler.h\<close>, \<^verbatim>\<open>linux/msm_sysstats.h\<close>,
  \<^verbatim>\<open>linux/qg.h\<close>, \<^verbatim>\<open>linux/wil6210_uapi.h\<close>,
  \<^verbatim>\<open>linux/n_r3964.h\<close>, \<^verbatim>\<open>linux/sdla.h\<close>,
  \<^verbatim>\<open>linux/if_frad.h\<close>, \<^verbatim>\<open>linux/ipx.h\<close>,
  \<^verbatim>\<open>linux/nfsd/nfsfh.h\<close>, \<^verbatim>\<open>linux/msm_ion_ids.h\<close>,
  \<^verbatim>\<open>linux/wcd-spi-ac-params.h\<close>,
  \<^verbatim>\<open>linux/fips_status.h\<close>,
  \<^verbatim>\<open>media/msm_cvp_private.h\<close>,
  \<^verbatim>\<open>display/hdcp/msm_hdmi_hdcp_mgr.h\<close>,
  \<^verbatim>\<open>display/media/msm_sde_rotator.h\<close>,
  \<^verbatim>\<open>rdma/i40iw-abi.h\<close> under \<^verbatim>\<open>src/include\<close>.
\<close>

section \<open>\<^verbatim>\<open>src/include/linux/lightnvm.h\<close>\<close>

definition DISK_NAME_LEN :: nat where "DISK_NAME_LEN = 32"
definition nvm_ttype_name_max_numbers :: "(string \<times> nat) list" where
  "nvm_ttype_name_max_numbers =
    [(''NVM_TTYPE_NAME_MAX'', 48), (''NVM_TTYPE_MAX'', 63), (''NVM_MMTYPE_LEN'', 8)]"

definition NVM_IOCTL :: nat where "NVM_IOCTL = 76"
definition nvm_version_numbers :: "(string \<times> nat) list" where
  "nvm_version_numbers =
    [(''NVM_VERSION_MAJOR'', 1), (''NVM_VERSION_MINOR'', 0), (''NVM_VERSION_PATCHLEVEL'', 0)]"

definition nvm_device_active_enum :: "(string \<times> nat) list" where
  "nvm_device_active_enum =
    enum_run 1
      [''NVM_DEVICE_ACTIVE'']"

definition nvm_config_type_enum :: "(string \<times> nat) list" where
  "nvm_config_type_enum =
    enum_run 0
      [''NVM_CONFIG_TYPE_SIMPLE'', ''NVM_CONFIG_TYPE_EXTENDED'']"

definition nvm_target_factory_enum :: "(string \<times> nat) list" where
  "nvm_target_factory_enum =
    enum_run 1
      [''NVM_TARGET_FACTORY'']"

definition nvm_factory_enum :: "(string \<times> nat) list" where
  "nvm_factory_enum =
    enum_run 1
      [''NVM_FACTORY_ERASE_ONLY_USER'', ''NVM_FACTORY_RESET_HOST_BLKS''] @
    enum_run 4
      [''NVM_FACTORY_RESET_GRWN_BBLKS''] @
    enum_run 8
      [''NVM_FACTORY_NR_BITS'']"

definition nvm_enum :: "(string \<times> nat) list" where
  "nvm_enum =
    enum_run 32
      [''NVM_INFO_CMD'', ''NVM_GET_DEVICES_CMD'', ''NVM_DEV_CREATE_CMD'', ''NVM_DEV_REMOVE_CMD'',
      ''NVM_DEV_INIT_CMD'', ''NVM_DEV_FACTORY_CMD''] @
    enum_run 65
      [''NVM_DEV_VIO_ADMIN_CMD'', ''NVM_DEV_VIO_CMD'', ''NVM_DEV_VIO_USER_CMD'']"

definition struct_nvm_ioctl_info_tgt :: ctype where
  "struct_nvm_ioctl_info_tgt = Struct False [
    (''version'', Array (Scalar C_u32) 3), (''reserved'', Scalar C_u32),
    (''tgtname'', Array (Scalar C_char) 48)]"

definition struct_nvm_ioctl_info :: ctype where
  "struct_nvm_ioctl_info = Struct False [
    (''version'', Array (Scalar C_u32) 3), (''tgtsize'', Scalar C_u16),
    (''reserved16'', Scalar C_u16), (''reserved'', Array (Scalar C_u32) 12),
    (''tgts'', Array struct_nvm_ioctl_info_tgt 63)]"

definition struct_nvm_ioctl_device_info :: ctype where
  "struct_nvm_ioctl_device_info = Struct False [
    (''devname'', Array (Scalar C_char) 32), (''bmname'', Array (Scalar C_char) 48),
    (''bmversion'', Array (Scalar C_u32) 3), (''flags'', Scalar C_u32),
    (''reserved'', Array (Scalar C_u32) 8)]"

definition struct_nvm_ioctl_get_devices :: ctype where
  "struct_nvm_ioctl_get_devices = Struct False [
    (''nr_devices'', Scalar C_u32), (''reserved'', Array (Scalar C_u32) 31),
    (''info'', Array struct_nvm_ioctl_device_info 31)]"

definition struct_nvm_ioctl_create_simple :: ctype where
  "struct_nvm_ioctl_create_simple = Struct False [
    (''lun_begin'', Scalar C_u32), (''lun_end'', Scalar C_u32)]"

definition struct_nvm_ioctl_create_extended :: ctype where
  "struct_nvm_ioctl_create_extended = Struct False [
    (''lun_begin'', Scalar C_u16), (''lun_end'', Scalar C_u16), (''op'', Scalar C_u16),
    (''rsv'', Scalar C_u16)]"

definition struct_nvm_ioctl_create_conf :: ctype where
  "struct_nvm_ioctl_create_conf = Struct False [
    (''type'', Scalar C_u32),
    ('''', Union [
      (''s'', struct_nvm_ioctl_create_simple), (''e'', struct_nvm_ioctl_create_extended)])]"

definition struct_nvm_ioctl_create :: ctype where
  "struct_nvm_ioctl_create = Struct False [
    (''dev'', Array (Scalar C_char) 32), (''tgttype'', Array (Scalar C_char) 48),
    (''tgtname'', Array (Scalar C_char) 32), (''flags'', Scalar C_u32),
    (''conf'', struct_nvm_ioctl_create_conf)]"

definition struct_nvm_ioctl_remove :: ctype where
  "struct_nvm_ioctl_remove = Struct False [
    (''tgtname'', Array (Scalar C_char) 32), (''flags'', Scalar C_u32)]"

definition struct_nvm_ioctl_dev_init :: ctype where
  "struct_nvm_ioctl_dev_init = Struct False [
    (''dev'', Array (Scalar C_char) 32), (''mmtype'', Array (Scalar C_char) 8),
    (''flags'', Scalar C_u32)]"

definition struct_nvm_ioctl_dev_factory :: ctype where
  "struct_nvm_ioctl_dev_factory = Struct False [
    (''dev'', Array (Scalar C_char) 32), (''flags'', Scalar C_u32)]"

definition struct_nvm_user_vio :: ctype where
  "struct_nvm_user_vio = Struct False [
    (''opcode'', Scalar C_u8), (''flags'', Scalar C_u8), (''control'', Scalar C_u16),
    (''nppas'', Scalar C_u16), (''rsvd'', Scalar C_u16), (''metadata'', Scalar C_u64),
    (''addr'', Scalar C_u64), (''ppa_list'', Scalar C_u64), (''metadata_len'', Scalar C_u32),
    (''data_len'', Scalar C_u32), (''status'', Scalar C_u64), (''result'', Scalar C_u32),
    (''rsvd3'', Array (Scalar C_u32) 3)]"

definition struct_nvm_passthru_vio :: ctype where
  "struct_nvm_passthru_vio = Struct False [
    (''opcode'', Scalar C_u8), (''flags'', Scalar C_u8), (''rsvd'', Array (Scalar C_u8) 2),
    (''nsid'', Scalar C_u32), (''cdw2'', Scalar C_u32), (''cdw3'', Scalar C_u32),
    (''metadata'', Scalar C_u64), (''addr'', Scalar C_u64), (''metadata_len'', Scalar C_u32),
    (''data_len'', Scalar C_u32), (''ppa_list'', Scalar C_u64), (''nppas'', Scalar C_u16),
    (''control'', Scalar C_u16), (''cdw13'', Scalar C_u32), (''cdw14'', Scalar C_u32),
    (''cdw15'', Scalar C_u32), (''status'', Scalar C_u64), (''result'', Scalar C_u32),
    (''timeout_ms'', Scalar C_u32)]"

definition lightnvm_ioctls :: "ioctl list" where
  "lightnvm_ioctls =
    [IOWR ''NVM_INFO'' 0x4c 0x20 struct_nvm_ioctl_info,
     IOR ''NVM_GET_DEVICES'' 0x4c 0x21 struct_nvm_ioctl_get_devices,
     IOW ''NVM_DEV_CREATE'' 0x4c 0x22 struct_nvm_ioctl_create,
     IOW ''NVM_DEV_REMOVE'' 0x4c 0x23 struct_nvm_ioctl_remove,
     IOW ''NVM_DEV_INIT'' 0x4c 0x24 struct_nvm_ioctl_dev_init,
     IOW ''NVM_DEV_FACTORY'' 0x4c 0x25 struct_nvm_ioctl_dev_factory,
     IOWR ''NVME_NVM_IOCTL_IO_VIO'' 0x4c 0x43 struct_nvm_passthru_vio,
     IOWR ''NVME_NVM_IOCTL_ADMIN_VIO'' 0x4c 0x41 struct_nvm_passthru_vio,
     IOWR ''NVME_NVM_IOCTL_SUBMIT_VIO'' 0x4c 0x42 struct_nvm_user_vio]"

section \<open>\<^verbatim>\<open>src/include/linux/qcom_sync_file.h\<close>\<close>

definition spec_fence_signal_numbers :: "(string \<times> nat) list" where
  "spec_fence_signal_numbers =
    [(''SPEC_FENCE_SIGNAL_ANY'', 0x1), (''SPEC_FENCE_SIGNAL_ALL'', 0x2)]"

definition struct_fence_bind_data :: ctype where
  "struct_fence_bind_data = Struct False [
    (''out_bind_fd'', Scalar C_u32), (''fds'', Scalar C_u64)]"

definition struct_fence_create_data :: ctype where
  "struct_fence_create_data = Struct False [
    (''num_fences'', Scalar C_u32), (''flags'', Scalar C_u32), (''out_bind_fd'', Scalar C_u32)]"

definition qcom_sync_file_ioctls :: "ioctl list" where
  "qcom_sync_file_ioctls =
    [IOWR ''SPEC_SYNC_IOC_BIND'' 0x3e 0x3 struct_fence_bind_data,
     IOWR ''SPEC_SYNC_IOC_CREATE_FENCE'' 0x3e 0x4 struct_fence_create_data,
     IOWR ''SPEC_SYNC_IOC_GET_VER'' 0x3e 0x5 (Scalar C_u64)]"

section \<open>\<^verbatim>\<open>src/include/linux/raw.h\<close>\<close>

definition struct_raw_config_request :: ctype where
  "struct_raw_config_request = Struct False [
    (''raw_minor'', Scalar C_int), (''block_major'', Scalar C_u64),
    (''block_minor'', Scalar C_u64)]"

definition raw_ioctls :: "ioctl list" where
  "raw_ioctls =
    [IO ''RAW_SETBIND'' 0xac 0x0,
     IO ''RAW_GETBIND'' 0xac 0x1]"

section \<open>\<^verbatim>\<open>src/include/linux/qrng.h\<close>\<close>

definition qrng_ioctls :: "ioctl list" where
  "qrng_ioctls =
    [IO ''QRNG_IOCTL_RESET_BUS_BANDWIDTH'' 0x100 0x1]"

section \<open>\<^verbatim>\<open>src/include/linux/msm_dsps.h\<close>\<close>

definition msm_dsps_ioctls :: "ioctl list" where
  "msm_dsps_ioctls =
    [IO ''DSPS_IOCTL_ON'' 0x64 0x1,
     IO ''DSPS_IOCTL_OFF'' 0x64 0x2,
     IOR ''DSPS_IOCTL_READ_SLOW_TIMER'' 0x64 0x3 (Scalar C_ptr),
     IOR ''DSPS_IOCTL_READ_FAST_TIMER'' 0x64 0x4 (Scalar C_ptr),
     IO ''DSPS_IOCTL_RESET'' 0x64 0x5]"

section \<open>\<^verbatim>\<open>src/include/linux/nfc/nfcinfo.h\<close>\<close>

definition struct_nqx_devinfo :: ctype where
  "struct_nqx_devinfo = Struct False [
    (''chip_type'', Scalar C_u8), (''rom_version'', Scalar C_u8), (''fw_major'', Scalar C_u8),
    (''fw_minor'', Scalar C_u8)]"

definition struct_nqx_uinfo :: ctype where
  "struct_nqx_uinfo = Union [
    (''i'', Scalar C_uint), (''info'', struct_nqx_devinfo)]"

definition nfcinfo_ioctls :: "ioctl list" where
  "nfcinfo_ioctls =
    [IOW ''NFCC_GET_INFO'' 0xe9 0x9 (Scalar C_uint)]"

section \<open>\<^verbatim>\<open>src/include/linux/qbt_handler.h\<close>\<close>

definition max_name_size_numbers :: "(string \<times> nat) list" where
  "max_name_size_numbers =
    [(''MAX_NAME_SIZE'', 32), (''QBT_IS_WUHB_CONNECTED'', 100), (''QBT_SEND_KEY_EVENT'', 101),
     (''QBT_ENABLE_IPC'', 102), (''QBT_DISABLE_IPC'', 103), (''QBT_ENABLE_FD'', 104),
     (''QBT_DISABLE_FD'', 105), (''QBT_CONFIGURE_TOUCH_FD'', 106), (''QBT_ACQUIRE_WAKELOCK'',
     107), (''QBT_RELEASE_WAKELOCK'', 108), (''QBT_GET_TOUCH_FD_VERSION'', 109),
     (''QBT_CONFIGURE_TOUCH_FD_V2'', 110), (''QBT_INTR2_TEST'', 111),
     (''QBT_CONFIGURE_TOUCH_FD_V3'', 112)]"

definition qbt_finger_events :: "(string \<times> nat) list" where
  "qbt_finger_events =
    enum_run 0
      [''QBT_EVENT_FINGER_UP'', ''QBT_EVENT_FINGER_DOWN'', ''QBT_EVENT_FINGER_MOVE'']"

definition qbt_fw_event :: "(string \<times> nat) list" where
  "qbt_fw_event =
    enum_run 1
      [''FW_EVENT_FINGER_DOWN'', ''FW_EVENT_FINGER_UP'', ''FW_EVENT_IPC'']"

definition struct_qbt_wuhb_connected_status :: ctype where
  "struct_qbt_wuhb_connected_status = Struct False [
    (''is_wuhb_connected'', Scalar C_bool)]"

definition struct_qbt_key_event :: ctype where
  "struct_qbt_key_event = Struct False [
    (''key'', Scalar C_int), (''value'', Scalar C_int)]"

definition struct_qbt_touch_config :: ctype where
  "struct_qbt_touch_config = Struct False [
    (''rad_filter_enable'', Scalar C_bool), (''rad_x'', Scalar C_int), (''rad_y'', Scalar C_int)]"

definition struct_qbt_touch_fd_version :: ctype where
  "struct_qbt_touch_fd_version = Struct False [
    (''version'', Scalar C_int)]"

definition struct_qbt_touch_config_v2 :: ctype where
  "struct_qbt_touch_config_v2 = Struct False [
    (''version'', struct_qbt_touch_fd_version), (''touch_fd_enable'', Scalar C_bool),
    (''rad_filter_enable'', Scalar C_bool), (''left'', Scalar C_int), (''top'', Scalar C_int),
    (''right'', Scalar C_int), (''bottom'', Scalar C_int), (''rad_x'', Scalar C_int),
    (''rad_y'', Scalar C_int)]"

definition struct_qbt_touch_config_v3 :: ctype where
  "struct_qbt_touch_config_v3 = Struct False [
    (''version'', struct_qbt_touch_fd_version), (''touch_fd_enable'', Scalar C_bool),
    (''rad_filter_enable'', Scalar C_bool), (''left'', Scalar C_int), (''top'', Scalar C_int),
    (''right'', Scalar C_int), (''bottom'', Scalar C_int), (''rad_x'', Scalar C_int),
    (''rad_y'', Scalar C_int), (''intr2_enable'', Scalar C_bool)]"

definition struct_qbt_intr2_test :: ctype where
  "struct_qbt_intr2_test = Struct False [
    (''state'', Scalar C_s32)]"

section \<open>\<^verbatim>\<open>src/include/linux/msm_sysstats.h\<close>\<close>

definition sysstats_genl_version_numbers :: "(string \<times> nat) list" where
  "sysstats_genl_version_numbers =
    [(''SYSSTATS_GENL_VERSION'', 0x2), (''TS_COMM_LEN'', 32), (''SYSSTATS_TYPE_UNSPEC'', 0),
     (''SYSSTATS_TASK_TYPE_STATS'', 1), (''SYSSTATS_TYPE_NULL'', 2),
     (''SYSSTATS_TASK_TYPE_FOREACH'', 3), (''SYSSTATS_MEMINFO_TYPE_STATS'', 4),
     (''SYSSTATS_PID_TYPE_STATS'', 5), (''SYSSTATS_CMD_ATTR_UNSPEC'', 0),
     (''SYSSTATS_TASK_CMD_ATTR_PID'', 1), (''SYSSTATS_TASK_CMD_ATTR_FOREACH'', 2),
     (''SYSSTATS_TASK_CMD_ATTR_PIDS_OF_NAME'', 3), (''SYSSTATS_CMD_UNSPEC'', 0),
     (''SYSSTATS_TASK_CMD_GET'', 1), (''SYSSTATS_TASK_CMD_NEW'', 2),
     (''SYSSTATS_MEMINFO_CMD_GET'', 3), (''SYSSTATS_MEMINFO_CMD_NEW'', 4),
     (''SYSSTATS_PIDS_CMD_GET'', 5), (''SYSSTATS_PIDS_CMD_NEW'', 6)]"

definition struct_sysstats_task :: ctype where
  "struct_sysstats_task = Struct False [
    (''anon_rss'', Scalar C_u64), (''file_rss'', Scalar C_u64), (''swap_rss'', Scalar C_u64),
    (''shmem_rss'', Scalar C_u64), (''unreclaimable'', Scalar C_u64), (''utime'', Scalar C_u64),
    (''stime'', Scalar C_u64), (''cutime'', Scalar C_u64), (''cstime'', Scalar C_u64),
    (''oom_score'', Scalar C_s16), (''__padding'', Scalar C_s16), (''pid'', Scalar C_u32),
    (''uid'', Scalar C_u32), (''ppid'', Scalar C_u32), (''name'', Array (Scalar C_char) 32),
    (''state'', Array (Scalar C_char) 32)]"

definition struct_sysstats_mem :: ctype where
  "struct_sysstats_mem = Struct False [
    (''memtotal'', Scalar C_u64), (''misc_reclaimable'', Scalar C_u64),
    (''unreclaimable'', Scalar C_u64), (''zram_compressed'', Scalar C_u64),
    (''swap_used'', Scalar C_u64), (''swap_total'', Scalar C_u64), (''buffer'', Scalar C_u64),
    (''vmalloc_total'', Scalar C_u64), (''swapcache'', Scalar C_u64),
    (''slab_reclaimable'', Scalar C_u64), (''slab_unreclaimable'', Scalar C_u64),
    (''free_cma'', Scalar C_u64), (''file_mapped'', Scalar C_u64), (''pagetable'', Scalar C_u64),
    (''kernelstack'', Scalar C_u64), (''shmem'', Scalar C_u64), (''dma_nr_free'', Scalar C_u64),
    (''dma_nr_active_anon'', Scalar C_u64), (''dma_nr_inactive_anon'', Scalar C_u64),
    (''dma_nr_active_file'', Scalar C_u64), (''dma_nr_inactive_file'', Scalar C_u64),
    (''normal_nr_free'', Scalar C_u64), (''normal_nr_active_anon'', Scalar C_u64),
    (''normal_nr_inactive_anon'', Scalar C_u64), (''normal_nr_active_file'', Scalar C_u64),
    (''normal_nr_inactive_file'', Scalar C_u64), (''movable_nr_free'', Scalar C_u64),
    (''movable_nr_active_anon'', Scalar C_u64), (''movable_nr_inactive_anon'', Scalar C_u64),
    (''movable_nr_active_file'', Scalar C_u64), (''movable_nr_inactive_file'', Scalar C_u64),
    (''highmem_nr_free'', Scalar C_u64), (''highmem_nr_active_anon'', Scalar C_u64),
    (''highmem_nr_inactive_anon'', Scalar C_u64), (''highmem_nr_active_file'', Scalar C_u64),
    (''highmem_nr_inactive_file'', Scalar C_u64)]"

definition struct_sysstats_pid :: ctype where
  "struct_sysstats_pid = Struct False [
    (''pid'', Scalar C_u64)]"

section \<open>\<^verbatim>\<open>src/include/linux/qg.h\<close>\<close>

definition MAX_FIFO_LENGTH :: nat where "MAX_FIFO_LENGTH = 16"
definition qg_batt_soc_numbers :: "(string \<times> nat) list" where
  "qg_batt_soc_numbers =
    [(''QG_BATT_SOC'', 8), (''QG_CC_SOC'', 9), (''QG_ESR_CHARGE_DELTA'', 10),
     (''QG_ESR_DISCHARGE_DELTA'', 11), (''QG_ESR_CHARGE_SF'', 12), (''QG_ESR_DISCHARGE_SF'', 13),
     (''QG_FULL_SOC'', 14), (''QG_CLEAR_LEARNT_DATA'', 15), (''QG_SYS_SOC'', 16), (''QG_V_IBAT'',
     17)]"

definition qg :: "(string \<times> nat) list" where
  "qg =
    enum_run 0
      [''QG_SOC'', ''QG_OCV_UV'', ''QG_RBAT_MOHM'', ''QG_PON_OCV_UV'', ''QG_GOOD_OCV_UV'',
      ''QG_ESR'', ''QG_CHARGE_COUNTER'', ''QG_FIFO_TIME_DELTA'', ''QG_BATT_SOC'', ''QG_CC_SOC'',
      ''QG_ESR_CHARGE_DELTA'', ''QG_ESR_DISCHARGE_DELTA'', ''QG_ESR_CHARGE_SF'',
      ''QG_ESR_DISCHARGE_SF'', ''QG_FULL_SOC'', ''QG_CLEAR_LEARNT_DATA'', ''QG_SYS_SOC'',
      ''QG_V_IBAT'', ''QG_MAX'']"

definition struct_fifo_data :: ctype where
  "struct_fifo_data = Struct False [
    (''v'', Scalar C_uint), (''i'', Scalar C_uint), (''count'', Scalar C_uint),
    (''interval'', Scalar C_uint)]"

definition struct_qg_param :: ctype where
  "struct_qg_param = Struct False [
    (''data'', Scalar C_uint), (''valid'', Scalar C_bool)]"

definition struct_qg_kernel_data :: ctype where
  "struct_qg_kernel_data = Struct False [
    (''seq_no'', Scalar C_uint), (''fifo_time'', Scalar C_uint), (''fifo_length'', Scalar C_uint),
    (''fifo'', Array struct_fifo_data 16), (''param'', Array struct_qg_param 18)]"

definition struct_qg_user_data :: ctype where
  "struct_qg_user_data = Struct False [
    (''param'', Array struct_qg_param 18)]"

section \<open>\<^verbatim>\<open>src/include/linux/wil6210_uapi.h\<close>\<close>

definition wil_mmio_numbers :: "(string \<times> nat) list" where
  "wil_mmio_numbers =
    [(''WIL_MMIO_READ'', 0), (''WIL_MMIO_WRITE'', 1), (''WIL_MMIO_OP_MASK'', 0xff),
     (''WIL_MMIO_ADDR_LINKER'', 0), (''WIL_MMIO_ADDR_AHB'', 256), (''WIL_MMIO_ADDR_BAR'', 512),
     (''WIL_MMIO_ADDR_MASK'', 0xff00)]"

definition struct_wil_memio :: ctype where
  "struct_wil_memio = Struct False [
    (''op'', Scalar C_u32), (''addr'', Scalar C_u32), (''val'', Scalar C_u32)]"

definition struct_wil_memio_block :: ctype where
  "struct_wil_memio_block = Struct False [
    (''op'', Scalar C_u32), (''addr'', Scalar C_u32), (''size'', Scalar C_u32),
    (''block'', Scalar C_u64)]"

section \<open>\<^verbatim>\<open>src/include/linux/n_r3964.h\<close>\<close>

definition r3964_numbers :: "(string \<times> nat) list" where
  "r3964_numbers =
    [(''R3964_ENABLE_SIGNALS'', 0x5301), (''R3964_SETPRIORITY'', 0x5302), (''R3964_USE_BCC'',
     0x5303), (''R3964_READ_TELEGRAM'', 0x5304), (''R3964_MASTER'', 0), (''R3964_SLAVE'', 1),
     (''R3964_SIG_ACK'', 0x0001), (''R3964_SIG_DATA'', 0x0002), (''R3964_SIG_ALL'', 0x000f),
     (''R3964_SIG_NONE'', 0x0000), (''R3964_USE_SIGIO'', 0x1000)]"

definition r3964_numbers_2 :: "(string \<times> nat) list" where
  "r3964_numbers_2 =
    [(''R3964_MAX_MSG_COUNT'', 32), (''R3964_OK'', 0)]"

definition R3964_MTU :: nat where "R3964_MTU = 256"

definition r3964_msg_enum :: "(string \<times> nat) list" where
  "r3964_msg_enum =
    enum_run 1
      [''R3964_MSG_ACK'', ''R3964_MSG_DATA'']"

definition struct_r3964_client_message :: ctype where
  "struct_r3964_client_message = Struct False [
    (''msg_id'', Scalar C_int), (''arg'', Scalar C_int), (''error_code'', Scalar C_int)]"

section \<open>\<^verbatim>\<open>src/include/linux/sdla.h\<close>\<close>

definition sdla_numbers :: "(string \<times> nat) list" where
  "sdla_numbers =
    [(''SDLA_S502A'', 5020), (''SDLA_S502E'', 5021), (''SDLA_S503'', 5030), (''SDLA_S507'', 5070),
     (''SDLA_S508'', 5080), (''SDLA_S509'', 5090)]"

definition sdla_numbers_2 :: "(string \<times> nat) list" where
  "sdla_numbers_2 =
    [(''SDLA_S508_PORT_V35'', 0x00), (''SDLA_S508_PORT_RS232'', 0x02), (''SDLA_CPU_3M'', 0x00),
     (''SDLA_CPU_5M'', 0x01), (''SDLA_CPU_7M'', 0x02), (''SDLA_CPU_8M'', 0x03), (''SDLA_CPU_10M'',
     0x04), (''SDLA_CPU_16M'', 0x05), (''SDLA_CPU_12M'', 0x06)]"

definition sdla_numbers_3 :: "(string \<times> nat) list" where
  "sdla_numbers_3 =
    [(''SDLA_NMIADDR'', 0x0000), (''SDLA_CONF_ADDR'', 0x0010), (''SDLA_S502A_NMIADDR'', 0x0066),
     (''SDLA_CODE_BASEADDR'', 0x0100), (''SDLA_WINDOW_SIZE'', 0x2000), (''SDLA_ADDR_MASK'',
     0x1FFF), (''SDLA_MAX_DATA'', 4080), (''SDLA_MAX_MTU'', 4072), (''SDLA_MAX_DLCI'', 24)]"

definition struct_sdla_mem :: ctype where
  "struct_sdla_mem = Struct False [
    (''addr'', Scalar C_int), (''len'', Scalar C_int), (''data'', Scalar C_ptr)]"

definition struct_sdla_conf :: ctype where
  "struct_sdla_conf = Struct False [
    (''station'', Scalar C_short), (''config'', Scalar C_short), (''kbaud'', Scalar C_short),
    (''clocking'', Scalar C_short), (''max_frm'', Scalar C_short), (''T391'', Scalar C_short),
    (''T392'', Scalar C_short), (''N391'', Scalar C_short), (''N392'', Scalar C_short),
    (''N393'', Scalar C_short), (''CIR_fwd'', Scalar C_short), (''Bc_fwd'', Scalar C_short),
    (''Be_fwd'', Scalar C_short), (''CIR_bwd'', Scalar C_short), (''Bc_bwd'', Scalar C_short),
    (''Be_bwd'', Scalar C_short)]"

definition struct_sdla_dlci_conf :: ctype where
  "struct_sdla_dlci_conf = Struct False [
    (''config'', Scalar C_short), (''CIR_fwd'', Scalar C_short), (''Bc_fwd'', Scalar C_short),
    (''Be_fwd'', Scalar C_short), (''CIR_bwd'', Scalar C_short), (''Bc_bwd'', Scalar C_short),
    (''Be_bwd'', Scalar C_short), (''Tc_fwd'', Scalar C_short), (''Tc_bwd'', Scalar C_short),
    (''Tf_max'', Scalar C_short), (''Tb_max'', Scalar C_short)]"

section \<open>\<^verbatim>\<open>src/include/linux/if_frad.h\<close>\<close>

definition dlci_numbers :: "(string \<times> nat) list" where
  "dlci_numbers =
    [(''DLCI_IGNORE_CIR_OUT'', 0x0001), (''DLCI_ACCOUNT_CIR_IN'', 0x0002), (''DLCI_BUFFER_IF'',
     0x0008), (''DLCI_VALID_FLAGS'', 0x000B)]"

definition frad_numbers :: "(string \<times> nat) list" where
  "frad_numbers =
    [(''FRAD_STATION_CPE'', 0x0000), (''FRAD_STATION_NODE'', 0x0001), (''FRAD_TX_IGNORE_CIR'',
     0x0001), (''FRAD_RX_ACCOUNT_CIR'', 0x0002), (''FRAD_DROP_ABORTED'', 0x0004),
     (''FRAD_BUFFERIF'', 0x0008), (''FRAD_STATS'', 0x0010), (''FRAD_MCI'', 0x0100),
     (''FRAD_AUTODLCI'', 0x8000), (''FRAD_VALID_FLAGS'', 0x811F), (''FRAD_CLOCK_INT'', 0x0001),
     (''FRAD_CLOCK_EXT'', 0x0000)]"

definition struct_dlci_add :: "nat \<Rightarrow> ctype" where
  "struct_dlci_add IFNAMSIZ = Struct False [
    (''devname'', Array (Scalar C_char) IFNAMSIZ), (''dlci'', Scalar C_short)]"

definition struct_dlci_conf :: ctype where
  "struct_dlci_conf = Struct False [
    (''flags'', Scalar C_short), (''CIR_fwd'', Scalar C_short), (''Bc_fwd'', Scalar C_short),
    (''Be_fwd'', Scalar C_short), (''CIR_bwd'', Scalar C_short), (''Bc_bwd'', Scalar C_short),
    (''Be_bwd'', Scalar C_short), (''Tc_fwd'', Scalar C_short), (''Tc_bwd'', Scalar C_short),
    (''Tf_max'', Scalar C_short), (''Tb_max'', Scalar C_short)]"

definition struct_frad_conf :: ctype where
  "struct_frad_conf = Struct False [
    (''station'', Scalar C_short), (''flags'', Scalar C_short), (''kbaud'', Scalar C_short),
    (''clocking'', Scalar C_short), (''mtu'', Scalar C_short), (''T391'', Scalar C_short),
    (''T392'', Scalar C_short), (''N391'', Scalar C_short), (''N392'', Scalar C_short),
    (''N393'', Scalar C_short), (''CIR_fwd'', Scalar C_short), (''Bc_fwd'', Scalar C_short),
    (''Be_fwd'', Scalar C_short), (''CIR_bwd'', Scalar C_short), (''Bc_bwd'', Scalar C_short),
    (''Be_bwd'', Scalar C_short)]"

section \<open>\<^verbatim>\<open>src/include/linux/ipx.h\<close>\<close>

definition ipx_node_len_numbers :: "(string \<times> nat) list" where
  "ipx_node_len_numbers =
    [(''IPX_NODE_LEN'', 6), (''IPX_MTU'', 576)]"

definition ipx_dltitf_numbers :: "(string \<times> nat) list" where
  "ipx_dltitf_numbers =
    [(''IPX_DLTITF'', 0), (''IPX_CRTITF'', 1)]"

definition ipx_frame_none_numbers :: "(string \<times> nat) list" where
  "ipx_frame_none_numbers =
    [(''IPX_FRAME_NONE'', 0), (''IPX_FRAME_SNAP'', 1), (''IPX_FRAME_8022'', 2),
     (''IPX_FRAME_ETHERII'', 3), (''IPX_FRAME_8023'', 4), (''IPX_FRAME_TR_8022'', 5),
     (''IPX_SPECIAL_NONE'', 0), (''IPX_PRIMARY'', 1), (''IPX_INTERNAL'', 2)]"

definition IPX_ROUTE_NO_ROUTER :: nat where "IPX_ROUTE_NO_ROUTER = 0"
definition ipx_rt_numbers :: "(string \<times> nat) list" where
  "ipx_rt_numbers =
    [(''IPX_RT_SNAP'', 8), (''IPX_RT_8022'', 4), (''IPX_RT_BLUEBOOK'', 2), (''IPX_RT_ROUTED'', 1)]"

definition struct_sockaddr_ipx :: "ctype \<Rightarrow> ctype" where
  "struct_sockaddr_ipx sa_family = Struct False [
    (''sipx_family'', sa_family), (''sipx_port'', Scalar C_u16),
    (''sipx_network'', Scalar C_u32), (''sipx_node'', Array (Scalar C_u8) 6),
    (''sipx_type'', Scalar C_u8), (''sipx_zero'', Scalar C_u8)]"

definition struct_ipx_route_definition :: ctype where
  "struct_ipx_route_definition = Struct False [
    (''ipx_network'', Scalar C_u32), (''ipx_router_network'', Scalar C_u32),
    (''ipx_router_node'', Array (Scalar C_u8) 6)]"

definition struct_ipx_interface_definition :: ctype where
  "struct_ipx_interface_definition = Struct False [
    (''ipx_network'', Scalar C_u32), (''ipx_device'', Array (Scalar C_u8) 16),
    (''ipx_dlink_type'', Scalar C_u8), (''ipx_special'', Scalar C_u8),
    (''ipx_node'', Array (Scalar C_u8) 6)]"

definition struct_ipx_config_data :: ctype where
  "struct_ipx_config_data = Struct False [
    (''ipxcfg_auto_select_primary'', Scalar C_u8),
    (''ipxcfg_auto_create_interfaces'', Scalar C_u8)]"

definition struct_ipx_route_def :: ctype where
  "struct_ipx_route_def = Struct False [
    (''ipx_network'', Scalar C_u32), (''ipx_router_network'', Scalar C_u32),
    (''ipx_router_node'', Array (Scalar C_u8) 6), (''ipx_device'', Array (Scalar C_u8) 16),
    (''ipx_flags'', Scalar C_ushort)]"

section \<open>\<^verbatim>\<open>src/include/linux/nfsd/nfsfh.h\<close>\<close>

definition struct_nfs_fhbase_old :: ctype where
  "struct_nfs_fhbase_old = Struct False [
    (''fb_dcookie'', Scalar C_u32), (''fb_ino'', Scalar C_u32), (''fb_dirino'', Scalar C_u32),
    (''fb_dev'', Scalar C_u32), (''fb_xdev'', Scalar C_u32), (''fb_xino'', Scalar C_u32),
    (''fb_generation'', Scalar C_u32)]"

definition struct_nfs_fhbase_new :: ctype where
  "struct_nfs_fhbase_new = Struct False [
    (''fb_version'', Scalar C_u8), (''fb_auth_type'', Scalar C_u8),
    (''fb_fsid_type'', Scalar C_u8), (''fb_fileid_type'', Scalar C_u8),
    (''fb_auth'', Array (Scalar C_u32) 1)]"

definition struct_knfsd_fh :: "nat \<Rightarrow> ctype" where
  "struct_knfsd_fh NFS4_FHSIZE = Struct False [
    (''fh_size'', Scalar C_uint),
    (''fh_base'', Union [
      (''fh_old'', struct_nfs_fhbase_old), (''fh_pad'', Array (Scalar C_u32) (NFS4_FHSIZE div 4)),
      (''fh_new'', struct_nfs_fhbase_new)])]"

section \<open>\<^verbatim>\<open>src/include/linux/msm_ion_ids.h\<close>\<close>


section \<open>\<^verbatim>\<open>src/include/linux/wcd-spi-ac-params.h\<close>\<close>

definition wcd_spi_ac_numbers :: "(string \<times> nat) list" where
  "wcd_spi_ac_numbers =
    [(''WCD_SPI_AC_CMD_CONC_BEGIN'', 0x01), (''WCD_SPI_AC_CMD_CONC_END'', 0x02),
     (''WCD_SPI_AC_CMD_BUF_DATA'', 0x03), (''WCD_SPI_AC_MAX_BUFFERS'', 2),
     (''WCD_SPI_AC_MAX_CH_PER_BUF'', 8)]"

definition struct_wcd_spi_ac_buf_data :: ctype where
  "struct_wcd_spi_ac_buf_data = Struct True [
    (''addr'', Array (Scalar C_u32) 8)]"

definition struct_wcd_spi_ac_write_cmd :: ctype where
  "struct_wcd_spi_ac_write_cmd = Struct True [
    (''cmd_type'', Scalar C_u32), (''payload'', Array (Scalar C_u8) 0)]"

section \<open>\<^verbatim>\<open>src/include/linux/fips_status.h\<close>\<close>

definition fips_status :: "(string \<times> nat) list" where
  "fips_status =
    enum_run 0
      [''FIPS140_STATUS_NA'', ''FIPS140_STATUS_PASS_CRYPTO'', ''FIPS140_STATUS_QCRYPTO_ALLOWED'',
      ''FIPS140_STATUS_PASS''] @
    enum_run 0xff
      [''FIPS140_STATUS_FAIL'']"


section \<open>\<^verbatim>\<open>src/include/media/msm_cvp_private.h\<close>\<close>

definition cvp_kmd_cmd_numbers :: "(string \<times> nat) list" where
  "cvp_kmd_cmd_numbers =
    [(''CVP_KMD_CMD_BASE'', 0x10000000), (''CVP_KMD_CMD_START'', 268439552)]"

definition CVP_KMD_GET_SESSION_INFO :: nat where "CVP_KMD_GET_SESSION_INFO = 268439553"
definition CVP_KMD_REGISTER_BUFFER :: nat where "CVP_KMD_REGISTER_BUFFER = 268439555"
definition cvp_kmd_numbers :: "(string \<times> nat) list" where
  "cvp_kmd_numbers =
    [(''CVP_KMD_UNREGISTER_BUFFER'', 268439556), (''CVP_KMD_UPDATE_POWER'', 268439569),
     (''CVP_KMD_SEND_CMD_PKT'', 268439616), (''CVP_KMD_RECEIVE_MSG_PKT'', 268439617),
     (''CVP_KMD_SET_SYS_PROPERTY'', 268439618), (''CVP_KMD_GET_SYS_PROPERTY'', 268439619),
     (''CVP_KMD_SESSION_CONTROL'', 268439620), (''CVP_KMD_SEND_FENCE_CMD_PKT'', 268439621),
     (''CVP_KMD_FLUSH_ALL'', 268439622), (''CVP_KMD_FLUSH_FRAME'', 268439623),
     (''CVP_KMD_FLAG_UNSECURE'', 0x00000000), (''CVP_KMD_FLAG_SECURE'', 0x00000001),
     (''CVP_KMD_BUFTYPE_INPUT'', 0x00000001), (''CVP_KMD_BUFTYPE_OUTPUT'', 0x00000002),
     (''CVP_KMD_BUFTYPE_INTERNAL_1'', 0x00000003), (''CVP_KMD_BUFTYPE_INTERNAL_2'', 0x00000004)]"

definition MAX_HFI_PKT_SIZE :: nat where "MAX_HFI_PKT_SIZE = 470"
definition cvp_kmd_prop_hfi_version_numbers :: "(string \<times> nat) list" where
  "cvp_kmd_prop_hfi_version_numbers =
    [(''CVP_KMD_PROP_HFI_VERSION'', 1), (''CVP_KMD_PROP_SESSION_TYPE'', 2),
     (''CVP_KMD_PROP_SESSION_KERNELMASK'', 3), (''CVP_KMD_PROP_SESSION_PRIORITY'', 4),
     (''CVP_KMD_PROP_SESSION_SECURITY'', 5), (''CVP_KMD_PROP_SESSION_DSPMASK'', 6),
     (''CVP_KMD_PROP_PWR_FDU'', 0x10), (''CVP_KMD_PROP_PWR_ICA'', 0x11), (''CVP_KMD_PROP_PWR_OD'',
     0x12), (''CVP_KMD_PROP_PWR_MPU'', 0x13), (''CVP_KMD_PROP_PWR_FW'', 0x14),
     (''CVP_KMD_PROP_PWR_DDR'', 0x15), (''CVP_KMD_PROP_PWR_SYSCACHE'', 0x16),
     (''CVP_KMD_PROP_PWR_FDU_OP'', 0x17), (''CVP_KMD_PROP_PWR_ICA_OP'', 0x18),
     (''CVP_KMD_PROP_PWR_OD_OP'', 0x19), (''CVP_KMD_PROP_PWR_MPU_OP'', 0x1A),
     (''CVP_KMD_PROP_PWR_FW_OP'', 0x1B), (''CVP_KMD_PROP_PWR_DDR_OP'', 0x1C),
     (''CVP_KMD_PROP_PWR_SYSCACHE_OP'', 0x1D), (''CVP_KMD_PROP_PWR_FPS_FDU'', 0x1E),
     (''CVP_KMD_PROP_PWR_FPS_MPU'', 0x1F), (''CVP_KMD_PROP_PWR_FPS_OD'', 0x20),
     (''CVP_KMD_PROP_PWR_FPS_ICA'', 0x21), (''MAX_KMD_PROP_NUM_PER_PACKET'', 8),
     (''MAX_KMD_PROP_TYPE'', 34)]"

definition session_numbers :: "(string \<times> nat) list" where
  "session_numbers =
    [(''SESSION_CREATE'', 1), (''SESSION_DELETE'', 2), (''SESSION_START'', 3), (''SESSION_STOP'',
     4), (''SESSION_INFO'', 5)]"

definition max_hfi_fence_numbers :: "(string \<times> nat) list" where
  "max_hfi_fence_numbers =
    [(''MAX_HFI_FENCE_SIZE'', 16), (''MAX_HFI_FENCE_OFFSET'', 454)]"

definition MAX_FENCE_DATA_SIZE :: nat where "MAX_FENCE_DATA_SIZE = 22"

definition struct_cvp_kmd_session_info :: ctype where
  "struct_cvp_kmd_session_info = Struct False [
    (''session_id'', Scalar C_u32), (''reserved'', Array (Scalar C_u32) 10)]"

definition struct_cvp_kmd_buffer :: ctype where
  "struct_cvp_kmd_buffer = Struct False [
    (''index'', Scalar C_u32), (''type'', Scalar C_u32), (''fd'', Scalar C_u32),
    (''size'', Scalar C_u32), (''offset'', Scalar C_u32), (''pixelformat'', Scalar C_u32),
    (''flags'', Scalar C_u32), (''reserved'', Array (Scalar C_u32) 5)]"

definition struct_cvp_kmd_send_cmd :: ctype where
  "struct_cvp_kmd_send_cmd = Struct False [
    (''cmd_address_fd'', Scalar C_u32), (''cmd_size'', Scalar C_u32),
    (''reserved'', Array (Scalar C_u32) 10)]"

definition struct_cvp_kmd_client_data :: ctype where
  "struct_cvp_kmd_client_data = Struct False [
    (''transactionid'', Scalar C_u32), (''client_data1'', Scalar C_u32),
    (''client_data2'', Scalar C_u32)]"

definition struct_cvp_kmd_hfi_packet :: ctype where
  "struct_cvp_kmd_hfi_packet = Struct False [
    (''pkt_data'', Array (Scalar C_u32) 470)]"

definition struct_cvp_kmd_sys_property :: ctype where
  "struct_cvp_kmd_sys_property = Struct False [
    (''prop_type'', Scalar C_u32), (''data'', Scalar C_u32)]"

definition struct_cvp_kmd_sys_properties :: ctype where
  "struct_cvp_kmd_sys_properties = Struct False [
    (''prop_num'', Scalar C_u32), (''prop_data'', Array struct_cvp_kmd_sys_property 8)]"

definition struct_cvp_kmd_session_control :: ctype where
  "struct_cvp_kmd_session_control = Struct False [
    (''ctrl_type'', Scalar C_u32), (''ctrl_data'', Array (Scalar C_u32) 8)]"

definition struct_cvp_kmd_hfi_fence_packet :: ctype where
  "struct_cvp_kmd_hfi_fence_packet = Struct False [
    (''pkt_data'', Array (Scalar C_u32) 454), (''fence_data'', Array (Scalar C_u32) 16),
    (''frame_id'', Scalar C_u64)]"

definition struct_cvp_kmd_fence :: ctype where
  "struct_cvp_kmd_fence = Struct False [
    (''h_synx'', Scalar C_s32), (''secure_key'', Scalar C_u32)]"

definition struct_cvp_kmd_fence_ctrl :: ctype where
  "struct_cvp_kmd_fence_ctrl = Struct False [
    (''magic'', Scalar C_u32), (''reserved'', Scalar C_u32), (''frame_id'', Scalar C_u64),
    (''num_fences'', Scalar C_u32), (''output_index'', Scalar C_u32),
    (''fences'', Array struct_cvp_kmd_fence 8)]"

definition struct_cvp_kmd_hfi_synx_packet :: ctype where
  "struct_cvp_kmd_hfi_synx_packet = Struct False [
    (''pkt_data'', Array (Scalar C_u32) 470),
    ('''', Union [
      (''fence_data'', Array (Scalar C_u32) 22), (''fc'', struct_cvp_kmd_fence_ctrl)])]"

definition struct_cvp_data_t :: ctype where
  "struct_cvp_data_t = Union [
    (''session'', struct_cvp_kmd_session_info), (''regbuf'', struct_cvp_kmd_buffer),
    (''unregbuf'', struct_cvp_kmd_buffer), (''send_cmd'', struct_cvp_kmd_send_cmd),
    (''hfi_pkt'', struct_cvp_kmd_hfi_packet), (''sys_properties'', struct_cvp_kmd_sys_properties),
    (''hfi_fence_pkt'', struct_cvp_kmd_hfi_fence_packet),
    (''hfi_synx_pkt'', struct_cvp_kmd_hfi_synx_packet),
    (''session_ctrl'', struct_cvp_kmd_session_control), (''frame_id'', Scalar C_u64)]"

definition struct_cvp_kmd_arg :: ctype where
  "struct_cvp_kmd_arg = Struct False [
    (''type'', Scalar C_u32), (''buf_offset'', Scalar C_u32), (''buf_num'', Scalar C_u32),
    (''data'', struct_cvp_data_t)]"

definition struct_cvp_kmd_request_power :: ctype where
  "struct_cvp_kmd_request_power = Struct False [
    (''deprecated'', Scalar C_u32)]"

section \<open>\<^verbatim>\<open>src/include/display/hdcp/msm_hdmi_hdcp_mgr.h\<close>\<close>

definition DS_TYPE :: "(string \<times> nat) list" where
  "DS_TYPE =
    enum_run 0
      [''DS_UNKNOWN'', ''DS_RECEIVER'', ''DS_REPEATER'']"

definition msm_hdmi_hdcp_mgr_enum :: "(string \<times> nat) list" where
  "msm_hdmi_hdcp_mgr_enum =
    enum_run 0
      [''MSG_ID_IDX'', ''RET_CODE_IDX'', ''HEADER_LEN'']"

definition RET_CODE :: "(string \<times> nat) list" where
  "RET_CODE =
    enum_run 0
      [''HDCP_NOT_AUTHED'', ''HDCP_AUTHED'', ''HDCP_DISABLE'']"

definition MSG_ID :: "(string \<times> nat) list" where
  "MSG_ID =
    enum_run 0
      [''DOWN_CHECK_TOPOLOGY'', ''UP_REQUEST_TOPOLOGY'', ''UP_SEND_TOPOLOGY'',
      ''DOWN_REQUEST_TOPOLOGY'', ''MSG_NUM'']"

definition SOURCE_ID :: "(string \<times> nat) list" where
  "SOURCE_ID =
    enum_run 0
      [''HDCP_V1_TX'', ''HDCP_V1_RX'', ''HDCP_V2_RX'', ''HDCP_V2_TX'', ''SRC_NUM'']"

definition struct_HDCP_V2V1_MSG_TOPOLOGY :: ctype where
  "struct_HDCP_V2V1_MSG_TOPOLOGY = Struct False [
    (''ds_type'', Scalar C_u32), (''bksv'', Array (Scalar C_u8) 5), (''dev_count'', Scalar C_u8),
    (''depth'', Scalar C_u8), (''ksv_list'', Array (Scalar C_u8) 635),
    (''max_cascade_exceeded'', Scalar C_u32), (''max_dev_exceeded'', Scalar C_u32)]"

section \<open>\<^verbatim>\<open>src/include/display/media/msm_sde_rotator.h\<close>\<close>

definition struct_msm_sde_rotator_fence :: ctype where
  "struct_msm_sde_rotator_fence = Struct False [
    (''index'', Scalar C_u32), (''type'', Scalar C_u32), (''fd'', Scalar C_s32),
    (''reserved'', Array (Scalar C_u32) 5)]"

definition struct_msm_sde_rotator_comp_ratio :: ctype where
  "struct_msm_sde_rotator_comp_ratio = Struct False [
    (''index'', Scalar C_u32), (''type'', Scalar C_u32), (''numer'', Scalar C_u32),
    (''denom'', Scalar C_u32), (''reserved'', Array (Scalar C_u32) 4)]"

definition msm_sde_rotator_ioctls :: "nat \<Rightarrow> ioctl list" where
  "msm_sde_rotator_ioctls BASE_VIDIOC_PRIVATE =
    [IOWR ''VIDIOC_G_SDE_ROTATOR_FENCE'' 0x56 (BASE_VIDIOC_PRIVATE + 10) struct_msm_sde_rotator_fence,
     IOWR ''VIDIOC_S_SDE_ROTATOR_FENCE'' 0x56 (BASE_VIDIOC_PRIVATE + 11) struct_msm_sde_rotator_fence,
     IOWR ''VIDIOC_G_SDE_ROTATOR_COMP_RATIO'' 0x56 (BASE_VIDIOC_PRIVATE + 12) struct_msm_sde_rotator_comp_ratio,
     IOWR ''VIDIOC_S_SDE_ROTATOR_COMP_RATIO'' 0x56 (BASE_VIDIOC_PRIVATE + 13) struct_msm_sde_rotator_comp_ratio]"

section \<open>\<^verbatim>\<open>src/include/rdma/i40iw-abi.h\<close>\<close>

definition I40IW_ABI_VER :: nat where "I40IW_ABI_VER = 5"

definition i40iw_memreg_type :: "(string \<times> nat) list" where
  "i40iw_memreg_type =
    enum_run 0
      [''IW_MEMREG_TYPE_MEM'', ''IW_MEMREG_TYPE_QP'', ''IW_MEMREG_TYPE_CQ'']"

definition struct_i40iw_alloc_ucontext_req :: ctype where
  "struct_i40iw_alloc_ucontext_req = Struct False [
    (''reserved32'', Scalar C_u32), (''userspace_ver'', Scalar C_u8),
    (''reserved8'', Array (Scalar C_u8) 3)]"

definition struct_i40iw_alloc_ucontext_resp :: ctype where
  "struct_i40iw_alloc_ucontext_resp = Struct False [
    (''max_pds'', Scalar C_u32), (''max_qps'', Scalar C_u32), (''wq_size'', Scalar C_u32),
    (''kernel_ver'', Scalar C_u8), (''reserved'', Array (Scalar C_u8) 3)]"

definition struct_i40iw_alloc_pd_resp :: ctype where
  "struct_i40iw_alloc_pd_resp = Struct False [
    (''pd_id'', Scalar C_u32), (''reserved'', Array (Scalar C_u8) 4)]"

definition struct_i40iw_create_cq_req :: ctype where
  "struct_i40iw_create_cq_req = Struct False [
    (''user_cq_buffer'', Scalar C_u64), (''user_shadow_area'', Scalar C_u64)]"

definition struct_i40iw_create_qp_req :: ctype where
  "struct_i40iw_create_qp_req = Struct False [
    (''user_wqe_buffers'', Scalar C_u64), (''user_compl_ctx'', Scalar C_u64),
    (''user_sq_phb'', Scalar C_u64), (''user_rq_phb'', Scalar C_u64)]"

definition struct_i40iw_mem_reg_req :: ctype where
  "struct_i40iw_mem_reg_req = Struct False [
    (''reg_type'', Scalar C_u16), (''cq_pages'', Scalar C_u16), (''rq_pages'', Scalar C_u16),
    (''sq_pages'', Scalar C_u16)]"

definition struct_i40iw_create_cq_resp :: ctype where
  "struct_i40iw_create_cq_resp = Struct False [
    (''cq_id'', Scalar C_u32), (''cq_size'', Scalar C_u32), (''mmap_db_index'', Scalar C_u32),
    (''reserved'', Scalar C_u32)]"

definition struct_i40iw_create_qp_resp :: ctype where
  "struct_i40iw_create_qp_resp = Struct False [
    (''qp_id'', Scalar C_u32), (''actual_sq_size'', Scalar C_u32),
    (''actual_rq_size'', Scalar C_u32), (''i40iw_drv_opt'', Scalar C_u32),
    (''push_idx'', Scalar C_u16), (''lsmm'', Scalar C_u8), (''rsvd2'', Scalar C_u8)]"

section \<open>The tables satisfy their contracts\<close>

interpretation lightnvm: ioctl_table lightnvm_ioctls
  by (rule ioctl_tableI) code_simp+

interpretation qcom_sync_file: ioctl_table qcom_sync_file_ioctls
  by (rule ioctl_tableI) code_simp+

interpretation raw: ioctl_table raw_ioctls
  by (rule ioctl_tableI) code_simp+

interpretation msm_dsps: ioctl_table msm_dsps_ioctls
  by (rule ioctl_tableI) code_simp+

interpretation nfcinfo: ioctl_table nfcinfo_ioctls
  by (rule ioctl_tableI) code_simp+

section \<open>Numbers that build on numbers of the kernel\<close>

text \<open>
  Pixel formats of the rotator, as the four characters that the kernel macro \<^verbatim>\<open>v4l2_fourcc\<close>, which is
  an argument, packs into a number.
\<close>

definition sde_pix_fmts :: "(string \<times> string) list" where
  "sde_pix_fmts =
    [(''SDE_PIX_FMT_XRGB_8888'', ''XR24''),
     (''SDE_PIX_FMT_ARGB_8888'', ''AR24''),
     (''SDE_PIX_FMT_ABGR_8888'', ''RA24''),
     (''SDE_PIX_FMT_RGBA_8888'', ''AB24''),
     (''SDE_PIX_FMT_BGRA_8888'', ''BA24''),
     (''SDE_PIX_FMT_RGBX_8888'', ''XB24''),
     (''SDE_PIX_FMT_BGRX_8888'', ''BX24''),
     (''SDE_PIX_FMT_XBGR_8888'', ''RX24''),
     (''SDE_PIX_FMT_RGBA_5551'', ''RA15''),
     (''SDE_PIX_FMT_ARGB_1555'', ''AR15''),
     (''SDE_PIX_FMT_ABGR_1555'', ''AB15''),
     (''SDE_PIX_FMT_BGRA_5551'', ''BA15''),
     (''SDE_PIX_FMT_BGRX_5551'', ''BX15''),
     (''SDE_PIX_FMT_RGBX_5551'', ''RX15''),
     (''SDE_PIX_FMT_XBGR_1555'', ''XB15''),
     (''SDE_PIX_FMT_XRGB_1555'', ''XR15''),
     (''SDE_PIX_FMT_ARGB_4444'', ''AR12''),
     (''SDE_PIX_FMT_RGBA_4444'', ''RA12''),
     (''SDE_PIX_FMT_BGRA_4444'', ''bA12''),
     (''SDE_PIX_FMT_ABGR_4444'', ''AB12''),
     (''SDE_PIX_FMT_RGBX_4444'', ''RX12''),
     (''SDE_PIX_FMT_XRGB_4444'', ''XR12''),
     (''SDE_PIX_FMT_BGRX_4444'', ''BX12''),
     (''SDE_PIX_FMT_XBGR_4444'', ''XB12''),
     (''SDE_PIX_FMT_RGB_888'', ''RGB3''),
     (''SDE_PIX_FMT_BGR_888'', ''BGR3''),
     (''SDE_PIX_FMT_RGB_565'', ''RGBP''),
     (''SDE_PIX_FMT_BGR_565'', ''BG16''),
     (''SDE_PIX_FMT_Y_CB_CR_H2V2'', ''YU12''),
     (''SDE_PIX_FMT_Y_CR_CB_H2V2'', ''YV12''),
     (''SDE_PIX_FMT_Y_CR_CB_GH2V2'', ''YU42''),
     (''SDE_PIX_FMT_Y_CBCR_H2V2'', ''NV12''),
     (''SDE_PIX_FMT_Y_CRCB_H2V2'', ''NV21''),
     (''SDE_PIX_FMT_Y_CBCR_H1V2'', ''NH16''),
     (''SDE_PIX_FMT_Y_CRCB_H1V2'', ''NH61''),
     (''SDE_PIX_FMT_Y_CBCR_H2V1'', ''NV16''),
     (''SDE_PIX_FMT_Y_CRCB_H2V1'', ''NV61''),
     (''SDE_PIX_FMT_YCBYCR_H2V1'', ''YUYV''),
     (''SDE_PIX_FMT_Y_CBCR_H2V2_VENUS'', ''QNV2''),
     (''SDE_PIX_FMT_Y_CRCB_H2V2_VENUS'', ''QNV1''),
     (''SDE_PIX_FMT_RGBA_8888_UBWC'', ''QRGB''),
     (''SDE_PIX_FMT_RGBX_8888_UBWC'', ''QXB4''),
     (''SDE_PIX_FMT_RGB_565_UBWC'', ''QRG6''),
     (''SDE_PIX_FMT_Y_CBCR_H2V2_UBWC'', ''Q128''),
     (''SDE_PIX_FMT_RGBA_1010102'', ''AB30''),
     (''SDE_PIX_FMT_RGBX_1010102'', ''XB30''),
     (''SDE_PIX_FMT_ARGB_2101010'', ''AR30''),
     (''SDE_PIX_FMT_XRGB_2101010'', ''XR30''),
     (''SDE_PIX_FMT_BGRA_1010102'', ''BA30''),
     (''SDE_PIX_FMT_BGRX_1010102'', ''BX30''),
     (''SDE_PIX_FMT_ABGR_2101010'', ''RA30''),
     (''SDE_PIX_FMT_XBGR_2101010'', ''RX30''),
     (''SDE_PIX_FMT_RGBA_1010102_UBWC'', ''QRBA''),
     (''SDE_PIX_FMT_RGBX_1010102_UBWC'', ''QXBA''),
     (''SDE_PIX_FMT_Y_CBCR_H2V2_P010'', ''P010''),
     (''SDE_PIX_FMT_Y_CBCR_H2V2_P010_VENUS'', ''QP10''),
     (''SDE_PIX_FMT_Y_CBCR_H2V2_TP10'', ''TP10''),
     (''SDE_PIX_FMT_Y_CBCR_H2V2_TP10_UBWC'', ''Q12A''),
     (''SDE_PIX_FMT_Y_CBCR_H2V2_P010_UBWC'', ''Q12B'')]"

definition sde_pix_fmt :: "(char \<Rightarrow> char \<Rightarrow> char \<Rightarrow> char \<Rightarrow> 'a) \<Rightarrow> string \<Rightarrow> 'a option" where
  "sde_pix_fmt v4l2_fourcc n =
    (case map_of sde_pix_fmts n of Some [a, b, c, d] \<Rightarrow> Some (v4l2_fourcc a b c d) | _ \<Rightarrow> None)"

definition sde_rotator_controls :: "nat \<Rightarrow> (string \<times> nat) list" where
  "sde_rotator_controls V4L2_CID_USER_BASE =
    [(''V4L2_CID_SDE_ROTATOR_SECURE'', V4L2_CID_USER_BASE + 0x1000),
     (''V4L2_CID_SDE_ROTATOR_SECURE_CAMERA'', V4L2_CID_USER_BASE + 0x2000)]"

text \<open>Requests of network devices, from the first private number \<^verbatim>\<open>SIOCDEVPRIVATE\<close> on.\<close>

definition dlci_requests :: "nat \<Rightarrow> (string \<times> nat) list" where
  "dlci_requests SIOCDEVPRIVATE =
    [(''DLCI_GET_CONF'', SIOCDEVPRIVATE + 2), (''DLCI_SET_CONF'', SIOCDEVPRIVATE + 3)]"

definition DLCI_GET_SLAVE :: "nat \<Rightarrow> nat" where
  "DLCI_GET_SLAVE SIOCDEVPRIVATE = SIOCDEVPRIVATE + 4"

definition FRAD_GET_CONF :: "nat \<Rightarrow> nat" where
  "FRAD_GET_CONF SIOCDEVPRIVATE = SIOCDEVPRIVATE"

definition FRAD_SET_CONF :: "nat \<Rightarrow> nat" where
  "FRAD_SET_CONF SIOCDEVPRIVATE = SIOCDEVPRIVATE + 1"

definition FRAD_LAST_IOCTL :: "nat \<Rightarrow> nat" where
  "FRAD_LAST_IOCTL SIOCDEVPRIVATE = FRAD_SET_CONF SIOCDEVPRIVATE"

definition sdla_requests :: "nat \<Rightarrow> (string \<times> nat) list" where
  "sdla_requests SIOCDEVPRIVATE =
    [(''SDLA_IDENTIFY'', FRAD_LAST_IOCTL SIOCDEVPRIVATE + 1),
     (''SDLA_CPUSPEED'', FRAD_LAST_IOCTL SIOCDEVPRIVATE + 2),
     (''SDLA_PROTOCOL'', FRAD_LAST_IOCTL SIOCDEVPRIVATE + 3),
     (''SDLA_CLEARMEM'', FRAD_LAST_IOCTL SIOCDEVPRIVATE + 4),
     (''SDLA_WRITEMEM'', FRAD_LAST_IOCTL SIOCDEVPRIVATE + 5),
     (''SDLA_READMEM'', FRAD_LAST_IOCTL SIOCDEVPRIVATE + 6)]"

definition sdla_run_requests :: "nat \<Rightarrow> (string \<times> nat) list" where
  "sdla_run_requests SIOCDEVPRIVATE =
    [(''SDLA_START'', FRAD_LAST_IOCTL SIOCDEVPRIVATE + 7),
     (''SDLA_STOP'', FRAD_LAST_IOCTL SIOCDEVPRIVATE + 8)]"

definition WIL_IOCTL_MEMIO :: "nat \<Rightarrow> nat" where
  "WIL_IOCTL_MEMIO SIOCDEVPRIVATE = SIOCDEVPRIVATE + 2"

definition WIL_IOCTL_MEMIO_BLOCK :: "nat \<Rightarrow> nat" where
  "WIL_IOCTL_MEMIO_BLOCK SIOCDEVPRIVATE = SIOCDEVPRIVATE + 3"

definition ipx_requests :: "nat \<Rightarrow> (string \<times> nat) list" where
  "ipx_requests SIOCPROTOPRIVATE =
    [(''SIOCAIPXITFCRT'', SIOCPROTOPRIVATE), (''SIOCAIPXPRISLT'', SIOCPROTOPRIVATE + 1),
     (''SIOCIPXCFGDATA'', SIOCPROTOPRIVATE + 2), (''SIOCIPXNCPCONN'', SIOCPROTOPRIVATE + 3)]"

text \<open>Negative results.\<close>

definition r3964_errors :: "(string \<times> int) list" where
  "r3964_errors = [(''R3964_OK'', 0), (''R3964_TX_FAIL'', -1), (''R3964_OVERFLOW'', -2)]"

definition SDLA_UNKNOWN :: int where "SDLA_UNKNOWN = -1"

text \<open>Heaps as bits of a word.\<close>

definition ION_BIT :: "nat \<Rightarrow> u32" where
  "ION_BIT nr = push_bit nr 1"

definition ion_heap_ids :: "(string \<times> u32) list" where
  "ion_heap_ids =
    [(''ION_QSECOM_TA_HEAP_ID'', ION_BIT 1), (''ION_CAMERA_HEAP_ID'', ION_BIT 2),
     (''ION_DISPLAY_HEAP_ID'', ION_BIT 3), (''ION_ADSP_HEAP_ID'', ION_BIT 4),
     (''ION_AUDIO_ML_HEAP_ID'', ION_BIT 5), (''ION_USER_CONTIG_HEAP_ID'', ION_BIT 6),
     (''ION_QSECOM_HEAP_ID'', ION_BIT 7), (''ION_AUDIO_HEAP_ID'', ION_BIT 8),
     (''ION_CP_MM_HEAP_ID'', ION_BIT 9), (''ION_SECURE_HEAP_ID'', ION_BIT 10),
     (''ION_SECURE_DISPLAY_HEAP_ID'', ION_BIT 11), (''ION_SPSS_HEAP_ID'', ION_BIT 14),
     (''ION_SECURE_CARVEOUT_HEAP_ID'', ION_BIT 15), (''ION_TUI_CARVEOUT_HEAP_ID'', ION_BIT 16),
     (''ION_SYSTEM_HEAP_ID'', ION_BIT 25), (''ION_HEAP_ID_RESERVED'', ION_BIT 31)]"

text \<open>The names of the parts of a file handle: the path of members each macro stands for.\<close>

definition nfs_handle_names :: "(string \<times> string list) list" where
  "nfs_handle_names =
    map (\<lambda>(m, f). (m, [''fh_base'', ''fh_old'', f]))
      [(''ofh_dcookie'', ''fb_dcookie''), (''ofh_ino'', ''fb_ino''), (''ofh_dirino'', ''fb_dirino''),
       (''ofh_dev'', ''fb_dev''), (''ofh_xdev'', ''fb_xdev''), (''ofh_xino'', ''fb_xino''),
       (''ofh_generation'', ''fb_generation'')] @
    map (\<lambda>(m, f). (m, [''fh_base'', ''fh_new'', f]))
      [(''fh_version'', ''fb_version''), (''fh_fsid_type'', ''fb_fsid_type''),
       (''fh_auth_type'', ''fb_auth_type''), (''fh_fileid_type'', ''fb_fileid_type''),
       (''fh_fsid'', ''fb_auth''), (''fh_auth'', ''fb_auth'')]"

section \<open>Lemmas\<close>

text \<open>No two pixel formats have the same characters, so that any injective packing tells them apart.\<close>

lemma sde_pix_fmts_distinct:
  "distinct (map snd sde_pix_fmts)" "list_all (\<lambda>(_, s). length s = 4) sde_pix_fmts"
  by code_simp+

lemma sde_rotator_table:
  "base + 13 < 256 \<Longrightarrow> ioctl_table (msm_sde_rotator_ioctls base)"
  by (unfold_locales, (case_tac dm; auto simp: msm_sde_rotator_ioctls_def request_ok_def arg_size_def
      struct_msm_sde_rotator_fence_def struct_msm_sde_rotator_comp_ratio_def IOWR_def field_align_def))
    (simp add: msm_sde_rotator_ioctls_def ioc_key_def IOWR_def)

text \<open>
  The type of the random number generator's request has nine bits, where a request has eight for it.
\<close>

lemma qrng_irregular: "list_all (\<lambda>i. \<not> request_ok dm i) qrng_ioctls"
  by (cases dm; hypsubst; code_simp)

text \<open>
  The two replies of the LightNVM control device fill a page of 4096 bytes. Three of its requests lie
  outside the range from 0x20 to 0x2f that is registered for it.
\<close>

lemma nvm_pages: "csize dm struct_nvm_ioctl_info = 4096" "csize dm struct_nvm_ioctl_get_devices = 4096"
  by (cases dm; hypsubst; code_simp)+

lemma nvm_outside_range:
  "map ioc_name (filter (\<lambda>i. \<not> (0x20 \<le> ioc_nr i \<and> ioc_nr i \<le> 0x2f)) lightnvm_ioctls) =
     [''NVME_NVM_IOCTL_IO_VIO'', ''NVME_NVM_IOCTL_ADMIN_VIO'', ''NVME_NVM_IOCTL_SUBMIT_VIO'']"
  by code_simp

text \<open>
  The structs that the headers say must stay the same are: the configuration of the frame relay
  device is laid out as that of the board, and the same holds for a connection.
\<close>

definition same_layout :: "ctype \<Rightarrow> ctype \<Rightarrow> bool" where
  "same_layout t u \<longleftrightarrow> (\<forall>dm\<in>{ILP32, LP64}.
    map snd (field_offsets dm t) = map snd (field_offsets dm u) \<and> csize dm t = csize dm u)"

lemma sdla_mirrors:
  "same_layout struct_frad_conf struct_sdla_conf" "same_layout struct_dlci_conf struct_sdla_dlci_conf"
  by code_simp+

text \<open>
  A connection and a board answer the same numbers; the first three requests of the board are those
  of a connection.
\<close>

lemma frad_numbers_shared:
  "map snd (dlci_requests s) @ [DLCI_GET_SLAVE s] = take 3 (map snd (sdla_requests s))"
  "distinct (FRAD_GET_CONF s # FRAD_SET_CONF s # map snd (sdla_requests s @ sdla_run_requests s))"
  by (simp_all add: dlci_requests_def DLCI_GET_SLAVE_def sdla_requests_def sdla_run_requests_def
      FRAD_LAST_IOCTL_def FRAD_SET_CONF_def FRAD_GET_CONF_def)

lemma ion_heaps_disjoint: "disjoint_masks (map snd ion_heap_ids)"
  by code_simp

text \<open>
  The fence words of a vision packet are the end of the packet, and the words that may hold the
  fences of a packet with fences have the size of the struct for them.
\<close>

lemma cvp_packets:
  "coffset dm struct_cvp_kmd_hfi_fence_packet ''fence_data'' = Some (4 * (MAX_HFI_PKT_SIZE - 16))"
  "coffset dm struct_cvp_kmd_hfi_fence_packet ''frame_id'' = Some (csize dm struct_cvp_kmd_hfi_packet)"
  "csize dm struct_cvp_kmd_fence_ctrl = 4 * MAX_FENCE_DATA_SIZE"
  by (cases dm; hypsubst; code_simp)+

text \<open>
  The first byte of an old file handle, the low byte of the cookie 0xfeebbaca, is even, as the version
  of a new one is not: the byte tells the two apart.
\<close>

lemma nfs_old_handle_even:
  assumes "well_typed dm struct_nfs_fhbase_old (VRec (VNum 0xfeebbaca # vs))"
  shows "even (le_num (take 1 (encode dm struct_nfs_fhbase_old (VRec (VNum 0xfeebbaca # vs)))))"
proof -
  have "field_at dm [''fb_dcookie''] struct_nfs_fhbase_old = Some (0, Scalar C_u32)"
    by (cases dm; hypsubst; code_simp)
  from read_field [OF this assms] have
    "le_num (take 4 (encode dm struct_nfs_fhbase_old (VRec (VNum 0xfeebbaca # vs)))) = 0xfeebbaca"
    by (simp add: struct_nfs_fhbase_old_def)
  moreover have "even (le_num (take 4 bs)) = even (le_num (take 1 bs))" for bs
    by (cases bs) simp_all
  ultimately show ?thesis by (metis even_numeral)
qed

text \<open>The third version of the touch configuration extends the second one.\<close>

lemma qbt_config_extends:
  "take 9 (field_offsets dm struct_qbt_touch_config_v3) = field_offsets dm struct_qbt_touch_config_v2"
  by (cases dm; hypsubst; code_simp)

text \<open>
  The requests by which Bluetooth controls the power of its serial port are plain numbers. They have
  the form of a terminal request: the letter \<open>T\<close> above a byte for the command.
\<close>

definition msm_geni_serial_ioctls :: "(string \<times> nat) list" where
  "msm_geni_serial_ioctls =
    [(''MSM_GENI_SERIAL_TIOCFAULT'', 0x54EC), (''MSM_GENI_SERIAL_TIOCPMGET'', 0x54ED),
     (''MSM_GENI_SERIAL_TIOCPMPUT'', 0x54EE), (''MSM_GENI_SERIAL_TIOCPMACT'', 0x54EF)]"

lemma geni_requests_of_terminal:
  "map snd msm_geni_serial_ioctls = map (\<lambda>nr. 256 * of_char (CHR ''T'') + nr) [0xEC..<0xF0]"
  by code_simp

end
