(* ===== verification/Kgsl_Numbers.thy ===== *)
theory Kgsl_Numbers
  imports Kgsl
begin

text \<open>
  Numbers of the GPU driver: properties, counter groups, flags, constraints and fault types that the
  structs and requests of the other theories do not use, as tables of names and values, from
  \<^verbatim>\<open>linux/msm_kgsl.h\<close> under \<^verbatim>\<open>src/include\<close>.
\<close>

section \<open>\<^verbatim>\<open>src/include/linux/msm_kgsl.h\<close>\<close>

definition kgsl_version_numbers :: "(string \<times> nat) list" where
  "kgsl_version_numbers =
    [(''KGSL_VERSION_MAJOR'', 3), (''KGSL_VERSION_MINOR'', 14)]"

definition kgsl_cmdlist_numbers :: "(string \<times> nat) list" where
  "kgsl_cmdlist_numbers =
    [(''KGSL_CMDLIST_IB'', 0x00000001), (''KGSL_CMDLIST_CTXTSWITCH_PREAMBLE'', 0x00000002),
     (''KGSL_CMDLIST_IB_PREAMBLE'', 0x00000004), (''KGSL_OBJLIST_MEMOBJ'', 0x00000008),
     (''KGSL_OBJLIST_PROFILE'', 0x00000010), (''KGSL_CMD_SYNCPOINT_TYPE_TIMESTAMP'', 0),
     (''KGSL_CMD_SYNCPOINT_TYPE_FENCE'', 1), (''KGSL_CMD_SYNCPOINT_TYPE_TIMELINE'', 2)]"

definition KGSL_MEMFLAGS_NOT_USERMEM :: nat where "KGSL_MEMFLAGS_NOT_USERMEM = 0"

definition kgsl_flags_numbers :: "(string \<times> nat) list" where
  "kgsl_flags_numbers =
    [(''KGSL_FLAGS_NORMALMODE'', 0x00000000), (''KGSL_FLAGS_SAFEMODE'', 0x00000001),
     (''KGSL_FLAGS_INITIALIZED0'', 0x00000002), (''KGSL_FLAGS_INITIALIZED'', 0x00000004),
     (''KGSL_FLAGS_STARTED'', 0x00000008), (''KGSL_FLAGS_ACTIVE'', 0x00000010),
     (''KGSL_FLAGS_RESERVED0'', 0x00000020), (''KGSL_FLAGS_RESERVED1'', 0x00000040),
     (''KGSL_FLAGS_RESERVED2'', 0x00000080), (''KGSL_FLAGS_SOFT_RESET'', 0x00000100),
     (''KGSL_FLAGS_PER_CONTEXT_TIMESTAMPS'', 0x00000200), (''KGSL_SYNCOBJ_SERVER_TIMEOUT'', 2000),
     (''KGSL_UBWC_NONE'', 0), (''KGSL_UBWC_1_0'', 1), (''KGSL_UBWC_2_0'', 2), (''KGSL_UBWC_3_0'',
     3), (''KGSL_UBWC_4_0'', 4)]"

definition kgsl_ctx_reset_stat :: "(string \<times> nat) list" where
  "kgsl_ctx_reset_stat =
    enum_run 0
      [''KGSL_CTX_STAT_NO_ERROR'', ''KGSL_CTX_STAT_GUILTY_CONTEXT_RESET_EXT'',
      ''KGSL_CTX_STAT_INNOCENT_CONTEXT_RESET_EXT'', ''KGSL_CTX_STAT_UNKNOWN_CONTEXT_RESET_EXT'']"

definition kgsl_timestamp_type :: "(string \<times> nat) list" where
  "kgsl_timestamp_type =
    enum_run 1
      [''KGSL_TIMESTAMP_CONSUMED'', ''KGSL_TIMESTAMP_RETIRED'', ''KGSL_TIMESTAMP_QUEUED'']"

definition kgsl_prop_numbers :: "(string \<times> nat) list" where
  "kgsl_prop_numbers =
    [(''KGSL_PROP_DEVICE_INFO'', 0x1), (''KGSL_PROP_DEVICE_SHADOW'', 0x2),
     (''KGSL_PROP_DEVICE_POWER'', 0x3), (''KGSL_PROP_SHMEM'', 0x4),
     (''KGSL_PROP_SHMEM_APERTURES'', 0x5), (''KGSL_PROP_MMU_ENABLE'', 0x6),
     (''KGSL_PROP_INTERRUPT_WAITS'', 0x7), (''KGSL_PROP_VERSION'', 0x8),
     (''KGSL_PROP_GPU_RESET_STAT'', 0x9), (''KGSL_PROP_PWRCTRL'', 0xE),
     (''KGSL_PROP_PWR_CONSTRAINT'', 0x12), (''KGSL_PROP_UCHE_GMEM_VADDR'', 0x13),
     (''KGSL_PROP_SP_GENERIC_MEM'', 0x14), (''KGSL_PROP_UCODE_VERSION'', 0x15),
     (''KGSL_PROP_GPMU_VERSION'', 0x16), (''KGSL_PROP_HIGHEST_BANK_BIT'', 0x17),
     (''KGSL_PROP_DEVICE_BITNESS'', 0x18), (''KGSL_PROP_DEVICE_QDSS_STM'', 0x19),
     (''KGSL_PROP_MIN_ACCESS_LENGTH'', 0x1A), (''KGSL_PROP_UBWC_MODE'', 0x1B),
     (''KGSL_PROP_DEVICE_QTIMER'', 0x20), (''KGSL_PROP_L3_PWR_CONSTRAINT'', 0x22),
     (''KGSL_PROP_SECURE_BUFFER_ALIGNMENT'', 0x23), (''KGSL_PROP_SECURE_CTXT_SUPPORT'', 0x24),
     (''KGSL_PROP_SPEED_BIN'', 0x25), (''KGSL_PROP_GAMING_BIN'', 0x26),
     (''KGSL_PROP_QUERY_CAPABILITIES'', 0x27), (''KGSL_PROP_CONTEXT_PROPERTY'', 0x28),
     (''KGSL_PROP_GPU_MODEL'', 0x29), (''KGSL_PROP_VK_DEVICE_ID'', 0x2A),
     (''KGSL_PROP_IS_LPAC_ENABLED'', 0x2B)]"

definition KGSL_QUERY_CAPS_PROPERTIES :: nat where "KGSL_QUERY_CAPS_PROPERTIES = 1"

definition kgsl_perfcounter_numbers :: "(string \<times> nat) list" where
  "kgsl_perfcounter_numbers =
    [(''KGSL_CONTEXT_PROP_FAULTS'', 1), (''KGSL_PERFCOUNTER_GROUP_CP'', 0x0),
     (''KGSL_PERFCOUNTER_GROUP_RBBM'', 0x1), (''KGSL_PERFCOUNTER_GROUP_PC'', 0x2),
     (''KGSL_PERFCOUNTER_GROUP_VFD'', 0x3), (''KGSL_PERFCOUNTER_GROUP_HLSQ'', 0x4),
     (''KGSL_PERFCOUNTER_GROUP_VPC'', 0x5), (''KGSL_PERFCOUNTER_GROUP_TSE'', 0x6),
     (''KGSL_PERFCOUNTER_GROUP_RAS'', 0x7), (''KGSL_PERFCOUNTER_GROUP_UCHE'', 0x8),
     (''KGSL_PERFCOUNTER_GROUP_TP'', 0x9), (''KGSL_PERFCOUNTER_GROUP_SP'', 0xA),
     (''KGSL_PERFCOUNTER_GROUP_RB'', 0xB), (''KGSL_PERFCOUNTER_GROUP_PWR'', 0xC),
     (''KGSL_PERFCOUNTER_GROUP_VBIF'', 0xD), (''KGSL_PERFCOUNTER_GROUP_VBIF_PWR'', 0xE),
     (''KGSL_PERFCOUNTER_GROUP_MH'', 0xF), (''KGSL_PERFCOUNTER_GROUP_PA_SU'', 0x10),
     (''KGSL_PERFCOUNTER_GROUP_SQ'', 0x11), (''KGSL_PERFCOUNTER_GROUP_SX'', 0x12),
     (''KGSL_PERFCOUNTER_GROUP_TCF'', 0x13), (''KGSL_PERFCOUNTER_GROUP_TCM'', 0x14),
     (''KGSL_PERFCOUNTER_GROUP_TCR'', 0x15), (''KGSL_PERFCOUNTER_GROUP_L2'', 0x16),
     (''KGSL_PERFCOUNTER_GROUP_VSC'', 0x17), (''KGSL_PERFCOUNTER_GROUP_CCU'', 0x18),
     (''KGSL_PERFCOUNTER_GROUP_LRZ'', 0x19), (''KGSL_PERFCOUNTER_GROUP_CMP'', 0x1A),
     (''KGSL_PERFCOUNTER_GROUP_ALWAYSON'', 0x1B), (''KGSL_PERFCOUNTER_GROUP_SP_PWR'', 0x1C),
     (''KGSL_PERFCOUNTER_GROUP_TP_PWR'', 0x1D), (''KGSL_PERFCOUNTER_GROUP_RB_PWR'', 0x1E),
     (''KGSL_PERFCOUNTER_GROUP_CCU_PWR'', 0x1F), (''KGSL_PERFCOUNTER_GROUP_UCHE_PWR'', 0x20),
     (''KGSL_PERFCOUNTER_GROUP_CP_PWR'', 0x21), (''KGSL_PERFCOUNTER_GROUP_GPMU_PWR'', 0x22),
     (''KGSL_PERFCOUNTER_GROUP_ALWAYSON_PWR'', 0x23), (''KGSL_PERFCOUNTER_GROUP_GLC'', 0x24),
     (''KGSL_PERFCOUNTER_GROUP_FCHE'', 0x25), (''KGSL_PERFCOUNTER_GROUP_MHUB'', 0x26),
     (''KGSL_PERFCOUNTER_GROUP_GMU_XOCLK'', 0x27), (''KGSL_PERFCOUNTER_GROUP_GMU_GMUCLK'', 0x28),
     (''KGSL_PERFCOUNTER_GROUP_GMU_PERF'', 0x29), (''KGSL_PERFCOUNTER_GROUP_SW'', 0x2a),
     (''KGSL_PERFCOUNTER_GROUP_UFC'', 0x2b), (''KGSL_PERFCOUNTER_GROUP_BV_CP'', 0x2c),
     (''KGSL_PERFCOUNTER_GROUP_BV_PC'', 0x2d), (''KGSL_PERFCOUNTER_GROUP_BV_VFD'', 0x2e),
     (''KGSL_PERFCOUNTER_GROUP_BV_VPC'', 0x2f), (''KGSL_PERFCOUNTER_GROUP_BV_TP'', 0x30),
     (''KGSL_PERFCOUNTER_GROUP_BV_SP'', 0x31), (''KGSL_PERFCOUNTER_GROUP_BV_UFC'', 0x32),
     (''KGSL_PERFCOUNTER_GROUP_BV_TSE'', 0x33), (''KGSL_PERFCOUNTER_GROUP_BV_RAS'', 0x34),
     (''KGSL_PERFCOUNTER_GROUP_BV_LRZ'', 0x35), (''KGSL_PERFCOUNTER_GROUP_BV_HLSQ'', 0x36),
     (''KGSL_PERFCOUNTER_GROUP_MAX'', 0x37), (''KGSL_PERFCOUNTER_NOT_USED'', 0xFFFFFFFF),
     (''KGSL_PERFCOUNTER_BROKEN'', 0xFFFFFFFE)]"

definition KGSL_IOC_TYPE :: nat where "KGSL_IOC_TYPE = 0x09"

definition kgsl_cmdwindow_type :: "(string \<times> nat) list" where
  "kgsl_cmdwindow_type =
    enum_run 0
      [''KGSL_CMDWINDOW_MIN''] @
    enum_run 0
      [''KGSL_CMDWINDOW_2D'', ''KGSL_CMDWINDOW_3D'', ''KGSL_CMDWINDOW_MMU''] @
    enum_run 0xff
      [''KGSL_CMDWINDOW_ARBITER''] @
    enum_run 0xff
      [''KGSL_CMDWINDOW_MAX'']"

definition KGSL_TIMESTAMP_EVENT_GENLOCK :: nat where "KGSL_TIMESTAMP_EVENT_GENLOCK = 1"

definition KGSL_TIMESTAMP_EVENT_FENCE :: nat where "KGSL_TIMESTAMP_EVENT_FENCE = 2"

definition kgsl_gpumem_numbers :: "(string \<times> u32) list" where
  "kgsl_gpumem_numbers =
    [(''KGSL_GPUMEM_CACHE_CLEAN'', 1), (''KGSL_GPUMEM_CACHE_TO_GPU'', 1),
     (''KGSL_GPUMEM_CACHE_INV'', 2), (''KGSL_GPUMEM_CACHE_FROM_GPU'', 2),
     (''KGSL_GPUMEM_CACHE_FLUSH'', 3), (''KGSL_GPUMEM_CACHE_RANGE'', 2147483648)]"

definition kgsl_ibdesc_numbers :: "(string \<times> nat) list" where
  "kgsl_ibdesc_numbers =
    [(''KGSL_IBDESC_MEMLIST'', 0x1), (''KGSL_IBDESC_PROFILING_BUFFER'', 0x2)]"

definition kgsl_constraint_numbers :: "(string \<times> nat) list" where
  "kgsl_constraint_numbers =
    [(''KGSL_CONSTRAINT_NONE'', 0), (''KGSL_CONSTRAINT_PWRLEVEL'', 1),
     (''KGSL_CONSTRAINT_L3_NONE'', 2), (''KGSL_CONSTRAINT_L3_PWRLEVEL'', 3),
     (''KGSL_CONSTRAINT_PWR_MIN'', 0), (''KGSL_CONSTRAINT_PWR_MAX'', 1)]"

definition KGSL_GPUOBJ_ALLOC_METADATA_MAX :: nat where "KGSL_GPUOBJ_ALLOC_METADATA_MAX = 64"

definition kgsl_gpu_numbers :: "(string \<times> nat) list" where
  "kgsl_gpu_numbers =
    [(''KGSL_GPUOBJ_FREE_ON_EVENT'', 1), (''KGSL_GPU_EVENT_TIMESTAMP'', 1),
     (''KGSL_GPU_EVENT_FENCE'', 2)]"

definition kgsl_gpuobj_numbers :: "(string \<times> nat) list" where
  "kgsl_gpuobj_numbers =
    [(''KGSL_GPUOBJ_SET_INFO_METADATA'', 1), (''KGSL_GPUOBJ_SET_INFO_TYPE'', 2)]"

definition kgsl_gpumem_numbers_2 :: "(string \<times> nat) list" where
  "kgsl_gpumem_numbers_2 =
    [(''KGSL_GPUMEM_RANGE_OP_BIND'', 1), (''KGSL_GPUMEM_RANGE_OP_UNBIND'', 2)]"

definition kgsl_gpumem_numbers_3 :: "(string \<times> nat) list" where
  "kgsl_gpumem_numbers_3 =
    [(''KGSL_GPUMEM_BIND_ASYNC'', 1), (''KGSL_GPUMEM_BIND_FENCE_OUT'', 2)]"

definition kgsl_gpu_numbers_2 :: "(string \<times> nat) list" where
  "kgsl_gpu_numbers_2 =
    [(''KGSL_GPU_AUX_COMMAND_BIND'', 1), (''KGSL_GPU_AUX_COMMAND_TIMELINE'', 2),
     (''KGSL_GPU_AUX_COMMAND_SYNC'', 1024)]"

definition kgsl_timeline_numbers :: "(string \<times> nat) list" where
  "kgsl_timeline_numbers =
    [(''KGSL_TIMELINE_WAIT_ALL'', 1), (''KGSL_TIMELINE_WAIT_ANY'', 2)]"

definition kgsl_pagefault_numbers :: "(string \<times> nat) list" where
  "kgsl_pagefault_numbers =
    [(''KGSL_FAULT_TYPE_NO_FAULT'', 0), (''KGSL_FAULT_TYPE_PAGEFAULT'', 1),
     (''KGSL_FAULT_TYPE_MAX'', 2), (''KGSL_PAGEFAULT_TYPE_NONE'', 0),
     (''KGSL_PAGEFAULT_TYPE_READ'', 1), (''KGSL_PAGEFAULT_TYPE_WRITE'', 2),
     (''KGSL_PAGEFAULT_TYPE_TRANSLATION'', 4), (''KGSL_PAGEFAULT_TYPE_PERMISSION'', 8),
     (''KGSL_PAGEFAULT_TYPE_EXTERNAL'', 16), (''KGSL_PAGEFAULT_TYPE_TRANSACTION_STALLED'', 32)]"

text \<open>The kinds of user memory as they stand in the memory flags.\<close>

definition kgsl_memflags_usermem :: "(string \<times> u32) list" where
  "kgsl_memflags_usermem =
    [(''KGSL_MEMFLAGS_USERMEM_PMEM'',
      KGSL_USERMEM_FLAG (kgsl_user_mem_type_code KGSL_USER_MEM_TYPE_PMEM)),
     (''KGSL_MEMFLAGS_USERMEM_ASHMEM'',
      KGSL_USERMEM_FLAG (kgsl_user_mem_type_code KGSL_USER_MEM_TYPE_ASHMEM)),
     (''KGSL_MEMFLAGS_USERMEM_ADDR'',
      KGSL_USERMEM_FLAG (kgsl_user_mem_type_code KGSL_USER_MEM_TYPE_ADDR)),
     (''KGSL_MEMFLAGS_USERMEM_ION'',
      KGSL_USERMEM_FLAG (kgsl_user_mem_type_code KGSL_USER_MEM_TYPE_ION))]"

section \<open>Lemmas\<close>

text \<open>The counter groups are numbered without a gap, and the number of groups follows the last one.\<close>

lemma perfcounter_groups:
  "map snd (filter (\<lambda>(n, _). take 23 n = ''KGSL_PERFCOUNTER_GROUP_'') kgsl_perfcounter_numbers) =
     [0..<Suc (the (map_of kgsl_perfcounter_numbers ''KGSL_PERFCOUNTER_GROUP_MAX''))]"
  by code_simp

lemma kgsl_prop_distinct: "distinct (map snd kgsl_prop_numbers)"
  by code_simp

text \<open>The reasons of a page fault are bits of their own.\<close>

lemma pagefault_bits:
  "disjoint_masks (map (\<lambda>(_, n). word_of_nat n :: u32)
     (filter (\<lambda>(n, _). take 20 n = ''KGSL_PAGEFAULT_TYPE_'') kgsl_pagefault_numbers))"
  by code_simp

text \<open>
  The kinds of user memory lie in their field of the flags, differ from each other and from
  allocated memory, which is 0.
\<close>

lemma usermem_in_field:
  "distinct (word_of_nat KGSL_MEMFLAGS_NOT_USERMEM # map snd kgsl_memflags_usermem)"
  "list_all (\<lambda>(_, w). and w (not (ucast KGSL_MEMFLAGS_USERMEM_MASK)) = 0) kgsl_memflags_usermem"
  by code_simp+

end
