(* ===== verification/Ipa_Numbers.thy ===== *)
theory Ipa_Numbers
  imports Ipa_Ioctl Ipa_Clients Ipa_Qmi
begin

text \<open>
  Numbers of the network accelerator: request numbers, limits, small enumerations that the structs
  and requests of the other theories do not use, as tables of names and values, from
  \<^verbatim>\<open>linux/msm_ipa.h\<close>, \<^verbatim>\<open>linux/ipa_qmi_service_v01.h\<close>
  under \<^verbatim>\<open>src/include\<close>.
\<close>

section \<open>\<^verbatim>\<open>src/include/linux/msm_ipa.h\<close>\<close>

definition IPA_IOC_MAGIC :: nat where "IPA_IOC_MAGIC = 0xCF"

definition ipa_dev_names :: "(string \<times> string) list" where
  "ipa_dev_names =
    [(''IPA_DEV_NAME'', ''/dev/ipa''), (''IPA_NAT_DEV_NAME'', ''ipaNatTable''),
     (''IPA_IPV6CT_DEV_NAME'', ''ipaIpv6CTTable''), (''IPA_DFLT_RT_TBL_NAME'', ''ipa_dflt_rt'')]"

definition ipa_ioctl_numbers :: "(string \<times> nat) list" where
  "ipa_ioctl_numbers =
    [(''IPAHAL_NAT_INVALID_PROTOCOL'', 0xFF), (''IPA_IOCTL_ADD_HDR'', 0), (''IPA_IOCTL_DEL_HDR'',
     1), (''IPA_IOCTL_ADD_RT_RULE'', 2), (''IPA_IOCTL_DEL_RT_RULE'', 3),
     (''IPA_IOCTL_ADD_FLT_RULE'', 4), (''IPA_IOCTL_DEL_FLT_RULE'', 5), (''IPA_IOCTL_COMMIT_HDR'',
     6), (''IPA_IOCTL_RESET_HDR'', 7), (''IPA_IOCTL_COMMIT_RT'', 8), (''IPA_IOCTL_RESET_RT'', 9),
     (''IPA_IOCTL_COMMIT_FLT'', 10), (''IPA_IOCTL_RESET_FLT'', 11), (''IPA_IOCTL_DUMP'', 12),
     (''IPA_IOCTL_GET_RT_TBL'', 13), (''IPA_IOCTL_PUT_RT_TBL'', 14), (''IPA_IOCTL_COPY_HDR'', 15),
     (''IPA_IOCTL_QUERY_INTF'', 16), (''IPA_IOCTL_QUERY_INTF_TX_PROPS'', 17),
     (''IPA_IOCTL_QUERY_INTF_RX_PROPS'', 18), (''IPA_IOCTL_GET_HDR'', 19), (''IPA_IOCTL_PUT_HDR'',
     20), (''IPA_IOCTL_SET_FLT'', 21), (''IPA_IOCTL_ALLOC_NAT_MEM'', 22),
     (''IPA_IOCTL_V4_INIT_NAT'', 23), (''IPA_IOCTL_TABLE_DMA_CMD'', 24), (''IPA_IOCTL_NAT_DMA'',
     24), (''IPA_IOCTL_INIT_IPV6CT_TABLE'', 25), (''IPA_IOCTL_V4_DEL_NAT'', 26),
     (''IPA_IOCTL_PULL_MSG'', 27), (''IPA_IOCTL_GET_NAT_OFFSET'', 28),
     (''IPA_IOCTL_RM_ADD_DEPENDENCY'', 29), (''IPA_IOCTL_RM_DEL_DEPENDENCY'', 30),
     (''IPA_IOCTL_GENERATE_FLT_EQ'', 31), (''IPA_IOCTL_QUERY_INTF_EXT_PROPS'', 32),
     (''IPA_IOCTL_QUERY_EP_MAPPING'', 33), (''IPA_IOCTL_QUERY_RT_TBL_INDEX'', 34),
     (''IPA_IOCTL_WRITE_QMAPID'', 35), (''IPA_IOCTL_MDFY_FLT_RULE'', 36),
     (''IPA_IOCTL_NOTIFY_WAN_UPSTREAM_ROUTE_ADD'', 37),
     (''IPA_IOCTL_NOTIFY_WAN_UPSTREAM_ROUTE_DEL'', 38), (''IPA_IOCTL_NOTIFY_WAN_EMBMS_CONNECTED'',
     39), (''IPA_IOCTL_ADD_HDR_PROC_CTX'', 40), (''IPA_IOCTL_DEL_HDR_PROC_CTX'', 41),
     (''IPA_IOCTL_MDFY_RT_RULE'', 42), (''IPA_IOCTL_ADD_RT_RULE_AFTER'', 43),
     (''IPA_IOCTL_ADD_FLT_RULE_AFTER'', 44), (''IPA_IOCTL_GET_HW_VERSION'', 45),
     (''IPA_IOCTL_ADD_RT_RULE_EXT'', 46), (''IPA_IOCTL_ADD_VLAN_IFACE'', 47),
     (''IPA_IOCTL_DEL_VLAN_IFACE'', 48), (''IPA_IOCTL_ADD_L2TP_VLAN_MAPPING'', 49),
     (''IPA_IOCTL_DEL_L2TP_VLAN_MAPPING'', 50), (''IPA_IOCTL_NAT_MODIFY_PDN'', 51),
     (''IPA_IOCTL_ALLOC_NAT_TABLE'', 52), (''IPA_IOCTL_ALLOC_IPV6CT_TABLE'', 53),
     (''IPA_IOCTL_DEL_NAT_TABLE'', 54), (''IPA_IOCTL_DEL_IPV6CT_TABLE'', 55),
     (''IPA_IOCTL_CLEANUP'', 56), (''IPA_IOCTL_QUERY_WLAN_CLIENT'', 57),
     (''IPA_IOCTL_GET_VLAN_MODE'', 58), (''IPA_IOCTL_ADD_BRIDGE_VLAN_MAPPING'', 59),
     (''IPA_IOCTL_DEL_BRIDGE_VLAN_MAPPING'', 60), (''IPA_IOCTL_ODL_QUERY_ADAPL_EP_INFO'', 61),
     (''IPA_IOCTL_ODL_GET_AGG_BYTE_LIMIT'', 62), (''IPA_IOCTL_ODL_QUERY_MODEM_CONFIG'', 63),
     (''IPA_IOCTL_GSB_CONNECT'', 64), (''IPA_IOCTL_GSB_DISCONNECT'', 65),
     (''IPA_IOCTL_WIGIG_FST_SWITCH'', 66), (''IPA_IOCTL_ADD_RT_RULE_V2'', 67),
     (''IPA_IOCTL_ADD_RT_RULE_EXT_V2'', 68), (''IPA_IOCTL_ADD_RT_RULE_AFTER_V2'', 69),
     (''IPA_IOCTL_MDFY_RT_RULE_V2'', 70), (''IPA_IOCTL_ADD_FLT_RULE_V2'', 71),
     (''IPA_IOCTL_ADD_FLT_RULE_AFTER_V2'', 72), (''IPA_IOCTL_MDFY_FLT_RULE_V2'', 73),
     (''IPA_IOCTL_FNR_COUNTER_ALLOC'', 74), (''IPA_IOCTL_FNR_COUNTER_DEALLOC'', 75),
     (''IPA_IOCTL_FNR_COUNTER_QUERY'', 76), (''IPA_IOCTL_SET_FNR_COUNTER_INFO'', 77),
     (''IPA_IOCTL_GET_NAT_IN_SRAM_INFO'', 78), (''IPA_IOCTL_APP_CLOCK_VOTE'', 79),
     (''IPA_IOCTL_PDN_CONFIG'', 80), (''IPA_IOCTL_SET_MAC_FLT'', 81),
     (''IPA_IOCTL_GET_PHERIPHERAL_EP_INFO'', 82), (''IPA_IOCTL_ADD_UC_ACT_ENTRY'', 83),
     (''IPA_IOCTL_DEL_UC_ACT_ENTRY'', 84), (''IPA_IOCTL_SET_SW_FLT'', 85),
     (''IPA_IOCTL_SET_PKT_THRESHOLD'', 87), (''IPA_IOCTL_ADD_EoGRE_MAPPING'', 88),
     (''IPA_IOCTL_DEL_EoGRE_MAPPING'', 89), (''IPA_IOCTL_SET_IPPT_SW_FLT'', 90),
     (''IPA_IOCTL_ADD_MACSEC_MAPPING'', 92), (''IPA_IOCTL_DEL_MACSEC_MAPPING'', 93),
     (''IPA_IOCTL_QUERY_CACHED_DRIVER_MSG'', 94), (''IPA_IOCTL_SET_EXT_ROUTER_MODE'', 95),
     (''IPA_IOCTL_ADD_DEL_DSCP_PCP_MAPPING'', 96), (''IPA_HDR_MAX_SIZE'', 64),
     (''IPA_RESOURCE_NAME_MAX'', 32), (''IPA_NUM_PROPS_MAX'', 35), (''IPA_MAC_ADDR_SIZE'', 6),
     (''IPA_MBIM_MAX_STREAM_NUM'', 8), (''IPA_WAN_MSG_IPv6_ADDR_GW_LEN'', 4),
     (''IPA_MAX_NUM_HW_PATH_CLIENTS'', 16), (''QMI_IPA_MAX_CLIENT_DST_PIPES'', 4),
     (''IPA_MAX_NUM_MAC_FLT'', 32), (''IPA_MAX_NUM_IPv4_SEGS_FLT'', 16)]"

definition ipa_max_numbers :: "(string \<times> nat) list" where
  "ipa_max_numbers =
    [(''IPA_MAX_NUM_IFACE_FLT'', 4), (''IPA_MAX_FLT_RT_CNT_INDEX'', 128),
     (''IPA_FLT_RT_HW_COUNTER'', 120), (''IPA_FLT_RT_SW_COUNTER'', 8),
     (''IPA_MAX_FLT_RT_CLIENTS'', 60), (''IPA_MAX_IPPT_NUM_PORT_FLT'', 5),
     (''IPA_UC_MAX_DSCP_VAL'', 64)]"

definition ipa_lnx_numbers :: "(string \<times> nat) list" where
  "ipa_lnx_numbers =
    [(''IPA_FLT_EXT_L2TP_UDP_TCP_SYN'', 1), (''IPA_FLT_EXT_L2TP_UDP_INNER_ETHER_TYPE'', 2),
     (''IPA_FLT_EXT_MTU'', 4), (''IPA_FLT_EXT_L2TP_UDP_INNER_NEXT_HDR'', 8),
     (''IPA_FLT_EXT_NEXT_HDR'', 16), (''IPA_MAX_PDN_NUM'', 16), (''IPA_MAX_PDN_NUM_v4'', 5),
     (''IPA_LNX_PG_RECYCLE_STATS_STRUCT_LEN'', 32), (''IPA_LNX_EXCEPTION_STATS_STRUCT_LEN'', 40),
     (''IPA_LNX_ODL_EP_STATS_STRUCT_LEN'', 16), (''IPA_LNX_HOLB_DISCARD_STATS_STRUCT_LEN'', 16),
     (''IPA_LNX_HOLB_MONITOR_STATS_STRUCT_LEN'', 16),
     (''IPA_LNX_HOLB_DROP_AND_MON_STATS_STRUCT_LEN'', 40), (''IPA_LNX_GENERIC_STATS_STRUCT_LEN'',
     168), (''IPA_LNX_PM_CLIENT_STATS_STRUCT_LEN'', 24), (''IPA_LNX_CLOCK_STATS_STRUCT_LEN'', 48),
     (''IPA_LNX_GSI_RX_DEBUG_STATS_STRUCT_LEN'', 48), (''IPA_LNX_GSI_TX_DEBUG_STATS_STRUCT_LEN'',
     56), (''IPA_LNX_GSI_DEBUG_STATS_STRUCT_LEN'', 112), (''IPA_LNX_PIPE_INFO_STATS_STRUCT_LEN'',
     120), (''IPA_LNX_WLAN_INSTANCE_INFO_STRUCT_LEN'', 264),
     (''IPA_LNX_WLAN_INST_STATS_STRUCT_LEN'', 272), (''IPA_LNX_ETH_INSTANCE_INFO_STRUCT_LEN'',
     248), (''IPA_LNX_ETH_INST_STATS_STRUCT_LEN'', 256),
     (''IPA_LNX_USB_INSTANCE_INFO_STRUCT_LEN'', 248), (''IPA_LNX_USB_INST_STATS_STRUCT_LEN'',
     256), (''IPA_LNX_MHIP_INSTANCE_INFO_STRUCT_LEN'', 248),
     (''IPA_LNX_MHIP_INST_STATS_STRUCT_LEN'', 256), (''IPA_LNX_CONSOLIDATED_STATS_STRUCT_LEN'',
     56), (''IPA_LNX_EACH_INST_ALLOC_INFO_STRUCT_LEN'', 64),
     (''IPA_LNX_STATS_ALL_INFO_STRUCT_LEN'', 416), (''IPA_LNX_STATS_SPEARHEAD_CTX_STRUCT_LEN'',
     428)]"

definition ipa_client_numbers :: "(string \<times> nat) list" where
  "ipa_client_numbers =
    [(''IPA_CLIENT_Q6_DL_NLO_DATA_PROD'', 74), (''IPA_CLIENT_Q6_UL_NLO_ACK_CONS'', 77),
     (''IPA_CLIENT_Q6_QBAP_STATUS_CONS'', 79), (''IPA_CLIENT_MHI_DPL_CONS'', 81),
     (''IPA_CLIENT_Q6_AUDIO_DMA_MHI_PROD'', 84), (''IPA_CLIENT_Q6_AUDIO_DMA_MHI_CONS'', 85),
     (''IPA_CLIENT_WIGIG_PROD'', 86), (''IPA_CLIENT_WIGIG1_CONS'', 87),
     (''IPA_CLIENT_WIGIG2_CONS'', 89), (''IPA_CLIENT_WIGIG3_CONS'', 91),
     (''IPA_CLIENT_WIGIG4_CONS'', 93), (''IPA_CLIENT_APPS_WAN_COAL_CONS'', 95),
     (''IPA_CLIENT_MHI_PRIME_TETH_PROD'', 96), (''IPA_CLIENT_MHI_PRIME_TETH_CONS'', 97),
     (''IPA_CLIENT_MHI_PRIME_RMNET_PROD'', 98), (''IPA_CLIENT_MHI_PRIME_RMNET_CONS'', 99),
     (''IPA_CLIENT_MHI_PRIME_DPL_PROD'', 100), (''IPA_CLIENT_AQC_ETHERNET_PROD'', 102),
     (''IPA_CLIENT_AQC_ETHERNET_CONS'', 103), (''IPA_CLIENT_MHI_QDSS_CONS'', 107),
     (''IPA_CLIENT_QDSS_PROD'', 106), (''IPA_CLIENT_WLAN2_CONS1'', 119),
     (''IPA_CLIENT_APPS_WAN_LOW_LAT_DATA_PROD'', 120), (''IPA_CLIENT_APPS_WAN_LOW_LAT_DATA_CONS'',
     121), (''IPA_CLIENT_Q6_DL_NLO_LL_DATA_PROD'', 122), (''IPA_CLIENT_WLAN2_PROD1'', 16),
     (''IPA_CLIENT_WLAN3_PROD1'', 40), (''IPA_CLIENT_MHI_COAL_CONS'', 101)]"

definition ipa_rule_type :: "(string \<times> nat) list" where
  "ipa_rule_type =
    enum_run 0
      [''IPA_RULE_HASHABLE'', ''IPA_RULE_NON_HASHABLE'']"

definition IPA_RULE_TYPE_MAX :: nat where "IPA_RULE_TYPE_MAX = 2"

definition ipa_flt_action :: "(string \<times> nat) list" where
  "ipa_flt_action =
    enum_run 0
      [''IPA_PASS_TO_ROUTING'', ''IPA_PASS_TO_SRC_NAT'', ''IPA_PASS_TO_DST_NAT'',
      ''IPA_PASS_TO_EXCEPTION'']"

definition IPA_RM_RESOURCE_MAX :: nat where "IPA_RM_RESOURCE_MAX = 22"

definition ipa_hw_numbers :: "(string \<times> nat) list" where
  "ipa_hw_numbers =
    [(''IPA_HW_MAX'', 24), (''IPA_HW_v4_0'', 14), (''IPA_HW_v4_1'', 15), (''IPA_HW_v4_2'', 16),
     (''IPA_HW_v4_5'', 17), (''IPA_HW_v4_7'', 18), (''IPA_HW_v4_9'', 19), (''IPA_HW_v4_11'', 20),
     (''IPA_HW_v5_0'', 21), (''IPA_HW_v5_1'', 22), (''IPA_HW_v5_2'', 23)]"

definition ipa_ipfltr_numbers :: "(string \<times> nat) list" where
  "ipa_ipfltr_numbers =
    [(''IPA_IPFLTR_NUM_MEQ_32_EQNS'', 2), (''IPA_IPFLTR_NUM_IHL_MEQ_32_EQNS'', 2),
     (''IPA_IPFLTR_NUM_MEQ_128_EQNS'', 2), (''IPA_IPFLTR_NUM_IHL_RANGE_16_EQNS'', 2)]"

definition ipa_hdr_l2_type :: "(string \<times> nat) list" where
  "ipa_hdr_l2_type =
    enum_run 0
      [''IPA_HDR_L2_NONE'', ''IPA_HDR_L2_ETHERNET_II'', ''IPA_HDR_L2_802_3'', ''IPA_HDR_L2_802_1Q'',
      ''IPA_HDR_L2_ETHERNET_II_AST'', ''IPA_HDR_L2_802_1Q_AST'']"

definition ipa_hdr_numbers :: "(string \<times> nat) list" where
  "ipa_hdr_numbers =
    [(''IPA_HDR_L2_MAX'', 6), (''IPA_HDR_L2_802_1Q'', 3), (''IPA_HDR_L2_ETHERNET_II_AST'', 4),
     (''IPA_HDR_L2_802_1Q_AST'', 5)]"

definition ipa_hdr_proc_type :: "(string \<times> nat) list" where
  "ipa_hdr_proc_type =
    enum_run 0
      [''IPA_HDR_PROC_NONE'', ''IPA_HDR_PROC_ETHII_TO_ETHII'', ''IPA_HDR_PROC_ETHII_TO_802_3'',
      ''IPA_HDR_PROC_802_3_TO_ETHII'', ''IPA_HDR_PROC_802_3_TO_802_3'',
      ''IPA_HDR_PROC_L2TP_HEADER_ADD'', ''IPA_HDR_PROC_L2TP_HEADER_REMOVE'',
      ''IPA_HDR_PROC_ETHII_TO_ETHII_EX'', ''IPA_HDR_PROC_L2TP_UDP_HEADER_ADD'',
      ''IPA_HDR_PROC_L2TP_UDP_HEADER_REMOVE'', ''IPA_HDR_PROC_SET_DSCP'',
      ''IPA_HDR_PROC_EoGRE_HEADER_ADD'', ''IPA_HDR_PROC_EoGRE_HEADER_REMOVE'',
      ''IPA_HDR_PROC_WWAN_TO_ETHII_EX'']"

definition IPA_HDR_PROC_MAX :: nat where "IPA_HDR_PROC_MAX = 14"

definition ipa_eogre_numbers :: "(string \<times> nat) list" where
  "ipa_eogre_numbers =
    [(''IPA_EoGRE_MAX_PCP_IDX'', 8), (''IPA_EoGRE_MAX_VLAN'', 8)]"

definition ipa_l2tp_tunnel_type :: "(string \<times> nat) list" where
  "ipa_l2tp_tunnel_type =
    enum_run 1
      [''IPA_L2TP_TUNNEL_IP'', ''IPA_L2TP_TUNNEL_UDP'']"

definition query_max_numbers :: "(string \<times> nat) list" where
  "query_max_numbers =
    [(''QUERY_MAX_EP_PAIRS'', 2), (''IPA_USB0_EP_ID'', 11), (''IPA_USB1_EP_ID'', 12),
     (''IPA_PCIE0_EP_ID'', 21), (''IPA_PCIE1_EP_ID'', 22), (''IPA_ETH0_EP_ID'', 31),
     (''IPA_ETH1_EP_ID'', 32)]"

definition ipa_peripheral_ep_type :: "(string \<times> nat) list" where
  "ipa_peripheral_ep_type =
    enum_run 0
      [''IPA_DATA_EP_TYP_RESERVED'', ''IPA_DATA_EP_TYP_HSIC'', ''IPA_DATA_EP_TYP_HSUSB'',
      ''IPA_DATA_EP_TYP_PCIE'', ''IPA_DATA_EP_TYP_EMBEDDED'', ''IPA_DATA_EP_TYP_BAM_DMUX'',
      ''IPA_DATA_EP_TYP_ETH'']"

definition ipa_data_ep_prot_type :: "(string \<times> nat) list" where
  "ipa_data_ep_prot_type =
    enum_run 0
      [''IPA_PROT_RMNET'', ''IPA_PROT_RMNET_CV2X'', ''IPA_PROT_MAX'']"

definition ipa_wlan_hdr_attrib_type :: "(string \<times> nat) list" where
  "ipa_wlan_hdr_attrib_type =
    enum_run 0
      [''WLAN_HDR_ATTRIB_MAC_ADDR'', ''WLAN_HDR_ATTRIB_STA_ID'', ''WLAN_HDR_ATTRIB_TA_PEER_ID'']"

definition WLAN_HDR_ATTRIB_TA_PEER_ID :: nat where "WLAN_HDR_ATTRIB_TA_PEER_ID = 2"

definition ipa_socksv5_numbers :: "(string \<times> nat) list" where
  "ipa_socksv5_numbers =
    [(''IPA_SOCKSV5_ADD_COM_ID'', 15), (''IPA_IPv6_NAT_COM_ID'', 16)]"

definition ipacm_client_enum :: "(string \<times> nat) list" where
  "ipacm_client_enum =
    enum_run 1
      [''IPACM_CLIENT_USB'', ''IPACM_CLIENT_WLAN'', ''IPACM_CLIENT_MAX'']"

definition ipacm_per_client_device_type :: "(string \<times> nat) list" where
  "ipacm_per_client_device_type =
    enum_run 0
      [''IPACM_CLIENT_DEVICE_TYPE_USB'', ''IPACM_CLIENT_DEVICE_TYPE_WLAN'',
      ''IPACM_CLIENT_DEVICE_TYPE_ETH'', ''IPACM_CLIENT_DEVICE_TYPE_ODU'',
      ''IPACM_CLIENT_DEVICE_MAX'']"

definition IPACM_MAX_CLIENT_DEVICE_TYPES :: nat where "IPACM_MAX_CLIENT_DEVICE_TYPES = 4"

definition ipa_vlan_ifaces :: "(string \<times> nat) list" where
  "ipa_vlan_ifaces =
    enum_run 0
      [''IPA_VLAN_IF_ETH'', ''IPA_VLAN_IF_RNDIS'', ''IPA_VLAN_IF_ECM'', ''IPA_VLAN_IF_WLAN'']"

definition ipa_vlan_numbers :: "(string \<times> nat) list" where
  "ipa_vlan_numbers =
    [(''IPA_VLAN_IF_EMAC'', 0), (''IPA_VLAN_IF_WLAN'', 3), (''IPA_VLAN_IF_MAX'', 4)]"

definition ipacm_hw_index_counter_type :: "(string \<times> nat) list" where
  "ipacm_hw_index_counter_type =
    enum_run 0
      [''UL_HW'', ''DL_HW'', ''DL_ALL'', ''UL_ALL'']"

definition ipacm_hw_index_counter_virtual_type :: "(string \<times> nat) list" where
  "ipacm_hw_index_counter_virtual_type =
    enum_run 0
      [''UL_HW_CACHE'', ''DL_HW_CACHE'', ''UL_WLAN_TX'', ''DL_WLAN_TX'']"

definition ipa_ext_router_mode :: "(string \<times> nat) list" where
  "ipa_ext_router_mode =
    enum_run 0
      [''IPA_PREFIX_DISABLED'', ''IPA_PREFIX_SHARING'', ''IPA_PREFIX_DELEGATION'']"

definition teth_bridge_numbers :: "(string \<times> nat) list" where
  "teth_bridge_numbers =
    [(''TETH_BRIDGE_IOC_MAGIC'', 0xCE), (''TETH_BRIDGE_IOCTL_SET_BRIDGE_MODE'', 0),
     (''TETH_BRIDGE_IOCTL_SET_AGGR_PARAMS'', 1), (''TETH_BRIDGE_IOCTL_GET_AGGR_PARAMS'', 2),
     (''TETH_BRIDGE_IOCTL_GET_AGGR_CAPABILITIES'', 3), (''TETH_BRIDGE_IOCTL_MAX'', 4)]"

definition teth_link_protocol_type :: "(string \<times> nat) list" where
  "teth_link_protocol_type =
    enum_run 0
      [''TETH_LINK_PROTOCOL_IP'', ''TETH_LINK_PROTOCOL_ETHERNET'', ''TETH_LINK_PROTOCOL_MAX'']"

definition teth_aggr_protocol_type :: "(string \<times> nat) list" where
  "teth_aggr_protocol_type =
    enum_run 0
      [''TETH_AGGR_PROTOCOL_NONE'', ''TETH_AGGR_PROTOCOL_MBIM'', ''TETH_AGGR_PROTOCOL_TLP'',
      ''TETH_AGGR_PROTOCOL_MAX'']"

definition ipa_app_clock_vote_type :: "(string \<times> nat) list" where
  "ipa_app_clock_vote_type =
    enum_run 0
      [''IPA_APP_CLK_DEVOTE'', ''IPA_APP_CLK_VOTE'', ''IPA_APP_CLK_RESET_VOTE'']"

definition odu_bridge_numbers :: "(string \<times> nat) list" where
  "odu_bridge_numbers =
    [(''ODU_BRIDGE_IOC_MAGIC'', 0xCD), (''ODU_BRIDGE_IOCTL_SET_MODE'', 0),
     (''ODU_BRIDGE_IOCTL_SET_LLV6_ADDR'', 1), (''ODU_BRIDGE_IOCTL_MAX'', 2)]"

definition odu_bridge_mode :: "(string \<times> nat) list" where
  "odu_bridge_mode =
    enum_run 0
      [''ODU_BRIDGE_MODE_ROUTER'', ''ODU_BRIDGE_MODE_BRIDGE'', ''ODU_BRIDGE_MODE_MAX'']"

section \<open>\<^verbatim>\<open>src/include/linux/ipa_qmi_service_v01.h\<close>\<close>

definition qmi_ipa_numbers :: "(string \<times> nat) list" where
  "qmi_ipa_numbers =
    [(''QMI_IPA_REMOTE_MHI_CHANNELS_NUM_MAX_V01'', 6), (''QMI_IPA_MAX_FILTERS_EX_V01'', 128),
     (''QMI_IPA_MAX_FILTERS_EX2_V01'', 256), (''QMI_IPA_IPFLTR_NUM_IHL_RANGE_16_EQNS_V01'', 2),
     (''QMI_IPA_MAX_FILTERS_V01'', 64), (''QMI_IPA_IPFLTR_NUM_MEQ_128_EQNS_V01'', 2),
     (''QMI_IPA_ENDP_DESC_NUM_MAX_V01'', 31), (''QMI_IPA_MAX_APN_V01'', 8),
     (''QMI_IPA_MAX_CLIENT_DST_PIPES_V01'', 8), (''QMI_IPA_IPFLTR_NUM_IHL_MEQ_32_EQNS_V01'', 2),
     (''QMI_IPA_MAX_UL_FIREWALL_RULES_V01'', 64),
     (''QMI_IPA_REMOTE_MHI_MEMORY_MAPPING_NUM_MAX_V01'', 6),
     (''QMI_IPA_IPFLTR_NUM_MEQ_32_EQNS_V01'', 2), (''QMI_IPA_MAX_PIPES_V01'', 20),
     (''QMI_IPA_MAX_PER_CLIENTS_V01'', 64), (''QMI_IPA_MAX_RMNET_ETH_INFO_V01'', 19),
     (''QMI_IPA_MAX_MAC_ADDR_LEN_V01'', 6), (''QMI_IPA_MAX_IPV4_ADDR_LEN_V01'', 4)]"

definition QMI_IPA_PLATFORM_TYPE_LE_MHI_V01 :: nat where "QMI_IPA_PLATFORM_TYPE_LE_MHI_V01 = 6"

section \<open>Lemmas\<close>

text \<open>
  The numbers listed for requests run from 0 to 96, without 86 and 91 and with 24 under two names;
  the requests of the accelerator use each of them, and no other.
\<close>

definition listed_numbers :: "nat list" where
  "listed_numbers = map snd (filter (\<lambda>(n, _). take 10 n = ''IPA_IOCTL_'') ipa_ioctl_numbers)"

lemma listed_numbers_run:
  "listed_numbers = [0..<25] @ [24..<86] @ [87..<91] @ [92..<97]"
  by code_simp

lemma requests_use_numbers:
  "sort (map ioc_nr (filter (\<lambda>i. ioc_type i = IPA_IOC_MAGIC) ipa_ioctls)) = listed_numbers"
  by code_simp

text \<open>
  The lengths of the statistics structs contain the lengths of their parts, and the counters of
  hardware and software are all counters.
\<close>

definition lnx_len :: "string \<Rightarrow> nat" where
  "lnx_len n = the (map_of ipa_lnx_numbers (''IPA_LNX_'' @ n @ ''_STRUCT_LEN''))"

lemma lnx_lengths:
  "lnx_len ''HOLB_DROP_AND_MON_STATS'' =
     8 + lnx_len ''HOLB_DISCARD_STATS'' + lnx_len ''HOLB_MONITOR_STATS''"
  "lnx_len ''GSI_DEBUG_STATS'' = 8 + lnx_len ''GSI_RX_DEBUG_STATS'' + lnx_len ''GSI_TX_DEBUG_STATS''"
  "lnx_len ''WLAN_INSTANCE_INFO'' = 32 + lnx_len ''GSI_DEBUG_STATS'' + lnx_len ''PIPE_INFO_STATS''"
  "lnx_len ''WLAN_INST_STATS'' = 8 + lnx_len ''WLAN_INSTANCE_INFO''"
  "lnx_len ''ETH_INSTANCE_INFO'' = 16 + lnx_len ''GSI_DEBUG_STATS'' + lnx_len ''PIPE_INFO_STATS''"
  "lnx_len ''ETH_INST_STATS'' = 8 + lnx_len ''ETH_INSTANCE_INFO''"
  "lnx_len ''STATS_SPEARHEAD_CTX'' = 8 + 4 + lnx_len ''STATS_ALL_INFO''"
  by code_simp+

end
