(* ===== verification/Driver_Numbers.thy ===== *)
theory Driver_Numbers
  imports Secure_Ioctl Audio_Ioctl Platform_Ioctl Compress_Offload Audio_Calibration Device_Misc
begin

text \<open>
  Numbers of the drivers of the secure world, of audio, of memory and of the platform services that
  the structs and requests of the other theories do not use, as tables of names and values, from
  \<^verbatim>\<open>linux/spcom.h\<close>, \<^verbatim>\<open>linux/qcedev.h\<close>,
  \<^verbatim>\<open>linux/qseecom.h\<close>, \<^verbatim>\<open>linux/spss_utils.h\<close>,
  \<^verbatim>\<open>linux/qcota.h\<close>, \<^verbatim>\<open>linux/smcinvoke.h\<close>,
  \<^verbatim>\<open>linux/msm_audio.h\<close>,
  \<^verbatim>\<open>linux/msm_audio_calibration.h\<close>,
  \<^verbatim>\<open>linux/mem-buf.h\<close>, \<^verbatim>\<open>linux/ion.h\<close>,
  \<^verbatim>\<open>linux/msm_ion.h\<close>, \<^verbatim>\<open>linux/gunyah/gh_vm.h\<close>,
  \<^verbatim>\<open>linux/gh_virtio_backend.h\<close>, \<^verbatim>\<open>linux/mhi.h\<close>,
  \<^verbatim>\<open>linux/esoc_ctrl.h\<close>,
  \<^verbatim>\<open>linux/helioscom_interface.h\<close>,
  \<^verbatim>\<open>linux/usb/usb_ctrl_qti.h\<close>,
  \<^verbatim>\<open>linux/qg-profile.h\<close>, \<^verbatim>\<open>sound/lsm_params.h\<close>,
  \<^verbatim>\<open>sound/devdep_params.h\<close>,
  \<^verbatim>\<open>sound/audio_effects.h\<close>, \<^verbatim>\<open>media/synx.h\<close>,
  \<^verbatim>\<open>misc/wigig_sensing_uapi.h\<close>,
  \<^verbatim>\<open>misc/adsp_sleepmon.h\<close> under \<^verbatim>\<open>src/include\<close>.
\<close>

section \<open>\<^verbatim>\<open>src/include/linux/spcom.h\<close>\<close>

definition page_size_numbers :: "(string \<times> nat) list" where
  "page_size_numbers =
    [(''PAGE_SIZE'', 4096), (''SPCOM_MAX_CHANNELS'', 0x20), (''SPCOM_CHANNEL_NAME_SIZE'', 32),
     (''SPCOM_GET_NEXT_REQUEST_SIZE'', 4095)]"

definition spcom_cmd_id :: "(string \<times> nat) list" where
  "spcom_cmd_id =
    enum_run 0x4c4f4144
      [''SPCOM_CMD_LOAD_APP''] @
    enum_run 0x52455354
      [''SPCOM_CMD_RESET_SP''] @
    enum_run 0x53454e44
      [''SPCOM_CMD_SEND''] @
    enum_run 0x534e444d
      [''SPCOM_CMD_SEND_MODIFIED''] @
    enum_run 0x4c4f434b
      [''SPCOM_CMD_LOCK_ION_BUF''] @
    enum_run 0x554c434b
      [''SPCOM_CMD_UNLOCK_ION_BUF''] @
    enum_run 0x46535352
      [''SPCOM_CMD_FSSR''] @
    enum_run 0x43524554
      [''SPCOM_CMD_CREATE_CHANNEL''] @
    enum_run 0x45535352
      [''SPCOM_CMD_ENABLE_SSR''] @
    enum_run 0x52535452
      [''SPCOM_CMD_RESTART_SP'']"

definition spcom_poll_events :: "(string \<times> nat) list" where
  "spcom_poll_events =
    enum_run 2
      [''SPCOM_POLL_LINK_STATE''] @
    enum_run 4
      [''SPCOM_POLL_CH_CONNECT''] @
    enum_run 0x4000
      [''SPCOM_POLL_READY_FLAG''] @
    enum_run 0x8000
      [''SPCOM_POLL_WAIT_FLAG'']"

definition SPCOM_MAX_ION_BUF :: nat where "SPCOM_MAX_ION_BUF = 4"

definition SPCOM_ION_FD_UNLOCK_ALL :: nat where "SPCOM_ION_FD_UNLOCK_ALL = 0xFFFF"

definition spcom_enum :: "(string \<times> nat) list" where
  "spcom_enum =
    enum_run 0
      [''SPCOM_IONFD_CMD'', ''SPCOM_POLL_CMD'', ''SPCOM_GET_RMB_CMD'']"

definition spcom_poll_cmd_id :: "(string \<times> nat) list" where
  "spcom_poll_cmd_id =
    enum_run 0
      [''SPCOM_LINK_STATE_REQ'', ''SPCOM_CH_CONN_STATE_REQ'']"

definition SPCOM_IOCTL_MAGIC :: nat where "SPCOM_IOCTL_MAGIC = 83"

definition spcom_max_numbers :: "(string \<times> nat) list" where
  "spcom_max_numbers =
    [(''SPCOM_MAX_DMA_BUF'', 4), (''SPCOM_DMABUF_FD_UNLOCK_ALL'', 0xFFFF)]"

definition spcom_event_id :: "(string \<times> nat) list" where
  "spcom_event_id =
    enum_run 0x64
      [''SPCOM_EVENT_LINK_STATE'']"

definition spcom_ioctl_enum :: "(string \<times> nat) list" where
  "spcom_ioctl_enum =
    enum_run 0x3e8
      [''SPCOM_IOCTL_STATE_POLL_CMD'', ''SPCOM_IOCTL_SHARED_CH_CREATE_CMD'',
      ''SPCOM_IOCTL_CH_REGISTER_CMD'', ''SPCOM_IOCTL_CH_UNREGISTER_CMD'',
      ''SPCOM_IOCTL_CH_IS_CONNECTED_CMD'', ''SPCOM_IOCTL_SEND_MSG_CMD'',
      ''SPCOM_IOCTL_SEND_MOD_MSG_CMD'', ''SPCOM_IOCTL_GET_NEXT_REQ_SZ_CMD'',
      ''SPCOM_IOCTL_GET_MSG_CMD'', ''SPCOM_IOCTL_DMABUF_LOCK_CMD'',
      ''SPCOM_IOCTL_DMABUF_UNLOCK_CMD'', ''SPCOM_IOCTL_RESTART_SPU_CMD'',
      ''SPCOM_IOCTL_ENABLE_SSR_CMD'']"

section \<open>\<^verbatim>\<open>src/include/linux/qcedev.h\<close>\<close>

definition qcedev_max_numbers :: "(string \<times> nat) list" where
  "qcedev_max_numbers =
    [(''QCEDEV_MAX_SHA_BLOCK_SIZE'', 64), (''QCEDEV_MAX_BEARER'', 31), (''QCEDEV_MAX_KEY_SIZE'',
     64), (''QCEDEV_MAX_IV_SIZE'', 32), (''QCEDEV_MAX_BUFFERS'', 16), (''QCEDEV_MAX_SHA_DIGEST'',
     32), (''QCEDEV_USE_PMEM'', 1), (''QCEDEV_NO_PMEM'', 0), (''QCEDEV_AES_KEY_128'', 16),
     (''QCEDEV_AES_KEY_192'', 24), (''QCEDEV_AES_KEY_256'', 32)]"

definition qcedev_oper_enum :: "(string \<times> nat) list" where
  "qcedev_oper_enum =
    enum_run 0
      [''QCEDEV_OPER_DEC'', ''QCEDEV_OPER_ENC'', ''QCEDEV_OPER_DEC_NO_KEY'',
      ''QCEDEV_OPER_ENC_NO_KEY'', ''QCEDEV_OPER_LAST'']"

definition qcedev_offload_oper_enum :: "(string \<times> nat) list" where
  "qcedev_offload_oper_enum =
    enum_run 1
      [''QCEDEV_OFFLOAD_HLOS_HLOS'', ''QCEDEV_OFFLOAD_HLOS_CPB'', ''QCEDEV_OFFLOAD_CPB_HLOS'',
      ''QCEDEV_OFFLOAD_HLOS_CPB_1'', ''QCEDEV_OFFLOAD_HLOS_CPB_2'', ''QCEDEV_OFFLOAD_HLOS_CPB_3'',
      ''QCEDEV_OFFLOAD_HLOS_CPB_4'', ''QCEDEV_OFFLOAD_OPER_LAST'']"

definition qcedev_offload_err_enum :: "(string \<times> nat) list" where
  "qcedev_offload_err_enum =
    enum_run 0
      [''QCEDEV_OFFLOAD_NO_ERROR'', ''QCEDEV_OFFLOAD_GENERIC_ERROR'',
      ''QCEDEV_OFFLOAD_KEY_TIMER_EXPIRED_ERROR'', ''QCEDEV_OFFLOAD_KEY_PAUSE_ERROR'']"

definition qcedev_cipher_alg_enum :: "(string \<times> nat) list" where
  "qcedev_cipher_alg_enum =
    enum_run 0
      [''QCEDEV_ALG_DES'', ''QCEDEV_ALG_3DES'', ''QCEDEV_ALG_AES'', ''QCEDEV_ALG_LAST'']"

definition qcedev_cipher_mode_enum :: "(string \<times> nat) list" where
  "qcedev_cipher_mode_enum =
    enum_run 0
      [''QCEDEV_AES_MODE_CBC'', ''QCEDEV_AES_MODE_ECB'', ''QCEDEV_AES_MODE_CTR'',
      ''QCEDEV_AES_MODE_XTS'', ''QCEDEV_AES_MODE_CCM'', ''QCEDEV_DES_MODE_CBC'',
      ''QCEDEV_DES_MODE_ECB'', ''QCEDEV_AES_DES_MODE_LAST'']"

definition qcedev_sha_alg_enum :: "(string \<times> nat) list" where
  "qcedev_sha_alg_enum =
    enum_run 0
      [''QCEDEV_ALG_SHA1'', ''QCEDEV_ALG_SHA256'', ''QCEDEV_ALG_SHA1_HMAC'',
      ''QCEDEV_ALG_SHA256_HMAC'', ''QCEDEV_ALG_AES_CMAC'', ''QCEDEV_ALG_SHA_ALG_LAST'']"

definition QCEDEV_IOC_MAGIC :: nat where "QCEDEV_IOC_MAGIC = 0x87"

section \<open>\<^verbatim>\<open>src/include/linux/qseecom.h\<close>\<close>

definition qseecom_ta_numbers :: "(string \<times> nat) list" where
  "qseecom_ta_numbers =
    [(''MAX_ION_FD'', 4), (''MAX_APP_NAME_SIZE'', 64), (''QSEECOM_HASH_SIZE'', 32),
     (''QSEECOM_TA_ION_ALLOCATE_DELAY'', 50), (''QSEECOM_TA_ION_ALLOCATE_MAX_ATTEMP'', 20),
     (''ICE_KEY_SIZE'', 32), (''ICE_SALT_SIZE'', 32)]"

definition qseecom_key_management_usage_type :: "(string \<times> nat) list" where
  "qseecom_key_management_usage_type =
    enum_run 1
      [''QSEOS_KM_USAGE_DISK_ENCRYPTION'', ''QSEOS_KM_USAGE_FILE_ENCRYPTION'',
      ''QSEOS_KM_USAGE_UFS_ICE_DISK_ENCRYPTION'', ''QSEOS_KM_USAGE_SDCC_ICE_DISK_ENCRYPTION'',
      ''QSEOS_KM_USAGE_MAX'']"

definition SHA256_DIGEST_LENGTH :: nat where "SHA256_DIGEST_LENGTH = 32"

definition qseecom_bandwidth_request_mode :: "(string \<times> nat) list" where
  "qseecom_bandwidth_request_mode =
    enum_run 0
      [''INACTIVE'', ''LOW'', ''MEDIUM'', ''HIGH'']"

definition qseecom_sg_numbers :: "(string \<times> nat) list" where
  "qseecom_sg_numbers =
    [(''QSEECOM_SG_LIST_BUF_FORMAT_VERSION_1'', 1), (''QSEECOM_SG_LIST_BUF_FORMAT_VERSION_2'', 2)]"

definition ce_pipe_numbers :: "(string \<times> nat) list" where
  "ce_pipe_numbers =
    [(''MAX_CE_PIPE_PAIR_PER_UNIT'', 3), (''INVALID_CE_INFO_UNIT_NUM'', 0xffffffff),
     (''CE_PIPE_PAIR_USE_TYPE_FDE'', 0), (''CE_PIPE_PAIR_USE_TYPE_PFE'', 1)]"

definition MAX_CE_INFO_HANDLE_SIZE :: nat where "MAX_CE_INFO_HANDLE_SIZE = 32"

definition QSEECOM_IOC_MAGIC :: nat where "QSEECOM_IOC_MAGIC = 0x97"

section \<open>\<^verbatim>\<open>src/include/linux/spss_utils.h\<close>\<close>

definition spss_ioc_numbers :: "(string \<times> nat) list" where
  "spss_ioc_numbers =
    [(''SPSS_IOC_MAGIC'', 83), (''OLD_NUM_SPU_UEFI_APPS'', 3), (''CMAC_SIZE_IN_WORDS'', 4)]"

definition spss_event_id :: "(string \<times> nat) list" where
  "spss_event_id =
    enum_run 0
      [''SPSS_EVENT_ID_PIL_CALLED'', ''SPSS_EVENT_ID_NVM_READY'', ''SPSS_EVENT_ID_SPU_READY'',
      ''SPSS_NUM_USER_EVENTS''] @
    enum_run 6
      [''SPSS_EVENT_ID_SPU_POWER_DOWN'', ''SPSS_EVENT_ID_SPU_POWER_UP'', ''SPSS_NUM_EVENTS'']"

definition spss_event_status :: "(string \<times> nat) list" where
  "spss_event_status =
    enum_run 0xaaaa
      [''EVENT_STATUS_SIGNALED''] @
    enum_run 0xffff
      [''EVENT_STATUS_NOT_SIGNALED''] @
    enum_run 0xeee1
      [''EVENT_STATUS_TIMEOUT'', ''EVENT_STATUS_ABORTED'']"

definition MAX_SPU_UEFI_APPS :: nat where "MAX_SPU_UEFI_APPS = 8"

section \<open>\<^verbatim>\<open>src/include/linux/qcota.h\<close>\<close>

definition qce_ota_numbers :: "(string \<times> nat) list" where
  "qce_ota_numbers =
    [(''QCE_OTA_MAX_BEARER'', 31), (''OTA_KEY_SIZE'', 16)]"

definition qce_ota_dir_enum :: "(string \<times> nat) list" where
  "qce_ota_dir_enum =
    enum_run 0
      [''QCE_OTA_DIR_UPLINK'', ''QCE_OTA_DIR_DOWNLINK'', ''QCE_OTA_DIR_LAST'']"

definition qce_ota_algo_enum :: "(string \<times> nat) list" where
  "qce_ota_algo_enum =
    enum_run 0
      [''QCE_OTA_ALGO_KASUMI'', ''QCE_OTA_ALGO_SNOW3G'', ''QCE_OTA_ALGO_LAST'']"

definition MAX_NUM_V_MULTI_PKT :: nat where "MAX_NUM_V_MULTI_PKT = 20"

definition QCOTA_IOC_MAGIC :: nat where "QCOTA_IOC_MAGIC = 0x85"

section \<open>\<^verbatim>\<open>src/include/linux/smcinvoke.h\<close>\<close>

definition smcinvoke_userspace_obj_null_numbers :: "(string \<times> int) list" where
  "smcinvoke_userspace_obj_null_numbers =
    [(''SMCINVOKE_USERSPACE_OBJ_NULL'', -1)]"

definition DEFAULT_CB_OBJ_THREAD_CNT :: nat where "DEFAULT_CB_OBJ_THREAD_CNT = 4"

definition SMCINVOKE_IOC_MAGIC :: nat where "SMCINVOKE_IOC_MAGIC = 0x98"

definition SMCINVOKE_LOG_BUF_SIZE :: nat where "SMCINVOKE_LOG_BUF_SIZE = 100"

section \<open>\<^verbatim>\<open>src/include/linux/msm_audio.h\<close>\<close>

definition AUDIO_IOCTL_MAGIC :: nat where "AUDIO_IOCTL_MAGIC = 97"

definition spkr_phone_numbers :: "(string \<times> nat) list" where
  "spkr_phone_numbers =
    [(''HANDSET_MIC'', 0x01), (''HANDSET_SPKR'', 0x02), (''HEADSET_MIC'', 0x03),
     (''HEADSET_SPKR_MONO'', 0x04), (''HEADSET_SPKR_STEREO'', 0x05), (''SPKR_PHONE_MIC'', 0x06),
     (''SPKR_PHONE_MONO'', 0x07), (''SPKR_PHONE_STEREO'', 0x08), (''BT_SCO_MIC'', 0x09),
     (''BT_SCO_SPKR'', 0x0A), (''BT_A2DP_SPKR'', 0x0B), (''TTY_HEADSET_MIC'', 0x0C),
     (''TTY_HEADSET_SPKR'', 0x0D), (''DEFAULT_TX'', 0x0E), (''DEFAULT_RX'', 0x0F),
     (''BT_A2DP_TX'', 0x10), (''HEADSET_MONO_PLUS_SPKR_MONO_RX'', 0x11),
     (''HEADSET_MONO_PLUS_SPKR_STEREO_RX'', 0x12), (''HEADSET_STEREO_PLUS_SPKR_MONO_RX'', 0x13),
     (''HEADSET_STEREO_PLUS_SPKR_STEREO_RX'', 0x14), (''I2S_RX'', 0x20), (''I2S_TX'', 0x21),
     (''ADRC_ENABLE'', 0x0001), (''EQUALIZER_ENABLE'', 0x0002), (''IIR_ENABLE'', 0x0004),
     (''QCONCERT_PLUS_ENABLE'', 0x0008), (''MBADRC_ENABLE'', 0x0010), (''SRS_ENABLE'', 0x0020),
     (''SRS_DISABLE'', 0x0040), (''AGC_ENABLE'', 0x0001), (''NS_ENABLE'', 0x0002),
     (''TX_IIR_ENABLE'', 0x0004), (''FLUENCE_ENABLE'', 0x0008), (''VOC_REC_UPLINK'', 0x00),
     (''VOC_REC_DOWNLINK'', 0x01), (''VOC_REC_BOTH'', 0x02)]"

definition snd_mute_numbers :: "(string \<times> nat) list" where
  "snd_mute_numbers =
    [(''SND_IOCTL_MAGIC'', 115), (''SND_MUTE_UNMUTED'', 0), (''SND_MUTE_MUTED'', 1)]"

definition cad_device_path_type :: "(string \<times> nat) list" where
  "cad_device_path_type =
    enum_run 0
      [''CAD_DEVICE_PATH_RX'', ''CAD_DEVICE_PATH_TX'', ''CAD_DEVICE_PATH_RX_TX'',
      ''CAD_DEVICE_PATH_LB'', ''CAD_DEVICE_PATH_MAX'']"

definition snd_method_numbers :: "(string \<times> nat) list" where
  "snd_method_numbers =
    [(''SND_METHOD_VOICE'', 0), (''SND_METHOD_MIDI'', 4)]"

definition audio_event_numbers :: "(string \<times> nat) list" where
  "audio_event_numbers =
    [(''AUDIO_EVENT_SUSPEND'', 0), (''AUDIO_EVENT_RESUME'', 1), (''AUDIO_EVENT_WRITE_DONE'', 2),
     (''AUDIO_EVENT_READ_DONE'', 3), (''AUDIO_EVENT_STREAM_INFO'', 4),
     (''AUDIO_EVENT_BITSTREAM_ERROR_INFO'', 5), (''AUDIO_CODEC_TYPE_MP3'', 0),
     (''AUDIO_CODEC_TYPE_AAC'', 1)]"

definition msm_snddev_numbers :: "(string \<times> nat) list" where
  "msm_snddev_numbers =
    [(''MSM_SNDDEV_CAP_RX'', 0x1), (''MSM_SNDDEV_CAP_TX'', 0x2), (''MSM_SNDDEV_CAP_VOICE'', 0x4)]"

definition audio_route_numbers :: "(string \<times> nat) list" where
  "audio_route_numbers =
    [(''AUDIO_ROUTE_STREAM_VOICE_RX'', 0), (''AUDIO_ROUTE_STREAM_VOICE_TX'', 1),
     (''AUDIO_ROUTE_STREAM_PLAYBACK'', 2), (''AUDIO_ROUTE_STREAM_REC'', 3)]"

definition AUDIO_MAX_EQ_BANDS :: nat where "AUDIO_MAX_EQ_BANDS = 12"

definition adsp_stream_numbers :: "(string \<times> nat) list" where
  "adsp_stream_numbers =
    [(''ADSP_STREAM_PP_EVENT'', 0), (''ADSP_STREAM_ENCDEC_EVENT'', 1),
     (''ADSP_STREAM_IEC_61937_FMT_UPDATE_EVENT'', 2), (''ADSP_STREAM_EVENT_MAX'', 3)]"

section \<open>\<^verbatim>\<open>src/include/linux/msm_audio_calibration.h\<close>\<close>

definition CAL_IOCTL_MAGIC :: nat where "CAL_IOCTL_MAGIC = 97"

definition afe_fb_numbers :: "(string \<times> nat) list" where
  "afe_fb_numbers =
    [(''AFE_FB_SPKR_PROT_TH_VI_CAL_TYPE'', 42), (''AFE_FB_SPKR_PROT_EX_VI_CAL_TYPE'', 43),
     (''AFE_FB_SPKR_PROT_V4_EX_VI_CAL_TYPE'', 51), (''AFE_SIDETONE_IIR_CAL_TYPE'', 44),
     (''AFE_LSM_TOPOLOGY_CAL_TYPE'', 45), (''AFE_LSM_TX_CAL_TYPE'', 46),
     (''ADM_LSM_TOPOLOGY_CAL_TYPE'', 47), (''ADM_LSM_AUDPROC_CAL_TYPE'', 48),
     (''ADM_LSM_AUDPROC_PERSISTENT_CAL_TYPE'', 49), (''ADM_AUDPROC_PERSISTENT_CAL_TYPE'', 50)]"

definition msm_spkr_numbers :: "(string \<times> nat) list" where
  "msm_spkr_numbers =
    [(''MSM_SPKR_PROT_IN_FTM_MODE'', 5), (''MSM_SPKR_PROT_IN_V_VALI_MODE'', 6)]"

section \<open>\<^verbatim>\<open>src/include/linux/mem-buf.h\<close>\<close>

definition MEM_BUF_IOC_MAGIC :: nat where "MEM_BUF_IOC_MAGIC = 77"

definition mem_buf_mem_type :: "(string \<times> nat) list" where
  "mem_buf_mem_type =
    enum_run 0
      [''MEM_BUF_ION_MEM_TYPE'', ''MEM_BUF_MAX_MEM_TYPE'']"

definition mem_buf_numbers :: "(string \<times> nat) list" where
  "mem_buf_numbers =
    [(''MEM_BUF_DMAHEAP_MEM_TYPE'', 1), (''MEM_BUF_VMID_PRIMARY_VM'', 0),
     (''MEM_BUF_VMID_TRUSTED_VM'', 1), (''MEM_BUF_PERM_FLAG_READ'', 1),
     (''MEM_BUF_PERM_FLAG_WRITE'', 2), (''MEM_BUF_PERM_FLAG_EXEC'', 4),
     (''MEM_BUF_PERM_VALID_FLAGS'', 7), (''MEM_BUF_MAX_NR_ACL_ENTS'', 16)]"

definition MEM_BUF_MAX_DMAHEAP_NAME_LEN :: nat where "MEM_BUF_MAX_DMAHEAP_NAME_LEN = 128"

section \<open>\<^verbatim>\<open>src/include/linux/ion.h\<close>\<close>

definition ion_heap_type :: "(string \<times> nat) list" where
  "ion_heap_type =
    enum_run 0
      [''ION_HEAP_TYPE_SYSTEM''] @
    enum_run 2
      [''ION_HEAP_TYPE_DMA''] @
    enum_run 16
      [''ION_HEAP_TYPE_CUSTOM''] @
    enum_run 31
      [''ION_HEAP_TYPE_MAX'']"

definition ion_heap_id :: "(string \<times> nat) list" where
  "ion_heap_id =
    enum_run 1
      [''ION_HEAP_SYSTEM'', ''ION_HEAP_DMA_START''] @
    enum_run 0x100
      [''ION_HEAP_DMA_END''] @
    enum_run 0x200
      [''ION_HEAP_CUSTOM_START''] @
    enum_run 0x80000000
      [''ION_HEAP_CUSTOM_END'']"

definition ion_num_numbers :: "(string \<times> nat) list" where
  "ion_num_numbers =
    [(''ION_NUM_MAX_HEAPS'', 32), (''ION_FLAG_CACHED'', 1)]"

definition MAX_HEAP_NAME :: nat where "MAX_HEAP_NAME = 32"

definition ION_IOC_MAGIC :: nat where "ION_IOC_MAGIC = 73"

section \<open>\<^verbatim>\<open>src/include/linux/msm_ion.h\<close>\<close>

definition TARGET_ION_ABI_VERSION :: nat where "TARGET_ION_ABI_VERSION = 3"

definition msm_ion_heap_types :: "(string \<times> nat) list" where
  "msm_ion_heap_types =
    enum_run 16
      [''ION_HEAP_TYPE_MSM_START''] @
    enum_run 16
      [''ION_HEAP_TYPE_SECURE_DMA'', ''ION_HEAP_TYPE_SYSTEM_SECURE'', ''ION_HEAP_TYPE_HYP_CMA'',
      ''ION_HEAP_TYPE_MSM_CARVEOUT'', ''ION_HEAP_TYPE_SECURE_CARVEOUT'',
      ''ION_HEAP_TYPE_MSM_SYSTEM'']"

definition ION_FLAGS_CP_MASK :: nat where "ION_FLAGS_CP_MASK = 0x6FFE8000"

definition ION_IOC_MSM_MAGIC :: nat where "ION_IOC_MSM_MAGIC = 77"

section \<open>\<^verbatim>\<open>src/include/linux/gunyah/gh_vm.h\<close>\<close>

definition gh_vm_numbers :: "(string \<times> nat) list" where
  "gh_vm_numbers =
    [(''GH_VM_IOCTL_TYPE'', 103), (''GH_VM_API_MAJOR_VERSION'', 0x1),
     (''GH_VM_API_MINOR_VERSION'', 0x0)]"

definition gh_vm_types :: "(string \<times> nat) list" where
  "gh_vm_types =
    enum_run 0
      [''GH_VM_TYPE_SEC'', ''GH_VM_TYPES_MAX'']"

definition GH_VM_NAME_MAX :: nat where "GH_VM_NAME_MAX = 16"

definition gh_vm_sec_stop :: "(string \<times> nat) list" where
  "gh_vm_sec_stop =
    enum_run 0
      [''GH_VM_STOP_SHUTDOWN'', ''GH_VM_STOP_RESTART'', ''GH_VM_STOP_CRASH'',
      ''GH_VM_STOP_FORCE_STOP'', ''GH_VM_STOP_MAX'']"

definition gh_vm_sec_exit_reasons :: "(string \<times> nat) list" where
  "gh_vm_sec_exit_reasons =
    enum_run 0
      [''GH_VM_EXIT_REASON_UNKNOWN'', ''GH_VM_EXIT_REASON_SHUTDOWN'', ''GH_VM_EXIT_REASON_RESTART'',
      ''GH_VM_EXIT_REASON_PANIC'', ''GH_VM_EXIT_REASON_NSWD'', ''GH_VM_EXIT_REASON_HYP_ERROR'',
      ''GH_VM_EXIT_REASON_ASYNC_EXT_ABORT'', ''GH_VM_EXIT_REASON_FORCE_STOPPED'',
      ''GH_VM_EXIT_REASONS_MAX'']"

definition gh_vm_sec_restart_levels :: "(string \<times> nat) list" where
  "gh_vm_sec_restart_levels =
    enum_run 0
      [''GH_VM_RESTART_LEVEL_SYSTEM'', ''GH_VM_RESTART_LEVEL_RELATIVE'',
      ''GH_VM_RESTART_LEVELS_MAX'']"

section \<open>\<^verbatim>\<open>src/include/linux/gh_virtio_backend.h\<close>\<close>

definition vbe_assign_numbers :: "(string \<times> nat) list" where
  "vbe_assign_numbers =
    [(''VIRTIO_BE_IOC_MAGIC'', 0xBC), (''VBE_ASSIGN_IOEVENTFD'', 1), (''VBE_DEASSIGN_IOEVENTFD'',
     2), (''VBE_ASSIGN_IRQFD'', 1), (''VBE_DEASSIGN_IRQFD'', 2), (''EVENT_NEW_BUFFER'', 1),
     (''EVENT_RESET_RQST'', 2), (''EVENT_INTERRUPT_ACK'', 4), (''EVENT_DRIVER_OK'', 8),
     (''EVENT_DRIVER_FAILED'', 0x10), (''EVENT_MODULE_EXIT'', 0x20), (''EVENT_VM_EXIT'', 0x40),
     (''EVENT_APP_EXIT'', 0x100)]"

section \<open>\<^verbatim>\<open>src/include/linux/mhi.h\<close>\<close>

definition peripheral_ep_type :: "(string \<times> nat) list" where
  "peripheral_ep_type =
    enum_run 0
      [''DATA_EP_TYPE_RESERVED'', ''DATA_EP_TYPE_HSIC'', ''DATA_EP_TYPE_HSUSB'',
      ''DATA_EP_TYPE_PCIE'', ''DATA_EP_TYPE_EMBEDDED'', ''DATA_EP_TYPE_BAM_DMUX'']"

definition MHI_UCI_IOCTL_MAGIC :: nat where "MHI_UCI_IOCTL_MAGIC = 109"

section \<open>\<^verbatim>\<open>src/include/linux/esoc_ctrl.h\<close>\<close>

definition esoc_client_hook_prio :: "(string \<times> nat) list" where
  "esoc_client_hook_prio =
    enum_run 0
      [''ESOC_MHI_HOOK'', ''ESOC_MAX_HOOKS'']"

definition ESOC_CODE :: nat where "ESOC_CODE = 0xCC"

definition esoc_req_numbers :: "(string \<times> nat) list" where
  "esoc_req_numbers =
    [(''ESOC_REQ_SEND_SHUTDOWN'', 4), (''ESOC_REQ_CRASH_SHUTDOWN'', 5), (''ESOC_PON_RETRY'', 11)]"

definition esoc_boot_fail_action :: "(string \<times> nat) list" where
  "esoc_boot_fail_action =
    enum_run 0
      [''BOOT_FAIL_ACTION_RETRY'', ''BOOT_FAIL_ACTION_COLD_RESET'', ''BOOT_FAIL_ACTION_SHUTDOWN'',
      ''BOOT_FAIL_ACTION_PANIC'', ''BOOT_FAIL_ACTION_NOP'', ''BOOT_FAIL_ACTION_S3_RESET'',
      ''BOOT_FAIL_ACTION_LAST'']"

definition esoc_evt :: "(string \<times> nat) list" where
  "esoc_evt =
    enum_run 1
      [''ESOC_RUN_STATE'', ''ESOC_UNEXPECTED_RESET'', ''ESOC_ERR_FATAL'', ''ESOC_IN_DEBUG'',
      ''ESOC_REQ_ENG_ON'', ''ESOC_REQ_ENG_OFF'', ''ESOC_CMD_ENG_ON'', ''ESOC_CMD_ENG_OFF'',
      ''ESOC_INVALID_STATE'', ''ESOC_RETRY_PON_EVT'', ''ESOC_BOOT_STATE'']"

definition esoc_cmd :: "(string \<times> nat) list" where
  "esoc_cmd =
    enum_run 1
      [''ESOC_PWR_ON'', ''ESOC_PWR_OFF'', ''ESOC_FORCE_PWR_OFF'', ''ESOC_RESET'',
      ''ESOC_PREPARE_DEBUG'', ''ESOC_EXE_DEBUG'', ''ESOC_EXIT_DEBUG'']"

definition esoc_notify :: "(string \<times> nat) list" where
  "esoc_notify =
    enum_run 1
      [''ESOC_IMG_XFER_DONE'', ''ESOC_BOOT_DONE'', ''ESOC_BOOT_FAIL'', ''ESOC_IMG_XFER_RETRY'',
      ''ESOC_IMG_XFER_FAIL'', ''ESOC_UPGRADE_AVAILABLE'', ''ESOC_DEBUG_DONE'', ''ESOC_DEBUG_FAIL'',
      ''ESOC_PRIMARY_CRASH'', ''ESOC_PRIMARY_REBOOT'', ''ESOC_PON_RETRY'']"

definition esoc_req :: "(string \<times> nat) list" where
  "esoc_req =
    enum_run 1
      [''ESOC_REQ_IMG'', ''ESOC_REQ_DEBUG'', ''ESOC_REQ_SHUTDOWN'', ''ESOC_REQ_SEND_SHUTDOWN'',
      ''ESOC_REQ_CRASH_SHUTDOWN'']"

section \<open>\<^verbatim>\<open>src/include/linux/helioscom_interface.h\<close>\<close>

definition helioscom_helios_numbers :: "(string \<times> nat) list" where
  "helioscom_helios_numbers =
    [(''HELIOSCOM_REG_READ'', 0), (''HELIOSCOM_AHB_READ'', 1), (''HELIOSCOM_AHB_WRITE'', 2),
     (''HELIOSCOM_SET_SPI_FREE'', 3), (''HELIOSCOM_SET_SPI_BUSY'', 4), (''HELIOSCOM_REG_WRITE'',
     5), (''HELIOSCOM_SOFT_RESET'', 6), (''HELIOSCOM_MODEM_DOWN2_HELIOS'', 7),
     (''HELIOSCOM_TWM_EXIT'', 8), (''HELIOSCOM_HELIOS_APP_RUNNING'', 9),
     (''HELIOSCOM_ADSP_DOWN2_HELIOS'', 10), (''HELIOSCOM_HELIOS_LOAD'', 11),
     (''HELIOSCOM_HELIOS_UNLOAD'', 12), (''HELIOSCOM_DEVICE_STATE_TRANSITION'', 13),
     (''HELIOS_SEND_TIME_DATA'', 14), (''EXCHANGE_CODE'', 86)]"

definition helios_event_type :: "(string \<times> nat) list" where
  "helios_event_type =
    enum_run 1
      [''HELIOS_BEFORE_POWER_DOWN'', ''HELIOS_AFTER_POWER_DOWN'', ''HELIOS_BEFORE_POWER_UP'',
      ''HELIOS_AFTER_POWER_UP'', ''MODEM_BEFORE_POWER_DOWN'', ''MODEM_AFTER_POWER_UP'',
      ''ADSP_BEFORE_POWER_DOWN'', ''ADSP_AFTER_POWER_UP'', ''TWM_HELIOS_AFTER_POWER_UP'',
      ''HELIOS_DSP_ERROR'', ''HELIOS_DSP_READY'', ''HELIOS_BT_ERROR'', ''HELIOS_BT_READY'']"

definition device_state_transition :: "(string \<times> nat) list" where
  "device_state_transition =
    enum_run 1
      [''STATE_TWM_ENTER'', ''STATE_TWM_EXIT'', ''STATE_DS_ENTER'', ''STATE_DS_EXIT'',
      ''STATE_S2D_ENTER'', ''STATE_S2D_EXIT'']"

section \<open>\<^verbatim>\<open>src/include/linux/usb/usb_ctrl_qti.h\<close>\<close>

definition max_qti_numbers :: "(string \<times> nat) list" where
  "max_qti_numbers =
    [(''MAX_QTI_PKT_SIZE'', 2048), (''QTI_CTRL_IOCTL_MAGIC'', 114)]"

definition peripheral_ep_type_2 :: "(string \<times> nat) list" where
  "peripheral_ep_type_2 =
    enum_run 0
      [''DATA_EP_TYPE_RESERVED'', ''DATA_EP_TYPE_HSIC'', ''DATA_EP_TYPE_HSUSB'',
      ''DATA_EP_TYPE_PCIE'', ''DATA_EP_TYPE_EMBEDDED'', ''DATA_EP_TYPE_BAM_DMUX'']"

section \<open>\<^verbatim>\<open>src/include/linux/qg-profile.h\<close>\<close>

definition profile_table :: "(string \<times> nat) list" where
  "profile_table =
    enum_run 0
      [''TABLE_SOC_OCV1'', ''TABLE_SOC_OCV2'', ''TABLE_FCC1'', ''TABLE_FCC2'', ''TABLE_Z1'',
      ''TABLE_Z2'', ''TABLE_Z3'', ''TABLE_Z4'', ''TABLE_Z5'', ''TABLE_Z6'', ''TABLE_Y1'',
      ''TABLE_Y2'', ''TABLE_Y3'', ''TABLE_Y4'', ''TABLE_Y5'', ''TABLE_Y6'', ''TABLE_MAX'']"

definition qg_min_numbers :: "(string \<times> nat) list" where
  "qg_min_numbers =
    [(''QG_MIN_SOC'', 0), (''QG_MAX_SOC'', 10000), (''QG_MIN_OCV_UV'', 2000000),
     (''QG_MAX_OCV_UV'', 5000000), (''QG_MIN_VAR'', 0), (''QG_MAX_VAR'', 65535),
     (''QG_MIN_FCC_MAH'', 100), (''QG_MAX_FCC_MAH'', 16000), (''QG_MIN_SLOPE'', 1),
     (''QG_MAX_SLOPE'', 50000), (''QG_ESR_SF_MIN'', 5000), (''QG_ESR_SF_MAX'', 20000)]"

section \<open>\<^verbatim>\<open>src/include/sound/lsm_params.h\<close>\<close>

definition lsm_out_numbers :: "(string \<times> nat) list" where
  "lsm_out_numbers =
    [(''LSM_MAX_STAGES_PER_SESSION'', 2), (''LSM_STAGE_INDEX_FIRST'', 0), (''LSM_OUT_FORMAT_PCM'',
     0), (''LSM_OUT_FORMAT_ADPCM'', 1), (''LSM_OUT_DATA_RAW'', 0), (''LSM_OUT_DATA_PACKED'', 1),
     (''LSM_OUT_DATA_EVENTS_DISABLED'', 0), (''LSM_OUT_DATA_EVENTS_ENABLED'', 1),
     (''LSM_OUT_TRANSFER_MODE_RT'', 0), (''LSM_OUT_TRANSFER_MODE_FTRT'', 1),
     (''LSM_ENDPOINT_DETECT_THRESHOLD'', 0), (''LSM_OPERATION_MODE'', 1), (''LSM_GAIN'', 2),
     (''LSM_MIN_CONFIDENCE_LEVELS'', 3), (''LSM_REG_SND_MODEL'', 4), (''LSM_DEREG_SND_MODEL'', 5),
     (''LSM_CUSTOM_PARAMS'', 6), (''LSM_POLLING_ENABLE'', 7), (''LSM_DET_EVENT_TYPE'', 8),
     (''LSM_LAB_CONTROL'', 9), (''LSM_REG_MULTI_SND_MODEL'', 10), (''LSM_DEREG_MULTI_SND_MODEL'',
     11), (''LSM_MULTI_SND_MODEL_CONFIDENCE_LEVELS'', 12), (''LSM_GET_CUSTOM_PARAMS'', 13),
     (''LSM_PARAMS_MAX'', 14), (''LSM_EVENT_NON_TIME_STAMP_MODE'', 0),
     (''LSM_EVENT_TIME_STAMP_MODE'', 1), (''LSM_DET_EVENT_TYPE_LEGACY'', 0),
     (''LSM_DET_EVENT_TYPE_GENERIC'', 1), (''LSM_INPUT_SAMPLE_RATE_16K'', 16000),
     (''LSM_INPUT_SAMPLE_RATE_48K'', 48000), (''LSM_INPUT_BIT_WIDTH_16'', 16),
     (''LSM_INPUT_BIT_WIDTH_24'', 24), (''LSM_INPUT_NUM_CHANNELS_MIN'', 1),
     (''LSM_INPUT_NUM_CHANNELS_MAX'', 9)]"

definition lsm_app_id :: "(string \<times> nat) list" where
  "lsm_app_id =
    enum_run 1
      [''LSM_VOICE_WAKEUP_APP_ID'', ''LSM_VOICE_WAKEUP_APP_ID_V2'']"

definition lsm_detection_mode :: "(string \<times> nat) list" where
  "lsm_detection_mode =
    enum_run 1
      [''LSM_MODE_KEYWORD_ONLY_DETECTION'', ''LSM_MODE_USER_KEYWORD_DETECTION'']"

definition lsm_vw_status :: "(string \<times> nat) list" where
  "lsm_vw_status =
    enum_run 1
      [''LSM_VOICE_WAKEUP_STATUS_RUNNING'', ''LSM_VOICE_WAKEUP_STATUS_DETECTED'',
      ''LSM_VOICE_WAKEUP_STATUS_END_SPEECH'', ''LSM_VOICE_WAKEUP_STATUS_REJECTED'']"

section \<open>\<^verbatim>\<open>src/include/sound/devdep_params.h\<close>\<close>

definition dts_eagle_numbers :: "(string \<times> nat) list" where
  "dts_eagle_numbers =
    [(''DTS_EAGLE_MODULE'', 0x00005000), (''DTS_EAGLE_MODULE_ENABLE'', 0x00005001),
     (''EAGLE_DRIVER_ID'', 0xF2)]"

definition dts_eagle_numbers_2 :: "(string \<times> u32) list" where
  "dts_eagle_numbers_2 =
    [(''DTS_EAGLE_FLAG_IOCTL_PRE'', 1073741824), (''DTS_EAGLE_FLAG_IOCTL_JUSTSETCACHE'',
     2147483648), (''DTS_EAGLE_FLAG_IOCTL_GETFROMCORE'', 2147483648)]"

definition DTS_EAGLE_FLAG_ALSA_GET :: u32 where "DTS_EAGLE_FLAG_ALSA_GET = 2147483648"

definition HWDEP_FE_BASE :: nat where "HWDEP_FE_BASE = 3000"

section \<open>\<^verbatim>\<open>src/include/sound/audio_effects.h\<close>\<close>

definition virtualizer_enable_numbers :: "(string \<times> nat) list" where
  "virtualizer_enable_numbers =
    [(''VIRTUALIZER_ENABLE_PARAM_SZ'', 4), (''VIRTUALIZER_STRENGTH_PARAM_SZ'', 4),
     (''VIRTUALIZER_OUT_TYPE_PARAM_SZ'', 4), (''VIRTUALIZER_GAIN_ADJUST_PARAM_SZ'', 4)]"

definition reverb_room_numbers :: "(string \<times> nat) list" where
  "reverb_room_numbers =
    [(''REVERB_ENABLE_PARAM_SZ'', 4), (''REVERB_MODE_PARAM_SZ'', 4), (''REVERB_PRESET_PARAM_SZ'',
     4), (''REVERB_WET_MIX_PARAM_SZ'', 4), (''REVERB_GAIN_ADJUST_PARAM_SZ'', 4),
     (''REVERB_ROOM_LEVEL_PARAM_SZ'', 4), (''REVERB_ROOM_HF_LEVEL_PARAM_SZ'', 4),
     (''REVERB_DECAY_TIME_PARAM_SZ'', 4), (''REVERB_DECAY_HF_RATIO_PARAM_SZ'', 4),
     (''REVERB_REFLECTIONS_LEVEL_PARAM_SZ'', 4), (''REVERB_REFLECTIONS_DELAY_PARAM_SZ'', 4),
     (''REVERB_LEVEL_PARAM_SZ'', 4), (''REVERB_DELAY_PARAM_SZ'', 4),
     (''REVERB_DIFFUSION_PARAM_SZ'', 4), (''REVERB_DENSITY_PARAM_SZ'', 4)]"

definition bass_boost_numbers :: "(string \<times> nat) list" where
  "bass_boost_numbers =
    [(''BASS_BOOST_ENABLE_PARAM_SZ'', 4), (''BASS_BOOST_MODE_PARAM_SZ'', 4),
     (''BASS_BOOST_STRENGTH_PARAM_SZ'', 4)]"

definition eq_config_numbers :: "(string \<times> nat) list" where
  "eq_config_numbers =
    [(''EQ_ENABLE_PARAM_SZ'', 4), (''EQ_CONFIG_PARAM_SZ'', 12), (''EQ_CONFIG_PER_BAND_PARAM_SZ'',
     20)]"

definition eq_band_numbers :: "(string \<times> nat) list" where
  "eq_band_numbers =
    [(''EQ_CONFIG_PARAM_MAX_SZ'', 252), (''EQ_NUM_BANDS_PARAM_SZ'', 4),
     (''EQ_BAND_LEVELS_PARAM_SZ'', 52), (''EQ_BAND_LEVEL_RANGE_PARAM_SZ'', 8),
     (''EQ_BAND_FREQS_PARAM_SZ'', 52), (''EQ_SINGLE_BAND_FREQ_RANGE_PARAM_SZ'', 8),
     (''EQ_SINGLE_BAND_FREQ_PARAM_SZ'', 4), (''EQ_BAND_INDEX_PARAM_SZ'', 4),
     (''EQ_PRESET_ID_PARAM_SZ'', 4)]"

definition PBE_ENABLE_PARAM_SZ :: nat where "PBE_ENABLE_PARAM_SZ = 4"

definition soft_volume_numbers :: "(string \<times> nat) list" where
  "soft_volume_numbers =
    [(''SOFT_VOLUME_ENABLE_PARAM_SZ'', 4), (''SOFT_VOLUME_GAIN_MASTER_PARAM_SZ'', 4)]"

section \<open>\<^verbatim>\<open>src/include/media/synx.h\<close>\<close>

definition synx_callback_numbers :: "(string \<times> nat) list" where
  "synx_callback_numbers =
    [(''SYNX_USER_PAYLOAD_SIZE'', 4), (''SYNX_MAX_WAITING_SYNX'', 16),
     (''SYNX_CALLBACK_RESULT_SUCCESS'', 2), (''SYNX_CALLBACK_RESULT_FAILED'', 3),
     (''SYNX_CALLBACK_RESULT_CANCELED'', 4)]"

definition SYNX_PRIVATE_MAGIC_NUM :: nat where "SYNX_PRIVATE_MAGIC_NUM = 115"

definition synx_import_numbers :: "(string \<times> nat) list" where
  "synx_import_numbers =
    [(''SYNX_CREATE'', 0), (''SYNX_RELEASE'', 1), (''SYNX_SIGNAL'', 2), (''SYNX_MERGE'', 3),
     (''SYNX_REGISTER_PAYLOAD'', 4), (''SYNX_DEREGISTER_PAYLOAD'', 5), (''SYNX_WAIT'', 6),
     (''SYNX_BIND'', 7), (''SYNX_ADDREFCOUNT'', 8), (''SYNX_GETSTATUS'', 9), (''SYNX_IMPORT'',
     10), (''SYNX_EXPORT'', 11), (''SYNX_IMPORT_ARR'', 12), (''SYNX_GETFENCE_FD'', 13)]"

section \<open>\<^verbatim>\<open>src/include/misc/wigig_sensing_uapi.h\<close>\<close>

definition wigig_sensing_mode :: "(string \<times> nat) list" where
  "wigig_sensing_mode =
    enum_run 1
      [''WIGIG_SENSING_MODE_SEARCH'', ''WIGIG_SENSING_MODE_FACIAL_RECOGNITION'',
      ''WIGIG_SENSING_MODE_GESTURE_DETECTION''] @
    enum_run 7
      [''WIGIG_SENSING_MODE_STOP''] @
    enum_run 15
      [''WIGIG_SENSING_MODE_CUSTOM'']"

definition wigig_sensing_event :: "(string \<times> nat) list" where
  "wigig_sensing_event =
    enum_run 0
      [''WIGIG_SENSING_EVENT_MIN'', ''WIGIG_SENSING_EVENT_FW_READY'', ''WIGIG_SENSING_EVENT_RESET'',
      ''WIGIG_SENSING_EVENT_MAX'']"

definition wigig_sensing_numbers :: "(string \<times> nat) list" where
  "wigig_sensing_numbers =
    [(''WIGIG_SENSING_IOC_MAGIC'', 114), (''WIGIG_SENSING_IOCTL_SET_AUTO_RECOVERY'', 0),
     (''WIGIG_SENSING_IOCTL_GET_MODE'', 1), (''WIGIG_SENSING_IOCTL_CHANGE_MODE'', 2),
     (''WIGIG_SENSING_IOCTL_CLEAR_DATA'', 3), (''WIGIG_SENSING_IOCTL_GET_NUM_DROPPED_BURSTS'', 4),
     (''WIGIG_SENSING_IOCTL_GET_EVENT'', 5), (''WIGIG_SENSING_IOCTL_GET_NUM_AVAIL_BURSTS'', 6)]"

section \<open>\<^verbatim>\<open>src/include/misc/adsp_sleepmon.h\<close>\<close>

definition adspsleepmon_device_name_names :: "(string \<times> string) list" where
  "adspsleepmon_device_name_names =
    [(''ADSPSLEEPMON_DEVICE_NAME'', ''/dev/msm_adsp_sleepmon'')]"

definition adspsleepmon_ioctl_numbers :: "(string \<times> nat) list" where
  "adspsleepmon_ioctl_numbers =
    [(''ADSPSLEEPMON_IOCTL_AUDIO_VER_1'', 1), (''ADSPSLEEPMON_IOCTL_CONFIG_PANIC_VER_1'', 1),
     (''ADSPSLEEPMON_IOCTL_AUDIO_NUM_RES'', 3)]"

definition adspsleepmon_ioctl_audio_cmd :: "(string \<times> nat) list" where
  "adspsleepmon_ioctl_audio_cmd =
    enum_run 1
      [''ADSPSLEEPMON_AUDIO_ACTIVITY_START'', ''ADSPSLEEPMON_AUDIO_ACTIVITY_STOP'',
      ''ADSPSLEEPMON_AUDIO_ACTIVITY_LPI_START'', ''ADSPSLEEPMON_AUDIO_ACTIVITY_LPI_STOP'',
      ''ADSPSLEEPMON_AUDIO_ACTIVITY_RESET'', ''ADSPSLEEPMON_AUDIO_ACTIVITY_MAX'']"

definition adspsleepmon_ioctl_panic_cmd :: "(string \<times> nat) list" where
  "adspsleepmon_ioctl_panic_cmd =
    enum_run 1
      [''ADSPSLEEPMON_DISABLE_PANIC_LPM'', ''ADSPSLEEPMON_DISABLE_PANIC_LPI'',
      ''ADSPSLEEPMON_RESET_PANIC_LPM'', ''ADSPSLEEPMON_RESET_PANIC_LPI'',
      ''ADSPSLEEPMON_RESET_PANIC_MAX'']"

section \<open>Flags made of bits\<close>

text \<open>The flags of the secure heaps, with the bits of \<^verbatim>\<open>msm_ion_ids.h\<close>.\<close>

definition ion_cp_flags :: "(string \<times> u32) list" where
  "ion_cp_flags =
    [(''ION_FLAG_CP_TRUSTED_VM'', ION_BIT 15), (''ION_FLAG_CP_TOUCH'', ION_BIT 17),
     (''ION_FLAG_CP_BITSTREAM'', ION_BIT 18), (''ION_FLAG_CP_PIXEL'', ION_BIT 19),
     (''ION_FLAG_CP_NON_PIXEL'', ION_BIT 20), (''ION_FLAG_CP_CAMERA'', ION_BIT 21),
     (''ION_FLAG_CP_HLOS'', ION_BIT 22), (''ION_FLAG_CP_SPSS_SP'', ION_BIT 23),
     (''ION_FLAG_CP_SPSS_SP_SHARED'', ION_BIT 24), (''ION_FLAG_CP_SEC_DISPLAY'', ION_BIT 25),
     (''ION_FLAG_CP_APP'', ION_BIT 26), (''ION_FLAG_CP_CAMERA_PREVIEW'', ION_BIT 27),
     (''ION_FLAG_CP_CDSP'', ION_BIT 29), (''ION_FLAG_CP_SPSS_HLOS_SHARED'', ION_BIT 30)]"

definition ION_FLAG_ALLOW_NON_CONTIG :: u32 where
  "ION_FLAG_ALLOW_NON_CONTIG = ION_BIT 28"

definition ION_FLAG_SECURE :: u32 where
  "ION_FLAG_SECURE = ION_BIT 31"

definition ION_FLAG_POOL_FORCE_ALLOC :: u32 where
  "ION_FLAG_POOL_FORCE_ALLOC = ION_BIT 16"

definition ION_HEAP :: "u32 \<Rightarrow> u32" where
  "ION_HEAP id_bit = id_bit"

text \<open>The flag word of the effects device: everything but its two control bits.\<close>

definition DTS_EAGLE_FLAG_IOCTL_MASK :: u32 where
  "DTS_EAGLE_FLAG_IOCTL_MASK = not (or (push_bit 30 1) (push_bit 31 1))"

section \<open>Lemmas\<close>

text \<open>
  The flags of content protection and the other three are bits of their own, and the mask that the
  header writes out is exactly the union of the former.
\<close>

lemma ion_flags_disjoint:
  "disjoint_masks (ION_FLAG_ALLOW_NON_CONTIG # ION_FLAG_SECURE # ION_FLAG_POOL_FORCE_ALLOC #
     map snd ion_cp_flags)"
  by code_simp

lemma ion_cp_mask: "fold or (map snd ion_cp_flags) 0 = word_of_nat ION_FLAGS_CP_MASK"
  by code_simp

text \<open>
  The commands of the secure processor spell four letters each, the first in the highest byte. The
  comment at the command that unlocks a buffer gives the number of the one that locks it.
\<close>

definition be_word :: "string \<Rightarrow> nat" where
  "be_word s = foldl (\<lambda>n c. 256 * n + of_char c) 0 s"

lemma spcom_commands_spell:
  "map snd spcom_cmd_id = map be_word [''LOAD'', ''REST'', ''SEND'', ''SNDM'', ''LOCK'', ''ULCK'', ''FSSR'',
     ''CRET'', ''ESSR'', ''RSTR'']"
  by code_simp

end
