(* ===== verification/Spec2Isabelle.thy ===== *)
theory Spec2Isabelle
  imports Prelude Color_Fmt Color_Limits Bcache Sensor_Notifier Sensor_Switch Vendor_Init C_Layout Mi_Disp Kgsl Ipa_Clients
    Ipa_Ioctl Ipa_Qmi Secure_Ioctl Audio_Ioctl Platform_Ioctl Audio_Calibration Radio_Iris Display_Drm
    Msm_Drm_Stub Alsa_Tlv Abi_Versions Asound Asequencer Sound_Cards Bcache_Disk Codec_Ioctl Compress_Offload
    Topology Network_Ioctl Device_Misc
    Kgsl_Numbers Ipa_Numbers Driver_Numbers
begin

text \<open>
  A verification library for the Android device tree of the tablet ``ruan''.

  \<^bold>\<open>The program.\<close>  The tree has three kinds of C and C++ code.  The sensor daemon under
  \<^verbatim>\<open>src/sensors\<close> switches a wake-up sensor on and off with the state of three touchscreen attributes.
  The init extension \<^verbatim>\<open>src/init/init_ruan.cpp\<close> chooses the product variant at boot and overrides
  system properties for it.  The headers under \<^verbatim>\<open>src/include\<close> are the interface between the user space
  that is built from the tree and the kernel and firmware of the device: inline functions and macros
  with behaviour of their own (buffer geometry, key fields of the block cache, name functions of the
  display, classes of network clients) and the structs and ioctl requests that cross the boundary.
  The parts do not call each other; what they share is the C ABI, which is why the layout of types
  and the encoding of requests is one theory that every interface theory imports.

  \<^bold>\<open>The theories.\<close>
  \<^item> \<open>Prelude\<close>: machine words, rounding up to multiples, packed fields, masks that share a word,
    enumerations, and the locales \<open>inductive_invariant\<close> and \<open>simulation\<close> of step relations.
  \<^item> \<open>Color_Fmt\<close>, from \<^verbatim>\<open>include/display/media/mmm_color_fmt.h\<close>: every macro and inline function over
    32-bit words, with the wrap-around of C.  The abstract specification computes with natural
    numbers; the lemmas show that the code refines it for frames of at most 16384 by 16384 pixels (no
    product leaves 32 bits there), that used size, samples and metadata lie in the buffer, that the
    size is monotone and a multiple of the page size.  The specification adds up the planes that the
    code lays out.  \<open>Color_Limits\<close>: what the code computes beyond that bound, and where the sums of
    planes in the header's comments differ from the code.
  \<^item> \<open>Bcache\<close>, from \<^verbatim>\<open>include/linux/bcache.h\<close>: the bit-field accessors as words, keys, pointers,
    superblock flags and magic numbers.  The locales \<open>bit_field\<close> and \<open>bit_field_pair\<close> state what an
    accessor pair promises and are interpreted for every field of the header.  \<open>Bcache_Disk\<close>: keys in
    memory and on disk.  \<open>bkey_copy\<close> is a partial operation on an array of words; a set of keys is
    walked with \<open>bkey_next\<close>, and the walk is shown to read back what was written, through the bytes and
    for both widths.  The macros of the header check nothing; where a walk or a copy would leave the
    array the model has \<open>None\<close>, for behaviour that C leaves undefined.
  \<^item> \<open>Sensor_Notifier\<close>, from \<^verbatim>\<open>src/sensors\<close>: the notifier object as a record, initialisation with its
    error returns, the attribute scan, and the daemon as a step relation of two threads, the main
    thread and the worker, with an inductive invariant, a ranking for termination of the join and
    the ways the process can die.  The relation \<open>step\<close> is the code while the platform serves it; the
    relation \<open>fault_step\<close> adds what ends the process from outside the object (no thread to start, no memory,
    no transport to the sensor service), and \<open>daemon_step\<close> is both.  \<open>Sensor_Switch\<close>: the promise of the daemon as an abstract switch
    with a phase and a list of requests, the simulation that shows the two threads implement it, what
    follows (the sensor is never left on), and the unit tests of \<^verbatim>\<open>src/tests\<close> run on the model.
  \<^item> \<open>Vendor_Init\<close>, from \<^verbatim>\<open>src/init/init_ruan.cpp\<close>: variant tables, choice of the variant, the property
    overrides over a property service that is a parameter.
  \<^item> \<open>C_Layout\<close>: C types as data, size, alignment and offsets for 32-bit and 64-bit processes, the
    memory image of a value and its reading back, as a whole and member by member, declarations a
    compiler accepts, types whose image does not depend on the width, ioctl requests, and the locales
    \<open>request_table\<close> and \<open>ioctl_table\<close>, the contracts under which the requests of a driver have different
    numbers, in one width and across widths, also behind the requests a class of devices has in common.
  \<^item> \<open>Mi_Disp\<close>, from \<^verbatim>\<open>include/display/drm/mi_disp.h\<close>: all enumerations, the predicates and name functions
    of the kernel and of user space, structs and requests.  The locale \<open>enum_names\<close> is the contract of
    a name function.
  \<^item> \<open>Kgsl\<close>, from \<^verbatim>\<open>include/linux/msm_kgsl.h\<close>: flag words, the shared memory store, structs, requests.
  \<^item> \<open>Ipa_Clients\<close> and \<open>Ipa_Ioctl\<close>, from \<^verbatim>\<open>include/linux/msm_ipa.h\<close>: client numbering and classes, event
    codes, structs and requests.  \<open>Ipa_Qmi\<close>, from \<^verbatim>\<open>include/linux/ipa_qmi_service_v01.h\<close>: the messages
    exchanged with the modem.
  \<^item> \<open>Network_Ioctl\<close>, from \<^verbatim>\<open>include/linux/rmnet_ipa_fd_ioctl.h\<close>, \<^verbatim>\<open>msm_rmnet.h\<close>, \<^verbatim>\<open>rmnet_data.h\<close> and the
    WiMAX headers: the modem data path and the messages of the WiMAX device.
  \<^item> \<open>Secure_Ioctl\<close>, \<open>Audio_Ioctl\<close>, \<open>Platform_Ioctl\<close>: structs and requests of 23 further drivers.
    \<open>Codec_Ioctl\<close>: the codec devices, whose requests are served behind the common audio requests.
  \<^item> \<open>Audio_Calibration\<close>, from \<^verbatim>\<open>include/linux/msm_audio_calibration.h\<close>: the calibration messages and the
    header they share, read before the type of a message is known.
  \<^item> \<open>Radio_Iris\<close>, from \<^verbatim>\<open>include/media/radio-iris.h\<close>: opcode packing, commands and events of the FM
    radio, parameter structs and the offsets they are read at, spur computation.
  \<^item> \<open>Display_Drm\<close>, from \<^verbatim>\<open>include/display/drm/sde_drm.h\<close> and \<^verbatim>\<open>msm_drm_pp.h\<close>: controller and
    colour-processing structs, flag words and requests over a DRM core that is a parameter (the
    locale \<open>drm_base\<close>).  \<open>Msm_Drm_Stub\<close>: the short \<^verbatim>\<open>msm_drm.h\<close> files that stand in for them and do not
    agree with them.
  \<^item> \<open>Alsa_Tlv\<close>, from \<^verbatim>\<open>include/sound/tlv.h\<close>: the macros that lay out control descriptors, the block
    structure the header documents as a datatype, and a reader for it with its termination.
  \<^item> \<open>Abi_Versions\<close>, from \<^verbatim>\<open>include/sound/asound.h\<close> and \<^verbatim>\<open>sof/abi.h\<close>: version words, two interpretations
    of the locale \<open>version_word\<close>.
  \<^item> \<open>Asound\<close>, \<open>Asequencer\<close>, \<open>Sound_Cards\<close>, \<open>Compress_Offload\<close>, \<open>Topology\<close>: the ALSA devices, the
    sequencer, eight sound cards behind the hardware dependent device, the offload device with
    effect parameters, and topology files in both versions.
  \<^item> \<open>Device_Misc\<close>: small devices (open-channel disks, random numbers, NFC, fingerprints, vision,
    rotator, frame relay, serial port power and others).
  \<^item> \<open>Kgsl_Numbers\<close>, \<open>Ipa_Numbers\<close>, \<open>Driver_Numbers\<close>: the numbers that no struct or request uses.
  \<^item> This theory: the requests of all drivers, which of them share a number and which do not fit one.

  \<^bold>\<open>Correspondence.\<close>  A function, macro, struct, enumeration or request of the source has a definition
  of the same name; a struct \<^verbatim>\<open>s\<close> is the C type \<open>struct_s\<close> with the fields in the order of the source, an
  array with its length, a packed struct with its flag, bit-fields as the storage unit they fill.
  Constants that a struct, macro or property uses are definitions; runs of other constants are one
  table of names and numbers.
  Unsigned arithmetic is arithmetic of words.  Where a C function returns an error the model has a
  value for it, and where it would read outside an array the model has \<open>None\<close>.  The constants of the
  display enumerations are datatypes with their codes, those of the network clients numbers.

  \<^bold>\<open>Parameters.\<close>  Code that is not in the tree stays open: the property service and the undeclared
  helpers of the init extension, the sensor service and file system of the daemon, the number
  \<^verbatim>\<open>ETH_ALEN\<close> and other numbers of kernel headers, the types and command base of the DRM core, \<^verbatim>\<open>SECTOR_SHIFT\<close>, and the encoding of a request as a number, of which the properties assume only that
  requests with fields in range have different numbers.

  \<^bold>\<open>Bounds.\<close>  No function of the model takes fuel; every loop is a step relation, a structural
  recursion, or a function whose measure (words or bytes left to read) decreases.  The bound of 16384 pixels per side for the buffer geometry keeps every
  product of stride and lines below 2 to the 32; \<open>BUFFER_SIZE_modulo\<close> says what the sizes of the
  uncompressed formats are beyond it.  The memory store is addressed below 4 GiB.

  \<^bold>\<open>Not modelled.\<close>  Configuration, overlays, init scripts, policy and build files are data of the
  platform; kernel modules and images are binaries; the extraction and flash scripts only call other
  tools.  Of the headers, include guards, feature macros without a
  value and the branches for big-endian machines and for the kernel itself are left out.  The
  handlers of the requests and the programs that read topology files, firmware images and WiMAX
  messages are in the kernel and not in the tree: the structs and numbers are here, and no reader or
  dispatcher.
  The interleaving of the accesses to \<open>mActive\<close> is an idealisation: for C++ the unsynchronised
  flag is a data race.
\<close>

section \<open>All drivers\<close>

section \<open>The requests of all drivers\<close>

text \<open>
  The requests that the headers of one driver declare.  First the drivers whose requests all differ:
  among them the sound cards behind the requests of the hardware dependent device and the codecs
  behind the common audio requests.
\<close>

definition single_tables :: "data_model \<Rightarrow> ioctl list list" where
  "single_tables dm =
    [mi_disp_ioctls, qseecom_ioctls, smcinvoke_ioctls, qcedev_ioctls, spss_utils_ioctls, qcota_ioctls,
     lsm_params_ioctls, msm_audio_calibration_ioctls, devdep_params_ioctls, mem_buf_ioctls, ion_ioctls,
     msm_ion_ioctls, synx_ioctls, gh_virtio_backend_ioctls, gh_vm_ioctls, mhi_ioctls, esoc_ctrl_ioctls,
     helioscom_interface_ioctls, usb_ctrl_qti_ioctls, qg_profile_ioctls, wigig_ioctls,
     adsp_sleepmon_ioctls, pcm_ioctls dm, rawmidi_ioctls dm, timer_ioctls, ctl_ioctls, seq_ioctls,
     compress_offload_ioctls, rmnet_ipa_fd_ioctls, audio_slimslave_ioctls, voice_params_ioctls,
     avtimer_ioctls, lightnvm_ioctls, qcom_sync_file_ioctls, raw_ioctls, msm_dsps_ioctls,
     nfcinfo_ioctls]"

definition regular_tables :: "data_model \<Rightarrow> ioctl list list" where
  "regular_tables dm =
    single_tables dm @
    map ((@) hwdep_ioctls) (card_tables dm) @
    map ((@) msm_audio_ioctls) (msm_audio_qcp_ioctls # codec_tables)"

text \<open>Then the drivers with two names for one request or with fields out of range.\<close>

definition driver_tables :: "data_model \<Rightarrow> ioctl list list" where
  "driver_tables dm =
    regular_tables dm @
    [msm_audio_ioctls @ cad_ioctls, msmcal_hwdep_ioctls, ipa_ioctls, kgsl_ioctls,
     spcom_ioctls @ spcom_extended_ioctls, qrng_ioctls]"

definition overlong_requests :: "ioctl list" where
  "overlong_requests = spcom_extended_ioctls @ qrng_ioctls"

definition request_aliases :: "data_model \<Rightarrow> (ioctl \<times> ioctl) list" where
  "request_aliases dm =
    [(CAD_SET_DEVICE, SND_SET_DEVICE), (CAD_SET_VOLUME, SND_SET_VOLUME),
     (CAD_GET_NUM_ENDPOINTS, SND_GET_NUM_ENDPOINTS), (CAD_GET_ENDPOINT, SND_GET_ENDPOINT),
     (SNDRV_IOCTL_HWDEP_VAD_CAL_TYPE, SNDRV_CTL_IOCTL_HWDEP_CAL_TYPE),
     (IPA_IOC_NAT_DMA, IPA_IOC_TABLE_DMA_CMD)] @
    (case dm of ILP32 \<Rightarrow> [] | LP64 \<Rightarrow> [(IOCTL_KGSL_TIMESTAMP_EVENT_OLD, IOCTL_KGSL_CFF_USER_EVENT)])"

subsection \<open>Lemmas\<close>

lemma regular_request_table:
  assumes "tbl \<in> set (regular_tables dm)"
  shows "request_table tbl"
  using assms card_request_table [of _ dm] codec_request_table
  unfolding regular_tables_def single_tables_def set_append list.set set_map
  by (elim UnE insertE emptyE imageE; hypsubst)
    (rule mi_disp.request_table_axioms qseecom.request_table_axioms
      smcinvoke.request_table_axioms qcedev.request_table_axioms
      spss_utils.request_table_axioms qcota.request_table_axioms
      lsm_params.request_table_axioms msm_audio_calibration.request_table_axioms
      devdep_params.request_table_axioms mem_buf.request_table_axioms ion.request_table_axioms
      msm_ion.request_table_axioms synx.request_table_axioms gh_virtio_backend.request_table_axioms
      gh_vm.request_table_axioms mhi.request_table_axioms esoc_ctrl.request_table_axioms
      helioscom_interface.request_table_axioms usb_ctrl_qti.request_table_axioms
      qg_profile.request_table_axioms wigig.request_table_axioms
      adsp_sleepmon.request_table_axioms pcm.request_table_axioms rawmidi.request_table_axioms
      timer.request_table_axioms ctl.request_table_axioms seq.request_table_axioms
      compress_offload.request_table_axioms rmnet_ipa_fd.request_table_axioms
      audio_slimslave.request_table_axioms voice_params.request_table_axioms
      avtimer.request_table_axioms lightnvm.request_table_axioms qcom_sync_file.request_table_axioms
      raw.request_table_axioms msm_dsps.request_table_axioms nfcinfo.request_table_axioms |
     blast)+

lemma aliases_same: "(a, b) \<in> set (request_aliases dm) \<Longrightarrow> request dm a = request dm b"
proof -
  have "list_all (\<lambda>(a, b). request dm a = request dm b) (request_aliases dm)"
    by (cases dm; hypsubst; code_simp)
  then show "(a, b) \<in> set (request_aliases dm) \<Longrightarrow> request dm a = request dm b"
    by (auto simp: list_all_iff)
qed

text \<open>A table whose requests differ, and further names for some of them.\<close>

lemma alias_collision:
  assumes "inj_on (request dm) (set base)"
    and "\<forall>(a, b)\<in>set al. b \<in> set base \<and> request dm a = request dm b" and "distinct (map snd al)"
    and "i \<in> set base \<union> fst ` set al" and "j \<in> set base \<union> fst ` set al"
    and "request dm i = request dm j"
  shows "i = j \<or> (i, j) \<in> set al \<or> (j, i) \<in> set al"
proof -
  have name: "\<exists>b\<in>set base. request dm i = request dm b \<and> (i = b \<or> (i, b) \<in> set al)"
    if "i \<in> set base \<union> fst ` set al" for i
    using that assms(2) by fastforce
  obtain b c where b: "b \<in> set base" "request dm i = request dm b" "i = b \<or> (i, b) \<in> set al"
    and c: "c \<in> set base" "request dm j = request dm c" "j = c \<or> (j, c) \<in> set al"
    using name [OF assms(4)] name [OF assms(5)] by blast
  then have "b = c" using assms(1,6) by (metis inj_onD)
  moreover have "i = j" if "(i, b) \<in> set al" "(j, b) \<in> set al"
    using that assms(3) by (force simp: distinct_map inj_on_def)
  ultimately show ?thesis using b(3) c(3) by blast
qed

lemma request_table_inj: "request_table tbl \<Longrightarrow> inj_on (request dm) (set tbl)"
  using request_table.requests_distinct [of tbl dm] by (simp add: distinct_map)

lemma audio_alias:
  assumes "i \<in> set (msm_audio_ioctls @ cad_ioctls)" and "j \<in> set (msm_audio_ioctls @ cad_ioctls)"
    and "request dm i = request dm j"
  shows "i = j \<or> (i, j) \<in> set (request_aliases dm) \<or> (j, i) \<in> set (request_aliases dm)"
proof -
  let ?al = "zip cad_ioctls [SND_SET_DEVICE, SND_SET_VOLUME, SND_GET_NUM_ENDPOINTS, SND_GET_ENDPOINT]"
  have sub: "set ?al \<subseteq> set (request_aliases dm)"
    by (simp add: cad_ioctls_def request_aliases_def)
  have "distinct (map (request dm) (map snd ?al))" by (cases dm; hypsubst; code_simp)
  then have "distinct (map snd ?al)" by (simp only: distinct_map)
  moreover have "\<forall>(a, b)\<in>set ?al. b \<in> set msm_audio_ioctls"
    by (simp add: cad_ioctls_def msm_audio_ioctls_def)
  then have "\<forall>(a, b)\<in>set ?al. b \<in> set msm_audio_ioctls \<and> request dm a = request dm b"
    using sub aliases_same by blast
  moreover have "set (msm_audio_ioctls @ cad_ioctls) = set msm_audio_ioctls \<union> fst ` set ?al"
    by (simp add: cad_ioctls_def)
  ultimately show ?thesis
    using alias_collision [OF request_table_inj [OF msm_audio.request_table_axioms], where al = ?al and i = i and j = j and dm = dm]
      assms sub by blast
qed

lemma msmcal_alias:
  assumes "i \<in> set msmcal_hwdep_ioctls" and "j \<in> set msmcal_hwdep_ioctls"
  shows "i = j \<or> (i, j) \<in> set (request_aliases dm) \<or> (j, i) \<in> set (request_aliases dm)"
  using assms by (auto simp: msmcal_hwdep_ioctls_def request_aliases_def)

lemma ipa_alias:
  assumes "i \<in> set ipa_ioctls" and "j \<in> set ipa_ioctls" and "request dm i = request dm j"
  shows "i = j \<or> (i, j) \<in> set (request_aliases dm) \<or> (j, i) \<in> set (request_aliases dm)"
proof -
  have "ipa_command i = ipa_command j"
    using inj_onD [OF request_table_inj [OF ipa.request_table_axioms]] assms
      ipa_command_in ipa_command_request by metis
  then show ?thesis
    by (auto simp: ipa_command_eq doubleton_eq_iff request_aliases_def)
qed

lemma kgsl_alias:
  assumes "i \<in> set kgsl_ioctls" and "j \<in> set kgsl_ioctls" and "request dm i = request dm j"
  shows "i = j \<or> (i, j) \<in> set (request_aliases dm) \<or> (j, i) \<in> set (request_aliases dm)"
proof (cases dm)
  case ILP32
  then show ?thesis using assms kgsl_ilp32_inj by blast
next
  case LP64
  then have "canonical_request i = canonical_request j"
    using assms kgsl_lp64_requests by blast
  then show ?thesis
    using LP64 by (auto simp: canonical_request_def request_aliases_def split: if_splits)
qed

text \<open>Which requests have fields out of range.\<close>

lemma overlong_not_ok: "i \<in> set overlong_requests \<Longrightarrow> \<not> request_ok dm i"
proof -
  have "list_all (\<lambda>i. \<not> request_ok dm i) spcom_extended_ioctls" by (cases dm; hypsubst; code_simp)
  then show "i \<in> set overlong_requests \<Longrightarrow> \<not> request_ok dm i"
    using qrng_irregular [of dm] by (auto simp: list_all_iff overlong_requests_def)
qed

lemma others_ok:
  assumes "tbl \<in> set (driver_tables dm)" and "i \<in> set tbl" and "i \<notin> set overlong_requests"
  shows "request_ok dm i"
proof -
  have "requests_ok (cad_ioctls @ msmcal_hwdep_ioctls @ [IPA_IOC_NAT_DMA])" by code_simp
  then have "\<forall>i\<in>set (cad_ioctls @ msmcal_hwdep_ioctls @ [IPA_IOC_NAT_DMA]). request_ok dm i"
    using requests_okD by blast
  then show ?thesis
    using assms request_table.in_range [OF regular_request_table [of tbl dm] assms(2)]
      msm_audio.in_range [of i dm] ipa.in_range [of i dm] spcom.in_range [of i dm]
      requests_okD [OF kgsl_requests_ok, of i dm]
    by (auto simp: driver_tables_def overlong_requests_def ipa_ioctls_def)
qed

lemma same_request_alias:
  assumes "tbl \<in> set (driver_tables dm)" and "i \<in> set tbl" and "j \<in> set tbl"
    and "i \<notin> set overlong_requests" and "j \<notin> set overlong_requests" and "request dm i = request dm j"
  shows "i = j \<or> (i, j) \<in> set (request_aliases dm) \<or> (j, i) \<in> set (request_aliases dm)"
proof -
  have inj: "i = j" if "request_table tbl'" "i \<in> set tbl'" "j \<in> set tbl'" for tbl'
    using inj_onD [OF request_table_inj [OF that(1)] assms(6)] that(2,3) by blast
  consider "tbl \<in> set (regular_tables dm)" | "tbl = msm_audio_ioctls @ cad_ioctls"
    | "tbl = msmcal_hwdep_ioctls" | "tbl = ipa_ioctls" | "tbl = kgsl_ioctls"
    | "tbl = spcom_ioctls @ spcom_extended_ioctls" | "tbl = qrng_ioctls"
    using assms(1) by (auto simp: driver_tables_def)
  then show ?thesis
  proof cases
    case 1
    then show ?thesis using inj [OF regular_request_table] assms(2,3) by blast
  next
    case 2
    then show ?thesis using audio_alias assms(2,3,6) by blast
  next
    case 3
    then show ?thesis using msmcal_alias assms(2,3) by blast
  next
    case 4
    then show ?thesis using ipa_alias assms(2,3,6) by blast
  next
    case 5
    then show ?thesis using kgsl_alias assms(2,3,6) by blast
  next
    case 6
    then have "i \<in> set spcom_ioctls" "j \<in> set spcom_ioctls"
      using assms(2-5) by (simp_all add: overlong_requests_def)
    then show ?thesis using inj [OF spcom.request_table_axioms] by blast
  next
    case 7
    then show ?thesis using assms(2,4) by (simp add: overlong_requests_def)
  qed
qed

subsection \<open>Properties\<close>



end
